(* ===== verification/JsNumber.thy ===== *)
theory JsNumber
  imports Complex_Main "HOL-Library.Log_Nat"
begin

section \<open>JavaScript numbers\<close>

text \<open>
  The program computes money, quantities and weights with JavaScript numbers, that is with
  IEEE 754 binary64 values. A finite value is modelled by the rational number it denotes, and
  every arithmetic operation of the source is the exact rational operation followed by
  \<open>dbl\<close>, the rounding to the nearest binary64 value (ties to the even significand, gradual
  underflow down to the least subnormal). Results of magnitude \<open>2 ^ 1024\<close> or more, which the
  machine turns into an infinity, are outside the model. \<open>jsnum\<close> adds the infinities and NaN,
  for the places where the code tests an input with \<open>Number.isFinite\<close>.
\<close>

subsection \<open>Rounding to an integer, ties to even\<close>

definition rne :: "rat \<Rightarrow> int" where
  "rne x = (let f = \<lfloor>x\<rfloor>; d = x - of_int f in
     if d < 1 / 2 then f else if 1 / 2 < d then f + 1 else if even f then f else f + 1)"

lemma rne_of_int [simp]: "rne (of_int n) = n"
  by (simp add: rne_def)

lemma rne_error: "\<bar>of_int (rne x) - x\<bar> \<le> 1 / 2"
proof -
  have "of_int \<lfloor>x\<rfloor> \<le> x" "x < of_int \<lfloor>x\<rfloor> + 1" by linarith+
  then show ?thesis by (auto simp: rne_def Let_def)
qed

lemma rne_floor_cases: "rne x = \<lfloor>x\<rfloor> \<or> rne x = \<lfloor>x\<rfloor> + 1"
  by (simp add: rne_def Let_def)

lemma rne_mono: "x \<le> y \<Longrightarrow> rne x \<le> rne y"
proof -
  assume le: "x \<le> y"
  then have fl: "\<lfloor>x\<rfloor> \<le> \<lfloor>y\<rfloor>" by (rule floor_mono)
  show "rne x \<le> rne y"
  proof (cases "\<lfloor>x\<rfloor> = \<lfloor>y\<rfloor>")
    case True
    with le show ?thesis by (auto simp: rne_def Let_def)
  next
    case False
    with fl have "\<lfloor>x\<rfloor> + 1 \<le> \<lfloor>y\<rfloor>" by linarith
    with rne_floor_cases [of x] rne_floor_cases [of y] show ?thesis by linarith
  qed
qed

lemma rne_unique:
  assumes "\<bar>x - of_int n\<bar> < 1 / 2" shows "rne x = n"
proof -
  have "\<bar>of_int (rne x) - x\<bar> \<le> 1 / 2" by (rule rne_error)
  with assms have "\<bar>of_int (rne x) - of_int n :: rat\<bar> < 1" by linarith
  then have "\<bar>of_int (rne x - n) :: rat\<bar> < 1" by simp
  then show ?thesis by linarith
qed

lemma rne_minus: "rne (- x) = - rne x"
proof -
  consider "\<bar>of_int (rne x) - x\<bar> < 1 / 2" | "x - of_int \<lfloor>x\<rfloor> = 1 / 2"
  proof -
    have "of_int \<lfloor>x\<rfloor> \<le> x" "x < of_int \<lfloor>x\<rfloor> + 1" by linarith+
    then have "x - of_int \<lfloor>x\<rfloor> \<noteq> 1 / 2 \<Longrightarrow> \<bar>of_int (rne x) - x\<bar> < 1 / 2"
      by (auto simp: rne_def Let_def)
    with that show thesis by blast
  qed
  then show ?thesis
  proof cases
    case 1
    then show ?thesis by (intro rne_unique) auto
  next
    case 2
    then have x: "x = of_int \<lfloor>x\<rfloor> + 1 / 2" by simp
    have "\<lfloor>- x\<rfloor> = - \<lfloor>x\<rfloor> - 1" by (subst x) linarith
    with 2 show ?thesis by (auto simp: rne_def Let_def)
  qed
qed

subsection \<open>The binary exponent of a rational\<close>

definition ilog2 :: "rat \<Rightarrow> int" where
  "ilog2 x = (case quotient_of \<bar>x\<bar> of (p, q) \<Rightarrow>
     let d = bitlen p - bitlen q in if 2 powi d \<le> \<bar>x\<bar> then d else d - 1)"

lemma powi_add1: "(2::rat) powi (k + 1) = 2 * 2 powi k"
  by (simp add: power_int_add)

lemma powi_pos [simp]: "0 < (2::rat) powi k" and powi_ge0 [simp]: "0 \<le> (2::rat) powi k"
  by simp_all

lemma powi_mono_iff [simp]: "(2::rat) powi j \<le> 2 powi k \<longleftrightarrow> j \<le> k"
  by (metis linorder_not_le one_less_numeral_iff power_int_increasing power_int_strict_increasing
      order_less_imp_le numeral_One semiring_norm(76))

lemma powi_less_iff [simp]: "(2::rat) powi j < 2 powi k \<longleftrightarrow> j < k"
  by (meson linorder_not_le powi_mono_iff)

lemma of_int_powi: "0 \<le> k \<Longrightarrow> (of_int (2 ^ nat k) :: rat) = 2 powi k"
  by (simp add: power_int_def)

lemma bitlen_powi:
  assumes "0 < p"
  shows "(2::rat) powi (bitlen p - 1) \<le> of_int p" "(of_int p :: rat) < 2 powi bitlen p"
proof -
  have b: "0 \<le> bitlen p - 1" "0 \<le> bitlen p"
    using bitlen_eq_zero_iff [of p] bitlen_nonneg [of p] assms by linarith+
  have "(of_int (2 ^ nat (bitlen p - 1)) :: rat) \<le> of_int p"
    using bitlen_bounds [OF assms] by (simp only: of_int_le_iff)
  then show "(2::rat) powi (bitlen p - 1) \<le> of_int p" by (simp only: of_int_powi [OF b(1)])
  have "(of_int p :: rat) < of_int (2 ^ nat (bitlen p))"
    using bitlen_bounds [OF assms] by (simp only: of_int_less_iff)
  then show "(of_int p :: rat) < 2 powi bitlen p" by (simp only: of_int_powi [OF b(2)])
qed

lemma ilog2_bounds:
  assumes "x \<noteq> 0"
  shows "2 powi ilog2 x \<le> \<bar>x\<bar>" "\<bar>x\<bar> < 2 powi (ilog2 x + 1)"
proof -
  obtain p q where pq: "quotient_of \<bar>x\<bar> = (p, q)" by fastforce
  then have q: "0 < q" and x: "\<bar>x\<bar> = of_int p / of_int q"
    by (auto dest: quotient_of_denom_pos quotient_of_div)
  have "0 < \<bar>x\<bar>" using assms by simp
  with x q have p: "0 < p" by (simp add: zero_less_divide_iff)
  note P = bitlen_powi [OF p] and Q = bitlen_powi [OF q]
  define d where "d = bitlen p - bitlen q"
  have "2 powi (d - 1) * of_int q \<le> (2 powi (d - 1) * 2 powi bitlen q :: rat)"
    using Q by simp
  also have "\<dots> = 2 powi (bitlen p - 1)"
    by (simp add: d_def flip: power_int_add)
  also have "\<dots> \<le> of_int p" by (rule P)
  finally have lo: "2 powi (d - 1) \<le> \<bar>x\<bar>" using q by (simp add: x field_simps)
  have "of_int p < (2 powi bitlen p :: rat)" by (rule P)
  also have "\<dots> = 2 powi (d + 1) * 2 powi (bitlen q - 1)"
    by (simp add: d_def flip: power_int_add)
  also have "\<dots> \<le> 2 powi (d + 1) * of_int q" using Q by simp
  finally have hi: "\<bar>x\<bar> < 2 powi (d + 1)" using q by (simp add: x field_simps)
  have il: "ilog2 x = (if 2 powi d \<le> \<bar>x\<bar> then d else d - 1)"
    by (simp add: ilog2_def pq d_def Let_def)
  show "2 powi ilog2 x \<le> \<bar>x\<bar>" using lo by (simp add: il)
  show "\<bar>x\<bar> < 2 powi (ilog2 x + 1)" using hi by (auto simp: il)
qed

lemma ilog2_unique: "2 powi k \<le> \<bar>x\<bar> \<Longrightarrow> \<bar>x\<bar> < 2 powi (k + 1) \<Longrightarrow> ilog2 x = k"
proof -
  assume a: "2 powi k \<le> \<bar>x\<bar>" "\<bar>x\<bar> < 2 powi (k + 1)"
  then have "x \<noteq> 0" using powi_pos [of k] by (metis abs_zero linorder_not_le)
  note b = ilog2_bounds [OF this]
  have "(2::rat) powi k < 2 powi (ilog2 x + 1)" using a b by (meson order_le_less_trans)
  moreover have "(2::rat) powi ilog2 x < 2 powi (k + 1)" using a b by (meson order_le_less_trans)
  ultimately show ?thesis by simp
qed

lemma ilog2_mono: "x \<noteq> 0 \<Longrightarrow> \<bar>x\<bar> \<le> \<bar>y\<bar> \<Longrightarrow> ilog2 x \<le> ilog2 y"
proof -
  assume a: "x \<noteq> 0" "\<bar>x\<bar> \<le> \<bar>y\<bar>"
  then have "y \<noteq> 0" by auto
  have "(2::rat) powi ilog2 x < 2 powi (ilog2 y + 1)"
    using ilog2_bounds(1) [OF a(1)] ilog2_bounds(2) [OF \<open>y \<noteq> 0\<close>] a(2) by linarith
  then show ?thesis by simp
qed

subsection \<open>Rounding to binary64\<close>

definition ulp_exp :: "rat \<Rightarrow> int" where
  "ulp_exp x = max (ilog2 x - 52) (- 1074)"

definition dbl :: "rat \<Rightarrow> rat" where
  "dbl x = (if x = 0 then 0
     else let u = 2 powi ulp_exp x in of_int (rne (x / u)) * u)"

lemma dbl_0 [simp]: "dbl 0 = 0"
  by (simp add: dbl_def)

lemma ilog2_minus [simp]: "ilog2 (- x) = ilog2 x"
  by (simp add: ilog2_def)

lemma dbl_minus: "dbl (- x) = - dbl x"
  by (simp add: dbl_def ulp_exp_def rne_minus Let_def)

lemma dbl_error_ulp: "x \<noteq> 0 \<Longrightarrow> \<bar>dbl x - x\<bar> \<le> 2 powi ulp_exp x / 2"
proof -
  assume x: "x \<noteq> 0"
  define u :: rat where "u = 2 powi ulp_exp x"
  have u: "0 < u" by (simp add: u_def)
  have "dbl x - x = (of_int (rne (x / u)) - x / u) * u"
    using x u by (simp add: dbl_def u_def [symmetric] Let_def left_diff_distrib)
  then have "\<bar>dbl x - x\<bar> = \<bar>of_int (rne (x / u)) - x / u\<bar> * u"
    using u by (simp add: abs_mult)
  also have "\<dots> \<le> 1 / 2 * u"
    using rne_error [of "x / u"] u by (intro mult_right_mono) auto
  finally show ?thesis by (simp add: u_def)
qed

lemma ulp_exp_mono: "x \<noteq> 0 \<Longrightarrow> \<bar>x\<bar> \<le> \<bar>y\<bar> \<Longrightarrow> ulp_exp x \<le> ulp_exp y"
  using ilog2_mono [of x y] by (simp add: ulp_exp_def)

lemma ulp_exp_less:
  assumes "x \<noteq> 0" "\<bar>x\<bar> < 2 powi k" shows "ulp_exp x \<le> max (k - 53) (- 1074)"
proof -
  have "(2::rat) powi ilog2 x < 2 powi k" using ilog2_bounds(1) [OF assms(1)] assms(2) by linarith
  then show ?thesis by (simp add: ulp_exp_def)
qed

lemma dbl_error:
  assumes "\<bar>x\<bar> < 2 powi k" "- 1021 \<le> k"
  shows "\<bar>dbl x - x\<bar> \<le> 2 powi (k - 54)"
proof (cases "x = 0")
  case False
  have "ulp_exp x \<le> k - 53" using ulp_exp_less [OF False assms(1)] assms(2) by simp
  then have "(2::rat) powi ulp_exp x \<le> 2 powi (k - 53)" by simp
  also have "\<dots> = 2 * 2 powi (k - 54)" using powi_add1 [of "k - 54"] by simp
  finally show ?thesis using dbl_error_ulp [OF False] by linarith
qed simp

lemma dbl_grid:
  assumes "x = of_int n * 2 powi ulp_exp x" shows "dbl x = x"
proof (cases "x = 0")
  case False
  define u :: rat where "u = 2 powi ulp_exp x"
  have "u \<noteq> 0" by (simp add: u_def)
  with assms have "x / u = of_int n" by (simp add: u_def field_simps)
  with False assms show ?thesis by (simp add: dbl_def u_def Let_def)
qed simp

text \<open>A multiple of \<open>2 powi u\<close> with at most 53 significant bits is representable.\<close>

lemma dbl_exact:
  assumes x: "x = of_int m * 2 powi u" and m: "\<bar>m\<bar> \<le> 2 ^ 53" and u: "- 1074 \<le> u"
  shows "dbl x = x"
proof (cases "x = 0")
  case False
  have ax: "\<bar>x\<bar> = of_int \<bar>m\<bar> * 2 powi u" by (simp add: x abs_mult)
  show ?thesis
  proof (cases "\<bar>m\<bar> = 2 ^ 53")
    case True
    then have e: "\<bar>x\<bar> = 2 powi (u + 53)" by (simp add: ax power_int_add)
    then have "ilog2 x = u + 53" by (intro ilog2_unique) auto
    then have ue: "ulp_exp x = u + 1" using u by (simp add: ulp_exp_def)
    from True have "m = 2 * (sgn m * 2 ^ 52)" by (auto simp: abs_if sgn_if split: if_splits)
    then have "x = of_int (sgn m * 2 ^ 52) * 2 powi ulp_exp x"
      by (subst x) (simp add: ue power_int_add)
    then show ?thesis by (rule dbl_grid)
  next
    case False
    with m have "(of_int \<bar>m\<bar> :: rat) < of_int (2 ^ 53)" by (simp only: of_int_less_iff)
    then have "\<bar>x\<bar> < of_int (2 ^ 53) * 2 powi u"
      unfolding ax by (intro mult_strict_right_mono) auto
    then have lt: "\<bar>x\<bar> < 2 powi (u + 53)" by (simp add: power_int_add)
    have "(2::rat) powi ilog2 x < 2 powi (u + 53)"
      using ilog2_bounds(1) [OF \<open>x \<noteq> 0\<close>] lt by linarith
    then have "ilog2 x < u + 53" by simp
    then have le: "ulp_exp x \<le> u" using u by (simp add: ulp_exp_def)
    then have "(2::rat) powi u = of_int (2 ^ nat (u - ulp_exp x)) * 2 powi ulp_exp x"
      using of_int_powi [of "u - ulp_exp x"] by (simp flip: power_int_add)
    then have "x = of_int (m * 2 ^ nat (u - ulp_exp x)) * 2 powi ulp_exp x"
      by (subst x) simp
    then show ?thesis by (rule dbl_grid)
  qed
qed simp

lemma dbl_int: "\<bar>n\<bar> \<le> 2 ^ 53 \<Longrightarrow> dbl (of_int n) = of_int n"
  by (rule dbl_exact [where m = n and u = 0]) auto

lemma dbl_powi: "- 1074 \<le> k \<Longrightarrow> dbl (2 powi k) = 2 powi k"
  by (rule dbl_exact [where m = 1 and u = k]) auto

text \<open>Rounding is monotone: within a binade because \<open>rne\<close> is, across binades because the
  power of two between them is representable.\<close>

lemma dbl_scaled: "x \<noteq> 0 \<Longrightarrow> dbl x = of_int (rne (x / 2 powi ulp_exp x)) * 2 powi ulp_exp x"
  by (simp add: dbl_def Let_def)

lemma rne_nonneg: "0 \<le> x \<Longrightarrow> 0 \<le> rne x"
  using rne_mono [of 0 x] rne_of_int [of 0] by simp

lemma dbl_nonneg: "0 \<le> x \<Longrightarrow> 0 \<le> dbl x"
  by (cases "x = 0") (auto simp: dbl_scaled intro!: mult_nonneg_nonneg rne_nonneg)

lemma powi_quotient: "u \<le> k \<Longrightarrow> (2::rat) powi k / 2 powi u = of_int (2 ^ nat (k - u))"
  using of_int_powi [of "k - u"] by (simp add: power_int_diff)

lemma dbl_le_powi:
  assumes "0 < x" "x \<le> 2 powi k" "- 1074 \<le> k" shows "dbl x \<le> 2 powi k"
proof -
  define u where "u = ulp_exp x"
  have "u \<le> ulp_exp (2 powi k)" unfolding u_def using assms by (intro ulp_exp_mono) auto
  also have "\<dots> \<le> k"
  proof -
    have "ilog2 (2 powi k) = k" by (intro ilog2_unique) auto
    then show ?thesis using assms(3) by (simp add: ulp_exp_def)
  qed
  finally have uk: "u \<le> k" .
  have "x / 2 powi u \<le> 2 powi k / 2 powi u" using assms(2) by (intro divide_right_mono) auto
  also have "\<dots> = of_int (2 ^ nat (k - u))" by (rule powi_quotient [OF uk])
  finally have "rne (x / 2 powi u) \<le> 2 ^ nat (k - u)" by (metis rne_mono rne_of_int)
  then have "(of_int (rne (x / 2 powi u)) :: rat) \<le> of_int (2 ^ nat (k - u))" by (simp only: of_int_le_iff)
  also have "\<dots> = 2 powi k / 2 powi u" by (rule powi_quotient [OF uk, symmetric])
  finally show ?thesis using assms(1) by (simp add: dbl_scaled u_def field_simps)
qed

lemma powi_le_dbl:
  assumes "2 powi k \<le> x" "- 1074 \<le> k" shows "2 powi k \<le> dbl x"
proof -
  have x: "0 < x" using assms(1) powi_pos [of k] by linarith
  define u where "u = ulp_exp x"
  show ?thesis
  proof (cases "u \<le> k")
    case True
    have "of_int (2 ^ nat (k - u)) = (2 powi k / 2 powi u :: rat)"
      by (rule powi_quotient [OF True, symmetric])
    also have "\<dots> \<le> x / 2 powi u" using assms(1) by (intro divide_right_mono) auto
    finally have "2 ^ nat (k - u) \<le> rne (x / 2 powi u)" by (metis rne_mono rne_of_int)
    then have "(of_int (2 ^ nat (k - u)) :: rat) \<le> of_int (rne (x / 2 powi u))" by (simp only: of_int_le_iff)
    then have "2 powi k / 2 powi u \<le> (of_int (rne (x / 2 powi u)) :: rat)"
      by (simp only: powi_quotient [OF True])
    then show ?thesis using x by (simp add: dbl_scaled u_def field_simps)
  next
    case False
    then have "u = ilog2 x - 52" using assms(2) by (auto simp: u_def ulp_exp_def)
    with False have "(2::rat) powi (u + 52) \<le> x" using ilog2_bounds(1) [of x] x by simp
    then have "of_int (2 ^ 52) \<le> x / 2 powi u" by (simp add: field_simps power_int_add)
    then have "2 ^ 52 \<le> rne (x / 2 powi u)" by (metis rne_mono rne_of_int)
    then have "1 \<le> rne (x / 2 powi u)" by simp
    then have "(1::rat) \<le> of_int (rne (x / 2 powi u))" by simp
    then have "2 powi u \<le> dbl x" using x by (simp add: dbl_scaled u_def)
    moreover have "(2::rat) powi k \<le> 2 powi u" using False by simp
    ultimately show ?thesis by linarith
  qed
qed

lemma dbl_mono_pos:
  assumes "0 < x" "x \<le> y" shows "dbl x \<le> dbl y"
proof (cases "ulp_exp x = ulp_exp y")
  case True
  have "x / 2 powi ulp_exp y \<le> y / 2 powi ulp_exp y" using assms by (intro divide_right_mono) auto
  then have "rne (x / 2 powi ulp_exp y) \<le> rne (y / 2 powi ulp_exp y)" by (rule rne_mono)
  then show ?thesis using assms True by (simp add: dbl_scaled)
next
  case False
  have "ulp_exp x \<le> ulp_exp y" using assms by (intro ulp_exp_mono) auto
  with False have lt: "ulp_exp x < ulp_exp y" by simp
  define k where "k = ilog2 y"
  from lt have k: "ilog2 x < k" "- 1022 < k" by (auto simp: ulp_exp_def k_def)
  have "x \<le> 2 powi k"
  proof -
    have "x < 2 powi (ilog2 x + 1)" using ilog2_bounds(2) [of x] assms by simp
    also have "\<dots> \<le> 2 powi k" using k(1) by (simp only: powi_mono_iff)
    finally show ?thesis by simp
  qed
  then have "dbl x \<le> 2 powi k" using assms k by (intro dbl_le_powi) auto
  also have "\<dots> \<le> dbl y" using ilog2_bounds(1) [of y] assms k by (intro powi_le_dbl) (auto simp: k_def)
  finally show ?thesis .
qed

theorem dbl_mono: "x \<le> y \<Longrightarrow> dbl x \<le> dbl y"
proof -
  assume le: "x \<le> y"
  consider "0 < x" | "x \<le> 0" "0 \<le> y" | "y < 0" using le by linarith
  then show "dbl x \<le> dbl y"
  proof cases
    case 1
    then show ?thesis using le by (rule dbl_mono_pos)
  next
    case 2
    then have "0 \<le> dbl (- x)" "0 \<le> dbl y" by (auto intro: dbl_nonneg)
    then show ?thesis by (simp add: dbl_minus)
  next
    case 3
    then have "dbl (- y) \<le> dbl (- x)" using le by (intro dbl_mono_pos) auto
    then show ?thesis by (simp add: dbl_minus)
  qed
qed

lemma dbl_nonpos: "x \<le> 0 \<Longrightarrow> dbl x \<le> 0"
  using dbl_mono [of x 0] by simp

lemma dbl_idem [simp]: "dbl (dbl x) = dbl x"
proof (cases "x = 0")
  case False
  define u where "u = ulp_exp x"
  have "\<bar>x\<bar> < 2 powi (ilog2 x + 1)" by (rule ilog2_bounds(2) [OF False])
  also have "\<dots> \<le> 2 powi (u + 53)" by (simp add: u_def ulp_exp_def)
  finally have "\<bar>x / 2 powi u\<bar> \<le> of_int (2 ^ 53)" by (simp add: field_simps power_int_add)
  then have "x / 2 powi u \<le> of_int (2 ^ 53)" "of_int (- (2 ^ 53)) \<le> x / 2 powi u" by linarith+
  then have "rne (x / 2 powi u) \<le> 2 ^ 53" "- (2 ^ 53) \<le> rne (x / 2 powi u)"
    by (metis rne_mono rne_of_int)+
  then have "\<bar>rne (x / 2 powi u)\<bar> \<le> 2 ^ 53" by linarith
  then show ?thesis
    using False by (intro dbl_exact [where u = u]) (auto simp: dbl_scaled u_def ulp_exp_def)
qed simp

lemma dbl_pos_of_powi: "2 powi k \<le> x \<Longrightarrow> - 1074 \<le> k \<Longrightarrow> 0 < dbl x"
  using powi_le_dbl [of k x] powi_pos [of k] by linarith

subsection \<open>Numbers that may not be finite\<close>

datatype jsnum = Fin rat | PInf | NInf | NaN

fun is_finite :: "jsnum \<Rightarrow> bool" where
  "is_finite (Fin _) = True"
| "is_finite _ = False"

fun num_le0 :: "jsnum \<Rightarrow> bool" where
  "num_le0 (Fin x) = (x \<le> 0)"
| "num_le0 PInf = False"
| "num_le0 NInf = True"
| "num_le0 NaN = False"

fun num_lt0 :: "jsnum \<Rightarrow> bool" where
  "num_lt0 (Fin x) = (x < 0)"
| "num_lt0 PInf = False"
| "num_lt0 NInf = True"
| "num_lt0 NaN = False"

subsection \<open>Rounding functions of the library\<close>

text \<open>\<open>Math.round\<close> takes the nearest integer, ties upwards, of the exact value. \<open>toFixed(2)\<close>
  picks the integer \<open>n\<close> with \<open>n / 100\<close> nearest the exact value, the larger of two, on the
  magnitude; from \<open>10 ^ 21\<close> on it prints the number itself.\<close>

definition js_round :: "rat \<Rightarrow> int" where
  "js_round x = \<lfloor>x + 1 / 2\<rfloor>"

definition cents :: "int \<Rightarrow> rat" where
  "cents n = dbl (of_int n / 100)"

definition to_fixed2 :: "rat \<Rightarrow> rat" where
  "to_fixed2 x = (if 10 ^ 21 \<le> \<bar>x\<bar> then x
     else if x < 0 then - cents (js_round (- x * 100)) else cents (js_round (x * 100)))"

lemma js_round_mono: "x \<le> y \<Longrightarrow> js_round x \<le> js_round y"
  by (simp add: js_round_def floor_mono)

lemma js_round_of_int [simp]: "js_round (of_int n) = n"
  unfolding js_round_def by linarith

lemma js_round_0 [simp]: "js_round 0 = 0"
  using js_round_of_int [of 0] by simp

lemma js_round_near: "\<bar>x - of_int n\<bar> < 1 / 2 \<Longrightarrow> js_round x = n"
  unfolding js_round_def by linarith

lemma js_round_nonneg: "0 \<le> x \<Longrightarrow> 0 \<le> js_round x"
  using js_round_mono [of 0 x] by simp

lemma cents_0 [simp]: "cents 0 = 0"
  by (simp add: cents_def)

lemma cents_mono: "m \<le> n \<Longrightarrow> cents m \<le> cents n"
  by (auto simp: cents_def intro: dbl_mono divide_right_mono)

lemma cents_nonneg: "0 \<le> n \<Longrightarrow> 0 \<le> cents n"
  using cents_mono [of 0 n] by simp

lemma dbl_cents [simp]: "dbl (cents n) = cents n"
  by (simp add: cents_def)

text \<open>An amount of cents is within half an ulp of its decimal value.\<close>

lemma cents_error:
  assumes "\<bar>n\<bar> \<le> 2 ^ 46" shows "\<bar>cents n - of_int n / 100\<bar> \<le> 1 / 2 ^ 14"
proof -
  have "(of_int \<bar>n\<bar> :: rat) \<le> of_int (2 ^ 46)" using assms by (simp only: of_int_le_iff)
  then have "\<bar>of_int n / 100 :: rat\<bar> < 2 powi 40" by (simp add: power_int_def)
  then have "\<bar>cents n - of_int n / 100\<bar> \<le> 2 powi (40 - 54)"
    unfolding cents_def by (intro dbl_error) auto
  then show ?thesis by (simp add: power_int_def field_simps)
qed

lemma cents_bounds:
  assumes "\<bar>n\<bar> \<le> 2 ^ 46"
  shows "of_int n / 100 - 1 / 16384 \<le> cents n" "cents n \<le> of_int n / 100 + 1 / 16384"
proof -
  have "\<bar>cents n - of_int n / 100\<bar> \<le> 1 / 16384" using cents_error [OF assms] by simp
  then show "of_int n / 100 - 1 / 16384 \<le> cents n" "cents n \<le> of_int n / 100 + 1 / 16384"
    by linarith+
qed

lemma cents_strict_mono:
  assumes "m < n" "\<bar>m\<bar> \<le> 2 ^ 46" "\<bar>n\<bar> \<le> 2 ^ 46" shows "cents m < cents n"
proof -
  have "(of_int m :: rat) + 1 \<le> of_int n"
    using assms(1) by (metis of_int_1 of_int_add of_int_le_iff zless_imp_add1_zle)
  with cents_bounds(2) [OF assms(2)] cents_bounds(1) [OF assms(3)] show ?thesis by linarith
qed

lemma to_fixed2_cents: "0 \<le> x \<Longrightarrow> x < 10 ^ 21 \<Longrightarrow> to_fixed2 x = cents (js_round (x * 100))"
  by (simp add: to_fixed2_def)

lemma round_cents_near:
  assumes n: "\<bar>n\<bar> \<le> 2 ^ 46" and e: "\<bar>y - of_int n\<bar> \<le> 1 / 4"
  shows "js_round y = n"
  using e by (intro js_round_near) linarith

lemma to_fixed2_of_cents:
  assumes "0 \<le> n" "n \<le> 2 ^ 46" shows "to_fixed2 (cents n) = cents n"
proof -
  have "\<bar>n\<bar> \<le> 2 ^ 46" using assms by simp
  note b = cents_bounds [OF this]
  have "(of_int n :: rat) \<le> of_int (2 ^ 46)" using assms by (simp only: of_int_le_iff)
  with b(2) have "cents n < 10 ^ 21" by simp
  moreover have "js_round (cents n * 100) = n"
  proof (rule round_cents_near)
    have "cents n * 100 - of_int n \<le> 1 / 4" "of_int n - cents n * 100 \<le> 1 / 4" using b by linarith+
    then show "\<bar>cents n * 100 - of_int n\<bar> \<le> 1 / 4" by linarith
  qed (use assms in auto)
  ultimately show ?thesis using cents_nonneg [OF assms(1)] by (simp add: to_fixed2_cents)
qed

text \<open>\<open>toFixed(2)\<close> is odd and monotone; at the bound \<open>10 ^ 21\<close> both of its cases agree.\<close>

lemma to_fixed2_minus: "to_fixed2 (- x) = - to_fixed2 x"
  by (auto simp: to_fixed2_def)

lemma cents_minus: "cents (- n) = - cents n"
  by (simp add: cents_def dbl_minus)

lemma cents_limit: "cents (10 ^ 23) = 10 ^ 21"
proof -
  have "dbl (10 ^ 21) = 10 ^ 21" by (rule dbl_exact [where m = "5 ^ 21" and u = 21]) (simp_all add: power_int_def)
  then show ?thesis by (simp add: cents_def)
qed

lemma to_fixed2_nonneg: "0 \<le> x \<Longrightarrow> 0 \<le> to_fixed2 x"
  by (simp add: to_fixed2_def cents_nonneg js_round_nonneg)

lemma to_fixed2_mono_pos:
  assumes "0 \<le> x" "x \<le> y" shows "to_fixed2 x \<le> to_fixed2 y"
proof (cases "10 ^ 21 \<le> y")
  case True
  have "to_fixed2 x \<le> 10 ^ 21" if "x < 10 ^ 21"
  proof -
    have "js_round (x * 100) \<le> js_round (of_int (10 ^ 23))" using that by (intro js_round_mono) simp
    then have "cents (js_round (x * 100)) \<le> cents (10 ^ 23)" by (intro cents_mono) (simp only: js_round_of_int)
    also have "\<dots> = 10 ^ 21" by (rule cents_limit)
    finally show ?thesis using that assms(1) by (simp add: to_fixed2_def)
  qed
  then show ?thesis using True assms by (cases "x < 10 ^ 21") (simp_all add: to_fixed2_def)
next
  case False
  then show ?thesis using assms by (simp add: to_fixed2_def cents_mono js_round_mono)
qed

lemma to_fixed2_mono: "x \<le> y \<Longrightarrow> to_fixed2 x \<le> to_fixed2 y"
proof -
  assume le: "x \<le> y"
  consider "0 \<le> x" | "x \<le> 0" "0 \<le> y" | "y \<le> 0" using le by linarith
  then show ?thesis
  proof cases
    case 1
    then show ?thesis using le by (rule to_fixed2_mono_pos)
  next
    case 2
    then show ?thesis
      using to_fixed2_nonneg [of "- x"] to_fixed2_nonneg [of y] by (simp add: to_fixed2_minus)
  next
    case 3
    then show ?thesis
      using to_fixed2_mono_pos [of "- y" "- x"] le by (simp add: to_fixed2_minus)
  qed
qed

end
