(* ===== verification/Prelude.thy ===== *)
theory Prelude
  imports JsNumber
begin

section \<open>Shared vocabulary of the models\<close>

text \<open>
  What every component uses: the fallible results of the services (an HTTP exception or a
  value), the string operations of the JavaScript standard library the sources call, JSON
  values, stable sorting with a comparator, and sequences of requests against a state where a
  failed request changes nothing (every handler of the API runs in a transaction it rolls back
  on an exception). The collections \<open>result_simps\<close> and \<open>step_defs\<close> hold the facts
  component proofs unfold.
\<close>

named_theorems result_simps \<open>evaluation of fallible results\<close>
named_theorems step_defs \<open>definitions of the operations of a component\<close>

subsection \<open>Fallible results\<close>

datatype http_error =
    BadRequest string
  | Unauthorized string
  | Forbidden string
  | NotFound string
  | Conflict string
  | InternalError string

text \<open>An exception that is not an HTTP exception reaches the client as an internal error.\<close>

type_synonym 'a http = "http_error + 'a"

definition and_then :: "'e + 'a \<Rightarrow> ('a \<Rightarrow> 'e + 'b) \<Rightarrow> 'e + 'b" where
  "and_then r k = (case r of Inl e \<Rightarrow> Inl e | Inr a \<Rightarrow> k a)"

definition guard :: "bool \<Rightarrow> 'e \<Rightarrow> 'e + unit" where
  "guard ok e = (if ok then Inr () else Inl e)"

lemma and_then_simps [simp, result_simps]:
  "and_then (Inl e) k = Inl e" "and_then (Inr a) k = k a"
  by (simp_all add: and_then_def)

lemma guard_simps [simp, result_simps]:
  "guard True e = Inr ()" "guard False e = Inl e"
  by (simp_all add: guard_def)

lemma and_then_Inr [result_simps]: "and_then r k = Inr b \<longleftrightarrow> (\<exists>a. r = Inr a \<and> k a = Inr b)"
  by (cases r) auto

lemma and_then_Inl [result_simps]:
  "and_then r k = Inl e \<longleftrightarrow> r = Inl e \<or> (\<exists>a. r = Inr a \<and> k a = Inl e)"
  by (cases r) auto

lemma guard_Inr [simp, result_simps]: "guard ok e = Inr u \<longleftrightarrow> ok"
  by (simp add: guard_def)

lemma guard_Inl [simp, result_simps]: "guard ok e = Inl e' \<longleftrightarrow> \<not> ok \<and> e' = e"
  by (auto simp: guard_def)

subsection \<open>Strings\<close>

text \<open>
  A JavaScript string is a list of code units. The model's strings are lists of 8-bit
  characters, read as the code units below 256 (Latin-1), which holds every constant the
  sources compare with.
\<close>

definition code :: "char \<Rightarrow> nat" where
  "code c = of_char c"

definition js_space :: "char \<Rightarrow> bool" where
  "js_space c \<longleftrightarrow> code c \<in> {9, 10, 11, 12, 13, 32, 160}"

definition js_trim :: "string \<Rightarrow> string" where
  "js_trim s = rev (dropWhile js_space (rev (dropWhile js_space s)))"

text \<open>Upper case of the Latin-1 letters whose upper case is Latin-1; sharp s becomes SS.\<close>

definition upper_char :: "char \<Rightarrow> string" where
  "upper_char c = (let n = code c in
     if 97 \<le> n \<and> n \<le> 122 \<or> 224 \<le> n \<and> n \<le> 254 \<and> n \<noteq> 247 then [char_of (n - 32)]
     else if n = 223 then ''SS'' else [c])"

definition js_upper :: "string \<Rightarrow> string" where
  "js_upper s = concat (map upper_char s)"

definition js_lower :: "string \<Rightarrow> string" where
  "js_lower s = map (\<lambda>c. let n = code c in
     if 65 \<le> n \<and> n \<le> 90 \<or> 192 \<le> n \<and> n \<le> 222 \<and> n \<noteq> 215 then char_of (n + 32) else c) s"

definition is_digit :: "char \<Rightarrow> bool" where
  "is_digit c \<longleftrightarrow> 48 \<le> code c \<and> code c \<le> 57"

fun starts_with :: "string \<Rightarrow> string \<Rightarrow> bool" where
  "starts_with s [] = True"
| "starts_with [] (p # ps) = False"
| "starts_with (c # cs) (p # ps) = (c = p \<and> starts_with cs ps)"

fun index_of :: "string \<Rightarrow> string \<Rightarrow> nat option" where
  "index_of [] p = (if p = [] then Some 0 else None)"
| "index_of (c # cs) p = (if starts_with (c # cs) p then Some 0 else map_option Suc (index_of cs p))"

definition str_includes :: "string \<Rightarrow> string \<Rightarrow> bool" where
  "str_includes s p \<longleftrightarrow> index_of s p \<noteq> None"

definition hex_value :: "char \<Rightarrow> nat option" where
  "hex_value c = (let n = code c in
     if 48 \<le> n \<and> n \<le> 57 then Some (n - 48)
     else if 97 \<le> n \<and> n \<le> 102 then Some (n - 87)
     else if 65 \<le> n \<and> n \<le> 70 then Some (n - 55) else None)"

text \<open>\<open>/^[0-9a-f]{8}-[0-9a-f]{4}-[0-9a-f]{4}-[0-9a-f]{4}-[0-9a-f]{12}$/i\<close>\<close>

definition isUuid :: "string \<Rightarrow> bool" where
  "isUuid s \<longleftrightarrow> length s = 36 \<and>
     list_all (\<lambda>(i, c). if i \<in> {8, 13, 18, 23} then c = CHR ''-'' else hex_value c \<noteq> None) (zip [0..<36] s)"

text \<open>\<open>value?.trim() || undefined\<close> and its kin: an absent or blank text is no text.\<close>

definition trimmed :: "string option \<Rightarrow> string option" where
  "trimmed v = (case v of None \<Rightarrow> None | Some s \<Rightarrow> if js_trim s = [] then None else Some (js_trim s))"

text \<open>The truth value of an optional string: absent and empty are both false.\<close>

fun truthy :: "string option \<Rightarrow> bool" where
  "truthy None = False"
| "truthy (Some s) = (s \<noteq> [])"

text \<open>\<open>v ?? d\<close>\<close>

definition coalesce :: "'a option \<Rightarrow> 'a \<Rightarrow> 'a" where
  "coalesce v d = (case v of None \<Rightarrow> d | Some x \<Rightarrow> x)"

lemma coalesce_simps [simp]: "coalesce None d = d" "coalesce (Some x) d = x"
  by (simp_all add: coalesce_def)

lemma find_in: "find P xs = Some x \<Longrightarrow> x \<in> set xs \<and> P x"
  by (induction xs) (auto split: if_splits)

lemma starts_with_append: "starts_with s p \<longleftrightarrow> (\<exists>t. s = p @ t)"
  by (induction s p rule: starts_with.induct) auto

lemma index_of_Some:
  assumes "index_of s p = Some i" shows "i + length p \<le> length s" "s = take i s @ p @ drop (i + length p) s"
proof -
  have "i + length p \<le> length s \<and> s = take i s @ p @ drop (i + length p) s"
    using assms
    by (induction s p arbitrary: i rule: index_of.induct)
       (auto simp: starts_with_append split: if_splits dest: arg_cong [where f = length])
  then show "i + length p \<le> length s" "s = take i s @ p @ drop (i + length p) s" by simp_all
qed

lemma trimmed_nonempty: "trimmed v = Some s \<Longrightarrow> s \<noteq> []"
  by (auto simp: trimmed_def split: option.splits if_splits)

text \<open>The decimal digits of a natural number.\<close>

fun decimal :: "nat \<Rightarrow> string" where
  "decimal n = (if n < 10 then [char_of (48 + n)] else decimal (n div 10) @ [char_of (48 + n mod 10)])"

declare decimal.simps [simp del]

text \<open>An update of the first element that satisfies a predicate, as \<open>find\<close> and assignment do.\<close>

fun update_first :: "('a \<Rightarrow> bool) \<Rightarrow> ('a \<Rightarrow> 'a) \<Rightarrow> 'a list \<Rightarrow> 'a list" where
  "update_first P f [] = []"
| "update_first P f (x # xs) = (if P x then f x # xs else x # update_first P f xs)"

lemma update_first_map: "(\<And>x. g (f x) = g x) \<Longrightarrow> map g (update_first P f xs) = map g xs"
  by (induction xs) auto

lemma update_first_set: "x \<in> set (update_first P f xs) \<Longrightarrow> x \<in> set xs \<or> (\<exists>y\<in>set xs. P y \<and> x = f y)"
  by (induction xs) (auto split: if_splits)

lemma update_first_Nil [simp]: "update_first P f xs = [] \<longleftrightarrow> xs = []"
  by (cases xs) auto

text \<open>\<open>Array.from(new Set(xs))\<close> keeps the first occurrence of each element.\<close>

definition js_uniq :: "'a list \<Rightarrow> 'a list" where
  "js_uniq xs = rev (remdups (rev xs))"

lemma set_js_uniq [simp]: "set (js_uniq xs) = set xs"
  by (simp add: js_uniq_def)

lemma distinct_js_uniq [simp]: "distinct (js_uniq xs)"
  by (simp add: js_uniq_def)

subsection \<open>Tables\<close>

text \<open>A table is the list of its rows: the number of rows a condition selects, and an UPDATE.\<close>

definition count :: "('a \<Rightarrow> bool) \<Rightarrow> 'a list \<Rightarrow> nat" where
  "count P xs = length (filter P xs)"

definition update_where :: "('a \<Rightarrow> bool) \<Rightarrow> ('a \<Rightarrow> 'a) \<Rightarrow> 'a list \<Rightarrow> 'a list" where
  "update_where P f xs = map (\<lambda>x. if P x then f x else x) xs"

lemma set_update_where:
  "y \<in> set (update_where P f xs) \<longleftrightarrow> (\<exists>x\<in>set xs. y = (if P x then f x else x))"
  by (auto simp: update_where_def)

lemma map_update_where: "(\<And>x. k (f x) = k x) \<Longrightarrow> map k (update_where P f xs) = map k xs"
  by (auto simp: update_where_def)

lemma update_where_kept: "x \<in> set xs \<Longrightarrow> \<not> P x \<Longrightarrow> x \<in> set (update_where P f xs)"
  by (auto simp: set_update_where)

lemma update_where_none: "\<forall>x\<in>set xs. \<not> P x \<Longrightarrow> update_where P f xs = xs"
  by (induction xs) (auto simp: update_where_def)

lemma distinct_filter_update:
  assumes "distinct (map k (filter A xs))" "\<And>x. k (f x) = k x" "\<And>x. P x \<Longrightarrow> A (f x) \<Longrightarrow> A x"
  shows "distinct (map k (filter A (update_where P f xs)))"
  using assms(1)
proof (induction xs)
  case (Cons x xs)
  have sub: "k ` set (filter A (update_where P f xs)) \<subseteq> k ` set (filter A xs)"
    using assms(2,3) by (auto simp: set_update_where split: if_splits)
  have IH: "distinct (map k (filter A (update_where P f xs)))"
    using Cons by (auto split: if_splits)
  show ?case
  proof (cases "A (if P x then f x else x)")
    case True
    then have "A x" using assms(3) by (auto split: if_splits)
    with Cons.prems have "k x \<notin> k ` set (filter A xs)" by simp
    with sub have "k x \<notin> k ` set (filter A (update_where P f xs))" by blast
    with IH True show ?thesis by (simp add: update_where_def assms(2))
  next
    case False
    with IH show ?thesis by (simp add: update_where_def)
  qed
qed (simp add: update_where_def)

lemma count_pos: "count P xs \<noteq> 0 \<longleftrightarrow> (\<exists>x\<in>set xs. P x)"
  by (auto simp: count_def filter_empty_conv)

lemma count_one: "count P xs = 1 \<Longrightarrow> \<exists>x\<in>set xs. P x"
  using count_pos [of P xs] by simp

lemma count_le_one: "distinct (map k xs) \<Longrightarrow> (\<And>x. P x \<Longrightarrow> k x = i) \<Longrightarrow> count P xs \<le> 1"
proof (induction xs)
  case (Cons x xs)
  show ?case
  proof (cases "P x")
    case True
    with Cons.prems have "filter P xs = []" by (auto simp: filter_empty_conv)
    with True show ?thesis by (simp add: count_def)
  qed (use Cons in \<open>simp add: count_def\<close>)
qed (simp add: count_def)

lemma key_unique: "distinct (map k xs) \<Longrightarrow> x \<in> set xs \<Longrightarrow> y \<in> set xs \<Longrightarrow> k x = k y \<Longrightarrow> x = y"
  by (auto simp: distinct_map inj_on_def)

subsection \<open>The host\<close>

text \<open>
  Conversions whose result the host decides: \<open>Date.parse\<close> (milliseconds, or None for NaN),
  \<open>Date.prototype.toISOString\<close>, \<open>String.prototype.localeCompare\<close> and the hexadecimal
  SHA-256 digest of node:crypto. The models take them as a record; no theorem assumes more
  about them than it says.
\<close>

record host =
  date_parse :: "string \<Rightarrow> int option"
  iso_string :: "int \<Rightarrow> string"
  locale_compare :: "string \<Rightarrow> string \<Rightarrow> int"
  sha256_hex :: "string \<Rightarrow> string"

subsection \<open>JSON values\<close>

datatype json =
    JNull
  | JBool bool
  | JNum rat
  | JStr string
  | JArr "json list"
  | JObj "(string \<times> json) list"

fun obj_fields :: "json \<Rightarrow> (string \<times> json) list" where
  "obj_fields (JObj o') = o'"
| "obj_fields _ = []"

definition jfield :: "string \<Rightarrow> json \<Rightarrow> json option" where
  "jfield k v = map_of (obj_fields v) k"

fun is_JStr :: "json \<Rightarrow> bool" where "is_JStr (JStr _) = True" | "is_JStr _ = False"

fun is_JNum :: "json \<Rightarrow> bool" where "is_JNum (JNum _) = True" | "is_JNum _ = False"

text \<open>\<open>typeof v.k === "string"\<close> and \<open>typeof v.k === "number"\<close>\<close>

definition str_field :: "string \<Rightarrow> json \<Rightarrow> bool" where
  "str_field k v = (case jfield k v of None \<Rightarrow> False | Some x \<Rightarrow> is_JStr x)"

definition num_field :: "string \<Rightarrow> json \<Rightarrow> bool" where
  "num_field k v = (case jfield k v of None \<Rightarrow> False | Some x \<Rightarrow> is_JNum x)"

text \<open>\<open>{...a, ...b}\<close> and the jsonb operator \<open>a || b\<close>: the keys of \<open>b\<close> win.\<close>

definition obj_merge :: "(string \<times> json) list \<Rightarrow> (string \<times> json) list \<Rightarrow> (string \<times> json) list" where
  "obj_merge a b = filter (\<lambda>(k, _). k \<notin> fst ` set b) a @ b"

lemma map_of_filter_key: "map_of (filter (\<lambda>(k, _). P k) xs) k = (if P k then map_of xs k else None)"
  by (induction xs) auto

lemma map_of_obj_merge: "map_of (obj_merge a b) k = (map_of a ++ map_of b) k"
proof (cases "map_of b k")
  case None
  then have "k \<notin> fst ` set b" by (simp add: map_of_eq_None_iff)
  with None show ?thesis by (simp add: obj_merge_def map_add_def map_of_filter_key split: option.split)
next
  case (Some v)
  then have "k \<in> fst ` set b" by (force dest: map_of_SomeD)
  with Some show ?thesis by (simp add: obj_merge_def map_add_def map_of_filter_key)
qed

subsection \<open>Stable sorting with a comparator\<close>

text \<open>
  \<open>Array.prototype.sort\<close> is stable. For a consistent comparator its result is determined,
  so insertion sort, which keeps equal elements in their order, computes it.
\<close>

fun sort_insert :: "('a \<Rightarrow> 'a \<Rightarrow> rat) \<Rightarrow> 'a \<Rightarrow> 'a list \<Rightarrow> 'a list" where
  "sort_insert cmp x [] = [x]"
| "sort_insert cmp x (y # ys) = (if cmp x y \<le> 0 then x # y # ys else y # sort_insert cmp x ys)"

fun js_sort :: "('a \<Rightarrow> 'a \<Rightarrow> rat) \<Rightarrow> 'a list \<Rightarrow> 'a list" where
  "js_sort cmp [] = []"
| "js_sort cmp (x # xs) = sort_insert cmp x (js_sort cmp xs)"

lemma set_sort_insert [simp]: "set (sort_insert cmp x xs) = insert x (set xs)"
  by (induction xs) auto

lemma set_js_sort [simp]: "set (js_sort cmp xs) = set xs"
  by (induction xs) auto

lemma length_js_sort [simp]: "length (js_sort cmp xs) = length xs"
proof -
  have "length (sort_insert cmp x ys) = Suc (length ys)" for x ys
    by (induction ys) auto
  then show ?thesis by (induction xs) auto
qed

lemma js_sort_eq_Nil [simp]: "js_sort cmp xs = [] \<longleftrightarrow> xs = []"
  by (metis length_0_conv length_js_sort)

text \<open>
  \<open>below\<close> is a preorder the comparator refines: whenever the comparator puts \<open>x\<close> before
  \<open>y\<close>, \<open>below x y\<close> holds. A comparator whose last criterion is unknown (such as
  \<open>localeCompare\<close>) still sorts by the preorder of its other criteria.
\<close>

locale comparator =
  fixes cmp :: "'a \<Rightarrow> 'a \<Rightarrow> rat" and below :: "'a \<Rightarrow> 'a \<Rightarrow> bool"
  assumes before: "cmp x y \<le> 0 \<Longrightarrow> below x y"
    and after: "0 < cmp x y \<Longrightarrow> below y x"
    and below_trans: "below x y \<Longrightarrow> below y z \<Longrightarrow> below x z"
begin

lemma below_total: "below x y \<or> below y x"
  using before [of x y] after [of x y] by linarith

lemma sorted_sort_insert: "sorted_wrt below ys \<Longrightarrow> sorted_wrt below (sort_insert cmp x ys)"
proof (induction ys)
  case (Cons y ys)
  show ?case
  proof (cases "cmp x y \<le> 0")
    case True
    then have "below x y" by (rule before)
    with True Cons.prems show ?thesis by (auto intro: below_trans)
  next
    case False
    then have "below y x" by (intro after) simp
    with False Cons show ?thesis by auto
  qed
qed simp

lemma sorted_js_sort: "sorted_wrt below (js_sort cmp xs)"
  by (induction xs) (auto intro: sorted_sort_insert)

lemma head_least:
  assumes "js_sort cmp xs = y # ys" "x \<in> set xs" shows "below y x"
proof -
  have "x \<in> set (y # ys)" using assms set_js_sort [of cmp xs] by auto
  moreover have "sorted_wrt below (y # ys)" using sorted_js_sort [of xs] assms(1) by simp
  ultimately show ?thesis using below_total [of y y] by auto
qed

end

subsection \<open>Sequences of requests\<close>

text \<open>A request that fails leaves the state as it was; the next request starts from it.\<close>

fun attempts :: "('op \<Rightarrow> 's \<Rightarrow> 'e + 's) \<Rightarrow> 'op list \<Rightarrow> 's \<Rightarrow> 's" where
  "attempts step [] s = s"
| "attempts step (r # rs) s =
     attempts step rs (case step r s of Inl _ \<Rightarrow> s | Inr s' \<Rightarrow> s')"

text \<open>An invariant that every admissible request keeps holds after any number of them.\<close>

locale preserved_by =
  fixes ok :: "'op \<Rightarrow> bool" and step :: "'op \<Rightarrow> 's \<Rightarrow> 'e + 's" and inv :: "'s \<Rightarrow> bool"
  assumes ok_step_preserves: "ok r \<Longrightarrow> inv s \<Longrightarrow> step r s = Inr s' \<Longrightarrow> inv s'"
begin

lemma ok_attempts_preserve: "inv s \<Longrightarrow> \<forall>r\<in>set rs. ok r \<Longrightarrow> inv (attempts step rs s)"
  by (induction rs arbitrary: s) (auto split: sum.splits dest: ok_step_preserves)

end

locale preserved =
  fixes step :: "'op \<Rightarrow> 's \<Rightarrow> 'e + 's" and inv :: "'s \<Rightarrow> bool"
  assumes step_preserves: "inv s \<Longrightarrow> step r s = Inr s' \<Longrightarrow> inv s'"

sublocale preserved \<subseteq> any: preserved_by "\<lambda>_. True" step inv
  by unfold_locales (rule step_preserves)

context preserved
begin

lemma attempts_preserve: "inv s \<Longrightarrow> inv (attempts step rs s)"
  by (rule any.ok_attempts_preserve) auto

end

end
