(* ===== verification/Delivery_Status.thy ===== *)
theory Delivery_Status
  imports Prelude
begin

section \<open>Delivery statuses and their state machine\<close>

text \<open>
  \<open>api/src/modules/deliveries/deliveries.constants.ts\<close> (the operational statuses, the legacy
  ones a row stores, and the conversions between them) and
  \<open>services/delivery-state-machine.service.ts\<close> (the transition matrix and its guard).
\<close>

subsection \<open>Statuses\<close>

datatype DeliveryStatus =
    CREADO | EN_PREPARACION | DESPACHADO | ENTREGADO | NO_ENTREGADO | CANCELADO

datatype LegacyDeliveryStatus =
    L_DRAFT | L_CREATED | L_ASSIGNED | L_DISPATCHED | L_DELIVERED | L_NOT_DELIVERED | L_CANCELLED

datatype DeliveryAction = PREPARE | DISPATCH | MARK_DELIVERED | MARK_NOT_DELIVERED | CANCEL

definition DELIVERY_STATUSES :: "DeliveryStatus list" where
  "DELIVERY_STATUSES = [CREADO, EN_PREPARACION, DESPACHADO, ENTREGADO, NO_ENTREGADO, CANCELADO]"

definition LEGACY_DELIVERY_STATUSES :: "LegacyDeliveryStatus list" where
  "LEGACY_DELIVERY_STATUSES =
     [L_DRAFT, L_CREATED, L_ASSIGNED, L_DISPATCHED, L_DELIVERED, L_NOT_DELIVERED, L_CANCELLED]"

fun status_name :: "DeliveryStatus \<Rightarrow> string" where
  "status_name CREADO = ''CREADO''"
| "status_name EN_PREPARACION = ''EN_PREPARACION''"
| "status_name DESPACHADO = ''DESPACHADO''"
| "status_name ENTREGADO = ''ENTREGADO''"
| "status_name NO_ENTREGADO = ''NO_ENTREGADO''"
| "status_name CANCELADO = ''CANCELADO''"

fun legacy_name :: "LegacyDeliveryStatus \<Rightarrow> string" where
  "legacy_name L_DRAFT = ''DRAFT''"
| "legacy_name L_CREATED = ''CREATED''"
| "legacy_name L_ASSIGNED = ''ASSIGNED''"
| "legacy_name L_DISPATCHED = ''DISPATCHED''"
| "legacy_name L_DELIVERED = ''DELIVERED''"
| "legacy_name L_NOT_DELIVERED = ''NOT_DELIVERED''"
| "legacy_name L_CANCELLED = ''CANCELLED''"

fun action_name :: "DeliveryAction \<Rightarrow> string" where
  "action_name PREPARE = ''PREPARE''"
| "action_name DISPATCH = ''DISPATCH''"
| "action_name MARK_DELIVERED = ''MARK_DELIVERED''"
| "action_name MARK_NOT_DELIVERED = ''MARK_NOT_DELIVERED''"
| "action_name CANCEL = ''CANCEL''"

fun legacyToOperationalStatus :: "LegacyDeliveryStatus \<Rightarrow> DeliveryStatus" where
  "legacyToOperationalStatus L_DRAFT = CREADO"
| "legacyToOperationalStatus L_CREATED = CREADO"
| "legacyToOperationalStatus L_ASSIGNED = EN_PREPARACION"
| "legacyToOperationalStatus L_DISPATCHED = DESPACHADO"
| "legacyToOperationalStatus L_DELIVERED = ENTREGADO"
| "legacyToOperationalStatus L_NOT_DELIVERED = NO_ENTREGADO"
| "legacyToOperationalStatus L_CANCELLED = CANCELADO"

fun operationalToLegacyStatus :: "DeliveryStatus \<Rightarrow> LegacyDeliveryStatus" where
  "operationalToLegacyStatus CREADO = L_CREATED"
| "operationalToLegacyStatus EN_PREPARACION = L_ASSIGNED"
| "operationalToLegacyStatus DESPACHADO = L_DISPATCHED"
| "operationalToLegacyStatus ENTREGADO = L_DELIVERED"
| "operationalToLegacyStatus NO_ENTREGADO = L_NOT_DELIVERED"
| "operationalToLegacyStatus CANCELADO = L_CANCELLED"

definition normalizeDeliveryStatus :: "string \<Rightarrow> DeliveryStatus option" where
  "normalizeDeliveryStatus status =
     (let normalized = js_upper (js_trim status) in
      case find (\<lambda>st. status_name st = normalized) DELIVERY_STATUSES of
        Some st \<Rightarrow> Some st
      | None \<Rightarrow>
          (case find (\<lambda>st. legacy_name st = normalized) LEGACY_DELIVERY_STATUSES of
             Some l \<Rightarrow> Some (legacyToOperationalStatus l)
           | None \<Rightarrow> None))"

definition toStoredDeliveryStatus :: "DeliveryStatus \<Rightarrow> string" where
  "toStoredDeliveryStatus status = legacy_name (operationalToLegacyStatus status)"

definition getDeliveryStatusFilterValues :: "string \<Rightarrow> string list" where
  "getDeliveryStatusFilterValues status =
     (case normalizeDeliveryStatus status of
        None \<Rightarrow> []
      | Some st \<Rightarrow> [status_name st, toStoredDeliveryStatus st])"

subsection \<open>The state machine\<close>

definition DELIVERY_FINAL_STATUSES :: "DeliveryStatus list" where
  "DELIVERY_FINAL_STATUSES = [ENTREGADO, CANCELADO]"

fun transitionMatrix :: "DeliveryAction \<Rightarrow> DeliveryStatus \<Rightarrow> DeliveryStatus option" where
  "transitionMatrix PREPARE CREADO = Some EN_PREPARACION"
| "transitionMatrix DISPATCH CREADO = Some DESPACHADO"
| "transitionMatrix DISPATCH EN_PREPARACION = Some DESPACHADO"
| "transitionMatrix DISPATCH NO_ENTREGADO = Some DESPACHADO"
| "transitionMatrix MARK_DELIVERED DESPACHADO = Some ENTREGADO"
| "transitionMatrix MARK_NOT_DELIVERED DESPACHADO = Some NO_ENTREGADO"
| "transitionMatrix CANCEL CREADO = Some CANCELADO"
| "transitionMatrix CANCEL EN_PREPARACION = Some CANCELADO"
| "transitionMatrix _ _ = None"

definition isFinalStatus :: "string \<Rightarrow> bool" where
  "isFinalStatus status =
     (case normalizeDeliveryStatus status of
        Some st \<Rightarrow> st \<in> set DELIVERY_FINAL_STATUSES
      | None \<Rightarrow> False)"

definition assertKnownStatus :: "string \<Rightarrow> unit http" where
  "assertKnownStatus status =
     guard (normalizeDeliveryStatus status \<noteq> None)
       (BadRequest (''Estado de domicilio invalido: '' @ status))"

definition assertCanTransition ::
    "string \<Rightarrow> DeliveryStatus \<Rightarrow> DeliveryAction \<Rightarrow> bool \<Rightarrow> unit http" where
  "assertCanTransition currentStatus nextStatus action retryAllowed =
     and_then (assertKnownStatus currentStatus) (\<lambda>_.
     case normalizeDeliveryStatus currentStatus of
       None \<Rightarrow> Inl (BadRequest (''Estado de domicilio invalido: '' @ currentStatus))
     | Some cur \<Rightarrow>
         if isFinalStatus (status_name cur) then
           Inl (BadRequest (''El domicilio esta en estado final '' @ status_name cur))
         else if cur = NO_ENTREGADO \<and> action = DISPATCH \<and> \<not> retryAllowed then
           Inl (BadRequest ''Reintento de domicilio no permitido'')
         else if transitionMatrix action cur \<noteq> Some nextStatus then
           Inl (BadRequest (''Transicion invalida para '' @ action_name action @ '': '' @
             status_name cur @ '' -> '' @ status_name nextStatus))
         else Inr ())"

subsection \<open>Facts\<close>

lemma normalize_status_name [simp]: "normalizeDeliveryStatus (status_name st) = Some st"
  by (cases st; simp; code_simp)

lemma normalize_stored [simp]: "normalizeDeliveryStatus (toStoredDeliveryStatus st) = Some st"
  by (cases st; simp add: toStoredDeliveryStatus_def; code_simp)

lemma isFinalStatus_name [simp]: "isFinalStatus (status_name st) \<longleftrightarrow> st \<in> set DELIVERY_FINAL_STATUSES"
  by (simp add: isFinalStatus_def)

lemma assertCanTransition_ok:
  "assertCanTransition cur nxt action retry = Inr u \<longleftrightarrow>
     (\<exists>st. normalizeDeliveryStatus cur = Some st \<and> st \<notin> set DELIVERY_FINAL_STATUSES \<and>
        (st = NO_ENTREGADO \<and> action = DISPATCH \<longrightarrow> retry) \<and>
        transitionMatrix action st = Some nxt)"
  by (auto simp: assertCanTransition_def assertKnownStatus_def split: option.splits)

text \<open>The matrix never leaves a final status, so the guard on final statuses changes only the
  message of the error.\<close>

lemma transitionMatrix_final: "st \<in> set DELIVERY_FINAL_STATUSES \<Longrightarrow> transitionMatrix action st = None"
  by (cases action; cases st) (auto simp: DELIVERY_FINAL_STATUSES_def)

end
