(* ===== verification/Delivery_Service.thy ===== *)
theory Delivery_Service
  imports Delivery_Status
begin

section \<open>The delivery service\<close>

text \<open>
  \<open>api/src/modules/deliveries/deliveries.service.ts\<close>: the requests that change a delivery
  after its creation. The state is the part of the database they read and write: the tables of
  deliveries, status history, cash sessions, cash registers, drivers, users and payment methods,
  and what the schema probes of the service answer. A request is a function from the state to an
  HTTP exception (the transaction is rolled back) or the new state with the row it returns. Rows
  a query picks with \<open>rows[0]\<close> are found by \<open>find\<close>; the columns a request assigns are a
  function on the row, all assignments of one UPDATE reading the old row.
\<close>

subsection \<open>State\<close>

record actor =
  ac_tenantId :: "string option"
  ac_userId :: "string option"
  ac_roles :: "string list"
  ac_branchId :: "string option"
  ac_terminalId :: "string option"
  ac_cashSessionId :: "string option"

record delivery =
  dl_id :: string
  dl_tenant_id :: string
  dl_branch_id :: string
  dl_status :: string
  dl_customer_name :: "string option"
  dl_customer_phone :: "string option"
  dl_address :: string
  dl_reference :: "string option"
  dl_fee :: rat
  dl_subtotal :: rat
  dl_total :: rat
  dl_payment_method_id :: "string option"
  dl_assigned_courier_id :: "string option"
  dl_driver_id :: "string option"
  dl_cash_session_id :: "string option"
  dl_cash_register_id :: "string option"
  dl_terminal_id :: "string option"
  dl_cash_impact_amount :: "rat option"
  dl_cash_impact_recorded_at :: "int option"
  dl_notes :: "string option"
  dl_metadata :: "(string \<times> json) list"
  dl_updated_by :: "string option"
  dl_updated_at :: int
  dl_dispatched_at :: "int option"
  dl_cancelled_at :: "int option"
  dl_delivered_at :: "int option"
  dl_failed_at :: "int option"

record history_row =
  hs_delivery_id :: string
  hs_previous_status :: "string option"
  hs_new_status :: string
  hs_changed_by :: "string option"
  hs_reason :: "string option"
  hs_metadata :: "(string \<times> json) list"

record cash_session_row =
  cs_id :: string
  cs_tenant_id :: string
  cs_opened_by :: string
  cs_branch_id :: string
  cs_status :: string
  cs_opened_at :: int
  cs_register_id :: string

record cash_register_row =
  cr_id :: string
  cr_tenant_id :: string
  cr_terminal_id :: "string option"

record delivery_db =
  deliveries :: "delivery list"
  history :: "history_row list"
  cash_sessions :: "cash_session_row list"
  cash_registers :: "cash_register_row list"
  drivers :: "(string \<times> string \<times> bool) list"
  users :: "(string \<times> string \<times> string) list"
  payment_methods :: "(string \<times> string) list"
  has_driver_catalog :: bool
  has_cash_columns :: bool
  has_cash_tables :: bool

record cash_context =
  cc_session :: string
  cc_register :: string
  cc_terminal :: "string option"
  cc_amount :: rat
  cc_recorded_at :: int

subsection \<open>Normalisation of the payload\<close>

definition resolveTenantId :: "actor \<Rightarrow> string http" where
  "resolveTenantId a =
     (case trimmed (ac_tenantId a) of
        None \<Rightarrow> Inl (Unauthorized ''Tenant no encontrado en la sesion'')
      | Some t \<Rightarrow> Inr t)"

definition normalizeNullableText :: "string option \<Rightarrow> string option" where
  "normalizeNullableText v = trimmed v"

definition normalizeRequiredText :: "string \<Rightarrow> string \<Rightarrow> string http" where
  "normalizeRequiredText v message =
     (let normalized = js_trim v in
      if normalized = [] then Inl (BadRequest message) else Inr normalized)"

fun normalizeMetadata :: "json option \<Rightarrow> (string \<times> json) list http" where
  "normalizeMetadata None = Inr []"
| "normalizeMetadata (Some (JObj o')) = Inr o'"
| "normalizeMetadata (Some _) = Inl (BadRequest ''Metadata debe ser un objeto JSON'')"

fun normalizeAmount :: "jsnum \<Rightarrow> rat http" where
  "normalizeAmount (Fin amount) =
     (if amount < 0 then Inl (BadRequest ''Valores monetarios invalidos'') else Inr (to_fixed2 amount))"
| "normalizeAmount _ = Inl (BadRequest ''Valores monetarios invalidos'')"

subsection \<open>Queries and guards\<close>

definition findByIdForUpdate :: "string \<Rightarrow> string \<Rightarrow> delivery_db \<Rightarrow> delivery http" where
  "findByIdForUpdate i tenantId db =
     (case find (\<lambda>d. dl_id d = i \<and> dl_tenant_id d = tenantId) (deliveries db) of
        None \<Rightarrow> Inl (NotFound ''Domicilio no encontrado'')
      | Some d \<Rightarrow> Inr d)"

definition assertDeliveryBranchScope :: "delivery \<Rightarrow> actor \<Rightarrow> unit http" where
  "assertDeliveryBranchScope d a =
     (case trimmed (ac_branchId a) of
        None \<Rightarrow> Inr ()
      | Some b \<Rightarrow> guard (b = dl_branch_id d) (Forbidden ''No autorizado para esta sucursal''))"

definition assertUserScope :: "delivery_db \<Rightarrow> string \<Rightarrow> string option \<Rightarrow> unit http" where
  "assertUserScope db tenantId userId =
     (if \<not> truthy userId then Inr ()
      else guard (\<exists>(u, t, estado) \<in> set (users db).
             Some u = userId \<and> t = tenantId \<and> estado = ''ACTIVE'')
           (BadRequest ''Usuario invalido para el tenant''))"

definition assertPaymentMethodScope :: "delivery_db \<Rightarrow> string \<Rightarrow> string option \<Rightarrow> unit http" where
  "assertPaymentMethodScope db tenantId paymentMethodId =
     (if \<not> truthy paymentMethodId then Inr ()
      else guard (\<exists>(m, t) \<in> set (payment_methods db). Some m = paymentMethodId \<and> t = tenantId)
           (BadRequest ''Metodo de pago invalido para el tenant''))"

definition assertActiveDriverForAssignment :: "delivery_db \<Rightarrow> string \<Rightarrow> string \<Rightarrow> unit http" where
  "assertActiveDriverForAssignment db tenantId driverId =
     (case find (\<lambda>(i, t, _). i = driverId \<and> t = tenantId) (drivers db) of
        None \<Rightarrow> Inl (BadRequest ''Repartidor invalido para el tenant'')
      | Some (_, _, active) \<Rightarrow>
          guard active (BadRequest ''Repartidor inactivo no disponible''))"

definition hasDeliveryCashImpact :: "rat \<Rightarrow> string option \<Rightarrow> bool" where
  "hasDeliveryCashImpact fee paymentMethodId \<longleftrightarrow> 0 < fee \<or> truthy paymentMethodId"

definition session_matches ::
    "actor \<Rightarrow> string \<Rightarrow> string \<Rightarrow> cash_session_row \<Rightarrow> cash_register_row \<Rightarrow> bool" where
  "session_matches a tenantId branchId s r \<longleftrightarrow>
     cr_id r = cs_register_id s \<and> cr_tenant_id r = cs_tenant_id s \<and>
     cs_tenant_id s = tenantId \<and> Some (cs_opened_by s) = ac_userId a \<and>
     cs_branch_id s = branchId \<and> cs_status s = ''OPEN'' \<and>
     (truthy (ac_terminalId a) \<longrightarrow> cr_terminal_id r = ac_terminalId a) \<and>
     (truthy (ac_cashSessionId a) \<longrightarrow> Some (cs_id s) = ac_cashSessionId a)"

definition queryCurrentCashContext ::
    "int \<Rightarrow> string \<Rightarrow> string \<Rightarrow> actor \<Rightarrow> rat \<Rightarrow> delivery_db \<Rightarrow> cash_context option http" where
  "queryCurrentCashContext now tenantId branchId a amount db =
     (if \<not> truthy (ac_userId a) then Inl (Unauthorized ''Usuario no encontrado en la sesion'')
      else
        (let rows = [(s, r). s \<leftarrow> cash_sessions db, r \<leftarrow> cash_registers db,
                       session_matches a tenantId branchId s r];
             ordered = js_sort (\<lambda>x y. of_int (cs_opened_at (fst y) - cs_opened_at (fst x))) rows
         in case ordered of
              [] \<Rightarrow> Inr None
            | (s, r) # _ \<Rightarrow> Inr (Some \<lparr>cc_session = cs_id s, cc_register = cs_register_id s,
                 cc_terminal = cr_terminal_id r, cc_amount = amount, cc_recorded_at = now\<rparr>)))"

definition resolveRequiredCashContext ::
    "int \<Rightarrow> string \<Rightarrow> string \<Rightarrow> actor \<Rightarrow> rat \<Rightarrow> delivery_db \<Rightarrow> cash_context http" where
  "resolveRequiredCashContext now tenantId branchId a amount db =
     (if \<not> has_cash_columns db \<or> \<not> has_cash_tables db then
        Inl (BadRequest ''Migracion de caja para domicilios pendiente: ejecute V067__deliveries_current_cash_session.sql'')
      else
        and_then (queryCurrentCashContext now tenantId branchId a amount db) (\<lambda>ctx.
        case ctx of
          None \<Rightarrow> Inl (BadRequest ''Abre una caja antes de registrar domicilios con valor o metodo de pago'')
        | Some c \<Rightarrow> Inr c))"

definition appendCashAssignments :: "cash_context \<Rightarrow> delivery \<Rightarrow> delivery" where
  "appendCashAssignments c d = d\<lparr>dl_cash_session_id := Some (cc_session c),
     dl_cash_register_id := Some (cc_register c), dl_terminal_id := cc_terminal c,
     dl_cash_impact_amount := Some (cc_amount c), dl_cash_impact_recorded_at := Some (cc_recorded_at c)\<rparr>"

text \<open>The assignments the cash scope adds to a transition: none, or those of the open session.\<close>

definition enforceCashScopeForTransition ::
    "int \<Rightarrow> delivery \<Rightarrow> actor \<Rightarrow> delivery_db \<Rightarrow> (delivery \<Rightarrow> delivery) http" where
  "enforceCashScopeForTransition now d a db =
     (if \<not> hasDeliveryCashImpact (dl_fee d) (dl_payment_method_id d) then Inr id
      else
        and_then (resolveRequiredCashContext now (dl_tenant_id d) (dl_branch_id d) a (dl_fee d) db) (\<lambda>c.
        if truthy (dl_cash_session_id d) \<and> dl_cash_session_id d \<noteq> Some (cc_session c) then
          Inl (Forbidden ''El domicilio pertenece a otra sesion de caja'')
        else if \<not> truthy (dl_cash_session_id d) then Inr (appendCashAssignments c)
        else Inr id))"

subsection \<open>Writes\<close>

definition updateDelivery ::
    "string \<Rightarrow> string \<Rightarrow> (delivery \<Rightarrow> delivery) \<Rightarrow> delivery_db \<Rightarrow> delivery_db" where
  "updateDelivery i tenantId f db = db\<lparr>deliveries :=
     map (\<lambda>d. if dl_id d = i \<and> dl_tenant_id d = tenantId then f d else d) (deliveries db)\<rparr>"

definition insertHistory :: "history_row \<Rightarrow> delivery_db \<Rightarrow> delivery_db" where
  "insertHistory h db = db\<lparr>history := history db @ [h]\<rparr>"

definition buildHistoryMetadata ::
    "DeliveryAction \<Rightarrow> json option \<Rightarrow> string option \<Rightarrow> (string \<times> json) list \<Rightarrow> (string \<times> json) list http" where
  "buildHistoryMetadata action metadata notes extra =
     and_then (normalizeMetadata metadata) (\<lambda>m.
     Inr (obj_merge (obj_merge (obj_merge
            [(''action'', JStr (action_name action)), (''source'', JStr ''api'')] m)
            (if truthy notes then [(''notes'', JStr (the notes))] else [])) extra))"

record transition_options =
  to_action :: DeliveryAction
  to_nextStatus :: DeliveryStatus
  to_reason :: "string option"
  to_notes :: "string option"
  to_metadata :: "json option"
  to_extra :: "(string \<times> json) list"
  to_assign :: "delivery \<Rightarrow> delivery"

subsection \<open>Requests\<close>

text \<open>
  One request sees one instant \<open>now\<close>: the clock of the database and of the process.
  \<open>retry_allowed\<close> in the metadata of a delivery blocks a retry only when it is the
  boolean false.
\<close>

definition transition_columns ::
    "int \<Rightarrow> actor \<Rightarrow> string \<Rightarrow> string option \<Rightarrow> (string \<times> json) list option \<Rightarrow> delivery \<Rightarrow> delivery" where
  "transition_columns now a storedNextStatus notes metadata d =
     (let d1 = d\<lparr>dl_status := storedNextStatus, dl_updated_by := ac_userId a, dl_updated_at := now\<rparr>;
          d2 = (if notes \<noteq> None then d1\<lparr>dl_notes := notes\<rparr> else d1)
      in case metadata of None \<Rightarrow> d2 | Some m \<Rightarrow> d2\<lparr>dl_metadata := obj_merge (dl_metadata d) m\<rparr>)"

definition transitionDelivery ::
    "int \<Rightarrow> string \<Rightarrow> actor \<Rightarrow> transition_options \<Rightarrow> delivery_db \<Rightarrow> (delivery_db \<times> delivery) http" where
  "transitionDelivery now i a opts db =
     and_then (resolveTenantId a) (\<lambda>tenantId.
     let notes = normalizeNullableText (to_notes opts);
         reason = normalizeNullableText (to_reason opts) in
     and_then (normalizeMetadata (to_metadata opts)) (\<lambda>metadata.
     and_then (findByIdForUpdate i tenantId db) (\<lambda>current.
     and_then (assertDeliveryBranchScope current a) (\<lambda>_.
     let retryAllowed = (normalizeDeliveryStatus (dl_status current) \<noteq> Some NO_ENTREGADO \<or>
           map_of (dl_metadata current) ''retry_allowed'' \<noteq> Some (JBool False)) in
     and_then (assertCanTransition (dl_status current) (to_nextStatus opts) (to_action opts) retryAllowed) (\<lambda>_.
     let storedNextStatus = toStoredDeliveryStatus (to_nextStatus opts);
         columns = transition_columns now a storedNextStatus notes
           (map_option (\<lambda>_. metadata) (to_metadata opts)) in
     and_then (enforceCashScopeForTransition now current a db) (\<lambda>set_cash.
     let write = to_assign opts \<circ> set_cash \<circ> columns in
     and_then (buildHistoryMetadata (to_action opts) (to_metadata opts) notes (to_extra opts)) (\<lambda>hist.
     Inr (insertHistory \<lparr>hs_delivery_id = dl_id current, hs_previous_status = Some (dl_status current),
            hs_new_status = storedNextStatus, hs_changed_by = ac_userId a, hs_reason = reason,
            hs_metadata = hist\<rparr> (updateDelivery i tenantId write db),
          write current))))))))"

definition assign ::
    "int \<Rightarrow> string \<Rightarrow> string option \<Rightarrow> string option \<Rightarrow> json option \<Rightarrow> actor \<Rightarrow> delivery_db \<Rightarrow> (delivery_db \<times> delivery) http" where
  "assign now i courier notes metadata a db =
     and_then (resolveTenantId a) (\<lambda>tenantId.
     and_then (if truthy courier then assertUserScope db tenantId courier else Inr ()) (\<lambda>_.
     transitionDelivery now i a
       \<lparr>to_action = PREPARE, to_nextStatus = EN_PREPARACION, to_reason = None, to_notes = notes,
        to_metadata = metadata,
        to_extra = (if truthy courier then [(''assigned_courier_id'', JStr (the courier))] else []),
        to_assign = (\<lambda>d. if truthy courier then d\<lparr>dl_assigned_courier_id := courier\<rparr> else d)\<rparr> db))"

definition dispatch ::
    "int \<Rightarrow> string \<Rightarrow> string option \<Rightarrow> json option \<Rightarrow> actor \<Rightarrow> delivery_db \<Rightarrow> (delivery_db \<times> delivery) http" where
  "dispatch now i notes metadata a db = transitionDelivery now i a
     \<lparr>to_action = DISPATCH, to_nextStatus = DESPACHADO, to_reason = None, to_notes = notes,
      to_metadata = metadata, to_extra = [], to_assign = dl_dispatched_at_update (\<lambda>_. Some now)\<rparr> db"

definition markDelivered ::
    "host \<Rightarrow> int \<Rightarrow> string \<Rightarrow> string option \<Rightarrow> string option \<Rightarrow> string option \<Rightarrow> json option \<Rightarrow> actor \<Rightarrow>
     delivery_db \<Rightarrow> (delivery_db \<times> delivery) http" where
  "markDelivered h now i delivered_at received_by notes metadata a db =
     (case (if truthy delivered_at then date_parse h (the delivered_at) else Some now) of
        None \<Rightarrow> Inl (BadRequest ''delivered_at invalido'')
      | Some deliveredAt \<Rightarrow> transitionDelivery now i a
          \<lparr>to_action = MARK_DELIVERED, to_nextStatus = ENTREGADO, to_reason = None, to_notes = notes,
           to_metadata = metadata,
           to_extra = (if truthy received_by then [(''received_by'', JStr (the received_by))] else []) @
             [(''delivered_at'', JStr (iso_string h deliveredAt))],
           to_assign = dl_delivered_at_update (\<lambda>_. Some deliveredAt)\<rparr> db)"

definition markNotDelivered ::
    "int \<Rightarrow> string \<Rightarrow> string \<Rightarrow> string option \<Rightarrow> json option \<Rightarrow> actor \<Rightarrow> delivery_db \<Rightarrow> (delivery_db \<times> delivery) http" where
  "markNotDelivered now i reason0 notes metadata a db =
     and_then (normalizeRequiredText reason0 ''reason es requerido'') (\<lambda>reason.
     transitionDelivery now i a
       \<lparr>to_action = MARK_NOT_DELIVERED, to_nextStatus = NO_ENTREGADO, to_reason = Some reason,
        to_notes = notes, to_metadata = metadata, to_extra = [],
        to_assign = dl_failed_at_update (\<lambda>_. Some now)\<rparr> db)"

definition cancel ::
    "int \<Rightarrow> string \<Rightarrow> string \<Rightarrow> string option \<Rightarrow> json option \<Rightarrow> actor \<Rightarrow> delivery_db \<Rightarrow> (delivery_db \<times> delivery) http" where
  "cancel now i reason0 notes metadata a db =
     and_then (normalizeRequiredText reason0 ''reason es requerido'') (\<lambda>reason.
     transitionDelivery now i a
       \<lparr>to_action = CANCEL, to_nextStatus = CANCELADO, to_reason = Some reason,
        to_notes = notes, to_metadata = metadata, to_extra = [],
        to_assign = dl_cancelled_at_update (\<lambda>_. Some now)\<rparr> db)"

text \<open>\<open>driver_id\<close> may be absent (None), null (\<open>Some None\<close>) or an id.\<close>

definition assignDriver ::
    "int \<Rightarrow> string \<Rightarrow> string option option \<Rightarrow> actor \<Rightarrow> delivery_db \<Rightarrow> (delivery_db \<times> delivery) http" where
  "assignDriver now i payload a db =
     and_then (resolveTenantId a) (\<lambda>tenantId.
     if \<not> has_driver_catalog db then
       Inl (BadRequest ''Migracion de repartidores pendiente: ejecute V066__delivery_drivers.sql'')
     else case payload of
       None \<Rightarrow> Inl (BadRequest ''driver_id es requerido'')
     | Some driverId \<Rightarrow>
         and_then (findByIdForUpdate i tenantId db) (\<lambda>current.
         and_then (assertDeliveryBranchScope current a) (\<lambda>_.
         and_then (if truthy driverId then assertActiveDriverForAssignment db tenantId (the driverId)
                   else Inr ()) (\<lambda>_.
         let write = (\<lambda>d. d\<lparr>dl_driver_id := driverId, dl_updated_by := ac_userId a, dl_updated_at := now\<rparr>) in
         Inr (updateDelivery i tenantId write db, write current)))))"

text \<open>
  The payload of an update: a field that is absent is None. A nullable field that is present is
  \<open>Some None\<close> (null) or \<open>Some (Some v)\<close>.
\<close>

record update_payload =
  up_customer_name :: "string option option"
  up_customer_phone :: "string option option"
  up_address :: "string option"
  up_reference :: "string option option"
  up_fee :: "jsnum option"
  up_subtotal :: "jsnum option"
  up_total :: "jsnum option"
  up_payment_method :: "string option option"
  up_notes :: "string option option"
  up_metadata :: "json option"

text \<open>The assignment of a column whose field is present, after its normalisation.\<close>

definition assign_if :: "'a option \<Rightarrow> ('a \<Rightarrow> 'b http) \<Rightarrow> ('b \<Rightarrow> delivery \<Rightarrow> delivery) \<Rightarrow>
    (delivery \<Rightarrow> delivery) http" where
  "assign_if v canon put =
     (case v of None \<Rightarrow> Inr id | Some x \<Rightarrow> and_then (canon x) (\<lambda>y. Inr (put y)))"

definition editable_fields :: "update_payload \<Rightarrow> bool list" where
  "editable_fields p =
     [up_customer_name p \<noteq> None, up_customer_phone p \<noteq> None, up_address p \<noteq> None,
      up_reference p \<noteq> None, up_fee p \<noteq> None, up_subtotal p \<noteq> None, up_total p \<noteq> None,
      up_payment_method p \<noteq> None, up_notes p \<noteq> None, up_metadata p \<noteq> None]"

definition update_assignments :: "update_payload \<Rightarrow> (delivery \<Rightarrow> delivery) http" where
  "update_assignments p =
     and_then (assign_if (up_fee p) normalizeAmount (\<lambda>x. dl_fee_update (\<lambda>_. x))) (\<lambda>fee.
     and_then (assign_if (up_customer_name p) (Inr \<circ> normalizeNullableText)
       (\<lambda>x. dl_customer_name_update (\<lambda>_. x))) (\<lambda>name.
     and_then (assign_if (up_customer_phone p) (Inr \<circ> normalizeNullableText)
       (\<lambda>x. dl_customer_phone_update (\<lambda>_. x))) (\<lambda>phone.
     and_then (assign_if (up_address p)
       (\<lambda>v. normalizeRequiredText v ''delivery_address no puede estar vacio'')
       (\<lambda>x. dl_address_update (\<lambda>_. x))) (\<lambda>address.
     and_then (assign_if (up_reference p) (Inr \<circ> normalizeNullableText)
       (\<lambda>x. dl_reference_update (\<lambda>_. x))) (\<lambda>reference.
     and_then (assign_if (up_subtotal p) normalizeAmount (\<lambda>x. dl_subtotal_update (\<lambda>_. x))) (\<lambda>subtotal.
     and_then (assign_if (up_total p) normalizeAmount (\<lambda>x. dl_total_update (\<lambda>_. x))) (\<lambda>total.
     and_then (assign_if (up_payment_method p) Inr
       (\<lambda>x. dl_payment_method_id_update (\<lambda>_. x))) (\<lambda>payment.
     and_then (assign_if (up_notes p) (Inr \<circ> normalizeNullableText)
       (\<lambda>x. dl_notes_update (\<lambda>_. x))) (\<lambda>notes.
     and_then (assign_if (up_metadata p) (\<lambda>m. normalizeMetadata (Some m))
       (\<lambda>x. dl_metadata_update (\<lambda>_. x))) (\<lambda>metadata.
     Inr (metadata \<circ> notes \<circ> payment \<circ> total \<circ> subtotal \<circ> reference \<circ> address \<circ>
       phone \<circ> name \<circ> fee)))))))))))"

definition updateCashScope ::
    "int \<Rightarrow> delivery \<Rightarrow> rat \<Rightarrow> string option \<Rightarrow> actor \<Rightarrow> delivery_db \<Rightarrow> (delivery \<Rightarrow> delivery) http" where
  "updateCashScope now current fee paymentMethodId a db =
     (if hasDeliveryCashImpact fee paymentMethodId then
        and_then (resolveRequiredCashContext now (dl_tenant_id current) (dl_branch_id current) a fee db) (\<lambda>c.
        if truthy (dl_cash_session_id current) \<and> dl_cash_session_id current \<noteq> Some (cc_session c) then
          Inl (Forbidden ''El domicilio pertenece a otra sesion de caja'')
        else Inr (appendCashAssignments c))
      else Inr id)"

definition update ::
    "int \<Rightarrow> string \<Rightarrow> update_payload \<Rightarrow> actor \<Rightarrow> delivery_db \<Rightarrow> (delivery_db \<times> delivery) http" where
  "update now i p a db =
     and_then (resolveTenantId a) (\<lambda>tenantId.
     and_then (case up_payment_method p of None \<Rightarrow> Inr ()
               | Some m \<Rightarrow> assertPaymentMethodScope db tenantId m) (\<lambda>_.
     and_then (update_assignments p) (\<lambda>fields.
     if True \<notin> set (editable_fields p) then
       Inl (BadRequest ''No hay campos editables para actualizar'')
     else
     and_then (findByIdForUpdate i tenantId db) (\<lambda>current.
     and_then (assertDeliveryBranchScope current a) (\<lambda>_.
     let effective = fields current in
     and_then (updateCashScope now current (dl_fee effective) (dl_payment_method_id effective) a db) (\<lambda>set_cash.
     let write = (\<lambda>d. (set_cash (fields d))\<lparr>dl_updated_by := ac_userId a, dl_updated_at := now\<rparr>) in
     Inr (updateDelivery i tenantId write db, write current)))))))"

subsection \<open>The requests as one transition function\<close>

datatype request =
    Assign int string "string option" "string option" "json option" actor
  | Dispatch int string "string option" "json option" actor
  | MarkDelivered int string "string option" "string option" "string option" "json option" actor
  | MarkNotDelivered int string string "string option" "json option" actor
  | Cancel int string string "string option" "json option" actor
  | AssignDriver int string "string option option" actor
  | Update int string update_payload actor

fun handle :: "host \<Rightarrow> request \<Rightarrow> delivery_db \<Rightarrow> (delivery_db \<times> delivery) http" where
  "handle h (Assign now i courier notes m a) db = assign now i courier notes m a db"
| "handle h (Dispatch now i notes m a) db = dispatch now i notes m a db"
| "handle h (MarkDelivered now i on who notes m a) db = markDelivered h now i on who notes m a db"
| "handle h (MarkNotDelivered now i r notes m a) db = markNotDelivered now i r notes m a db"
| "handle h (Cancel now i r notes m a) db = cancel now i r notes m a db"
| "handle h (AssignDriver now i d a) db = assignDriver now i d a db"
| "handle h (Update now i p a) db = update now i p a db"

fun request_actor :: "request \<Rightarrow> actor" where
  "request_actor (Assign _ _ _ _ _ a) = a"
| "request_actor (Dispatch _ _ _ _ a) = a"
| "request_actor (MarkDelivered _ _ _ _ _ _ a) = a"
| "request_actor (MarkNotDelivered _ _ _ _ _ a) = a"
| "request_actor (Cancel _ _ _ _ _ a) = a"
| "request_actor (AssignDriver _ _ _ a) = a"
| "request_actor (Update _ _ _ a) = a"

definition serve :: "host \<Rightarrow> request \<Rightarrow> delivery_db \<Rightarrow> delivery_db http" where
  "serve h r db = and_then (handle h r db) (\<lambda>(db', _). Inr db')"

end
