(* ===== verification/Delivery_Facts.thy ===== *)
theory Delivery_Facts
  imports Delivery_Service
begin

section \<open>Facts about the delivery service\<close>

text \<open>
  Every successful request rewrites the rows with one key and appends at most one history row
  (\<open>serve_effect\<close>). From this one fact follow the invariants of the service over any sequence
  of requests, through the locale \<open>preserved\<close>: final statuses absorb, a cash session once
  recorded stays, and the history of every delivery is a path of the state machine that ends in
  the stored status.
\<close>

subsection \<open>The effect of one request\<close>

definition status_edge :: "string \<Rightarrow> string \<Rightarrow> bool" where
  "status_edge s s' \<longleftrightarrow>
     (case normalizeDeliveryStatus s of
        None \<Rightarrow> False
      | Some st \<Rightarrow> Some s' \<in> set (map (\<lambda>action. map_option toStoredDeliveryStatus (transitionMatrix action st))
          [PREPARE, DISPATCH, MARK_DELIVERED, MARK_NOT_DELIVERED, CANCEL]))"

definition keeps_identity :: "(delivery \<Rightarrow> delivery) \<Rightarrow> bool" where
  "keeps_identity f \<longleftrightarrow> (\<forall>d. dl_id (f d) = dl_id d \<and> dl_tenant_id (f d) = dl_tenant_id d \<and>
     dl_branch_id (f d) = dl_branch_id d)"

definition keeps_state :: "(delivery \<Rightarrow> delivery) \<Rightarrow> bool" where
  "keeps_state f \<longleftrightarrow> keeps_identity f \<and> (\<forall>d. dl_status (f d) = dl_status d \<and>
     dl_cash_session_id (f d) = dl_cash_session_id d)"

definition keeps_session :: "delivery \<Rightarrow> (delivery \<Rightarrow> delivery) \<Rightarrow> bool" where
  "keeps_session cur f \<longleftrightarrow>
     (truthy (dl_cash_session_id cur) \<longrightarrow> dl_cash_session_id (f cur) = dl_cash_session_id cur)"

text \<open>What one request does to the database: the shape all of them share.\<close>

definition row_write :: "delivery_db \<Rightarrow> string \<Rightarrow> string \<Rightarrow> delivery \<Rightarrow> (delivery \<Rightarrow> delivery) \<Rightarrow>
    history_row list \<Rightarrow> delivery_db \<Rightarrow> bool" where
  "row_write db i t cur f new db' \<longleftrightarrow>
     find (\<lambda>d. dl_id d = i \<and> dl_tenant_id d = t) (deliveries db) = Some cur \<and>
     keeps_identity f \<and> keeps_session cur f \<and>
     db' = (updateDelivery i t f db)\<lparr>history := history db @ new\<rparr> \<and>
     (new = [] \<and> (\<forall>d. dl_status (f d) = dl_status d) \<or>
      (\<exists>h. new = [h] \<and> hs_delivery_id h = i \<and> hs_previous_status h = Some (dl_status cur) \<and>
         status_edge (dl_status cur) (hs_new_status h) \<and>
         dl_status (f cur) = hs_new_status h))"

lemma findByIdForUpdate_Inr [simp]:
  "findByIdForUpdate i t db = Inr d \<longleftrightarrow>
     find (\<lambda>d. dl_id d = i \<and> dl_tenant_id d = t) (deliveries db) = Some d"
  by (simp add: findByIdForUpdate_def split: option.splits)

lemma find_key:
  "find (\<lambda>d. dl_id d = i \<and> dl_tenant_id d = t) xs = Some d \<Longrightarrow> dl_id d = i \<and> dl_tenant_id d = t \<and> d \<in> set xs"
  by (auto simp: find_Some_iff)

lemma enforceCashScope_Inr:
  assumes "enforceCashScopeForTransition now d a db = Inr f"
  shows "keeps_identity f" "keeps_session d f" "\<And>x. dl_status (f x) = dl_status x"
    "truthy (dl_cash_session_id d) \<Longrightarrow> f = id"
  using assms
  by (auto simp: enforceCashScopeForTransition_def appendCashAssignments_def keeps_identity_def
      keeps_session_def and_then_Inr split: if_splits)

lemma status_edge_iff:
  "status_edge s s' \<longleftrightarrow> (\<exists>action st st'. normalizeDeliveryStatus s = Some st \<and>
     transitionMatrix action st = Some st' \<and> s' = toStoredDeliveryStatus st')"
proof -
  have all: "set [PREPARE, DISPATCH, MARK_DELIVERED, MARK_NOT_DELIVERED, CANCEL] = UNIV"
    using DeliveryAction.exhaust by auto
  show ?thesis
    unfolding status_edge_def set_map all by (auto split: option.splits simp: image_iff) (metis map_option_eq_Some option.simps(9))+
qed

lemma assertCanTransition_edge:
  "assertCanTransition s nxt action retry = Inr u \<Longrightarrow> status_edge s (toStoredDeliveryStatus nxt)"
  by (auto simp: assertCanTransition_ok status_edge_iff)

lemma transition_effect:
  assumes "transitionDelivery now i a opts db = Inr (db', d')" and "keeps_state (to_assign opts)"
  shows "\<exists>t cur f h. resolveTenantId a = Inr t \<and> row_write db i t cur f [h] db' \<and> d' = f cur \<and>
     hs_new_status h = toStoredDeliveryStatus (to_nextStatus opts)"
proof -
  define nxt where "nxt = toStoredDeliveryStatus (to_nextStatus opts)"
  define g where "g = (\<lambda>m. transition_columns now a nxt (normalizeNullableText (to_notes opts))
    (map_option (\<lambda>_. m) (to_metadata opts)))"
  have g: "dl_id (g m d) = dl_id d" "dl_tenant_id (g m d) = dl_tenant_id d" "dl_branch_id (g m d) = dl_branch_id d"
    "dl_status (g m d) = nxt" "dl_cash_session_id (g m d) = dl_cash_session_id d" for m d
    by (simp_all add: g_def transition_columns_def Let_def split: option.split)
  from assms(1) obtain t cur u cash hist m where
    t: "resolveTenantId a = Inr t" and
    cur: "find (\<lambda>d. dl_id d = i \<and> dl_tenant_id d = t) (deliveries db) = Some cur" and
    tr: "assertCanTransition (dl_status cur) (to_nextStatus opts) (to_action opts) u = Inr ()" and
    cash: "enforceCashScopeForTransition now cur a db = Inr cash" and
    db': "db' = insertHistory \<lparr>hs_delivery_id = dl_id cur, hs_previous_status = Some (dl_status cur),
        hs_new_status = nxt, hs_changed_by = ac_userId a,
        hs_reason = normalizeNullableText (to_reason opts), hs_metadata = hist\<rparr>
        (updateDelivery i t (to_assign opts \<circ> cash \<circ> g m) db)" and
    d': "d' = (to_assign opts \<circ> cash \<circ> g m) cur"
    by (auto simp: transitionDelivery_def and_then_Inr Let_def nxt_def g_def)
  define f where "f = to_assign opts \<circ> cash \<circ> g m"
  note c = enforceCashScope_Inr [OF cash]
  have id: "keeps_identity f"
    using assms(2) c(1) by (auto simp: f_def keeps_identity_def keeps_state_def g)
  have st: "dl_status (f d) = nxt" for d
    using assms(2) c(3) by (simp add: f_def keeps_state_def g)
  have ses: "keeps_session cur f"
    using assms(2) c(4) by (auto simp: keeps_session_def f_def keeps_state_def g)
  have "row_write db i t cur f [\<lparr>hs_delivery_id = dl_id cur, hs_previous_status = Some (dl_status cur),
        hs_new_status = nxt, hs_changed_by = ac_userId a,
        hs_reason = normalizeNullableText (to_reason opts), hs_metadata = hist\<rparr>] db'"
    using cur id ses st assertCanTransition_edge [OF tr] find_key [OF cur]
    by (simp add: row_write_def db' insertHistory_def updateDelivery_def f_def nxt_def)
  then show ?thesis using t d' by (force simp: f_def nxt_def)
qed

lemma keeps_state_assign:
  "keeps_state (\<lambda>d. if b then d\<lparr>dl_assigned_courier_id := v\<rparr> else d)"
  "keeps_state (dl_dispatched_at_update x)" "keeps_state (dl_delivered_at_update x)"
  "keeps_state (dl_failed_at_update x)" "keeps_state (dl_cancelled_at_update x)"
  by (simp_all add: keeps_state_def keeps_identity_def)

lemma assign_if_keeps:
  "assign_if v canon put = Inr f \<Longrightarrow> (\<And>x. keeps_state (put x)) \<Longrightarrow> keeps_state f"
  by (auto simp: assign_if_def and_then_Inr keeps_state_def keeps_identity_def split: option.splits)

lemma keeps_state_comp: "keeps_state f \<Longrightarrow> keeps_state g \<Longrightarrow> keeps_state (f \<circ> g)"
  by (simp add: keeps_state_def keeps_identity_def)

lemma keeps_state_put:
  "keeps_state (dl_fee_update r)" "keeps_state (dl_customer_name_update o1)"
  "keeps_state (dl_customer_phone_update o1)" "keeps_state (dl_address_update s)"
  "keeps_state (dl_reference_update o1)" "keeps_state (dl_subtotal_update r)"
  "keeps_state (dl_total_update r)" "keeps_state (dl_payment_method_id_update o1)"
  "keeps_state (dl_notes_update o1)" "keeps_state (dl_metadata_update m)"
  by (simp_all add: keeps_state_def keeps_identity_def)

lemma update_assignments_keeps: "update_assignments p = Inr f \<Longrightarrow> keeps_state f"
  by (auto simp: update_assignments_def and_then_Inr intro!: keeps_state_comp;
      erule assign_if_keeps, rule keeps_state_put)

lemma transition_serves:
  assumes "transitionDelivery now i a opts db = Inr r" and "keeps_state (to_assign opts)"
  shows "\<exists>t cur f new. resolveTenantId a = Inr t \<and> row_write db i t cur f new (fst r)"
  using transition_effect [of now i a opts db "fst r" "snd r"] assms by force

lemma assignDriver_serves:
  "assignDriver now i p a db = Inr r \<Longrightarrow>
     \<exists>t cur f new. resolveTenantId a = Inr t \<and> row_write db i t cur f new (fst r)"
proof -
  assume "assignDriver now i p a db = Inr r"
  then obtain t cur v where t: "resolveTenantId a = Inr t" and
    "find (\<lambda>d. dl_id d = i \<and> dl_tenant_id d = t) (deliveries db) = Some cur"
    "fst r = updateDelivery i t (\<lambda>d. d\<lparr>dl_driver_id := v, dl_updated_by := ac_userId a, dl_updated_at := now\<rparr>) db"
    by (cases p) (auto simp: assignDriver_def and_then_Inr split: if_splits)
  then have "row_write db i t cur
      (\<lambda>d. d\<lparr>dl_driver_id := v, dl_updated_by := ac_userId a, dl_updated_at := now\<rparr>) [] (fst r)"
    by (simp add: row_write_def keeps_identity_def keeps_session_def updateDelivery_def)
  with t show ?thesis by blast
qed

lemma updateCashScope_Inr:
  "updateCashScope now cur fee m a db = Inr cash \<Longrightarrow> cash = id \<or> (\<exists>c. cash = appendCashAssignments c \<and>
      (truthy (dl_cash_session_id cur) \<longrightarrow> dl_cash_session_id cur = Some (cc_session c)))"
  by (auto simp: updateCashScope_def and_then_Inr split: if_splits)

lemma update_serves:
  "update now i p a db = Inr r \<Longrightarrow>
     \<exists>t cur f new. resolveTenantId a = Inr t \<and> row_write db i t cur f new (fst r)"
proof -
  assume "update now i p a db = Inr r"
  then obtain t fields cur cash where t: "resolveTenantId a = Inr t" and
    fields: "update_assignments p = Inr fields" and
    cur: "find (\<lambda>d. dl_id d = i \<and> dl_tenant_id d = t) (deliveries db) = Some cur" and
    scope: "updateCashScope now cur (dl_fee (fields cur)) (dl_payment_method_id (fields cur)) a db = Inr cash" and
    r: "fst r = updateDelivery i t
      (\<lambda>d. (cash (fields d))\<lparr>dl_updated_by := ac_userId a, dl_updated_at := now\<rparr>) db"
    by (auto simp: update_def and_then_Inr Let_def split: if_splits)
  note cash = updateCashScope_Inr [OF scope]
  note k = update_assignments_keeps [OF fields]
  have "row_write db i t cur
      (\<lambda>d. (cash (fields d))\<lparr>dl_updated_by := ac_userId a, dl_updated_at := now\<rparr>) [] (fst r)"
    using cur cash k
    by (auto simp: row_write_def r updateDelivery_def keeps_identity_def keeps_state_def
        keeps_session_def appendCashAssignments_def)
  with t show ?thesis by blast
qed

lemma handle_serves: "handle h req db = Inr r \<Longrightarrow>
     \<exists>i t cur f new. resolveTenantId (request_actor req) = Inr t \<and> row_write db i t cur f new (fst r)"
  by (cases req;
      auto simp: assign_def dispatch_def markDelivered_def markNotDelivered_def cancel_def and_then_Inr
       keeps_state_assign split: option.splits
       dest!: transition_serves assignDriver_serves update_serves; blast)

theorem serve_effect: "serve h req db = Inr db' \<Longrightarrow>
     \<exists>i t cur f new. resolveTenantId (request_actor req) = Inr t \<and> row_write db i t cur f new db'"
  by (auto simp: serve_def and_then_Inr dest!: handle_serves; blast)

subsection \<open>Rows under a key\<close>

definition keys_unique :: "delivery_db \<Rightarrow> bool" where
  "keys_unique db \<longleftrightarrow> distinct (map dl_id (deliveries db))"

definition row :: "delivery_db \<Rightarrow> string \<Rightarrow> delivery option" where
  "row db i = find (\<lambda>d. dl_id d = i) (deliveries db)"

lemma find_map_key: "(\<And>d. dl_id (g d) = dl_id d) \<Longrightarrow>
    find (\<lambda>d. dl_id d = i) (map g xs) = map_option g (find (\<lambda>d. dl_id d = i) xs)"
  by (induction xs) auto

lemma find_SomeD: "find P xs = Some x \<Longrightarrow> P x \<and> x \<in> set xs"
  by (auto simp: find_Some_iff)

lemma find_unique_key: "distinct (map dl_id xs) \<Longrightarrow> find (\<lambda>d. dl_id d = i \<and> Q d) xs = Some cur \<Longrightarrow>
    find (\<lambda>d. dl_id d = i) xs = Some cur"
proof (induction xs)
  case (Cons x xs)
  show ?case
  proof (cases "dl_id x = i \<and> \<not> Q x")
    case True
    with Cons.prems have "find (\<lambda>d. dl_id d = i \<and> Q d) xs = Some cur" by simp
    then have "dl_id cur = i" "cur \<in> set xs" by (auto dest: find_SomeD)
    with True have "dl_id x \<in> dl_id ` set xs" by (metis image_eqI)
    with Cons.prems(1) show ?thesis by simp
  next
    case False
    with Cons show ?thesis by (auto split: if_splits)
  qed
qed simp

lemma row_write_key:
  assumes "row_write db i t cur f new db'" "keys_unique db"
  shows "row db i = Some cur" "keys_unique db'"
    "row db' j = (if j = i then Some (f cur) else row db j)"
proof -
  define g where "g d = (if dl_id d = i \<and> dl_tenant_id d = t then f d else d)" for d
  have cur: "find (\<lambda>d. dl_id d = i \<and> dl_tenant_id d = t) (deliveries db) = Some cur"
    and f: "keeps_identity f" and db': "deliveries db' = map g (deliveries db)"
    using assms(1) by (auto simp: row_write_def updateDelivery_def g_def)
  have g: "dl_id (g d) = dl_id d" for d using f by (simp add: g_def keeps_identity_def)
  show r: "row db i = Some cur"
    using find_unique_key [OF _ cur] assms(2) by (simp add: row_def keys_unique_def)
  have "map dl_id (deliveries db') = map dl_id (deliveries db)" by (simp add: db' g)
  with assms(2) show "keys_unique db'" by (simp add: keys_unique_def)
  have m: "row db' j = map_option g (row db j)"
    unfolding row_def db' by (rule find_map_key) (rule g)
  show "row db' j = (if j = i then Some (f cur) else row db j)"
  proof (cases "j = i")
    case True
    then show ?thesis using m r find_key [OF cur] by (simp add: g_def)
  next
    case False
    have "g d = d" if "row db j = Some d" for d
      using that False by (auto simp: row_def g_def find_Some_iff)
    with m False show ?thesis by (cases "row db j") auto
  qed
qed

subsection \<open>Invariants over sequences of requests\<close>

definition final_at :: "string \<Rightarrow> string \<Rightarrow> delivery_db \<Rightarrow> bool" where
  "final_at i s db \<longleftrightarrow> keys_unique db \<and> isFinalStatus s \<and> map_option dl_status (row db i) = Some s"

definition session_at :: "string \<Rightarrow> string \<Rightarrow> delivery_db \<Rightarrow> bool" where
  "session_at i c db \<longleftrightarrow> keys_unique db \<and> c \<noteq> [] \<and>
     map_option dl_cash_session_id (row db i) = Some (Some c)"

definition follows :: "history_row \<Rightarrow> history_row \<Rightarrow> bool" where
  "follows h h' \<longleftrightarrow> hs_previous_status h' = Some (hs_new_status h) \<and>
     status_edge (hs_new_status h) (hs_new_status h')"

definition history_of :: "string \<Rightarrow> delivery_db \<Rightarrow> history_row list" where
  "history_of i db = filter (\<lambda>h. hs_delivery_id h = i) (history db)"

text \<open>The history of every delivery is a path of the state machine ending in its status.\<close>

definition audited :: "delivery_db \<Rightarrow> bool" where
  "audited db \<longleftrightarrow> keys_unique db \<and>
     (\<forall>d \<in> set (deliveries db).
        history_of (dl_id d) db \<noteq> [] \<and>
        hs_new_status (last (history_of (dl_id d) db)) = dl_status d \<and>
        successively follows (history_of (dl_id d) db))"

lemma no_edge_from_final: "isFinalStatus s \<Longrightarrow> \<not> status_edge s s'"
  by (auto simp: isFinalStatus_def status_edge_iff transitionMatrix_final split: option.splits)

lemma row_write_status:
  assumes "row_write db i t cur f new db'" "new \<noteq> [] \<longrightarrow> \<not> status_edge (dl_status cur) (hs_new_status (hd new))"
  shows "dl_status (f cur) = dl_status cur"
  using assms by (auto simp: row_write_def)

lemma final_step: "final_at i s db \<Longrightarrow> serve h r db = Inr db' \<Longrightarrow> final_at i s db'"
proof -
  assume a: "final_at i s db" "serve h r db = Inr db'"
  then obtain j t cur f new where w: "row_write db j t cur f new db'" using serve_effect by blast
  have u: "keys_unique db" using a(1) by (simp add: final_at_def)
  note k = row_write_key [OF w u]
  have "dl_status (f cur) = dl_status cur" if "j = i"
    using a(1) k(1) that no_edge_from_final by (intro row_write_status [OF w]) (auto simp: final_at_def)
  then show ?thesis using a(1) k by (auto simp: final_at_def)
qed

lemma session_step: "session_at i c db \<Longrightarrow> serve h r db = Inr db' \<Longrightarrow> session_at i c db'"
proof -
  assume a: "session_at i c db" "serve h r db = Inr db'"
  then obtain j t cur f new where w: "row_write db j t cur f new db'" using serve_effect by blast
  have u: "keys_unique db" using a(1) by (simp add: session_at_def)
  note k = row_write_key [OF w u]
  have "dl_cash_session_id (f cur) = dl_cash_session_id cur" if "j = i"
    using w a(1) k(1) that by (auto simp: row_write_def keeps_session_def session_at_def)
  then show ?thesis using a(1) k by (auto simp: session_at_def)
qed

lemma row_of_member: "keys_unique db \<Longrightarrow> d \<in> set (deliveries db) \<Longrightarrow> row db (dl_id d) = Some d"
proof -
  have "distinct (map dl_id xs) \<Longrightarrow> d \<in> set xs \<Longrightarrow> find (\<lambda>e. dl_id e = dl_id d) xs = Some d" for xs
    by (induction xs) force+
  then show "keys_unique db \<Longrightarrow> d \<in> set (deliveries db) \<Longrightarrow> row db (dl_id d) = Some d"
    by (simp add: row_def keys_unique_def)
qed

lemma row_SomeD: "row db i = Some d \<Longrightarrow> dl_id d = i \<and> d \<in> set (deliveries db)"
  by (auto simp: row_def dest: find_SomeD)

lemma audited_iff: "audited db \<longleftrightarrow> keys_unique db \<and> (\<forall>i d. row db i = Some d \<longrightarrow>
    history_of i db \<noteq> [] \<and> hs_new_status (last (history_of i db)) = dl_status d \<and>
    successively follows (history_of i db))"
  by (auto simp: audited_def dest: row_SomeD row_of_member)

lemma audited_step: "audited db \<Longrightarrow> serve h r db = Inr db' \<Longrightarrow> audited db'"
proof -
  assume a: "audited db" "serve h r db = Inr db'"
  then obtain j t cur f new where w: "row_write db j t cur f new db'" using serve_effect by blast
  have u: "keys_unique db" using a(1) by (simp add: audited_def)
  note k = row_write_key [OF w u]
  have hist: "history_of i db' = history_of i db @ filter (\<lambda>h. hs_delivery_id h = i) new" for i
    using w by (auto simp: row_write_def history_of_def)
  have cur: "history_of j db \<noteq> []" "hs_new_status (last (history_of j db)) = dl_status cur"
    "successively follows (history_of j db)"
    using a(1) k(1) by (auto simp: audited_iff)
  have "history_of i db' \<noteq> [] \<and> hs_new_status (last (history_of i db')) = dl_status d \<and>
    successively follows (history_of i db')" if "row db' i = Some d" for i d
  proof (cases "i = j")
    case True
    with that k(3) [of j] have d: "d = f cur" by simp
    from w consider "new = []" "dl_status (f cur) = dl_status cur"
      | n where "new = [n]" "hs_delivery_id n = j" "hs_previous_status n = Some (dl_status cur)"
          "status_edge (dl_status cur) (hs_new_status n)" "dl_status (f cur) = hs_new_status n"
      by (auto simp: row_write_def)
    then show ?thesis
      by cases (use True d cur in \<open>auto simp: hist successively_append_iff follows_def\<close>)
  next
    case False
    then have "filter (\<lambda>h. hs_delivery_id h = i) new = []" using w by (auto simp: row_write_def)
    with False that k(3) [of i] a(1) show ?thesis by (simp add: hist audited_iff)
  qed
  with k(2) show ?thesis by (simp add: audited_iff)
qed

interpretation final: preserved "serve h" "final_at i s" for h i s
  by unfold_locales (rule final_step)

interpretation session: preserved "serve h" "session_at i c" for h i c
  by unfold_locales (rule session_step)

interpretation audit: preserved "serve h" audited for h
  by unfold_locales (rule audited_step)

subsection \<open>Properties\<close>

definition demo_actor :: actor where
  "demo_actor = \<lparr>ac_tenantId = Some ''t1'', ac_userId = Some ''u1'', ac_roles = [''ADMIN''],
     ac_branchId = None, ac_terminalId = None, ac_cashSessionId = None\<rparr>"

definition demo_delivery :: "string \<Rightarrow> string option \<Rightarrow> delivery" where
  "demo_delivery st ses = \<lparr>dl_id = ''d1'', dl_tenant_id = ''t1'', dl_branch_id = ''b1'', dl_status = st,
     dl_customer_name = None, dl_customer_phone = None, dl_address = ''Calle 1'', dl_reference = None,
     dl_fee = 5000, dl_subtotal = 0, dl_total = 5000, dl_payment_method_id = None,
     dl_assigned_courier_id = None, dl_driver_id = None, dl_cash_session_id = ses,
     dl_cash_register_id = None, dl_terminal_id = None, dl_cash_impact_amount = None,
     dl_cash_impact_recorded_at = None, dl_notes = None, dl_metadata = [], dl_updated_by = None,
     dl_updated_at = 0, dl_dispatched_at = None, dl_cancelled_at = None, dl_delivered_at = None,
     dl_failed_at = None\<rparr>"

definition demo_db :: "string \<Rightarrow> string option \<Rightarrow> history_row list \<Rightarrow> delivery_db" where
  "demo_db st ses hs = \<lparr>deliveries = [demo_delivery st ses], history = hs,
     cash_sessions = [\<lparr>cs_id = ''s1'', cs_tenant_id = ''t1'', cs_opened_by = ''u1'', cs_branch_id = ''b1'',
       cs_status = ''OPEN'', cs_opened_at = 1, cs_register_id = ''r1''\<rparr>],
     cash_registers = [\<lparr>cr_id = ''r1'', cr_tenant_id = ''t1'', cr_terminal_id = None\<rparr>],
     drivers = [], users = [], payment_methods = [], has_driver_catalog = True,
     has_cash_columns = True, has_cash_tables = True\<rparr>"

definition demo_history :: "history_row list" where
  "demo_history = [\<lparr>hs_delivery_id = ''d1'', hs_previous_status = None, hs_new_status = ''CREATED'',
     hs_changed_by = None, hs_reason = None, hs_metadata = []\<rparr>]"

definition demo_host :: host where
  "demo_host = \<lparr>date_parse = (\<lambda>s. if s = ''T2000'' then Some 2000 else None), iso_string = (\<lambda>_. ''T2000''),
     locale_compare = (\<lambda>s t. int (length s) - int (length t)), sha256_hex = (\<lambda>s. s)\<rparr>"

lemma demo_row: "row (demo_db st ses hs) ''d1'' = Some (demo_delivery st ses)"
  by (simp add: demo_db_def demo_delivery_def row_def)

lemma demo_keys: "keys_unique (demo_db st ses hs)"
  by (simp add: demo_db_def keys_unique_def)

text \<open>Property C25: a delivery whose status is final (delivered or cancelled) keeps that status
  under every sequence of requests to the service, whoever sends them and whichever fail.\<close>

theorem delivery_final_absorbing:
  assumes "keys_unique db" and "row db i = Some d" and "isFinalStatus (dl_status d)"
  shows "\<exists>d'. row (attempts (serve h) rs db) i = Some d' \<and> dl_status d' = dl_status d"
proof -
  have "final_at i (dl_status d) db" using assms by (simp add: final_at_def)
  then have "final_at i (dl_status d) (attempts (serve h) rs db)" by (rule final.attempts_preserve)
  then show ?thesis by (auto simp: final_at_def)
qed

theorem delivery_final_absorbing_witness:
  "\<exists>d'. row (attempts (serve demo_host) [Cancel 9 ''d1'' ''late'' None None demo_actor,
      Dispatch 10 ''d1'' None None demo_actor] (demo_db ''DELIVERED'' None [])) ''d1'' = Some d' \<and>
     dl_status d' = ''DELIVERED''"
proof -
  have "isFinalStatus (dl_status (demo_delivery ''DELIVERED'' None))"
    unfolding demo_delivery_def by code_simp
  from delivery_final_absorbing [OF demo_keys demo_row this] show ?thesis
    by (simp add: demo_delivery_def del: attempts.simps)
qed

text \<open>Property C26: once a delivery is recorded in a cash session, no sequence of requests moves it
  to another session or out of one: a transition keeps the session, and an update of its fee
  or payment method is accepted only under the same session.\<close>

theorem delivery_cash_session_sticky:
  assumes "keys_unique db" and "row db i = Some d" and "dl_cash_session_id d = Some c" and "c \<noteq> []"
  shows "\<exists>d'. row (attempts (serve h) rs db) i = Some d' \<and> dl_cash_session_id d' = Some c"
proof -
  have "session_at i c db" using assms by (simp add: session_at_def)
  then have "session_at i c (attempts (serve h) rs db)" by (rule session.attempts_preserve)
  then show ?thesis by (auto simp: session_at_def)
qed

theorem delivery_cash_session_sticky_witness:
  "\<exists>d'. row (attempts (serve demo_host) [Dispatch 10 ''d1'' None None demo_actor]
       (demo_db ''CREATED'' (Some ''s1'') [])) ''d1'' = Some d' \<and> dl_cash_session_id d' = Some ''s1''"
  by (rule delivery_cash_session_sticky [OF demo_keys demo_row]) (simp_all add: demo_delivery_def)

text \<open>Property C27: the status history is a faithful audit trail. If every delivery's history is a
  path of the transition matrix ending in its stored status, it still is after any sequence of
  requests, and a delivered delivery with more than its creation on record was dispatched.\<close>

theorem delivery_audit_path:
  assumes "audited db"
  shows "audited (attempts (serve h) rs db) \<and>
    (\<forall>d \<in> set (deliveries (attempts (serve h) rs db)).
       normalizeDeliveryStatus (dl_status d) = Some ENTREGADO \<longrightarrow>
       1 < length (history_of (dl_id d) (attempts (serve h) rs db)) \<longrightarrow>
       (\<exists>e \<in> set (history_of (dl_id d) (attempts (serve h) rs db)).
          normalizeDeliveryStatus (hs_new_status e) = Some DESPACHADO))"
proof -
  have a: "audited (attempts (serve h) rs db)" using assms by (rule audit.attempts_preserve)
  have "\<exists>e \<in> set hs. normalizeDeliveryStatus (hs_new_status e) = Some DESPACHADO"
    if hs: "successively follows hs" "1 < length hs"
      "normalizeDeliveryStatus (hs_new_status (last hs)) = Some ENTREGADO" for hs
  proof -
    obtain xs e e' where "hs = xs @ [e, e']"
      using hs(2) by (metis One_nat_def append_butlast_last_id append.assoc append_Cons append_Nil
          last_snoc less_numeral_extra(4) list.size(3,4) not_less_zero length_append_singleton
          add_0 plus_1_eq_Suc)
    then have "status_edge (hs_new_status e) (hs_new_status e')"
      using hs(1) by (auto simp: successively_append_iff follows_def)
    moreover have "normalizeDeliveryStatus (hs_new_status e') = Some ENTREGADO"
      using hs(3) \<open>hs = _\<close> by simp
    ultimately have "normalizeDeliveryStatus (hs_new_status e) = Some DESPACHADO"
      by (auto simp: status_edge_iff elim!: transitionMatrix.elims)
    with \<open>hs = _\<close> show ?thesis by simp
  qed
  with a show ?thesis by (auto simp: audited_def)
qed

theorem delivery_audit_path_witness:
  "audited (attempts (serve demo_host) [Dispatch 10 ''d1'' None None demo_actor]
     (demo_db ''CREATED'' (Some ''s1'') demo_history))"
proof -
  have "audited (demo_db ''CREATED'' (Some ''s1'') demo_history)"
    by (simp add: audited_def demo_keys) (simp add: demo_db_def demo_history_def demo_delivery_def history_of_def)
  from delivery_audit_path [OF this] show ?thesis by blast
qed

text \<open>Property C28: tenant isolation. A successful request belongs to a session with a tenant, and
  every row of any other tenant is left exactly as it was.\<close>

theorem delivery_tenant_isolation:
  assumes "serve h r db = Inr db'"
  shows "\<exists>t. resolveTenantId (request_actor r) = Inr t \<and>
    length (deliveries db') = length (deliveries db) \<and>
    (\<forall>k < length (deliveries db). dl_tenant_id (deliveries db ! k) \<noteq> t \<longrightarrow>
       deliveries db' ! k = deliveries db ! k)"
proof -
  obtain i t cur f new where "resolveTenantId (request_actor r) = Inr t" "row_write db i t cur f new db'"
    using serve_effect [OF assms] by blast
  then show ?thesis by (auto simp: row_write_def updateDelivery_def)
qed

theorem delivery_tenant_isolation_witness:
  "\<exists>db'. serve demo_host (AssignDriver 5 ''d1'' (Some None) demo_actor) (demo_db ''CREATED'' None []) = Inr db' \<and>
     length (deliveries db') = 1"
proof -
  let ?db = "demo_db ''CREATED'' None []"
  have "\<exists>db'. serve demo_host (AssignDriver 5 ''d1'' (Some None) demo_actor) ?db = Inr db'"
  proof -
    have "resolveTenantId demo_actor = Inr ''t1''" by code_simp
    then show ?thesis
      by (simp add: serve_def assignDriver_def demo_db_def demo_delivery_def demo_actor_def
          findByIdForUpdate_def assertDeliveryBranchScope_def trimmed_def)
  qed
  then obtain db' where "serve demo_host (AssignDriver 5 ''d1'' (Some None) demo_actor) ?db = Inr db'" by blast
  with delivery_tenant_isolation [OF this] show ?thesis by (auto simp: demo_db_def)
qed

end
