(* ===== verification/Pricing_Rounding.thy ===== *)
theory Pricing_Rounding
  imports Prelude
begin

section \<open>Money and tax rounding (pricing module)\<close>

text \<open>
  The rounding functions of \<open>pricing.service.ts\<close> (\<open>roundCurrency\<close>, \<open>normalizeRate\<close>,
  \<open>roundQuantity\<close>) and of \<open>pricing-tax-rounding.ts\<close> (\<open>calculatePercentageTaxAmount\<close>,
  \<open>resolveLineTaxBase\<close>), each operation rounded to binary64 as the machine does. An amount of
  money is \<open>cents n\<close>, the double nearest \<open>n / 100\<close>; the lemmas show on which range the double
  computations agree with exact arithmetic on the cents.
\<close>

subsection \<open>The functions\<close>

definition roundCurrency :: "rat \<Rightarrow> rat" where
  "roundCurrency value =
     dbl (of_int (js_round (dbl (dbl (value + dbl (1 / 10 ^ 9)) * 100))) / 100)"

definition normalizeRate :: "rat \<Rightarrow> rat" where
  "normalizeRate value =
     dbl (of_int (js_round (dbl (dbl (value + dbl (1 / 10 ^ 12)) * 1000000))) / 1000000)"

text \<open>\<open>Number.EPSILON\<close> is \<open>2 powi - 52\<close>.\<close>

definition roundQuantity :: "rat \<Rightarrow> nat \<Rightarrow> rat" where
  "roundQuantity value scale = (let multiplier = 10 ^ scale in
     dbl (of_int (js_round (dbl (dbl (value + 1 / 2 ^ 52) * multiplier))) / multiplier))"

text \<open>Division of BigInt values truncates towards zero.\<close>

definition bigint_div :: "int \<Rightarrow> int \<Rightarrow> int" where
  "bigint_div a b = sgn a * sgn b * (\<bar>a\<bar> div \<bar>b\<bar>)"

definition calculatePercentageTaxAmount :: "rat \<Rightarrow> rat \<Rightarrow> rat" where
  "calculatePercentageTaxAmount taxBase taxRate =
     (let baseCents = js_round (dbl (taxBase * 100));
          rateUnits = js_round (dbl (taxRate * 1000000))
      in dbl (dbl (of_int (bigint_div (baseCents * rateUnits + 500000) 1000000)) / 100))"

text \<open>One turn of the loop of \<open>resolveLineTaxBase\<close>; the gap None is the initial infinity.\<close>

definition resolveStep :: "rat \<Rightarrow> rat \<Rightarrow> rat \<Rightarrow> rat \<Rightarrow> int \<Rightarrow> rat \<times> rat option \<Rightarrow> rat \<times> rat option" where
  "resolveStep taxRate targetCents exactCents startCents offset best =
     (let (bestCents, bestGap) = best;
          candidateCents = dbl (startCents + of_int offset);
          taxCents = of_int (js_round (dbl (calculatePercentageTaxAmount (dbl (candidateCents / 100)) taxRate * 100)));
          gap = \<bar>dbl (dbl (candidateCents + taxCents) - targetCents)\<bar>;
          better = (case bestGap of None \<Rightarrow> True
            | Some g \<Rightarrow> gap < g \<or>
                (gap = g \<and> \<bar>dbl (candidateCents - exactCents)\<bar> < \<bar>dbl (bestCents - exactCents)\<bar>))
      in if better then (candidateCents, Some gap) else best)"

definition resolveLineTaxBase :: "rat \<Rightarrow> rat \<Rightarrow> rat" where
  "resolveLineTaxBase netLineAmount taxRate =
     (let targetCents = of_int (js_round (dbl (netLineAmount * 100)))
      in if taxRate \<le> 0 then dbl (targetCents / 100)
         else let exactCents = dbl (targetCents / dbl (1 + taxRate));
                  startCents = of_int (js_round exactCents);
                  (bestCents, _) = fold (resolveStep taxRate targetCents exactCents startCents)
                    [- 2, - 1, 0, 1, 2] (startCents, None)
              in dbl (bestCents / 100))"

subsection \<open>Rounding to cents\<close>

text \<open>The whole number of cents \<open>roundCurrency\<close> computes.\<close>

definition currencyCents :: "rat \<Rightarrow> int" where
  "currencyCents value = js_round (dbl (dbl (value + dbl (1 / 10 ^ 9)) * 100))"

lemma roundCurrency_cents: "roundCurrency x = cents (currencyCents x)"
  by (simp add: roundCurrency_def cents_def currencyCents_def)

lemma currencyCents_mono: "x \<le> y \<Longrightarrow> currencyCents x \<le> currencyCents y"
  unfolding currencyCents_def by (intro js_round_mono dbl_mono mult_right_mono add_right_mono) auto

lemma nano_bounds: "0 \<le> dbl (1 / 10 ^ 9)" "dbl (1 / 10 ^ 9) \<le> 1 / 2 ^ 29"
proof -
  show "0 \<le> dbl (1 / 10 ^ 9)" by (rule dbl_nonneg) simp
  have "dbl (1 / 10 ^ 9) \<le> 2 powi - 29"
    by (rule dbl_le_powi) (simp_all add: power_int_def field_simps)
  then show "dbl (1 / 10 ^ 9) \<le> 1 / 2 ^ 29" by (simp add: power_int_def field_simps)
qed

lemma scaled_error:
  assumes "\<bar>x\<bar> \<le> 2 ^ 38"
  shows "\<bar>dbl (dbl (x + dbl (1 / 10 ^ 9)) * 100) - x * 100\<bar> \<le> 1 / 128"
proof -
  define e y where "e = dbl (1 / 10 ^ 9)" and "y = dbl (x + e)"
  have e: "0 \<le> e" "e \<le> 1 / 536870912" using nano_bounds by (simp_all add: e_def)
  have x: "- 274877906944 \<le> x" "x \<le> 274877906944" using assms by simp_all
  have "\<bar>x + e\<bar> < 2 powi 39" using x e by (simp add: power_int_def)
  then have "\<bar>y - (x + e)\<bar> \<le> 2 powi (39 - 54)" unfolding y_def by (rule dbl_error) simp
  then have "\<bar>y - (x + e)\<bar> \<le> 1 / 32768" by (simp add: power_int_def power_one_over)
  then have y: "y - (x + e) \<le> 1 / 32768" "(x + e) - y \<le> 1 / 32768" by linarith+
  have "\<bar>y * 100\<bar> < 2 powi 45" using x e y by (simp add: power_int_def)
  then have "\<bar>dbl (y * 100) - y * 100\<bar> \<le> 2 powi (45 - 54)" by (rule dbl_error) simp
  then have "\<bar>dbl (y * 100) - y * 100\<bar> \<le> 1 / 512" by (simp add: power_int_def power_one_over)
  with y e show ?thesis unfolding e_def [symmetric] y_def [symmetric] by linarith
qed

lemma currencyCents_near:
  assumes "\<bar>x\<bar> \<le> 2 ^ 38" shows "\<bar>of_int (currencyCents x) - x * 100\<bar> \<le> 1 / 2 + 1 / 128"
  using scaled_error [OF assms] unfolding currencyCents_def js_round_def by linarith

lemma currencyCents_eq:
  assumes "\<bar>x * 100 - of_int n\<bar> \<le> 1 / 4" "\<bar>n\<bar> \<le> 2 ^ 44" shows "currencyCents x = n"
proof -
  have n: "(of_int \<bar>n\<bar> :: rat) \<le> of_int (2 ^ 44)" using assms(2) by (simp only: of_int_le_iff)
  have "\<bar>x\<bar> \<le> 2 ^ 38" using n assms(1) by (simp add: abs_if split: if_splits)
  then show ?thesis
    using scaled_error [of x] assms(1) unfolding currencyCents_def js_round_def by linarith
qed

lemma cents_scaled:
  assumes "\<bar>n\<bar> \<le> 2 ^ 46" shows "\<bar>cents n * 100 - of_int n\<bar> \<le> 1 / 128"
  using cents_bounds [OF assms] by linarith

lemma currencyCents_cents: "\<bar>n\<bar> \<le> 2 ^ 44 \<Longrightarrow> currencyCents (cents n) = n"
  using cents_scaled [of n] by (intro currencyCents_eq) auto

lemma cents_abs:
  assumes "\<bar>n\<bar> \<le> 2 ^ 44" shows "\<bar>cents n\<bar> \<le> 2 ^ 38"
proof -
  have n: "(of_int \<bar>n\<bar> :: rat) \<le> of_int (2 ^ 44)" using assms by (simp only: of_int_le_iff)
  show ?thesis using n cents_bounds [of n] assms by (simp add: abs_if split: if_splits)
qed

text \<open>Sums and differences of amounts are exact once rounded.\<close>

lemma currencyCents_dbl:
  assumes "\<bar>x * 100 - of_int n\<bar> \<le> 1 / 8" "\<bar>n\<bar> \<le> 2 ^ 44" shows "currencyCents (dbl x) = n"
proof (rule currencyCents_eq)
  have n: "(of_int \<bar>n\<bar> :: rat) \<le> of_int (2 ^ 44)" using assms(2) by (simp only: of_int_le_iff)
  have "\<bar>x\<bar> < 2 powi 38" using n assms(1) by (simp add: abs_if power_int_def split: if_splits)
  then have "\<bar>dbl x - x\<bar> \<le> 2 powi (38 - 54)" by (rule dbl_error) simp
  then have "\<bar>dbl x - x\<bar> \<le> 1 / 65536" by (simp add: power_int_def field_simps)
  then show "\<bar>dbl x * 100 - of_int n\<bar> \<le> 1 / 4" using assms(1) by linarith
qed fact

lemma currencyCents_add:
  assumes "\<bar>a\<bar> \<le> 2 ^ 43" "\<bar>b\<bar> \<le> 2 ^ 43" shows "currencyCents (dbl (cents a + cents b)) = a + b"
proof (rule currencyCents_dbl)
  have "\<bar>cents a * 100 - of_int a\<bar> \<le> 1 / 128" "\<bar>cents b * 100 - of_int b\<bar> \<le> 1 / 128"
    using assms by (intro cents_scaled; simp)+
  then show "\<bar>(cents a + cents b) * 100 - of_int (a + b)\<bar> \<le> 1 / 8"
    unfolding distrib_right of_int_add by linarith
  show "\<bar>a + b\<bar> \<le> 2 ^ 44" using assms by simp
qed

lemma currencyCents_diff:
  assumes "\<bar>a\<bar> \<le> 2 ^ 43" "\<bar>b\<bar> \<le> 2 ^ 43" shows "currencyCents (dbl (cents a - cents b)) = a - b"
proof (rule currencyCents_dbl)
  have "\<bar>cents a * 100 - of_int a\<bar> \<le> 1 / 128" "\<bar>cents b * 100 - of_int b\<bar> \<le> 1 / 128"
    using assms by (intro cents_scaled; simp)+
  then show "\<bar>(cents a - cents b) * 100 - of_int (a - b)\<bar> \<le> 1 / 8"
    unfolding left_diff_distrib of_int_diff by linarith
  show "\<bar>a - b\<bar> \<le> 2 ^ 44" using assms by simp
qed

text \<open>What every rounding of money promises: it is monotone and leaves amounts alone.\<close>

locale cent_rounding =
  fixes r :: "rat \<Rightarrow> rat" and lim :: int
  assumes r_mono: "x \<le> y \<Longrightarrow> r x \<le> r y"
    and r_cents: "\<bar>n\<bar> \<le> lim \<Longrightarrow> r (cents n) = cents n"
    and lim_nonneg: "0 \<le> lim"
begin

lemma r_0 [simp]: "r 0 = 0"
  using r_cents [of 0] lim_nonneg by simp

lemma r_nonneg: "0 \<le> x \<Longrightarrow> 0 \<le> r x"
  using r_mono [of 0 x] by simp

lemma r_le_cents: "x \<le> cents n \<Longrightarrow> \<bar>n\<bar> \<le> lim \<Longrightarrow> r x \<le> cents n"
  using r_mono [of x "cents n"] r_cents [of n] by simp

lemma r_clamp:
  assumes "\<bar>n\<bar> \<le> lim" "0 \<le> cents n" shows "0 \<le> r (min (max x 0) (cents n))" "r (min (max x 0) (cents n)) \<le> cents n"
  using assms by (auto intro: r_nonneg r_le_cents)

end

interpretation fixed2: cent_rounding to_fixed2 "2 ^ 46"
proof
  show "x \<le> y \<Longrightarrow> to_fixed2 x \<le> to_fixed2 y" for x y by (rule to_fixed2_mono)
  show "to_fixed2 (cents n) = cents n" if "\<bar>n\<bar> \<le> 2 ^ 46" for n
    using that to_fixed2_of_cents [of n] to_fixed2_of_cents [of "- n"]
    by (cases "0 \<le> n") (simp_all add: cents_minus to_fixed2_minus)
qed simp

text \<open>\<open>roundCurrency\<close> keeps that contract up to \<open>2 ^ 44\<close> cents.\<close>

interpretation currency: cent_rounding roundCurrency "2 ^ 44"
proof
  show "x \<le> y \<Longrightarrow> roundCurrency x \<le> roundCurrency y" for x y
    by (simp add: roundCurrency_cents cents_mono currencyCents_mono)
  show "\<bar>n\<bar> \<le> 2 ^ 44 \<Longrightarrow> roundCurrency (cents n) = cents n" for n
    by (simp add: roundCurrency_cents currencyCents_cents)
qed simp

lemma roundCurrency_add:
  "\<bar>a\<bar> \<le> 2 ^ 43 \<Longrightarrow> \<bar>b\<bar> \<le> 2 ^ 43 \<Longrightarrow> roundCurrency (dbl (cents a + cents b)) = cents (a + b)"
  by (simp add: roundCurrency_cents currencyCents_add)

lemma roundCurrency_diff:
  "\<bar>a\<bar> \<le> 2 ^ 43 \<Longrightarrow> \<bar>b\<bar> \<le> 2 ^ 43 \<Longrightarrow> roundCurrency (dbl (cents a - cents b)) = cents (a - b)"
  by (simp add: roundCurrency_cents currencyCents_diff)

subsection \<open>The tax amount in whole cents\<close>

text \<open>The exact rule: base cents times rate millionths, half a cent up.\<close>

definition taxCents :: "int \<Rightarrow> int \<Rightarrow> int" where
  "taxCents base rate = bigint_div (base * rate + 500000) 1000000"

lemma bigint_div_nonneg: "0 \<le> a \<Longrightarrow> 0 < b \<Longrightarrow> bigint_div a b = a div b"
  by (simp add: bigint_div_def sgn_if)

lemma taxCents_nonneg: "0 \<le> b \<Longrightarrow> 0 \<le> r \<Longrightarrow> taxCents b r = (b * r + 500000) div 1000000"
  by (simp add: taxCents_def bigint_div_nonneg)

lemma taxCents_ge0: "0 \<le> b \<Longrightarrow> 0 \<le> r \<Longrightarrow> 0 \<le> taxCents b r"
  by (simp add: taxCents_nonneg pos_imp_zdiv_nonneg_iff)

lemma taxCents_le0:
  assumes "b * r \<le> 0" shows "taxCents b r \<le> 0"
proof (cases "0 \<le> b * r + 500000")
  case True
  then have "taxCents b r = (b * r + 500000) div 1000000" by (simp add: taxCents_def bigint_div_nonneg)
  also have "\<dots> \<le> 0" using assms by linarith
  finally show ?thesis .
next
  case False
  then show ?thesis by (simp add: taxCents_def bigint_div_def pos_imp_zdiv_nonneg_iff)
qed

lemma js_round_scaled:
  assumes e: "\<bar>v - of_int n\<bar> \<le> 1 / 8" and n: "\<bar>n\<bar> \<le> 2 ^ 46" shows "js_round (dbl v) = n"
proof (rule js_round_near)
  have n': "(of_int \<bar>n\<bar> :: rat) \<le> of_int (2 ^ 46)" using n by (simp only: of_int_le_iff)
  have "\<bar>v\<bar> < 2 powi 48" using n' e by (simp add: abs_if power_int_def split: if_splits)
  then have "\<bar>dbl v - v\<bar> \<le> 2 powi (48 - 54)" by (rule dbl_error) simp
  then have "\<bar>dbl v - v\<bar> \<le> 1 / 64" by (simp add: power_int_def power_one_over)
  then show "\<bar>dbl v - of_int n\<bar> < 1 / 2" using e by linarith
qed

lemma js_round_cents:
  assumes "\<bar>n\<bar> \<le> 2 ^ 46" shows "js_round (dbl (cents n * 100)) = n"
proof (rule js_round_scaled)
  have "\<bar>cents n * 100 - of_int n\<bar> \<le> 1 / 128" using assms by (rule cents_scaled)
  then show "\<bar>cents n * 100 - of_int n\<bar> \<le> 1 / 8" by linarith
qed fact

text \<open>A rate is a number of millionths, 0.19 for instance; \<open>rate r\<close> is its double.\<close>

definition rate :: "int \<Rightarrow> rat" where
  "rate r = dbl (of_int r / 1000000)"

lemma rate_error:
  assumes "0 \<le> r" "r \<le> 1000000" shows "\<bar>rate r - of_int r / 1000000\<bar> \<le> 1 / 2 ^ 53"
proof -
  have "(of_int r :: rat) \<le> of_int 1000000" using assms(2) by (simp only: of_int_le_iff)
  then have "\<bar>of_int r / 1000000 :: rat\<bar> < 2 powi 1" using assms(1) by (simp add: power_int_def)
  then have "\<bar>rate r - of_int r / 1000000\<bar> \<le> 2 powi (1 - 54)" unfolding rate_def by (rule dbl_error) simp
  then show ?thesis by (simp add: power_int_def power_one_over)
qed

lemma js_round_rate:
  assumes "0 \<le> r" "r \<le> 1000000" shows "js_round (dbl (rate r * 1000000)) = r"
proof (rule js_round_scaled)
  have "\<bar>rate r - of_int r / 1000000\<bar> \<le> 1 / 2 ^ 53" by (rule rate_error [OF assms])
  also have "\<dots> \<le> 1 / 8000000" by simp
  finally show "\<bar>rate r * 1000000 - of_int r\<bar> \<le> 1 / 8" by linarith
qed (use assms in simp)

lemma rate_pos: "0 < r \<Longrightarrow> 0 < rate r"
proof -
  assume "0 < r"
  then have "(1::rat) \<le> of_int r" by simp
  then have "2 powi - 20 \<le> (of_int r / 1000000 :: rat)" by (simp add: power_int_def power_one_over)
  then show ?thesis unfolding rate_def by (rule dbl_pos_of_powi) simp
qed

lemma taxCents_bound:
  assumes "\<bar>b\<bar> \<le> 2 ^ 44" "0 \<le> r" "r \<le> 1000000" shows "\<bar>taxCents b r\<bar> \<le> 2 ^ 44 + 1"
proof -
  have "\<bar>b * r\<bar> \<le> 2 ^ 44 * 1000000" unfolding abs_mult using assms by (intro mult_mono) auto
  then have "\<bar>b * r + 500000\<bar> \<le> (2 ^ 44 + 1) * 1000000" by (simp add: abs_le_iff)
  from zdiv_mono1 [OF this, of 1000000] have "\<bar>b * r + 500000\<bar> div 1000000 \<le> 2 ^ 44 + 1" by simp
  then show ?thesis by (auto simp: taxCents_def bigint_div_def abs_mult sgn_if)
qed

lemma calculatePercentageTaxAmount_cents:
  assumes "\<bar>b\<bar> \<le> 2 ^ 44" "0 \<le> r" "r \<le> 1000000"
  shows "calculatePercentageTaxAmount (cents b) (rate r) = cents (taxCents b r)"
proof -
  have "js_round (dbl (cents b * 100)) = b" using assms(1) by (intro js_round_cents) simp
  moreover have "dbl (of_int (taxCents b r)) = of_int (taxCents b r)"
    using taxCents_bound [OF assms] by (intro dbl_int) simp
  ultimately show ?thesis
    using js_round_rate [OF assms(2,3)]
    by (simp add: calculatePercentageTaxAmount_def Let_def taxCents_def cents_def)
qed

subsection \<open>The base that reproduces a charged amount\<close>

text \<open>How far base plus tax is from the charged amount, in cents.\<close>

definition baseGap :: "int \<Rightarrow> int \<Rightarrow> int \<Rightarrow> int" where
  "baseGap target r base = \<bar>base + taxCents base r - target\<bar>"

text \<open>One turn of the loop on whole cents: the double computations of the gap are exact.\<close>

lemma resolveStep_cents:
  assumes c: "\<bar>start + offset\<bar> \<le> 2 ^ 44" and T: "\<bar>target\<bar> \<le> 2 ^ 44" and r: "0 \<le> r" "r \<le> 1000000"
  shows "resolveStep (rate r) (of_int target) exact (of_int start) offset (bestCents, bestGap) =
    (let g = of_int (baseGap target r (start + offset))
     in if case bestGap of None \<Rightarrow> True
           | Some g' \<Rightarrow> g < g' \<or> (g = g' \<and>
               \<bar>dbl (of_int (start + offset) - exact)\<bar> < \<bar>dbl (bestCents - exact)\<bar>)
        then (of_int (start + offset), Some g) else (bestCents, bestGap))"
proof -
  define cand tax where "cand = start + offset" and "tax = taxCents cand r"
  have cd: "dbl (of_int start + of_int offset) = of_int cand"
    using dbl_int [of cand] c by (simp add: cand_def)
  have tb: "\<bar>tax\<bar> \<le> 2 ^ 44 + 1" using taxCents_bound [of cand r] c r by (simp add: tax_def cand_def)
  have tx: "js_round (dbl (calculatePercentageTaxAmount (dbl (of_int cand / 100)) (rate r) * 100)) = tax"
    using calculatePercentageTaxAmount_cents [of cand r] js_round_cents [of tax] c r tb
    by (simp add: cents_def tax_def cand_def)
  have sm: "dbl (of_int cand + of_int tax) = of_int (cand + tax)"
    using dbl_int [of "cand + tax"] c tb by (simp add: cand_def)
  have gp: "\<bar>dbl (of_int (cand + tax) - of_int target)\<bar> = (of_int (baseGap target r cand) :: rat)"
    using dbl_int [of "cand + tax - target"] c tb T by (simp add: cand_def baseGap_def tax_def)
  show ?thesis
    by (simp add: resolveStep_def Let_def cd tx sm gp cand_def [symmetric] del: of_int_add split: option.split)
qed

text \<open>The loop keeps a candidate of least gap.\<close>

lemma resolve_fold:
  assumes "offs \<noteq> []" "\<And>d. d \<in> set offs \<Longrightarrow> \<bar>start + d\<bar> \<le> 2 ^ 44"
    and T: "\<bar>target\<bar> \<le> 2 ^ 44" and r: "0 \<le> r" "r \<le> 1000000"
  shows "\<exists>d\<in>set offs. fold (resolveStep (rate r) (of_int target) exact (of_int start)) offs (first, None) =
      (of_int (start + d), Some (of_int (baseGap target r (start + d)))) \<and>
      (\<forall>d'\<in>set offs. baseGap target r (start + d) \<le> baseGap target r (start + d'))"
  using assms(1,2)
proof (induction offs rule: rev_induct)
  case (snoc d ds)
  have d: "\<bar>start + d\<bar> \<le> 2 ^ 44" using snoc.prems by simp
  show ?case
  proof (cases "ds = []")
    case True
    then show ?thesis using resolveStep_cents [OF d T r] by (simp add: Let_def)
  next
    case False
    then obtain b where b: "b \<in> set ds"
      "fold (resolveStep (rate r) (of_int target) exact (of_int start)) ds (first, None) =
        (of_int (start + b), Some (of_int (baseGap target r (start + b))))"
      "\<forall>d'\<in>set ds. baseGap target r (start + b) \<le> baseGap target r (start + d')"
      using snoc by force
    show ?thesis
    proof (cases "baseGap target r (start + d) < baseGap target r (start + b)")
      case True
      then show ?thesis using b resolveStep_cents [OF d T r] by (auto simp: Let_def)
    next
      case False
      then show ?thesis using b resolveStep_cents [OF d T r] by (auto simp: Let_def)
    qed
  qed
qed simp

lemma resolveLineTaxBase_candidate:
  assumes T: "0 \<le> target" "target \<le> 2 ^ 43" and r: "0 < r" "r \<le> 1000000"
    and s: "start = js_round (dbl (of_int target / dbl (1 + rate r)))" "\<bar>start\<bar> \<le> 2 ^ 43"
  shows "\<exists>base. resolveLineTaxBase (cents target) (rate r) = cents base \<and> \<bar>base - start\<bar> \<le> 2 \<and>
      (\<forall>b. \<bar>b - start\<bar> \<le> 2 \<longrightarrow> baseGap target r base \<le> baseGap target r b)"
proof -
  have jt: "js_round (dbl (cents target * 100)) = target" using T by (intro js_round_cents) simp
  have all: "\<bar>b - start\<bar> \<le> 2 \<longleftrightarrow> b - start \<in> set [- 2, - 1, 0, 1, 2]" for b by auto
  define exact where "exact = dbl (of_int target / dbl (1 + rate r))"
  have "\<exists>d\<in>set [- 2, - 1, 0, 1, 2].
      fold (resolveStep (rate r) (of_int target) exact (of_int start)) [- 2, - 1, 0, 1, 2] (of_int start, None) =
        (of_int (start + d), Some (of_int (baseGap target r (start + d)))) \<and>
      (\<forall>d'\<in>set [- 2, - 1, 0, 1, 2]. baseGap target r (start + d) \<le> baseGap target r (start + d'))"
    by (rule resolve_fold) (use T r s(2) in auto)
  then obtain d where d: "d \<in> set [- 2, - 1, 0, 1, 2 :: int]"
    "fold (resolveStep (rate r) (of_int target) exact (of_int start)) [- 2, - 1, 0, 1, 2] (of_int start, None) =
      (of_int (start + d), Some (of_int (baseGap target r (start + d))))"
    "\<forall>d'\<in>set [- 2, - 1, 0, 1, 2 :: int]. baseGap target r (start + d) \<le> baseGap target r (start + d')"
    by blast
  have sx: "js_round exact = start" by (simp add: exact_def s(1))
  have "\<not> rate r \<le> 0" using rate_pos [OF r(1)] by simp
  then have "resolveLineTaxBase (cents target) (rate r) = cents (start + d)"
    unfolding resolveLineTaxBase_def jt Let_def exact_def [symmetric] sx d(2)
    by (simp add: cents_def)
  moreover have "baseGap target r (start + d) \<le> baseGap target r b" if "\<bar>b - start\<bar> \<le> 2" for b
    using bspec [OF d(3), of "b - start"] that all [of b] by simp
  moreover have "\<bar>(start + d) - start\<bar> \<le> 2" using d(1) by auto
  ultimately show ?thesis by blast
qed

text \<open>Base plus tax grows by one or two cents per cent of base, so it misses an amount by at
  most one cent.\<close>

lemma taxCents_step:
  assumes "0 \<le> b" "0 \<le> r" "r \<le> 1000000"
  shows "taxCents b r \<le> taxCents (b + 1) r" "taxCents (b + 1) r \<le> taxCents b r + 1"
proof -
  have e: "(b + 1) * r + 500000 = (b * r + 500000) + r" by (simp add: algebra_simps)
  have "(b * r + 500000) div 1000000 \<le> (b * r + 500000 + r) div 1000000"
    using assms by (intro zdiv_mono1) auto
  moreover have "(b * r + 500000 + r) div 1000000 \<le> (b * r + 500000 + 1000000) div 1000000"
    using assms by (intro zdiv_mono1) auto
  ultimately show "taxCents b r \<le> taxCents (b + 1) r" "taxCents (b + 1) r \<le> taxCents b r + 1"
    unfolding taxCents_nonneg [OF assms(1,2)]
    using taxCents_nonneg [of "b + 1" r] assms e by simp_all
qed

lemma gross_reached:
  assumes r: "0 \<le> r" "r \<le> 1000000" and T: "0 \<le> T"
  shows "\<exists>b\<ge>0. b + taxCents b r \<le> T \<and> T \<le> b + taxCents b r + 1"
  using T
proof (induction T rule: int_ge_induct)
  case base
  have "taxCents 0 r = 0" by (simp add: taxCents_def bigint_div_def)
  then show ?case by (intro exI [of _ 0]) simp
next
  case (step T)
  then obtain b where b: "0 \<le> b" "b + taxCents b r \<le> T" "T \<le> b + taxCents b r + 1" by blast
  show ?case
  proof (cases "b + taxCents b r = T")
    case True
    then show ?thesis using b(1) by (intro exI [of _ b]) simp
  next
    case False
    then show ?thesis using b taxCents_step [OF b(1) r] by (intro exI [of _ "b + 1"]) simp
  qed
qed

lemma taxCents_real:
  assumes "0 \<le> b" "0 \<le> r"
  shows "\<bar>of_int (taxCents b r) - of_int b * (of_int r / 1000000)\<bar> \<le> (1 / 2 :: rat)"
proof -
  define n where "n = b * r"
  have t: "taxCents b r * 1000000 \<le> n + 500000" "n + 500000 < taxCents b r * 1000000 + 1000000"
    unfolding taxCents_nonneg [OF assms] n_def by linarith+
  have "(of_int (taxCents b r * 1000000) :: rat) \<le> of_int (n + 500000)"
    "(of_int (n + 500000) :: rat) < of_int (taxCents b r * 1000000 + 1000000)"
    using t by (simp_all only: of_int_le_iff of_int_less_iff)
  then have "of_int (taxCents b r) * 1000000 \<le> of_int n + (500000 :: rat)"
    "of_int n + (500000 :: rat) < of_int (taxCents b r) * 1000000 + 1000000" by simp_all
  then have "\<bar>of_int (taxCents b r) - of_int n / 1000000\<bar> \<le> (1 / 2 :: rat)" by linarith
  then show ?thesis by (simp add: n_def)
qed

lemma one_plus_rate:
  assumes "0 \<le> r" "r \<le> 1000000"
  shows "1 \<le> dbl (1 + rate r)" "\<bar>dbl (1 + rate r) - (1 + of_int r / 1000000)\<bar> \<le> 1 / 2 ^ 51"
proof -
  have "0 \<le> rate r" unfolding rate_def using assms(1) by (intro dbl_nonneg) simp
  then show "1 \<le> dbl (1 + rate r)" using powi_le_dbl [of 0 "1 + rate r"] by simp
  have e: "\<bar>rate r - of_int r / 1000000\<bar> \<le> 1 / 2 ^ 53" by (rule rate_error [OF assms])
  have "(of_int r :: rat) \<le> of_int 1000000" using assms(2) by (simp only: of_int_le_iff)
  then have "of_int r / 1000000 \<le> (1 :: rat)" by simp
  moreover have "(1 / 2 ^ 53 :: rat) \<le> 1" by simp
  ultimately have "rate r < 3" using e by linarith
  then have "\<bar>1 + rate r\<bar> < 2 powi 2" using \<open>0 \<le> rate r\<close> by (simp add: power_int_def)
  then have "\<bar>dbl (1 + rate r) - (1 + rate r)\<bar> \<le> 2 powi (2 - 54)" by (rule dbl_error) simp
  then have "\<bar>dbl (1 + rate r) - (1 + rate r)\<bar> \<le> 1 / 2 ^ 52" by (simp add: power_int_def power_one_over)
  with e have "\<bar>dbl (1 + rate r) - (1 + of_int r / 1000000)\<bar> \<le> 1 / 2 ^ 52 + 1 / 2 ^ 53" by linarith
  also have "\<dots> \<le> 1 / 2 ^ 51" by simp
  finally show "\<bar>dbl (1 + rate r) - (1 + of_int r / 1000000)\<bar> \<le> 1 / 2 ^ 51" .
qed

lemma start_bounds:
  assumes "0 \<le> T" "T \<le> 2 ^ 43" "0 \<le> r" "r \<le> 1000000"
  shows "0 \<le> js_round (dbl (of_int T / dbl (1 + rate r)))" "js_round (dbl (of_int T / dbl (1 + rate r))) \<le> 2 ^ 43"
proof -
  note D = one_plus_rate(1) [OF assms(3,4)]
  have T: "(0::rat) \<le> of_int T" using assms(1) by simp
  show "0 \<le> js_round (dbl (of_int T / dbl (1 + rate r)))"
    by (rule js_round_nonneg, rule dbl_nonneg, rule divide_nonneg_nonneg) (use D T in linarith)+
  have "of_int T / dbl (1 + rate r) \<le> of_int T" using D T by (simp add: divide_le_eq mult_le_cancel_left1)
  then have "dbl (of_int T / dbl (1 + rate r)) \<le> of_int T"
    using dbl_mono [of "of_int T / dbl (1 + rate r)" "of_int T"] dbl_int [of T] assms(1,2) by simp
  then have "js_round (dbl (of_int T / dbl (1 + rate r))) \<le> T" by (metis js_round_mono js_round_of_int)
  then show "js_round (dbl (of_int T / dbl (1 + rate r))) \<le> 2 ^ 43" using assms(2) by linarith
qed

lemma near_start:
  assumes T: "0 \<le> T" "T \<le> 2 ^ 43" and r: "0 \<le> r" "r \<le> 1000000"
    and b: "0 \<le> b" "\<bar>b + taxCents b r - T\<bar> \<le> 1"
  shows "\<bar>b - js_round (dbl (of_int T / dbl (1 + rate r)))\<bar> \<le> 2"
proof -
  define D E where "D = dbl (1 + rate r)" and "E = dbl (of_int T / D)"
  note D1 = one_plus_rate [OF r, folded D_def]
  have t0: "0 \<le> taxCents b r" using b(1) r by (simp add: taxCents_ge0)
  have "b \<le> 2 ^ 43 + 1" using b T t0 by linarith
  then have bb: "(of_int b :: rat) \<le> of_int (2 ^ 43 + 1)" by (simp only: of_int_le_iff)
  have b0: "(0 :: rat) \<le> of_int b" using b(1) by simp
  have tr: "\<bar>of_int (taxCents b r) - of_int b * (of_int r / 1000000)\<bar> \<le> (1 / 2 :: rat)"
    by (rule taxCents_real [OF b(1) r(1)])
  have "(of_int \<bar>b + taxCents b r - T\<bar> :: rat) \<le> of_int 1" using b(2) by (simp only: of_int_le_iff)
  then have g: "\<bar>of_int b + of_int (taxCents b r) - of_int T\<bar> \<le> (1 :: rat)" by simp
  have "\<bar>of_int b * (D - (1 + of_int r / 1000000))\<bar> \<le> (2 ^ 43 + 1) * (1 / 2 ^ 51)"
    unfolding abs_mult using D1(2) bb b0 by (intro mult_mono) auto
  also have "\<dots> \<le> 1 / 128" by simp
  finally have "\<bar>of_int b * D - of_int b - of_int b * (of_int r / 1000000)\<bar> \<le> 1 / 128"
    by (simp add: algebra_simps)
  then have "\<bar>of_int T - of_int b * D\<bar> \<le> 3 / 2 + 1 / 128" using tr g by linarith
  then have "\<bar>of_int T - of_int b * D\<bar> / D \<le> (3 / 2 + 1 / 128) / D"
    using D1(1) by (intro divide_right_mono) auto
  also have "\<dots> \<le> 3 / 2 + 1 / 128" using D1(1) by (simp add: divide_le_eq)
  finally have "\<bar>(of_int T - of_int b * D) / D\<bar> \<le> 3 / 2 + 1 / 128" using D1(1) by simp
  moreover have "(of_int T - of_int b * D) / D = of_int T / D - of_int b"
    using D1(1) by (simp add: diff_divide_distrib)
  ultimately have q: "\<bar>of_int T / D - of_int b\<bar> \<le> 3 / 2 + 1 / 128" by simp
  have "of_int b \<le> (8796093022209 :: rat)" using bb by simp
  then have "\<bar>of_int T / D\<bar> < 17592186044416" using q b0 by linarith
  then have "\<bar>of_int T / D\<bar> < 2 powi 44" by (simp add: power_int_def)
  then have "\<bar>E - of_int T / D\<bar> \<le> 2 powi (44 - 54)" unfolding E_def by (rule dbl_error) simp
  then have "\<bar>E - of_int T / D\<bar> \<le> 1 / 1024" by (simp add: power_int_def power_one_over)
  with q have "\<bar>E - of_int b\<bar> \<le> 3 / 2 + 1 / 64" by linarith
  moreover have "\<bar>of_int (js_round E) - E\<bar> \<le> 1 / 2" unfolding js_round_def by linarith
  ultimately have "\<bar>of_int b - of_int (js_round E) :: rat\<bar> < 3" by linarith
  then have "(of_int \<bar>b - js_round E\<bar> :: rat) < of_int 3" by simp
  then have "\<bar>b - js_round E\<bar> < 3" by (simp only: of_int_less_iff)
  then show ?thesis by (simp add: E_def D_def)
qed

lemma resolveLineTaxBase_correct:
  assumes T: "0 \<le> T" "T \<le> 2 ^ 43" and r: "0 < r" "r \<le> 1000000"
  obtains base where "resolveLineTaxBase (cents T) (rate r) = cents base" "0 \<le> base" "base \<le> T + 1"
    "baseGap T r base \<le> 1" "\<And>b. 0 \<le> b \<Longrightarrow> baseGap T r base \<le> baseGap T r b"
proof -
  have r0: "0 \<le> r" using r(1) by simp
  define s where "s = js_round (dbl (of_int T / dbl (1 + rate r)))"
  note sb = start_bounds [OF T r0 r(2), folded s_def]
  obtain base where base: "resolveLineTaxBase (cents T) (rate r) = cents base" "\<bar>base - s\<bar> \<le> 2"
      "\<And>b. \<bar>b - s\<bar> \<le> 2 \<Longrightarrow> baseGap T r base \<le> baseGap T r b"
    using resolveLineTaxBase_candidate [OF T r s_def] sb by auto
  have near: "baseGap T r base \<le> baseGap T r b" if "0 \<le> b" "baseGap T r b \<le> 1" for b
    using near_start [OF T r0 r(2) that(1)] that(2) base(3) by (simp add: baseGap_def s_def)
  obtain b where b: "0 \<le> b" "b + taxCents b r \<le> T" "T \<le> b + taxCents b r + 1"
    using gross_reached [OF r0 r(2) T(1)] by blast
  then have gap1: "baseGap T r base \<le> 1" using near [of b] by (simp add: baseGap_def)
  have all: "baseGap T r base \<le> baseGap T r b" if "0 \<le> b" for b
    using near [OF that] gap1 by linarith
  have t0: "taxCents 0 r = 0" by (simp add: taxCents_def bigint_div_def)
  have nonneg: "0 \<le> base"
  proof (rule ccontr)
    assume neg: "\<not> 0 \<le> base"
    then have "base * r \<le> - 1 * r" using r by (intro mult_right_mono) auto
    then have "base * r \<le> 0" using r by simp
    then have t: "taxCents base r \<le> 0" by (rule taxCents_le0)
    with neg gap1 T(1) have "T = 0" "baseGap T r base = 1" by (auto simp: baseGap_def)
    with all [of 0] t0 show False by (simp add: baseGap_def)
  qed
  then have "0 \<le> taxCents base r" using r0 by (simp add: taxCents_ge0)
  with gap1 have "base \<le> T + 1" by (simp add: baseGap_def)
  with base(1) nonneg gap1 all show ?thesis by (intro that)
qed

end
