(* ===== verification/Promotions.thy ===== *)
theory Promotions
  imports Prelude "HOL-Library.Char_ord" "HOL-Library.List_Lexorder"
begin

section \<open>Promotions\<close>

text \<open>
  \<open>api/src/modules/pricing/promotions.service.ts\<close> and \<open>promotions.repository.ts\<close>: the
  promotions a tenant defines on products and branches, their validation, creation, update and
  deactivation, and the query by which pricing finds the promotions that apply to a sale. The
  state is the tables the queries touch. A request runs in a transaction: an exception leaves the
  tables as they were. \<open>column\<close> is the conversion of a number by the column
  \<open>numeric(14, 2)\<close> that stores the discount.
\<close>

subsection \<open>State and inputs\<close>

record promotion =
  pr_id :: string
  pr_tenantId :: string
  pr_name :: string
  pr_description :: "string option"
  pr_discountType :: string
  pr_discountValue :: rat
  pr_startsAt :: int
  pr_endsAt :: int
  pr_priority :: int
  pr_isStackable :: bool
  pr_isActive :: bool
  pr_createdBy :: "string option"
  pr_createdAt :: int
  pr_updatedAt :: int

record promotion_db =
  promotions :: "promotion list"
  promotion_products :: "(string \<times> string \<times> string) list"
  promotion_branches :: "(string \<times> string \<times> string) list"
  tenant_products :: "(string \<times> string) list"
  tenant_branches :: "(string \<times> string) list"

record promotion_env =
  pe_uuid :: string
  pe_now :: int
  pe_column :: "rat \<Rightarrow> rat"

record create_promotion =
  cp_tenantId :: string
  cp_name :: "string option"
  cp_description :: "string option"
  cp_discountType :: "string option"
  cp_discountValue :: "jsnum option"
  cp_startsAt :: "string option"
  cp_endsAt :: "string option"
  cp_priority :: "jsnum option"
  cp_isStackable :: "bool option"
  cp_productIds :: "string list option"
  cp_branchIds :: "string list option"
  cp_createdBy :: "string option"

text \<open>An update tells an absent description from a null one.\<close>

record update_promotion =
  up_name :: "string option"
  up_description :: "string option option"
  up_discountType :: "string option"
  up_discountValue :: "jsnum option"
  up_startsAt :: "string option"
  up_endsAt :: "string option"
  up_priority :: "jsnum option"
  up_isStackable :: "bool option"
  up_isActive :: "bool option"
  up_productIds :: "string list option"
  up_branchIds :: "string list option"

definition PROMOTION_DISCOUNT_TYPES :: "string list" where
  "PROMOTION_DISCOUNT_TYPES = [''PERCENTAGE'', ''FIXED_AMOUNT'', ''SPECIAL_PRICE'']"

subsection \<open>Repository\<close>

type_synonym promotion_entity = "promotion \<times> string list \<times> string list"

text \<open>The select of the repository: a row with the ids of its products and branches in order.\<close>

definition selectPromotion :: "promotion_db \<Rightarrow> promotion \<Rightarrow> promotion_entity" where
  "selectPromotion db p =
     (let own = (\<lambda>(t, i, x). t = pr_tenantId p \<and> i = pr_id p)
      in (p, sort (map (snd \<circ> snd) (filter own (promotion_products db))),
             sort (map (snd \<circ> snd) (filter own (promotion_branches db)))))"

definition promotion_findById :: "string \<Rightarrow> string \<Rightarrow> promotion_db \<Rightarrow> promotion_entity option" where
  "promotion_findById tenantId promotionId db =
     map_option (selectPromotion db)
       (find (\<lambda>p. pr_tenantId p = tenantId \<and> pr_id p = promotionId) (promotions db))"

definition countProductsByTenant :: "string \<Rightarrow> string list \<Rightarrow> promotion_db \<Rightarrow> nat" where
  "countProductsByTenant tenantId productIds db =
     length (remdups (map snd (filter (\<lambda>(t, i). t = tenantId \<and> i \<in> set productIds) (tenant_products db))))"

definition countBranchesByTenant :: "string \<Rightarrow> string list \<Rightarrow> promotion_db \<Rightarrow> nat" where
  "countBranchesByTenant tenantId branchIds db =
     length (remdups (map snd (filter (\<lambda>(t, i). t = tenantId \<and> i \<in> set branchIds) (tenant_branches db))))"

definition replaceProducts :: "string \<Rightarrow> string \<Rightarrow> string list \<Rightarrow> promotion_db \<Rightarrow> promotion_db" where
  "replaceProducts tenantId promotionId productIds db =
     db\<lparr>promotion_products :=
       filter (\<lambda>(t, i, _). \<not> (t = tenantId \<and> i = promotionId)) (promotion_products db) @
       map (\<lambda>x. (tenantId, promotionId, x)) productIds\<rparr>"

definition replaceBranches :: "string \<Rightarrow> string \<Rightarrow> string list \<Rightarrow> promotion_db \<Rightarrow> promotion_db" where
  "replaceBranches tenantId promotionId branchIds db =
     db\<lparr>promotion_branches :=
       filter (\<lambda>(t, i, _). \<not> (t = tenantId \<and> i = promotionId)) (promotion_branches db) @
       map (\<lambda>x. (tenantId, promotionId, x)) branchIds\<rparr>"

text \<open>The insert violates the primary key when the id is taken.\<close>

definition createRow :: "promotion \<Rightarrow> string list \<Rightarrow> string list \<Rightarrow> promotion_db \<Rightarrow> promotion_db http" where
  "createRow p productIds branchIds db =
     (if pr_id p \<in> pr_id ` set (promotions db) then Inl (InternalError ''duplicate key'')
      else Inr (replaceBranches (pr_tenantId p) (pr_id p) branchIds
                 (replaceProducts (pr_tenantId p) (pr_id p) productIds
                   (db\<lparr>promotions := promotions db @ [p]\<rparr>))))"

text \<open>The columns an update assigns; None leaves a column alone.\<close>

record promotion_changes =
  ch_name :: "string option"
  ch_description :: "string option option"
  ch_discountType :: string
  ch_discountValue :: rat
  ch_startsAt :: int
  ch_endsAt :: int
  ch_priority :: int
  ch_isStackable :: "bool option"
  ch_isActive :: "bool option"

definition assignColumns :: "promotion_changes \<Rightarrow> int \<Rightarrow> promotion \<Rightarrow> promotion" where
  "assignColumns c now p = p\<lparr>
     pr_name := (case ch_name c of None \<Rightarrow> pr_name p | Some x \<Rightarrow> x),
     pr_description := (case ch_description c of None \<Rightarrow> pr_description p | Some x \<Rightarrow> x),
     pr_discountType := ch_discountType c,
     pr_discountValue := ch_discountValue c,
     pr_startsAt := ch_startsAt c,
     pr_endsAt := ch_endsAt c,
     pr_priority := ch_priority c,
     pr_isStackable := (case ch_isStackable c of None \<Rightarrow> pr_isStackable p | Some x \<Rightarrow> x),
     pr_isActive := (case ch_isActive c of None \<Rightarrow> pr_isActive p | Some x \<Rightarrow> x),
     pr_updatedAt := now\<rparr>"

definition updateRow :: "string \<Rightarrow> string \<Rightarrow> promotion_changes \<Rightarrow> int \<Rightarrow> promotion_db \<Rightarrow> promotion_db" where
  "updateRow tenantId promotionId c now db =
     db\<lparr>promotions := map (\<lambda>p. if pr_tenantId p = tenantId \<and> pr_id p = promotionId
                                then assignColumns c now p else p) (promotions db)\<rparr>"

subsection \<open>Service\<close>

definition getPromotion :: "string \<Rightarrow> string \<Rightarrow> promotion_db \<Rightarrow> promotion_entity http" where
  "getPromotion tenantId promotionId db =
     (case promotion_findById tenantId promotionId db of
        None \<Rightarrow> Inl (NotFound ''promotion not found'')
      | Some e \<Rightarrow> Inr e)"

definition uniqueIds :: "string list option \<Rightarrow> string list" where
  "uniqueIds ids = js_uniq (filter (\<lambda>i. i \<noteq> []) (map js_trim (case ids of None \<Rightarrow> [] | Some xs \<Rightarrow> xs)))"

definition parseDate :: "host \<Rightarrow> string option \<Rightarrow> string \<Rightarrow> int http" where
  "parseDate h v field =
     (case v of
        None \<Rightarrow> Inl (BadRequest (field @ '' is required''))
      | Some s \<Rightarrow>
          if js_trim s = [] then Inl (BadRequest (field @ '' is required''))
          else case date_parse h s of
                 None \<Rightarrow> Inl (BadRequest (field @ '' is invalid''))
               | Some d \<Rightarrow> Inr d)"

definition validateDiscount :: "string option \<Rightarrow> jsnum option \<Rightarrow> unit http" where
  "validateDiscount discountType discountValue =
     (case discountType of
        None \<Rightarrow> Inl (BadRequest ''discountType is invalid'')
      | Some ty \<Rightarrow>
     if ty \<notin> set PROMOTION_DISCOUNT_TYPES then Inl (BadRequest ''discountType is invalid'')
     else case discountValue of
        Some (Fin v) \<Rightarrow>
          if ty = ''PERCENTAGE'' \<and> (v \<le> 0 \<or> v > 100) then
            Inl (BadRequest ''percentage discountValue must be greater than 0 and less than or equal to 100'')
          else if ty = ''FIXED_AMOUNT'' \<and> v \<le> 0 then
            Inl (BadRequest ''fixed amount discountValue must be greater than 0'')
          else if ty = ''SPECIAL_PRICE'' \<and> v < 0 then
            Inl (BadRequest ''special price discountValue must be greater than or equal to 0'')
          else Inr ()
      | _ \<Rightarrow> Inl (BadRequest ''discountValue is required''))"

fun isInteger :: "jsnum \<Rightarrow> bool" where
  "isInteger (Fin x) = (of_int \<lfloor>x\<rfloor> = x)"
| "isInteger _ = False"

definition validateCore ::
  "string option \<Rightarrow> string option \<Rightarrow> jsnum option \<Rightarrow> int \<Rightarrow> int \<Rightarrow> jsnum \<Rightarrow> unit http" where
  "validateCore name discountType discountValue startsAt endsAt priority =
     (if trimmed name = None then Inl (BadRequest ''name is required'')
      else and_then (validateDiscount discountType discountValue) (\<lambda>_.
        if endsAt \<le> startsAt then Inl (BadRequest ''endsAt must be greater than startsAt'')
        else if \<not> isInteger priority \<or> num_lt0 priority then
          Inl (BadRequest ''priority must be a non-negative integer'')
        else Inr ()))"

definition validateTargets :: "string \<Rightarrow> string list \<Rightarrow> string list \<Rightarrow> promotion_db \<Rightarrow> unit http" where
  "validateTargets tenantId productIds branchIds db =
     (if productIds = [] then Inl (BadRequest ''productIds must contain at least one product'')
      else if countProductsByTenant tenantId productIds db \<noteq> length productIds then
        Inl (BadRequest ''all products must belong to tenant'')
      else if branchIds \<noteq> [] \<and> countBranchesByTenant tenantId branchIds db \<noteq> length branchIds then
        Inl (BadRequest ''all branches must belong to tenant'')
      else Inr ())"

text \<open>Reads of validated values; the values outside the validated range never reach them.\<close>

fun num_value :: "jsnum \<Rightarrow> rat" where
  "num_value (Fin x) = x"
| "num_value _ = 0"

definition createPromotion ::
  "host \<Rightarrow> promotion_env \<Rightarrow> create_promotion \<Rightarrow> promotion_db \<Rightarrow> promotion_db http" where
  "createPromotion h env inp db =
     (let productIds = uniqueIds (cp_productIds inp);
          branchIds = uniqueIds (cp_branchIds inp)
      in and_then (parseDate h (cp_startsAt inp) ''startsAt'') (\<lambda>startsAt.
         and_then (parseDate h (cp_endsAt inp) ''endsAt'') (\<lambda>endsAt.
         let priority = (coalesce (cp_priority inp) (Fin 100)) in
         and_then (validateCore (cp_name inp) (cp_discountType inp) (cp_discountValue inp)
                     startsAt endsAt priority) (\<lambda>_.
         and_then (validateTargets (cp_tenantId inp) productIds branchIds db) (\<lambda>_.
         createRow
           \<lparr>pr_id = pe_uuid env, pr_tenantId = cp_tenantId inp,
            pr_name = js_trim (the (cp_name inp)),
            pr_description = trimmed (cp_description inp),
            pr_discountType = the (cp_discountType inp),
            pr_discountValue = pe_column env (num_value (the (cp_discountValue inp))),
            pr_startsAt = startsAt, pr_endsAt = endsAt,
            pr_priority = \<lfloor>num_value priority\<rfloor>,
            pr_isStackable = coalesce (cp_isStackable inp) False,
            pr_isActive = True, pr_createdBy = cp_createdBy inp,
            pr_createdAt = pe_now env, pr_updatedAt = pe_now env\<rparr>
           productIds branchIds db)))))"

definition isPureDeactivation :: "update_promotion \<Rightarrow> bool" where
  "isPureDeactivation inp \<longleftrightarrow>
     up_isActive inp = Some False \<and> up_name inp = None \<and> up_description inp = None \<and>
     up_discountType inp = None \<and> up_discountValue inp = None \<and> up_startsAt inp = None \<and>
     up_endsAt inp = None \<and> up_priority inp = None \<and> up_isStackable inp = None \<and>
     up_productIds inp = None \<and> up_branchIds inp = None"

definition updateChanges :: "promotion_env \<Rightarrow> update_promotion \<Rightarrow> promotion \<Rightarrow> int \<Rightarrow> int \<Rightarrow> promotion_changes" where
  "updateChanges env inp current startsAt endsAt =
     \<lparr>ch_name = map_option js_trim (up_name inp),
      ch_description = map_option trimmed (up_description inp),
      ch_discountType = coalesce (up_discountType inp) (pr_discountType current),
      ch_discountValue = pe_column env (num_value (coalesce (up_discountValue inp) (Fin (pr_discountValue current)))),
      ch_startsAt = startsAt, ch_endsAt = endsAt,
      ch_priority = \<lfloor>num_value (coalesce (up_priority inp) (Fin (of_int (pr_priority current))))\<rfloor>,
      ch_isStackable = up_isStackable inp, ch_isActive = up_isActive inp\<rparr>"

definition writeUpdate ::
  "update_promotion \<Rightarrow> string \<Rightarrow> string \<Rightarrow> promotion_changes \<Rightarrow> int \<Rightarrow> string list \<Rightarrow> string list \<Rightarrow>
   promotion_db \<Rightarrow> promotion_db" where
  "writeUpdate inp tenantId promotionId c now productIds branchIds db =
     (let db1 = updateRow tenantId promotionId c now db;
          db2 = (if up_productIds inp \<noteq> None then replaceProducts tenantId promotionId productIds db1 else db1)
      in if up_branchIds inp \<noteq> None then replaceBranches tenantId promotionId branchIds db2 else db2)"

definition validateUpdate ::
  "update_promotion \<Rightarrow> string \<Rightarrow> promotion \<Rightarrow> int \<Rightarrow> int \<Rightarrow> string list \<Rightarrow> string list \<Rightarrow> promotion_db \<Rightarrow> unit http" where
  "validateUpdate inp tenantId current startsAt endsAt productIds branchIds db =
     (if isPureDeactivation inp then Inr ()
      else and_then (validateCore
              (Some (coalesce (up_name inp) (pr_name current)))
              (Some (coalesce (up_discountType inp) (pr_discountType current)))
              (Some (coalesce (up_discountValue inp) (Fin (pr_discountValue current))))
              startsAt endsAt
              (coalesce (up_priority inp) (Fin (of_int (pr_priority current)))))
             (\<lambda>_. validateTargets tenantId productIds branchIds db))"

definition updateDate :: "host \<Rightarrow> string option \<Rightarrow> int \<Rightarrow> string \<Rightarrow> int http" where
  "updateDate h v current field = (if v = None then Inr current else parseDate h v field)"

definition updatePromotion ::
  "host \<Rightarrow> promotion_env \<Rightarrow> string \<Rightarrow> string \<Rightarrow> update_promotion \<Rightarrow> promotion_db \<Rightarrow> promotion_db http" where
  "updatePromotion h env tenantId promotionId inp db =
     and_then (getPromotion tenantId promotionId db) (\<lambda>(current, currentProducts, currentBranches).
     let productIds = (if up_productIds inp = None then currentProducts else uniqueIds (up_productIds inp));
         branchIds = (if up_branchIds inp = None then currentBranches else uniqueIds (up_branchIds inp))
     in and_then (updateDate h (up_startsAt inp) (pr_startsAt current) ''startsAt'') (\<lambda>startsAt.
        and_then (updateDate h (up_endsAt inp) (pr_endsAt current) ''endsAt'') (\<lambda>endsAt.
        and_then (validateUpdate inp tenantId current startsAt endsAt productIds branchIds db) (\<lambda>_.
          Inr (writeUpdate inp tenantId promotionId (updateChanges env inp current startsAt endsAt)
                 (pe_now env) productIds branchIds db)))))"

definition deactivation :: update_promotion where
  "deactivation = \<lparr>up_name = None, up_description = None, up_discountType = None, up_discountValue = None,
     up_startsAt = None, up_endsAt = None, up_priority = None, up_isStackable = None,
     up_isActive = Some False, up_productIds = None, up_branchIds = None\<rparr>"

definition deactivatePromotion ::
  "host \<Rightarrow> promotion_env \<Rightarrow> string \<Rightarrow> string \<Rightarrow> promotion_db \<Rightarrow> promotion_db http" where
  "deactivatePromotion h env tenantId promotionId = updatePromotion h env tenantId promotionId deactivation"

subsection \<open>Promotions that apply to a sale\<close>

record pricing_promotion =
  pp_id :: string
  pp_name :: string
  pp_discountType :: string
  pp_discountValue :: rat
  pp_priority :: int
  pp_createdAt :: int

definition applicable :: "promotion_db \<Rightarrow> string \<Rightarrow> string \<Rightarrow> string \<Rightarrow> int \<Rightarrow> promotion \<Rightarrow> bool" where
  "applicable db tenantId branchId productId date p \<longleftrightarrow>
     pr_tenantId p = tenantId \<and>
     (tenantId, pr_id p, productId) \<in> set (promotion_products db) \<and>
     pr_isActive p \<and> pr_startsAt p \<le> date \<and> pr_endsAt p \<ge> date \<and>
     ((\<forall>(t, i, _) \<in> set (promotion_branches db). \<not> (i = pr_id p \<and> t = pr_tenantId p)) \<or>
      (\<exists>(t, i, b) \<in> set (promotion_branches db). i = pr_id p \<and> t = pr_tenantId p \<and> b = branchId))"

definition promotionRowOrder :: "promotion \<Rightarrow> promotion \<Rightarrow> rat" where
  "promotionRowOrder p q =
     (if pr_priority p \<noteq> pr_priority q then of_int (pr_priority p - pr_priority q)
      else if pr_createdAt p \<noteq> pr_createdAt q then of_int (pr_createdAt q - pr_createdAt p)
      else if pr_id p = pr_id q then 0 else if pr_id p < pr_id q then - 1 else 1)"

definition findApplicablePromotions ::
  "promotion_db \<Rightarrow> string \<Rightarrow> string \<Rightarrow> string \<Rightarrow> int \<Rightarrow> pricing_promotion list" where
  "findApplicablePromotions db tenantId branchId productId date =
     map (\<lambda>p. \<lparr>pp_id = pr_id p, pp_name = pr_name p, pp_discountType = pr_discountType p,
               pp_discountValue = pr_discountValue p, pp_priority = pr_priority p,
               pp_createdAt = pr_createdAt p\<rparr>)
       (js_sort promotionRowOrder
         (filter (applicable db tenantId branchId productId date) (promotions db)))"

subsection \<open>Requests\<close>

datatype promotion_request =
    Create host promotion_env create_promotion
  | Update host promotion_env string string update_promotion
  | Deactivate host promotion_env string string

fun serve_promotion :: "promotion_request \<Rightarrow> promotion_db \<Rightarrow> promotion_db http" where
  "serve_promotion (Create h env inp) db = createPromotion h env inp db"
| "serve_promotion (Update h env tenantId i inp) db = updatePromotion h env tenantId i inp db"
| "serve_promotion (Deactivate h env tenantId i) db = deactivatePromotion h env tenantId i db"

fun request_env :: "promotion_request \<Rightarrow> promotion_env" where
  "request_env (Create _ env _) = env"
| "request_env (Update _ env _ _ _) = env"
| "request_env (Deactivate _ env _ _) = env"

text \<open>What is relied on of the column: it keeps a value in its range.\<close>

definition column_ok :: "promotion_request \<Rightarrow> bool" where
  "column_ok r \<longleftrightarrow> (\<forall>x. (0 \<le> x \<longrightarrow> 0 \<le> pe_column (request_env r) x) \<and>
                      (x \<le> 100 \<longrightarrow> pe_column (request_env r) x \<le> 100))"

subsection \<open>The tables stay well formed\<close>

definition promotion_valid :: "promotion \<Rightarrow> bool" where
  "promotion_valid p \<longleftrightarrow> pr_name p \<noteq> [] \<and> pr_discountType p \<in> set PROMOTION_DISCOUNT_TYPES \<and>
     0 \<le> pr_discountValue p \<and> (pr_discountType p = ''PERCENTAGE'' \<longrightarrow> pr_discountValue p \<le> 100) \<and>
     pr_startsAt p < pr_endsAt p \<and> 0 \<le> pr_priority p"

definition owned :: "(string \<times> string \<times> string) list \<Rightarrow> (string \<times> string) list \<Rightarrow> bool" where
  "owned links owners \<longleftrightarrow> (\<forall>t i x. (t, i, x) \<in> set links \<longrightarrow> (t, x) \<in> set owners)"

definition targets_valid :: "promotion_db \<Rightarrow> bool" where
  "targets_valid db \<longleftrightarrow>
     owned (promotion_products db) (tenant_products db) \<and>
     owned (promotion_branches db) (tenant_branches db) \<and>
     (\<forall>p \<in> set (promotions db). \<exists>x. (pr_tenantId p, pr_id p, x) \<in> set (promotion_products db))"

definition promotions_wf :: "promotion_db \<Rightarrow> bool" where
  "promotions_wf db \<longleftrightarrow> (\<forall>p \<in> set (promotions db). promotion_valid p) \<and> targets_valid db"

lemma validateDiscount_Inr:
  "validateDiscount ty v = Inr u \<longleftrightarrow> (\<exists>t x. ty = Some t \<and> v = Some (Fin x) \<and> t \<in> set PROMOTION_DISCOUNT_TYPES \<and>
     (t = ''PERCENTAGE'' \<longrightarrow> 0 < x \<and> x \<le> 100) \<and> (t = ''FIXED_AMOUNT'' \<longrightarrow> 0 < x) \<and> (t = ''SPECIAL_PRICE'' \<longrightarrow> 0 \<le> x))"
proof (cases ty)
  case (Some t)
  show ?thesis
  proof (cases v)
    case v: (Some w)
    show ?thesis
    proof (cases w)
      case (Fin x)
      define P Q R where "P \<longleftrightarrow> t = ''PERCENTAGE''" and "Q \<longleftrightarrow> t = ''FIXED_AMOUNT''" and "R \<longleftrightarrow> t = ''SPECIAL_PRICE''"
      show ?thesis unfolding validateDiscount_def \<open>ty = Some t\<close> v Fin
        by (simp add: P_def [symmetric] Q_def [symmetric] R_def [symmetric]) auto
    qed (simp_all add: validateDiscount_def Some v)
  qed (simp add: validateDiscount_def Some)
qed (simp add: validateDiscount_def)

lemma discount_nonneg:
  assumes "validateDiscount (Some t) (Some (Fin x)) = Inr u" shows "0 \<le> x"
proof -
  have "t = ''PERCENTAGE'' \<or> t = ''FIXED_AMOUNT'' \<or> t = ''SPECIAL_PRICE''"
    using assms unfolding validateDiscount_Inr PROMOTION_DISCOUNT_TYPES_def by simp
  then show ?thesis using assms unfolding validateDiscount_Inr by (elim disjE) simp_all
qed

lemma discount_range:
  assumes "validateDiscount (Some t) (Some (Fin x)) = Inr u"
  shows "t \<in> set PROMOTION_DISCOUNT_TYPES" "t = ''PERCENTAGE'' \<longrightarrow> x \<le> 100"
  using assms unfolding validateDiscount_Inr by blast+

lemma isInteger_floor: "isInteger n \<Longrightarrow> \<not> num_lt0 n \<Longrightarrow> 0 \<le> \<lfloor>num_value n\<rfloor>"
  by (cases n) auto

lemma validateCore_Inr:
  "validateCore name ty v s e n = Inr u \<longleftrightarrow> trimmed name \<noteq> None \<and> validateDiscount ty v = Inr () \<and> s < e \<and>
     isInteger n \<and> \<not> num_lt0 n"
  by (auto simp: validateCore_def and_then_Inr)

lemma owned_count:
  assumes "distinct ids" "length (remdups (map snd (filter (\<lambda>(t, i). t = tn \<and> i \<in> set ids) xs))) = length ids"
    "x \<in> set ids"
  shows "(tn, x) \<in> set xs"
proof -
  define own where "own = set (map snd (filter (\<lambda>(t, i). t = tn \<and> i \<in> set ids) xs))"
  have "card own = card (set ids)" using assms(1,2) by (simp add: own_def distinct_card length_remdups_card_conv)
  moreover have "own \<subseteq> set ids" by (auto simp: own_def)
  ultimately have "own = set ids" by (simp add: card_subset_eq)
  with assms(3) show ?thesis by (auto simp: own_def)
qed

lemma validateTargets_Inr:
  assumes "validateTargets tn ps bs db = Inr u"
  shows "ps \<noteq> []" "distinct ps \<Longrightarrow> x \<in> set ps \<Longrightarrow> (tn, x) \<in> set (tenant_products db)"
    "distinct bs \<Longrightarrow> x \<in> set bs \<Longrightarrow> (tn, x) \<in> set (tenant_branches db)"
  using assms owned_count [of ps tn "tenant_products db" x] owned_count [of bs tn "tenant_branches db" x]
  by (auto simp: validateTargets_def countProductsByTenant_def countBranchesByTenant_def split: if_splits)

lemma distinct_uniqueIds [simp]: "distinct (uniqueIds ids)"
  by (simp add: uniqueIds_def)

text \<open>Writing the targets of one promotion keeps those of the others.\<close>

lemma owned_replace:
  assumes "owned links owners" "\<And>x. x \<in> set xs \<Longrightarrow> (tn, x) \<in> set owners"
  shows "owned (filter P links @ map (\<lambda>x. (tn, i, x)) xs) owners"
  using assms by (auto simp: owned_def)

lemma link_replace:
  assumes "\<exists>x. (t, j, x) \<in> set links" "xs \<noteq> []"
  shows "\<exists>x. (t, j, x) \<in> set (filter (\<lambda>(t', i', _). \<not> (t' = tn \<and> i' = i)) links @ map (\<lambda>x. (tn, i, x)) xs)"
proof (cases "t = tn \<and> j = i")
  case True
  then show ?thesis using assms(2) by (intro exI [of _ "hd xs"]) auto
next
  case False
  then show ?thesis using assms(1) by auto
qed

lemma replaceProducts_wf:
  assumes "targets_valid db" "ps \<noteq> []" "\<And>x. x \<in> set ps \<Longrightarrow> (tn, x) \<in> set (tenant_products db)"
  shows "targets_valid (replaceProducts tn i ps db)"
  using assms owned_replace [of "promotion_products db" "tenant_products db" ps tn _ i]
    link_replace [of _ _ "promotion_products db" ps tn i]
  by (simp add: targets_valid_def replaceProducts_def)

lemma replaceBranches_wf:
  assumes "targets_valid db" "\<And>x. x \<in> set bs \<Longrightarrow> (tn, x) \<in> set (tenant_branches db)"
  shows "targets_valid (replaceBranches tn i bs db)"
  using assms owned_replace [of "promotion_branches db" "tenant_branches db" bs tn _ i]
  by (simp add: targets_valid_def replaceBranches_def)

lemma createRow_wf:
  assumes wf: "promotions_wf db" and p: "promotion_valid p"
    and ps: "ps \<noteq> []" "\<And>x. x \<in> set ps \<Longrightarrow> (pr_tenantId p, x) \<in> set (tenant_products db)"
    and bs: "\<And>x. x \<in> set bs \<Longrightarrow> (pr_tenantId p, x) \<in> set (tenant_branches db)"
    and row: "createRow p ps bs db = Inr db'"
  shows "promotions_wf db'"
proof -
  define db1 where "db1 = replaceProducts (pr_tenantId p) (pr_id p) ps (db\<lparr>promotions := promotions db @ [p]\<rparr>)"
  have db': "db' = replaceBranches (pr_tenantId p) (pr_id p) bs db1"
    using row by (simp add: createRow_def db1_def split: if_splits)
  have tv: "targets_valid db" using wf by (simp add: promotions_wf_def)
  have links: "\<exists>x. (pr_tenantId p, pr_id p, x) \<in> set (promotion_products db1)"
    using ps(1) by (intro exI [of _ "hd ps"]) (simp add: db1_def replaceProducts_def)
  have old: "\<exists>x. (pr_tenantId q, pr_id q, x) \<in> set (promotion_products db1)" if "q \<in> set (promotions db)" for q
    using link_replace [of "pr_tenantId q" "pr_id q" "promotion_products db" ps "pr_tenantId p" "pr_id p"]
      ps(1) tv that by (simp add: db1_def replaceProducts_def targets_valid_def)
  have "targets_valid db1"
    using tv links old owned_replace [of "promotion_products db" "tenant_products db" ps "pr_tenantId p" _ "pr_id p"] ps(2)
    by (auto simp: targets_valid_def db1_def replaceProducts_def)
  then have "targets_valid db'" unfolding db' by (rule replaceBranches_wf) (simp add: db1_def replaceProducts_def bs)
  moreover have "promotions db' = promotions db @ [p]"
    by (simp add: db' db1_def replaceBranches_def replaceProducts_def)
  ultimately show ?thesis using wf p by (auto simp: promotions_wf_def)
qed

lemma createPromotion_wf:
  assumes wf: "promotions_wf db" and col: "column_ok (Create h env inp)"
    and ok: "createPromotion h env inp db = Inr db'"
  shows "promotions_wf db'"
proof -
  obtain s e where *: "validateCore (cp_name inp) (cp_discountType inp) (cp_discountValue inp) s e
        (coalesce (cp_priority inp) (Fin 100)) = Inr ()"
      "validateTargets (cp_tenantId inp) (uniqueIds (cp_productIds inp)) (uniqueIds (cp_branchIds inp)) db = Inr ()"
      "createRow \<lparr>pr_id = pe_uuid env, pr_tenantId = cp_tenantId inp, pr_name = js_trim (the (cp_name inp)),
         pr_description = trimmed (cp_description inp), pr_discountType = the (cp_discountType inp),
         pr_discountValue = pe_column env (num_value (the (cp_discountValue inp))),
         pr_startsAt = s, pr_endsAt = e,
         pr_priority = \<lfloor>num_value (coalesce (cp_priority inp) (Fin 100))\<rfloor>,
         pr_isStackable = coalesce (cp_isStackable inp) False,
         pr_isActive = True, pr_createdBy = cp_createdBy inp,
         pr_createdAt = pe_now env, pr_updatedAt = pe_now env\<rparr>
         (uniqueIds (cp_productIds inp)) (uniqueIds (cp_branchIds inp)) db = Inr db'"
    using ok by (auto simp: createPromotion_def and_then_Inr Let_def)
  note core = *(1) [unfolded validateCore_Inr]
  obtain t x where tx: "cp_discountType inp = Some t" "cp_discountValue inp = Some (Fin x)"
    using core by (auto simp: validateDiscount_Inr)
  have x: "0 \<le> x" "t \<in> set PROMOTION_DISCOUNT_TYPES" "t = ''PERCENTAGE'' \<longrightarrow> x \<le> 100"
    using core discount_nonneg [of t x "()"] discount_range [of t x "()"] unfolding tx by blast+
  have name: "js_trim (the (cp_name inp)) \<noteq> []"
    using core by (auto simp: trimmed_def split: option.splits if_splits)
  have col': "0 \<le> pe_column env x" "x \<le> 100 \<Longrightarrow> pe_column env x \<le> 100"
    using col x(1) by (simp_all add: column_ok_def)
  have prio: "0 \<le> \<lfloor>num_value (coalesce (cp_priority inp) (Fin 100))\<rfloor>"
    using core by (intro isInteger_floor) simp_all
  note targets = validateTargets_Inr [OF *(2)]
  show ?thesis
  proof (rule createRow_wf [OF wf _ _ _ _ *(3)], goal_cases)
    case 1
    then show ?case using core x col' name prio unfolding promotion_valid_def by (simp only: promotion.simps tx option.sel num_value.simps) blast
  qed (use targets in simp_all)
qed

lemma updateRow_targets: "targets_valid db \<Longrightarrow> targets_valid (updateRow tn i c now db)"
  by (auto simp: targets_valid_def updateRow_def assignColumns_def)

lemma updateRow_tables [simp]:
  "tenant_products (updateRow tn i c now db) = tenant_products db"
  "tenant_branches (updateRow tn i c now db) = tenant_branches db"
  "tenant_products (replaceProducts tn i ps db) = tenant_products db"
  "tenant_branches (replaceProducts tn i ps db) = tenant_branches db"
  "promotions (replaceProducts tn i ps db) = promotions db"
  "promotions (replaceBranches tn i bs db) = promotions db"
  by (simp_all add: updateRow_def replaceProducts_def replaceBranches_def)

text \<open>The columns an update assigns are valid, whether validated or those of the old row.\<close>

definition changes_valid :: "promotion_changes \<Rightarrow> bool" where
  "changes_valid c \<longleftrightarrow> ch_name c \<noteq> Some [] \<and> ch_discountType c \<in> set PROMOTION_DISCOUNT_TYPES \<and>
     0 \<le> ch_discountValue c \<and> (ch_discountType c = ''PERCENTAGE'' \<longrightarrow> ch_discountValue c \<le> 100) \<and>
     ch_startsAt c < ch_endsAt c \<and> 0 \<le> ch_priority c"

lemma assignColumns_valid:
  "promotion_valid p \<Longrightarrow> changes_valid c \<Longrightarrow> promotion_valid (assignColumns c now p)"
  unfolding promotion_valid_def changes_valid_def assignColumns_def
  by (simp split: option.split) blast

lemma updateRow_valid:
  assumes "\<forall>p\<in>set (promotions db). promotion_valid p" "changes_valid c"
  shows "\<forall>p\<in>set (promotions (updateRow tn i c now db)). promotion_valid p"
  using assms by (auto simp: updateRow_def intro: assignColumns_valid)

lemma getPromotion_row:
  assumes "getPromotion tn i db = Inr (p, ps, bs)"
  shows "p \<in> set (promotions db)" "pr_tenantId p = tn" "pr_id p = i"
  using assms
  by (auto simp: getPromotion_def promotion_findById_def selectPromotion_def Let_def find_Some_iff
      split: option.splits)

lemma updateChanges_valid:
  assumes old: "promotion_valid cur" and col: "column_ok (Update h env tn i inp)"
    and dates: "updateDate h (up_startsAt inp) (pr_startsAt cur) ''startsAt'' = Inr s"
      "updateDate h (up_endsAt inp) (pr_endsAt cur) ''endsAt'' = Inr e"
    and ok: "validateUpdate inp tn cur s e ps bs db = Inr u"
  shows "changes_valid (updateChanges env inp cur s e)"
proof -
  define ty v prio where "ty = coalesce (up_discountType inp) (pr_discountType cur)"
    and "v = coalesce (up_discountValue inp) (Fin (pr_discountValue cur))"
    and "prio = coalesce (up_priority inp) (Fin (of_int (pr_priority cur)))"
  note defs = ty_def [symmetric] v_def [symmetric] prio_def [symmetric]
  have colx: "0 \<le> x \<Longrightarrow> 0 \<le> pe_column env x" "x \<le> 100 \<Longrightarrow> pe_column env x \<le> 100" for x
    using col by (simp_all add: column_ok_def)
  show ?thesis
  proof (cases "isPureDeactivation inp")
    case True
    then have "ty = pr_discountType cur" "v = Fin (pr_discountValue cur)" "s = pr_startsAt cur"
      "e = pr_endsAt cur" "prio = Fin (of_int (pr_priority cur))" "up_name inp = None"
      using dates by (simp_all add: isPureDeactivation_def updateDate_def ty_def v_def prio_def)
    with old colx show ?thesis
      unfolding changes_valid_def promotion_valid_def updateChanges_def defs by simp
  next
    case False
    then have core: "validateCore (Some (coalesce (up_name inp) (pr_name cur))) (Some ty) (Some v) s e prio = Inr ()"
      using ok by (simp add: validateUpdate_def and_then_Inr defs)
    note core = core [unfolded validateCore_Inr]
    obtain x where x: "v = Fin x" using core by (auto simp: validateDiscount_Inr)
    have "0 \<le> x" "ty \<in> set PROMOTION_DISCOUNT_TYPES" "ty = ''PERCENTAGE'' \<longrightarrow> x \<le> 100"
      using core discount_nonneg [of ty x "()"] discount_range [of ty x "()"] unfolding x by blast+
    moreover have "0 \<le> \<lfloor>num_value prio\<rfloor>" using core by (intro isInteger_floor) simp_all
    moreover have "map_option js_trim (up_name inp) \<noteq> Some []"
      using core by (auto simp: trimmed_def split: if_splits)
    ultimately show ?thesis using core colx unfolding changes_valid_def updateChanges_def defs x by simp
  qed
qed

lemma validateUpdate_targets:
  assumes "validateUpdate inp tn cur s e ps bs db = Inr u"
  shows "up_productIds inp \<noteq> None \<Longrightarrow> ps \<noteq> []"
    "up_productIds inp \<noteq> None \<Longrightarrow> distinct ps \<Longrightarrow> x \<in> set ps \<Longrightarrow> (tn, x) \<in> set (tenant_products db)"
    "up_branchIds inp \<noteq> None \<Longrightarrow> distinct bs \<Longrightarrow> x \<in> set bs \<Longrightarrow> (tn, x) \<in> set (tenant_branches db)"
proof -
  have "isPureDeactivation inp \<or> validateTargets tn ps bs db = Inr ()"
    using assms by (auto simp: validateUpdate_def and_then_Inr split: if_splits)
  then show "up_productIds inp \<noteq> None \<Longrightarrow> ps \<noteq> []"
    "up_productIds inp \<noteq> None \<Longrightarrow> distinct ps \<Longrightarrow> x \<in> set ps \<Longrightarrow> (tn, x) \<in> set (tenant_products db)"
    "up_branchIds inp \<noteq> None \<Longrightarrow> distinct bs \<Longrightarrow> x \<in> set bs \<Longrightarrow> (tn, x) \<in> set (tenant_branches db)"
    using validateTargets_Inr [of tn ps bs db "()"] by (auto simp: isPureDeactivation_def)
qed

lemma writeUpdate_wf:
  assumes "promotions_wf db" "changes_valid c"
    and ps: "up_productIds inp \<noteq> None \<Longrightarrow> ps \<noteq> []"
      "\<And>x. up_productIds inp \<noteq> None \<Longrightarrow> x \<in> set ps \<Longrightarrow> (tn, x) \<in> set (tenant_products db)"
    and bs: "\<And>x. up_branchIds inp \<noteq> None \<Longrightarrow> x \<in> set bs \<Longrightarrow> (tn, x) \<in> set (tenant_branches db)"
  shows "promotions_wf (writeUpdate inp tn i c now ps bs db)"
proof -
  define db1 db2 where "db1 = updateRow tn i c now db"
    and "db2 = (if up_productIds inp \<noteq> None then replaceProducts tn i ps db1 else db1)"
  have "\<forall>p\<in>set (promotions db1). promotion_valid p" "targets_valid db1"
    using assms(1,2) updateRow_valid updateRow_targets by (auto simp: promotions_wf_def db1_def)
  moreover from this have "targets_valid db2"
    using ps replaceProducts_wf [of db1 ps tn i] by (auto simp: db2_def db1_def)
  moreover from this have "targets_valid (if up_branchIds inp \<noteq> None then replaceBranches tn i bs db2 else db2)"
    using bs replaceBranches_wf [of db2 bs tn i] by (auto simp: db2_def db1_def)
  moreover have "writeUpdate inp tn i c now ps bs db =
      (if up_branchIds inp \<noteq> None then replaceBranches tn i bs db2 else db2)"
    by (simp add: writeUpdate_def Let_def db1_def db2_def)
  moreover have "promotions \<dots> = promotions db1" by (simp add: db2_def)
  ultimately show ?thesis unfolding promotions_wf_def by (simp only: simp_thms)
qed

lemma updatePromotion_wf:
  assumes wf: "promotions_wf db" and col: "column_ok (Update h env tn i inp)"
    and ok: "updatePromotion h env tn i inp db = Inr db'"
  shows "promotions_wf db'"
proof -
  obtain cur cps cbs s e where cur: "getPromotion tn i db = Inr (cur, cps, cbs)"
    and dates: "updateDate h (up_startsAt inp) (pr_startsAt cur) ''startsAt'' = Inr s"
      "updateDate h (up_endsAt inp) (pr_endsAt cur) ''endsAt'' = Inr e"
    and chk: "validateUpdate inp tn cur s e (if up_productIds inp = None then cps else uniqueIds (up_productIds inp))
        (if up_branchIds inp = None then cbs else uniqueIds (up_branchIds inp)) db = Inr ()"
    and db': "db' = writeUpdate inp tn i (updateChanges env inp cur s e) (pe_now env)
        (if up_productIds inp = None then cps else uniqueIds (up_productIds inp))
        (if up_branchIds inp = None then cbs else uniqueIds (up_branchIds inp)) db"
    using ok by (auto simp: updatePromotion_def and_then_Inr Let_def)
  have old: "promotion_valid cur" using wf getPromotion_row [OF cur] by (simp add: promotions_wf_def)
  show ?thesis unfolding db'
    by (rule writeUpdate_wf [OF wf updateChanges_valid [OF old col dates chk]])
       (use validateUpdate_targets [OF chk] in \<open>auto\<close>)
qed

interpretation promotion_tables: preserved_by column_ok serve_promotion promotions_wf
proof
  fix r db db' assume *: "column_ok r" "promotions_wf db" "serve_promotion r db = Inr db'"
  show "promotions_wf db'"
  proof (cases r)
    case (Create h env inp)
    with * show ?thesis by (auto intro: createPromotion_wf)
  next
    case (Update h env tn i inp)
    with * show ?thesis by (auto intro: updatePromotion_wf)
  next
    case (Deactivate h env tn i)
    with * have "column_ok (Update h env tn i deactivation)" by (simp add: column_ok_def)
    with * Deactivate show ?thesis by (auto simp: deactivatePromotion_def intro: updatePromotion_wf)
  qed
qed

subsection \<open>Properties\<close>

text \<open>Promotion tables stay well formed. Starting from tables in which every promotion
  has a name, a known discount type, a discount that is not negative and at most 100 when it is a
  percentage, a start before its end and a priority that is not negative, in which every target
  belongs to the tenant and every promotion targets a product, no sequence of creations, updates
  and deactivations leads out of them, whatever the requests contain, as long as the numeric column
  keeps discounts in their range.\<close>

theorem promotion_tables_wf:
  assumes "promotions_wf db" "\<forall>r\<in>set rs. column_ok r"
  shows "promotions_wf (attempts serve_promotion rs db)"
  by (rule promotion_tables.ok_attempts_preserve [OF assms])

definition demo_host :: host where
  "demo_host = \<lparr>date_parse = (\<lambda>s. if s = ''2026-01-01'' then Some 1767225600000
       else if s = ''2026-02-01'' then Some 1769904000000 else None),
     iso_string = (\<lambda>_. []), locale_compare = (\<lambda>_ _. 0), sha256_hex = (\<lambda>_. [])\<rparr>"

definition demo_promotion_env :: promotion_env where
  "demo_promotion_env = \<lparr>pe_uuid = ''p1'', pe_now = 1767000000000, pe_column = to_fixed2\<rparr>"

definition demo_create :: create_promotion where
  "demo_create = \<lparr>cp_tenantId = ''t'', cp_name = Some '' Enero '', cp_description = None,
     cp_discountType = Some ''PERCENTAGE'', cp_discountValue = Some (Fin 10),
     cp_startsAt = Some ''2026-01-01'', cp_endsAt = Some ''2026-02-01'', cp_priority = None,
     cp_isStackable = None, cp_productIds = Some [''a'', '' a ''], cp_branchIds = None,
     cp_createdBy = Some ''u''\<rparr>"

definition demo_promotions :: promotion_db where
  "demo_promotions = \<lparr>promotions = [], promotion_products = [], promotion_branches = [],
     tenant_products = [(''t'', ''a''), (''t'', ''b'')], tenant_branches = [(''t'', ''x'')]\<rparr>"

lemma demo_promotions_run:
  "promotions (attempts serve_promotion [Create demo_host demo_promotion_env demo_create,
     Deactivate demo_host demo_promotion_env ''t'' ''p1''] demo_promotions) =
   [\<lparr>pr_id = ''p1'', pr_tenantId = ''t'', pr_name = ''Enero'', pr_description = None,
     pr_discountType = ''PERCENTAGE'', pr_discountValue = 10, pr_startsAt = 1767225600000,
     pr_endsAt = 1769904000000, pr_priority = 100, pr_isStackable = False, pr_isActive = False,
     pr_createdBy = Some ''u'', pr_createdAt = 1767000000000, pr_updatedAt = 1767000000000\<rparr>]"
  by code_simp

lemma promotion_tables_wf_witness:
  "promotions_wf (attempts serve_promotion [Create demo_host demo_promotion_env demo_create,
     Deactivate demo_host demo_promotion_env ''t'' ''p1''] demo_promotions)"
proof (rule promotion_tables_wf)
  show "promotions_wf demo_promotions"
    by (simp add: demo_promotions_def promotions_wf_def targets_valid_def owned_def)
  have "to_fixed2 100 = 100" using to_fixed2_of_cents [of 10000] dbl_int [of 100] by (simp add: cents_def)
  then have "x \<le> 100 \<Longrightarrow> to_fixed2 x \<le> 100" for x using to_fixed2_mono [of x 100] by simp
  then show "\<forall>r\<in>set [Create demo_host demo_promotion_env demo_create,
      Deactivate demo_host demo_promotion_env ''t'' ''p1'']. column_ok r"
    by (simp add: column_ok_def demo_promotion_env_def to_fixed2_nonneg)
qed

end
