(* ===== verification/Pricing_Service.thy ===== *)
theory Pricing_Service
  imports Pricing_Rounding Promotions
begin

section \<open>The pricing service\<close>

text \<open>
  \<open>api/src/modules/pricing/pricing.service.ts\<close> with the row mapping of
  \<open>pricing.repository.ts\<close>: the price, the taxes and the promotion of a sale line. Numbers are
  rationals rounded by \<open>dbl\<close> after every operation; in the tests of a comparison and in the
  sign of a sort comparator the rounding cannot change the result and is left out. The SQL
  functions that list the taxes and the tax profile of a product are parameters of the database.
\<close>

subsection \<open>Snapshots\<close>

record product_tax =
  tx_taxId :: string
  tx_taxName :: string
  tx_dianCode :: "string option"
  tx_taxTypeCode :: "string option"
  tx_calculationMethodCode :: "string option"
  tx_taxBaseTypeCode :: "string option"
  tx_calculationOrder :: rat
  tx_isIncluded :: bool
  tx_rate :: rat
  tx_percentageRate :: "rat option"
  tx_fixedAmount :: "rat option"
  tx_baseQuantity :: "rat option"
  tx_baseUnitCode :: "string option"

record tax_profile =
  tp_taxProductCategoryId :: string
  tp_alcoholDegree :: "rat option"
  tp_netVolumeMl :: "rat option"
  tp_daneCertifiedRetailPrice :: "rat option"

record product_snapshot =
  ps_id :: string
  ps_tenantId :: string
  ps_price :: rat
  ps_priceWithTax :: "rat option"
  ps_priceWithoutTax :: "rat option"
  ps_taxId :: "string option"
  ps_taxRate :: rat
  ps_taxIsIncluded :: bool
  ps_taxes :: "product_tax list"
  ps_taxProfile :: "tax_profile option"
  ps_isActive :: bool

record preview_tax =
  pt_taxId :: string
  pt_taxName :: string
  pt_dianCode :: "string option"
  pt_taxTypeCode :: "string option"
  pt_calculationMethodCode :: "string option"
  pt_taxRate :: rat
  pt_taxBase :: rat
  pt_taxAmount :: rat
  pt_isIncluded :: bool

record breakdown =
  bd_taxId :: "string option"
  bd_taxRate :: rat
  bd_taxBase :: rat
  bd_taxAmount :: rat
  bd_taxes :: "preview_tax list"
  bd_lineSubtotal :: rat
  bd_lineTotal :: rat

record line_preview =
  lp_productId :: string
  lp_quantity :: rat
  lp_baseUnitPrice :: rat
  lp_finalUnitPrice :: rat
  lp_discountAmount :: rat
  lp_discountPercent :: rat
  lp_appliedPromotionId :: "string option"
  lp_appliedPromotionName :: "string option"
  lp_taxId :: "string option"
  lp_taxRate :: rat
  lp_taxBase :: rat
  lp_taxAmount :: rat
  lp_taxes :: "preview_tax list"
  lp_lineSubtotal :: rat
  lp_lineTotal :: rat
  lp_explanation :: string

subsection \<open>Kinds of tax\<close>

definition isAdValoremTax :: "product_tax \<Rightarrow> bool" where
  "isAdValoremTax tax \<longleftrightarrow>
     tx_taxTypeCode tax = Some ''AD_VALOREM'' \<or>
     tx_taxBaseTypeCode tax = Some ''DANE_CERTIFIED_RETAIL_PRICE'' \<or>
     tx_calculationMethodCode tax = Some ''AD_VALOREM''"

definition isPercentageTax :: "product_tax \<Rightarrow> bool" where
  "isPercentageTax tax \<longleftrightarrow>
     \<not> isAdValoremTax tax \<and>
     (tx_calculationMethodCode tax = None \<or> tx_calculationMethodCode tax = Some ''PERCENTAGE'')"

definition isAlcoholDegreeVolumeTax :: "product_tax \<Rightarrow> bool" where
  "isAlcoholDegreeVolumeTax tax \<longleftrightarrow> tx_calculationMethodCode tax = Some ''PER_ALCOHOL_DEGREE_VOLUME''"

definition isFixedAmountTax :: "product_tax \<Rightarrow> bool" where
  "isFixedAmountTax tax \<longleftrightarrow> tx_calculationMethodCode tax = Some ''FIXED_AMOUNT''"

definition taxOrder :: "product_tax \<Rightarrow> product_tax \<Rightarrow> rat" where
  "taxOrder left right = tx_calculationOrder left - tx_calculationOrder right"

definition getAssignedTaxes :: "product_snapshot \<Rightarrow> product_tax list" where
  "getAssignedTaxes product = js_sort taxOrder (ps_taxes product)"

definition getBridgePercentageTax :: "product_snapshot \<Rightarrow> product_tax option" where
  "getBridgePercentageTax product =
     (let assigned = getAssignedTaxes product;
          matched = (if truthy (ps_taxId product)
                     then find (\<lambda>tax. Some (tx_taxId tax) = ps_taxId product) assigned else None);
          vatTax = find (\<lambda>tax. isPercentageTax tax \<and>
                     (tx_taxTypeCode tax = Some ''VAT'' \<or> tx_dianCode tax = Some ''01'' \<or>
                      str_includes (js_upper (tx_taxName tax)) ''IVA'')) assigned;
          fallback = (case vatTax of Some v \<Rightarrow> Some v | None \<Rightarrow> find isPercentageTax assigned)
      in case matched of
           Some m \<Rightarrow> if isPercentageTax m then Some m else fallback
         | None \<Rightarrow> fallback)"

fun getPercentageRate :: "product_tax option \<Rightarrow> rat" where
  "getPercentageRate None = 0"
| "getPercentageRate (Some tax) = coalesce (tx_percentageRate tax) (tx_rate tax)"

subsection \<open>Unit prices\<close>

definition getCustomerUnitPrice :: "product_snapshot \<Rightarrow> rat" where
  "getCustomerUnitPrice product = roundCurrency (coalesce (ps_priceWithTax product) (ps_price product))"

definition getTaxCalculationUnitPrice :: "product_snapshot \<Rightarrow> rat \<Rightarrow> rat" where
  "getTaxCalculationUnitPrice product customerUnitPrice =
     (case (ps_priceWithTax product, ps_priceWithoutTax product) of
        (Some configuredCustomerPrice, Some configuredFiscalPrice) \<Rightarrow>
          if configuredCustomerPrice \<le> 0 then roundCurrency (ps_price product)
          else let promotionFactor = dbl (customerUnitPrice / configuredCustomerPrice)
               in roundCurrency (dbl (configuredFiscalPrice * promotionFactor))
      | _ \<Rightarrow> roundCurrency (ps_price product))"

definition hasSeparateCustomerPrice :: "product_snapshot \<Rightarrow> bool" where
  "hasSeparateCustomerPrice product \<longleftrightarrow>
     ps_priceWithTax product \<noteq> None \<and> ps_priceWithoutTax product \<noteq> None \<and>
     ps_priceWithTax product \<noteq> ps_priceWithoutTax product"

definition buildPreviewTax :: "product_tax \<Rightarrow> rat \<Rightarrow> rat \<Rightarrow> rat \<Rightarrow> preview_tax" where
  "buildPreviewTax tax taxRate taxBase taxAmount =
     \<lparr>pt_taxId = tx_taxId tax, pt_taxName = tx_taxName tax, pt_dianCode = tx_dianCode tax,
      pt_taxTypeCode = tx_taxTypeCode tax, pt_calculationMethodCode = tx_calculationMethodCode tax,
      pt_taxRate = normalizeRate taxRate, pt_taxBase = roundCurrency taxBase,
      pt_taxAmount = roundCurrency taxAmount, pt_isIncluded = tx_isIncluded tax\<rparr>"

subsection \<open>Breakdown of a line\<close>

definition calculatePercentageOnlyBreakdown :: "product_snapshot \<Rightarrow> rat \<Rightarrow> rat \<Rightarrow> breakdown" where
  "calculatePercentageOnlyBreakdown product quantity unitPrice =
     (let percentageTax = getBridgePercentageTax product;
          taxRate = getPercentageRate percentageTax;
          finalUnitPrice = roundCurrency unitPrice;
          taxCalculationUnitPrice = getTaxCalculationUnitPrice product finalUnitPrice;
          isExcludedTax = (taxRate > 0 \<and>
            \<not> (case percentageTax of Some tax \<Rightarrow> tx_isIncluded tax | None \<Rightarrow> ps_taxIsIncluded product));
          (taxBase, taxAmount, lineSubtotal, lineTotal) =
            (if isExcludedTax \<and> \<not> hasSeparateCustomerPrice product then
               let lineSubtotal = roundCurrency (dbl (quantity * taxCalculationUnitPrice));
                   taxAmount = calculatePercentageTaxAmount lineSubtotal taxRate
               in (lineSubtotal, taxAmount, lineSubtotal, roundCurrency (dbl (lineSubtotal + taxAmount)))
             else
               let lineTotal = roundCurrency (dbl (quantity * finalUnitPrice));
                   taxBase = resolveLineTaxBase lineTotal taxRate;
                   taxAmount = (if taxRate > 0 then calculatePercentageTaxAmount taxBase taxRate else 0)
               in (taxBase, taxAmount, taxBase, lineTotal))
      in \<lparr>bd_taxId = (case percentageTax of Some tax \<Rightarrow> Some (tx_taxId tax) | None \<Rightarrow> ps_taxId product),
          bd_taxRate = normalizeRate taxRate,
          bd_taxBase = taxBase, bd_taxAmount = taxAmount,
          bd_taxes = (case percentageTax of None \<Rightarrow> []
            | Some tax \<Rightarrow> if taxRate > 0 \<or> Some (tx_taxId tax) = ps_taxId product
                then [buildPreviewTax tax taxRate taxBase taxAmount] else []),
          bd_lineSubtotal = lineSubtotal, bd_lineTotal = lineTotal\<rparr>)"

text \<open>The loop of the alcohol breakdown: the tax lines by tax id and the two running sums.\<close>

type_synonym alcohol_state = "(string \<rightharpoonup> preview_tax) \<times> rat \<times> rat"

definition alcoholTaxableUnits :: "tax_profile option \<Rightarrow> product_tax \<Rightarrow> rat \<Rightarrow> (rat \<times> rat) option" where
  "alcoholTaxableUnits profile tax quantity =
     (case profile of None \<Rightarrow> None | Some p \<Rightarrow>
        (case (tp_alcoholDegree p, tp_netVolumeMl p, tx_fixedAmount tax, tx_baseQuantity tax) of
           (Some degree, Some volume, Some fixedAmount, Some baseQuantity) \<Rightarrow>
             if baseQuantity \<le> 0 then None
             else Some (fixedAmount, dbl (dbl (quantity * degree) * dbl (volume / baseQuantity)))
         | _ \<Rightarrow> None))"

definition alcoholStep :: "tax_profile option \<Rightarrow> rat \<Rightarrow> product_tax \<Rightarrow> alcohol_state \<Rightarrow> alcohol_state http" where
  "alcoholStep profile quantity tax st =
     (case st of (taxLines, consumoAmount, fixedChargeAmount) \<Rightarrow>
      if isAlcoholDegreeVolumeTax tax then
        (case alcoholTaxableUnits profile tax quantity of
           None \<Rightarrow> Inl (BadRequest ''assigned PER_ALCOHOL_DEGREE_VOLUME tax requires alcoholDegree, netVolumeMl and baseQuantity'')
         | Some (fixedAmount, taxableUnits) \<Rightarrow>
             let taxAmount = roundCurrency (dbl (fixedAmount * taxableUnits))
             in Inr (taxLines(tx_taxId tax \<mapsto> buildPreviewTax tax fixedAmount taxableUnits taxAmount),
                     roundCurrency (dbl (consumoAmount + taxAmount)), fixedChargeAmount))
      else if isAdValoremTax tax then
        (case Option.bind profile tp_daneCertifiedRetailPrice of
           None \<Rightarrow> Inl (BadRequest ''assigned AD_VALOREM tax requires daneCertifiedRetailPrice'')
         | Some danePrice \<Rightarrow>
             let taxRate = getPercentageRate (Some tax);
                 taxBase = roundCurrency (dbl (danePrice * quantity));
                 taxAmount = roundCurrency (dbl (taxBase * taxRate))
             in Inr (taxLines(tx_taxId tax \<mapsto> buildPreviewTax tax taxRate taxBase taxAmount),
                     roundCurrency (dbl (consumoAmount + taxAmount)), fixedChargeAmount))
      else if isFixedAmountTax tax then
        let taxAmount = roundCurrency (dbl (coalesce (tx_fixedAmount tax) 0 * quantity))
        in Inr (taxLines(tx_taxId tax \<mapsto> buildPreviewTax tax 0 quantity taxAmount),
                consumoAmount, roundCurrency (dbl (fixedChargeAmount + taxAmount)))
      else Inr st)"

fun alcoholLoop :: "tax_profile option \<Rightarrow> rat \<Rightarrow> product_tax list \<Rightarrow> alcohol_state \<Rightarrow> alcohol_state http" where
  "alcoholLoop profile quantity [] st = Inr st"
| "alcoholLoop profile quantity (tax # taxes) st =
     and_then (alcoholStep profile quantity tax st) (alcoholLoop profile quantity taxes)"

definition taxLinesInOrder :: "product_tax list \<Rightarrow> (string \<rightharpoonup> preview_tax) \<Rightarrow> preview_tax list" where
  "taxLinesInOrder taxes taxLines = List.map_filter (\<lambda>tax. taxLines (tx_taxId tax)) taxes"

definition calculateAlcoholBreakdown :: "product_snapshot \<Rightarrow> rat \<Rightarrow> rat \<Rightarrow> breakdown http" where
  "calculateAlcoholBreakdown product quantity finalUnitPrice =
     (let taxes = getAssignedTaxes product;
          percentageTax = getBridgePercentageTax product;
          percentageRate = getPercentageRate percentageTax;
          lineFinal = roundCurrency (dbl (finalUnitPrice * quantity));
          separate = hasSeparateCustomerPrice product
      in and_then (alcoholLoop (ps_taxProfile product) quantity taxes (\<lambda>_. None, 0, 0))
           (\<lambda>(taxLines, consumoAmount, fixedChargeAmount).
         case percentageTax of
           Some tax \<Rightarrow>
             if tx_isIncluded tax then
               (if consumoAmount > lineFinal
                then Inl (BadRequest ''included alcohol taxes exceed visible line amount'')
                else let taxBase = resolveLineTaxBase (dbl (lineFinal - consumoAmount)) percentageRate;
                         taxAmount = calculatePercentageTaxAmount taxBase percentageRate;
                         lines' = taxLines(tx_taxId tax \<mapsto> buildPreviewTax tax percentageRate taxBase taxAmount)
                     in Inr \<lparr>bd_taxId = Some (tx_taxId tax), bd_taxRate = normalizeRate percentageRate,
                             bd_taxBase = taxBase,
                             bd_taxAmount = roundCurrency (dbl (dbl (consumoAmount + taxAmount) + fixedChargeAmount)),
                             bd_taxes = taxLinesInOrder taxes lines',
                             bd_lineSubtotal = taxBase,
                             bd_lineTotal = roundCurrency (dbl (lineFinal + fixedChargeAmount))\<rparr>)
             else
               (let chargedNetAmount = roundCurrency (dbl (dbl (lineFinal - consumoAmount) - fixedChargeAmount))
                in if separate \<and> chargedNetAmount < 0
                   then Inl (BadRequest ''alcohol taxes exceed visible line amount'')
                   else let taxBase = (if separate then resolveLineTaxBase chargedNetAmount percentageRate else lineFinal);
                            taxAmount = calculatePercentageTaxAmount taxBase percentageRate;
                            lines' = taxLines(tx_taxId tax \<mapsto> buildPreviewTax tax percentageRate taxBase taxAmount)
                        in Inr \<lparr>bd_taxId = Some (tx_taxId tax), bd_taxRate = normalizeRate percentageRate,
                                bd_taxBase = taxBase,
                                bd_taxAmount = roundCurrency (dbl (dbl (consumoAmount + taxAmount) + fixedChargeAmount)),
                                bd_taxes = taxLinesInOrder taxes lines',
                                bd_lineSubtotal = taxBase,
                                bd_lineTotal = (if separate then lineFinal
                                  else roundCurrency (dbl (dbl (dbl (lineFinal + consumoAmount) + taxAmount) + fixedChargeAmount)))\<rparr>)
         | None \<Rightarrow>
             Inr \<lparr>bd_taxId = None, bd_taxRate = 0, bd_taxBase = 0,
                  bd_taxAmount = roundCurrency (dbl (consumoAmount + fixedChargeAmount)),
                  bd_taxes = taxLinesInOrder taxes taxLines,
                  bd_lineSubtotal = roundCurrency (dbl (lineFinal - consumoAmount)),
                  bd_lineTotal = roundCurrency (dbl (lineFinal + fixedChargeAmount))\<rparr>))"

definition fixedStep :: "rat \<Rightarrow> product_tax \<Rightarrow> (string \<rightharpoonup> preview_tax) \<times> rat \<Rightarrow> (string \<rightharpoonup> preview_tax) \<times> rat" where
  "fixedStep quantity tax st =
     (case st of (taxLines, fixedChargeAmount) \<Rightarrow>
      if \<not> isFixedAmountTax tax then st
      else let taxAmount = roundCurrency (dbl (coalesce (tx_fixedAmount tax) 0 * quantity))
           in (taxLines(tx_taxId tax \<mapsto> buildPreviewTax tax 0 quantity taxAmount),
               roundCurrency (dbl (fixedChargeAmount + taxAmount))))"

definition calculatePercentageAndFixedBreakdown :: "product_snapshot \<Rightarrow> rat \<Rightarrow> rat \<Rightarrow> breakdown" where
  "calculatePercentageAndFixedBreakdown product quantity finalUnitPrice =
     (let taxes = getAssignedTaxes product;
          percentageBase = calculatePercentageOnlyBreakdown product quantity finalUnitPrice;
          initial = fold (\<lambda>line m. m(pt_taxId line \<mapsto> line)) (bd_taxes percentageBase) (\<lambda>_. None);
          (taxLines, fixedChargeAmount) = fold (fixedStep quantity) taxes (initial, 0);
          lineFinal = roundCurrency (dbl (finalUnitPrice * quantity))
      in \<lparr>bd_taxId = bd_taxId percentageBase, bd_taxRate = bd_taxRate percentageBase,
          bd_taxBase = bd_taxBase percentageBase,
          bd_taxAmount = roundCurrency (dbl (bd_taxAmount percentageBase + fixedChargeAmount)),
          bd_taxes = taxLinesInOrder taxes taxLines,
          bd_lineSubtotal = (if bd_taxId percentageBase = None \<and> fixedChargeAmount > 0
            then lineFinal else bd_lineSubtotal percentageBase),
          bd_lineTotal = roundCurrency (dbl (bd_lineTotal percentageBase + fixedChargeAmount))\<rparr>)"

definition selectBreakdown :: "product_snapshot \<Rightarrow> rat \<Rightarrow> rat \<Rightarrow> breakdown http" where
  "selectBreakdown product quantity finalUnitPrice =
     (let taxes = getAssignedTaxes product;
          hasAlcoholTaxes = list_ex (\<lambda>tax. isAlcoholDegreeVolumeTax tax \<or> isAdValoremTax tax) taxes;
          hasFixedAmountTaxes = list_ex isFixedAmountTax taxes;
          onlyPercentageTaxes = (taxes = [] \<or> list_all isPercentageTax taxes)
      in if onlyPercentageTaxes then Inr (calculatePercentageOnlyBreakdown product quantity finalUnitPrice)
         else if hasAlcoholTaxes then calculateAlcoholBreakdown product quantity finalUnitPrice
         else if hasFixedAmountTaxes then Inr (calculatePercentageAndFixedBreakdown product quantity finalUnitPrice)
         else Inr (calculatePercentageOnlyBreakdown product quantity finalUnitPrice))"

definition calculateLinePreview ::
  "product_snapshot \<Rightarrow> rat \<Rightarrow> rat \<Rightarrow> rat \<Rightarrow> rat \<Rightarrow> string option \<Rightarrow> string option \<Rightarrow> string \<Rightarrow> line_preview http" where
  "calculateLinePreview product quantity unitPrice discountAmount discountPercent promotionId promotionName explanation =
     (let finalUnitPrice = roundCurrency unitPrice
      in and_then (selectBreakdown product quantity finalUnitPrice) (\<lambda>b.
         Inr \<lparr>lp_productId = ps_id product, lp_quantity = quantity,
              lp_baseUnitPrice = getCustomerUnitPrice product, lp_finalUnitPrice = finalUnitPrice,
              lp_discountAmount = roundCurrency discountAmount,
              lp_discountPercent = roundCurrency discountPercent,
              lp_appliedPromotionId = promotionId, lp_appliedPromotionName = promotionName,
              lp_taxId = bd_taxId b, lp_taxRate = bd_taxRate b, lp_taxBase = bd_taxBase b,
              lp_taxAmount = bd_taxAmount b, lp_taxes = bd_taxes b,
              lp_lineSubtotal = bd_lineSubtotal b, lp_lineTotal = bd_lineTotal b,
              lp_explanation = explanation\<rparr>))"

subsection \<open>Promotions\<close>

record promotion_candidate =
  pc_promotion :: pricing_promotion
  pc_finalUnitPrice :: rat
  pc_discountAmount :: rat
  pc_discountPercent :: rat

text \<open>The first three branches of \<open>calculatePromotionCandidate\<close>: the discount before clamping,
  None for a special price that is not below the base price.\<close>

definition promotionDiscount :: "pricing_promotion \<Rightarrow> rat \<Rightarrow> rat option" where
  "promotionDiscount promotion baseUnitPrice =
     (if pp_discountType promotion = ''PERCENTAGE'' then
        Some (roundCurrency (dbl (dbl (baseUnitPrice * pp_discountValue promotion) / 100)))
      else if pp_discountType promotion = ''FIXED_AMOUNT'' then
        Some (roundCurrency (min (pp_discountValue promotion) baseUnitPrice))
      else if pp_discountType promotion = ''SPECIAL_PRICE'' then
        (let specialPrice = roundCurrency (pp_discountValue promotion)
         in if specialPrice \<ge> baseUnitPrice then None
            else Some (roundCurrency (dbl (baseUnitPrice - max 0 specialPrice))))
      else Some 0)"

definition calculatePromotionCandidate :: "pricing_promotion \<Rightarrow> rat \<Rightarrow> promotion_candidate option" where
  "calculatePromotionCandidate promotion baseUnitPrice =
     (case promotionDiscount promotion baseUnitPrice of
        None \<Rightarrow> None
      | Some discount \<Rightarrow>
          let discountAmount = roundCurrency (min (max discount 0) baseUnitPrice);
              finalUnitPrice = roundCurrency (max 0 (dbl (baseUnitPrice - discountAmount)))
          in if discountAmount \<le> 0 then None
             else Some \<lparr>pc_promotion = promotion, pc_finalUnitPrice = finalUnitPrice,
                        pc_discountAmount = discountAmount,
                        pc_discountPercent = (if baseUnitPrice > 0
                          then roundCurrency (dbl (dbl (discountAmount / baseUnitPrice) * 100)) else 0)\<rparr>)"

definition promotionOrder :: "host \<Rightarrow> promotion_candidate \<Rightarrow> promotion_candidate \<Rightarrow> rat" where
  "promotionOrder h left right =
     (let l = pc_promotion left; r = pc_promotion right
      in if pp_priority l \<noteq> pp_priority r then of_int (pp_priority l - pp_priority r)
         else if pc_discountAmount left \<noteq> pc_discountAmount right
              then pc_discountAmount right - pc_discountAmount left
         else if pp_createdAt r - pp_createdAt l \<noteq> 0 then of_int (pp_createdAt r - pp_createdAt l)
         else of_int (locale_compare h (pp_id l) (pp_id r)))"

definition selectBestPromotion :: "host \<Rightarrow> pricing_promotion list \<Rightarrow> rat \<Rightarrow> promotion_candidate option" where
  "selectBestPromotion h found baseUnitPrice =
     (case js_sort (promotionOrder h)
             (List.map_filter (\<lambda>p. calculatePromotionCandidate p baseUnitPrice) found) of
        [] \<Rightarrow> None
      | c # _ \<Rightarrow> Some c)"

subsection \<open>Repository\<close>

record tax_row =
  tr_tax_id :: string
  tr_tax_name :: "string option"
  tr_dian_code :: "string option"
  tr_tax_type_code :: "string option"
  tr_calculation_method_code :: "string option"
  tr_tax_base_type_code :: "string option"
  tr_calculation_order :: rat
  tr_is_included :: "bool option"
  tr_tax_rate :: "rat option"
  tr_percentage_rate :: "rat option"
  tr_fixed_amount :: "rat option"
  tr_base_quantity :: "rat option"
  tr_base_unit_code :: "string option"

record product_row =
  rw_id :: string
  rw_tenant_id :: string
  rw_price :: rat
  rw_price_with_tax :: "rat option"
  rw_price_without_tax :: "rat option"
  rw_tax_id :: "string option"
  rw_tax_rate :: "rat option"
  rw_tax_is_included :: "bool option"
  rw_tax_name :: "string option"
  rw_tax_type_dian_code :: "string option"
  rw_tax_type_code :: "string option"
  rw_calculation_method_code :: "string option"
  rw_tax_base_type_code :: "string option"
  rw_is_active :: bool

text \<open>The products joined with their bridge tax, and the answers of the SQL functions.\<close>

record pricing_db = promotion_db +
  product_rows :: "product_row list"
  list_product_taxes :: "string \<Rightarrow> string \<Rightarrow> int \<Rightarrow> tax_row list"
  get_tax_profile :: "string \<Rightarrow> string \<Rightarrow> tax_profile option"
  proposed_tax_rows :: "string \<Rightarrow> string list \<Rightarrow> string option \<Rightarrow> int \<Rightarrow> tax_row list"

definition mapProductTax :: "tax_row \<Rightarrow> product_tax" where
  "mapProductTax row =
     \<lparr>tx_taxId = tr_tax_id row, tx_taxName = coalesce (tr_tax_name row) [],
      tx_dianCode = tr_dian_code row, tx_taxTypeCode = tr_tax_type_code row,
      tx_calculationMethodCode = tr_calculation_method_code row,
      tx_taxBaseTypeCode = tr_tax_base_type_code row,
      tx_calculationOrder = tr_calculation_order row,
      tx_isIncluded = coalesce (tr_is_included row) False,
      tx_rate = coalesce (tr_tax_rate row) 0, tx_percentageRate = tr_percentage_rate row,
      tx_fixedAmount = tr_fixed_amount row, tx_baseQuantity = tr_base_quantity row,
      tx_baseUnitCode = tr_base_unit_code row\<rparr>"

definition fallbackTaxes :: "product_row \<Rightarrow> product_tax list \<Rightarrow> product_tax list" where
  "fallbackTaxes row taxes =
     (case rw_tax_id row of
        None \<Rightarrow> taxes
      | Some taxId \<Rightarrow>
          if taxes \<noteq> [] then taxes
          else [\<lparr>tx_taxId = taxId, tx_taxName = coalesce (rw_tax_name row) [],
                 tx_dianCode = rw_tax_type_dian_code row, tx_taxTypeCode = rw_tax_type_code row,
                 tx_calculationMethodCode = rw_calculation_method_code row,
                 tx_taxBaseTypeCode = rw_tax_base_type_code row, tx_calculationOrder = 1,
                 tx_isIncluded = coalesce (rw_tax_is_included row) False,
                 tx_rate = coalesce (rw_tax_rate row) 0,
                 tx_percentageRate = Some (coalesce (rw_tax_rate row) 0),
                 tx_fixedAmount = None, tx_baseQuantity = None, tx_baseUnitCode = None\<rparr>])"

definition findProductSnapshot :: "pricing_db \<Rightarrow> string \<Rightarrow> string \<Rightarrow> int \<Rightarrow> product_snapshot option" where
  "findProductSnapshot db tenantId productId pricingDate =
     map_option (\<lambda>row.
        \<lparr>ps_id = rw_id row, ps_tenantId = rw_tenant_id row, ps_price = rw_price row,
         ps_priceWithTax = rw_price_with_tax row, ps_priceWithoutTax = rw_price_without_tax row,
         ps_taxId = rw_tax_id row, ps_taxRate = coalesce (rw_tax_rate row) 0,
         ps_taxIsIncluded = coalesce (rw_tax_is_included row) False,
         ps_taxes = fallbackTaxes row (map mapProductTax (list_product_taxes db tenantId productId pricingDate)),
         ps_taxProfile = get_tax_profile db tenantId productId,
         ps_isActive = rw_is_active row\<rparr>)
       (find (\<lambda>row. rw_id row = productId \<and> rw_tenant_id row = tenantId) (product_rows db))"

record tax_assignment =
  ta_taxId :: string
  ta_calculationOrder :: rat
  ta_isIncluded :: bool

fun assignTaxes :: "(string \<rightharpoonup> product_tax) \<Rightarrow> tax_assignment list \<Rightarrow> product_tax list http" where
  "assignTaxes taxesMap [] = Inr []"
| "assignTaxes taxesMap (a # as) =
     (case taxesMap (ta_taxId a) of
        None \<Rightarrow> Inl (InternalError ''Tax not found'')
      | Some tax \<Rightarrow> and_then (assignTaxes taxesMap as) (\<lambda>rest.
          Inr (tax\<lparr>tx_calculationOrder := ta_calculationOrder a, tx_isIncluded := ta_isIncluded a\<rparr> # rest)))"

definition resolveProposedTaxes ::
  "pricing_db \<Rightarrow> string \<Rightarrow> tax_assignment list \<Rightarrow> string option \<Rightarrow> int \<Rightarrow> product_tax list http" where
  "resolveProposedTaxes db tenantId taxAssignments taxProductCategoryId pricingDate =
     (if taxAssignments = [] then Inr []
      else let rows = proposed_tax_rows db tenantId (map ta_taxId taxAssignments) taxProductCategoryId pricingDate;
               taxesMap = map_of (rev (map (\<lambda>row. (tr_tax_id row, mapProductTax row)) rows))
           in and_then (assignTaxes taxesMap taxAssignments) (\<lambda>taxes. Inr (js_sort taxOrder taxes)))"

subsection \<open>Pricing a line\<close>

record line_input =
  li_tenantId :: "string option"
  li_branchId :: "string option"
  li_productId :: "string option"
  li_quantity :: jsnum
  li_channel :: string
  li_date :: "string option"

definition assertInput :: "host \<Rightarrow> line_input \<Rightarrow> unit http" where
  "assertInput h inp =
     (if trimmed (li_tenantId inp) = None then Inl (BadRequest ''tenantId is required'')
      else if trimmed (li_branchId inp) = None then Inl (BadRequest ''branchId is required'')
      else if trimmed (li_productId inp) = None then Inl (BadRequest ''productId is required'')
      else if \<not> is_finite (li_quantity inp) \<or> num_le0 (li_quantity inp) then
        Inl (BadRequest ''quantity must be greater than 0'')
      else if li_channel inp \<notin> {''POS'', ''ORDER''} then Inl (BadRequest ''channel must be POS or ORDER'')
      else if (case li_date inp of None \<Rightarrow> False | Some d \<Rightarrow> date_parse h d = None) then
        Inl (BadRequest ''date is invalid'')
      else Inr ())"

text \<open>\<open>new Date(date)\<close>, or the clock.\<close>

definition resolveDate :: "host \<Rightarrow> int \<Rightarrow> string option \<Rightarrow> int" where
  "resolveDate h now date =
     (if truthy date then (case date_parse h (the date) of None \<Rightarrow> now | Some d \<Rightarrow> d) else now)"

definition prepareBaseLine ::
  "host \<Rightarrow> int \<Rightarrow> pricing_db \<Rightarrow> line_input \<Rightarrow> nat \<Rightarrow> (product_snapshot \<times> rat \<times> int \<times> line_preview) http" where
  "prepareBaseLine h now db inp quantityScale =
     and_then (assertInput h inp) (\<lambda>_.
     let pricingDate = resolveDate h now (li_date inp)
     in case findProductSnapshot db (the (li_tenantId inp)) (the (li_productId inp)) pricingDate of
          None \<Rightarrow> Inl (NotFound ''product not found'')
        | Some product \<Rightarrow>
            if \<not> ps_isActive product then Inl (BadRequest ''product is inactive'')
            else let quantity = roundQuantity (num_value (li_quantity inp)) quantityScale
                 in and_then (calculateLinePreview product quantity (getCustomerUnitPrice product) 0 0 None None
                      ''products.price is treated as the visible unit price with tax included; no active promotion applies.'')
                    (\<lambda>basePreview. Inr (product, quantity, pricingDate, basePreview)))"

definition calculateLineWithoutPromotions :: "host \<Rightarrow> int \<Rightarrow> pricing_db \<Rightarrow> line_input \<Rightarrow> line_preview http" where
  "calculateLineWithoutPromotions h now db inp =
     and_then (prepareBaseLine h now db inp 2) (\<lambda>(_, _, _, basePreview). Inr basePreview)"

definition calculateLinePriceAtQuantityScale ::
  "host \<Rightarrow> int \<Rightarrow> pricing_db \<Rightarrow> line_input \<Rightarrow> nat \<Rightarrow> line_preview http" where
  "calculateLinePriceAtQuantityScale h now db inp quantityScale =
     and_then (prepareBaseLine h now db inp quantityScale) (\<lambda>(product, quantity, pricingDate, basePreview).
     let found = findApplicablePromotions (promotion_db.truncate db) (the (li_tenantId inp))
                        (the (li_branchId inp)) (the (li_productId inp)) pricingDate
     in case selectBestPromotion h found (lp_baseUnitPrice basePreview) of
          None \<Rightarrow> Inr basePreview
        | Some applied \<Rightarrow>
            calculateLinePreview product quantity (pc_finalUnitPrice applied)
              (pc_discountAmount applied) (pc_discountPercent applied)
              (Some (pp_id (pc_promotion applied))) (Some (pp_name (pc_promotion applied)))
              ''products.price is treated as the visible unit price with tax included; active non-stackable promotion applied by priority, discount and recency.'')"

definition calculateLinePrice :: "host \<Rightarrow> int \<Rightarrow> pricing_db \<Rightarrow> line_input \<Rightarrow> line_preview http" where
  "calculateLinePrice h now db inp = calculateLinePriceAtQuantityScale h now db inp 2"

definition calculateWeightedLinePrice :: "host \<Rightarrow> int \<Rightarrow> pricing_db \<Rightarrow> line_input \<Rightarrow> line_preview http" where
  "calculateWeightedLinePrice h now db inp = calculateLinePriceAtQuantityScale h now db inp 3"

definition calculateProposedLine :: "product_snapshot \<Rightarrow> rat \<Rightarrow> rat \<Rightarrow> line_preview http" where
  "calculateProposedLine product quantity finalUnitPrice =
     calculateLinePreview product (roundCurrency quantity) (roundCurrency finalUnitPrice) 0 0 None None
       ''Proposed calculation based on provided product tax configuration.''"

definition previewProposedConfiguration ::
  "int \<Rightarrow> pricing_db \<Rightarrow> string \<Rightarrow> rat \<Rightarrow> tax_assignment list \<Rightarrow> tax_profile option \<Rightarrow> line_preview http" where
  "previewProposedConfiguration now db tenantId finalUnitPrice taxes taxProfile =
     and_then (resolveProposedTaxes db tenantId taxes (map_option tp_taxProductCategoryId taxProfile) now) (\<lambda>resolvedTaxes.
     let bridgeTax = find (\<lambda>t. tx_calculationMethodCode t = Some ''PERCENTAGE'' \<or>
                                \<not> truthy (tx_calculationMethodCode t)) resolvedTaxes
     in calculateProposedLine
          \<lparr>ps_id = ''preview-id'', ps_tenantId = tenantId, ps_price = finalUnitPrice,
           ps_priceWithTax = Some finalUnitPrice, ps_priceWithoutTax = Some finalUnitPrice,
           ps_taxId = map_option tx_taxId bridgeTax,
           ps_taxRate = (case bridgeTax of None \<Rightarrow> 0 | Some t \<Rightarrow> tx_rate t),
           ps_taxIsIncluded = (case bridgeTax of None \<Rightarrow> False | Some t \<Rightarrow> tx_isIncluded t),
           ps_taxes = resolvedTaxes, ps_taxProfile = taxProfile, ps_isActive = True\<rparr>
          1 finalUnitPrice)"

text \<open>The endpoint \<open>pricing/preview-line\<close>: the sale mode selects the scale of the quantity.\<close>

definition previewLine ::
  "host \<Rightarrow> int \<Rightarrow> pricing_db \<Rightarrow> string option \<Rightarrow> string option \<Rightarrow> line_input \<Rightarrow> line_preview http" where
  "previewLine h now db userTenantId saleMode inp =
     (if saleMode \<notin> {None, Some ''UNIT'', Some ''WEIGHT''} then
        Inl (BadRequest ''saleMode must be UNIT or WEIGHT'')
      else if \<not> truthy userTenantId then Inl (BadRequest ''tenantId is required'')
      else (if saleMode = Some ''WEIGHT'' then calculateWeightedLinePrice else calculateLinePrice)
             h now db (inp\<lparr>li_tenantId := userTenantId\<rparr>))"

end
