(* ===== verification/Pricing_Facts.thy ===== *)
theory Pricing_Facts
  imports Pricing_Service
begin

section \<open>Facts about pricing\<close>

text \<open>
  What the pricing service guarantees: promotions never raise a price nor make it negative, and
  discount and final price add up to the base price to the cent; the promotion applied is a first
  one of the order the code documents; the tax of a line is the half-up tax of its base, and the
  base is the one that brings base plus tax closest to the charged amount.
\<close>

subsection \<open>Promotion candidates\<close>

lemma currencyCents_clamp:
  assumes "0 \<le> b" "b \<le> 2 ^ 44" "0 \<le> x" "x \<le> cents b"
  shows "0 \<le> currencyCents x" "currencyCents x \<le> b"
proof -
  have "currencyCents (cents 0) \<le> currencyCents x" using assms(3) by (intro currencyCents_mono) simp
  then show "0 \<le> currencyCents x" using currencyCents_cents [of 0] by simp
  have "currencyCents x \<le> currencyCents (cents b)" using assms(4) by (rule currencyCents_mono)
  then show "currencyCents x \<le> b" using currencyCents_cents [of b] assms by simp
qed

lemma candidate_cents:
  assumes "calculatePromotionCandidate promo (cents b) = Some c" and b: "0 \<le> b" "b \<le> 2 ^ 43"
  obtains d where "0 < d" "d \<le> b" "pc_discountAmount c = cents d" "pc_finalUnitPrice c = cents (b - d)"
    "pc_promotion c = promo"
proof -
  obtain disc where disc: "promotionDiscount promo (cents b) = Some disc"
    using assms(1) by (auto simp: calculatePromotionCandidate_def split: option.splits)
  define d where "d = currencyCents (min (max disc 0) (cents b))"
  have cb: "0 \<le> cents b" using b(1) by (rule cents_nonneg)
  have d: "0 \<le> d" "d \<le> b" unfolding d_def
    using b cb by (auto intro!: currencyCents_clamp)
  have dc: "roundCurrency (min (max disc 0) (cents b)) = cents d" by (simp add: roundCurrency_cents d_def)
  have "cents d \<le> cents b" using d(2) by (rule cents_mono)
  then have "max 0 (dbl (cents b - cents d)) = dbl (cents b - cents d)" using dbl_nonneg by (simp add: max_def)
  then have fin: "roundCurrency (max 0 (dbl (cents b - cents d))) = cents (b - d)"
    using roundCurrency_diff [of b d] b d by simp
  have c: "pc_discountAmount c = cents d" "pc_finalUnitPrice c = cents (b - d)" "pc_promotion c = promo"
      "\<not> cents d \<le> 0"
    using assms(1) by (auto simp: calculatePromotionCandidate_def disc dc fin Let_def split: if_splits)
  with d have "0 < d" by (cases "d = 0") auto
  with d c that show thesis by blast
qed

subsection \<open>The order of promotions\<close>

definition promotionBelow :: "promotion_candidate \<Rightarrow> promotion_candidate \<Rightarrow> bool" where
  "promotionBelow l r \<longleftrightarrow>
     (let p = pp_priority (pc_promotion l); q = pp_priority (pc_promotion r);
          d = pc_discountAmount l; e = pc_discountAmount r
      in p < q \<or> p = q \<and> (e < d \<or> d = e \<and> pp_createdAt (pc_promotion r) \<le> pp_createdAt (pc_promotion l)))"

interpretation promo: comparator "promotionOrder h" promotionBelow for h
proof
  show "promotionOrder h x y \<le> 0 \<Longrightarrow> promotionBelow x y" for x y
    by (auto simp: promotionOrder_def promotionBelow_def Let_def split: if_splits)
  show "0 < promotionOrder h x y \<Longrightarrow> promotionBelow y x" for x y
    by (auto simp: promotionOrder_def promotionBelow_def Let_def split: if_splits)
  show "promotionBelow x y \<Longrightarrow> promotionBelow y z \<Longrightarrow> promotionBelow x z" for x y z
    by (auto simp: promotionBelow_def Let_def)
qed

interpretation assigned: comparator taxOrder "\<lambda>x y. tx_calculationOrder x \<le> tx_calculationOrder y"
  by unfold_locales (auto simp: taxOrder_def)

lemma set_getAssignedTaxes [simp]: "set (getAssignedTaxes product) = set (ps_taxes product)"
  by (simp add: getAssignedTaxes_def)

lemma selectBestPromotion_candidate:
  assumes "selectBestPromotion h found base = Some c"
  shows "\<exists>p\<in>set found. calculatePromotionCandidate p base = Some c"
proof -
  have "c \<in> set (js_sort (promotionOrder h) (List.map_filter (\<lambda>p. calculatePromotionCandidate p base) found))"
    using assms by (auto simp del: set_js_sort simp: selectBestPromotion_def split: list.splits)
  then show ?thesis by (auto simp: List.map_filter_def)
qed

lemma selectBestPromotion_first:
  assumes "selectBestPromotion h found base = Some c" "p \<in> set found"
    "calculatePromotionCandidate p base = Some c'"
  shows "promotionBelow c c'"
proof -
  define cs where "cs = List.map_filter (\<lambda>p. calculatePromotionCandidate p base) found"
  obtain rest where "js_sort (promotionOrder h) cs = c # rest"
    using assms(1) by (auto simp: selectBestPromotion_def cs_def split: list.splits)
  moreover have "c' \<in> set cs" using assms(2,3) by (force simp: cs_def List.map_filter_def)
  ultimately show ?thesis by (rule promo.head_least)
qed

lemma roundCurrency_of_cents: "\<bar>n\<bar> \<le> 2 ^ 44 \<Longrightarrow> roundCurrency (cents n) = cents n"
  by (rule currency.r_cents)

lemma cents_min: "min (cents a) (cents b) = cents (min a b)"
  by (rule min_of_mono) (simp add: cents_mono monoI)

lemma cents_max: "max (cents a) (cents b) = cents (max a b)"
  by (rule max_of_mono) (simp add: cents_mono monoI)

lemma cents_pos: "0 < n \<Longrightarrow> n \<le> 2 ^ 46 \<Longrightarrow> 0 < cents n"
  using cents_strict_mono [of 0 n] by simp

text \<open>A fixed discount is the lesser of its value and the price.\<close>

lemma fixed_amount_candidate:
  assumes "pp_discountType promo = ''FIXED_AMOUNT''" "pp_discountValue promo = cents v"
    and v: "0 < v" "v \<le> 2 ^ 43" and b: "0 < b" "b \<le> 2 ^ 43"
  shows "\<exists>c. calculatePromotionCandidate promo (cents b) = Some c \<and> pc_promotion c = promo \<and>
    pc_discountAmount c = cents (min v b) \<and> pc_finalUnitPrice c = cents (b - min v b)"
proof -
  define m where "m = min v b"
  have m: "0 < m" "m \<le> b" using v b by (auto simp: m_def)
  have disc: "promotionDiscount promo (cents b) = Some (cents m)"
    unfolding promotionDiscount_def assms cents_min m_def [symmetric]
    using m b by (simp add: roundCurrency_of_cents)
  have cl: "max (cents m) 0 = cents m" "min (cents m) (cents b) = cents m"
    using m cents_max [of m 0] cents_min [of m b] by simp_all
  have "cents m \<le> cents b" using m by (intro cents_mono) simp
  then have fin: "roundCurrency (max 0 (dbl (cents b - cents m))) = cents (b - m)"
    using roundCurrency_diff [of b m] m b dbl_nonneg [of "cents b - cents m"] by (simp add: max_def)
  show ?thesis
    using m b cents_pos [of m]
    by (simp add: calculatePromotionCandidate_def disc cl fin roundCurrency_of_cents m_def [symmetric] Let_def)
qed

text \<open>Property C20: a promotion lowers a price by a positive discount that is at most the price, and
  the discounted price and the discount add up to the base price exactly, in cents. This holds for
  every promotion record, valid or not, on base prices up to \<open>2 ^ 43\<close> cents.\<close>

theorem promotion_candidate_exact:
  assumes "calculatePromotionCandidate promo (cents b) = Some c" "0 \<le> b" "b \<le> 2 ^ 43"
  shows "\<exists>d. 0 < d \<and> d \<le> b \<and> pc_discountAmount c = cents d \<and> pc_finalUnitPrice c = cents (b - d)"
  using candidate_cents [OF assms] by metis

definition demo_promo :: "string \<Rightarrow> int \<Rightarrow> int \<Rightarrow> pricing_promotion" where
  "demo_promo i prio v = \<lparr>pp_id = i, pp_name = i, pp_discountType = ''FIXED_AMOUNT'',
     pp_discountValue = cents v, pp_priority = prio, pp_createdAt = 0\<rparr>"

lemma demo_candidate:
  obtains c where "calculatePromotionCandidate (demo_promo i prio 150) (cents 999) = Some c"
    "pc_promotion c = demo_promo i prio 150" "pc_discountAmount c = cents 150" "pc_finalUnitPrice c = cents 849"
  using fixed_amount_candidate [of "demo_promo i prio 150" 150 999] by (auto simp: demo_promo_def)

lemma promotion_candidate_exact_witness:
  "\<exists>c. calculatePromotionCandidate (demo_promo ''p'' 1 150) (cents 999) = Some c \<and>
     (\<exists>d. 0 < d \<and> d \<le> 999 \<and> pc_discountAmount c = cents d \<and> pc_finalUnitPrice c = cents (999 - d))"
  by (rule demo_candidate [of "''p''" 1])
     (use promotion_candidate_exact [of "demo_promo ''p'' 1 150" 999] in force)

text \<open>Property C21: the applied promotion is the best one. Among the promotions that give a discount,
  it has the least priority number; among those of that priority the greatest discount; and among
  those of the same discount the latest creation date.\<close>

theorem best_promotion_first:
  assumes "selectBestPromotion h found base = Some c" "p \<in> set found"
    "calculatePromotionCandidate p base = Some c'"
  shows "pp_priority (pc_promotion c) \<le> pp_priority (pc_promotion c') \<and>
    (pp_priority (pc_promotion c) = pp_priority (pc_promotion c') \<longrightarrow>
       pc_discountAmount c' \<le> pc_discountAmount c \<and>
       (pc_discountAmount c' = pc_discountAmount c \<longrightarrow>
          pp_createdAt (pc_promotion c') \<le> pp_createdAt (pc_promotion c)))"
  using selectBestPromotion_first [OF assms] by (auto simp: promotionBelow_def Let_def)

lemma demo_best:
  "\<exists>c. selectBestPromotion demo_host [demo_promo ''q'' 2 150, demo_promo ''p'' 1 150] (cents 999) = Some c"
proof -
  obtain c where c: "calculatePromotionCandidate (demo_promo ''p'' 1 150) (cents 999) = Some c"
    by (rule demo_candidate [of "''p''" 1])
  obtain c' where c': "calculatePromotionCandidate (demo_promo ''q'' 2 150) (cents 999) = Some c'"
    by (rule demo_candidate [of "''q''" 2])
  show ?thesis by (simp add: selectBestPromotion_def List.map_filter_simps c c')
qed

lemma best_promotion_first_witness:
  "\<exists>c c'. selectBestPromotion demo_host [demo_promo ''q'' 2 150, demo_promo ''p'' 1 150] (cents 999) = Some c \<and>
     calculatePromotionCandidate (demo_promo ''p'' 1 150) (cents 999) = Some c' \<and>
     pp_priority (pc_promotion c) \<le> pp_priority (pc_promotion c')"
proof -
  obtain c where c: "selectBestPromotion demo_host [demo_promo ''q'' 2 150, demo_promo ''p'' 1 150] (cents 999) = Some c"
    using demo_best by blast
  obtain c' where c': "calculatePromotionCandidate (demo_promo ''p'' 1 150) (cents 999) = Some c'"
    by (rule demo_candidate [of "''p''" 1])
  show ?thesis using best_promotion_first [OF c _ c'] c c' by auto
qed

subsection \<open>Taxes\<close>

text \<open>Property C22: the tax on an amount is the exact product of its cents and the rate in
  millionths, rounded half up to a cent: no binary rounding error survives, for bases up to
  \<open>2 ^ 44\<close> cents and rates up to 100 percent.\<close>

theorem tax_amount_half_up:
  assumes "0 \<le> b" "b \<le> 2 ^ 44" "0 \<le> r" "r \<le> 1000000"
  shows "calculatePercentageTaxAmount (cents b) (rate r) = cents ((b * r + 500000) div 1000000)"
  using calculatePercentageTaxAmount_cents [of b r] taxCents_nonneg [of b r] assms by simp

lemma tax_amount_half_up_witness:
  "calculatePercentageTaxAmount (cents 105) (rate 190000) = cents 20"
  using tax_amount_half_up [of 105 190000] by simp

text \<open>Property C23: the base of a charged amount is the best one. The base plus its half-up tax misses
  the charged amount by at most a cent and no other base comes closer; in particular the amount is
  reproduced exactly whenever some base reproduces it. The search of five candidates around the
  rounded quotient is therefore enough.\<close>

theorem tax_base_optimal:
  assumes "0 \<le> T" "T \<le> 2 ^ 43" "0 < r" "r \<le> 1000000"
  shows "\<exists>base. resolveLineTaxBase (cents T) (rate r) = cents base \<and> 0 \<le> base \<and>
    \<bar>base + (base * r + 500000) div 1000000 - T\<bar> \<le> 1 \<and>
    (\<forall>b\<ge>0. \<bar>base + (base * r + 500000) div 1000000 - T\<bar> \<le> \<bar>b + (b * r + 500000) div 1000000 - T\<bar>)"
proof -
  obtain base where base: "resolveLineTaxBase (cents T) (rate r) = cents base" "0 \<le> base"
      "baseGap T r base \<le> 1" "\<And>b. 0 \<le> b \<Longrightarrow> baseGap T r base \<le> baseGap T r b"
    using resolveLineTaxBase_correct [OF assms] by metis
  have "baseGap T r b = \<bar>b + (b * r + 500000) div 1000000 - T\<bar>" if "0 \<le> b" for b
    using that assms(3) by (simp add: baseGap_def taxCents_nonneg)
  with base show ?thesis by (intro exI [of _ base]) simp
qed

lemma tax_base_optimal_witness:
  "\<exists>base. resolveLineTaxBase (cents 11900) (rate 190000) = cents base \<and>
     base + (base * 190000 + 500000) div 1000000 = 11900"
proof -
  obtain base where base: "resolveLineTaxBase (cents 11900) (rate 190000) = cents base"
    "\<forall>b\<ge>0. \<bar>base + (base * 190000 + 500000) div 1000000 - 11900\<bar> \<le> \<bar>b + (b * 190000 + 500000) div 1000000 - 11900\<bar>"
    using tax_base_optimal [of 11900 190000] by auto
  then have "\<bar>base + (base * 190000 + 500000) div 1000000 - 11900\<bar> \<le> 0" by (auto dest: spec [of _ 10000])
  with base(1) show ?thesis by (intro exI [of _ base]) linarith
qed

subsection \<open>Lines with a percentage tax\<close>

lemma percentage_line_included:
  assumes tax: "getBridgePercentageTax product = Some tax" "getPercentageRate (Some tax) = rate r"
    and r: "0 < r" "r \<le> 1000000"
    and incl: "tx_isIncluded tax \<or> hasSeparateCustomerPrice product"
    and T: "T = currencyCents (dbl (quantity * roundCurrency unitPrice))" "0 \<le> T" "T \<le> 2 ^ 43"
  shows "\<exists>B. 0 \<le> B \<and> \<bar>B + taxCents B r - T\<bar> \<le> 1 \<and>
    (let b = calculatePercentageOnlyBreakdown product quantity unitPrice
     in bd_lineTotal b = cents T \<and> bd_taxBase b = cents B \<and> bd_lineSubtotal b = cents B \<and>
        bd_taxAmount b = cents (taxCents B r))"
proof -
  obtain B where B: "resolveLineTaxBase (cents T) (rate r) = cents B" "0 \<le> B" "B \<le> T + 1" "baseGap T r B \<le> 1"
    using resolveLineTaxBase_correct [OF T(2,3) r] by metis
  have "calculatePercentageTaxAmount (cents B) (rate r) = cents (taxCents B r)"
    using B(2,3) T(3) r by (intro calculatePercentageTaxAmount_cents) auto
  moreover have "roundCurrency (dbl (quantity * roundCurrency unitPrice)) = cents T"
    by (simp add: roundCurrency_cents [of "dbl _"] T(1))
  ultimately show ?thesis
    using incl rate_pos [OF r(1)] B unfolding calculatePercentageOnlyBreakdown_def Let_def tax
    by (intro exI [of _ B]) (auto simp: Let_def baseGap_def)
qed

lemma percentage_line_excluded:
  assumes tax: "getBridgePercentageTax product = Some tax" "getPercentageRate (Some tax) = rate r"
    and r: "0 < r" "r \<le> 1000000"
    and excl: "\<not> tx_isIncluded tax" "\<not> hasSeparateCustomerPrice product"
    and S: "S = currencyCents (dbl (quantity * getTaxCalculationUnitPrice product (roundCurrency unitPrice)))"
      "0 \<le> S" "S \<le> 2 ^ 42"
  shows "let b = calculatePercentageOnlyBreakdown product quantity unitPrice
     in bd_lineSubtotal b = cents S \<and> bd_taxBase b = cents S \<and> bd_taxAmount b = cents (taxCents S r) \<and>
        bd_lineTotal b = cents (S + taxCents S r)"
proof -
  have tx: "calculatePercentageTaxAmount (cents S) (rate r) = cents (taxCents S r)"
    using S(2,3) r by (intro calculatePercentageTaxAmount_cents) auto
  have "\<bar>taxCents S r\<bar> \<le> 2 ^ 43"
  proof -
    have "S * r \<le> S * 1000000" using S(2) r by (intro mult_left_mono) auto
    then have "taxCents S r \<le> S + 1" using S(2) r by (simp add: taxCents_nonneg)
    then show ?thesis using taxCents_ge0 [of S r] S r by simp
  qed
  then have "roundCurrency (dbl (cents S + cents (taxCents S r))) = cents (S + taxCents S r)"
    using S by (intro roundCurrency_add) auto
  moreover have "roundCurrency (dbl (quantity * getTaxCalculationUnitPrice product (roundCurrency unitPrice))) = cents S"
    by (simp add: roundCurrency_cents [of "dbl _"] S(1))
  ultimately show ?thesis
    using excl rate_pos [OF r(1)] tx unfolding calculatePercentageOnlyBreakdown_def Let_def tax
    by (auto simp: Let_def)
qed

text \<open>A line whose percentage tax is included in the price charges exactly quantity
  times price; its base and tax are whole cents, the tax is the half-up tax of the base, and base
  plus tax differ from the total by at most one cent. When the tax is added to the price, the total
  is exactly the subtotal plus the half-up tax of the subtotal.\<close>

theorem percentage_line_reconciles:
  assumes "getBridgePercentageTax product = Some tax" "getPercentageRate (Some tax) = rate r"
    and "0 < r" "r \<le> 1000000"
    and T: "T = currencyCents (dbl (quantity * (if tx_isIncluded tax \<or> hasSeparateCustomerPrice product
               then roundCurrency unitPrice else getTaxCalculationUnitPrice product (roundCurrency unitPrice))))"
      "0 \<le> T" "T \<le> 2 ^ 42"
  shows "\<exists>B. 0 \<le> B \<and>
    (let b = calculatePercentageOnlyBreakdown product quantity unitPrice; tx = (B * r + 500000) div 1000000
     in bd_taxBase b = cents B \<and> bd_lineSubtotal b = cents B \<and> bd_taxAmount b = cents tx \<and>
        (if tx_isIncluded tax \<or> hasSeparateCustomerPrice product
         then bd_lineTotal b = cents T \<and> \<bar>B + tx - T\<bar> \<le> 1
         else B = T \<and> bd_lineTotal b = cents (B + tx)))"
proof (cases "tx_isIncluded tax \<or> hasSeparateCustomerPrice product")
  case True
  then obtain B where "0 \<le> B \<and> \<bar>B + taxCents B r - T\<bar> \<le> 1 \<and>
    (let b = calculatePercentageOnlyBreakdown product quantity unitPrice
     in bd_lineTotal b = cents T \<and> bd_taxBase b = cents B \<and> bd_lineSubtotal b = cents B \<and>
        bd_taxAmount b = cents (taxCents B r))"
    using percentage_line_included [OF assms(1-4) True, of T quantity unitPrice] T by auto
  with True assms(3) show ?thesis
    by (intro exI [of _ B]) (simp add: Let_def taxCents_nonneg [symmetric])
next
  case False
  then have "let b = calculatePercentageOnlyBreakdown product quantity unitPrice
     in bd_lineSubtotal b = cents T \<and> bd_taxBase b = cents T \<and> bd_taxAmount b = cents (taxCents T r) \<and>
        bd_lineTotal b = cents (T + taxCents T r)"
    using percentage_line_excluded [OF assms(1-4), of T quantity unitPrice] T by auto
  with False assms(3) T show ?thesis
    by (intro exI [of _ T]) (simp add: Let_def taxCents_nonneg)
qed

definition demo_tax :: "string \<Rightarrow> string option \<Rightarrow> rat \<Rightarrow> product_tax" where
  "demo_tax i meth rt = \<lparr>tx_taxId = i, tx_taxName = i, tx_dianCode = None, tx_taxTypeCode = None,
     tx_calculationMethodCode = meth, tx_taxBaseTypeCode = None, tx_calculationOrder = 1,
     tx_isIncluded = True, tx_rate = 0, tx_percentageRate = Some rt, tx_fixedAmount = Some 100,
     tx_baseQuantity = Some 750, tx_baseUnitCode = None\<rparr>"

definition demo_product :: "product_tax list \<Rightarrow> product_snapshot" where
  "demo_product taxes = \<lparr>ps_id = ''a'', ps_tenantId = ''t'', ps_price = cents 11900, ps_priceWithTax = None,
     ps_priceWithoutTax = None, ps_taxId = Some ''IVA'', ps_taxRate = 0, ps_taxIsIncluded = True,
     ps_taxes = taxes, ps_taxProfile = None, ps_isActive = True\<rparr>"

lemma percentage_line_reconciles_witness:
  "\<exists>B. 0 \<le> B \<and>
    (let b = calculatePercentageOnlyBreakdown (demo_product [demo_tax ''IVA'' None (rate 190000)]) 1 (cents 11900);
         tx = (B * 190000 + 500000) div 1000000
     in bd_taxBase b = cents B \<and> bd_taxAmount b = cents tx \<and> bd_lineTotal b = cents 11900 \<and> \<bar>B + tx - 11900\<bar> \<le> 1)"
proof -
  let ?t = "demo_tax ''IVA'' None (rate 190000)"
  have t: "getBridgePercentageTax (demo_product [?t]) = Some ?t"
    by (simp add: getBridgePercentageTax_def getAssignedTaxes_def demo_product_def demo_tax_def
        isPercentageTax_def isAdValoremTax_def)
  have incl: "tx_isIncluded ?t" "getPercentageRate (Some ?t) = rate 190000" by (simp_all add: demo_tax_def)
  have T: "currencyCents (cents 11900) = 11900" by (rule currencyCents_cents) simp
  have u: "roundCurrency (cents 11900) = cents 11900" by (rule roundCurrency_of_cents) simp
  show ?thesis
    using percentage_line_reconciles [OF t incl(2), of 11900 1 "cents 11900"] incl(1) T u
    by (simp add: Let_def) blast
qed

subsection \<open>Taxes on alcohol\<close>

lemma alcoholLoop_missing:
  assumes "tax \<in> set taxes" "isAlcoholDegreeVolumeTax tax" "alcoholTaxableUnits profile tax quantity = None"
  shows "\<exists>m. alcoholLoop profile quantity taxes st = Inl (BadRequest m)"
  using assms(1)
proof (induction taxes arbitrary: st)
  case (Cons t ts)
  show ?case
  proof (cases "alcoholStep profile quantity t st")
    case (Inl e)
    then have "\<exists>m. e = BadRequest m"
      by (auto simp: alcoholStep_def Let_def split: prod.splits if_splits option.splits)
    with Inl show ?thesis by auto
  next
    case (Inr st')
    then have "t \<noteq> tax" using assms(2,3) by (auto simp: alcoholStep_def split: prod.splits)
    with Cons Inr show ?thesis by auto
  qed
qed simp

lemma alcohol_selected:
  assumes "tax \<in> set (ps_taxes product)" "isAlcoholDegreeVolumeTax tax"
  shows "selectBreakdown product quantity unitPrice = calculateAlcoholBreakdown product quantity unitPrice"
proof -
  have "\<not> isPercentageTax tax" using assms(2) by (simp add: isPercentageTax_def isAlcoholDegreeVolumeTax_def)
  then have "\<not> (getAssignedTaxes product = [] \<or> list_all isPercentageTax (getAssignedTaxes product))"
    using assms(1) set_getAssignedTaxes [of product] by (auto simp: list_all_iff simp del: set_getAssignedTaxes)
  moreover have "list_ex (\<lambda>t. isAlcoholDegreeVolumeTax t \<or> isAdValoremTax t) (getAssignedTaxes product)"
    using assms by (auto simp: list_ex_iff)
  ultimately show ?thesis by (simp add: selectBreakdown_def Let_def)
qed

text \<open>No line is priced with incomplete alcohol data. If a product has a tax per alcohol
  degree and volume whose amount cannot be computed (no tax profile, no degree, no volume, no
  tariff, or a base quantity that is absent or not positive), every preview of it, whatever its
  other taxes, is refused as a bad request.\<close>

theorem alcohol_data_required:
  assumes "tax \<in> set (ps_taxes product)" "isAlcoholDegreeVolumeTax tax"
    and "alcoholTaxableUnits (ps_taxProfile product) tax quantity = None"
  shows "\<exists>m. calculateLinePreview product quantity unitPrice d p i n e = Inl (BadRequest m)"
proof -
  have "\<exists>m. alcoholLoop (ps_taxProfile product) quantity (getAssignedTaxes product) (\<lambda>_. None, 0, 0) =
      Inl (BadRequest m)"
    by (rule alcoholLoop_missing [of tax]) (use assms in simp_all)
  then obtain m where "alcoholLoop (ps_taxProfile product) quantity (getAssignedTaxes product) (\<lambda>_. None, 0, 0) =
      Inl (BadRequest m)" by blast
  then have "calculateAlcoholBreakdown product quantity (roundCurrency unitPrice) = Inl (BadRequest m)"
    by (simp add: calculateAlcoholBreakdown_def Let_def)
  then show ?thesis
    using alcohol_selected [OF assms(1,2)] by (simp add: calculateLinePreview_def Let_def)
qed

lemma alcohol_data_required_witness:
  "\<exists>m. calculateLinePreview
     (demo_product [demo_tax ''IVA'' None (rate 190000), demo_tax ''ICL'' (Some ''PER_ALCOHOL_DEGREE_VOLUME'') 0])
     2 100 0 0 None None ''x'' = Inl (BadRequest m)"
  by (rule alcohol_data_required [of "demo_tax ''ICL'' (Some ''PER_ALCOHOL_DEGREE_VOLUME'') 0"])
     (simp_all add: demo_product_def demo_tax_def isAlcoholDegreeVolumeTax_def alcoholTaxableUnits_def)

subsection \<open>The promotion of a sale\<close>

lemma calculateLinePreview_fields:
  assumes "calculateLinePreview product quantity unitPrice d p i n e = Inr pv"
  shows "lp_baseUnitPrice pv = getCustomerUnitPrice product" "lp_finalUnitPrice pv = roundCurrency unitPrice"
    "lp_discountAmount pv = roundCurrency d" "lp_appliedPromotionId pv = i" "lp_quantity pv = quantity"
  using assms by (auto simp: calculateLinePreview_def and_then_Inr Let_def)

lemma found_promotion:
  assumes "pp \<in> set (findApplicablePromotions db tn br product date)"
  shows "\<exists>p\<in>set (promotions db). pr_id p = pp_id pp \<and> applicable db tn br product date p"
  using assms by (auto simp: findApplicablePromotions_def)

lemma priced_line_cases:
  assumes "calculateLinePriceAtQuantityScale h now db inp scale = Inr pv"
  obtains (base) product where "findProductSnapshot db (the (li_tenantId inp)) (the (li_productId inp))
        (resolveDate h now (li_date inp)) = Some product" "lp_appliedPromotionId pv = None"
  | (promo) product c where "findProductSnapshot db (the (li_tenantId inp)) (the (li_productId inp))
        (resolveDate h now (li_date inp)) = Some product"
      "selectBestPromotion h (findApplicablePromotions (promotion_db.truncate db) (the (li_tenantId inp))
         (the (li_branchId inp)) (the (li_productId inp)) (resolveDate h now (li_date inp)))
         (getCustomerUnitPrice product) = Some c"
      "lp_appliedPromotionId pv = Some (pp_id (pc_promotion c))"
      "lp_baseUnitPrice pv = getCustomerUnitPrice product"
      "lp_finalUnitPrice pv = roundCurrency (pc_finalUnitPrice c)"
      "lp_discountAmount pv = roundCurrency (pc_discountAmount c)"
proof -
  obtain product q date bp where pre: "prepareBaseLine h now db inp scale = Inr (product, q, date, bp)"
    using assms by (auto simp: calculateLinePriceAtQuantityScale_def and_then_Inr)
  have prod: "date = resolveDate h now (li_date inp)"
      "findProductSnapshot db (the (li_tenantId inp)) (the (li_productId inp)) (resolveDate h now (li_date inp)) = Some product"
      "calculateLinePreview product q (getCustomerUnitPrice product) 0 0 None None
         ''products.price is treated as the visible unit price with tax included; no active promotion applies.'' = Inr bp"
    using pre by (auto simp: prepareBaseLine_def and_then_Inr Let_def split: option.splits if_splits)
  show thesis
  proof (cases "selectBestPromotion h (findApplicablePromotions (promotion_db.truncate db) (the (li_tenantId inp))
         (the (li_branchId inp)) (the (li_productId inp)) date) (lp_baseUnitPrice bp)")
    case None
    then have "pv = bp" using assms by (simp add: calculateLinePriceAtQuantityScale_def pre Let_def)
    with prod base calculateLinePreview_fields [OF prod(3)] show ?thesis by blast
  next
    case (Some c)
    then have pv: "calculateLinePreview product q (pc_finalUnitPrice c) (pc_discountAmount c) (pc_discountPercent c)
        (Some (pp_id (pc_promotion c))) (Some (pp_name (pc_promotion c)))
        ''products.price is treated as the visible unit price with tax included; active non-stackable promotion applied by priority, discount and recency.'' = Inr pv"
      using assms by (simp add: calculateLinePriceAtQuantityScale_def pre Let_def)
    show ?thesis
      using promo [OF prod(2)] Some calculateLinePreview_fields [OF pv] calculateLinePreview_fields [OF prod(3)] prod(1)
      by simp
  qed
qed

lemma snapshot_price:
  assumes "findProductSnapshot db tn i date = Some product"
    and "\<forall>row\<in>set (product_rows db). 0 \<le> coalesce (rw_price_with_tax row) (rw_price row) \<and>
      coalesce (rw_price_with_tax row) (rw_price row) \<le> cents (2 ^ 43)"
  obtains b where "0 \<le> b" "b \<le> 2 ^ 43" "getCustomerUnitPrice product = cents b"
proof -
  obtain row where row: "row \<in> set (product_rows db)" "ps_priceWithTax product = rw_price_with_tax row"
      "ps_price product = rw_price row"
    using assms(1) by (auto simp: findProductSnapshot_def dest: find_in)
  define x where "x = coalesce (rw_price_with_tax row) (rw_price row)"
  have "0 \<le> x" "x \<le> cents (2 ^ 43)" using assms(2) row(1) by (simp_all add: x_def)
  then have "0 \<le> currencyCents x" "currencyCents x \<le> 2 ^ 43"
    using currencyCents_clamp [of "2 ^ 43" x] by simp_all
  then show thesis using that [of "currencyCents x"] row
    by (simp add: getCustomerUnitPrice_def roundCurrency_cents x_def)
qed


lemma untaxed_preview:
  assumes "ps_taxes product = []"
  shows "\<exists>pv. calculateLinePreview product q u d p i n e = Inr pv \<and>
    lp_baseUnitPrice pv = getCustomerUnitPrice product \<and> lp_appliedPromotionId pv = i"
  using assms by (simp add: calculateLinePreview_def selectBreakdown_def getAssignedTaxes_def Let_def)

definition demo_promotion_row :: promotion where
  "demo_promotion_row = \<lparr>pr_id = ''p'', pr_tenantId = ''t'', pr_name = ''p'', pr_description = None,
     pr_discountType = ''FIXED_AMOUNT'', pr_discountValue = cents 150, pr_startsAt = 0, pr_endsAt = 10,
     pr_priority = 1, pr_isStackable = False, pr_isActive = True, pr_createdBy = None,
     pr_createdAt = 0, pr_updatedAt = 0\<rparr>"

definition demo_product_row :: product_row where
  "demo_product_row = \<lparr>rw_id = ''a'', rw_tenant_id = ''t'', rw_price = cents 999, rw_price_with_tax = None,
     rw_price_without_tax = None, rw_tax_id = None, rw_tax_rate = None, rw_tax_is_included = None,
     rw_tax_name = None, rw_tax_type_dian_code = None, rw_tax_type_code = None,
     rw_calculation_method_code = None, rw_tax_base_type_code = None, rw_is_active = True\<rparr>"

definition demo_pricing_db :: pricing_db where
  "demo_pricing_db = \<lparr>promotions = [demo_promotion_row], promotion_products = [(''t'', ''p'', ''a'')],
     promotion_branches = [(''t'', ''p'', ''x'')], tenant_products = [(''t'', ''a'')],
     tenant_branches = [(''t'', ''x'')], product_rows = [demo_product_row],
     list_product_taxes = (\<lambda>_ _ _. []), get_tax_profile = (\<lambda>_ _. None),
     proposed_tax_rows = (\<lambda>_ _ _ _. [])\<rparr>"

definition demo_line :: line_input where
  "demo_line = \<lparr>li_tenantId = Some ''t'', li_branchId = Some ''x'', li_productId = Some ''a'',
     li_quantity = Fin 2, li_channel = ''POS'', li_date = None\<rparr>"

lemma demo_line_priced:
  "\<exists>pv. calculateLinePriceAtQuantityScale demo_host 5 demo_pricing_db demo_line 2 = Inr pv \<and>
     lp_appliedPromotionId pv = Some ''p''"
proof -
  define product where "product = the (findProductSnapshot demo_pricing_db ''t'' ''a'' 5)"
  have product: "findProductSnapshot demo_pricing_db ''t'' ''a'' 5 = Some product" "ps_taxes product = []"
      "ps_isActive product" "ps_price product = cents 999" "ps_priceWithTax product = None"
    by (simp_all add: product_def findProductSnapshot_def demo_pricing_db_def demo_product_row_def fallbackTaxes_def)
  have price: "getCustomerUnitPrice product = cents 999"
    using product by (simp add: getCustomerUnitPrice_def roundCurrency_of_cents)
  have inp: "assertInput demo_host demo_line = Inr ()" by code_simp
  obtain bp where bp: "calculateLinePreview product (roundQuantity 2 2) (getCustomerUnitPrice product) 0 0 None None
      ''products.price is treated as the visible unit price with tax included; no active promotion applies.'' = Inr bp"
      "lp_baseUnitPrice bp = cents 999"
    using untaxed_preview [OF product(2)] price by metis
  have pre: "prepareBaseLine demo_host 5 demo_pricing_db demo_line 2 = Inr (product, roundQuantity 2 2, 5, bp)"
    using product bp by (simp add: prepareBaseLine_def inp resolveDate_def Let_def) (simp add: demo_line_def resolveDate_def)
  have found: "findApplicablePromotions (promotion_db.truncate demo_pricing_db) ''t'' ''x'' ''a'' 5 = [demo_promo ''p'' 1 150]"
    by (simp add: findApplicablePromotions_def applicable_def demo_pricing_db_def promotion_db.defs
        demo_promotion_row_def demo_promo_def)
  obtain c where c: "calculatePromotionCandidate (demo_promo ''p'' 1 150) (cents 999) = Some c"
      "pc_promotion c = demo_promo ''p'' 1 150"
    by (rule demo_candidate [of "''p''" 1])
  have best: "selectBestPromotion demo_host [demo_promo ''p'' 1 150] (cents 999) = Some c"
    by (simp add: selectBestPromotion_def List.map_filter_simps c)
  have "\<exists>pv. calculateLinePreview product q u d p i n e = Inr pv \<and> lp_appliedPromotionId pv = i" for q u d p i n e
    using untaxed_preview [OF product(2)] by blast
  then show ?thesis
    using pre found best bp c(2)
    by (simp add: calculateLinePriceAtQuantityScale_def demo_line_def Let_def demo_promo_def)
qed


end
