(* ===== verification/Pos_Cart.thy ===== *)
theory Pos_Cart
  imports Prelude
begin

section \<open>The cart of the point of sale\<close>

text \<open>
  \<open>web/store/posCart.ts\<close>: the Redux slice that holds the open accounts (baskets) of a point of
  sale, the sale in progress of the active one, and its copy in the browser's local storage. The
  reducers never look into an item, a payment draft or a sale attempt, so these are JSON values;
  only the validation of a stored snapshot and the persistence read them. The identifiers made
  from the clock and \<open>Math.random\<close>, and the clock itself, are the environment of an action.
\<close>

subsection \<open>State\<close>

datatype sale_status = DRAFT | SUBMITTING | UNKNOWN | CONFIRMED

fun sale_status_name :: "sale_status \<Rightarrow> string" where
  "sale_status_name DRAFT = ''DRAFT''"
| "sale_status_name SUBMITTING = ''SUBMITTING''"
| "sale_status_name UNKNOWN = ''UNKNOWN''"
| "sale_status_name CONFIRMED = ''CONFIRMED''"

record cart_context =
  cx_tenantId :: "string option"
  cx_branchId :: "string option"
  cx_terminalId :: "string option"
  cx_userId :: "string option"
  cx_posSessionId :: "string option"

record cart_account =
  ca_id :: string
  ca_name :: string
  ca_items :: "json list"
  ca_selectedCustomerId :: "string option"
  ca_payments :: "json list"
  ca_saleStatus :: sale_status
  ca_saleAttempt :: "json option"
  ca_createdAt :: rat

record cart =
  ct_contextKey :: "string option"
  ct_context :: cart_context
  ct_accounts :: "cart_account list"
  ct_activeAccountId :: string
  ct_items :: "json list"
  ct_selectedCustomerId :: "string option"
  ct_payments :: "json list"
  ct_saleStatus :: sale_status
  ct_saleAttempt :: "json option"

record cart_env =
  ce_now :: rat
  ce_paymentId :: "nat \<Rightarrow> string"
  ce_accountId :: string

definition POS_CART_STORAGE_PREFIX :: string where
  "POS_CART_STORAGE_PREFIX = ''pos-cart:''"

subsection \<open>Building blocks\<close>

definition buildDefaultPayments :: "cart_env \<Rightarrow> nat \<Rightarrow> json list" where
  "buildDefaultPayments env k =
     [JObj [(''id'', JStr (ce_paymentId env k)), (''paymentMethodId'', JStr []),
            (''amount'', JStr []), (''reference'', JStr [])]]"

definition buildDefaultAccount :: "cart_env \<Rightarrow> cart_account" where
  "buildDefaultAccount env =
     \<lparr>ca_id = ''cuenta-1'', ca_name = ''Cuenta 1'', ca_items = [], ca_selectedCustomerId = None,
      ca_payments = buildDefaultPayments env 0, ca_saleStatus = DRAFT, ca_saleAttempt = None,
      ca_createdAt = ce_now env\<rparr>"

text \<open>\<open>Object.assign(state, ...)\<close> of the sale part of a state: accounts and the active one.\<close>

definition assignSale :: "cart_account list \<Rightarrow> cart_account \<Rightarrow> cart \<Rightarrow> cart" where
  "assignSale accounts active s =
     s\<lparr>ct_accounts := accounts, ct_activeAccountId := ca_id active, ct_items := ca_items active,
       ct_selectedCustomerId := ca_selectedCustomerId active, ct_payments := ca_payments active,
       ct_saleStatus := ca_saleStatus active, ct_saleAttempt := ca_saleAttempt active\<rparr>"

definition buildEmptySaleState :: "cart_env \<Rightarrow> cart \<Rightarrow> cart" where
  "buildEmptySaleState env s =
     (let defaultAccount = buildDefaultAccount env in assignSale [defaultAccount] defaultAccount s)"

text \<open>The account with the sale of the state written into it.\<close>

definition withSale :: "cart \<Rightarrow> cart_account \<Rightarrow> cart_account" where
  "withSale s acc =
     acc\<lparr>ca_items := ct_items s, ca_selectedCustomerId := ct_selectedCustomerId s,
         ca_payments := ct_payments s, ca_saleStatus := ct_saleStatus s,
         ca_saleAttempt := ct_saleAttempt s\<rparr>"

definition syncActiveAccount :: "cart \<Rightarrow> cart" where
  "syncActiveAccount s =
     s\<lparr>ct_accounts := update_first (\<lambda>acc. ca_id acc = ct_activeAccountId s) (withSale s) (ct_accounts s)\<rparr>"

definition loadAccountIntoState :: "cart_env \<Rightarrow> cart_account \<Rightarrow> cart \<Rightarrow> cart" where
  "loadAccountIntoState env acc s =
     s\<lparr>ct_activeAccountId := ca_id acc, ct_items := ca_items acc,
       ct_selectedCustomerId := ca_selectedCustomerId acc,
       ct_payments := (if ca_payments acc \<noteq> [] then ca_payments acc else buildDefaultPayments env 0),
       ct_saleStatus := ca_saleStatus acc, ct_saleAttempt := ca_saleAttempt acc\<rparr>"

definition buildPosCartStorageKey :: "cart_context \<Rightarrow> string option" where
  "buildPosCartStorageKey c =
     (case (cx_tenantId c, cx_branchId c, cx_terminalId c, cx_userId c, cx_posSessionId c) of
        (Some t, Some b, Some m, Some u, Some p) \<Rightarrow>
          if t = [] \<or> b = [] \<or> m = [] \<or> u = [] \<or> p = [] then None
          else Some (POS_CART_STORAGE_PREFIX @ t @ '':'' @ b @ '':'' @ m @ '':'' @ u @ '':'' @ p)
      | _ \<Rightarrow> None)"

definition no_context :: cart_context where
  "no_context = \<lparr>cx_tenantId = None, cx_branchId = None, cx_terminalId = None, cx_userId = None,
     cx_posSessionId = None\<rparr>"

definition initialPosCartState :: "cart_env \<Rightarrow> cart" where
  "initialPosCartState env = buildEmptySaleState env
     \<lparr>ct_contextKey = None, ct_context = no_context, ct_accounts = [], ct_activeAccountId = [],
      ct_items = [], ct_selectedCustomerId = None, ct_payments = [], ct_saleStatus = DRAFT,
      ct_saleAttempt = None\<rparr>"

subsection \<open>Reading a stored snapshot\<close>

definition isValidCartItem :: "json \<Rightarrow> bool" where
  "isValidCartItem item \<longleftrightarrow>
     str_field ''productId'' item \<and> str_field ''name'' item \<and> str_field ''sku'' item \<and>
     num_field ''quantity'' item \<and> num_field ''price'' item \<and> num_field ''stock'' item \<and>
     (str_field ''taxId'' item \<or> jfield ''taxId'' item = Some JNull) \<and>
     num_field ''priceWithoutTax'' item"

definition isValidPayment :: "json \<Rightarrow> bool" where
  "isValidPayment payment \<longleftrightarrow>
     str_field ''id'' payment \<and> str_field ''paymentMethodId'' payment \<and>
     str_field ''amount'' payment \<and> str_field ''reference'' payment"

definition array_field :: "string \<Rightarrow> json \<Rightarrow> json list" where
  "array_field k v = (case jfield k v of Some (JArr xs) \<Rightarrow> xs | _ \<Rightarrow> [])"

definition string_field :: "string \<Rightarrow> json \<Rightarrow> string option" where
  "string_field k v = (case jfield k v of Some (JStr x) \<Rightarrow> Some x | _ \<Rightarrow> None)"

definition rawSaleAttempt :: "json \<Rightarrow> json option" where
  "rawSaleAttempt acc =
     (case jfield ''saleAttempt'' acc of
        None \<Rightarrow> None
      | Some a \<Rightarrow> if str_field ''attemptId'' a \<and> str_field ''startedAt'' a then Some a else None)"

definition restoredStatus :: "json list \<Rightarrow> json option \<Rightarrow> sale_status" where
  "restoredStatus items status =
     (if items = [] then DRAFT
      else if status = Some (JStr ''CONFIRMED'') then CONFIRMED
      else if status = Some (JStr ''UNKNOWN'') \<or> status = Some (JStr ''SUBMITTING'') then UNKNOWN
      else DRAFT)"

definition normalizeAccount :: "cart_env \<Rightarrow> nat \<Rightarrow> json \<Rightarrow> cart_account" where
  "normalizeAccount env index acc =
     (let items = filter isValidCartItem (array_field ''items'' acc);
          payments = filter isValidPayment (array_field ''payments'' acc)
      in \<lparr>ca_id = (case string_field ''id'' acc of
              Some i \<Rightarrow> if i \<noteq> [] then i else ''cuenta-'' @ decimal (index + 1)
            | None \<Rightarrow> ''cuenta-'' @ decimal (index + 1)),
          ca_name = (case string_field ''name'' acc of
              Some n \<Rightarrow> if js_trim n \<noteq> [] then js_trim n else ''Cuenta '' @ decimal (index + 1)
            | None \<Rightarrow> ''Cuenta '' @ decimal (index + 1)),
          ca_items = items,
          ca_selectedCustomerId = string_field ''selectedCustomerId'' acc,
          ca_payments = (if payments \<noteq> [] then payments else buildDefaultPayments env index),
          ca_saleStatus = restoredStatus items (jfield ''saleStatus'' acc),
          ca_saleAttempt = (if items = [] then None else rawSaleAttempt acc),
          ca_createdAt = (case jfield ''createdAt'' acc of Some (JNum n) \<Rightarrow> n | _ \<Rightarrow> ce_now env)\<rparr>)"

text \<open>The single-cart payload of older versions.\<close>

definition normalizeLegacy :: "cart_env \<Rightarrow> json \<Rightarrow> cart_account" where
  "normalizeLegacy env candidate =
     (let items = filter isValidCartItem (array_field ''items'' candidate);
          payments = filter isValidPayment (array_field ''payments'' candidate)
      in \<lparr>ca_id = ''cuenta-1'', ca_name = ''Cuenta 1'', ca_items = items,
          ca_selectedCustomerId = string_field ''selectedCustomerId'' candidate,
          ca_payments = (if payments \<noteq> [] then payments else buildDefaultPayments env 0),
          ca_saleStatus = restoredStatus items (jfield ''saleStatus'' candidate),
          ca_saleAttempt = (if items = [] then None else rawSaleAttempt candidate),
          ca_createdAt = ce_now env\<rparr>)"

fun is_object :: "json \<Rightarrow> bool" where
  "is_object (JObj _) = True"
| "is_object (JArr _) = True"
| "is_object _ = False"

definition normalizePersistedPosCartState :: "cart_env \<Rightarrow> json \<Rightarrow> cart \<Rightarrow> cart" where
  "normalizePersistedPosCartState env value s =
     (if \<not> is_object value then buildEmptySaleState env s
      else if array_field ''accounts'' value \<noteq> [] then
        let raw = array_field ''accounts'' value;
            accounts = map (\<lambda>(index, acc). normalizeAccount env index acc) (enumerate 0 raw);
            activeAccountId = (case string_field ''activeAccountId'' value of
                Some i \<Rightarrow> if list_ex (\<lambda>acc. ca_id acc = i) accounts then i else ca_id (hd accounts)
              | None \<Rightarrow> ca_id (hd accounts));
            activeAccount = (case find (\<lambda>acc. ca_id acc = activeAccountId) accounts of
                Some acc \<Rightarrow> acc | None \<Rightarrow> hd accounts)
        in assignSale accounts activeAccount s
      else let acc = normalizeLegacy env value in assignSale [acc] acc s)"

subsection \<open>Reducers\<close>

definition setPosCartContext :: "cart_env \<Rightarrow> cart_context \<Rightarrow> cart \<Rightarrow> cart" where
  "setPosCartContext env c s =
     (let nextContextKey = buildPosCartStorageKey c;
          contextChanged = (ct_contextKey s \<noteq> nextContextKey);
          s1 = s\<lparr>ct_contextKey := nextContextKey, ct_context := c\<rparr>
      in if contextChanged then buildEmptySaleState env s1 else s1)"

definition hydratePosCart :: "cart_env \<Rightarrow> string \<Rightarrow> json \<Rightarrow> cart \<Rightarrow> cart" where
  "hydratePosCart env contextKey snapshot s =
     (if ct_contextKey s \<noteq> Some contextKey then s else normalizePersistedPosCartState env snapshot s)"

definition locked :: "cart \<Rightarrow> bool" where
  "locked s \<longleftrightarrow> ct_saleStatus s = SUBMITTING \<or> ct_saleStatus s = UNKNOWN"

definition setCartItems :: "json list \<Rightarrow> cart \<Rightarrow> cart" where
  "setCartItems items s = (if locked s then s else syncActiveAccount (s\<lparr>ct_items := items\<rparr>))"

definition setSelectedCustomerId :: "string option \<Rightarrow> cart \<Rightarrow> cart" where
  "setSelectedCustomerId c s =
     (if locked s then s else syncActiveAccount (s\<lparr>ct_selectedCustomerId := c\<rparr>))"

definition setPayments :: "cart_env \<Rightarrow> json list \<Rightarrow> cart \<Rightarrow> cart" where
  "setPayments env payments s =
     (if locked s then s
      else syncActiveAccount
        (s\<lparr>ct_payments := (if payments \<noteq> [] then payments else buildDefaultPayments env 0)\<rparr>))"

definition setSaleStatus :: "sale_status \<Rightarrow> cart \<Rightarrow> cart" where
  "setSaleStatus status s =
     (if ct_saleStatus s = UNKNOWN \<and> status = DRAFT \<and> ct_items s \<noteq> [] then s
      else let s1 = s\<lparr>ct_saleStatus := status\<rparr>;
               s2 = (if status = DRAFT then s1\<lparr>ct_saleAttempt := None\<rparr> else s1)
           in syncActiveAccount s2)"

definition beginSaleSubmission :: "json \<Rightarrow> cart \<Rightarrow> cart" where
  "beginSaleSubmission attempt s =
     syncActiveAccount (s\<lparr>ct_saleStatus := SUBMITTING, ct_saleAttempt := Some attempt\<rparr>)"

definition markSaleSubmissionUnknown :: "cart \<Rightarrow> cart" where
  "markSaleSubmissionUnknown s =
     (if ct_saleAttempt s \<noteq> None then syncActiveAccount (s\<lparr>ct_saleStatus := UNKNOWN\<rparr>) else s)"

definition allowSaleSubmissionRetry :: "cart \<Rightarrow> cart" where
  "allowSaleSubmissionRetry s =
     syncActiveAccount (s\<lparr>ct_saleStatus := DRAFT, ct_saleAttempt := None\<rparr>)"

definition allowUnknownSaleRetry :: "cart \<Rightarrow> cart" where
  "allowUnknownSaleRetry s =
     (if ct_saleStatus s = UNKNOWN \<and> ct_saleAttempt s \<noteq> None
      then syncActiveAccount (s\<lparr>ct_saleStatus := DRAFT\<rparr>) else s)"

definition clearSale :: "cart_env \<Rightarrow> cart \<Rightarrow> cart" where
  "clearSale env s =
     s\<lparr>ct_items := [], ct_selectedCustomerId := None, ct_payments := buildDefaultPayments env 0,
       ct_saleStatus := DRAFT, ct_saleAttempt := None\<rparr>"

definition resetPosCartSale :: "cart_env \<Rightarrow> cart \<Rightarrow> cart" where
  "resetPosCartSale env s = syncActiveAccount (clearSale env s)"

definition addAccount :: "cart_env \<Rightarrow> string option \<Rightarrow> cart \<Rightarrow> cart" where
  "addAccount env name s =
     (let s1 = syncActiveAccount s;
          nextNum = length (ct_accounts s1) + 1;
          newAccount = \<lparr>ca_id = ce_accountId env,
            ca_name = (case trimmed name of Some n \<Rightarrow> n | None \<Rightarrow> ''Cuenta '' @ decimal nextNum),
            ca_items = [], ca_selectedCustomerId = None, ca_payments = buildDefaultPayments env 0,
            ca_saleStatus = DRAFT, ca_saleAttempt = None, ca_createdAt = ce_now env\<rparr>
      in loadAccountIntoState env newAccount (s1\<lparr>ct_accounts := ct_accounts s1 @ [newAccount]\<rparr>))"

definition switchAccount :: "cart_env \<Rightarrow> string \<Rightarrow> cart \<Rightarrow> cart" where
  "switchAccount env targetId s =
     (if targetId = ct_activeAccountId s then s
      else let s1 = syncActiveAccount s
           in case find (\<lambda>acc. ca_id acc = targetId) (ct_accounts s1) of
                Some targetAccount \<Rightarrow> loadAccountIntoState env targetAccount s1
              | None \<Rightarrow> s1)"

definition renameAccount :: "string \<Rightarrow> string \<Rightarrow> cart \<Rightarrow> cart" where
  "renameAccount i name s =
     (let cleanName = js_trim name
      in if cleanName = [] then s
         else s\<lparr>ct_accounts := update_first (\<lambda>acc. ca_id acc = i) (\<lambda>acc. acc\<lparr>ca_name := cleanName\<rparr>) (ct_accounts s)\<rparr>)"

fun find_index :: "('a \<Rightarrow> bool) \<Rightarrow> 'a list \<Rightarrow> nat option" where
  "find_index P [] = None"
| "find_index P (x # xs) = (if P x then Some 0 else map_option Suc (find_index P xs))"

definition removeAccount :: "cart_env \<Rightarrow> string \<Rightarrow> cart \<Rightarrow> cart" where
  "removeAccount env targetId s =
     (if length (ct_accounts s) \<le> 1 then
        let s1 = clearSale env s
        in s1\<lparr>ct_accounts := (case ct_accounts s1 of
             [] \<Rightarrow> []
           | acc # rest \<Rightarrow> (withSale s1 acc)\<lparr>ca_name := ''Cuenta 1'', ca_payments := buildDefaultPayments env 1\<rparr> # rest)\<rparr>
      else case find_index (\<lambda>acc. ca_id acc = targetId) (ct_accounts s) of
             None \<Rightarrow> s
           | Some index \<Rightarrow>
               let remaining = take index (ct_accounts s) @ drop (Suc index) (ct_accounts s);
                   s1 = s\<lparr>ct_accounts := remaining\<rparr>
               in if ct_activeAccountId s = targetId
                  then loadAccountIntoState env (remaining ! (index - 1)) s1
                  else s1)"

definition clearPosCartState :: "cart_env \<Rightarrow> cart \<Rightarrow> cart" where
  "clearPosCartState env s = initialPosCartState env"

datatype cart_action =
    SetPosCartContext cart_context
  | HydratePosCart string json
  | SetCartItems "json list"
  | SetSelectedCustomerId "string option"
  | SetPayments "json list"
  | SetSaleStatus sale_status
  | BeginSaleSubmission json
  | MarkSaleSubmissionUnknown
  | AllowSaleSubmissionRetry
  | AllowUnknownSaleRetry
  | ResetPosCartSale
  | AddAccount "string option"
  | SwitchAccount string
  | RenameAccount string string
  | RemoveAccount string
  | ClearPosCartState

fun cart_reducer :: "cart_env \<Rightarrow> cart_action \<Rightarrow> cart \<Rightarrow> cart" where
  "cart_reducer env (SetPosCartContext c) s = setPosCartContext env c s"
| "cart_reducer env (HydratePosCart k v) s = hydratePosCart env k v s"
| "cart_reducer env (SetCartItems items) s = setCartItems items s"
| "cart_reducer env (SetSelectedCustomerId c) s = setSelectedCustomerId c s"
| "cart_reducer env (SetPayments ps) s = setPayments env ps s"
| "cart_reducer env (SetSaleStatus st) s = setSaleStatus st s"
| "cart_reducer env (BeginSaleSubmission a) s = beginSaleSubmission a s"
| "cart_reducer env MarkSaleSubmissionUnknown s = markSaleSubmissionUnknown s"
| "cart_reducer env AllowSaleSubmissionRetry s = allowSaleSubmissionRetry s"
| "cart_reducer env AllowUnknownSaleRetry s = allowUnknownSaleRetry s"
| "cart_reducer env ResetPosCartSale s = resetPosCartSale env s"
| "cart_reducer env (AddAccount n) s = addAccount env n s"
| "cart_reducer env (SwitchAccount i) s = switchAccount env i s"
| "cart_reducer env (RenameAccount i n) s = renameAccount i n s"
| "cart_reducer env (RemoveAccount i) s = removeAccount env i s"
| "cart_reducer env ClearPosCartState s = clearPosCartState env s"

text \<open>A dispatched action always succeeds.\<close>

definition dispatch_cart :: "cart_env \<times> cart_action \<Rightarrow> cart \<Rightarrow> unit + cart" where
  "dispatch_cart a s = Inr (cart_reducer (fst a) (snd a) s)"

subsection \<open>Local storage\<close>

text \<open>A key holds a JSON text or a text that does not parse (None).\<close>

type_synonym storage = "string \<rightharpoonup> json option"

definition loadPersistedPosCartState :: "string \<Rightarrow> storage \<Rightarrow> json option \<times> storage" where
  "loadPersistedPosCartState contextKey st =
     (case st contextKey of
        None \<Rightarrow> (None, st)
      | Some (Some v) \<Rightarrow> (Some v, st)
      | Some None \<Rightarrow> (None, st(contextKey := None)))"

definition stripCaptures :: "json list \<Rightarrow> json list" where
  "stripCaptures items = map (\<lambda>item. JObj (filter (\<lambda>(k, _). k \<noteq> ''weightCapture'') (obj_fields item))) items"

definition nullable_str :: "string option \<Rightarrow> json" where
  "nullable_str v = (case v of None \<Rightarrow> JNull | Some x \<Rightarrow> JStr x)"

text \<open>An account as \<open>JSON.stringify\<close> writes it.\<close>

definition accountJson :: "cart_account \<Rightarrow> json" where
  "accountJson acc =
     JObj [(''id'', JStr (ca_id acc)), (''name'', JStr (ca_name acc)),
           (''items'', JArr (ca_items acc)),
           (''selectedCustomerId'', nullable_str (ca_selectedCustomerId acc)),
           (''payments'', JArr (ca_payments acc)),
           (''saleStatus'', JStr (sale_status_name (ca_saleStatus acc))),
           (''saleAttempt'', (case ca_saleAttempt acc of None \<Rightarrow> JNull | Some a \<Rightarrow> a)),
           (''createdAt'', JNum (ca_createdAt acc))]"

definition accountsToPersist :: "cart \<Rightarrow> cart_account list" where
  "accountsToPersist s =
     map (\<lambda>acc. let acc' = (if ca_id acc = ct_activeAccountId s then withSale s acc else acc)
                in acc'\<lparr>ca_items := stripCaptures (ca_items acc')\<rparr>) (ct_accounts s)"

definition snapshotOf :: "cart \<Rightarrow> json" where
  "snapshotOf s =
     JObj [(''accounts'', JArr (map accountJson (accountsToPersist s))),
           (''activeAccountId'', JStr (ct_activeAccountId s))]"

definition persistPosCartState :: "cart \<Rightarrow> storage \<Rightarrow> storage" where
  "persistPosCartState s st =
     (case ct_contextKey s of
        None \<Rightarrow> st
      | Some key \<Rightarrow>
          if key = [] then st
          else if sum_list (map (length \<circ> ca_items) (ct_accounts s)) = 0 \<and> length (ct_accounts s) \<le> 1
          then st(key := None)
          else st(key \<mapsto> Some (snapshotOf s)))"

definition clearPersistedPosCartState :: "string option \<Rightarrow> storage \<Rightarrow> storage" where
  "clearPersistedPosCartState contextKey st =
     (if truthy contextKey then st(the contextKey := None)
      else (\<lambda>k. if starts_with k POS_CART_STORAGE_PREFIX then None else st k))"

subsection \<open>The shape of the state\<close>

text \<open>There is an account, the active one exists, and no account is without a payment draft.\<close>

definition cart_wf :: "cart \<Rightarrow> bool" where
  "cart_wf s \<longleftrightarrow> ct_accounts s \<noteq> [] \<and> (\<exists>acc\<in>set (ct_accounts s). ca_id acc = ct_activeAccountId s) \<and>
     ct_payments s \<noteq> [] \<and> (\<forall>acc\<in>set (ct_accounts s). ca_payments acc \<noteq> [])"

lemma default_payments_nonempty [simp]: "buildDefaultPayments env k \<noteq> []"
  by (simp add: buildDefaultPayments_def)

lemma withSale_simps [simp]:
  "ca_id (withSale s acc) = ca_id acc" "ca_payments (withSale s acc) = ct_payments s"
  "ca_items (withSale s acc) = ct_items s" "ca_saleStatus (withSale s acc) = ct_saleStatus s"
  "ca_saleAttempt (withSale s acc) = ct_saleAttempt s" "ca_name (withSale s acc) = ca_name acc"
  "ca_selectedCustomerId (withSale s acc) = ct_selectedCustomerId s" "ca_createdAt (withSale s acc) = ca_createdAt acc"
  by (simp_all add: withSale_def)

lemma sync_ids [simp]: "map ca_id (ct_accounts (syncActiveAccount s)) = map ca_id (ct_accounts s)"
  by (simp add: syncActiveAccount_def update_first_map)

lemma sync_fields [simp]:
  "ct_activeAccountId (syncActiveAccount s) = ct_activeAccountId s"
  "ct_payments (syncActiveAccount s) = ct_payments s"
  "ct_items (syncActiveAccount s) = ct_items s"
  "ct_saleStatus (syncActiveAccount s) = ct_saleStatus s"
  "ct_saleAttempt (syncActiveAccount s) = ct_saleAttempt s"
  "ct_selectedCustomerId (syncActiveAccount s) = ct_selectedCustomerId s"
  "ct_contextKey (syncActiveAccount s) = ct_contextKey s"
  by (simp_all add: syncActiveAccount_def)

lemma active_exists_ids:
  "(\<exists>acc\<in>set accs. ca_id acc = i) \<longleftrightarrow> i \<in> set (map ca_id accs)"
  by auto

lemma cart_wf_sync: "cart_wf s \<Longrightarrow> cart_wf (syncActiveAccount s)"
proof -
  assume wf: "cart_wf s"
  have "ca_payments acc \<noteq> []" if "acc \<in> set (ct_accounts (syncActiveAccount s))" for acc
    using that wf by (auto simp: syncActiveAccount_def cart_wf_def dest!: update_first_set)
  with wf show ?thesis unfolding cart_wf_def active_exists_ids
    by (simp add: syncActiveAccount_def update_first_map)
qed

lemma cart_wf_setters:
  "cart_wf s \<Longrightarrow> cart_wf (s\<lparr>ct_items := items\<rparr>)"
  "cart_wf s \<Longrightarrow> cart_wf (s\<lparr>ct_selectedCustomerId := c\<rparr>)"
  "cart_wf s \<Longrightarrow> ps \<noteq> [] \<Longrightarrow> cart_wf (s\<lparr>ct_payments := ps\<rparr>)"
  "cart_wf s \<Longrightarrow> cart_wf (s\<lparr>ct_saleStatus := st\<rparr>)"
  "cart_wf s \<Longrightarrow> cart_wf (s\<lparr>ct_saleAttempt := a\<rparr>)"
  "cart_wf s \<Longrightarrow> cart_wf (s\<lparr>ct_contextKey := k, ct_context := x\<rparr>)"
  "cart_wf s \<Longrightarrow> cart_wf (clearSale env s)"
  by (simp_all add: cart_wf_def clearSale_def)

lemma cart_wf_load:
  assumes "cart_wf s" "acc \<in> set (ct_accounts s)" shows "cart_wf (loadAccountIntoState env acc s)"
  using assms by (auto simp: cart_wf_def loadAccountIntoState_def)

lemma cart_wf_assignSale:
  assumes "acc \<in> set accs" "\<forall>a\<in>set accs. ca_payments a \<noteq> []" shows "cart_wf (assignSale accs acc s)"
  using assms by (auto simp: cart_wf_def assignSale_def)

lemma cart_wf_empty: "cart_wf (buildEmptySaleState env s)"
  by (simp add: buildEmptySaleState_def Let_def cart_wf_assignSale buildDefaultAccount_def)

lemma cart_wf_normalize: "cart_wf (normalizePersistedPosCartState env v s)"
proof -
  define accs where "accs = map (\<lambda>(index, acc). normalizeAccount env index acc) (enumerate 0 (array_field ''accounts'' v))"
  have pay: "ca_payments (normalizeAccount env i a) \<noteq> []" for i a by (simp add: normalizeAccount_def Let_def)
  have "\<forall>a\<in>set accs. ca_payments a \<noteq> []" using pay by (auto simp: accs_def)
  moreover have "hd accs \<in> set accs" if "array_field ''accounts'' v \<noteq> []"
    using that by (intro hd_in_set) (simp add: accs_def enumerate_eq_zip)
  moreover have "acc \<in> set accs" if "find P accs = Some acc" for P acc using find_in [OF that] by simp
  ultimately show ?thesis
    unfolding normalizePersistedPosCartState_def Let_def accs_def [symmetric]
    by (auto intro!: cart_wf_empty cart_wf_assignSale split: option.split simp: normalizeLegacy_def Let_def)
qed

lemma find_index_bound: "find_index P xs = Some i \<Longrightarrow> i < length xs \<and> P (xs ! i)"
  by (induction xs arbitrary: i) (auto split: if_splits)

lemma cart_wf_remove: assumes wf: "cart_wf s" shows "cart_wf (removeAccount env i s)"
proof (cases "length (ct_accounts s) \<le> 1")
  case True
  then obtain acc where "ct_accounts s = [acc]"
    using wf by (cases "ct_accounts s") (auto simp: cart_wf_def)
  then show ?thesis using wf by (simp add: removeAccount_def Let_def cart_wf_def clearSale_def)
next
  case False
  show ?thesis
  proof (cases "find_index (\<lambda>acc. ca_id acc = i) (ct_accounts s)")
    case None
    with False wf show ?thesis by (simp add: removeAccount_def)
  next
    case (Some k)
    note k = find_index_bound [OF Some]
    define rest where "rest = take k (ct_accounts s) @ drop (Suc k) (ct_accounts s)"
    have len: "length rest = length (ct_accounts s) - 1" using k by (simp add: rest_def)
    have sub: "set rest \<subseteq> set (ct_accounts s)"
      by (auto simp: rest_def dest: in_set_takeD in_set_dropD)
    have "rest ! (k - 1) \<in> set rest" using k False len by (intro nth_mem) auto
    moreover have "\<exists>acc\<in>set rest. ca_id acc = ct_activeAccountId s" if "ct_activeAccountId s \<noteq> i"
    proof -
      obtain acc where acc: "acc \<in> set (ct_accounts s)" "ca_id acc = ct_activeAccountId s"
        using wf by (auto simp: cart_wf_def)
      have "ct_accounts s = take k (ct_accounts s) @ ct_accounts s ! k # drop (Suc k) (ct_accounts s)"
        using k by (simp add: id_take_nth_drop)
      then have "set (ct_accounts s) = insert (ct_accounts s ! k) (set rest)"
        by (metis (no_types, lifting) Un_insert_right list.simps(15) rest_def set_append)
      with acc k that show ?thesis by (metis insertE)
    qed
    moreover have "\<forall>acc\<in>set rest. ca_payments acc \<noteq> []" using wf sub by (auto simp: cart_wf_def)
    ultimately show ?thesis
      using False Some wf len
      by (auto simp: removeAccount_def Let_def rest_def [symmetric] cart_wf_def loadAccountIntoState_def)
  qed
qed

end
