(* ===== verification/Pos_Cart_Facts.thy ===== *)
theory Pos_Cart_Facts
  imports Pos_Cart
begin

section \<open>Facts about the cart\<close>

text \<open>
  The cart always has an active account, edits never touch an account whose sale is being
  submitted or has an unknown outcome, a reload of the page restores every account from local
  storage (a sale being submitted comes back as one of unknown outcome, never as a draft), and
  the storage keys of different operating contexts differ.
\<close>

subsection \<open>Every action keeps the shape of the state\<close>

lemma cart_reducer_wf: "cart_wf s \<Longrightarrow> cart_wf (cart_reducer env a s)"
proof (cases a)
  case (SetPosCartContext c)
  then show "cart_wf s \<Longrightarrow> ?thesis"
    by (simp add: setPosCartContext_def Let_def cart_wf_empty cart_wf_setters)
next
  case (HydratePosCart k v)
  then show "cart_wf s \<Longrightarrow> ?thesis" by (simp add: hydratePosCart_def cart_wf_normalize)
next
  case (SwitchAccount i)
  show "cart_wf s \<Longrightarrow> ?thesis" unfolding SwitchAccount
    by (auto simp: switchAccount_def Let_def split: option.split
        intro!: cart_wf_sync cart_wf_load dest: find_in)
next
  case (AddAccount n)
  assume "cart_wf s"
  then have "cart_wf (syncActiveAccount s)" by (rule cart_wf_sync)
  then show ?thesis unfolding AddAccount
    by (auto simp: addAccount_def Let_def cart_wf_def loadAccountIntoState_def)
next
  case (RenameAccount i n)
  assume wf: "cart_wf s"
  define accs where "accs = update_first (\<lambda>acc. ca_id acc = i) (\<lambda>acc. acc\<lparr>ca_name := js_trim n\<rparr>) (ct_accounts s)"
  have "map ca_id accs = map ca_id (ct_accounts s)" by (simp add: accs_def update_first_map)
  then have "ct_activeAccountId s \<in> set (map ca_id accs)"
    using wf unfolding cart_wf_def active_exists_ids by simp
  moreover have "\<forall>acc\<in>set accs. ca_payments acc \<noteq> []"
    using wf by (auto simp: accs_def cart_wf_def dest!: update_first_set)
  ultimately have "cart_wf (s\<lparr>ct_accounts := accs\<rparr>)"
    using wf unfolding cart_wf_def active_exists_ids by (simp add: accs_def)
  with wf show ?thesis unfolding RenameAccount by (simp add: renameAccount_def Let_def accs_def)
next
  case (RemoveAccount i)
  then show "cart_wf s \<Longrightarrow> ?thesis" by (simp add: cart_wf_remove)
qed (auto simp: setCartItems_def setSelectedCustomerId_def setPayments_def setSaleStatus_def Let_def
    beginSaleSubmission_def markSaleSubmissionUnknown_def allowSaleSubmissionRetry_def
    allowUnknownSaleRetry_def resetPosCartSale_def clearPosCartState_def initialPosCartState_def
    intro!: cart_wf_sync cart_wf_setters cart_wf_empty)

interpretation cart_shape: preserved dispatch_cart cart_wf
  by unfold_locales (auto simp: dispatch_cart_def cart_reducer_wf)

text \<open>The cart never loses its active account. From the initial state, after any
  sequence of actions, with any payload and any stored snapshot, there is an account with the
  active id, and the sale and every account have a payment draft.\<close>

theorem cart_always_wf: "cart_wf (attempts dispatch_cart as (initialPosCartState env))"
  by (rule cart_shape.attempts_preserve) (simp add: initialPosCartState_def cart_wf_empty)

subsection \<open>Pending sales\<close>

text \<open>The accounts with the sale of the state written into the active one.\<close>

definition effectiveAccounts :: "cart \<Rightarrow> cart_account list" where
  "effectiveAccounts s =
     map (\<lambda>acc. if ca_id acc = ct_activeAccountId s then withSale s acc else acc) (ct_accounts s)"

definition account_ids :: "cart \<Rightarrow> string list" where
  "account_ids s = map ca_id (ct_accounts s)"

fun is_edit :: "cart_action \<Rightarrow> bool" where
  "is_edit (SetCartItems _) = True"
| "is_edit (SetSelectedCustomerId _) = True"
| "is_edit (SetPayments _) = True"
| "is_edit (AddAccount _) = True"
| "is_edit (SwitchAccount _) = True"
| "is_edit (RenameAccount _ _) = True"
| "is_edit _ = False"

text \<open>An edit of the cart; the generated account id is new, as its clock and random part make it.\<close>

inductive cart_edit :: "cart \<Rightarrow> cart \<Rightarrow> bool" where
  "is_edit a \<Longrightarrow> ce_accountId env \<notin> set (account_ids s) \<Longrightarrow> cart_edit s (cart_reducer env a s)"

inductive_cases cart_editE: "cart_edit s t"

lemma update_first_distinct:
  "distinct (map g xs) \<Longrightarrow> update_first (\<lambda>x. g x = i) f xs = map (\<lambda>x. if g x = i then f x else x) xs"
proof (induction xs)
  case (Cons x xs)
  show ?case
  proof (cases "g x = i")
    case True
    then have "g y \<noteq> i" if "y \<in> set xs" for y
      using Cons.prems that by (auto simp: rev_image_eqI)
    then have "map (\<lambda>y. if g y = i then f y else y) xs = xs" by (intro map_idI) auto
    with True show ?thesis by simp
  next
    case False
    with Cons show ?thesis by simp
  qed
qed simp

lemma withSale_withSale [simp]: "withSale s (withSale s' acc) = withSale s acc"
  by (simp add: withSale_def)

lemma withSale_sync [simp]: "withSale (syncActiveAccount s) = withSale s"
  by (rule ext) (simp add: withSale_def)

lemma accounts_sync:
  "distinct (account_ids s) \<Longrightarrow> ct_accounts (syncActiveAccount s) = effectiveAccounts s"
  by (simp add: syncActiveAccount_def effectiveAccounts_def account_ids_def update_first_distinct)

lemma effective_ids [simp]: "map ca_id (effectiveAccounts s) = account_ids s"
  by (simp add: effectiveAccounts_def account_ids_def)

lemma effective_sync:
  assumes "distinct (account_ids s)" shows "effectiveAccounts (syncActiveAccount s) = effectiveAccounts s"
  unfolding effectiveAccounts_def [of "syncActiveAccount s"] accounts_sync [OF assms]
  by (simp add: effectiveAccounts_def)

lemma account_ids_sync [simp]: "account_ids (syncActiveAccount s) = account_ids s"
  by (simp add: account_ids_def)

text \<open>Loading an account that is in the list shows the same accounts.\<close>

lemma effective_load:
  assumes "distinct (account_ids s)" "acc \<in> set (ct_accounts s)" "ca_payments acc \<noteq> []"
  shows "effectiveAccounts (loadAccountIntoState env acc s) = ct_accounts s"
proof -
  have "b = acc" if "b \<in> set (ct_accounts s)" "ca_id b = ca_id acc" for b
    using assms(1,2) that by (auto simp: account_ids_def distinct_map inj_on_def)
  moreover have "withSale (loadAccountIntoState env acc s) acc = acc"
    using assms(3) by (simp add: withSale_def loadAccountIntoState_def)
  moreover have "ct_accounts (loadAccountIntoState env acc s) = ct_accounts s"
      "ct_activeAccountId (loadAccountIntoState env acc s) = ca_id acc"
    by (simp_all add: loadAccountIntoState_def)
  ultimately show ?thesis by (simp add: effectiveAccounts_def) (intro map_idI, auto)
qed

lemma effective_switch:
  assumes "distinct (account_ids s)" "cart_wf s"
  shows "effectiveAccounts (switchAccount env i s) = effectiveAccounts s"
proof (cases "i = ct_activeAccountId s \<or> find (\<lambda>acc. ca_id acc = i) (ct_accounts (syncActiveAccount s)) = None")
  case True
  then show ?thesis using assms by (auto simp: switchAccount_def effective_sync)
next
  case False
  then obtain acc where acc: "find (\<lambda>acc. ca_id acc = i) (ct_accounts (syncActiveAccount s)) = Some acc" by auto
  have "cart_wf (syncActiveAccount s)" using assms(2) by (rule cart_wf_sync)
  then have "ca_payments acc \<noteq> []" using find_in [OF acc] by (simp add: cart_wf_def)
  then have "effectiveAccounts (loadAccountIntoState env acc (syncActiveAccount s)) = ct_accounts (syncActiveAccount s)"
    using assms(1) find_in [OF acc] by (intro effective_load) simp_all
  then show ?thesis using False acc assms(1) by (simp add: switchAccount_def Let_def accounts_sync)
qed

lemma effective_add:
  assumes "distinct (account_ids s)" "ce_accountId env \<notin> set (account_ids s)"
  shows "\<exists>new. effectiveAccounts (addAccount env n s) = effectiveAccounts s @ [new]"
proof -
  have "ca_id acc \<noteq> ce_accountId env" if "acc \<in> set (effectiveAccounts s)" for acc
    using assms(2) that effective_ids [of s] by (metis image_eqI set_map)
  then have "map (\<lambda>acc. if ca_id acc = ce_accountId env then withSale s' acc else acc) (effectiveAccounts s) =
      effectiveAccounts s" for s'
    by (intro map_idI) auto
  then show ?thesis
    using assms(1)
    by (simp add: addAccount_def Let_def loadAccountIntoState_def effectiveAccounts_def [of "_\<lparr>ct_accounts := _\<rparr>"]
        effectiveAccounts_def [of "cart.extend _ _"] accounts_sync)
       (simp add: effectiveAccounts_def)
qed

text \<open>What an edit leaves alone: another name is all a pending account can get.\<close>

definition same_sale :: "cart_account \<Rightarrow> cart_account \<Rightarrow> bool" where
  "same_sale a b \<longleftrightarrow> ca_id a = ca_id b \<and> ca_items a = ca_items b \<and> ca_payments a = ca_payments b \<and>
     ca_selectedCustomerId a = ca_selectedCustomerId b \<and> ca_saleStatus a = ca_saleStatus b \<and>
     ca_saleAttempt a = ca_saleAttempt b"

lemma same_sale_refl [simp]: "same_sale a a"
  by (simp add: same_sale_def)

lemma same_sale_in [intro]: "acc \<in> X \<Longrightarrow> \<exists>x\<in>X. same_sale acc x"
  using same_sale_refl by blast

definition pending :: "cart_account \<Rightarrow> bool" where
  "pending acc \<longleftrightarrow> ca_saleStatus acc = SUBMITTING \<or> ca_saleStatus acc = UNKNOWN"

lemma effective_unlocked:
  assumes "acc \<in> set (effectiveAccounts s)" "pending acc" "\<not> locked s"
    and "ct_accounts s' = ct_accounts s" "ct_activeAccountId s' = ct_activeAccountId s"
  shows "acc \<in> set (effectiveAccounts s')"
proof -
  have "ca_id acc \<noteq> ct_activeAccountId s"
    using assms(1-3) by (auto simp: effectiveAccounts_def pending_def locked_def)
  then show ?thesis using assms(1,4,5) by (force simp: effectiveAccounts_def)
qed

lemma effective_rename:
  assumes "acc \<in> set (effectiveAccounts s)" "distinct (account_ids s)"
  shows "\<exists>acc'\<in>set (effectiveAccounts (renameAccount i n s)). same_sale acc acc'"
proof (cases "js_trim n = []")
  case True
  then show ?thesis using assms(1) by (simp add: renameAccount_def same_sale_in)
next
  case False
  obtain b where b: "b \<in> set (ct_accounts s)"
    "acc = (if ca_id b = ct_activeAccountId s then withSale s b else b)"
    using assms(1) by (auto simp: effectiveAccounts_def)
  define f :: "cart_account \<Rightarrow> cart_account" where "f = (\<lambda>a. if ca_id a = i then a\<lparr>ca_name := js_trim n\<rparr> else a)"
  have accs: "ct_accounts (renameAccount i n s) = map f (ct_accounts s)"
    using False assms(2) by (simp add: renameAccount_def Let_def f_def update_first_distinct account_ids_def)
  have act: "ct_activeAccountId (renameAccount i n s) = ct_activeAccountId s"
    and wst: "withSale (renameAccount i n s) = withSale s"
    by (auto simp: renameAccount_def Let_def withSale_def)
  have "same_sale acc (if ca_id (f b) = ct_activeAccountId s then withSale s (f b) else f b)"
    by (auto simp: b(2) f_def same_sale_def)
  moreover have "(if ca_id (f b) = ct_activeAccountId s then withSale s (f b) else f b) \<in>
      set (effectiveAccounts (renameAccount i n s))"
    unfolding effectiveAccounts_def accs act wst using b(1) by auto
  ultimately show ?thesis by blast
qed

lemma edit_keeps_pending:
  assumes "is_edit a" "ce_accountId env \<notin> set (account_ids s)" and wf: "cart_wf s" "distinct (account_ids s)"
    and acc: "acc \<in> set (effectiveAccounts s)" "pending acc"
  shows "\<exists>acc'\<in>set (effectiveAccounts (cart_reducer env a s)). same_sale acc acc'"
proof (cases a)
  case (SetCartItems items)
  have "acc \<in> set (effectiveAccounts (s\<lparr>ct_items := items\<rparr>))" if "\<not> locked s"
    using effective_unlocked [OF acc that] by simp
  then have "acc \<in> set (effectiveAccounts (setCartItems items s))"
    using acc(1) wf(2) effective_sync [of "s\<lparr>ct_items := items\<rparr>"] by (auto simp: setCartItems_def account_ids_def)
  then show ?thesis using SetCartItems by (simp add: same_sale_in)
next
  case (SetSelectedCustomerId c)
  have "acc \<in> set (effectiveAccounts (s\<lparr>ct_selectedCustomerId := c\<rparr>))" if "\<not> locked s"
    using effective_unlocked [OF acc that] by simp
  then have "acc \<in> set (effectiveAccounts (setSelectedCustomerId c s))"
    using acc(1) wf(2) effective_sync [of "s\<lparr>ct_selectedCustomerId := c\<rparr>"]
    by (auto simp: setSelectedCustomerId_def account_ids_def)
  then show ?thesis using SetSelectedCustomerId by (simp add: same_sale_in)
next
  case (SetPayments ps)
  let ?s = "s\<lparr>ct_payments := (if ps \<noteq> [] then ps else buildDefaultPayments env 0)\<rparr>"
  have "acc \<in> set (effectiveAccounts ?s)" if "\<not> locked s"
    using effective_unlocked [OF acc that] by simp
  then have "acc \<in> set (effectiveAccounts (setPayments env ps s))"
    using acc(1) wf(2) effective_sync [of ?s] by (auto simp: setPayments_def account_ids_def)
  then show ?thesis using SetPayments by (simp add: same_sale_in)
next
  case (AddAccount n)
  then show ?thesis using effective_add [OF wf(2) assms(2), of n] acc(1) by (auto simp: same_sale_in)
next
  case (SwitchAccount i)
  then show ?thesis using effective_switch [OF wf(2,1)] acc(1) by (simp add: same_sale_in)
next
  case (RenameAccount i n)
  then show ?thesis using effective_rename [OF acc(1) wf(2)] by simp
qed (use assms(1) in simp_all)

lemma edit_keeps_distinct:
  assumes "is_edit a" "ce_accountId env \<notin> set (account_ids s)" "distinct (account_ids s)"
  shows "distinct (account_ids (cart_reducer env a s))"
proof (cases a)
  case (AddAccount n)
  then show ?thesis using assms
    by (simp add: addAccount_def Let_def loadAccountIntoState_def account_ids_def)
next
  case (SwitchAccount i)
  have "account_ids (switchAccount env i s) = account_ids s"
    by (auto simp: switchAccount_def Let_def loadAccountIntoState_def account_ids_def split: option.split)
  then show ?thesis using SwitchAccount assms(3) by simp
next
  case (RenameAccount i n)
  have "account_ids (renameAccount i n s) = account_ids s"
    by (simp add: renameAccount_def Let_def account_ids_def update_first_map)
  then show ?thesis using RenameAccount assms(3) by simp
qed (use assms in \<open>simp_all add: setCartItems_def setSelectedCustomerId_def setPayments_def account_ids_def\<close>)


definition demo_cart_env :: cart_env where
  "demo_cart_env = \<lparr>ce_now = 1, ce_paymentId = (\<lambda>_. ''pay''), ce_accountId = ''cuenta-x''\<rparr>"

definition demo_item :: json where
  "demo_item = JObj [(''productId'', JStr ''a''), (''name'', JStr ''A''), (''sku'', JStr ''s''),
     (''quantity'', JNum 1), (''price'', JNum 10), (''stock'', JNum 5), (''taxId'', JNull),
     (''priceWithoutTax'', JNum 10), (''weightCapture'', JStr ''c'')]"

definition demo_attempt :: json where
  "demo_attempt = JObj [(''attemptId'', JStr ''s-1''), (''startedAt'', JStr ''2026-01-01'')]"

definition demo_context :: cart_context where
  "demo_context = \<lparr>cx_tenantId = Some ''t'', cx_branchId = Some ''b'', cx_terminalId = Some ''m'',
     cx_userId = Some ''u'', cx_posSessionId = Some ''p''\<rparr>"

text \<open>A cart with one item whose sale is being submitted.\<close>

definition demo_cart :: cart where
  "demo_cart = beginSaleSubmission demo_attempt (setCartItems [demo_item]
     (setPosCartContext demo_cart_env demo_context (initialPosCartState demo_cart_env)))"

lemma demo_cart_value:
  "demo_cart = \<lparr>ct_contextKey = Some ''pos-cart:t:b:m:u:p'', ct_context = demo_context,
     ct_accounts = [\<lparr>ca_id = ''cuenta-1'', ca_name = ''Cuenta 1'', ca_items = [demo_item],
       ca_selectedCustomerId = None, ca_payments = buildDefaultPayments demo_cart_env 0,
       ca_saleStatus = SUBMITTING, ca_saleAttempt = Some demo_attempt, ca_createdAt = 1\<rparr>],
     ct_activeAccountId = ''cuenta-1'', ct_items = [demo_item], ct_selectedCustomerId = None,
     ct_payments = buildDefaultPayments demo_cart_env 0, ct_saleStatus = SUBMITTING,
     ct_saleAttempt = Some demo_attempt\<rparr>"
  by code_simp


subsection \<open>Reloading the page\<close>

text \<open>A cart whose contents the application itself built: valid items, payments and attempts, named
  accounts with ids.\<close>

definition storable :: "cart_account \<Rightarrow> bool" where
  "storable acc \<longleftrightarrow> ca_id acc \<noteq> [] \<and> js_trim (ca_name acc) = ca_name acc \<and> ca_name acc \<noteq> [] \<and>
     (\<forall>item\<in>set (ca_items acc). isValidCartItem item) \<and>
     ca_payments acc \<noteq> [] \<and> (\<forall>p\<in>set (ca_payments acc). isValidPayment p) \<and>
     (case ca_saleAttempt acc of None \<Rightarrow> True | Some a \<Rightarrow> str_field ''attemptId'' a \<and> str_field ''startedAt'' a)"

text \<open>What comes back: the items without their weight captures, an empty account as a draft, a sale
  that was being submitted as one of unknown outcome.\<close>

fun restored_status :: "sale_status \<Rightarrow> sale_status" where
  "restored_status SUBMITTING = UNKNOWN"
| "restored_status st = st"

definition restored :: "cart_account \<Rightarrow> cart_account" where
  "restored acc = acc\<lparr>ca_items := stripCaptures (ca_items acc),
     ca_saleStatus := (if ca_items acc = [] then DRAFT else restored_status (ca_saleStatus acc)),
     ca_saleAttempt := (if ca_items acc = [] then None else ca_saleAttempt acc)\<rparr>"

lemma accountJson_fields [simp]:
  "jfield ''id'' (accountJson acc) = Some (JStr (ca_id acc))"
  "jfield ''name'' (accountJson acc) = Some (JStr (ca_name acc))"
  "jfield ''items'' (accountJson acc) = Some (JArr (ca_items acc))"
  "jfield ''selectedCustomerId'' (accountJson acc) = Some (nullable_str (ca_selectedCustomerId acc))"
  "jfield ''payments'' (accountJson acc) = Some (JArr (ca_payments acc))"
  "jfield ''saleStatus'' (accountJson acc) = Some (JStr (sale_status_name (ca_saleStatus acc)))"
  "jfield ''saleAttempt'' (accountJson acc) = Some (case ca_saleAttempt acc of None \<Rightarrow> JNull | Some a \<Rightarrow> a)"
  "jfield ''createdAt'' (accountJson acc) = Some (JNum (ca_createdAt acc))"
  by (simp_all add: jfield_def accountJson_def)

lemma stripped_field: "k \<noteq> ''weightCapture'' \<Longrightarrow> jfield k (JObj (filter (\<lambda>(k, _). k \<noteq> ''weightCapture'') (obj_fields v))) = jfield k v"
  by (simp add: jfield_def map_of_filter_key)

lemma stripped_valid:
  "isValidCartItem v \<Longrightarrow> isValidCartItem (JObj (filter (\<lambda>(k, _). k \<noteq> ''weightCapture'') (obj_fields v)))"
  by (simp add: isValidCartItem_def str_field_def num_field_def stripped_field)

lemma filter_stripped:
  assumes "\<forall>item\<in>set items. isValidCartItem item"
  shows "filter isValidCartItem (stripCaptures items) = stripCaptures items"
  using assms by (intro filter_True) (auto simp: stripCaptures_def stripped_valid)

lemma restoredStatus_name:
  "restoredStatus items (Some (JStr (sale_status_name st))) = (if items = [] then DRAFT else restored_status st)"
  by (cases st) (simp_all add: restoredStatus_def)

lemma str_field_JNull: "\<not> str_field k JNull"
  by (simp add: str_field_def jfield_def)

lemma normalize_accountJson:
  assumes "storable acc"
  shows "normalizeAccount env i (accountJson (acc\<lparr>ca_items := stripCaptures (ca_items acc)\<rparr>)) = restored acc"
proof -
  have items: "filter isValidCartItem (stripCaptures (ca_items acc)) = stripCaptures (ca_items acc)"
    using assms by (intro filter_stripped) (simp add: storable_def)
  have pays: "filter isValidPayment (ca_payments acc) = ca_payments acc"
    using assms by (simp add: storable_def)
  have att: "rawSaleAttempt (accountJson (acc\<lparr>ca_items := x\<rparr>)) = ca_saleAttempt acc" for x
    using assms str_field_JNull by (cases "ca_saleAttempt acc") (simp_all add: rawSaleAttempt_def storable_def)
  have "stripCaptures xs = [] \<longleftrightarrow> xs = []" for xs by (simp add: stripCaptures_def)
  then show ?thesis
    using assms
    by (simp add: normalizeAccount_def array_field_def string_field_def items pays att restoredStatus_name
        restored_def storable_def Let_def nullable_str_def split: option.split)
qed

lemma map_enumerate:
  "(\<And>i x. x \<in> set xs \<Longrightarrow> f i x = g x) \<Longrightarrow> map (\<lambda>(i, x). f i x) (enumerate n xs) = map g xs"
  by (induction xs arbitrary: n) auto

lemma accountsToPersist_effective:
  "accountsToPersist s = map (\<lambda>acc. acc\<lparr>ca_items := stripCaptures (ca_items acc)\<rparr>) (effectiveAccounts s)"
  by (simp add: accountsToPersist_def effectiveAccounts_def Let_def)

lemma restored_simps [simp]: "ca_id (restored acc) = ca_id acc" "ca_payments (restored acc) = ca_payments acc"
  by (simp_all add: restored_def)

lemma normalize_snapshot:
  assumes wf: "cart_wf s" and st: "\<forall>acc\<in>set (effectiveAccounts s). storable acc"
  shows "\<exists>active. find (\<lambda>acc. ca_id acc = ct_activeAccountId s) (map restored (effectiveAccounts s)) = Some active \<and>
    normalizePersistedPosCartState env (snapshotOf s) s0 = assignSale (map restored (effectiveAccounts s)) active s0"
proof -
  define accs where "accs = map restored (effectiveAccounts s)"
  have fields: "array_field ''accounts'' (snapshotOf s) = map accountJson (accountsToPersist s)"
      "string_field ''activeAccountId'' (snapshotOf s) = Some (ct_activeAccountId s)" "is_object (snapshotOf s)"
    by (simp_all add: array_field_def string_field_def jfield_def snapshotOf_def)
  have norm: "map (\<lambda>(i, a). normalizeAccount env i a) (enumerate 0 (map accountJson (accountsToPersist s))) = accs"
    unfolding accs_def accountsToPersist_effective map_map
    by (subst map_enumerate [where g = "normalizeAccount env 0"])
       (use st normalize_accountJson in \<open>auto simp: comp_def\<close>)
  have "ct_activeAccountId s \<in> set (map ca_id accs)"
    using wf effective_ids [of s] unfolding cart_wf_def active_exists_ids account_ids_def
    by (simp add: accs_def comp_def)
  then have ex: "list_ex (\<lambda>acc. ca_id acc = ct_activeAccountId s) accs" by (auto simp: list_ex_iff)
  then obtain active where active: "find (\<lambda>acc. ca_id acc = ct_activeAccountId s) accs = Some active"
    by (cases "find (\<lambda>acc. ca_id acc = ct_activeAccountId s) accs") (auto simp: find_None_iff list_ex_iff)
  have "accountsToPersist s \<noteq> []" using wf by (simp add: accountsToPersist_def cart_wf_def)
  then have "normalizePersistedPosCartState env (snapshotOf s) s0 = assignSale accs active s0"
    using ex active by (simp add: normalizePersistedPosCartState_def fields norm)
  with active show ?thesis by (auto simp: accs_def)
qed

text \<open>Property C36: a reload restores the carts. If a cart with valid contents is persisted and a fresh
  page of the same context loads the stored snapshot and hydrates from it, every account comes back
  with its items (without weight captures), customer, payments and attempt, and the same account is
  active; a sale that was being submitted comes back with an unknown outcome, never as a draft that
  could be charged again.\<close>

theorem cart_reload:
  assumes "cart_wf s" "\<forall>acc\<in>set (effectiveAccounts s). storable acc"
    and "ct_contextKey s = Some key" "key \<noteq> []" "ct_contextKey s0 = Some key"
    and "length (ct_accounts s) > 1 \<or> (\<exists>acc\<in>set (ct_accounts s). ca_items acc \<noteq> [])"
  shows "\<exists>v. loadPersistedPosCartState key (persistPosCartState s st) = (Some v, persistPosCartState s st) \<and>
    (let t = hydratePosCart env key v s0
     in ct_accounts t = map restored (effectiveAccounts s) \<and> ct_activeAccountId t = ct_activeAccountId s)"
proof -
  have stored: "persistPosCartState s st = st(key \<mapsto> Some (snapshotOf s))"
    using assms(3,4,6) by (auto simp: persistPosCartState_def)
  obtain active where active: "find (\<lambda>acc. ca_id acc = ct_activeAccountId s) (map restored (effectiveAccounts s)) = Some active"
    "normalizePersistedPosCartState env (snapshotOf s) s0 = assignSale (map restored (effectiveAccounts s)) active s0"
    using normalize_snapshot [OF assms(1,2)] by blast
  then have "ca_id active = ct_activeAccountId s" by (auto dest: find_in)
  then show ?thesis
    using active(2) assms(5) by (simp add: stored loadPersistedPosCartState_def hydratePosCart_def assignSale_def)
qed

lemma cart_reload_witness:
  "\<exists>v. loadPersistedPosCartState ''pos-cart:t:b:m:u:p'' (persistPosCartState demo_cart (\<lambda>_. None)) =
      (Some v, persistPosCartState demo_cart (\<lambda>_. None)) \<and>
    map ca_saleStatus (ct_accounts (hydratePosCart demo_cart_env ''pos-cart:t:b:m:u:p'' v
      (setPosCartContext demo_cart_env demo_context (initialPosCartState demo_cart_env)))) = [UNKNOWN]"
proof -
  have eff: "effectiveAccounts demo_cart = ct_accounts demo_cart"
    by (simp add: demo_cart_value effectiveAccounts_def withSale_def)
  have wf: "cart_wf demo_cart" by (simp add: demo_cart_value cart_wf_def)
  have st: "\<forall>acc\<in>set (effectiveAccounts demo_cart). storable acc"
    unfolding eff demo_cart_value by code_simp
  have key: "ct_contextKey demo_cart = Some ''pos-cart:t:b:m:u:p''"
    "ct_contextKey (setPosCartContext demo_cart_env demo_context (initialPosCartState demo_cart_env)) = Some ''pos-cart:t:b:m:u:p''"
    by (simp add: demo_cart_value) code_simp
  have items: "length (ct_accounts demo_cart) > 1 \<or> (\<exists>acc\<in>set (ct_accounts demo_cart). ca_items acc \<noteq> [])"
    by (simp add: demo_cart_value)
  have "map ca_saleStatus (map restored (effectiveAccounts demo_cart)) = [UNKNOWN]"
    unfolding eff by (simp add: demo_cart_value restored_def)
  then show ?thesis
    using cart_reload [OF wf st key(1) _ key(2) items, of "\<lambda>_. None" demo_cart_env]
    by (auto simp: Let_def)
qed

subsection \<open>Storage keys\<close>

lemma colon_split:
  "a @ CHR '':'' # x = b @ CHR '':'' # y \<Longrightarrow> CHR '':'' \<notin> set a \<Longrightarrow> CHR '':'' \<notin> set b \<Longrightarrow> a = b \<and> x = y"
proof (induction a arbitrary: b)
  case Nil
  then show ?case by (cases b) auto
next
  case (Cons c a)
  then show ?case by (cases b) auto
qed

definition colon_free :: "string option \<Rightarrow> bool" where
  "colon_free v \<longleftrightarrow> (case v of None \<Rightarrow> True | Some s \<Rightarrow> CHR '':'' \<notin> set s)"

text \<open>Carts of different operating contexts are kept apart. Two complete contexts whose
  tenant, branch, terminal and user ids contain no colon (they are UUIDs) have the same storage key
  only if they are the same context.\<close>

theorem cart_key_injective:
  assumes "buildPosCartStorageKey c = Some k" "buildPosCartStorageKey d = Some k"
    and "\<forall>v\<in>{cx_tenantId c, cx_branchId c, cx_terminalId c, cx_userId c}. colon_free v"
    and "\<forall>v\<in>{cx_tenantId d, cx_branchId d, cx_terminalId d, cx_userId d}. colon_free v"
  shows "c = d"
proof -
  have parts: "\<exists>t b m u p. cx_tenantId x = Some t \<and> cx_branchId x = Some b \<and> cx_terminalId x = Some m \<and>
      cx_userId x = Some u \<and> cx_posSessionId x = Some p \<and>
      k = POS_CART_STORAGE_PREFIX @ t @ '':'' @ b @ '':'' @ m @ '':'' @ u @ '':'' @ p"
    if "buildPosCartStorageKey x = Some k" for x
    using that by (auto simp: buildPosCartStorageKey_def split: option.splits if_splits)
  from parts [OF assms(1)] obtain t b m u p where c: "cx_tenantId c = Some t" "cx_branchId c = Some b"
      "cx_terminalId c = Some m" "cx_userId c = Some u" "cx_posSessionId c = Some p"
      "k = POS_CART_STORAGE_PREFIX @ t @ '':'' @ b @ '':'' @ m @ '':'' @ u @ '':'' @ p" by blast
  from parts [OF assms(2)] obtain t' b' m' u' p' where d: "cx_tenantId d = Some t'" "cx_branchId d = Some b'"
      "cx_terminalId d = Some m'" "cx_userId d = Some u'" "cx_posSessionId d = Some p'"
      "k = POS_CART_STORAGE_PREFIX @ t' @ '':'' @ b' @ '':'' @ m' @ '':'' @ u' @ '':'' @ p'" by blast
  have free: "CHR '':'' \<notin> set t" "CHR '':'' \<notin> set b" "CHR '':'' \<notin> set m" "CHR '':'' \<notin> set u"
      "CHR '':'' \<notin> set t'" "CHR '':'' \<notin> set b'" "CHR '':'' \<notin> set m'" "CHR '':'' \<notin> set u'"
    using assms(3,4) c(1-4) d(1-4) by (simp_all add: colon_free_def)
  have "t @ CHR '':'' # b @ CHR '':'' # m @ CHR '':'' # u @ CHR '':'' # p =
      t' @ CHR '':'' # b' @ CHR '':'' # m' @ CHR '':'' # u' @ CHR '':'' # p'"
    using c(6) d(6) by simp
  with free have "t = t' \<and> b = b' \<and> m = m' \<and> u = u' \<and> p = p'" by (metis colon_split)
  with c d show "c = d" by simp
qed

lemma cart_key_injective_witness: "demo_context = demo_context\<lparr>cx_userId := Some ''u''\<rparr>"
proof (rule cart_key_injective)
  show "buildPosCartStorageKey demo_context = Some ''pos-cart:t:b:m:u:p''" by code_simp
  show "buildPosCartStorageKey (demo_context\<lparr>cx_userId := Some ''u''\<rparr>) = Some ''pos-cart:t:b:m:u:p''" by code_simp
qed (simp_all add: demo_context_def colon_free_def)

end
