(* ===== verification/Scale_Domain.thy ===== *)
theory Scale_Domain
  imports Prelude
begin

section \<open>The domain of scale authorization\<close>

text \<open>
  \<open>api/src/modules/scale-authorization/domain/\<close>: the binding of a scale to a terminal and its
  confirmation in kilograms, the opaque credential of the local agent, the weight capture that a
  sale consumes, the availability of a real scale, and the identity of a ROCHI scale. An \<open>Error\<close>
  the code throws is an internal error with its code. Dates are the ISO strings of the code, read
  by the host; the random secrets and ids are arguments.
\<close>

subsection \<open>Bindings\<close>

datatype binding_status = PENDING | AUTHORIZED | REVOKED | DISABLED

datatype unit_state = NOT_VERIFIED | KG_VERIFIED

record binding_context =
  bc_tenantId :: string
  bc_branchId :: string
  bc_posTerminalId :: string
  bc_operationalTerminalId :: string
  bc_terminalDeviceId :: string
  bc_logicalScaleId :: string

record unit_verification =
  uv_method :: string
  uv_unit :: string
  uv_operatorId :: string
  uv_verifiedAt :: string

record scale_binding =
  sb_id :: string
  sb_context :: binding_context
  sb_status :: binding_status
  sb_unitState :: unit_state
  sb_unitVerification :: "unit_verification option"

record kg_confirmation =
  kc_method :: string
  kc_displayedUnit :: string
  kc_operatorId :: string
  kc_confirmedAt :: string

definition bindingContextMatches :: "binding_context \<Rightarrow> binding_context \<Rightarrow> bool" where
  "bindingContextMatches actual expected \<longleftrightarrow>
     list_all (\<lambda>key. key expected \<noteq> [] \<and> key actual = key expected)
       [bc_tenantId, bc_branchId, bc_posTerminalId, bc_operationalTerminalId, bc_terminalDeviceId, bc_logicalScaleId]"

definition confirmationValid :: "host \<Rightarrow> int \<Rightarrow> kg_confirmation option \<Rightarrow> bool" where
  "confirmationValid h now confirmation \<longleftrightarrow>
     (case confirmation of
        None \<Rightarrow> False
      | Some c \<Rightarrow> kc_displayedUnit c = ''kg'' \<and> kc_operatorId c \<noteq> [] \<and>
          (case date_parse h (kc_confirmedAt c) of None \<Rightarrow> False | Some confirmedAt \<Rightarrow> \<not> confirmedAt > now))"

definition authorizeScaleBinding ::
  "host \<Rightarrow> int \<Rightarrow> scale_binding \<Rightarrow> kg_confirmation option \<Rightarrow> binding_context \<Rightarrow> scale_binding http" where
  "authorizeScaleBinding h now binding confirmation expectedContext =
     (if \<not> bindingContextMatches (sb_context binding) expectedContext
      then Inl (InternalError ''SCALE_BINDING_CONTEXT_MISMATCH'')
      else if sb_status binding \<noteq> PENDING then Inl (InternalError ''SCALE_BINDING_NOT_PENDING'')
      else if \<not> confirmationValid h now confirmation then Inl (InternalError ''KG_OPERATOR_CONFIRMATION_REQUIRED'')
      else let c = the confirmation
           in Inr (binding\<lparr>sb_unitState := KG_VERIFIED,
                sb_unitVerification := Some \<lparr>uv_method = kc_method c, uv_unit = kc_displayedUnit c,
                  uv_operatorId = kc_operatorId c, uv_verifiedAt = kc_confirmedAt c\<rparr>,
                sb_status := AUTHORIZED\<rparr>))"

definition revokeScaleBinding :: "scale_binding \<Rightarrow> scale_binding" where
  "revokeScaleBinding binding = binding\<lparr>sb_status := REVOKED\<rparr>"

definition disableScaleBinding :: "scale_binding \<Rightarrow> scale_binding" where
  "disableScaleBinding binding = binding\<lparr>sb_status := DISABLED\<rparr>"

definition assertBindingInvariant :: "scale_binding \<Rightarrow> unit http" where
  "assertBindingInvariant binding =
     (if sb_status binding = AUTHORIZED \<and> (sb_unitState binding \<noteq> KG_VERIFIED \<or> sb_unitVerification binding = None)
      then Inl (InternalError ''AUTHORIZED_BINDING_REQUIRES_KG_VERIFIED'')
      else if sb_unitState binding = KG_VERIFIED \<and>
          (case sb_unitVerification binding of None \<Rightarrow> True | Some v \<Rightarrow> uv_unit v \<noteq> ''kg'')
      then Inl (InternalError ''KG_VERIFIED_REQUIRES_OPERATOR_EVIDENCE'')
      else Inr ())"

subsection \<open>Credentials\<close>

record agent_credential =
  ac_verifierSha256 :: string
  ac_expiresAt :: string
  ac_revokedAt :: "string option"

datatype credential_check = VALID | EXPIRED_CREDENTIAL | REVOKED_CREDENTIAL | INVALID

definition verifierFor :: "host \<Rightarrow> string \<Rightarrow> string" where
  "verifierFor h secret = sha256_hex h secret"

text \<open>\<open>Buffer.from(s, "hex")\<close> decodes pairs of digits up to the first that is not one.\<close>

fun hex_bytes :: "string \<Rightarrow> nat list" where
  "hex_bytes (a # b # cs) =
     (case (hex_value a, hex_value b) of
        (Some x, Some y) \<Rightarrow> (16 * x + y) # hex_bytes cs
      | _ \<Rightarrow> [])"
| "hex_bytes _ = []"

text \<open>\<open>length\<close> comparison and \<open>timingSafeEqual\<close> on two buffers.\<close>

definition same_bytes :: "string \<Rightarrow> string \<Rightarrow> bool" where
  "same_bytes supplied stored \<longleftrightarrow> hex_bytes supplied = hex_bytes stored"

definition verifyOpaqueAgentCredential :: "host \<Rightarrow> int \<Rightarrow> string \<Rightarrow> agent_credential \<Rightarrow> credential_check" where
  "verifyOpaqueAgentCredential h now secret credential =
     (if secret = [] \<or> ac_verifierSha256 credential = [] \<or> date_parse h (ac_expiresAt credential) = None then INVALID
      else if truthy (ac_revokedAt credential) then REVOKED_CREDENTIAL
      else if the (date_parse h (ac_expiresAt credential)) \<le> now then EXPIRED_CREDENTIAL
      else if \<not> same_bytes (verifierFor h secret) (ac_verifierSha256 credential) then INVALID
      else VALID)"

subsection \<open>Availability of the real scale\<close>

record agent_observation =
  ao_available :: bool
  ao_observedAt :: string
  ao_logicalScaleId :: string

record availability_input =
  ai_credential :: "agent_credential option"
  ai_credentialSecret :: "string option"
  ai_binding :: "scale_binding option"
  ai_expectedContext :: binding_context
  ai_observation :: "agent_observation option"
  ai_maxObservationAgeMs :: int

datatype availability_reason =
    READY_REASON | NO_AGENT_CREDENTIAL | AGENT_REVOKED | AGENT_CREDENTIAL_EXPIRED
  | NO_BINDING | BINDING_PENDING | BINDING_REVOKED | BINDING_DISABLED
  | UNIT_NOT_VERIFIED | SCALE_MISMATCH | AGENT_UNAVAILABLE_OR_STALE

definition observationFresh :: "host \<Rightarrow> int \<Rightarrow> int \<Rightarrow> agent_observation option \<Rightarrow> bool" where
  "observationFresh h now maxAge observation \<longleftrightarrow>
     (case observation of
        None \<Rightarrow> False
      | Some ob \<Rightarrow> ao_available ob \<and>
          (case date_parse h (ao_observedAt ob) of
             None \<Rightarrow> False
           | Some observedAt \<Rightarrow> \<not> now - observedAt > maxAge \<and> \<not> observedAt > now))"

definition bindingReason :: "host \<Rightarrow> int \<Rightarrow> availability_input \<Rightarrow> scale_binding \<Rightarrow> availability_reason" where
  "bindingReason h now inp binding =
     (if sb_status binding = PENDING then BINDING_PENDING
      else if sb_status binding = REVOKED then BINDING_REVOKED
      else if sb_status binding = DISABLED then BINDING_DISABLED
      else if assertBindingInvariant binding \<noteq> Inr () then UNIT_NOT_VERIFIED
      else if sb_unitState binding \<noteq> KG_VERIFIED then UNIT_NOT_VERIFIED
      else if \<not> bindingContextMatches (sb_context binding) (ai_expectedContext inp) then SCALE_MISMATCH
      else if Some (bc_logicalScaleId (sb_context binding)) \<noteq> map_option ao_logicalScaleId (ai_observation inp) then SCALE_MISMATCH
      else if \<not> observationFresh h now (ai_maxObservationAgeMs inp) (ai_observation inp) then AGENT_UNAVAILABLE_OR_STALE
      else READY_REASON)"

definition deriveRealAvailability :: "host \<Rightarrow> int \<Rightarrow> availability_input \<Rightarrow> bool \<times> availability_reason" where
  "deriveRealAvailability h now inp =
     (let reason =
        (if ai_credential inp = None \<or> \<not> truthy (ai_credentialSecret inp) then NO_AGENT_CREDENTIAL
         else case verifyOpaqueAgentCredential h now (the (ai_credentialSecret inp)) (the (ai_credential inp)) of
                REVOKED_CREDENTIAL \<Rightarrow> AGENT_REVOKED
              | EXPIRED_CREDENTIAL \<Rightarrow> AGENT_CREDENTIAL_EXPIRED
              | INVALID \<Rightarrow> NO_AGENT_CREDENTIAL
              | VALID \<Rightarrow> (case ai_binding inp of None \<Rightarrow> NO_BINDING | Some b \<Rightarrow> bindingReason h now inp b))
      in (reason = READY_REASON, reason))"

subsection \<open>Weight captures\<close>

datatype capture_status = CAPTURE_PENDING | READY | CONSUMED | EXPIRED | REJECTED

record capture_context =
  cc_tenantId :: string
  cc_branchId :: string
  cc_posTerminalId :: string
  cc_operationalTerminalId :: string
  cc_posSessionId :: string
  cc_productId :: string
  cc_logicalScaleId :: string
  cc_bindingId :: string

record weight_observation =
  wo_source :: string
  wo_value :: jsnum
  wo_unit :: "string option"
  wo_unitVerified :: bool
  wo_observedAt :: string

record weight_capture =
  wc_captureId :: string
  wc_context :: capture_context
  wc_nonceVerifier :: string
  wc_expiresAt :: string
  wc_status :: capture_status
  wc_observation :: "weight_observation option"

definition createWeightCapture ::
  "host \<Rightarrow> int \<Rightarrow> string \<Rightarrow> string \<Rightarrow> capture_context \<Rightarrow> int \<Rightarrow> (weight_capture \<times> string) http" where
  "createWeightCapture h now nonce captureId context ttlMs =
     (if ttlMs \<le> 0 then Inl (InternalError ''CAPTURE_TTL_INVALID'')
      else Inr (\<lparr>wc_captureId = captureId, wc_context = context, wc_nonceVerifier = sha256_hex h nonce,
                 wc_expiresAt = iso_string h (now + ttlMs), wc_status = CAPTURE_PENDING, wc_observation = None\<rparr>,
                nonce))"

text \<open>\<open>Date.parse(...) <= now\<close> is false for an invalid date.\<close>

definition date_le :: "host \<Rightarrow> string \<Rightarrow> int \<Rightarrow> bool" where
  "date_le h d now = (case date_parse h d of None \<Rightarrow> False | Some t \<Rightarrow> t \<le> now)"

definition commercialObservation :: "host \<Rightarrow> weight_observation \<Rightarrow> bool" where
  "commercialObservation h ob \<longleftrightarrow> wo_source ob = ''REAL'' \<and> wo_unit ob = Some ''kg'' \<and> wo_unitVerified ob \<and>
     is_finite (wo_value ob) \<and> \<not> num_lt0 (wo_value ob) \<and> date_parse h (wo_observedAt ob) \<noteq> None"

definition markCaptureReady :: "host \<Rightarrow> int \<Rightarrow> weight_capture \<Rightarrow> weight_observation \<Rightarrow> weight_capture http" where
  "markCaptureReady h now capture ob =
     (if wc_status capture \<noteq> CAPTURE_PENDING then Inl (InternalError ''CAPTURE_NOT_PENDING'')
      else if date_le h (wc_expiresAt capture) now then Inr (capture\<lparr>wc_status := EXPIRED\<rparr>)
      else if wo_source ob \<noteq> ''REAL'' then Inr (capture\<lparr>wc_status := REJECTED\<rparr>)
      else if wo_unit ob \<noteq> Some ''kg'' \<or> \<not> wo_unitVerified ob then Inr (capture\<lparr>wc_status := REJECTED\<rparr>)
      else if \<not> is_finite (wo_value ob) \<or> num_lt0 (wo_value ob) \<or> date_parse h (wo_observedAt ob) = None
      then Inr (capture\<lparr>wc_status := REJECTED\<rparr>)
      else Inr (capture\<lparr>wc_status := READY, wc_observation := Some ob\<rparr>))"

definition captureContextMatches :: "capture_context \<Rightarrow> capture_context \<Rightarrow> bool" where
  "captureContextMatches actual expected \<longleftrightarrow>
     list_all (\<lambda>key. key expected \<noteq> [] \<and> key actual = key expected)
       [cc_tenantId, cc_branchId, cc_posTerminalId, cc_operationalTerminalId,
        cc_posSessionId, cc_productId, cc_logicalScaleId, cc_bindingId]"

definition consumeWeightCapture ::
  "host \<Rightarrow> int \<Rightarrow> weight_capture \<Rightarrow> string \<Rightarrow> capture_context \<Rightarrow> (weight_capture \<times> jsnum) http" where
  "consumeWeightCapture h now capture nonce expectedContext =
     (case wc_observation capture of
        None \<Rightarrow> Inl (InternalError ''CAPTURE_NOT_READY'')
      | Some ob \<Rightarrow>
          if wc_status capture \<noteq> READY then Inl (InternalError ''CAPTURE_NOT_READY'')
          else if date_le h (wc_expiresAt capture) now then Inl (InternalError ''CAPTURE_EXPIRED'')
          else if \<not> same_bytes (sha256_hex h nonce) (wc_nonceVerifier capture) then Inl (InternalError ''CAPTURE_NONCE_INVALID'')
          else if \<not> captureContextMatches (wc_context capture) expectedContext then Inl (InternalError ''CAPTURE_CONTEXT_MISMATCH'')
          else Inr (capture\<lparr>wc_status := CONSUMED\<rparr>, wo_value ob))"

text \<open>The reference a client may send for a weighed line: an id and a nonce and nothing else.\<close>

definition parseWeightedSaleCaptureReference :: "json \<Rightarrow> (string \<times> string) http" where
  "parseWeightedSaleCaptureReference value =
     (case value of
        JObj props \<Rightarrow>
          if list_ex (\<lambda>(k, _). k \<notin> {''captureId'', ''nonce''}) props
          then Inl (InternalError ''CLIENT_WEIGHT_AUTHORITY_FORBIDDEN'')
          else (case (jfield ''captureId'' value, jfield ''nonce'' value) of
                  (Some (JStr captureId), Some (JStr nonce)) \<Rightarrow>
                    if js_trim captureId = [] \<or> js_trim nonce = [] then Inl (InternalError ''CAPTURE_REFERENCE_INVALID'')
                    else Inr (captureId, nonce)
                | _ \<Rightarrow> Inl (InternalError ''CAPTURE_REFERENCE_INVALID''))
      | _ \<Rightarrow> Inl (InternalError ''CAPTURE_REFERENCE_INVALID''))"

definition saleModeRequiresWeightCapture :: "string \<Rightarrow> string \<Rightarrow> bool" where
  "saleModeRequiresWeightCapture mode quantityMode \<longleftrightarrow>
     mode = ''WEIGHT'' \<or> mode = ''BOTH'' \<and> quantityMode = ''WEIGHT''"

subsection \<open>Identity of a ROCHI scale\<close>

record rochi_identity =
  ri_profileId :: string
  ri_pnpDeviceInstanceId :: string
  ri_vendorId :: string
  ri_productId :: string
  ri_port :: "string option"

definition logicalRochiScaleId :: "host \<Rightarrow> rochi_identity \<Rightarrow> string http" where
  "logicalRochiScaleId h inp =
     (if ri_profileId inp \<noteq> ''ROCHI_A01E'' then Inl (InternalError ''SCALE_PROFILE_UNSUPPORTED'')
      else if js_upper (ri_vendorId inp) \<noteq> ''1A86'' \<or> js_upper (ri_productId inp) \<noteq> ''7523''
      then Inl (InternalError ''SCALE_PNP_IDENTITY_UNSUPPORTED'')
      else if js_trim (ri_pnpDeviceInstanceId inp) = [] then Inl (InternalError ''SCALE_PNP_IDENTITY_REQUIRED'')
      else Inr (''serial-rochi-a01e-'' @ take 16 (sha256_hex h (js_upper (ri_pnpDeviceInstanceId inp)))))"

definition lower_hex :: "char \<Rightarrow> bool" where
  "lower_hex c = (let n = code c in 97 \<le> n \<and> n \<le> 102 \<or> 48 \<le> n \<and> n \<le> 57)"

definition isCanonicalRochiScaleId :: "string \<Rightarrow> bool" where
  "isCanonicalRochiScaleId value \<longleftrightarrow>
     starts_with value ''serial-rochi-a01e-'' \<and>
     (let rest = drop (length ''serial-rochi-a01e-'') value in length rest = 16 \<and> list_all lower_hex rest)"

end
