(* ===== verification/Scale_Persistence.thy ===== *)
theory Scale_Persistence
  imports Scale_Domain
begin

section \<open>Persistence of scale authorization\<close>

text \<open>
  \<open>persistence/scale-authorization.repositories.ts\<close> and the requests of
  \<open>scale-authorization.runtime.service.ts\<close> that use it: credentials of the local agents, scale
  bindings and weight captures, over the tables their SQL reads and writes. A statement is a
  function of the tables; \<open>rowCount !== 1\<close> is the number of matching rows. Primary keys and
  unique indexes make an insert fail. A failed request is rolled back. One request sees one
  instant, \<open>se_now\<close>, both as \<open>new Date()\<close> and as \<open>now()\<close>; its random values are its environment.
\<close>

subsection \<open>Tables\<close>

record binding_row =
  bn_id :: string
  bn_context :: binding_context
  bn_status :: binding_status
  bn_unitState :: unit_state
  bn_method :: "string option"
  bn_unit :: "string option"
  bn_verifiedBy :: "string option"
  bn_verifiedAt :: "int option"
  bn_createdBy :: string
  bn_createdAt :: int
  bn_revokedAt :: "int option"
  bn_revokedBy :: "string option"

text \<open>\<open>cw_weightKg\<close> is a \<open>numeric(18, 6)\<close>: an integer number of millionths of a kilogram.\<close>

record capture_row =
  cw_captureId :: string
  cw_context :: capture_context
  cw_terminalDeviceId :: string
  cw_nonceVerifier :: string
  cw_status :: capture_status
  cw_weightKg :: "int option"
  cw_source :: "string option"
  cw_unit :: "string option"
  cw_unitVerified :: "bool option"
  cw_observedAt :: "int option"
  cw_createdAt :: int
  cw_expiresAt :: int
  cw_consumedAt :: "int option"
  cw_consumedSaleId :: "string option"
  cw_consumedBy :: "string option"

datatype credential_status = CRED_ACTIVE | CRED_EXPIRED | CRED_ROTATED | CRED_REVOKED

record credential_row =
  cd_tenantId :: string
  cd_deviceId :: string
  cd_credentialId :: string
  cd_verifier :: string
  cd_status :: credential_status
  cd_issuedAt :: int
  cd_expiresAt :: "int option"
  cd_rotatedAt :: "int option"
  cd_rotatedBy :: "string option"
  cd_revokedAt :: "int option"
  cd_revokedBy :: "string option"
  cd_createdBy :: string

record device_row =
  dv_id :: string
  dv_tenantId :: string
  dv_status :: string

record pos_terminal_row =
  pt_id :: string
  pt_tenantId :: string
  pt_branchId :: string
  pt_operationalTerminalId :: "string option"
  pt_active :: bool

record terminal_row =
  tm_id :: string
  tm_tenantId :: string
  tm_branchId :: string
  tm_active :: bool

record sale_row =
  sl_id :: string
  sl_tenantId :: string
  sl_branchId :: string
  sl_terminalId :: string
  sl_posSessionId :: string

record pos_session_row =
  ps_id :: string
  ps_tenantId :: string
  ps_branchId :: string
  ps_terminalId :: string
  ps_userId :: string
  ps_active :: bool

text \<open>What the code reads of a product; raw weight and commercial quantity of a weighed sale line, in
  millionths and thousandths of a kilogram.\<close>

record sale_weight_row =
  sw_tenantId :: string
  sw_captureId :: string
  sw_saleId :: string
  sw_saleItemId :: string
  sw_rawWeight :: int
  sw_commercial :: int

record weighed_product_row =
  wp_id :: string
  wp_tenantId :: string
  wp_active :: bool
  wp_saleType :: string
  wp_measurementUnit :: string

text \<open>Device bindings are (tenant, terminal, device, active); scale settings of a terminal are
  (terminal, scale device, enabled).\<close>

record scale_db =
  sd_bindings :: "binding_row list"
  sd_captures :: "capture_row list"
  sd_credentials :: "credential_row list"
  sd_devices :: "device_row list"
  sd_posTerminals :: "pos_terminal_row list"
  sd_terminals :: "terminal_row list"
  sd_deviceBindings :: "(string \<times> string \<times> string \<times> bool) list"
  sd_settings :: "(string \<times> string option \<times> bool) list"
  sd_sales :: "sale_row list"
  sd_sessions :: "pos_session_row list"
  sd_products :: "weighed_product_row list"
  sd_saleWeights :: "sale_weight_row list"

text \<open>\<open>se_column\<close> is the store of a number in a \<open>numeric(18, 6)\<close> column, None on its overflow.\<close>

record scale_env =
  se_host :: host
  se_now :: int
  se_uuid :: string
  se_nonce :: string
  se_column :: "rat \<Rightarrow> int option"

definition deviceUsable :: "scale_db \<Rightarrow> string \<Rightarrow> string \<Rightarrow> bool" where
  "deviceUsable db tenantId deviceId \<longleftrightarrow>
     (\<exists>d\<in>set (sd_devices db). dv_id d = deviceId \<and> dv_tenantId d = tenantId \<and> dv_status d \<noteq> ''REVOKED'')"

subsection \<open>Credentials\<close>

definition credential_insert ::
  "scale_env \<Rightarrow> string \<Rightarrow> string \<Rightarrow> string \<Rightarrow> string \<Rightarrow> int \<Rightarrow> string \<Rightarrow> scale_db \<Rightarrow> scale_db http" where
  "credential_insert env tenantId deviceId credentialId secret expiresAt actorId db =
     (if \<exists>c\<in>set (sd_credentials db). cd_credentialId c = credentialId \<or>
            cd_deviceId c = deviceId \<and> cd_status c = CRED_ACTIVE
      then Inl (InternalError ''23505'')
      else Inr (db\<lparr>sd_credentials := sd_credentials db @
             [\<lparr>cd_tenantId = tenantId, cd_deviceId = deviceId, cd_credentialId = credentialId,
               cd_verifier = verifierFor (se_host env) secret, cd_status = CRED_ACTIVE,
               cd_issuedAt = se_now env, cd_expiresAt = Some expiresAt, cd_rotatedAt = None, cd_rotatedBy = None,
               cd_revokedAt = None, cd_revokedBy = None, cd_createdBy = actorId\<rparr>]\<rparr>))"

text \<open>The first result is false when no row was inserted (the device is unknown or revoked).\<close>

definition credential_issue ::
  "scale_env \<Rightarrow> string \<Rightarrow> string \<Rightarrow> string \<Rightarrow> string \<Rightarrow> int \<Rightarrow> string \<Rightarrow> scale_db \<Rightarrow> (bool \<times> scale_db) http" where
  "credential_issue env tenantId deviceId credentialId secret expiresAt actorId db =
     (if secret = [] \<or> credentialId = [] \<or> actorId = [] \<or> expiresAt \<le> se_now env
      then Inl (InternalError ''CREDENTIAL_INPUT_INVALID'')
      else let due = (\<lambda>c. cd_tenantId c = tenantId \<and> cd_deviceId c = deviceId \<and> cd_status c = CRED_ACTIVE \<and>
                        (case cd_expiresAt c of None \<Rightarrow> False | Some e \<Rightarrow> e \<le> se_now env));
               db1 = db\<lparr>sd_credentials := update_where due (\<lambda>c. c\<lparr>cd_status := CRED_EXPIRED\<rparr>) (sd_credentials db)\<rparr>
           in if deviceUsable db tenantId deviceId
              then and_then (credential_insert env tenantId deviceId credentialId secret expiresAt actorId db1)
                     (\<lambda>db2. Inr (True, db2))
              else Inr (False, db1))"

definition credential_findActive :: "scale_env \<Rightarrow> string \<Rightarrow> string \<Rightarrow> string \<Rightarrow> scale_db \<Rightarrow> credential_row option" where
  "credential_findActive env tenantId deviceId credentialId db =
     find (\<lambda>c. cd_tenantId c = tenantId \<and> cd_deviceId c = deviceId \<and> cd_credentialId c = credentialId \<and>
               cd_status c = CRED_ACTIVE \<and> (case cd_expiresAt c of None \<Rightarrow> False | Some e \<Rightarrow> e > se_now env) \<and>
               deviceUsable db (cd_tenantId c) (cd_deviceId c))
          (sd_credentials db)"

definition credential_revoke :: "scale_env \<Rightarrow> string \<Rightarrow> string \<Rightarrow> string \<Rightarrow> scale_db \<Rightarrow> bool \<times> scale_db" where
  "credential_revoke env tenantId credentialId actorId db =
     (let hit = (\<lambda>c. cd_tenantId c = tenantId \<and> cd_credentialId c = credentialId \<and> cd_status c = CRED_ACTIVE)
      in (list_ex hit (sd_credentials db),
          db\<lparr>sd_credentials := update_where hit
               (\<lambda>c. c\<lparr>cd_status := CRED_REVOKED, cd_revokedAt := Some (se_now env), cd_revokedBy := Some actorId\<rparr>)
               (sd_credentials db)\<rparr>))"

definition credential_expireDue :: "int \<Rightarrow> scale_db \<Rightarrow> scale_db" where
  "credential_expireDue now db =
     db\<lparr>sd_credentials := update_where
          (\<lambda>c. cd_status c = CRED_ACTIVE \<and> (case cd_expiresAt c of None \<Rightarrow> False | Some e \<Rightarrow> e \<le> now))
          (\<lambda>c. c\<lparr>cd_status := CRED_EXPIRED\<rparr>) (sd_credentials db)\<rparr>"

definition credential_rotate ::
  "scale_env \<Rightarrow> string \<Rightarrow> string \<Rightarrow> string \<Rightarrow> string \<Rightarrow> string \<Rightarrow> int \<Rightarrow> string \<Rightarrow> scale_db \<Rightarrow> (bool \<times> scale_db) http" where
  "credential_rotate env tenantId deviceId credentialId nextCredentialId nextSecret expiresAt actorId db =
     (if nextSecret = [] \<or> actorId = [] then Inl (InternalError ''CREDENTIAL_INPUT_INVALID'')
      else let hit = (\<lambda>c. cd_tenantId c = tenantId \<and> cd_deviceId c = deviceId \<and>
                        cd_credentialId c = credentialId \<and> cd_status c = CRED_ACTIVE)
           in if count hit (sd_credentials db) \<noteq> 1 then Inl (InternalError ''ACTIVE_CREDENTIAL_NOT_FOUND'')
              else credential_issue env tenantId deviceId nextCredentialId nextSecret expiresAt actorId
                     (db\<lparr>sd_credentials := update_where hit
                          (\<lambda>c. c\<lparr>cd_status := CRED_ROTATED, cd_rotatedAt := Some (se_now env), cd_rotatedBy := Some actorId\<rparr>)
                          (sd_credentials db)\<rparr>))"

subsection \<open>Bindings\<close>

definition bindingFrom :: "host \<Rightarrow> binding_row \<Rightarrow> scale_binding" where
  "bindingFrom h row =
     \<lparr>sb_id = bn_id row, sb_context = bn_context row, sb_status = bn_status row, sb_unitState = bn_unitState row,
      sb_unitVerification =
        (case (bn_verifiedBy row, bn_verifiedAt row) of
           (Some u, Some t) \<Rightarrow>
             if bn_unitState row = KG_VERIFIED \<and> u \<noteq> []
             then Some \<lparr>uv_method = coalesce (bn_method row) ''OPERATOR_CONFIRMATION'',
                        uv_unit = coalesce (bn_unit row) ''kg'', uv_operatorId = u,
                        uv_verifiedAt = iso_string h t\<rparr>
             else None
         | _ \<Rightarrow> None)\<rparr>"

fun active_status :: "binding_status \<Rightarrow> bool" where
  "active_status PENDING = True"
| "active_status AUTHORIZED = True"
| "active_status _ = False"

definition scopeAvailable :: "scale_db \<Rightarrow> binding_context \<Rightarrow> bool" where
  "scopeAvailable db ctx \<longleftrightarrow>
     (\<exists>p\<in>set (sd_posTerminals db). pt_tenantId p = bc_tenantId ctx \<and> pt_branchId p = bc_branchId ctx \<and>
        pt_id p = bc_posTerminalId ctx \<and> pt_active p) \<and>
     (\<exists>t\<in>set (sd_terminals db). tm_id t = bc_operationalTerminalId ctx \<and> tm_tenantId t = bc_tenantId ctx \<and>
        tm_branchId t = bc_branchId ctx \<and> tm_active t) \<and>
     deviceUsable db (bc_tenantId ctx) (bc_terminalDeviceId ctx)"

text \<open>The unique indexes on active bindings: one per terminal and one per scale of a tenant.\<close>

definition binding_conflict :: "scale_db \<Rightarrow> string \<Rightarrow> binding_context \<Rightarrow> bool" where
  "binding_conflict db i ctx \<longleftrightarrow>
     (\<exists>b\<in>set (sd_bindings db). bn_id b = i \<or> active_status (bn_status b) \<and>
        (bc_posTerminalId (bn_context b) = bc_posTerminalId ctx \<or>
         bc_tenantId (bn_context b) = bc_tenantId ctx \<and> bc_logicalScaleId (bn_context b) = bc_logicalScaleId ctx))"

definition binding_createPending :: "scale_env \<Rightarrow> binding_context \<Rightarrow> string \<Rightarrow> scale_db \<Rightarrow> (bool \<times> scale_db) http" where
  "binding_createPending env ctx actorId db =
     (if \<not> scopeAvailable db ctx then Inr (False, db)
      else if binding_conflict db (se_uuid env) ctx then Inl (InternalError ''23505'')
      else Inr (True, db\<lparr>sd_bindings := sd_bindings db @
             [\<lparr>bn_id = se_uuid env, bn_context = ctx, bn_status = PENDING, bn_unitState = NOT_VERIFIED,
               bn_method = None, bn_unit = None, bn_verifiedBy = None, bn_verifiedAt = None,
               bn_createdBy = actorId, bn_createdAt = se_now env, bn_revokedAt = None, bn_revokedBy = None\<rparr>]\<rparr>))"

definition binding_row_at :: "string \<Rightarrow> string \<Rightarrow> binding_row \<Rightarrow> bool" where
  "binding_row_at tenantId i b \<longleftrightarrow> bc_tenantId (bn_context b) = tenantId \<and> bn_id b = i"

definition binding_findForUpdate :: "host \<Rightarrow> string \<Rightarrow> string \<Rightarrow> scale_db \<Rightarrow> scale_binding option" where
  "binding_findForUpdate h tenantId i db =
     map_option (bindingFrom h) (find (binding_row_at tenantId i) (sd_bindings db))"

definition authorizable :: "string \<Rightarrow> string \<Rightarrow> binding_context \<Rightarrow> binding_row \<Rightarrow> bool" where
  "authorizable tenantId i expected b \<longleftrightarrow>
     binding_row_at tenantId i b \<and> bn_status b = PENDING \<and> bn_unitState b = NOT_VERIFIED \<and>
     bc_branchId (bn_context b) = bc_branchId expected \<and>
     bc_posTerminalId (bn_context b) = bc_posTerminalId expected \<and>
     bc_operationalTerminalId (bn_context b) = bc_operationalTerminalId expected \<and>
     bc_terminalDeviceId (bn_context b) = bc_terminalDeviceId expected \<and>
     bc_logicalScaleId (bn_context b) = bc_logicalScaleId expected"

definition binding_authorize ::
  "scale_env \<Rightarrow> string \<Rightarrow> string \<Rightarrow> binding_context \<Rightarrow> kg_confirmation \<Rightarrow> scale_db \<Rightarrow> scale_db http" where
  "binding_authorize env tenantId i expected confirmation db =
     (case binding_findForUpdate (se_host env) tenantId i db of
        None \<Rightarrow> Inl (InternalError ''SCALE_BINDING_NOT_FOUND'')
      | Some row \<Rightarrow>
          and_then (authorizeScaleBinding (se_host env) (se_now env) row (Some confirmation) expected) (\<lambda>authorized.
          and_then (assertBindingInvariant authorized) (\<lambda>_.
          if count (authorizable tenantId i expected) (sd_bindings db) \<noteq> 1
          then Inl (InternalError ''SCALE_BINDING_CONTEXT_MISMATCH'')
          else Inr (db\<lparr>sd_bindings := update_where (authorizable tenantId i expected)
                 (\<lambda>b. b\<lparr>bn_status := AUTHORIZED, bn_unitState := KG_VERIFIED,
                        bn_method := Some ''OPERATOR_CONFIRMATION'', bn_unit := Some ''kg'',
                        bn_verifiedBy := Some (kc_operatorId confirmation),
                        bn_verifiedAt := date_parse (se_host env) (kc_confirmedAt confirmation)\<rparr>)
                 (sd_bindings db)\<rparr>))))"

definition live_capture :: "capture_row \<Rightarrow> bool" where
  "live_capture c \<longleftrightarrow> cw_status c = CAPTURE_PENDING \<or> cw_status c = READY"

definition reject_captures :: "string \<Rightarrow> string \<Rightarrow> scale_db \<Rightarrow> scale_db" where
  "reject_captures tenantId i db =
     db\<lparr>sd_captures := update_where
          (\<lambda>c. cc_tenantId (cw_context c) = tenantId \<and> cc_bindingId (cw_context c) = i \<and> live_capture c)
          (\<lambda>c. c\<lparr>cw_status := REJECTED\<rparr>) (sd_captures db)\<rparr>"

definition closable :: "string \<Rightarrow> string \<Rightarrow> binding_row \<Rightarrow> bool" where
  "closable tenantId i b \<longleftrightarrow> binding_row_at tenantId i b \<and> active_status (bn_status b)"

definition binding_close ::
  "(binding_row \<Rightarrow> binding_row) \<Rightarrow> string \<Rightarrow> string \<Rightarrow> scale_db \<Rightarrow> bool \<times> scale_db" where
  "binding_close f tenantId i db =
     (let n = count (closable tenantId i) (sd_bindings db);
          db1 = db\<lparr>sd_bindings := update_where (closable tenantId i) f (sd_bindings db)\<rparr>
      in (n > 0, if n = 1 then reject_captures tenantId i db1 else db1))"

definition binding_revoke :: "scale_env \<Rightarrow> string \<Rightarrow> string \<Rightarrow> string \<Rightarrow> scale_db \<Rightarrow> bool \<times> scale_db" where
  "binding_revoke env tenantId i actorId =
     binding_close (\<lambda>b. b\<lparr>bn_status := REVOKED, bn_revokedAt := Some (se_now env), bn_revokedBy := Some actorId\<rparr>) tenantId i"

definition binding_disable :: "string \<Rightarrow> string \<Rightarrow> scale_db \<Rightarrow> bool \<times> scale_db" where
  "binding_disable tenantId i = binding_close (\<lambda>b. b\<lparr>bn_status := DISABLED\<rparr>) tenantId i"

subsection \<open>Weight captures\<close>

text \<open>A scope is a capture context with the device of the binding.\<close>

definition scope_binding :: "capture_context \<Rightarrow> string \<Rightarrow> binding_row \<Rightarrow> bool" where
  "scope_binding ctx device b \<longleftrightarrow>
     bn_id b = cc_bindingId ctx \<and> bc_tenantId (bn_context b) = cc_tenantId ctx \<and>
     bc_branchId (bn_context b) = cc_branchId ctx \<and> bc_posTerminalId (bn_context b) = cc_posTerminalId ctx \<and>
     bc_operationalTerminalId (bn_context b) = cc_operationalTerminalId ctx \<and>
     bc_logicalScaleId (bn_context b) = cc_logicalScaleId ctx \<and> bc_terminalDeviceId (bn_context b) = device \<and>
     bn_status b = AUTHORIZED \<and> bn_unitState b = KG_VERIFIED"

definition captureDomainValue :: "host \<Rightarrow> capture_row \<Rightarrow> weight_capture" where
  "captureDomainValue h row =
     \<lparr>wc_captureId = cw_captureId row, wc_context = cw_context row, wc_nonceVerifier = cw_nonceVerifier row,
      wc_expiresAt = iso_string h (cw_expiresAt row), wc_status = cw_status row,
      wc_observation =
        (case (cw_weightKg row, cw_source row, cw_unit row, cw_unitVerified row, cw_observedAt row) of
           (Some w, Some s, Some u, Some True, Some t) \<Rightarrow>
             Some \<lparr>wo_source = s, wo_value = Fin (dbl (of_int w / 10 ^ 6)), wo_unit = Some u, wo_unitVerified = True,
                   wo_observedAt = iso_string h t\<rparr>
         | _ \<Rightarrow> None)\<rparr>"

definition capture_createPending ::
  "scale_env \<Rightarrow> capture_context \<Rightarrow> string \<Rightarrow> int \<Rightarrow> scale_db \<Rightarrow> scale_db http" where
  "capture_createPending env ctx device ttlMs db =
     and_then (createWeightCapture (se_host env) (se_now env) (se_nonce env) (se_uuid env) ctx ttlMs) (\<lambda>(capture, nonce).
     if count (scope_binding ctx device) (sd_bindings db) \<noteq> 1
     then Inl (InternalError ''AUTHORIZED_SCALE_BINDING_REQUIRED'')
     else if \<exists>c\<in>set (sd_captures db). cw_captureId c = wc_captureId capture \<or> cw_nonceVerifier c = wc_nonceVerifier capture
     then Inl (InternalError ''23505'')
     else Inr (db\<lparr>sd_captures := sd_captures db @
            [\<lparr>cw_captureId = wc_captureId capture, cw_context = ctx, cw_terminalDeviceId = device,
              cw_nonceVerifier = wc_nonceVerifier capture, cw_status = CAPTURE_PENDING, cw_weightKg = None,
              cw_source = None, cw_unit = None, cw_unitVerified = None, cw_observedAt = None,
              cw_createdAt = se_now env, cw_expiresAt = se_now env + ttlMs,
              cw_consumedAt = None, cw_consumedSaleId = None, cw_consumedBy = None\<rparr>]\<rparr>))"

definition readyable :: "scale_db \<Rightarrow> int \<Rightarrow> string \<Rightarrow> capture_row \<Rightarrow> bool" where
  "readyable db now captureId c \<longleftrightarrow>
     cw_captureId c = captureId \<and> cw_status c = CAPTURE_PENDING \<and> cw_expiresAt c > now \<and>
     list_ex (scope_binding (cw_context c) (cw_terminalDeviceId c)) (sd_bindings db)"

definition stored_weight :: "scale_env \<Rightarrow> weight_observation \<Rightarrow> int option" where
  "stored_weight env ob = (case wo_value ob of Fin w \<Rightarrow> se_column env w | _ \<Rightarrow> None)"

definition capture_markReady :: "scale_env \<Rightarrow> string \<Rightarrow> weight_observation \<Rightarrow> scale_db \<Rightarrow> scale_db http" where
  "capture_markReady env captureId ob db =
     (if \<not> commercialObservation (se_host env) ob then Inl (InternalError ''CAPTURE_OBSERVATION_NOT_COMMERCIAL'')
      else if count (\<lambda>c. cw_captureId c = captureId) (sd_captures db) \<noteq> 1 then Inl (InternalError ''CAPTURE_NOT_FOUND'')
      else let row = the (find (\<lambda>c. cw_captureId c = captureId) (sd_captures db))
      in if count (scope_binding (cw_context row) (cw_terminalDeviceId row)) (sd_bindings db) \<noteq> 1
         then Inl (InternalError ''AUTHORIZED_SCALE_BINDING_REQUIRED'')
         else and_then (markCaptureReady (se_host env) (se_now env) (captureDomainValue (se_host env) row) ob) (\<lambda>ready.
           if wc_status ready \<noteq> READY
           then Inl (InternalError (if wc_status ready = EXPIRED then ''CAPTURE_EXPIRED'' else ''CAPTURE_OBSERVATION_NOT_COMMERCIAL''))
           else if count (readyable db (se_now env) captureId) (sd_captures db) \<noteq> 1
           then Inl (InternalError ''CAPTURE_NOT_PENDING_OR_BINDING_UNAVAILABLE'')
           else if stored_weight env ob = None then Inl (InternalError ''22003'')
           else Inr (db\<lparr>sd_captures := update_where (readyable db (se_now env) captureId)
                  (\<lambda>c. c\<lparr>cw_status := READY, cw_weightKg := stored_weight env ob,
                         cw_source := Some ''REAL'', cw_unit := Some ''kg'', cw_unitVerified := Some True,
                         cw_observedAt := date_parse (se_host env) (wo_observedAt ob)\<rparr>)
                  (sd_captures db)\<rparr>)))"

definition measured :: "capture_row \<Rightarrow> bool" where
  "measured c \<longleftrightarrow> cw_source c = Some ''REAL'' \<and> cw_unit c = Some ''kg'' \<and> cw_unitVerified c = Some True"

definition sellable :: "scale_db \<Rightarrow> int \<Rightarrow> string \<Rightarrow> string \<Rightarrow> capture_context \<Rightarrow> capture_row \<Rightarrow> bool" where
  "sellable db now captureId nonceVerifier expected c \<longleftrightarrow>
     cw_captureId c = captureId \<and> cw_nonceVerifier c = nonceVerifier \<and>
     cc_tenantId (cw_context c) = cc_tenantId expected \<and> cc_branchId (cw_context c) = cc_branchId expected \<and>
     cc_posTerminalId (cw_context c) = cc_posTerminalId expected \<and>
     cc_operationalTerminalId (cw_context c) = cc_operationalTerminalId expected \<and>
     cc_posSessionId (cw_context c) = cc_posSessionId expected \<and> cc_productId (cw_context c) = cc_productId expected \<and>
     cw_status c = READY \<and> cw_expiresAt c > now \<and> measured c \<and>
     (case cw_weightKg c of None \<Rightarrow> False | Some w \<Rightarrow> w > 0) \<and> cw_observedAt c \<noteq> None \<and>
     list_ex (scope_binding (cw_context c) (cw_terminalDeviceId c)) (sd_bindings db) \<and>
     deviceUsable db (cc_tenantId (cw_context c)) (cw_terminalDeviceId c) \<and>
     (\<exists>p\<in>set (sd_posTerminals db). pt_id p = cc_posTerminalId (cw_context c) \<and> pt_tenantId p = cc_tenantId (cw_context c) \<and>
        pt_branchId p = cc_branchId (cw_context c) \<and>
        pt_operationalTerminalId p = Some (cc_operationalTerminalId (cw_context c)) \<and> pt_active p)"

text \<open>\<open>expected\<close> leaves scale and binding to the row found; the result is the weight and the scope.\<close>

definition capture_lockReadyForSale ::
  "scale_env \<Rightarrow> string \<Rightarrow> string \<Rightarrow> capture_context \<Rightarrow> scale_db \<Rightarrow> (int \<times> capture_context \<times> string) http" where
  "capture_lockReadyForSale env captureId nonce expected db =
     (let hit = sellable db (se_now env) captureId (verifierFor (se_host env) nonce) expected
      in if count hit (sd_captures db) \<noteq> 1 then Inl (InternalError ''CAPTURE_NOT_READY_FOR_SALE'')
         else let row = the (find hit (sd_captures db));
                  context' = expected\<lparr>cc_logicalScaleId := cc_logicalScaleId (cw_context row),
                                      cc_bindingId := cc_bindingId (cw_context row)\<rparr>
              in and_then (consumeWeightCapture (se_host env) (se_now env) (captureDomainValue (se_host env) row) nonce context')
                   (\<lambda>_. Inr (the (cw_weightKg row), context', cw_terminalDeviceId row)))"

definition consumable :: "scale_db \<Rightarrow> int \<Rightarrow> string \<Rightarrow> string \<Rightarrow> capture_context \<Rightarrow> string \<Rightarrow> string \<Rightarrow> capture_row \<Rightarrow> bool" where
  "consumable db now captureId nonceVerifier expected device saleId c \<longleftrightarrow>
     cw_captureId c = captureId \<and> cw_status c = READY \<and> cw_expiresAt c > now \<and>
     cw_nonceVerifier c = nonceVerifier \<and> cw_context c = expected \<and> cw_terminalDeviceId c = device \<and>
     measured c \<and> list_ex (scope_binding (cw_context c) (cw_terminalDeviceId c)) (sd_bindings db) \<and>
     (\<exists>s\<in>set (sd_sales db). sl_tenantId s = cc_tenantId (cw_context c) \<and> sl_id s = saleId \<and>
        sl_branchId s = cc_branchId (cw_context c) \<and> sl_terminalId s = cc_operationalTerminalId (cw_context c) \<and>
        sl_posSessionId s = cc_posSessionId (cw_context c))"

definition capture_consume ::
  "scale_env \<Rightarrow> string \<Rightarrow> string \<Rightarrow> capture_context \<Rightarrow> string \<Rightarrow> string \<Rightarrow> string \<Rightarrow> scale_db \<Rightarrow> scale_db http" where
  "capture_consume env captureId nonce expected device saleId userId db =
     (let hit = consumable db (se_now env) captureId (verifierFor (se_host env) nonce) expected device saleId;
          persisted = (\<lambda>c. cw_captureId c = captureId \<and> cc_tenantId (cw_context c) = cc_tenantId expected)
      in if count (scope_binding expected device) (sd_bindings db) \<noteq> 1
         then Inl (InternalError ''AUTHORIZED_SCALE_BINDING_REQUIRED'')
         else if count persisted (sd_captures db) \<noteq> 1 then Inl (InternalError ''CAPTURE_NOT_FOUND'')
         else and_then (consumeWeightCapture (se_host env) (se_now env)
                (captureDomainValue (se_host env) (the (find persisted (sd_captures db)))) nonce expected) (\<lambda>_.
           if count hit (sd_captures db) \<noteq> 1 then Inl (InternalError ''CAPTURE_NOT_CONSUMABLE'')
           else Inr (db\<lparr>sd_captures := update_where hit
                  (\<lambda>c. c\<lparr>cw_status := CONSUMED, cw_consumedAt := Some (se_now env),
                         cw_consumedSaleId := Some saleId, cw_consumedBy := Some userId\<rparr>)
                  (sd_captures db)\<rparr>)))"

end
