(* ===== verification/Weighed_Quantity.thy ===== *)
theory Weighed_Quantity
  imports Prelude
begin

section \<open>The commercial quantity of a weighed line\<close>

text \<open>
  \<open>api/src/modules/inventory/weighted-sale-quantity.ts\<close>: a captured weight arrives as the decimal
  text of a \<open>numeric(18, 6)\<close> value and is sold in whole grams, rounded half up on the text. The
  facts relate the text to the number it denotes.
\<close>

subsection \<open>The code\<close>

text \<open>\<open>/^(?:0|[1-9]\d*)(?:\.(\d+))?$/\<close>\<close>

fun whole_part_ok :: "string \<Rightarrow> bool" where
  "whole_part_ok [] = False"
| "whole_part_ok (c # cs) = (if c = CHR ''0'' then cs = [] else is_digit c \<and> list_all is_digit cs)"

definition not_dot :: "char \<Rightarrow> bool" where
  "not_dot c \<longleftrightarrow> c \<noteq> CHR ''.''"

definition wholePart :: "string \<Rightarrow> string" where
  "wholePart s = takeWhile not_dot s"

definition fractionPart :: "string \<Rightarrow> string" where
  "fractionPart s = drop 1 (dropWhile not_dot s)"

definition DECIMAL_VALUE :: "string \<Rightarrow> bool" where
  "DECIMAL_VALUE s \<longleftrightarrow> whole_part_ok (wholePart s) \<and>
     (dropWhile not_dot s = [] \<or> fractionPart s \<noteq> [] \<and> list_all is_digit (fractionPart s))"

definition digit_val :: "char \<Rightarrow> int" where
  "digit_val c = int (code c) - 48"

text \<open>\<open>BigInt(text)\<close> of a text of digits.\<close>

definition push_digit :: "int \<Rightarrow> char \<Rightarrow> int" where
  "push_digit n c = 10 * n + digit_val c"

definition bigint_of :: "string \<Rightarrow> int" where
  "bigint_of s = foldl push_digit 0 s"

definition pad_end :: "nat \<Rightarrow> char \<Rightarrow> string \<Rightarrow> string" where
  "pad_end n c s = s @ replicate (n - length s) c"

definition pad_start :: "nat \<Rightarrow> char \<Rightarrow> string \<Rightarrow> string" where
  "pad_start n c s = replicate (n - length s) c @ s"

text \<open>The characters of one-digit strings compare by their codes.\<close>

definition roundCommercialWeightKg :: "string \<Rightarrow> string http" where
  "roundCommercialWeightKg rawWeightKg =
     (if \<not> DECIMAL_VALUE rawWeightKg \<or> length (fractionPart rawWeightKg) > 6
      then Inl (InternalError ''WEIGHT_VALUE_INVALID'')
      else let scale = 3;
               digits = pad_end (scale + 1) (CHR ''0'') (fractionPart rawWeightKg);
               retained = take scale digits;
               scaled0 = bigint_of (wholePart rawWeightKg @ retained);
               scaled = (if code (digits ! scale) \<ge> 53 then scaled0 + 1 else scaled0);
               divisor = 10 ^ scale;
               whole = scaled div divisor;
               fraction = pad_start scale (CHR ''0'') (decimal (nat (scaled mod divisor)))
           in Inr (decimal (nat whole) @ ''.'' @ fraction))"

subsection \<open>Digits and their value\<close>

lemma code_char_of: "n < 256 \<Longrightarrow> code (char_of n) = n"
  by (simp add: code_def)

lemma digit_of: "n < 10 \<Longrightarrow> is_digit (char_of (48 + n)) \<and> digit_val (char_of (48 + n)) = int n"
  by (simp add: is_digit_def digit_val_def code_char_of)

lemma bigint_of_Nil [simp]: "bigint_of [] = 0"
  by (simp add: bigint_of_def)

lemma bigint_of_single [simp]: "bigint_of [c] = digit_val c"
  by (simp add: bigint_of_def push_digit_def)

lemma foldl_push_digit: "foldl push_digit a s = a * 10 ^ length s + foldl push_digit 0 s"
proof (induction s arbitrary: a)
  case (Cons c s)
  have "foldl push_digit a (c # s) = push_digit a c * 10 ^ length s + foldl push_digit 0 s"
    using Cons.IH [of "push_digit a c"] by simp
  moreover have "foldl push_digit 0 (c # s) = push_digit 0 c * 10 ^ length s + foldl push_digit 0 s"
    using Cons.IH [of "push_digit 0 c"] by simp
  moreover have "push_digit a c = a * 10 + push_digit 0 c" by (simp add: push_digit_def)
  ultimately show ?case by (simp add: distrib_right)
qed simp

lemma bigint_of_append: "bigint_of (s @ t) = bigint_of s * 10 ^ length t + bigint_of t"
  by (simp add: bigint_of_def foldl_push_digit [of "foldl push_digit 0 s" t])

lemma digit_val_range: "is_digit c \<Longrightarrow> 0 \<le> digit_val c \<and> digit_val c \<le> 9"
  by (auto simp: is_digit_def digit_val_def)

lemma bigint_of_range: "list_all is_digit s \<Longrightarrow> 0 \<le> bigint_of s \<and> bigint_of s < 10 ^ length s"
proof (induction s rule: rev_induct)
  case (snoc c s)
  then show ?case using digit_val_range [of c] by (auto simp: bigint_of_append)
qed simp

lemma digit_zero [simp]: "is_digit CHR ''0''" "digit_val CHR ''0'' = 0"
  by (simp_all add: is_digit_def digit_val_def code_def)

lemma bigint_of_zeros [simp]: "bigint_of (replicate n CHR ''0'') = 0"
  by (induction n) (simp_all add: bigint_of_append flip: replicate_append_same)

lemma decimal_digits: "list_all is_digit (decimal n) \<and> bigint_of (decimal n) = int n"
proof (induction n rule: decimal.induct)
  case (1 n)
  show ?case
  proof (cases "n < 10")
    case True
    then show ?thesis using digit_of [of n] by (simp add: decimal.simps)
  next
    case False
    then have "list_all is_digit (decimal (n div 10))" "bigint_of (decimal (n div 10)) = int (n div 10)"
      using "1" by auto
    with False digit_of [of "n mod 10"] show ?thesis
      by (subst (1 2) decimal.simps) (simp add: bigint_of_append zdiv_int zmod_int)
  qed
qed

lemma decimal_length: "n < 10 ^ Suc k \<Longrightarrow> length (decimal n) \<le> Suc k"
proof (induction k arbitrary: n)
  case 0
  then show ?case by (simp add: decimal.simps)
next
  case (Suc k)
  show ?case
  proof (cases "n < 10")
    case False
    have "n div 10 < 10 ^ Suc k" using Suc.prems by (simp add: less_mult_imp_div_less)
    from Suc.IH [OF this] False show ?thesis by (subst decimal.simps) simp
  qed (simp add: decimal.simps)
qed

lemma decimal_whole: "whole_part_ok (decimal n)"
proof (induction n rule: decimal.induct)
  case (1 n)
  show ?case
  proof (cases "n < 10")
    case True
    with digit_of [of n] show ?thesis by (simp add: decimal.simps)
  next
    case False
    with "1" have ok: "whole_part_ok (decimal (n div 10))" by simp
    from False have "n div 10 \<noteq> 0" by linarith
    then have "bigint_of (decimal (n div 10)) \<noteq> 0" using decimal_digits [of "n div 10"] by simp
    with ok show ?thesis using digit_of [of "n mod 10"]
      by (subst decimal.simps) (cases "decimal (n div 10)"; auto simp: False split: if_splits)
  qed
qed

lemma digit_not_dot: "is_digit c \<Longrightarrow> not_dot c"
  by (auto simp: is_digit_def not_dot_def code_def)

lemma digits_not_dot: "list_all is_digit s \<Longrightarrow> \<forall>c\<in>set s. not_dot c"
  by (auto simp: list_all_iff digit_not_dot)

lemma split_dot:
  assumes "list_all is_digit w"
  shows "wholePart (w @ CHR ''.'' # f) = w" "dropWhile not_dot (w @ CHR ''.'' # f) = CHR ''.'' # f"
    "fractionPart (w @ CHR ''.'' # f) = f"
  using digits_not_dot [OF assms]
  by (auto simp: wholePart_def fractionPart_def takeWhile_append dropWhile_append not_dot_def)

subsection \<open>Rounding the text\<close>

text \<open>The number a decimal text denotes, in units of \<open>10 ^ -6\<close>, and the text of such a number.\<close>

definition micros :: "string \<Rightarrow> int" where
  "micros s = bigint_of (wholePart s) * 10 ^ 6 + bigint_of (fractionPart s) * 10 ^ (6 - length (fractionPart s))"

definition weight_text :: "int \<Rightarrow> string" where
  "weight_text m = decimal (nat (m div 10 ^ 6)) @ ''.'' @ pad_start 6 (CHR ''0'') (decimal (nat (m mod 10 ^ 6)))"

lemma DECIMAL_VALUE_digits:
  "DECIMAL_VALUE s \<Longrightarrow> list_all is_digit (wholePart s) \<and> list_all is_digit (fractionPart s)"
  by (cases "wholePart s"; cases "dropWhile not_dot s = []")
     (auto simp: DECIMAL_VALUE_def fractionPart_def simp del: dropWhile_eq_Nil_conv split: if_splits)

lemma pad_start_digits:
  "list_all is_digit s \<Longrightarrow> list_all is_digit (pad_start n CHR ''0'' s) \<and> bigint_of (pad_start n CHR ''0'' s) = bigint_of s"
  by (auto simp: pad_start_def bigint_of_append list_all_iff)

lemma pad_start_length: "length s \<le> n \<Longrightarrow> length (pad_start n c s) = n"
  by (simp add: pad_start_def)

text \<open>A digit text of more than \<open>k\<close> digits: its first \<open>k\<close>, its next, and the rest.\<close>

lemma split_digits:
  assumes "k < length s"
  shows "bigint_of s = bigint_of (take k s) * 10 ^ (length s - k)
           + digit_val (s ! k) * 10 ^ (length s - k - 1) + bigint_of (drop (Suc k) s)"
proof -
  have "s = take k s @ [s ! k] @ drop (Suc k) s" using assms by (simp add: id_take_nth_drop)
  then have "bigint_of s = bigint_of (take k s @ [s ! k] @ drop (Suc k) s)" by simp
  also have "\<dots> = bigint_of (take k s) * 10 ^ (length s - k)
           + (digit_val (s ! k) * 10 ^ (length s - k - 1) + bigint_of (drop (Suc k) s))"
    using assms bigint_of_append [of "[s ! k]" "drop (Suc k) s"] bigint_of_append [of "take k s" "[s ! k] @ drop (Suc k) s"]
    by (simp add: Suc_diff_Suc)
  finally show ?thesis by simp
qed

text \<open>Half up on the first dropped digit is half up on the number.\<close>

lemma half_up_digit:
  fixes a d r :: int
  assumes "0 \<le> d" "d \<le> 9" "0 \<le> r" "r < 100"
  shows "(a * 1000 + d * 100 + r + 500) div 1000 = (if 5 \<le> d then a + 1 else a)"
proof (cases "5 \<le> d")
  case True
  have "(a * 1000 + d * 100 + r + 500) div 1000 = a + 1"
    by (rule int_div_pos_eq [where r = "d * 100 + r - 500"]) (use assms True in auto)
  with True show ?thesis by simp
next
  case False
  have "(a * 1000 + d * 100 + r + 500) div 1000 = a"
    by (rule int_div_pos_eq [where r = "d * 100 + r + 500"]) (use assms False in auto)
  with False show ?thesis by simp
qed

lemma pad_end_micros:
  "length f \<le> 6 \<Longrightarrow> bigint_of (pad_end 6 CHR ''0'' f) = bigint_of f * 10 ^ (6 - length f)"
  by (simp add: pad_end_def bigint_of_append)

lemma pad_end_four:
  assumes "length f \<le> 6"
  shows "take 3 (pad_end 4 CHR ''0'' f) = take 3 (pad_end 6 CHR ''0'' f)"
    "pad_end 4 CHR ''0'' f ! 3 = pad_end 6 CHR ''0'' f ! 3"
proof -
  have e: "pad_end 6 CHR ''0'' f = pad_end 4 CHR ''0'' f @ replicate (6 - max 4 (length f)) CHR ''0''"
    using assms by (simp add: pad_end_def max_def flip: replicate_add)
  have l: "4 \<le> length (pad_end 4 CHR ''0'' f)" by (simp add: pad_end_def)
  show "take 3 (pad_end 4 CHR ''0'' f) = take 3 (pad_end 6 CHR ''0'' f)"
    "pad_end 4 CHR ''0'' f ! 3 = pad_end 6 CHR ''0'' f ! 3"
    using l by (simp_all add: e nth_append)
qed

lemma kilo_text:
  assumes "0 \<le> g" "k \<in> {3, 6}"
  defines "t \<equiv> decimal (nat (g div 10 ^ k)) @ ''.'' @ pad_start k (CHR ''0'') (decimal (nat (g mod 10 ^ k)))"
  shows "DECIMAL_VALUE t" "length (fractionPart t) = k" "micros t = g * 10 ^ (6 - k)"
proof -
  have g: "0 \<le> g div 10 ^ k" "0 \<le> g mod 10 ^ k" "nat (g mod 10 ^ k) < 10 ^ k"
    using assms(1) by (simp_all add: pos_imp_zdiv_nonneg_iff nat_less_iff)
  let ?w = "decimal (nat (g div 10 ^ k))" and ?f = "pad_start k (CHR ''0'') (decimal (nat (g mod 10 ^ k)))"
  have w: "list_all is_digit ?w" "bigint_of ?w = g div 10 ^ k"
    using decimal_digits [of "nat (g div 10 ^ k)"] g by simp_all
  have f: "list_all is_digit ?f" "bigint_of ?f = g mod 10 ^ k"
    using pad_start_digits [of "decimal (nat (g mod 10 ^ k))" k] decimal_digits [of "nat (g mod 10 ^ k)"] g by simp_all
  obtain k' where k': "k = Suc k'" using assms(2) by auto
  then have l: "length ?f = k"
    using decimal_length [of "nat (g mod 10 ^ k)" k'] g(3) by (intro pad_start_length) simp
  have t: "t = ?w @ CHR ''.'' # ?f" by (simp add: t_def)
  note parts = split_dot [OF w(1), of ?f]
  have "?f \<noteq> []" using l k' by auto
  then show "DECIMAL_VALUE t" unfolding DECIMAL_VALUE_def t parts
    using f(1) decimal_whole [of "nat (g div 10 ^ k)"] by blast
  show "length (fractionPart t) = k" by (simp add: t parts l)
  have "micros t = (g div 10 ^ k) * 10 ^ 6 + (g mod 10 ^ k) * 10 ^ (6 - k)"
    by (simp add: micros_def t parts w f l)
  also have "(10::int) ^ 6 = 10 ^ k * 10 ^ (6 - k)" using assms(2) by auto
  also have "g div 10 ^ k * (10 ^ k * 10 ^ (6 - k)) + g mod 10 ^ k * 10 ^ (6 - k)
      = (g div 10 ^ k * 10 ^ k + g mod 10 ^ k) * 10 ^ (6 - k)" by (simp only: distrib_right mult.assoc)
  also have "\<dots> = g * 10 ^ (6 - k)" by (simp only: div_mult_mod_eq)
  finally show "micros t = g * 10 ^ (6 - k)" .
qed

text \<open>The digits of the scaled number are the number rounded half up to whole grams.\<close>

lemma scaled_half_up:
  assumes "list_all is_digit w" "list_all is_digit f" "length f \<le> 6"
  defines "d \<equiv> pad_end 4 CHR ''0'' f"
  shows "(if 53 \<le> code (d ! 3) then bigint_of (w @ take 3 d) + 1 else bigint_of (w @ take 3 d)) =
    (bigint_of w * 10 ^ 6 + bigint_of f * 10 ^ (6 - length f) + 500) div 1000"
proof -
  define p where "p = pad_end 6 CHR ''0'' f"
  have p: "length p = 6" "list_all is_digit p" using assms(2,3) by (auto simp: p_def pad_end_def list_all_iff)
  have dig: "is_digit (p ! 3)" "list_all is_digit (drop 4 p)"
    using p by (auto simp: list_all_length)
  have take: "take 3 d = take 3 p" "d ! 3 = p ! 3" using pad_end_four [OF assms(3)] by (simp_all add: d_def p_def)
  have "bigint_of f * 10 ^ (6 - length f) = bigint_of p" by (simp add: p_def pad_end_micros [OF assms(3)])
  also have "\<dots> = bigint_of (take 3 p) * 1000 + digit_val (p ! 3) * 100 + bigint_of (drop 4 p)"
    using split_digits [of 3 p] p by simp
  finally have "bigint_of w * 10 ^ 6 + bigint_of f * 10 ^ (6 - length f) + 500 =
     (bigint_of w * 1000 + bigint_of (take 3 p)) * 1000 + digit_val (p ! 3) * 100 + bigint_of (drop 4 p) + 500"
    by simp
  moreover have "bigint_of (w @ take 3 d) = bigint_of w * 1000 + bigint_of (take 3 p)"
    using p by (simp add: take bigint_of_append)
  moreover have "53 \<le> code (d ! 3) \<longleftrightarrow> 5 \<le> digit_val (p ! 3)" by (simp add: take digit_val_def)
  moreover have "0 \<le> bigint_of (drop 4 p)" "bigint_of (drop 4 p) < 100"
    using bigint_of_range [OF dig(2)] p by simp_all
  ultimately show ?thesis
    using half_up_digit [of "digit_val (p ! 3)" "bigint_of (drop 4 p)" "bigint_of w * 1000 + bigint_of (take 3 p)"]
      digit_val_range [OF dig(1)] by presburger
qed

lemma roundCommercialWeightKg_micros:
  assumes "DECIMAL_VALUE raw" "length (fractionPart raw) \<le> 6"
  defines "g \<equiv> (micros raw + 500) div 1000"
  shows "0 \<le> g"
    "roundCommercialWeightKg raw = Inr (decimal (nat (g div 10 ^ 3)) @ ''.'' @ pad_start 3 (CHR ''0'') (decimal (nat (g mod 10 ^ 3))))"
proof -
  note digits = DECIMAL_VALUE_digits [OF assms(1)]
  note g = scaled_half_up [OF digits [THEN conjunct1] digits [THEN conjunct2] assms(2), folded micros_def]
  show "0 \<le> g" using bigint_of_range [OF digits [THEN conjunct1]] bigint_of_range [OF digits [THEN conjunct2]]
    by (simp add: g_def micros_def pos_imp_zdiv_nonneg_iff)
  show "roundCommercialWeightKg raw = Inr (decimal (nat (g div 10 ^ 3)) @ ''.'' @ pad_start 3 (CHR ''0'') (decimal (nat (g mod 10 ^ 3))))"
    using assms(1,2) by (simp add: roundCommercialWeightKg_def Let_def g_def g split del: if_split cong: if_cong)
qed

lemma weight_text_micros:
  "0 \<le> m \<Longrightarrow> DECIMAL_VALUE (weight_text m) \<and> length (fractionPart (weight_text m)) = 6 \<and> micros (weight_text m) = m"
  using kilo_text [of m 6] by (simp add: weight_text_def)

subsection \<open>The rounding rule\<close>

text \<open>
  For every decimal text with at most six decimals, the rounding of a captured weight
  succeeds, and its result is again a decimal text, with exactly three decimals, whose value is the
  number rounded half up to whole grams.
\<close>

theorem commercial_weight_half_up:
  assumes "DECIMAL_VALUE raw" "length (fractionPart raw) \<le> 6"
  shows "\<exists>t. roundCommercialWeightKg raw = Inr t \<and> DECIMAL_VALUE t \<and> length (fractionPart t) = 3 \<and>
           micros t = 1000 * ((micros raw + 500) div 1000)"
proof -
  define g where "g = (micros raw + 500) div 1000"
  note r = roundCommercialWeightKg_micros [OF assms, folded g_def]
  from r(2) kilo_text [OF r(1), of 3] show ?thesis unfolding g_def [symmetric] by auto
qed

lemma commercial_weight_half_up_witness:
  "\<exists>t. roundCommercialWeightKg ''1.2345'' = Inr t \<and> DECIMAL_VALUE t \<and> length (fractionPart t) = 3 \<and>
       micros t = 1000 * ((micros ''1.2345'' + 500) div 1000)"
  by (rule commercial_weight_half_up)
     (simp_all add: DECIMAL_VALUE_def wholePart_def fractionPart_def not_dot_def is_digit_def code_def)

end
