(* ===== verification/Scale_Service.thy ===== *)
theory Scale_Service
  imports Scale_Persistence Weighed_Quantity
begin

section \<open>The requests on scales and weighed lines\<close>

text \<open>
  \<open>scale-authorization.runtime.service.ts\<close>: binding a scale, confirming kilograms, revoking,
  authenticating the local agent, taking its observation for a capture and deriving readiness; and
  the part of \<open>inventory/services/sale.service.ts\<close> that starts a weight capture and sells the
  weighed lines of a sale. A join is the list of the combinations of rows that satisfy its
  condition.
\<close>

record scale_actor =
  sa_tenantId :: "string option"
  sa_userId :: "string option"

definition usableCredential :: "int \<Rightarrow> credential_row \<Rightarrow> bool" where
  "usableCredential now c \<longleftrightarrow> cd_status c = CRED_ACTIVE \<and>
     (case cd_expiresAt c of None \<Rightarrow> False | Some e \<Rightarrow> e > now)"

subsection \<open>Bindings\<close>

definition serviceScope :: "scale_db \<Rightarrow> int \<Rightarrow> string \<Rightarrow> string \<Rightarrow> string \<Rightarrow> (pos_terminal_row \<times> string) list" where
  "serviceScope db now posTerminalId logicalScaleId tenantId =
     [(p, device). p <- sd_posTerminals db, (tn, term, device, act) <- sd_deviceBindings db,
        d <- sd_devices db, c <- sd_credentials db, (st, scale, enabled) <- sd_settings db,
        tn = pt_tenantId p \<and> pt_operationalTerminalId p = Some term \<and> act \<and>
        dv_id d = device \<and> dv_tenantId d = tn \<and> dv_status d \<noteq> ''REVOKED'' \<and>
        cd_tenantId c = dv_tenantId d \<and> cd_deviceId c = dv_id d \<and> usableCredential now c \<and>
        st = pt_id p \<and> scale = Some logicalScaleId \<and> enabled \<and>
        pt_id p = posTerminalId \<and> pt_tenantId p = tenantId \<and> pt_active p]"

fun revokeEach :: "scale_env \<Rightarrow> string \<Rightarrow> string list \<Rightarrow> string \<Rightarrow> scale_db \<Rightarrow> scale_db http" where
  "revokeEach env tenantId [] actorId db = Inr db"
| "revokeEach env tenantId (i # ids) actorId db =
     (case binding_revoke env tenantId i actorId db of
        (revoked, db1) \<Rightarrow>
          if \<not> revoked then Inl (Conflict ''SCALE_REBIND_REQUIRED'')
          else revokeEach env tenantId ids actorId db1)"

definition existingBindings :: "scale_db \<Rightarrow> string \<Rightarrow> string \<Rightarrow> binding_row list" where
  "existingBindings db tenantId posTerminalId =
     filter (\<lambda>b. bc_tenantId (bn_context b) = tenantId \<and> bc_posTerminalId (bn_context b) = posTerminalId \<and>
                 active_status (bn_status b)) (sd_bindings db)"

text \<open>The result is the id of the binding, the one there was or a new one.\<close>

definition createBinding ::
  "scale_env \<Rightarrow> string \<Rightarrow> string \<Rightarrow> scale_actor \<Rightarrow> scale_db \<Rightarrow> (string \<times> scale_db) http" where
  "createBinding env posTerminalId logicalScaleId actor db =
     (if \<not> truthy (sa_tenantId actor) \<or> \<not> truthy (sa_userId actor) \<or> logicalScaleId = []
      then Inl (BadRequest ''SCALE_BINDING_INPUT_INVALID'')
      else let rows = serviceScope db (se_now env) posTerminalId logicalScaleId (the (sa_tenantId actor));
               user = the (sa_userId actor)
      in if length rows \<noteq> 1 then Inl (Forbidden ''SCALE_AGENT_TERMINAL_SCOPE_UNAVAILABLE'')
      else let p = fst (hd rows); device = snd (hd rows); tenantId = pt_tenantId p;
               existing = existingBindings db tenantId posTerminalId
      in case find (\<lambda>b. bc_terminalDeviceId (bn_context b) = device \<and>
                        bc_logicalScaleId (bn_context b) = logicalScaleId) existing of
           Some same \<Rightarrow> Inr (bn_id same, db)
         | None \<Rightarrow>
             and_then (revokeEach env tenantId (map bn_id existing) user db) (\<lambda>db1.
             and_then (binding_createPending env
                 \<lparr>bc_tenantId = tenantId, bc_branchId = pt_branchId p, bc_posTerminalId = posTerminalId,
                  bc_operationalTerminalId = the (pt_operationalTerminalId p), bc_terminalDeviceId = device,
                  bc_logicalScaleId = logicalScaleId\<rparr> user db1) (\<lambda>(created, db2).
             if \<not> created then Inl (Forbidden ''SCALE_BINDING_CONTEXT_INVALID'')
             else Inr (se_uuid env, db2))))"

definition confirmable :: "scale_db \<Rightarrow> int \<Rightarrow> string \<Rightarrow> string \<Rightarrow> binding_row \<Rightarrow> bool" where
  "confirmable db now tenantId bindingId b \<longleftrightarrow>
     (let ctx = bn_context b in
      bn_id b = bindingId \<and> bc_tenantId ctx = tenantId \<and> bn_status b = PENDING \<and> bn_unitState b = NOT_VERIFIED \<and>
      (\<exists>p\<in>set (sd_posTerminals db). pt_id p = bc_posTerminalId ctx \<and> pt_tenantId p = bc_tenantId ctx \<and>
         pt_branchId p = bc_branchId ctx \<and> pt_operationalTerminalId p = Some (bc_operationalTerminalId ctx) \<and> pt_active p) \<and>
      (\<exists>t\<in>set (sd_terminals db). tm_id t = bc_operationalTerminalId ctx \<and> tm_tenantId t = bc_tenantId ctx \<and>
         tm_branchId t = bc_branchId ctx \<and> tm_active t) \<and>
      (bc_tenantId ctx, bc_operationalTerminalId ctx, bc_terminalDeviceId ctx, True) \<in> set (sd_deviceBindings db) \<and>
      deviceUsable db (bc_tenantId ctx) (bc_terminalDeviceId ctx) \<and>
      (\<exists>c\<in>set (sd_credentials db). cd_tenantId c = bc_tenantId ctx \<and> cd_deviceId c = bc_terminalDeviceId ctx \<and>
         usableCredential now c) \<and>
      (bc_posTerminalId ctx, Some (bc_logicalScaleId ctx), True) \<in> set (sd_settings db))"

definition confirmKg :: "scale_env \<Rightarrow> string option \<Rightarrow> string option \<Rightarrow> string \<Rightarrow> scale_db \<Rightarrow> scale_db http" where
  "confirmKg env tenantId userId bindingId db =
     (if \<not> truthy tenantId \<or> \<not> truthy userId then Inl (Forbidden ''OPERATOR_CONTEXT_REQUIRED'')
      else case find (confirmable db (se_now env) (the tenantId) bindingId) (sd_bindings db) of
             None \<Rightarrow> Inl (Forbidden ''SCALE_BINDING_NOT_FOUND'')
           | Some current \<Rightarrow>
               binding_authorize env (the tenantId) bindingId (bn_context current)
                 \<lparr>kc_method = ''OPERATOR_CONFIRMATION'', kc_displayedUnit = ''kg'', kc_operatorId = the userId,
                  kc_confirmedAt = iso_string (se_host env) (se_now env)\<rparr> db)"

definition revokeBinding :: "scale_env \<Rightarrow> string option \<Rightarrow> string \<Rightarrow> string option \<Rightarrow> scale_db \<Rightarrow> scale_db http" where
  "revokeBinding env tenantId bindingId actorId db =
     (if \<not> truthy tenantId \<or> \<not> truthy actorId then Inl (Forbidden ''OPERATOR_CONTEXT_REQUIRED'')
      else case binding_revoke env (the tenantId) bindingId (the actorId) db of
             (row, db1) \<Rightarrow> if \<not> row then Inl (Conflict ''SCALE_BINDING_NOT_ACTIVE'') else Inr db1)"

subsection \<open>The agent\<close>

definition revokeAgentCredential ::
  "scale_env \<Rightarrow> string option \<Rightarrow> string \<Rightarrow> string option \<Rightarrow> scale_db \<Rightarrow> scale_db http" where
  "revokeAgentCredential env tenantId credentialId actorId db =
     (if \<not> truthy tenantId \<or> \<not> truthy actorId \<or> credentialId = [] then Inl (Forbidden ''OPERATOR_CONTEXT_REQUIRED'')
      else case credential_revoke env (the tenantId) credentialId (the actorId) db of
             (revoked, db1) \<Rightarrow> if \<not> revoked then Inl (Conflict ''ACTIVE_CREDENTIAL_NOT_FOUND'') else Inr db1)"

definition upper_letter :: "char \<Rightarrow> bool" where
  "upper_letter c \<longleftrightarrow> 65 \<le> code c \<and> code c \<le> 90"

definition lower_letter :: "char \<Rightarrow> bool" where
  "lower_letter c \<longleftrightarrow> 97 \<le> code c \<and> code c \<le> 122"

definition base64url_char :: "char \<Rightarrow> bool" where
  "base64url_char c \<longleftrightarrow> upper_letter c \<or> lower_letter c \<or> is_digit c \<or> c = CHR ''_'' \<or> c = CHR ''-''"

text \<open>\<open>/^Agent ([0-9a-f-]{36})\.([A-Za-z0-9_-]{32,128})$/\<close>\<close>

definition parseAgentAuthorization :: "string \<Rightarrow> (string \<times> string) option" where
  "parseAgentAuthorization s =
     (let rest = drop 6 s; credentialId = take 36 rest; secret = drop 37 rest
      in if take 6 s = ''Agent '' \<and> length credentialId = 36 \<and>
            list_all (\<lambda>c. lower_hex c \<or> c = CHR ''-'') credentialId \<and> take 1 (drop 36 rest) = ''.'' \<and>
            32 \<le> length secret \<and> length secret \<le> 128 \<and> list_all base64url_char secret
         then Some (credentialId, secret) else None)"

record agent_auth =
  aa_tenantId :: string
  aa_terminalDeviceId :: string
  aa_credentialId :: string

definition credentialValue :: "host \<Rightarrow> credential_row \<Rightarrow> agent_credential" where
  "credentialValue h row =
     \<lparr>ac_verifierSha256 = cd_verifier row, ac_expiresAt = iso_string h (the (cd_expiresAt row)),
      ac_revokedAt = map_option (iso_string h) (cd_revokedAt row)\<rparr>"

definition authenticateAgent :: "scale_env \<Rightarrow> string \<Rightarrow> scale_db \<Rightarrow> (agent_auth \<times> string) http" where
  "authenticateAgent env authorization db =
     (case parseAgentAuthorization authorization of
        None \<Rightarrow> Inl (Forbidden ''AGENT_CREDENTIAL_INVALID'')
      | Some (credentialId, secret) \<Rightarrow>
          (case find (\<lambda>c. cd_credentialId c = credentialId \<and> usableCredential (se_now env) c \<and>
                          deviceUsable db (cd_tenantId c) (cd_deviceId c)) (sd_credentials db) of
             None \<Rightarrow> Inl (Forbidden ''AGENT_CREDENTIAL_INVALID'')
           | Some row \<Rightarrow>
               if verifyOpaqueAgentCredential (se_host env) (se_now env) secret (credentialValue (se_host env) row) \<noteq> VALID
               then Inl (Forbidden ''AGENT_CREDENTIAL_INVALID'')
               else Inr (\<lparr>aa_tenantId = cd_tenantId row, aa_terminalDeviceId = cd_deviceId row,
                          aa_credentialId = credentialId\<rparr>, secret)))"

text \<open>\<open>/^[0-9a-f]{8}-[0-9a-f]{4}-[1-8][0-9a-f]{3}-[89ab][0-9a-f]{3}-[0-9a-f]{12}$/i\<close>\<close>

definition capture_id_char :: "nat \<Rightarrow> char \<Rightarrow> bool" where
  "capture_id_char i c \<longleftrightarrow>
     (if i \<in> {8, 13, 18, 23} then c = CHR ''-''
      else if i = 14 then 49 \<le> code c \<and> code c \<le> 56
      else if i = 19 then c \<in> set ''89abAB''
      else hex_value c \<noteq> None)"

definition is_capture_id :: "string \<Rightarrow> bool" where
  "is_capture_id s \<longleftrightarrow> length s = 36 \<and> list_all (\<lambda>(i, c). capture_id_char i c) (zip [0..<36] s)"

record capture_observation =
  co_captureId :: "string option"
  co_deviceId :: "string option"
  co_weight :: jsnum
  co_unit :: "string option"
  co_source :: string
  co_unitVerified :: bool
  co_observedAt :: string

definition observationValid :: "capture_observation \<Rightarrow> bool" where
  "observationValid inp \<longleftrightarrow>
     (case co_captureId inp of None \<Rightarrow> False | Some i \<Rightarrow> is_capture_id i) \<and>
     (case co_deviceId inp of None \<Rightarrow> False | Some d \<Rightarrow> js_trim d \<noteq> []) \<and>
     co_source inp = ''REAL'' \<and> co_unit inp = Some ''kg'' \<and> co_unitVerified inp \<and>
     is_finite (co_weight inp) \<and> \<not> num_lt0 (co_weight inp)"

text \<open>One combination per binding, terminals, device binding, device, settings, session and product.\<close>

definition liveContext :: "scale_db \<Rightarrow> capture_row \<Rightarrow> nat" where
  "liveContext db c =
     (let ctx = cw_context c; device = cw_terminalDeviceId c in
      count (scope_binding ctx device) (sd_bindings db) *
      count (\<lambda>p. pt_id p = cc_posTerminalId ctx \<and> pt_tenantId p = cc_tenantId ctx \<and> pt_branchId p = cc_branchId ctx \<and>
               pt_operationalTerminalId p = Some (cc_operationalTerminalId ctx) \<and> pt_active p) (sd_posTerminals db) *
      count (\<lambda>t. tm_id t = cc_operationalTerminalId ctx \<and> tm_tenantId t = cc_tenantId ctx \<and>
               tm_branchId t = cc_branchId ctx \<and> tm_active t) (sd_terminals db) *
      count (\<lambda>td. td = (cc_tenantId ctx, cc_operationalTerminalId ctx, device, True)) (sd_deviceBindings db) *
      count (\<lambda>d. dv_id d = device \<and> dv_tenantId d = cc_tenantId ctx \<and> dv_status d \<noteq> ''REVOKED'') (sd_devices db) *
      count (\<lambda>ps. ps = (cc_posTerminalId ctx, Some (cc_logicalScaleId ctx), True)) (sd_settings db) *
      count (\<lambda>s. ps_id s = cc_posSessionId ctx \<and> ps_tenantId s = cc_tenantId ctx \<and> ps_branchId s = cc_branchId ctx \<and>
               ps_terminalId s = cc_operationalTerminalId ctx \<and> ps_active s) (sd_sessions db) *
      count (\<lambda>pr. wp_id pr = cc_productId ctx \<and> wp_tenantId pr = cc_tenantId ctx \<and> wp_active pr \<and>
               wp_saleType pr \<in> {''WEIGHT'', ''BOTH''} \<and> wp_measurementUnit pr = ''KG'') (sd_products db))"

definition agentCredentialRows :: "scale_db \<Rightarrow> int \<Rightarrow> agent_auth \<Rightarrow> nat" where
  "agentCredentialRows db now auth =
     count (\<lambda>c. cd_tenantId c = aa_tenantId auth \<and> cd_deviceId c = aa_terminalDeviceId auth \<and>
              cd_credentialId c = aa_credentialId auth \<and> usableCredential now c \<and> cd_revokedAt c = None) (sd_credentials db) *
     count (\<lambda>d. dv_id d = aa_terminalDeviceId auth \<and> dv_tenantId d = aa_tenantId auth \<and> dv_status d \<noteq> ''REVOKED'')
       (sd_devices db)"

definition observationTime :: "scale_env \<Rightarrow> string \<Rightarrow> int http" where
  "observationTime env observedAt =
     (case date_parse (se_host env) observedAt of
        None \<Rightarrow> Inl (Conflict ''CAPTURE_OBSERVATION_STALE'')
      | Some t \<Rightarrow> if t > se_now env \<or> se_now env - t > 15000 then Inl (Conflict ''CAPTURE_OBSERVATION_STALE'') else Inr t)"

text \<open>A \<open>uuid\<close> parameter is read without regard to case.\<close>

definition submitCaptureObservation ::
  "scale_env \<Rightarrow> agent_auth \<Rightarrow> capture_observation \<Rightarrow> scale_db \<Rightarrow> scale_db http" where
  "submitCaptureObservation env auth inp db =
     (if \<not> observationValid inp then Inl (BadRequest ''CAPTURE_OBSERVATION_INVALID'')
      else let captureId = js_lower (the (co_captureId inp)) in
      and_then (observationTime env (co_observedAt inp)) (\<lambda>observedAt.
      case find (\<lambda>c. cw_captureId c = captureId) (sd_captures db) of
        None \<Rightarrow> Inl (Forbidden ''CAPTURE_AGENT_CONTEXT_MISMATCH'')
      | Some row \<Rightarrow>
          if cc_tenantId (cw_context row) \<noteq> aa_tenantId auth \<or> cw_terminalDeviceId row \<noteq> aa_terminalDeviceId auth \<or>
             Some (cc_logicalScaleId (cw_context row)) \<noteq> co_deviceId inp
          then Inl (Forbidden ''CAPTURE_AGENT_CONTEXT_MISMATCH'')
          else if cw_status row \<noteq> CAPTURE_PENDING \<or> cw_expiresAt row \<le> se_now env \<or> observedAt < cw_createdAt row
          then Inl (Conflict ''CAPTURE_NOT_PENDING_OR_EXPIRED'')
          else if agentCredentialRows db (se_now env) auth \<noteq> 1 then Inl (Forbidden ''AGENT_CREDENTIAL_INVALID'')
          else if liveContext db row \<noteq> 1 then Inl (Forbidden ''CAPTURE_BINDING_CONTEXT_UNAVAILABLE'')
          else capture_markReady env captureId
                 \<lparr>wo_source = ''REAL'', wo_value = co_weight inp, wo_unit = Some ''kg'', wo_unitVerified = True,
                  wo_observedAt = co_observedAt inp\<rparr> db))"

subsection \<open>Readiness\<close>

record readiness_input =
  rd_posTerminalId :: string
  rd_logicalScaleId :: string
  rd_source :: string
  rd_unit :: "string option"
  rd_unitVerified :: bool
  rd_observedAt :: string
  rd_credentialSecret :: string

definition newest :: "('a \<Rightarrow> int) \<Rightarrow> 'a list \<Rightarrow> 'a option" where
  "newest t xs = (case js_sort (\<lambda>a b. of_int (t b - t a)) xs of [] \<Rightarrow> None | x # _ \<Rightarrow> Some x)"

definition readinessBinding :: "scale_db \<Rightarrow> agent_auth \<Rightarrow> readiness_input \<Rightarrow> binding_row option" where
  "readinessBinding db auth inp =
     newest bn_createdAt (filter (\<lambda>b. let ctx = bn_context b in
       bc_tenantId ctx = aa_tenantId auth \<and> bc_terminalDeviceId ctx = aa_terminalDeviceId auth \<and>
       bc_posTerminalId ctx = rd_posTerminalId inp \<and> bc_logicalScaleId ctx = rd_logicalScaleId inp \<and>
       (\<exists>p\<in>set (sd_posTerminals db). pt_id p = bc_posTerminalId ctx \<and> pt_tenantId p = bc_tenantId ctx) \<and>
       (bc_tenantId ctx, bc_operationalTerminalId ctx, bc_terminalDeviceId ctx, True) \<in> set (sd_deviceBindings db) \<and>
       (bc_posTerminalId ctx, Some (bc_logicalScaleId ctx), True) \<in> set (sd_settings db)) (sd_bindings db))"

definition readinessValue :: "host \<Rightarrow> binding_row \<Rightarrow> scale_binding" where
  "readinessValue h row =
     \<lparr>sb_id = bn_id row, sb_context = bn_context row, sb_status = bn_status row, sb_unitState = bn_unitState row,
      sb_unitVerification =
        (case bn_verifiedAt row of
           Some t \<Rightarrow> if bn_unitState row = KG_VERIFIED \<and> truthy (bn_verifiedBy row)
             then Some \<lparr>uv_method = ''OPERATOR_CONFIRMATION'', uv_unit = ''kg'',
                        uv_operatorId = the (bn_verifiedBy row), uv_verifiedAt = iso_string h t\<rparr>
             else None
         | None \<Rightarrow> None)\<rparr>"

definition goodObservation :: "scale_env \<Rightarrow> readiness_input \<Rightarrow> bool" where
  "goodObservation env inp \<longleftrightarrow> rd_source inp = ''REAL'' \<and> rd_unit inp = Some ''kg'' \<and> rd_unitVerified inp \<and>
     (case date_parse (se_host env) (rd_observedAt inp) of None \<Rightarrow> False | Some t \<Rightarrow> t \<le> se_now env)"

definition deriveReadiness ::
  "scale_env \<Rightarrow> agent_auth \<Rightarrow> readiness_input \<Rightarrow> scale_db \<Rightarrow> bool \<times> availability_reason" where
  "deriveReadiness env auth inp db =
     (let h = se_host env;
          credential = find (\<lambda>c. cd_tenantId c = aa_tenantId auth \<and> cd_deviceId c = aa_terminalDeviceId auth \<and>
            cd_credentialId c = aa_credentialId auth \<and> usableCredential (se_now env) c) (sd_credentials db);
          domainBinding = map_option (readinessValue h) (readinessBinding db auth inp);
          good = goodObservation env inp;
          result = deriveRealAvailability h (se_now env)
            \<lparr>ai_credential = map_option (credentialValue h) credential,
             ai_credentialSecret = Some (rd_credentialSecret inp), ai_binding = domainBinding,
             ai_expectedContext = (case domainBinding of Some b \<Rightarrow> sb_context b
               | None \<Rightarrow> \<lparr>bc_tenantId = aa_tenantId auth, bc_branchId = [], bc_posTerminalId = rd_posTerminalId inp,
                          bc_operationalTerminalId = [], bc_terminalDeviceId = aa_terminalDeviceId auth,
                          bc_logicalScaleId = rd_logicalScaleId inp\<rparr>),
             ai_observation = Some \<lparr>ao_available = good, ao_observedAt = rd_observedAt inp,
                                    ao_logicalScaleId = rd_logicalScaleId inp\<rparr>,
             ai_maxObservationAgeMs = 15000\<rparr>
      in (fst result \<and> credential \<noteq> None \<and>
            (case domainBinding of None \<Rightarrow> False
             | Some b \<Rightarrow> sb_status b = AUTHORIZED \<and> bc_logicalScaleId (sb_context b) = rd_logicalScaleId inp),
          if good then snd result else AGENT_UNAVAILABLE_OR_STALE))"

subsection \<open>Weighed lines of a sale\<close>

text \<open>The context of a point of sale, as \<open>normalizeSaleContext\<close> returns it.\<close>

record sale_context =
  sc_tenantId :: string
  sc_userId :: string
  sc_branchId :: string
  sc_terminalId :: string
  sc_posSessionId :: string

definition validateActivePosSession :: "scale_db \<Rightarrow> sale_context \<Rightarrow> bool" where
  "validateActivePosSession db ctx \<longleftrightarrow>
     (\<exists>s\<in>set (sd_sessions db). ps_id s = sc_posSessionId ctx \<and> ps_tenantId s = sc_tenantId ctx \<and>
        ps_branchId s = sc_branchId ctx \<and> ps_terminalId s = sc_terminalId ctx \<and>
        ps_userId s = sc_userId ctx \<and> ps_active s)"

definition findActivePosTerminalId :: "scale_db \<Rightarrow> sale_context \<Rightarrow> string option" where
  "findActivePosTerminalId db ctx =
     map_option pt_id (find (\<lambda>p. pt_tenantId p = sc_tenantId ctx \<and> pt_branchId p = sc_branchId ctx \<and>
       pt_operationalTerminalId p = Some (sc_terminalId ctx) \<and> pt_active p) (sd_posTerminals db))"

definition findProduct :: "scale_db \<Rightarrow> string \<Rightarrow> string \<Rightarrow> weighed_product_row option" where
  "findProduct db productId tenantId =
     find (\<lambda>pr. wp_id pr = productId \<and> wp_tenantId pr = tenantId) (sd_products db)"

definition captureScope :: "scale_db \<Rightarrow> int \<Rightarrow> sale_context \<Rightarrow> binding_row list" where
  "captureScope db now ctx =
     [b. p <- sd_posTerminals db, b <- sd_bindings db, (st, scale, enabled) <- sd_settings db,
        (tn, term, device, act) <- sd_deviceBindings db, d <- sd_devices db, c <- sd_credentials db,
        (let bc = bn_context b in
         bc_tenantId bc = pt_tenantId p \<and> bc_branchId bc = pt_branchId p \<and> bc_posTerminalId bc = pt_id p \<and>
         pt_operationalTerminalId p = Some (bc_operationalTerminalId bc) \<and>
         st = pt_id p \<and> enabled \<and> scale = Some (bc_logicalScaleId bc) \<and>
         tn = bc_tenantId bc \<and> term = bc_operationalTerminalId bc \<and> device = bc_terminalDeviceId bc \<and> act \<and>
         dv_id d = bc_terminalDeviceId bc \<and> dv_tenantId d = bc_tenantId bc \<and> dv_status d \<noteq> ''REVOKED'' \<and>
         cd_tenantId c = dv_tenantId d \<and> cd_deviceId c = dv_id d \<and> usableCredential now c \<and> cd_revokedAt c = None \<and>
         pt_tenantId p = sc_tenantId ctx \<and> pt_branchId p = sc_branchId ctx \<and>
         pt_operationalTerminalId p = Some (sc_terminalId ctx) \<and> pt_active p \<and>
         bn_status b = AUTHORIZED \<and> bn_unitState b = KG_VERIFIED)]"

definition startWeightCapture :: "scale_env \<Rightarrow> string \<Rightarrow> sale_context \<Rightarrow> scale_db \<Rightarrow> scale_db http" where
  "startWeightCapture env productId ctx db =
     (if productId = [] then Inl (BadRequest ''WEIGHT_CAPTURE_UNAVAILABLE'')
      else if sc_branchId ctx = [] \<or> sc_terminalId ctx = [] \<or> sc_posSessionId ctx = []
      then Inl (Unauthorized ''WEIGHT sale requires complete POS context'')
      else if \<not> validateActivePosSession db ctx then Inl (Unauthorized ''POS session is required'')
      else if (case findProduct db productId (sc_tenantId ctx) of
                 None \<Rightarrow> True
               | Some pr \<Rightarrow> \<not> wp_active pr \<or> wp_saleType pr \<notin> {''WEIGHT'', ''BOTH''} \<or> wp_measurementUnit pr \<noteq> ''KG'')
      then Inl (BadRequest ''WEIGHT_CAPTURE_PRODUCT_INVALID'')
      else let scope = captureScope db (se_now env) ctx
      in if length scope \<noteq> 1 then Inl (Conflict ''AUTHORIZED_SCALE_BINDING_UNAVAILABLE'')
      else case findActivePosTerminalId db ctx of
             None \<Rightarrow> Inl (Unauthorized ''active POS terminal is required for WEIGHT sale'')
           | Some posTerminalId \<Rightarrow>
               let binding = hd scope
               in capture_createPending env
                    \<lparr>cc_tenantId = sc_tenantId ctx, cc_branchId = sc_branchId ctx, cc_posTerminalId = posTerminalId,
                     cc_operationalTerminalId = sc_terminalId ctx, cc_posSessionId = sc_posSessionId ctx,
                     cc_productId = productId, cc_logicalScaleId = bc_logicalScaleId (bn_context binding),
                     cc_bindingId = bn_id binding\<rparr>
                    (bc_terminalDeviceId (bn_context binding)) 60000 db)"

record weighed_line =
  wl_productId :: string
  wl_captureId :: string
  wl_nonce :: string
  wl_saleItemId :: string

record prepared_capture =
  pw_saleItemId :: string
  pw_captureId :: string
  pw_nonce :: string
  pw_rawWeightKg :: string
  pw_commercialQuantityKg :: string
  pw_scope :: capture_context
  pw_terminalDeviceId :: string

definition weighedLineValid :: "weighed_line \<Rightarrow> bool" where
  "weighedLineValid line \<longleftrightarrow> is_capture_id (wl_captureId line) \<and>
     length (wl_nonce line) = 43 \<and> list_all base64url_char (wl_nonce line)"

text \<open>Every error of the lock and of the consumption that the code does not rethrow is a conflict.\<close>

definition as_conflict :: "string \<Rightarrow> 'a http \<Rightarrow> 'a http" where
  "as_conflict message r =
     (case r of
        Inl (InternalError e) \<Rightarrow>
          if starts_with e ''CAPTURE_'' \<or> starts_with e ''AUTHORIZED_SCALE_BINDING_REQUIRED''
          then Inl (Conflict message) else r
      | _ \<Rightarrow> r)"

definition prepareWeighedLine ::
  "scale_env \<Rightarrow> sale_context \<Rightarrow> scale_db \<Rightarrow> weighed_line \<Rightarrow> prepared_capture http" where
  "prepareWeighedLine env ctx db line =
     (case findProduct db (wl_productId line) (sc_tenantId ctx) of
        None \<Rightarrow> Inl (BadRequest ''product not found or inactive for tenant'')
      | Some product \<Rightarrow>
          if \<not> wp_active product then Inl (BadRequest ''product not found or inactive for tenant'')
          else if wp_saleType product \<noteq> ''WEIGHT'' \<and> wp_saleType product \<noteq> ''BOTH''
          then Inl (BadRequest ''saleMode is not supported by product'')
          else if wp_measurementUnit product \<noteq> ''KG''
          then Inl (BadRequest ''WEIGHT sale requires product measurementUnit KG'')
          else if sc_branchId ctx = [] \<or> sc_terminalId ctx = [] \<or> sc_posSessionId ctx = []
          then Inl (Unauthorized ''WEIGHT sale requires complete POS context'')
          else case findActivePosTerminalId db ctx of
            None \<Rightarrow> Inl (Unauthorized ''active POS terminal is required for WEIGHT sale'')
          | Some posTerminalId \<Rightarrow>
              and_then (as_conflict ''weight capture is expired, unavailable, or does not match this POS sale''
                (capture_lockReadyForSale env (js_lower (wl_captureId line)) (wl_nonce line)
                   \<lparr>cc_tenantId = sc_tenantId ctx, cc_branchId = sc_branchId ctx, cc_posTerminalId = posTerminalId,
                    cc_operationalTerminalId = sc_terminalId ctx, cc_posSessionId = sc_posSessionId ctx,
                    cc_productId = wl_productId line, cc_logicalScaleId = [], cc_bindingId = []\<rparr> db))
                (\<lambda>(weight, scope, device).
              and_then (roundCommercialWeightKg (weight_text weight)) (\<lambda>commercial.
              if commercial = ''0.000'' then Inl (BadRequest ''captured weight rounds to zero commercial kg'')
              else Inr \<lparr>pw_saleItemId = wl_saleItemId line, pw_captureId = js_lower (wl_captureId line),
                        pw_nonce = wl_nonce line, pw_rawWeightKg = weight_text weight,
                        pw_commercialQuantityKg = commercial, pw_scope = scope, pw_terminalDeviceId = device\<rparr>)))"

fun prepareWeighedLines ::
  "scale_env \<Rightarrow> sale_context \<Rightarrow> scale_db \<Rightarrow> weighed_line list \<Rightarrow> prepared_capture list http" where
  "prepareWeighedLines env ctx db [] = Inr []"
| "prepareWeighedLines env ctx db (line # lines) =
     and_then (prepareWeighedLine env ctx db line) (\<lambda>p.
     and_then (prepareWeighedLines env ctx db lines) (\<lambda>ps. Inr (p # ps)))"

definition associateWeightCaptureToSaleItem ::
  "string \<Rightarrow> string \<Rightarrow> prepared_capture \<Rightarrow> scale_db \<Rightarrow> scale_db http" where
  "associateWeightCaptureToSaleItem tenantId saleId p db =
     (if \<exists>w\<in>set (sd_saleWeights db). sw_captureId w = pw_captureId p \<or>
           sw_tenantId w = tenantId \<and> sw_saleId w = saleId \<and> sw_saleItemId w = pw_saleItemId p
      then Inl (InternalError ''23505'')
      else Inr (db\<lparr>sd_saleWeights := sd_saleWeights db @
             [\<lparr>sw_tenantId = tenantId, sw_captureId = pw_captureId p, sw_saleId = saleId,
               sw_saleItemId = pw_saleItemId p, sw_rawWeight = micros (pw_rawWeightKg p),
               sw_commercial = micros (pw_commercialQuantityKg p) div 1000\<rparr>]\<rparr>))"

fun consumeWeighedLines ::
  "scale_env \<Rightarrow> sale_context \<Rightarrow> string \<Rightarrow> prepared_capture list \<Rightarrow> scale_db \<Rightarrow> scale_db http" where
  "consumeWeighedLines env ctx saleId [] db = Inr db"
| "consumeWeighedLines env ctx saleId (p # ps) db =
     and_then (associateWeightCaptureToSaleItem (sc_tenantId ctx) saleId p db) (\<lambda>db1.
     and_then (as_conflict ''weight capture could not be consumed; sale transaction was rolled back''
       (capture_consume env (pw_captureId p) (pw_nonce p) (pw_scope p) (pw_terminalDeviceId p) saleId (sc_userId ctx) db1))
       (\<lambda>db2. consumeWeighedLines env ctx saleId ps db2))"

text \<open>\<open>inventory_create_sale_v2\<close> writes the sale; the model keeps the columns the captures refer to.\<close>

definition insertSale :: "sale_context \<Rightarrow> string \<Rightarrow> scale_db \<Rightarrow> scale_db http" where
  "insertSale ctx saleId db =
     (if \<exists>s\<in>set (sd_sales db). sl_id s = saleId then Inl (InternalError ''23505'')
      else Inr (db\<lparr>sd_sales := sd_sales db @
             [\<lparr>sl_id = saleId, sl_tenantId = sc_tenantId ctx, sl_branchId = sc_branchId ctx,
               sl_terminalId = sc_terminalId ctx, sl_posSessionId = sc_posSessionId ctx\<rparr>]\<rparr>))"

definition sellWeighedLines ::
  "scale_env \<Rightarrow> sale_context \<Rightarrow> weighed_line list \<Rightarrow> string \<Rightarrow> scale_db \<Rightarrow> scale_db http" where
  "sellWeighedLines env ctx lines saleId db =
     (if \<not> list_all weighedLineValid lines then Inl (BadRequest ''weightCapture captureId and nonce are required'')
      else if \<not> validateActivePosSession db ctx then Inl (Unauthorized ''POS session is invalid'')
      else and_then (prepareWeighedLines env ctx db lines) (\<lambda>prepared.
           and_then (insertSale ctx saleId db) (\<lambda>db1.
           consumeWeighedLines env ctx saleId prepared db1)))"

subsection \<open>Requests\<close>

text \<open>A request; its environment is the instant, the random values and the host it runs with.\<close>

datatype scale_request =
    CreateBinding scale_env string string scale_actor
  | ConfirmKg scale_env "string option" "string option" string
  | RevokeBinding scale_env "string option" string "string option"
  | RevokeCredential scale_env "string option" string "string option"
  | StartCapture scale_env string sale_context
  | SubmitObservation scale_env agent_auth capture_observation
  | SellWeighed scale_env sale_context "weighed_line list" string
  | DisableBinding string string
  | IssueCredential scale_env string string string string int string
  | RotateCredential scale_env string string string string string int string
  | ExpireCredentials int

fun serve_scale :: "scale_request \<Rightarrow> scale_db \<Rightarrow> scale_db http" where
  "serve_scale (CreateBinding env posTerminalId scaleId actor) db =
     and_then (createBinding env posTerminalId scaleId actor db) (\<lambda>(_, db'). Inr db')"
| "serve_scale (ConfirmKg env tenantId userId bindingId) db = confirmKg env tenantId userId bindingId db"
| "serve_scale (RevokeBinding env tenantId bindingId actorId) db = revokeBinding env tenantId bindingId actorId db"
| "serve_scale (RevokeCredential env tenantId credentialId actorId) db =
     revokeAgentCredential env tenantId credentialId actorId db"
| "serve_scale (StartCapture env productId ctx) db = startWeightCapture env productId ctx db"
| "serve_scale (SubmitObservation env auth inp) db = submitCaptureObservation env auth inp db"
| "serve_scale (SellWeighed env ctx lines saleId) db = sellWeighedLines env ctx lines saleId db"
| "serve_scale (DisableBinding tenantId bindingId) db = Inr (snd (binding_disable tenantId bindingId db))"
| "serve_scale (IssueCredential env tenantId deviceId credentialId secret expiresAt actorId) db =
     and_then (credential_issue env tenantId deviceId credentialId secret expiresAt actorId db) (\<lambda>(_, db'). Inr db')"
| "serve_scale (RotateCredential env tenantId deviceId credentialId nextId secret expiresAt actorId) db =
     and_then (credential_rotate env tenantId deviceId credentialId nextId secret expiresAt actorId db) (\<lambda>(_, db'). Inr db')"
| "serve_scale (ExpireCredentials now) db = Inr (credential_expireDue now db)"

end
