(* ===== verification/Scale_Facts.thy ===== *)
theory Scale_Facts
  imports Scale_Service
begin

section \<open>Facts about scale authorization\<close>

text \<open>
  Every request is a sequence of elementary writes (\<open>scale_move\<close>). The constraints of the tables,
  which the migration declares and the code must respect by itself, and the fact that a capture
  in use always hangs on an authorized binding are invariants of the writes, hence of any sequence
  of requests (interpretation \<open>scale\<close> of \<open>preserved_by\<close>). The writes also show what never changes:
  a consumed capture and an ended credential.
\<close>

subsection \<open>The constraints of the tables\<close>

definition evidence :: "binding_row \<Rightarrow> bool" where
  "evidence b \<longleftrightarrow>
     bn_unitState b = NOT_VERIFIED \<and> bn_method b = None \<and> bn_unit b = None \<and> bn_verifiedBy b = None \<and> bn_verifiedAt b = None \<or>
     bn_unitState b = KG_VERIFIED \<and> bn_method b = Some ''OPERATOR_CONFIRMATION'' \<and> bn_unit b = Some ''kg'' \<and>
       truthy (bn_verifiedBy b) \<and> bn_verifiedAt b \<noteq> None"

definition binding_ok :: "binding_row \<Rightarrow> bool" where
  "binding_ok b \<longleftrightarrow> evidence b \<and> (bn_status b = AUTHORIZED \<longrightarrow> bn_unitState b = KG_VERIFIED) \<and>
     (bn_status b = REVOKED \<longrightarrow> bn_revokedAt b \<noteq> None)"

definition terminal_key :: "binding_row \<Rightarrow> string" where
  "terminal_key b = bc_posTerminalId (bn_context b)"

definition scale_key :: "binding_row \<Rightarrow> string \<times> string" where
  "scale_key b = (bc_tenantId (bn_context b), bc_logicalScaleId (bn_context b))"

definition is_active :: "binding_row \<Rightarrow> bool" where
  "is_active b \<longleftrightarrow> active_status (bn_status b)"

definition bindings_wf :: "binding_row list \<Rightarrow> bool" where
  "bindings_wf bs \<longleftrightarrow> distinct (map bn_id bs) \<and> (\<forall>b\<in>set bs. binding_ok b) \<and>
     distinct (map terminal_key (filter is_active bs)) \<and> distinct (map scale_key (filter is_active bs))"

definition credential_ok :: "credential_row \<Rightarrow> bool" where
  "credential_ok c \<longleftrightarrow> (case cd_expiresAt c of None \<Rightarrow> True | Some e \<Rightarrow> e > cd_issuedAt c) \<and>
     (cd_status c = CRED_ACTIVE \<longrightarrow> cd_expiresAt c \<noteq> None \<and> cd_revokedAt c = None) \<and>
     (cd_status c = CRED_REVOKED \<longrightarrow> cd_revokedAt c \<noteq> None) \<and>
     (cd_status c = CRED_ROTATED \<longrightarrow> cd_rotatedAt c \<noteq> None \<and> cd_rotatedBy c \<noteq> None)"

definition is_live :: "credential_row \<Rightarrow> bool" where
  "is_live c \<longleftrightarrow> cd_status c = CRED_ACTIVE"

definition credentials_wf :: "credential_row list \<Rightarrow> bool" where
  "credentials_wf cs \<longleftrightarrow> distinct (map cd_credentialId cs) \<and> (\<forall>c\<in>set cs. credential_ok c) \<and>
     distinct (map cd_deviceId (filter is_live cs))"

definition capture_ok :: "capture_row \<Rightarrow> bool" where
  "capture_ok c \<longleftrightarrow> cw_createdAt c < cw_expiresAt c \<and>
     (cw_status c \<in> {READY, CONSUMED} \<longrightarrow>
        measured c \<and> (case cw_weightKg c of None \<Rightarrow> False | Some w \<Rightarrow> 0 \<le> w) \<and> cw_observedAt c \<noteq> None) \<and>
     (cw_status c = CAPTURE_PENDING \<longrightarrow> cw_weightKg c = None \<and> cw_source c = None \<and> cw_unit c = None \<and>
        cw_unitVerified c = None \<and> cw_observedAt c = None) \<and>
     (cw_status c = CONSUMED \<longleftrightarrow> cw_consumedAt c \<noteq> None) \<and>
     (cw_status c = CONSUMED \<longleftrightarrow> cw_consumedSaleId c \<noteq> None) \<and>
     (cw_status c = CONSUMED \<longleftrightarrow> cw_consumedBy c \<noteq> None)"

definition captures_wf :: "capture_row list \<Rightarrow> bool" where
  "captures_wf cs \<longleftrightarrow> distinct (map cw_captureId cs) \<and> distinct (map cw_nonceVerifier cs) \<and> (\<forall>c\<in>set cs. capture_ok c)"

text \<open>A pending or ready capture hangs on an authorized binding with the same context.\<close>

definition live_bound :: "binding_row list \<Rightarrow> capture_row list \<Rightarrow> bool" where
  "live_bound bs cs \<longleftrightarrow>
     (\<forall>c\<in>set cs. live_capture c \<longrightarrow> (\<exists>b\<in>set bs. scope_binding (cw_context c) (cw_terminalDeviceId c) b))"

text \<open>A weighed sale line is the rounded weight of a capture that its sale consumed.\<close>

definition sold_ok :: "capture_row list \<Rightarrow> sale_weight_row \<Rightarrow> bool" where
  "sold_ok cs w \<longleftrightarrow> 0 < sw_rawWeight w \<and> sw_commercial w = (sw_rawWeight w + 500) div 1000 \<and> 0 < sw_commercial w \<and>
     (\<exists>c\<in>set cs. cw_captureId c = sw_captureId w \<and> cw_status c = CONSUMED \<and> cw_consumedSaleId c = Some (sw_saleId w) \<and>
        cw_weightKg c = Some (sw_rawWeight w))"

definition sale_weights_wf :: "capture_row list \<Rightarrow> sale_weight_row list \<Rightarrow> bool" where
  "sale_weights_wf cs ws \<longleftrightarrow> distinct (map sw_captureId ws) \<and>
     distinct (map (\<lambda>w. (sw_tenantId w, sw_saleId w, sw_saleItemId w)) ws) \<and> (\<forall>w\<in>set ws. sold_ok cs w)"

definition scale_wf :: "scale_db \<Rightarrow> bool" where
  "scale_wf db \<longleftrightarrow> bindings_wf (sd_bindings db) \<and> credentials_wf (sd_credentials db) \<and> captures_wf (sd_captures db) \<and>
     live_bound (sd_bindings db) (sd_captures db) \<and> sale_weights_wf (sd_captures db) (sd_saleWeights db)"

subsection \<open>The elementary writes\<close>

definition pendingBinding :: "scale_env \<Rightarrow> binding_context \<Rightarrow> string \<Rightarrow> binding_row" where
  "pendingBinding env ctx actorId =
     \<lparr>bn_id = se_uuid env, bn_context = ctx, bn_status = PENDING, bn_unitState = NOT_VERIFIED,
      bn_method = None, bn_unit = None, bn_verifiedBy = None, bn_verifiedAt = None,
      bn_createdBy = actorId, bn_createdAt = se_now env, bn_revokedAt = None, bn_revokedBy = None\<rparr>"

definition authorized :: "string \<Rightarrow> int \<Rightarrow> binding_row \<Rightarrow> binding_row" where
  "authorized user t b = b\<lparr>bn_status := AUTHORIZED, bn_unitState := KG_VERIFIED, bn_method := Some ''OPERATOR_CONFIRMATION'',
     bn_unit := Some ''kg'', bn_verifiedBy := Some user, bn_verifiedAt := Some t\<rparr>"

definition closing :: "(binding_row \<Rightarrow> binding_row) \<Rightarrow> bool" where
  "closing f \<longleftrightarrow> (\<forall>b. bn_id (f b) = bn_id b \<and> bn_context (f b) = bn_context b \<and> \<not> is_active (f b) \<and>
     bn_unitState (f b) = bn_unitState b \<and> bn_method (f b) = bn_method b \<and> bn_unit (f b) = bn_unit b \<and>
     bn_verifiedBy (f b) = bn_verifiedBy b \<and> bn_verifiedAt (f b) = bn_verifiedAt b \<and>
     (bn_status (f b) = REVOKED \<longrightarrow> bn_revokedAt (f b) \<noteq> None))"

definition ending :: "(credential_row \<Rightarrow> credential_row) \<Rightarrow> bool" where
  "ending f \<longleftrightarrow> (\<forall>c. cd_credentialId (f c) = cd_credentialId c \<and> cd_deviceId (f c) = cd_deviceId c \<and>
     cd_tenantId (f c) = cd_tenantId c \<and> \<not> is_live (f c) \<and> (credential_ok c \<longrightarrow> credential_ok (f c)))"

definition pendingCapture :: "capture_row \<Rightarrow> bool" where
  "pendingCapture c \<longleftrightarrow> cw_status c = CAPTURE_PENDING \<and> capture_ok c"

definition readied :: "int \<Rightarrow> int \<Rightarrow> capture_row \<Rightarrow> capture_row" where
  "readied m t c = c\<lparr>cw_status := READY, cw_weightKg := Some m, cw_source := Some ''REAL'', cw_unit := Some ''kg'',
     cw_unitVerified := Some True, cw_observedAt := Some t\<rparr>"

definition consumed :: "int \<Rightarrow> string \<Rightarrow> string \<Rightarrow> capture_row \<Rightarrow> capture_row" where
  "consumed t saleId user c = c\<lparr>cw_status := CONSUMED, cw_consumedAt := Some t, cw_consumedSaleId := Some saleId,
     cw_consumedBy := Some user\<rparr>"

text \<open>\<open>A\<close> holds the confirmations a write may record: tenant, binding and operator.\<close>

inductive scale_move :: "(string \<times> string \<times> string) set \<Rightarrow> scale_db \<Rightarrow> scale_db \<Rightarrow> bool"
  for A :: "(string \<times> string \<times> string) set" where
  bind: "\<not> binding_conflict db (se_uuid env) ctx \<Longrightarrow>
    scale_move A db (db\<lparr>sd_bindings := sd_bindings db @ [pendingBinding env ctx actorId]\<rparr>)"
| authorize: "(tenantId, i, user) \<in> A \<Longrightarrow> user \<noteq> [] \<Longrightarrow>
    scale_move A db (db\<lparr>sd_bindings := update_where (authorizable tenantId i expected) (authorized user t) (sd_bindings db)\<rparr>)"
| close: "closing f \<Longrightarrow> scale_move A db (snd (binding_close f tenantId i db))"
| credential: "credential_insert env tenantId deviceId credentialId secret expiresAt actorId db = Inr db' \<Longrightarrow>
    se_now env < expiresAt \<Longrightarrow> scale_move A db db'"
| end_credential: "ending f \<Longrightarrow> (\<And>c. P c \<Longrightarrow> is_live c) \<Longrightarrow>
    scale_move A db (db\<lparr>sd_credentials := update_where P f (sd_credentials db)\<rparr>)"
| capture: "list_ex (scope_binding (cw_context c) (cw_terminalDeviceId c)) (sd_bindings db) \<Longrightarrow> pendingCapture c \<Longrightarrow>
    \<forall>x\<in>set (sd_captures db). cw_captureId x \<noteq> cw_captureId c \<and> cw_nonceVerifier x \<noteq> cw_nonceVerifier c \<Longrightarrow>
    scale_move A db (db\<lparr>sd_captures := sd_captures db @ [c]\<rparr>)"
| ready: "0 \<le> m \<Longrightarrow>
    scale_move A db (db\<lparr>sd_captures := update_where (readyable db now i) (readied m t) (sd_captures db)\<rparr>)"
| sale: "scale_move A db (db\<lparr>sd_sales := sd_sales db @ [s]\<rparr>)"
| sell: "c \<in> set (sd_captures db) \<Longrightarrow> consumable db now i verifier expected device saleId c \<Longrightarrow> cw_weightKg c = Some m \<Longrightarrow>
    0 < m \<Longrightarrow> 0 < (m + 500) div 1000 \<Longrightarrow>
    \<forall>w\<in>set (sd_saleWeights db). sw_captureId w \<noteq> i \<and>
      (sw_tenantId w, sw_saleId w, sw_saleItemId w) \<noteq> (tenantId, saleId, item) \<Longrightarrow>
    scale_move A db (db\<lparr>sd_captures := update_where (consumable db now i verifier expected device saleId)
        (consumed now saleId user) (sd_captures db),
      sd_saleWeights := sd_saleWeights db @ [\<lparr>sw_tenantId = tenantId, sw_captureId = i, sw_saleId = saleId,
        sw_saleItemId = item, sw_rawWeight = m, sw_commercial = (m + 500) div 1000\<rparr>]\<rparr>)"

subsection \<open>Every write keeps the constraints\<close>

lemma bindings_wf_update:
  assumes "bindings_wf bs" "\<And>b. bn_id (f b) = bn_id b" "\<And>b. bn_context (f b) = bn_context b"
    "\<And>b. P b \<Longrightarrow> is_active (f b) \<Longrightarrow> is_active b" "\<And>b. P b \<Longrightarrow> binding_ok b \<Longrightarrow> binding_ok (f b)"
  shows "bindings_wf (update_where P f bs)"
  using assms distinct_filter_update [of terminal_key is_active bs f P] distinct_filter_update [of scale_key is_active bs f P]
  by (auto simp: bindings_wf_def map_update_where set_update_where terminal_key_def scale_key_def)

lemma captures_wf_update:
  assumes "captures_wf cs" "\<And>c. cw_captureId (f c) = cw_captureId c" "\<And>c. cw_nonceVerifier (f c) = cw_nonceVerifier c"
    "\<And>c. P c \<Longrightarrow> capture_ok c \<Longrightarrow> capture_ok (f c)"
  shows "captures_wf (update_where P f cs)"
  using assms by (auto simp: captures_wf_def map_update_where set_update_where)

lemma live_bound_update:
  assumes "live_bound bs cs" "\<And>c. cw_context (f c) = cw_context c" "\<And>c. cw_terminalDeviceId (f c) = cw_terminalDeviceId c"
    "\<And>c. P c \<Longrightarrow> live_capture (f c) \<Longrightarrow> live_capture c"
  shows "live_bound bs (update_where P f cs)"
  using assms by (auto simp: live_bound_def set_update_where split: if_splits)

text \<open>A consumed capture is touched by no write, so the sold lines stay justified.\<close>

lemma sale_weights_kept:
  assumes "sale_weights_wf cs ws" "\<And>c. c \<in> set cs \<Longrightarrow> cw_status c = CONSUMED \<Longrightarrow> c \<in> set cs'"
  shows "sale_weights_wf cs' ws"
  using assms by (fastforce simp: sale_weights_wf_def sold_ok_def)

lemma credentials_wf_update:
  assumes "credentials_wf cs" "ending f" "\<And>c. P c \<Longrightarrow> is_live c"
  shows "credentials_wf (update_where P f cs)"
  using assms distinct_filter_update [of cd_deviceId is_live cs f P]
  by (auto simp: credentials_wf_def map_update_where set_update_where ending_def)

lemma scope_binding_kept:
  assumes "b \<in> set bs" "scope_binding ctx d b" "\<And>x. P x \<Longrightarrow> bn_status x = PENDING"
  shows "b \<in> set (update_where P f bs)"
  using assms by (intro update_where_kept) (auto simp: scope_binding_def)

lemma authorize_wf:
  assumes "bindings_wf bs" "user \<noteq> []"
  shows "bindings_wf (update_where (authorizable tenantId i expected) (authorized user t) bs)"
  using assms
  by (intro bindings_wf_update)
     (auto simp: authorized_def authorizable_def is_active_def binding_ok_def evidence_def)

lemma closingD:
  assumes "closing f"
  shows "bn_id (f b) = bn_id b" "bn_context (f b) = bn_context b" "\<not> is_active (f b)"
    "binding_ok b \<Longrightarrow> binding_ok (f b)"
proof -
  from assms show a: "bn_id (f b) = bn_id b" "bn_context (f b) = bn_context b" "\<not> is_active (f b)"
    by (simp_all add: closing_def)
  from a(3) have "bn_status (f b) \<noteq> AUTHORIZED" by (auto simp: is_active_def)
  then show "binding_ok b \<Longrightarrow> binding_ok (f b)" using assms by (simp add: closing_def binding_ok_def evidence_def)
qed

lemma close_wf: "bindings_wf bs \<Longrightarrow> closing f \<Longrightarrow> bindings_wf (update_where P f bs)"
  by (rule bindings_wf_update) (auto simp: closingD)

lemma close_live:
  fixes tenantId i :: string
  assumes "bindings_wf bs" "live_bound bs cs"
  defines "P \<equiv> closable tenantId i"
  defines "cs' \<equiv> (if count P bs = 1 then update_where
      (\<lambda>c. cc_tenantId (cw_context c) = tenantId \<and> cc_bindingId (cw_context c) = i \<and> live_capture c)
      (\<lambda>c. c\<lparr>cw_status := REJECTED\<rparr>) cs else cs)"
  shows "live_bound (update_where P f bs) cs'"
  unfolding live_bound_def
proof (intro ballI impI)
  fix c assume c: "c \<in> set cs'" "live_capture c"
  have "c \<in> set cs \<and> (count P bs = 1 \<longrightarrow> \<not> (cc_tenantId (cw_context c) = tenantId \<and> cc_bindingId (cw_context c) = i))"
  proof (cases "count P bs = 1")
    case True
    with c(1) obtain x where x: "x \<in> set cs" "c = (if cc_tenantId (cw_context x) = tenantId \<and>
        cc_bindingId (cw_context x) = i \<and> live_capture x then x\<lparr>cw_status := REJECTED\<rparr> else x)"
      by (auto simp: cs'_def set_update_where)
    with c(2) show ?thesis by (cases "cc_tenantId (cw_context x) = tenantId \<and> cc_bindingId (cw_context x) = i \<and> live_capture x")
        (auto simp: live_capture_def)
  next
    case False
    with c(1) show ?thesis by (simp add: cs'_def)
  qed
  then have in_cs: "c \<in> set cs" and
    other: "count P bs = 1 \<Longrightarrow> \<not> (cc_tenantId (cw_context c) = tenantId \<and> cc_bindingId (cw_context c) = i)"
    by blast+
  from assms(2) in_cs c(2) obtain b where b: "b \<in> set bs" "scope_binding (cw_context c) (cw_terminalDeviceId c) b"
    by (auto simp: live_bound_def)
  have keep: "\<not> P b"
  proof
    assume hit: "P b"
    have "count P bs \<le> 1" using assms(1)
      by (intro count_le_one [of bn_id _ _ i]) (auto simp: bindings_wf_def P_def closable_def binding_row_at_def)
    moreover have "count P bs \<noteq> 0" unfolding count_pos using b(1) hit by blast
    ultimately have "count P bs = 1" by simp
    with other hit b(2) show False by (auto simp: P_def closable_def binding_row_at_def scope_binding_def)
  qed
  show "\<exists>b\<in>set (update_where P f bs). scope_binding (cw_context c) (cw_terminalDeviceId c) b"
    by (rule bexI [of _ b], rule b(2), rule update_where_kept, rule b(1), rule keep)
qed

lemma binding_close_db:
  "snd (binding_close f tenantId i db) = db\<lparr>sd_bindings := update_where (closable tenantId i) f (sd_bindings db),
     sd_captures := (if count (closable tenantId i) (sd_bindings db) = 1 then update_where
      (\<lambda>c. cc_tenantId (cw_context c) = tenantId \<and> cc_bindingId (cw_context c) = i \<and> live_capture c)
      (\<lambda>c. c\<lparr>cw_status := REJECTED\<rparr>) (sd_captures db) else sd_captures db)\<rparr>"
  by (simp add: binding_close_def reject_captures_def Let_def)

lemma rejected_ok: "live_capture c \<Longrightarrow> capture_ok c \<Longrightarrow> capture_ok (c\<lparr>cw_status := REJECTED\<rparr>)"
  by (auto simp: capture_ok_def live_capture_def)

lemma consumable_sale: "consumable db now i v e d saleId c \<Longrightarrow> cw_status c = READY \<and> cw_captureId c = i"
  by (simp add: consumable_def)

lemma readyable_pending: "readyable db now i c \<Longrightarrow> cw_status c = CAPTURE_PENDING \<and> cw_captureId c = i"
  by (simp add: readyable_def)

lemma consumed_ok: "cw_status c = READY \<Longrightarrow> capture_ok c \<Longrightarrow> capture_ok (consumed t s u c)"
  by (auto simp: capture_ok_def consumed_def measured_def)

lemma readied_ok: "cw_status c = CAPTURE_PENDING \<Longrightarrow> 0 \<le> m \<Longrightarrow> capture_ok c \<Longrightarrow> capture_ok (readied m t c)"
  by (auto simp: capture_ok_def readied_def measured_def)

lemma bind_wf:
  assumes "bindings_wf (sd_bindings db)" "\<not> binding_conflict db (se_uuid env) ctx"
  shows "bindings_wf (sd_bindings db @ [pendingBinding env ctx actorId])"
  using assms
  by (force simp: bindings_wf_def binding_conflict_def pendingBinding_def binding_ok_def evidence_def is_active_def
      terminal_key_def scale_key_def)

lemma credential_insert_wf:
  assumes "credentials_wf (sd_credentials db)" "se_now env < expiresAt"
    "credential_insert env tenantId deviceId credentialId secret expiresAt actorId db = Inr db'"
  shows "credentials_wf (sd_credentials db')" "sd_bindings db' = sd_bindings db" "sd_captures db' = sd_captures db"
    "sd_saleWeights db' = sd_saleWeights db"
  using assms
  by (force simp: credential_insert_def credentials_wf_def credential_ok_def is_live_def split: if_splits)+

lemma sell_weights:
  assumes "sale_weights_wf cs ws" "captures_wf cs" "c \<in> set cs" "consumable db now i v e d saleId c"
    "cw_weightKg c = Some m" "0 < m" "0 < (m + 500) div 1000"
    "\<forall>w\<in>set ws. sw_captureId w \<noteq> i \<and> (sw_tenantId w, sw_saleId w, sw_saleItemId w) \<noteq> (tenantId, saleId, item)"
  shows "sale_weights_wf (update_where (consumable db now i v e d saleId) (consumed now saleId user) cs)
    (ws @ [\<lparr>sw_tenantId = tenantId, sw_captureId = i, sw_saleId = saleId, sw_saleItemId = item, sw_rawWeight = m,
            sw_commercial = (m + 500) div 1000\<rparr>])"
proof -
  let ?cs = "update_where (consumable db now i v e d saleId) (consumed now saleId user) cs"
  have old: "sale_weights_wf ?cs ws"
    by (rule sale_weights_kept [OF assms(1)]) (auto intro!: update_where_kept dest!: consumable_sale)
  have "consumed now saleId user c \<in> set ?cs"
    using assms(3,4) by (force simp: set_update_where)
  moreover have "cw_captureId (consumed now saleId user c) = i" "cw_status (consumed now saleId user c) = CONSUMED"
    "cw_consumedSaleId (consumed now saleId user c) = Some saleId" "cw_weightKg (consumed now saleId user c) = Some m"
    using assms(4,5) consumable_sale by (simp_all add: consumed_def)
  ultimately have "\<exists>c\<in>set ?cs. cw_captureId c = i \<and> cw_status c = CONSUMED \<and> cw_consumedSaleId c = Some saleId \<and>
      cw_weightKg c = Some m" by blast
  with old assms(6-8) show ?thesis
    by (auto simp: sale_weights_wf_def sold_ok_def)
qed

text \<open>The captures a write leaves: nothing consumed is touched.\<close>

lemma move_keeps_consumed: "scale_move A db db' \<Longrightarrow> c \<in> set (sd_captures db) \<Longrightarrow> cw_status c = CONSUMED \<Longrightarrow> c \<in> set (sd_captures db')"
proof (induction rule: scale_move.induct)
  case (close f db tenantId i)
  then show ?case by (auto simp: binding_close_db live_capture_def intro: update_where_kept)
next
  case (sell x db now i v e d saleId m tenantId item user)
  then show ?case by (auto intro!: update_where_kept dest!: consumable_sale)
next
  case (ready m db now i t)
  then show ?case by (auto intro!: update_where_kept dest!: readyable_pending)
qed (auto simp: credential_insert_def split: if_splits)

lemma scale_move_wf: "scale_move A db db' \<Longrightarrow> scale_wf db \<Longrightarrow> scale_wf db'"
proof (induction rule: scale_move.induct)
  case (bind db env ctx actorId)
  then show ?case by (auto simp: scale_wf_def bind_wf live_bound_def)
next
  case (authorize tenantId i user db expected t)
  have "live_bound (update_where (authorizable tenantId i expected) (authorized user t) (sd_bindings db)) (sd_captures db)"
    using authorize by (auto simp: scale_wf_def live_bound_def authorizable_def intro!: scope_binding_kept dest!: bspec)
  with authorize show ?case by (simp add: scale_wf_def authorize_wf)
next
  case (close f db tenantId i)
  have "sale_weights_wf (sd_captures (snd (binding_close f tenantId i db))) (sd_saleWeights db)"
    using close by (auto simp: scale_wf_def intro!: sale_weights_kept [where cs = "sd_captures db"]
      intro: move_keeps_consumed scale_move.close)
  then show ?case using close close_live [of "sd_bindings db" "sd_captures db" tenantId i f]
    by (auto simp: scale_wf_def binding_close_db close_wf intro!: captures_wf_update rejected_ok)
next
  case (credential env tenantId deviceId credentialId secret expiresAt actorId db db')
  then show ?case using credential_insert_wf by (auto simp: scale_wf_def)
next
  case (end_credential f P db)
  then show ?case by (simp add: scale_wf_def credentials_wf_update)
next
  case (capture c db)
  have "sale_weights_wf (sd_captures db @ [c]) (sd_saleWeights db)"
    using capture.prems by (auto simp: scale_wf_def intro: sale_weights_kept [where cs = "sd_captures db"])
  with capture show ?case
    by (auto simp: scale_wf_def captures_wf_def live_bound_def pendingCapture_def list_ex_iff)
next
  case (ready m db now i t)
  have "sale_weights_wf (update_where (readyable db now i) (readied m t) (sd_captures db)) (sd_saleWeights db)"
    using ready.prems by (auto simp: scale_wf_def intro!: sale_weights_kept [where cs = "sd_captures db"] update_where_kept
      dest: readyable_pending)
  with ready show ?case
    by (auto simp: scale_wf_def readied_def live_capture_def
        intro!: captures_wf_update live_bound_update readied_ok [unfolded readied_def] dest: readyable_pending)
next
  case (sale db s)
  then show ?case by (simp add: scale_wf_def)
next
  case (sell c db now i v e d saleId m tenantId item user)
  have "captures_wf (update_where (consumable db now i v e d saleId) (consumed now saleId user) (sd_captures db))"
    "live_bound (sd_bindings db) (update_where (consumable db now i v e d saleId) (consumed now saleId user) (sd_captures db))"
    using sell.prems
    by (auto simp: scale_wf_def consumed_def live_capture_def
        intro!: captures_wf_update live_bound_update consumed_ok [unfolded consumed_def] dest: consumable_sale)
  with sell sell_weights [of "sd_captures db" "sd_saleWeights db" c db now i v e d saleId m tenantId item user]
  show ?case by (simp add: scale_wf_def)
qed

subsection \<open>Every request is a sequence of writes\<close>

abbreviation moves :: "(string \<times> string \<times> string) set \<Rightarrow> scale_db \<Rightarrow> scale_db \<Rightarrow> bool" where
  "moves A \<equiv> (scale_move A)\<^sup>*\<^sup>*"

lemma closing_revoke: "closing (\<lambda>b. b\<lparr>bn_status := REVOKED, bn_revokedAt := Some t, bn_revokedBy := Some u\<rparr>)"
  by (simp add: closing_def is_active_def)

lemma closing_disable: "closing (\<lambda>b. b\<lparr>bn_status := DISABLED\<rparr>)"
  by (simp add: closing_def is_active_def)

lemma ending_expire: "ending (\<lambda>c. c\<lparr>cd_status := CRED_EXPIRED\<rparr>)"
  by (auto simp: ending_def is_live_def credential_ok_def split: option.splits)

lemma ending_rotate: "ending (\<lambda>c. c\<lparr>cd_status := CRED_ROTATED, cd_rotatedAt := Some t, cd_rotatedBy := Some u\<rparr>)"
  by (auto simp: ending_def is_live_def credential_ok_def split: option.splits)

lemma ending_revoke: "ending (\<lambda>c. c\<lparr>cd_status := CRED_REVOKED, cd_revokedAt := Some t, cd_revokedBy := Some u\<rparr>)"
  by (auto simp: ending_def is_live_def credential_ok_def split: option.splits)

lemma revoke_moves: "binding_revoke env tenantId i actorId db = (r, db') \<Longrightarrow> scale_move A db db'"
  using scale_move.close [where f = "\<lambda>b. b\<lparr>bn_status := REVOKED, bn_revokedAt := Some (se_now env), bn_revokedBy := Some actorId\<rparr>"
      and A = A and db = db and tenantId = tenantId and i = i] closing_revoke [where t = "se_now env" and u = actorId]
  by (simp add: binding_revoke_def)

lemma revokeEach_moves: "revokeEach env tenantId ids actorId db = Inr db' \<Longrightarrow> moves A db db'"
  by (induction env tenantId ids actorId db rule: revokeEach.induct)
     (auto split: prod.splits if_splits intro: converse_rtranclp_into_rtranclp revoke_moves)

lemma createPending_moves: "binding_createPending env ctx actorId db = Inr (r, db') \<Longrightarrow> moves A db db'"
  using scale_move.bind [of db env ctx A actorId]
  by (auto simp: binding_createPending_def pendingBinding_def split: if_splits)

lemma createBinding_moves: "createBinding env p l actor db = Inr (i, db') \<Longrightarrow> moves A db db'"
  unfolding createBinding_def Let_def and_then_Inr
  by (auto simp: and_then_Inr split: if_splits option.splits
      intro: rtranclp_trans [OF revokeEach_moves createPending_moves])

lemma authorize_moves:
  assumes "binding_authorize env tenantId i expected confirmation db = Inr db'"
    "(tenantId, i, kc_operatorId confirmation) \<in> A"
  shows "scale_move A db db'"
proof -
  from assms(1) have
    ok: "confirmationValid (se_host env) (se_now env) (Some confirmation)" and
    db': "db' = db\<lparr>sd_bindings := update_where (authorizable tenantId i expected)
       (\<lambda>b. b\<lparr>bn_status := AUTHORIZED, bn_unitState := KG_VERIFIED,
                        bn_method := Some ''OPERATOR_CONFIRMATION'', bn_unit := Some ''kg'',
                        bn_verifiedBy := Some (kc_operatorId confirmation),
                        bn_verifiedAt := date_parse (se_host env) (kc_confirmedAt confirmation)\<rparr>)
                 (sd_bindings db)\<rparr>"
    by (auto simp: binding_authorize_def authorizeScaleBinding_def and_then_Inr Let_def split: option.splits if_splits)
  from ok obtain t where "date_parse (se_host env) (kc_confirmedAt confirmation) = Some t" "kc_operatorId confirmation \<noteq> []"
    by (auto simp: confirmationValid_def split: option.splits)
  with scale_move.authorize [of tenantId i "kc_operatorId confirmation" A db expected t] assms(2) show ?thesis
    by (simp add: db' authorized_def [abs_def])
qed

lemma confirmKg_moves:
  "confirmKg env tn u i db = Inr db' \<Longrightarrow> (the tn, i, the u) \<in> A \<Longrightarrow> scale_move A db db'"
  by (auto simp: confirmKg_def split: if_splits option.splits intro!: authorize_moves)

lemma end_moves:
  "ending f \<Longrightarrow> (\<And>c. P c \<Longrightarrow> is_live c) \<Longrightarrow> moves A db (db\<lparr>sd_credentials := update_where P f (sd_credentials db)\<rparr>)"
  by (rule r_into_rtranclp, rule scale_move.end_credential)

lemma issue_moves:
  assumes "credential_issue env tenantId deviceId credentialId secret expiresAt actorId db = Inr (r, db')"
  shows "moves A db db'"
proof -
  define due where "due = (\<lambda>c :: credential_row. cd_tenantId c = tenantId \<and> cd_deviceId c = deviceId \<and> cd_status c = CRED_ACTIVE \<and>
    (case cd_expiresAt c of None \<Rightarrow> False | Some e \<Rightarrow> e \<le> se_now env))"
  define db1 where "db1 = db\<lparr>sd_credentials := update_where due (\<lambda>c. c\<lparr>cd_status := CRED_EXPIRED\<rparr>) (sd_credentials db)\<rparr>"
  have first: "moves A db db1" unfolding db1_def by (rule end_moves [OF ending_expire]) (simp add: due_def is_live_def)
  from assms have "se_now env < expiresAt" and
    "credential_insert env tenantId deviceId credentialId secret expiresAt actorId db1 = Inr db' \<or> db' = db1"
    by (auto simp: credential_issue_def Let_def and_then_Inr db1_def due_def split: if_splits)
  then have "moves A db1 db'" using scale_move.credential by blast
  with first show ?thesis by (rule rtranclp_trans)
qed

lemma rotate_moves:
  assumes "credential_rotate env tenantId deviceId credentialId nextId secret expiresAt actorId db = Inr (r, db')"
  shows "moves A db db'"
proof -
  define hit where "hit = (\<lambda>c :: credential_row. cd_tenantId c = tenantId \<and> cd_deviceId c = deviceId \<and>
    cd_credentialId c = credentialId \<and> cd_status c = CRED_ACTIVE)"
  define db1 where "db1 = db\<lparr>sd_credentials := update_where hit
    (\<lambda>c. c\<lparr>cd_status := CRED_ROTATED, cd_rotatedAt := Some (se_now env), cd_rotatedBy := Some actorId\<rparr>) (sd_credentials db)\<rparr>"
  have "moves A db db1" unfolding db1_def by (rule end_moves [OF ending_rotate]) (simp add: hit_def is_live_def)
  moreover have "credential_issue env tenantId deviceId nextId secret expiresAt actorId db1 = Inr (r, db')"
    using assms by (simp add: credential_rotate_def Let_def hit_def db1_def split: if_splits)
  then have "moves A db1 db'" by (rule issue_moves)
  ultimately show ?thesis by (rule rtranclp_trans)
qed

lemma capture_moves:
  assumes "capture_createPending env ctx device ttlMs db = Inr db'"
  shows "scale_move A db db'"
proof -
  define c where "c = \<lparr>cw_captureId = se_uuid env, cw_context = ctx, cw_terminalDeviceId = device,
    cw_nonceVerifier = sha256_hex (se_host env) (se_nonce env), cw_status = CAPTURE_PENDING, cw_weightKg = None,
    cw_source = None, cw_unit = None, cw_unitVerified = None, cw_observedAt = None,
    cw_createdAt = se_now env, cw_expiresAt = se_now env + ttlMs,
    cw_consumedAt = None, cw_consumedSaleId = None, cw_consumedBy = None\<rparr>"
  from assms have ttl: "0 < ttlMs" and one: "count (scope_binding ctx device) (sd_bindings db) = 1" and
    fresh: "\<forall>x\<in>set (sd_captures db). cw_captureId x \<noteq> cw_captureId c \<and> cw_nonceVerifier x \<noteq> cw_nonceVerifier c" and
    db': "db' = db\<lparr>sd_captures := sd_captures db @ [c]\<rparr>"
    by (auto simp: capture_createPending_def createWeightCapture_def c_def split: if_splits)
  have "list_ex (scope_binding (cw_context c) (cw_terminalDeviceId c)) (sd_bindings db)"
    using count_one [OF one] by (auto simp: list_ex_iff c_def)
  moreover have "pendingCapture c" using ttl by (simp add: pendingCapture_def capture_ok_def c_def)
  ultimately show ?thesis unfolding db' using fresh by (rule scale_move.capture)
qed

definition column_nonneg :: "scale_env \<Rightarrow> bool" where
  "column_nonneg env \<longleftrightarrow> (\<forall>x m. 0 \<le> x \<longrightarrow> se_column env x = Some m \<longrightarrow> 0 \<le> m)"

lemma ready_moves:
  assumes "capture_markReady env i ob db = Inr db'" "column_nonneg env"
  shows "scale_move A db db'"
proof -
  from assms(1) obtain m where com: "commercialObservation (se_host env) ob" and m: "stored_weight env ob = Some m" and
    db': "db' = db\<lparr>sd_captures := update_where (readyable db (se_now env) i)
       (\<lambda>c. c\<lparr>cw_status := READY, cw_weightKg := stored_weight env ob,
                         cw_source := Some ''REAL'', cw_unit := Some ''kg'', cw_unitVerified := Some True,
                         cw_observedAt := date_parse (se_host env) (wo_observedAt ob)\<rparr>)
                  (sd_captures db)\<rparr>"
    by (auto simp: capture_markReady_def and_then_Inr Let_def split: if_splits)
  obtain w where w: "wo_value ob = Fin w" "0 \<le> w"
    using com by (cases "wo_value ob") (auto simp: commercialObservation_def)
  have "0 \<le> m" using assms(2) m w by (auto simp: stored_weight_def column_nonneg_def)
  moreover obtain t where "date_parse (se_host env) (wo_observedAt ob) = Some t"
    using com by (auto simp: commercialObservation_def)
  ultimately show ?thesis using scale_move.ready [of m A db "se_now env" i t] m
    by (simp add: db' readied_def [abs_def])
qed

lemma submit_moves:
  "submitCaptureObservation env auth inp db = Inr db' \<Longrightarrow> column_nonneg env \<Longrightarrow> scale_move A db db'"
  by (auto simp: submitCaptureObservation_def and_then_Inr Let_def split: if_splits option.splits intro: ready_moves)

lemma start_moves: "startWeightCapture env productId ctx db = Inr db' \<Longrightarrow> scale_move A db db'"
  by (auto simp: startWeightCapture_def Let_def split: if_splits option.splits intro: capture_moves)

text \<open>What the preparation of a weighed line leaves to its consumption.\<close>

definition prepared_ok :: "capture_row list \<Rightarrow> prepared_capture \<Rightarrow> bool" where
  "prepared_ok cs p \<longleftrightarrow> (\<exists>c\<in>set cs. \<exists>m. cw_captureId c = pw_captureId p \<and> cw_weightKg c = Some m \<and> 0 < m \<and>
     0 < (m + 500) div 1000 \<and> micros (pw_rawWeightKg p) = m \<and> micros (pw_commercialQuantityKg p) div 1000 = (m + 500) div 1000)"

lemma as_conflict_Inr [simp]: "as_conflict msg r = Inr x \<longleftrightarrow> r = Inr x"
  by (auto simp: as_conflict_def split: sum.splits http_error.splits)

lemma lock_row:
  assumes "capture_lockReadyForSale env i nonce expected db = Inr (w, scope, device)"
  obtains c where "c \<in> set (sd_captures db)"
    "sellable db (se_now env) i (verifierFor (se_host env) nonce) expected c" "cw_weightKg c = Some w" "0 < w"
    "scope = expected\<lparr>cc_logicalScaleId := cc_logicalScaleId (cw_context c), cc_bindingId := cc_bindingId (cw_context c)\<rparr>"
    "device = cw_terminalDeviceId c"
proof -
  define hit where "hit = sellable db (se_now env) i (verifierFor (se_host env) nonce) expected"
  from assms have one: "count hit (sd_captures db) = 1"
    by (auto simp: capture_lockReadyForSale_def hit_def Let_def split: if_splits)
  then obtain c where c: "find hit (sd_captures db) = Some c"
    using count_one [OF one] find_None_iff [of hit "sd_captures db"] by (cases "find hit (sd_captures db)") auto
  then have in_c: "c \<in> set (sd_captures db)" "hit c" using find_in by fast+
  then have pos: "cw_weightKg c \<noteq> None" "0 < the (cw_weightKg c)"
    by (auto simp: hit_def sellable_def split: option.splits)
  from assms one c have "w = the (cw_weightKg c)" "device = cw_terminalDeviceId c"
    "scope = expected\<lparr>cc_logicalScaleId := cc_logicalScaleId (cw_context c), cc_bindingId := cc_bindingId (cw_context c)\<rparr>"
    by (auto simp: capture_lockReadyForSale_def hit_def Let_def and_then_Inr split: if_splits)
  with in_c pos that show thesis by (auto simp: hit_def)
qed

lemma commercial_text:
  assumes "0 < m" "roundCommercialWeightKg (weight_text m) = Inr t" "t \<noteq> ''0.000''"
  shows "micros (weight_text m) = m" "micros t div 1000 = (m + 500) div 1000" "0 < (m + 500) div 1000"
proof -
  have w: "DECIMAL_VALUE (weight_text m)" "length (fractionPart (weight_text m)) \<le> 6" "micros (weight_text m) = m"
    using weight_text_micros [of m] assms(1) by simp_all
  define g where "g = (m + 500) div 1000"
  note r = roundCommercialWeightKg_micros [OF w(1,2), unfolded w(3), folded g_def]
  have t: "t = decimal (nat (g div 10 ^ 3)) @ ''.'' @ pad_start 3 (CHR ''0'') (decimal (nat (g mod 10 ^ 3)))"
    using assms(2) r(2) by simp
  have "g \<noteq> 0"
  proof
    assume "g = 0"
    moreover have "char_of (48 :: nat) = CHR ''0''" by code_simp
    ultimately have "t = ''0.000''" by (simp add: t decimal.simps pad_start_def numeral_2_eq_2)
    with assms(3) show False ..
  qed
  with r(1) show "0 < (m + 500) div 1000" by (simp add: g_def)
  show "micros (weight_text m) = m" by (rule w)
  have "micros t = g * 1000" using kilo_text(3) [OF r(1), of 3] by (simp add: t)
  then show "micros t div 1000 = (m + 500) div 1000" by (simp add: g_def)
qed

lemma prepare_ok:
  assumes "prepareWeighedLine env ctx db line = Inr p"
  shows "prepared_ok (sd_captures db) p"
proof -
  from assms obtain w scope device expected where
    lock: "capture_lockReadyForSale env (js_lower (wl_captureId line)) (wl_nonce line) expected db = Inr (w, scope, device)" and
    round: "roundCommercialWeightKg (weight_text w) = Inr (pw_commercialQuantityKg p)"
      "pw_commercialQuantityKg p \<noteq> ''0.000''" and
    p: "pw_captureId p = js_lower (wl_captureId line)" "pw_rawWeightKg p = weight_text w"
    by (auto simp: prepareWeighedLine_def and_then_Inr split: option.splits if_splits)
  from lock obtain c where c: "c \<in> set (sd_captures db)"
    "sellable db (se_now env) (js_lower (wl_captureId line)) (verifierFor (se_host env) (wl_nonce line)) expected c"
    "cw_weightKg c = Some w" "0 < w" by (rule lock_row)
  have "cw_captureId c = pw_captureId p" using c(2) p(1) by (simp add: sellable_def)
  with c commercial_text [OF c(4) round] p(2) show ?thesis by (auto simp: prepared_ok_def)
qed

lemma prepares_ok: "prepareWeighedLines env ctx db lines = Inr ps \<Longrightarrow> \<forall>p\<in>set ps. prepared_ok (sd_captures db) p"
  by (induction lines arbitrary: ps) (auto simp: and_then_Inr prepare_ok)

lemma prepared_update:
  assumes "prepared_ok cs p" "\<And>c. cw_captureId (f c) = cw_captureId c" "\<And>c. cw_weightKg (f c) = cw_weightKg c"
  shows "prepared_ok (update_where P f cs) p"
proof -
  from assms(1) obtain c m where c: "c \<in> set cs" and rest: "cw_captureId c = pw_captureId p" "cw_weightKg c = Some m" "0 < m"
    "0 < (m + 500) div 1000" "micros (pw_rawWeightKg p) = m" "micros (pw_commercialQuantityKg p) div 1000 = (m + 500) div 1000"
    by (auto simp: prepared_ok_def)
  have "(if P c then f c else c) \<in> set (update_where P f cs)" using c by (auto simp: set_update_where)
  then show ?thesis unfolding prepared_ok_def
    by (rule bexI [rotated]) (use rest assms(2,3) in auto)
qed

lemma consume_moves:
  assumes "distinct (map cw_captureId (sd_captures db))" "prepared_ok (sd_captures db) p"
    "associateWeightCaptureToSaleItem tenantId saleId p db = Inr db1"
    "capture_consume env (pw_captureId p) nonce expected device saleId user db1 = Inr db2"
  shows "scale_move A db db2" "\<exists>P. sd_captures db2 = update_where P (consumed (se_now env) saleId user) (sd_captures db)"
    "\<exists>c\<in>set (sd_captures db). consumable db (se_now env) (pw_captureId p) (verifierFor (se_host env) nonce) expected device saleId c"
proof -
  define hit where "hit = consumable db (se_now env) (pw_captureId p) (verifierFor (se_host env) nonce) expected device saleId"
  have fresh: "\<forall>w\<in>set (sd_saleWeights db). sw_captureId w \<noteq> pw_captureId p \<and>
      (sw_tenantId w, sw_saleId w, sw_saleItemId w) \<noteq> (tenantId, saleId, pw_saleItemId p)" and
    db1: "db1 = db\<lparr>sd_saleWeights := sd_saleWeights db @
             [\<lparr>sw_tenantId = tenantId, sw_captureId = pw_captureId p, sw_saleId = saleId,
               sw_saleItemId = pw_saleItemId p, sw_rawWeight = micros (pw_rawWeightKg p),
               sw_commercial = micros (pw_commercialQuantityKg p) div 1000\<rparr>]\<rparr>"
    using assms(3) by (auto simp: associateWeightCaptureToSaleItem_def split: if_splits)
  have hit1: "consumable db1 = consumable db" by (simp add: db1 consumable_def fun_eq_iff)
  have caps: "sd_captures db1 = sd_captures db" by (simp add: db1)
  from assms(4) have one: "count hit (sd_captures db) = 1" and
    db2: "db2 = db1\<lparr>sd_captures := update_where hit (consumed (se_now env) saleId user) (sd_captures db)\<rparr>"
    by (auto simp: capture_consume_def Let_def and_then_Inr hit1 hit_def consumed_def [abs_def] caps split: if_splits)
  from count_one [OF one] obtain c where c: "c \<in> set (sd_captures db)" "hit c" by blast
  from assms(2) obtain c' m where c': "c' \<in> set (sd_captures db)" "cw_captureId c' = pw_captureId p" "cw_weightKg c' = Some m"
    "0 < m" "0 < (m + 500) div 1000" "micros (pw_rawWeightKg p) = m" "micros (pw_commercialQuantityKg p) div 1000 = (m + 500) div 1000"
    by (auto simp: prepared_ok_def)
  have "cw_captureId c = pw_captureId p" using c(2) by (simp add: hit_def consumable_def)
  then have "c = c'" using key_unique [OF assms(1) c(1) c'(1)] c'(2) by simp
  have swap: "db\<lparr>sd_saleWeights := x, sd_captures := y\<rparr> = db\<lparr>sd_captures := y, sd_saleWeights := x\<rparr>" for x y by simp
  show "scale_move A db db2"
    using \<open>c = c'\<close> scale_move.sell [OF c(1) c(2) [unfolded hit_def], of m tenantId "pw_saleItemId p" A user] c' fresh
    by (simp add: db2 db1 hit_def swap)
  show "\<exists>P. sd_captures db2 = update_where P (consumed (se_now env) saleId user) (sd_captures db)"
    by (auto simp: db2)
  show "\<exists>c\<in>set (sd_captures db). consumable db (se_now env) (pw_captureId p) (verifierFor (se_host env) nonce) expected device saleId c"
    using c by (auto simp: hit_def)
qed

lemma consumes_moves:
  assumes "distinct (map cw_captureId (sd_captures db))" "\<forall>p\<in>set ps. prepared_ok (sd_captures db) p"
    "consumeWeighedLines env ctx saleId ps db = Inr db'"
  shows "moves A db db'"
  using assms
proof (induction ps arbitrary: db)
  case (Cons p ps)
  from Cons.prems(3) obtain db1 db2 where
    ass: "associateWeightCaptureToSaleItem (sc_tenantId ctx) saleId p db = Inr db1" and
    con: "capture_consume env (pw_captureId p) (pw_nonce p) (pw_scope p) (pw_terminalDeviceId p) saleId (sc_userId ctx) db1 = Inr db2" and
    rest: "consumeWeighedLines env ctx saleId ps db2 = Inr db'"
    by (auto simp: and_then_Inr)
  note step = consume_moves [OF Cons.prems(1) _ ass con]
  have p: "prepared_ok (sd_captures db) p" using Cons.prems(2) by simp
  from step(2) [OF p] obtain P where P: "sd_captures db2 = update_where P (consumed (se_now env) saleId (sc_userId ctx)) (sd_captures db)" ..
  have "distinct (map cw_captureId (sd_captures db2))"
    using Cons.prems(1) by (simp add: P map_update_where consumed_def)
  moreover have "\<forall>q\<in>set ps. prepared_ok (sd_captures db2) q"
    using Cons.prems(2) by (auto simp: P consumed_def intro: prepared_update)
  ultimately have "moves A db2 db'" using rest by (rule Cons.IH)
  with step(1) [OF p] show ?case by (rule converse_rtranclp_into_rtranclp)
qed simp

lemma sell_moves:
  assumes "sellWeighedLines env ctx lines saleId db = Inr db'" "scale_wf db"
  shows "moves A db db'"
proof -
  from assms(1) obtain ps db1 where ps: "prepareWeighedLines env ctx db lines = Inr ps" and
    ins: "insertSale ctx saleId db = Inr db1" and con: "consumeWeighedLines env ctx saleId ps db1 = Inr db'"
    by (auto simp: sellWeighedLines_def and_then_Inr split: if_splits)
  have "scale_move A db db1" and caps: "sd_captures db1 = sd_captures db"
    using ins by (auto simp: insertSale_def intro: scale_move.sale split: if_splits)
  moreover have "moves A db1 db'"
    using assms(2) prepares_ok [OF ps] con
    by (intro consumes_moves) (auto simp: caps scale_wf_def captures_wf_def)
  ultimately show ?thesis by (metis converse_rtranclp_into_rtranclp)
qed

subsection \<open>Any sequence of requests\<close>

fun confirmations :: "scale_request \<Rightarrow> (string \<times> string \<times> string) set" where
  "confirmations (ConfirmKg env tenantId userId bindingId) = {(the tenantId, bindingId, the userId)}"
| "confirmations _ = {}"

fun column_ok :: "scale_request \<Rightarrow> bool" where
  "column_ok (SubmitObservation env auth inp) = column_nonneg env"
| "column_ok _ = True"

lemma disable_moves: "scale_move A db (snd (binding_disable tenantId i db))"
  unfolding binding_disable_def by (rule scale_move.close [OF closing_disable])

lemma credential_revoke_moves: "credential_revoke env tn i actor db = (r, db') \<Longrightarrow> scale_move A db db'"
  unfolding credential_revoke_def Let_def
  by (auto intro!: scale_move.end_credential ending_revoke simp: is_live_def)

lemma expire_moves: "scale_move A db (credential_expireDue now db)"
  unfolding credential_expireDue_def by (rule scale_move.end_credential [OF ending_expire]) (simp add: is_live_def)

theorem serve_moves:
  assumes "serve_scale r db = Inr db'" "scale_wf db" "column_ok r" "confirmations r \<subseteq> A"
  shows "moves A db db'"
proof (cases r)
  case (CreateBinding env p l a)
  with assms show ?thesis by (auto simp: and_then_Inr intro: createBinding_moves)
next
  case (ConfirmKg env t u b)
  with assms show ?thesis by (auto intro: r_into_rtranclp confirmKg_moves)
next
  case (RevokeBinding env t b a)
  with assms show ?thesis
    by (auto simp: revokeBinding_def split: if_splits prod.splits intro: r_into_rtranclp revoke_moves)
next
  case (RevokeCredential env t c a)
  with assms show ?thesis
    by (auto simp: revokeAgentCredential_def split: if_splits prod.splits intro: r_into_rtranclp credential_revoke_moves)
next
  case (StartCapture env p ctx)
  with assms show ?thesis by (auto intro: r_into_rtranclp start_moves)
next
  case (SubmitObservation env auth inp)
  with assms show ?thesis by (auto intro: r_into_rtranclp submit_moves)
next
  case (SellWeighed env ctx ls s)
  with assms show ?thesis by (auto intro: sell_moves)
next
  case (DisableBinding t b)
  with assms show ?thesis by (auto intro: r_into_rtranclp disable_moves)
next
  case (IssueCredential env t d c s e a)
  with assms show ?thesis by (auto simp: and_then_Inr intro: issue_moves)
next
  case (RotateCredential env t d c n s e a)
  with assms show ?thesis by (auto simp: and_then_Inr intro: rotate_moves)
next
  case (ExpireCredentials now)
  with assms show ?thesis by (auto intro: r_into_rtranclp expire_moves)
qed

lemma moves_wf: "moves A db db' \<Longrightarrow> scale_wf db \<Longrightarrow> scale_wf db'"
  by (induction rule: rtranclp_induct) (auto dest: scale_move_wf)

interpretation scale: preserved_by column_ok serve_scale scale_wf
  by unfold_locales (metis moves_wf serve_moves order_refl)

lemma attempts_moves:
  assumes "scale_wf db" "\<forall>r\<in>set rs. column_ok r" "\<Union> (confirmations ` set rs) \<subseteq> A"
  shows "moves A db (attempts serve_scale rs db)"
  using assms
proof (induction rs arbitrary: db)
  case (Cons r rs)
  show ?case
  proof (cases "serve_scale r db")
    case (Inr db')
    have m: "moves A db db'" using Cons.prems by (intro serve_moves [OF Inr]) auto
    then have "moves A db' (attempts serve_scale rs db')"
      using Cons.prems by (intro Cons.IH moves_wf [OF m]) auto
    with m Inr show ?thesis by simp
  qed (use Cons in simp)
qed simp

text \<open>
  The constraints the database schema declares, which the model does not enforce, hold
  after any sequence of requests, because the code respects them: one active binding per terminal
  and per scale, kilograms confirmed by an operator before authorization, one active credential per
  device, measured weights behind ready and consumed captures, sold quantities that are the
  captured weight rounded to grams. A pending or ready capture hangs on an authorized binding with
  the same context, and each weighed sale line on a capture its own sale consumed.
\<close>

theorem scale_tables_wf:
  assumes "scale_wf db" "\<forall>r\<in>set rs. column_ok r"
  shows "scale_wf (attempts serve_scale rs db)"
  using assms by (rule scale.ok_attempts_preserve)

lemma moves_keep_consumed:
  "moves A db db' \<Longrightarrow> c \<in> set (sd_captures db) \<Longrightarrow> cw_status c = CONSUMED \<Longrightarrow> c \<in> set (sd_captures db')"
  by (induction rule: rtranclp_induct) (auto dest: move_keeps_consumed)

text \<open>
  Property C34: a consumed capture is spent: after any sequence of requests the row with its id is
  the same row, with the sale and the user that consumed it, so no second sale ever uses it.
\<close>

theorem capture_consumed_once:
  assumes "scale_wf db" "\<forall>r\<in>set rs. column_ok r"
    "c \<in> set (sd_captures db)" "cw_status c = CONSUMED"
    "c' \<in> set (sd_captures (attempts serve_scale rs db))" "cw_captureId c' = cw_captureId c"
  shows "c' = c"
proof -
  have "scale_wf (attempts serve_scale rs db)" using assms(1,2) by (rule scale.ok_attempts_preserve)
  moreover have "c \<in> set (sd_captures (attempts serve_scale rs db))"
    using attempts_moves [OF assms(1,2) order_refl] assms(3,4) by (rule moves_keep_consumed)
  ultimately show ?thesis using assms(5,6) by (auto simp: scale_wf_def captures_wf_def intro: key_unique)
qed

lemma confirmationsD:
  "x \<in> confirmations r \<Longrightarrow> \<exists>env tn i u. r = ConfirmKg env tn u i \<and> x = (the tn, i, the u)"
  by (cases r) auto

definition confirmed_by :: "(string \<times> string \<times> string) set \<Rightarrow> scale_db \<Rightarrow> bool" where
  "confirmed_by A db \<longleftrightarrow> (\<forall>b\<in>set (sd_bindings db). bn_status b = AUTHORIZED \<longrightarrow>
     (bc_tenantId (bn_context b), bn_id b, the (bn_verifiedBy b)) \<in> A)"

lemma move_confirmed: "scale_move A db db' \<Longrightarrow> confirmed_by A db \<Longrightarrow> confirmed_by A db'"
proof (induction rule: scale_move.induct)
  case (authorize tenantId i user db expected t)
  then show ?case
    by (auto simp: confirmed_by_def set_update_where authorized_def authorizable_def binding_row_at_def)
next
  case (close f db tenantId i)
  have "bn_status (f b) \<noteq> AUTHORIZED" for b using closingD(3) [OF close.hyps, of b] by (auto simp: is_active_def)
  with close show ?case by (auto simp: confirmed_by_def binding_close_db set_update_where split: if_splits)
qed (auto simp: confirmed_by_def pendingBinding_def credential_insert_def split: if_splits)

lemma moves_confirmed: "moves A db db' \<Longrightarrow> confirmed_by A db \<Longrightarrow> confirmed_by A db'"
  by (induction rule: rtranclp_induct) (auto dest: move_confirmed)

text \<open>
  Starting with no authorized binding, every binding that is authorized after a
  sequence of requests was confirmed in kilograms by one of these requests, for its tenant, by the
  operator its evidence names.
\<close>

theorem authorized_was_confirmed:
  assumes "scale_wf db" "\<forall>r\<in>set rs. column_ok r" "\<forall>b\<in>set (sd_bindings db). bn_status b \<noteq> AUTHORIZED"
    "b \<in> set (sd_bindings (attempts serve_scale rs db))" "bn_status b = AUTHORIZED"
  shows "bn_unitState b = KG_VERIFIED \<and> bn_unit b = Some ''kg'' \<and>
    (\<exists>env tenantId userId. ConfirmKg env tenantId userId (bn_id b) \<in> set rs \<and>
       the tenantId = bc_tenantId (bn_context b) \<and> bn_verifiedBy b = Some (the userId))"
proof -
  define A where "A = \<Union> (confirmations ` set rs)"
  have "confirmed_by A (attempts serve_scale rs db)"
    by (rule moves_confirmed [OF attempts_moves [OF assms(1,2)]])
       (use assms(3) in \<open>simp_all add: A_def confirmed_by_def\<close>)
  with assms(4,5) have "(bc_tenantId (bn_context b), bn_id b, the (bn_verifiedBy b)) \<in> A"
    by (auto simp: confirmed_by_def)
  then obtain r where "r \<in> set rs" "(bc_tenantId (bn_context b), bn_id b, the (bn_verifiedBy b)) \<in> confirmations r"
    by (auto simp: A_def)
  then obtain env tenantId userId where r: "ConfirmKg env tenantId userId (bn_id b) \<in> set rs"
    "the tenantId = bc_tenantId (bn_context b)" "the userId = the (bn_verifiedBy b)"
    using confirmationsD by (metis prod.inject)
  have "binding_ok b" using scale.ok_attempts_preserve [OF assms(1,2)] assms(4)
    by (auto simp: scale_wf_def bindings_wf_def)
  then have "bn_unitState b = KG_VERIFIED" "bn_unit b = Some ''kg''" "truthy (bn_verifiedBy b)"
    using assms(5) by (auto simp: binding_ok_def evidence_def)
  with r show ?thesis by (cases "bn_verifiedBy b") auto
qed

subsection \<open>Ended credentials\<close>

lemma move_keeps_ended:
  "scale_move A db db' \<Longrightarrow> c \<in> set (sd_credentials db) \<Longrightarrow> \<not> is_live c \<Longrightarrow> c \<in> set (sd_credentials db')"
proof (induction rule: scale_move.induct)
  case (end_credential f P db)
  then show ?case by (auto intro: update_where_kept)
qed (auto simp: credential_insert_def binding_close_db split: if_splits)

lemma moves_keep_ended:
  "moves A db db' \<Longrightarrow> c \<in> set (sd_credentials db) \<Longrightarrow> \<not> is_live c \<Longrightarrow> c \<in> set (sd_credentials db')"
  by (induction rule: rtranclp_induct) (auto dest: move_keeps_ended)

text \<open>
  A credential that was revoked, rotated or expired is never accepted again: after any
  sequence of requests, an agent that presents its id is refused, whatever secret it presents.
\<close>

theorem ended_credential_refused:
  assumes "scale_wf db" "\<forall>r\<in>set rs. column_ok r"
    "c \<in> set (sd_credentials db)" "cd_status c \<noteq> CRED_ACTIVE"
    "parseAgentAuthorization authorization = Some (cd_credentialId c, secret)"
  shows "authenticateAgent env authorization (attempts serve_scale rs db) = Inl (Forbidden ''AGENT_CREDENTIAL_INVALID'')"
proof -
  let ?db = "attempts serve_scale rs db"
  have c: "c \<in> set (sd_credentials ?db)"
    by (rule moves_keep_ended [OF attempts_moves [OF assms(1,2) order_refl] assms(3)])
       (simp add: is_live_def assms(4))
  have "distinct (map cd_credentialId (sd_credentials ?db))"
    using scale.ok_attempts_preserve [OF assms(1,2)] by (simp add: scale_wf_def credentials_wf_def)
  then have "x \<in> set (sd_credentials ?db) \<Longrightarrow> cd_credentialId x = cd_credentialId c \<Longrightarrow> x = c" for x
    using c by (intro key_unique [of cd_credentialId "sd_credentials ?db" x c])
  then have "find (\<lambda>x. cd_credentialId x = cd_credentialId c \<and> usableCredential (se_now env) x \<and>
      deviceUsable ?db (cd_tenantId x) (cd_deviceId x)) (sd_credentials ?db) = None"
    using assms(4) by (auto simp: find_None_iff usableCredential_def)
  then show ?thesis using assms(5) by (simp add: authenticateAgent_def)
qed

subsection \<open>What a weighed sale proves\<close>

lemma moves_keep_weights: "moves A db db' \<Longrightarrow> w \<in> set (sd_saleWeights db) \<Longrightarrow> w \<in> set (sd_saleWeights db')"
proof (induction rule: rtranclp_induct)
  case (step db1 db2)
  from step.hyps(2) have "set (sd_saleWeights db1) \<subseteq> set (sd_saleWeights db2)"
    by (induction rule: scale_move.induct) (auto simp: binding_close_db credential_insert_def split: if_splits)
  with step show ?case by blast
qed simp

lemma consume_writes:
  assumes "associateWeightCaptureToSaleItem tenantId saleId p db = Inr db1"
    "capture_consume env (pw_captureId p) nonce expected device saleId user db1 = Inr db2"
  shows "\<exists>c\<in>set (sd_captures db2). cw_captureId c = pw_captureId p \<and> cw_status c = CONSUMED \<and>
      cw_consumedSaleId c = Some saleId \<and> cw_consumedBy c = Some user"
    "\<exists>w\<in>set (sd_saleWeights db2). sw_captureId w = pw_captureId p \<and> sw_saleId w = saleId \<and> sw_saleItemId w = pw_saleItemId p \<and>
      sw_rawWeight w = micros (pw_rawWeightKg p) \<and> sw_commercial w = micros (pw_commercialQuantityKg p) div 1000"
proof -
  define hit where "hit = consumable db1 (se_now env) (pw_captureId p) (verifierFor (se_host env) nonce) expected device saleId"
  from assms(2) have one: "count hit (sd_captures db1) = 1" and
    db2: "db2 = db1\<lparr>sd_captures := update_where hit (consumed (se_now env) saleId user) (sd_captures db1)\<rparr>"
    by (auto simp: capture_consume_def Let_def and_then_Inr hit_def consumed_def [abs_def] split: if_splits)
  from count_one [OF one] obtain c where c: "c \<in> set (sd_captures db1)" "hit c" by blast
  then have "consumed (se_now env) saleId user c \<in> set (sd_captures db2)" by (force simp: db2 set_update_where)
  moreover have "cw_captureId c = pw_captureId p" using c(2) by (simp add: hit_def consumable_def)
  ultimately show "\<exists>c\<in>set (sd_captures db2). cw_captureId c = pw_captureId p \<and> cw_status c = CONSUMED \<and>
      cw_consumedSaleId c = Some saleId \<and> cw_consumedBy c = Some user"
    by (intro bexI [of _ "consumed (se_now env) saleId user c"]) (simp_all add: consumed_def)
  show "\<exists>w\<in>set (sd_saleWeights db2). sw_captureId w = pw_captureId p \<and> sw_saleId w = saleId \<and> sw_saleItemId w = pw_saleItemId p \<and>
      sw_rawWeight w = micros (pw_rawWeightKg p) \<and> sw_commercial w = micros (pw_commercialQuantityKg p) div 1000"
    using assms(1) by (auto simp: db2 associateWeightCaptureToSaleItem_def split: if_splits)
qed

lemma consumes_effect:
  assumes "distinct (map cw_captureId (sd_captures db))" "\<forall>p\<in>set ps. prepared_ok (sd_captures db) p"
    "consumeWeighedLines env ctx saleId ps db = Inr db'" "p \<in> set ps"
  shows "(\<exists>c\<in>set (sd_captures db'). cw_captureId c = pw_captureId p \<and> cw_status c = CONSUMED \<and>
      cw_consumedSaleId c = Some saleId \<and> cw_consumedBy c = Some (sc_userId ctx)) \<and>
    (\<exists>w\<in>set (sd_saleWeights db'). sw_captureId w = pw_captureId p \<and> sw_saleId w = saleId \<and> sw_saleItemId w = pw_saleItemId p \<and>
      sw_rawWeight w = micros (pw_rawWeightKg p) \<and> sw_commercial w = micros (pw_commercialQuantityKg p) div 1000)"
  using assms
proof (induction ps arbitrary: db)
  case (Cons q ps)
  from Cons.prems(3) obtain db1 db2 where
    ass: "associateWeightCaptureToSaleItem (sc_tenantId ctx) saleId q db = Inr db1" and
    con: "capture_consume env (pw_captureId q) (pw_nonce q) (pw_scope q) (pw_terminalDeviceId q) saleId (sc_userId ctx) db1 = Inr db2" and
    rest: "consumeWeighedLines env ctx saleId ps db2 = Inr db'"
    by (auto simp: and_then_Inr)
  have q: "prepared_ok (sd_captures db) q" using Cons.prems(2) by simp
  from consume_moves(2) [OF Cons.prems(1) q ass con] obtain P where
    P: "sd_captures db2 = update_where P (consumed (se_now env) saleId (sc_userId ctx)) (sd_captures db)" ..
  have d: "distinct (map cw_captureId (sd_captures db2))"
    using Cons.prems(1) by (simp add: P map_update_where consumed_def)
  have ok: "\<forall>q\<in>set ps. prepared_ok (sd_captures db2) q"
    using Cons.prems(2) by (auto simp: P consumed_def intro: prepared_update)
  show ?case
  proof (cases "p \<in> set ps")
    case True
    from Cons.IH [OF d ok rest True] show ?thesis .
  next
    case False
    with Cons.prems(4) have "p = q" by simp
    have m: "moves {} db2 db'" by (rule consumes_moves [OF d ok rest])
    from consume_writes [OF ass con] show ?thesis
      using moves_keep_consumed [OF m] moves_keep_weights [OF m] unfolding \<open>p = q\<close> by meson
  qed
qed simp

lemma prepares_line:
  "prepareWeighedLines env ctx db lines = Inr ps \<Longrightarrow> line \<in> set lines \<Longrightarrow>
     \<exists>p\<in>set ps. prepareWeighedLine env ctx db line = Inr p"
  by (induction lines arbitrary: ps) (auto simp: and_then_Inr)

text \<open>The lock behind a prepared line: what it asserts of the capture and of the request.\<close>

lemma prepare_capture:
  assumes "prepareWeighedLine env ctx db line = Inr p"
  obtains c where "c \<in> set (sd_captures db)" "cw_captureId c = pw_captureId p" "pw_captureId p = js_lower (wl_captureId line)"
    "cw_status c = READY" "se_now env < cw_expiresAt c" "cw_nonceVerifier c = verifierFor (se_host env) (wl_nonce line)"
    "cc_tenantId (cw_context c) = sc_tenantId ctx" "cc_branchId (cw_context c) = sc_branchId ctx"
    "cc_operationalTerminalId (cw_context c) = sc_terminalId ctx" "cc_posSessionId (cw_context c) = sc_posSessionId ctx"
    "cc_productId (cw_context c) = wl_productId line" "measured c"
    "list_ex (scope_binding (cw_context c) (cw_terminalDeviceId c)) (sd_bindings db)"
    "cw_weightKg c = Some (micros (pw_rawWeightKg p))" "0 < micros (pw_rawWeightKg p)"
    "micros (pw_commercialQuantityKg p) div 1000 = (micros (pw_rawWeightKg p) + 500) div 1000"
    "pw_saleItemId p = wl_saleItemId line"
proof -
  from assms obtain w scope device posTerminalId where
    lock: "capture_lockReadyForSale env (js_lower (wl_captureId line)) (wl_nonce line)
      \<lparr>cc_tenantId = sc_tenantId ctx, cc_branchId = sc_branchId ctx, cc_posTerminalId = posTerminalId,
                    cc_operationalTerminalId = sc_terminalId ctx, cc_posSessionId = sc_posSessionId ctx,
                    cc_productId = wl_productId line, cc_logicalScaleId = [], cc_bindingId = []\<rparr> db = Inr (w, scope, device)" and
    round: "roundCommercialWeightKg (weight_text w) = Inr (pw_commercialQuantityKg p)"
      "pw_commercialQuantityKg p \<noteq> ''0.000''" and
    p: "pw_captureId p = js_lower (wl_captureId line)" "pw_rawWeightKg p = weight_text w" "pw_saleItemId p = wl_saleItemId line"
    by (auto simp: prepareWeighedLine_def and_then_Inr split: option.splits if_splits)
  from lock obtain c where c: "c \<in> set (sd_captures db)"
    "sellable db (se_now env) (js_lower (wl_captureId line)) (verifierFor (se_host env) (wl_nonce line))
      \<lparr>cc_tenantId = sc_tenantId ctx, cc_branchId = sc_branchId ctx, cc_posTerminalId = posTerminalId,
                    cc_operationalTerminalId = sc_terminalId ctx, cc_posSessionId = sc_posSessionId ctx,
                    cc_productId = wl_productId line, cc_logicalScaleId = [], cc_bindingId = []\<rparr> c"
    "cw_weightKg c = Some w" "0 < w" by (rule lock_row)
  note t = commercial_text [OF c(4) round]
  show thesis
    by (rule that [OF c(1)]; use c(2-4) p t in \<open>simp add: sellable_def\<close>)
qed

text \<open>
  Property C33: a sale with a weighed line succeeds only with a capture of its own point of sale,
  session and product that is ready, not expired, measured in kilograms by a real scale, named with
  its nonce and backed by an authorized binding; the line then carries that weight rounded to
  grams, and the capture is consumed by this sale for this user.
\<close>

theorem weighed_sale_authority:
  assumes "scale_wf db" "sellWeighedLines env ctx lines saleId db = Inr db'" "line \<in> set lines"
  shows "\<exists>c m. c \<in> set (sd_captures db) \<and> cw_captureId c = js_lower (wl_captureId line) \<and> cw_status c = READY \<and>
      se_now env < cw_expiresAt c \<and> cw_nonceVerifier c = verifierFor (se_host env) (wl_nonce line) \<and>
      cc_tenantId (cw_context c) = sc_tenantId ctx \<and> cc_posSessionId (cw_context c) = sc_posSessionId ctx \<and>
      cc_productId (cw_context c) = wl_productId line \<and> measured c \<and> cw_weightKg c = Some m \<and> 0 < m \<and>
      list_ex (scope_binding (cw_context c) (cw_terminalDeviceId c)) (sd_bindings db) \<and>
      (\<exists>c'\<in>set (sd_captures db'). cw_captureId c' = cw_captureId c \<and> cw_status c' = CONSUMED \<and>
         cw_consumedSaleId c' = Some saleId \<and> cw_consumedBy c' = Some (sc_userId ctx)) \<and>
      (\<exists>w\<in>set (sd_saleWeights db'). sw_captureId w = cw_captureId c \<and> sw_saleId w = saleId \<and>
         sw_saleItemId w = wl_saleItemId line \<and> sw_rawWeight w = m \<and> sw_commercial w = (m + 500) div 1000)"
proof -
  from assms(2) obtain ps db1 where ps: "prepareWeighedLines env ctx db lines = Inr ps" and
    ins: "insertSale ctx saleId db = Inr db1" and con: "consumeWeighedLines env ctx saleId ps db1 = Inr db'"
    by (auto simp: sellWeighedLines_def and_then_Inr split: if_splits)
  from prepares_line [OF ps assms(3)] obtain p where p: "p \<in> set ps" "prepareWeighedLine env ctx db line = Inr p" by blast
  have caps: "sd_captures db1 = sd_captures db" using ins by (auto simp: insertSale_def split: if_splits)
  have "distinct (map cw_captureId (sd_captures db1))" using assms(1) by (simp add: caps scale_wf_def captures_wf_def)
  moreover have "\<forall>p\<in>set ps. prepared_ok (sd_captures db1) p" using prepares_ok [OF ps] by (simp add: caps)
  ultimately have eff: "(\<exists>c\<in>set (sd_captures db'). cw_captureId c = pw_captureId p \<and> cw_status c = CONSUMED \<and>
      cw_consumedSaleId c = Some saleId \<and> cw_consumedBy c = Some (sc_userId ctx)) \<and>
    (\<exists>w\<in>set (sd_saleWeights db'). sw_captureId w = pw_captureId p \<and> sw_saleId w = saleId \<and> sw_saleItemId w = pw_saleItemId p \<and>
      sw_rawWeight w = micros (pw_rawWeightKg p) \<and> sw_commercial w = micros (pw_commercialQuantityKg p) div 1000)"
    using con p(1) by (rule consumes_effect)
  from p(2) obtain c where "c \<in> set (sd_captures db)" "cw_captureId c = pw_captureId p" "pw_captureId p = js_lower (wl_captureId line)"
    "cw_status c = READY" "se_now env < cw_expiresAt c" "cw_nonceVerifier c = verifierFor (se_host env) (wl_nonce line)"
    "cc_tenantId (cw_context c) = sc_tenantId ctx" "cc_posSessionId (cw_context c) = sc_posSessionId ctx"
    "cc_productId (cw_context c) = wl_productId line" "measured c"
    "list_ex (scope_binding (cw_context c) (cw_terminalDeviceId c)) (sd_bindings db)"
    "cw_weightKg c = Some (micros (pw_rawWeightKg p))" "0 < micros (pw_rawWeightKg p)"
    "micros (pw_commercialQuantityKg p) div 1000 = (micros (pw_rawWeightKg p) + 500) div 1000"
    "pw_saleItemId p = wl_saleItemId line"
    by (rule prepare_capture)
  with eff show ?thesis
    by (intro exI [of _ c] exI [of _ "micros (pw_rawWeightKg p)"]) simp
qed

subsection \<open>Readiness\<close>

lemma newest_in: "newest t xs = Some x \<Longrightarrow> x \<in> set xs"
  unfolding newest_def using set_js_sort [of "\<lambda>a b. of_int (t b - t a)" xs]
  by (auto simp del: set_js_sort split: list.splits)

lemma valid_credential:
  "verifyOpaqueAgentCredential h now secret credential = VALID \<Longrightarrow>
     secret \<noteq> [] \<and> \<not> truthy (ac_revokedAt credential) \<and> same_bytes (verifierFor h secret) (ac_verifierSha256 credential)"
  by (auto simp: verifyOpaqueAgentCredential_def split: if_splits)

lemma ready_reason:
  assumes "deriveRealAvailability h now inp = (True, r)"
  obtains c b where "ai_credential inp = Some c" "truthy (ai_credentialSecret inp)"
    "verifyOpaqueAgentCredential h now (the (ai_credentialSecret inp)) c = VALID" "ai_binding inp = Some b"
    "bindingReason h now inp b = READY_REASON" "r = READY_REASON"
proof -
  from assms have "snd (deriveRealAvailability h now inp) = READY_REASON" "r = READY_REASON"
    by (auto simp: deriveRealAvailability_def Let_def)
  with that show thesis
    by (auto simp: deriveRealAvailability_def Let_def split: if_splits credential_check.splits option.splits)
qed

text \<open>
  Readiness is reported only for an agent with an active, unexpired credential of its
  device whose secret it holds, with an authorized binding of that terminal and scale confirmed in
  kilograms, and with an observation of a real scale in kilograms that is at most fifteen seconds
  old.
\<close>

theorem readiness_sound:
  assumes "deriveReadiness env auth inp db = (True, reason)"
  shows "reason = READY_REASON \<and>
    (\<exists>c\<in>set (sd_credentials db). cd_tenantId c = aa_tenantId auth \<and> cd_deviceId c = aa_terminalDeviceId auth \<and>
       cd_credentialId c = aa_credentialId auth \<and> usableCredential (se_now env) c \<and>
       same_bytes (verifierFor (se_host env) (rd_credentialSecret inp)) (cd_verifier c)) \<and>
    (\<exists>b\<in>set (sd_bindings db). bn_status b = AUTHORIZED \<and> bn_unitState b = KG_VERIFIED \<and>
       bc_tenantId (bn_context b) = aa_tenantId auth \<and> bc_terminalDeviceId (bn_context b) = aa_terminalDeviceId auth \<and>
       bc_posTerminalId (bn_context b) = rd_posTerminalId inp \<and> bc_logicalScaleId (bn_context b) = rd_logicalScaleId inp) \<and>
    rd_source inp = ''REAL'' \<and> rd_unit inp = Some ''kg'' \<and>
    (\<exists>t. date_parse (se_host env) (rd_observedAt inp) = Some t \<and> t \<le> se_now env \<and> se_now env - t \<le> 15000)"
proof -
  define credential where "credential = find (\<lambda>c. cd_tenantId c = aa_tenantId auth \<and> cd_deviceId c = aa_terminalDeviceId auth \<and>
      cd_credentialId c = aa_credentialId auth \<and> usableCredential (se_now env) c) (sd_credentials db)"
  define binding where "binding = readinessBinding db auth inp"
  define good where "good = goodObservation env inp"
  define ain where "ain = \<lparr>ai_credential = map_option (credentialValue (se_host env)) credential,
     ai_credentialSecret = Some (rd_credentialSecret inp), ai_binding = map_option (readinessValue (se_host env)) binding,
     ai_expectedContext = (case map_option (readinessValue (se_host env)) binding of Some b \<Rightarrow> sb_context b
       | None \<Rightarrow> \<lparr>bc_tenantId = aa_tenantId auth, bc_branchId = [], bc_posTerminalId = rd_posTerminalId inp,
                  bc_operationalTerminalId = [], bc_terminalDeviceId = aa_terminalDeviceId auth,
                  bc_logicalScaleId = rd_logicalScaleId inp\<rparr>),
     ai_observation = Some \<lparr>ao_available = good, ao_observedAt = rd_observedAt inp, ao_logicalScaleId = rd_logicalScaleId inp\<rparr>,
     ai_maxObservationAgeMs = 15000\<rparr>"
  from assms have ready: "fst (deriveRealAvailability (se_host env) (se_now env) ain)" and
    reason: "reason = (if good then snd (deriveRealAvailability (se_host env) (se_now env) ain) else AGENT_UNAVAILABLE_OR_STALE)"
    by (auto simp: deriveReadiness_def Let_def ain_def credential_def binding_def good_def)
  then have "deriveRealAvailability (se_host env) (se_now env) ain = (True, snd (deriveRealAvailability (se_host env) (se_now env) ain))"
    by (simp add: prod_eq_iff)
  then obtain c b where c: "ai_credential ain = Some c"
      "verifyOpaqueAgentCredential (se_host env) (se_now env) (the (ai_credentialSecret ain)) c = VALID" and
    b: "ai_binding ain = Some b" "bindingReason (se_host env) (se_now env) ain b = READY_REASON" and
    r: "snd (deriveRealAvailability (se_host env) (se_now env) ain) = READY_REASON" by (rule ready_reason)
  from c(1) obtain row where row: "credential = Some row" "c = credentialValue (se_host env) row"
    by (auto simp: ain_def)
  then have row_in: "row \<in> set (sd_credentials db)" "cd_tenantId row = aa_tenantId auth" "cd_deviceId row = aa_terminalDeviceId auth"
    "cd_credentialId row = aa_credentialId auth" "usableCredential (se_now env) row"
    unfolding credential_def by (auto dest: find_in)
  have verified: "same_bytes (verifierFor (se_host env) (rd_credentialSecret inp)) (cd_verifier row)"
    using valid_credential [OF c(2)] row(2) by (simp add: ain_def credentialValue_def)
  from b(1) obtain brow where brow: "binding = Some brow" "b = readinessValue (se_host env) brow" by (auto simp: ain_def)
  then have "brow \<in> set (filter (\<lambda>b. let ctx = bn_context b in
       bc_tenantId ctx = aa_tenantId auth \<and> bc_terminalDeviceId ctx = aa_terminalDeviceId auth \<and>
       bc_posTerminalId ctx = rd_posTerminalId inp \<and> bc_logicalScaleId ctx = rd_logicalScaleId inp \<and>
       (\<exists>p\<in>set (sd_posTerminals db). pt_id p = bc_posTerminalId ctx \<and> pt_tenantId p = bc_tenantId ctx) \<and>
       (bc_tenantId ctx, bc_operationalTerminalId ctx, bc_terminalDeviceId ctx, True) \<in> set (sd_deviceBindings db) \<and>
       (bc_posTerminalId ctx, Some (bc_logicalScaleId ctx), True) \<in> set (sd_settings db)) (sd_bindings db))"
    unfolding binding_def readinessBinding_def by (blast dest: newest_in)
  then have brow_in: "brow \<in> set (sd_bindings db)" "bc_tenantId (bn_context brow) = aa_tenantId auth"
    "bc_terminalDeviceId (bn_context brow) = aa_terminalDeviceId auth" "bc_posTerminalId (bn_context brow) = rd_posTerminalId inp"
    "bc_logicalScaleId (bn_context brow) = rd_logicalScaleId inp" by (auto simp: Let_def)
  from b(2) have st: "sb_status b = AUTHORIZED" "sb_unitState b = KG_VERIFIED"
    and fresh: "observationFresh (se_host env) (se_now env) 15000 (ai_observation ain)"
    by (cases "sb_status b"; auto simp: bindingReason_def ain_def split: if_splits)+
  then have st: "bn_status brow = AUTHORIZED" "bn_unitState brow = KG_VERIFIED"
    by (simp_all add: brow(2) readinessValue_def)
  from fresh have good and t: "\<exists>t. date_parse (se_host env) (rd_observedAt inp) = Some t \<and> t \<le> se_now env \<and> se_now env - t \<le> 15000"
    by (auto simp: observationFresh_def ain_def split: option.splits)
  from \<open>good\<close> have "rd_source inp = ''REAL''" "rd_unit inp = Some ''kg''" by (simp_all add: good_def goodObservation_def)
  with row_in verified brow_in st t r reason \<open>good\<close> show ?thesis by auto
qed

subsection \<open>A run\<close>

text \<open>A scale bound, confirmed, weighed and sold at one terminal: the witnesses evaluate it.\<close>

definition demo_time :: "string \<Rightarrow> int option" where
  "demo_time s = (if s = ''2000'' then Some 2000 else if s = ''3500'' then Some 3500
     else if s = ''63000'' then Some 63000 else None)"

definition demo_scale_host :: host where
  "demo_scale_host = \<lparr>date_parse = demo_time, iso_string = (\<lambda>t. if t = 2000 then ''2000'' else if t = 3500 then ''3500'' else ''63000''), locale_compare = (\<lambda>_ _. 0), sha256_hex = (\<lambda>s. s)\<rparr>"

definition demo_scale_env :: "int \<Rightarrow> string \<Rightarrow> string \<Rightarrow> scale_env" where
  "demo_scale_env now uuid nonce = \<lparr>se_host = demo_scale_host, se_now = now, se_uuid = uuid, se_nonce = nonce,
     se_column = (\<lambda>x. Some \<lfloor>x * 1000000\<rfloor>)\<rparr>"

definition demo_capture_id :: string where "demo_capture_id = ''00000000-0000-4000-8000-000000000000''"
definition demo_nonce :: string where "demo_nonce = replicate 43 CHR ''a''"

definition demo_scale :: scale_db where
  "demo_scale = \<lparr>sd_bindings = [], sd_captures = [],
     sd_credentials = [\<lparr>cd_tenantId = ''t'', cd_deviceId = ''d'', cd_credentialId = ''k'', cd_verifier = ''v'',
       cd_status = CRED_ACTIVE, cd_issuedAt = 0, cd_expiresAt = Some 1000000, cd_rotatedAt = None, cd_rotatedBy = None,
       cd_revokedAt = None, cd_revokedBy = None, cd_createdBy = ''a''\<rparr>],
     sd_devices = [\<lparr>dv_id = ''d'', dv_tenantId = ''t'', dv_status = ''ACTIVE''\<rparr>],
     sd_posTerminals = [\<lparr>pt_id = ''p'', pt_tenantId = ''t'', pt_branchId = ''b'', pt_operationalTerminalId = Some ''o'', pt_active = True\<rparr>],
     sd_terminals = [\<lparr>tm_id = ''o'', tm_tenantId = ''t'', tm_branchId = ''b'', tm_active = True\<rparr>],
     sd_deviceBindings = [(''t'', ''o'', ''d'', True)], sd_settings = [(''p'', Some ''s'', True)], sd_sales = [],
     sd_sessions = [\<lparr>ps_id = ''x'', ps_tenantId = ''t'', ps_branchId = ''b'', ps_terminalId = ''o'', ps_userId = ''u'', ps_active = True\<rparr>],
     sd_products = [\<lparr>wp_id = ''r'', wp_tenantId = ''t'', wp_active = True, wp_saleType = ''WEIGHT'', wp_measurementUnit = ''KG''\<rparr>],
     sd_saleWeights = []\<rparr>"

definition demo_sale_context :: sale_context where
  "demo_sale_context = \<lparr>sc_tenantId = ''t'', sc_userId = ''u'', sc_branchId = ''b'', sc_terminalId = ''o'', sc_posSessionId = ''x''\<rparr>"

definition demo_requests :: "scale_request list" where
  "demo_requests =
    [CreateBinding (demo_scale_env 1000 ''g'' []) ''p'' ''s'' \<lparr>sa_tenantId = Some ''t'', sa_userId = Some ''m''\<rparr>,
     ConfirmKg (demo_scale_env 2000 [] []) (Some ''t'') (Some ''m'') ''g'']"

definition demo_sell :: "scale_request" where
  "demo_sell = SellWeighed (demo_scale_env 5000 [] []) demo_sale_context
       [\<lparr>wl_productId = ''r'', wl_captureId = demo_capture_id, wl_nonce = demo_nonce, wl_saleItemId = ''i''\<rparr>] ''sale''"

definition demo_authorized :: binding_row where
  "demo_authorized = \<lparr>bn_id = ''g'', bn_context = \<lparr>bc_tenantId = ''t'', bc_branchId = ''b'', bc_posTerminalId = ''p'',
     bc_operationalTerminalId = ''o'', bc_terminalDeviceId = ''d'', bc_logicalScaleId = ''s''\<rparr>, bn_status = AUTHORIZED,
     bn_unitState = KG_VERIFIED, bn_method = Some ''OPERATOR_CONFIRMATION'', bn_unit = Some ''kg'',
     bn_verifiedBy = Some ''m'', bn_verifiedAt = Some 2000, bn_createdBy = ''m'', bn_createdAt = 1000,
     bn_revokedAt = None, bn_revokedBy = None\<rparr>"

definition demo_weighed :: capture_row where
  "demo_weighed = \<lparr>cw_captureId = demo_capture_id, cw_context = \<lparr>cc_tenantId = ''t'', cc_branchId = ''b'', cc_posTerminalId = ''p'',
     cc_operationalTerminalId = ''o'', cc_posSessionId = ''x'', cc_productId = ''r'', cc_logicalScaleId = ''s'', cc_bindingId = ''g''\<rparr>,
     cw_terminalDeviceId = ''d'', cw_nonceVerifier = demo_nonce, cw_status = READY, cw_weightKg = Some 1000000,
     cw_source = Some ''REAL'', cw_unit = Some ''kg'', cw_unitVerified = Some True, cw_observedAt = Some 3500,
     cw_createdAt = 3000, cw_expiresAt = 63000, cw_consumedAt = None, cw_consumedSaleId = None, cw_consumedBy = None\<rparr>"

definition demo_ready :: scale_db where
  "demo_ready = demo_scale\<lparr>sd_bindings := [demo_authorized], sd_captures := [demo_weighed]\<rparr>"

lemma demo_scale_wf: "scale_wf demo_scale"
  by (simp add: scale_wf_def demo_scale_def bindings_wf_def credentials_wf_def credential_ok_def captures_wf_def
      live_bound_def sale_weights_wf_def is_live_def)

lemma demo_ready_wf: "scale_wf demo_ready"
  by (simp add: scale_wf_def demo_ready_def demo_scale_def demo_authorized_def demo_weighed_def bindings_wf_def binding_ok_def
      evidence_def credentials_wf_def credential_ok_def captures_wf_def capture_ok_def measured_def
      live_bound_def scope_binding_def sale_weights_wf_def is_live_def)

lemma demo_bound: "sd_bindings (attempts serve_scale demo_requests demo_scale) = [demo_authorized]"
  by code_simp

lemma demo_sold: "\<not> isl (serve_scale demo_sell demo_ready)"
  by code_simp

lemma scale_tables_wf_witness:
  "scale_wf (attempts serve_scale demo_requests demo_scale) \<and> sd_bindings (attempts serve_scale demo_requests demo_scale) = [demo_authorized]"
  using scale_tables_wf [OF demo_scale_wf, of demo_requests] demo_bound by (simp add: demo_requests_def)

lemma authorized_was_confirmed_witness:
  "\<exists>env tenantId userId. ConfirmKg env tenantId userId ''g'' \<in> set demo_requests \<and> the tenantId = ''t'' \<and> Some ''m'' = Some (the userId)"
  using authorized_was_confirmed [OF demo_scale_wf, of demo_requests demo_authorized]
  by (simp add: demo_bound) (simp add: demo_scale_def demo_authorized_def demo_requests_def)

definition demo_spent :: scale_db where
  "demo_spent = demo_ready\<lparr>sd_captures := [consumed 5000 ''sale'' ''u'' demo_weighed]\<rparr>"

lemma demo_spent_wf: "scale_wf demo_spent"
  by (simp add: scale_wf_def demo_spent_def consumed_def demo_ready_def demo_scale_def demo_authorized_def demo_weighed_def
      bindings_wf_def binding_ok_def evidence_def credentials_wf_def credential_ok_def captures_wf_def capture_ok_def
      measured_def live_bound_def live_capture_def sale_weights_wf_def is_live_def)

lemma demo_spent_run:
  "map cw_captureId (sd_captures (attempts serve_scale [demo_sell, DisableBinding ''t'' ''g''] demo_spent)) = [demo_capture_id]"
  by code_simp

lemma capture_consumed_once_witness:
  "hd (sd_captures (attempts serve_scale [demo_sell, DisableBinding ''t'' ''g''] demo_spent)) = consumed 5000 ''sale'' ''u'' demo_weighed"
proof (rule capture_consumed_once [OF demo_spent_wf])
  show "hd (sd_captures (attempts serve_scale [demo_sell, DisableBinding ''t'' ''g''] demo_spent)) \<in>
      set (sd_captures (attempts serve_scale [demo_sell, DisableBinding ''t'' ''g''] demo_spent))"
    using demo_spent_run by (intro hd_in_set) auto
  show "cw_captureId (hd (sd_captures (attempts serve_scale [demo_sell, DisableBinding ''t'' ''g''] demo_spent))) =
      cw_captureId (consumed 5000 ''sale'' ''u'' demo_weighed)"
    using demo_spent_run by (cases "sd_captures (attempts serve_scale [demo_sell, DisableBinding ''t'' ''g''] demo_spent)")
      (auto simp: consumed_def demo_weighed_def)
qed (simp_all add: demo_sell_def demo_spent_def, simp_all add: consumed_def)

lemma weighed_sale_authority_witness:
  "\<exists>c m. c \<in> set (sd_captures demo_ready) \<and> cw_status c = READY \<and> cw_weightKg c = Some m \<and>
     (\<exists>w\<in>set (sd_saleWeights (projr (serve_scale demo_sell demo_ready))). sw_rawWeight w = m \<and> sw_commercial w = (m + 500) div 1000)"
proof -
  let ?line = "\<lparr>wl_productId = ''r'', wl_captureId = demo_capture_id, wl_nonce = demo_nonce, wl_saleItemId = ''i''\<rparr>"
  have "sellWeighedLines (demo_scale_env 5000 [] []) demo_sale_context [?line] ''sale'' demo_ready = Inr (projr (serve_scale demo_sell demo_ready))"
    using demo_sold by (cases "serve_scale demo_sell demo_ready") (auto simp: demo_sell_def)
  from weighed_sale_authority [OF demo_ready_wf this, of ?line] show ?thesis
    by (simp only: list.set_intros(1) simp_thms) blast
qed

definition demo_ended :: credential_row where
  "demo_ended = \<lparr>cd_tenantId = ''t'', cd_deviceId = ''d'', cd_credentialId = demo_capture_id, cd_verifier = demo_nonce,
     cd_status = CRED_REVOKED, cd_issuedAt = 0, cd_expiresAt = Some 1000000, cd_rotatedAt = None, cd_rotatedBy = None,
     cd_revokedAt = Some 10, cd_revokedBy = Some ''a'', cd_createdBy = ''a''\<rparr>"

lemma ended_credential_refused_witness:
  "authenticateAgent (demo_scale_env 5000 [] []) (''Agent '' @ demo_capture_id @ ''.'' @ demo_nonce)
     (attempts serve_scale demo_requests (demo_scale\<lparr>sd_credentials := demo_ended # sd_credentials demo_scale\<rparr>)) =
   Inl (Forbidden ''AGENT_CREDENTIAL_INVALID'')"
proof (rule ended_credential_refused)
  show "scale_wf (demo_scale\<lparr>sd_credentials := demo_ended # sd_credentials demo_scale\<rparr>)"
    by (simp add: scale_wf_def demo_scale_def demo_ended_def bindings_wf_def credentials_wf_def credential_ok_def captures_wf_def
        live_bound_def sale_weights_wf_def is_live_def demo_capture_id_def)
  show "demo_ended \<in> set (sd_credentials (demo_scale\<lparr>sd_credentials := demo_ended # sd_credentials demo_scale\<rparr>))" by simp
  show "cd_status demo_ended \<noteq> CRED_ACTIVE" by (simp add: demo_ended_def)
  show "parseAgentAuthorization (''Agent '' @ demo_capture_id @ ''.'' @ demo_nonce) = Some (cd_credentialId demo_ended, demo_nonce)"
    by code_simp
qed (simp add: demo_requests_def)

definition demo_readiness :: readiness_input where
  "demo_readiness = \<lparr>rd_posTerminalId = ''p'', rd_logicalScaleId = ''s'', rd_source = ''REAL'', rd_unit = Some ''kg'',
     rd_unitVerified = True, rd_observedAt = ''3500'', rd_credentialSecret = ''v''\<rparr>"

lemma readiness_sound_witness:
  "deriveReadiness (demo_scale_env 5000 [] []) \<lparr>aa_tenantId = ''t'', aa_terminalDeviceId = ''d'', aa_credentialId = ''k''\<rparr>
     demo_readiness demo_ready = (True, READY_REASON) \<and> rd_source demo_readiness = ''REAL''"
proof -
  have run: "deriveReadiness (demo_scale_env 5000 [] []) \<lparr>aa_tenantId = ''t'', aa_terminalDeviceId = ''d'', aa_credentialId = ''k''\<rparr>
     demo_readiness demo_ready = (True, READY_REASON)" by code_simp
  with readiness_sound [OF run] show ?thesis by blast
qed

end
