(* ===== verification/Inventory_Lots.thy ===== *)
theory Inventory_Lots
  imports Prelude
begin

section \<open>Inventory lots\<close>

text \<open>
  \<open>inventory-lot.service.ts\<close>, \<open>inventory-lot.repository.ts\<close> and \<open>inventory-lot.entity.ts\<close>: the
  lots of a product in a branch, with the tables every inventory component shares, the access of
  an actor to a branch and calendar dates. A \<open>DATE\<close> is the number year * 10000 + month * 100 +
  day, which orders like its ISO text. A money column is kept as the number read back from it.
  The lists of the service (\<open>findMany\<close>) only read and are left out.
\<close>

subsection \<open>Fields that may be absent or null\<close>

datatype 'a field = Absent | Null | Given 'a

fun field_option :: "'a field \<Rightarrow> 'a option" where
  "field_option (Given x) = Some x"
| "field_option _ = None"

text \<open>\<open>v !== undefined\<close> decides whether an UPDATE sets the column.\<close>

fun set_field :: "'a field \<Rightarrow> 'a option \<Rightarrow> 'a option" where
  "set_field Absent old = old"
| "set_field Null old = None"
| "set_field (Given x) old = Some x"

definition require :: "bool \<Rightarrow> string \<Rightarrow> unit http" where
  "require ok m = guard ok (BadRequest m)"

definition invariant :: "bool \<Rightarrow> string \<Rightarrow> unit http" where
  "invariant ok m = guard ok (InternalError m)"

lemma require_Inr [simp, result_simps]: "require ok m = Inr u \<longleftrightarrow> ok"
  and invariant_Inr [simp, result_simps]: "invariant ok m = Inr u \<longleftrightarrow> ok"
  by (simp_all add: require_def invariant_def)

lemma checks_True [simp]: "require True m = Inr ()" "invariant True m = Inr ()"
  by (simp_all add: require_def invariant_def)

definition normalizeRequired :: "string option \<Rightarrow> string \<Rightarrow> string http" where
  "normalizeRequired value field =
     (case trimmed value of None \<Rightarrow> Inl (BadRequest (field @ '' is required'')) | Some s \<Rightarrow> Inr s)"

fun normalizeOptionalId :: "string field \<Rightarrow> string field" where
  "normalizeOptionalId Null = Null"
| "normalizeOptionalId Absent = Absent"
| "normalizeOptionalId (Given s) = (if js_trim s = [] then Absent else Given (js_trim s))"

subsection \<open>Calendar dates\<close>

definition digit :: "char \<Rightarrow> int" where
  "digit c = int (code c) - 48"

definition date_text :: "string \<Rightarrow> bool" where
  "date_text s \<longleftrightarrow> length s = 10 \<and>
     list_all (\<lambda>(i, c). if i \<in> {4, 7} then c = CHR ''-'' else is_digit c) (zip [0..<10] s)"

definition leap_year :: "int \<Rightarrow> bool" where
  "leap_year y \<longleftrightarrow> 4 dvd y \<and> (\<not> 100 dvd y \<or> 400 dvd y)"

definition days_in_month :: "int \<Rightarrow> int \<Rightarrow> int" where
  "days_in_month y m = (if m = 2 then (if leap_year y then 29 else 28)
     else if m \<in> {4, 6, 9, 11} then 30 else 31)"

definition valid_date :: "int \<Rightarrow> int \<Rightarrow> int \<Rightarrow> bool" where
  "valid_date y m d \<longleftrightarrow> 0 \<le> y \<and> y \<le> 9999 \<and> 1 \<le> m \<and> m \<le> 12 \<and> 1 \<le> d \<and> d \<le> days_in_month y m"

definition date_number :: "int \<Rightarrow> int \<Rightarrow> int \<Rightarrow> int" where
  "date_number y m d = y * 10000 + m * 100 + d"

definition text_int :: "string \<Rightarrow> int" where
  "text_int s = fold (\<lambda>c n. n * 10 + digit c) s 0"

text \<open>A date that does not exist is no number, or one whose ISO text is another.\<close>

definition calendarDate :: "string \<Rightarrow> string \<Rightarrow> int http" where
  "calendarDate value field =
     (let s = js_trim value;
          y = text_int (take 4 s); m = text_int (take 2 (drop 5 s)); d = text_int (drop 8 s)
      in if \<not> date_text s then Inl (BadRequest (field @ '' must use YYYY-MM-DD''))
         else if \<not> valid_date y m d then Inl (BadRequest (field @ '' is invalid''))
         else Inr (date_number y m d))"

text \<open>\<open>toISOString().slice(0, 10)\<close> of a date.\<close>

definition digit_char :: "int \<Rightarrow> char" where
  "digit_char n = char_of (48 + nat (n mod 10))"

definition toDateString :: "int \<Rightarrow> string" where
  "toDateString n =
     (let y = n div 10000; m = n div 100 mod 100; d = n mod 100
      in [digit_char (y div 1000), digit_char (y div 100), digit_char (y div 10), digit_char y, CHR ''-'',
          digit_char (m div 10), digit_char m, CHR ''-'', digit_char (d div 10), digit_char d])"

fun parseDateOnly :: "string field \<Rightarrow> string \<Rightarrow> int field http" where
  "parseDateOnly Absent field = Inr Absent"
| "parseDateOnly Null field = Inr Null"
| "parseDateOnly (Given s) field = and_then (calendarDate s field) (\<lambda>d. Inr (Given d))"

datatype time_input = TimeText string | TimeDate int

fun parseDateTime :: "host \<Rightarrow> time_input option \<Rightarrow> string \<Rightarrow> int option http" where
  "parseDateTime h None field = Inr None"
| "parseDateTime h (Some (TimeDate t)) field = Inr (Some t)"
| "parseDateTime h (Some (TimeText s)) field =
     (case date_parse h s of
        None \<Rightarrow> Inl (BadRequest (field @ '' is invalid''))
      | Some t \<Rightarrow> Inr (Some t))"

subsection \<open>The environment of a request and the tables\<close>

text \<open>
  \<open>iv_today\<close> is the UTC day of \<open>new Date()\<close>, \<open>iv_currentDate\<close> the day of the database session;
  \<open>iv_uuid\<close> gives the random identifiers a request draws, in order; \<open>iv_quantity\<close> is what a
  \<open>numeric(14, 3)\<close> column stores for a number (in thousandths, None out of range), \<open>iv_cost\<close> what
  a \<open>numeric(14, 2)\<close> column stores (in cents).
\<close>

record inv_env =
  iv_host :: host
  iv_now :: int
  iv_today :: int
  iv_currentDate :: int
  iv_uuid :: "nat \<Rightarrow> string"
  iv_quantity :: "rat \<Rightarrow> int option"
  iv_cost :: "rat \<Rightarrow> int option"

datatype lot_status = LOT_ACTIVE | LOT_EXPIRED | LOT_BLOCKED | LOT_CONSUMED | LOT_CANCELLED

definition INVENTORY_LOT_STATUSES :: "(string \<times> lot_status) list" where
  "INVENTORY_LOT_STATUSES = [(''ACTIVE'', LOT_ACTIVE), (''EXPIRED'', LOT_EXPIRED),
     (''BLOCKED'', LOT_BLOCKED), (''CONSUMED'', LOT_CONSUMED), (''CANCELLED'', LOT_CANCELLED)]"

record lot_row =
  lt_id :: string
  lt_tenantId :: string
  lt_branchId :: string
  lt_productId :: string
  lt_supplierId :: "string option"
  lt_purchaseId :: "string option"
  lt_purchaseItemId :: "string option"
  lt_lotCode :: string
  lt_expirationDate :: "int option"
  lt_receivedAt :: int
  lt_unitCost :: rat
  lt_status :: lot_status
  lt_isLegacy :: bool
  lt_createdAt :: int
  lt_updatedAt :: int

record balance_row =
  bl_id :: string
  bl_tenantId :: string
  bl_branchId :: string
  bl_productId :: string
  bl_lotId :: string
  bl_locationId :: "string option"
  bl_onHand :: int
  bl_reserved :: int
  bl_lastMovementAt :: "int option"
  bl_createdAt :: int
  bl_updatedAt :: int

record movement_row =
  mv_id :: string
  mv_tenantId :: string
  mv_productId :: string
  mv_in :: bool
  mv_quantity :: int
  mv_referenceType :: string
  mv_referenceId :: string
  mv_branchId :: "string option"
  mv_terminalId :: "string option"
  mv_posSessionCode :: "string option"
  mv_userId :: "string option"
  mv_referenceTable :: "string option"
  mv_before :: int
  mv_after :: int
  mv_createdAt :: int

record link_row =
  lk_id :: string
  lk_tenantId :: string
  lk_movementId :: string
  lk_productId :: string
  lk_lotId :: "string option"
  lk_locationId :: "string option"
  lk_quantity :: int
  lk_createdAt :: int

record stock_product =
  sp_id :: string
  sp_tenantId :: string
  sp_cost :: "rat option"
  sp_requiresLot :: bool
  sp_requiresExpiration :: bool

text \<open>
  \<open>iv_access\<close> is the result of the query of \<open>findAccessibleBranchIds\<close>: user, tenant and branch.
  Branches, suppliers and purchases are pairs of an id and its tenant, purchase items pairs of
  an id and the tenant of their purchase, locations an id with its tenant and branch.
\<close>

record inv_db =
  iv_products :: "stock_product list"
  iv_branches :: "(string \<times> string) list"
  iv_locations :: "(string \<times> string \<times> string) list"
  iv_access :: "(string \<times> string \<times> string) list"
  iv_suppliers :: "(string \<times> string) list"
  iv_purchases :: "(string \<times> string) list"
  iv_purchaseItems :: "(string \<times> string) list"
  iv_lots :: "lot_row list"
  iv_balances :: "balance_row list"
  iv_movements :: "movement_row list"
  iv_links :: "link_row list"

definition findProductPolicy :: "inv_db \<Rightarrow> string \<Rightarrow> string \<Rightarrow> stock_product option" where
  "findProductPolicy db tenantId productId =
     find (\<lambda>p. sp_id p = productId \<and> sp_tenantId p = tenantId) (iv_products db)"

subsection \<open>Access to a branch\<close>

record inv_actor =
  ia_roles :: "string list"
  ia_userId :: "string option"
  ia_branchId :: "string option"

definition canViewAllBranches :: "inv_actor \<Rightarrow> bool" where
  "canViewAllBranches a \<longleftrightarrow> ''SUPER_ADMIN'' \<in> set (ia_roles a) \<or> ''SUPER_USER'' \<in> set (ia_roles a)"

definition findAccessibleBranchIds :: "inv_db \<Rightarrow> string \<Rightarrow> string \<Rightarrow> string list" where
  "findAccessibleBranchIds db userId tenantId =
     js_uniq [b. (u, t, b) <- iv_access db, u = userId \<and> t = tenantId]"

definition assertBranchAccess :: "inv_db \<Rightarrow> string \<Rightarrow> string \<Rightarrow> inv_actor \<Rightarrow> unit http" where
  "assertBranchAccess db tenantId branchId a =
     and_then (require ((branchId, tenantId) \<in> set (iv_branches db)) ''branchId is invalid'') (\<lambda>_.
     if canViewAllBranches a \<or> (ia_branchId a = Some branchId \<and> \<not> truthy (ia_userId a)) then Inr ()
     else case (if truthy (ia_userId a) then ia_userId a else None) of
       None \<Rightarrow> Inl (Forbidden ''user is required'')
     | Some u \<Rightarrow>
         let branchIds = findAccessibleBranchIds db u tenantId
         in if branchId \<in> set branchIds \<or> (branchIds = [] \<and> ia_branchId a = Some branchId) then Inr ()
            else Inl (Forbidden ''not authorized for this branch''))"

subsection \<open>The entity and the repository\<close>

definition opt_uuid :: "string option \<Rightarrow> bool" where
  "opt_uuid v = (case v of None \<Rightarrow> True | Some s \<Rightarrow> isUuid s)"

definition lot_entity :: "lot_row \<Rightarrow> lot_row http" where
  "lot_entity l =
     and_then (invariant (isUuid (lt_id l)) ''id must be a valid UUID'') (\<lambda>_.
     and_then (invariant (isUuid (lt_tenantId l)) ''tenantId must be a valid UUID'') (\<lambda>_.
     and_then (invariant (isUuid (lt_branchId l)) ''branchId must be a valid UUID'') (\<lambda>_.
     and_then (invariant (isUuid (lt_productId l)) ''productId must be a valid UUID'') (\<lambda>_.
     and_then (invariant (opt_uuid (lt_supplierId l)) ''supplierId must be a valid UUID'') (\<lambda>_.
     and_then (invariant (opt_uuid (lt_purchaseId l)) ''purchaseId must be a valid UUID'') (\<lambda>_.
     and_then (invariant (opt_uuid (lt_purchaseItemId l)) ''purchaseItemId must be a valid UUID'') (\<lambda>_.
     and_then (invariant (js_trim (lt_lotCode l) \<noteq> []) ''lotCode is required'') (\<lambda>_.
     and_then (invariant (0 \<le> lt_unitCost l) ''unitCost must be a non-negative number'') (\<lambda>_.
     Inr (l\<lparr>lt_lotCode := js_upper (js_trim (lt_lotCode l))\<rparr>))))))))))"

fun read_lot :: "lot_row option \<Rightarrow> lot_row option http" where
  "read_lot None = Inr None"
| "read_lot (Some l) = and_then (lot_entity l) (\<lambda>e. Inr (Some e))"

definition lot_findById :: "inv_db \<Rightarrow> string \<Rightarrow> string \<Rightarrow> lot_row option http" where
  "lot_findById db tenantId lotId =
     read_lot (find (\<lambda>l. lt_tenantId l = tenantId \<and> lt_id l = lotId) (iv_lots db))"

definition lot_findByCode :: "inv_db \<Rightarrow> string \<Rightarrow> string \<Rightarrow> string \<Rightarrow> string \<Rightarrow> lot_row option http" where
  "lot_findByCode db tenantId branchId productId lotCode =
     read_lot (find (\<lambda>l. lt_tenantId l = tenantId \<and> lt_branchId l = branchId \<and> lt_productId l = productId \<and>
                         js_upper (lt_lotCode l) = js_upper (js_trim lotCode)) (iv_lots db))"

definition lot_key :: "lot_row \<Rightarrow> string \<times> string \<times> string \<times> string" where
  "lot_key l = (lt_tenantId l, lt_branchId l, lt_productId l, lt_lotCode l)"

text \<open>The primary key, the unique index and the references make an insert fail.\<close>

definition lot_insert :: "inv_env \<Rightarrow> lot_row \<Rightarrow> inv_db \<Rightarrow> (lot_row \<times> inv_db) http" where
  "lot_insert env l db =
     (case iv_cost env (lt_unitCost l) of
        None \<Rightarrow> Inl (InternalError ''numeric field overflow'')
      | Some c \<Rightarrow>
          let row = l\<lparr>lt_unitCost := cents c\<rparr>
          in and_then (invariant (lt_id l \<notin> lt_id ` set (iv_lots db) \<and> lot_key l \<notin> lot_key ` set (iv_lots db) \<and>
                 lt_branchId l \<in> fst ` set (iv_branches db) \<and> lt_productId l \<in> sp_id ` set (iv_products db))
               ''constraint violation'') (\<lambda>_.
             and_then (lot_entity row) (\<lambda>e. Inr (e, db\<lparr>iv_lots := iv_lots db @ [row]\<rparr>))))"

record lot_changes =
  lc_supplierId :: "string field"
  lc_purchaseId :: "string field"
  lc_purchaseItemId :: "string field"
  lc_lotCode :: "string option"
  lc_expirationDate :: "int field"
  lc_receivedAt :: "int option"
  lc_unitCost :: "rat option"
  lc_status :: "lot_status option"
  lc_isLegacy :: "bool option"

definition no_changes :: lot_changes where
  "no_changes = \<lparr>lc_supplierId = Absent, lc_purchaseId = Absent, lc_purchaseItemId = Absent, lc_lotCode = None,
     lc_expirationDate = Absent, lc_receivedAt = None, lc_unitCost = None, lc_status = None, lc_isLegacy = None\<rparr>"

definition changed_lot :: "int \<Rightarrow> rat option \<Rightarrow> lot_changes \<Rightarrow> lot_row \<Rightarrow> lot_row" where
  "changed_lot now cost c l = l\<lparr>
     lt_supplierId := set_field (lc_supplierId c) (lt_supplierId l),
     lt_purchaseId := set_field (lc_purchaseId c) (lt_purchaseId l),
     lt_purchaseItemId := set_field (lc_purchaseItemId c) (lt_purchaseItemId l),
     lt_lotCode := coalesce (lc_lotCode c) (lt_lotCode l),
     lt_expirationDate := set_field (lc_expirationDate c) (lt_expirationDate l),
     lt_receivedAt := coalesce (lc_receivedAt c) (lt_receivedAt l),
     lt_unitCost := coalesce cost (lt_unitCost l),
     lt_status := coalesce (lc_status c) (lt_status l),
     lt_isLegacy := coalesce (lc_isLegacy c) (lt_isLegacy l),
     lt_updatedAt := now\<rparr>"

definition lot_repo_update ::
  "inv_env \<Rightarrow> string \<Rightarrow> string \<Rightarrow> lot_changes \<Rightarrow> inv_db \<Rightarrow> (lot_row option \<times> inv_db) http" where
  "lot_repo_update env tenantId lotId c db =
     (if c = no_changes then and_then (lot_findById db tenantId lotId) (\<lambda>l. Inr (l, db))
      else let hit = (\<lambda>l. lt_tenantId l = tenantId \<and> lt_id l = lotId);
               cost = (case lc_unitCost c of None \<Rightarrow> Some None | Some x \<Rightarrow> map_option (\<lambda>m. Some (cents m)) (iv_cost env x))
           in case cost of
                None \<Rightarrow> Inl (InternalError ''numeric field overflow'')
              | Some v \<Rightarrow>
                  let db' = db\<lparr>iv_lots := update_where hit (changed_lot (iv_now env) v c) (iv_lots db)\<rparr>
                  in and_then (invariant (distinct (map lot_key (iv_lots db'))) ''constraint violation'') (\<lambda>_.
                     and_then (lot_findById db' tenantId lotId) (\<lambda>l. Inr (l, db'))))"

end
