(* ===== verification/Lot_Balances.thy ===== *)
theory Lot_Balances
  imports Inventory_Lots
begin

section \<open>Balances of lots\<close>

text \<open>
  \<open>inventory-lot-balance.service.ts\<close>, \<open>inventory-lot-balance.repository.ts\<close> and
  \<open>inventory-lot-balance.entity.ts\<close>: the quantity of a lot at a location, on hand and reserved.
  The columns hold thousandths exactly; the service computes on the floating-point numbers it
  reads from them and writes the results back, which the columns round. \<open>findMany\<close> and the other
  lists only read and are left out.
\<close>

subsection \<open>The entity\<close>

text \<open>\<open>Number(row.quantity)\<close> of a column of thousandths.\<close>

definition milli :: "int \<Rightarrow> rat" where
  "milli m = dbl (of_int m / 1000)"

lemma milli_pos: "0 < milli m \<longleftrightarrow> 0 < m"
proof
  assume "0 < milli m"
  moreover have "milli m \<le> 0" if "m \<le> 0" using that by (simp add: milli_def dbl_nonpos)
  ultimately show "0 < m" by linarith
next
  assume "0 < m"
  then have "1 \<le> (of_int m :: rat)" by simp
  then have "2 powi (- 10) \<le> (of_int m / 1000 :: rat)" by (simp add: power_int_def field_simps)
  then show "0 < milli m" unfolding milli_def by (rule dbl_pos_of_powi) simp
qed

record balance =
  ba_id :: string
  ba_tenantId :: string
  ba_branchId :: string
  ba_productId :: string
  ba_lotId :: string
  ba_locationId :: "string option"
  ba_onHand :: rat
  ba_reserved :: rat
  ba_available :: rat
  ba_lastMovementAt :: "int option"

definition balance_entity :: "balance \<Rightarrow> balance http" where
  "balance_entity b =
     and_then (invariant (isUuid (ba_id b)) ''id must be a valid UUID'') (\<lambda>_.
     and_then (invariant (isUuid (ba_tenantId b)) ''tenantId must be a valid UUID'') (\<lambda>_.
     and_then (invariant (isUuid (ba_branchId b)) ''branchId must be a valid UUID'') (\<lambda>_.
     and_then (invariant (isUuid (ba_productId b)) ''productId must be a valid UUID'') (\<lambda>_.
     and_then (invariant (isUuid (ba_lotId b)) ''lotId must be a valid UUID'') (\<lambda>_.
     and_then (invariant (opt_uuid (ba_locationId b)) ''locationId must be a valid UUID'') (\<lambda>_.
     and_then (invariant (0 \<le> ba_onHand b) ''quantityOnHand must be a non-negative number'') (\<lambda>_.
     and_then (invariant (0 \<le> ba_reserved b) ''quantityReserved must be a non-negative number'') (\<lambda>_.
     and_then (invariant (ba_reserved b \<le> ba_onHand b) ''quantityReserved cannot exceed quantityOnHand'') (\<lambda>_.
     Inr b)))))))))"

text \<open>\<open>quantity_available\<close> is a generated column.\<close>

definition balance_of_row :: "balance_row \<Rightarrow> balance" where
  "balance_of_row r = \<lparr>ba_id = bl_id r, ba_tenantId = bl_tenantId r, ba_branchId = bl_branchId r,
     ba_productId = bl_productId r, ba_lotId = bl_lotId r, ba_locationId = bl_locationId r,
     ba_onHand = milli (bl_onHand r), ba_reserved = milli (bl_reserved r),
     ba_available = milli (bl_onHand r - bl_reserved r), ba_lastMovementAt = bl_lastMovementAt r\<rparr>"

subsection \<open>The repository\<close>

fun read_balance :: "balance_row option \<Rightarrow> balance option http" where
  "read_balance None = Inr None"
| "read_balance (Some r) = and_then (balance_entity (balance_of_row r)) (\<lambda>b. Inr (Some b))"

definition balance_findById :: "inv_db \<Rightarrow> string \<Rightarrow> string \<Rightarrow> balance option http" where
  "balance_findById db tenantId balanceId =
     read_balance (find (\<lambda>r. bl_tenantId r = tenantId \<and> bl_id r = balanceId) (iv_balances db))"

text \<open>An absent, null or empty location selects the balance without one.\<close>

fun location_key :: "string field \<Rightarrow> string option" where
  "location_key (Given s) = (if s = [] then None else Some s)"
| "location_key _ = None"

definition at_lot_location :: "string \<Rightarrow> string \<Rightarrow> string \<Rightarrow> string \<Rightarrow> string field \<Rightarrow> balance_row \<Rightarrow> bool" where
  "at_lot_location tenantId branchId productId lotId locationId r \<longleftrightarrow>
     bl_tenantId r = tenantId \<and> bl_branchId r = branchId \<and> bl_productId r = productId \<and> bl_lotId r = lotId \<and>
     bl_locationId r = location_key locationId"

definition findByLotLocation ::
  "inv_db \<Rightarrow> string \<Rightarrow> string \<Rightarrow> string \<Rightarrow> string \<Rightarrow> string field \<Rightarrow> balance option http" where
  "findByLotLocation db tenantId branchId productId lotId locationId =
     read_balance (find (at_lot_location tenantId branchId productId lotId locationId) (iv_balances db))"

definition balance_key :: "balance_row \<Rightarrow> string \<times> string \<times> string \<times> string \<times> string option" where
  "balance_key r = (bl_tenantId r, bl_branchId r, bl_productId r, bl_lotId r, bl_locationId r)"

definition balance_insert :: "inv_env \<Rightarrow> balance \<Rightarrow> inv_db \<Rightarrow> (balance \<times> inv_db) http" where
  "balance_insert env b db =
     (case (iv_quantity env (ba_onHand b), iv_quantity env (ba_reserved b)) of
        (Some h, Some r) \<Rightarrow>
          let row = \<lparr>bl_id = ba_id b, bl_tenantId = ba_tenantId b, bl_branchId = ba_branchId b,
                bl_productId = ba_productId b, bl_lotId = ba_lotId b, bl_locationId = ba_locationId b,
                bl_onHand = h, bl_reserved = r, bl_lastMovementAt = ba_lastMovementAt b,
                bl_createdAt = iv_now env, bl_updatedAt = iv_now env\<rparr>
          in and_then (invariant (bl_id row \<notin> bl_id ` set (iv_balances db) \<and>
                 balance_key row \<notin> balance_key ` set (iv_balances db)) ''constraint violation'') (\<lambda>_.
             and_then (balance_entity (balance_of_row row)) (\<lambda>e.
             Inr (e, db\<lparr>iv_balances := iv_balances db @ [row]\<rparr>)))
      | _ \<Rightarrow> Inl (InternalError ''numeric field overflow''))"

record quantity_changes =
  qc_onHand :: "rat option"
  qc_reserved :: "rat option"
  qc_lastMovementAt :: "int field"

definition changed_balance :: "int \<Rightarrow> int option \<Rightarrow> int option \<Rightarrow> int field \<Rightarrow> balance_row \<Rightarrow> balance_row" where
  "changed_balance now h r t row = row\<lparr>bl_onHand := coalesce h (bl_onHand row), bl_reserved := coalesce r (bl_reserved row),
     bl_lastMovementAt := set_field t (bl_lastMovementAt row), bl_updatedAt := now\<rparr>"

text \<open>A quantity that is given and does not fit its column makes the statement fail.\<close>

fun column_of :: "(rat \<Rightarrow> int option) \<Rightarrow> rat option \<Rightarrow> int option http" where
  "column_of col None = Inr None"
| "column_of col (Some x) =
     (case col x of None \<Rightarrow> Inl (InternalError ''numeric field overflow'') | Some m \<Rightarrow> Inr (Some m))"

definition balance_repo_update ::
  "inv_env \<Rightarrow> string \<Rightarrow> string \<Rightarrow> quantity_changes \<Rightarrow> inv_db \<Rightarrow> (balance option \<times> inv_db) http" where
  "balance_repo_update env tenantId balanceId c db =
     (if qc_onHand c = None \<and> qc_reserved c = None \<and> qc_lastMovementAt c = Absent
      then and_then (balance_findById db tenantId balanceId) (\<lambda>b. Inr (b, db))
      else
        and_then (column_of (iv_quantity env) (qc_onHand c)) (\<lambda>h.
        and_then (column_of (iv_quantity env) (qc_reserved c)) (\<lambda>r.
        let db' = db\<lparr>iv_balances := update_where (\<lambda>row. bl_tenantId row = tenantId \<and> bl_id row = balanceId)
              (changed_balance (iv_now env) h r (qc_lastMovementAt c)) (iv_balances db)\<rparr>
        in and_then (balance_findById db' tenantId balanceId) (\<lambda>b. Inr (b, db')))))"

record quantity_operation =
  qo_branchId :: string
  qo_productId :: string
  qo_lotId :: string
  qo_locationId :: "string field"
  qo_quantity :: jsnum
  qo_lastMovementAt :: "int option"

definition balance_of_operation :: "string \<Rightarrow> quantity_operation \<Rightarrow> inv_db \<Rightarrow> balance option http" where
  "balance_of_operation tenantId q db =
     findByLotLocation db tenantId (qo_branchId q) (qo_productId q) (qo_lotId q) (qo_locationId q)"

text \<open>The four arithmetic statements read the balance again and write one of its quantities.\<close>

definition repo_change ::
  "inv_env \<Rightarrow> string \<Rightarrow> quantity_operation \<Rightarrow> (balance \<Rightarrow> quantity_changes) \<Rightarrow> inv_db \<Rightarrow> (balance option \<times> inv_db) http" where
  "repo_change env tenantId q c db =
     and_then (balance_of_operation tenantId q db) (\<lambda>found.
     case found of
       None \<Rightarrow> Inr (None, db)
     | Some b \<Rightarrow> balance_repo_update env tenantId (ba_id b) (c b) db)"

definition repo_incrementOnHand ::
  "inv_env \<Rightarrow> string \<Rightarrow> quantity_operation \<Rightarrow> rat \<Rightarrow> inv_db \<Rightarrow> (balance option \<times> inv_db) http" where
  "repo_incrementOnHand env tenantId q x = repo_change env tenantId q (\<lambda>b. \<lparr>qc_onHand = Some (dbl (ba_onHand b + x)),
     qc_reserved = None, qc_lastMovementAt = Given (coalesce (qo_lastMovementAt q) (iv_now env))\<rparr>)"

definition repo_decrementOnHand ::
  "inv_env \<Rightarrow> string \<Rightarrow> quantity_operation \<Rightarrow> rat \<Rightarrow> inv_db \<Rightarrow> (balance option \<times> inv_db) http" where
  "repo_decrementOnHand env tenantId q x = repo_change env tenantId q (\<lambda>b. \<lparr>qc_onHand = Some (dbl (ba_onHand b - x)),
     qc_reserved = None, qc_lastMovementAt = Given (coalesce (qo_lastMovementAt q) (iv_now env))\<rparr>)"

fun nullable :: "'a option \<Rightarrow> 'a field" where
  "nullable None = Null"
| "nullable (Some x) = Given x"

definition repo_reserve ::
  "inv_env \<Rightarrow> string \<Rightarrow> quantity_operation \<Rightarrow> rat \<Rightarrow> inv_db \<Rightarrow> (balance option \<times> inv_db) http" where
  "repo_reserve env tenantId q x = repo_change env tenantId q (\<lambda>b. \<lparr>qc_onHand = None,
     qc_reserved = Some (dbl (ba_reserved b + x)),
     qc_lastMovementAt = nullable (if qo_lastMovementAt q \<noteq> None then qo_lastMovementAt q else ba_lastMovementAt b)\<rparr>)"

definition repo_releaseReservation ::
  "inv_env \<Rightarrow> string \<Rightarrow> quantity_operation \<Rightarrow> rat \<Rightarrow> inv_db \<Rightarrow> (balance option \<times> inv_db) http" where
  "repo_releaseReservation env tenantId q x = repo_change env tenantId q (\<lambda>b. \<lparr>qc_onHand = None,
     qc_reserved = Some (dbl (ba_reserved b - x)),
     qc_lastMovementAt = nullable (if qo_lastMovementAt q \<noteq> None then qo_lastMovementAt q else ba_lastMovementAt b)\<rparr>)"

subsection \<open>The service\<close>

fun assertNonNegative :: "jsnum \<Rightarrow> string \<Rightarrow> rat http" where
  "assertNonNegative (Fin x) field = (if x < 0 then Inl (BadRequest (field @ '' must be non-negative'')) else Inr x)"
| "assertNonNegative _ field = Inl (BadRequest (field @ '' must be non-negative''))"

fun assertPositive :: "jsnum \<Rightarrow> string \<Rightarrow> rat http" where
  "assertPositive (Fin x) field = (if x \<le> 0 then Inl (BadRequest (field @ '' must be greater than zero'')) else Inr x)"
| "assertPositive _ field = Inl (BadRequest (field @ '' must be greater than zero''))"

definition assertLotShape :: "inv_db \<Rightarrow> string \<Rightarrow> string \<Rightarrow> string \<Rightarrow> string \<Rightarrow> unit http" where
  "assertLotShape db tenantId branchId productId lotId =
     (case find (\<lambda>l. lt_id l = lotId \<and> lt_tenantId l = tenantId) (iv_lots db) of
        None \<Rightarrow> Inl (BadRequest ''lotId is invalid'')
      | Some l \<Rightarrow>
          and_then (require (lt_branchId l = branchId) ''branchId does not match lot'') (\<lambda>_.
          require (lt_productId l = productId) ''productId does not match lot''))"

definition assertLocationShape :: "inv_db \<Rightarrow> string \<Rightarrow> string \<Rightarrow> string field \<Rightarrow> unit http" where
  "assertLocationShape db tenantId branchId locationId =
     (case location_key locationId of
        None \<Rightarrow> Inr ()
      | Some i \<Rightarrow> require ((i, tenantId, branchId) \<in> set (iv_locations db)) ''locationId is invalid'')"

definition assertQuantities :: "jsnum \<Rightarrow> jsnum \<Rightarrow> (rat \<times> rat) http" where
  "assertQuantities quantityOnHand quantityReserved =
     and_then (assertNonNegative quantityOnHand ''quantityOnHand'') (\<lambda>h.
     and_then (assertNonNegative quantityReserved ''quantityReserved'') (\<lambda>r.
     and_then (require (r \<le> h) ''quantityReserved cannot exceed quantityOnHand'') (\<lambda>_. Inr (h, r))))"

definition assertBalanceFound :: "balance option \<Rightarrow> balance http" where
  "assertBalanceFound b =
     (case b of None \<Rightarrow> Inl (NotFound ''inventory lot balance not found'') | Some x \<Rightarrow> Inr x)"

record create_balance_input =
  cb_branchId :: "string option"
  cb_productId :: "string option"
  cb_lotId :: "string option"
  cb_locationId :: "string field"
  cb_onHand :: "jsnum option"
  cb_reserved :: "jsnum option"
  cb_lastMovementAt :: "int option"

definition createBalance ::
  "inv_env \<Rightarrow> nat \<Rightarrow> string \<Rightarrow> create_balance_input \<Rightarrow> inv_db \<Rightarrow> (balance \<times> inv_db) http" where
  "createBalance env n tenantId inp db =
     and_then (normalizeRequired (cb_branchId inp) ''branchId'') (\<lambda>branchId.
     and_then (normalizeRequired (cb_productId inp) ''productId'') (\<lambda>productId.
     and_then (normalizeRequired (cb_lotId inp) ''lotId'') (\<lambda>lotId.
     let locationId = normalizeOptionalId (cb_locationId inp) in
     and_then (assertLotShape db tenantId branchId productId lotId) (\<lambda>_.
     and_then (assertLocationShape db tenantId branchId locationId) (\<lambda>_.
     and_then (assertQuantities (coalesce (cb_onHand inp) (Fin 0)) (coalesce (cb_reserved inp) (Fin 0))) (\<lambda>(h, r).
     and_then (balance_entity \<lparr>ba_id = iv_uuid env n, ba_tenantId = tenantId, ba_branchId = branchId,
         ba_productId = productId, ba_lotId = lotId, ba_locationId = field_option locationId,
         ba_onHand = h, ba_reserved = r, ba_available = dbl (h - r),
         ba_lastMovementAt = cb_lastMovementAt inp\<rparr>) (\<lambda>b.
     balance_insert env b db)))))))"

record quantity_update =
  qu_onHand :: "jsnum option"
  qu_reserved :: "jsnum option"
  qu_lastMovementAt :: "int field"

definition updateQuantities ::
  "inv_env \<Rightarrow> string \<Rightarrow> string \<Rightarrow> quantity_update \<Rightarrow> inv_db \<Rightarrow> (balance \<times> inv_db) http" where
  "updateQuantities env tenantId balanceId u db =
     and_then (balance_findById db tenantId balanceId) (\<lambda>found.
     and_then (assertBalanceFound found) (\<lambda>current.
     and_then (assertQuantities (coalesce (qu_onHand u) (Fin (ba_onHand current)))
                 (coalesce (qu_reserved u) (Fin (ba_reserved current)))) (\<lambda>(h, r).
     and_then (balance_repo_update env tenantId balanceId
         \<lparr>qc_onHand = (if qu_onHand u = None then None else Some h), qc_reserved = (if qu_reserved u = None then None else Some r),
          qc_lastMovementAt = qu_lastMovementAt u\<rparr> db) (\<lambda>(updated, db').
     and_then (assertBalanceFound updated) (\<lambda>b. Inr (b, db'))))))"

definition incrementOnHand ::
  "inv_env \<Rightarrow> nat \<Rightarrow> string \<Rightarrow> quantity_operation \<Rightarrow> inv_db \<Rightarrow> (balance \<times> inv_db) http" where
  "incrementOnHand env n tenantId q db =
     and_then (assertPositive (qo_quantity q) ''quantity'') (\<lambda>x.
     and_then (assertLotShape db tenantId (qo_branchId q) (qo_productId q) (qo_lotId q)) (\<lambda>_.
     and_then (assertLocationShape db tenantId (qo_branchId q) (qo_locationId q)) (\<lambda>_.
     and_then (balance_of_operation tenantId q db) (\<lambda>existing.
     case existing of
       None \<Rightarrow> createBalance env n tenantId
         \<lparr>cb_branchId = Some (qo_branchId q), cb_productId = Some (qo_productId q), cb_lotId = Some (qo_lotId q),
          cb_locationId = qo_locationId q, cb_onHand = Some (Fin x), cb_reserved = Some (Fin 0),
          cb_lastMovementAt = Some (coalesce (qo_lastMovementAt q) (iv_now env))\<rparr> db
     | Some _ \<Rightarrow>
         and_then (repo_incrementOnHand env tenantId q x db) (\<lambda>(updated, db').
         and_then (assertBalanceFound updated) (\<lambda>b. Inr (b, db')))))))"

text \<open>The three operations that take from a balance check what it has first.\<close>

definition checked_change ::
  "string \<Rightarrow> quantity_operation \<Rightarrow> (balance \<Rightarrow> rat) \<Rightarrow> string \<Rightarrow>
   (rat \<Rightarrow> inv_db \<Rightarrow> (balance option \<times> inv_db) http) \<Rightarrow> inv_db \<Rightarrow> (balance \<times> inv_db) http" where
  "checked_change tenantId q limit message change db =
     and_then (assertPositive (qo_quantity q) ''quantity'') (\<lambda>x.
     and_then (balance_of_operation tenantId q db) (\<lambda>found.
     and_then (assertBalanceFound found) (\<lambda>current.
     and_then (require (\<not> limit current < x) message) (\<lambda>_.
     and_then (change x db) (\<lambda>(updated, db').
     and_then (assertBalanceFound updated) (\<lambda>b. Inr (b, db')))))))"

definition decrementOnHand ::
  "inv_env \<Rightarrow> string \<Rightarrow> quantity_operation \<Rightarrow> inv_db \<Rightarrow> (balance \<times> inv_db) http" where
  "decrementOnHand env tenantId q =
     checked_change tenantId q ba_available ''quantity exceeds available stock'' (repo_decrementOnHand env tenantId q)"

definition reserve :: "inv_env \<Rightarrow> string \<Rightarrow> quantity_operation \<Rightarrow> inv_db \<Rightarrow> (balance \<times> inv_db) http" where
  "reserve env tenantId q =
     checked_change tenantId q ba_available ''quantity exceeds available stock'' (repo_reserve env tenantId q)"

definition releaseReservation :: "inv_env \<Rightarrow> string \<Rightarrow> quantity_operation \<Rightarrow> inv_db \<Rightarrow> (balance \<times> inv_db) http" where
  "releaseReservation env tenantId q =
     checked_change tenantId q ba_reserved ''quantity exceeds reserved stock'' (repo_releaseReservation env tenantId q)"

end
