(* ===== verification/Fefo.thy ===== *)
theory Fefo
  imports Lot_Balances
begin

section \<open>Selecting lots first-expired first-out\<close>

text \<open>
  \<open>inventory-fefo.service.ts\<close> and \<open>inventory-fefo.repository.ts\<close>: the lots a consumption of a
  product takes from, soonest to expire first. The comparator reads \<open>localeCompare\<close> of two ISO
  dates as the order of their numbers; a lot without a date sorts as 9999-12-31. The ORDER BY of
  the query is left to the service's own stable sort; balances of one lot at several locations,
  which neither orders, keep the order of the table.
\<close>

record eligible =
  fe_lotId :: string
  fe_lotCode :: string
  fe_expirationDate :: "int option"
  fe_receivedAt :: int
  fe_locationId :: "string option"
  fe_available :: rat
  fe_status :: lot_status

definition ended_lot :: "lot_status \<Rightarrow> bool" where
  "ended_lot st \<longleftrightarrow> st = LOT_BLOCKED \<or> st = LOT_CANCELLED \<or> st = LOT_CONSUMED"

definition eligible_of :: "balance_row \<Rightarrow> lot_row \<Rightarrow> eligible" where
  "eligible_of b l = \<lparr>fe_lotId = lt_id l, fe_lotCode = lt_lotCode l, fe_expirationDate = lt_expirationDate l,
     fe_receivedAt = lt_receivedAt l, fe_locationId = bl_locationId b,
     fe_available = milli (bl_onHand b - bl_reserved b), fe_status = lt_status l\<rparr>"

definition findEligibleBalances ::
  "inv_env \<Rightarrow> string \<Rightarrow> string \<Rightarrow> string \<Rightarrow> string option \<Rightarrow> inv_db \<Rightarrow> eligible list" where
  "findEligibleBalances env tenantId branchId productId locationId db =
     [eligible_of b l. b <- iv_balances db, l <- iv_lots db,
      lt_id l = bl_lotId b \<and> lt_tenantId l = bl_tenantId b \<and> lt_branchId l = bl_branchId b \<and>
      lt_productId l = bl_productId b \<and>
      bl_tenantId b = tenantId \<and> bl_branchId b = branchId \<and> bl_productId b = productId \<and>
      (locationId = None \<or> bl_locationId b = locationId) \<and>
      bl_onHand b - bl_reserved b > 0 \<and> \<not> ended_lot (lt_status l) \<and>
      (case lt_expirationDate l of None \<Rightarrow> True | Some d \<Rightarrow> iv_currentDate env \<le> d)]"

definition isExpired :: "inv_env \<Rightarrow> eligible \<Rightarrow> bool" where
  "isExpired env b = (case fe_expirationDate b of None \<Rightarrow> False | Some d \<Rightarrow> d < iv_today env)"

definition filterEligible :: "inv_env \<Rightarrow> string option \<Rightarrow> eligible list \<Rightarrow> eligible list" where
  "filterEligible env locationId = filter (\<lambda>b. \<not> fe_available b \<le> 0 \<and> \<not> ended_lot (fe_status b) \<and>
     \<not> isExpired env b \<and> (locationId = None \<or> fe_locationId b = locationId))"

definition expiration_key :: "eligible \<Rightarrow> int" where
  "expiration_key b = coalesce (fe_expirationDate b) (date_number 9999 12 31)"

definition fefo_order :: "host \<Rightarrow> eligible \<Rightarrow> eligible \<Rightarrow> rat" where
  "fefo_order h a b =
     (if expiration_key a \<noteq> expiration_key b then of_int (expiration_key a - expiration_key b)
      else if fe_receivedAt a \<noteq> fe_receivedAt b then of_int (fe_receivedAt a - fe_receivedAt b)
      else if fe_lotCode a \<noteq> fe_lotCode b then of_int (locale_compare h (fe_lotCode a) (fe_lotCode b))
      else of_int (locale_compare h (fe_lotId a) (fe_lotId b)))"

definition sortFefo :: "host \<Rightarrow> eligible list \<Rightarrow> eligible list" where
  "sortFefo h = js_sort (fefo_order h)"

record fefo_selection =
  fs_balance :: eligible
  fs_quantityToConsume :: rat

text \<open>The loop over the sorted balances: what is still missing, and the selections.\<close>

fun consume_lots :: "rat \<Rightarrow> eligible list \<Rightarrow> fefo_selection list" where
  "consume_lots remaining [] = []"
| "consume_lots remaining (b # bs) =
     (if remaining \<le> 0 then []
      else let quantity = min (fe_available b) remaining
           in if quantity \<le> 0 then consume_lots remaining bs
              else \<lparr>fs_balance = b, fs_quantityToConsume = quantity\<rparr> # consume_lots (dbl (remaining - quantity)) bs)"

definition selected_sum :: "fefo_selection list \<Rightarrow> rat" where
  "selected_sum sels = foldl (\<lambda>s x. dbl (s + fs_quantityToConsume x)) 0 sels"

record fefo_result =
  fr_canFulfill :: bool
  fr_requested :: rat
  fr_selected :: rat
  fr_missing :: rat
  fr_selections :: "fefo_selection list"

fun fefoQuantity :: "jsnum \<Rightarrow> rat http" where
  "fefoQuantity (Fin x) = (if x \<le> 0 then Inl (BadRequest ''quantity must be greater than zero'') else Inr x)"
| "fefoQuantity _ = Inl (BadRequest ''quantity must be greater than zero'')"

definition assertLocation :: "inv_db \<Rightarrow> string \<Rightarrow> string \<Rightarrow> string option \<Rightarrow> unit http" where
  "assertLocation db tenantId branchId locationId =
     (case locationId of
        None \<Rightarrow> Inr ()
      | Some i \<Rightarrow> require ((i, tenantId, branchId) \<in> set (iv_locations db)) ''locationId is invalid'')"

definition fefo_plan :: "host \<Rightarrow> rat \<Rightarrow> eligible list \<Rightarrow> fefo_result" where
  "fefo_plan h requested found =
     (let selections = consume_lots requested (sortFefo h found);
          selected = selected_sum selections;
          missing = max 0 (dbl (requested - selected))
      in \<lparr>fr_canFulfill = (missing = 0), fr_requested = requested, fr_selected = selected,
          fr_missing = missing, fr_selections = selections\<rparr>)"

record fefo_input =
  fi_tenantId :: "string option"
  fi_branchId :: "string option"
  fi_productId :: "string option"
  fi_quantity :: jsnum
  fi_locationId :: "string field"

definition selectLotsForConsumption ::
  "inv_env \<Rightarrow> fefo_input \<Rightarrow> inv_actor option \<Rightarrow> inv_db \<Rightarrow> fefo_result http" where
  "selectLotsForConsumption env inp actor db =
     and_then (normalizeRequired (fi_tenantId inp) ''tenantId'') (\<lambda>tenantId.
     and_then (normalizeRequired (fi_branchId inp) ''branchId'') (\<lambda>branchId.
     and_then (normalizeRequired (fi_productId inp) ''productId'') (\<lambda>productId.
     let locationId = field_option (normalizeOptionalId (fi_locationId inp)) in
     and_then (fefoQuantity (fi_quantity inp)) (\<lambda>requested.
     case findProductPolicy db tenantId productId of
       None \<Rightarrow> Inl (BadRequest ''productId is invalid'')
     | Some product \<Rightarrow>
         and_then (require (sp_requiresLot product) ''FEFO applies only to products with lot control'') (\<lambda>_.
         and_then (case actor of
             None \<Rightarrow> require ((branchId, tenantId) \<in> set (iv_branches db)) ''branchId is invalid''
           | Some a \<Rightarrow> assertBranchAccess db tenantId branchId a) (\<lambda>_.
         and_then (assertLocation db tenantId branchId locationId) (\<lambda>_.
         let found = filterEligible env locationId (findEligibleBalances env tenantId branchId productId locationId db)
         in and_then (require (\<not> (sp_requiresExpiration product \<and> list_ex (\<lambda>b. fe_expirationDate b = None) found))
              ''FEFO inconsistency: expirationDate is required for this product'') (\<lambda>_.
            Inr (fefo_plan (iv_host env) requested found)))))))))"

end
