(* ===== verification/Fefo_Facts.thy ===== *)
theory Fefo_Facts
  imports Fefo
begin

section \<open>Facts about the selection of lots\<close>

text \<open>
  The selection is a prefix of the eligible balances in the order of expiry and reception, takes
  all of every balance but the last, and never more than a balance has. For whole units its
  arithmetic is exact; for thousandths the floating-point remainder can leave a shortfall, which
  stays below a millionth of a unit.
\<close>

subsection \<open>The order\<close>

definition fefo_before :: "eligible \<Rightarrow> eligible \<Rightarrow> bool" where
  "fefo_before a b \<longleftrightarrow> expiration_key a < expiration_key b \<or>
     (expiration_key a = expiration_key b \<and> fe_receivedAt a \<le> fe_receivedAt b)"

interpretation fefo: comparator "fefo_order h" fefo_before for h
proof unfold_locales
  show "fefo_order h x y \<le> 0 \<Longrightarrow> fefo_before x y" for x y
    by (auto simp: fefo_order_def fefo_before_def split: if_splits)
  show "0 < fefo_order h x y \<Longrightarrow> fefo_before y x" for x y
    by (auto simp: fefo_order_def fefo_before_def split: if_splits)
  show "fefo_before x y \<Longrightarrow> fefo_before y z \<Longrightarrow> fefo_before x z" for x y z
    by (auto simp: fefo_before_def)
qed

lemma set_sortFefo [simp]: "set (sortFefo h bs) = set bs" and length_sortFefo [simp]: "length (sortFefo h bs) = length bs"
  by (simp_all add: sortFefo_def)

lemma sorted_sortFefo: "sorted_wrt fefo_before (sortFefo h bs)"
  unfolding sortFefo_def by (rule fefo.sorted_js_sort)

subsection \<open>The loop\<close>

lemma consume_step:
  "0 < r \<Longrightarrow> 0 < fe_available b \<Longrightarrow> consume_lots r (b # bs) =
     \<lparr>fs_balance = b, fs_quantityToConsume = min (fe_available b) r\<rparr> #
     consume_lots (dbl (r - min (fe_available b) r)) bs"
  by (simp add: Let_def min_def)

lemma consume_none [simp]: "r \<le> 0 \<Longrightarrow> consume_lots r bs = []"
  by (cases bs) simp_all

lemma consume_lots_prefix:
  assumes "\<forall>b\<in>set bs. 0 < fe_available b"
  shows "map fs_balance (consume_lots r bs) = take (length (consume_lots r bs)) bs"
  using assms by (induction r bs rule: consume_lots.induct) (auto simp: Let_def)

lemma consume_lots_quantity:
  "s \<in> set (consume_lots r bs) \<Longrightarrow> 0 < fs_quantityToConsume s \<and> fs_quantityToConsume s \<le> fe_available (fs_balance s)"
  by (induction r bs rule: consume_lots.induct) (auto simp: Let_def split: if_splits)

lemma consume_lots_all_but_last:
  assumes "\<forall>b\<in>set bs. 0 < fe_available b" "s \<in> set (butlast (consume_lots r bs))"
  shows "fs_quantityToConsume s = fe_available (fs_balance s)"
  using assms
proof (induction r bs rule: consume_lots.induct)
  case (2 remaining b bs)
  show ?case
  proof (cases "remaining \<le> 0")
    case False
    let ?q = "min (fe_available b) remaining"
    let ?rest = "consume_lots (dbl (remaining - ?q)) bs"
    have q: "\<not> ?q \<le> 0" using False 2(3) by (simp add: min_def)
    have s: "s \<in> set (butlast (\<lparr>fs_balance = b, fs_quantityToConsume = ?q\<rparr> # ?rest))"
      using 2(4) False q by (simp add: Let_def)
    have IH: "s \<in> set (butlast ?rest) \<Longrightarrow> ?thesis" using 2(2) [OF False refl q] 2(3) by simp
    show ?thesis
    proof (cases "?rest = []")
      case ne: False
      have "\<not> remaining \<le> fe_available b"
      proof
        assume "remaining \<le> fe_available b"
        then have "?rest = []" by (cases bs) (simp_all add: min_def)
        with ne show False by simp
      qed
      then show ?thesis using s IH ne by (auto split: if_splits)
    qed (use s in simp)
  qed (use 2 in simp)
qed simp

text \<open>What the selections take, up to an error per step.\<close>

definition taken :: "fefo_selection list \<Rightarrow> rat" where
  "taken sels = sum_list (map fs_quantityToConsume sels)"

definition in_stock :: "eligible list \<Rightarrow> rat" where
  "in_stock bs = sum_list (map fe_available bs)"

lemma in_stock_simps [simp]: "in_stock [] = 0" "in_stock (b # bs) = fe_available b + in_stock bs"
  and taken_simps [simp]: "taken [] = 0" "taken (s # ss) = fs_quantityToConsume s + taken ss"
  by (simp_all add: in_stock_def taken_def)

lemma in_stock_nonneg: "\<forall>b\<in>set bs. 0 < fe_available b \<Longrightarrow> 0 \<le> in_stock bs"
  by (induction bs) (simp_all add: order_less_imp_le)

lemma sum_sortFefo [simp]:
  fixes f :: "eligible \<Rightarrow> 'a :: comm_monoid_add"
  shows "sum_list (map f (sortFefo h bs)) = sum_list (map f bs)"
proof -
  have "sum_list (map f (sort_insert c x ys)) = f x + sum_list (map f ys)" for c x ys
    by (induction ys) (auto simp: ac_simps)
  then have "sum_list (map f (js_sort c ys)) = sum_list (map f ys)" for c ys
    by (induction ys) auto
  then show ?thesis by (simp add: sortFefo_def)
qed

lemma in_stock_sort [simp]: "in_stock (sortFefo h bs) = in_stock bs"
  by (simp add: in_stock_def)

lemma dbl_below: "\<bar>x\<bar> < 2 powi k \<Longrightarrow> - 1021 \<le> k \<Longrightarrow> \<bar>dbl x - x\<bar> \<le> 2 powi (k - 54)"
  by (rule dbl_error) auto

lemma taken_lower:
  assumes "\<forall>b\<in>set bs. 0 < fe_available b" "\<And>x. 0 \<le> x \<Longrightarrow> x \<le> r \<Longrightarrow> \<bar>dbl x - x\<bar> \<le> e" "0 \<le> e" "dbl r = r"
  shows "min r (in_stock bs) - of_nat (length bs) * e \<le> taken (consume_lots r bs)"
  using assms
proof (induction bs arbitrary: r)
  case (Cons b bs)
  have st: "0 \<le> in_stock bs" by (rule in_stock_nonneg) (use Cons.prems in simp)
  show ?case
  proof (cases "r \<le> 0")
    case True
    have "0 \<le> of_nat (length (b # bs)) * e" using Cons.prems(3) by simp
    with True st show ?thesis using Cons.prems(1) by (simp add: min_def)
  next
    case False
    let ?q = "min (fe_available b) r"
    have q: "0 < ?q" "?q \<le> r" using False Cons.prems(1) by auto
    have le: "dbl (r - ?q) \<le> r" using dbl_mono [of "r - ?q" r] q Cons.prems(4) by simp
    have "min (dbl (r - ?q)) (in_stock bs) - of_nat (length bs) * e \<le> taken (consume_lots (dbl (r - ?q)) bs)"
    proof (rule Cons.IH)
      show "\<bar>dbl x - x\<bar> \<le> e" if "0 \<le> x" "x \<le> dbl (r - ?q)" for x
        using Cons.prems(2) [of x] that le by linarith
    qed (use Cons.prems in auto)
    moreover have "r - ?q - e \<le> dbl (r - ?q)"
      using Cons.prems(2) [of "r - ?q"] q by (simp add: abs_le_iff)
    moreover have "consume_lots r (b # bs) = \<lparr>fs_balance = b, fs_quantityToConsume = ?q\<rparr> # consume_lots (dbl (r - ?q)) bs"
      using False Cons.prems(1) by (intro consume_step) simp_all
    ultimately show ?thesis using st Cons.prems(3) by (simp add: algebra_simps min_def del: consume_lots.simps split: if_splits)
  qed
qed (simp add: min_def)

subsection \<open>Whole units\<close>

text \<open>The arithmetic of the loop on whole numbers below \<open>2 ^ 53\<close>.\<close>

fun consume_units :: "int \<Rightarrow> int list \<Rightarrow> int list" where
  "consume_units r [] = []"
| "consume_units r (a # as) = (if r \<le> 0 then [] else min a r # consume_units (r - min a r) as)"

lemma consume_units_sum: "0 \<le> r \<Longrightarrow> \<forall>a\<in>set as. 0 < a \<Longrightarrow> sum_list (consume_units r as) = min r (sum_list as)"
proof (induction as arbitrary: r)
  case (Cons a as)
  have "0 \<le> sum_list as" using Cons.prems by (intro sum_list_nonneg) auto
  then show ?case using Cons.IH [of "r - min a r"] Cons.prems by (auto simp: min_def)
qed simp

lemma consume_units_pos: "\<forall>a\<in>set as. 0 < a \<Longrightarrow> x \<in> set (consume_units r as) \<Longrightarrow> 0 < x"
  by (induction r as rule: consume_units.induct) (auto split: if_splits simp: min_def)

lemma consume_lots_units:
  assumes "r \<le> 2 ^ 53" "map fe_available bs = map of_int as" "\<forall>a\<in>set as. 0 < a"
  shows "map fs_quantityToConsume (consume_lots (of_int r) bs) = map of_int (consume_units r as)"
  using assms
proof (induction as arbitrary: r bs)
  case (Cons a as)
  from Cons.prems(2) obtain b bs' where bs: "bs = b # bs'" "fe_available b = of_int a" "map fe_available bs' = map of_int as"
    by auto
  show ?case
  proof (cases "r \<le> 0")
    case False
    have m: "min (of_int a) (of_int r) = (of_int (min a r) :: rat)" by (simp add: min_def)
    have "dbl (of_int r - of_int (min a r)) = of_int (r - min a r)"
      using dbl_int [of "r - min a r"] False Cons.prems(1,3) by (simp add: min_def split: if_splits)
    moreover have "map fs_quantityToConsume (consume_lots (of_int (r - min a r)) bs') = map of_int (consume_units (r - min a r) as)"
      using Cons.prems(1,3) bs(3) by (intro Cons.IH) auto
    ultimately show ?thesis using False Cons.prems(3) bs
      by (simp add: consume_step m del: consume_lots.simps)
  qed (simp add: bs)
qed simp

lemma foldl_units:
  assumes "\<forall>a\<in>set as. 0 < a" "0 \<le> acc" "acc + sum_list as \<le> 2 ^ 53"
  shows "foldl (\<lambda>s x. dbl (s + x)) (of_int acc) (map of_int as) = of_int (acc + sum_list as)"
  using assms
proof (induction as arbitrary: acc)
  case (Cons a as)
  have "0 \<le> sum_list as" using Cons.prems by (intro sum_list_nonneg) auto
  then have "dbl (of_int (acc + a)) = of_int (acc + a)" using Cons.prems by (intro dbl_int) simp
  then show ?case using Cons.IH [of "acc + a"] Cons.prems by (simp add: add.assoc)
qed simp

lemma selected_sum_map: "selected_sum sels = foldl (\<lambda>s x. dbl (s + x)) 0 (map fs_quantityToConsume sels)"
  by (simp add: selected_sum_def foldl_map)

text \<open>
  When every eligible balance and the request are whole numbers of units, the plan
  takes exactly the smaller of the request and the stock, reports what is missing exactly, and
  can fulfil the request if and only if the stock covers it.
\<close>

theorem fefo_units_exact:
  fixes units :: "eligible \<Rightarrow> int"
  assumes "\<forall>b\<in>set found. 0 < units b \<and> fe_available b = of_int (units b)" "0 < n" "n \<le> 2 ^ 53"
  shows "fr_selected (fefo_plan h (of_int n) found) = of_int (min n (sum_list (map units found))) \<and>
    fr_missing (fefo_plan h (of_int n) found) = of_int (n - min n (sum_list (map units found))) \<and>
    (fr_canFulfill (fefo_plan h (of_int n) found) \<longleftrightarrow> n \<le> sum_list (map units found))"
proof -
  let ?as = "map units (sortFefo h found)" and ?total = "sum_list (map units found)"
  let ?sels = "consume_lots (of_int n) (sortFefo h found)"
  have pos: "\<forall>a\<in>set ?as. 0 < a" using assms(1) by auto
  have sum: "sum_list (consume_units n ?as) = min n ?total"
    using consume_units_sum [of n ?as] assms(2) pos by simp
  have tot: "0 \<le> ?total" by (rule sum_list_nonneg) (use assms(1) in auto)
  have "map fe_available (sortFefo h found) = map of_int ?as" using assms(1) by simp
  then have "map fs_quantityToConsume ?sels = map of_int (consume_units n ?as)"
    using assms(3) pos by (intro consume_lots_units) auto
  moreover have "foldl (\<lambda>s x. dbl (s + x)) (of_int 0) (map of_int (consume_units n ?as)) = of_int (0 + sum_list (consume_units n ?as))"
    by (rule foldl_units) (use sum assms(3) consume_units_pos [OF pos] in auto)
  ultimately have sel: "selected_sum ?sels = of_int (min n ?total)" by (simp add: selected_sum_map sum)
  have "dbl (of_int (n - min n ?total)) = of_int (n - min n ?total)" using assms(2,3) tot by (intro dbl_int) simp
  then have mis: "max 0 (dbl (of_int n - of_int (min n ?total))) = of_int (n - min n ?total)"
    using assms(2) by (simp add: min_def)
  show ?thesis by (simp only: fefo_plan_def Let_def sel mis fefo_result.simps) (simp add: min_def)
qed

definition demo_lot :: "string \<Rightarrow> int \<Rightarrow> int \<Rightarrow> eligible" where
  "demo_lot i d m = \<lparr>fe_lotId = i, fe_lotCode = i, fe_expirationDate = Some d, fe_receivedAt = 1, fe_locationId = None,
     fe_available = milli m, fe_status = LOT_ACTIVE\<rparr>"

definition demo_fefo_host :: host where
  "demo_fefo_host = \<lparr>date_parse = (\<lambda>_. None), iso_string = (\<lambda>_. []), locale_compare = (\<lambda>_ _. 0), sha256_hex = id\<rparr>"

lemma milli_units: "\<bar>k\<bar> \<le> 2 ^ 53 \<Longrightarrow> milli (1000 * k) = of_int k"
  by (simp add: milli_def dbl_int)

lemma fefo_units_exact_witness:
  "fr_selected (fefo_plan demo_fefo_host (of_int 7) [demo_lot ''b'' 20270101 5000, demo_lot ''a'' 20260701 3000]) = 7"
proof -
  let ?units = "\<lambda>b. if fe_lotId b = ''a'' then 3 else (5 :: int)"
  have "milli 5000 = 5" "milli 3000 = 3" using milli_units [of 5] milli_units [of 3] by simp_all
  then have "\<forall>b\<in>set [demo_lot ''b'' 20270101 5000, demo_lot ''a'' 20260701 3000].
      0 < ?units b \<and> fe_available b = of_int (?units b)" by (simp add: demo_lot_def)
  from fefo_units_exact [OF this, of 7 demo_fefo_host]
  show ?thesis by (simp add: demo_lot_def)
qed

subsection \<open>Thousandths\<close>

text \<open>Lots of 0.1 and 0.7 do not cover a request of 0.8, because 0.8 - 0.1 is not 0.7 in binary.\<close>

lemma fefo_float_shortfall:
  "fr_canFulfill (fefo_plan demo_fefo_host (milli 800) [demo_lot ''a'' 20260701 100, demo_lot ''b'' 20270101 700]) = False"
  by code_simp

lemma milli_error: "\<bar>m\<bar> \<le> 2 ^ 30 \<Longrightarrow> \<bar>milli m - of_int m / 1000\<bar> \<le> 1 / 2 ^ 33"
proof -
  assume "\<bar>m\<bar> \<le> 2 ^ 30"
  then have "(of_int \<bar>m\<bar> :: rat) \<le> of_int (2 ^ 30)" by (simp only: of_int_le_iff)
  then have "\<bar>of_int m / 1000 :: rat\<bar> < 2 powi 21" by (simp add: power_int_def)
  then have "\<bar>dbl (of_int m / 1000) - of_int m / 1000\<bar> \<le> 2 powi (21 - 54)" by (rule dbl_below) simp
  then show ?thesis by (simp add: milli_def power_int_def field_simps)
qed

lemma in_stock_millis:
  assumes "map fe_available bs = map milli as" "\<forall>a\<in>set as. 0 < a \<and> a \<le> 2 ^ 30"
  shows "of_int (sum_list as) / 1000 - of_nat (length bs) / 2 ^ 33 \<le> in_stock bs"
  using assms
proof (induction as arbitrary: bs)
  case (Cons a as)
  from Cons.prems(1) obtain b bs' where bs: "bs = b # bs'" "fe_available b = milli a" "map fe_available bs' = map milli as"
    by auto
  have "of_int (sum_list as) / 1000 - of_nat (length bs') / 2 ^ 33 \<le> in_stock bs'"
    using Cons bs(3) by simp
  moreover have "of_int a / 1000 - 1 / 2 ^ 33 \<le> milli a"
    using abs_le_D2 [OF milli_error [of a]] Cons.prems(2) by simp
  ultimately show ?case using bs by (simp add: field_simps)
qed simp

lemma taken_upper:
  assumes "\<forall>b\<in>set bs. 0 < fe_available b" "\<And>x. 0 \<le> x \<Longrightarrow> x \<le> r \<Longrightarrow> \<bar>dbl x - x\<bar> \<le> e" "0 \<le> e" "dbl r = r" "0 \<le> r"
  shows "taken (consume_lots r bs) \<le> r + of_nat (length (consume_lots r bs)) * e"
  using assms
proof (induction bs arbitrary: r)
  case (Cons b bs)
  show ?case
  proof (cases "r \<le> 0")
    case False
    let ?q = "min (fe_available b) r"
    have q: "0 < ?q" "?q \<le> r" using False Cons.prems(1) by auto
    have le: "dbl (r - ?q) \<le> r" using dbl_mono [of "r - ?q" r] q Cons.prems(4) by simp
    have "taken (consume_lots (dbl (r - ?q)) bs) \<le> dbl (r - ?q) + of_nat (length (consume_lots (dbl (r - ?q)) bs)) * e"
    proof (rule Cons.IH)
      show "\<bar>dbl x - x\<bar> \<le> e" if "0 \<le> x" "x \<le> dbl (r - ?q)" for x
        using Cons.prems(2) [of x] that le by linarith
    qed (use Cons.prems q in \<open>auto intro: dbl_nonneg\<close>)
    moreover have "dbl (r - ?q) \<le> r - ?q + e"
      using Cons.prems(2) [of "r - ?q"] q by (simp add: abs_le_iff)
    moreover have "consume_lots r (b # bs) = \<lparr>fs_balance = b, fs_quantityToConsume = ?q\<rparr> # consume_lots (dbl (r - ?q)) bs"
      using False Cons.prems(1) by (intro consume_step) simp_all
    ultimately show ?thesis by (simp add: algebra_simps del: consume_lots.simps)
  qed (use Cons.prems in simp)
qed simp

lemma selected_near:
  assumes "\<forall>s\<in>set sels. 0 < fs_quantityToConsume s" "0 \<le> acc" "0 \<le> e"
    "\<And>x. 0 \<le> x \<Longrightarrow> x \<le> acc + taken sels + of_nat (length sels) * e \<Longrightarrow> \<bar>dbl x - x\<bar> \<le> e"
  shows "\<bar>foldl (\<lambda>s x. dbl (s + fs_quantityToConsume x)) acc sels - (acc + taken sels)\<bar> \<le> of_nat (length sels) * e"
  using assms
proof (induction sels arbitrary: acc)
  case (Cons s sels)
  let ?q = "fs_quantityToConsume s" and ?acc = "dbl (acc + fs_quantityToConsume s)"
  have t: "0 \<le> taken sels"
    unfolding taken_def by (rule sum_list_nonneg) (use Cons.prems(1) in \<open>auto intro: order_less_imp_le\<close>)
  have k: "0 \<le> of_nat (length sels) * e" using Cons.prems(3) by simp
  have acc: "\<bar>?acc - (acc + ?q)\<bar> \<le> e"
    using Cons.prems(1,2,3) t k by (intro Cons.prems(4)) (simp_all add: algebra_simps)
  then have acc': "?acc \<le> acc + ?q + e" by (simp add: abs_le_iff)
  have "\<bar>foldl (\<lambda>s x. dbl (s + fs_quantityToConsume x)) ?acc sels - (?acc + taken sels)\<bar> \<le> of_nat (length sels) * e"
  proof (rule Cons.IH)
    show "\<bar>dbl x - x\<bar> \<le> e" if "0 \<le> x" "x \<le> ?acc + taken sels + of_nat (length sels) * e" for x
      using Cons.prems(4) [of x] that acc' by (simp add: algebra_simps)
    show "0 \<le> ?acc" using Cons.prems(1,2) by (intro dbl_nonneg) simp
  qed (use Cons.prems in auto)
  then have "\<bar>foldl (\<lambda>s x. dbl (s + fs_quantityToConsume x)) ?acc sels - (acc + ?q + taken sels)\<bar> \<le> of_nat (length sels) * e + e"
    using acc by linarith
  then show ?case by (simp add: algebra_simps)
qed simp

lemma dbl_small: "0 \<le> x \<Longrightarrow> x \<le> 2 ^ 20 + 1 \<Longrightarrow> \<bar>dbl x - x\<bar> \<le> 1 / 2 ^ 33"
proof -
  assume "0 \<le> x" "x \<le> 2 ^ 20 + 1"
  then have "\<bar>x\<bar> < 2 powi 21" by (simp add: power_int_def)
  then have "\<bar>dbl x - x\<bar> \<le> 2 powi (21 - 54)" by (rule dbl_below) simp
  then show ?thesis by (simp add: power_int_def field_simps)
qed

text \<open>
  When the eligible balances cover a request in thousandths, the plan may still report
  a shortfall, but never as much as a millionth of a unit, for requests up to a million units from
  at most a thousand balances.
\<close>

theorem fefo_shortfall_negligible:
  fixes units :: "eligible \<Rightarrow> int"
  assumes "\<forall>b\<in>set found. 0 < units b \<and> units b \<le> 10 ^ 9 \<and> fe_available b = milli (units b)"
    "length found \<le> 1000" "0 < n" "n \<le> 10 ^ 9" "n \<le> sum_list (map units found)"
  shows "0 \<le> fr_missing (fefo_plan h (milli n) found) \<and> fr_missing (fefo_plan h (milli n) found) < 1 / 1000000"
proof -
  define e :: rat where "e = 1 / 2 ^ 33"
  define bs where "bs = sortFefo h found"
  define sels where "sels = consume_lots (milli n) bs"
  define k :: rat where "k = of_nat (length found)"
  have k: "0 \<le> k" "k \<le> 1000" using assms(2) by (simp_all add: k_def)
  have pos: "\<forall>b\<in>set bs. 0 < fe_available b" using assms(1) by (simp add: bs_def milli_pos)
  have n: "0 < milli n" "milli n \<le> of_int n / 1000 + e" "of_int n / 1000 - e \<le> milli n"
    using abs_le_D1 [OF milli_error [of n]] abs_le_D2 [OF milli_error [of n]] assms(3,4)
    by (simp_all add: milli_pos e_def)
  have n6: "(of_int n :: rat) \<le> 10 ^ 9" using assms(4) by (metis of_int_le_iff of_int_numeral of_int_power)
  have small: "\<bar>dbl x - x\<bar> \<le> e" if "0 \<le> x" "x \<le> 2 ^ 20 + 1" for x
    unfolding e_def using that by (rule dbl_small)
  have dn: "dbl (milli n) = milli n" by (simp add: milli_def)
  have le: "length sels \<le> length found"
    using arg_cong [OF consume_lots_prefix [OF pos, of "milli n"], of length] by (simp add: sels_def bs_def)
  then have lk: "of_nat (length sels) \<le> k" by (simp add: k_def)
  have "min (milli n) (in_stock bs) - of_nat (length bs) * e \<le> taken sels"
    unfolding sels_def using pos small n n6 dn by (intro taken_lower) (auto simp: e_def)
  then have "min (milli n) (in_stock bs) - k * e \<le> taken sels" by (simp add: k_def bs_def)
  moreover have "of_int n / 1000 - k * e \<le> in_stock bs"
  proof -
    have "map fe_available bs = map milli (map units bs)" using assms(1) by (simp add: bs_def)
    then have "of_int (sum_list (map units bs)) / 1000 - of_nat (length bs) / 2 ^ 33 \<le> in_stock bs"
      using assms(1) by (intro in_stock_millis) (auto simp: bs_def)
    moreover have "(of_int n :: rat) \<le> of_int (sum_list (map units bs))" using assms(5) by (simp only: of_int_le_iff bs_def sum_sortFefo)
    ultimately show ?thesis by (simp add: k_def e_def bs_def)
  qed
  ultimately have low: "milli n - (2 * k + 1) * e \<le> taken sels"
  proof -
    have ke: "0 \<le> k * e" "0 < e" using k(1) by (simp_all add: e_def)
    have "(2 * k + 1) * e = k * e + k * e + e" by (simp add: algebra_simps)
    moreover have "milli n - k * e - e \<le> min (milli n) (in_stock bs)"
      using \<open>of_int n / 1000 - k * e \<le> in_stock bs\<close> n(2) ke by (intro min.boundedI) linarith+
    ultimately show ?thesis using \<open>min (milli n) (in_stock bs) - k * e \<le> taken sels\<close> by linarith
  qed
  have up: "taken sels \<le> milli n + k * e"
  proof -
    have "taken sels \<le> milli n + of_nat (length sels) * e"
      unfolding sels_def using pos small n n6 dn by (intro taken_upper) (auto simp: e_def)
    also have "\<dots> \<le> milli n + k * e" using lk by (simp add: e_def)
    finally show ?thesis .
  qed
  have near: "\<bar>selected_sum sels - (0 + taken sels)\<bar> \<le> of_nat (length sels) * e"
    unfolding selected_sum_def
  proof (rule selected_near)
    show "\<forall>s\<in>set sels. 0 < fs_quantityToConsume s" using consume_lots_quantity by (auto simp: sels_def)
    show "\<bar>dbl x - x\<bar> \<le> e" if "0 \<le> x" "x \<le> 0 + taken sels + of_nat (length sels) * e" for x
    proof (rule small)
      have "of_nat (length sels) * e \<le> k * e" using lk by (simp add: e_def)
      then show "x \<le> 2 ^ 20 + 1" using that up n n6 k by (simp add: e_def)
    qed (rule that)
  qed (simp_all add: e_def)
  have "of_nat (length sels) * e \<le> k * e" using lk by (simp add: e_def)
  with near low up have sel: "milli n - (3 * k + 1) * e \<le> selected_sum sels" by (simp add: abs_le_iff algebra_simps)
  define d where "d = (3 * k + 1) * e"
  have d: "0 \<le> d" "d < 1 / 2000000" using k by (simp_all add: d_def e_def)
  have "dbl (milli n - selected_sum sels) \<le> dbl d" using sel by (intro dbl_mono) (simp add: d_def)
  also have "\<dots> \<le> d + e" using abs_le_D1 [OF small [of d]] d by simp
  finally have "dbl (milli n - selected_sum sels) < 1 / 1000000" using d(2) by (simp add: e_def)
  then show ?thesis by (simp add: fefo_plan_def Let_def sels_def bs_def)
qed

lemma fefo_shortfall_negligible_witness:
  "fr_missing (fefo_plan demo_fefo_host (milli 800) [demo_lot ''a'' 20260701 100, demo_lot ''b'' 20270101 700]) < 1 / 1000000"
proof -
  let ?units = "\<lambda>b. if fe_lotId b = ''a'' then 100 else (700 :: int)"
  have "\<forall>b\<in>set [demo_lot ''a'' 20260701 100, demo_lot ''b'' 20270101 700].
      0 < ?units b \<and> ?units b \<le> 10 ^ 9 \<and> fe_available b = milli (?units b)" by (simp add: demo_lot_def)
  from fefo_shortfall_negligible [OF this, of 800 demo_fefo_host]
  show ?thesis by (simp add: demo_lot_def)
qed

subsection \<open>The request\<close>

text \<open>The balances a request may take from.\<close>

definition consumable_lot :: "inv_env \<Rightarrow> string \<Rightarrow> string \<Rightarrow> string \<Rightarrow> string option \<Rightarrow> balance_row \<Rightarrow> lot_row \<Rightarrow> bool" where
  "consumable_lot env tenantId branchId productId locationId b l \<longleftrightarrow>
     bl_tenantId b = tenantId \<and> bl_branchId b = branchId \<and> bl_productId b = productId \<and>
     lt_id l = bl_lotId b \<and> lt_tenantId l = tenantId \<and> lt_branchId l = branchId \<and> lt_productId l = productId \<and>
     (locationId = None \<or> bl_locationId b = locationId) \<and> bl_reserved b < bl_onHand b \<and>
     lt_status l \<in> {LOT_ACTIVE, LOT_EXPIRED} \<and>
     (case lt_expirationDate l of None \<Rightarrow> True | Some d \<Rightarrow> iv_today env \<le> d \<and> iv_currentDate env \<le> d)"

lemma ended_lot_iff: "\<not> ended_lot st \<longleftrightarrow> st \<in> {LOT_ACTIVE, LOT_EXPIRED}"
  by (cases st) (simp_all add: ended_lot_def)

lemma eligible_of_simps [simp]:
  "fe_expirationDate (eligible_of b l) = lt_expirationDate l" "fe_locationId (eligible_of b l) = bl_locationId b"
  "fe_available (eligible_of b l) = milli (bl_onHand b - bl_reserved b)" "fe_status (eligible_of b l) = lt_status l"
  by (simp_all add: eligible_of_def)

lemma found_balances:
  "set (findEligibleBalances env tn b p loc db) = {eligible_of r l | r l. r \<in> set (iv_balances db) \<and> l \<in> set (iv_lots db) \<and>
     lt_id l = bl_lotId r \<and> lt_tenantId l = bl_tenantId r \<and> lt_branchId l = bl_branchId r \<and> lt_productId l = bl_productId r \<and>
     bl_tenantId r = tn \<and> bl_branchId r = b \<and> bl_productId r = p \<and> (loc = None \<or> bl_locationId r = loc) \<and>
     bl_onHand r - bl_reserved r > 0 \<and> \<not> ended_lot (lt_status l) \<and>
     (case lt_expirationDate l of None \<Rightarrow> True | Some d \<Rightarrow> iv_currentDate env \<le> d)}"
  unfolding findEligibleBalances_def by (simp add: set_eq_iff) blast

lemma eligible_balances:
  "set (filterEligible env loc (findEligibleBalances env tn b p loc db)) =
     {eligible_of r l | r l. r \<in> set (iv_balances db) \<and> l \<in> set (iv_lots db) \<and> consumable_lot env tn b p loc r l}"
proof -
  let ?keep = "\<lambda>e. \<not> fe_available e \<le> 0 \<and> \<not> ended_lot (fe_status e) \<and> \<not> isExpired env e \<and> (loc = None \<or> fe_locationId e = loc)"
  let ?row = "\<lambda>r l. lt_id l = bl_lotId r \<and> lt_tenantId l = bl_tenantId r \<and> lt_branchId l = bl_branchId r \<and> lt_productId l = bl_productId r \<and>
     bl_tenantId r = tn \<and> bl_branchId r = b \<and> bl_productId r = p \<and> (loc = None \<or> bl_locationId r = loc) \<and>
     bl_onHand r - bl_reserved r > 0 \<and> \<not> ended_lot (lt_status l) \<and>
     (case lt_expirationDate l of None \<Rightarrow> True | Some d \<Rightarrow> iv_currentDate env \<le> d)"
  have "?row r l \<and> ?keep (eligible_of r l) \<longleftrightarrow> consumable_lot env tn b p loc r l" for r l
    unfolding consumable_lot_def ended_lot_iff isExpired_def eligible_of_simps not_le milli_pos
    by (cases "lt_expirationDate l") auto
  then show ?thesis unfolding filterEligible_def set_filter found_balances by blast
qed


definition demo_fefo_lot :: "string \<Rightarrow> int \<Rightarrow> lot_row" where
  "demo_fefo_lot i d = \<lparr>lt_id = i, lt_tenantId = ''t'', lt_branchId = ''b'', lt_productId = ''p'', lt_supplierId = None,
     lt_purchaseId = None, lt_purchaseItemId = None, lt_lotCode = i, lt_expirationDate = Some d, lt_receivedAt = 1,
     lt_unitCost = 0, lt_status = LOT_ACTIVE, lt_isLegacy = False, lt_createdAt = 1, lt_updatedAt = 1\<rparr>"

definition demo_fefo_balance :: "string \<Rightarrow> int \<Rightarrow> balance_row" where
  "demo_fefo_balance i m = \<lparr>bl_id = i, bl_tenantId = ''t'', bl_branchId = ''b'', bl_productId = ''p'', bl_lotId = i,
     bl_locationId = None, bl_onHand = m, bl_reserved = 0, bl_lastMovementAt = None, bl_createdAt = 1, bl_updatedAt = 1\<rparr>"

definition demo_fefo_db :: inv_db where
  "demo_fefo_db = \<lparr>iv_products = [\<lparr>sp_id = ''p'', sp_tenantId = ''t'', sp_cost = None, sp_requiresLot = True, sp_requiresExpiration = True\<rparr>],
     iv_branches = [(''b'', ''t'')], iv_locations = [], iv_access = [], iv_suppliers = [], iv_purchases = [], iv_purchaseItems = [],
     iv_lots = [demo_fefo_lot ''x'' 20270101, demo_fefo_lot ''y'' 20260701, demo_fefo_lot ''z'' 20250101],
     iv_balances = [demo_fefo_balance ''x'' 5000, demo_fefo_balance ''y'' 3000, demo_fefo_balance ''z'' 9000],
     iv_movements = [], iv_links = []\<rparr>"

definition demo_fefo_env :: inv_env where
  "demo_fefo_env = \<lparr>iv_host = demo_fefo_host, iv_now = 0, iv_today = 20260601, iv_currentDate = 20260601, iv_uuid = (\<lambda>_. []),
     iv_quantity = (\<lambda>_. None), iv_cost = (\<lambda>_. None)\<rparr>"

definition demo_fefo_input :: fefo_input where
  "demo_fefo_input = \<lparr>fi_tenantId = Some ''t'', fi_branchId = Some ''b'', fi_productId = Some ''p'', fi_quantity = Fin 7, fi_locationId = Null\<rparr>"

lemma demo_fefo_runs:
  "(case selectLotsForConsumption demo_fefo_env demo_fefo_input None demo_fefo_db of
      Inl _ \<Rightarrow> [] | Inr res \<Rightarrow> map (\<lambda>s. (fe_lotId (fs_balance s), fs_quantityToConsume s)) (fr_selections res)) = [(''y'', 3), (''x'', 4)]"
  by code_simp


end
