(* ===== verification/Lot_Service.thy ===== *)
theory Lot_Service
  imports Inventory_Lots
begin

section \<open>The lot service\<close>

text \<open>
  The requests of \<open>inventory-lot.service.ts\<close> that write: creating a lot, finding or creating one
  for a purchase or for an adjustment, finding the lot of a withdrawal, changing, blocking and
  cancelling a lot.
\<close>

subsection \<open>Checks\<close>

definition normalizeLotCode :: "string option \<Rightarrow> string http" where
  "normalizeLotCode lotCode = and_then (normalizeRequired lotCode ''lotCode'') (\<lambda>s. Inr (js_upper s))"

definition normalizeStatus :: "string option \<Rightarrow> lot_status http" where
  "normalizeStatus status =
     (case map_of INVENTORY_LOT_STATUSES (coalesce status ''ACTIVE'') of
        None \<Rightarrow> Inl (BadRequest ''status is invalid'')
      | Some s \<Rightarrow> Inr s)"

definition normalizeUnitCost :: "jsnum option \<Rightarrow> rat http" where
  "normalizeUnitCost unitCost =
     (case coalesce unitCost (Fin 0) of
        Fin x \<Rightarrow> if x < 0 then Inl (BadRequest ''unitCost must be non-negative'') else Inr x
      | _ \<Rightarrow> Inl (BadRequest ''unitCost must be non-negative''))"

fun assertOptionalBoolean :: "json option \<Rightarrow> string \<Rightarrow> bool option http" where
  "assertOptionalBoolean None field = Inr None"
| "assertOptionalBoolean (Some (JBool b)) field = Inr (Some b)"
| "assertOptionalBoolean (Some _) field = Inl (BadRequest (field @ '' must be a boolean''))"

definition assertExpirationFloor :: "int option \<Rightarrow> unit http" where
  "assertExpirationFloor d =
     require (case d of None \<Rightarrow> True | Some n \<Rightarrow> date_number 2000 1 1 \<le> n)
       ''expirationDate cannot be before 2000-01-01''"

definition assertActiveLotIsNotExpired :: "inv_env \<Rightarrow> lot_status \<Rightarrow> int option \<Rightarrow> unit http" where
  "assertActiveLotIsNotExpired env status d =
     require (status \<noteq> LOT_ACTIVE \<or> (case d of None \<Rightarrow> True | Some n \<Rightarrow> iv_today env \<le> n))
       ''ACTIVE lot cannot be expired''"

definition assertExpirationRequirement :: "bool \<Rightarrow> int option \<Rightarrow> unit http" where
  "assertExpirationRequirement requiresExpiration d =
     require (requiresExpiration \<longrightarrow> d \<noteq> None) ''expirationDate is required for this product''"

definition given_in :: "string field \<Rightarrow> (string \<times> string) list \<Rightarrow> string \<Rightarrow> bool" where
  "given_in f table tenantId = (case f of Given i \<Rightarrow> (i, tenantId) \<in> set table | _ \<Rightarrow> True)"

definition assertOptionalRelations ::
  "inv_db \<Rightarrow> string \<Rightarrow> string field \<Rightarrow> string field \<Rightarrow> string field \<Rightarrow> unit http" where
  "assertOptionalRelations db tenantId supplierId purchaseId purchaseItemId =
     and_then (require (given_in supplierId (iv_suppliers db) tenantId) ''supplierId is invalid'') (\<lambda>_.
     and_then (require (given_in purchaseId (iv_purchases db) tenantId) ''purchaseId is invalid'') (\<lambda>_.
     require (given_in purchaseItemId (iv_purchaseItems db) tenantId) ''purchaseItemId is invalid''))"

definition assertLotCodeUnique ::
  "inv_db \<Rightarrow> string \<Rightarrow> string \<Rightarrow> string \<Rightarrow> string \<Rightarrow> string option \<Rightarrow> unit http" where
  "assertLotCodeUnique db tenantId branchId productId lotCode excludeLotId =
     and_then (lot_findByCode db tenantId branchId productId lotCode) (\<lambda>existing.
     require (case existing of None \<Rightarrow> True | Some l \<Rightarrow> Some (lt_id l) = excludeLotId)
       ''lotCode already exists for this product'')"

definition assertExistingLotCanReceive :: "lot_row \<Rightarrow> int option \<Rightarrow> bool \<Rightarrow> unit http" where
  "assertExistingLotCanReceive lot d requiresExpiration =
     and_then (require (lt_status lot \<noteq> LOT_BLOCKED \<and> lt_status lot \<noteq> LOT_CANCELLED)
       ''inventory lot cannot receive stock'') (\<lambda>_.
     and_then (require (\<not> (requiresExpiration \<and> d = None \<and> lt_expirationDate lot = None))
       ''expirationDate is required for this product'') (\<lambda>_.
     require (d = None \<or> lt_expirationDate lot = d) ''expirationDate does not match existing lot''))"

definition assertExistingLotCanAdjustOut :: "lot_row \<Rightarrow> unit http" where
  "assertExistingLotCanAdjustOut lot =
     require (lt_status lot \<notin> {LOT_BLOCKED, LOT_CANCELLED, LOT_CONSUMED}) ''inventory lot cannot be adjusted out''"

definition assertExpirationMatchesExistingLot :: "lot_row \<Rightarrow> int option \<Rightarrow> unit http" where
  "assertExpirationMatchesExistingLot lot d =
     require (d = None \<or> lt_expirationDate lot = d) ''expirationDate does not match existing lot''"

definition assertStatusTransition :: "lot_row \<Rightarrow> lot_status \<Rightarrow> unit http" where
  "assertStatusTransition current nextStatus =
     and_then (require (\<not> (lt_status current = LOT_CANCELLED \<and> nextStatus = LOT_ACTIVE))
       ''CANCELLED lot cannot return to ACTIVE'') (\<lambda>_.
     require (\<not> (lt_status current = LOT_CONSUMED \<and> nextStatus = LOT_CANCELLED))
       ''CONSUMED lot cannot be cancelled'')"

definition assertLotFound :: "lot_row option \<Rightarrow> lot_row http" where
  "assertLotFound l = (case l of None \<Rightarrow> Inl (NotFound ''inventory lot not found'') | Some x \<Rightarrow> Inr x)"

definition findProductLotPolicy :: "inv_db \<Rightarrow> string \<Rightarrow> string \<Rightarrow> stock_product http" where
  "findProductLotPolicy db tenantId productId =
     (case findProductPolicy db tenantId productId of
        None \<Rightarrow> Inl (BadRequest ''productId is invalid'') | Some p \<Rightarrow> Inr p)"

subsection \<open>Creating lots\<close>

record lot_input =
  li_branchId :: "string option"
  li_productId :: "string option"
  li_supplierId :: "string field"
  li_purchaseId :: "string field"
  li_purchaseItemId :: "string field"
  li_lotCode :: "string option"
  li_expirationDate :: "string field"
  li_receivedAt :: "time_input option"
  li_unitCost :: "jsnum option"
  li_status :: "string option"
  li_isLegacy :: "json option"

definition lot_create :: "inv_env \<Rightarrow> string \<Rightarrow> lot_input \<Rightarrow> inv_actor \<Rightarrow> inv_db \<Rightarrow> (lot_row \<times> inv_db) http" where
  "lot_create env tenantId inp a db =
     and_then (normalizeRequired (li_branchId inp) ''branchId'') (\<lambda>branchId.
     and_then (normalizeRequired (li_productId inp) ''productId'') (\<lambda>productId.
     and_then (assertOptionalBoolean (li_isLegacy inp) ''isLegacy'') (\<lambda>legacy.
     and_then (parseDateOnly (li_expirationDate inp) ''expirationDate'') (\<lambda>d.
     and_then (parseDateTime (iv_host env) (li_receivedAt inp) ''receivedAt'') (\<lambda>t.
     and_then (normalizeLotCode (li_lotCode inp)) (\<lambda>lotCode.
     and_then (normalizeUnitCost (li_unitCost inp)) (\<lambda>unitCost.
     and_then (normalizeStatus (li_status inp)) (\<lambda>status.
     let supplierId = normalizeOptionalId (li_supplierId inp);
         purchaseId = normalizeOptionalId (li_purchaseId inp);
         purchaseItemId = normalizeOptionalId (li_purchaseItemId inp);
         expirationDate = field_option d
     in and_then (assertBranchAccess db tenantId branchId a) (\<lambda>_.
        and_then (findProductLotPolicy db tenantId productId) (\<lambda>policy.
        and_then (assertOptionalRelations db tenantId supplierId purchaseId purchaseItemId) (\<lambda>_.
        and_then (assertLotCodeUnique db tenantId branchId productId lotCode None) (\<lambda>_.
        and_then (assertExpirationFloor expirationDate) (\<lambda>_.
        and_then (assertExpirationRequirement (sp_requiresExpiration policy) expirationDate) (\<lambda>_.
        and_then (assertActiveLotIsNotExpired env status expirationDate) (\<lambda>_.
        and_then (lot_entity \<lparr>lt_id = iv_uuid env 0, lt_tenantId = tenantId, lt_branchId = branchId,
            lt_productId = productId, lt_supplierId = field_option supplierId,
            lt_purchaseId = field_option purchaseId, lt_purchaseItemId = field_option purchaseItemId,
            lt_lotCode = lotCode, lt_expirationDate = expirationDate,
            lt_receivedAt = coalesce t (iv_now env), lt_unitCost = unitCost, lt_status = status,
            lt_isLegacy = coalesce legacy False, lt_createdAt = iv_now env, lt_updatedAt = iv_now env\<rparr>) (\<lambda>lot.
        lot_insert env lot db))))))))))))))))"

text \<open>The lot of an entry: \<open>n\<close> counts the random identifiers already drawn.\<close>

record lot_demand =
  ld_tenantId :: string
  ld_branchId :: string
  ld_productId :: string
  ld_supplierId :: "string field"
  ld_purchaseId :: "string field"
  ld_purchaseItemId :: "string field"
  ld_lotCode :: string
  ld_expirationDate :: "string field"
  ld_receivedAt :: "time_input option"
  ld_unitCost :: "jsnum option"
  ld_requiresExpiration :: bool

definition receiveExistingLot :: "inv_env \<Rightarrow> lot_demand \<Rightarrow> int option \<Rightarrow> lot_row \<Rightarrow> inv_db \<Rightarrow> (lot_row \<times> inv_db) http" where
  "receiveExistingLot env inp d existing db =
     and_then (assertActiveLotIsNotExpired env LOT_ACTIVE (if d \<noteq> None then d else lt_expirationDate existing)) (\<lambda>_.
     and_then (assertExistingLotCanReceive existing d (ld_requiresExpiration inp)) (\<lambda>_.
     Inr (existing, db)))"

definition newLot :: "inv_env \<Rightarrow> nat \<Rightarrow> lot_demand \<Rightarrow> string \<Rightarrow> string \<Rightarrow> string \<Rightarrow> int option \<Rightarrow> int \<Rightarrow> rat \<Rightarrow> lot_row" where
  "newLot env n inp branchId productId lotCode d receivedAt unitCost =
     \<lparr>lt_id = iv_uuid env n, lt_tenantId = ld_tenantId inp, lt_branchId = branchId, lt_productId = productId,
      lt_supplierId = field_option (normalizeOptionalId (ld_supplierId inp)),
      lt_purchaseId = field_option (normalizeOptionalId (ld_purchaseId inp)),
      lt_purchaseItemId = field_option (normalizeOptionalId (ld_purchaseItemId inp)),
      lt_lotCode = lotCode, lt_expirationDate = d, lt_receivedAt = receivedAt, lt_unitCost = unitCost,
      lt_status = LOT_ACTIVE, lt_isLegacy = False, lt_createdAt = iv_now env, lt_updatedAt = iv_now env\<rparr>"

definition findOrCreateForPurchase ::
  "inv_env \<Rightarrow> nat \<Rightarrow> lot_demand \<Rightarrow> inv_db \<Rightarrow> (lot_row \<times> inv_db) http" where
  "findOrCreateForPurchase env n inp db =
     and_then (normalizeRequired (Some (ld_branchId inp)) ''branchId'') (\<lambda>branchId.
     and_then (normalizeRequired (Some (ld_productId inp)) ''productId'') (\<lambda>productId.
     and_then (normalizeLotCode (Some (ld_lotCode inp))) (\<lambda>lotCode.
     and_then (parseDateOnly (ld_expirationDate inp) ''expirationDate'') (\<lambda>df.
     and_then (parseDateTime (iv_host env) (ld_receivedAt inp) ''receivedAt'') (\<lambda>t.
     and_then (normalizeUnitCost (ld_unitCost inp)) (\<lambda>unitCost.
     and_then (lot_findByCode db (ld_tenantId inp) branchId productId lotCode) (\<lambda>found.
     let d = field_option df
     in case found of
          Some existing \<Rightarrow> and_then (assertExpirationFloor d) (\<lambda>_. receiveExistingLot env inp d existing db)
        | None \<Rightarrow>
            and_then (assertExpirationFloor d) (\<lambda>_.
            and_then (assertExpirationRequirement (ld_requiresExpiration inp) d) (\<lambda>_.
            and_then (assertActiveLotIsNotExpired env LOT_ACTIVE d) (\<lambda>_.
            and_then (lot_entity (newLot env n inp branchId productId lotCode d (coalesce t (iv_now env)) unitCost)) (\<lambda>lot.
            lot_insert env lot db)))))))))))"

text \<open>The lot of an adjustment has no supplier and no purchase.\<close>

definition findOrCreateForAdjustmentIn ::
  "inv_env \<Rightarrow> nat \<Rightarrow> lot_demand \<Rightarrow> inv_db \<Rightarrow> (lot_row \<times> inv_db) http" where
  "findOrCreateForAdjustmentIn env n inp db =
     and_then (normalizeRequired (Some (ld_branchId inp)) ''branchId'') (\<lambda>branchId.
     and_then (normalizeRequired (Some (ld_productId inp)) ''productId'') (\<lambda>productId.
     and_then (normalizeLotCode (Some (ld_lotCode inp))) (\<lambda>lotCode.
     and_then (parseDateOnly (ld_expirationDate inp) ''expirationDate'') (\<lambda>df.
     and_then (parseDateTime (iv_host env) (ld_receivedAt inp) ''receivedAt'') (\<lambda>t.
     and_then (normalizeUnitCost (ld_unitCost inp)) (\<lambda>unitCost.
     let d = field_option df in
     and_then (assertExpirationFloor d) (\<lambda>_.
     and_then (assertExpirationRequirement (ld_requiresExpiration inp) d) (\<lambda>_.
     and_then (lot_findByCode db (ld_tenantId inp) branchId productId lotCode) (\<lambda>found.
     case found of
       Some existing \<Rightarrow> receiveExistingLot env inp d existing db
     | None \<Rightarrow>
         and_then (assertActiveLotIsNotExpired env LOT_ACTIVE d) (\<lambda>_.
         and_then (lot_entity (newLot env n (inp\<lparr>ld_supplierId := Null, ld_purchaseId := Null, ld_purchaseItemId := Null\<rparr>)
                     branchId productId lotCode d (coalesce t (iv_now env)) unitCost)) (\<lambda>lot.
         lot_insert env lot db)))))))))))"

definition findForAdjustmentOut ::
  "string \<Rightarrow> string \<Rightarrow> string \<Rightarrow> string \<Rightarrow> string field \<Rightarrow> inv_db \<Rightarrow> lot_row http" where
  "findForAdjustmentOut tenantId branchText productText lotText expiration db =
     and_then (normalizeRequired (Some branchText) ''branchId'') (\<lambda>branchId.
     and_then (normalizeRequired (Some productText) ''productId'') (\<lambda>productId.
     and_then (normalizeLotCode (Some lotText)) (\<lambda>lotCode.
     and_then (parseDateOnly expiration ''expirationDate'') (\<lambda>df.
     and_then (assertExpirationFloor (field_option df)) (\<lambda>_.
     and_then (lot_findByCode db tenantId branchId productId lotCode) (\<lambda>found.
     case found of
       None \<Rightarrow> Inl (BadRequest ''inventory lot not found for adjustment'')
     | Some existing \<Rightarrow>
         and_then (assertExistingLotCanAdjustOut existing) (\<lambda>_.
         and_then (assertExpirationMatchesExistingLot existing (field_option df)) (\<lambda>_.
         Inr existing))))))))"

subsection \<open>Changing lots\<close>

definition lot_findOne :: "string \<Rightarrow> string \<Rightarrow> inv_actor \<Rightarrow> inv_db \<Rightarrow> lot_row http" where
  "lot_findOne tenantId lotId a db =
     and_then (lot_findById db tenantId lotId) (\<lambda>l.
     and_then (assertLotFound l) (\<lambda>lot.
     and_then (assertBranchAccess db tenantId (lt_branchId lot) a) (\<lambda>_. Inr lot)))"

record lot_update_input =
  lu_branchId :: "string option"
  lu_productId :: "string option"
  lu_supplierId :: "string field"
  lu_purchaseId :: "string field"
  lu_purchaseItemId :: "string field"
  lu_lotCode :: "string option"
  lu_expirationDate :: "string field"
  lu_receivedAt :: "time_input option"
  lu_unitCost :: "jsnum option"
  lu_status :: "string option"
  lu_isLegacy :: "json option"

definition opt_then :: "'a option \<Rightarrow> ('a \<Rightarrow> 'b http) \<Rightarrow> 'b option http" where
  "opt_then v k = (case v of None \<Rightarrow> Inr None | Some x \<Rightarrow> and_then (k x) (\<lambda>y. Inr (Some y)))"

definition buildUpdatePayload :: "host \<Rightarrow> lot_update_input \<Rightarrow> lot_changes http" where
  "buildUpdatePayload h inp =
     and_then (assertOptionalBoolean (lu_isLegacy inp) ''isLegacy'') (\<lambda>legacy.
     and_then (require (lu_branchId inp = None) ''branchId cannot be updated'') (\<lambda>_.
     and_then (require (lu_productId inp = None) ''productId cannot be updated'') (\<lambda>_.
     and_then (opt_then (lu_lotCode inp) (\<lambda>c. normalizeLotCode (Some c))) (\<lambda>lotCode.
     and_then (parseDateOnly (lu_expirationDate inp) ''expirationDate'') (\<lambda>d.
     and_then (parseDateTime h (lu_receivedAt inp) ''receivedAt'') (\<lambda>t.
     and_then (opt_then (lu_unitCost inp) (\<lambda>c. normalizeUnitCost (Some c))) (\<lambda>unitCost.
     and_then (opt_then (lu_status inp) (\<lambda>s. normalizeStatus (Some s))) (\<lambda>status.
     Inr \<lparr>lc_supplierId = normalizeOptionalId (lu_supplierId inp), lc_purchaseId = normalizeOptionalId (lu_purchaseId inp),
          lc_purchaseItemId = normalizeOptionalId (lu_purchaseItemId inp), lc_lotCode = lotCode,
          lc_expirationDate = d, lc_receivedAt = t, lc_unitCost = unitCost, lc_status = status,
          lc_isLegacy = legacy\<rparr>))))))))"

definition lot_update ::
  "inv_env \<Rightarrow> string \<Rightarrow> string \<Rightarrow> lot_update_input \<Rightarrow> inv_actor \<Rightarrow> inv_db \<Rightarrow> (lot_row \<times> inv_db) http" where
  "lot_update env tenantId lotId inp a db =
     and_then (lot_findOne tenantId lotId a db) (\<lambda>current.
     and_then (buildUpdatePayload (iv_host env) inp) (\<lambda>payload.
     and_then (assertOptionalRelations db tenantId (lc_supplierId payload) (lc_purchaseId payload) (lc_purchaseItemId payload)) (\<lambda>_.
     let nextStatus = coalesce (lc_status payload) (lt_status current);
         nextExpirationDate = set_field (lc_expirationDate payload) (lt_expirationDate current)
     in and_then (assertStatusTransition current nextStatus) (\<lambda>_.
        and_then (assertExpirationFloor nextExpirationDate) (\<lambda>_.
        and_then (findProductLotPolicy db tenantId (lt_productId current)) (\<lambda>policy.
        and_then (assertExpirationRequirement (sp_requiresExpiration policy) nextExpirationDate) (\<lambda>_.
        and_then (assertActiveLotIsNotExpired env nextStatus nextExpirationDate) (\<lambda>_.
        and_then (case lc_lotCode payload of None \<Rightarrow> Inr ()
           | Some c \<Rightarrow> assertLotCodeUnique db tenantId (lt_branchId current) (lt_productId current) c (Some lotId)) (\<lambda>_.
        and_then (lot_repo_update env tenantId lotId payload db) (\<lambda>(updated, db').
        and_then (assertLotFound updated) (\<lambda>lot. Inr (lot, db'))))))))))))"

definition lot_block :: "inv_env \<Rightarrow> string \<Rightarrow> string \<Rightarrow> inv_actor \<Rightarrow> inv_db \<Rightarrow> (lot_row \<times> inv_db) http" where
  "lot_block env tenantId lotId a db =
     and_then (lot_findOne tenantId lotId a db) (\<lambda>current.
     and_then (lot_repo_update env tenantId (lt_id current) (no_changes\<lparr>lc_status := Some LOT_BLOCKED\<rparr>) db) (\<lambda>(blocked, db').
     and_then (assertLotFound blocked) (\<lambda>lot. Inr (lot, db'))))"

definition lot_cancel :: "inv_env \<Rightarrow> string \<Rightarrow> string \<Rightarrow> inv_actor \<Rightarrow> inv_db \<Rightarrow> (lot_row \<times> inv_db) http" where
  "lot_cancel env tenantId lotId a db =
     and_then (lot_findOne tenantId lotId a db) (\<lambda>current.
     and_then (require (lt_status current \<noteq> LOT_CONSUMED) ''CONSUMED lot cannot be cancelled'') (\<lambda>_.
     and_then (lot_repo_update env tenantId (lt_id current) (no_changes\<lparr>lc_status := Some LOT_CANCELLED\<rparr>) db) (\<lambda>(cancelled, db').
     and_then (assertLotFound cancelled) (\<lambda>lot. Inr (lot, db')))))"

end
