(* ===== verification/Stock_Adjustments.thy ===== *)
theory Stock_Adjustments
  imports Lot_Service Lot_Balances
begin

section \<open>Stock movements and adjustments\<close>

text \<open>
  \<open>stock-movement.service.ts\<close>, \<open>stock-movement-lot.service.ts\<close> and
  \<open>stock-adjustment.service.ts\<close>: the ledger of movements, the links of movements to lots and the
  manual adjustment, which writes a movement, the lot, its balance and the link in one
  transaction. An adjustment draws the identifiers of its movement (0), its reference (1), a new
  lot (2), a new balance (3) and the link (4).
\<close>

subsection \<open>Movements\<close>

record movement_data =
  md_id :: string
  md_tenantId :: string
  md_productId :: string
  md_in :: bool
  md_quantity :: rat
  md_referenceType :: string
  md_referenceId :: string
  md_branchId :: "string option"
  md_terminalId :: "string option"
  md_posSessionCode :: "string option"
  md_userId :: "string option"
  md_referenceTable :: "string option"
  md_before :: "rat option"
  md_after :: "rat option"
  md_createdAt :: int

definition isOptionalUuid :: "string option \<Rightarrow> bool" where
  "isOptionalUuid v = (case v of None \<Rightarrow> True | Some s \<Rightarrow> s = [] \<or> isUuid s)"

definition short_text :: "string option \<Rightarrow> bool" where
  "short_text v = (case v of None \<Rightarrow> True | Some s \<Rightarrow> length (js_trim s) \<le> 50)"

definition STOCK_REFERENCE_TYPES :: "string list" where
  "STOCK_REFERENCE_TYPES = [''PURCHASE'', ''SALE'', ''ADJUSTMENT'']"

definition movement_entity :: "movement_data \<Rightarrow> movement_data http" where
  "movement_entity m =
     and_then (invariant (isUuid (md_id m)) ''id must be a valid UUID'') (\<lambda>_.
     and_then (invariant (isUuid (md_tenantId m)) ''tenantId must be a valid UUID'') (\<lambda>_.
     and_then (invariant (isUuid (md_productId m)) ''productId must be a valid UUID'') (\<lambda>_.
     and_then (invariant (isUuid (md_referenceId m)) ''referenceId must be a valid UUID'') (\<lambda>_.
     and_then (invariant (isOptionalUuid (md_branchId m)) ''branchId must be a valid UUID'') (\<lambda>_.
     and_then (invariant (isOptionalUuid (md_terminalId m)) ''terminalId must be a valid UUID'') (\<lambda>_.
     and_then (invariant (isOptionalUuid (md_userId m)) ''userId must be a valid UUID'') (\<lambda>_.
     and_then (invariant (md_referenceType m \<in> set STOCK_REFERENCE_TYPES) ''referenceType is invalid'') (\<lambda>_.
     and_then (invariant (0 < md_quantity m) ''quantity must be a positive number'') (\<lambda>_.
     and_then (invariant (short_text (md_posSessionCode m)) ''posSessionCode must be at most 50 characters'') (\<lambda>_.
     and_then (invariant (short_text (md_referenceTable m)) ''referenceTable must be at most 50 characters'') (\<lambda>_.
     Inr (m\<lparr>md_branchId := trimmed (md_branchId m), md_terminalId := trimmed (md_terminalId m),
            md_posSessionCode := trimmed (md_posSessionCode m), md_userId := trimmed (md_userId m),
            md_referenceTable := trimmed (md_referenceTable m)\<rparr>))))))))))))"

definition defaultReferenceTable :: "string \<Rightarrow> string" where
  "defaultReferenceTable referenceType =
     (if referenceType = ''PURCHASE'' then ''purchases'' else if referenceType = ''SALE'' then ''sales''
      else if referenceType = ''ADJUSTMENT'' then ''stock_adjustments'' else ''stock_movements'')"

text \<open>The signed sum of the movements of a product, in thousandths: of one branch, or of all.\<close>

definition signed_quantity :: "movement_row \<Rightarrow> int" where
  "signed_quantity m = (if mv_in m then mv_quantity m else - mv_quantity m)"

definition stock_sum :: "string \<Rightarrow> string \<Rightarrow> string option \<Rightarrow> inv_db \<Rightarrow> int" where
  "stock_sum productId tenantId branchId db =
     sum_list (map signed_quantity (filter (\<lambda>m. mv_productId m = productId \<and> mv_tenantId m = tenantId \<and>
       (branchId = None \<or> mv_branchId m = branchId)) (iv_movements db)))"

definition getCurrentStock :: "string \<Rightarrow> string \<Rightarrow> string option \<Rightarrow> inv_db \<Rightarrow> rat" where
  "getCurrentStock productId tenantId branchId db =
     milli (stock_sum productId tenantId (if truthy branchId then branchId else None) db)"

definition movement_insert :: "inv_env \<Rightarrow> movement_data \<Rightarrow> rat \<Rightarrow> rat \<Rightarrow> inv_db \<Rightarrow> (movement_row \<times> inv_db) http" where
  "movement_insert env m stockBefore stockAfter db =
     (case (iv_quantity env (md_quantity m), iv_quantity env stockBefore, iv_quantity env stockAfter) of
        (Some q, Some b, Some a) \<Rightarrow>
          let row = \<lparr>mv_id = md_id m, mv_tenantId = md_tenantId m, mv_productId = md_productId m, mv_in = md_in m,
                mv_quantity = q, mv_referenceType = md_referenceType m, mv_referenceId = md_referenceId m,
                mv_branchId = md_branchId m, mv_terminalId = md_terminalId m, mv_posSessionCode = md_posSessionCode m,
                mv_userId = md_userId m, mv_referenceTable = md_referenceTable m, mv_before = b, mv_after = a,
                mv_createdAt = md_createdAt m\<rparr>
          in and_then (invariant (mv_id row \<notin> mv_id ` set (iv_movements db)) ''constraint violation'') (\<lambda>_.
             Inr (row, db\<lparr>iv_movements := iv_movements db @ [row]\<rparr>))
      | _ \<Rightarrow> Inl (InternalError ''numeric field overflow''))"

text \<open>The inserted row is read back as an entity, so a quantity the column rounds to zero fails here.\<close>

definition createMovement :: "inv_env \<Rightarrow> movement_data \<Rightarrow> inv_db \<Rightarrow> (movement_row \<times> inv_db) http" where
  "createMovement env m db =
     and_then (require (findProductPolicy db (md_tenantId m) (md_productId m) \<noteq> None) ''product not found for tenant'') (\<lambda>_.
     let stockBefore = coalesce (md_before m) (getCurrentStock (md_productId m) (md_tenantId m) (md_branchId m) db);
         delta = (if md_in m then md_quantity m else - md_quantity m);
         stockAfter = coalesce (md_after m) (dbl (stockBefore + delta))
     in and_then (require (md_in m \<or> 0 \<le> stockAfter) ''insufficient stock for branch'') (\<lambda>_.
        and_then (movement_entity (m\<lparr>md_referenceTable :=
            Some (coalesce (md_referenceTable m) (defaultReferenceTable (md_referenceType m)))\<rparr>)) (\<lambda>e.
        and_then (movement_insert env e stockBefore stockAfter db) (\<lambda>(row, db').
        and_then (movement_entity (e\<lparr>md_quantity := milli (mv_quantity row)\<rparr>)) (\<lambda>_. Inr (row, db'))))))"

subsection \<open>Links of movements to lots\<close>

record link_input =
  ln_tenantId :: string
  ln_movementId :: string
  ln_productId :: string
  ln_lotId :: "string field"
  ln_locationId :: "string field"
  ln_quantity :: jsnum

definition link_entity :: "link_row \<Rightarrow> rat \<Rightarrow> unit http" where
  "link_entity k quantity =
     and_then (invariant (isUuid (lk_id k)) ''id must be a valid UUID'') (\<lambda>_.
     and_then (invariant (isUuid (lk_tenantId k)) ''tenantId must be a valid UUID'') (\<lambda>_.
     and_then (invariant (isUuid (lk_movementId k)) ''stockMovementId must be a valid UUID'') (\<lambda>_.
     and_then (invariant (isUuid (lk_productId k)) ''productId must be a valid UUID'') (\<lambda>_.
     and_then (invariant (opt_uuid (lk_lotId k)) ''lotId must be a valid UUID'') (\<lambda>_.
     and_then (invariant (opt_uuid (lk_locationId k)) ''locationId must be a valid UUID'') (\<lambda>_.
     invariant (0 < quantity) ''quantity must be greater than zero''))))))"

definition assertLinkedLot :: "inv_db \<Rightarrow> string \<Rightarrow> string \<Rightarrow> string field \<Rightarrow> unit http" where
  "assertLinkedLot db tenantId productId lotId =
     (case field_option lotId of
        None \<Rightarrow> Inr ()
      | Some i \<Rightarrow>
          (case find (\<lambda>l. lt_id l = i \<and> lt_tenantId l = tenantId) (iv_lots db) of
             None \<Rightarrow> Inl (BadRequest ''lotId is invalid'')
           | Some l \<Rightarrow> require (lt_productId l = productId) ''lotId does not match productId''))"

definition assertLinkedLocation :: "inv_db \<Rightarrow> string \<Rightarrow> string field \<Rightarrow> unit http" where
  "assertLinkedLocation db tenantId locationId =
     (case field_option locationId of
        None \<Rightarrow> Inr ()
      | Some i \<Rightarrow> require (list_ex (\<lambda>(j, t, b). j = i \<and> t = tenantId) (iv_locations db)) ''locationId is invalid'')"

definition link_insert :: "inv_env \<Rightarrow> link_row \<Rightarrow> rat \<Rightarrow> inv_db \<Rightarrow> (link_row \<times> inv_db) http" where
  "link_insert env k quantity db =
     (case iv_quantity env quantity of
        None \<Rightarrow> Inl (InternalError ''numeric field overflow'')
      | Some q \<Rightarrow>
          let row = k\<lparr>lk_quantity := q\<rparr>
          in and_then (invariant (lk_id row \<notin> lk_id ` set (iv_links db)) ''constraint violation'') (\<lambda>_.
             and_then (link_entity row (milli q)) (\<lambda>_. Inr (row, db\<lparr>iv_links := iv_links db @ [row]\<rparr>))))"

definition createLink :: "inv_env \<Rightarrow> nat \<Rightarrow> link_input \<Rightarrow> inv_db \<Rightarrow> (link_row \<times> inv_db) http" where
  "createLink env n inp db =
     and_then (normalizeRequired (Some (ln_movementId inp)) ''stockMovementId'') (\<lambda>movementId.
     and_then (normalizeRequired (Some (ln_productId inp)) ''productId'') (\<lambda>productId.
     let lotId = normalizeOptionalId (ln_lotId inp); locationId = normalizeOptionalId (ln_locationId inp) in
     and_then (assertPositive (ln_quantity inp) ''quantity'') (\<lambda>x.
     case find (\<lambda>m. mv_id m = movementId \<and> mv_tenantId m = ln_tenantId inp) (iv_movements db) of
       None \<Rightarrow> Inl (BadRequest ''stockMovementId is invalid'')
     | Some m \<Rightarrow>
         and_then (require (mv_productId m = productId) ''productId does not match stock movement'') (\<lambda>_.
         and_then (assertLinkedLot db (ln_tenantId inp) productId lotId) (\<lambda>_.
         and_then (assertLinkedLocation db (ln_tenantId inp) locationId) (\<lambda>_.
         let link = \<lparr>lk_id = iv_uuid env n, lk_tenantId = ln_tenantId inp, lk_movementId = movementId,
               lk_productId = productId, lk_lotId = field_option lotId, lk_locationId = field_option locationId,
               lk_quantity = 0, lk_createdAt = iv_now env\<rparr>
         in and_then (link_entity link x) (\<lambda>_. link_insert env link x db)))))))"

subsection \<open>Adjustments\<close>

record adjustment_input =
  aj_tenantId :: string
  aj_productId :: string
  aj_branchId :: "string option"
  aj_type :: string
  aj_quantity :: jsnum
  aj_lotCode :: "string field"
  aj_expirationDate :: "string field"
  aj_locationId :: "string field"
  aj_unitCost :: "jsnum option"
  aj_terminalId :: "string option"
  aj_posSessionId :: "string option"
  aj_userId :: "string option"

record lot_payload =
  py_lotCode :: string
  py_expirationDate :: "string field"
  py_locationId :: "string field"
  py_unitCost :: "rat option"

definition hasLotData :: "adjustment_input \<Rightarrow> bool" where
  "hasLotData inp \<longleftrightarrow> normalizeOptionalId (aj_lotCode inp) \<noteq> Absent \<or>
     normalizeOptionalId (aj_expirationDate inp) \<noteq> Absent \<or>
     normalizeOptionalId (aj_locationId inp) \<noteq> Absent \<or> aj_unitCost inp \<noteq> None"

definition adjustmentLotCode :: "string field \<Rightarrow> string http" where
  "adjustmentLotCode value =
     (case field_option (normalizeOptionalId value) of
        None \<Rightarrow> Inl (BadRequest ''lotCode is required for this product'')
      | Some s \<Rightarrow> Inr (js_upper s))"

fun adjustmentQuantity :: "jsnum \<Rightarrow> rat http" where
  "adjustmentQuantity (Fin x) = (if x \<le> 0 then Inl (BadRequest ''quantity must be a positive number'') else Inr x)"
| "adjustmentQuantity _ = Inl (BadRequest ''quantity must be a positive number'')"

definition adjustmentUnitCost :: "jsnum option \<Rightarrow> rat option http" where
  "adjustmentUnitCost value =
     (case value of
        None \<Rightarrow> Inr None
      | Some (Fin x) \<Rightarrow> if x < 0 then Inl (BadRequest ''unitCost must be non-negative'') else Inr (Some x)
      | Some _ \<Rightarrow> Inl (BadRequest ''unitCost must be non-negative''))"

definition validateLotPayload :: "adjustment_input \<Rightarrow> stock_product \<Rightarrow> lot_payload option http" where
  "validateLotPayload inp policy =
     (if \<not> sp_requiresLot policy then
        (if hasLotData inp then Inl (BadRequest ''lot data is not allowed for products without lot control'') else Inr None)
      else
        and_then (require (trimmed (aj_branchId inp) \<noteq> None) ''branchId is required for lot adjustment'') (\<lambda>_.
        and_then (adjustmentLotCode (aj_lotCode inp)) (\<lambda>lotCode.
        let expirationDate = field_option (normalizeOptionalId (aj_expirationDate inp)) in
        and_then (require (\<not> (aj_type inp = ''IN'' \<and> sp_requiresExpiration policy \<and> expirationDate = None))
          ''expirationDate is required for this product'') (\<lambda>_.
        and_then (adjustmentUnitCost (aj_unitCost inp)) (\<lambda>unitCost.
        Inr (Some \<lparr>py_lotCode = lotCode,
          py_expirationDate = (case expirationDate of None \<Rightarrow> Absent | Some s \<Rightarrow> Given s),
          py_locationId = nullable (field_option (normalizeOptionalId (aj_locationId inp))),
          py_unitCost = unitCost\<rparr>))))))"

definition productCost :: "stock_product \<Rightarrow> rat" where
  "productCost policy = coalesce (sp_cost policy) 0"

text \<open>The balance change and the link both operations make with the lot they found.\<close>

definition lot_operation :: "adjustment_input \<Rightarrow> lot_payload \<Rightarrow> movement_row \<Rightarrow> string \<Rightarrow> string \<Rightarrow> quantity_operation" where
  "lot_operation inp payload movement branchId lotId =
     \<lparr>qo_branchId = branchId, qo_productId = aj_productId inp, qo_lotId = lotId,
      qo_locationId = py_locationId payload, qo_quantity = Fin (milli (mv_quantity movement)),
      qo_lastMovementAt = Some (mv_createdAt movement)\<rparr>"

definition movement_link :: "adjustment_input \<Rightarrow> lot_payload \<Rightarrow> movement_row \<Rightarrow> string \<Rightarrow> link_input" where
  "movement_link inp payload movement lotId =
     \<lparr>ln_tenantId = aj_tenantId inp, ln_movementId = mv_id movement, ln_productId = aj_productId inp,
      ln_lotId = Given lotId, ln_locationId = py_locationId payload,
      ln_quantity = Fin (milli (mv_quantity movement))\<rparr>"

definition applyLotIn ::
  "inv_env \<Rightarrow> adjustment_input \<Rightarrow> lot_payload \<Rightarrow> stock_product \<Rightarrow> movement_row \<Rightarrow> inv_db \<Rightarrow> inv_db http" where
  "applyLotIn env inp payload policy movement db =
     (case trimmed (aj_branchId inp) of
        None \<Rightarrow> Inl (BadRequest ''branchId is required for lot adjustment'')
      | Some branchId \<Rightarrow>
          and_then (findOrCreateForAdjustmentIn env 2
            \<lparr>ld_tenantId = aj_tenantId inp, ld_branchId = branchId, ld_productId = aj_productId inp,
             ld_supplierId = Null, ld_purchaseId = Null, ld_purchaseItemId = Null, ld_lotCode = py_lotCode payload,
             ld_expirationDate = py_expirationDate payload, ld_receivedAt = Some (TimeDate (mv_createdAt movement)),
             ld_unitCost = Some (Fin (coalesce (py_unitCost payload) (productCost policy))),
             ld_requiresExpiration = sp_requiresExpiration policy\<rparr> db) (\<lambda>(lot, db1).
          and_then (incrementOnHand env 3 (aj_tenantId inp) (lot_operation inp payload movement branchId (lt_id lot)) db1) (\<lambda>(_, db2).
          and_then (createLink env 4 (movement_link inp payload movement (lt_id lot)) db2) (\<lambda>(_, db3).
          Inr db3))))"

definition applyLotOut ::
  "inv_env \<Rightarrow> adjustment_input \<Rightarrow> lot_payload \<Rightarrow> movement_row \<Rightarrow> inv_db \<Rightarrow> inv_db http" where
  "applyLotOut env inp payload movement db =
     (case trimmed (aj_branchId inp) of
        None \<Rightarrow> Inl (BadRequest ''branchId is required for lot adjustment'')
      | Some branchId \<Rightarrow>
          and_then (findForAdjustmentOut (aj_tenantId inp) branchId (aj_productId inp) (py_lotCode payload)
            (py_expirationDate payload) db) (\<lambda>lot.
          and_then (decrementOnHand env (aj_tenantId inp) (lot_operation inp payload movement branchId (lt_id lot)) db) (\<lambda>(_, db2).
          and_then (createLink env 4 (movement_link inp payload movement (lt_id lot)) db2) (\<lambda>(_, db3).
          Inr db3))))"

definition adjustment_movement :: "inv_env \<Rightarrow> adjustment_input \<Rightarrow> rat \<Rightarrow> movement_data" where
  "adjustment_movement env inp quantity =
     \<lparr>md_id = iv_uuid env 0, md_tenantId = aj_tenantId inp, md_productId = aj_productId inp,
      md_in = (aj_type inp = ''IN''), md_quantity = quantity, md_referenceType = ''ADJUSTMENT'',
      md_referenceId = iv_uuid env 1, md_branchId = aj_branchId inp, md_terminalId = aj_terminalId inp,
      md_posSessionCode = aj_posSessionId inp, md_userId = aj_userId inp,
      md_referenceTable = Some ''stock_adjustments'', md_before = None, md_after = None,
      md_createdAt = iv_now env\<rparr>"

definition createAdjustment :: "inv_env \<Rightarrow> adjustment_input \<Rightarrow> inv_db \<Rightarrow> (movement_row \<times> inv_db) http" where
  "createAdjustment env inp db =
     and_then (require (aj_type inp = ''IN'' \<or> aj_type inp = ''OUT'') ''type must be IN or OUT'') (\<lambda>_.
     and_then (adjustmentQuantity (aj_quantity inp)) (\<lambda>quantity.
     case findProductPolicy db (aj_tenantId inp) (aj_productId inp) of
       None \<Rightarrow> Inl (BadRequest ''product not found for tenant'')
     | Some policy \<Rightarrow>
         and_then (validateLotPayload inp policy) (\<lambda>lotPayload.
         and_then (createMovement env (adjustment_movement env inp quantity) db) (\<lambda>(movement, db1).
         case lotPayload of
           None \<Rightarrow> Inr (movement, db1)
         | Some payload \<Rightarrow>
             and_then (if mv_in movement then applyLotIn env inp payload policy movement db1
                       else applyLotOut env inp payload movement db1) (\<lambda>db2. Inr (movement, db2))))))"

end
