(* ===== verification/Balance_Facts.thy ===== *)
theory Balance_Facts
  imports Lot_Balances
begin

section \<open>Facts about balances of lots\<close>

text \<open>
  The service computes balances with floating-point numbers, the columns hold thousandths. Here:
  what survives of a sum or a difference in such a column (exactly the sum or difference of the
  thousandths), and the refinement of the four balance operations to a pair of integers per lot
  and location, on hand and reserved.
\<close>

subsection \<open>Numbers in columns of thousandths\<close>

text \<open>
  What a \<open>numeric(14, 3)\<close> column does with a number: it fails from \<open>10 ^ 11\<close> on and otherwise
  stores the nearest thousandth of the decimal text the driver sends, which is within half a
  thousandth of that text, and the text within half an ulp of the number.
\<close>

definition numeric_14_3 :: "(rat \<Rightarrow> int option) \<Rightarrow> bool" where
  "numeric_14_3 col \<longleftrightarrow> (\<forall>x m. col x = Some m \<longrightarrow> \<bar>x - of_int m / 1000\<bar> < 1 / 1500 \<and> \<bar>m\<bar> < 10 ^ 14)"

definition round_14_3 :: "rat \<Rightarrow> int option" where
  "round_14_3 x = (let m = js_round (x * 1000) in if \<bar>m\<bar> < 10 ^ 14 then Some m else None)"

lemma numeric_round_14_3: "numeric_14_3 round_14_3"
proof -
  have "\<bar>x - of_int (js_round (x * 1000)) / 1000\<bar> < 1 / 1500" for x :: rat
  proof -
    have "of_int (js_round (x * 1000)) \<le> x * 1000 + 1 / 2" "x * 1000 + 1 / 2 < of_int (js_round (x * 1000)) + 1"
      unfolding js_round_def by linarith+
    then show ?thesis by linarith
  qed
  then show ?thesis by (simp add: numeric_14_3_def round_14_3_def Let_def)
qed

lemma milli_wide: "\<bar>m\<bar> \<le> 10 ^ 14 \<Longrightarrow> \<bar>milli m - of_int m / 1000\<bar> \<le> 1 / 131072"
proof -
  assume "\<bar>m\<bar> \<le> 10 ^ 14"
  then have "(of_int \<bar>m\<bar> :: rat) \<le> of_int (10 ^ 14)" by (simp only: of_int_le_iff)
  then have "\<bar>of_int m / 1000 :: rat\<bar> < 2 powi 37" by (simp add: power_int_def)
  then have "\<bar>dbl (of_int m / 1000) - of_int m / 1000\<bar> \<le> 2 powi (37 - 54)" by (intro dbl_error) auto
  moreover have "(2 :: rat) powi (37 - 54) = 1 / 131072" by (simp add: power_int_def power_divide)
  ultimately show ?thesis by (simp add: milli_def)
qed

lemma milli_minus: "milli (- m) = - milli m"
  by (simp add: milli_def dbl_minus)

lemma milli_0 [simp]: "milli 0 = 0"
  by (simp add: milli_def)

lemma milli_le_iff:
  assumes "\<bar>m\<bar> \<le> 10 ^ 14" "\<bar>n\<bar> \<le> 10 ^ 14" shows "milli m \<le> milli n \<longleftrightarrow> m \<le> n"
proof
  show "m \<le> n \<Longrightarrow> milli m \<le> milli n" by (auto simp: milli_def intro: dbl_mono divide_right_mono)
  assume le: "milli m \<le> milli n"
  have "(of_int m :: rat) < of_int (n + 1)"
    using le milli_wide [OF assms(1)] milli_wide [OF assms(2)] unfolding of_int_add of_int_1 by linarith
  then show "m \<le> n" by (simp only: of_int_less_iff)
qed

lemma stored_near:
  assumes "numeric_14_3 col" "col x = Some m" "\<bar>x - of_int n / 1000\<bar> \<le> 1 / 4000" shows "m = n"
proof -
  have "\<bar>x - of_int m / 1000\<bar> < 1 / 1500" using assms(1,2) by (auto simp: numeric_14_3_def)
  with assms(3) have "of_int n < (of_int (m + 1) :: rat)" "of_int m < (of_int (n + 1) :: rat)"
    unfolding of_int_add of_int_1 by linarith+
  then show ?thesis by (simp only: of_int_less_iff)
qed

lemma stored_bound: "numeric_14_3 col \<Longrightarrow> col x = Some m \<Longrightarrow> \<bar>m\<bar> < 10 ^ 14"
  by (auto simp: numeric_14_3_def)

lemma stored_milli: "numeric_14_3 col \<Longrightarrow> \<bar>n\<bar> \<le> 10 ^ 14 \<Longrightarrow> col (milli n) = Some m \<Longrightarrow> m = n"
  using milli_wide [of n] by (intro stored_near [of col "milli n" m n]) linarith+

lemma sum_near:
  assumes "\<bar>m\<bar> \<le> 10 ^ 14" "\<bar>x - of_int n / 1000\<bar> \<le> e" "e \<le> 1" "\<bar>n\<bar> \<le> 10 ^ 14"
  shows "\<bar>dbl (milli m + x) - of_int (m + n) / 1000\<bar> \<le> 1 / 32768 + e"
proof -
  have m: "\<bar>milli m - of_int m / 1000\<bar> \<le> 1 / 131072" by (rule milli_wide [OF assms(1)])
  have "(of_int \<bar>m\<bar> :: rat) \<le> of_int (10 ^ 14)" "(of_int \<bar>n\<bar> :: rat) \<le> of_int (10 ^ 14)"
    using assms(1,4) by (simp_all only: of_int_le_iff)
  then have "\<bar>of_int m :: rat\<bar> \<le> 100000000000000" "\<bar>of_int n :: rat\<bar> \<le> 100000000000000" by simp_all
  then have "\<bar>milli m + x\<bar> < 274877906944" using m assms(2,3) by linarith
  then have "\<bar>milli m + x\<bar> < 2 powi 38" by (simp add: power_int_def)
  then have "\<bar>dbl (milli m + x) - (milli m + x)\<bar> \<le> 2 powi (38 - 54)" by (intro dbl_error) auto
  moreover have "(2 :: rat) powi (38 - 54) = 1 / 65536" by (simp add: power_int_def power_divide)
  ultimately have "\<bar>dbl (milli m + x) - (milli m + x)\<bar> \<le> 1 / 65536" by simp
  then show ?thesis using m assms(2) unfolding of_int_add add_divide_distrib by linarith
qed

lemma stored_sum:
  assumes "numeric_14_3 col" "\<bar>m\<bar> \<le> 10 ^ 14" "\<bar>n\<bar> \<le> 10 ^ 14" "col (dbl (milli m + milli n)) = Some k"
  shows "k = m + n"
proof (rule stored_near [OF assms(1,4)])
  have "\<bar>dbl (milli m + milli n) - of_int (m + n) / 1000\<bar> \<le> 1 / 32768 + 1 / 131072"
    by (rule sum_near) (use assms(2,3) milli_wide [OF assms(3)] in simp_all)
  then show "\<bar>dbl (milli m + milli n) - of_int (m + n) / 1000\<bar> \<le> 1 / 4000" by linarith
qed

lemma stored_diff:
  assumes "numeric_14_3 col" "\<bar>m\<bar> \<le> 10 ^ 14" "\<bar>n\<bar> \<le> 10 ^ 14" "col (dbl (milli m - milli n)) = Some k"
  shows "k = m - n"
  using stored_sum [OF assms(1,2), of "- n" k] assms(3,4) by (simp add: milli_minus)

subsection \<open>Identifiers\<close>

lemma js_trim_id: "\<forall>c\<in>set s. \<not> js_space c \<Longrightarrow> js_trim s = s"
proof -
  have id: "\<forall>c\<in>set t. \<not> js_space c \<Longrightarrow> dropWhile js_space t = t" for t by (cases t) auto
  assume "\<forall>c\<in>set s. \<not> js_space c"
  then show ?thesis by (simp add: js_trim_def id)
qed

lemma hex_not_space: "hex_value c \<noteq> None \<Longrightarrow> \<not> js_space c"
  by (auto simp: hex_value_def js_space_def Let_def split: if_splits)

lemma isUuid_trim: "isUuid s \<Longrightarrow> js_trim s = s" and isUuid_nonempty: "isUuid s \<Longrightarrow> s \<noteq> []"
proof -
  assume u: "isUuid s"
  then have len: "length s = 36" by (simp add: isUuid_def)
  then show "s \<noteq> []" by auto
  show "js_trim s = s"
  proof (rule js_trim_id, rule ballI)
    fix c assume "c \<in> set s"
    then obtain i where i: "i < 36" "c = s ! i" using len by (auto simp: in_set_conv_nth)
    then have "(i, c) \<in> set (zip [0..<36] s)" using len by (force simp: in_set_zip)
    with u have "if i \<in> {8, 13, 18, 23} then c = CHR ''-'' else hex_value c \<noteq> None"
      by (auto simp: isUuid_def list_all_iff)
    moreover have "\<not> js_space (CHR ''-'')" by code_simp
    ultimately show "\<not> js_space c" using hex_not_space by (auto split: if_splits)
  qed
qed

lemma js_trim_Nil [simp]: "js_trim [] = []"
  by (simp add: js_trim_def)

lemma normalizeRequired_uuid [simp]: "isUuid s \<Longrightarrow> normalizeRequired (Some s) f = Inr s"
  by (simp add: normalizeRequired_def trimmed_def isUuid_trim isUuid_nonempty)

lemma normalizeOptionalId_uuid [simp]: "isUuid s \<Longrightarrow> normalizeOptionalId (Given s) = Given s"
  by (simp add: isUuid_trim isUuid_nonempty)

subsection \<open>The accounts of a table of balances\<close>

lemma sum_update_where:
  fixes g :: "'a \<Rightarrow> int"
  assumes "distinct (map k xs)" "x \<in> set xs" "\<And>y. y \<in> set xs \<Longrightarrow> P y \<longleftrightarrow> k y = k x"
  shows "sum_list (map g (update_where P f xs)) = sum_list (map g xs) - g x + g (f x)"
  using assms
proof (induction xs)
  case (Cons y ys)
  show ?case
  proof (cases "y = x")
    case True
    then have "\<forall>z\<in>set ys. \<not> P z" using Cons.prems by (auto simp: image_iff)
    then have "update_where P f ys = ys" by (rule update_where_none)
    moreover have "P x" using Cons.prems by simp
    ultimately show ?thesis using True by (simp add: update_where_def)
  next
    case False
    then have x: "x \<in> set ys" using Cons.prems by simp
    then have "k y \<noteq> k x" using Cons.prems(1) by auto
    then have "\<not> P y" using Cons.prems(3) by simp
    then show ?thesis using Cons.IH x Cons.prems by (simp add: update_where_def)
  qed
qed simp

definition account :: "inv_db \<Rightarrow> string \<times> string \<times> string \<times> string \<times> string option \<Rightarrow> int \<times> int" where
  "account db key = (case find (\<lambda>r. balance_key r = key) (iv_balances db) of
     None \<Rightarrow> (0, 0) | Some r \<Rightarrow> (bl_onHand r, bl_reserved r))"

definition balances_wf :: "inv_db \<Rightarrow> bool" where
  "balances_wf db \<longleftrightarrow> distinct (map bl_id (iv_balances db)) \<and> distinct (map balance_key (iv_balances db)) \<and>
     (\<forall>r\<in>set (iv_balances db). 0 \<le> bl_reserved r \<and> bl_reserved r \<le> bl_onHand r \<and> bl_onHand r < 10 ^ 14) \<and>
     (\<forall>(i, t, b)\<in>set (iv_locations db). isUuid i) \<and>
     (\<forall>l\<in>set (iv_lots db). isUuid (lt_id l) \<and> isUuid (lt_branchId l) \<and> isUuid (lt_productId l))"

lemma at_lot_location_key: "at_lot_location t b p l loc r \<longleftrightarrow> balance_key r = (t, b, p, l, location_key loc)"
  by (auto simp: at_lot_location_def balance_key_def)

lemma find_unique:
  assumes "distinct (map k xs)" "x \<in> set xs" shows "find (\<lambda>y. k y = k x) xs = Some x"
  using assms by (induction xs) auto

lemma account_row:
  assumes "balances_wf db" "r \<in> set (iv_balances db)"
  shows "account db (balance_key r) = (bl_onHand r, bl_reserved r)"
  using assms find_unique [of balance_key "iv_balances db" r] by (simp add: account_def balances_wf_def)

text \<open>An update of one row changes the account of its key and no other.\<close>

lemma account_update:
  assumes "balances_wf db" "row \<in> set (iv_balances db)"
  shows "account (db\<lparr>iv_balances := update_where (\<lambda>x. bl_tenantId x = bl_tenantId row \<and> bl_id x = bl_id row)
      (changed_balance now h r tm) (iv_balances db)\<rparr>) =
    (account db) (balance_key row := (coalesce h (bl_onHand row), coalesce r (bl_reserved row)))"
proof -
  let ?P = "\<lambda>x. bl_tenantId x = bl_tenantId row \<and> bl_id x = bl_id row" and ?f = "changed_balance now h r tm"
  have key: "balance_key (?f x) = balance_key x" for x by (simp add: changed_balance_def balance_key_def)
  have P: "?P x \<longleftrightarrow> x = row" if "x \<in> set (iv_balances db)" for x
    using that assms key_unique [of bl_id "iv_balances db" x row] by (auto simp: balances_wf_def)
  have "find (\<lambda>x. balance_key x = k) (update_where ?P ?f xs) =
      map_option (\<lambda>x. if ?P x then ?f x else x) (find (\<lambda>x. balance_key x = k) xs)" for k xs
    by (induction xs) (simp_all add: update_where_def key)
  then have find: "find (\<lambda>x. balance_key x = k) (update_where ?P ?f (iv_balances db)) =
      map_option (\<lambda>x. if ?P x then ?f x else x) (find (\<lambda>x. balance_key x = k) (iv_balances db))" for k .
  have "account (db\<lparr>iv_balances := update_where ?P ?f (iv_balances db)\<rparr>) k =
      (case find (\<lambda>x. balance_key x = k) (iv_balances db) of None \<Rightarrow> (0, 0)
        | Some x \<Rightarrow> if x = row then (coalesce h (bl_onHand row), coalesce r (bl_reserved row)) else (bl_onHand x, bl_reserved x))" for k
  proof (cases "find (\<lambda>x. balance_key x = k) (iv_balances db)")
    case (Some x)
    then have "?P x \<longleftrightarrow> x = row" using find_in [OF Some] P by simp
    with Some show ?thesis by (auto simp: account_def changed_balance_def find)
  qed (simp add: account_def find)
  moreover have "find (\<lambda>x. balance_key x = balance_key row) (iv_balances db) = Some row"
    using assms by (intro find_unique) (simp_all add: balances_wf_def)
  ultimately show ?thesis
    by (auto simp: fun_eq_iff account_def split: option.splits dest: find_in)
qed

subsection \<open>The operations as steps of an account\<close>

lemma balance_entity_Inr: "balance_entity b = Inr e \<Longrightarrow> e = b"
  by (simp add: balance_entity_def result_simps)

lemma balance_of_row_simps [simp]:
  "ba_id (balance_of_row r) = bl_id r" "ba_onHand (balance_of_row r) = milli (bl_onHand r)"
  "ba_reserved (balance_of_row r) = milli (bl_reserved r)"
  "ba_available (balance_of_row r) = milli (bl_onHand r - bl_reserved r)"
  by (simp_all add: balance_of_row_def)

lemma read_balance_Some: "read_balance r = Inr (Some b) \<longleftrightarrow> (\<exists>row. r = Some row \<and> balance_entity (balance_of_row row) = Inr b)"
  by (cases r) (auto simp: result_simps)

lemma read_balance_None: "read_balance r = Inr None \<longleftrightarrow> r = None"
  by (cases r) (auto simp: result_simps)

lemma column_of_Inr:
  "column_of col v = Inr w \<longleftrightarrow> (case v of None \<Rightarrow> w = None | Some x \<Rightarrow> \<exists>m. col x = Some m \<and> w = Some m)"
  by (cases v) (auto split: option.splits)

definition set_account ::
  "int \<Rightarrow> balance_row \<Rightarrow> int option \<Rightarrow> int option \<Rightarrow> int field \<Rightarrow> inv_db \<Rightarrow> inv_db" where
  "set_account now row h r tm db =
     db\<lparr>iv_balances := update_where (\<lambda>x. bl_tenantId x = bl_tenantId row \<and> bl_id x = bl_id row)
       (changed_balance now h r tm) (iv_balances db)\<rparr>"

definition operation_key :: "string \<Rightarrow> quantity_operation \<Rightarrow> string \<times> string \<times> string \<times> string \<times> string option" where
  "operation_key t q = (t, qo_branchId q, qo_productId q, qo_lotId q, location_key (qo_locationId q))"

lemma balance_of_operation_Some:
  assumes "balance_of_operation t q db = Inr (Some b)"
  shows "\<exists>row\<in>set (iv_balances db). b = balance_of_row row \<and> balance_key row = operation_key t q \<and> bl_tenantId row = t \<and>
     find (at_lot_location t (qo_branchId q) (qo_productId q) (qo_lotId q) (qo_locationId q)) (iv_balances db) = Some row"
proof -
  from assms obtain row where row: "find (at_lot_location t (qo_branchId q) (qo_productId q) (qo_lotId q) (qo_locationId q)) (iv_balances db) = Some row"
      "balance_entity (balance_of_row row) = Inr b"
    by (auto simp: balance_of_operation_def findByLotLocation_def read_balance_Some)
  with find_in [OF row(1)] balance_entity_Inr [OF row(2)] show ?thesis
    by (auto simp: at_lot_location_key operation_key_def balance_key_def)
qed

lemma repo_change_effect:
  assumes "repo_change env t q c db = Inr (Some b', db')" "balance_of_operation t q db = Inr (Some b)"
    "qc_onHand (c b) \<noteq> None \<or> qc_reserved (c b) \<noteq> None"
  shows "\<exists>row h r. row \<in> set (iv_balances db) \<and> b = balance_of_row row \<and> balance_key row = operation_key t q \<and>
     column_of (iv_quantity env) (qc_onHand (c b)) = Inr h \<and> column_of (iv_quantity env) (qc_reserved (c b)) = Inr r \<and>
     db' = set_account (iv_now env) row h r (qc_lastMovementAt (c b)) db"
proof -
  obtain row where row: "row \<in> set (iv_balances db)" "b = balance_of_row row" "balance_key row = operation_key t q" "bl_tenantId row = t"
    using balance_of_operation_Some [OF assms(2)] by blast
  have "ba_id b = bl_id row" by (simp add: row(2))
  then obtain h r where "column_of (iv_quantity env) (qc_onHand (c b)) = Inr h"
      "column_of (iv_quantity env) (qc_reserved (c b)) = Inr r"
      "db' = set_account (iv_now env) row h r (qc_lastMovementAt (c b)) db"
    using assms by (auto simp: repo_change_def balance_repo_update_def result_simps set_account_def Let_def row(4))
  with row show ?thesis by blast
qed

datatype account_op = Increment | Decrement | Reserve | Release

fun account_step :: "account_op \<Rightarrow> int \<Rightarrow> int \<times> int \<Rightarrow> (int \<times> int) option" where
  "account_step Increment k (h, r) = Some (h + k, r)"
| "account_step Decrement k (h, r) = (if k \<le> h - r then Some (h - k, r) else None)"
| "account_step Reserve k (h, r) = (if k \<le> h - r then Some (h, r + k) else None)"
| "account_step Release k (h, r) = (if k \<le> r then Some (h, r - k) else None)"

fun perform :: "account_op \<Rightarrow> inv_env \<Rightarrow> nat \<Rightarrow> string \<Rightarrow> quantity_operation \<Rightarrow> inv_db \<Rightarrow> (balance \<times> inv_db) http" where
  "perform Increment env n t q db = incrementOnHand env n t q db"
| "perform Decrement env n t q db = decrementOnHand env t q db"
| "perform Reserve env n t q db = reserve env t q db"
| "perform Release env n t q db = releaseReservation env t q db"

lemma assertPositive_Inr: "assertPositive v f = Inr x \<longleftrightarrow> v = Fin x \<and> 0 < x"
  by (cases v) auto

lemma assertBalanceFound_Inr [simp]: "assertBalanceFound v = Inr b \<longleftrightarrow> v = Some b"
  by (cases v) (simp_all add: assertBalanceFound_def)

text \<open>A checked operation found a row that has enough, and wrote it.\<close>

lemma checked_change_effect:
  assumes "checked_change t q limit m (\<lambda>x. repo_change env t q (c x)) db = Inr (b', db')" "qo_quantity q = Fin x"
    "\<And>b. qc_onHand (c x b) \<noteq> None \<or> qc_reserved (c x b) \<noteq> None"
  shows "\<exists>row h r. row \<in> set (iv_balances db) \<and> balance_key row = operation_key t q \<and> 0 < x \<and>
     x \<le> limit (balance_of_row row) \<and>
     column_of (iv_quantity env) (qc_onHand (c x (balance_of_row row))) = Inr h \<and>
     column_of (iv_quantity env) (qc_reserved (c x (balance_of_row row))) = Inr r \<and>
     db' = set_account (iv_now env) row h r (qc_lastMovementAt (c x (balance_of_row row))) db"
proof -
  from assms(1,2) obtain b where b: "balance_of_operation t q db = Inr (Some b)" "0 < x" "x \<le> limit b"
      "repo_change env t q (c x) db = Inr (Some b', db')"
    by (auto simp: checked_change_def result_simps assertPositive_Inr not_less simp del: assertPositive.simps split: prod.splits)
  from repo_change_effect [OF b(4,1) assms(3)] b(2,3) show ?thesis by blast
qed

lemma createBalance_effect:
  assumes "createBalance env n t inp db = Inr (b, db')" "numeric_14_3 (iv_quantity env)"
    "cb_branchId inp = Some branch" "cb_productId inp = Some product" "cb_lotId inp = Some lot"
    "isUuid branch" "isUuid product" "isUuid lot" "case location_key (cb_locationId inp) of None \<Rightarrow> True | Some i \<Rightarrow> isUuid i"
    "cb_onHand inp = Some (Fin (milli k))" "cb_reserved inp = Some (Fin 0)" "0 < k" "k \<le> 10 ^ 14"
  shows "\<exists>row. db' = db\<lparr>iv_balances := iv_balances db @ [row]\<rparr> \<and> bl_id row \<notin> bl_id ` set (iv_balances db) \<and>
     balance_key row \<notin> balance_key ` set (iv_balances db) \<and>
     balance_key row = (t, branch, product, lot, location_key (cb_locationId inp)) \<and>
     bl_onHand row = k \<and> bl_reserved row = 0 \<and> k < 10 ^ 14"
proof -
  have loc: "field_option (normalizeOptionalId (cb_locationId inp)) = location_key (cb_locationId inp)"
    using assms(9) by (cases "cb_locationId inp") (auto simp: isUuid_trim split: if_splits)
  from assms(1) obtain x where x: "balance_insert env x db = Inr (b, db')"
      "ba_onHand x = milli k" "ba_reserved x = 0" "ba_tenantId x = t" "ba_branchId x = branch" "ba_productId x = product"
      "ba_lotId x = lot" "ba_locationId x = location_key (cb_locationId inp)"
    unfolding createBalance_def
    by (auto simp: result_simps assms(3-8,10,11) loc assertQuantities_def Let_def split: prod.splits if_splits
        dest!: balance_entity_Inr)
  from x(1) obtain h r where hr: "iv_quantity env (milli k) = Some h" "iv_quantity env 0 = Some r"
    by (auto simp: balance_insert_def x(2,3) split: option.splits)
  have h: "h = k" using stored_milli [OF assms(2) _ hr(1)] assms(12,13) by simp
  have r: "r = 0" using stored_milli [OF assms(2), of 0 r] hr(2) by simp
  have "k < 10 ^ 14" using stored_bound [OF assms(2) hr(1)] h assms(12) by simp
  with x(1) show ?thesis
    by (auto simp: balance_insert_def x(2-8) hr h r Let_def result_simps balance_key_def)
qed

lemma location_uuid:
  assumes "balances_wf db" "assertLocationShape db t b loc = Inr u"
  shows "case location_key loc of None \<Rightarrow> True | Some i \<Rightarrow> isUuid i"
  using assms by (auto simp: assertLocationShape_def balances_wf_def split: option.splits)

lemma assertLotShape_Inr:
  "assertLotShape db t b p i = Inr u \<longleftrightarrow>
     (\<exists>l. find (\<lambda>l. lt_id l = i \<and> lt_tenantId l = t) (iv_lots db) = Some l \<and> lt_branchId l = b \<and> lt_productId l = p)"
  by (auto simp: assertLotShape_def result_simps split: option.splits)

lemma find_key_None: "v \<notin> k ` set xs \<Longrightarrow> find (\<lambda>r. k r = v) xs = None"
  by (induction xs) auto

lemma account_append:
  assumes "balance_key row \<notin> balance_key ` set (iv_balances db)"
  shows "account (db\<lparr>iv_balances := iv_balances db @ [row]\<rparr>) = (account db) (balance_key row := (bl_onHand row, bl_reserved row))"
proof -
  have "find P (xs @ ys) = (case find P xs of None \<Rightarrow> find P ys | Some x \<Rightarrow> Some x)" for P :: "balance_row \<Rightarrow> bool" and xs ys
    by (induction xs) auto
  moreover have "find (\<lambda>r. balance_key r = balance_key row) (iv_balances db) = None"
    using assms by (rule find_key_None)
  ultimately show ?thesis by (auto simp: fun_eq_iff account_def split: option.splits)
qed

text \<open>What an increment does: it adds to a row, or adds a row.\<close>

lemma incrementOnHand_effect:
  assumes "incrementOnHand env n t q db = Inr (b, db')" "numeric_14_3 (iv_quantity env)" "balances_wf db"
    "qo_quantity q = Fin (milli k)" "k \<le> 10 ^ 14"
  shows "0 < k \<and>
    ((\<exists>row tm. row \<in> set (iv_balances db) \<and> balance_key row = operation_key t q \<and> bl_onHand row + k < 10 ^ 14 \<and>
        db' = set_account (iv_now env) row (Some (bl_onHand row + k)) None tm db) \<or>
     (\<exists>row. operation_key t q \<notin> balance_key ` set (iv_balances db) \<and> db' = db\<lparr>iv_balances := iv_balances db @ [row]\<rparr> \<and>
        bl_id row \<notin> bl_id ` set (iv_balances db) \<and> balance_key row = operation_key t q \<and> bl_onHand row = k \<and>
        bl_reserved row = 0 \<and> k < 10 ^ 14)) \<and>
    (\<exists>l\<in>set (iv_lots db). lt_id l = qo_lotId q \<and> lt_tenantId l = t \<and> lt_branchId l = qo_branchId q \<and> lt_productId l = qo_productId q)"
proof -
  from assms(1) have pos: "0 < k" and shape: "assertLotShape db t (qo_branchId q) (qo_productId q) (qo_lotId q) = Inr ()"
    and loc: "assertLocationShape db t (qo_branchId q) (qo_locationId q) = Inr ()"
    by (auto simp: incrementOnHand_def result_simps assms(4) assertPositive_Inr milli_pos simp del: assertPositive.simps)
  from pos have np: "\<not> milli k \<le> 0" using milli_pos [of k] by linarith
  from shape have lot: "\<exists>l\<in>set (iv_lots db). lt_id l = qo_lotId q \<and> lt_tenantId l = t \<and> lt_branchId l = qo_branchId q \<and> lt_productId l = qo_productId q"
    by (auto simp: assertLotShape_Inr dest: find_in)
  then have uuid: "isUuid (qo_lotId q)" "isUuid (qo_branchId q)" "isUuid (qo_productId q)"
    using assms(3) by (auto simp: balances_wf_def)
  obtain found where found: "balance_of_operation t q db = Inr found"
    using assms(1) by (auto simp: incrementOnHand_def result_simps simp del: assertPositive.simps)
  have "(\<exists>row tm. row \<in> set (iv_balances db) \<and> balance_key row = operation_key t q \<and> bl_onHand row + k < 10 ^ 14 \<and>
        db' = set_account (iv_now env) row (Some (bl_onHand row + k)) None tm db) \<or>
     (\<exists>row. operation_key t q \<notin> balance_key ` set (iv_balances db) \<and> db' = db\<lparr>iv_balances := iv_balances db @ [row]\<rparr> \<and>
        bl_id row \<notin> bl_id ` set (iv_balances db) \<and> balance_key row = operation_key t q \<and> bl_onHand row = k \<and>
        bl_reserved row = 0 \<and> k < 10 ^ 14)"
  proof (cases found)
    case None
    let ?inp = "\<lparr>cb_branchId = Some (qo_branchId q), cb_productId = Some (qo_productId q), cb_lotId = Some (qo_lotId q),
        cb_locationId = qo_locationId q, cb_onHand = Some (Fin (milli k)), cb_reserved = Some (Fin 0),
        cb_lastMovementAt = Some (coalesce (qo_lastMovementAt q) (iv_now env))\<rparr>"
    have "createBalance env n t ?inp db = Inr (b, db')"
      using assms(1) shape loc found None by (simp add: incrementOnHand_def assms(4) np)
    from createBalance_effect [OF this assms(2), of "qo_branchId q" "qo_productId q" "qo_lotId q" k]
    show ?thesis using uuid pos assms(5) location_uuid [OF assms(3) loc] by (auto simp: operation_key_def)
  next
    case (Some x)
    then have change: "repo_incrementOnHand env t q (milli k) db = Inr (Some b, db')"
      using assms(1) pos shape loc found
      by (auto simp: incrementOnHand_def assms(4) np result_simps split: prod.splits)
    from repo_change_effect [OF change [unfolded repo_incrementOnHand_def] found [unfolded Some]]
    obtain row h tm where row: "row \<in> set (iv_balances db)" "x = balance_of_row row" "balance_key row = operation_key t q"
        "iv_quantity env (dbl (milli (bl_onHand row) + milli k)) = Some h" "db' = set_account (iv_now env) row (Some h) None tm db"
      by (auto simp: column_of_Inr simp del: column_of.simps)
    have "0 \<le> bl_onHand row" "bl_onHand row < 10 ^ 14" using assms(3) row(1) by (force simp: balances_wf_def)+
    then have "h = bl_onHand row + k" using stored_sum [OF assms(2) _ _ row(4)] pos assms(5) by simp
    moreover have "h < 10 ^ 14" using stored_bound [OF assms(2) row(4)] by simp
    ultimately show ?thesis using row by blast
  qed
  with pos lot show ?thesis by blast
qed

lemma decrementOnHand_effect:
  assumes "decrementOnHand env t q db = Inr (b, db')" "numeric_14_3 (iv_quantity env)" "balances_wf db"
    "qo_quantity q = Fin (milli k)" "k \<le> 10 ^ 14"
  shows "\<exists>row tm. row \<in> set (iv_balances db) \<and> balance_key row = operation_key t q \<and> 0 < k \<and>
     k \<le> bl_onHand row - bl_reserved row \<and>
     db' = set_account (iv_now env) row (Some (bl_onHand row - k)) None tm db"
proof -
  from checked_change_effect [OF assms(1) [unfolded decrementOnHand_def repo_decrementOnHand_def] assms(4)]
  obtain row h tm where row: "row \<in> set (iv_balances db)" "balance_key row = operation_key t q" "0 < k"
      "milli k \<le> milli (bl_onHand row - bl_reserved row)"
      "iv_quantity env (dbl (milli (bl_onHand row) - milli k)) = Some h"
      "db' = set_account (iv_now env) row (Some h) None tm db"
    by (auto simp: column_of_Inr milli_pos simp del: column_of.simps)
  have wf: "0 \<le> bl_reserved row" "bl_reserved row \<le> bl_onHand row" "bl_onHand row < 10 ^ 14"
    using assms(3) row(1) by (force simp: balances_wf_def)+
  have "h = bl_onHand row - k" using stored_diff [OF assms(2) _ _ row(5)] wf row(3) assms(5) by simp
  moreover have "k \<le> bl_onHand row - bl_reserved row"
    using row(4) by (subst (asm) milli_le_iff) (use wf row(3) assms(5) in auto)
  ultimately show ?thesis using row by blast
qed

lemma reserve_effect:
  assumes "reserve env t q db = Inr (b, db')" "numeric_14_3 (iv_quantity env)" "balances_wf db"
    "qo_quantity q = Fin (milli k)" "k \<le> 10 ^ 14"
  shows "\<exists>row tm. row \<in> set (iv_balances db) \<and> balance_key row = operation_key t q \<and> 0 < k \<and>
     k \<le> bl_onHand row - bl_reserved row \<and>
     db' = set_account (iv_now env) row None (Some (bl_reserved row + k)) tm db"
proof -
  from checked_change_effect [OF assms(1) [unfolded reserve_def repo_reserve_def] assms(4)]
  obtain row h tm where row: "row \<in> set (iv_balances db)" "balance_key row = operation_key t q" "0 < k"
      "milli k \<le> milli (bl_onHand row - bl_reserved row)"
      "iv_quantity env (dbl (milli (bl_reserved row) + milli k)) = Some h"
      "db' = set_account (iv_now env) row None (Some h) tm db"
    by (auto simp: column_of_Inr milli_pos simp del: column_of.simps)
  have wf: "0 \<le> bl_reserved row" "bl_reserved row \<le> bl_onHand row" "bl_onHand row < 10 ^ 14"
    using assms(3) row(1) by (force simp: balances_wf_def)+
  have "h = bl_reserved row + k" using stored_sum [OF assms(2) _ _ row(5)] wf row(3) assms(5) by simp
  moreover have "k \<le> bl_onHand row - bl_reserved row"
    using row(4) by (subst (asm) milli_le_iff) (use wf row(3) assms(5) in auto)
  ultimately show ?thesis using row by blast
qed

lemma releaseReservation_effect:
  assumes "releaseReservation env t q db = Inr (b, db')" "numeric_14_3 (iv_quantity env)" "balances_wf db"
    "qo_quantity q = Fin (milli k)" "k \<le> 10 ^ 14"
  shows "\<exists>row tm. row \<in> set (iv_balances db) \<and> balance_key row = operation_key t q \<and> 0 < k \<and> k \<le> bl_reserved row \<and>
     db' = set_account (iv_now env) row None (Some (bl_reserved row - k)) tm db"
proof -
  from checked_change_effect [OF assms(1) [unfolded releaseReservation_def repo_releaseReservation_def] assms(4)]
  obtain row h tm where row: "row \<in> set (iv_balances db)" "balance_key row = operation_key t q" "0 < k"
      "milli k \<le> milli (bl_reserved row)"
      "iv_quantity env (dbl (milli (bl_reserved row) - milli k)) = Some h"
      "db' = set_account (iv_now env) row None (Some h) tm db"
    by (auto simp: column_of_Inr milli_pos simp del: column_of.simps)
  have wf: "0 \<le> bl_reserved row" "bl_reserved row \<le> bl_onHand row" "bl_onHand row < 10 ^ 14"
    using assms(3) row(1) by (force simp: balances_wf_def)+
  have "h = bl_reserved row - k" using stored_diff [OF assms(2) _ _ row(5)] wf row(3) assms(5) by simp
  moreover have "k \<le> bl_reserved row"
    using row(4) by (subst (asm) milli_le_iff) (use wf row(3) assms(5) in auto)
  ultimately show ?thesis using row by blast
qed

text \<open>
  Property C30: each of the four balance operations, on a quantity of whole thousandths, is a step
  of an integer account per lot and location: when the service succeeds, the account of that lot
  and location makes exactly the step, every other account is as before, and a step the account
  refuses (more than is available, or than is reserved) the service refuses too.
\<close>

theorem balance_operation_refines:
  assumes "perform op env n t q db = Inr (b, db')" "numeric_14_3 (iv_quantity env)" "balances_wf db"
    "qo_quantity q = Fin (milli k)" "k \<le> 10 ^ 14"
  shows "0 < k \<and> (\<exists>new. account_step op k (account db (operation_key t q)) = Some new \<and>
     account db' = (account db)(operation_key t q := new))"
proof -
  have upd: "account (set_account now row h r tm db) = (account db)(operation_key t q := (coalesce h (bl_onHand row), coalesce r (bl_reserved row)))"
      "account db (operation_key t q) = (bl_onHand row, bl_reserved row)"
    if "row \<in> set (iv_balances db)" "balance_key row = operation_key t q" for row now h r tm
    using account_update [OF assms(3) that(1), of now h r tm] account_row [OF assms(3) that(1)] that(2)
    by (simp_all add: set_account_def)
  show ?thesis
  proof (cases op)
    case Increment
    from incrementOnHand_effect [OF _ assms(2-5)] assms(1) Increment
    consider (old) row tm where "0 < k" "row \<in> set (iv_balances db)" "balance_key row = operation_key t q"
        "db' = set_account (iv_now env) row (Some (bl_onHand row + k)) None tm db"
      | (new) row where "0 < k" "operation_key t q \<notin> balance_key ` set (iv_balances db)" "db' = db\<lparr>iv_balances := iv_balances db @ [row]\<rparr>"
        "balance_key row = operation_key t q" "bl_onHand row = k" "bl_reserved row = 0"
      by auto blast+
    then show ?thesis
    proof cases
      case old
      then show ?thesis by (simp add: upd Increment)
    next
      case new
      have "account db (operation_key t q) = (0, 0)"
        using find_key_None [OF new(2)] by (simp add: account_def)
      then show ?thesis using account_append [of row db] new by (simp add: Increment)
    qed
  next
    case Decrement
    then show ?thesis using decrementOnHand_effect [OF _ assms(2-5)] assms(1) by (fastforce simp: upd)
  next
    case Reserve
    then show ?thesis using reserve_effect [OF _ assms(2-5)] assms(1) by (fastforce simp: upd)
  next
    case Release
    then show ?thesis using releaseReservation_effect [OF _ assms(2-5)] assms(1) by (fastforce simp: upd)
  qed
qed

subsection \<open>A reservation\<close>

definition uid :: "char \<Rightarrow> string" where
  "uid c = replicate 8 c @ ''-'' @ replicate 4 c @ ''-'' @ replicate 4 c @ ''-'' @ replicate 4 c @ ''-'' @ replicate 12 c"

lemma isUuid_uid: "hex_value c \<noteq> None \<Longrightarrow> isUuid (uid c)"
  by (simp add: isUuid_def uid_def upt_rec numeral_eq_Suc)

lemma demo_uids [simp]: "isUuid (uid (CHR ''1''))" "isUuid (uid (CHR ''2''))" "isUuid (uid (CHR ''3''))" "isUuid (uid (CHR ''4''))"
  "isUuid (uid (CHR ''5''))" "isUuid (uid (CHR ''6''))" "isUuid (uid (CHR ''7''))" "isUuid (uid (CHR ''8''))"
  by (rule isUuid_uid; code_simp)+

lemma uid_simps [simp]: "uid c \<noteq> []" 
  by (simp_all add: uid_def)

lemmas uid_trim [simp] = demo_uids [THEN isUuid_trim]

lemma uid_inj [simp]: "uid c = uid d \<longleftrightarrow> c = d"
  by (auto simp: uid_def)
definition demo_balance_env :: inv_env where
  "demo_balance_env = \<lparr>iv_host = \<lparr>date_parse = (\<lambda>_. None), iso_string = (\<lambda>_. []), locale_compare = (\<lambda>_ _. 0), sha256_hex = id\<rparr>,
     iv_now = 1, iv_today = 20260601, iv_currentDate = 20260601, iv_uuid = (\<lambda>n. []), iv_quantity = round_14_3, iv_cost = (\<lambda>_. None)\<rparr>"

definition demo_balance_row :: balance_row where
  "demo_balance_row = \<lparr>bl_id = uid (CHR ''5''), bl_tenantId = uid (CHR ''1''), bl_branchId = uid (CHR ''2''), bl_productId = uid (CHR ''3''),
     bl_lotId = uid (CHR ''4''), bl_locationId = None, bl_onHand = 5000, bl_reserved = 1000, bl_lastMovementAt = None,
     bl_createdAt = 0, bl_updatedAt = 0\<rparr>"

definition demo_balance_db :: inv_db where
  "demo_balance_db = \<lparr>iv_products = [], iv_branches = [], iv_locations = [], iv_access = [], iv_suppliers = [], iv_purchases = [],
     iv_purchaseItems = [], iv_lots = [], iv_balances = [demo_balance_row], iv_movements = [], iv_links = []\<rparr>"

definition demo_reservation :: quantity_operation where
  "demo_reservation = \<lparr>qo_branchId = uid (CHR ''2''), qo_productId = uid (CHR ''3''), qo_lotId = uid (CHR ''4''), qo_locationId = Null,
     qo_quantity = Fin (milli 2000), qo_lastMovementAt = None\<rparr>"

lemma demo_reserved: "\<exists>b db'. perform Reserve demo_balance_env 0 (uid (CHR ''1'')) demo_reservation demo_balance_db = Inr (b, db')"
proof -
  have n: "milli 2000 = 2" "milli 5000 = 5" "milli 1000 = 1" "milli 4000 = 4" "milli 3000 = 3" "dbl 3 = 3" "round_14_3 3 = Some 3000"
    by code_simp+
  show ?thesis
    by (simp add: reserve_def checked_change_def demo_reservation_def balance_of_operation_def findByLotLocation_def demo_balance_db_def
        at_lot_location_def demo_balance_row_def balance_entity_def balance_of_row_def opt_uuid_def n require_def assertBalanceFound_def
        repo_reserve_def repo_change_def balance_repo_update_def demo_balance_env_def update_where_def changed_balance_def Let_def
        balance_findById_def)
qed

lemma balance_operation_refines_witness:
  "\<exists>b db'. perform Reserve demo_balance_env 0 (uid (CHR ''1'')) demo_reservation demo_balance_db = Inr (b, db') \<and>
     account db' (operation_key (uid (CHR ''1'')) demo_reservation) = (5000, 3000)"
proof -
  obtain b db' where a: "perform Reserve demo_balance_env 0 (uid (CHR ''1'')) demo_reservation demo_balance_db = Inr (b, db')"
    using demo_reserved by blast
  have wf: "balances_wf demo_balance_db" by (simp add: balances_wf_def demo_balance_db_def demo_balance_row_def)
  have q: "qo_quantity demo_reservation = Fin (milli 2000)" by (simp add: demo_reservation_def)
  have col: "numeric_14_3 (iv_quantity demo_balance_env)" by (simp add: demo_balance_env_def numeric_round_14_3)
  have "account demo_balance_db (operation_key (uid (CHR ''1'')) demo_reservation) = (5000, 1000)"
    by (simp add: account_def demo_balance_db_def demo_balance_row_def balance_key_def operation_key_def demo_reservation_def)
  with balance_operation_refines [OF a col wf q] a show ?thesis by auto
qed

end
