(* ===== verification/Lot_Facts.thy ===== *)
theory Lot_Facts
  imports Lot_Service
begin

section \<open>Facts about lots\<close>

text \<open>
  Every request of the lot service keeps the constraints of the table of lots: unique identifiers
  and codes, valid identifiers, a code, a cost that is not negative and no expiration before 2000.
  A date the service accepts is printed back as it was read.
\<close>

subsection \<open>The constraints of the table\<close>

definition lot_ok :: "lot_row \<Rightarrow> bool" where
  "lot_ok l \<longleftrightarrow> isUuid (lt_id l) \<and> isUuid (lt_tenantId l) \<and> isUuid (lt_branchId l) \<and> isUuid (lt_productId l) \<and>
     js_trim (lt_lotCode l) \<noteq> [] \<and> 0 \<le> lt_unitCost l \<and>
     (case lt_expirationDate l of None \<Rightarrow> True | Some d \<Rightarrow> date_number 2000 1 1 \<le> d)"

definition lots_wf :: "inv_db \<Rightarrow> bool" where
  "lots_wf db \<longleftrightarrow> distinct (map lt_id (iv_lots db)) \<and> distinct (map lot_key (iv_lots db)) \<and> (\<forall>l\<in>set (iv_lots db). lot_ok l)"

lemma lot_entity_Inr:
  "lot_entity l = Inr e \<Longrightarrow> isUuid (lt_id l) \<and> isUuid (lt_tenantId l) \<and> isUuid (lt_branchId l) \<and> isUuid (lt_productId l) \<and>
     js_trim (lt_lotCode l) \<noteq> [] \<and> 0 \<le> lt_unitCost l \<and> e = l\<lparr>lt_lotCode := js_upper (js_trim (lt_lotCode l))\<rparr>"
  by (simp add: lot_entity_def result_simps)

lemma assertExpirationFloor_Inr:
  "assertExpirationFloor d = Inr u \<longleftrightarrow> (case d of None \<Rightarrow> True | Some n \<Rightarrow> date_number 2000 1 1 \<le> n)"
  by (simp add: assertExpirationFloor_def)

text \<open>The lots only grow at the end, by a lot that satisfies the constraints.\<close>

definition lots_grow :: "inv_db \<Rightarrow> inv_db \<Rightarrow> bool" where
  "lots_grow db db' \<longleftrightarrow> (\<exists>ls. db' = db\<lparr>iv_lots := iv_lots db @ ls\<rparr>) \<and> lots_wf db'"

lemma lot_insert_grow:
  assumes "lot_insert env l db = Inr (e, db')" "lots_wf db"
    "assertExpirationFloor (lt_expirationDate l) = Inr ()"
  shows "lots_grow db db' \<and> (\<exists>row\<in>set (iv_lots db'). e = row\<lparr>lt_lotCode := js_upper (js_trim (lt_lotCode row))\<rparr> \<and>
    lt_tenantId row = lt_tenantId l \<and> lt_branchId row = lt_branchId l \<and> lt_productId row = lt_productId l)"
proof -
  from assms(1) obtain c where c: "lt_id l \<notin> lt_id ` set (iv_lots db)" "lot_key l \<notin> lot_key ` set (iv_lots db)"
      "lot_entity (l\<lparr>lt_unitCost := cents c\<rparr>) = Inr e" "db' = db\<lparr>iv_lots := iv_lots db @ [l\<lparr>lt_unitCost := cents c\<rparr>]\<rparr>"
    by (auto simp: lot_insert_def result_simps Let_def split: option.splits)
  have key: "lot_key (l\<lparr>lt_unitCost := cents c\<rparr>) = lot_key l" by (simp add: lot_key_def)
  have "lot_ok (l\<lparr>lt_unitCost := cents c\<rparr>)"
    using lot_entity_Inr [OF c(3)] assms(3) by (simp add: lot_ok_def assertExpirationFloor_Inr)
  then have "lots_wf db'" using assms(2) c(1,2) by (simp add: lots_wf_def c(4) key)
  then show ?thesis using lot_entity_Inr [OF c(3)] unfolding lots_grow_def c(4) by auto
qed

lemma lots_grow_refl: "lots_wf db \<Longrightarrow> lots_grow db db"
  by (auto simp: lots_grow_def intro: exI [of _ "[]"])

lemma read_lot_Some: "read_lot r = Inr (Some e) \<longleftrightarrow> (\<exists>l. r = Some l \<and> lot_entity l = Inr e)"
  by (cases r) (auto simp: result_simps)

lemma lot_findByCode_row:
  assumes "lot_findByCode db t b p c = Inr (Some e)"
  shows "\<exists>l\<in>set (iv_lots db). e = l\<lparr>lt_lotCode := js_upper (js_trim (lt_lotCode l))\<rparr> \<and> lt_tenantId l = t \<and> lt_branchId l = b \<and> lt_productId l = p"
  using assms by (auto simp: lot_findByCode_def read_lot_Some dest!: find_in lot_entity_Inr)

lemma findOrCreateForAdjustmentIn_grow:
  assumes "findOrCreateForAdjustmentIn env n inp db = Inr (lot, db')" "lots_wf db"
  shows "lots_grow db db' \<and> (\<exists>l\<in>set (iv_lots db'). lt_id l = lt_id lot \<and> lt_tenantId l = ld_tenantId inp)"
proof -
  from assms(1) obtain b p c d found where
    floor: "assertExpirationFloor d = Inr ()" and
    found: "lot_findByCode db (ld_tenantId inp) b p c = Inr found" and
    rest: "(\<exists>existing. found = Some existing \<and> receiveExistingLot env inp d existing db = Inr (lot, db')) \<or>
      (\<exists>t u e. lot_entity (newLot env n (inp\<lparr>ld_supplierId := Null, ld_purchaseId := Null, ld_purchaseItemId := Null\<rparr>) b p c d t u) = Inr e \<and>
         lot_insert env e db = Inr (lot, db'))"
    unfolding findOrCreateForAdjustmentIn_def
    by (fastforce simp: result_simps Let_def split: option.splits)
  from rest show ?thesis
  proof (elim disjE exE conjE)
    fix existing assume e: "found = Some existing" "receiveExistingLot env inp d existing db = Inr (lot, db')"
    then have "lot = existing" "db' = db" by (auto simp: receiveExistingLot_def result_simps)
    then show ?thesis using lot_findByCode_row [OF found [unfolded e(1)]] lots_grow_refl [OF assms(2)] by auto
  next
    fix t u e assume e: "lot_entity (newLot env n (inp\<lparr>ld_supplierId := Null, ld_purchaseId := Null, ld_purchaseItemId := Null\<rparr>) b p c d t u) = Inr e"
      "lot_insert env e db = Inr (lot, db')"
    have f: "lt_expirationDate e = d" "lt_tenantId e = ld_tenantId inp" using lot_entity_Inr [OF e(1)] by (simp_all add: newLot_def)
    from lot_insert_grow [OF e(2) assms(2)] floor f show ?thesis by auto
  qed
qed

lemma findOrCreateForPurchase_grow:
  assumes "findOrCreateForPurchase env n inp db = Inr (lot, db')" "lots_wf db"
  shows "lots_grow db db'"
proof -
  from assms(1) obtain b p c d found where
    floor: "assertExpirationFloor d = Inr ()" and
    rest: "(\<exists>existing. found = Some existing \<and> receiveExistingLot env inp d existing db = Inr (lot, db')) \<or>
      (\<exists>t u e. lot_entity (newLot env n inp b p c d t u) = Inr e \<and> lot_insert env e db = Inr (lot, db'))"
    unfolding findOrCreateForPurchase_def
    by (fastforce simp: result_simps Let_def split: option.splits)
  from rest show ?thesis
  proof (elim disjE exE conjE)
    fix existing assume "receiveExistingLot env inp d existing db = Inr (lot, db')"
    then have "db' = db" by (auto simp: receiveExistingLot_def result_simps)
    then show ?thesis using lots_grow_refl [OF assms(2)] by simp
  next
    fix t u e assume e: "lot_entity (newLot env n inp b p c d t u) = Inr e" "lot_insert env e db = Inr (lot, db')"
    have "lt_expirationDate e = d" using lot_entity_Inr [OF e(1)] by (simp add: newLot_def)
    with lot_insert_grow [OF e(2) assms(2)] floor show ?thesis by simp
  qed
qed

lemma lot_create_grow:
  assumes "lot_create env t inp a db = Inr (lot, db')" "lots_wf db" shows "lots_grow db db'"
proof -
  from assms(1) obtain l e where l: "lot_entity l = Inr e" "lot_insert env e db = Inr (lot, db')"
      "assertExpirationFloor (lt_expirationDate l) = Inr ()"
    unfolding lot_create_def
    by (simp add: result_simps Let_def) (metis lot_row.select_convs(9))
  have "lt_expirationDate e = lt_expirationDate l" using lot_entity_Inr [OF l(1)] by simp
  with lot_insert_grow [OF l(2) assms(2)] l(3) show ?thesis by simp
qed

subsection \<open>Changes\<close>

definition lot_place :: "lot_row \<Rightarrow> string \<times> string \<times> string \<times> string" where
  "lot_place l = (lt_id l, lt_tenantId l, lt_branchId l, lt_productId l)"

definition lots_changed :: "inv_db \<Rightarrow> inv_db \<Rightarrow> bool" where
  "lots_changed db db' \<longleftrightarrow> (\<exists>ls. db' = db\<lparr>iv_lots := ls\<rparr> \<and> map lot_place ls = map lot_place (iv_lots db)) \<and> lots_wf db'"

lemma changed_lot_simps [simp]:
  "lt_id (changed_lot now v c l) = lt_id l" "lt_tenantId (changed_lot now v c l) = lt_tenantId l"
  "lt_expirationDate (changed_lot now v c l) = set_field (lc_expirationDate c) (lt_expirationDate l)"
  "lot_place (changed_lot now v c l) = lot_place l"
  by (simp_all add: changed_lot_def lot_place_def)

lemma find_update_where:
  "(\<And>x. P (f x) = P x) \<Longrightarrow> find P (update_where P f xs) = map_option f (find P xs)"
  by (induction xs) (auto simp: update_where_def)

lemma lot_repo_update_wf:
  assumes "lot_repo_update env t i c db = Inr (Some e, db')" "lots_wf db"
    "\<And>l. l \<in> set (iv_lots db) \<Longrightarrow> lt_id l = i \<Longrightarrow> assertExpirationFloor (set_field (lc_expirationDate c) (lt_expirationDate l)) = Inr ()"
  shows "lots_changed db db'"
proof (cases "c = no_changes")
  case True
  then have "db' = db" using assms(1) by (auto simp: lot_repo_update_def result_simps)
  then show ?thesis using assms(2) by (auto simp: lots_changed_def intro: exI [of _ "iv_lots db"])
next
  case False
  let ?hit = "\<lambda>l. lt_tenantId l = t \<and> lt_id l = i"
  from assms(1) False obtain v where
    db': "db' = db\<lparr>iv_lots := update_where ?hit (changed_lot (iv_now env) v c) (iv_lots db)\<rparr>" and
    keys: "distinct (map lot_key (iv_lots db'))" and read: "lot_findById db' t i = Inr (Some e)"
    by (auto simp: lot_repo_update_def result_simps Let_def split: option.splits)
  let ?f = "changed_lot (iv_now env) v c"
  from read obtain l' where l': "find ?hit (update_where ?hit ?f (iv_lots db)) = Some l'" "lot_entity l' = Inr e"
    by (auto simp: lot_findById_def read_lot_Some db')
  then obtain l where l: "find ?hit (iv_lots db) = Some l" "l' = ?f l" by (auto simp: find_update_where)
  then have mem: "l \<in> set (iv_lots db)" "lt_id l = i" using find_in [OF l(1)] by auto
  have "lot_ok (?f l)"
    using lot_entity_Inr [OF l'(2)] assms(3) [OF mem] by (simp add: lot_ok_def l(2) assertExpirationFloor_Inr)
  moreover have "x = l" if "x \<in> set (iv_lots db)" "?hit x" for x
    using that mem assms(2) key_unique [of lt_id "iv_lots db" x l] by (simp add: lots_wf_def)
  ultimately have "\<forall>x\<in>set (iv_lots db'). lot_ok x"
    using assms(2) by (auto simp: db' set_update_where lots_wf_def)
  moreover have "map lt_id (iv_lots db') = map lt_id (iv_lots db)" "map lot_place (iv_lots db') = map lot_place (iv_lots db)"
    by (simp_all add: db' map_update_where)
  ultimately show ?thesis using keys assms(2) unfolding lots_changed_def lots_wf_def by (auto simp: db')
qed

lemma lot_findOne_row:
  assumes "lot_findOne t i a db = Inr cur"
  shows "\<exists>l\<in>set (iv_lots db). lt_id l = i \<and> lt_id cur = i \<and> lt_status cur = lt_status l \<and> lt_expirationDate cur = lt_expirationDate l \<and> lt_tenantId l = t"
proof -
  from assms obtain l where "find (\<lambda>l. lt_tenantId l = t \<and> lt_id l = i) (iv_lots db) = Some l" "lot_entity l = Inr cur"
    by (auto simp: lot_findOne_def lot_findById_def read_lot_Some assertLotFound_def result_simps split: option.splits)
  then show ?thesis by (auto dest!: find_in lot_entity_Inr)
qed

lemma lot_update_changed:
  assumes "lot_update env t i inp a db = Inr (lot, db')" "lots_wf db" shows "lots_changed db db'"
proof -
  from assms(1) obtain cur payload e where cur: "lot_findOne t i a db = Inr cur" and
    floor: "assertExpirationFloor (set_field (lc_expirationDate payload) (lt_expirationDate cur)) = Inr ()" and
    upd: "lot_repo_update env t i payload db = Inr (Some e, db')"
    unfolding lot_update_def by (auto simp: result_simps Let_def assertLotFound_def split: option.splits prod.splits)
  from lot_findOne_row [OF cur] obtain l where l: "l \<in> set (iv_lots db)" "lt_id l = i" "lt_expirationDate cur = lt_expirationDate l"
    by auto
  show ?thesis
  proof (rule lot_repo_update_wf [OF upd assms(2)])
    fix x assume "x \<in> set (iv_lots db)" "lt_id x = i"
    then have "x = l" using l assms(2) key_unique [of lt_id "iv_lots db" x l] by (simp add: lots_wf_def)
    then show "assertExpirationFloor (set_field (lc_expirationDate payload) (lt_expirationDate x)) = Inr ()" using floor l(3) by simp
  qed
qed

lemma status_change_wf:
  assumes "lot_repo_update env t i (no_changes\<lparr>lc_status := s\<rparr>) db = Inr (Some e, db')" "lots_wf db"
  shows "lots_changed db db'"
proof (rule lot_repo_update_wf [OF assms])
  fix l assume "l \<in> set (iv_lots db)"
  then show "assertExpirationFloor (set_field (lc_expirationDate (no_changes\<lparr>lc_status := s\<rparr>)) (lt_expirationDate l)) = Inr ()"
    using assms(2) by (simp add: lots_wf_def lot_ok_def no_changes_def assertExpirationFloor_Inr)
qed

lemma lot_block_changed: "lot_block env t i a db = Inr (lot, db') \<Longrightarrow> lots_wf db \<Longrightarrow> lots_changed db db'"
  by (auto simp: lot_block_def result_simps assertLotFound_def intro: status_change_wf split: option.splits prod.splits)

lemma lot_cancel_changed: "lot_cancel env t i a db = Inr (lot, db') \<Longrightarrow> lots_wf db \<Longrightarrow> lots_changed db db'"
  by (auto simp: lot_cancel_def result_simps assertLotFound_def intro: status_change_wf split: option.splits prod.splits)

subsection \<open>Dates\<close>

lemma digit_char_digit: "is_digit c \<Longrightarrow> digit_char (digit c) = c"
proof -
  assume c: "is_digit c"
  then have "nat (digit c mod 10) + 48 = code c" by (auto simp: is_digit_def digit_def nat_diff_distrib)
  then show ?thesis by (simp add: digit_char_def code_def add.commute)
qed

lemma digit_bounds: "is_digit c \<Longrightarrow> 0 \<le> digit c \<and> digit c \<le> 9"
  by (simp add: is_digit_def digit_def)

lemma digit_char_value: "digit (digit_char n) = n mod 10" and is_digit_char: "is_digit (digit_char n)"
proof -
  have "0 \<le> n mod 10" "n mod 10 < 10" by simp_all
  then have "nat (n mod 10) < 10" by simp
  then have "code (digit_char n) = 48 + nat (n mod 10)"
    unfolding code_def digit_char_def by (simp add: of_char_of take_bit_nat_eq_self)
  then show "digit (digit_char n) = n mod 10" "is_digit (digit_char n)"
    using \<open>nat (n mod 10) < 10\<close> by (simp_all add: digit_def is_digit_def)
qed

lemma date_text_chars:
  "date_text s \<longleftrightarrow> (\<exists>c0 c1 c2 c3 c4 c5 c6 c7. s = [c0, c1, c2, c3, CHR ''-'', c4, c5, CHR ''-'', c6, c7] \<and>
     list_all is_digit [c0, c1, c2, c3, c4, c5, c6, c7])"
proof
  assume d: "date_text s"
  then have "length s = Suc (Suc (Suc (Suc (Suc (Suc (Suc (Suc (Suc (Suc 0)))))))))" by (simp add: date_text_def)
  then obtain a b c d' e f g h i j where s: "s = [a, b, c, d', e, f, g, h, i, j]"
    by (auto simp: length_Suc_conv)
  from d show "\<exists>c0 c1 c2 c3 c4 c5 c6 c7. s = [c0, c1, c2, c3, CHR ''-'', c4, c5, CHR ''-'', c6, c7] \<and>
     list_all is_digit [c0, c1, c2, c3, c4, c5, c6, c7]"
    by (simp add: s date_text_def upt_rec [of _ 10])
qed (auto simp: date_text_def upt_rec [of _ 10])

lemma text_int_simps [simp]: "text_int [a, b] = digit a * 10 + digit b"
  "text_int [a, b, c, d] = ((digit a * 10 + digit b) * 10 + digit c) * 10 + digit d"
  by (simp_all add: text_int_def)

lemma valid_date_bounds: "valid_date y m d \<Longrightarrow> 0 \<le> y \<and> y \<le> 9999 \<and> 1 \<le> m \<and> m \<le> 12 \<and> 1 \<le> d \<and> d \<le> 31"
  by (auto simp: valid_date_def days_in_month_def split: if_splits)

lemma date_number_parts:
  assumes "valid_date y m d"
  shows "date_number y m d div 10000 = y" "date_number y m d div 100 mod 100 = m" "date_number y m d mod 100 = d"
proof -
  note b = valid_date_bounds [OF assms]
  have n: "date_number y m d = (m * 100 + d) + y * 10000" "date_number y m d = d + (y * 100 + m) * 100"
    by (simp_all add: date_number_def)
  show "date_number y m d div 10000 = y" using b unfolding n(1) by (subst div_mult_self1) simp_all
  have "date_number y m d div 100 = y * 100 + m" using b unfolding n(2) by (subst div_mult_self1) simp_all
  then show "date_number y m d div 100 mod 100 = m" using b by simp
  show "date_number y m d mod 100 = d" using b unfolding n(2) by (subst mod_mult_self1) simp
qed

lemma last_digit: "0 \<le> r \<Longrightarrow> r \<le> 9 \<Longrightarrow> (a * 10 + r) div 10 = (a :: int) \<and> (a * 10 + r) mod 10 = r"
  by simp

lemma div_tens: "(y :: int) div 100 = y div 10 div 10" "y div 1000 = y div 10 div 10 div 10"
  by (simp_all flip: zdiv_zmult2_eq)

lemma digits_of_year: "0 \<le> y \<Longrightarrow> y \<le> 9999 \<Longrightarrow>
  ((y div 1000 mod 10 * 10 + y div 100 mod 10) * 10 + y div 10 mod 10) * 10 + y mod 10 = (y :: int)"
proof -
  assume y: "0 \<le> y" "y \<le> 9999"
  define a b c where "a = y div 10" and "b = a div 10" and "c = b div 10"
  have "c mod 10 = c" using y by (intro mod_pos_pos_trivial) (simp_all add: a_def b_def c_def)
  then have "c mod 10 * 10 + b mod 10 = b" by (simp add: c_def)
  moreover have "b * 10 + a mod 10 = a" "a * 10 + y mod 10 = y" by (simp_all add: a_def b_def)
  ultimately show ?thesis
    unfolding div_tens a_def [symmetric] b_def [symmetric] c_def [symmetric] by (simp only:)
qed

lemma year_digits:
  assumes "0 \<le> a" "a \<le> 9" "0 \<le> b" "b \<le> 9" "0 \<le> c" "c \<le> 9" "0 \<le> d" "d \<le> 9"
    "y = ((a * 10 + b) * 10 + c) * 10 + (d :: int)"
  shows "y div 1000 mod 10 = a" "y div 100 mod 10 = b" "y div 10 mod 10 = c" "y mod 10 = d"
proof -
  define u v where "u = (a * 10 + b) * 10 + c" and "v = a * 10 + b"
  have "y div 10 = u" "y mod 10 = d" using last_digit [of d u] assms by (simp_all add: u_def)
  moreover have "u div 10 = v" "u mod 10 = c" using last_digit [of c v] assms(5,6) by (simp_all add: u_def v_def)
  moreover have "v div 10 = a" "v mod 10 = b" using last_digit [of b a] assms(3,4) by (simp_all add: v_def)
  ultimately show "y div 1000 mod 10 = a" "y div 100 mod 10 = b" "y div 10 mod 10 = c" "y mod 10 = d"
    using assms(1,2) by (simp_all add: div_tens)
qed

lemma digits_of_pair: "0 \<le> m \<Longrightarrow> m \<le> 99 \<Longrightarrow> m div 10 mod 10 * 10 + m mod 10 = (m :: int)"
proof -
  assume m: "0 \<le> m" "m \<le> 99"
  then have "m div 10 mod 10 = m div 10" by (intro mod_pos_pos_trivial) simp_all
  then show ?thesis by simp
qed

text \<open>
  The dates the service accepts are exactly the texts its own printing produces, up to
  surrounding blanks: a text parses to a date if and only if it is that date printed, and the date
  exists in the calendar.
\<close>

theorem date_roundtrip:
  "calendarDate s field = Inr n \<longleftrightarrow> (\<exists>y m d. valid_date y m d \<and> n = date_number y m d \<and> js_trim s = toDateString n)"
proof
  assume p: "calendarDate s field = Inr n"
  then have "date_text (js_trim s)" by (simp add: calendarDate_def Let_def split: if_splits)
  then obtain c0 c1 c2 c3 c4 c5 c6 c7 where s: "js_trim s = [c0, c1, c2, c3, CHR ''-'', c4, c5, CHR ''-'', c6, c7]" and
    dig: "list_all is_digit [c0, c1, c2, c3, c4, c5, c6, c7]" by (auto simp: date_text_chars)
  define y m d where "y = text_int [c0, c1, c2, c3]" and "m = text_int [c4, c5]" and "d = text_int [c6, c7]"
  from p have v: "valid_date y m d" "n = date_number y m d"
    by (simp_all add: calendarDate_def s y_def m_def d_def Let_def split: if_splits)
  have g: "0 \<le> digit c0" "digit c0 \<le> 9" "0 \<le> digit c1" "digit c1 \<le> 9" "0 \<le> digit c2" "digit c2 \<le> 9"
    "0 \<le> digit c3" "digit c3 \<le> 9" "0 \<le> digit c4" "digit c4 \<le> 9" "0 \<le> digit c5" "digit c5 \<le> 9"
    "0 \<le> digit c6" "digit c6 \<le> 9" "0 \<le> digit c7" "digit c7 \<le> 9"
    using dig by (simp_all add: digit_bounds)
  have dc: "digit_char k = c" if "k mod 10 = digit c" "is_digit c" for k c
    using that digit_char_digit [OF that(2)] by (simp add: digit_char_def)
  have pair: "(a * 10 + r) div 10 mod 10 = a" "(a * 10 + r) mod 10 = r" if "0 \<le> a" "a \<le> 9" "0 \<le> r" "r \<le> 9" for a r :: int
    using that last_digit [of r a] by simp_all
  have i: "is_digit c0" "is_digit c1" "is_digit c2" "is_digit c3" "is_digit c4" "is_digit c5" "is_digit c6" "is_digit c7"
    using dig by simp_all
  have e: "y div 1000 mod 10 = digit c0" "y div 100 mod 10 = digit c1" "y div 10 mod 10 = digit c2" "y mod 10 = digit c3"
    unfolding y_def text_int_simps by (rule year_digits [OF g(1-8) refl])+
  have f: "m div 10 mod 10 = digit c4" "m mod 10 = digit c5" "d div 10 mod 10 = digit c6" "d mod 10 = digit c7"
    unfolding m_def d_def text_int_simps by (rule pair [OF g(9-12)] pair [OF g(13-16)])+
  have "digit_char (y div 1000) = c0" "digit_char (y div 100) = c1" "digit_char (y div 10) = c2" "digit_char y = c3"
    "digit_char (m div 10) = c4" "digit_char m = c5" "digit_char (d div 10) = c6" "digit_char d = c7"
    by (rule dc [OF e(1) i(1)] dc [OF e(2) i(2)] dc [OF e(3) i(3)] dc [OF e(4) i(4)]
      dc [OF f(1) i(5)] dc [OF f(2) i(6)] dc [OF f(3) i(7)] dc [OF f(4) i(8)])+
  then have "toDateString n = js_trim s"
    unfolding toDateString_def v(2) date_number_parts [OF v(1)] Let_def s by (simp only:)
  with v show "\<exists>y m d. valid_date y m d \<and> n = date_number y m d \<and> js_trim s = toDateString n" by auto
next
  assume "\<exists>y m d. valid_date y m d \<and> n = date_number y m d \<and> js_trim s = toDateString n"
  then obtain y m d where v: "valid_date y m d" "n = date_number y m d" and s: "js_trim s = toDateString n" by auto
  have b: "0 \<le> y" "y \<le> 9999" "0 \<le> m" "m \<le> 99" "0 \<le> d" "d \<le> 99" using valid_date_bounds [OF v(1)] by simp_all
  have s': "js_trim s = [digit_char (y div 1000), digit_char (y div 100), digit_char (y div 10), digit_char y, CHR ''-'',
          digit_char (m div 10), digit_char m, CHR ''-'', digit_char (d div 10), digit_char d]"
    unfolding s toDateString_def v(2) date_number_parts [OF v(1)] Let_def ..
  then have "date_text (js_trim s)" by (simp add: date_text_chars is_digit_char)
  moreover have "take 4 (js_trim s) = [digit_char (y div 1000), digit_char (y div 100), digit_char (y div 10), digit_char y]"
    "take 2 (drop 5 (js_trim s)) = [digit_char (m div 10), digit_char m]" "drop 8 (js_trim s) = [digit_char (d div 10), digit_char d]"
    unfolding s' by simp_all
  then have "text_int (take 4 (js_trim s)) = y" "text_int (take 2 (drop 5 (js_trim s))) = m" "text_int (drop 8 (js_trim s)) = d"
    using digits_of_year [OF b(1,2)] digits_of_pair [OF b(3,4)] digits_of_pair [OF b(5,6)]
    by (simp_all only: text_int_simps digit_char_value)
  ultimately show "calendarDate s field = Inr n"
    using v unfolding calendarDate_def Let_def by (simp only: if_True if_False not_not simp_thms)
qed

end
