(* ===== verification/Stock_Facts.thy ===== *)
theory Stock_Facts
  imports Stock_Adjustments Balance_Facts Lot_Facts
begin

section \<open>Facts about stock\<close>

text \<open>
  The requests that change lots, balances and movements, as one list of requests against the
  tables, and what they keep: the constraints of the tables, the agreement of the balances of a
  lot-controlled product with its movements, and a stock per branch that is never negative. An
  adjustment is a step of an integer ledger of stock per branch.
\<close>

subsection \<open>Balances\<close>

definition branch_balance :: "inv_db \<Rightarrow> string \<Rightarrow> string \<Rightarrow> string \<Rightarrow> int" where
  "branch_balance db t b p = sum_list (map (\<lambda>r. if bl_tenantId r = t \<and> bl_branchId r = b \<and> bl_productId r = p
     then bl_onHand r else 0) (iv_balances db))"

lemma set_account_wf:
  assumes "balances_wf db" "row \<in> set (iv_balances db)"
    "0 \<le> coalesce r (bl_reserved row)" "coalesce r (bl_reserved row) \<le> coalesce h (bl_onHand row)"
    "coalesce h (bl_onHand row) < 10 ^ 14"
  shows "balances_wf (set_account now row h r tm db)"
proof -
  let ?bs = "iv_balances (set_account now row h r tm db)"
  have "map bl_id ?bs = map bl_id (iv_balances db)" "map balance_key ?bs = map balance_key (iv_balances db)"
    unfolding set_account_def by (simp_all add: map_update_where changed_balance_def balance_key_def)
  moreover have "0 \<le> bl_reserved x \<and> bl_reserved x \<le> bl_onHand x \<and> bl_onHand x < 10 ^ 14" if "x \<in> set ?bs" for x
  proof -
    from that obtain y where y: "y \<in> set (iv_balances db)"
        "x = (if bl_tenantId y = bl_tenantId row \<and> bl_id y = bl_id row then changed_balance now h r tm y else y)"
      by (auto simp: set_account_def set_update_where)
    then have "y = row" if "bl_tenantId y = bl_tenantId row \<and> bl_id y = bl_id row"
      using that assms(1,2) key_unique [of bl_id "iv_balances db" y row] by (auto simp: balances_wf_def)
    then show ?thesis using y assms by (auto simp: balances_wf_def changed_balance_def split: if_splits)
  qed
  ultimately show ?thesis using assms(1) unfolding balances_wf_def by (simp add: set_account_def)
qed

lemma set_account_branch:
  assumes "balances_wf db" "row \<in> set (iv_balances db)"
  shows "branch_balance (set_account now row h r tm db) t b p = branch_balance db t b p +
    (if bl_tenantId row = t \<and> bl_branchId row = b \<and> bl_productId row = p then coalesce h (bl_onHand row) - bl_onHand row else 0)"
proof -
  let ?g = "\<lambda>r. if bl_tenantId r = t \<and> bl_branchId r = b \<and> bl_productId r = p then bl_onHand r else 0"
  have "sum_list (map ?g (update_where (\<lambda>x. bl_tenantId x = bl_tenantId row \<and> bl_id x = bl_id row)
      (changed_balance now h r tm) (iv_balances db))) =
    sum_list (map ?g (iv_balances db)) - ?g row + ?g (changed_balance now h r tm row)"
  proof (rule sum_update_where)
    show "distinct (map bl_id (iv_balances db))" using assms(1) by (simp add: balances_wf_def)
    show "bl_tenantId y = bl_tenantId row \<and> bl_id y = bl_id row \<longleftrightarrow> bl_id y = bl_id row" if "y \<in> set (iv_balances db)" for y
      using that assms key_unique [of bl_id "iv_balances db" y row] by (auto simp: balances_wf_def)
  qed (rule assms(2))
  then show ?thesis by (simp add: branch_balance_def set_account_def changed_balance_def)
qed

lemma append_balance_wf:
  assumes "balances_wf db" "bl_id row \<notin> bl_id ` set (iv_balances db)" "balance_key row \<notin> balance_key ` set (iv_balances db)"
    "0 \<le> bl_reserved row" "bl_reserved row \<le> bl_onHand row" "bl_onHand row < 10 ^ 14"
  shows "balances_wf (db\<lparr>iv_balances := iv_balances db @ [row]\<rparr>)"
  using assms by (auto simp: balances_wf_def)

text \<open>The change an increment and a decrement make to the tables.\<close>

definition on_hand_change :: "string \<Rightarrow> string \<Rightarrow> string \<Rightarrow> int \<Rightarrow> inv_db \<Rightarrow> inv_db \<Rightarrow> bool" where
  "on_hand_change t b p d db db' \<longleftrightarrow>
     balances_wf db' \<and> db' = db\<lparr>iv_balances := iv_balances db'\<rparr> \<and>
     (\<forall>t' b' p'. branch_balance db' t' b' p' = branch_balance db t' b' p' + (if t' = t \<and> b' = b \<and> p' = p then d else 0)) \<and>
     (\<forall>r'\<in>set (iv_balances db'). (\<exists>r\<in>set (iv_balances db). balance_key r' = balance_key r) \<or>
        (\<exists>l\<in>set (iv_lots db). lt_id l = bl_lotId r' \<and> lt_tenantId l = bl_tenantId r' \<and> lt_branchId l = bl_branchId r' \<and>
           lt_productId l = bl_productId r'))"

lemma set_account_keys:
  "x \<in> set (iv_balances (set_account now row h r tm db)) \<Longrightarrow> \<exists>y\<in>set (iv_balances db). balance_key x = balance_key y"
proof -
  have key: "balance_key (changed_balance now h r tm y) = balance_key y" for y
    by (simp add: changed_balance_def balance_key_def)
  show "x \<in> set (iv_balances (set_account now row h r tm db)) \<Longrightarrow> \<exists>y\<in>set (iv_balances db). balance_key x = balance_key y"
    unfolding set_account_def by (force simp: set_update_where key)
qed

lemma set_account_change:
  assumes "balances_wf db" "row \<in> set (iv_balances db)" "balance_key row = (t, b, p, x)"
    "balances_wf (set_account now row (Some (bl_onHand row + d)) r tm db)"
  shows "on_hand_change t b p d db (set_account now row (Some (bl_onHand row + d)) r tm db)"
  using assms set_account_keys [of _ now row "Some (bl_onHand row + d)" r tm db]
  by (auto simp: on_hand_change_def set_account_branch balance_key_def) (auto simp: set_account_def)

lemma increment_change:
  assumes "incrementOnHand env n t q db = Inr (x, db')" "numeric_14_3 (iv_quantity env)" "balances_wf db"
    "qo_quantity q = Fin (milli k)" "k \<le> 10 ^ 14"
  shows "on_hand_change t (qo_branchId q) (qo_productId q) k db db'"
proof -
  from incrementOnHand_effect [OF assms]
  consider (old) row tm where "0 < k" "row \<in> set (iv_balances db)" "balance_key row = operation_key t q" "bl_onHand row + k < 10 ^ 14"
      "db' = set_account (iv_now env) row (Some (bl_onHand row + k)) None tm db"
    | (new) row l where "0 < k" "db' = db\<lparr>iv_balances := iv_balances db @ [row]\<rparr>" "bl_id row \<notin> bl_id ` set (iv_balances db)"
      "balance_key row \<notin> balance_key ` set (iv_balances db)"
      "balance_key row = operation_key t q" "bl_onHand row = k" "bl_reserved row = 0" "k < 10 ^ 14" "l \<in> set (iv_lots db)"
      "lt_id l = qo_lotId q" "lt_tenantId l = t" "lt_branchId l = qo_branchId q" "lt_productId l = qo_productId q"
    by auto
  then show ?thesis
  proof cases
    case old
    have "balances_wf db'" unfolding old(5)
      by (rule set_account_wf [OF assms(3) old(2)]) (use assms(3) old in \<open>force simp: balances_wf_def\<close>)+
    then show ?thesis unfolding old(5) using old(2,3)
      by (intro set_account_change [OF assms(3) old(2)]) (simp_all add: operation_key_def)
  next
    case new
    have "balances_wf db'" unfolding new(2)
      by (rule append_balance_wf [OF assms(3) new(3,4)]) (use new in simp_all)
    moreover have "branch_balance db' t' b' p' = branch_balance db t' b' p' +
        (if t' = t \<and> b' = qo_branchId q \<and> p' = qo_productId q then k else 0)" for t' b' p'
      using new(5,6) by (auto simp: new(2) branch_balance_def operation_key_def balance_key_def)
    ultimately show ?thesis unfolding on_hand_change_def
      using new by (auto simp: operation_key_def balance_key_def)
  qed
qed

lemma decrement_change:
  assumes "decrementOnHand env t q db = Inr (x, db')" "numeric_14_3 (iv_quantity env)" "balances_wf db"
    "qo_quantity q = Fin (milli k)" "k \<le> 10 ^ 14"
  shows "on_hand_change t (qo_branchId q) (qo_productId q) (- k) db db'"
proof -
  from decrementOnHand_effect [OF assms] obtain row tm where row: "row \<in> set (iv_balances db)" "balance_key row = operation_key t q"
      "0 < k" "k \<le> bl_onHand row - bl_reserved row" "db' = set_account (iv_now env) row (Some (bl_onHand row + - k)) None tm db"
    by auto
  have "balances_wf db'" unfolding row(5)
    by (rule set_account_wf [OF assms(3) row(1)]) (use assms(3) row in \<open>force simp: balances_wf_def\<close>)+
  then show ?thesis unfolding row(5)
    using row(2) by (intro set_account_change [OF assms(3) row(1)]) (simp_all add: operation_key_def)
qed

subsection \<open>Movements\<close>

lemma movement_entity_Inr:
  "movement_entity m = Inr e \<Longrightarrow> 0 < md_quantity m \<and> isOptionalUuid (md_branchId m) \<and>
     e = m\<lparr>md_branchId := trimmed (md_branchId m), md_terminalId := trimmed (md_terminalId m),
            md_posSessionCode := trimmed (md_posSessionCode m), md_userId := trimmed (md_userId m),
            md_referenceTable := trimmed (md_referenceTable m)\<rparr>"
  by (simp add: movement_entity_def result_simps)

lemma optional_uuid_trim: "isOptionalUuid v \<Longrightarrow> trimmed v = (if truthy v then v else None)"
  by (cases v) (auto simp: isOptionalUuid_def trimmed_def isUuid_trim)

lemma createMovement_row:
  assumes "createMovement env m db = Inr (row, db')" "md_before m = None" "md_after m = None"
  shows "db' = db\<lparr>iv_movements := iv_movements db @ [row]\<rparr> \<and> mv_id row \<notin> mv_id ` set (iv_movements db) \<and>
    mv_tenantId row = md_tenantId m \<and> mv_productId row = md_productId m \<and> mv_in row = md_in m \<and> mv_id row = md_id m \<and>
    mv_branchId row = (if truthy (md_branchId m) then md_branchId m else None) \<and> trimmed (md_branchId m) = mv_branchId row \<and>
    iv_quantity env (md_quantity m) = Some (mv_quantity row) \<and> 0 < mv_quantity row \<and>
    iv_quantity env (milli (stock_sum (md_productId m) (md_tenantId m) (mv_branchId row) db)) = Some (mv_before row) \<and>
    iv_quantity env (dbl (milli (stock_sum (md_productId m) (md_tenantId m) (mv_branchId row) db) +
      (if md_in m then md_quantity m else - md_quantity m))) = Some (mv_after row) \<and>
    (md_in m \<or> 0 \<le> dbl (milli (stock_sum (md_productId m) (md_tenantId m) (mv_branchId row) db) - md_quantity m))"
proof -
  define S where "S = stock_sum (md_productId m) (md_tenantId m) (if truthy (md_branchId m) then md_branchId m else None) db"
  define after where "after = dbl (milli S + (if md_in m then md_quantity m else - md_quantity m))"
  from assms obtain e where e: "movement_entity (m\<lparr>md_referenceTable := Some (coalesce (md_referenceTable m)
        (defaultReferenceTable (md_referenceType m)))\<rparr>) = Inr e"
    and ins: "movement_insert env e (milli S) after db = Inr (row, db')"
    and pos: "\<exists>x. movement_entity (e\<lparr>md_quantity := milli (mv_quantity row)\<rparr>) = Inr x"
    and out: "md_in m \<or> 0 \<le> after"
    unfolding createMovement_def getCurrentStock_def
    by (auto simp: result_simps Let_def S_def [symmetric] after_def split: prod.splits)
  have "0 < mv_quantity row" using pos by (auto dest!: movement_entity_Inr simp: milli_pos)
  moreover have u: "isOptionalUuid (md_branchId m)" using movement_entity_Inr [OF e] by simp
  moreover have "md_tenantId e = md_tenantId m" "md_productId e = md_productId m" "md_in e = md_in m" "md_id e = md_id m"
      "md_branchId e = trimmed (md_branchId m)" "md_quantity e = md_quantity m"
    using movement_entity_Inr [OF e] by simp_all
  ultimately show ?thesis
    using ins out optional_uuid_trim [OF u] unfolding S_def after_def movement_insert_def
    by (auto simp: result_simps Let_def split: option.splits if_splits)
qed

text \<open>A withdrawal the check on the floating-point difference lets through is within the stock.\<close>

lemma withdrawal_covered:
  assumes "numeric_14_3 col" "col q = Some k" "0 \<le> S" "S \<le> 10 ^ 14" "0 \<le> dbl (milli S - q)"
  shows "k \<le> S"
proof -
  have "- (1 / 1048576) < milli S - q"
  proof (rule ccontr)
    assume "\<not> ?thesis"
    then have "2 powi (- 20) \<le> q - milli S" by (simp add: power_int_def power_divide)
    then have "0 < dbl (q - milli S)" by (rule dbl_pos_of_powi) simp
    moreover have "dbl (milli S - q) = - dbl (q - milli S)" using dbl_minus [of "q - milli S"] by simp
    ultimately show False using assms(5) by simp
  qed
  moreover have "\<bar>milli S - of_int S / 1000\<bar> \<le> 1 / 131072" using assms(3,4) by (intro milli_wide) simp
  moreover have "\<bar>q - of_int k / 1000\<bar> < 1 / 1500" using assms(1,2) by (auto simp: numeric_14_3_def)
  ultimately have "(of_int k :: rat) < of_int (S + 1)" unfolding of_int_add of_int_1 by linarith
  then show ?thesis by (simp only: of_int_less_iff)
qed

lemma entry_bounded:
  assumes "numeric_14_3 col" "col q = Some k" "0 \<le> S" "S \<le> 10 ^ 14" "col (dbl (milli S + q)) = Some a"
  shows "S + k \<le> 10 ^ 14"
proof -
  have q: "\<bar>q - of_int k / 1000\<bar> < 1 / 1500" and k: "\<bar>k\<bar> < 10 ^ 14" using assms(1,2) by (auto simp: numeric_14_3_def)
  have "\<bar>dbl (milli S + q) - of_int (S + k) / 1000\<bar> \<le> 1 / 32768 + 1 / 1500"
    by (rule sum_near) (use assms(3,4) q k in auto)
  moreover have "\<bar>dbl (milli S + q) - of_int a / 1000\<bar> < 1 / 1500"
    using assms(1,5) by (auto simp: numeric_14_3_def)
  ultimately have "of_int (S + k) / 1000 - of_int a / 1000 < (2 / 1000 :: rat)" by linarith
  then have "(of_int (S + k) :: rat) < of_int (a + 2)" by (simp add: field_simps)
  then have "S + k < a + 2" by (simp only: of_int_less_iff)
  moreover have "\<bar>a\<bar> < 10 ^ 14" using assms(1,5) by (auto simp: numeric_14_3_def)
  ultimately show ?thesis by simp
qed

subsection \<open>Adjustments\<close>

definition lot_controlled :: "inv_db \<Rightarrow> string \<Rightarrow> string \<Rightarrow> bool" where
  "lot_controlled db t p = (case findProductPolicy db t p of None \<Rightarrow> False | Some q \<Rightarrow> sp_requiresLot q)"

definition has_lot :: "inv_db \<Rightarrow> balance_row \<Rightarrow> bool" where
  "has_lot db r \<longleftrightarrow> (\<exists>l\<in>set (iv_lots db). lt_id l = bl_lotId r \<and> lt_tenantId l = bl_tenantId r \<and>
     lt_branchId l = bl_branchId r \<and> lt_productId l = bl_productId r)"

definition tables_wf :: "inv_db \<Rightarrow> bool" where
  "tables_wf db \<longleftrightarrow> balances_wf db \<and> lots_wf db \<and> (\<forall>r\<in>set (iv_balances db). has_lot db r) \<and>
     distinct (map mv_id (iv_movements db)) \<and> (\<forall>m\<in>set (iv_movements db). 0 < mv_quantity m)"

definition stock_bounds :: "inv_db \<Rightarrow> bool" where
  "stock_bounds db \<longleftrightarrow> (\<forall>t p b. 0 \<le> stock_sum p t (Some b) db \<and> stock_sum p t (Some b) db \<le> 10 ^ 14)"

definition lots_agree :: "inv_db \<Rightarrow> bool" where
  "lots_agree db \<longleftrightarrow> (\<forall>t p b. lot_controlled db t p \<longrightarrow> branch_balance db t b p = stock_sum p t (Some b) db)"

definition stock_wf :: "inv_db \<Rightarrow> bool" where
  "stock_wf db \<longleftrightarrow> tables_wf db \<and> stock_bounds db \<and> lots_agree db"

lemma stock_frame [simp]:
  "branch_balance (db\<lparr>iv_movements := ms\<rparr>) = branch_balance db" "branch_balance (db\<lparr>iv_lots := ls\<rparr>) = branch_balance db"
  "branch_balance (db\<lparr>iv_links := ks\<rparr>) = branch_balance db"
  "stock_sum p t b (db\<lparr>iv_balances := bs\<rparr>) = stock_sum p t b db" "stock_sum p t b (db\<lparr>iv_lots := ls\<rparr>) = stock_sum p t b db"
  "stock_sum p t b (db\<lparr>iv_links := ks\<rparr>) = stock_sum p t b db"
  "lot_controlled (db\<lparr>iv_balances := bs\<rparr>) = lot_controlled db" "lot_controlled (db\<lparr>iv_lots := ls\<rparr>) = lot_controlled db"
  "lot_controlled (db\<lparr>iv_links := ks\<rparr>) = lot_controlled db" "lot_controlled (db\<lparr>iv_movements := ms\<rparr>) = lot_controlled db"
  "has_lot (db\<lparr>iv_balances := bs\<rparr>) = has_lot db" "has_lot (db\<lparr>iv_links := ks\<rparr>) = has_lot db"
  "has_lot (db\<lparr>iv_movements := ms\<rparr>) = has_lot db"
  "balances_wf (db\<lparr>iv_links := ks\<rparr>) = balances_wf db" "balances_wf (db\<lparr>iv_movements := ms\<rparr>) = balances_wf db"
  "lots_wf (db\<lparr>iv_links := ks\<rparr>) = lots_wf db" "lots_wf (db\<lparr>iv_movements := ms\<rparr>) = lots_wf db"
  "lots_wf (db\<lparr>iv_balances := bs\<rparr>) = lots_wf db"
  by (simp_all add: fun_eq_iff branch_balance_def stock_sum_def lot_controlled_def findProductPolicy_def has_lot_def
      balances_wf_def lots_wf_def)

lemma stock_sum_append:
  "stock_sum p t (Some b) (db\<lparr>iv_movements := iv_movements db @ [m]\<rparr>) = stock_sum p t (Some b) db +
     (if mv_productId m = p \<and> mv_tenantId m = t \<and> mv_branchId m = Some b then signed_quantity m else 0)"
  by (simp add: stock_sum_def)

lemma createLink_effect: "createLink env n inp db = Inr (k, db') \<Longrightarrow> \<exists>ks. db' = db\<lparr>iv_links := ks\<rparr>"
  by (auto simp: createLink_def link_insert_def result_simps Let_def split: option.splits)

lemma lots_grow_tables:
  assumes "lots_grow db db'" "balances_wf db" "\<forall>r\<in>set (iv_balances db). has_lot db r"
  shows "balances_wf db'" "\<forall>r\<in>set (iv_balances db'). has_lot db' r" "lots_wf db'"
proof -
  obtain ls where db': "db' = db\<lparr>iv_lots := iv_lots db @ ls\<rparr>" using assms(1) by (auto simp: lots_grow_def)
  show wf: "lots_wf db'" using assms(1) by (simp add: lots_grow_def)
  then have "\<forall>l\<in>set (iv_lots db'). isUuid (lt_id l) \<and> isUuid (lt_branchId l) \<and> isUuid (lt_productId l)"
    by (simp add: lots_wf_def lot_ok_def)
  then show "balances_wf db'" using assms(2) by (simp add: balances_wf_def db')
  show "\<forall>r\<in>set (iv_balances db'). has_lot db' r" using assms(3) by (auto simp: has_lot_def db')
qed

text \<open>The lot part of an adjustment moves the balances by the movement and leaves it otherwise.\<close>

lemma apply_lot_change:
  assumes "(if mv_in m then applyLotIn env inp payload policy m db else applyLotOut env inp payload m db) = Inr db'"
    "numeric_14_3 (iv_quantity env)" "balances_wf db" "lots_wf db" "\<forall>r\<in>set (iv_balances db). has_lot db r"
    "trimmed (aj_branchId inp) = Some b" "0 < mv_quantity m" "mv_quantity m \<le> 10 ^ 14"
  shows "balances_wf db' \<and> lots_wf db' \<and> (\<forall>r\<in>set (iv_balances db'). has_lot db' r) \<and>
    iv_movements db' = iv_movements db \<and> iv_products db' = iv_products db \<and>
    (\<forall>t' b' p'. branch_balance db' t' b' p' = branch_balance db t' b' p' +
       (if t' = aj_tenantId inp \<and> b' = b \<and> p' = aj_productId inp then signed_quantity m else 0))"
proof -
  have "\<exists>db1 db2 ks. lots_grow db db1 \<and> on_hand_change (aj_tenantId inp) b (aj_productId inp) (signed_quantity m) db1 db2 \<and>
      db' = db2\<lparr>iv_links := ks\<rparr>"
  proof (cases "mv_in m")
    case True
    then obtain dem lot db1 x db2 y where
      a: "findOrCreateForAdjustmentIn env 2 dem db = Inr (lot, db1)"
        "incrementOnHand env 3 (aj_tenantId inp) (lot_operation inp payload m b (lt_id lot)) db1 = Inr (x, db2)"
        "createLink env 4 (movement_link inp payload m (lt_id lot)) db2 = Inr (y, db')"
      using assms(1,6) by (auto simp: applyLotIn_def result_simps split: prod.splits)
    have grow: "lots_grow db db1" using findOrCreateForAdjustmentIn_grow [OF a(1) assms(4)] by simp
    have "on_hand_change (aj_tenantId inp) b (aj_productId inp) (mv_quantity m) db1 db2"
      using increment_change [OF a(2) assms(2) lots_grow_tables(1) [OF grow assms(3,5)], of "mv_quantity m"] assms(8)
      by (simp add: lot_operation_def)
    with grow createLink_effect [OF a(3)] True show ?thesis by (auto simp: signed_quantity_def)
  next
    case False
    then obtain lot :: lot_row and x db2 y where
      a: "decrementOnHand env (aj_tenantId inp) (lot_operation inp payload m b (lt_id lot)) db = Inr (x, db2)"
        "createLink env 4 (movement_link inp payload m (lt_id lot)) db2 = Inr (y, db')"
      using assms(1,6) by (auto simp: applyLotOut_def result_simps split: prod.splits)
    have "on_hand_change (aj_tenantId inp) b (aj_productId inp) (- mv_quantity m) db db2"
      using decrement_change [OF a(1) assms(2,3), of "mv_quantity m"] assms(8) by (simp add: lot_operation_def)
    with lots_grow_refl [OF assms(4)] createLink_effect [OF a(2)] False show ?thesis by (auto simp: signed_quantity_def)
  qed
  then obtain db1 db2 ks where grow: "lots_grow db db1" and
    ch: "on_hand_change (aj_tenantId inp) b (aj_productId inp) (signed_quantity m) db1 db2" and db': "db' = db2\<lparr>iv_links := ks\<rparr>"
    by blast
  note t = lots_grow_tables [OF grow assms(3,5)]
  obtain ls where db1: "db1 = db\<lparr>iv_lots := iv_lots db @ ls\<rparr>" using grow by (auto simp: lots_grow_def)
  obtain bs where db2: "db2 = db1\<lparr>iv_balances := bs\<rparr>" using ch unfolding on_hand_change_def by blast
  have key: "has_lot db1 r" if "balance_key r = balance_key r'" "has_lot db1 r'" for r r'
    using that by (simp add: has_lot_def balance_key_def)
  have "\<forall>r\<in>set (iv_balances db2). has_lot db1 r"
    using ch t(2) key by (fastforce simp: on_hand_change_def has_lot_def [of db1])
  then show ?thesis using ch t(3)
    by (auto simp: on_hand_change_def db' db2 db1)
qed

text \<open>What an adjustment does to the stock of each branch.\<close>

definition ledger :: "inv_db \<Rightarrow> string \<times> string \<times> string \<Rightarrow> int" where
  "ledger db = (\<lambda>(t, p, b). stock_sum p t (Some b) db)"

lemma adjustment_movement_simps:
  "md_id (adjustment_movement env inp x) = iv_uuid env 0" "md_tenantId (adjustment_movement env inp x) = aj_tenantId inp"
  "md_productId (adjustment_movement env inp x) = aj_productId inp" "md_in (adjustment_movement env inp x) = (aj_type inp = ''IN'')"
  "md_quantity (adjustment_movement env inp x) = x" "md_branchId (adjustment_movement env inp x) = aj_branchId inp"
  "md_before (adjustment_movement env inp x) = None" "md_after (adjustment_movement env inp x) = None"
  by (simp_all add: adjustment_movement_def)

lemma createAdjustment_effect:
  assumes "createAdjustment env inp db = Inr (m, db')" "numeric_14_3 (iv_quantity env)" "stock_wf db"
  shows "stock_wf db' \<and> 0 < mv_quantity m \<and> mv_in m = (aj_type inp = ''IN'') \<and> iv_products db' = iv_products db \<and>
    iv_movements db' = iv_movements db @ [m] \<and> mv_tenantId m = aj_tenantId inp \<and> mv_productId m = aj_productId inp \<and>
    trimmed (aj_branchId inp) = mv_branchId m \<and>
    (\<exists>x. aj_quantity inp = Fin x \<and> iv_quantity env x = Some (mv_quantity m)) \<and>
    (\<forall>b. mv_branchId m = Some b \<longrightarrow> mv_before m = ledger db (mv_tenantId m, mv_productId m, b)) \<and>
    (\<forall>b. mv_branchId m = Some b \<longrightarrow> \<not> mv_in m \<longrightarrow> mv_quantity m \<le> ledger db (mv_tenantId m, mv_productId m, b))"
proof -
  obtain policy where pol: "findProductPolicy db (aj_tenantId inp) (aj_productId inp) = Some policy"
    using assms(1) by (cases "findProductPolicy db (aj_tenantId inp) (aj_productId inp)")
      (auto simp: createAdjustment_def result_simps)
  obtain x where x: "aj_quantity inp = Fin x"
    using assms(1) by (cases "aj_quantity inp") (auto simp: createAdjustment_def result_simps)
  from assms(1) obtain payload m1 db1 where
    val: "validateLotPayload inp policy = Inr payload" and
    mov1: "createMovement env (adjustment_movement env inp x) db = Inr (m1, db1)" and
    rest1: "(case payload of None \<Rightarrow> Inr (m1, db1) | Some p \<Rightarrow>
      and_then (if mv_in m1 then applyLotIn env inp p policy m1 db1 else applyLotOut env inp p m1 db1)
        (\<lambda>db2. Inr (m1, db2))) = Inr (m, db')"
    by (auto simp: createAdjustment_def result_simps pol x split: prod.splits if_splits)
  have mov: "createMovement env (adjustment_movement env inp x) db = Inr (m, db1)" and
    rest: "(payload = None \<and> db' = db1) \<or> (\<exists>p. payload = Some p \<and>
      (if mv_in m then applyLotIn env inp p policy m db1 else applyLotOut env inp p m db1) = Inr db')"
    using mov1 rest1 by (cases payload; simp only: option.case and_then_Inr; auto)+
  let ?S = "stock_sum (aj_productId inp) (aj_tenantId inp) (mv_branchId m) db"
  have R: "db1 = db\<lparr>iv_movements := iv_movements db @ [m]\<rparr>" "mv_id m \<notin> mv_id ` set (iv_movements db)"
    "mv_tenantId m = aj_tenantId inp" "mv_productId m = aj_productId inp" "mv_in m = (aj_type inp = ''IN'')"
    "trimmed (aj_branchId inp) = mv_branchId m" "iv_quantity env x = Some (mv_quantity m)" "0 < mv_quantity m"
    "iv_quantity env (milli ?S) = Some (mv_before m)"
    "iv_quantity env (dbl (milli ?S + (if aj_type inp = ''IN'' then x else - x))) = Some (mv_after m)"
    "aj_type inp = ''IN'' \<or> 0 \<le> dbl (milli ?S - x)"
    using createMovement_row [OF mov, unfolded adjustment_movement_simps, OF refl refl] by blast+
  have k: "mv_quantity m \<le> 10 ^ 14" using stored_bound [OF assms(2) R(7)] by simp
  have bounds: "0 \<le> stock_sum p t (Some b) db" "stock_sum p t (Some b) db \<le> 10 ^ 14" for p t b
    using assms(3) by (simp_all add: stock_wf_def stock_bounds_def)
  have out: "mv_quantity m \<le> ?S" if "mv_branchId m = Some b" "\<not> mv_in m" for b
    using withdrawal_covered [OF assms(2) R(7)] R(5,11) bounds that by auto
  have before: "mv_before m = ?S" if "mv_branchId m = Some b" for b
    using stored_milli [OF assms(2) _ R(9)] bounds [of "aj_productId inp" "aj_tenantId inp" b] that by simp
  have "?S + mv_quantity m \<le> 10 ^ 14" if "mv_branchId m = Some b" "mv_in m" for b
    using entry_bounded [OF assms(2) R(7), of ?S "mv_after m"] R(5,10) bounds that by auto
  moreover have "stock_sum p t (Some b) db - mv_quantity m \<le> 10 ^ 14" for p t b
    using bounds(2) [of p t b] R(8) by linarith
  ultimately have bounds1: "stock_bounds db1"
    using bounds out R(3,4,8) unfolding stock_bounds_def R(1) stock_sum_append signed_quantity_def by auto
  have wf1: "balances_wf db1" "lots_wf db1" "\<forall>r\<in>set (iv_balances db1). has_lot db1 r"
      "distinct (map mv_id (iv_movements db1))" "\<forall>m\<in>set (iv_movements db1). 0 < mv_quantity m"
    using assms(3) R(2,8) by (simp_all add: stock_wf_def tables_wf_def R(1))
  have agree: "branch_balance db t b p = stock_sum p t (Some b) db" if "lot_controlled db t p" for t p b
    using assms(3) that by (simp add: stock_wf_def lots_agree_def)
  from rest have "stock_wf db' \<and> iv_movements db' = iv_movements db1 \<and> iv_products db' = iv_products db1"
  proof (elim disjE exE conjE)
    assume none: "payload = None" "db' = db1"
    then have "\<not> lot_controlled db (aj_tenantId inp) (aj_productId inp)"
      using val pol by (auto simp: validateLotPayload_def lot_controlled_def result_simps Let_def split: if_splits)
    then have "lots_agree db1"
      using agree R(3,4) unfolding lots_agree_def R(1) stock_sum_append stock_frame by auto
    then show ?thesis using wf1 bounds1 none(2) by (simp add: stock_wf_def tables_wf_def)
  next
    fix p assume some: "payload = Some p"
      "(if mv_in m then applyLotIn env inp p policy m db1 else applyLotOut env inp p m db1) = Inr db'"
    obtain b where b: "trimmed (aj_branchId inp) = Some b"
      using val some(1) by (auto simp: validateLotPayload_def result_simps split: if_splits)
    from apply_lot_change [OF some(2) assms(2) wf1(1-3) b R(8) k]
    have c: "balances_wf db'" "lots_wf db'" "\<forall>r\<in>set (iv_balances db'). has_lot db' r"
      "iv_movements db' = iv_movements db1" "iv_products db' = iv_products db1"
      "\<And>t' b' p'. branch_balance db' t' b' p' = branch_balance db1 t' b' p' +
         (if t' = aj_tenantId inp \<and> b' = b \<and> p' = aj_productId inp then signed_quantity m else 0)" by blast+
    have same: "stock_sum p' t' b' db' = stock_sum p' t' b' db1" "lot_controlled db' = lot_controlled db1" for p' t' b'
      using c(4,5) by (simp_all add: stock_sum_def lot_controlled_def findProductPolicy_def fun_eq_iff)
    have "lots_agree db'" using agree R(3,4,6) b
      unfolding lots_agree_def same c(6) unfolding R(1) stock_sum_append stock_frame by auto
    moreover have "stock_bounds db'" using bounds1 by (simp add: stock_bounds_def same)
    ultimately show ?thesis using c wf1(4,5) by (simp add: stock_wf_def tables_wf_def)
  qed
  then show ?thesis using R(3-8) x out before by (simp add: R(1) ledger_def)
qed

end
