(* ===== verification/Stock_Requests.thy ===== *)
theory Stock_Requests
  imports Stock_Facts
begin

section \<open>Sequences of inventory requests\<close>

text \<open>
  The requests of the inventory against its tables and the properties that hold after any
  sequence of them. \<open>createBalance\<close> and \<open>updateQuantities\<close> are not requests of their own: the
  program only reaches them through the other operations.
\<close>

datatype stock_request =
    CreateLot inv_env string lot_input inv_actor
  | UpdateLot inv_env string string lot_update_input inv_actor
  | BlockLot inv_env string string inv_actor
  | CancelLot inv_env string string inv_actor
  | PurchaseLot inv_env lot_demand
  | AdjustStock inv_env adjustment_input
  | ReserveStock inv_env string quantity_operation
  | ReleaseStock inv_env string quantity_operation

definition state_of :: "('a \<times> inv_db) http \<Rightarrow> inv_db http" where
  "state_of r = and_then r (\<lambda>(_, db). Inr db)"

fun serve_stock :: "stock_request \<Rightarrow> inv_db \<Rightarrow> inv_db http" where
  "serve_stock (CreateLot env t inp a) db = state_of (lot_create env t inp a db)"
| "serve_stock (UpdateLot env t i inp a) db = state_of (lot_update env t i inp a db)"
| "serve_stock (BlockLot env t i a) db = state_of (lot_block env t i a db)"
| "serve_stock (CancelLot env t i a) db = state_of (lot_cancel env t i a db)"
| "serve_stock (PurchaseLot env inp) db = state_of (findOrCreateForPurchase env 2 inp db)"
| "serve_stock (AdjustStock env inp) db = state_of (createAdjustment env inp db)"
| "serve_stock (ReserveStock env t q) db = state_of (reserve env t q db)"
| "serve_stock (ReleaseStock env t q) db = state_of (releaseReservation env t q db)"

fun request_ok :: "stock_request \<Rightarrow> bool" where
  "request_ok (AdjustStock env inp) = numeric_14_3 (iv_quantity env)"
| "request_ok (ReserveStock env t q) = numeric_14_3 (iv_quantity env)"
| "request_ok (ReleaseStock env t q) = numeric_14_3 (iv_quantity env)"
| "request_ok _ = True"

lemma state_of_Inr: "state_of r = Inr db \<longleftrightarrow> (\<exists>x. r = Inr (x, db))"
  by (auto simp: state_of_def result_simps split: prod.splits)

subsection \<open>Lots\<close>

lemma has_lot_place: "has_lot db r \<longleftrightarrow> (bl_lotId r, bl_tenantId r, bl_branchId r, bl_productId r) \<in> lot_place ` set (iv_lots db)"
  by (force simp: has_lot_def lot_place_def image_iff)

lemma lots_step:
  assumes "stock_wf db" "\<exists>ls. db' = db\<lparr>iv_lots := ls\<rparr> \<and> lot_place ` set (iv_lots db) \<subseteq> lot_place ` set ls" "lots_wf db'"
  shows "stock_wf db'"
proof -
  obtain ls where ls: "db' = db\<lparr>iv_lots := ls\<rparr>" "lot_place ` set (iv_lots db) \<subseteq> lot_place ` set ls" using assms(2) by auto
  have "balances_wf db'"
    using assms(1,3) by (auto simp: stock_wf_def tables_wf_def balances_wf_def lots_wf_def lot_ok_def ls(1))
  moreover have "\<forall>r\<in>set (iv_balances db'). has_lot db' r"
    using assms(1) ls(2) by (fastforce simp: stock_wf_def tables_wf_def has_lot_place ls(1))
  ultimately show ?thesis
    using assms(1,3) by (simp add: stock_wf_def tables_wf_def stock_bounds_def lots_agree_def ls(1))
qed

lemma lots_grow_step: "stock_wf db \<Longrightarrow> lots_grow db db' \<Longrightarrow> stock_wf db'"
  by (rule lots_step) (auto simp: lots_grow_def)

lemma lots_changed_step: "stock_wf db \<Longrightarrow> lots_changed db db' \<Longrightarrow> stock_wf db'"
proof (rule lots_step)
  assume "lots_changed db db'"
  then obtain ls where "db' = db\<lparr>iv_lots := ls\<rparr>" "map lot_place ls = map lot_place (iv_lots db)" by (auto simp: lots_changed_def)
  then show "\<exists>ls. db' = db\<lparr>iv_lots := ls\<rparr> \<and> lot_place ` set (iv_lots db) \<subseteq> lot_place ` set ls"
    by (metis image_set order_refl)
qed (simp_all add: lots_changed_def)

subsection \<open>Reservations\<close>

lemma stored_le:
  assumes "numeric_14_3 col" "col x = Some m" "x \<le> of_int n / 1000 + 1 / 4000" shows "m \<le> n"
proof -
  have "\<bar>x - of_int m / 1000\<bar> < 1 / 1500" using assms(1,2) by (auto simp: numeric_14_3_def)
  with assms(3) have "of_int m < (of_int (n + 1) :: rat)" unfolding of_int_add of_int_1 by linarith
  then show ?thesis by (simp only: of_int_less_iff)
qed

lemma stored_ge:
  assumes "numeric_14_3 col" "col x = Some m" "of_int n / 1000 - 1 / 4000 \<le> x" shows "n \<le> m"
proof -
  have "\<bar>x - of_int m / 1000\<bar> < 1 / 1500" using assms(1,2) by (auto simp: numeric_14_3_def)
  with assms(3) have "of_int n < (of_int (m + 1) :: rat)" unfolding of_int_add of_int_1 by linarith
  then show ?thesis by (simp only: of_int_less_iff)
qed

lemma milli_nonneg: "0 \<le> m \<Longrightarrow> 0 \<le> milli m"
  by (simp add: milli_def dbl_nonneg)

text \<open>Whatever quantity is reserved or released, the reservation stays within what is on hand.\<close>

lemma reserved_step:
  assumes "balances_wf db" "row \<in> set (iv_balances db)" "0 \<le> r" "r \<le> bl_onHand row" "stock_wf db"
  shows "stock_wf (set_account now row None (Some r) tm db)"
proof -
  let ?db = "set_account now row None (Some r) tm db"
  have wf: "balances_wf ?db"
    by (rule set_account_wf [OF assms(1,2)]) (use assms in \<open>auto simp: balances_wf_def\<close>)
  have "branch_balance ?db = branch_balance db"
    by (intro ext) (simp add: set_account_branch [OF assms(1,2)])
  moreover have "\<forall>x\<in>set (iv_balances ?db). has_lot ?db x"
  proof
    fix x assume "x \<in> set (iv_balances ?db)"
    then obtain y where "y \<in> set (iv_balances db)" "balance_key x = balance_key y" using set_account_keys by blast
    moreover have "has_lot ?db x = has_lot db x" by (simp add: set_account_def)
    ultimately show "has_lot ?db x"
      using assms(5) by (auto simp: stock_wf_def tables_wf_def has_lot_def balance_key_def)
  qed
  ultimately show ?thesis using assms(5) wf
    by (simp add: stock_wf_def tables_wf_def stock_bounds_def lots_agree_def set_account_def)
qed

lemma row_bounds:
  assumes "balances_wf db" "row \<in> set (iv_balances db)"
  shows "0 \<le> bl_reserved row" "bl_reserved row \<le> bl_onHand row" "bl_onHand row < 10 ^ 14"
  using assms by (auto simp: balances_wf_def)

lemma reserve_step:
  assumes "reserve env t q db = Inr (b, db')" "numeric_14_3 (iv_quantity env)" "stock_wf db"
  shows "stock_wf db'"
proof -
  have wf: "balances_wf db" using assms(3) by (simp add: stock_wf_def tables_wf_def)
  obtain x where x: "qo_quantity q = Fin x"
    using assms(1) by (cases "qo_quantity q") (auto simp: reserve_def checked_change_def result_simps)
  from checked_change_effect [OF assms(1) [unfolded reserve_def repo_reserve_def] x]
  obtain row r tm where row: "row \<in> set (iv_balances db)" "0 < x" "x \<le> milli (bl_onHand row - bl_reserved row)"
      "iv_quantity env (dbl (milli (bl_reserved row) + x)) = Some r" "db' = set_account (iv_now env) row None (Some r) tm db"
    by (auto simp: column_of_Inr simp del: column_of.simps)
  note b = row_bounds [OF wf row(1)]
  have "0 \<le> dbl (milli (bl_reserved row) + x)" using milli_nonneg [OF b(1)] row(2) by (intro dbl_nonneg) simp
  then have "0 \<le> r" using stored_ge [OF assms(2) row(4), of 0] by simp
  moreover have near: "\<bar>dbl (milli (bl_reserved row) + milli (bl_onHand row - bl_reserved row)) - of_int (bl_reserved row + (bl_onHand row - bl_reserved row)) / 1000\<bar> \<le> 1 / 32768 + 1 / 131072"
    by (rule sum_near) (use b milli_wide [of "bl_onHand row - bl_reserved row"] in auto)
  have e: "bl_reserved row + (bl_onHand row - bl_reserved row) = bl_onHand row" by simp
  have "dbl (milli (bl_reserved row) + milli (bl_onHand row - bl_reserved row)) \<le> of_int (bl_onHand row) / 1000 + 1 / 4000"
    using near unfolding e by linarith
  moreover have "dbl (milli (bl_reserved row) + x) \<le> dbl (milli (bl_reserved row) + milli (bl_onHand row - bl_reserved row))"
    using row(3) by (intro dbl_mono) simp
  ultimately have "0 \<le> r" "r \<le> bl_onHand row" using stored_le [OF assms(2) row(4), of "bl_onHand row"] by simp_all
  then show ?thesis unfolding row(5) by (rule reserved_step [OF wf row(1) _ _ assms(3)])
qed

lemma release_step:
  assumes "releaseReservation env t q db = Inr (b, db')" "numeric_14_3 (iv_quantity env)" "stock_wf db"
  shows "stock_wf db'"
proof -
  have wf: "balances_wf db" using assms(3) by (simp add: stock_wf_def tables_wf_def)
  obtain x where x: "qo_quantity q = Fin x"
    using assms(1) by (cases "qo_quantity q") (auto simp: releaseReservation_def checked_change_def result_simps)
  from checked_change_effect [OF assms(1) [unfolded releaseReservation_def repo_releaseReservation_def] x]
  obtain row r tm where row: "row \<in> set (iv_balances db)" "0 < x" "x \<le> milli (bl_reserved row)"
      "iv_quantity env (dbl (milli (bl_reserved row) - x)) = Some r" "db' = set_account (iv_now env) row None (Some r) tm db"
    by (auto simp: column_of_Inr simp del: column_of.simps)
  note b = row_bounds [OF wf row(1)]
  have "0 \<le> dbl (milli (bl_reserved row) - x)" using row(3) by (intro dbl_nonneg) simp
  then have "0 \<le> r" using stored_ge [OF assms(2) row(4), of 0] by simp
  have "dbl (milli (bl_reserved row) - x) \<le> dbl (milli (bl_reserved row))" using row(2) by (intro dbl_mono) simp
  also have "\<dots> = milli (bl_reserved row)" by (simp add: milli_def)
  also have "\<dots> \<le> of_int (bl_reserved row) / 1000 + 1 / 4000"
    using abs_le_D1 [OF milli_wide [of "bl_reserved row"]] b by simp
  finally have "r \<le> bl_reserved row" by (rule stored_le [OF assms(2) row(4)])
  with \<open>0 \<le> r\<close> b show ?thesis unfolding row(5) by (intro reserved_step [OF wf row(1) _ _ assms(3)]) simp_all
qed

subsection \<open>Any sequence of requests\<close>

lemma lots_products:
  "lots_grow db db' \<Longrightarrow> iv_products db' = iv_products db" "lots_changed db db' \<Longrightarrow> iv_products db' = iv_products db"
  by (auto simp: lots_grow_def lots_changed_def)

lemma serve_stock_products:
  assumes "serve_stock r db = Inr db'" "request_ok r" "stock_wf db" shows "iv_products db' = iv_products db"
proof (cases r)
  case (AdjustStock env inp)
  then show ?thesis using assms createAdjustment_effect [OF _ _ assms(3)] by (auto simp: state_of_Inr)
next
  case (ReserveStock env t q)
  then obtain x b where x: "qo_quantity q = Fin x" "reserve env t q db = Inr (b, db')"
    using assms(1) by (cases "qo_quantity q") (auto simp: state_of_Inr reserve_def checked_change_def result_simps)
  from checked_change_effect [OF x(2) [unfolded reserve_def repo_reserve_def] x(1)]
  show ?thesis by (auto simp: set_account_def simp del: column_of.simps)
next
  case (ReleaseStock env t q)
  then obtain x b where x: "qo_quantity q = Fin x" "releaseReservation env t q db = Inr (b, db')"
    using assms(1) by (cases "qo_quantity q") (auto simp: state_of_Inr releaseReservation_def checked_change_def result_simps)
  from checked_change_effect [OF x(2) [unfolded releaseReservation_def repo_releaseReservation_def] x(1)]
  show ?thesis by (auto simp: set_account_def simp del: column_of.simps)
qed (use assms lots_products lot_create_grow lot_update_changed lot_block_changed lot_cancel_changed findOrCreateForPurchase_grow
  in \<open>auto simp: state_of_Inr stock_wf_def tables_wf_def\<close>)

interpretation stock: preserved_by request_ok serve_stock "\<lambda>db. stock_wf db \<and> iv_products db = ps" for ps
proof unfold_locales
  fix r db db' assume ok: "request_ok r" and inv: "stock_wf db \<and> iv_products db = ps" and step: "serve_stock r db = Inr db'"
  then have wf: "stock_wf db" by simp
  have lots: "lots_wf db" using wf by (simp add: stock_wf_def tables_wf_def)
  have "stock_wf db'"
  proof (cases r)
    case (CreateLot env t inp a)
    then show ?thesis using step lots_grow_step [OF wf lot_create_grow] lots by (auto simp: state_of_Inr)
  next
    case (UpdateLot env t i inp a)
    then show ?thesis using step lots_changed_step [OF wf lot_update_changed] lots by (auto simp: state_of_Inr)
  next
    case (BlockLot env t i a)
    then show ?thesis using step lots_changed_step [OF wf lot_block_changed] lots by (auto simp: state_of_Inr)
  next
    case (CancelLot env t i a)
    then show ?thesis using step lots_changed_step [OF wf lot_cancel_changed] lots by (auto simp: state_of_Inr)
  next
    case (PurchaseLot env inp)
    then show ?thesis using step lots_grow_step [OF wf findOrCreateForPurchase_grow] lots by (auto simp: state_of_Inr)
  next
    case (AdjustStock env inp)
    then show ?thesis using step ok createAdjustment_effect [OF _ _ wf] by (auto simp: state_of_Inr)
  next
    case (ReserveStock env t q)
    then show ?thesis using step ok reserve_step [OF _ _ wf] by (auto simp: state_of_Inr)
  next
    case (ReleaseStock env t q)
    then show ?thesis using step ok release_step [OF _ _ wf] by (auto simp: state_of_Inr)
  qed
  then show "stock_wf db' \<and> iv_products db' = ps" using serve_stock_products [OF step ok wf] inv by simp
qed

lemma after_requests:
  assumes "stock_wf db" "\<forall>r\<in>set rs. request_ok r"
  shows "stock_wf (attempts serve_stock rs db)" "lot_controlled (attempts serve_stock rs db) = lot_controlled db"
  using stock.ok_attempts_preserve [of db "iv_products db" rs] assms
  by (simp_all add: lot_controlled_def findProductPolicy_def fun_eq_iff)

text \<open>
  After any sequence of requests the tables keep their constraints: one balance per
  lot and location with \<open>0 \<le> reserved \<le> on hand\<close>, on a lot of the same tenant, branch and product;
  lots with distinct codes and valid data; movements with positive quantities.
\<close>

theorem inventory_tables_wf:
  assumes "stock_wf db" "\<forall>r\<in>set rs. request_ok r"
  shows "tables_wf (attempts serve_stock rs db)"
  using after_requests(1) [OF assms] by (simp add: stock_wf_def)

text \<open>
  Property C17: for a lot-controlled product the balances of its lots in a branch always sum to the
  entries less the withdrawals of that branch, to the thousandth, whatever the quantities.
\<close>

theorem lot_balances_match_movements:
  assumes "stock_wf db" "\<forall>r\<in>set rs. request_ok r" "lot_controlled db t p"
  shows "branch_balance (attempts serve_stock rs db) t b p = stock_sum p t (Some b) (attempts serve_stock rs db)"
  using after_requests [OF assms(1,2)] assms(3) by (simp add: stock_wf_def lots_agree_def)

text \<open>
  Property C19: the stock of a product in a branch is never negative, and never exceeds what its
  columns can hold, after any sequence of requests.
\<close>

theorem branch_stock_bounded:
  assumes "stock_wf db" "\<forall>r\<in>set rs. request_ok r"
  shows "0 \<le> stock_sum p t (Some b) (attempts serve_stock rs db) \<and> stock_sum p t (Some b) (attempts serve_stock rs db) \<le> 10 ^ 14"
  using after_requests(1) [OF assms] by (simp add: stock_wf_def stock_bounds_def)

subsection \<open>Adjustments as steps of a ledger\<close>

text \<open>The abstract ledger: one number per tenant, product and branch; a withdrawal needs the stock.\<close>

definition ledger_step :: "bool \<Rightarrow> int \<Rightarrow> int \<Rightarrow> int option" where
  "ledger_step entry k old = (if entry then Some (old + k) else if k \<le> old then Some (old - k) else None)"

text \<open>
  Property C18: an adjustment of a branch is a step of an integer ledger of stock per tenant, product
  and branch: it books the positive quantity its column stored, the ledger accepts the step, only
  that entry of the ledger changes, and the movement records the stock before it; an adjustment
  without a branch changes no branch. For a quantity in whole thousandths that quantity is booked
  and the stock after it recorded exactly.
\<close>

theorem adjustment_refines_ledger:
  assumes "createAdjustment env inp db = Inr (m, db')" "numeric_14_3 (iv_quantity env)" "stock_wf db"
  shows "(case mv_branchId m of
      None \<Rightarrow> ledger db' = ledger db
    | Some b \<Rightarrow> (\<exists>new. ledger_step (aj_type inp = ''IN'') (mv_quantity m) (ledger db (aj_tenantId inp, aj_productId inp, b)) = Some new \<and>
        ledger db' = (ledger db)((aj_tenantId inp, aj_productId inp, b) := new) \<and>
        mv_before m = ledger db (aj_tenantId inp, aj_productId inp, b))) \<and>
    0 < mv_quantity m \<and>
    (\<forall>k. aj_quantity inp = Fin (milli k) \<longrightarrow> \<bar>k\<bar> \<le> 10 ^ 14 \<longrightarrow> mv_quantity m = k)"
proof -
  note E = createAdjustment_effect [OF assms]
  have sum: "ledger db' (t, p, b) = ledger db (t, p, b) +
      (if p = aj_productId inp \<and> t = aj_tenantId inp \<and> mv_branchId m = Some b then signed_quantity m else 0)" for t p b
  proof -
    have "stock_sum p t (Some b) db' = stock_sum p t (Some b) (db\<lparr>iv_movements := iv_movements db @ [m]\<rparr>)"
      using E by (simp add: stock_sum_def)
    then show ?thesis using E by (auto simp: ledger_def stock_sum_append)
  qed
  have "mv_quantity m = k" if "aj_quantity inp = Fin (milli k)" "\<bar>k\<bar> \<le> 10 ^ 14" for k
    using E that stored_milli [OF assms(2) that(2)] by auto
  moreover have "case mv_branchId m of
      None \<Rightarrow> ledger db' = ledger db
    | Some b \<Rightarrow> (\<exists>new. ledger_step (aj_type inp = ''IN'') (mv_quantity m) (ledger db (aj_tenantId inp, aj_productId inp, b)) = Some new \<and>
        ledger db' = (ledger db)((aj_tenantId inp, aj_productId inp, b) := new) \<and>
        mv_before m = ledger db (aj_tenantId inp, aj_productId inp, b))"
  proof (cases "mv_branchId m")
    case None
    then show ?thesis using sum by (auto simp: fun_eq_iff)
  next
    case (Some b)
    define S where "S = ledger db (aj_tenantId inp, aj_productId inp, b)"
    have "\<not> mv_in m \<longrightarrow> mv_quantity m \<le> S" "mv_before m = S" using E Some unfolding S_def by auto
    moreover have "ledger db' = (ledger db)((aj_tenantId inp, aj_productId inp, b) := S + signed_quantity m)"
      using sum Some by (auto simp: fun_eq_iff S_def)
    moreover have "mv_in m = (aj_type inp = ''IN'')" using E by simp
    ultimately show ?thesis using Some by (auto simp: ledger_step_def signed_quantity_def S_def [symmetric])
  qed
  ultimately show ?thesis using E by blast
qed

subsection \<open>A day of a shop\<close>

definition demo_stock_host :: host where
  "demo_stock_host = \<lparr>date_parse = (\<lambda>_. None), iso_string = (\<lambda>_. []), locale_compare = (\<lambda>_ _. 0), sha256_hex = id\<rparr>"

definition demo_stock_env :: "string \<Rightarrow> inv_env" where
  "demo_stock_env ids = \<lparr>iv_host = demo_stock_host, iv_now = 1, iv_today = 20260601, iv_currentDate = 20260601,
     iv_uuid = (\<lambda>n. uid (ids ! n)), iv_quantity = round_14_3, iv_cost = (\<lambda>x. Some (js_round (x * 100)))\<rparr>"

definition demo_stock_db :: inv_db where
  "demo_stock_db = \<lparr>iv_products = [\<lparr>sp_id = uid (CHR ''3''), sp_tenantId = uid (CHR ''1''), sp_cost = Some 2, sp_requiresLot = True,
       sp_requiresExpiration = True\<rparr>],
     iv_branches = [(uid (CHR ''2''), uid (CHR ''1''))], iv_locations = [], iv_access = [], iv_suppliers = [], iv_purchases = [],
     iv_purchaseItems = [], iv_lots = [], iv_balances = [], iv_movements = [], iv_links = []\<rparr>"

definition demo_adjustment :: "string \<Rightarrow> rat \<Rightarrow> adjustment_input" where
  "demo_adjustment ty q = \<lparr>aj_tenantId = uid (CHR ''1''), aj_productId = uid (CHR ''3''), aj_branchId = Some (uid (CHR ''2'')),
     aj_type = ty, aj_quantity = Fin q, aj_lotCode = Given ''l1'', aj_expirationDate = Given ''2027-01-31'', aj_locationId = Null,
     aj_unitCost = None, aj_terminalId = None, aj_posSessionId = None, aj_userId = None\<rparr>"

definition demo_stock_requests :: "stock_request list" where
  "demo_stock_requests = [AdjustStock (demo_stock_env ''45678'') (demo_adjustment ''IN'' 5)]"

lemma demo_stock_wf: "stock_wf demo_stock_db"
  by (simp add: stock_wf_def tables_wf_def stock_bounds_def lots_agree_def demo_stock_db_def balances_wf_def lots_wf_def
      stock_sum_def branch_balance_def)

lemma demo_env_ok: "numeric_14_3 (iv_quantity (demo_stock_env ids))"
  by (simp add: demo_stock_env_def numeric_round_14_3)

lemma demo_stock_ok: "\<forall>r\<in>set demo_stock_requests. request_ok r"
  by (simp add: demo_stock_requests_def demo_env_ok)

lemma demo_numbers: "round_14_3 5 = Some 5000" "round_14_3 0 = Some 0" "milli 5000 = 5" "dbl 5 = 5" 
  by code_simp+

lemma demo_date: "calendarDate ''2027-01-31'' f = Inr 20270131"
proof -
  have "js_trim ''2027-01-31'' = ''2027-01-31''" "date_text ''2027-01-31''" "valid_date 2027 1 31"
    "text_int ''2027'' = 2027" "text_int ''01'' = 1" "text_int ''31'' = 31" by code_simp+
  then show ?thesis by (simp add: calendarDate_def date_number_def)
qed
lemma demo_texts: "js_trim ''l1'' = ''l1''" "js_upper ''l1'' = ''L1''" "js_trim ''L1'' = ''L1''" "js_upper ''L1'' = ''L1''"
   "js_trim ''2027-01-31'' = ''2027-01-31''" "js_trim ''stock_adjustments'' = ''stock_adjustments''"
  by code_simp+
lemma demo_costs: "cents 200 = 2" "js_round 200 = 200" by code_simp+
lemma demo_adjusted: "\<exists>m db'. createAdjustment (demo_stock_env ''45678'') (demo_adjustment ''IN'' 5) demo_stock_db = Inr (m, db') \<and>
   ledger db' (uid (CHR ''1''), uid (CHR ''3''), uid (CHR ''2'')) = 5000"
  by (simp add: createAdjustment_def demo_stock_env_def demo_adjustment_def demo_stock_db_def findProductPolicy_def
    validateLotPayload_def hasLotData_def createMovement_def Let_def
    adjustment_movement_def getCurrentStock_def stock_sum_def demo_numbers movement_entity_def isOptionalUuid_def short_text_def
    STOCK_REFERENCE_TYPES_def movement_insert_def trimmed_def ledger_def signed_quantity_def demo_texts milli_pos 
    adjustmentLotCode_def adjustmentUnitCost_def applyLotIn_def findOrCreateForAdjustmentIn_def normalizeLotCode_def normalizeRequired_def
    demo_date assertExpirationFloor_def date_number_def assertExpirationRequirement_def lot_findByCode_def
    normalizeUnitCost_def productCost_def assertActiveLotIsNotExpired_def newLot_def lot_entity_def opt_uuid_def lot_insert_def demo_costs lot_key_def incrementOnHand_def lot_operation_def assertLotShape_def assertLocationShape_def balance_of_operation_def findByLotLocation_def createBalance_def assertQuantities_def balance_entity_def balance_insert_def balance_of_row_def balance_key_def createLink_def movement_link_def assertLinkedLot_def assertLinkedLocation_def link_entity_def link_insert_def)

lemma demo_served:
  "stock_sum (uid (CHR ''3'')) (uid (CHR ''1'')) (Some (uid (CHR ''2''))) (attempts serve_stock demo_stock_requests demo_stock_db) = 5000"
proof -
  obtain m db' where "createAdjustment (demo_stock_env ''45678'') (demo_adjustment ''IN'' 5) demo_stock_db = Inr (m, db')"
      "ledger db' (uid (CHR ''1''), uid (CHR ''3''), uid (CHR ''2'')) = 5000"
    using demo_adjusted by blast
  then show ?thesis by (simp add: demo_stock_requests_def state_of_def ledger_def)
qed

lemma inventory_tables_wf_witness: "tables_wf (attempts serve_stock demo_stock_requests demo_stock_db)"
  by (rule inventory_tables_wf [OF demo_stock_wf demo_stock_ok])

lemma lot_balances_match_movements_witness:
  "branch_balance (attempts serve_stock demo_stock_requests demo_stock_db) (uid (CHR ''1'')) (uid (CHR ''2'')) (uid (CHR ''3'')) = 5000"
proof -
  have "lot_controlled demo_stock_db (uid (CHR ''1'')) (uid (CHR ''3''))"
    by (simp add: lot_controlled_def findProductPolicy_def demo_stock_db_def)
  from lot_balances_match_movements [OF demo_stock_wf demo_stock_ok this, of "uid (CHR ''2'')"] demo_served
  show ?thesis by simp
qed

lemma branch_stock_bounded_witness:
  "stock_sum (uid (CHR ''3'')) (uid (CHR ''1'')) (Some (uid (CHR ''2''))) (attempts serve_stock demo_stock_requests demo_stock_db) = 5000 \<and>
   (5000 :: int) \<le> 10 ^ 14"
  using branch_stock_bounded [OF demo_stock_wf demo_stock_ok, of "uid (CHR ''3'')" "uid (CHR ''1'')" "uid (CHR ''2'')"] demo_served
  by simp

lemma adjustment_refines_ledger_witness:
  "\<exists>m db'. createAdjustment (demo_stock_env ''45678'') (demo_adjustment ''IN'' 5) demo_stock_db = Inr (m, db') \<and> mv_quantity m = 5000"
proof -
  obtain m db' where a: "createAdjustment (demo_stock_env ''45678'') (demo_adjustment ''IN'' 5) demo_stock_db = Inr (m, db')"
    using demo_adjusted by blast
  have "aj_quantity (demo_adjustment ''IN'' 5) = Fin (milli 5000)" by (simp add: demo_adjustment_def demo_numbers)
  with adjustment_refines_ledger [OF a demo_env_ok demo_stock_wf] a show ?thesis by auto
qed

end
