(* ===== verification/Lot_Changes.thy ===== *)
theory Lot_Changes
  imports Lot_Facts Balance_Facts
begin

section \<open>Changes of a lot\<close>

text \<open>
  What a successful change of a lot guarantees about its status and its expiration, and the path
  around the check on cancelled lots: blocking a cancelled lot and then changing its status.
\<close>

lemma lot_repo_update_row:
  assumes "lot_repo_update env t i c db = Inr (Some e, db')"
  shows "\<exists>l\<in>set (iv_lots db). lt_id l = i \<and> lt_tenantId l = t \<and> lt_status e = coalesce (lc_status c) (lt_status l) \<and>
    lt_expirationDate e = set_field (lc_expirationDate c) (lt_expirationDate l)"
proof (cases "c = no_changes")
  case True
  then obtain l where "find (\<lambda>l. lt_tenantId l = t \<and> lt_id l = i) (iv_lots db) = Some l" "lot_entity l = Inr e"
    using assms by (auto simp: lot_repo_update_def result_simps lot_findById_def read_lot_Some)
  then show ?thesis using True by (auto simp: no_changes_def dest!: find_in lot_entity_Inr)
next
  case False
  let ?hit = "\<lambda>l. lt_tenantId l = t \<and> lt_id l = i"
  from assms False obtain v where
    "lot_findById (db\<lparr>iv_lots := update_where ?hit (changed_lot (iv_now env) v c) (iv_lots db)\<rparr>) t i = Inr (Some e)"
    by (auto simp: lot_repo_update_def result_simps Let_def split: option.splits)
  then obtain l where l: "find ?hit (iv_lots db) = Some l" "lot_entity (changed_lot (iv_now env) v c l) = Inr e"
    by (auto simp: lot_findById_def read_lot_Some find_update_where)
  have "lt_status (changed_lot (iv_now env) v c l) = coalesce (lc_status c) (lt_status l)" by (simp add: changed_lot_def)
  then show ?thesis using find_in [OF l(1)] lot_entity_Inr [OF l(2)] by auto
qed

text \<open>
  A change of a lot that succeeds never turns a cancelled lot active or a consumed one
  cancelled, leaves no active lot with a date in the past, and leaves no lot without a date when
  its product requires one.
\<close>

theorem lot_update_checked:
  assumes "lot_update env t i inp a db = Inr (lot, db')" "lots_wf db" "old \<in> set (iv_lots db)" "lt_id old = i"
  shows "\<not> (lt_status old = LOT_CANCELLED \<and> lt_status lot = LOT_ACTIVE) \<and>
    \<not> (lt_status old = LOT_CONSUMED \<and> lt_status lot = LOT_CANCELLED) \<and>
    (lt_status lot = LOT_ACTIVE \<longrightarrow> (\<forall>d. lt_expirationDate lot = Some d \<longrightarrow> iv_today env \<le> d)) \<and>
    (\<exists>p. findProductPolicy db t (lt_productId old) = Some p \<and> (sp_requiresExpiration p \<longrightarrow> lt_expirationDate lot \<noteq> None))"
proof -
  from assms(1) obtain cur payload policy where cur: "lot_findOne t i a db = Inr cur" and
    trans: "assertStatusTransition cur (coalesce (lc_status payload) (lt_status cur)) = Inr ()" and
    pol: "findProductLotPolicy db t (lt_productId cur) = Inr policy" and
    req: "assertExpirationRequirement (sp_requiresExpiration policy) (set_field (lc_expirationDate payload) (lt_expirationDate cur)) = Inr ()" and
    act: "assertActiveLotIsNotExpired env (coalesce (lc_status payload) (lt_status cur)) (set_field (lc_expirationDate payload) (lt_expirationDate cur)) = Inr ()" and
    upd: "lot_repo_update env t i payload db = Inr (Some lot, db')"
    unfolding lot_update_def by (auto simp: result_simps Let_def assertLotFound_def split: option.splits prod.splits)
  from cur obtain l where l: "l \<in> set (iv_lots db)" "lt_id l = i" "cur = l\<lparr>lt_lotCode := js_upper (js_trim (lt_lotCode l))\<rparr>"
    by (auto simp: lot_findOne_def lot_findById_def read_lot_Some assertLotFound_def result_simps split: option.splits
        dest!: find_in lot_entity_Inr)
  have uniq: "x = old" if "x \<in> set (iv_lots db)" "lt_id x = i" for x
    using that assms(2-4) key_unique [of lt_id "iv_lots db" x old] by (simp add: lots_wf_def)
  from lot_repo_update_row [OF upd] uniq
  have new: "lt_status lot = coalesce (lc_status payload) (lt_status old)"
      "lt_expirationDate lot = set_field (lc_expirationDate payload) (lt_expirationDate old)" by auto
  have "cur = old\<lparr>lt_lotCode := js_upper (js_trim (lt_lotCode old))\<rparr>" using l uniq by blast
  then have c: "lt_status cur = lt_status old" "lt_expirationDate cur = lt_expirationDate old" "lt_productId cur = lt_productId old" by simp_all
  show ?thesis
    using trans pol req act unfolding c new [symmetric]
    by (auto simp: c assertStatusTransition_def findProductLotPolicy_def assertExpirationRequirement_def
        assertActiveLotIsNotExpired_def result_simps split: option.splits)
qed

subsection \<open>A sample lot\<close>

definition demo_cancelled_lot :: lot_row where
  "demo_cancelled_lot = \<lparr>lt_id = uid (CHR ''4''), lt_tenantId = uid (CHR ''1''), lt_branchId = uid (CHR ''2''), lt_productId = uid (CHR ''3''),
     lt_supplierId = None, lt_purchaseId = None, lt_purchaseItemId = None, lt_lotCode = ''L1'', lt_expirationDate = Some 20270131,
     lt_receivedAt = 1, lt_unitCost = 2, lt_status = LOT_CANCELLED, lt_isLegacy = False, lt_createdAt = 1, lt_updatedAt = 1\<rparr>"

definition demo_lot_db :: "lot_status \<Rightarrow> inv_db" where
  "demo_lot_db st = \<lparr>iv_products = [\<lparr>sp_id = uid (CHR ''3''), sp_tenantId = uid (CHR ''1''), sp_cost = None, sp_requiresLot = True,
       sp_requiresExpiration = True\<rparr>], iv_branches = [(uid (CHR ''2''), uid (CHR ''1''))], iv_locations = [], iv_access = [],
     iv_suppliers = [], iv_purchases = [], iv_purchaseItems = [], iv_lots = [demo_cancelled_lot\<lparr>lt_status := st\<rparr>],
     iv_balances = [], iv_movements = [], iv_links = []\<rparr>"

definition demo_boss :: inv_actor where
  "demo_boss = \<lparr>ia_roles = [''SUPER_USER''], ia_userId = None, ia_branchId = None\<rparr>"

definition demo_status_change :: "string \<Rightarrow> lot_update_input" where
  "demo_status_change s = \<lparr>lu_branchId = None, lu_productId = None, lu_supplierId = Absent, lu_purchaseId = Absent, lu_purchaseItemId = Absent,
     lu_lotCode = None, lu_expirationDate = Absent, lu_receivedAt = None, lu_unitCost = None, lu_status = Some s, lu_isLegacy = None\<rparr>"

lemma demo_lot_texts: "js_trim ''L1'' = ''L1''" "js_upper ''L1'' = ''L1''"
  by code_simp+

lemmas demo_lot_eval = lot_findOne_def lot_findById_def demo_lot_db_def demo_cancelled_lot_def lot_entity_def opt_uuid_def demo_lot_texts
  assertLotFound_def assertBranchAccess_def demo_boss_def canViewAllBranches_def demo_status_change_def buildUpdatePayload_def opt_then_def
  normalizeStatus_def INVENTORY_LOT_STATUSES_def assertOptionalRelations_def given_in_def assertStatusTransition_def
  assertExpirationFloor_def date_number_def findProductLotPolicy_def findProductPolicy_def assertExpirationRequirement_def
  assertActiveLotIsNotExpired_def lot_repo_update_def no_changes_def changed_lot_def update_where_def lot_key_def Let_def
  demo_balance_env_def

text \<open>A cancelled lot cannot be activated, but a blocked one can, and blocking accepts a cancelled lot.\<close>

lemma cancelled_lot_revived:
  "\<exists>l1 db1 l2 db2. lot_block demo_balance_env (uid (CHR ''1'')) (uid (CHR ''4'')) demo_boss (demo_lot_db LOT_CANCELLED) = Inr (l1, db1) \<and>
     lot_update demo_balance_env (uid (CHR ''1'')) (uid (CHR ''4'')) (demo_status_change ''ACTIVE'') demo_boss db1 = Inr (l2, db2) \<and>
     lt_status l2 = LOT_ACTIVE"
  by (simp add: lot_block_def lot_update_def demo_lot_eval)

lemma lot_update_checked_witness:
  "\<exists>lot db'. lot_update demo_balance_env (uid (CHR ''1'')) (uid (CHR ''4'')) (demo_status_change ''BLOCKED'') demo_boss (demo_lot_db LOT_ACTIVE) = Inr (lot, db') \<and>
     lt_status lot = LOT_BLOCKED \<and> lt_expirationDate lot \<noteq> None"
proof -
  have "\<exists>lot db'. lot_update demo_balance_env (uid (CHR ''1'')) (uid (CHR ''4'')) (demo_status_change ''BLOCKED'') demo_boss (demo_lot_db LOT_ACTIVE) = Inr (lot, db') \<and>
     lt_status lot = LOT_BLOCKED" by (simp add: lot_update_def demo_lot_eval)
  then obtain lot db' where a: "lot_update demo_balance_env (uid (CHR ''1'')) (uid (CHR ''4'')) (demo_status_change ''BLOCKED'') demo_boss (demo_lot_db LOT_ACTIVE) = Inr (lot, db')"
     "lt_status lot = LOT_BLOCKED" by blast
  have wf: "lots_wf (demo_lot_db LOT_ACTIVE)"
    by (simp add: lots_wf_def lot_ok_def demo_lot_db_def demo_cancelled_lot_def demo_lot_texts date_number_def)
  have row: "demo_cancelled_lot\<lparr>lt_status := LOT_ACTIVE\<rparr> \<in> set (iv_lots (demo_lot_db LOT_ACTIVE))"
    "lt_id (demo_cancelled_lot\<lparr>lt_status := LOT_ACTIVE\<rparr>) = uid (CHR ''4'')" by (simp_all add: demo_lot_db_def demo_cancelled_lot_def)
  have "lt_expirationDate lot \<noteq> None"
    using lot_update_checked [OF a(1) wf row] by (auto simp: findProductPolicy_def demo_lot_db_def demo_cancelled_lot_def)
  with a show ?thesis by blast
qed

end
