(* ===== verification/Json_Text.thy ===== *)
theory Json_Text
  imports Prelude "HOL-Library.Multiset" "HOL-Library.List_Lexorder" "HOL-Library.Product_Lexorder"
begin

section \<open>JSON texts and the reading of untyped values\<close>

text \<open>
  What the services do with JSON values whose shape no type guarantees: the conversions
  \<open>String\<close> and \<open>Number\<close>, property reads that may throw, \<open>JSON.stringify\<close>, and the
  canonical form the outbox hashes (\<open>canonicalize\<close> and \<open>stableStringify\<close> of
  integration-outbox.repository.ts), with the facts that the canonical form of an object does not
  depend on the order of its members. An object lists its own properties in the order the
  engine enumerates them: array indices first, in numeric order, then the other names in the
  order of their creation.
\<close>

lemma find_append: "find P (xs @ ys) = (case find P xs of None \<Rightarrow> find P ys | Some x \<Rightarrow> Some x)"
  by (induction xs) auto

record text_host = host +
  number_text :: "rat \<Rightarrow> string"
  number_of :: "string \<Rightarrow> jsnum"
  json_parse :: "string \<Rightarrow> json option"
  type_error :: string

subsection \<open>Conversions\<close>

fun join :: "string \<Rightarrow> string list \<Rightarrow> string" where
  "join sep [] = []"
| "join sep [x] = x"
| "join sep (x # y # xs) = x @ sep @ join sep (y # xs)"

fun js_string :: "'z text_host_scheme \<Rightarrow> json \<Rightarrow> string" where
  "js_string h JNull = ''null''"
| "js_string h (JBool b) = (if b then ''true'' else ''false'')"
| "js_string h (JNum x) = number_text h x"
| "js_string h (JStr s) = s"
| "js_string h (JArr xs) = join '','' (map (\<lambda>x. if x = JNull then [] else js_string h x) xs)"
| "js_string h (JObj kvs) = ''[object Object]''"

fun js_number :: "'z text_host_scheme \<Rightarrow> json \<Rightarrow> jsnum" where
  "js_number h JNull = Fin 0"
| "js_number h (JBool b) = Fin (if b then 1 else 0)"
| "js_number h (JNum x) = Fin x"
| "js_number h (JObj kvs) = NaN"
| "js_number h v = number_of h (js_string h v)"

fun json_truthy :: "json \<Rightarrow> bool" where
  "json_truthy JNull = False"
| "json_truthy (JBool b) = b"
| "json_truthy (JNum x) = (x \<noteq> 0)"
| "json_truthy (JStr s) = (s \<noteq> [])"
| "json_truthy _ = True"

text \<open>\<open>v ?? d\<close> for a property that may be absent or null, and \<open>Boolean(v?.length)\<close>.\<close>

fun nonnull :: "json option \<Rightarrow> json option" where
  "nonnull (Some JNull) = None"
| "nonnull v = v"

definition has_length :: "json option \<Rightarrow> bool" where
  "has_length v = (case v of
       Some (JArr xs) \<Rightarrow> xs \<noteq> []
     | Some (JStr s) \<Rightarrow> s \<noteq> []
     | Some (JObj kvs) \<Rightarrow> (case map_of kvs ''length'' of None \<Rightarrow> False | Some n \<Rightarrow> json_truthy n)
     | _ \<Rightarrow> False)"

text \<open>\<open>v.k\<close> throws a TypeError on null; \<open>v?.trim()\<close> throws one on a value that is no string.\<close>

fun js_get :: "'z text_host_scheme \<Rightarrow> string \<Rightarrow> json \<Rightarrow> string + json option" where
  "js_get h k JNull = Inl (type_error h)"
| "js_get h k v = Inr (jfield k v)"

fun trim_given :: "'z text_host_scheme \<Rightarrow> json option \<Rightarrow> string + bool" where
  "trim_given h None = Inr False"
| "trim_given h (Some JNull) = Inr False"
| "trim_given h (Some (JStr s)) = Inr (js_trim s \<noteq> [])"
| "trim_given h (Some _) = Inl (type_error h)"

text \<open>\<open>c.k1?.trim() && c.k2?.trim() && \<dots>\<close>: later names are read only while the earlier are given.\<close>

fun texts_given :: "'z text_host_scheme \<Rightarrow> json \<Rightarrow> string list \<Rightarrow> string + bool" where
  "texts_given h c [] = Inr True"
| "texts_given h c (k # ks) = and_then (trim_given h (jfield k c)) (\<lambda>b. if b then texts_given h c ks else Inr False)"

subsection \<open>JSON.stringify\<close>

definition hex_digit :: "nat \<Rightarrow> char" where
  "hex_digit n = char_of (if n < 10 then 48 + n else 87 + n)"

definition quote_char :: "char \<Rightarrow> string" where
  "quote_char c = (let n = code c in
     if n = 34 then [CHR 0x5C, c] else if n = 92 then [c, c]
     else if n = 8 then [CHR 0x5C, CHR ''b''] else if n = 12 then [CHR 0x5C, CHR ''f'']
     else if n = 10 then [CHR 0x5C, CHR ''n''] else if n = 13 then [CHR 0x5C, CHR ''r'']
     else if n = 9 then [CHR 0x5C, CHR ''t'']
     else if n < 32 then CHR 0x5C # ''u00'' @ [hex_digit (n div 16), hex_digit (n mod 16)]
     else [c])"

definition quote :: "string \<Rightarrow> string" where
  "quote s = CHR 0x22 # concat (map quote_char s) @ [CHR 0x22]"

fun stringify :: "'z text_host_scheme \<Rightarrow> json \<Rightarrow> string" where
  "stringify h JNull = ''null''"
| "stringify h (JBool b) = (if b then ''true'' else ''false'')"
| "stringify h (JNum x) = number_text h x"
| "stringify h (JStr s) = quote s"
| "stringify h (JArr xs) = ''['' @ join '','' (map (stringify h) xs) @ '']''"
| "stringify h (JObj kvs) = ''{'' @ join '','' (map (\<lambda>(k, v). quote k @ '':'' @ stringify h v) kvs) @ ''}''"

subsection \<open>The canonical form\<close>

definition code_units :: "string \<Rightarrow> nat list" where
  "code_units s = map code s"

definition text_number :: "string \<Rightarrow> nat" where
  "text_number s = fold (\<lambda>c n. n * 10 + (code c - 48)) s 0"

text \<open>A property name is an array index when it is the text of a number below \<open>2 ^ 32 - 1\<close>.\<close>

definition array_index :: "string \<Rightarrow> bool" where
  "array_index s \<longleftrightarrow> s \<noteq> [] \<and> list_all is_digit s \<and> (hd s = CHR ''0'' \<longrightarrow> s = ''0'') \<and> text_number s < 2 ^ 32 - 1"

definition enumerated :: "(string \<times> 'a) list \<Rightarrow> (string \<times> 'a) list" where
  "enumerated kvs = sort_key (\<lambda>(k, v). text_number k) (filter (\<lambda>(k, v). array_index k) kvs) @
     filter (\<lambda>(k, v). \<not> array_index k) kvs"

text \<open>
  \<open>Object.keys(v).sort().reduce(\<dots>)\<close>: the names in the order of their code units, assigned one by
  one to an empty object. Assigning to the name \<open>__proto__\<close> creates no property.
\<close>

fun canonicalize :: "json \<Rightarrow> json" where
  "canonicalize (JArr xs) = JArr (map canonicalize xs)"
| "canonicalize (JObj kvs) = JObj (enumerated (filter (\<lambda>(k, v). k \<noteq> ''__proto__'')
     (sort_key (\<lambda>(k, v). code_units k) (map (\<lambda>(k, v). (k, canonicalize v)) kvs))))"
| "canonicalize v = v"

definition stableStringify :: "'z text_host_scheme \<Rightarrow> json \<Rightarrow> string" where
  "stableStringify h v = stringify h (canonicalize v)"

text \<open>The same value up to the order of the members of its objects.\<close>

inductive same_json :: "json \<Rightarrow> json \<Rightarrow> bool" where
  same_refl: "same_json v v"
| same_arr: "list_all2 same_json xs ys \<Longrightarrow> same_json (JArr xs) (JArr ys)"
| same_obj: "map fst kvs = map fst kws \<Longrightarrow> list_all2 same_json (map snd kvs) (map snd kws) \<Longrightarrow> distinct (map fst kws) \<Longrightarrow>
     mset lws = mset kws \<Longrightarrow> same_json (JObj kvs) (JObj lws)"

lemma code_units_inj: "code_units s = code_units t \<Longrightarrow> s = t"
proof -
  have "inj code" by (rule injI) (simp add: code_def)
  then show "code_units s = code_units t \<Longrightarrow> s = t" by (simp add: code_units_def inj_map_eq_map)
qed

text \<open>Members with distinct names, in any order, sort to the same list.\<close>

lemma sort_members:
  assumes "mset xs = mset ys" "distinct (map fst ys)"
  shows "sort_key (\<lambda>(k, v). code_units k) xs = sort_key (\<lambda>(k, v). code_units k) ys"
proof (rule properties_for_sort_key)
  show "mset (sort_key (\<lambda>(k, v). code_units k) ys) = mset xs" using assms(1) by simp
next
  fix z assume "z \<in> set (sort_key (\<lambda>(k, v). code_units k) ys)"
  then have z: "z \<in> set ys" by simp
  have one: "filter (\<lambda>x. code_units (fst z) = code_units (fst x)) ws = [z]"
    if "z \<in> set ws" "distinct (map fst ws)" for ws :: "(string \<times> 'a) list"
    using that
  proof (induction ws)
    case (Cons w ws)
    show ?case
    proof (cases "w = z")
      case True
      then have "filter (\<lambda>x. code_units (fst z) = code_units (fst x)) ws = []"
        using Cons.prems(2) by (force simp: filter_empty_conv dest: code_units_inj)
      with True show ?thesis by simp
    next
      case False
      then have "fst w \<noteq> fst z" using Cons.prems by force
      then have "code_units (fst z) \<noteq> code_units (fst w)" by (metis code_units_inj)
      with Cons False show ?thesis by simp
    qed
  qed simp
  have xs: "z \<in> set xs" "distinct (map fst xs)"
    using z assms by (metis set_mset_mset, metis mset_eq_imp_distinct_iff mset_map)
  have "filter (\<lambda>x. (case z of (k, v) \<Rightarrow> code_units k) = (case x of (k, v) \<Rightarrow> code_units k)) (sort_key (\<lambda>(k, v). code_units k) ys) = [z]"
    using one [of "sort_key (\<lambda>(k, v). code_units k) ys"] z assms(2)
    by (simp add: case_prod_beta' mset_eq_imp_distinct_iff [of "map fst (sort_key _ ys)" "map fst ys"])
  moreover have "filter (\<lambda>x. (case z of (k, v) \<Rightarrow> code_units k) = (case x of (k, v) \<Rightarrow> code_units k)) xs = [z]"
    using one [OF xs] by (simp add: case_prod_beta')
  ultimately show "filter (\<lambda>x. (case z of (k, v) \<Rightarrow> code_units k) = (case x of (k, v) \<Rightarrow> code_units k)) (sort_key (\<lambda>(k, v). code_units k) ys) =
      filter (\<lambda>x. (case z of (k, v) \<Rightarrow> code_units k) = (case x of (k, v) \<Rightarrow> code_units k)) xs"
    by simp
qed simp

lemma canonicalize_same: "same_json v w \<Longrightarrow> canonicalize v = canonicalize w"
proof (induction rule: same_json.induct)
  case (same_arr xs ys)
  then show ?case by (auto simp: list_all2_conv_all_nth intro!: nth_equalityI)
next
  case (same_obj kvs kws lws)
  have "map snd (map (\<lambda>(k, v). (k, canonicalize v)) kvs) = map snd (map (\<lambda>(k, v). (k, canonicalize v)) kws)"
    using same_obj.IH by (auto simp: list_all2_conv_all_nth case_prod_beta' intro!: nth_equalityI)
  then have c: "map (\<lambda>(k, v). (k, canonicalize v)) kvs = map (\<lambda>(k, v). (k, canonicalize v)) kws"
    using same_obj.hyps(1) by (intro pair_list_eqI) (simp_all add: case_prod_beta' comp_def)
  have "sort_key (\<lambda>(k, v). code_units k) (map (\<lambda>(k, v). (k, canonicalize v)) lws) =
      sort_key (\<lambda>(k, v). code_units k) (map (\<lambda>(k, v). (k, canonicalize v)) kws)"
    by (rule sort_members) (use same_obj.hyps in \<open>auto simp: case_prod_beta' comp_def\<close>)
  with c show ?case by simp
qed simp

end
