(* ===== verification/Outbox_Events.thy ===== *)
theory Outbox_Events
  imports Json_Text
begin

section \<open>The integration outbox: table and repository\<close>

text \<open>
  The table integration_outbox_events and the statements of IntegrationOutboxRepository
  (integration-outbox/repositories/integration-outbox.repository.ts) that the services call.
  Every statement is atomic. Instants are milliseconds. A batch is claimed in the order of
  creation, then of the row's id (uuids are compared as their text).
\<close>

datatype outbox_status = EV_PENDING | EV_PROCESSING | EV_PUBLISHED | EV_FAILED

record outbox_event =
  ev_id :: string
  ev_event_id :: string
  ev_event_type :: string
  ev_schema_version :: int
  ev_tenant_id :: string
  ev_correlation_id :: string
  ev_source_type :: string
  ev_source_id :: string
  ev_payload :: json
  ev_payload_hash :: string
  ev_status :: outbox_status
  ev_attempt_count :: int
  ev_next_attempt_at :: int
  ev_lease_until :: "int option"
  ev_last_attempt_at :: "int option"
  ev_published_at :: "int option"
  ev_last_error :: "string option"
  ev_created_at :: int
  ev_updated_at :: int

type_synonym outbox = "outbox_event list"

text \<open>The envelope of a completed sale, and what the repository takes to store one.\<close>

record envelope =
  en_eventId :: string
  en_eventType :: string
  en_schemaVersion :: int
  en_tenantId :: string
  en_correlationId :: string
  en_occurredAt :: string
  en_sourceType :: string
  en_sourceId :: string
  en_payload :: json

record new_event =
  ne_id :: string
  ne_event :: envelope
  ne_payloadHash :: "string option"
  ne_status :: "outbox_status option"
  ne_attemptCount :: "int option"
  ne_nextAttemptAt :: "int option"
  ne_leaseUntil :: "int option"
  ne_lastAttemptAt :: "int option"
  ne_publishedAt :: "int option"
  ne_lastError :: "string option"
  ne_createdAt :: "int option"
  ne_updatedAt :: "int option"

datatype outbox_error = OutboxConflict string | DatabaseError string

definition hashPayload :: "'z text_host_scheme \<Rightarrow> json \<Rightarrow> string" where
  "hashPayload h payload = sha256_hex h (stableStringify h payload)"

definition new_row :: "int \<Rightarrow> string \<Rightarrow> new_event \<Rightarrow> outbox_event" where
  "new_row now payloadHash inp =
     \<lparr>ev_id = ne_id inp, ev_event_id = en_eventId (ne_event inp), ev_event_type = en_eventType (ne_event inp),
      ev_schema_version = en_schemaVersion (ne_event inp), ev_tenant_id = en_tenantId (ne_event inp),
      ev_correlation_id = en_correlationId (ne_event inp), ev_source_type = en_sourceType (ne_event inp),
      ev_source_id = en_sourceId (ne_event inp), ev_payload = en_payload (ne_event inp),
      ev_payload_hash = payloadHash, ev_status = coalesce (ne_status inp) EV_PENDING,
      ev_attempt_count = coalesce (ne_attemptCount inp) 0,
      ev_next_attempt_at = coalesce (ne_nextAttemptAt inp) (coalesce (ne_createdAt inp) now),
      ev_lease_until = ne_leaseUntil inp, ev_last_attempt_at = ne_lastAttemptAt inp,
      ev_published_at = ne_publishedAt inp, ev_last_error = ne_lastError inp,
      ev_created_at = coalesce (ne_createdAt inp) now, ev_updated_at = coalesce (ne_updatedAt inp) now\<rparr>"

definition findByEventId :: "string \<Rightarrow> outbox \<Rightarrow> outbox_event option" where
  "findByEventId eventId db = find (\<lambda>e. ev_event_id e = eventId) db"

text \<open>
  \<open>INSERT \<dots> ON CONFLICT (event_id) DO NOTHING\<close>: a repeated id, and a negative count of
  attempts, are errors of the database. The branch of an event that exists and cannot be loaded
  is the code's.
\<close>

definition enqueue :: "'z text_host_scheme \<Rightarrow> int \<Rightarrow> new_event \<Rightarrow> outbox \<Rightarrow> outbox_error + outbox_event \<times> outbox" where
  "enqueue h now inp db =
     (let payloadHash = coalesce (ne_payloadHash inp) (hashPayload h (en_payload (ne_event inp)));
          eventId = en_eventId (ne_event inp);
          row = new_row now payloadHash inp
      in if eventId \<notin> ev_event_id ` set db then
           (if ne_id inp \<in> ev_id ` set db \<or> ev_attempt_count row < 0 then Inl (DatabaseError ''integration_outbox_events'')
            else Inr (row, db @ [row]))
         else case findByEventId eventId db of
             None \<Rightarrow> Inl (OutboxConflict (''Outbox event '' @ eventId @ '' already exists but could not be loaded''))
           | Some existing \<Rightarrow>
               if ev_payload_hash existing \<noteq> payloadHash
               then Inl (OutboxConflict (''Outbox event '' @ eventId @ '' already exists with a different payload''))
               else Inr (existing, db))"

definition enqueueEvent :: "'z text_host_scheme \<Rightarrow> int \<Rightarrow> string \<Rightarrow> envelope \<Rightarrow> outbox \<Rightarrow> outbox_error + outbox_event \<times> outbox" where
  "enqueueEvent h now i event db = enqueue h now
     \<lparr>ne_id = i, ne_event = event, ne_payloadHash = None, ne_status = None, ne_attemptCount = None,
      ne_nextAttemptAt = None, ne_leaseUntil = None, ne_lastAttemptAt = None, ne_publishedAt = None,
      ne_lastError = None, ne_createdAt = None, ne_updatedAt = None\<rparr> db"

definition findBySource :: "string \<Rightarrow> string \<Rightarrow> string \<Rightarrow> string \<Rightarrow> outbox \<Rightarrow> outbox_event list" where
  "findBySource tenantId sourceType sourceId eventType db =
     rev (sort_key (\<lambda>e. (ev_created_at e, code_units (ev_id e)))
       (filter (\<lambda>e. ev_tenant_id e = tenantId \<and> ev_source_type e = sourceType \<and> ev_source_id e = sourceId \<and>
          ev_event_type e = eventType) db))"

definition SALE_COMPLETED :: string where
  "SALE_COMPLETED = ''SALE_COMPLETED_FOR_ELECTRONIC_BILLING''"

definition superseded_error :: "'z text_host_scheme \<Rightarrow> string \<Rightarrow> string" where
  "superseded_error h replacementEventId =
     stringify h (JObj [(''code'', JStr ''OUTBOX_EVENT_SUPERSEDED''), (''replacementEventId'', JStr replacementEventId)])"

definition supersedePendingEvent :: "'z text_host_scheme \<Rightarrow> string \<Rightarrow> string \<Rightarrow> int \<Rightarrow> outbox \<Rightarrow> bool \<times> outbox" where
  "supersedePendingEvent h eventId replacementEventId supersededAt db =
     (let hit = (\<lambda>e. ev_event_id e = eventId \<and> ev_event_type e = SALE_COMPLETED \<and> ev_status e = EV_PENDING \<and>
            ev_attempt_count e = 0 \<and> ev_lease_until e = None)
      in (Prelude.count hit db = 1, update_where hit (\<lambda>e. e\<lparr>ev_status := EV_FAILED, ev_lease_until := None,
            ev_next_attempt_at := supersededAt, ev_last_error := Some (superseded_error h replacementEventId),
            ev_updated_at := supersededAt\<rparr>) db))"

definition recovered_error :: "'z text_host_scheme \<Rightarrow> string \<Rightarrow> string option \<Rightarrow> string" where
  "recovered_error h replacementEventId originalError =
     stringify h (JObj [(''code'', JStr ''OUTBOX_EVENT_RECOVERED_PRE_PROVIDER''),
       (''replacementEventId'', JStr replacementEventId),
       (''originalError'', (case originalError of None \<Rightarrow> JNull | Some s \<Rightarrow> JStr s))])"

definition recordFailedPreProviderRecovery ::
  "'z text_host_scheme \<Rightarrow> string \<Rightarrow> string \<Rightarrow> string option \<Rightarrow> int \<Rightarrow> outbox \<Rightarrow> bool \<times> outbox" where
  "recordFailedPreProviderRecovery h eventId replacementEventId originalError recoveredAt db =
     (let hit = (\<lambda>e. ev_event_id e = eventId \<and> ev_event_type e = SALE_COMPLETED \<and> ev_status e = EV_FAILED \<and>
            ev_attempt_count e = 1 \<and> ev_lease_until e = None)
      in (Prelude.count hit db = 1, update_where hit (\<lambda>e. e\<lparr>ev_last_error := Some (recovered_error h replacementEventId originalError),
            ev_updated_at := recoveredAt\<rparr>) db))"

definition lease_free :: "int \<Rightarrow> outbox_event \<Rightarrow> bool" where
  "lease_free now e = (case ev_lease_until e of None \<Rightarrow> True | Some t \<Rightarrow> t \<le> now)"

definition lease_over :: "int \<Rightarrow> outbox_event \<Rightarrow> bool" where
  "lease_over now e = (case ev_lease_until e of None \<Rightarrow> False | Some t \<Rightarrow> t \<le> now)"

definition due :: "int \<Rightarrow> outbox_event \<Rightarrow> bool" where
  "due now e \<longleftrightarrow> (ev_status e = EV_PENDING \<and> ev_next_attempt_at e \<le> now \<or>
     ev_status e = EV_PROCESSING \<and> lease_over now e) \<and> lease_free now e"

definition candidates :: "int \<Rightarrow> nat \<Rightarrow> outbox \<Rightarrow> string list" where
  "candidates now limit db =
     map ev_id (take limit (sort_key (\<lambda>e. (ev_created_at e, code_units (ev_id e))) (filter (due now) db)))"

definition claimed :: "int \<Rightarrow> int \<Rightarrow> outbox_event \<Rightarrow> outbox_event" where
  "claimed now leaseMs e = e\<lparr>ev_status := EV_PROCESSING, ev_attempt_count := ev_attempt_count e + 1,
     ev_lease_until := Some (now + leaseMs), ev_last_attempt_at := Some now, ev_updated_at := now\<rparr>"

definition claimDueEvents :: "int \<Rightarrow> nat \<Rightarrow> int \<Rightarrow> outbox \<Rightarrow> outbox_event list \<times> outbox" where
  "claimDueEvents now limit leaseMs db =
     (let ids = candidates now limit db
      in (map (claimed now leaseMs) (filter (\<lambda>e. ev_id e \<in> set ids) db),
          update_where (\<lambda>e. ev_id e \<in> set ids) (claimed now leaseMs) db))"

definition claimable :: "string \<Rightarrow> int \<Rightarrow> outbox_event \<Rightarrow> bool" where
  "claimable eventId now e \<longleftrightarrow> ev_event_id e = eventId \<and> ev_status e = EV_PENDING \<and>
     ev_next_attempt_at e \<le> now \<and> lease_free now e"

definition claimDueEvent :: "string \<Rightarrow> int \<Rightarrow> int \<Rightarrow> outbox \<Rightarrow> outbox_event option \<times> outbox" where
  "claimDueEvent eventId now leaseMs db =
     (map_option (claimed now leaseMs) (find (claimable eventId now) db),
      update_where (claimable eventId now) (claimed now leaseMs) db)"

definition markPublished :: "string \<Rightarrow> int \<Rightarrow> outbox \<Rightarrow> outbox" where
  "markPublished eventId publishedAt = update_where (\<lambda>e. ev_event_id e = eventId)
     (\<lambda>e. e\<lparr>ev_status := EV_PUBLISHED, ev_published_at := Some publishedAt, ev_lease_until := None,
       ev_last_error := None, ev_updated_at := publishedAt\<rparr>)"

definition markRetryableFailure :: "string \<Rightarrow> int \<Rightarrow> string \<Rightarrow> outbox \<Rightarrow> outbox" where
  "markRetryableFailure eventId nextAttemptAt lastError = update_where (\<lambda>e. ev_event_id e = eventId)
     (\<lambda>e. e\<lparr>ev_status := EV_PENDING, ev_next_attempt_at := nextAttemptAt, ev_lease_until := None,
       ev_last_error := Some lastError, ev_updated_at := nextAttemptAt\<rparr>)"

definition markTerminalFailure :: "string \<Rightarrow> int \<Rightarrow> string \<Rightarrow> outbox \<Rightarrow> outbox" where
  "markTerminalFailure eventId failedAt lastError = update_where (\<lambda>e. ev_event_id e = eventId)
     (\<lambda>e. e\<lparr>ev_status := EV_FAILED, ev_lease_until := None, ev_next_attempt_at := failedAt,
       ev_last_error := Some lastError, ev_updated_at := failedAt\<rparr>)"

definition reactivateForRetry :: "string \<Rightarrow> int \<Rightarrow> outbox \<Rightarrow> outbox_event option \<times> outbox" where
  "reactivateForRetry eventId now db =
     (let again = (\<lambda>e. e\<lparr>ev_status := EV_PENDING, ev_next_attempt_at := now, ev_lease_until := None,
            ev_last_error := None, ev_updated_at := now\<rparr>)
      in (map_option again (findByEventId eventId db), update_where (\<lambda>e. ev_event_id e = eventId) again db))"

end
