(* ===== verification/Billing_Client.thy ===== *)
theory Billing_Client
  imports Outbox_Events
begin

section \<open>The client of the electronic billing service\<close>

text \<open>
  The part of BillingIntegrationClient that delivers a completed sale
  (integration-outbox/services/billing-integration-client.ts: sendSaleCompletedEvent, the
  classification of the response and of its Retry-After header), and the reading and mapping of the
  outcome of an electronic document (contracts/electronic-billing-outcome.ts). What the network
  answers is a parameter: a response with its status, its header and its body text, an aborted
  request, or another failure.
\<close>

subsection \<open>Outcomes of an electronic document\<close>

datatype failure_origin = FACTUCORE | DIAN | MANUS

record document_failure =
  df_code :: "string option"
  df_message :: string
  df_origin :: failure_origin
  df_path :: "string option"
  df_severity :: "string option"
  df_title :: "string option"
  df_solution :: "string option"
  df_retryable :: bool

record document_outcome =
  do_electronicDocumentId :: string
  do_documentType :: string
  do_status :: string
  do_fullNumber :: "string option"
  do_cufe :: "string option"
  do_cude :: "string option"
  do_providerStatus :: "string option"
  do_failureClass :: string
  do_retryable :: bool
  do_errorCode :: "string option"
  do_errorMessage :: "string option"
  do_failures :: "document_failure list"

fun text_of :: "json option \<Rightarrow> string option" where
  "text_of (Some (JStr s)) = Some s"
| "text_of _ = None"

fun is_record :: "json \<Rightarrow> bool" where
  "is_record (JObj _) = True"
| "is_record _ = False"

definition read_failure :: "json \<Rightarrow> document_failure" where
  "read_failure v =
     \<lparr>df_code = text_of (jfield ''code'' v), df_message = coalesce (text_of (jfield ''message'' v)) [],
      df_origin = (if jfield ''origin'' v = Some (JStr ''DIAN'') then DIAN
        else if jfield ''origin'' v = Some (JStr ''MANUS'') then MANUS else FACTUCORE),
      df_path = text_of (jfield ''path'' v), df_severity = text_of (jfield ''severity'' v),
      df_title = text_of (jfield ''title'' v), df_solution = text_of (jfield ''solution'' v),
      df_retryable = (jfield ''retryable'' v = Some (JBool True))\<rparr>"

fun read_failures :: "json option \<Rightarrow> document_failure list" where
  "read_failures (Some (JArr xs)) = map read_failure (filter is_record xs)"
| "read_failures _ = []"

definition readBillingElectronicDocumentOutcome :: "json \<Rightarrow> document_outcome option" where
  "readBillingElectronicDocumentOutcome v =
     (case (is_record v, text_of (jfield ''electronicDocumentId'' v), text_of (jfield ''status'' v)) of
        (True, Some i, Some st) \<Rightarrow> Some
          \<lparr>do_electronicDocumentId = i, do_documentType = coalesce (text_of (jfield ''documentType'' v)) ''INVOICE'',
           do_status = st, do_fullNumber = text_of (jfield ''fullNumber'' v), do_cufe = text_of (jfield ''cufe'' v),
           do_cude = text_of (jfield ''cude'' v), do_providerStatus = text_of (jfield ''providerStatus'' v),
           do_failureClass = coalesce (text_of (jfield ''failureClass'' v)) ''UNKNOWN'',
           do_retryable = (jfield ''retryable'' v = Some (JBool True)),
           do_errorCode = text_of (jfield ''errorCode'' v), do_errorMessage = text_of (jfield ''errorMessage'' v),
           do_failures = read_failures (jfield ''failures'' v)\<rparr>
      | _ \<Rightarrow> None)"

subsection \<open>What the cashier is told\<close>

datatype online_status = ON_ACCEPTED | ON_REJECTED | ON_QUEUED_NETWORK | ON_PROCESSING

record online_result =
  or_status :: online_status
  or_electronicDocumentId :: "string option"
  or_documentType :: "string option"
  or_fullNumber :: "string option"
  or_cufe :: "string option"
  or_cude :: "string option"
  or_failureClass :: "string option"
  or_errorCode :: "string option"
  or_errorMessage :: "string option"
  or_failures :: "document_failure list"
  or_message :: string

fun MESSAGES :: "online_status \<Rightarrow> string" where
  "MESSAGES ON_ACCEPTED = ''Factura electr'' @ [CHR 0xF3] @ ''nica aceptada por la DIAN.''"
| "MESSAGES ON_REJECTED = ''La factura electr'' @ [CHR 0xF3] @ ''nica fue rechazada. Revise el c'' @ [CHR 0xF3] @
     ''digo y la soluci'' @ [CHR 0xF3] @ ''n sugerida.''"
| "MESSAGES ON_QUEUED_NETWORK = ''Sin conexi'' @ [CHR 0xF3] @ ''n con facturaci'' @ [CHR 0xF3] @ ''n electr'' @ [CHR 0xF3] @
     ''nica. El documento qued'' @ [CHR 0xF3] @ '' en cola y se enviar'' @ [CHR 0xE1] @ '' autom'' @ [CHR 0xE1] @ ''ticamente.''"
| "MESSAGES ON_PROCESSING = ''El documento electr'' @ [CHR 0xF3] @
     ''nico se sigue procesando. Consulte el estado en unos minutos.''"

datatype delivery_outcome = DeliveryPublished | DeliveryRetryable | DeliveryFailed | DeliverySkipped

record inline_delivery =
  il_outcome :: delivery_outcome
  il_statusCode :: "int option"
  il_errorCode :: "string option"
  il_message :: "string option"
  il_electronicDocument :: "document_outcome option"

definition emptyResult :: "online_status \<Rightarrow> online_result" where
  "emptyResult status =
     \<lparr>or_status = status, or_electronicDocumentId = None, or_documentType = None, or_fullNumber = None,
      or_cufe = None, or_cude = None, or_failureClass = None, or_errorCode = None, or_errorMessage = None,
      or_failures = [], or_message = MESSAGES status\<rparr>"

definition resolveOnlineStatusFromDocument :: "document_outcome \<Rightarrow> online_status" where
  "resolveOnlineStatusFromDocument d =
     (if do_status d = ''ACCEPTED'' then ON_ACCEPTED
      else if do_status d = ''REJECTED'' then ON_REJECTED
      else if do_status d = ''TECHNICAL_ERROR'' then (if do_retryable d then ON_QUEUED_NETWORK else ON_REJECTED)
      else ON_PROCESSING)"

fun first_code :: "document_failure list \<Rightarrow> string option" where
  "first_code [] = None" | "first_code (f # _) = df_code f"

fun first_message :: "document_failure list \<Rightarrow> string option" where
  "first_message [] = None" | "first_message (f # _) = Some (df_message f)"

fun or_else :: "'a option \<Rightarrow> 'a option \<Rightarrow> 'a option" where
  "or_else None b = b" | "or_else (Some x) b = Some x"

definition buildOnlineResultFromDocument :: "document_outcome \<Rightarrow> online_result" where
  "buildOnlineResultFromDocument d =
     \<lparr>or_status = resolveOnlineStatusFromDocument d, or_electronicDocumentId = Some (do_electronicDocumentId d),
      or_documentType = Some (do_documentType d), or_fullNumber = do_fullNumber d, or_cufe = do_cufe d,
      or_cude = do_cude d, or_failureClass = Some (do_failureClass d),
      or_errorCode = or_else (do_errorCode d) (first_code (do_failures d)),
      or_errorMessage = or_else (do_errorMessage d) (first_message (do_failures d)),
      or_failures = do_failures d, or_message = MESSAGES (resolveOnlineStatusFromDocument d)\<rparr>"

definition INELIGIBLE :: string where
  "INELIGIBLE = ''OUTBOX_EVENT_INELIGIBLE_SNAPSHOT''"

definition INELIGIBLE_SOLUTION :: string where
  "INELIGIBLE_SOLUTION = ''Complete los datos fiscales del cliente (identificaci'' @ [CHR 0xF3] @
     ''n, direcci'' @ [CHR 0xF3] @ ''n, municipio, correo y responsabilidades) y solicite de nuevo la factura electr'' @
     [CHR 0xF3] @ ''nica.''"

definition rejected_failure :: "string \<Rightarrow> string \<Rightarrow> document_failure" where
  "rejected_failure errorCode message =
     \<lparr>df_code = Some errorCode, df_message = message, df_origin = MANUS, df_path = None, df_severity = None,
      df_title = (if errorCode = INELIGIBLE then Some ''Datos fiscales incompletos'' else None),
      df_solution = (if errorCode = INELIGIBLE then Some INELIGIBLE_SOLUTION else None), df_retryable = False\<rparr>"

definition REJECTED_MESSAGE :: string where
  "REJECTED_MESSAGE = ''El servicio de facturaci'' @ [CHR 0xF3] @ ''n rechaz'' @ [CHR 0xF3] @ '' la solicitud.''"

definition buildOnlineResultFromDelivery :: "inline_delivery option \<Rightarrow> online_result" where
  "buildOnlineResultFromDelivery delivery =
     (case delivery of None \<Rightarrow> emptyResult ON_PROCESSING
      | Some d \<Rightarrow>
          if il_outcome d = DeliverySkipped then emptyResult ON_PROCESSING
          else case il_electronicDocument d of Some doc \<Rightarrow> buildOnlineResultFromDocument doc
          | None \<Rightarrow>
              if il_outcome d = DeliveryRetryable then
                (emptyResult ON_QUEUED_NETWORK)\<lparr>or_failureClass := Some ''NETWORK_OR_TRANSIENT'',
                  or_errorCode := Some (coalesce (il_errorCode d) ''BILLING_BACKEND_UNREACHABLE''),
                  or_errorMessage := il_message d\<rparr>
              else if il_outcome d = DeliveryFailed then
                let errorCode = coalesce (il_errorCode d) ''BILLING_REQUEST_REJECTED'';
                    message = coalesce (il_message d) REJECTED_MESSAGE
                in (emptyResult ON_REJECTED)\<lparr>
                     or_failureClass := Some (if errorCode = INELIGIBLE then ''VALIDATION'' else ''UNKNOWN''),
                     or_errorCode := Some errorCode, or_errorMessage := Some message,
                     or_failures := [rejected_failure errorCode message]\<rparr>
              else emptyResult ON_PROCESSING)"

subsection \<open>Delivery of an event\<close>

datatype send_outcome = SentPublished | SentAlreadyProcessed | SentRetryable | SentNonRetryable

record send_result =
  sr_outcome :: send_outcome
  sr_retryable :: bool
  sr_statusCode :: "int option"
  sr_message :: "string option"
  sr_retryAfterMs :: "int option"
  sr_electronicDocument :: "document_outcome option"

record http_response =
  rp_status :: int
  rp_retryAfter :: "string option"
  rp_body :: string

datatype fetch_result = Response http_response | Aborted | FetchFailure string

definition isSuccessStatus :: "string \<Rightarrow> bool" where
  "isSuccessStatus status \<longleftrightarrow> status = ''ACCEPTED'' \<or> status = ''ALREADY_PROCESSED''"

text \<open>
  The header is a number of seconds or a date. A product beyond the largest double is no instant,
  as the exact one is not.
\<close>

definition normalizeRetryAfter :: "'z text_host_scheme \<Rightarrow> int \<Rightarrow> string option \<Rightarrow> int option" where
  "normalizeRetryAfter h now v =
     (case v of None \<Rightarrow> None
      | Some s \<Rightarrow>
          if s = [] then None
          else let by_date = (case date_parse h s of None \<Rightarrow> None | Some t \<Rightarrow> Some (max (t - now) 0))
               in case number_of h s of
                    Fin x \<Rightarrow> if 0 \<le> x then Some (js_round (dbl (x * 1000))) else by_date
                  | _ \<Rightarrow> by_date)"

definition readJsonBody :: "'z text_host_scheme \<Rightarrow> string \<Rightarrow> json" where
  "readJsonBody h text = (if js_trim text = [] then JNull else coalesce (json_parse h text) (JStr text))"

fun body_text :: "json \<Rightarrow> string \<Rightarrow> string" where
  "body_text (JStr s) d = s"
| "body_text _ d = d"

definition by_status :: "int \<Rightarrow> int option \<Rightarrow> json \<Rightarrow> send_result" where
  "by_status status retryAfterMs body =
     (if 200 \<le> status \<and> status < 300 then
        \<lparr>sr_outcome = SentPublished, sr_retryable = False, sr_statusCode = Some status, sr_message = None,
         sr_retryAfterMs = None, sr_electronicDocument = None\<rparr>
      else if status = 429 \<or> status \<ge> 500 then
        \<lparr>sr_outcome = SentRetryable, sr_retryable = True, sr_statusCode = Some status,
         sr_message = Some (body_text body ''Billing backend unavailable''),
         sr_retryAfterMs = retryAfterMs, sr_electronicDocument = None\<rparr>
      else
        \<lparr>sr_outcome = SentNonRetryable, sr_retryable = False, sr_statusCode = Some status,
         sr_message = Some (body_text body (if status \<in> {400, 401, 403, 404, 422}
           then ''Billing backend rejected the request'' else ''Unexpected billing backend response'')),
         sr_retryAfterMs = None, sr_electronicDocument = None\<rparr>)"

definition classifyResponse :: "'z text_host_scheme \<Rightarrow> int \<Rightarrow> http_response \<Rightarrow> send_result" where
  "classifyResponse h now r =
     (let retryAfterMs = normalizeRetryAfter h now (rp_retryAfter r);
          body = readJsonBody h (rp_body r);
          otherwise = by_status (rp_status r) retryAfterMs body
      in if 200 \<le> rp_status r \<and> rp_status r < 300 \<and> jfield ''status'' body \<noteq> None then
           let status = (case nonnull (jfield ''status'' body) of None \<Rightarrow> [] | Some v \<Rightarrow> js_string h v);
               message = text_of (jfield ''message'' body);
               document = Option.bind (jfield ''electronicDocument'' body) readBillingElectronicDocumentOutcome
           in if isSuccessStatus status then
                \<lparr>sr_outcome = (if status = ''ALREADY_PROCESSED'' then SentAlreadyProcessed else SentPublished),
                 sr_retryable = False, sr_statusCode = Some (rp_status r), sr_message = message,
                 sr_retryAfterMs = None, sr_electronicDocument = document\<rparr>
              else if status = ''INVALID_EVENT'' then
                \<lparr>sr_outcome = SentNonRetryable, sr_retryable = False, sr_statusCode = Some (rp_status r),
                 sr_message = message, sr_retryAfterMs = None, sr_electronicDocument = document\<rparr>
              else if status = ''TEMPORARY_FAILURE'' then
                \<lparr>sr_outcome = SentRetryable, sr_retryable = True, sr_statusCode = Some (rp_status r),
                 sr_message = message, sr_retryAfterMs = retryAfterMs, sr_electronicDocument = document\<rparr>
              else otherwise
         else otherwise)"

record outbox_config =
  oc_enabled :: bool
  oc_scanIntervalMs :: int
  oc_batchSize :: int
  oc_concurrencyLimit :: int
  oc_maxRetryAttempts :: int
  oc_leaseMs :: int
  oc_initialBackoffMs :: int
  oc_maxBackoffMs :: int
  oc_timeoutMs :: int
  oc_inlineTimeoutMs :: int
  oc_billingBackendBaseUrl :: string
  oc_internalToken :: string

definition readBooleanEnv :: "(string \<Rightarrow> string option) \<Rightarrow> string \<Rightarrow> bool \<Rightarrow> bool" where
  "readBooleanEnv env name fallback =
     (case trimmed (env name) of None \<Rightarrow> fallback | Some raw \<Rightarrow> js_lower raw \<in> {''1'', ''true'', ''yes'', ''on''})"

definition readPositiveIntegerEnv :: "'z text_host_scheme \<Rightarrow> (string \<Rightarrow> string option) \<Rightarrow> string \<Rightarrow> int \<Rightarrow> int" where
  "readPositiveIntegerEnv h env name fallback =
     (case env name of None \<Rightarrow> fallback
      | Some s \<Rightarrow> (case number_of h s of Fin x \<Rightarrow> if x = of_int \<lfloor>x\<rfloor> \<and> 0 < x then \<lfloor>x\<rfloor> else fallback | _ \<Rightarrow> fallback))"

definition readTrimmedEnv :: "(string \<Rightarrow> string option) \<Rightarrow> string \<Rightarrow> string" where
  "readTrimmedEnv env name = js_trim (coalesce (env name) [])"

definition DEFAULT_INLINE_TIMEOUT_MS :: int where
  "DEFAULT_INLINE_TIMEOUT_MS = 60000"

definition getIntegrationOutboxConfig :: "'z text_host_scheme \<Rightarrow> (string \<Rightarrow> string option) \<Rightarrow> outbox_config" where
  "getIntegrationOutboxConfig h env =
     \<lparr>oc_enabled = readBooleanEnv env ''INTEGRATION_OUTBOX_DISPATCHER_ENABLED'' True,
      oc_scanIntervalMs = readPositiveIntegerEnv h env ''INTEGRATION_OUTBOX_DISPATCHER_SCAN_INTERVAL_MS'' 30000,
      oc_batchSize = readPositiveIntegerEnv h env ''INTEGRATION_OUTBOX_DISPATCHER_BATCH_SIZE'' 10,
      oc_concurrencyLimit = readPositiveIntegerEnv h env ''INTEGRATION_OUTBOX_DISPATCHER_CONCURRENCY_LIMIT'' 4,
      oc_maxRetryAttempts = readPositiveIntegerEnv h env ''INTEGRATION_OUTBOX_DISPATCHER_MAX_RETRY_ATTEMPTS'' 5,
      oc_leaseMs = readPositiveIntegerEnv h env ''INTEGRATION_OUTBOX_DISPATCHER_LEASE_MS'' 300000,
      oc_initialBackoffMs = readPositiveIntegerEnv h env ''INTEGRATION_OUTBOX_DISPATCHER_INITIAL_BACKOFF_MS'' 30000,
      oc_maxBackoffMs = readPositiveIntegerEnv h env ''INTEGRATION_OUTBOX_DISPATCHER_MAX_BACKOFF_MS'' 1800000,
      oc_timeoutMs = readPositiveIntegerEnv h env ''INTEGRATION_OUTBOX_DISPATCHER_TIMEOUT_MS'' 15000,
      oc_inlineTimeoutMs = readPositiveIntegerEnv h env ''INTEGRATION_OUTBOX_INLINE_TIMEOUT_MS'' DEFAULT_INLINE_TIMEOUT_MS,
      oc_billingBackendBaseUrl = readTrimmedEnv env ''BILLING_BACKEND_INTERNAL_BASE_URL'',
      oc_internalToken = readTrimmedEnv env ''API_INTERNAL_TOKEN''\<rparr>"

definition network_failure :: "string \<Rightarrow> send_result" where
  "network_failure message =
     \<lparr>sr_outcome = SentRetryable, sr_retryable = True, sr_statusCode = None, sr_message = Some message,
      sr_retryAfterMs = None, sr_electronicDocument = None\<rparr>"

definition sendSaleCompletedEvent ::
  "'z text_host_scheme \<Rightarrow> outbox_config \<Rightarrow> (envelope \<Rightarrow> fetch_result) \<Rightarrow> int \<Rightarrow> envelope \<Rightarrow> send_result" where
  "sendSaleCompletedEvent h cfg network now event =
     (if oc_billingBackendBaseUrl cfg = [] \<or> oc_internalToken cfg = [] then
        \<lparr>sr_outcome = SentNonRetryable, sr_retryable = False, sr_statusCode = None,
         sr_message = Some ''Billing backend internal client is not configured'', sr_retryAfterMs = None,
         sr_electronicDocument = None\<rparr>
      else case network event of
          Response r \<Rightarrow> classifyResponse h now r
        | Aborted \<Rightarrow> network_failure ''Billing backend request timed out''
        | FetchFailure m \<Rightarrow> network_failure m)"

end
