(* ===== verification/Outbox_Dispatcher.thy ===== *)
theory Outbox_Dispatcher
  imports Billing_Client
begin

section \<open>The dispatcher of the integration outbox\<close>

text \<open>
  IntegrationOutboxDispatcher (integration-outbox/services/integration-outbox-dispatcher.ts): one
  event, one cycle over a claimed batch, and the single event of an online sale. The environment
  of a cycle gives the instant of the claim, and for each event the instant at which its result is
  written and what the network answers. The workers of a cycle share a queue; here they process it
  in its order, and Outbox_Facts shows that no other order ends differently.
\<close>

record dispatch_env =
  de_host :: text_host
  de_config :: outbox_config
  de_now :: int
  de_instant :: "string \<Rightarrow> int"
  de_network :: "envelope \<Rightarrow> fetch_result"

record summary =
  su_published :: nat
  su_retryable :: nat
  su_failed :: nat
  su_skipped :: nat
  su_errors :: nat

definition no_summary :: summary where
  "no_summary = \<lparr>su_published = 0, su_retryable = 0, su_failed = 0, su_skipped = 0, su_errors = 0\<rparr>"

definition SKIPPED_DELIVERY :: inline_delivery where
  "SKIPPED_DELIVERY = \<lparr>il_outcome = DeliverySkipped, il_statusCode = None, il_errorCode = None, il_message = None,
     il_electronicDocument = None\<rparr>"

definition failedDelivery :: "string \<Rightarrow> string option \<Rightarrow> int option \<Rightarrow> document_outcome option \<Rightarrow> inline_delivery" where
  "failedDelivery errorCode message statusCode document =
     \<lparr>il_outcome = DeliveryFailed, il_statusCode = statusCode, il_errorCode = Some errorCode, il_message = message,
      il_electronicDocument = document\<rparr>"

definition retryableDelivery :: "string option \<Rightarrow> int option \<Rightarrow> document_outcome option \<Rightarrow> inline_delivery" where
  "retryableDelivery message statusCode document =
     \<lparr>il_outcome = DeliveryRetryable, il_statusCode = statusCode, il_errorCode = Some ''BILLING_BACKEND_UNREACHABLE'',
      il_message = message, il_electronicDocument = document\<rparr>"

subsection \<open>Is the snapshot of the sale fit to be billed\<close>

fun positive :: "jsnum \<Rightarrow> bool" where
  "positive (Fin x) = (0 < x)"
| "positive PInf = True"
| "positive _ = False"

text \<open>\<open>lines?.some(\<dots>)\<close> stops at the first line with a tax.\<close>

fun some_tax_line :: "'z text_host_scheme \<Rightarrow> json list \<Rightarrow> string + bool" where
  "some_tax_line h [] = Inr False"
| "some_tax_line h (l # ls) =
     and_then (js_get h ''taxAmount'' l) (\<lambda>amount.
       if positive (js_number h (coalesce (nonnull amount) (JNum 0))) \<or> has_length (jfield ''taxes'' l)
       then Inr True else some_tax_line h ls)"

definition hasTaxLines :: "'z text_host_scheme \<Rightarrow> json \<Rightarrow> string + bool" where
  "hasTaxLines h payload = and_then (js_get h ''lines'' payload) (\<lambda>ls.
     case nonnull ls of None \<Rightarrow> Inr False | Some (JArr xs) \<Rightarrow> some_tax_line h xs | Some _ \<Rightarrow> Inl (type_error h))"

definition customerFiscalDataComplete :: "'z text_host_scheme \<Rightarrow> json \<Rightarrow> string + bool" where
  "customerFiscalDataComplete h customer =
     and_then (texts_given h customer [''identificationNumber'', ''identificationTypeCode'', ''legalName'',
       ''countryCode'', ''countryName'', ''departmentCode'', ''departmentName'', ''municipalityCode'',
       ''cityName'', ''addressLine1'', ''email'', ''taxLevelCode'', ''taxSchemeId'']) (\<lambda>texts.
     if \<not> (texts \<and> has_length (jfield ''fiscalResponsibilityCodes'' customer)) then Inr False
     else if jfield ''customerType'' customer = Some (JStr ''PERSON'') \<and>
         jfield ''isFinalConsumer'' customer \<noteq> Some (JBool True)
       then texts_given h customer [''firstName'', ''familyName'']
     else Inr True)"

text \<open>\<open>payload.sale?.saleStatus\<close> is neither absent nor \<open>CONFIRMED\<close>.\<close>

definition unconfirmed :: "json \<Rightarrow> bool" where
  "unconfirmed payload = (case nonnull (jfield ''sale'' payload) of None \<Rightarrow> False
     | Some sale \<Rightarrow> (case jfield ''saleStatus'' sale of None \<Rightarrow> False | Some v \<Rightarrow> v \<noteq> JStr ''CONFIRMED''))"

definition NOT_CONFIRMED :: string where "NOT_CONFIRMED = ''sale snapshot is not CONFIRMED''"

definition INCOMPLETE :: string where "INCOMPLETE = ''customer fiscal data is incomplete for tax-bearing sale''"

definition ineligibleReason :: "'z text_host_scheme \<Rightarrow> outbox_event \<Rightarrow> string + string option" where
  "ineligibleReason h e =
     (let payload = ev_payload e
      in and_then (hasTaxLines h payload) (\<lambda>taxed.
         and_then (customerFiscalDataComplete h (coalesce (jfield ''customer'' payload) JNull)) (\<lambda>complete.
         Inr (if ev_event_type e \<noteq> SALE_COMPLETED then None
              else if unconfirmed payload then Some NOT_CONFIRMED
              else if taxed \<and> \<not> complete then Some INCOMPLETE else None))))"

definition ineligible_error :: "'z text_host_scheme \<Rightarrow> string \<Rightarrow> string" where
  "ineligible_error h reason = stringify h (JObj [(''code'', JStr INELIGIBLE), (''reason'', JStr reason)])"

definition ineligible_message :: "string \<Rightarrow> string" where
  "ineligible_message reason = (if reason = NOT_CONFIRMED
     then ''La venta no est'' @ [CHR 0xE1] @ '' confirmada para facturaci'' @ [CHR 0xF3] @ ''n electr'' @ [CHR 0xF3] @ ''nica.''
     else ''Los datos fiscales del cliente est'' @ [CHR 0xE1] @ ''n incompletos para una factura con IVA.'')"

subsection \<open>One event\<close>

definition computeBackoffMs :: "outbox_config \<Rightarrow> int \<Rightarrow> int" where
  "computeBackoffMs cfg attemptCount =
     min (oc_initialBackoffMs cfg * 2 ^ nat (max 0 (attemptCount - 1))) (oc_maxBackoffMs cfg)"

text \<open>\<open>toISOString\<close> refuses an instant more than 100 million days from the epoch.\<close>

definition valid_instant :: "int \<Rightarrow> bool" where
  "valid_instant t \<longleftrightarrow> \<bar>t\<bar> \<le> 8640000000000000"

definition envelope_of :: "text_host \<Rightarrow> outbox_event \<Rightarrow> envelope" where
  "envelope_of h e =
     \<lparr>en_eventId = ev_event_id e, en_eventType = ev_event_type e, en_schemaVersion = ev_schema_version e,
      en_tenantId = ev_tenant_id e, en_correlationId = ev_correlation_id e,
      en_occurredAt = iso_string h (ev_created_at e), en_sourceType = ''SALE'', en_sourceId = ev_source_id e,
      en_payload = ev_payload e\<rparr>"

text \<open>What is written for an event: published, to be tried again at an instant, or failed.\<close>

datatype mark = Mark_Published | Mark_Retryable int string | Mark_Terminal string

record verdict =
  ve_mark :: mark
  ve_delivery :: inline_delivery
  ve_error :: bool

definition caught :: "dispatch_env \<Rightarrow> outbox_event \<Rightarrow> int \<Rightarrow> string \<Rightarrow> verdict" where
  "caught env e now lastError =
     (if oc_maxRetryAttempts (de_config env) \<le> ev_attempt_count e then
        \<lparr>ve_mark = Mark_Terminal lastError, ve_delivery = failedDelivery ''OUTBOX_MAX_RETRY_ATTEMPTS'' (Some lastError) None None,
         ve_error = True\<rparr>
      else
        \<lparr>ve_mark = Mark_Retryable (now + computeBackoffMs (de_config env) (ev_attempt_count e)) lastError,
         ve_delivery = retryableDelivery (Some lastError) None None, ve_error = True\<rparr>)"

definition sent :: "dispatch_env \<Rightarrow> outbox_event \<Rightarrow> int \<Rightarrow> send_result \<Rightarrow> verdict" where
  "sent env e now r =
     (let document = sr_electronicDocument r
      in if sr_outcome r = SentPublished \<or> sr_outcome r = SentAlreadyProcessed then
           \<lparr>ve_mark = Mark_Published, ve_delivery = \<lparr>il_outcome = DeliveryPublished, il_statusCode = sr_statusCode r,
              il_errorCode = None, il_message = sr_message r, il_electronicDocument = document\<rparr>, ve_error = False\<rparr>
         else if sr_retryable r then
           let retryAfterMs = coalesce (sr_retryAfterMs r) (computeBackoffMs (de_config env) (ev_attempt_count e));
               nextAttemptAt = now + retryAfterMs
           in if oc_maxRetryAttempts (de_config env) \<le> ev_attempt_count e then
                \<lparr>ve_mark = Mark_Terminal (coalesce (sr_message r) ''Integration outbox max retry attempts reached''),
                 ve_delivery = failedDelivery ''OUTBOX_MAX_RETRY_ATTEMPTS'' (sr_message r) (sr_statusCode r) document,
                 ve_error = False\<rparr>
              else if \<not> valid_instant nextAttemptAt then caught env e now ''Invalid time value''
              else
                \<lparr>ve_mark = Mark_Retryable nextAttemptAt (coalesce (sr_message r) ''Integration outbox temporary failure''),
                 ve_delivery = retryableDelivery (sr_message r) (sr_statusCode r) document, ve_error = False\<rparr>
         else
           \<lparr>ve_mark = Mark_Terminal (coalesce (sr_message r) ''Integration outbox non-retryable failure''),
            ve_delivery = failedDelivery ''BILLING_REQUEST_REJECTED'' (sr_message r) (sr_statusCode r) document,
            ve_error = False\<rparr>)"

definition decide :: "dispatch_env \<Rightarrow> outbox_event \<Rightarrow> verdict" where
  "decide env e =
     (let now = de_instant env (ev_event_id e)
      in case ineligibleReason (de_host env) e of
           Inl err \<Rightarrow> caught env e now err
         | Inr (Some reason) \<Rightarrow>
             \<lparr>ve_mark = Mark_Terminal (ineligible_error (de_host env) reason),
              ve_delivery = failedDelivery INELIGIBLE (Some (ineligible_message reason)) None None, ve_error = False\<rparr>
         | Inr None \<Rightarrow> sent env e now
             (sendSaleCompletedEvent (de_host env) (de_config env) (de_network env) now (envelope_of (de_host env) e)))"

fun write_mark :: "string \<Rightarrow> int \<Rightarrow> mark \<Rightarrow> outbox \<Rightarrow> outbox" where
  "write_mark i now Mark_Published = markPublished i now"
| "write_mark i now (Mark_Retryable t m) = markRetryableFailure i t m"
| "write_mark i now (Mark_Terminal m) = markTerminalFailure i now m"

definition counted :: "verdict \<Rightarrow> summary \<Rightarrow> summary" where
  "counted v s =
     (let s' = (if ve_error v then s\<lparr>su_errors := su_errors s + 1\<rparr> else s)
      in case ve_mark v of
           Mark_Published \<Rightarrow> s'\<lparr>su_published := su_published s' + 1\<rparr>
         | Mark_Retryable _ _ \<Rightarrow> s'\<lparr>su_retryable := su_retryable s' + 1\<rparr>
         | Mark_Terminal _ \<Rightarrow> s'\<lparr>su_failed := su_failed s' + 1\<rparr>)"

definition processSingleEvent :: "dispatch_env \<Rightarrow> outbox_event \<Rightarrow> summary \<times> outbox \<Rightarrow> summary \<times> outbox" where
  "processSingleEvent env e = (\<lambda>(s, db).
     (counted (decide env e) s,
      write_mark (ev_event_id e) (de_instant env (ev_event_id e)) (ve_mark (decide env e)) db))"

subsection \<open>Cycles\<close>

definition canRun :: "outbox_config \<Rightarrow> bool" where
  "canRun cfg \<longleftrightarrow> oc_enabled cfg \<and> oc_billingBackendBaseUrl cfg \<noteq> [] \<and> oc_internalToken cfg \<noteq> [] \<and>
     0 < oc_batchSize cfg \<and> 0 < oc_concurrencyLimit cfg"

definition processClaimedEvents :: "dispatch_env \<Rightarrow> outbox_event list \<Rightarrow> outbox \<Rightarrow> summary \<times> outbox" where
  "processClaimedEvents env queue db = fold (processSingleEvent env) queue (no_summary, db)"

definition runOnce :: "dispatch_env \<Rightarrow> outbox \<Rightarrow> summary \<times> outbox" where
  "runOnce env db =
     (if \<not> canRun (de_config env) then (no_summary, db)
      else let (queue, db') = claimDueEvents (de_now env) (nat (oc_batchSize (de_config env))) (oc_leaseMs (de_config env)) db
           in processClaimedEvents env queue db')"

definition runOnceForEvent :: "dispatch_env \<Rightarrow> string \<Rightarrow> outbox \<Rightarrow> summary \<times> inline_delivery \<times> outbox" where
  "runOnceForEvent env eventId db =
     (if oc_billingBackendBaseUrl (de_config env) = [] \<or> oc_internalToken (de_config env) = []
      then (no_summary, SKIPPED_DELIVERY, db)
      else case claimDueEvent eventId (de_now env) (oc_leaseMs (de_config env)) db of
          (None, db') \<Rightarrow> (no_summary, SKIPPED_DELIVERY, db')
        | (Some e, db') \<Rightarrow> (case processSingleEvent env e (no_summary, db') of
             (s, db'') \<Rightarrow> (s, ve_delivery (decide env e), db'')))"

end
