(* ===== verification/Outbox_Facts.thy ===== *)
theory Outbox_Facts
  imports Outbox_Dispatcher
begin

section \<open>Facts about the integration outbox\<close>

text \<open>
  Four results. The workers of a cycle may finish in any order. An event stored twice is stored
  once. Several dispatchers, and crashes between a claim and its result, never touch an event that
  is published, as long as every worker ends before its lease does. And every event ends published
  or failed when cycles go on for ever, whatever the network answers.
\<close>

definition final_event :: "outbox_event \<Rightarrow> bool" where
  "final_event e \<longleftrightarrow> ev_status e \<in> {EV_PUBLISHED, EV_FAILED}"

definition outbox_wf :: "outbox \<Rightarrow> bool" where
  "outbox_wf db \<longleftrightarrow> distinct (map ev_event_id db) \<and> distinct (map ev_id db) \<and>
     (\<forall>e\<in>set db. (ev_status e = EV_PROCESSING \<longleftrightarrow> ev_lease_until e \<noteq> None) \<and> 0 \<le> ev_attempt_count e)"

subsection \<open>Writing a result\<close>

fun marked :: "int \<Rightarrow> mark \<Rightarrow> outbox_event \<Rightarrow> outbox_event" where
  "marked now Mark_Published e = e\<lparr>ev_status := EV_PUBLISHED, ev_published_at := Some now, ev_lease_until := None,
     ev_last_error := None, ev_updated_at := now\<rparr>"
| "marked now (Mark_Retryable t m) e = e\<lparr>ev_status := EV_PENDING, ev_next_attempt_at := t, ev_lease_until := None,
     ev_last_error := Some m, ev_updated_at := t\<rparr>"
| "marked now (Mark_Terminal m) e = e\<lparr>ev_status := EV_FAILED, ev_lease_until := None, ev_next_attempt_at := now,
     ev_last_error := Some m, ev_updated_at := now\<rparr>"

lemma write_mark_update: "write_mark i now m = update_where (\<lambda>e. ev_event_id e = i) (marked now m)"
  by (cases m) (simp_all add: markPublished_def markRetryableFailure_def markTerminalFailure_def update_where_def fun_eq_iff)

lemma marked_keeps [simp]:
  "ev_event_id (marked now m e) = ev_event_id e" "ev_id (marked now m e) = ev_id e"
  "ev_attempt_count (marked now m e) = ev_attempt_count e" "ev_created_at (marked now m e) = ev_created_at e"
  "ev_lease_until (marked now m e) = None" "ev_status (marked now m e) \<noteq> EV_PROCESSING"
  by (cases m; simp)+

lemma claimed_keeps [simp]:
  "ev_event_id (claimed now l e) = ev_event_id e" "ev_id (claimed now l e) = ev_id e"
  "ev_attempt_count (claimed now l e) = ev_attempt_count e + 1" "ev_created_at (claimed now l e) = ev_created_at e"
  "ev_lease_until (claimed now l e) = Some (now + l)" "ev_status (claimed now l e) = EV_PROCESSING"
  by (simp_all add: claimed_def)

lemma write_marks_commute:
  "i \<noteq> j \<Longrightarrow> write_mark i s m (write_mark j t n db) = write_mark j t n (write_mark i s m db)"
  unfolding write_mark_update update_where_def by simp

lemma counted_commute: "counted v (counted w s) = counted w (counted v s)"
  by (cases "ve_mark v"; cases "ve_mark w") (simp_all add: counted_def Let_def)

lemma processSingleEvent_commute:
  assumes "ev_event_id e = ev_event_id f \<Longrightarrow> e = f"
  shows "processSingleEvent env e \<circ> processSingleEvent env f = processSingleEvent env f \<circ> processSingleEvent env e"
proof (cases "e = f")
  case False
  with assms have "ev_event_id e \<noteq> ev_event_id f" by blast
  then show ?thesis
    by (simp add: fun_eq_iff processSingleEvent_def counted_commute [of "decide env e"] write_marks_commute)
qed simp

lemma claimed_queue:
  assumes "claimDueEvents now n l db = (q, db')"
  shows "q = map (claimed now l) (filter (\<lambda>e. ev_id e \<in> set (candidates now n db)) db)"
    "db' = update_where (\<lambda>e. ev_id e \<in> set (candidates now n db)) (claimed now l) db"
  using assms by (auto simp: claimDueEvents_def Let_def)

text \<open>
  The workers of a cycle take events from a shared queue and finish in any order; for
  every order in which the claimed events can be processed the table and the counts of the cycle
  end the same.
\<close>

theorem outbox_order_irrelevant:
  assumes "outbox_wf db" "claimDueEvents (de_now env) n l db = (queue, db')" "mset order = mset queue"
  shows "processClaimedEvents env order db' = processClaimedEvents env queue db'"
proof -
  have "distinct (map ev_event_id queue)"
    using assms(1) unfolding claimed_queue(1) [OF assms(2)]
    by (simp add: outbox_wf_def comp_def distinct_map_filter)
  then have "e = f" if "e \<in> set queue" "f \<in> set queue" "ev_event_id e = ev_event_id f" for e f
    using key_unique that by metis
  then have "fold (processSingleEvent env) queue = fold (processSingleEvent env) order"
    by (intro fold_multiset_equiv processSingleEvent_commute) (auto simp: assms(3))
  then show ?thesis by (simp add: processClaimedEvents_def)
qed

subsection \<open>Storing an event again\<close>

lemma enqueueEvent_existing:
  assumes "findByEventId (en_eventId e) db = Some old"
  shows "enqueueEvent h now i e db = (if ev_payload_hash old = hashPayload h (en_payload e) then Inr (old, db)
    else Inl (OutboxConflict (''Outbox event '' @ en_eventId e @ '' already exists with a different payload'')))"
proof -
  have "en_eventId e \<in> ev_event_id ` set db" using find_in [OF assms [unfolded findByEventId_def]] by force
  with assms show ?thesis by (simp add: enqueueEvent_def enqueue_def Let_def)
qed

text \<open>
  Property C32: an event that was stored can be stored again, at a later time, with another row id
  and with the members of its payload in any order: the stored row is returned and the table stays
  as it is; with a payload whose canonical text has another digest the request is refused.
\<close>

theorem enqueue_repeats:
  assumes "enqueueEvent h now i e db = Inr (row, db')"
  shows "(same_json p (en_payload e) \<longrightarrow> enqueueEvent h later j (e\<lparr>en_payload := p\<rparr>) db' = Inr (row, db')) \<and>
    (hashPayload h p \<noteq> hashPayload h (en_payload e) \<longrightarrow>
      (\<exists>m. enqueueEvent h later j (e\<lparr>en_payload := p\<rparr>) db' = Inl (OutboxConflict m)))"
proof -
  have hash: "same_json p (en_payload e) \<Longrightarrow> hashPayload h p = hashPayload h (en_payload e)"
    by (simp add: hashPayload_def stableStringify_def canonicalize_same)
  have "findByEventId (en_eventId e) db' = Some row \<and> ev_payload_hash row = hashPayload h (en_payload e)"
  proof (cases "findByEventId (en_eventId e) db")
    case None
    then have "en_eventId e \<notin> ev_event_id ` set db" by (force simp: findByEventId_def find_None_iff)
    with assms have "row = new_row now (hashPayload h (en_payload e)) \<lparr>ne_id = i, ne_event = e, ne_payloadHash = None,
        ne_status = None, ne_attemptCount = None, ne_nextAttemptAt = None, ne_leaseUntil = None, ne_lastAttemptAt = None,
        ne_publishedAt = None, ne_lastError = None, ne_createdAt = None, ne_updatedAt = None\<rparr>" "db' = db @ [row]"
      by (auto simp: enqueueEvent_def enqueue_def Let_def split: if_splits)
    with None show ?thesis by (simp add: findByEventId_def find_append new_row_def)
  next
    case (Some old)
    with assms show ?thesis by (auto simp: enqueueEvent_existing split: if_splits)
  qed
  then have stored: "findByEventId (en_eventId (e\<lparr>en_payload := p\<rparr>)) db' = Some row"
    "ev_payload_hash row = hashPayload h (en_payload e)" by simp_all
  show ?thesis using hash stored(2) by (simp add: enqueueEvent_existing [OF stored(1)])
qed

subsection \<open>Several dispatchers and crashes\<close>

text \<open>
  The table, the claims in the hands of workers (each the row as it was claimed), and the clock. A
  worker that crashes loses its claim; a worker that ends writes its result. The code does not
  check that a worker ends before its lease does, so that is a condition of the rule: the request
  times out (15 seconds, 60 when online) long before the lease (300 seconds) by default.
\<close>

record outbox_system =
  os_db :: outbox
  os_claims :: "outbox_event list"
  os_clock :: int

definition live :: "int \<Rightarrow> outbox_event \<Rightarrow> bool" where
  "live now c \<longleftrightarrow> (case ev_lease_until c of None \<Rightarrow> False | Some t \<Rightarrow> now < t)"

inductive outbox_step :: "text_host \<Rightarrow> outbox_config \<Rightarrow> outbox_system \<Rightarrow> outbox_system \<Rightarrow> bool" for h cfg where
  tick: "os_clock s \<le> t \<Longrightarrow> outbox_step h cfg s (s\<lparr>os_clock := t\<rparr>)"
| store: "enqueueEvent h (os_clock s) i e (os_db s) = Inr (row, db') \<Longrightarrow> outbox_step h cfg s (s\<lparr>os_db := db'\<rparr>)"
| claim_batch: "claimDueEvents (os_clock s) n (oc_leaseMs cfg) (os_db s) = (q, db') \<Longrightarrow>
     outbox_step h cfg s (s\<lparr>os_db := db', os_claims := q @ os_claims s\<rparr>)"
| claim_one: "claimDueEvent i (os_clock s) (oc_leaseMs cfg) (os_db s) = (Some c, db') \<Longrightarrow>
     outbox_step h cfg s (s\<lparr>os_db := db', os_claims := c # os_claims s\<rparr>)"
| finish: "c \<in> set (os_claims s) \<Longrightarrow> live (os_clock s) c \<Longrightarrow> de_host env = h \<Longrightarrow> de_config env = cfg \<Longrightarrow>
     outbox_step h cfg s (s\<lparr>os_db := write_mark (ev_event_id c) (os_clock s) (ve_mark (decide env c)) (os_db s),
       os_claims := removeAll c (os_claims s)\<rparr>)"
| crash: "outbox_step h cfg s (s\<lparr>os_claims := removeAll c (os_claims s)\<rparr>)"
| supersede: "supersedePendingEvent h i r (os_clock s) (os_db s) = (ok, db') \<Longrightarrow>
     outbox_step h cfg s (s\<lparr>os_db := db'\<rparr>)"
| recover: "recordFailedPreProviderRecovery h i r err (os_clock s) (os_db s) = (ok, db') \<Longrightarrow>
     outbox_step h cfg s (s\<lparr>os_db := db'\<rparr>)"

text \<open>While a claim is live, its row is as the claim left it.\<close>

definition claims_held :: "outbox_system \<Rightarrow> bool" where
  "claims_held s \<longleftrightarrow> outbox_wf (os_db s) \<and>
     (\<forall>c\<in>set (os_claims s). ev_status c = EV_PROCESSING \<and> (live (os_clock s) c \<longrightarrow> c \<in> set (os_db s)))"

lemma outbox_wf_update:
  assumes "outbox_wf db" "\<And>e. ev_event_id (f e) = ev_event_id e" "\<And>e. ev_id (f e) = ev_id e"
    "\<And>e. e \<in> set db \<Longrightarrow> P e \<Longrightarrow> (ev_status (f e) = EV_PROCESSING \<longleftrightarrow> ev_lease_until (f e) \<noteq> None) \<and> 0 \<le> ev_attempt_count (f e)"
  shows "outbox_wf (update_where P f db)"
  using assms by (auto simp: outbox_wf_def map_update_where set_update_where)

lemma outbox_wf_mark: "outbox_wf db \<Longrightarrow> outbox_wf (write_mark i now m db)"
  unfolding write_mark_update by (rule outbox_wf_update) (auto simp: outbox_wf_def)

lemma outbox_wf_claim: "outbox_wf db \<Longrightarrow> outbox_wf (update_where P (claimed now l) db)"
  by (rule outbox_wf_update) (auto simp: outbox_wf_def)

lemma enqueueEvent_table:
  assumes "enqueueEvent h now i e db = Inr (row, db')"
  shows "db' = db \<or> db' = db @ [row] \<and> ev_event_id row \<notin> ev_event_id ` set db \<and> ev_id row \<notin> ev_id ` set db \<and>
    ev_status row = EV_PENDING \<and> ev_lease_until row = None \<and> ev_attempt_count row = 0"
  using assms by (auto simp: enqueueEvent_def enqueue_def Let_def new_row_def split: if_splits option.splits)

lemma outbox_wf_enqueue: "outbox_wf db \<Longrightarrow> enqueueEvent h now i e db = Inr (row, db') \<Longrightarrow> outbox_wf db'"
  using enqueueEvent_table [of h now i e db row db'] by (auto simp: outbox_wf_def)

lemma supersede_table:
  assumes "supersedePendingEvent h i r now db = (ok, db')" "outbox_wf db"
  shows "outbox_wf db'" "e \<in> set db \<Longrightarrow> ev_status e \<noteq> EV_PENDING \<Longrightarrow> e \<in> set db'"
proof -
  from assms(1) show "e \<in> set db \<Longrightarrow> ev_status e \<noteq> EV_PENDING \<Longrightarrow> e \<in> set db'"
    by (auto simp: supersedePendingEvent_def Let_def intro: update_where_kept)
  from assms show "outbox_wf db'"
    by (auto simp: supersedePendingEvent_def Let_def intro!: outbox_wf_update)
qed

lemma recovery_table:
  assumes "recordFailedPreProviderRecovery h i r err now db = (ok, db')" "outbox_wf db"
  shows "outbox_wf db'" "e \<in> set db \<Longrightarrow> ev_status e \<noteq> EV_FAILED \<Longrightarrow> e \<in> set db'"
proof -
  from assms(1) show "e \<in> set db \<Longrightarrow> ev_status e \<noteq> EV_FAILED \<Longrightarrow> e \<in> set db'"
    by (auto simp: recordFailedPreProviderRecovery_def Let_def intro: update_where_kept)
  from assms show "outbox_wf db'"
    by (auto simp: recordFailedPreProviderRecovery_def Let_def intro!: outbox_wf_update)
qed

text \<open>A row that is claimed was pending or its lease was over; every other row stays.\<close>

lemma unclaimed_kept:
  assumes "e \<in> set db" "outbox_wf db" "\<not> due now e"
  shows "e \<in> set (snd (claimDueEvents now n l db))"
proof -
  have "ev_id e \<notin> set (candidates now n db)"
  proof
    assume "ev_id e \<in> set (candidates now n db)"
    then obtain f where f: "f \<in> set db" "due now f" "ev_id f = ev_id e"
      by (auto simp: candidates_def dest!: in_set_takeD)
    with assms have "f = e" using key_unique [of ev_id db f e] by (simp add: outbox_wf_def)
    with f assms(3) show False by simp
  qed
  then show ?thesis using assms(1) by (simp add: claimDueEvents_def Let_def update_where_kept)
qed

lemma live_not_due: "live now c \<Longrightarrow> ev_status c = EV_PROCESSING \<Longrightarrow> \<not> due now c"
  by (auto simp: live_def due_def lease_over_def split: option.splits)

lemma final_not_due: "final_event e \<Longrightarrow> \<not> due now e"
  by (auto simp: final_event_def due_def)

lemma unclaimed_kept_one: "e \<in> set db \<Longrightarrow> ev_status e \<noteq> EV_PENDING \<Longrightarrow> e \<in> set (snd (claimDueEvent i now l db))"
  by (auto simp: claimDueEvent_def claimable_def intro: update_where_kept)

lemma claims_in_table:
  "c \<in> set (fst (claimDueEvents now n l db)) \<Longrightarrow> ev_status c = EV_PROCESSING \<and> c \<in> set (snd (claimDueEvents now n l db))"
  "fst (claimDueEvent i now l db) = Some c \<Longrightarrow> ev_status c = EV_PROCESSING \<and> c \<in> set (snd (claimDueEvent i now l db))"
  by (auto simp: claimDueEvents_def claimDueEvent_def Let_def update_where_def dest!: find_in)

lemma claims_held_step: "outbox_step h cfg s s' \<Longrightarrow> claims_held s \<Longrightarrow> claims_held s'"
proof (induction rule: outbox_step.induct)
  case (tick s t)
  then show ?case by (auto simp: claims_held_def live_def split: option.splits)
next
  case (store s i e row db')
  then have "outbox_wf db'" "set (os_db s) \<subseteq> set db'"
    using enqueueEvent_table [OF store.hyps] outbox_wf_enqueue [OF _ store.hyps] by (auto simp: claims_held_def)
  with store.prems show ?case by (auto simp: claims_held_def)
next
  case (claim_batch s n q db')
  then have wf: "outbox_wf (os_db s)" by (simp add: claims_held_def)
  have q: "q = fst (claimDueEvents (os_clock s) n (oc_leaseMs cfg) (os_db s))"
      "db' = snd (claimDueEvents (os_clock s) n (oc_leaseMs cfg) (os_db s))"
    using claim_batch.hyps by simp_all
  have "outbox_wf db'" unfolding q using wf by (simp add: claimDueEvents_def Let_def outbox_wf_claim)
  moreover have "c \<in> set db'" if "c \<in> set (os_claims s)" "live (os_clock s) c" for c
    unfolding q(2) by (rule unclaimed_kept [OF _ wf]) (use that claim_batch.prems live_not_due in \<open>auto simp: claims_held_def\<close>)
  ultimately show ?case
    using claim_batch.prems claims_in_table(1) [of _ "os_clock s" n "oc_leaseMs cfg" "os_db s"]
    by (auto simp: claims_held_def q [symmetric])
next
  case (claim_one i s c db')
  then have wf: "outbox_wf (os_db s)" by (simp add: claims_held_def)
  have q: "fst (claimDueEvent i (os_clock s) (oc_leaseMs cfg) (os_db s)) = Some c"
      "db' = snd (claimDueEvent i (os_clock s) (oc_leaseMs cfg) (os_db s))"
    using claim_one.hyps by simp_all
  have "outbox_wf db'" unfolding q using wf by (simp add: claimDueEvent_def outbox_wf_claim)
  moreover have "d \<in> set db'" if "d \<in> set (os_claims s)" "live (os_clock s) d" for d
    unfolding q(2) by (rule unclaimed_kept_one) (use that claim_one.prems in \<open>auto simp: claims_held_def\<close>)
  ultimately show ?case
    using claim_one.prems claims_in_table(2) [OF q(1)] by (auto simp: claims_held_def q(2) [symmetric])
next
  case (finish c s env)
  then have wf: "outbox_wf (os_db s)" and c: "c \<in> set (os_db s)" by (simp_all add: claims_held_def)
  have "d \<in> set (write_mark (ev_event_id c) (os_clock s) m (os_db s))"
    if "d \<in> set (os_claims s)" "live (os_clock s) d" "d \<noteq> c" for d m
  proof -
    have d: "d \<in> set (os_db s)" using that finish.prems by (simp add: claims_held_def)
    with c that(3) wf have "ev_event_id d \<noteq> ev_event_id c"
      using key_unique [of ev_event_id "os_db s" d c] by (auto simp: outbox_wf_def)
    with d show ?thesis unfolding write_mark_update by (rule update_where_kept)
  qed
  with finish.prems outbox_wf_mark [OF wf] show ?case by (auto simp: claims_held_def)
next
  case (crash s c)
  then show ?case by (auto simp: claims_held_def)
next
  case (supersede i r s ok db')
  then show ?case using supersede_table [OF supersede.hyps] by (auto simp: claims_held_def)
next
  case (recover i r err s ok db')
  then show ?case using recovery_table [OF recover.hyps] by (auto simp: claims_held_def)
qed

lemma published_kept_step:
  assumes "outbox_step h cfg s s'" "claims_held s" "e \<in> set (os_db s)" "ev_status e = EV_PUBLISHED"
  shows "e \<in> set (os_db s')"
  using assms(1)
proof cases
  case (store i ev row db')
  then show ?thesis using enqueueEvent_table [OF store(2)] assms(3) by auto
next
  case (claim_batch n q db')
  moreover have "e \<in> set (snd (claimDueEvents (os_clock s) n (oc_leaseMs cfg) (os_db s)))"
    using assms by (intro unclaimed_kept) (auto simp: claims_held_def final_event_def intro!: final_not_due)
  ultimately show ?thesis by simp
next
  case (claim_one i c db')
  then show ?thesis using unclaimed_kept_one [OF assms(3), of i "os_clock s" "oc_leaseMs cfg"] assms(4) by simp
next
  case (finish c env)
  then have "c \<in> set (os_db s)" "ev_status c = EV_PROCESSING" using assms(2) by (simp_all add: claims_held_def)
  then have "ev_event_id e \<noteq> ev_event_id c"
    using key_unique [of ev_event_id "os_db s" e c] assms by (auto simp: claims_held_def outbox_wf_def)
  then show ?thesis using finish(1) assms(3) by (simp add: write_mark_update update_where_kept)
next
  case (supersede i r ok db')
  then show ?thesis using supersede_table(2) [OF supersede(2)] assms by (simp add: claims_held_def)
next
  case (recover i r err ok db')
  then show ?thesis using recovery_table(2) [OF recover(2)] assms by (simp add: claims_held_def)
qed (use assms in auto)

text \<open>
  However many dispatchers claim events, crash and recover, and in whatever order they
  end, an event that is published keeps its row unchanged, its instant of publication included,
  and is never claimed again, as long as every worker ends before its lease does.
\<close>

theorem published_events_final:
  assumes "(outbox_step h cfg)\<^sup>*\<^sup>* s s'" "claims_held s" "e \<in> set (os_db s)" "ev_status e = EV_PUBLISHED"
  shows "e \<in> set (os_db s') \<and> (\<forall>now. \<not> due now e)"
proof -
  have "claims_held s' \<and> e \<in> set (os_db s')"
    using assms(1)
  proof induction
    case (step y z)
    with claims_held_step published_kept_step assms(4) show ?case by blast
  qed (use assms in auto)
  with assms(4) show ?thesis by (simp add: final_not_due final_event_def)
qed

text \<open>Without that condition the property is false: the result of a late worker reopens the event.\<close>

lemma late_worker_reopens:
  "e \<in> set db \<Longrightarrow> ev_event_id e = i \<Longrightarrow> \<exists>f\<in>set (write_mark i now (Mark_Retryable t m) db). ev_event_id f = i \<and> ev_status f = EV_PENDING"
  unfolding write_mark_update by (rule bexI [of _ "marked now (Mark_Retryable t m) e"]) (auto simp: set_update_where)

subsection \<open>Cycles that go on for ever\<close>

primrec cycles :: "(nat \<Rightarrow> dispatch_env) \<Rightarrow> nat \<Rightarrow> outbox \<Rightarrow> outbox" where
  "cycles env 0 db = db"
| "cycles env (Suc k) db = snd (runOnce (env k) (cycles env k db))"

text \<open>What a cycle makes of a row it claims.\<close>

definition handled :: "dispatch_env \<Rightarrow> outbox_event \<Rightarrow> outbox_event" where
  "handled env e = marked (de_instant env (ev_event_id e)) (ve_mark (decide env e)) e"

definition chosen :: "dispatch_env \<Rightarrow> outbox \<Rightarrow> string set" where
  "chosen env db = set (candidates (de_now env) (nat (oc_batchSize (de_config env))) db)"

lemma handled_keeps [simp]:
  "ev_event_id (handled env e) = ev_event_id e" "ev_id (handled env e) = ev_id e"
  "ev_attempt_count (handled env e) = ev_attempt_count e"
  by (simp_all add: handled_def)

lemma fold_processed:
  assumes "distinct (map ev_event_id db)" "distinct (map ev_event_id q)" "set q \<subseteq> set db"
  shows "snd (fold (processSingleEvent env) q (s, db)) = update_where (\<lambda>r. r \<in> set q) (handled env) db"
  using assms
proof (induction q arbitrary: s db)
  case Nil
  then show ?case by (simp add: update_where_def)
next
  case (Cons e q)
  let ?db = "write_mark (ev_event_id e) (de_instant env (ev_event_id e)) (ve_mark (decide env e)) db"
  have e: "r = e \<longleftrightarrow> ev_event_id r = ev_event_id e" if "r \<in> set db" for r
    using that Cons.prems(1,3) key_unique [of ev_event_id db r e] by auto
  have db: "?db = update_where (\<lambda>r. r = e) (handled env) db"
    unfolding write_mark_update update_where_def using e by (auto simp: handled_def)
  have kept: "r \<in> set ?db" if "r \<in> set q" for r
  proof -
    have "r \<noteq> e" using that Cons.prems(2) by force
    with that Cons.prems(3) show ?thesis unfolding db by (intro update_where_kept) auto
  qed
  have "snd (fold (processSingleEvent env) (e # q) (s, db)) = snd (fold (processSingleEvent env) q (counted (decide env e) s, ?db))"
    by (simp add: processSingleEvent_def)
  also have "\<dots> = update_where (\<lambda>r. r \<in> set q) (handled env) ?db"
    using Cons.prems kept by (intro Cons.IH) (auto simp: db map_update_where)
  also have "\<dots> = update_where (\<lambda>r. r \<in> set (e # q)) (handled env) db"
    using Cons.prems(2) unfolding db update_where_def by (force simp: image_iff)
  finally show ?case .
qed

lemma runOnce_rows:
  assumes "outbox_wf db" "canRun (de_config env)"
  shows "snd (runOnce env db) = update_where (\<lambda>e. ev_id e \<in> chosen env db)
    (\<lambda>e. handled env (claimed (de_now env) (oc_leaseMs (de_config env)) e)) db"
proof -
  let ?n = "nat (oc_batchSize (de_config env))" and ?l = "oc_leaseMs (de_config env)"
  let ?c = "claimed (de_now env) ?l" and ?P = "\<lambda>e. ev_id e \<in> chosen env db"
  let ?q = "map ?c (filter ?P db)" and ?db = "update_where ?P ?c db"
  have q: "claimDueEvents (de_now env) ?n ?l db = (?q, ?db)" by (simp add: claimDueEvents_def Let_def chosen_def)
  have "snd (runOnce env db) = snd (fold (processSingleEvent env) ?q (no_summary, ?db))"
    using assms(2) by (simp add: runOnce_def q processClaimedEvents_def)
  also have "\<dots> = update_where (\<lambda>r. r \<in> set ?q) (handled env) ?db"
    using assms(1) by (intro fold_processed) (auto simp: outbox_wf_def map_update_where comp_def distinct_map_filter set_update_where)
  also have "\<dots> = update_where ?P (\<lambda>e. handled env (?c e)) db"
  proof -
    have "e \<notin> ?c ` {x \<in> set db. ?P x}" if "e \<in> set db" "\<not> ?P e" for e
      using that by (metis (mono_tags, lifting) claimed_keeps(2) imageE mem_Collect_eq)
    then show ?thesis unfolding update_where_def by auto
  qed
  finally show ?thesis .
qed

lemma decide_retry:
  assumes "ve_mark (decide env e) = Mark_Retryable t m"
  shows "ev_attempt_count e < oc_maxRetryAttempts (de_config env)"
  using assms by (auto simp: decide_def sent_def caught_def Let_def split: sum.splits option.splits if_splits)

text \<open>How often an event can still be claimed.\<close>

definition effort :: "int \<Rightarrow> outbox_event \<Rightarrow> nat" where
  "effort m e = (if final_event e then 0 else Suc (nat (m - ev_attempt_count e)))"

lemma effort_decreases:
  assumes "\<not> final_event e"
  shows "effort (oc_maxRetryAttempts (de_config env)) (handled env (claimed now l e)) < effort (oc_maxRetryAttempts (de_config env)) e"
proof (cases "ve_mark (decide env (claimed now l e))")
  case (Mark_Retryable t m)
  then have "ev_attempt_count e + 1 < oc_maxRetryAttempts (de_config env)" using decide_retry by fastforce
  with assms Mark_Retryable show ?thesis by (auto simp: effort_def handled_def final_event_def)
qed (use assms in \<open>auto simp: effort_def handled_def final_event_def\<close>)

lemma sum_update_less:
  assumes "\<And>x. x \<in> set xs \<Longrightarrow> P x \<Longrightarrow> (f (g x) :: nat) < f x" "x \<in> set xs" "P x"
  shows "sum_list (map f (update_where P g xs)) < sum_list (map f xs)"
  using assms
proof (induction xs)
  case (Cons y ys)
  have le: "sum_list (map f (update_where P g ys)) \<le> sum_list (map f ys)"
    unfolding update_where_def map_map by (rule sum_list_mono) (use Cons.prems(1) in \<open>auto intro: less_imp_le\<close>)
  show ?case
  proof (cases "P y")
    case True
    with Cons.prems(1) have "f (g y) < f y" by simp
    with True le show ?thesis by (simp add: update_where_def)
  next
    case False
    with Cons show ?thesis by (auto simp: update_where_def)
  qed
qed simp

abbreviation efforts :: "int \<Rightarrow> outbox \<Rightarrow> nat" where
  "efforts m db \<equiv> sum_list (map (effort m) db)"

lemma chosen_due:
  assumes "outbox_wf db" "e \<in> set db" "ev_id e \<in> chosen env db" shows "due (de_now env) e"
proof -
  from assms(3) obtain f where "f \<in> set db" "due (de_now env) f" "ev_id f = ev_id e"
    by (auto simp: chosen_def candidates_def dest!: in_set_takeD)
  then show ?thesis using assms(1,2) key_unique [of ev_id db f e] by (simp add: outbox_wf_def)
qed

lemma cycle_decreases:
  assumes "outbox_wf db" "canRun (de_config env)" "e \<in> set db" "due (de_now env) e"
  shows "efforts (oc_maxRetryAttempts (de_config env)) (snd (runOnce env db)) < efforts (oc_maxRetryAttempts (de_config env)) db"
proof -
  have "sort_key (\<lambda>e. (ev_created_at e, code_units (ev_id e))) (filter (due (de_now env)) db) \<noteq> []"
    using assms(3,4) by (metis (mono_tags, lifting) empty_iff empty_set mem_Collect_eq set_filter set_sort)
  moreover have "nat (oc_batchSize (de_config env)) \<noteq> 0" using assms(2) by (simp add: canRun_def)
  ultimately have "chosen env db \<noteq> {}" by (simp add: chosen_def candidates_def)
  then obtain i where i: "i \<in> chosen env db" by blast
  then have "i \<in> ev_id ` set db" by (auto simp: chosen_def candidates_def dest!: in_set_takeD)
  with i obtain f where f: "f \<in> set db" "ev_id f \<in> chosen env db" by blast
  show ?thesis unfolding runOnce_rows [OF assms(1,2)]
    using f by (intro sum_update_less [where x = f]) (use chosen_due [OF assms(1)] final_not_due effort_decreases in blast)+
qed

lemma idle_cycle: "\<forall>e\<in>set db. \<not> due (de_now env) e \<Longrightarrow> snd (runOnce env db) = db"
  by (simp add: runOnce_def claimDueEvents_def candidates_def processClaimedEvents_def update_where_def filter_False)

lemma outbox_wf_cycles: "outbox_wf db \<Longrightarrow> (\<And>k. canRun (de_config (env k))) \<Longrightarrow> outbox_wf (cycles env k db)"
proof (induction k)
  case (Suc k)
  then have "outbox_wf (cycles env k db)" by simp
  then show ?case using Suc.prems(2) runOnce_rows
    by (auto intro!: outbox_wf_update simp: handled_def) (auto simp: outbox_wf_def)
qed simp

lemma eventually_due: "outbox_wf db \<Longrightarrow> e \<in> set db \<Longrightarrow> \<not> final_event e \<Longrightarrow> \<exists>t0. \<forall>t\<ge>t0. due t e"
proof -
  assume "outbox_wf db" "e \<in> set db" "\<not> final_event e"
  then consider "ev_status e = EV_PENDING" "ev_lease_until e = None" | u where "ev_status e = EV_PROCESSING" "ev_lease_until e = Some u"
    by (cases "ev_status e") (auto simp: outbox_wf_def final_event_def)
  then show ?thesis
  proof cases
    case 1
    then show ?thesis by (intro exI [of _ "ev_next_attempt_at e"]) (simp add: due_def lease_free_def)
  next
    case 2
    then show ?thesis by (intro exI [of _ u]) (simp add: due_def lease_free_def lease_over_def)
  qed
qed

text \<open>
  Property C31: when cycles of a configured dispatcher go on for ever, every event of the outbox is
  published or failed after finitely many of them and stays so, whatever the network answers, after
  any number of crashes before, and however long the service asks to wait.
\<close>

theorem outbox_drains:
  assumes "outbox_wf db" "canRun cfg" "\<forall>k. de_config (env k) = cfg" "\<forall>t. \<exists>k. \<forall>j\<ge>k. t \<le> de_now (env j)"
  shows "\<exists>n. \<forall>j\<ge>n. \<forall>e\<in>set (cycles env j db). final_event e"
proof -
  let ?D = "\<lambda>k. cycles env k db" and ?m = "oc_maxRetryAttempts cfg"
  have wf: "outbox_wf (?D k)" for k by (rule outbox_wf_cycles) (use assms in auto)
  have down: "efforts ?m (?D (Suc k)) < efforts ?m (?D k)" if "e \<in> set (?D k)" "due (de_now (env k)) e" for k e
    using cycle_decreases [OF wf [of k] _ that] assms(2,3) by simp
  have idle: "?D (Suc k) = ?D k" if "\<forall>e\<in>set (?D k). \<not> due (de_now (env k)) e" for k
    using idle_cycle [OF that] by simp
  obtain n where least: "\<And>k. efforts ?m (?D n) \<le> efforts ?m (?D k)"
    using ex_has_least_nat [of "\<lambda>_. True" 0 "\<lambda>k. efforts ?m (?D k)"] by auto
  have const: "j \<ge> n \<Longrightarrow> ?D j = ?D n" for j
  proof (induction j rule: dec_induct)
    case (step j)
    then have "\<forall>e\<in>set (?D j). \<not> due (de_now (env j)) e" using down [of _ j] least [of "Suc j"] by fastforce
    then have "?D (Suc j) = ?D j" by (rule idle)
    with step.IH show ?case by simp
  qed simp
  have "final_event e" if e: "e \<in> set (?D n)" for e
  proof (rule ccontr)
    assume "\<not> final_event e"
    then obtain t0 where t0: "\<And>t. t0 \<le> t \<Longrightarrow> due t e" using eventually_due [OF wf e] by blast
    obtain k where "\<forall>j\<ge>k. t0 \<le> de_now (env j)" using assms(4) by blast
    then have "due (de_now (env (max n k))) e" by (intro t0) simp
    moreover have "e \<in> set (?D (max n k))" using const [of "max n k"] e by simp
    ultimately have d: "efforts ?m (?D (Suc (max n k))) < efforts ?m (?D (max n k))" by (rule down [rotated])
    have "?D (max n k) = ?D n" by (rule const) simp
    with d least [of "Suc (max n k)"] show False by (simp only: leD)
  qed
  then have "\<forall>e\<in>set (?D j). final_event e" if "n \<le> j" for j using const [OF that] by (simp only:) blast
  then show ?thesis by blast
qed

subsection \<open>The properties on a small outbox\<close>

definition demo_text_host :: text_host where
  "demo_text_host = \<lparr>date_parse = (\<lambda>_. None), iso_string = (\<lambda>_. ''2026''), locale_compare = (\<lambda>_ _. 0),
     sha256_hex = (\<lambda>s. s), number_text = (\<lambda>_. ''1''), number_of = (\<lambda>_. Fin 0), json_parse = (\<lambda>_. None),
     type_error = ''TypeError''\<rparr>"

definition demo_outbox_config :: outbox_config where
  "demo_outbox_config = \<lparr>oc_enabled = True, oc_scanIntervalMs = 30000, oc_batchSize = 10, oc_concurrencyLimit = 4,
     oc_maxRetryAttempts = 5, oc_leaseMs = 300000, oc_initialBackoffMs = 30000, oc_maxBackoffMs = 1800000,
     oc_timeoutMs = 15000, oc_inlineTimeoutMs = 60000, oc_billingBackendBaseUrl = ''http://billing'',
     oc_internalToken = ''token''\<rparr>"

definition demo_payload :: json where
  "demo_payload = JObj [(''sale'', JObj [(''saleStatus'', JStr ''CONFIRMED'')]), (''lines'', JArr [])]"

definition demo_envelope :: envelope where
  "demo_envelope = \<lparr>en_eventId = ''a'', en_eventType = SALE_COMPLETED, en_schemaVersion = 1, en_tenantId = ''t'',
     en_correlationId = ''c'', en_occurredAt = ''2026'', en_sourceType = ''SALE'', en_sourceId = ''s'',
     en_payload = demo_payload\<rparr>"

definition demo_row :: "string \<Rightarrow> outbox_status \<Rightarrow> outbox_event" where
  "demo_row i st = \<lparr>ev_id = i, ev_event_id = i, ev_event_type = SALE_COMPLETED, ev_schema_version = 1, ev_tenant_id = ''t'',
     ev_correlation_id = ''c'', ev_source_type = ''SALE'', ev_source_id = ''s'', ev_payload = demo_payload,
     ev_payload_hash = ''h'', ev_status = st, ev_attempt_count = 0, ev_next_attempt_at = 0, ev_lease_until = None,
     ev_last_attempt_at = None, ev_published_at = None, ev_last_error = None, ev_created_at = 0, ev_updated_at = 0\<rparr>"

definition demo_table :: outbox where
  "demo_table = [demo_row ''a'' EV_PENDING, demo_row ''b'' EV_PUBLISHED, demo_row ''d'' EV_PENDING]"

definition demo_dispatch :: "nat \<Rightarrow> dispatch_env" where
  "demo_dispatch k = \<lparr>de_host = demo_text_host, de_config = demo_outbox_config, de_now = int k * 60000,
     de_instant = (\<lambda>_. int k * 60000 + 15000), de_network = (\<lambda>_. Aborted)\<rparr>"

lemma demo_table_wf: "outbox_wf demo_table"
  by (simp add: outbox_wf_def demo_table_def demo_row_def)

lemma outbox_order_irrelevant_witness:
  "processClaimedEvents (demo_dispatch 1) (rev (fst (claimDueEvents 60000 10 300000 demo_table)))
      (snd (claimDueEvents 60000 10 300000 demo_table)) =
    processClaimedEvents (demo_dispatch 1) (fst (claimDueEvents 60000 10 300000 demo_table))
      (snd (claimDueEvents 60000 10 300000 demo_table)) \<and>
    length (fst (claimDueEvents 60000 10 300000 demo_table)) = 2"
proof -
  have "length (fst (claimDueEvents 60000 10 300000 demo_table)) = 2" by code_simp
  with outbox_order_irrelevant [OF demo_table_wf, of "demo_dispatch 1" 10 300000
      "fst (claimDueEvents 60000 10 300000 demo_table)" "snd (claimDueEvents 60000 10 300000 demo_table)"
      "rev (fst (claimDueEvents 60000 10 300000 demo_table))"]
  show ?thesis by (simp add: demo_dispatch_def)
qed

definition swapped_payload :: json where
  "swapped_payload = JObj [(''lines'', JArr []), (''sale'', JObj [(''saleStatus'', JStr ''CONFIRMED'')])]"

lemma enqueue_repeats_witness:
  "\<exists>row db'. enqueueEvent demo_text_host 7 ''r'' demo_envelope [] = Inr (row, db') \<and>
    enqueueEvent demo_text_host 9 ''q'' (demo_envelope\<lparr>en_payload := swapped_payload\<rparr>) db' = Inr (row, db') \<and>
    (\<exists>m. enqueueEvent demo_text_host 9 ''q'' (demo_envelope\<lparr>en_payload := JNull\<rparr>) db' = Inl (OutboxConflict m))"
proof -
  obtain row db' where e: "enqueueEvent demo_text_host 7 ''r'' demo_envelope [] = Inr (row, db')"
    by (simp add: enqueueEvent_def enqueue_def Let_def new_row_def)
  have "same_json swapped_payload (en_payload demo_envelope)"
    unfolding swapped_payload_def demo_envelope_def demo_payload_def
    by (simp, rule same_obj [where kws = "[(''lines'', JArr []), (''sale'', JObj [(''saleStatus'', JStr ''CONFIRMED'')])]"])
       (auto intro: same_refl)
  moreover have "hashPayload demo_text_host JNull \<noteq> hashPayload demo_text_host (en_payload demo_envelope)"
    by code_simp
  ultimately show ?thesis
    using e enqueue_repeats [OF e, of swapped_payload 9 "''q''"] enqueue_repeats [OF e, of JNull 9 "''q''"] by blast
qed

definition demo_system :: outbox_system where
  "demo_system = \<lparr>os_db = demo_table, os_claims = [], os_clock = 60000\<rparr>"

lemma published_events_final_witness:
  "\<exists>s'. (outbox_step demo_text_host demo_outbox_config)\<^sup>*\<^sup>* demo_system s' \<and> os_claims s' \<noteq> [] \<and>
    demo_row ''b'' EV_PUBLISHED \<in> set (os_db s') \<and> \<not> due 60000 (demo_row ''b'' EV_PUBLISHED)"
proof -
  let ?r = "claimDueEvents (os_clock demo_system) 10 (oc_leaseMs demo_outbox_config) (os_db demo_system)"
  let ?s = "demo_system\<lparr>os_db := snd ?r, os_claims := fst ?r @ os_claims demo_system\<rparr>"
  have "outbox_step demo_text_host demo_outbox_config demo_system ?s" by (rule claim_batch [where n = 10]) simp
  then have run: "(outbox_step demo_text_host demo_outbox_config)\<^sup>*\<^sup>* demo_system ?s" by (rule r_into_rtranclp)
  have "claims_held demo_system" by (simp add: claims_held_def demo_system_def demo_table_wf)
  moreover have "demo_row ''b'' EV_PUBLISHED \<in> set (os_db demo_system)" by (simp add: demo_system_def demo_table_def)
  moreover have "ev_status (demo_row ''b'' EV_PUBLISHED) = EV_PUBLISHED" by (simp add: demo_row_def)
  ultimately have "demo_row ''b'' EV_PUBLISHED \<in> set (os_db ?s) \<and> \<not> due 60000 (demo_row ''b'' EV_PUBLISHED)"
    using published_events_final [OF run] by blast
  moreover have "os_claims ?s \<noteq> []" by code_simp
  ultimately show ?thesis using run by blast
qed

lemma outbox_drains_witness: "\<exists>n. list_all final_event (cycles demo_dispatch n demo_table)"
proof -
  have run: "canRun demo_outbox_config" by (simp add: canRun_def demo_outbox_config_def)
  have "t \<le> de_now (demo_dispatch j)" if "nat t \<le> j" for t j using that by (simp add: demo_dispatch_def)
  then have later: "\<forall>t. \<exists>k. \<forall>j\<ge>k. t \<le> de_now (demo_dispatch j)" by blast
  have cfg: "\<forall>k. de_config (demo_dispatch k) = demo_outbox_config" by (simp add: demo_dispatch_def)
  show ?thesis using outbox_drains [OF demo_table_wf run cfg later] by (auto simp: list_all_iff)
qed

end
