(* ===== verification/Payment_Tables.thy ===== *)
theory Payment_Tables
  imports Json_Text
begin

section \<open>The tables of payments\<close>

text \<open>
  The rows of payments, payment_allocations, cash_movements, cash_sessions and
  document_payment_operations, and what the finance module reads of sales, purchases, orders,
  users, branches, people, payment methods and institutions (finance/payments/payments.repository.ts,
  finance/common/repositories/finance-access.repository.ts, the migrations under
  scripts/database/finance). Money columns are numeric(14, 2) and hold cents. What such a column
  stores of a number is \<open>fe_money\<close> of the environment; None is the database's error.
\<close>

datatype reference_type = R_SALE | R_PURCHASE | R_SALES_ORDER | R_PURCHASE_ORDER | R_EXPENSE | R_REFUND
  | R_CUSTOMER_CREDIT | R_SUPPLIER_CREDIT

fun reference_name :: "reference_type \<Rightarrow> string" where
  "reference_name R_SALE = ''SALE''"
| "reference_name R_PURCHASE = ''PURCHASE''"
| "reference_name R_SALES_ORDER = ''SALES_ORDER''"
| "reference_name R_PURCHASE_ORDER = ''PURCHASE_ORDER''"
| "reference_name R_EXPENSE = ''EXPENSE''"
| "reference_name R_REFUND = ''REFUND''"
| "reference_name R_CUSTOMER_CREDIT = ''CUSTOMER_CREDIT''"
| "reference_name R_SUPPLIER_CREDIT = ''SUPPLIER_CREDIT''"

datatype payment_status = PAY_PENDING | PAY_COMPLETED | PAY_CANCELLED | PAY_REFUNDED

record payment_row =
  pm_id :: string
  pm_tenantId :: string
  pm_branchId :: string
  pm_methodId :: string
  pm_cashSessionId :: "string option"
  pm_institutionId :: "string option"
  pm_referenceType :: reference_type
  pm_referenceId :: string
  pm_in :: bool
  pm_status :: payment_status
  pm_amount :: int
  pm_referenceNumber :: "string option"
  pm_notes :: "string option"
  pm_paidByPersonId :: "string option"
  pm_createdBy :: string
  pm_createdAt :: int

record allocation_row =
  al_id :: string
  al_paymentId :: string
  al_referenceType :: reference_type
  al_referenceId :: string
  al_amount :: int
  al_createdAt :: int

record cash_movement_row =
  cv_id :: string
  cv_tenantId :: string
  cv_branchId :: string
  cv_cashSessionId :: string
  cv_paymentId :: "string option"
  cv_type :: string
  cv_in :: bool
  cv_referenceType :: "string option"
  cv_referenceId :: "string option"
  cv_amount :: int
  cv_description :: "string option"
  cv_createdBy :: string

text \<open>The columns of the three kinds of document that the finance module reads or writes.\<close>

datatype document_kind = D_SALE | D_PURCHASE | D_ORDER

record document_row =
  dc_kind :: document_kind
  dc_id :: string
  dc_tenantId :: string
  dc_branchId :: "string option"
  dc_status :: string
  dc_cash :: bool
  dc_orderId :: "string option"
  dc_partyId :: "string option"
  dc_total :: int
  dc_totalPaid :: int
  dc_balance :: "int option"
  dc_balanceDue :: "int option"
  dc_paymentStatus :: string

record session_row =
  cs_id :: string
  cs_tenantId :: string
  cs_branchId :: string
  cs_registerId :: string
  cs_openedBy :: string
  cs_openedAt :: int
  cs_status :: string

record method_row =
  me_id :: string
  me_tenantId :: string
  me_tipo :: string
  me_active :: bool
  me_requiresReference :: bool
  me_requiresInstitution :: bool

record operation_row =
  op_tenantId :: string
  op_key :: string
  op_fingerprint :: string
  op_referenceType :: reference_type
  op_referenceId :: string
  op_paymentIds :: "string list option"
  op_completed :: bool

record fin_db =
  fd_payments :: "payment_row list"
  fd_allocations :: "allocation_row list"
  fd_movements :: "cash_movement_row list"
  fd_documents :: "document_row list"
  fd_sessions :: "session_row list"
  fd_operations :: "operation_row list"
  fd_users :: "(string \<times> string \<times> string) list"
  fd_branches :: "(string \<times> string \<times> string) list"
  fd_userBranches :: "(string \<times> string \<times> string) list"
  fd_persons :: "(string \<times> string) list"
  fd_methods :: "method_row list"
  fd_institutions :: "(string \<times> string option \<times> bool) list"
  fd_assignments :: "(string \<times> string) list"

record fin_actor =
  fa_userId :: string
  fa_tenantId :: string
  fa_roles :: "string list"

record fin_env =
  fe_host :: text_host
  fe_now :: int
  fe_uuid :: "nat \<Rightarrow> string"
  fe_money :: "rat \<Rightarrow> int option"

subsection \<open>Reading\<close>

definition findBranchById :: "string \<Rightarrow> string \<Rightarrow> fin_db \<Rightarrow> string option" where
  "findBranchById branchId tenantId db =
     map_option (\<lambda>(i, t, estado). estado) (find (\<lambda>(i, t, _). i = branchId \<and> t = tenantId) (fd_branches db))"

definition findUserById :: "string \<Rightarrow> string \<Rightarrow> fin_db \<Rightarrow> string option" where
  "findUserById userId tenantId db =
     map_option (\<lambda>(i, t, estado). estado) (find (\<lambda>(i, t, _). i = userId \<and> t = tenantId) (fd_users db))"

definition userHasBranchAccess :: "string \<Rightarrow> string \<Rightarrow> string \<Rightarrow> fin_db \<Rightarrow> bool" where
  "userHasBranchAccess userId tenantId branchId db \<longleftrightarrow>
     (userId, tenantId, ''ACTIVE'') \<in> set (fd_users db) \<and> (userId, tenantId, branchId) \<in> set (fd_userBranches db)"

definition findPersonById :: "string \<Rightarrow> string \<Rightarrow> fin_db \<Rightarrow> bool" where
  "findPersonById personId tenantId db \<longleftrightarrow> (personId, tenantId) \<in> set (fd_persons db)"

definition findMethodById :: "string \<Rightarrow> string \<Rightarrow> fin_db \<Rightarrow> method_row option" where
  "findMethodById methodId tenantId db = find (\<lambda>m. me_id m = methodId \<and> me_tenantId m = tenantId) (fd_methods db)"

definition validInstitution :: "string \<Rightarrow> string \<Rightarrow> fin_db \<Rightarrow> bool" where
  "validInstitution institutionId tenantId db \<longleftrightarrow>
     (\<exists>(i, t, active) \<in> set (fd_institutions db). i = institutionId \<and> active \<and> (t = Some tenantId \<or> t = None))"

definition findSessionById :: "string \<Rightarrow> string \<Rightarrow> fin_db \<Rightarrow> session_row option" where
  "findSessionById sessionId tenantId db = find (\<lambda>s. cs_id s = sessionId \<and> cs_tenantId s = tenantId) (fd_sessions db)"

definition latest_session :: "(session_row \<Rightarrow> bool) \<Rightarrow> fin_db \<Rightarrow> session_row option" where
  "latest_session P db = (case sort_key (\<lambda>s. - cs_openedAt s) (filter P (fd_sessions db)) of [] \<Rightarrow> None | s # _ \<Rightarrow> Some s)"

definition findOpenByBranch :: "string \<Rightarrow> string \<Rightarrow> fin_db \<Rightarrow> session_row option" where
  "findOpenByBranch branchId tenantId =
     latest_session (\<lambda>s. cs_branchId s = branchId \<and> cs_tenantId s = tenantId \<and> cs_status s = ''OPEN'')"

definition hasActiveAssignment :: "string \<Rightarrow> string \<Rightarrow> fin_db \<Rightarrow> bool" where
  "hasActiveAssignment registerId userId db \<longleftrightarrow> (registerId, userId) \<in> set (fd_assignments db)"

definition findCurrentByUser :: "string \<Rightarrow> string \<Rightarrow> fin_db \<Rightarrow> session_row option" where
  "findCurrentByUser userId tenantId db = latest_session (\<lambda>s. cs_tenantId s = tenantId \<and> cs_status s = ''OPEN'' \<and>
     (cs_openedBy s = userId \<or> hasActiveAssignment (cs_registerId s) userId db)) db"

fun kind_of :: "reference_type \<Rightarrow> document_kind option" where
  "kind_of R_SALE = Some D_SALE"
| "kind_of R_PURCHASE = Some D_PURCHASE"
| "kind_of R_PURCHASE_ORDER = Some D_PURCHASE"
| "kind_of R_SALES_ORDER = Some D_ORDER"
| "kind_of _ = None"

definition is_document :: "document_kind \<Rightarrow> string \<Rightarrow> string \<Rightarrow> document_row \<Rightarrow> bool" where
  "is_document k i tenantId d \<longleftrightarrow> dc_kind d = k \<and> dc_id d = i \<and> dc_tenantId d = tenantId"

definition findReferenceDocument :: "string \<Rightarrow> reference_type \<Rightarrow> string \<Rightarrow> fin_db \<Rightarrow> document_row option" where
  "findReferenceDocument tenantId type i db =
     (case kind_of type of None \<Rightarrow> None | Some k \<Rightarrow> find (is_document k i tenantId) (fd_documents db))"

text \<open>The column \<open>balance\<close> of that query.\<close>

definition documentBalance :: "document_row \<Rightarrow> int option" where
  "documentBalance d = (case dc_kind d of
       D_SALE \<Rightarrow> if dc_cash d then Some (dc_total d)
         else (case dc_balanceDue d of None \<Rightarrow> dc_balance d | Some b \<Rightarrow> Some b)
     | D_PURCHASE \<Rightarrow> (case dc_balanceDue d of None \<Rightarrow> dc_balance d | Some b \<Rightarrow> Some b)
     | D_ORDER \<Rightarrow> dc_balanceDue d)"

text \<open>An allocation counts while its payment, of the tenant, is pending or completed.\<close>

definition live_payment :: "string \<Rightarrow> payment_row \<Rightarrow> bool" where
  "live_payment tenantId p \<longleftrightarrow> pm_tenantId p = tenantId \<and> pm_status p \<in> {PAY_PENDING, PAY_COMPLETED}"

definition payment_of :: "allocation_row \<Rightarrow> fin_db \<Rightarrow> payment_row option" where
  "payment_of a db = find (\<lambda>p. pm_id p = al_paymentId a) (fd_payments db)"

definition counts :: "fin_db \<Rightarrow> string \<Rightarrow> reference_type set \<Rightarrow> string \<Rightarrow> allocation_row \<Rightarrow> bool" where
  "counts db tenantId types i a \<longleftrightarrow> al_referenceType a \<in> types \<and> al_referenceId a = i \<and>
     (case payment_of a db of None \<Rightarrow> False | Some p \<Rightarrow> live_payment tenantId p)"

definition allocated :: "string \<Rightarrow> reference_type set \<Rightarrow> string \<Rightarrow> fin_db \<Rightarrow> int" where
  "allocated tenantId types i db = sum_list (map al_amount (filter (counts db tenantId types i) (fd_allocations db)))"

definition sumAllocatedForReference :: "string \<Rightarrow> reference_type \<Rightarrow> string \<Rightarrow> fin_db \<Rightarrow> rat" where
  "sumAllocatedForReference tenantId type i db = cents (allocated tenantId {type} i db)"

subsection \<open>Writing\<close>

text \<open>The primary key, the money column and its check.\<close>

definition insert_payment :: "payment_row \<Rightarrow> fin_db \<Rightarrow> fin_db http" where
  "insert_payment p db =
     (if pm_id p \<in> pm_id ` set (fd_payments db) \<or> pm_amount p \<le> 0 then Inl (InternalError ''payments'')
      else Inr (db\<lparr>fd_payments := fd_payments db @ [p]\<rparr>))"

definition insert_allocation :: "allocation_row \<Rightarrow> fin_db \<Rightarrow> fin_db http" where
  "insert_allocation a db =
     (if al_id a \<in> al_id ` set (fd_allocations db) \<or> al_amount a \<le> 0 \<or>
         al_paymentId a \<notin> pm_id ` set (fd_payments db) then Inl (InternalError ''payment_allocations'')
      else Inr (db\<lparr>fd_allocations := fd_allocations db @ [a]\<rparr>))"

definition insert_cash_movement :: "cash_movement_row \<Rightarrow> fin_db \<Rightarrow> fin_db http" where
  "insert_cash_movement m db =
     (if cv_id m \<in> cv_id ` set (fd_movements db) \<or> cv_amount m \<le> 0 \<or>
         (cv_type m = ''PAYMENT'' \<and> cv_paymentId m \<noteq> None \<and>
          (\<exists>n \<in> set (fd_movements db). cv_type n = ''PAYMENT'' \<and> cv_paymentId n = cv_paymentId m))
      then Inl (InternalError ''cash_movements'')
      else Inr (db\<lparr>fd_movements := fd_movements db @ [m]\<rparr>))"

definition money_column :: "fin_env \<Rightarrow> rat \<Rightarrow> string \<Rightarrow> int http" where
  "money_column env x table = (case fe_money env x of None \<Rightarrow> Inl (InternalError table) | Some n \<Rightarrow> Inr n)"

subsection \<open>The financial columns of the documents\<close>

definition payment_state :: "int \<Rightarrow> int \<Rightarrow> string" where
  "payment_state paid due = (if paid \<le> 0 then ''PENDING'' else if paid < due then ''PARTIAL''
     else if paid = due then ''PAID'' else ''OVERPAID'')"

definition signed_paid :: "string \<Rightarrow> string \<Rightarrow> fin_db \<Rightarrow> int" where
  "signed_paid tenantId saleId db = sum_list (map (\<lambda>a. case payment_of a db of None \<Rightarrow> 0
     | Some p \<Rightarrow> if pm_in p then al_amount a else - al_amount a) (filter (counts db tenantId {R_SALE} saleId) (fd_allocations db)))"

definition syncSaleFinancialState :: "string \<Rightarrow> string \<Rightarrow> fin_db \<Rightarrow> fin_db" where
  "syncSaleFinancialState saleId tenantId db =
     (let paid = signed_paid tenantId saleId db
      in db\<lparr>fd_documents := update_where (is_document D_SALE saleId tenantId) (\<lambda>d. d\<lparr>dc_totalPaid := paid,
           dc_balanceDue := Some (if dc_cash d then 0 else max (dc_total d - paid) 0),
           dc_balance := Some (if dc_cash d then 0 else max (dc_total d - paid) 0),
           dc_paymentStatus := payment_state paid (dc_total d)\<rparr>) (fd_documents db)\<rparr>)"

definition syncPurchaseFinancialState :: "string \<Rightarrow> string \<Rightarrow> fin_db \<Rightarrow> fin_db" where
  "syncPurchaseFinancialState purchaseId tenantId db =
     (let paid = allocated tenantId {R_PURCHASE, R_PURCHASE_ORDER} purchaseId db
      in db\<lparr>fd_documents := update_where (is_document D_PURCHASE purchaseId tenantId) (\<lambda>d. d\<lparr>dc_totalPaid := paid,
           dc_balanceDue := Some (max (dc_total d - paid) 0), dc_balance := Some (max (dc_total d - paid) 0),
           dc_paymentStatus := payment_state paid (dc_total d)\<rparr>) (fd_documents db)\<rparr>)"

text \<open>
  The stored function finance\_sync\_order\_financial\_state: what is paid of an order, and what of
  it is invoiced by confirmed sales, up to its total.
\<close>

definition invoiced :: "string \<Rightarrow> string \<Rightarrow> fin_db \<Rightarrow> int" where
  "invoiced tenantId orderId db = sum_list (map dc_total (filter (\<lambda>d. dc_kind d = D_SALE \<and> dc_orderId d = Some orderId \<and>
     dc_tenantId d = tenantId \<and> dc_status d = ''CONFIRMED'') (fd_documents db)))"

definition syncOrderFinancialState :: "string \<Rightarrow> string \<Rightarrow> fin_db \<Rightarrow> fin_db" where
  "syncOrderFinancialState orderId tenantId db =
     (let sum = allocated tenantId {R_SALES_ORDER} orderId db + invoiced tenantId orderId db
      in db\<lparr>fd_documents := update_where (is_document D_ORDER orderId tenantId) (\<lambda>d.
           let paid = min (dc_total d) sum in d\<lparr>dc_totalPaid := paid, dc_balanceDue := Some (max (dc_total d - paid) 0),
             dc_paymentStatus := payment_state paid (dc_total d)\<rparr>) (fd_documents db)\<rparr>)"

end
