(* ===== verification/Payment_Service.thy ===== *)
theory Payment_Service
  imports Payment_Tables
begin

section \<open>The payments service\<close>

text \<open>
  finance/payments/payments.service.ts with its DTOs: the registration of a payment with its
  allocations to documents and its cash movement (\<open>createInternal\<close>, reached through \<open>create\<close>),
  the payment of a document in several lines under an operation key (\<open>createDocument\<close>), and the
  reads. The validation decorators are the first step of the two handlers; whether a text is a
  UUID is \<open>is_uuid\<close>, the validation library's test. Amounts are JavaScript numbers. The texts that
  the responses join from other tables (names, codes, e-mails) and the audit log are left out.
\<close>

subsection \<open>Requests and responses\<close>

record allocation_input =
  ai_type :: reference_type
  ai_id :: string
  ai_amount :: rat

record payment_input =
  cr_tenantId :: "string option"
  cr_branchId :: string
  cr_methodId :: string
  cr_cashSessionId :: "string option"
  cr_institutionId :: "string option"
  cr_type :: reference_type
  cr_id :: string
  cr_in :: bool
  cr_status :: "payment_status option"
  cr_amount :: rat
  cr_referenceNumber :: "string option"
  cr_notes :: "string option"
  cr_personId :: "string option"
  cr_allowOverpayment :: bool
  cr_allocations :: "allocation_input list"

record allocation_response =
  rl_id :: string
  rl_paymentId :: string
  rl_type :: reference_type
  rl_referenceId :: string
  rl_amount :: rat

record payment_response =
  rp_id :: string
  rp_tenantId :: string
  rp_branchId :: string
  rp_methodId :: string
  rp_cashSessionId :: "string option"
  rp_type :: reference_type
  rp_referenceId :: string
  rp_in :: bool
  rp_status :: payment_status
  rp_amount :: rat
  rp_allocated :: rat
  rp_unallocated :: rat
  rp_referenceNumber :: "string option"
  rp_notes :: "string option"
  rp_createdBy :: string
  rp_createdAt :: int
  rp_allocations :: "allocation_response list"

definition isMonetaryAmount :: "rat \<Rightarrow> bool" where
  "isMonetaryAmount v \<longleftrightarrow> 0 < v \<and> of_int \<lfloor>dbl (v * 100)\<rfloor> = dbl (v * 100)"

definition at_most :: "nat \<Rightarrow> string option \<Rightarrow> bool" where
  "at_most n s \<longleftrightarrow> (case s of None \<Rightarrow> True | Some t \<Rightarrow> length t \<le> n)"

definition opt_uuid :: "(string \<Rightarrow> bool) \<Rightarrow> string option \<Rightarrow> bool" where
  "opt_uuid is_uuid s \<longleftrightarrow> (case s of None \<Rightarrow> True | Some t \<Rightarrow> is_uuid t)"

definition validAllocation :: "(string \<Rightarrow> bool) \<Rightarrow> allocation_input \<Rightarrow> bool" where
  "validAllocation is_uuid a \<longleftrightarrow> is_uuid (ai_id a) \<and> isMonetaryAmount (ai_amount a)"

definition validPayment :: "(string \<Rightarrow> bool) \<Rightarrow> payment_input \<Rightarrow> bool" where
  "validPayment is_uuid p \<longleftrightarrow> is_uuid (cr_branchId p) \<and> is_uuid (cr_methodId p) \<and>
     opt_uuid is_uuid (cr_cashSessionId p) \<and> opt_uuid is_uuid (cr_institutionId p) \<and> is_uuid (cr_id p) \<and>
     isMonetaryAmount (cr_amount p) \<and> at_most 120 (cr_referenceNumber p) \<and> at_most 1000 (cr_notes p) \<and>
     opt_uuid is_uuid (cr_personId p) \<and> length (cr_allocations p) \<le> 50 \<and>
     list_all (validAllocation is_uuid) (cr_allocations p)"

subsection \<open>Who may pay, and where\<close>

text \<open>The guard of the controllers: the authenticated user becomes the actor.\<close>

definition financeActor :: "string option \<Rightarrow> string option \<Rightarrow> string list option \<Rightarrow> fin_actor http" where
  "financeActor userId tenantId roles =
     (case (trimmed userId, trimmed tenantId) of
        (Some u, Some t) \<Rightarrow> Inr \<lparr>fa_userId = u, fa_tenantId = t, fa_roles = coalesce roles []\<rparr>
      | _ \<Rightarrow> Inl (Unauthorized ''Usuario no autenticado''))"

definition isSuperAdmin :: "fin_actor \<Rightarrow> bool" where
  "isSuperAdmin actor \<longleftrightarrow> ''SUPER_ADMIN'' \<in> set (fa_roles actor)"

definition canManageTenant :: "fin_actor \<Rightarrow> bool" where
  "canManageTenant actor \<longleftrightarrow> isSuperAdmin actor \<or> ''SUPER_USER'' \<in> set (fa_roles actor)"

definition canAdminPayments :: "fin_actor \<Rightarrow> bool" where
  "canAdminPayments actor \<longleftrightarrow> canManageTenant actor \<or> ''ADMIN'' \<in> set (fa_roles actor)"

definition canOperatePayments :: "fin_actor \<Rightarrow> bool" where
  "canOperatePayments actor \<longleftrightarrow> canAdminPayments actor \<or> ''USER'' \<in> set (fa_roles actor)"

definition resolveTenantId :: "fin_actor \<Rightarrow> string option \<Rightarrow> string http" where
  "resolveTenantId actor tenantId =
     (if isSuperAdmin actor then Inr (coalesce (trimmed tenantId) (fa_tenantId actor))
      else if truthy tenantId \<and> js_trim (the tenantId) \<noteq> fa_tenantId actor
        then Inl (Forbidden ''No autorizado para otro tenant'')
      else Inr (fa_tenantId actor))"

definition assertActiveUser :: "fin_actor \<Rightarrow> string \<Rightarrow> fin_db \<Rightarrow> unit http" where
  "assertActiveUser actor tenantId db =
     guard (findUserById (fa_userId actor) tenantId db = Some ''ACTIVE'') (Forbidden ''Usuario no autorizado'')"

definition assertBranchScope :: "fin_actor \<Rightarrow> string \<Rightarrow> string \<Rightarrow> fin_db \<Rightarrow> unit http" where
  "assertBranchScope actor tenantId branchId db =
     (case findBranchById branchId tenantId db of
        None \<Rightarrow> Inl (BadRequest ''Sucursal invalida'')
      | Some estado \<Rightarrow>
          if estado \<noteq> ''ACTIVE'' then Inl (BadRequest ''Sucursal inactiva'')
          else if canAdminPayments actor then Inr ()
          else guard (userHasBranchAccess (fa_userId actor) tenantId branchId db)
            (Forbidden ''No autorizado para esta sucursal''))"

definition resolveImplicitCashSession :: "fin_actor \<Rightarrow> string \<Rightarrow> string \<Rightarrow> fin_db \<Rightarrow> session_row option" where
  "resolveImplicitCashSession actor tenantId branchId db =
     (let current = (case findCurrentByUser (fa_userId actor) tenantId db of
          None \<Rightarrow> if canAdminPayments actor then findOpenByBranch branchId tenantId db else None
        | Some s \<Rightarrow> Some s)
      in case current of
           None \<Rightarrow> None
         | Some s \<Rightarrow> if cs_status s \<noteq> ''OPEN'' \<or> cs_branchId s \<noteq> branchId then None
             else findSessionById (cs_id s) tenantId db)"

subsection \<open>Allocations\<close>

definition buildReferenceKey :: "reference_type \<Rightarrow> string \<Rightarrow> string" where
  "buildReferenceKey type i = reference_name type @ '':'' @ i"

definition ai_key :: "allocation_input \<Rightarrow> string" where
  "ai_key a = buildReferenceKey (ai_type a) (ai_id a)"

fun isSupportedReferenceType :: "reference_type \<Rightarrow> bool" where
  "isSupportedReferenceType type = (type \<in> {R_SALE, R_PURCHASE, R_PURCHASE_ORDER, R_SALES_ORDER})"

definition resolveReferenceDocument :: "string \<Rightarrow> reference_type \<Rightarrow> string \<Rightarrow> fin_db \<Rightarrow> document_row http" where
  "resolveReferenceDocument tenantId type i db =
     (if \<not> isSupportedReferenceType type then
        Inl (BadRequest (''referenceType '' @ reference_name type @ '' no esta soportado todavia por el motor de pagos''))
      else case findReferenceDocument tenantId type i db of
        None \<Rightarrow> Inl (NotFound ''Documento de referencia no encontrado'')
      | Some d \<Rightarrow> if dc_status d = ''CANCELLED''
          then Inl (BadRequest ''No se permiten pagos sobre documentos cancelados'') else Inr d)"

definition computeDueBefore :: "document_row \<Rightarrow> rat \<Rightarrow> rat" where
  "computeDueBefore d already =
     (let rest = to_fixed2 (dbl (cents (dc_total d) - already))
      in case documentBalance d of None \<Rightarrow> max 0 rest | Some b \<Rightarrow> max 0 (min (cents b) rest))"

text \<open>A map of the keys in the order of their first occurrence.\<close>

definition aggregate_step :: "allocation_input list \<Rightarrow> allocation_input \<Rightarrow> allocation_input list" where
  "aggregate_step acc a =
     (if ai_key a \<in> ai_key ` set acc
      then update_first (\<lambda>x. ai_key x = ai_key a) (\<lambda>x. x\<lparr>ai_amount := dbl (ai_amount x + ai_amount a)\<rparr>) acc
      else acc @ [a])"

definition aggregateAllocations :: "allocation_input list \<Rightarrow> allocation_input list" where
  "aggregateAllocations items = foldl aggregate_step [] items"

definition buildRequestedAllocations :: "payment_input \<Rightarrow> rat \<Rightarrow> allocation_input list" where
  "buildRequestedAllocations p dueBefore =
     (if cr_allocations p \<noteq> [] then cr_allocations p
      else let amount = (if cr_allowOverpayment p then min (cr_amount p) dueBefore else cr_amount p)
        in if amount \<le> 0 then [] else [\<lparr>ai_type = cr_type p, ai_id = cr_id p, ai_amount = amount\<rparr>])"

definition in_branch :: "document_row \<Rightarrow> string \<Rightarrow> bool" where
  "in_branch d branchId \<longleftrightarrow> \<not> truthy (dc_branchId d) \<or> dc_branchId d = Some branchId"

text \<open>What is due of each referenced document, by the keys of the aggregated allocations.\<close>

fun resolveReferences :: "string \<Rightarrow> string \<Rightarrow> fin_db \<Rightarrow> allocation_input list \<Rightarrow> (string \<times> rat) list http" where
  "resolveReferences tenantId branchId db [] = Inr []"
| "resolveReferences tenantId branchId db (a # as) =
     and_then (resolveReferenceDocument tenantId (ai_type a) (ai_id a) db) (\<lambda>d.
     and_then (guard (in_branch d branchId)
       (BadRequest ''El documento de referencia no pertenece a la sucursal indicada'')) (\<lambda>_.
     and_then (resolveReferences tenantId branchId db as) (\<lambda>rest.
     Inr ((ai_key a, computeDueBefore d (sumAllocatedForReference tenantId (ai_type a) (ai_id a) db)) # rest))))"

fun checkAllocations :: "(string \<times> rat) list \<Rightarrow> allocation_input list \<Rightarrow> unit http" where
  "checkAllocations refs [] = Inr ()"
| "checkAllocations refs (a # as) =
     (case map_of refs (ai_key a) of
        None \<Rightarrow> Inl (BadRequest ''No se pudo resolver una asignacion de pago'')
      | Some due \<Rightarrow> if due < ai_amount a
          then Inl (BadRequest ''Una asignacion excede el saldo permitido del documento'')
          else checkAllocations refs as)"

definition syncDocument :: "string \<Rightarrow> allocation_input \<Rightarrow> fin_db \<Rightarrow> fin_db" where
  "syncDocument tenantId a db = (case ai_type a of
       R_SALE \<Rightarrow> syncSaleFinancialState (ai_id a) tenantId db
     | R_PURCHASE \<Rightarrow> syncPurchaseFinancialState (ai_id a) tenantId db
     | R_PURCHASE_ORDER \<Rightarrow> syncPurchaseFinancialState (ai_id a) tenantId db
     | R_SALES_ORDER \<Rightarrow> syncOrderFinancialState (ai_id a) tenantId db
     | _ \<Rightarrow> db)"

definition reconcileDocumentBalances :: "string \<Rightarrow> allocation_input list \<Rightarrow> fin_db \<Rightarrow> fin_db" where
  "reconcileDocumentBalances tenantId as db = foldl (\<lambda>s a. syncDocument tenantId a s) db (aggregateAllocations as)"

fun createAllocations :: "fin_env \<Rightarrow> string \<Rightarrow> allocation_input list \<Rightarrow> fin_db \<Rightarrow> (fin_db \<times> allocation_row list) http" where
  "createAllocations env paymentId [] db = Inr (db, [])"
| "createAllocations env paymentId (a # as) db =
     and_then (money_column env (ai_amount a) ''payment_allocations'') (\<lambda>n.
     let row = \<lparr>al_id = fe_uuid env (length (fd_allocations db)), al_paymentId = paymentId,
       al_referenceType = ai_type a, al_referenceId = ai_id a, al_amount = n, al_createdAt = fe_now env\<rparr>
     in and_then (insert_allocation row db) (\<lambda>db1.
     and_then (createAllocations env paymentId as db1) (\<lambda>(db2, rows). Inr (db2, row # rows))))"

subsection \<open>Responses\<close>

definition mapAllocation :: "allocation_row \<Rightarrow> allocation_response" where
  "mapAllocation a = \<lparr>rl_id = al_id a, rl_paymentId = al_paymentId a, rl_type = al_referenceType a,
     rl_referenceId = al_referenceId a, rl_amount = cents (al_amount a)\<rparr>"

definition mapPayment :: "payment_row \<Rightarrow> allocation_row list \<Rightarrow> payment_response" where
  "mapPayment p rows =
     (let mapped = map mapAllocation (filter (\<lambda>a. al_paymentId a = pm_id p) rows);
          amount = foldl (\<lambda>s a. dbl (s + rl_amount a)) 0 mapped
      in \<lparr>rp_id = pm_id p, rp_tenantId = pm_tenantId p, rp_branchId = pm_branchId p, rp_methodId = pm_methodId p,
          rp_cashSessionId = pm_cashSessionId p, rp_type = pm_referenceType p, rp_referenceId = pm_referenceId p,
          rp_in = pm_in p, rp_status = pm_status p, rp_amount = cents (pm_amount p), rp_allocated = amount,
          rp_unallocated = dbl (cents (pm_amount p) - amount), rp_referenceNumber = pm_referenceNumber p,
          rp_notes = pm_notes p, rp_createdBy = pm_createdBy p, rp_createdAt = pm_createdAt p,
          rp_allocations = mapped\<rparr>)"

subsection \<open>One payment\<close>

definition checkDirection :: "payment_input \<Rightarrow> unit http" where
  "checkDirection p =
     (if cr_type p \<in> {R_PURCHASE, R_PURCHASE_ORDER} \<and> cr_in p
        then Inl (BadRequest ''Los pagos de compra deben usar direccion OUT'')
      else guard (cr_type p = R_SALES_ORDER \<longrightarrow> cr_in p) (BadRequest ''Los cobros de pedido deben usar direccion IN''))"

definition resolveMethod :: "string \<Rightarrow> payment_input \<Rightarrow> fin_db \<Rightarrow> method_row http" where
  "resolveMethod tenantId p db =
     (case findMethodById (cr_methodId p) tenantId db of
        None \<Rightarrow> Inl (NotFound ''Metodo de pago no encontrado'')
      | Some m \<Rightarrow>
          if \<not> me_active m then Inl (BadRequest ''Metodo de pago inactivo'')
          else if me_requiresInstitution m \<and> \<not> truthy (cr_institutionId p)
            then Inl (BadRequest ''Entidad financiera requerida para este metodo de pago'')
          else if truthy (cr_institutionId p) \<and> \<not> validInstitution (the (cr_institutionId p)) tenantId db
            then Inl (BadRequest ''Entidad financiera invalida para el tenant'')
          else Inr m)"

definition requestedSession :: "fin_actor \<Rightarrow> string \<Rightarrow> payment_input \<Rightarrow> fin_db \<Rightarrow> string option" where
  "requestedSession actor tenantId p db =
     (case cr_cashSessionId p of
        Some i \<Rightarrow> Some i
      | None \<Rightarrow> map_option cs_id (resolveImplicitCashSession actor tenantId (cr_branchId p) db))"

definition checkSession :: "fin_actor \<Rightarrow> string \<Rightarrow> payment_input \<Rightarrow> method_row \<Rightarrow> fin_db \<Rightarrow> session_row option http" where
  "checkSession actor tenantId p m db =
     (let requested = requestedSession actor tenantId p db
      in if me_tipo m = ''CASH'' \<and> \<not> truthy requested
           then Inl (BadRequest ''cashSessionId es requerido para pagos en efectivo'')
         else if \<not> truthy requested then Inr None
         else case findSessionById (the requested) tenantId db of
           None \<Rightarrow> Inl (NotFound ''Sesion de caja no encontrada'')
         | Some s \<Rightarrow>
             if cs_status s \<noteq> ''OPEN'' then Inl (BadRequest ''La sesion de caja no esta abierta'')
             else if cs_branchId s \<noteq> cr_branchId p
               then Inl (BadRequest ''La sesion de caja no pertenece a la sucursal'')
             else if \<not> canAdminPayments actor \<and> cs_openedBy s \<noteq> fa_userId actor \<and>
                 \<not> hasActiveAssignment (cs_registerId s) (fa_userId actor) db
               then Inl (Forbidden ''Solo puedes registrar pagos sobre tu caja'')
             else Inr (Some s))"

text \<open>The allocations of the payment, when every check of their amounts passes.\<close>

definition checkAmounts :: "payment_input \<Rightarrow> allocation_input list \<Rightarrow> unit http" where
  "checkAmounts p as =
     (let amount = foldl (\<lambda>s a. dbl (s + ai_amount a)) 0 as
      in if cr_amount p < amount then Inl (BadRequest ''El total asignado no puede superar el monto del pago'')
         else guard (\<not> 0 < to_fixed2 (dbl (cr_amount p - amount)) \<or> cr_allowOverpayment p)
           (BadRequest ''El pago supera el monto asignado. Usa allowOverpayment para permitir sobrantes controlados''))"

definition resolveAllocations :: "string \<Rightarrow> payment_input \<Rightarrow> fin_db \<Rightarrow> allocation_input list http" where
  "resolveAllocations tenantId p db =
     and_then (resolveReferenceDocument tenantId (cr_type p) (cr_id p) db) (\<lambda>d.
     and_then (guard (in_branch d (cr_branchId p))
       (BadRequest ''El documento principal no pertenece a la sucursal indicada'')) (\<lambda>_.
     let due = computeDueBefore d (sumAllocatedForReference tenantId (cr_type p) (cr_id p) db);
         as = buildRequestedAllocations p due
     in and_then (checkAmounts p as) (\<lambda>_.
        and_then (resolveReferences tenantId (cr_branchId p) db (aggregateAllocations as)) (\<lambda>refs.
        and_then (checkAllocations refs (aggregateAllocations as)) (\<lambda>_. Inr as)))))"

definition new_payment :: "fin_env \<Rightarrow> fin_actor \<Rightarrow> string \<Rightarrow> payment_input \<Rightarrow> string option \<Rightarrow> int \<Rightarrow> fin_db \<Rightarrow> payment_row" where
  "new_payment env actor tenantId p sessionId n db =
     \<lparr>pm_id = fe_uuid env (length (fd_payments db)), pm_tenantId = tenantId, pm_branchId = cr_branchId p,
      pm_methodId = cr_methodId p, pm_cashSessionId = sessionId, pm_institutionId = cr_institutionId p,
      pm_referenceType = cr_type p, pm_referenceId = cr_id p, pm_in = cr_in p,
      pm_status = coalesce (cr_status p) PAY_COMPLETED, pm_amount = n,
      pm_referenceNumber = trimmed (cr_referenceNumber p), pm_notes = trimmed (cr_notes p),
      pm_paidByPersonId = cr_personId p, pm_createdBy = fa_userId actor, pm_createdAt = fe_now env\<rparr>"

definition payment_movement :: "fin_env \<Rightarrow> payment_row \<Rightarrow> session_row \<Rightarrow> fin_db \<Rightarrow> cash_movement_row" where
  "payment_movement env p s db =
     \<lparr>cv_id = fe_uuid env (length (fd_movements db)), cv_tenantId = pm_tenantId p, cv_branchId = pm_branchId p,
      cv_cashSessionId = cs_id s, cv_paymentId = Some (pm_id p), cv_type = ''PAYMENT'', cv_in = pm_in p,
      cv_referenceType = Some (reference_name (pm_referenceType p)), cv_referenceId = Some (pm_referenceId p), cv_amount = pm_amount p,
      cv_description = Some (coalesce (pm_notes p) (''Pago '' @ js_lower (reference_name (pm_referenceType p)))),
      cv_createdBy = pm_createdBy p\<rparr>"

definition recordMovement :: "fin_env \<Rightarrow> payment_row \<Rightarrow> session_row option \<Rightarrow> fin_db \<Rightarrow> fin_db http" where
  "recordMovement env p s db = (case s of
       None \<Rightarrow> Inr db
     | Some s \<Rightarrow> if pm_status p = PAY_COMPLETED then insert_cash_movement (payment_movement env p s db) db else Inr db)"

text \<open>What is written once the checks have passed.\<close>

definition writePayment :: "fin_env \<Rightarrow> fin_actor \<Rightarrow> string \<Rightarrow> payment_input \<Rightarrow> session_row option \<Rightarrow>
    allocation_input list \<Rightarrow> fin_db \<Rightarrow> (fin_db \<times> payment_response) http" where
  "writePayment env actor tenantId p s as db =
     and_then (money_column env (cr_amount p) ''payments'') (\<lambda>n.
     let row = new_payment env actor tenantId p (map_option cs_id s) n db
     in and_then (insert_payment row db) (\<lambda>db1.
        and_then (createAllocations env (pm_id row) as db1) (\<lambda>(db2, rows).
        and_then (recordMovement env row s db2) (\<lambda>db3.
        Inr (reconcileDocumentBalances tenantId as db3, mapPayment row rows)))))"

definition checkPerson :: "string \<Rightarrow> payment_input \<Rightarrow> fin_db \<Rightarrow> unit http" where
  "checkPerson tenantId p db =
     guard (truthy (cr_personId p) \<longrightarrow> findPersonById (the (cr_personId p)) tenantId db) (BadRequest ''Persona pagadora invalida'')"

definition createInternal :: "fin_env \<Rightarrow> fin_actor \<Rightarrow> payment_input \<Rightarrow> fin_db \<Rightarrow> (fin_db \<times> payment_response) http" where
  "createInternal env actor p db =
     and_then (resolveTenantId actor (cr_tenantId p)) (\<lambda>tenantId.
     and_then (checkDirection p) (\<lambda>_.
     and_then (assertActiveUser actor tenantId db) (\<lambda>_.
     and_then (assertBranchScope actor tenantId (cr_branchId p) db) (\<lambda>_.
     and_then (resolveMethod tenantId p db) (\<lambda>m.
     and_then (checkSession actor tenantId p m db) (\<lambda>s.
     and_then (checkPerson tenantId p db) (\<lambda>_.
     and_then (resolveAllocations tenantId p db) (\<lambda>as.
     writePayment env actor tenantId p s as db))))))))"

definition create :: "fin_env \<Rightarrow> (string \<Rightarrow> bool) \<Rightarrow> fin_actor \<Rightarrow> payment_input \<Rightarrow> fin_db \<Rightarrow> (fin_db \<times> payment_response) http" where
  "create env is_uuid actor p db =
     (if \<not> validPayment is_uuid p then Inl (BadRequest ''Bad Request Exception'')
      else if \<not> canOperatePayments actor then Inl (Forbidden ''No autorizado'')
      else createInternal env actor p db)"

end
