(* ===== verification/Document_Payments.thy ===== *)
theory Document_Payments
  imports Payment_Service
begin

section \<open>The payment of a document in several lines\<close>

text \<open>
  \<open>createDocument\<close> of finance/payments/payments.service.ts: the fingerprint of a request, the claim
  of an operation key in document\_payment\_operations, the exact comparison with the balance that
  the database makes (\<open>fitsDocumentBalance\<close>), and the replay of a completed operation.
\<close>

record payment_line =
  ln_methodId :: string
  ln_amount :: rat
  ln_referenceNumber :: "string option"
  ln_notes :: "string option"

record document_payment_input =
  dp_operationKey :: "string option"
  dp_tenantId :: "string option"
  dp_branchId :: string
  dp_cashSessionId :: string
  dp_type :: reference_type
  dp_id :: string
  dp_payments :: "payment_line list"

text \<open>\<open>amount.toFixed(2)\<close> of a nonnegative number below \<open>10 ^ 21\<close>.\<close>

definition fixed2_text :: "rat \<Rightarrow> string" where
  "fixed2_text x = (let n = nat (js_round (x * 100)) in
     decimal (n div 100) @ ''.'' @ decimal (n div 10 mod 10) @ decimal (n mod 10))"

definition json_text :: "string option \<Rightarrow> json" where
  "json_text s = (case s of None \<Rightarrow> JNull | Some t \<Rightarrow> JStr t)"

definition fingerprint_line :: "payment_line \<Rightarrow> json" where
  "fingerprint_line l = JObj [(''paymentMethodId'', JStr (ln_methodId l)), (''amount'', JStr (fixed2_text (ln_amount l))),
     (''referenceNumber'', json_text (trimmed (ln_referenceNumber l))), (''notes'', json_text (trimmed (ln_notes l)))]"

text \<open>The lines are sorted by the code units of their texts.\<close>

definition buildDocumentPaymentFingerprint :: "text_host \<Rightarrow> document_payment_input \<Rightarrow> string" where
  "buildDocumentPaymentFingerprint h p = sha256_hex h (stringify h (JObj
     [(''branchId'', JStr (dp_branchId p)), (''cashSessionId'', JStr (dp_cashSessionId p)),
      (''referenceType'', JStr (reference_name (dp_type p))), (''referenceId'', JStr (dp_id p)),
      (''payments'', JArr (sort_key (\<lambda>v. code_units (stringify h v)) (map fingerprint_line (dp_payments p))))]))"

text \<open>
  The decorators of the DTO, and the service's own test of the amounts. The decorators of the
  amounts (at most two decimals in the number's text, from 0.01 to 999999999999.99) accept what
  the service's test accepts and are not repeated.
\<close>

definition validLine :: "(string \<Rightarrow> bool) \<Rightarrow> payment_line \<Rightarrow> bool" where
  "validLine is_uuid l \<longleftrightarrow> is_uuid (ln_methodId l) \<and> at_most 120 (ln_referenceNumber l) \<and> at_most 1000 (ln_notes l)"

definition validDocumentPayment :: "(string \<Rightarrow> bool) \<Rightarrow> document_payment_input \<Rightarrow> bool" where
  "validDocumentPayment is_uuid p \<longleftrightarrow> opt_uuid is_uuid (dp_operationKey p) \<and> is_uuid (dp_branchId p) \<and>
     is_uuid (dp_cashSessionId p) \<and> dp_type p \<in> {R_PURCHASE, R_SALES_ORDER} \<and> is_uuid (dp_id p) \<and>
     list_all (validLine is_uuid) (dp_payments p)"

definition line_amount_ok :: "payment_line \<Rightarrow> bool" where
  "line_amount_ok l \<longleftrightarrow> 0 < ln_amount l \<and> ln_amount l \<le> cents 99999999999999 \<and> to_fixed2 (ln_amount l) = ln_amount l"

definition checkLines :: "document_payment_input \<Rightarrow> unit http" where
  "checkLines p = guard (dp_payments p \<noteq> [] \<and> length (dp_payments p) \<le> 50 \<and> list_all line_amount_ok (dp_payments p))
     (BadRequest ''Los pagos deben tener montos positivos con maximo dos decimales'')"

subsection \<open>The operation\<close>

definition is_operation :: "string \<Rightarrow> string \<Rightarrow> operation_row \<Rightarrow> bool" where
  "is_operation tenantId key r \<longleftrightarrow> op_tenantId r = tenantId \<and> op_key r = key"

definition getDocumentPaymentOperation :: "string \<Rightarrow> string \<Rightarrow> fin_db \<Rightarrow> operation_row option" where
  "getDocumentPaymentOperation tenantId key db = find (is_operation tenantId key) (fd_operations db)"

definition claimDocumentPaymentOperation :: "operation_row \<Rightarrow> fin_db \<Rightarrow> fin_db \<times> bool \<times> operation_row option" where
  "claimDocumentPaymentOperation r db =
     (let created = (\<not> (\<exists>o' \<in> set (fd_operations db). is_operation (op_tenantId r) (op_key r) o'));
          db1 = (if created then db\<lparr>fd_operations := fd_operations db @ [r]\<rparr> else db)
      in (db1, created, getDocumentPaymentOperation (op_tenantId r) (op_key r) db1))"

definition completeDocumentPaymentOperation :: "string \<Rightarrow> string \<Rightarrow> string list \<Rightarrow> fin_db \<Rightarrow> fin_db" where
  "completeDocumentPaymentOperation tenantId key ids db =
     db\<lparr>fd_operations := update_where (is_operation tenantId key)
       (\<lambda>r. r\<lparr>op_completed := True, op_paymentIds := Some ids\<rparr>) (fd_operations db)\<rparr>"

definition listByIds :: "string list \<Rightarrow> string \<Rightarrow> fin_db \<Rightarrow> payment_row list" where
  "listByIds ids tenantId db =
     sort_key pm_createdAt (sort_key (\<lambda>p. code_units (pm_id p)) (filter (\<lambda>p. pm_id p \<in> set ids \<and> pm_tenantId p = tenantId \<and>
       findMethodById (pm_methodId p) (pm_tenantId p) db \<noteq> None) (fd_payments db)))"

definition listAllocationsByPaymentIds :: "string list \<Rightarrow> fin_db \<Rightarrow> allocation_row list" where
  "listAllocationsByPaymentIds ids db =
     sort_key al_createdAt (filter (\<lambda>a. al_paymentId a \<in> set ids) (fd_allocations db))"

text \<open>
  The database adds the decimal texts of the amounts exactly; the text of a number that passed
  the test of the amounts is its cents.
\<close>

definition line_cents :: "payment_line \<Rightarrow> int" where
  "line_cents l = js_round (ln_amount l * 100)"

definition fitsDocumentBalance :: "string \<Rightarrow> reference_type \<Rightarrow> string \<Rightarrow> document_row \<Rightarrow> payment_line list \<Rightarrow> fin_db \<Rightarrow> bool" where
  "fitsDocumentBalance tenantId type i d ls db \<longleftrightarrow>
     0 < sum_list (map line_cents ls) \<and>
     sum_list (map line_cents ls) \<le> max 0 (min (coalesce (documentBalance d) (dc_total d))
       (dc_total d - allocated tenantId (if type = R_PURCHASE then {R_PURCHASE, R_PURCHASE_ORDER} else {type}) i db))"

definition checkLineMethod :: "string \<Rightarrow> payment_line \<Rightarrow> fin_db \<Rightarrow> unit http" where
  "checkLineMethod tenantId l db = (case findMethodById (ln_methodId l) tenantId db of
       None \<Rightarrow> Inl (BadRequest ''Metodo de pago invalido o inactivo'')
     | Some m \<Rightarrow> if \<not> me_active m then Inl (BadRequest ''Metodo de pago invalido o inactivo'')
         else guard (me_requiresReference m \<longrightarrow> trimmed (ln_referenceNumber l) \<noteq> None)
           (BadRequest ''El metodo de pago requiere referencia''))"

definition line_payment :: "string \<Rightarrow> document_payment_input \<Rightarrow> payment_line \<Rightarrow> payment_input" where
  "line_payment tenantId p l =
     \<lparr>cr_tenantId = Some tenantId, cr_branchId = dp_branchId p, cr_methodId = ln_methodId l,
      cr_cashSessionId = Some (dp_cashSessionId p), cr_institutionId = None, cr_type = dp_type p, cr_id = dp_id p,
      cr_in = (dp_type p \<noteq> R_PURCHASE), cr_status = Some PAY_COMPLETED, cr_amount = ln_amount l,
      cr_referenceNumber = ln_referenceNumber l, cr_notes = ln_notes l, cr_personId = None, cr_allowOverpayment = False,
      cr_allocations = [\<lparr>ai_type = dp_type p, ai_id = dp_id p, ai_amount = ln_amount l\<rparr>]\<rparr>"

fun payLines :: "fin_env \<Rightarrow> fin_actor \<Rightarrow> string \<Rightarrow> document_payment_input \<Rightarrow> payment_line list \<Rightarrow> fin_db \<Rightarrow>
    (fin_db \<times> payment_response list) http" where
  "payLines env actor tenantId p [] db = Inr (db, [])"
| "payLines env actor tenantId p (l # ls) db =
     and_then (checkLineMethod tenantId l db) (\<lambda>_.
     and_then (createInternal env actor (line_payment tenantId p l) db) (\<lambda>(db1, r).
     and_then (payLines env actor tenantId p ls db1) (\<lambda>(db2, rs). Inr (db2, r # rs))))"

definition replayOperation :: "string \<Rightarrow> operation_row \<Rightarrow> fin_db \<Rightarrow> payment_response list http" where
  "replayOperation tenantId r db =
     (case op_paymentIds r of
        Some (i # is) \<Rightarrow> if op_completed r
          then Inr (map (\<lambda>q. mapPayment q (listAllocationsByPaymentIds (i # is) db)) (listByIds (i # is) tenantId db))
          else Inl (Conflict ''La operacion de pago esta incompleta y requiere revision'')
      | _ \<Rightarrow> Inl (Conflict ''La operacion de pago esta incompleta y requiere revision''))"

definition performOperation :: "fin_env \<Rightarrow> fin_actor \<Rightarrow> string \<Rightarrow> string \<Rightarrow> document_payment_input \<Rightarrow> fin_db \<Rightarrow>
    (fin_db \<times> payment_response list) http" where
  "performOperation env actor tenantId key p db =
     and_then (resolveReferenceDocument tenantId (dp_type p) (dp_id p) db) (\<lambda>d.
     and_then (guard (truthy (dc_partyId d)) (BadRequest ''El documento no tiene tercero asociado'')) (\<lambda>_.
     and_then (guard (fitsDocumentBalance tenantId (dp_type p) (dp_id p) d (dp_payments p) db)
       (BadRequest ''El pago excede el saldo actual del documento. Actualiza el documento.'')) (\<lambda>_.
     and_then (guard (dp_cashSessionId p \<noteq> []) (BadRequest ''Debes tener una caja abierta para registrar pagos'')) (\<lambda>_.
     and_then (payLines env actor tenantId p (dp_payments p) db) (\<lambda>(db1, rs).
     Inr (completeDocumentPaymentOperation tenantId key (map rp_id rs) db1, rs))))))"

text \<open>A request without a key takes a fresh one, \<open>fresh\<close>.\<close>

definition createDocument :: "fin_env \<Rightarrow> (string \<Rightarrow> bool) \<Rightarrow> string \<Rightarrow> fin_actor \<Rightarrow> document_payment_input \<Rightarrow> fin_db \<Rightarrow>
    (fin_db \<times> payment_response list) http" where
  "createDocument env is_uuid fresh actor p db =
     (if \<not> validDocumentPayment is_uuid p then Inl (BadRequest ''Bad Request Exception'')
      else if \<not> canOperatePayments actor then Inl (Forbidden ''No autorizado'')
      else and_then (checkLines p) (\<lambda>_.
        and_then (resolveTenantId actor (dp_tenantId p)) (\<lambda>tenantId.
        let key = coalesce (dp_operationKey p) fresh;
            print = buildDocumentPaymentFingerprint (fe_host env) p;
            (db1, created, found) = claimDocumentPaymentOperation \<lparr>op_tenantId = tenantId, op_key = key,
              op_fingerprint = print, op_referenceType = dp_type p, op_referenceId = dp_id p, op_paymentIds = None,
              op_completed = False\<rparr> db
        in case found of
             None \<Rightarrow> Inl (BadRequest ''No se pudo registrar la operacion de pago'')
           | Some r \<Rightarrow>
               if op_fingerprint r \<noteq> print then Inl (Conflict ''La clave de operacion ya fue usada con otros datos'')
               else if \<not> created then and_then (replayOperation tenantId r db1) (\<lambda>rs. Inr (db1, rs))
               else performOperation env actor tenantId key p db1)))"

subsection \<open>Reading\<close>

definition getById :: "fin_actor \<Rightarrow> string \<Rightarrow> fin_db \<Rightarrow> payment_response http" where
  "getById actor paymentId db =
     (if \<not> canOperatePayments actor then Inl (Forbidden ''No autorizado'')
      else case find (\<lambda>p. pm_id p = paymentId \<and> findMethodById (pm_methodId p) (pm_tenantId p) db \<noteq> None) (fd_payments db) of
        None \<Rightarrow> Inl (NotFound ''Pago no encontrado'')
      | Some p \<Rightarrow>
          and_then (resolveTenantId actor (Some (pm_tenantId p))) (\<lambda>tenantId.
          and_then (guard (pm_tenantId p = tenantId) (Forbidden ''No autorizado'')) (\<lambda>_.
          and_then (assertBranchScope actor tenantId (pm_branchId p) db) (\<lambda>_.
          and_then (guard (canAdminPayments actor \<or> pm_createdBy p = fa_userId actor)
            (Forbidden ''Solo puedes ver tus propios pagos'')) (\<lambda>_.
          Inr (mapPayment p (listAllocationsByPaymentIds [pm_id p] db)))))))"

end
