(* ===== verification/Payment_Money.thy ===== *)
theory Payment_Money
  imports Document_Payments
begin

section \<open>The amounts of payments\<close>

text \<open>
  The arithmetic behind the checks of payments.service.ts. The service adds up to fifty amounts
  with JavaScript numbers and compares the sum with a balance; the database stores cents. For
  amounts up to \<open>2 ^ 44\<close> cents the comparison of the sums decides the comparison of the cents
  (\<open>sum_below\<close>), because each amount is within 1/512 of its cents (\<open>near\<close>) and each addition loses
  at most \<open>2 powi - 16\<close>.
\<close>

text \<open>The hypothesis on the database: a numeric(14, 2) column stores a nearest number of cents.\<close>

definition numeric_14_2 :: "(rat \<Rightarrow> int option) \<Rightarrow> bool" where
  "numeric_14_2 col \<longleftrightarrow> (\<forall>x m. col x = Some m \<longrightarrow> \<bar>x - of_int m / 100\<bar> < 1 / 150)"

definition round_14_2 :: "rat \<Rightarrow> int option" where
  "round_14_2 x = (let m = js_round (x * 100) in if \<bar>m\<bar> < 10 ^ 14 then Some m else None)"

lemma numeric_round_14_2: "numeric_14_2 round_14_2"
proof -
  have "\<bar>x - of_int (js_round (x * 100)) / 100\<bar> < 1 / 150" for x :: rat
  proof -
    have "of_int (js_round (x * 100)) \<le> x * 100 + 1 / 2" "x * 100 + 1 / 2 < of_int (js_round (x * 100)) + 1"
      unfolding js_round_def by linarith+
    then show ?thesis by linarith
  qed
  then show ?thesis by (simp add: numeric_14_2_def round_14_2_def Let_def)
qed

definition near :: "rat \<Rightarrow> int \<Rightarrow> bool" where
  "near v n \<longleftrightarrow> 0 < v \<and> dbl v = v \<and> \<bar>v * 100 - of_int n\<bar> \<le> 1 / 512"

definition money_limit :: int where
  "money_limit = 2 ^ 44"

lemma nearD:
  assumes "near v n" shows "0 < v" "v * 100 \<le> of_int n + 1 / 512" "of_int n \<le> v * 100 + 1 / 512"
proof -
  have "0 < v" "\<bar>v * 100 - of_int n\<bar> \<le> 1 / 512" using assms unfolding near_def by blast+
  then show "0 < v" "v * 100 \<le> of_int n + 1 / 512" "of_int n \<le> v * 100 + 1 / 512" by linarith+
qed

lemma nearI: "0 < v \<Longrightarrow> dbl v = v \<Longrightarrow> \<bar>v * 100 - of_int n\<bar> \<le> 1 / 512 \<Longrightarrow> near v n"
  unfolding near_def by blast

lemma near_pos: "near v n \<Longrightarrow> 0 \<le> n"
proof -
  assume "near v n"
  then have "- 1 < (of_int n :: rat)" using nearD [of v n] by linarith
  then show "0 \<le> n" by linarith
qed

lemma near_unique: "near v m \<Longrightarrow> near v n \<Longrightarrow> m = n"
proof -
  assume "near v m" "near v n"
  then have "\<bar>of_int m - of_int n :: rat\<bar> < 1" using nearD [of v m] nearD [of v n] by linarith
  then have "\<bar>of_int (m - n) :: rat\<bar> < 1" by simp
  then show "m = n" by linarith
qed

lemma near_stored: "near v n \<Longrightarrow> numeric_14_2 col \<Longrightarrow> col v = Some m \<Longrightarrow> m = n"
proof -
  assume "near v n" "numeric_14_2 col" "col v = Some m"
  then have "\<bar>v - of_int m / 100\<bar> < 1 / 150" "\<bar>v * 100 - of_int n\<bar> \<le> 1 / 512"
    unfolding near_def numeric_14_2_def by blast+
  then have "\<bar>of_int m - of_int n :: rat\<bar> < 1" by linarith
  then have "\<bar>of_int (m - n) :: rat\<bar> < 1" by simp
  then show "m = n" by linarith
qed

lemma cents_close:
  assumes "\<bar>n\<bar> \<le> money_limit" shows "\<bar>cents n - of_int n / 100\<bar> \<le> 1 / 65536"
proof -
  have "(of_int \<bar>n\<bar> :: rat) \<le> of_int (2 ^ 44)" using assms by (simp only: of_int_le_iff money_limit_def)
  then have "\<bar>of_int n / 100 :: rat\<bar> < 2 powi 38" by (simp add: power_int_def)
  then have "\<bar>cents n - of_int n / 100\<bar> \<le> 2 powi (38 - 54)" unfolding cents_def by (intro dbl_error) auto
  then show ?thesis by (simp add: power_int_def field_simps)
qed

lemma near_cents: "0 < n \<Longrightarrow> n \<le> money_limit \<Longrightarrow> near (cents n) n"
proof -
  assume n: "0 < n" "n \<le> money_limit"
  then have c: "\<bar>cents n - of_int n / 100\<bar> \<le> 1 / 65536" by (intro cents_close) simp
  have "(1::rat) \<le> of_int n" using n by simp
  with c have "0 < cents n" by linarith
  moreover have "\<bar>cents n * 100 - of_int n\<bar> \<le> 1 / 512" using c by linarith
  ultimately show ?thesis using dbl_cents by (intro nearI)
qed

lemma cents_lim: "m \<le> money_limit \<Longrightarrow> cents m < 2 powi 38"
proof -
  assume "m \<le> money_limit"
  then have "cents m \<le> cents money_limit" by (rule cents_mono)
  also have "cents money_limit \<le> of_int money_limit / 100 + 1 / 65536"
  proof -
    have "\<bar>cents money_limit - of_int money_limit / 100\<bar> \<le> 1 / 65536" by (rule cents_close) (simp add: money_limit_def)
    then show ?thesis by linarith
  qed
  also have "\<dots> < 2 powi 38" by (simp add: money_limit_def power_int_def)
  finally show ?thesis .
qed

lemma near_monetary:
  assumes "isMonetaryAmount v" "dbl v = v" "v \<le> cents money_limit" obtains n where "near v n"
proof -
  have v: "0 < v" "of_int \<lfloor>dbl (v * 100)\<rfloor> = dbl (v * 100)" using assms(1) by (auto simp: isMonetaryAmount_def)
  have "v < 2 powi 38" using assms(3) cents_lim [of money_limit] by simp
  then have "\<bar>v * 100\<bar> < 2 powi 45" using v(1) by (simp add: power_int_def)
  then have "\<bar>dbl (v * 100) - v * 100\<bar> \<le> 2 powi (45 - 54)" by (intro dbl_error) auto
  moreover have "(2::rat) powi (45 - 54) = 1 / 512" by (simp add: power_int_def field_simps)
  ultimately have "\<bar>v * 100 - of_int \<lfloor>dbl (v * 100)\<rfloor>\<bar> \<le> 1 / 512" by (simp only: v(2) abs_minus_commute)
  with v(1) assms(2) that show thesis by (blast intro: nearI)
qed

lemma near_fixed:
  assumes "to_fixed2 v = v" "0 < v" "v \<le> cents money_limit" shows "near v (js_round (v * 100))" "v = cents (js_round (v * 100))"
proof -
  have lim: "v < 2 powi 38" using assms(3) cents_lim [of money_limit] by simp
  then have "v < 10 ^ 21" by (simp add: power_int_def)
  then have v: "v = cents (js_round (v * 100))" using assms by (simp add: to_fixed2_def)
  have "js_round (v * 100) \<le> money_limit"
  proof (rule ccontr)
    assume "\<not> js_round (v * 100) \<le> money_limit"
    then have "cents (money_limit + 1) \<le> v" by (subst v) (simp add: cents_mono)
    moreover have "cents money_limit < cents (money_limit + 1)" by (rule cents_strict_mono) (simp_all add: money_limit_def)
    ultimately show False using assms(3) by simp
  qed
  moreover have "0 < js_round (v * 100)"
    using assms(2) v cents_mono [of "js_round (v * 100)" 0] by force
  ultimately show "near v (js_round (v * 100))" by (subst (1) v) (rule near_cents)
  show "v = cents (js_round (v * 100))" by (rule v)
qed

subsection \<open>Sums of numbers\<close>

abbreviation add_up :: "rat \<Rightarrow> rat list \<Rightarrow> rat" where
  "add_up s vs \<equiv> foldl (\<lambda>s v. dbl (s + v)) s vs"

lemma add_up_ge: "0 \<le> s \<Longrightarrow> dbl s = s \<Longrightarrow> \<forall>v\<in>set vs. 0 \<le> v \<Longrightarrow> s \<le> add_up s vs"
proof (induction vs arbitrary: s)
  case (Cons v vs)
  have "dbl s \<le> dbl (s + v)" using Cons.prems by (intro dbl_mono) simp
  then have "s \<le> dbl (s + v)" using Cons.prems(2) by simp
  also have "\<dots> \<le> add_up (dbl (s + v)) vs" using Cons by (intro Cons.IH) (auto intro: dbl_nonneg)
  finally show ?case by simp
qed simp

lemma add_up_error:
  assumes "0 \<le> s" "dbl s = s" "\<forall>v\<in>set vs. 0 \<le> v" "add_up s vs < 2 powi 38"
  shows "\<bar>add_up s vs - (s + sum_list vs)\<bar> \<le> of_nat (length vs) / 65536"
  using assms
proof (induction vs arbitrary: s)
  case (Cons v vs)
  let ?t = "dbl (s + v)"
  have t: "0 \<le> ?t" using Cons.prems by (intro dbl_nonneg) simp
  then have "?t \<le> add_up ?t vs" using Cons.prems by (intro add_up_ge) auto
  then have "?t < 2 powi 38" using Cons.prems(4) by simp
  then have "s + v < 2 powi 38" using powi_le_dbl [of 38 "s + v"] by (cases "s + v < 2 powi 38") auto
  moreover have "0 \<le> s + v" using Cons.prems by simp
  ultimately have "\<bar>?t - (s + v)\<bar> \<le> 2 powi (38 - 54)" by (intro dbl_error) auto
  then have e: "\<bar>?t - (s + v)\<bar> \<le> 1 / 65536" by (simp add: power_int_def field_simps)
  have "\<bar>add_up ?t vs - (?t + sum_list vs)\<bar> \<le> of_nat (length vs) / 65536"
    using Cons.prems t by (intro Cons.IH) auto
  with e have "\<bar>add_up ?t vs - (s + v + sum_list vs)\<bar> \<le> of_nat (length vs) / 65536 + 1 / 65536" by linarith
  then show ?case by (simp add: add_divide_distrib algebra_simps)
qed simp

lemma near_sums: "list_all2 near vs ns \<Longrightarrow> \<bar>sum_list vs * 100 - of_int (sum_list ns)\<bar> \<le> of_nat (length vs) / 512"
proof (induction rule: list_all2_induct)
  case (Cons v vs n ns)
  have arith: "\<bar>x + y - (m + l)\<bar> \<le> (k + 1) / 512" if "\<bar>x - m\<bar> \<le> 1 / 512" "\<bar>y - l\<bar> \<le> k / 512" for x y m l k :: rat
    using that unfolding add_divide_distrib by linarith
  have "\<bar>v * 100 - of_int n\<bar> \<le> 1 / 512" using nearD [OF Cons(1)] by linarith
  from arith [OF this Cons(3)]
  have "\<bar>(v + sum_list vs) * 100 - (of_int n + of_int (sum_list ns))\<bar> \<le> (of_nat (length vs) + 1) / 512"
    unfolding distrib_right .
  then show ?case by (simp only: list.size sum_list.Cons of_int_add of_nat_add One_nat_def [symmetric] of_nat_1 plus_nat.add_0 add_Suc_right add_0_right of_nat_Suc add.commute)
qed simp

lemma near_nonneg: "list_all2 near vs ns \<Longrightarrow> \<forall>v\<in>set vs. 0 \<le> v"
  by (auto simp: list_all2_conv_all_nth in_set_conv_nth near_def less_imp_le)

text \<open>At most fifty amounts: their number sum against the sum of their cents.\<close>

lemma add_up_cents:
  assumes ns: "list_all2 near vs ns" "length vs \<le> 50" and s: "add_up 0 vs < 2 powi 38"
  shows "\<bar>add_up 0 vs * 100 - of_int (sum_list ns)\<bar> \<le> 1 / 5"
proof -
  have "\<bar>add_up 0 vs - (0 + sum_list vs)\<bar> \<le> of_nat (length vs) / 65536"
    using near_nonneg [OF ns(1)] s by (intro add_up_error) auto
  moreover have "(of_nat (length vs) :: rat) \<le> 50" using ns(2) by simp
  ultimately show ?thesis using near_sums [OF ns(1)] by linarith
qed

lemma sum_below:
  assumes ns: "list_all2 near vs ns" "length vs \<le> 50" and m: "add_up 0 vs \<le> cents m" "\<bar>m\<bar> \<le> money_limit"
  shows "sum_list ns \<le> m"
proof -
  have "add_up 0 vs < 2 powi 38" using m(1) cents_lim [of m] abs_le_D1 [OF m(2)] by (meson order_le_less_trans)
  note e = add_up_cents [OF ns this]
  have "of_int (sum_list ns) < (of_int (m + 1) :: rat)" using e m(1) cents_close [OF m(2)] unfolding of_int_add of_int_1 by linarith
  then show ?thesis by (simp only: of_int_less_iff)
qed

lemma sum_within:
  assumes ns: "list_all2 near vs ns" "length vs \<le> 50" and a: "near a n" "a \<le> cents money_limit" "add_up 0 vs \<le> a"
  shows "sum_list ns \<le> n"
proof -
  have s: "add_up 0 vs < 2 powi 38" using a cents_lim [of money_limit] by simp
  have "of_int (sum_list ns) < (of_int (n + 1) :: rat)" using add_up_cents [OF ns s] nearD [OF a(1)] a(3) unfolding of_int_add of_int_1 by linarith
  then show ?thesis by (simp only: of_int_less_iff)
qed

lemma sum_complete:
  assumes ns: "list_all2 near vs ns" "length vs \<le> 50" and a: "near a n" "a \<le> cents money_limit" "add_up 0 vs \<le> a"
    and rest: "\<not> 0 < to_fixed2 (dbl (a - add_up 0 vs))"
  shows "sum_list ns = n"
proof -
  let ?r = "dbl (a - add_up 0 vs)"
  have s: "add_up 0 vs < 2 powi 38" using a cents_lim [of money_limit] by simp
  have p: "0 \<le> add_up 0 vs" using near_nonneg [OF ns(1)] by (intro add_up_ge) auto
  have d: "0 \<le> a - add_up 0 vs" "a - add_up 0 vs < 2 powi 38" using a p cents_lim [of money_limit] by auto
  then have "\<bar>?r - (a - add_up 0 vs)\<bar> \<le> 2 powi (38 - 54)" by (intro dbl_error) auto
  moreover have "(2::rat) powi (38 - 54) = 1 / 65536" by (simp add: power_int_def field_simps)
  ultimately have e: "\<bar>?r - (a - add_up 0 vs)\<bar> \<le> 1 / 65536" by (simp only:)
  have r: "0 \<le> ?r" "?r < 10 ^ 21" proof -
    show "0 \<le> ?r" by (rule dbl_nonneg [OF d(1)])
    have "?r \<le> 274877906944 + 1 / 65536" 
    proof -
      have "(2::rat) powi 38 = 274877906944" by (simp add: power_int_def)
      then show ?thesis using d(2) e by linarith
    qed
    then show "?r < 10 ^ 21" by simp
  qed
  have "js_round (?r * 100) \<le> 0"
  proof (rule ccontr)
    assume "\<not> js_round (?r * 100) \<le> 0"
    then have "0 < cents (js_round (?r * 100))" using cents_strict_mono [of 0 1] cents_mono [of 1 "js_round (?r * 100)"] by simp
    with rest r show False by (simp add: to_fixed2_cents)
  qed
  then have "?r * 100 < 1 / 2" unfolding js_round_def by linarith
  with e have "a * 100 < add_up 0 vs * 100 + 1 / 2 + 1 / 512" by linarith
  with add_up_cents [OF ns s] nearD [OF a(1)] have "of_int n < (of_int (sum_list ns + 1) :: rat)"
    unfolding of_int_add of_int_1 by linarith
  then have "n \<le> sum_list ns" by (simp only: of_int_less_iff)
  moreover have "sum_list ns \<le> n" using ns a by (rule sum_within)
  ultimately show ?thesis by simp
qed

end
