(* ===== verification/Payment_Ledger.thy ===== *)
theory Payment_Ledger
  imports Payment_Money
begin

section \<open>What a payment does to the ledger\<close>

text \<open>
  Lemmas on the operations of Payment\_Service: the aggregation of the requested allocations, the
  checks against the balances, the rows a payment adds, and the documents it settles.
\<close>

subsection \<open>Keys and aggregation\<close>

lemma buildReferenceKey_inj [simp]: "buildReferenceKey s i = buildReferenceKey t j \<longleftrightarrow> s = t \<and> i = j"
  by (cases s; cases t) (simp_all add: buildReferenceKey_def)

lemma ai_key_eq: "ai_key a = ai_key b \<longleftrightarrow> ai_type a = ai_type b \<and> ai_id a = ai_id b"
  by (simp add: ai_key_def)

definition of_key :: "string \<Rightarrow> allocation_input list \<Rightarrow> rat list" where
  "of_key k as = map ai_amount (filter (\<lambda>a. ai_key a = k) as)"

lemma of_key_append [simp]: "of_key k (as @ bs) = of_key k as @ of_key k bs"
  by (simp add: of_key_def)

lemma of_key_none: "k \<notin> ai_key ` set as \<Longrightarrow> of_key k as = []"
  by (force simp: of_key_def filter_empty_conv)

lemma aggregate_step_keys: "set (map ai_key (aggregate_step acc a)) = insert (ai_key a) (set (map ai_key acc))"
  "distinct (map ai_key acc) \<Longrightarrow> distinct (map ai_key (aggregate_step acc a))"
proof -
  have m: "map ai_key (update_first P (\<lambda>x. x\<lparr>ai_amount := f x\<rparr>) acc) = map ai_key acc" for P f
    by (rule update_first_map) (simp add: ai_key_def)
  show "set (map ai_key (aggregate_step acc a)) = insert (ai_key a) (set (map ai_key acc))"
    "distinct (map ai_key acc) \<Longrightarrow> distinct (map ai_key (aggregate_step acc a))"
    unfolding aggregate_step_def by (auto simp only: m split: if_splits) (auto simp: m)
qed

lemma aggregate_keys:
  "set (map ai_key (aggregateAllocations as)) = set (map ai_key as) \<and> distinct (map ai_key (aggregateAllocations as))"
  unfolding aggregateAllocations_def
proof (induction as rule: rev_induct)
  case (snoc a as)
  then show ?case using aggregate_step_keys [of "foldl aggregate_step [] as" a] by simp
qed simp

lemma aggregate_step_new: "ai_key a \<notin> ai_key ` set acc \<Longrightarrow> aggregate_step acc a = acc @ [a]"
  by (simp add: aggregate_step_def)

lemma aggregate_step_old: "ai_key a \<in> ai_key ` set acc \<Longrightarrow>
    aggregate_step acc a = update_first (\<lambda>x. ai_key x = ai_key a) (\<lambda>x. x\<lparr>ai_amount := dbl (ai_amount x + ai_amount a)\<rparr>) acc"
  by (simp add: aggregate_step_def)

lemma update_first_by_key:
  "distinct (map k xs) \<Longrightarrow> x \<in> set (update_first (\<lambda>y. k y = c) f xs) \<Longrightarrow> (\<And>y. k (f y) = k y) \<Longrightarrow>
     (x \<in> set xs \<and> k x \<noteq> c) \<or> (\<exists>y\<in>set xs. k y = c \<and> x = f y)"
proof (induction xs)
  case (Cons y ys)
  then have "k y \<notin> k ` set ys" by simp
  with Cons show ?case by (cases "k y = c") (auto simp: image_iff)
qed simp

text \<open>The aggregated amount of a key is the number sum of its amounts, in their order.\<close>

lemma aggregate_amounts:
  "b \<in> set (aggregateAllocations as) \<Longrightarrow> \<exists>v vs. of_key (ai_key b) as = v # vs \<and> ai_amount b = add_up v vs"
  unfolding aggregateAllocations_def
proof (induction as arbitrary: b rule: rev_induct)
  case (snoc a as)
  let ?acc = "foldl aggregate_step [] as"
  have dist: "distinct (map ai_key ?acc)" "ai_key ` set ?acc = ai_key ` set as"
    using aggregate_keys [of as] by (auto simp: aggregateAllocations_def)
  show ?case
  proof (cases "ai_key a \<in> ai_key ` set ?acc")
    case True
    with snoc.prems have "b \<in> set (update_first (\<lambda>x. ai_key x = ai_key a) (\<lambda>x. x\<lparr>ai_amount := dbl (ai_amount x + ai_amount a)\<rparr>) ?acc)"
      by (simp add: aggregate_step_old)
    then have "(b \<in> set ?acc \<and> ai_key b \<noteq> ai_key a) \<or>
        (\<exists>y\<in>set ?acc. ai_key y = ai_key a \<and> b = y\<lparr>ai_amount := dbl (ai_amount y + ai_amount a)\<rparr>)"
      by (rule update_first_by_key [OF dist(1)]) (simp add: ai_key_def)
    then show ?thesis
    proof
      assume b: "b \<in> set ?acc \<and> ai_key b \<noteq> ai_key a"
      then have "of_key (ai_key b) [a] = []" by (auto simp: of_key_def)
      with snoc.IH [of b] b show ?thesis by simp
    next
      assume "\<exists>y\<in>set ?acc. ai_key y = ai_key a \<and> b = y\<lparr>ai_amount := dbl (ai_amount y + ai_amount a)\<rparr>"
      then obtain y where y: "y \<in> set ?acc" "ai_key y = ai_key a" "b = y\<lparr>ai_amount := dbl (ai_amount y + ai_amount a)\<rparr>" by blast
      then have "ai_key b = ai_key y" by (simp add: ai_key_def)
      moreover have "of_key (ai_key y) [a] = [ai_amount a]" using y(2) by (simp add: of_key_def)
      ultimately show ?thesis using snoc.IH [OF y(1)] y(3) by auto
    qed
  next
    case False
    then have new: "aggregate_step ?acc a = ?acc @ [a]" by (rule aggregate_step_new)
    have b: "b \<in> set ?acc \<or> b = a"
      using snoc.prems unfolding foldl_append foldl.simps new by (simp only: set_append list.set Un_iff insert_iff empty_iff) blast
    show ?thesis
    proof (cases "b = a")
      case True
      have "ai_key a \<notin> ai_key ` set as" using False dist(2) by simp
      then have "of_key (ai_key a) as = []" by (intro of_key_none)
      then have "of_key (ai_key a) (as @ [a]) = [ai_amount a]" by (simp add: of_key_def)
      then show ?thesis unfolding True by simp
    next
      case False': False
      with b have b: "b \<in> set ?acc" by simp
      with False have "of_key (ai_key b) [a] = []" by (auto simp: of_key_def image_iff)
      with snoc.IH [OF b] show ?thesis by simp
    qed
  qed
qed simp

subsection \<open>The checks of the allocations\<close>

lemma resolveReferences_due:
  "resolveReferences t br db as = Inr refs \<Longrightarrow> distinct (map ai_key as) \<Longrightarrow> a \<in> set as \<Longrightarrow>
     \<exists>d. resolveReferenceDocument t (ai_type a) (ai_id a) db = Inr d \<and> in_branch d br \<and>
       map_of refs (ai_key a) = Some (computeDueBefore d (sumAllocatedForReference t (ai_type a) (ai_id a) db))"
proof (induction as arbitrary: refs)
  case (Cons b as)
  then obtain d rest where d: "resolveReferenceDocument t (ai_type b) (ai_id b) db = Inr d" "in_branch d br"
    "resolveReferences t br db as = Inr rest"
    "refs = (ai_key b, computeDueBefore d (sumAllocatedForReference t (ai_type b) (ai_id b) db)) # rest"
    by (auto simp: and_then_Inr)
  show ?case
  proof (cases "a = b")
    case True
    with d show ?thesis by simp
  next
    case False
    with Cons.prems have "a \<in> set as" "ai_key a \<noteq> ai_key b" by (auto simp: image_iff)
    with Cons.IH [OF d(3)] Cons.prems(2) d(4) show ?thesis by simp
  qed
qed simp

lemma checkAllocations_due:
  "checkAllocations refs as = Inr u \<Longrightarrow> a \<in> set as \<Longrightarrow> \<exists>due. map_of refs (ai_key a) = Some due \<and> ai_amount a \<le> due"
  by (induction as) (auto split: option.splits if_splits)

text \<open>Everything the service has checked of the allocations it writes.\<close>

lemma resolveAllocations_checked:
  assumes "resolveAllocations t p db = Inr as"
  obtains d due where "resolveReferenceDocument t (cr_type p) (cr_id p) db = Inr d" "in_branch d (cr_branchId p)"
    "due = computeDueBefore d (sumAllocatedForReference t (cr_type p) (cr_id p) db)"
    "as = buildRequestedAllocations p due" "checkAmounts p as = Inr ()"
    "\<And>a. a \<in> set (aggregateAllocations as) \<Longrightarrow> \<exists>e. resolveReferenceDocument t (ai_type a) (ai_id a) db = Inr e \<and>
       in_branch e (cr_branchId p) \<and> ai_amount a \<le> computeDueBefore e (sumAllocatedForReference t (ai_type a) (ai_id a) db)"
proof -
  from assms obtain d refs where d: "resolveReferenceDocument t (cr_type p) (cr_id p) db = Inr d" "in_branch d (cr_branchId p)"
    "as = buildRequestedAllocations p (computeDueBefore d (sumAllocatedForReference t (cr_type p) (cr_id p) db))"
    "checkAmounts p as = Inr ()" "resolveReferences t (cr_branchId p) db (aggregateAllocations as) = Inr refs"
    "checkAllocations refs (aggregateAllocations as) = Inr ()"
    by (auto simp: resolveAllocations_def and_then_Inr Let_def)
  show thesis
    using d(1,2) refl d(3,4)
  proof (rule that)
    fix a assume a: "a \<in> set (aggregateAllocations as)"
    obtain due where "map_of refs (ai_key a) = Some due" "ai_amount a \<le> due"
      using checkAllocations_due [OF d(6) a] by blast
    with resolveReferences_due [OF d(5) _ a] aggregate_keys [of as]
    show "\<exists>e. resolveReferenceDocument t (ai_type a) (ai_id a) db = Inr e \<and> in_branch e (cr_branchId p) \<and>
        ai_amount a \<le> computeDueBefore e (sumAllocatedForReference t (ai_type a) (ai_id a) db)" by auto
  qed
qed

lemma checkAmounts_sum:
  "checkAmounts p as = Inr () \<Longrightarrow> add_up 0 (map ai_amount as) \<le> cr_amount p \<and>
     (cr_allowOverpayment p \<or> \<not> 0 < to_fixed2 (dbl (cr_amount p - add_up 0 (map ai_amount as))))"
  by (auto simp: checkAmounts_def Let_def foldl_map split: if_splits)

subsection \<open>The due amount\<close>

definition types_of :: "document_kind \<Rightarrow> reference_type set" where
  "types_of k = (case k of D_SALE \<Rightarrow> {R_SALE} | D_PURCHASE \<Rightarrow> {R_PURCHASE, R_PURCHASE_ORDER} | D_ORDER \<Rightarrow> {R_SALES_ORDER})"

lemma kind_of_types: "kind_of t = Some k \<longleftrightarrow> t \<in> types_of k"
  by (cases t; cases k) (auto simp: types_of_def)

lemma resolveReferenceDocument_Inr:
  "resolveReferenceDocument t ty i db = Inr d \<Longrightarrow> d \<in> set (fd_documents db) \<and> ty \<in> types_of (dc_kind d) \<and> dc_id d = i \<and>
     dc_tenantId d = t \<and> dc_status d \<noteq> ''CANCELLED''"
  by (auto simp: resolveReferenceDocument_def findReferenceDocument_def kind_of_types is_document_def
      split: if_splits option.splits dest!: find_in)

lemma due_cents:
  assumes d: "0 \<le> A" "A \<le> dc_total d" "dc_total d \<le> money_limit"
  shows "computeDueBefore d (cents A) = cents (max 0 (case documentBalance d of None \<Rightarrow> dc_total d - A | Some b \<Rightarrow> min b (dc_total d - A)))"
proof -
  let ?T = "dc_total d"
  have c: "\<bar>cents ?T - of_int ?T / 100\<bar> \<le> 1 / 65536" "\<bar>cents A - of_int A / 100\<bar> \<le> 1 / 65536"
    using d by (simp_all only: cents_close abs_of_nonneg)
  have ge: "0 \<le> cents ?T - cents A" using d cents_mono [of A ?T] by simp
  have "0 \<le> cents A" using d by (simp add: cents_nonneg)
  then have lt: "cents ?T - cents A < 2 powi 38" using cents_lim [OF d(3)] by linarith
  have "\<bar>dbl (cents ?T - cents A) - (cents ?T - cents A)\<bar> \<le> 2 powi (38 - 54)" using ge lt by (intro dbl_error) auto
  moreover have "(2::rat) powi (38 - 54) = 1 / 65536" by (simp add: power_int_def field_simps)
  ultimately have e: "\<bar>dbl (cents ?T - cents A) - (of_int ?T / 100 - of_int A / 100)\<bar> \<le> 3 / 65536" using c by linarith
  have "js_round (dbl (cents ?T - cents A) * 100) = ?T - A"
  proof (rule js_round_near)
    have "\<bar>dbl (cents ?T - cents A) * 100 - (of_int ?T - of_int A)\<bar> < 1 / 2" using e by linarith
    then show "\<bar>dbl (cents ?T - cents A) * 100 - of_int (?T - A)\<bar> < 1 / 2" by (simp only: of_int_diff)
  qed
  moreover have "dbl (cents ?T - cents A) < 10 ^ 21"
  proof -
    have "(2::rat) powi 38 = 274877906944" by (simp add: power_int_def)
    then have "dbl (cents ?T - cents A) \<le> 274877906945" using e c lt by linarith
    then show ?thesis by simp
  qed
  ultimately have "to_fixed2 (dbl (cents ?T - cents A)) = cents (?T - A)"
    using dbl_nonneg [OF ge] by (simp add: to_fixed2_cents)
  moreover have "max 0 (cents m) = cents (max 0 m)" for m
    using cents_mono [of m 0] cents_nonneg [of m] by (auto simp: max_def)
  moreover have "min (cents m) (cents n) = cents (min m n)" for m n
    using cents_mono [of m n] cents_mono [of n m] by (auto simp: min_def)
  ultimately show ?thesis by (simp add: computeDueBefore_def split: option.split)
qed

subsection \<open>The rows a payment adds\<close>

definition row_of :: "(rat \<Rightarrow> int option) \<Rightarrow> string \<Rightarrow> allocation_input \<Rightarrow> allocation_row \<Rightarrow> bool" where
  "row_of col i a r \<longleftrightarrow> al_paymentId r = i \<and> al_referenceType r = ai_type a \<and> al_referenceId r = ai_id a \<and>
     col (ai_amount a) = Some (al_amount r) \<and> 0 < al_amount r"

lemma createAllocations_rows:
  "createAllocations env i as db = Inr (db', rows) \<Longrightarrow>
     db' = db\<lparr>fd_allocations := fd_allocations db @ rows\<rparr> \<and> list_all2 (row_of (fe_money env) i) as rows \<and>
     (as = [] \<or> i \<in> pm_id ` set (fd_payments db)) \<and> (\<forall>r\<in>set rows. al_createdAt r = fe_now env)"
proof (induction as arbitrary: db rows db')
  case (Cons a as)
  then obtain n row db1 db2 rest where
    n: "fe_money env (ai_amount a) = Some n" and
    row: "row = \<lparr>al_id = fe_uuid env (length (fd_allocations db)), al_paymentId = i,
      al_referenceType = ai_type a, al_referenceId = ai_id a, al_amount = n, al_createdAt = fe_now env\<rparr>" and
    ins: "insert_allocation row db = Inr db1" and rec: "createAllocations env i as db1 = Inr (db2, rest)" and
    res: "db' = db2" "rows = row # rest"
    by (auto simp: and_then_Inr Let_def money_column_def split: option.splits)
  from ins have db1: "db1 = db\<lparr>fd_allocations := fd_allocations db @ [row]\<rparr>" "0 < al_amount row" "i \<in> pm_id ` set (fd_payments db)"
    by (auto simp: insert_allocation_def row split: if_splits)
  from Cons.IH [OF rec] show ?case using db1 res n by (auto simp: row_of_def row)
qed simp

lemma recordMovement_adds:
  "recordMovement env p s db = Inr db' \<Longrightarrow> \<exists>ms. db' = db\<lparr>fd_movements := fd_movements db @ ms\<rparr> \<and>
     ms = (case s of None \<Rightarrow> [] | Some s \<Rightarrow> if pm_status p = PAY_COMPLETED then [payment_movement env p s db] else [])"
  by (auto simp: recordMovement_def insert_cash_movement_def split: option.splits if_splits)

subsection \<open>Settling documents\<close>

definition settled :: "document_row \<Rightarrow> int \<Rightarrow> int option \<Rightarrow> int option \<Rightarrow> document_row" where
  "settled d paid due bal = d\<lparr>dc_totalPaid := paid, dc_balanceDue := due, dc_balance := bal, dc_paymentStatus := payment_state paid (dc_total d)\<rparr>"

text \<open>The document with the financial columns that the ledger of \<open>db\<close> determines.\<close>

definition settle :: "fin_db \<Rightarrow> document_row \<Rightarrow> document_row" where
  "settle db d = (case dc_kind d of
       D_SALE \<Rightarrow> let paid = signed_paid (dc_tenantId d) (dc_id d) db; due = (if dc_cash d then 0 else max (dc_total d - paid) 0)
         in settled d paid (Some due) (Some due)
     | D_PURCHASE \<Rightarrow> let paid = allocated (dc_tenantId d) {R_PURCHASE, R_PURCHASE_ORDER} (dc_id d) db; due = max (dc_total d - paid) 0
         in settled d paid (Some due) (Some due)
     | D_ORDER \<Rightarrow> let paid = min (dc_total d) (allocated (dc_tenantId d) {R_SALES_ORDER} (dc_id d) db + invoiced (dc_tenantId d) (dc_id d) db)
         in settled d paid (Some (max (dc_total d - paid) 0)) (dc_balance d))"

definition touched :: "string \<Rightarrow> allocation_input \<Rightarrow> document_row \<Rightarrow> bool" where
  "touched t a d \<longleftrightarrow> ai_type a \<in> types_of (dc_kind d) \<and> ai_id a = dc_id d \<and> t = dc_tenantId d"

lemma update_where_cong: "(\<And>x. P x \<Longrightarrow> f x = g x) \<Longrightarrow> update_where P f xs = update_where P g xs"
  by (simp add: update_where_def cong: if_cong)

lemma syncDocument_settles:
  "syncDocument t a db = db\<lparr>fd_documents := map (\<lambda>d. if touched t a d then settle db d else d) (fd_documents db)\<rparr>"
proof -
  have sale: "syncSaleFinancialState i t db = db\<lparr>fd_documents := update_where (is_document D_SALE i t) (settle db) (fd_documents db)\<rparr>" for i
    by (auto simp: syncSaleFinancialState_def Let_def is_document_def settle_def settled_def intro!: update_where_cong
        intro: arg_cong [where f = "\<lambda>x. db\<lparr>fd_documents := x\<rparr>"])
  have purchase: "syncPurchaseFinancialState i t db = db\<lparr>fd_documents := update_where (is_document D_PURCHASE i t) (settle db) (fd_documents db)\<rparr>" for i
    by (auto simp: syncPurchaseFinancialState_def Let_def is_document_def settle_def settled_def intro!: update_where_cong
        intro: arg_cong [where f = "\<lambda>x. db\<lparr>fd_documents := x\<rparr>"])
  have order: "syncOrderFinancialState i t db = db\<lparr>fd_documents := update_where (is_document D_ORDER i t) (settle db) (fd_documents db)\<rparr>" for i
    by (auto simp: syncOrderFinancialState_def Let_def is_document_def settle_def settled_def intro!: update_where_cong
        intro: arg_cong [where f = "\<lambda>x. db\<lparr>fd_documents := x\<rparr>"])
  have same: "update_where (is_document k (ai_id a) t) (settle db) (fd_documents db) =
      map (\<lambda>d. if touched t a d then settle db d else d) (fd_documents db)" if "kind_of (ai_type a) = Some k" for k
    using that by (cases "ai_type a") (auto simp: update_where_def is_document_def touched_def types_of_def split: document_kind.splits)
  have none: "map (\<lambda>d. if touched t a d then settle db d else d) (fd_documents db) = fd_documents db" if "kind_of (ai_type a) = None"
    using that by (cases "ai_type a") (auto simp: touched_def types_of_def split: document_kind.splits intro!: map_idI)
  show ?thesis
    unfolding syncDocument_def sale purchase order
    by (cases "ai_type a") (use same none in simp_all)
qed

lemma settled_selectors [simp]:
  "dc_kind (settled d p u b) = dc_kind d" "dc_id (settled d p u b) = dc_id d" "dc_tenantId (settled d p u b) = dc_tenantId d"
  "dc_branchId (settled d p u b) = dc_branchId d" "dc_status (settled d p u b) = dc_status d" "dc_cash (settled d p u b) = dc_cash d"
  "dc_orderId (settled d p u b) = dc_orderId d" "dc_partyId (settled d p u b) = dc_partyId d" "dc_total (settled d p u b) = dc_total d"
  "dc_balanceDue (settled d p u b) = u" "dc_balance (settled d p u b) = b"
  by (simp_all add: settled_def)

lemma settled_again [simp]: "settled (settled d p u b) p' u' b' = settled d p' u' b'"
  by (simp add: settled_def)

lemma settle_selectors [simp]:
  "dc_kind (settle db d) = dc_kind d" "dc_id (settle db d) = dc_id d" "dc_tenantId (settle db d) = dc_tenantId d"
  "dc_branchId (settle db d) = dc_branchId d" "dc_status (settle db d) = dc_status d" "dc_cash (settle db d) = dc_cash d"
  "dc_orderId (settle db d) = dc_orderId d" "dc_partyId (settle db d) = dc_partyId d" "dc_total (settle db d) = dc_total d"
  by (simp_all add: settle_def Let_def split: document_kind.splits)

lemma settle_idem [simp]: "settle db (settle db d) = settle db d"
  by (cases "dc_kind d") (simp_all add: settle_def Let_def)

text \<open>Settling reads the payments, the allocations and, for what an order has invoiced, columns it never writes.\<close>

definition fixed_columns :: "document_row \<Rightarrow> document_kind \<times> string option \<times> string \<times> string \<times> int" where
  "fixed_columns d = (dc_kind d, dc_orderId d, dc_tenantId d, dc_status d, dc_total d)"

lemma fixed_columns_settle [simp]: "fixed_columns (settle db d) = fixed_columns d"
  by (simp add: fixed_columns_def)

lemma invoiced_fixed:
  "invoiced t i db = sum_list (map (\<lambda>(k, ord, ten, st, tot). tot) (filter (\<lambda>(k, ord, ten, st, tot). k = D_SALE \<and> ord = Some i \<and> ten = t \<and>
     st = ''CONFIRMED'') (map fixed_columns (fd_documents db))))"
  by (simp add: invoiced_def filter_map comp_def fixed_columns_def cong: if_cong)

lemma counts_cong: "fd_payments db = fd_payments db' \<Longrightarrow> counts db = counts db'"
  by (simp add: counts_def payment_of_def fun_eq_iff)

lemma settle_cong:
  assumes "fd_payments db' = fd_payments db" "fd_allocations db' = fd_allocations db"
    "map fixed_columns (fd_documents db') = map fixed_columns (fd_documents db)"
  shows "settle db' = settle db"
proof -
  have "counts db' = counts db" using assms(1) by (rule counts_cong)
  moreover have "payment_of a db' = payment_of a db" for a by (simp add: payment_of_def assms(1))
  moreover have "invoiced t i db' = invoiced t i db" for t i by (simp only: invoiced_fixed assms(3))
  ultimately show ?thesis by (intro ext) (simp only: settle_def signed_paid_def allocated_def assms(2))
qed

lemma sync_all:
  "foldl (\<lambda>s a. syncDocument t a s) db as =
     db\<lparr>fd_documents := map (\<lambda>d. if \<exists>a\<in>set as. touched t a d then settle db d else d) (fd_documents db)\<rparr>"
proof (induction as rule: rev_induct)
  case (snoc a as)
  let ?f = "\<lambda>d. if \<exists>a\<in>set as. touched t a d then settle db d else d"
  let ?db = "db\<lparr>fd_documents := map ?f (fd_documents db)\<rparr>"
  have "settle ?db = settle db" by (rule settle_cong) (simp_all add: comp_def)
  moreover have "touched t b (settle db d) = touched t b d" for b d by (simp add: touched_def)
  ultimately have step: "syncDocument t a ?db = db\<lparr>fd_documents := map (\<lambda>d. if touched t a d \<or> (\<exists>a\<in>set as. touched t a d)
      then settle db d else d) (fd_documents db)\<rparr>"
    by (auto simp: syncDocument_settles intro!: arg_cong [where f = "\<lambda>x. db\<lparr>fd_documents := x\<rparr>"])
  have "foldl (\<lambda>s a. syncDocument t a s) db (as @ [a]) = syncDocument t a ?db" by (simp only: foldl_append foldl.simps snoc.IH)
  then show ?case unfolding step by (simp cong: if_cong)
qed (simp cong: if_cong)

lemma reconcile_settles:
  "reconcileDocumentBalances t as db =
     db\<lparr>fd_documents := map (\<lambda>d. if \<exists>a\<in>set as. touched t a d then settle db d else d) (fd_documents db)\<rparr>"
proof -
  have "(\<exists>a\<in>set (aggregateAllocations as). touched t a d) \<longleftrightarrow> (\<exists>a\<in>set as. touched t a d)" for d
  proof -
    have touch: "touched t a d \<longleftrightarrow> t = dc_tenantId d \<and> (\<exists>ty\<in>types_of (dc_kind d). ai_key a = buildReferenceKey ty (dc_id d))" for a
      by (auto simp: touched_def ai_key_def)
    have "(\<exists>a\<in>set bs. touched t a d) \<longleftrightarrow>
        t = dc_tenantId d \<and> (\<exists>ty\<in>types_of (dc_kind d). buildReferenceKey ty (dc_id d) \<in> set (map ai_key bs))" for bs
      unfolding touch by (auto simp: image_iff) metis+
    then show ?thesis using aggregate_keys [of as] by simp
  qed
  then show ?thesis by (simp add: reconcileDocumentBalances_def sync_all)
qed

end
