(* ===== verification/Payment_Facts.thy ===== *)
theory Payment_Facts
  imports Payment_Ledger
begin

section \<open>Properties of payments\<close>

text \<open>
  What holds of the ledger after any sequence of payment requests: no document has more allocated
  to it than its total, the documents' financial columns are those the ledger determines, a
  payment is allocated completely unless an overpayment is allowed, cash moves only in open
  sessions, and a document payment repeated under its key returns what it returned.
\<close>

subsection \<open>The state and the requests\<close>

definition doc_key :: "document_row \<Rightarrow> document_kind \<times> string \<times> string" where
  "doc_key d = (dc_kind d, dc_id d, dc_tenantId d)"

definition doc_allocated :: "document_row \<Rightarrow> fin_db \<Rightarrow> int" where
  "doc_allocated d db = allocated (dc_tenantId d) (types_of (dc_kind d)) (dc_id d) db"

definition ledger_keys :: "fin_db \<Rightarrow> bool" where
  "ledger_keys db \<longleftrightarrow> distinct (map pm_id (fd_payments db)) \<and> distinct (map doc_key (fd_documents db)) \<and>
     (\<forall>a\<in>set (fd_allocations db). al_paymentId a \<in> pm_id ` set (fd_payments db) \<and> 0 < al_amount a)"

definition doc_ok :: "fin_db \<Rightarrow> document_row \<Rightarrow> bool" where
  "doc_ok db d \<longleftrightarrow> dc_total d \<le> money_limit \<and> doc_allocated d db \<le> dc_total d \<and> (doc_allocated d db \<noteq> 0 \<longrightarrow> settle db d = d)"

definition ledger_ok :: "fin_db \<Rightarrow> bool" where
  "ledger_ok db \<longleftrightarrow> ledger_keys db \<and> (\<forall>d\<in>set (fd_documents db). doc_ok db d)"

text \<open>
  A request without allocations to the same purchase under both of its names, in binary64 amounts
  of at most \<open>2 ^ 44\<close> cents.
\<close>

definition one_name :: "payment_input \<Rightarrow> bool" where
  "one_name p \<longleftrightarrow> list_all (\<lambda>a. list_all (\<lambda>b. \<not> (ai_type a = R_PURCHASE \<and> ai_type b = R_PURCHASE_ORDER \<and> ai_id a = ai_id b))
     (cr_allocations p)) (cr_allocations p)"

definition amount_range :: "rat \<Rightarrow> bool" where
  "amount_range v \<longleftrightarrow> dbl v = v \<and> v \<le> cents money_limit"

datatype fin_request =
    Pay fin_env "string \<Rightarrow> bool" fin_actor payment_input
  | PayDocument fin_env "string \<Rightarrow> bool" string fin_actor document_payment_input

fun fin_step :: "fin_request \<Rightarrow> fin_db \<Rightarrow> fin_db http" where
  "fin_step (Pay env is_uuid actor p) db = and_then (create env is_uuid actor p db) (\<lambda>(db', _). Inr db')"
| "fin_step (PayDocument env is_uuid fresh actor p) db = and_then (createDocument env is_uuid fresh actor p db) (\<lambda>(db', _). Inr db')"

fun admissible :: "fin_request \<Rightarrow> bool" where
  "admissible (Pay env is_uuid actor p) = (numeric_14_2 (fe_money env) \<and> amount_range (cr_amount p) \<and>
     list_all (\<lambda>a. amount_range (ai_amount a)) (cr_allocations p) \<and> one_name p)"
| "admissible (PayDocument env is_uuid fresh actor p) = (numeric_14_2 (fe_money env) \<and>
     list_all (\<lambda>l. amount_range (ln_amount l)) (dp_payments p))"

definition payload_ok :: "payment_input \<Rightarrow> bool" where
  "payload_ok p \<longleftrightarrow> (\<exists>n. near (cr_amount p) n) \<and> cr_amount p \<le> cents money_limit \<and> length (cr_allocations p) \<le> 50 \<and>
     (\<forall>a\<in>set (cr_allocations p). \<exists>n. near (ai_amount a) n) \<and> one_name p"

subsection \<open>One payment\<close>

lemma createInternal_effect:
  assumes "createInternal env actor p db = Inr (db', r)"
  obtains t s m as row rows ms where
    "resolveTenantId actor (cr_tenantId p) = Inr t" "resolveMethod t p db = Inr m" "checkSession actor t p m db = Inr s"
    "resolveAllocations t p db = Inr as" "row = new_payment env actor t p (map_option cs_id s) (pm_amount row) db"
    "fe_money env (cr_amount p) = Some (pm_amount row)" "pm_id row \<notin> pm_id ` set (fd_payments db)" "0 < pm_amount row"
    "list_all2 (row_of (fe_money env) (pm_id row)) as rows" "\<forall>a\<in>set rows. al_createdAt a = fe_now env"
    "ms = (case s of None \<Rightarrow> [] | Some s \<Rightarrow> if pm_status row = PAY_COMPLETED then [payment_movement env row s db] else [])"
    "db' = reconcileDocumentBalances t as (db\<lparr>fd_payments := fd_payments db @ [row], fd_allocations := fd_allocations db @ rows,
       fd_movements := fd_movements db @ ms\<rparr>)"
    "r = mapPayment row rows"
proof -
  from assms obtain t m s as where t: "resolveTenantId actor (cr_tenantId p) = Inr t" "resolveMethod t p db = Inr m"
    "checkSession actor t p m db = Inr s" "resolveAllocations t p db = Inr as" "writePayment env actor t p s as db = Inr (db', r)"
    by (auto simp: createInternal_def and_then_Inr)
  from t(5) obtain n db1 db2 rows db3 where
    n: "money_column env (cr_amount p) ''payments'' = Inr n" and
    db1: "insert_payment (new_payment env actor t p (map_option cs_id s) n db) db = Inr db1" and
    db2: "createAllocations env (pm_id (new_payment env actor t p (map_option cs_id s) n db)) as db1 = Inr (db2, rows)" and
    db3: "recordMovement env (new_payment env actor t p (map_option cs_id s) n db) s db2 = Inr db3" and
    res: "db' = reconcileDocumentBalances t as db3" "r = mapPayment (new_payment env actor t p (map_option cs_id s) n db) rows"
    unfolding writePayment_def Let_def by (auto simp: and_then_Inr)
  define row where "row = new_payment env actor t p (map_option cs_id s) n db"
  have amount: "pm_amount row = n" by (simp add: row_def new_payment_def)
  from db1 have d1: "db1 = db\<lparr>fd_payments := fd_payments db @ [row]\<rparr>" "pm_id row \<notin> pm_id ` set (fd_payments db)" "0 < pm_amount row"
    by (auto simp: insert_payment_def row_def [symmetric] split: if_splits)
  from createAllocations_rows [OF db2 [folded row_def]]
  have d2: "db2 = db1\<lparr>fd_allocations := fd_allocations db1 @ rows\<rparr>" "list_all2 (row_of (fe_money env) (pm_id row)) as rows"
    "\<forall>a\<in>set rows. al_createdAt a = fe_now env" by auto
  have mv: "payment_movement env row u db2 = payment_movement env row u db" for u
    by (simp add: payment_movement_def d1 d2)
  from recordMovement_adds [OF db3 [folded row_def]] obtain ms where
    d3: "db3 = db2\<lparr>fd_movements := fd_movements db2 @ ms\<rparr>"
      "ms = (case s of None \<Rightarrow> [] | Some s \<Rightarrow> if pm_status row = PAY_COMPLETED then [payment_movement env row s db] else [])"
    unfolding mv by blast
  show thesis
  proof (rule that [OF t(1-4) _ _ d1(2,3) d2(2,3) d3(2)])
    show "row = new_payment env actor t p (map_option cs_id s) (pm_amount row) db" unfolding amount by (rule row_def)
    show "fe_money env (cr_amount p) = Some (pm_amount row)" using n amount by (auto simp: money_column_def split: option.splits)
    show "r = mapPayment row rows" using res(2) by (simp add: row_def)
    show "db' = reconcileDocumentBalances t as (db\<lparr>fd_payments := fd_payments db @ [row], fd_allocations := fd_allocations db @ rows,
       fd_movements := fd_movements db @ ms\<rparr>)" by (simp add: res(1) d3(1) d2(1) d1(1))
  qed
qed

lemma list_all2_filter_sum:
  "list_all2 R as rows \<Longrightarrow> (\<And>a r. a \<in> set as \<Longrightarrow> R a r \<Longrightarrow> Q r = P a \<and> near (ai_amount a) (al_amount r)) \<Longrightarrow>
     list_all2 near (map ai_amount (filter P as)) (map al_amount (filter Q rows))"
  by (induction rule: list_all2_induct) auto

lemma buildRequested_near:
  assumes p: "payload_ok p" and due: "due = cents m" "m \<le> money_limit"
  shows "length (buildRequestedAllocations p due) \<le> 50"
    "a \<in> set (buildRequestedAllocations p due) \<Longrightarrow> \<exists>n. near (ai_amount a) n"
    "a \<in> set (buildRequestedAllocations p due) \<Longrightarrow> b \<in> set (buildRequestedAllocations p due) \<Longrightarrow>
       \<not> (ai_type a = R_PURCHASE \<and> ai_type b = R_PURCHASE_ORDER \<and> ai_id a = ai_id b)"
proof -
  show "length (buildRequestedAllocations p due) \<le> 50"
    using p by (simp add: buildRequestedAllocations_def Let_def payload_ok_def)
  show "a \<in> set (buildRequestedAllocations p due) \<Longrightarrow> b \<in> set (buildRequestedAllocations p due) \<Longrightarrow>
       \<not> (ai_type a = R_PURCHASE \<and> ai_type b = R_PURCHASE_ORDER \<and> ai_id a = ai_id b)"
    using p by (auto simp: buildRequestedAllocations_def Let_def payload_ok_def one_name_def list_all_iff split: if_splits)
  have amount: "\<exists>n. near (min (cr_amount p) due) n" if "0 < min (cr_amount p) due"
  proof (cases "cr_amount p \<le> due")
    case True
    then show ?thesis using p by (simp add: payload_ok_def min_absorb1)
  next
    case False
    with that have "0 < cents m" by (simp add: due min_def)
    then have "0 < m" using cents_mono [of m 0] by force
    then have "near (cents m) m" using due(2) by (rule near_cents)
    with False show ?thesis by (auto simp: due min_def)
  qed
  show "a \<in> set (buildRequestedAllocations p due) \<Longrightarrow> \<exists>n. near (ai_amount a) n"
    using p amount by (auto simp: buildRequestedAllocations_def Let_def payload_ok_def not_le split: if_splits)
qed

lemma allocated_nonneg: "ledger_keys db \<Longrightarrow> 0 \<le> allocated t ts i db"
  by (auto simp: allocated_def ledger_keys_def less_imp_le intro!: sum_list_nonneg)

lemma counts_mono: "ts \<subseteq> us \<Longrightarrow> counts db t ts i a \<Longrightarrow> counts db t us i a"
  by (auto simp: counts_def split: option.splits)

lemma sum_filter_mono: "(\<And>x. x \<in> set xs \<Longrightarrow> P x \<Longrightarrow> Q x) \<Longrightarrow> (\<And>x. x \<in> set xs \<Longrightarrow> 0 \<le> f x) \<Longrightarrow>
    sum_list (map f (filter P xs)) \<le> sum_list (map (f :: 'a \<Rightarrow> int) (filter Q xs))"
proof (induction xs)
  case (Cons x xs)
  have "sum_list (map f (filter P xs)) \<le> sum_list (map f (filter Q xs))" using Cons by simp
  moreover have "0 \<le> f x" "P x \<Longrightarrow> Q x" using Cons.prems by simp_all
  ultimately show ?case by auto
qed simp

lemma allocated_mono: "ledger_keys db \<Longrightarrow> ts \<subseteq> us \<Longrightarrow> allocated t ts i db \<le> allocated t us i db"
  unfolding allocated_def
  by (rule sum_filter_mono) (auto simp: ledger_keys_def intro: counts_mono less_imp_le)

lemma resolve_unique:
  assumes "ledger_keys db" "resolveReferenceDocument t ty i db = Inr e" "d \<in> set (fd_documents db)" "ty \<in> types_of (dc_kind d)"
    "dc_id d = i" "dc_tenantId d = t"
  shows "e = d"
proof -
  from resolveReferenceDocument_Inr [OF assms(2)]
  have e: "e \<in> set (fd_documents db)" "ty \<in> types_of (dc_kind e)" "dc_id e = i" "dc_tenantId e = t" by auto
  have "kind_of ty = Some (dc_kind e)" "kind_of ty = Some (dc_kind d)" using e(2) assms(4) by (simp_all add: kind_of_types)
  then have "doc_key e = doc_key d" using e assms(5,6) by (simp add: doc_key_def)
  with assms(1,3) e(1) show ?thesis unfolding ledger_keys_def by (blast intro: key_unique)
qed

text \<open>What is due of a document under one of its names is at most what nobody has allocated.\<close>

lemma due_free:
  assumes ok: "ledger_ok db" and d: "d \<in> set (fd_documents db)" and ty: "ty \<in> types_of (dc_kind d)"
  obtains m where "computeDueBefore d (sumAllocatedForReference (dc_tenantId d) ty (dc_id d) db) = cents m"
    "0 \<le> m" "m \<le> money_limit" "m \<le> dc_total d - doc_allocated d db"
proof -
  let ?A = "allocated (dc_tenantId d) {ty} (dc_id d) db"
  have keys: "ledger_keys db" and dk: "doc_ok db d" using ok d by (auto simp: ledger_ok_def)
  have A: "0 \<le> ?A" "?A \<le> doc_allocated d db"
    using ty by (auto simp: doc_allocated_def intro!: allocated_nonneg [OF keys] allocated_mono [OF keys])
  let ?m = "max 0 (case documentBalance d of None \<Rightarrow> dc_total d - ?A | Some b \<Rightarrow> min b (dc_total d - ?A))"
  have "computeDueBefore d (cents ?A) = cents ?m"
    using A dk by (intro due_cents) (auto simp: doc_ok_def)
  moreover have "0 \<le> ?m" by simp
  moreover have "?m \<le> money_limit"
  proof -
    have "dc_total d - ?A \<le> money_limit" using A dk by (simp add: doc_ok_def)
    moreover have "0 \<le> money_limit" by (simp add: money_limit_def)
    ultimately show ?thesis by (auto split: option.split)
  qed
  moreover have "?m \<le> dc_total d - doc_allocated d db"
  proof (cases "dc_kind d = D_PURCHASE \<and> doc_allocated d db \<noteq> 0")
    case True
    with dk have "settle db d = d" by (simp add: doc_ok_def)
    then have "dc_balanceDue d = Some (max (dc_total d - doc_allocated d db) 0)"
      using True by (metis (no_types, lifting) settle_def doc_allocated_def document_kind.simps(8) types_of_def settled_selectors(10))
    then have "documentBalance d = Some (max (dc_total d - doc_allocated d db) 0)" using True by (simp add: documentBalance_def)
    with A dk show ?thesis by (simp add: doc_ok_def)
  next
    case False
    have "?A = doc_allocated d db"
    proof (cases "dc_kind d = D_PURCHASE")
      case True
      with False A show ?thesis by simp
    next
      case False
      then have "types_of (dc_kind d) = {ty}" using ty by (cases "dc_kind d") (simp_all add: types_of_def)
      then show ?thesis by (simp add: doc_allocated_def)
    qed
    with A dk show ?thesis by (auto simp: doc_ok_def split: option.split)
  qed
  ultimately show thesis using that unfolding sumAllocatedForReference_def by blast
qed

subsection \<open>The ledger after a payment\<close>

definition add_rows :: "payment_row \<Rightarrow> allocation_row list \<Rightarrow> cash_movement_row list \<Rightarrow> fin_db \<Rightarrow> fin_db" where
  "add_rows row rows ms db = db\<lparr>fd_payments := fd_payments db @ [row], fd_allocations := fd_allocations db @ rows,
     fd_movements := fd_movements db @ ms\<rparr>"

lemma add_rows_selectors [simp]:
  "fd_payments (add_rows row rows ms db) = fd_payments db @ [row]"
  "fd_allocations (add_rows row rows ms db) = fd_allocations db @ rows"
  "fd_movements (add_rows row rows ms db) = fd_movements db @ ms"
  "fd_documents (add_rows row rows ms db) = fd_documents db"
  "fd_operations (add_rows row rows ms db) = fd_operations db"
  "fd_methods (add_rows row rows ms db) = fd_methods db"
  by (simp_all add: add_rows_def)

lemma payment_of_old:
  "ledger_keys db \<Longrightarrow> a \<in> set (fd_allocations db) \<Longrightarrow> payment_of a (add_rows row rows ms db) = payment_of a db"
proof -
  assume a: "ledger_keys db" "a \<in> set (fd_allocations db)"
  then obtain q where "q \<in> set (fd_payments db)" "pm_id q = al_paymentId a" unfolding ledger_keys_def by (metis imageE)
  then have "find (\<lambda>p. pm_id p = al_paymentId a) (fd_payments db) \<noteq> None" by (auto simp: find_None_iff)
  then show ?thesis by (auto simp: payment_of_def find_append)
qed

lemma payment_of_new:
  "pm_id row \<notin> pm_id ` set (fd_payments db) \<Longrightarrow> al_paymentId a = pm_id row \<Longrightarrow> payment_of a (add_rows row rows ms db) = Some row"
proof -
  assume a: "pm_id row \<notin> pm_id ` set (fd_payments db)" "al_paymentId a = pm_id row"
  have "\<forall>q\<in>set (fd_payments db). pm_id q \<noteq> al_paymentId a" using a by (metis imageI)
  then have "find (\<lambda>p. pm_id p = al_paymentId a) (fd_payments db) = None" by (simp add: find_None_iff)
  then show ?thesis by (simp add: payment_of_def find_append a(2))
qed

definition matching :: "reference_type set \<Rightarrow> string \<Rightarrow> allocation_row \<Rightarrow> bool" where
  "matching ts i a \<longleftrightarrow> al_referenceType a \<in> ts \<and> al_referenceId a = i"

lemma list_all2_in: "list_all2 R xs ys \<Longrightarrow> y \<in> set ys \<Longrightarrow> \<exists>x\<in>set xs. R x y"
  by (induction rule: list_all2_induct) auto

lemma counted_after:
  assumes keys: "ledger_keys db" and new: "pm_id row \<notin> pm_id ` set (fd_payments db)" and rows: "\<forall>a\<in>set rows. al_paymentId a = pm_id row"
  shows "filter (counts (add_rows row rows ms db) t ts i) (fd_allocations db @ rows) =
    filter (counts db t ts i) (fd_allocations db) @ (if live_payment t row then filter (matching ts i) rows else [])"
proof -
  have "filter (counts (add_rows row rows ms db) t ts i) (fd_allocations db) = filter (counts db t ts i) (fd_allocations db)"
    by (rule filter_cong) (simp_all add: counts_def payment_of_old [OF keys])
  moreover have "filter (counts (add_rows row rows ms db) t ts i) rows = (if live_payment t row then filter (matching ts i) rows else [])"
    using rows by (auto simp: counts_def matching_def payment_of_new [OF new] filter_empty_conv intro!: filter_cong)
  ultimately show ?thesis by simp
qed

lemma settle_untouched:
  assumes keys: "ledger_keys db" and new: "pm_id row \<notin> pm_id ` set (fd_payments db)" and rows: "\<forall>a\<in>set rows. al_paymentId a = pm_id row"
    and un: "live_payment (dc_tenantId d) row \<longrightarrow> (\<forall>a\<in>set rows. \<not> matching (types_of (dc_kind d)) (dc_id d) a)"
  shows "settle (add_rows row rows ms db) d = settle db d" "doc_allocated d (add_rows row rows ms db) = doc_allocated d db"
proof -
  let ?db = "add_rows row rows ms db"
  have f: "filter (counts ?db (dc_tenantId d) (types_of (dc_kind d)) (dc_id d)) (fd_allocations db @ rows) =
      filter (counts db (dc_tenantId d) (types_of (dc_kind d)) (dc_id d)) (fd_allocations db)"
    using un unfolding counted_after [OF keys new rows] by (auto simp: filter_empty_conv)
  then show a: "doc_allocated d ?db = doc_allocated d db" by (simp add: doc_allocated_def allocated_def)
  have inv: "invoiced t i ?db = invoiced t i db" for t i by (simp add: invoiced_def)
  have "signed_paid (dc_tenantId d) (dc_id d) ?db = signed_paid (dc_tenantId d) (dc_id d) db" if "dc_kind d = D_SALE"
    using f that unfolding signed_paid_def by (auto simp: types_of_def payment_of_old [OF keys] intro!: arg_cong [where f = sum_list])
  with a show "settle ?db d = settle db d"
    by (cases "dc_kind d") (simp_all add: settle_def doc_allocated_def types_of_def inv)
qed

lemma reconcile_rows:
  "reconcileDocumentBalances t as (add_rows row rows ms db) = (add_rows row rows ms db)\<lparr>fd_documents :=
     map (\<lambda>d. if \<exists>a\<in>set as. touched t a d then settle (add_rows row rows ms db) d else d) (fd_documents db)\<rparr>"
  by (simp add: reconcile_settles)

text \<open>What the checks leave of the balance of a document.\<close>

lemma requested_ok:
  assumes ok: "ledger_ok db" and p: "payload_ok p" and col: "numeric_14_2 (fe_money env)"
    and as: "resolveAllocations t p db = Inr as"
  shows "a \<in> set as \<Longrightarrow> row_of (fe_money env) i a r \<Longrightarrow> near (ai_amount a) (al_amount r)" "length as \<le> 50"
    "a \<in> set as \<Longrightarrow> b \<in> set as \<Longrightarrow> \<not> (ai_type a = R_PURCHASE \<and> ai_type b = R_PURCHASE_ORDER \<and> ai_id a = ai_id b)"
proof -
  obtain d due where d: "resolveReferenceDocument t (cr_type p) (cr_id p) db = Inr d"
    "due = computeDueBefore d (sumAllocatedForReference t (cr_type p) (cr_id p) db)" "as = buildRequestedAllocations p due"
    using resolveAllocations_checked [OF as] by blast
  from resolveReferenceDocument_Inr [OF d(1)] due_free [OF ok, of d "cr_type p"]
  obtain m where m: "due = cents m" "m \<le> money_limit" unfolding d(2) by metis
  note n = buildRequested_near [OF p m, folded d(3)]
  show "length as \<le> 50" by (rule n)
  show "a \<in> set as \<Longrightarrow> b \<in> set as \<Longrightarrow> \<not> (ai_type a = R_PURCHASE \<and> ai_type b = R_PURCHASE_ORDER \<and> ai_id a = ai_id b)" by (rule n)
  show "a \<in> set as \<Longrightarrow> row_of (fe_money env) i a r \<Longrightarrow> near (ai_amount a) (al_amount r)"
    using n(2) [of a] near_stored [OF _ col] unfolding row_of_def by blast
qed

lemma within_free:
  assumes ok: "ledger_ok db" and p: "payload_ok p" and col: "numeric_14_2 (fe_money env)"
    and as: "resolveAllocations t p db = Inr as" and rows: "list_all2 (row_of (fe_money env) i) as rows"
    and d: "d \<in> set (fd_documents db)" "dc_tenantId d = t"
  shows "doc_allocated d db + sum_list (map al_amount (filter (matching (types_of (dc_kind d)) (dc_id d)) rows)) \<le> dc_total d"
proof (cases "\<exists>a\<in>set as. ai_type a \<in> types_of (dc_kind d) \<and> ai_id a = dc_id d")
  case False
  then have "filter (matching (types_of (dc_kind d)) (dc_id d)) rows = []"
    using rows by (fastforce simp: filter_empty_conv matching_def row_of_def list_all2_conv_all_nth in_set_conv_nth)
  with ok d show ?thesis by (simp add: ledger_ok_def doc_ok_def)
next
  case True
  then obtain a where a: "a \<in> set as" "ai_type a \<in> types_of (dc_kind d)" "ai_id a = dc_id d" by blast
  let ?k = "buildReferenceKey (ai_type a) (dc_id d)" and ?rows = "filter (matching (types_of (dc_kind d)) (dc_id d)) rows"
  note req = requested_ok [OF ok p col as]
  have all: "list_all2 near (of_key ?k as) (map al_amount ?rows)"
    unfolding of_key_def
  proof (rule list_all2_filter_sum [OF rows], intro conjI)
    fix c r assume c: "c \<in> set as" "row_of (fe_money env) i c r"
    show "near (ai_amount c) (al_amount r)" using c by (rule req(1))
    show "matching (types_of (dc_kind d)) (dc_id d) r = (ai_key c = ?k)"
      using req(3) [OF a(1) c(1)] req(3) [OF c(1) a(1)] a(2,3) c(2)
      by (cases "dc_kind d") (auto simp: matching_def row_of_def ai_key_def types_of_def)
  qed
  from a(1) have "ai_key a \<in> set (map ai_key (aggregateAllocations as))" using aggregate_keys [of as] by simp
  then obtain b where b: "b \<in> set (aggregateAllocations as)" "ai_key b = ai_key a" by auto
  then have bk: "ai_key b = ?k" "ai_type b = ai_type a" "ai_id b = dc_id d" using a(3) ai_key_eq [of b a] by (auto simp: ai_key_def)
  obtain v vs where v: "of_key ?k as = v # vs" "ai_amount b = add_up v vs" using aggregate_amounts [OF b(1)] unfolding bk by blast
  obtain e where e: "resolveReferenceDocument t (ai_type b) (ai_id b) db = Inr e"
    "ai_amount b \<le> computeDueBefore e (sumAllocatedForReference t (ai_type b) (ai_id b) db)"
    using resolveAllocations_checked [OF as] b(1) by metis
  have "e = d" using ok d a(2) e(1) bk by (intro resolve_unique) (auto simp: ledger_ok_def)
  with e(2) have le: "ai_amount b \<le> computeDueBefore d (sumAllocatedForReference (dc_tenantId d) (ai_type a) (dc_id d) db)"
    using d(2) bk by simp
  obtain m where m: "computeDueBefore d (sumAllocatedForReference (dc_tenantId d) (ai_type a) (dc_id d) db) = cents m"
    "0 \<le> m" "m \<le> money_limit" "m \<le> dc_total d - doc_allocated d db"
    using due_free [OF ok d(1) a(2)] by blast
  have "dbl v = v" using all v(1) by (auto simp: list_all2_Cons1 near_def)
  then have "add_up 0 (of_key ?k as) = ai_amount b" by (simp add: v)
  with le m(1) have "add_up 0 (of_key ?k as) \<le> cents m" by simp
  moreover have "length (of_key ?k as) \<le> 50" using req(2) length_filter_le [of "\<lambda>a. ai_key a = ?k" as]
    unfolding of_key_def length_map by (rule order_trans [rotated])
  ultimately have "sum_list (map al_amount ?rows) \<le> m" using all m(2,3) by (intro sum_below) auto
  with m(4) show ?thesis by linarith
qed

lemma doc_ok_after:
  assumes ok: "ledger_ok db" and p: "payload_ok p" and col: "numeric_14_2 (fe_money env)"
    and as: "resolveAllocations (pm_tenantId row) p db = Inr as" and rows: "list_all2 (row_of (fe_money env) (pm_id row)) as rows"
    and new: "pm_id row \<notin> pm_id ` set (fd_payments db)" and d: "d \<in> set (fd_documents db)"
    and db': "settle db' = settle (add_rows row rows ms db)" "\<And>e. doc_allocated e db' = doc_allocated e (add_rows row rows ms db)"
  shows "doc_ok db' (if \<exists>a\<in>set as. touched (pm_tenantId row) a d then settle (add_rows row rows ms db) d else d)"
proof -
  let ?t = "pm_tenantId row" and ?db = "add_rows row rows ms db"
  have keys: "ledger_keys db" and dk: "doc_ok db d" using ok d by (auto simp: ledger_ok_def)
  have pid: "\<forall>a\<in>set rows. al_paymentId a = pm_id row" using rows
    by (auto simp: list_all2_conv_all_nth in_set_conv_nth row_of_def)
  have alloc: "doc_allocated d ?db = doc_allocated d db +
      (if live_payment (dc_tenantId d) row then sum_list (map al_amount (filter (matching (types_of (dc_kind d)) (dc_id d)) rows)) else 0)"
    by (simp add: doc_allocated_def allocated_def counted_after [OF keys new pid] del: filter_append)
  have "doc_allocated d ?db \<le> dc_total d"
  proof (cases "live_payment (dc_tenantId d) row")
    case True
    then have "dc_tenantId d = ?t" by (simp add: live_payment_def)
    from within_free [OF ok p col as rows d this] True show ?thesis by (simp add: alloc)
  next
    case False
    with dk show ?thesis by (simp add: alloc doc_ok_def)
  qed
  then have le: "doc_allocated (settle ?db d) ?db \<le> dc_total d" "doc_allocated d ?db \<le> dc_total d" by (simp_all add: doc_allocated_def)
  show ?thesis
  proof (cases "\<exists>a\<in>set as. touched ?t a d")
    case True
    then show ?thesis using le dk by (simp add: doc_ok_def db')
  next
    case False
    have "live_payment (dc_tenantId d) row \<longrightarrow> (\<forall>a\<in>set rows. \<not> matching (types_of (dc_kind d)) (dc_id d) a)"
    proof (intro impI ballI)
      fix r assume "live_payment (dc_tenantId d) row" "r \<in> set rows"
      moreover then obtain a where "a \<in> set as" "row_of (fe_money env) (pm_id row) a r"
        using list_all2_in [OF rows] by blast
      ultimately obtain a where "a \<in> set as" "row_of (fe_money env) (pm_id row) a r" "dc_tenantId d = ?t"
        by (auto simp: live_payment_def)
      with False show "\<not> matching (types_of (dc_kind d)) (dc_id d) r" by (auto simp: touched_def row_of_def matching_def)
    qed
    note same = settle_untouched [OF keys new pid this]
    show ?thesis using False dk by (simp add: doc_ok_def db' same)
  qed
qed

lemma createInternal_ledger:
  assumes ok: "ledger_ok db" and p: "payload_ok p" and col: "numeric_14_2 (fe_money env)"
    and r: "createInternal env actor p db = Inr (db', r)"
  shows "ledger_ok db'"
  using r
proof (rule createInternal_effect)
  fix t s m as row rows ms
  assume as: "resolveAllocations t p db = Inr as" and row: "row = new_payment env actor t p (map_option cs_id s) (pm_amount row) db"
    and new: "pm_id row \<notin> pm_id ` set (fd_payments db)" and rows: "list_all2 (row_of (fe_money env) (pm_id row)) as rows"
    and db': "db' = reconcileDocumentBalances t as (db\<lparr>fd_payments := fd_payments db @ [row], fd_allocations := fd_allocations db @ rows,
       fd_movements := fd_movements db @ ms\<rparr>)"
  let ?db = "add_rows row rows ms db"
  have t: "pm_tenantId row = t" by (subst row) (simp add: new_payment_def)
  have db'': "db' = ?db\<lparr>fd_documents := map (\<lambda>d. if \<exists>a\<in>set as. touched t a d then settle ?db d else d) (fd_documents db)\<rparr>"
    by (simp only: db' add_rows_def [symmetric] reconcile_rows)
  have settle: "settle db' = settle ?db" by (rule settle_cong) (simp_all add: db'' comp_def)
  have "counts db' = counts ?db" by (rule counts_cong) (simp add: db'')
  then have alloc: "doc_allocated e db' = doc_allocated e ?db" for e
    unfolding doc_allocated_def allocated_def by (simp add: db'')
  have keys: "ledger_keys db" using ok by (simp add: ledger_ok_def)
  have "distinct (map doc_key (fd_documents db'))"
  proof -
    have "map doc_key (fd_documents db') = map doc_key (fd_documents db)" by (simp add: db'' doc_key_def comp_def)
    then show ?thesis using keys by (simp add: ledger_keys_def)
  qed
  moreover have "\<forall>a\<in>set rows. al_paymentId a = pm_id row \<and> 0 < al_amount a" using rows
    by (auto simp: list_all2_conv_all_nth in_set_conv_nth row_of_def)
  ultimately have "ledger_keys db'" using keys new by (auto simp: ledger_keys_def db'')
  moreover have "\<forall>e\<in>set (fd_documents db'). doc_ok db' e"
  proof -
    have docs: "fd_documents db' = map (\<lambda>d. if \<exists>a\<in>set as. touched t a d then settle ?db d else d) (fd_documents db)" by (simp add: db'')
    show ?thesis unfolding docs set_map ball_simps
      using doc_ok_after [OF ok p col as [folded t] rows new _ settle alloc] unfolding t by blast
  qed
  ultimately show "ledger_ok db'" by (simp add: ledger_ok_def)
qed

lemma near_amount: "isMonetaryAmount v \<Longrightarrow> amount_range v \<Longrightarrow> \<exists>n. near v n"
  unfolding amount_range_def using near_monetary by blast

lemma create_payload:
  assumes "validPayment is_uuid p" "admissible (Pay env is_uuid actor p)" shows "payload_ok p"
  unfolding payload_ok_def
proof (intro conjI ballI)
  show "\<exists>n. near (cr_amount p) n" "cr_amount p \<le> cents money_limit" "one_name p" "length (cr_allocations p) \<le> 50"
    using assms by (auto simp: validPayment_def amount_range_def intro: near_amount)
  fix a assume "a \<in> set (cr_allocations p)"
  then show "\<exists>n. near (ai_amount a) n"
    using assms by (auto simp: validPayment_def validAllocation_def list_all_iff intro: near_amount)
qed

lemma create_ledger:
  assumes "ledger_ok db" "admissible (Pay env is_uuid actor p)" "create env is_uuid actor p db = Inr (db', r)"
  shows "ledger_ok db'"
proof (rule createInternal_ledger [OF assms(1)])
  from assms(3) have v: "validPayment is_uuid p" "createInternal env actor p db = Inr (db', r)" by (auto simp: create_def split: if_splits)
  show "createInternal env actor p db = Inr (db', r)" by (rule v)
  show "numeric_14_2 (fe_money env)" using assms(2) by simp
  show "payload_ok p" using v(1) assms(2) by (rule create_payload)
qed

lemma ledger_ok_operations [simp]: "ledger_ok (db\<lparr>fd_operations := ops\<rparr>) = ledger_ok db"
proof -
  let ?db = "db\<lparr>fd_operations := ops\<rparr>"
  have "settle ?db = settle db" by (rule settle_cong) simp_all
  moreover have "counts ?db = counts db" by (rule counts_cong) simp
  ultimately show ?thesis by (simp add: ledger_ok_def ledger_keys_def doc_ok_def doc_allocated_def allocated_def)
qed

lemma line_payment_ok: "line_amount_ok l \<Longrightarrow> amount_range (ln_amount l) \<Longrightarrow> payload_ok (line_payment t p l)"
  using near_fixed(1) [of "ln_amount l"] by (auto simp: payload_ok_def line_payment_def line_amount_ok_def amount_range_def one_name_def)

lemma payLines_ledger:
  "ledger_ok db \<Longrightarrow> numeric_14_2 (fe_money env) \<Longrightarrow> list_all line_amount_ok ls \<Longrightarrow> list_all (\<lambda>l. amount_range (ln_amount l)) ls \<Longrightarrow>
     payLines env actor t p ls db = Inr (db', rs) \<Longrightarrow> ledger_ok db'"
proof (induction ls arbitrary: db rs)
  case (Cons l ls)
  then obtain db1 r rs' where s: "createInternal env actor (line_payment t p l) db = Inr (db1, r)"
    "payLines env actor t p ls db1 = Inr (db', rs')" by (auto simp: and_then_Inr)
  have l: "line_amount_ok l" "amount_range (ln_amount l)" "list_all line_amount_ok ls" "list_all (\<lambda>l. amount_range (ln_amount l)) ls"
    using Cons.prems(3,4) by simp_all
  have "ledger_ok db1" using createInternal_ledger [OF Cons.prems(1) line_payment_ok [OF l(1,2)] Cons.prems(2) s(1)] .
  from Cons.IH [OF this Cons.prems(2) l(3,4) s(2)] show ?case .
qed simp

lemma claim_keeps: "fst (claimDocumentPaymentOperation r db) = db \<or>
    fst (claimDocumentPaymentOperation r db) = db\<lparr>fd_operations := fd_operations db @ [r]\<rparr>"
  by (simp add: claimDocumentPaymentOperation_def Let_def)

text \<open>The two ways a document payment succeeds: it replays a completed operation or performs a new one.\<close>

lemma createDocument_cases:
  assumes "createDocument env is_uuid fresh actor p db = Inr (db', rs)"
  obtains (replay) t q where "resolveTenantId actor (dp_tenantId p) = Inr t" "checkLines p = Inr ()"
      "find (is_operation t (coalesce (dp_operationKey p) fresh)) (fd_operations db) = Some q"
      "op_fingerprint q = buildDocumentPaymentFingerprint (fe_host env) p" "replayOperation t q db = Inr rs" "db' = db"
  | (perform) t q where "resolveTenantId actor (dp_tenantId p) = Inr t" "checkLines p = Inr ()"
      "find (is_operation t (coalesce (dp_operationKey p) fresh)) (fd_operations db) = None"
      "op_tenantId q = t" "op_key q = coalesce (dp_operationKey p) fresh"
      "op_fingerprint q = buildDocumentPaymentFingerprint (fe_host env) p"
      "performOperation env actor t (coalesce (dp_operationKey p) fresh) p (db\<lparr>fd_operations := fd_operations db @ [q]\<rparr>) = Inr (db', rs)"
proof -
  let ?key = "coalesce (dp_operationKey p) fresh" and ?print = "buildDocumentPaymentFingerprint (fe_host env) p"
  from assms obtain t where t: "checkLines p = Inr ()" "resolveTenantId actor (dp_tenantId p) = Inr t"
    by (auto simp: createDocument_def and_then_Inr split: if_splits)
  define q where "q = \<lparr>op_tenantId = t, op_key = ?key, op_fingerprint = ?print, op_referenceType = dp_type p, op_referenceId = dp_id p,
      op_paymentIds = None, op_completed = False\<rparr>"
  obtain db1 created found where c: "claimDocumentPaymentOperation q db = (db1, created, found)" by (rule prod_cases3)
  from assms have body: "(case found of None \<Rightarrow> Inl (BadRequest ''No se pudo registrar la operacion de pago'')
     | Some r \<Rightarrow> if op_fingerprint r \<noteq> ?print then Inl (Conflict ''La clave de operacion ya fue usada con otros datos'')
         else if \<not> created then and_then (replayOperation t r db1) (\<lambda>rs. Inr (db1, rs))
         else performOperation env actor t ?key p db1) = Inr (db', rs)"
    by (simp add: createDocument_def t Let_def c [unfolded q_def] split: if_splits)
  have q: "op_tenantId q = t" "op_key q = ?key" "op_fingerprint q = ?print" by (simp_all add: q_def)
  have none: "find (is_operation t ?key) (fd_operations db) = None \<longleftrightarrow> \<not> (\<exists>r\<in>set (fd_operations db). is_operation t ?key r)"
    by (simp add: find_None_iff) blast
  show thesis
  proof (cases "\<exists>r\<in>set (fd_operations db). is_operation t ?key r")
    case True
    then have f: "db1 = db" "\<not> created" "found = find (is_operation t ?key) (fd_operations db)"
      using c by (auto simp: claimDocumentPaymentOperation_def Let_def q getDocumentPaymentOperation_def)
    have "found \<noteq> None" unfolding f(3) none using True by blast
    then obtain r where r: "found = Some r" by blast
    have "op_fingerprint r = ?print" "replayOperation t r db = Inr rs" "db' = db"
      using body f(1,2) by (auto simp: r and_then_Inr split: if_splits)
    with t r f(3) show thesis by (intro replay) auto
  next
    case False
    then have "db1 = db\<lparr>fd_operations := fd_operations db @ [q]\<rparr>" "created"
      using c by (auto simp: claimDocumentPaymentOperation_def Let_def q)
    with body have "performOperation env actor t ?key p (db\<lparr>fd_operations := fd_operations db @ [q]\<rparr>) = Inr (db', rs)"
      by (auto split: option.splits if_splits)
    with False t q none perform show thesis by blast
  qed
qed

lemma createDocument_ledger:
  assumes "ledger_ok db" "admissible (PayDocument env is_uuid fresh actor p)" "createDocument env is_uuid fresh actor p db = Inr (db', rs)"
  shows "ledger_ok db'"
  using assms(3)
proof (cases rule: createDocument_cases)
  case (replay t q)
  with assms(1) show ?thesis by simp
next
  case (perform t q)
  let ?db = "db\<lparr>fd_operations := fd_operations db @ [q]\<rparr>"
  have ok: "ledger_ok ?db" using assms(1) by simp
  have lines: "list_all line_amount_ok (dp_payments p)" using perform(2) by (simp add: checkLines_def)
  from perform(7) obtain db2 where "payLines env actor t p (dp_payments p) ?db = Inr (db2, rs)"
    "db' = completeDocumentPaymentOperation t (coalesce (dp_operationKey p) fresh) (map rp_id rs) db2"
    by (auto simp: performOperation_def and_then_Inr)
  with payLines_ledger [OF ok _ lines] assms(2) show ?thesis by (auto simp: completeDocumentPaymentOperation_def)
qed

interpretation payment_run: preserved_by admissible fin_step ledger_ok
proof
  fix r db db'
  assume "admissible r" "ledger_ok db" "fin_step r db = Inr db'"
  then show "ledger_ok db'"
    by (cases r) (auto simp: and_then_Inr simp del: admissible.simps intro: create_ledger createDocument_ledger)
qed

end
