(* ===== verification/Payment_Safety.thy ===== *)
theory Payment_Safety
  imports Payment_Facts
begin

section \<open>What payments guarantee\<close>

text \<open>
  The properties of the payments service, from the invariant of Payment\_Facts, and the facts on a
  document payment and its replay.
\<close>

subsection \<open>The replay of a document payment\<close>

lemma js_trim_ends:
  assumes "js_trim s = c # cs" shows "\<not> js_space c" "\<not> js_space (last (c # cs))"
proof -
  define u where "u = dropWhile js_space s"
  define v where "v = dropWhile js_space (rev u)"
  have t: "js_trim s = rev v" by (simp add: js_trim_def u_def v_def)
  then have ne: "v \<noteq> []" using assms by auto
  then have "\<not> js_space (hd v)" unfolding v_def by (rule hd_dropWhile)
  moreover have "last (c # cs) = hd v" using ne unfolding assms [symmetric] t by (simp add: last_rev)
  ultimately show "\<not> js_space (last (c # cs))" by simp
  have suf: "rev u = takeWhile js_space (rev u) @ v" by (simp add: v_def)
  then have "last v = hd u" using ne by (metis hd_rev last_appendR rev_rev_ident)
  moreover have "u \<noteq> []" using ne v_def by auto
  then have "\<not> js_space (hd u)" unfolding u_def by (rule hd_dropWhile)
  moreover have "c = last v" using t assms ne by (metis hd_rev list.sel(1))
  ultimately show "\<not> js_space c" by simp
qed

lemma js_trim_idem [simp]: "js_trim (js_trim s) = js_trim s"
proof (cases "js_trim s")
  case Nil
  show ?thesis unfolding Nil by (simp add: js_trim_def)
next
  case (Cons c cs)
  have "dropWhile js_space (c # cs) = c # cs" using js_trim_ends(1) [OF Cons] by simp
  moreover have "dropWhile js_space (rev (c # cs)) = rev (c # cs)"
  proof -
    have "\<not> js_space (hd (rev (c # cs)))" using js_trim_ends(2) [OF Cons] by (subst hd_rev)
    then show ?thesis by (cases "rev (c # cs)") simp_all
  qed
  ultimately have "js_trim (c # cs) = c # cs" by (simp only: js_trim_def rev_rev_ident)
  then show ?thesis by (simp only: Cons)
qed

lemma financeActor_trimmed: "financeActor u t rs = Inr actor \<Longrightarrow> js_trim (fa_tenantId actor) = fa_tenantId actor \<and> fa_tenantId actor \<noteq> []"
  by (auto simp: financeActor_def trimmed_def split: option.splits if_splits)

lemma resolveTenantId_again:
  assumes "resolveTenantId actor x = Inr t" "js_trim (fa_tenantId actor) = fa_tenantId actor" "fa_tenantId actor \<noteq> []"
  shows "resolveTenantId actor (Some t) = Inr t"
proof -
  have "js_trim t = t \<and> t \<noteq> []"
    using assms by (auto simp: resolveTenantId_def trimmed_def split: if_splits option.splits)
  then show ?thesis using assms by (auto simp: resolveTenantId_def trimmed_def split: if_splits)
qed

lemma createInternal_keys:
  assumes "ledger_keys db" "createInternal env actor p db = Inr (db', r)"
  shows "ledger_keys db'"
  using assms(2)
proof (rule createInternal_effect)
  fix t s m as row rows ms
  assume new: "pm_id row \<notin> pm_id ` set (fd_payments db)" and rows: "list_all2 (row_of (fe_money env) (pm_id row)) as rows"
    and db': "db' = reconcileDocumentBalances t as (db\<lparr>fd_payments := fd_payments db @ [row], fd_allocations := fd_allocations db @ rows,
       fd_movements := fd_movements db @ ms\<rparr>)"
  have "db' = (add_rows row rows ms db)\<lparr>fd_documents := map (\<lambda>d. if \<exists>a\<in>set as. touched t a d
      then settle (add_rows row rows ms db) d else d) (fd_documents db)\<rparr>"
    by (simp only: db' add_rows_def [symmetric] reconcile_rows)
  moreover have "map doc_key (map (\<lambda>d. if \<exists>a\<in>set as. touched t a d then settle e d else d) (fd_documents db)) = map doc_key (fd_documents db)" for e
    by (simp add: doc_key_def comp_def)
  moreover have "\<forall>a\<in>set rows. al_paymentId a = pm_id row \<and> 0 < al_amount a" using list_all2_in [OF rows] by (auto simp: row_of_def)
  ultimately show "ledger_keys db'" using assms(1) new by (auto simp: ledger_keys_def simp del: map_map)
qed

lemma createInternal_response:
  assumes "createInternal env actor p db = Inr (db', r)"
  shows "rp_status r = coalesce (cr_status p) PAY_COMPLETED \<and> rp_methodId r = cr_methodId p \<and>
    resolveTenantId actor (cr_tenantId p) = Inr (rp_tenantId r)"
  using assms
proof (rule createInternal_effect)
  fix t s m as row rows ms
  assume t: "resolveTenantId actor (cr_tenantId p) = Inr t" and row: "row = new_payment env actor t p (map_option cs_id s) (pm_amount row) db"
    and r: "r = mapPayment row rows"
  have "pm_status row = coalesce (cr_status p) PAY_COMPLETED" "pm_methodId row = cr_methodId p" "pm_tenantId row = t"
    by (subst row, simp add: new_payment_def)+
  with t show ?thesis by (simp add: r mapPayment_def Let_def)
qed

text \<open>The payments of a document payment, each with its allocations.\<close>

definition paid_line :: "fin_env \<Rightarrow> string \<Rightarrow> fin_db \<Rightarrow> payment_row \<times> allocation_row list \<Rightarrow> bool" where
  "paid_line env t db qa \<longleftrightarrow> pm_tenantId (fst qa) = t \<and> findMethodById (pm_methodId (fst qa)) t db \<noteq> None \<and>
     (\<forall>a\<in>set (snd qa). al_paymentId a = pm_id (fst qa) \<and> al_createdAt a = fe_now env)"

lemma createInternal_line:
  assumes "createInternal env actor p db = Inr (db', r)" "resolveTenantId actor (cr_tenantId p) = Inr t"
  obtains q as where "fd_payments db' = fd_payments db @ [q]" "fd_allocations db' = fd_allocations db @ as" "r = mapPayment q as"
    "paid_line env t db (q, as)" "fd_operations db' = fd_operations db" "fd_methods db' = fd_methods db"
  using assms(1)
proof (rule createInternal_effect)
  fix t' s m as row rows ms
  assume t': "resolveTenantId actor (cr_tenantId p) = Inr t'" and m: "resolveMethod t' p db = Inr m"
    and row: "row = new_payment env actor t' p (map_option cs_id s) (pm_amount row) db"
    and rows: "list_all2 (row_of (fe_money env) (pm_id row)) as rows" and now: "\<forall>a\<in>set rows. al_createdAt a = fe_now env"
    and db': "db' = reconcileDocumentBalances t' as (db\<lparr>fd_payments := fd_payments db @ [row], fd_allocations := fd_allocations db @ rows,
       fd_movements := fd_movements db @ ms\<rparr>)" and r: "r = mapPayment row rows"
  have db'': "db' = (add_rows row rows ms db)\<lparr>fd_documents := map (\<lambda>d. if \<exists>a\<in>set as. touched t' a d
      then settle (add_rows row rows ms db) d else d) (fd_documents db)\<rparr>"
    by (simp only: db' add_rows_def [symmetric] reconcile_rows)
  have "pm_tenantId row = t" "pm_methodId row = cr_methodId p" using t' assms(2) by (subst row, simp add: new_payment_def)+
  moreover have "findMethodById (cr_methodId p) t db \<noteq> None" using m t' assms(2) by (auto simp: resolveMethod_def split: option.splits)
  moreover have "\<forall>a\<in>set rows. al_paymentId a = pm_id row" using list_all2_in [OF rows] by (auto simp: row_of_def)
  ultimately have "paid_line env t db (row, rows)" using now by (simp add: paid_line_def)
  then show thesis by (intro that [OF _ _ r]) (simp_all add: db'')
qed

lemma payLines_effect:
  assumes "payLines env actor t p ls db = Inr (db', rs)" "ledger_keys db" "resolveTenantId actor (Some t) = Inr t"
  shows "\<exists>qs. fd_payments db' = fd_payments db @ map fst qs \<and> fd_allocations db' = fd_allocations db @ concat (map snd qs) \<and>
    rs = map (\<lambda>(q, as). mapPayment q as) qs \<and> list_all (paid_line env t db) qs \<and> ledger_keys db' \<and>
    fd_operations db' = fd_operations db \<and> fd_methods db' = fd_methods db \<and> length qs = length ls"
  using assms(1,2)
proof (induction ls arbitrary: db rs)
  case Nil
  then show ?case by (intro exI [of _ "[]"]) auto
next
  case (Cons l ls)
  then obtain db1 r rs' where s: "createInternal env actor (line_payment t p l) db = Inr (db1, r)"
    "payLines env actor t p ls db1 = Inr (db', rs')" "rs = r # rs'" by (auto simp: and_then_Inr)
  have "resolveTenantId actor (cr_tenantId (line_payment t p l)) = Inr t" using assms(3) by (simp add: line_payment_def)
  from createInternal_line [OF s(1) this] obtain q as where q: "fd_payments db1 = fd_payments db @ [q]"
    "fd_allocations db1 = fd_allocations db @ as" "r = mapPayment q as" "paid_line env t db (q, as)"
    "fd_operations db1 = fd_operations db" "fd_methods db1 = fd_methods db" by blast
  from Cons.IH [OF s(2) createInternal_keys [OF Cons.prems(2) s(1)]] obtain qs where
    qs: "fd_payments db' = fd_payments db1 @ map fst qs" "fd_allocations db' = fd_allocations db1 @ concat (map snd qs)"
      "rs' = map (\<lambda>(q, as). mapPayment q as) qs" "list_all (paid_line env t db1) qs" "ledger_keys db'"
      "fd_operations db' = fd_operations db1" "fd_methods db' = fd_methods db1" "length qs = length ls" by blast
  have "paid_line env t db1 = paid_line env t db" by (simp add: paid_line_def findMethodById_def q fun_eq_iff)
  with q qs s(3) show ?case by (intro exI [of _ "(q, as) # qs"]) auto
qed

lemma concat_owner:
  "distinct (map (\<lambda>qa. pm_id (fst qa)) qs) \<Longrightarrow> \<forall>qa\<in>set qs. \<forall>a\<in>set (snd qa). al_paymentId a = pm_id (fst qa) \<Longrightarrow>
     (q, as) \<in> set qs \<Longrightarrow> filter (\<lambda>a. al_paymentId a = pm_id q) (concat (map snd qs)) = as"
proof (induction qs)
  case (Cons qa qs)
  have own: "filter (\<lambda>a. al_paymentId a = pm_id q) (snd qb) = (if pm_id (fst qb) = pm_id q then snd qb else [])" if "qb \<in> set (qa # qs)" for qb
    using Cons.prems(2) that by (auto simp: filter_empty_conv intro!: filter_True)
  show ?case
  proof (cases "qa = (q, as)")
    case True
    then have "filter (\<lambda>a. al_paymentId a = pm_id q) (concat (map snd qs)) = []"
      using Cons.prems(1,2) by (force simp: filter_empty_conv)
    with True own [of qa] show ?thesis by simp
  next
    case False
    then have "(q, as) \<in> set qs" using Cons.prems(3) by auto
    moreover then have "pm_id (fst qa) \<noteq> pm_id q" using Cons.prems(1) by force
    ultimately show ?thesis using Cons own [of qa] by simp
  qed
qed simp

lemma sort_key_const: "\<forall>x\<in>set xs. f x = c \<Longrightarrow> sort_key f xs = xs"
proof (induction xs)
  case (Cons x xs)
  then have "insort_key f x xs = x # xs" by (cases xs) simp_all
  with Cons show ?case by simp
qed simp

lemma filter_sort_key: "filter P (sort_key f xs) = sort_key f (filter P xs)"
  by (rule filter_sort)

lemma replay_rows:
  assumes keys: "ledger_keys db'" and old: "ledger_keys db"
    and p: "fd_payments db' = fd_payments db @ map fst qs" and a: "fd_allocations db' = fd_allocations db @ concat (map snd qs)"
    and m: "fd_methods db' = fd_methods db" and line: "list_all (paid_line env t db) qs"
  defines "ids \<equiv> map (\<lambda>qa. pm_id (fst qa)) qs"
  shows "mset (map (\<lambda>q. mapPayment q (listAllocationsByPaymentIds ids db')) (listByIds ids t db')) = mset (map (\<lambda>(q, as). mapPayment q as) qs)"
proof -
  have dist: "distinct (map pm_id (fd_payments db) @ ids)" using keys by (simp add: ledger_keys_def p ids_def comp_def)
  have ids: "ids = map pm_id (map fst qs)" by (simp add: ids_def)
  have "filter (\<lambda>q. pm_id q \<in> set ids \<and> pm_tenantId q = t \<and> findMethodById (pm_methodId q) (pm_tenantId q) db' \<noteq> None) (fd_payments db) = []"
    using dist by (auto simp: filter_empty_conv)
  moreover have "filter (\<lambda>q. pm_id q \<in> set ids \<and> pm_tenantId q = t \<and> findMethodById (pm_methodId q) (pm_tenantId q) db' \<noteq> None) (map fst qs) = map fst qs"
  proof (rule filter_True, rule ballI)
    fix q assume q: "q \<in> set (map fst qs)"
    then have "pm_tenantId q = t" "findMethodById (pm_methodId q) t db \<noteq> None" using line by (auto simp: list_all_iff paid_line_def)
    moreover have "pm_id q \<in> set ids" using q unfolding ids by (metis imageI set_map)
    ultimately show "pm_id q \<in> set ids \<and> pm_tenantId q = t \<and> findMethodById (pm_methodId q) (pm_tenantId q) db' \<noteq> None"
      by (simp add: findMethodById_def m)
  qed
  ultimately have "mset (listByIds ids t db') = mset (map fst qs)" by (simp add: listByIds_def p)
  then have "mset (map (\<lambda>q. mapPayment q (listAllocationsByPaymentIds ids db')) (listByIds ids t db')) =
      mset (map (\<lambda>q. mapPayment q (listAllocationsByPaymentIds ids db')) (map fst qs))" by (simp only: mset_map)
  also have "map (\<lambda>q. mapPayment q (listAllocationsByPaymentIds ids db')) (map fst qs) = map (\<lambda>(q, as). mapPayment q as) qs"
  proof -
    have one: "mapPayment q (listAllocationsByPaymentIds ids db') = mapPayment q as" if qa: "(q, as) \<in> set qs" for q as
    proof -
      have own: "\<forall>a\<in>set as. al_paymentId a = pm_id q \<and> al_createdAt a = fe_now env" and id: "pm_id q \<in> set ids"
        using qa line unfolding ids_def by (force simp: list_all_iff paid_line_def)+
      have "pm_id q \<notin> pm_id ` set (fd_payments db)" using id dist by auto
      then have none: "filter (\<lambda>a. al_paymentId a = pm_id q) (fd_allocations db) = []"
        using old unfolding filter_empty_conv ledger_keys_def by metis
      have "filter (\<lambda>a. al_paymentId a = pm_id q) (concat (map snd qs)) = as"
        using dist line qa by (intro concat_owner) (auto simp: ids_def list_all_iff paid_line_def)
      with none have all: "filter (\<lambda>a. al_paymentId a = pm_id q) (fd_allocations db') = as" by (simp add: a)
      have "filter (\<lambda>a. al_paymentId a = pm_id q) (filter (\<lambda>a. al_paymentId a \<in> set ids) (fd_allocations db')) = as"
      proof -
        have "filter (\<lambda>a. al_paymentId a \<in> set ids \<and> al_paymentId a = pm_id q) (fd_allocations db') = filter (\<lambda>a. al_paymentId a = pm_id q) (fd_allocations db')"
          by (rule filter_cong) (use id in auto)
        then show ?thesis unfolding filter_filter using all by (rule trans)
      qed
      then have "filter (\<lambda>a. al_paymentId a = pm_id q) (listAllocationsByPaymentIds ids db') = sort_key al_createdAt as"
        unfolding listAllocationsByPaymentIds_def filter_sort_key by (simp only:)
      also have "\<dots> = as" using own by (intro sort_key_const) blast
      finally have "filter (\<lambda>a. al_paymentId a = pm_id q) (listAllocationsByPaymentIds ids db') = as" .
      moreover have "filter (\<lambda>a. al_paymentId a = pm_id q) as = as" using own by (simp add: filter_id_conv)
      ultimately show ?thesis by (simp add: mapPayment_def)
    qed
    then show ?thesis by auto
  qed
  finally show ?thesis .
qed

lemma replay_answer:
  assumes "validDocumentPayment is_uuid p" "checkLines p = Inr ()" "canOperatePayments actor" "resolveTenantId actor (dp_tenantId p) = Inr t"
    "dp_operationKey p = Some k" "find (is_operation t k) (fd_operations db) = Some q"
    "op_fingerprint q = buildDocumentPaymentFingerprint (fe_host env) p"
  shows "createDocument env is_uuid fresh actor p db = and_then (replayOperation t q db) (\<lambda>rs. Inr (db, rs))"
proof -
  have "\<exists>r\<in>set (fd_operations db). is_operation t k r" using find_in [OF assms(6)] by blast
  then have "claimDocumentPaymentOperation r db = (db, False, Some q)" if "op_tenantId r = t" "op_key r = k" for r
    using that assms(6) unfolding claimDocumentPaymentOperation_def Let_def getDocumentPaymentOperation_def
    by (simp only: not_not simp_thms if_False refl)
  with assms show ?thesis by (simp add: createDocument_def Let_def)
qed

text \<open>
  Property C15: a document payment repeated under its operation key, by whoever resolves to the same
  tenant and with a request of the same fingerprint, changes nothing and returns the same payments.
\<close>

theorem document_payment_idempotent:
  assumes "ledger_keys db" "financeActor u tid roles = Inr actor"
    and "createDocument env is_uuid fresh actor p db = Inr (db', rs)"
    and "dp_operationKey p = Some k" "dp_operationKey p' = Some k"
    and "buildDocumentPaymentFingerprint (fe_host env') p' = buildDocumentPaymentFingerprint (fe_host env) p"
    and "validDocumentPayment is_uuid' p'" "checkLines p' = Inr ()" "canOperatePayments actor'"
    and "resolveTenantId actor' (dp_tenantId p') = resolveTenantId actor (dp_tenantId p)"
  shows "\<exists>rs'. createDocument env' is_uuid' fresh' actor' p' db' = Inr (db', rs') \<and> mset rs' = mset rs"
proof -
  note again = replay_answer [where env = env' and is_uuid = is_uuid' and fresh = fresh' and actor = actor' and p = p', OF assms(7-9) _ assms(5)]
  show ?thesis using assms(3)
  proof (cases rule: createDocument_cases)
    case (replay t q)
    with again [of t db' q] assms(4,6,10) show ?thesis by simp
  next
    case (perform t q)
    let ?db = "db\<lparr>fd_operations := fd_operations db @ [q]\<rparr>"
    from perform(7) obtain db2 where pay: "payLines env actor t p (dp_payments p) ?db = Inr (db2, rs)"
      and db': "db' = completeDocumentPaymentOperation t k (map rp_id rs) db2"
      by (auto simp: performOperation_def and_then_Inr assms(4))
    have keys: "ledger_keys ?db" using assms(1) by (simp add: ledger_keys_def)
    have t: "resolveTenantId actor (Some t) = Inr t"
      using resolveTenantId_again [OF perform(1)] financeActor_trimmed [OF assms(2)] by blast
    from payLines_effect [OF pay keys t] obtain qs where
      qs: "fd_payments db2 = fd_payments ?db @ map fst qs" "fd_allocations db2 = fd_allocations ?db @ concat (map snd qs)"
        "rs = map (\<lambda>(q, as). mapPayment q as) qs" "list_all (paid_line env t ?db) qs" "ledger_keys db2"
        "fd_operations db2 = fd_operations ?db" "fd_methods db2 = fd_methods ?db" "length qs = length (dp_payments p)" by blast
    have ids: "map rp_id rs = map (\<lambda>qa. pm_id (fst qa)) qs" by (simp add: qs(3) mapPayment_def Let_def case_prod_beta')
    let ?q = "q\<lparr>op_completed := True, op_paymentIds := Some (map rp_id rs)\<rparr>"
    have "find (is_operation t k) (fd_operations db') = Some ?q"
    proof -
      have q: "is_operation t k q" using perform assms(4) by (simp add: is_operation_def)
      have "\<forall>r\<in>set (fd_operations db). \<not> is_operation t k r" using perform(3) assms(4) by (simp add: find_None_iff)
      then have "update_where (is_operation t k) f (fd_operations db) = fd_operations db" for f by (rule update_where_none)
      then have "fd_operations db' = fd_operations db @ [?q]"
        using q unfolding db' completeDocumentPaymentOperation_def by (simp add: qs(6) update_where_def)
      then show ?thesis using perform(3) assms(4) q by (simp add: find_append is_operation_def)
    qed
    from again [OF _ this] perform(1,6) assms(6,10)
    have run: "createDocument env' is_uuid' fresh' actor' p' db' = and_then (replayOperation t ?q db') (\<lambda>rs. Inr (db', rs))" by simp
    have "rs \<noteq> []" using qs(3,8) perform(2) by (auto simp: checkLines_def)
    then have "replayOperation t ?q db' = Inr (map (\<lambda>q. mapPayment q (listAllocationsByPaymentIds (map rp_id rs) db')) (listByIds (map rp_id rs) t db'))"
      by (auto simp: replayOperation_def split: list.split)
    moreover have "mset (map (\<lambda>q. mapPayment q (listAllocationsByPaymentIds (map rp_id rs) db')) (listByIds (map rp_id rs) t db')) = mset rs"
      unfolding ids unfolding qs(3)
    proof (rule replay_rows [OF _ keys _ _ _ qs(4)])
      show "ledger_keys db'" using qs(5) by (simp add: db' completeDocumentPaymentOperation_def ledger_keys_def)
    qed (simp_all add: db' completeDocumentPaymentOperation_def qs)
    ultimately show ?thesis unfolding run by simp
  qed
qed

subsection \<open>The ledger\<close>



definition paid_by :: "string \<Rightarrow> fin_db \<Rightarrow> int" where
  "paid_by i db = sum_list (map al_amount (filter (\<lambda>a. al_paymentId a = i) (fd_allocations db)))"

text \<open>
  A payment that is registered adds one row, whose allocations never exceed its amount
  and reach it to the cent unless the request allows an overpayment.
\<close>

theorem payment_fully_allocated:
  assumes "ledger_ok db" "admissible (Pay env is_uuid actor p)" "create env is_uuid actor p db = Inr (db', r)"
  shows "\<exists>row. fd_payments db' = fd_payments db @ [row] \<and> pm_id row = rp_id r \<and> paid_by (pm_id row) db' \<le> pm_amount row \<and>
    (cr_allowOverpayment p \<or> paid_by (pm_id row) db' = pm_amount row)"
proof -
  have v: "validPayment is_uuid p" "createInternal env actor p db = Inr (db', r)"
    using assms(3) by (auto simp: create_def split: if_splits)
  have p: "payload_ok p" and col: "numeric_14_2 (fe_money env)"
    using create_payload [OF v(1) assms(2)] assms(2) by simp_all
  have keys: "ledger_keys db" using assms(1) by (simp add: ledger_ok_def)
  from v(2) show ?thesis
  proof (rule createInternal_effect)
    fix t s m as row rows ms
    assume as: "resolveAllocations t p db = Inr as" and n: "fe_money env (cr_amount p) = Some (pm_amount row)"
      and new: "pm_id row \<notin> pm_id ` set (fd_payments db)" and rows: "list_all2 (row_of (fe_money env) (pm_id row)) as rows"
      and r: "r = mapPayment row rows"
      and db': "db' = reconcileDocumentBalances t as (db\<lparr>fd_payments := fd_payments db @ [row], fd_allocations := fd_allocations db @ rows,
         fd_movements := fd_movements db @ ms\<rparr>)"
    have tabs: "fd_payments db' = fd_payments db @ [row]" "fd_allocations db' = fd_allocations db @ rows"
      by (simp_all add: db' reconcile_settles)
    have "filter (\<lambda>a. al_paymentId a = pm_id row) (fd_allocations db) = []"
      using keys new unfolding filter_empty_conv ledger_keys_def by metis
    moreover have "filter (\<lambda>a. al_paymentId a = pm_id row) rows = rows"
      using list_all2_in [OF rows] by (auto simp: filter_id_conv row_of_def)
    ultimately have paid: "paid_by (pm_id row) db' = sum_list (map al_amount rows)" by (simp add: paid_by_def tabs)
    note req = requested_ok [OF assms(1) p col as]
    have "list_all2 near (map ai_amount (filter (\<lambda>_. True) as)) (map al_amount (filter (\<lambda>_. True) rows))"
      by (rule list_all2_filter_sum [OF rows]) (use req(1) in blast)
    then have near: "list_all2 near (map ai_amount as) (map al_amount rows)" by simp
    have len: "length (map ai_amount as) \<le> 50" using req(2) by simp
    obtain k where "near (cr_amount p) k" using p by (auto simp: payload_ok_def)
    then have a: "near (cr_amount p) (pm_amount row)" using near_stored [OF _ col n] by blast
    have lim: "cr_amount p \<le> cents money_limit" using p by (simp add: payload_ok_def)
    obtain due where "as = buildRequestedAllocations p due" "checkAmounts p as = Inr ()" using resolveAllocations_checked [OF as] by metis
    then have c: "add_up 0 (map ai_amount as) \<le> cr_amount p"
      "cr_allowOverpayment p \<or> \<not> 0 < to_fixed2 (dbl (cr_amount p - add_up 0 (map ai_amount as)))"
      using checkAmounts_sum by blast+
    have "sum_list (map al_amount rows) \<le> pm_amount row" using sum_within [OF near len a lim c(1)] .
    moreover have "cr_allowOverpayment p \<or> sum_list (map al_amount rows) = pm_amount row"
      using c(2) sum_complete [OF near len a lim c(1)] by blast
    ultimately show ?thesis using tabs paid r by (auto simp: mapPayment_def Let_def)
  qed
qed

text \<open>
  Property C16: a payment moves cash only in a session of its tenant and branch that is open and
  that the actor opened, is assigned to or may administer; it moves it once, with its own amount
  and direction; and a completed cash payment always moves it.
\<close>

theorem cash_moves_in_open_session:
  assumes "create env is_uuid actor p db = Inr (db', r)"
  shows "(fd_movements db' = fd_movements db \<and> \<not> (rp_status r = PAY_COMPLETED \<and>
        map_option me_tipo (findMethodById (rp_methodId r) (rp_tenantId r) db) = Some ''CASH'')) \<or>
    (\<exists>m s. fd_movements db' = fd_movements db @ [m] \<and> s \<in> set (fd_sessions db) \<and> cs_status s = ''OPEN'' \<and>
      cs_tenantId s = rp_tenantId r \<and> cs_branchId s = rp_branchId r \<and>
      (canAdminPayments actor \<or> cs_openedBy s = fa_userId actor \<or> hasActiveAssignment (cs_registerId s) (fa_userId actor) db) \<and>
      cv_cashSessionId m = cs_id s \<and> cv_paymentId m = Some (rp_id r) \<and> cv_in m = rp_in r \<and> cents (cv_amount m) = rp_amount r)"
proof -
  have v: "createInternal env actor p db = Inr (db', r)" using assms by (auto simp: create_def split: if_splits)
  then show ?thesis
  proof (rule createInternal_effect)
    fix t s m as row rows ms
    assume meth: "resolveMethod t p db = Inr m" and s: "checkSession actor t p m db = Inr s"
      and row: "row = new_payment env actor t p (map_option cs_id s) (pm_amount row) db"
      and r: "r = mapPayment row rows"
      and ms: "ms = (case s of None \<Rightarrow> [] | Some s \<Rightarrow> if pm_status row = PAY_COMPLETED then [payment_movement env row s db] else [])"
      and db': "db' = reconcileDocumentBalances t as (db\<lparr>fd_payments := fd_payments db @ [row], fd_allocations := fd_allocations db @ rows,
         fd_movements := fd_movements db @ ms\<rparr>)"
    have mv: "fd_movements db' = fd_movements db @ ms" by (simp add: db' reconcile_settles)
    have res: "rp_status r = pm_status row" "rp_methodId r = pm_methodId row" "rp_tenantId r = pm_tenantId row" "rp_branchId r = pm_branchId row"
      "rp_id r = pm_id row" "rp_in r = pm_in row" "rp_amount r = cents (pm_amount row)" by (simp_all add: r mapPayment_def Let_def)
    have cols: "pm_tenantId row = t" "pm_branchId row = cr_branchId p" "pm_methodId row = cr_methodId p" by (subst row, simp add: new_payment_def)+
    have tipo: "findMethodById (cr_methodId p) t db = Some m" using meth by (auto simp: cols resolveMethod_def split: option.splits if_splits)
    show ?thesis
    proof (cases s)
      case None
      then have "me_tipo m \<noteq> ''CASH''" using s by (auto simp: checkSession_def Let_def split: if_splits option.splits)
      then show ?thesis using None by (simp add: mv ms res cols tipo)
    next
      case (Some u)
      have u: "u \<in> set (fd_sessions db)" "cs_status u = ''OPEN''" "cs_tenantId u = t" "cs_branchId u = cr_branchId p"
        "canAdminPayments actor \<or> cs_openedBy u = fa_userId actor \<or> hasActiveAssignment (cs_registerId u) (fa_userId actor) db"
        using s unfolding Some by (auto simp: checkSession_def Let_def findSessionById_def split: if_splits option.splits dest!: find_in)
      show ?thesis
      proof (cases "pm_status row = PAY_COMPLETED")
        case True
        then have "ms = [payment_movement env row u db]" by (simp add: ms Some)
        then show ?thesis unfolding mv using u by (intro disjI2 exI [of _ "payment_movement env row u db"] exI [of _ u]) (auto simp: res cols payment_movement_def)
      next
        case False
        then show ?thesis by (simp add: mv ms Some res)
      qed
    qed
  qed
qed

subsection \<open>Witnesses\<close>

text \<open>A purchase of 100.00 and an administrator with an open session.\<close>

definition w_host :: text_host where
  "w_host = \<lparr>date_parse = (\<lambda>_. None), iso_string = (\<lambda>_. []), locale_compare = (\<lambda>_ _. 0), sha256_hex = (\<lambda>s. s),
     number_text = (\<lambda>_. []), number_of = (\<lambda>_. NaN), json_parse = (\<lambda>_. None), type_error = []\<rparr>"

definition w_env :: fin_env where
  "w_env = \<lparr>fe_host = w_host, fe_now = 7, fe_uuid = decimal, fe_money = round_14_2\<rparr>"

definition w_actor :: fin_actor where
  "w_actor = \<lparr>fa_userId = ''u'', fa_tenantId = ''t'', fa_roles = [''ADMIN'']\<rparr>"

definition w_purchase :: document_row where
  "w_purchase = \<lparr>dc_kind = D_PURCHASE, dc_id = ''d'', dc_tenantId = ''t'', dc_branchId = None, dc_status = ''OPEN'', dc_cash = False,
     dc_orderId = None, dc_partyId = Some ''s'', dc_total = 10000, dc_totalPaid = 0, dc_balance = None, dc_balanceDue = None,
     dc_paymentStatus = ''PENDING''\<rparr>"

definition w_db :: fin_db where
  "w_db = \<lparr>fd_payments = [], fd_allocations = [], fd_movements = [], fd_documents = [w_purchase],
     fd_sessions = [\<lparr>cs_id = ''c'', cs_tenantId = ''t'', cs_branchId = ''b'', cs_registerId = ''r'', cs_openedBy = ''u'', cs_openedAt = 1, cs_status = ''OPEN''\<rparr>],
     fd_operations = [], fd_users = [(''u'', ''t'', ''ACTIVE'')], fd_branches = [(''b'', ''t'', ''ACTIVE'')], fd_userBranches = [],
     fd_persons = [], fd_methods = [\<lparr>me_id = ''m'', me_tenantId = ''t'', me_tipo = ''CASH'', me_active = True, me_requiresReference = False,
       me_requiresInstitution = False\<rparr>], fd_institutions = [], fd_assignments = []\<rparr>"

definition w_line :: "string option \<Rightarrow> payment_line" where
  "w_line notes = \<lparr>ln_methodId = ''m'', ln_amount = 20, ln_referenceNumber = None, ln_notes = notes\<rparr>"

definition w_document :: "string option \<Rightarrow> document_payment_input" where
  "w_document notes = \<lparr>dp_operationKey = Some ''k'', dp_tenantId = None, dp_branchId = ''b'', dp_cashSessionId = ''c'',
     dp_type = R_PURCHASE, dp_id = ''d'', dp_payments = [w_line notes]\<rparr>"

definition w_payment :: payment_input where
  "w_payment = line_payment ''t'' (w_document None) (w_line None)"

abbreviation w_ops :: "operation_row list \<Rightarrow> fin_db" where
  "w_ops ops \<equiv> w_db\<lparr>fd_operations := ops\<rparr>"

lemma w_tables [simp]:
  "fd_payments w_db = []" "fd_allocations w_db = []" "fd_movements w_db = []" "fd_documents w_db = [w_purchase]" "fd_operations w_db = []"
  by (simp_all add: w_db_def)

lemma w_ops_same: "w_ops [] = w_db"
  by (simp add: w_db_def)

lemma w_numbers: "cents 10000 = 100" "cents 0 = 0" "to_fixed2 100 = 100" "to_fixed2 20 = 20" "to_fixed2 0 = 0" "dbl 100 = 100" "dbl 20 = 20"
  "cents 2000 = 20" "round_14_2 20 = Some 2000" "dbl 2000 = 2000" "js_round (20 * 100) = 2000" "js_round 2000 = 2000" "20 \<le> cents 99999999999999" "20 \<le> cents money_limit"
  by code_simp+

lemma w_purchase_fields [simp]:
  "dc_kind w_purchase = D_PURCHASE" "dc_id w_purchase = ''d''" "dc_tenantId w_purchase = ''t''" "dc_branchId w_purchase = None"
  "dc_status w_purchase = ''OPEN''" "dc_partyId w_purchase = Some ''s''" "dc_total w_purchase = 10000" "documentBalance w_purchase = None"
  by (simp_all add: w_purchase_def documentBalance_def)

lemma w_ledger: "ledger_ok w_db"
  by (simp add: ledger_ok_def ledger_keys_def doc_ok_def doc_allocated_def allocated_def money_limit_def)

lemma w_checks:
  "resolveTenantId w_actor None = Inr ''t''" "resolveTenantId w_actor (Some ''t'') = Inr ''t''" "canOperatePayments w_actor"
  "canAdminPayments w_actor" "financeActor (Some ''u'') (Some '' t '') (Some [''ADMIN'']) = Inr w_actor"
  by code_simp+

lemma w_document_found: "resolveReferenceDocument ''t'' R_PURCHASE ''d'' (w_ops ops) = Inr w_purchase"
  by (simp add: resolveReferenceDocument_def findReferenceDocument_def is_document_def)

lemma w_allocations:
  "resolveAllocations ''t'' (line_payment ''t'' (w_document n) (w_line n')) (w_ops ops) = Inr [\<lparr>ai_type = R_PURCHASE, ai_id = ''d'', ai_amount = 20\<rparr>]"
  by (simp add: resolveAllocations_def line_payment_def w_document_def w_line_def w_document_found in_branch_def computeDueBefore_def
      sumAllocatedForReference_def allocated_def w_numbers buildRequestedAllocations_def checkAmounts_def aggregateAllocations_def aggregate_step_def)

lemma w_internal:
  "\<exists>db' r. createInternal w_env w_actor (line_payment ''t'' (w_document n) (w_line n')) (w_ops ops) = Inr (db', r)"
proof -
  let ?p = "line_payment ''t'' (w_document n) (w_line n')"
  have p: "cr_tenantId ?p = Some ''t''" "cr_branchId ?p = ''b''" "cr_methodId ?p = ''m''" "cr_cashSessionId ?p = Some ''c''"
    "cr_institutionId ?p = None" "cr_type ?p = R_PURCHASE" "\<not> cr_in ?p" "cr_personId ?p = None" "cr_amount ?p = 20" "cr_status ?p = Some PAY_COMPLETED"
    by (simp_all add: line_payment_def w_document_def w_line_def)
  have "assertActiveUser w_actor ''t'' (w_ops ops) = Inr ()" "assertBranchScope w_actor ''t'' ''b'' (w_ops ops) = Inr ()"
    using w_checks(4) by (simp_all add: assertActiveUser_def findUserById_def assertBranchScope_def findBranchById_def w_db_def) (simp add: w_actor_def)
  moreover obtain m where "resolveMethod ''t'' ?p (w_ops ops) = Inr m"
    by (simp add: resolveMethod_def findMethodById_def p w_db_def)
  moreover obtain u where "checkSession w_actor ''t'' ?p m (w_ops ops) = Inr (Some u)"
    by (simp add: checkSession_def requestedSession_def findSessionById_def p w_checks w_db_def)
  moreover have "checkDirection ?p = Inr ()" "checkPerson ''t'' ?p (w_ops ops) = Inr ()" by (simp_all add: checkDirection_def checkPerson_def p)
  ultimately show ?thesis
    by (simp add: createInternal_def w_checks p w_allocations writePayment_def money_column_def w_env_def w_numbers Let_def insert_payment_def
        new_payment_def insert_allocation_def recordMovement_def insert_cash_movement_def payment_movement_def)
qed

lemma w_amount: "isMonetaryAmount 20" "amount_range 20"
  unfolding isMonetaryAmount_def amount_range_def using w_numbers by simp_all

lemma w_valid: "validPayment (\<lambda>_. True) w_payment" "admissible (Pay w_env (\<lambda>_. True) w_actor w_payment)"
  by (simp_all add: validPayment_def w_payment_def line_payment_def w_document_def w_line_def at_most_def opt_uuid_def validAllocation_def w_amount
      one_name_def w_env_def numeric_round_14_2)

lemma w_create: "\<exists>db' r. create w_env (\<lambda>_. True) w_actor w_payment w_db = Inr (db', r)"
  using w_internal [of None None "[]"] by (simp add: create_def w_valid w_checks w_payment_def [symmetric] w_ops_same)

theorem payment_fully_allocated_witness:
  "\<exists>db' r row. create w_env (\<lambda>_. True) w_actor w_payment w_db = Inr (db', r) \<and> fd_payments db' = [row] \<and> pm_id row = rp_id r \<and>
     paid_by (pm_id row) db' = pm_amount row"
proof -
  obtain db' r where c: "create w_env (\<lambda>_. True) w_actor w_payment w_db = Inr (db', r)" using w_create by blast
  have "\<not> cr_allowOverpayment w_payment" by (simp add: w_payment_def line_payment_def)
  with c payment_fully_allocated [OF w_ledger w_valid(2) c] show ?thesis by auto
qed

theorem cash_moves_in_open_session_witness:
  "\<exists>db' r (m :: cash_movement_row) (s :: session_row). create w_env (\<lambda>_. True) w_actor w_payment w_db = Inr (db', r) \<and> fd_movements db' = fd_movements w_db @ [m] \<and> cs_status s = ''OPEN'' \<and>
     cv_cashSessionId m = cs_id s \<and> cents (cv_amount m) = rp_amount r"
proof -
  obtain db' r where c: "create w_env (\<lambda>_. True) w_actor w_payment w_db = Inr (db', r)" using w_create by blast
  then have "createInternal w_env w_actor w_payment w_db = Inr (db', r)" by (simp add: create_def w_valid w_checks)
  from createInternal_response [OF this]
  have "rp_status r = PAY_COMPLETED" "rp_methodId r = ''m''" "rp_tenantId r = ''t''"
    by (simp_all add: w_payment_def line_payment_def w_document_def w_checks w_line_def)
  then have "rp_status r = PAY_COMPLETED \<and> map_option me_tipo (findMethodById (rp_methodId r) (rp_tenantId r) w_db) = Some ''CASH''"
    by (simp add: findMethodById_def w_db_def)
  with c cash_moves_in_open_session [OF c] show ?thesis by blast
qed

definition w_reqs :: "fin_request list" where
  "w_reqs = [Pay w_env (\<lambda>_. True) w_actor w_payment, PayDocument w_env (\<lambda>_. True) ''f'' w_actor (w_document None)]"

lemma w_admissible: "list_all admissible w_reqs"
  using w_valid(2) by (simp add: w_reqs_def w_env_def numeric_round_14_2 w_document_def w_line_def w_amount)



text \<open>The same payment again, with blanks around a note: the fingerprint trims it.\<close>

lemma w_document_fields:
  "dp_tenantId (w_document n) = None" "dp_operationKey (w_document n) = Some ''k''" "dp_type (w_document n) = R_PURCHASE"
  "dp_id (w_document n) = ''d''" "dp_payments (w_document n) = [w_line n]" "dp_cashSessionId (w_document n) = ''c''"
  by (simp_all add: w_document_def)

lemma w_document_valid: "at_most 1000 n \<Longrightarrow> validDocumentPayment (\<lambda>_. True) (w_document n)" "checkLines (w_document n) = Inr ()"
  by (simp_all add: validDocumentPayment_def w_document_def w_line_def validLine_def opt_uuid_def at_most_def checkLines_def line_amount_ok_def w_numbers)

lemma w_createDocument: "\<exists>db' rs. createDocument w_env (\<lambda>_. True) ''f'' w_actor (w_document None) w_db = Inr (db', rs)"
proof -
  define q where "q = \<lparr>op_tenantId = ''t'', op_key = ''k'', op_fingerprint = buildDocumentPaymentFingerprint (fe_host w_env) (w_document None),
    op_referenceType = R_PURCHASE, op_referenceId = ''d'', op_paymentIds = None, op_completed = False\<rparr>"
  have claim: "claimDocumentPaymentOperation q w_db = (w_ops [q], True, Some q)"
    by (simp add: claimDocumentPaymentOperation_def Let_def getDocumentPaymentOperation_def is_operation_def q_def)
  have "checkLineMethod ''t'' (w_line None) (w_ops [q]) = Inr ()"
    by (simp add: checkLineMethod_def findMethodById_def w_line_def w_db_def)
  moreover obtain db' r where "createInternal w_env w_actor (line_payment ''t'' (w_document None) (w_line None)) (w_ops [q]) = Inr (db', r)"
    using w_internal by blast
  moreover have "fitsDocumentBalance ''t'' R_PURCHASE ''d'' w_purchase [w_line None] (w_ops [q])"
    by (simp add: fitsDocumentBalance_def line_cents_def w_line_def w_numbers allocated_def)
  ultimately have "\<exists>x. performOperation w_env w_actor ''t'' ''k'' (w_document None) (w_ops [q]) = Inr x"
    by (simp add: performOperation_def w_document_fields w_document_found)
  then show ?thesis
    using claim unfolding q_def
    by (auto simp: createDocument_def w_document_valid at_most_def w_checks w_document_fields Let_def)
qed

theorem document_payment_idempotent_witness:
  "\<exists>db' rs rs'. createDocument w_env (\<lambda>_. True) ''f'' w_actor (w_document None) w_db = Inr (db', rs) \<and>
     createDocument w_env (\<lambda>_. True) ''g'' w_actor (w_document (Some ''  '')) db' = Inr (db', rs') \<and> mset rs' = mset rs"
proof -
  obtain db' rs where c: "createDocument w_env (\<lambda>_. True) ''f'' w_actor (w_document None) w_db = Inr (db', rs)" using w_createDocument by blast
  have "trimmed (Some ''  '') = None" by code_simp
  then have print: "buildDocumentPaymentFingerprint (fe_host w_env) (w_document (Some ''  '')) = buildDocumentPaymentFingerprint (fe_host w_env) (w_document None)"
    by (simp add: buildDocumentPaymentFingerprint_def w_document_def w_line_def fingerprint_line_def trimmed_def)
  have keys: "ledger_keys w_db" using w_ledger by (simp add: ledger_ok_def)
  have valid: "validDocumentPayment (\<lambda>_. True) (w_document (Some ''  ''))" by (rule w_document_valid) (simp add: at_most_def)
  from document_payment_idempotent [OF keys w_checks(5) c w_document_fields(2) w_document_fields(2) print valid w_document_valid(2) w_checks(3)]
  obtain rs' where "createDocument w_env (\<lambda>_. True) ''g'' w_actor (w_document (Some ''  '')) db' = Inr (db', rs')" "mset rs' = mset rs"
    by (auto simp: w_document_fields)
  with c show ?thesis by blast
qed

end
