(* ===== verification/Rochi_Scale.thy ===== *)
theory Rochi_Scale
  imports Lot_Balances
begin

section \<open>The serial scale\<close>

text \<open>
  The driver of the ROCHI RC-A01E scale in the peripherals agent: the frame parser
  (scale/rochi-a01e.parser.ts) and the connection (scale/rochi-a01e.serial.ts). Bytes are the
  characters of a Latin-1 text, as the driver decodes them. The port is an object of the serial
  library; the model names each port it creates by a number, and what the port reports is an event
  that carries the port and the generation its listeners were registered with.
\<close>

subsection \<open>The parser\<close>

datatype rochi_unit = KG | LB | UNKNOWN_UNIT

record rochi_reading =
  rd_rawValue :: string
  rd_value :: rat
  rd_sourceUnit :: rochi_unit
  rd_kilograms :: "rat option"

datatype rochi_error = INVALID_ASCII string | INVALID_FRAME string | BUFFER_OVERFLOW

record rochi_output =
  ro_readings :: "rochi_reading list"
  ro_errors :: "rochi_error list"

record rochi_parser =
  rp_buffer :: string
  rp_sourceUnit :: rochi_unit
  rp_maxBufferLength :: nat

definition CRLF :: string where
  "CRLF = [CHR 0x0D, CHR 0x0A]"

definition newParser :: "rochi_unit \<Rightarrow> rat option \<Rightarrow> string + rochi_parser" where
  "newParser u limit = (let m = coalesce limit 128 in
     if of_int \<lfloor>m\<rfloor> = m \<and> 7 \<le> m then Inr \<lparr>rp_buffer = [], rp_sourceUnit = u, rp_maxBufferLength = nat \<lfloor>m\<rfloor>\<rparr>
     else Inl ''ROCHI maxBufferLength must be an integer of at least 7'')"

definition isAscii :: "string \<Rightarrow> bool" where
  "isAscii s \<longleftrightarrow> list_all (\<lambda>c. code c \<le> 127) s"

text \<open>\<open>/^\d{3}\.\d{3}$/\<close>\<close>

fun ROCHI_FRAME :: "string \<Rightarrow> bool" where
  "ROCHI_FRAME [a, b, c, p, d, e, f] = (is_digit a \<and> is_digit b \<and> is_digit c \<and> p = CHR ''.'' \<and> is_digit d \<and> is_digit e \<and> is_digit f)"
| "ROCHI_FRAME _ = False"

definition digit_of :: "char \<Rightarrow> int" where
  "digit_of c = int (code c) - 48"

text \<open>\<open>Number(frame)\<close> of a frame: the thousandths its six digits spell.\<close>

fun frame_thousandths :: "string \<Rightarrow> int" where
  "frame_thousandths [a, b, c, p, d, e, f] =
     100000 * digit_of a + 10000 * digit_of b + 1000 * digit_of c + 100 * digit_of d + 10 * digit_of e + digit_of f"
| "frame_thousandths _ = 0"

definition reading_of :: "rochi_unit \<Rightarrow> string \<Rightarrow> rochi_reading" where
  "reading_of u frame = (let value = milli (frame_thousandths frame) in
     \<lparr>rd_rawValue = frame, rd_value = value, rd_sourceUnit = u,
      rd_kilograms = (case u of UNKNOWN_UNIT \<Rightarrow> None | LB \<Rightarrow> Some (dbl (value * (1 / 2))) | KG \<Rightarrow> Some value)\<rparr>)"

definition parseFrame :: "rochi_unit \<Rightarrow> string \<Rightarrow> rochi_output \<Rightarrow> rochi_output" where
  "parseFrame u frame out =
     (if \<not> ROCHI_FRAME frame then out\<lparr>ro_errors := ro_errors out @ [INVALID_FRAME frame]\<rparr>
      else out\<lparr>ro_readings := ro_readings out @ [reading_of u frame]\<rparr>)"

text \<open>The loop of \<open>feed\<close>: None would be a loop that never ends.\<close>

partial_function (option) drain :: "rochi_unit \<Rightarrow> string \<Rightarrow> rochi_output \<Rightarrow> (string \<times> rochi_output) option" where
  "drain u buf out = (case index_of buf CRLF of
       None \<Rightarrow> Some (buf, out)
     | Some i \<Rightarrow> drain u (drop (i + 2) buf) (parseFrame u (take i buf) out))"

definition feed :: "string \<Rightarrow> rochi_parser \<Rightarrow> (rochi_parser \<times> rochi_output) option" where
  "feed chunk p =
     (if \<not> isAscii chunk then Some (p, \<lparr>ro_readings = [], ro_errors = [INVALID_ASCII chunk]\<rparr>)
      else let buf = rp_buffer p @ chunk in
        if rp_maxBufferLength p < length buf \<and> \<not> str_includes buf CRLF
          then Some (p\<lparr>rp_buffer := []\<rparr>, \<lparr>ro_readings = [], ro_errors = [BUFFER_OVERFLOW]\<rparr>)
        else map_option (\<lambda>(rest, out). if rp_maxBufferLength p < length rest
            then (p\<lparr>rp_buffer := []\<rparr>, out\<lparr>ro_errors := ro_errors out @ [BUFFER_OVERFLOW]\<rparr>)
            else (p\<lparr>rp_buffer := rest\<rparr>, out)) (drain (rp_sourceUnit p) buf \<lparr>ro_readings = [], ro_errors = []\<rparr>))"

definition reset :: "rochi_parser \<Rightarrow> rochi_parser" where
  "reset p = p\<lparr>rp_buffer := []\<rparr>"

definition getPendingFragmentLength :: "rochi_parser \<Rightarrow> nat" where
  "getPendingFragmentLength p = length (rp_buffer p)"

subsection \<open>The connection\<close>

datatype rochi_status = CLOSED | OPENING | OPEN | DISCONNECTED | ERROR

record measurement =
  ms_reading :: rochi_reading
  ms_receivedAtMs :: int

record serial_scale =
  ss_parser :: rochi_parser
  ss_maxReadingAgeMs :: int
  ss_limit :: nat
  ss_port :: "nat option"
  ss_ports :: nat
  ss_status :: rochi_status
  ss_latest :: "measurement option"
  ss_lastError :: "string option"
  ss_initialBuffer :: string
  ss_synchronized :: bool
  ss_generation :: nat

text \<open>
  What the driver tells its callers. \<open>ss_ports\<close> counts the ports created so far; a created port is
  named by the count. The library answers a call of open with an event \<open>Opened\<close>.
\<close>

datatype scale_event =
    OpenCall
  | Opened nat nat "string option"
  | CloseCall
  | Received nat nat string
  | PortError nat nat string
  | PortClosed nat nat

datatype scale_output = Reading measurement | ParseError rochi_error

definition invalidateReadingState :: "serial_scale \<Rightarrow> serial_scale" where
  "invalidateReadingState s = s\<lparr>ss_parser := reset (ss_parser s), ss_initialBuffer := [], ss_synchronized := False, ss_latest := None\<rparr>"

definition isCurrentConnection :: "serial_scale \<Rightarrow> nat \<Rightarrow> nat \<Rightarrow> bool" where
  "isCurrentConnection s port generation \<longleftrightarrow> ss_port s = Some port \<and> ss_generation s = generation"

definition scale_close :: "serial_scale \<Rightarrow> serial_scale" where
  "scale_close s = (invalidateReadingState (s\<lparr>ss_port := None, ss_generation := ss_generation s + 1\<rparr>))\<lparr>ss_status := CLOSED\<rparr>"

definition scale_start :: "serial_scale \<Rightarrow> serial_scale" where
  "scale_start s = (invalidateReadingState (s\<lparr>ss_status := OPENING, ss_lastError := None\<rparr>))\<lparr>
     ss_generation := ss_generation s + 1, ss_port := Some (ss_ports s), ss_ports := ss_ports s + 1\<rparr>"

text \<open>While a port is left, \<open>open\<close> closes it first and calls itself again, which is the next event.\<close>

definition scale_open :: "serial_scale \<Rightarrow> serial_scale" where
  "scale_open s = (if ss_status s \<in> {OPEN, OPENING} then s
     else if ss_port s \<noteq> None then scale_close s else scale_start s)"

definition handleOpened :: "nat \<Rightarrow> nat \<Rightarrow> string option \<Rightarrow> serial_scale \<Rightarrow> serial_scale" where
  "handleOpened port generation err s =
     (if \<not> isCurrentConnection s port generation then s
      else case err of
        Some e \<Rightarrow> invalidateReadingState (s\<lparr>ss_status := ERROR, ss_lastError := Some e, ss_port := None\<rparr>)
      | None \<Rightarrow> s\<lparr>ss_status := OPEN\<rparr>)"

definition deliver :: "int \<Rightarrow> rochi_reading \<Rightarrow> serial_scale \<times> scale_output list \<Rightarrow> serial_scale \<times> scale_output list" where
  "deliver now r so = (case so of (s, out) \<Rightarrow> let m = \<lparr>ms_reading = r, ms_receivedAtMs = now\<rparr>
     in (s\<lparr>ss_latest := Some m\<rparr>, out @ [Reading m]))"

definition handleParserOutput :: "int \<Rightarrow> rochi_output \<Rightarrow> bool \<Rightarrow> serial_scale \<Rightarrow> serial_scale \<times> scale_output list" where
  "handleParserOutput now out suppressErrors s =
     fold (deliver now) (ro_readings out) (s, if suppressErrors then [] else map ParseError (ro_errors out))"

definition feedScale :: "int \<Rightarrow> string \<Rightarrow> (rochi_output \<Rightarrow> bool) \<Rightarrow> serial_scale \<Rightarrow> (serial_scale \<times> scale_output list) option" where
  "feedScale now chunk suppress s = map_option (\<lambda>(p, out). handleParserOutput now out (suppress out) (s\<lparr>ss_parser := p\<rparr>)) (feed chunk (ss_parser s))"

definition handleInitialSynchronization :: "int \<Rightarrow> string \<Rightarrow> serial_scale \<Rightarrow> (serial_scale \<times> scale_output list) option" where
  "handleInitialSynchronization now chunk s =
     (let buf = ss_initialBuffer s @ chunk
      in case index_of buf CRLF of
           None \<Rightarrow> Some (if ss_limit s < length buf then s\<lparr>ss_initialBuffer := [], ss_synchronized := True\<rparr>
             else s\<lparr>ss_initialBuffer := buf\<rparr>, [])
         | Some i \<Rightarrow>
             Option.bind (feedScale now (take i buf @ CRLF) (\<lambda>out. ro_readings out = []) (s\<lparr>ss_initialBuffer := [], ss_synchronized := True\<rparr>))
               (\<lambda>(s1, out1). let remaining = drop (i + 2) buf in
                  if remaining = [] then Some (s1, out1)
                  else map_option (\<lambda>(s2, out2). (s2, out1 @ out2)) (feedScale now remaining (\<lambda>_. False) s1)))"

definition handleData :: "int \<Rightarrow> nat \<Rightarrow> nat \<Rightarrow> string \<Rightarrow> serial_scale \<Rightarrow> (serial_scale \<times> scale_output list) option" where
  "handleData now port generation chunk s =
     (if \<not> isCurrentConnection s port generation \<or> ss_status s \<noteq> OPEN then Some (s, [])
      else if \<not> ss_synchronized s then handleInitialSynchronization now chunk s
      else feedScale now chunk (\<lambda>_. False) s)"

definition handleError :: "nat \<Rightarrow> nat \<Rightarrow> string \<Rightarrow> serial_scale \<Rightarrow> serial_scale" where
  "handleError port generation e s =
     (if \<not> isCurrentConnection s port generation then s
      else (invalidateReadingState s)\<lparr>ss_status := ERROR, ss_lastError := Some e\<rparr>)"

definition handleClose :: "nat \<Rightarrow> nat \<Rightarrow> serial_scale \<Rightarrow> serial_scale" where
  "handleClose port generation s =
     (if \<not> isCurrentConnection s port generation then s
      else let s1 = (invalidateReadingState s)\<lparr>ss_port := None, ss_generation := ss_generation s + 1\<rparr>
        in if ss_status s1 \<notin> {CLOSED, ERROR} then s1\<lparr>ss_status := DISCONNECTED\<rparr> else s1)"

text \<open>One event at the instant \<open>now\<close>.\<close>

fun scale_step :: "int \<Rightarrow> scale_event \<Rightarrow> serial_scale \<Rightarrow> (serial_scale \<times> scale_output list) option" where
  "scale_step now OpenCall s = Some (scale_open s, [])"
| "scale_step now (Opened port g err) s = Some (handleOpened port g err s, [])"
| "scale_step now CloseCall s = Some (scale_close s, [])"
| "scale_step now (Received port g chunk) s = handleData now port g chunk s"
| "scale_step now (PortError port g e) s = Some (handleError port g e s, [])"
| "scale_step now (PortClosed port g) s = Some (handleClose port g s, [])"

fun scale_run :: "(int \<times> scale_event) list \<Rightarrow> serial_scale \<Rightarrow> (serial_scale \<times> scale_output list) option" where
  "scale_run [] s = Some (s, [])"
| "scale_run ((now, e) # es) s = Option.bind (scale_step now e s) (\<lambda>(s1, out1).
     map_option (\<lambda>(s2, out2). (s2, out1 @ out2)) (scale_run es s1))"

record serial_config =
  sc_path :: string
  sc_sourceUnit :: rochi_unit
  sc_baudRate :: "rat option"
  sc_maxBufferLength :: "rat option"
  sc_maxReadingAgeMs :: "rat option"

definition positive_integer :: "rat \<Rightarrow> bool" where
  "positive_integer x \<longleftrightarrow> of_int \<lfloor>x\<rfloor> = x \<and> 0 < x"

definition new_scale :: "serial_config \<Rightarrow> string + serial_scale" where
  "new_scale cfg = and_then (newParser (sc_sourceUnit cfg) (sc_maxBufferLength cfg)) (\<lambda>p.
     if js_trim (sc_path cfg) = [] then Inl ''ROCHI serial path is required''
     else if \<not> positive_integer (coalesce (sc_baudRate cfg) 9600) then Inl ''ROCHI baudRate must be a positive integer''
     else if \<not> positive_integer (coalesce (sc_maxReadingAgeMs cfg) 2000) then Inl ''ROCHI maxReadingAgeMs must be a positive integer''
     else Inr \<lparr>ss_parser = p, ss_maxReadingAgeMs = \<lfloor>coalesce (sc_maxReadingAgeMs cfg) 2000\<rfloor>, ss_limit = rp_maxBufferLength p,
       ss_port = None, ss_ports = 0, ss_status = CLOSED, ss_latest = None, ss_lastError = None, ss_initialBuffer = [],
       ss_synchronized = False, ss_generation = 0\<rparr>)"

record scale_snapshot =
  sn_status :: rochi_status
  sn_reading :: "measurement option"
  sn_ageMs :: "int option"
  sn_stale :: bool
  sn_pending :: nat
  sn_synchronized :: bool
  sn_error :: "string option"

definition scale_snapshot :: "int \<Rightarrow> serial_scale \<Rightarrow> scale_snapshot" where
  "scale_snapshot now s =
     (let age = map_option (\<lambda>m. max 0 (now - ms_receivedAtMs m)) (ss_latest s);
          stale = (case age of None \<Rightarrow> True | Some a \<Rightarrow> ss_maxReadingAgeMs s < a)
      in \<lparr>sn_status = ss_status s, sn_reading = (if stale then None else ss_latest s), sn_ageMs = age, sn_stale = stale,
          sn_pending = getPendingFragmentLength (ss_parser s), sn_synchronized = ss_synchronized s, sn_error = ss_lastError s\<rparr>)"

end
