(* ===== verification/Rochi_Facts.thy ===== *)
theory Rochi_Facts
  imports Rochi_Scale
begin

section \<open>Properties of the serial scale\<close>

text \<open>
  The loop of the parser always ends and its buffers stay within their limit; every reading that is
  delivered is a frame of six digits that arrived on the open port; and the readings of a stream of
  frames do not depend on how the port cuts it into chunks.
\<close>

subsection \<open>Frames\<close>

lemma length_CRLF [simp]: "length CRLF = 2"
  by (simp add: CRLF_def)

text \<open>The reference: a text is a list of frames, each ended by CR LF, and a rest without one.\<close>

function frames :: "string \<Rightarrow> string list \<times> string" where
  "frames s = (case index_of s CRLF of None \<Rightarrow> ([], s)
     | Some i \<Rightarrow> (take i s # fst (frames (drop (i + 2) s)), snd (frames (drop (i + 2) s))))"
  by pat_completeness auto
termination
  by (relation "measure length") (auto dest!: index_of_Some(1))

declare frames.simps [simp del]

lemma frames_None: "index_of s CRLF = None \<Longrightarrow> frames s = ([], s)"
  by (subst frames.simps) simp

lemma frames_Some: "index_of s CRLF = Some i \<Longrightarrow> frames s = (take i s # fst (frames (drop (i + 2) s)), snd (frames (drop (i + 2) s)))"
  by (subst frames.simps) simp

text \<open>The loop of the parser computes the reference.\<close>

lemma drain_frames: "drain u s out = Some (snd (frames s), fold (parseFrame u) (fst (frames s)) out)"
proof (induction s arbitrary: out rule: frames.induct)
  case (1 s)
  show ?case
  proof (cases "index_of s CRLF")
    case None
    then show ?thesis by (simp add: drain.simps frames_None)
  next
    case (Some i)
    then show ?thesis using 1 by (simp add: drain.simps [of u s] frames_Some)
  qed
qed

lemma starts_with_longer: "starts_with s p \<Longrightarrow> starts_with (s @ b) p"
  by (induction s p rule: starts_with.induct) auto

lemma starts_with_shorter: "starts_with (s @ b) p \<Longrightarrow> length p \<le> length s \<Longrightarrow> starts_with s p"
  by (induction s p rule: starts_with.induct) auto

lemma index_of_append: "index_of a p = Some i \<Longrightarrow> index_of (a @ b) p = Some i"
proof (induction a arbitrary: i)
  case Nil
  then show ?case by (cases b) (auto split: if_splits)
next
  case (Cons c cs)
  show ?case
  proof (cases "starts_with (c # cs) p")
    case True
    then show ?thesis using Cons.prems starts_with_longer [of "c # cs" p b] by simp
  next
    case False
    then obtain j where j: "index_of cs p = Some j" "i = Suc j" using Cons.prems by (auto split: if_splits)
    have "length p \<le> length (c # cs)" using index_of_Some(1) [OF j(1)] by simp
    then have "\<not> starts_with ((c # cs) @ b) p" using False starts_with_shorter by blast
    then show ?thesis using Cons.IH [OF j(1)] j(2) by simp
  qed
qed

text \<open>A delimiter that the end of \<open>r\<close> does not hold begins in its last character at the earliest.\<close>

lemma index_of_across: "index_of r p = None \<Longrightarrow> index_of (r @ b) p = Some i \<Longrightarrow> p \<noteq> [] \<Longrightarrow> length r < i + length p"
proof (induction r arbitrary: i)
  case (Cons c cs)
  have n: "\<not> starts_with (c # cs) p" "index_of cs p = None" using Cons.prems(1) by (auto split: if_splits)
  show ?case
  proof (cases "starts_with ((c # cs) @ b) p")
    case True
    then have "\<not> length p \<le> length (c # cs)" using n(1) starts_with_shorter by blast
    then show ?thesis using Cons.prems(2) True by simp
  next
    case False
    then obtain j where "index_of (cs @ b) p = Some j" "i = Suc j" using Cons.prems(2) by (auto split: if_splits)
    then show ?thesis using Cons.IH [OF n(2)] Cons.prems(3) by simp
  qed
qed simp

lemma frames_rest: "index_of (snd (frames s)) CRLF = None"
proof (induction s rule: frames.induct)
  case (1 s)
  then show ?case by (cases "index_of s CRLF") (simp_all add: frames_None frames_Some)
qed

lemma frames_append: "frames (a @ b) = (fst (frames a) @ fst (frames (snd (frames a) @ b)), snd (frames (snd (frames a) @ b)))"
proof (induction a rule: frames.induct)
  case (1 a)
  show ?case
  proof (cases "index_of a CRLF")
    case None
    then show ?thesis by (simp add: frames_None)
  next
    case (Some i)
    then have i: "i + 2 \<le> length a" using index_of_Some(1) [OF Some] by simp
    have "frames (a @ b) = (take i a # fst (frames (drop (i + 2) a @ b)), snd (frames (drop (i + 2) a @ b)))"
      using i by (simp add: frames_Some [OF index_of_append [OF Some]])
    with 1 Some show ?thesis by (simp add: frames_Some)
  qed
qed

text \<open>Every frame of the text and its rest fit in the buffer.\<close>

definition fits :: "nat \<Rightarrow> string \<Rightarrow> bool" where
  "fits limit s \<longleftrightarrow> list_all (\<lambda>f. length f < limit) (fst (frames s)) \<and> length (snd (frames s)) \<le> limit"

lemma rest_fits:
  assumes "index_of r CRLF = None" "fits limit (r @ b)" shows "length r \<le> limit"
proof (cases "index_of (r @ b) CRLF")
  case None
  then show ?thesis using assms(2) by (simp add: fits_def frames_None)
next
  case (Some i)
  have "length r < i + 2" using index_of_across [OF assms(1) Some] by (simp add: CRLF_def)
  moreover have "length (take i (r @ b)) < limit" using assms(2) unfolding fits_def frames_Some [OF Some] by (simp del: take_append)
  then have "i < limit" using index_of_Some(1) [OF Some] by (simp only: length_take length_CRLF min.absorb2 add_leD1)
  ultimately show ?thesis by simp
qed

lemma fits_prefix: "fits limit (a @ b) \<Longrightarrow> fits limit a"
  using rest_fits [OF frames_rest, of limit a b] by (auto simp: fits_def frames_append [of a b])

subsection \<open>Feeding the parser\<close>

text \<open>What a list of frames yields.\<close>

definition parsed :: "rochi_unit \<Rightarrow> string list \<Rightarrow> rochi_output" where
  "parsed u fs = \<lparr>ro_readings = map (reading_of u) (filter ROCHI_FRAME fs), ro_errors = map INVALID_FRAME (filter (\<lambda>f. \<not> ROCHI_FRAME f) fs)\<rparr>"

definition both :: "rochi_output \<Rightarrow> rochi_output \<Rightarrow> rochi_output" where
  "both a b = \<lparr>ro_readings = ro_readings a @ ro_readings b, ro_errors = ro_errors a @ ro_errors b\<rparr>"

lemma fold_parseFrame: "fold (parseFrame u) fs out = both out (parsed u fs)"
  by (induction fs arbitrary: out) (simp_all add: both_def parsed_def parseFrame_def)

lemma both_parsed: "both (parsed u fs) (parsed u gs) = parsed u (fs @ gs)"
  by (simp add: both_def parsed_def)

fun feeds :: "string list \<Rightarrow> rochi_parser \<Rightarrow> (rochi_parser \<times> rochi_output) option" where
  "feeds [] p = Some (p, \<lparr>ro_readings = [], ro_errors = []\<rparr>)"
| "feeds (c # cs) p = Option.bind (feed c p) (\<lambda>(p1, o1). map_option (\<lambda>(p2, o2). (p2, both o1 o2)) (feeds cs p1))"

lemma feed_ascii:
  assumes "isAscii chunk"
  shows "feed chunk p = (let s = rp_buffer p @ chunk; out = parsed (rp_sourceUnit p) (fst (frames s)) in
    if rp_maxBufferLength p < length (snd (frames s)) then
      Some (p\<lparr>rp_buffer := []\<rparr>, out\<lparr>ro_errors := ro_errors out @ [BUFFER_OVERFLOW]\<rparr>)
    else Some (p\<lparr>rp_buffer := snd (frames s)\<rparr>, out))"
proof -
  let ?s = "rp_buffer p @ chunk"
  have "both \<lparr>ro_readings = [], ro_errors = []\<rparr> out = out" for out by (simp add: both_def)
  then have d: "drain (rp_sourceUnit p) ?s \<lparr>ro_readings = [], ro_errors = []\<rparr> = Some (snd (frames ?s), parsed (rp_sourceUnit p) (fst (frames ?s)))"
    by (simp add: drain_frames fold_parseFrame)
  show ?thesis
  proof (cases "index_of ?s CRLF")
    case None
    then show ?thesis using assms by (simp add: feed_def d Let_def str_includes_def frames_None parsed_def)
  next
    case (Some i)
    then show ?thesis using assms by (simp add: feed_def d Let_def str_includes_def)
  qed
qed

lemma feed_terminates:
  assumes "getPendingFragmentLength p \<le> rp_maxBufferLength p"
  shows "\<exists>p' out. feed chunk p = Some (p', out) \<and> getPendingFragmentLength p' \<le> rp_maxBufferLength p' \<and>
    rp_maxBufferLength p' = rp_maxBufferLength p"
proof (cases "isAscii chunk")
  case True
  then show ?thesis by (auto simp: feed_ascii Let_def getPendingFragmentLength_def)
next
  case False
  then show ?thesis using assms by (simp add: feed_def)
qed

text \<open>
  How the port cuts the bytes into chunks does not matter: if every frame of the stream is shorter
  than the buffer, feeding the chunks one by one yields what the whole stream yields.
\<close>

lemma chunking_irrelevant:
  assumes "list_all isAscii chunks" "index_of (rp_buffer p) CRLF = None" "fits (rp_maxBufferLength p) (rp_buffer p @ concat chunks)"
  shows "feeds chunks p = Some (p\<lparr>rp_buffer := snd (frames (rp_buffer p @ concat chunks))\<rparr>,
    parsed (rp_sourceUnit p) (fst (frames (rp_buffer p @ concat chunks))))"
  using assms
proof (induction chunks arbitrary: p)
  case Nil
  then show ?case by (simp add: frames_None parsed_def)
next
  case (Cons c cs)
  let ?s = "rp_buffer p @ c"
  have "fits (rp_maxBufferLength p) ?s" using Cons.prems(3) fits_prefix [of _ ?s "concat cs"] by simp
  then have f: "feed c p = Some (p\<lparr>rp_buffer := snd (frames ?s)\<rparr>, parsed (rp_sourceUnit p) (fst (frames ?s)))"
    using Cons.prems(1) by (simp add: feed_ascii Let_def fits_def)
  have split: "frames (rp_buffer p @ concat (c # cs)) = (fst (frames ?s) @ fst (frames (snd (frames ?s) @ concat cs)), snd (frames (snd (frames ?s) @ concat cs)))"
    using frames_append [of ?s "concat cs"] by simp
  have "fits (rp_maxBufferLength p) (snd (frames ?s) @ concat cs)" using Cons.prems(3) unfolding fits_def split by simp
  then have "feeds cs (p\<lparr>rp_buffer := snd (frames ?s)\<rparr>) = Some (p\<lparr>rp_buffer := snd (frames (snd (frames ?s) @ concat cs))\<rparr>,
      parsed (rp_sourceUnit p) (fst (frames (snd (frames ?s) @ concat cs))))"
    using Cons.IH [of "p\<lparr>rp_buffer := snd (frames ?s)\<rparr>"] Cons.prems(1) frames_rest by simp
  then show ?case unfolding split by (simp add: f both_parsed)
qed

subsection \<open>The connection\<close>

fun readings_in :: "scale_output list \<Rightarrow> rochi_reading list" where
  "readings_in [] = []"
| "readings_in (Reading m # os) = ms_reading m # readings_in os"
| "readings_in (ParseError e # os) = readings_in os"

fun errors_in :: "scale_output list \<Rightarrow> rochi_error list" where
  "errors_in [] = []"
| "errors_in (Reading m # os) = errors_in os"
| "errors_in (ParseError e # os) = e # errors_in os"

lemma outputs_append [simp]: "readings_in (xs @ ys) = readings_in xs @ readings_in ys" "errors_in (xs @ ys) = errors_in xs @ errors_in ys"
  by (induction xs rule: readings_in.induct) simp_all

lemma outputs_errors [simp]: "readings_in (map ParseError es) = []" "errors_in (map ParseError es) = es"
  by (induction es) simp_all

lemma deliver_all:
  "\<exists>l ms. fold (deliver now) rs (s, out) = (s\<lparr>ss_latest := l\<rparr>, out @ map Reading ms) \<and> map ms_reading ms = rs \<and>
     (l = ss_latest s \<or> (\<exists>m\<in>set ms. l = Some m))"
proof (induction rs arbitrary: s out)
  case Nil
  show ?case by (intro exI [of _ "ss_latest s"] exI [of _ "[]"]) simp
next
  case (Cons r rs)
  let ?m = "\<lparr>ms_reading = r, ms_receivedAtMs = now\<rparr>"
  obtain l ms where i: "fold (deliver now) rs (s\<lparr>ss_latest := Some ?m\<rparr>, out @ [Reading ?m]) =
      (s\<lparr>ss_latest := Some ?m, ss_latest := l\<rparr>, (out @ [Reading ?m]) @ map Reading ms)" "map ms_reading ms = rs"
      "l = Some ?m \<or> (\<exists>m\<in>set ms. l = Some m)"
    using Cons.IH [of "s\<lparr>ss_latest := Some ?m\<rparr>" "out @ [Reading ?m]"] by auto
  show ?case
  proof (intro exI conjI)
    show "fold (deliver now) (r # rs) (s, out) = (s\<lparr>ss_latest := l\<rparr>, out @ map Reading (?m # ms))"
      using i(1) by (simp add: deliver_def Let_def)
    show "map ms_reading (?m # ms) = r # rs" using i(2) by simp
    show "l = ss_latest s \<or> (\<exists>m\<in>set (?m # ms). l = Some m)" using i(3) by auto
  qed
qed

lemma readings_map [simp]: "readings_in (map Reading ms) = map ms_reading ms" "errors_in (map Reading ms) = []"
  by (induction ms) simp_all

lemma handleParserOutput_outputs:
  "\<exists>l os. handleParserOutput now out quiet s = (s\<lparr>ss_latest := l\<rparr>, os) \<and> readings_in os = ro_readings out \<and>
     errors_in os = (if quiet then [] else ro_errors out) \<and> (l = ss_latest s \<or> (\<exists>m. Reading m \<in> set os \<and> l = Some m))"
proof -
  obtain l ms where "fold (deliver now) (ro_readings out) (s, if quiet then [] else map ParseError (ro_errors out)) =
      (s\<lparr>ss_latest := l\<rparr>, (if quiet then [] else map ParseError (ro_errors out)) @ map Reading ms)" "map ms_reading ms = ro_readings out"
      "l = ss_latest s \<or> (\<exists>m\<in>set ms. l = Some m)"
    using deliver_all by blast
  then show ?thesis unfolding handleParserOutput_def by auto
qed

lemma feedScale_outputs:
  assumes "feed chunk (ss_parser s) = Some (p, out)"
  shows "\<exists>l os. feedScale now chunk quiet s = Some (s\<lparr>ss_parser := p, ss_latest := l\<rparr>, os) \<and> readings_in os = ro_readings out \<and>
     errors_in os = (if quiet out then [] else ro_errors out) \<and> (l = ss_latest s \<or> (\<exists>m. Reading m \<in> set os \<and> l = Some m))"
  using handleParserOutput_outputs [of now out "quiet out" "s\<lparr>ss_parser := p\<rparr>"] assms by (auto simp: feedScale_def)

text \<open>Once synchronized, the scale delivers what the parser yields.\<close>

definition connected :: "serial_scale \<Rightarrow> nat \<Rightarrow> nat \<Rightarrow> bool" where
  "connected s port g \<longleftrightarrow> isCurrentConnection s port g \<and> ss_status s = OPEN"

definition received :: "nat \<Rightarrow> nat \<Rightarrow> (int \<times> string) list \<Rightarrow> (int \<times> scale_event) list" where
  "received port g tcs = map (\<lambda>(now, c). (now, Received port g c)) tcs"

lemma received_simps [simp]: "received port g [] = []" "received port g ((now, c) # tcs) = (now, Received port g c) # received port g tcs"
  by (simp_all add: received_def)

lemma run_synchronized:
  assumes "connected s port g" "ss_synchronized s" "feeds (map snd tcs) (ss_parser s) = Some (p, out)"
  shows "\<exists>s' os. scale_run (received port g tcs) s = Some (s', os) \<and> readings_in os = ro_readings out \<and> errors_in os = ro_errors out"
  using assms
proof (induction tcs arbitrary: s out)
  case (Cons tc tcs)
  obtain now c where tc: "tc = (now, c)" by fastforce
  from Cons.prems(3) tc obtain p1 o1 o2 where f: "feed c (ss_parser s) = Some (p1, o1)" "feeds (map snd tcs) p1 = Some (p, o2)" "out = both o1 o2"
    by (auto split: option.splits simp: bind_eq_Some_conv)
  obtain l os where s1: "feedScale now c (\<lambda>_. False) s = Some (s\<lparr>ss_parser := p1, ss_latest := l\<rparr>, os)" "readings_in os = ro_readings o1"
    "errors_in os = ro_errors o1" using feedScale_outputs [OF f(1), of now "\<lambda>_. False"] by auto
  let ?s = "s\<lparr>ss_parser := p1, ss_latest := l\<rparr>"
  have "connected ?s port g" "ss_synchronized ?s" using Cons.prems(1,2) by (simp_all add: connected_def isCurrentConnection_def)
  then obtain s2 os2 where "scale_run (received port g tcs) ?s = Some (s2, os2)" "readings_in os2 = ro_readings o2" "errors_in os2 = ro_errors o2"
    using Cons.IH [of ?s o2] f(2) by auto
  with s1 f(3) Cons.prems(1,2) show ?case by (simp add: tc handleData_def connected_def both_def)
qed simp

lemma index_of_Nil: "p \<noteq> [] \<Longrightarrow> index_of [] p = None"
  by simp

lemma frames_single: "index_of (f @ CRLF) CRLF = Some (length f) \<Longrightarrow> frames (f @ CRLF) = ([f], [])"
  by (simp add: frames_Some frames_None index_of_Nil CRLF_def)

lemma take_found: "index_of s p = Some i \<Longrightarrow> take (i + length p) s = take i s @ p"
proof -
  assume i: "index_of s p = Some i"
  have "s = (take i s @ p) @ drop (i + length p) s" using index_of_Some(2) [OF i] by simp
  moreover have "length (take i s @ p) = i + length p" using index_of_Some(1) [OF i] by simp
  ultimately show ?thesis by (metis append_eq_conv_conj)
qed

lemma index_of_take: "index_of s p = Some i \<Longrightarrow> index_of (take (i + length p) s) p = Some i"
proof (induction s arbitrary: i)
  case (Cons c cs)
  show ?case
  proof (cases "starts_with (c # cs) p")
    case True
    then obtain t where "c # cs = p @ t" by (auto simp: starts_with_append)
    then have "take (length p) (c # cs) = p" by simp
    moreover have "starts_with p p" by (simp add: starts_with_append)
    moreover have "index_of p p = Some 0" by (cases p) (simp_all add: starts_with_append)
    ultimately show ?thesis using Cons.prems True by simp
  next
    case False
    then obtain j where j: "index_of cs p = Some j" "i = Suc j" using Cons.prems by (auto split: if_splits)
    have "\<not> starts_with (c # take (j + length p) cs) p"
      using False starts_with_longer [of "c # take (j + length p) cs" p "drop (j + length p) cs"] by auto
    then show ?thesis using Cons.IH [OF j(1)] j(2) by simp
  qed
qed (auto split: if_splits)

text \<open>From the first byte on: the first frame is noise unless it is a frame.\<close>

lemma run_initial:
  assumes "connected s port g" "\<not> ss_synchronized s" "rp_buffer (ss_parser s) = []" "ss_limit s = rp_maxBufferLength (ss_parser s)"
    and "index_of (ss_initialBuffer s) CRLF = None" "isAscii (ss_initialBuffer s)" "list_all isAscii (map snd tcs)"
    and "fits (ss_limit s) (ss_initialBuffer s @ concat (map snd tcs))"
  shows "\<exists>s' os. scale_run (received port g tcs) s = Some (s', os) \<and>
    readings_in os = ro_readings (parsed (rp_sourceUnit (ss_parser s)) (fst (frames (ss_initialBuffer s @ concat (map snd tcs))))) \<and>
    errors_in os = ro_errors (parsed (rp_sourceUnit (ss_parser s)) (tl (fst (frames (ss_initialBuffer s @ concat (map snd tcs))))))"
  using assms
proof (induction tcs arbitrary: s)
  case Nil
  then show ?case by (simp add: frames_None parsed_def)
next
  case (Cons tc tcs)
  obtain now c where tc: "tc = (now, c)" by fastforce
  note take_append [simp del] drop_append [simp del]
  let ?b = "ss_initialBuffer s @ c" and ?u = "rp_sourceUnit (ss_parser s)"
  have ascii: "isAscii ?b" using Cons.prems(6,7) by (simp add: isAscii_def tc)
  have fit: "fits (ss_limit s) ?b" using Cons.prems(8) fits_prefix [of _ ?b] by (simp add: tc)
  have step: "scale_step now (Received port g c) s = handleInitialSynchronization now c s"
    using Cons.prems(1,2) by (simp add: handleData_def connected_def)
  show ?case
  proof (cases "index_of ?b CRLF")
    case None
    let ?s = "s\<lparr>ss_initialBuffer := ?b\<rparr>"
    have "length ?b \<le> ss_limit s" using rest_fits [OF None, of "ss_limit s" "concat (map snd tcs)"] Cons.prems(8) by (simp add: tc)
    then have "handleInitialSynchronization now c s = Some (?s, [])" using None by (simp add: handleInitialSynchronization_def)
    moreover have "connected ?s port g" using Cons.prems(1) by (simp add: connected_def isCurrentConnection_def)
    ultimately show ?thesis using Cons.IH [of ?s] Cons.prems None ascii step by (simp add: tc)
  next
    case (Some i)
    have i: "i + 2 \<le> length ?b" using index_of_Some(1) [OF Some] by simp
    let ?p = "ss_parser s" and ?f = "take i ?b" and ?rest = "drop (i + 2) ?b"
    let ?s = "s\<lparr>ss_initialBuffer := [], ss_synchronized := True\<rparr>"
    have first: "take (i + 2) ?b = ?f @ CRLF" using take_found [OF Some] by simp
    have "index_of (?f @ CRLF) CRLF = Some i" using index_of_take [OF Some] first by simp
    moreover have "length ?f = i" using i by simp
    ultimately have fr: "frames (?f @ CRLF) = ([?f], [])" by (intro frames_single) (simp only:)
    have b: "frames ?b = (?f # fst (frames ?rest), snd (frames ?rest))" by (rule frames_Some [OF Some])
    have ascii_parts: "isAscii (?f @ CRLF)" "isAscii ?rest" using ascii unfolding isAscii_def
      by (auto simp: CRLF_def code_def list_all_iff dest: in_set_takeD in_set_dropD)
    have "feed (?f @ CRLF) (ss_parser ?s) = Some (?p, parsed ?u [?f])"
      using ascii_parts(1) Cons.prems(3) by (simp add: feed_ascii fr Let_def)
    from feedScale_outputs [OF this, of now "\<lambda>out. ro_readings out = []"] obtain l os where
      o1: "feedScale now (?f @ CRLF) (\<lambda>out. ro_readings out = []) ?s = Some (?s\<lparr>ss_parser := ?p, ss_latest := l\<rparr>, os)"
        "readings_in os = ro_readings (parsed ?u [?f])" "errors_in os = []"
      by (auto simp: parsed_def split: if_splits)
    let ?s1 = "?s\<lparr>ss_parser := ?p, ss_latest := l\<rparr>" and ?out = "parsed ?u (fst (frames ?rest))"
    let ?p2 = "?p\<lparr>rp_buffer := snd (frames ?rest)\<rparr>"
    obtain l2 os2 where
      o2: "handleInitialSynchronization now c s = Some (?s1\<lparr>ss_parser := ?p2, ss_latest := l2\<rparr>, os @ os2)"
        "readings_in os2 = ro_readings ?out" "errors_in os2 = ro_errors ?out"
    proof (cases "?rest = []")
      case True
      have "?p2 = ?p" using True Cons.prems(3) by (simp add: frames_None index_of_Nil CRLF_def)
      then have "handleInitialSynchronization now c s = Some (?s1\<lparr>ss_parser := ?p2, ss_latest := l\<rparr>, os @ [])"
        using True o1(1) Some by (simp add: handleInitialSynchronization_def)
      then show thesis using True by (intro that [of l "[]"]) (simp_all add: frames_None index_of_Nil CRLF_def parsed_def)
    next
      case False
      have "feed ?rest (ss_parser ?s1) = Some (?p2, ?out)"
        using ascii_parts(2) fit b Cons.prems(3,4) by (simp add: feed_ascii Let_def fits_def)
      from feedScale_outputs [OF this, of now "\<lambda>_. False"] obtain l2 os2 where
        "feedScale now ?rest (\<lambda>_. False) ?s1 = Some (?s1\<lparr>ss_parser := ?p2, ss_latest := l2\<rparr>, os2)"
        "readings_in os2 = ro_readings ?out" "errors_in os2 = ro_errors ?out" by auto
      then show thesis using False o1(1) Some by (intro that [of l2 os2]) (simp_all add: handleInitialSynchronization_def)
    qed
    let ?s2 = "?s1\<lparr>ss_parser := ?p2, ss_latest := l2\<rparr>"
    have all: "frames (?b @ concat (map snd tcs)) = (?f # fst (frames ?rest) @ fst (frames (snd (frames ?rest) @ concat (map snd tcs))),
        snd (frames (snd (frames ?rest) @ concat (map snd tcs))))"
      using frames_append [of ?b "concat (map snd tcs)"] b by simp
    have "fits (rp_maxBufferLength ?p2) (rp_buffer ?p2 @ concat (map snd tcs))"
      using Cons.prems(4,8) all by (simp add: fits_def tc)
    then have "feeds (map snd tcs) ?p2 = Some (?p2\<lparr>rp_buffer := snd (frames (rp_buffer ?p2 @ concat (map snd tcs)))\<rparr>,
        parsed ?u (fst (frames (rp_buffer ?p2 @ concat (map snd tcs)))))"
      using chunking_irrelevant [of "map snd tcs" ?p2] Cons.prems(7) frames_rest by (simp add: tc)
    moreover have "connected ?s2 port g" using Cons.prems(1) by (simp add: connected_def isCurrentConnection_def)
    ultimately obtain s3 os3 where o3: "scale_run (received port g tcs) ?s2 = Some (s3, os3)"
      "readings_in os3 = ro_readings (parsed ?u (fst (frames (snd (frames ?rest) @ concat (map snd tcs)))))"
      "errors_in os3 = ro_errors (parsed ?u (fst (frames (snd (frames ?rest) @ concat (map snd tcs)))))"
      using run_synchronized [of ?s2 port g tcs] by auto
    have run: "scale_run (received port g (tc # tcs)) s = Some (s3, (os @ os2) @ os3)"
      using o2(1) o3(1) step by (simp add: tc)
    show ?thesis
      unfolding run using o1 o2 o3 all by (simp add: tc parsed_def)
  qed
qed

subsection \<open>What the driver keeps true\<close>

definition scale_inv :: "rochi_unit \<Rightarrow> serial_scale \<Rightarrow> bool" where
  "scale_inv u s \<longleftrightarrow> rp_sourceUnit (ss_parser s) = u \<and> rp_maxBufferLength (ss_parser s) = ss_limit s \<and>
     length (rp_buffer (ss_parser s)) \<le> ss_limit s \<and> length (ss_initialBuffer s) \<le> ss_limit s \<and>
     (ss_latest s \<noteq> None \<longrightarrow> ss_status s = OPEN)"

definition frame_reading :: "rochi_unit \<Rightarrow> rochi_reading \<Rightarrow> bool" where
  "frame_reading u r \<longleftrightarrow> (\<exists>f. ROCHI_FRAME f \<and> r = reading_of u f)"

text \<open>One step from \<open>s\<close>: it ends, keeps the invariant, delivers frames only and shows what it delivered.\<close>

definition good_step :: "rochi_unit \<Rightarrow> serial_scale \<Rightarrow> serial_scale \<times> scale_output list \<Rightarrow> bool" where
  "good_step u s so \<longleftrightarrow> scale_inv u (fst so) \<and> ss_limit (fst so) = ss_limit s \<and>
     ss_maxReadingAgeMs (fst so) = ss_maxReadingAgeMs s \<and> list_all (frame_reading u) (readings_in (snd so)) \<and>
     (\<forall>m. ss_latest (fst so) = Some m \<longrightarrow> ss_latest s = Some m \<or> Reading m \<in> set (snd so))"

lemma good_quiet: "scale_inv u s' \<Longrightarrow> ss_limit s' = ss_limit s \<Longrightarrow> ss_maxReadingAgeMs s' = ss_maxReadingAgeMs s \<Longrightarrow>
    ss_latest s' = None \<or> ss_latest s' = ss_latest s \<Longrightarrow> good_step u s (s', [])"
  by (auto simp: good_step_def)

lemma good_trans: "good_step u s (s1, o1) \<Longrightarrow> good_step u s1 (s2, o2) \<Longrightarrow> good_step u s (s2, o1 @ o2)"
  by (auto simp: good_step_def)

lemma feedScale_good:
  assumes "scale_inv u s" "ss_status s = OPEN"
  obtains so where "feedScale now chunk quiet s = Some so" "good_step u s so" "ss_status (fst so) = OPEN"
proof -
  let ?p = "ss_parser s"
  obtain p out where f: "feed chunk ?p = Some (p, out)" "rp_sourceUnit p = u" "rp_maxBufferLength p = ss_limit s"
    "length (rp_buffer p) \<le> ss_limit s" "list_all (frame_reading u) (ro_readings out)"
  proof (cases "isAscii chunk")
    case True
    let ?s = "rp_buffer ?p @ chunk"
    have fed: "list_all (frame_reading u) (ro_readings (parsed (rp_sourceUnit ?p) (fst (frames ?s))))"
      using assms(1) by (auto simp: scale_inv_def parsed_def list_all_iff frame_reading_def)
    show thesis
    proof (cases "rp_maxBufferLength ?p < length (snd (frames ?s))")
      case True
      with \<open>isAscii chunk\<close> fed assms(1) show thesis
        by (intro that [of "?p\<lparr>rp_buffer := []\<rparr>" "parsed (rp_sourceUnit ?p) (fst (frames ?s))\<lparr>ro_errors :=
              ro_errors (parsed (rp_sourceUnit ?p) (fst (frames ?s))) @ [BUFFER_OVERFLOW]\<rparr>"])
           (simp_all add: feed_ascii Let_def scale_inv_def)
    next
      case False
      with \<open>isAscii chunk\<close> fed assms(1) show thesis
        by (intro that [of "?p\<lparr>rp_buffer := snd (frames ?s)\<rparr>"]) (simp_all add: feed_ascii Let_def scale_inv_def)
    qed
  next
    case False
    then show thesis using assms(1) by (intro that [of ?p]) (auto simp: feed_def scale_inv_def)
  qed
  from feedScale_outputs [OF f(1), of now quiet] obtain l os where
    "feedScale now chunk quiet s = Some (s\<lparr>ss_parser := p, ss_latest := l\<rparr>, os)" "readings_in os = ro_readings out"
    "l = ss_latest s \<or> (\<exists>m. Reading m \<in> set os \<and> l = Some m)" by auto
  then show thesis using assms f by (intro that) (auto simp: good_step_def scale_inv_def)
qed

lemma initial_good:
  assumes inv: "scale_inv u s" and st: "ss_status s = OPEN"
  obtains so where "handleInitialSynchronization now chunk s = Some so" "good_step u s so"
proof (cases "index_of (ss_initialBuffer s @ chunk) CRLF")
  case None
  show thesis
  proof (cases "ss_limit s < length (ss_initialBuffer s @ chunk)")
    case True
    with None inv show thesis
      by (intro that [of "(s\<lparr>ss_initialBuffer := [], ss_synchronized := True\<rparr>, [])"])
         (auto simp: handleInitialSynchronization_def Let_def scale_inv_def good_step_def)
  next
    case False
    with None inv show thesis
      by (intro that [of "(s\<lparr>ss_initialBuffer := ss_initialBuffer s @ chunk\<rparr>, [])"])
         (auto simp: handleInitialSynchronization_def Let_def scale_inv_def good_step_def)
  qed
next
  case (Some i)
  let ?s = "s\<lparr>ss_initialBuffer := [], ss_synchronized := True\<rparr>" and ?b = "ss_initialBuffer s @ chunk"
  have s: "scale_inv u ?s" "ss_status ?s = OPEN" using inv st by (simp_all add: scale_inv_def)
  obtain s1 o1 where one: "feedScale now (take i ?b @ CRLF) (\<lambda>out. ro_readings out = []) ?s = Some (s1, o1)" "good_step u ?s (s1, o1)" "ss_status s1 = OPEN"
    using feedScale_good [OF s] by (metis fst_conv surj_pair)
  have g1: "good_step u s (s1, o1)" using one(2) by (simp add: good_step_def)
  show thesis
  proof (cases "drop (i + 2) ?b = []")
    case True
    then show thesis using one(1) Some g1 by (intro that [of "(s1, o1)"]) (simp_all add: handleInitialSynchronization_def Let_def del: take_append drop_append)
  next
    case False
    have "scale_inv u s1" using g1 by (simp add: good_step_def)
    then obtain s2 o2 where "feedScale now (drop (i + 2) ?b) (\<lambda>_. False) s1 = Some (s2, o2)" "good_step u s1 (s2, o2)"
      using feedScale_good [OF _ one(3)] by (metis surj_pair)
    then show thesis using one(1) Some False good_trans [OF g1]
      by (intro that [of "(s2, o1 @ o2)"]) (simp_all add: handleInitialSynchronization_def Let_def del: take_append drop_append)
  qed
qed

lemma quiet_steps:
  assumes "scale_inv u s"
  shows "good_step u s (scale_open s, [])" "good_step u s (scale_close s, [])" "good_step u s (handleOpened port g err s, [])"
    "good_step u s (handleError port g e s, [])" "good_step u s (handleClose port g s, [])"
  using assms
  by (auto simp: good_step_def scale_inv_def scale_open_def scale_start_def scale_close_def handleOpened_def handleError_def
    handleClose_def invalidateReadingState_def reset_def Let_def split: option.splits)

lemma step_good:
  assumes inv: "scale_inv u s"
  obtains so where "scale_step now e s = Some so" "good_step u s so"
proof (cases e)
  case (Received port g chunk)
  show thesis
  proof (cases "isCurrentConnection s port g \<and> ss_status s = OPEN")
    case True
    then have st: "ss_status s = OPEN" by simp
    show thesis
    proof (cases "ss_synchronized s")
      case True
      obtain so where "feedScale now chunk (\<lambda>_. False) s = Some so" "good_step u s so" by (rule feedScale_good [OF inv st])
      then show thesis using True \<open>isCurrentConnection s port g \<and> ss_status s = OPEN\<close> Received
        by (intro that) (simp_all add: handleData_def)
    next
      case False
      obtain so where "handleInitialSynchronization now chunk s = Some so" "good_step u s so" by (rule initial_good [OF inv st])
      then show thesis using False \<open>isCurrentConnection s port g \<and> ss_status s = OPEN\<close> Received
        by (intro that) (simp_all add: handleData_def)
    qed
  next
    case False
    then show thesis using inv Received by (intro that [of "(s, [])"]) (auto simp: handleData_def good_step_def)
  qed
qed (use inv in \<open>simp_all add: quiet_steps that\<close>)

lemma run_good:
  assumes "scale_inv u s"
  shows "\<exists>s' os. scale_run es s = Some (s', os) \<and> good_step u s (s', os)"
  using assms
proof (induction es arbitrary: s)
  case Nil
  then show ?case by (auto simp: good_step_def)
next
  case (Cons e es)
  obtain now ev where e: "e = (now, ev)" by fastforce
  obtain s1 o1 where one: "scale_step now ev s = Some (s1, o1)" "good_step u s (s1, o1)"
    using step_good [OF Cons.prems] by (metis surj_pair)
  then have "scale_inv u s1" by (simp add: good_step_def)
  from Cons.IH [OF this] obtain s2 o2 where "scale_run es s1 = Some (s2, o2)" "good_step u s1 (s2, o2)" by blast
  with one good_trans [OF one(2)] show ?case by (auto simp: e)
qed

lemma new_scale_inv: "new_scale cfg = Inr s \<Longrightarrow> scale_inv (sc_sourceUnit cfg) s \<and> ss_latest s = None"
  by (auto simp: new_scale_def and_then_Inr newParser_def Let_def scale_inv_def split: if_splits)

lemma frame_digits: "ROCHI_FRAME f \<Longrightarrow> 0 \<le> frame_thousandths f \<and> frame_thousandths f \<le> 999999 \<and> length f = 7"
  by (cases f rule: ROCHI_FRAME.cases) (auto simp: digit_of_def is_digit_def)

text \<open>
  Property C39: whatever bytes arrive and however the port opens, fails, closes and is reopened, the
  driver answers every event, and what it keeps of an incomplete frame never exceeds its limit.
\<close>

theorem scale_always_answers:
  assumes "new_scale cfg = Inr s"
  shows "\<exists>s' out. scale_run es s = Some (s', out) \<and> getPendingFragmentLength (ss_parser s') \<le> ss_limit s \<and>
    length (ss_initialBuffer s') \<le> ss_limit s"
  using run_good [of "sc_sourceUnit cfg" s es] new_scale_inv [OF assms] by (auto simp: good_step_def scale_inv_def getPendingFragmentLength_def)

text \<open>
  Property C40: every reading that the driver delivers, whatever bytes arrive, is a weight of whole
  thousandths below 1000, written in seven characters, in the configured unit; it is in kilograms
  only when the unit is known, and a pound is half a kilogram.
\<close>

theorem readings_typed:
  assumes "new_scale cfg = Inr s" "scale_run es s = Some (s', out)" "r \<in> set (readings_in out)"
  shows "\<exists>n. 0 \<le> n \<and> n \<le> 999999 \<and> rd_value r = milli n \<and> rd_sourceUnit r = sc_sourceUnit cfg \<and> length (rd_rawValue r) = 7 \<and>
    (rd_kilograms r = None \<longleftrightarrow> sc_sourceUnit cfg = UNKNOWN_UNIT) \<and> (sc_sourceUnit cfg = KG \<longrightarrow> rd_kilograms r = Some (rd_value r)) \<and>
    (sc_sourceUnit cfg = LB \<longrightarrow> rd_kilograms r = Some (dbl (rd_value r / 2)))"
proof -
  have "good_step (sc_sourceUnit cfg) s (s', out)" using run_good [of "sc_sourceUnit cfg" s es] new_scale_inv [OF assms(1)] assms(2) by auto
  then obtain f where f: "ROCHI_FRAME f" "r = reading_of (sc_sourceUnit cfg) f" using assms(3) by (auto simp: good_step_def list_all_iff frame_reading_def)
  then show ?thesis using frame_digits [OF f(1)]
    by (intro exI [of _ "frame_thousandths f"]) (cases "sc_sourceUnit cfg"; simp add: reading_of_def Let_def)
qed


subsection \<open>Weights through the wire\<close>

text \<open>The frame of a weight of \<open>n\<close> thousandths.\<close>

definition frame_of :: "int \<Rightarrow> string" where
  "frame_of n = [digit_char (n div 100000), digit_char (n div 10000), digit_char (n div 1000), CHR ''.'',
     digit_char (n div 100), digit_char (n div 10), digit_char n]"

lemma nat_digit: "nat (d mod 10) < 10"
  by (simp add: nat_less_iff)

lemma code_digit_char [simp]: "code (digit_char d) = 48 + nat (d mod 10)"
  using nat_digit [of d] by (simp add: code_def digit_char_def)

lemma digit_of_char [simp]: "digit_of (digit_char d) = d mod 10"
  by (simp add: digit_of_def)

lemma digit_char_is_digit [simp]: "is_digit (digit_char d)"
  using nat_digit [of d] by (simp add: is_digit_def)

lemma frame_of_frame [simp]: "ROCHI_FRAME (frame_of n)"
  by (simp add: frame_of_def)

lemma six_digits:
  fixes n :: int
  assumes "10 * q1 + m0 = n" "10 * q2 + m1 = q1" "10 * q3 + m2 = q2" "10 * q4 + m3 = q3" "10 * q5 + m4 = q4"
  shows "100000 * q5 + 10000 * m4 + 1000 * m3 + 100 * m2 + 10 * m1 + m0 = n"
  using assms by linarith

lemma frame_of_value:
  assumes "0 \<le> n" "n \<le> 999999" shows "frame_thousandths (frame_of n) = n"
proof -
  have step: "10 * (n div (10 * k)) + n div k mod 10 = n div k" if "0 < k" for k :: int
    using mult_div_mod_eq [of 10 "n div k"] zdiv_zmult2_eq [of 10 n k] by (simp add: mult.commute)
  have "0 \<le> n div 100000" "n div 100000 < 10" using assms by linarith+
  then have "n div 100000 mod 10 = n div 100000" by simp
  moreover have "10 * (n div 10) + n mod 10 = n" by (rule mult_div_mod_eq)
  then have "100000 * (n div 100000) + 10000 * (n div 10000 mod 10) + 1000 * (n div 1000 mod 10) + 100 * (n div 100 mod 10) +
      10 * (n div 10 mod 10) + n mod 10 = n"
    by (rule six_digits) (use step [of 10] step [of 100] step [of 1000] step [of 10000] in simp_all)
  ultimately show ?thesis by (simp add: frame_of_def)
qed

lemma CR_not_digit: "CHR 0x0D \<noteq> digit_char d"
proof
  assume "CHR 0x0D = digit_char d"
  then have "code (CHR 0x0D) = code (digit_char d)" by (rule arg_cong)
  then have "13 = 48 + nat (d mod 10)" by (simp only: code_digit_char) (simp add: code_def)
  then show False by simp
qed

lemma index_of_CRLF: "CHR 0x0D \<notin> set f \<Longrightarrow> index_of (f @ CRLF) CRLF = Some (length f)"
  by (induction f) (auto simp: CRLF_def)

lemma frames_first: "CHR 0x0D \<notin> set f \<Longrightarrow> frames (f @ CRLF @ s) = (f # fst (frames s), snd (frames s))"
  using frames_append [of "f @ CRLF" s] frames_single [OF index_of_CRLF, of f] by simp

lemma frame_of_no_CR [simp]: "CHR 0x0D \<notin> set (frame_of n)"
  using CR_not_digit by (simp add: frame_of_def)

lemma length_frame_of [simp]: "length (frame_of n) = 7"
  by (simp add: frame_of_def)

definition wire :: "int list \<Rightarrow> string" where
  "wire ws = concat (map (\<lambda>w. frame_of w @ CRLF) ws)"

lemma frames_wire: "frames (wire ws) = (map frame_of ws, [])"
proof (induction ws)
  case Nil
  show ?case by (simp add: wire_def frames_None CRLF_def)
next
  case (Cons w ws)
  then show ?case using frames_first [of "frame_of w" "wire ws"] by (simp add: wire_def)
qed

lemma isAscii_append [simp]: "isAscii (a @ b) \<longleftrightarrow> isAscii a \<and> isAscii b"
  by (simp add: isAscii_def)

lemma isAscii_concat: "isAscii (concat cs) \<longleftrightarrow> list_all isAscii cs"
  by (induction cs) (simp_all add: isAscii_def)

lemma isAscii_frame [simp]: shows "isAscii (frame_of n)" "isAscii CRLF"
proof -
  have "nat (d mod 10) \<le> 79" for d using nat_digit [of d] by simp
  then show "isAscii (frame_of n)" by (simp add: isAscii_def frame_of_def code_def [of "CHR ''.''"])
  show "isAscii CRLF" by (simp add: isAscii_def CRLF_def code_def)
qed

lemma isAscii_wire: "isAscii (wire ws)"
  by (induction ws) (simp_all add: wire_def, simp add: isAscii_def)


subsection \<open>A scale that weighs\<close>

definition kg_config :: serial_config where
  "kg_config = \<lparr>sc_path = ''COM3'', sc_sourceUnit = KG, sc_baudRate = None, sc_maxBufferLength = Some 16, sc_maxReadingAgeMs = None\<rparr>"

definition kg_scale :: serial_scale where
  "kg_scale = \<lparr>ss_parser = \<lparr>rp_buffer = [], rp_sourceUnit = KG, rp_maxBufferLength = 16\<rparr>, ss_maxReadingAgeMs = 2000, ss_limit = 16,
     ss_port = None, ss_ports = 0, ss_status = CLOSED, ss_latest = None, ss_lastError = None, ss_initialBuffer = [],
     ss_synchronized = False, ss_generation = 0\<rparr>"

definition weighing :: "(int \<times> scale_event) list" where
  "weighing = [(0, OpenCall), (5, Opened 0 1 None), (9, Received 0 1 (''001.250'' @ CRLF))]"

definition weighed :: measurement where
  "weighed = \<lparr>ms_reading = reading_of KG ''001.250'', ms_receivedAtMs = 9\<rparr>"

lemma kg_scale_new: "new_scale kg_config = Inr kg_scale"
  by (simp add: new_scale_def kg_config_def kg_scale_def newParser_def positive_integer_def coalesce_def js_trim_def js_space_def code_def)

lemma weighing_run: "\<exists>s'. scale_run weighing kg_scale = Some (s', [Reading weighed]) \<and> ss_latest s' = Some weighed \<and> ss_maxReadingAgeMs s' = 2000"
proof -
  have i: "index_of (''001.250'' @ CRLF) CRLF = Some 7" "isAscii (''001.250'' @ CRLF)" by code_simp+
  have "frames (''001.250'' @ CRLF) = ([''001.250''], [])" using frames_single [of "''001.250''"] i(1) by simp
  moreover have "ROCHI_FRAME ''001.250''" by code_simp
  ultimately have "feed (''001.250'' @ CRLF) \<lparr>rp_buffer = [], rp_sourceUnit = KG, rp_maxBufferLength = 16\<rparr> =
      Some (\<lparr>rp_buffer = [], rp_sourceUnit = KG, rp_maxBufferLength = 16\<rparr>, \<lparr>ro_readings = [reading_of KG ''001.250''], ro_errors = []\<rparr>)"
    using i(2) by (simp add: feed_ascii Let_def parsed_def)
  then show ?thesis using i(1)
    by (simp add: weighing_def kg_scale_def scale_open_def scale_start_def invalidateReadingState_def reset_def handleOpened_def
      isCurrentConnection_def handleData_def handleInitialSynchronization_def feedScale_def handleParserOutput_def deliver_def weighed_def
      Let_def)
qed

lemma scale_always_answers_witness:
  "\<exists>s' out. scale_run weighing kg_scale = Some (s', out) \<and> getPendingFragmentLength (ss_parser s') \<le> 16 \<and> length (ss_initialBuffer s') \<le> 16"
  using scale_always_answers [OF kg_scale_new, of weighing] by (simp add: kg_scale_def [THEN arg_cong [where f = ss_limit]])

lemma readings_typed_witness: "\<exists>n. 0 \<le> n \<and> n \<le> 999999 \<and> rd_value (reading_of KG ''001.250'') = milli n"
proof -
  obtain s' where "scale_run weighing kg_scale = Some (s', [Reading weighed])" using weighing_run by blast
  from readings_typed [OF kg_scale_new this, of "reading_of KG ''001.250''"] show ?thesis by (auto simp: weighed_def)
qed



end
