(* ===== verification/Sale_Tables.thy ===== *)
theory Sale_Tables
  imports Outbox_Events Scale_Service Pricing_Service Stock_Adjustments Payment_Service
begin

section \<open>The tables of sales\<close>

text \<open>
  The database that sales read and write (inventory/repositories/sale.repository.ts and the
  migrations): the tables of the finance, inventory, scale and pricing models, and the tables of
  sales, their items, taxes, payment methods and idempotency keys. A row of the table sales is kept
  as its financial columns (the document of \<open>so_fin\<close>), the columns that weight captures refer to
  (the row in \<open>so_scale\<close>) and the others here; a row of products likewise as what pricing, stock
  and the scale read of it.
\<close>

subsection \<open>Rows\<close>

record sale_columns =
  sx_id :: string
  sx_tenantId :: string
  sx_terminalId :: string
  sx_userId :: string
  sx_posSessionId :: string
  sx_cashSessionId :: "string option"
  sx_createdAt :: int

text \<open>
  Money in cents, quantities in thousandths, the discount percentage in ten-thousandths. The columns
  \<open>final_unit_price\<close>, \<open>line_total\<close> and \<open>tax_amount\<close> repeat price, subtotal and tax total.
\<close>

record sale_item_row =
  si_id :: string
  si_tenantId :: string
  si_saleId :: string
  si_productId :: string
  si_orderItemId :: "string option"
  si_weight :: bool
  si_quantity :: int
  si_price :: int
  si_priceWithoutTax :: int
  si_taxTotal :: int
  si_subtotal :: int
  si_baseUnitPrice :: int
  si_discountAmount :: int
  si_discountPercent :: int
  si_discountTotal :: int
  si_promotionId :: "string option"
  si_promotionName :: "string option"
  si_taxBase :: int
  si_snapshot :: line_preview
  si_createdAt :: int

record sale_tax_row =
  st_itemId :: string
  st_tenantId :: string
  st_taxId :: string
  st_taxName :: string
  st_rate :: int
  st_base :: int
  st_amount :: int
  st_included :: bool
  st_dianCode :: "string option"
  st_typeCode :: "string option"
  st_methodCode :: "string option"

record sale_method_row =
  sm_tenantId :: string
  sm_saleId :: string
  sm_method :: string
  sm_amount :: int
  sm_reference :: "string option"

record sale_key_row =
  ky_tenantId :: string
  ky_key :: string
  ky_hash :: string
  ky_saleId :: "string option"

record order_item_row =
  oi_id :: string
  oi_orderId :: string
  oi_ordered :: int
  oi_delivered :: int
  oi_billed :: "int option"

text \<open>The columns of deliveries that link them to sales.\<close>

record delivery_link =
  dk_id :: string
  dk_tenantId :: string
  dk_orderId :: "string option"
  dk_saleId :: "string option"
  dk_updatedBy :: "string option"

record tax_name_row =
  tn_id :: string
  tn_tenantId :: string
  tn_name :: string
  tn_included :: bool

text \<open>A row of pos\_user\_sessions as \<open>findCurrentPosContext\<close> reads it.\<close>

record current_row =
  cu_posSessionId :: string
  cu_tenantId :: string
  cu_userId :: string
  cu_authSessionId :: "string option"
  cu_branchId :: string
  cu_terminalId :: string
  cu_active :: bool
  cu_startedAt :: int

record sale_db =
  so_fin :: fin_db
  so_inv :: inv_db
  so_scale :: scale_db
  so_pricing :: pricing_db
  so_sales :: "sale_columns list"
  so_items :: "sale_item_row list"
  so_taxes :: "sale_tax_row list"
  so_methods :: "sale_method_row list"
  so_keys :: "sale_key_row list"
  so_orderItems :: "order_item_row list"
  so_customers :: "(string \<times> string \<times> bool) list"
  so_taxNames :: "tax_name_row list"
  so_methodNames :: "(string \<times> string) list"
  so_deliveries :: "delivery_link list"
  so_current :: "current_row list"
  so_outbox :: outbox

text \<open>
  The environment of a request: the environments of the services it calls, the identifiers that are
  drawn for the n-th row of a table, what a numeric(14, 3) column stores of a number after ROUND to
  the given scale, and what a numeric(12, 4) column stores. \<open>sv_bill\<close> is the electronic billing of
  a committed sale, which is not modelled: it may refuse the sale, or append to the outbox.
\<close>

record sale_env =
  sv_scale :: scale_env
  sv_fin :: fin_env
  sv_inv :: inv_env
  sv_text :: text_host
  sv_id :: "string \<Rightarrow> nat \<Rightarrow> string"
  sv_round :: "nat \<Rightarrow> rat \<Rightarrow> int option"
  sv_rate :: "rat \<Rightarrow> int option"
  sv_bill :: "string \<Rightarrow> sale_db \<Rightarrow> outbox http"

definition sv_now :: "sale_env \<Rightarrow> int" where
  "sv_now env = se_now (sv_scale env)"

subsection \<open>Reading\<close>

definition validateCustomer :: "string \<Rightarrow> string \<Rightarrow> sale_db \<Rightarrow> bool" where
  "validateCustomer tenantId customerId db \<longleftrightarrow> (customerId, tenantId, True) \<in> set (so_customers db)"

definition validateOrder :: "string \<Rightarrow> string \<Rightarrow> sale_db \<Rightarrow> bool" where
  "validateOrder tenantId orderId db \<longleftrightarrow> list_ex (is_document D_ORDER orderId tenantId) (fd_documents (so_fin db))"

definition findCurrentPosContext :: "string \<Rightarrow> string \<Rightarrow> string option \<Rightarrow> sale_db \<Rightarrow> current_row option" where
  "findCurrentPosContext tenantId userId authSessionId db =
     (case sort_key (\<lambda>r. - cu_startedAt r) (filter (\<lambda>r. cu_tenantId r = tenantId \<and> cu_userId r = userId \<and> cu_active r \<and>
        (truthy authSessionId \<longrightarrow> cu_authSessionId r = authSessionId)) (so_current db)) of [] \<Rightarrow> None | r # _ \<Rightarrow> Some r)"

definition findPaymentMethodTypesByIds :: "string \<Rightarrow> sale_db \<Rightarrow> string \<Rightarrow> method_row option" where
  "findPaymentMethodTypesByIds tenantId db methodId = findMethodById methodId tenantId (so_fin db)"

definition findSale :: "string \<Rightarrow> string \<Rightarrow> sale_db \<Rightarrow> document_row option" where
  "findSale i tenantId db = find (is_document D_SALE i tenantId) (fd_documents (so_fin db))"

subsection \<open>Idempotency keys\<close>

definition is_key :: "string \<Rightarrow> string \<Rightarrow> sale_key_row \<Rightarrow> bool" where
  "is_key tenantId key r \<longleftrightarrow> ky_tenantId r = tenantId \<and> ky_key r = key"

text \<open>The reservation, with whether it was made now.\<close>

definition reserveSaleCreationIdempotency :: "string \<Rightarrow> string \<Rightarrow> string \<Rightarrow> sale_db \<Rightarrow> bool \<times> sale_key_row \<times> sale_db" where
  "reserveSaleCreationIdempotency tenantId key hash db =
     (case find (is_key tenantId key) (so_keys db) of
        Some r \<Rightarrow> (False, r, db)
      | None \<Rightarrow> let r = \<lparr>ky_tenantId = tenantId, ky_key = key, ky_hash = hash, ky_saleId = None\<rparr>
          in (True, r, db\<lparr>so_keys := so_keys db @ [r]\<rparr>))"

definition open_key :: "string \<Rightarrow> string \<Rightarrow> sale_key_row \<Rightarrow> bool" where
  "open_key tenantId key r \<longleftrightarrow> is_key tenantId key r \<and> ky_saleId r = None"

definition completeSaleCreationIdempotency :: "string \<Rightarrow> string \<Rightarrow> string \<Rightarrow> sale_db \<Rightarrow> sale_db http" where
  "completeSaleCreationIdempotency tenantId key saleId db =
     (if Prelude.count (open_key tenantId key) (so_keys db) \<noteq> 1
        then Inl (InternalError ''sale idempotency reservation could not be completed'')
      else if \<exists>r \<in> set (so_keys db). ky_tenantId r = tenantId \<and> ky_saleId r = Some saleId
        then Inl (InternalError ''uq_sale_creation_idempotency_sale'')
      else Inr (db\<lparr>so_keys := update_where (open_key tenantId key) (\<lambda>r. r\<lparr>ky_saleId := Some saleId\<rparr>) (so_keys db)\<rparr>))"

definition findSaleByIdempotencyKey :: "string \<Rightarrow> string \<Rightarrow> sale_db \<Rightarrow> sale_key_row option" where
  "findSaleByIdempotencyKey tenantId key db = find (is_key tenantId key) (so_keys db)"

subsection \<open>Writing\<close>

definition updateSaleStatus :: "string \<Rightarrow> string \<Rightarrow> string \<Rightarrow> sale_db \<Rightarrow> sale_db" where
  "updateSaleStatus saleId tenantId status db = db\<lparr>so_fin := (so_fin db)\<lparr>fd_documents :=
     update_where (is_document D_SALE saleId tenantId) (\<lambda>d. d\<lparr>dc_status := status\<rparr>) (fd_documents (so_fin db))\<rparr>\<rparr>"

text \<open>The status of an order by its items, as \<open>refreshOrderStatus\<close> and the stored function set it.\<close>

definition order_status :: "order_item_row list \<Rightarrow> string" where
  "order_status items =
     (if items = [] then ''CONFIRMED''
      else if list_all (\<lambda>i. oi_delivered i = 0) items then ''CONFIRMED''
      else if list_all (\<lambda>i. oi_ordered i \<le> oi_delivered i) items then ''COMPLETED'' else ''PARTIAL'')"

definition refreshOrderStatus :: "string \<Rightarrow> string \<Rightarrow> sale_db \<Rightarrow> sale_db" where
  "refreshOrderStatus orderId tenantId db = db\<lparr>so_fin := (so_fin db)\<lparr>fd_documents :=
     update_where (is_document D_ORDER orderId tenantId)
       (\<lambda>d. d\<lparr>dc_status := order_status (filter (\<lambda>i. oi_orderId i = orderId) (so_orderItems db))\<rparr>) (fd_documents (so_fin db))\<rparr>\<rparr>"

definition set_cash_session :: "string option \<Rightarrow> string \<Rightarrow> string \<Rightarrow> sale_db \<Rightarrow> sale_db" where
  "set_cash_session cashSessionId saleId tenantId db =
     (if \<not> truthy cashSessionId then db
      else db\<lparr>so_sales := update_where (\<lambda>s. sx_id s = saleId \<and> sx_tenantId s = tenantId \<and> sx_cashSessionId s = None)
        (\<lambda>s. s\<lparr>sx_cashSessionId := cashSessionId\<rparr>) (so_sales db)\<rparr>)"

definition linkOrderDeliveryToSale :: "string \<Rightarrow> string option \<Rightarrow> string \<Rightarrow> string \<Rightarrow> sale_db \<Rightarrow> sale_db" where
  "linkOrderDeliveryToSale tenantId orderId saleId userId db =
     (if \<not> truthy orderId \<or> (\<exists>d \<in> set (so_deliveries db). dk_tenantId d = tenantId \<and> dk_saleId d = Some saleId) then db
      else db\<lparr>so_deliveries := update_where (\<lambda>d. dk_tenantId d = tenantId \<and> dk_orderId d = orderId \<and> dk_saleId d = None)
        (\<lambda>d. d\<lparr>dk_saleId := Some saleId, dk_updatedBy := Some userId\<rparr>) (so_deliveries db)\<rparr>)"

end
