(* ===== verification/Sale_Function.thy ===== *)
theory Sale_Function
  imports Sale_Tables
begin

section \<open>The stored function of a sale\<close>

text \<open>
  \<open>inventory_create_sale_v2\<close> (scripts/database/migrations/V104), as the sale service calls it: every
  item carries the price of the pricing service, so the branch for items without one is left out.
  The function writes the sale, its items with their taxes, the stock movements, the lots they take
  from, the progress of the order and the payment methods. An error leaves nothing written.
\<close>

subsection \<open>Arguments\<close>

record priced_item =
  pi_saleItemId :: string
  pi_productId :: string
  pi_weight :: bool
  pi_quantity :: rat
  pi_orderItemId :: "string option"
  pi_priceWithoutTax :: rat
  pi_discountTotal :: rat
  pi_preview :: line_preview

record legacy_method =
  lm_method :: string
  lm_amount :: rat
  lm_reference :: "string option"

definition raise :: "string \<Rightarrow> 'a http" where
  "raise message = Inl (InternalError message)"

text \<open>\<open>BTRIM\<close> removes blanks; \<open>NULLIF(BTRIM(x), '')\<close>.\<close>

definition btrim :: "string \<Rightarrow> string" where
  "btrim s = rev (dropWhile (\<lambda>c. c = CHR '' '') (rev (dropWhile (\<lambda>c. c = CHR '' '') s)))"

definition not_blank :: "string option \<Rightarrow> string option" where
  "not_blank v = (case v of None \<Rightarrow> None | Some s \<Rightarrow> if btrim s = [] then None else Some (btrim s))"

definition cast_money :: "sale_env \<Rightarrow> rat \<Rightarrow> int http" where
  "cast_money env x = (case fe_money (sv_fin env) x of None \<Rightarrow> raise ''numeric field overflow'' | Some n \<Rightarrow> Inr n)"

definition cast_rate :: "sale_env \<Rightarrow> rat \<Rightarrow> int http" where
  "cast_rate env x = (case sv_rate env x of None \<Rightarrow> raise ''numeric field overflow'' | Some n \<Rightarrow> Inr n)"

subsection \<open>The context\<close>

definition check_context :: "sale_context \<Rightarrow> string \<Rightarrow> string option \<Rightarrow> string \<Rightarrow> sale_db \<Rightarrow> unit http" where
  "check_context ctx customerId orderId type db =
     (if type \<notin> {''CASH'', ''CREDIT''} then raise ''type is invalid''
      else if findBranchById (sc_branchId ctx) (sc_tenantId ctx) (so_fin db) = None then raise ''branch not found for tenant''
      else if \<not> list_ex (\<lambda>t. tm_id t = sc_terminalId ctx \<and> tm_tenantId t = sc_tenantId ctx \<and> tm_branchId t = sc_branchId ctx \<and>
          tm_active t) (sd_terminals (so_scale db)) then raise ''terminal not found for tenant and branch''
      else if findUserById (sc_userId ctx) (sc_tenantId ctx) (so_fin db) = None then raise ''user not found for tenant''
      else if \<not> validateActivePosSession (so_scale db) ctx then raise ''pos session not found for context''
      else if \<not> validateCustomer (sc_tenantId ctx) customerId db then raise ''customer not found for tenant''
      else if (case orderId of None \<Rightarrow> False | Some i \<Rightarrow> \<not> validateOrder (sc_tenantId ctx) i db) then raise ''order not found for tenant''
      else Inr ())"

definition sale_document :: "sale_context \<Rightarrow> string \<Rightarrow> string \<Rightarrow> string option \<Rightarrow> string \<Rightarrow> document_row" where
  "sale_document ctx saleId customerId orderId type =
     \<lparr>dc_kind = D_SALE, dc_id = saleId, dc_tenantId = sc_tenantId ctx, dc_branchId = Some (sc_branchId ctx), dc_status = ''DRAFT'',
      dc_cash = (type = ''CASH''), dc_orderId = orderId, dc_partyId = Some customerId, dc_total = 0, dc_totalPaid = 0,
      dc_balance = Some 0, dc_balanceDue = Some 0, dc_paymentStatus = ''PENDING''\<rparr>"

definition insert_sale :: "sale_env \<Rightarrow> sale_context \<Rightarrow> string \<Rightarrow> string \<Rightarrow> string option \<Rightarrow> string \<Rightarrow> sale_db \<Rightarrow> sale_db http" where
  "insert_sale env ctx saleId customerId orderId type db =
     (if saleId \<in> sx_id ` set (so_sales db) \<or> (\<exists>d \<in> set (fd_documents (so_fin db)). dc_kind d = D_SALE \<and> dc_id d = saleId)
      then raise ''sales_pkey''
      else and_then (insertSale ctx saleId (so_scale db)) (\<lambda>scale.
        Inr (db\<lparr>so_scale := scale,
          so_fin := (so_fin db)\<lparr>fd_documents := fd_documents (so_fin db) @ [sale_document ctx saleId customerId orderId type]\<rparr>,
          so_sales := so_sales db @ [\<lparr>sx_id = saleId, sx_tenantId = sc_tenantId ctx, sx_terminalId = sc_terminalId ctx,
            sx_userId = sc_userId ctx, sx_posSessionId = sc_posSessionId ctx, sx_cashSessionId = None, sx_createdAt = sv_now env\<rparr>]\<rparr>)))"

subsection \<open>Checks of an item\<close>

definition item_quantity :: "sale_env \<Rightarrow> priced_item \<Rightarrow> int http" where
  "item_quantity env it =
     (if pi_quantity it \<le> 0 then raise ''quantity must be a positive number''
      else case sv_round env (if pi_weight it then 3 else 2) (pi_quantity it) of
        None \<Rightarrow> raise ''numeric field overflow'' | Some q \<Rightarrow> Inr q)"

definition active_product :: "string \<Rightarrow> string \<Rightarrow> sale_db \<Rightarrow> stock_product option" where
  "active_product tenantId productId db =
     (case findProduct (so_scale db) productId tenantId of
        None \<Rightarrow> None | Some w \<Rightarrow> if wp_active w then findProductPolicy (so_inv db) tenantId productId else None)"

definition check_order_item :: "string \<Rightarrow> string option \<Rightarrow> string option \<Rightarrow> int \<Rightarrow> sale_db \<Rightarrow> unit http" where
  "check_order_item tenantId orderId orderItemId quantity db =
     (case (orderId, orderItemId) of
        (None, Some _) \<Rightarrow> raise ''order_id is required when order_item_id is provided''
      | (Some _, None) \<Rightarrow> raise ''order_item_id is required for sale items linked to an order''
      | (None, None) \<Rightarrow> Inr ()
      | (Some i, Some j) \<Rightarrow>
          (case find (\<lambda>o'. oi_id o' = j \<and> oi_orderId o' = i \<and> validateOrder tenantId i db) (so_orderItems db) of
             None \<Rightarrow> raise ''order item not found for order and tenant''
           | Some o' \<Rightarrow> if oi_ordered o' - oi_delivered o' < quantity
               then raise ''sale quantity exceeds pending quantity for order item'' else Inr ()))"

definition lots_of :: "string \<Rightarrow> string \<Rightarrow> string \<Rightarrow> inv_db \<Rightarrow> (balance_row \<times> lot_row) list" where
  "lots_of tenantId branchId productId db =
     [(b, l). b <- iv_balances db, l <- iv_lots db,
      lt_id l = bl_lotId b \<and> lt_tenantId l = bl_tenantId b \<and> lt_branchId l = bl_branchId b \<and> lt_productId l = bl_productId b \<and>
      bl_tenantId b = tenantId \<and> bl_branchId b = branchId \<and> bl_productId b = productId]"

definition bl_available :: "balance_row \<Rightarrow> int" where
  "bl_available b = bl_onHand b - bl_reserved b"

definition check_lots :: "string \<Rightarrow> string \<Rightarrow> stock_product \<Rightarrow> sale_db \<Rightarrow> unit http" where
  "check_lots tenantId branchId p db =
     (if \<not> sp_requiresLot p then Inr ()
      else if \<exists>b \<in> set (iv_balances (so_inv db)). bl_tenantId b = tenantId \<and> bl_branchId b = branchId \<and> bl_productId b = sp_id p \<and>
          (bl_onHand b < 0 \<or> bl_reserved b < 0 \<or> bl_onHand b < bl_reserved b)
        then raise ''invalid lot balance reservation for product''
      else if sp_requiresExpiration p \<and> list_ex (\<lambda>(b, l). 0 < bl_available b \<and> lt_status l = LOT_ACTIVE \<and> lt_expirationDate l = None)
          (lots_of tenantId branchId (sp_id p) (so_inv db))
        then raise ''expiration date is required for lot-controlled product''
      else Inr ())"

subsection \<open>The item and its taxes\<close>

definition non_negative :: "int \<Rightarrow> string \<Rightarrow> unit http" where
  "non_negative n message = (if n < 0 then raise message else Inr ())"

text \<open>The row of an item, from the snapshot of its price.\<close>

definition sale_item :: "sale_env \<Rightarrow> sale_context \<Rightarrow> string \<Rightarrow> priced_item \<Rightarrow> int \<Rightarrow> sale_item_row http" where
  "sale_item env ctx saleId it quantity = (let p = pi_preview it in
     and_then (cast_money env (lp_finalUnitPrice p)) (\<lambda>price.
     and_then (cast_money env (lp_lineTotal p)) (\<lambda>subtotal.
     and_then (cast_money env (pi_priceWithoutTax it)) (\<lambda>withoutTax.
     and_then (cast_money env (lp_taxBase p)) (\<lambda>taxBase.
     and_then (cast_money env (lp_baseUnitPrice p)) (\<lambda>basePrice.
     and_then (cast_money env (lp_discountAmount p)) (\<lambda>discount.
     and_then (cast_rate env (lp_discountPercent p)) (\<lambda>percent.
     and_then (cast_money env (pi_discountTotal it)) (\<lambda>discountTotal.
     and_then (cast_money env (lp_taxAmount p)) (\<lambda>taxAmount.
     and_then (cast_rate env (lp_taxRate p)) (\<lambda>taxRate.
     and_then (non_negative price ''final_unit_price is required for POS pricing snapshot and must be non-negative'') (\<lambda>_.
     and_then (non_negative subtotal ''line_total is required for POS pricing snapshot and must be non-negative'') (\<lambda>_.
     and_then (non_negative withoutTax ''price_without_tax is required for POS pricing snapshot and must be non-negative'') (\<lambda>_.
     and_then (non_negative taxBase ''tax_base is required for POS pricing snapshot and must be non-negative'') (\<lambda>_.
     and_then (non_negative basePrice ''base_unit_price must be non-negative for POS pricing snapshot'') (\<lambda>_.
     and_then (non_negative discount ''discount_amount must be non-negative for POS pricing snapshot'') (\<lambda>_.
     and_then (if percent < 0 \<or> 1000000 < percent then raise ''discount_percent must be between 0 and 100 for POS pricing snapshot'' else Inr ()) (\<lambda>_.
     and_then (non_negative discountTotal ''discount_total must be non-negative for POS pricing snapshot'') (\<lambda>_.
     and_then (non_negative taxAmount ''tax_amount must be non-negative for POS pricing snapshot'') (\<lambda>_.
     and_then (non_negative taxRate ''tax_rate must be non-negative for POS pricing snapshot'') (\<lambda>_.
     and_then (if 0 < taxAmount \<and> not_blank (lp_taxId p) = None
         then raise ''tax_id is required when POS pricing snapshot tax_amount is positive'' else Inr ()) (\<lambda>_.
     Inr \<lparr>si_id = pi_saleItemId it, si_tenantId = sc_tenantId ctx, si_saleId = saleId, si_productId = pi_productId it,
       si_orderItemId = pi_orderItemId it, si_weight = pi_weight it, si_quantity = quantity, si_price = price,
       si_priceWithoutTax = withoutTax, si_taxTotal = taxAmount, si_subtotal = subtotal, si_baseUnitPrice = basePrice,
       si_discountAmount = discount, si_discountPercent = percent, si_discountTotal = discountTotal,
       si_promotionId = not_blank (lp_appliedPromotionId p), si_promotionName = not_blank (lp_appliedPromotionName p),
       si_taxBase = taxBase, si_snapshot = p, si_createdAt = sv_now env\<rparr>))))))))))))))))))))))"

definition find_tax :: "string \<Rightarrow> string \<Rightarrow> sale_db \<Rightarrow> tax_name_row option" where
  "find_tax tenantId taxId db = find (\<lambda>t. tn_id t = taxId \<and> tn_tenantId t = tenantId) (so_taxNames db)"

definition SNAPSHOT_TAX :: string where
  "SNAPSHOT_TAX = ''POS_PRICING_SERVICE_TAX''"

definition tax_row_of :: "sale_env \<Rightarrow> string \<Rightarrow> string \<Rightarrow> sale_db \<Rightarrow> preview_tax \<Rightarrow> sale_tax_row http" where
  "tax_row_of env tenantId itemId db t =
     and_then (cast_rate env (pt_taxRate t)) (\<lambda>rate.
     and_then (cast_money env (pt_taxAmount t)) (\<lambda>amount.
     and_then (cast_money env (pt_taxBase t)) (\<lambda>base.
     if rate < 0 \<or> amount < 0 then raise ''sale_item_taxes'' else
     Inr \<lparr>st_itemId = itemId, st_tenantId = tenantId, st_taxId = pt_taxId t,
       st_taxName = coalesce (not_blank (Some (pt_taxName t)))
         (coalesce (map_option tn_name (find_tax tenantId (pt_taxId t) db)) SNAPSHOT_TAX),
       st_rate = rate, st_base = base, st_amount = amount, st_included = pt_isIncluded t, st_dianCode = not_blank (pt_dianCode t),
       st_typeCode = not_blank (pt_taxTypeCode t), st_methodCode = not_blank (pt_calculationMethodCode t)\<rparr>)))"

fun tax_rows_of :: "sale_env \<Rightarrow> string \<Rightarrow> string \<Rightarrow> sale_db \<Rightarrow> preview_tax list \<Rightarrow> sale_tax_row list http" where
  "tax_rows_of env tenantId itemId db [] = Inr []"
| "tax_rows_of env tenantId itemId db (t # ts) =
     and_then (tax_row_of env tenantId itemId db t) (\<lambda>r.
     and_then (tax_rows_of env tenantId itemId db ts) (\<lambda>rs. Inr (r # rs)))"

text \<open>The taxes of the snapshot or, without any, the tax it names.\<close>

definition item_taxes :: "sale_env \<Rightarrow> sale_item_row \<Rightarrow> sale_db \<Rightarrow> sale_tax_row list http" where
  "item_taxes env row db = (let p = si_snapshot row in
     if lp_taxes p \<noteq> [] then tax_rows_of env (si_tenantId row) (si_id row) db (lp_taxes p)
     else case not_blank (lp_taxId p) of
       None \<Rightarrow> Inr []
     | Some taxId \<Rightarrow>
         (case find_tax (si_tenantId row) taxId db of
            None \<Rightarrow> raise ''tax_id from POS pricing snapshot not found for tenant''
          | Some t \<Rightarrow> and_then (cast_rate env (lp_taxRate p)) (\<lambda>rate.
              Inr [\<lparr>st_itemId = si_id row, st_tenantId = si_tenantId row, st_taxId = taxId,
                st_taxName = coalesce (not_blank (Some (tn_name t))) SNAPSHOT_TAX, st_rate = rate, st_base = si_taxBase row,
                st_amount = si_taxTotal row, st_included = tn_included t, st_dianCode = None, st_typeCode = None, st_methodCode = None\<rparr>])))"

definition insert_item :: "sale_env \<Rightarrow> sale_item_row \<Rightarrow> sale_db \<Rightarrow> sale_db http" where
  "insert_item env row db =
     (if si_id row \<in> si_id ` set (so_items db) \<or> si_quantity row \<le> 0 then raise ''sale_items''
      else and_then (item_taxes env row db) (\<lambda>ts.
        Inr (db\<lparr>so_items := so_items db @ [row], so_taxes := so_taxes db @ ts\<rparr>)))"

subsection \<open>Stock\<close>

definition sale_movement :: "sale_env \<Rightarrow> sale_context \<Rightarrow> string \<Rightarrow> string \<Rightarrow> int \<Rightarrow> inv_db \<Rightarrow> movement_row" where
  "sale_movement env ctx saleId productId quantity db =
     (let before = stock_sum productId (sc_tenantId ctx) (Some (sc_branchId ctx)) db
      in \<lparr>mv_id = sv_id env ''stock_movements'' (length (iv_movements db)), mv_tenantId = sc_tenantId ctx, mv_productId = productId,
          mv_in = False, mv_quantity = quantity, mv_referenceType = ''SALE'', mv_referenceId = saleId,
          mv_branchId = Some (sc_branchId ctx), mv_terminalId = Some (sc_terminalId ctx),
          mv_posSessionCode = Some (sc_posSessionId ctx), mv_userId = Some (sc_userId ctx), mv_referenceTable = Some ''sales'',
          mv_before = before, mv_after = before - quantity, mv_createdAt = sv_now env\<rparr>)"

definition insert_movement :: "movement_row \<Rightarrow> inv_db \<Rightarrow> inv_db http" where
  "insert_movement m db =
     (if mv_id m \<in> mv_id ` set (iv_movements db) \<or> mv_quantity m \<le> 0 then raise ''stock_movements''
      else Inr (db\<lparr>iv_movements := iv_movements db @ [m]\<rparr>))"

text \<open>The lots of a product that may be sold, in the order of the query; a lot without a date comes last.\<close>

definition sellable_lot :: "inv_env \<Rightarrow> stock_product \<Rightarrow> balance_row \<times> lot_row \<Rightarrow> bool" where
  "sellable_lot env p bl = (case bl of (b, l) \<Rightarrow> 0 < bl_available b \<and> lt_status l = LOT_ACTIVE \<and>
     (case lt_expirationDate l of None \<Rightarrow> \<not> sp_requiresExpiration p | Some d \<Rightarrow> iv_currentDate env \<le> d))"

definition lot_order :: "host \<Rightarrow> balance_row \<times> lot_row \<Rightarrow> balance_row \<times> lot_row \<Rightarrow> rat" where
  "lot_order h x y = (case (snd x, snd y) of (l, m) \<Rightarrow>
     if lt_expirationDate l \<noteq> lt_expirationDate m then
       (case (lt_expirationDate l, lt_expirationDate m) of
          (None, _) \<Rightarrow> 1 | (_, None) \<Rightarrow> - 1 | (Some d, Some e) \<Rightarrow> of_int (d - e))
     else if lt_receivedAt l \<noteq> lt_receivedAt m then of_int (lt_receivedAt l - lt_receivedAt m)
     else if lt_lotCode l \<noteq> lt_lotCode m then of_int (locale_compare h (lt_lotCode l) (lt_lotCode m))
     else of_int (locale_compare h (lt_id l) (lt_id m)))"

definition lots_to_sell :: "inv_env \<Rightarrow> sale_context \<Rightarrow> stock_product \<Rightarrow> inv_db \<Rightarrow> balance_row list" where
  "lots_to_sell env ctx p db = map fst (js_sort (lot_order (iv_host env))
     (filter (sellable_lot env p) (lots_of (sc_tenantId ctx) (sc_branchId ctx) (sp_id p) db)))"

text \<open>How much each of them gives, until nothing remains.\<close>

fun take_lots :: "int \<Rightarrow> balance_row list \<Rightarrow> (balance_row \<times> int) list \<times> int" where
  "take_lots remaining [] = ([], remaining)"
| "take_lots remaining (b # bs) =
     (if remaining \<le> 0 then ([], remaining)
      else let q = min remaining (bl_available b) in
        if q \<le> 0 then take_lots remaining bs
        else case take_lots (remaining - q) bs of (rest, left) \<Rightarrow> ((b, q) # rest, left))"

definition sale_link :: "sale_env \<Rightarrow> movement_row \<Rightarrow> balance_row \<Rightarrow> int \<Rightarrow> inv_db \<Rightarrow> link_row" where
  "sale_link env m b q db =
     \<lparr>lk_id = sv_id env ''stock_movement_lots'' (length (iv_links db)), lk_tenantId = mv_tenantId m, lk_movementId = mv_id m,
      lk_productId = mv_productId m, lk_lotId = Some (bl_lotId b), lk_locationId = bl_locationId b, lk_quantity = q,
      lk_createdAt = mv_createdAt m\<rparr>"

definition same_balance :: "balance_row \<Rightarrow> int \<Rightarrow> balance_row \<Rightarrow> bool" where
  "same_balance b q r \<longleftrightarrow> bl_id r = bl_id b \<and> bl_tenantId r = bl_tenantId b \<and> bl_branchId r = bl_branchId b \<and>
     bl_productId r = bl_productId b \<and> bl_lotId r = bl_lotId b \<and> q \<le> bl_available r"

definition take_lot :: "sale_env \<Rightarrow> movement_row \<Rightarrow> balance_row \<times> int \<Rightarrow> inv_db \<Rightarrow> inv_db http" where
  "take_lot env m bq db = (case bq of (b, q) \<Rightarrow>
     if \<not> list_ex (same_balance b q) (iv_balances db) then raise ''insufficient FEFO lot stock for product''
     else let link = sale_link env m b q db in
       if lk_id link \<in> lk_id ` set (iv_links db) then raise ''stock_movement_lots_pkey''
       else Inr (db\<lparr>iv_balances := update_where (same_balance b q)
           (\<lambda>r. r\<lparr>bl_onHand := bl_onHand r - q, bl_lastMovementAt := Some (mv_createdAt m), bl_updatedAt := mv_createdAt m\<rparr>)
           (iv_balances db), iv_links := iv_links db @ [link]\<rparr>))"

fun take_each :: "sale_env \<Rightarrow> movement_row \<Rightarrow> (balance_row \<times> int) list \<Rightarrow> inv_db \<Rightarrow> inv_db http" where
  "take_each env m [] db = Inr db"
| "take_each env m (x # xs) db = and_then (take_lot env m x db) (take_each env m xs)"

definition consume_fefo :: "sale_env \<Rightarrow> sale_context \<Rightarrow> stock_product \<Rightarrow> movement_row \<Rightarrow> inv_db \<Rightarrow> inv_db http" where
  "consume_fefo env ctx p m db =
     (if \<not> sp_requiresLot p then Inr db
      else case take_lots (mv_quantity m) (lots_to_sell (sv_inv env) ctx p db) of (taken, left) \<Rightarrow>
        and_then (take_each env m taken db) (\<lambda>db'.
        if 0 < left then raise ''insufficient FEFO lot stock for product'' else Inr db'))"

definition advance_order :: "string option \<Rightarrow> string option \<Rightarrow> int \<Rightarrow> sale_db \<Rightarrow> sale_db" where
  "advance_order orderId orderItemId quantity db = (case (orderId, orderItemId) of
       (Some i, Some j) \<Rightarrow> db\<lparr>so_orderItems := update_where (\<lambda>o'. oi_id o' = j \<and> oi_orderId o' = i)
         (\<lambda>o'. o'\<lparr>oi_delivered := oi_delivered o' + quantity, oi_billed := Some (coalesce (oi_billed o') 0 + quantity)\<rparr>)
         (so_orderItems db)\<rparr>
     | _ \<Rightarrow> db)"

subsection \<open>Items\<close>

text \<open>One turn of the loop over the items, with the amount it adds to the total.\<close>

definition sell_item :: "sale_env \<Rightarrow> sale_context \<Rightarrow> string \<Rightarrow> string option \<Rightarrow> priced_item \<Rightarrow> sale_db \<Rightarrow> (int \<times> sale_db) http" where
  "sell_item env ctx saleId orderId it db =
     and_then (item_quantity env it) (\<lambda>quantity.
     case active_product (sc_tenantId ctx) (pi_productId it) db of
       None \<Rightarrow> raise ''product not found for tenant''
     | Some p \<Rightarrow>
         and_then (check_order_item (sc_tenantId ctx) orderId (not_blank (pi_orderItemId it)) quantity db) (\<lambda>_.
         and_then (if stock_sum (pi_productId it) (sc_tenantId ctx) (Some (sc_branchId ctx)) (so_inv db) < quantity
             then raise ''insufficient stock for product'' else Inr ()) (\<lambda>_.
         and_then (check_lots (sc_tenantId ctx) (sc_branchId ctx) p db) (\<lambda>_.
         and_then (sale_item env ctx saleId (it\<lparr>pi_orderItemId := not_blank (pi_orderItemId it)\<rparr>) quantity) (\<lambda>row.
         and_then (insert_item env row db) (\<lambda>db1.
         let m = sale_movement env ctx saleId (pi_productId it) quantity (so_inv db1) in
         and_then (insert_movement m (so_inv db1)) (\<lambda>inv1.
         and_then (consume_fefo env ctx p m inv1) (\<lambda>inv2.
         Inr (si_subtotal row, advance_order orderId (not_blank (pi_orderItemId it)) quantity (db1\<lparr>so_inv := inv2\<rparr>))))))))))"

definition MONEY_12_2 :: int where
  "MONEY_12_2 = 10 ^ 12"

fun sell_items :: "sale_env \<Rightarrow> sale_context \<Rightarrow> string \<Rightarrow> string option \<Rightarrow> priced_item list \<Rightarrow> int \<Rightarrow> sale_db \<Rightarrow> (int \<times> sale_db) http" where
  "sell_items env ctx saleId orderId [] acc db = Inr (acc, db)"
| "sell_items env ctx saleId orderId (it # its) acc db =
     and_then (sell_item env ctx saleId orderId it db) (\<lambda>(amount, db').
     if MONEY_12_2 \<le> acc + amount then raise ''numeric field overflow''
     else sell_items env ctx saleId orderId its (acc + amount) db')"

subsection \<open>Payment methods\<close>

fun insert_methods :: "sale_env \<Rightarrow> string \<Rightarrow> string \<Rightarrow> legacy_method list \<Rightarrow> int \<Rightarrow> sale_db \<Rightarrow> (int \<times> sale_db) http" where
  "insert_methods env tenantId saleId [] acc db = Inr (acc, db)"
| "insert_methods env tenantId saleId (m # ms) acc db =
     (if lm_method m \<notin> {''CASH'', ''CARD'', ''TRANSFER'', ''OTHER''} then raise ''paymentMethod is invalid''
      else and_then (cast_money env (lm_amount m)) (\<lambda>amount.
        if amount \<le> 0 then raise ''amount must be a positive number''
        else if MONEY_12_2 \<le> acc + amount then raise ''numeric field overflow''
        else insert_methods env tenantId saleId ms (acc + amount)
          (db\<lparr>so_methods := so_methods db @ [\<lparr>sm_tenantId = tenantId, sm_saleId = saleId, sm_method = lm_method m,
             sm_amount = amount, sm_reference = not_blank (lm_reference m)\<rparr>]\<rparr>)))"

definition settle_sale :: "string \<Rightarrow> string \<Rightarrow> int \<Rightarrow> int \<Rightarrow> int \<Rightarrow> sale_db \<Rightarrow> sale_db" where
  "settle_sale saleId tenantId acc paid balance db = db\<lparr>so_fin := (so_fin db)\<lparr>fd_documents :=
     update_where (is_document D_SALE saleId tenantId) (\<lambda>d. d\<lparr>dc_total := acc, dc_balance := Some balance, dc_totalPaid := paid,
       dc_balanceDue := Some balance, dc_paymentStatus := payment_state paid acc\<rparr>) (fd_documents (so_fin db))\<rparr>\<rparr>"

subsection \<open>The function\<close>

definition inventory_create_sale_v2 ::
  "sale_env \<Rightarrow> sale_context \<Rightarrow> string \<Rightarrow> string option \<Rightarrow> string \<Rightarrow> priced_item list \<Rightarrow> legacy_method list \<Rightarrow> sale_db \<Rightarrow>
     (string \<times> sale_db) http" where
  "inventory_create_sale_v2 env ctx customerId orderId type items methods db =
     (let saleId = sv_id env ''sales'' (length (so_sales db)) in
     and_then (if items = [] then raise ''sale items are required'' else Inr ()) (\<lambda>_.
     and_then (check_context ctx customerId orderId type db) (\<lambda>_.
     and_then (insert_sale env ctx saleId customerId orderId type db) (\<lambda>db1.
     and_then (sell_items env ctx saleId orderId items 0 db1) (\<lambda>(acc, db2).
     and_then (insert_methods env (sc_tenantId ctx) saleId methods 0 db2) (\<lambda>(payments, db3).
     and_then (if type = ''CASH'' \<and> methods = [] then raise ''payment methods are required for cash sales''
         else if type = ''CASH'' \<and> payments \<noteq> acc then raise ''payment methods total must equal sale total for cash sales''
         else Inr ()) (\<lambda>_.
     let paid = (if type = ''CASH'' then acc else min acc payments);
         balance = (if type = ''CASH'' then 0 else max (acc - paid) 0);
         db4 = settle_sale saleId (sc_tenantId ctx) acc paid balance db3
     in Inr (saleId, case orderId of None \<Rightarrow> db4 | Some i \<Rightarrow> refreshOrderStatus i (sc_tenantId ctx) db4))))))))"

end
