(* ===== verification/Sale_Request.thy ===== *)
theory Sale_Request
  imports Sale_Function
begin

section \<open>Requests of sales\<close>

text \<open>
  What inventory/services/sale.service.ts does before it prices a sale: the context of the point of
  sale, the shape of the request, its idempotency key and fingerprint (inventory/sale-idempotency.ts),
  and the payments. The header of a request has the types its controller declares; its lines are JSON
  values, whose shape the service checks itself.
\<close>

subsection \<open>The context\<close>

record raw_context =
  rc_tenantId :: "string option"
  rc_userId :: "string option"
  rc_branchId :: "string option"
  rc_terminalId :: "string option"
  rc_posSessionId :: "string option"
  rc_cashSessionId :: "string option"
  rc_sessionId :: "string option"
  rc_roles :: "string list"

record full_context =
  fx_pos :: sale_context
  fx_cashSessionId :: "string option"
  fx_sessionId :: "string option"
  fx_roles :: "string list"

definition full_of :: "raw_context \<Rightarrow> string \<Rightarrow> string \<Rightarrow> string \<Rightarrow> full_context" where
  "full_of c branchId terminalId posSessionId =
     \<lparr>fx_pos = \<lparr>sc_tenantId = the (rc_tenantId c), sc_userId = the (rc_userId c), sc_branchId = branchId,
        sc_terminalId = terminalId, sc_posSessionId = posSessionId\<rparr>,
      fx_cashSessionId = rc_cashSessionId c, fx_sessionId = rc_sessionId c, fx_roles = rc_roles c\<rparr>"

definition normalizeSaleContext :: "raw_context \<Rightarrow> sale_db \<Rightarrow> full_context http" where
  "normalizeSaleContext c db =
     (if \<not> truthy (rc_tenantId c) \<or> \<not> truthy (rc_userId c) then Inl (Unauthorized ''Incomplete POS context'')
      else if truthy (rc_posSessionId c) \<and> truthy (rc_branchId c) \<and> truthy (rc_terminalId c)
        then Inr (full_of c (the (rc_branchId c)) (the (rc_terminalId c)) (the (rc_posSessionId c)))
      else case findCurrentPosContext (the (rc_tenantId c)) (the (rc_userId c)) (rc_sessionId c) db of
        None \<Rightarrow> Inl (Unauthorized ''POS session is required'')
      | Some r \<Rightarrow> Inr (full_of c (cu_branchId r) (cu_terminalId r) (cu_posSessionId r)))"

subsection \<open>The request\<close>

record sale_payment =
  cp_methodId :: string
  cp_amount :: rat
  cp_cashSessionId :: "string option"
  cp_institutionId :: "string option"
  cp_referenceNumber :: "string option"
  cp_notes :: "string option"

record sale_request =
  rq_customerId :: string
  rq_orderId :: "string option"
  rq_type :: string
  rq_items :: "json list"
  rq_payments :: "sale_payment list"

datatype sale_line =
    UnitLine string rat rat "string option" bool
  | WeightLine string string string "string option"

definition string_of :: "json option \<Rightarrow> string option" where
  "string_of v = (case v of Some (JStr s) \<Rightarrow> Some s | _ \<Rightarrow> None)"

definition number_of_field :: "json option \<Rightarrow> rat option" where
  "number_of_field v = (case v of Some (JNum x) \<Rightarrow> Some x | _ \<Rightarrow> None)"

definition has_own :: "string \<Rightarrow> json \<Rightarrow> bool" where
  "has_own k v \<longleftrightarrow> jfield k v \<noteq> None"

text \<open>The check of a line, with what the service reads of a line that passes it.\<close>

definition readLine :: "json \<Rightarrow> sale_line http" where
  "readLine v =
     (case string_of (jfield ''productId'' v) of
        None \<Rightarrow> Inl (BadRequest ''sale item is invalid'')
      | Some productId \<Rightarrow>
          if jfield ''saleMode'' v = Some (JStr ''WEIGHT'') then
            (if list_ex (\<lambda>k. has_own k v) [''quantity'', ''weight'', ''unit'', ''source'', ''price'']
               then Inl (BadRequest ''WEIGHT sale line cannot provide measurement or price authority'')
             else case (Option.bind (jfield ''weightCapture'' v) (\<lambda>w. string_of (jfield ''captureId'' w)),
                 Option.bind (jfield ''weightCapture'' v) (\<lambda>w. string_of (jfield ''nonce'' w))) of
               (Some captureId, Some nonce) \<Rightarrow>
                 if is_capture_id captureId \<and> length nonce = 43 \<and> list_all base64url_char nonce
                 then Inr (WeightLine productId captureId nonce (string_of (jfield ''orderItemId'' v)))
                 else Inl (BadRequest ''weightCapture captureId and nonce are required'')
             | _ \<Rightarrow> Inl (BadRequest ''weightCapture captureId and nonce are required''))
          else if jfield ''saleMode'' v \<notin> {None, Some (JStr ''UNIT'')} then Inl (BadRequest ''saleMode must be UNIT or WEIGHT'')
          else if has_own ''weightCapture'' v then Inl (BadRequest ''UNIT sale line cannot include weightCapture'')
          else case (number_of_field (jfield ''quantity'' v), number_of_field (jfield ''price'' v)) of
            (Some q, Some p) \<Rightarrow> Inr (UnitLine productId q p (string_of (jfield ''orderItemId'' v)) (jfield ''saleMode'' v \<noteq> None))
          | _ \<Rightarrow> Inl (BadRequest ''UNIT sale line quantity and price are required''))"

fun readLines :: "json list \<Rightarrow> sale_line list http" where
  "readLines [] = Inr []"
| "readLines (v # vs) = and_then (readLine v) (\<lambda>l. and_then (readLines vs) (\<lambda>ls. Inr (l # ls)))"

definition ensureSaleInput :: "sale_request \<Rightarrow> sale_line list http" where
  "ensureSaleInput r =
     (if rq_customerId r = [] then Inl (BadRequest ''customerId is required'')
      else if rq_items r = [] then Inl (BadRequest ''sale items are required'')
      else if rq_type r \<notin> {''CASH'', ''CREDIT''} then Inl (BadRequest ''type is invalid'')
      else readLines (rq_items r))"

subsection \<open>The idempotency key\<close>

text \<open>The header Idempotency-Key: absent, one value, or several.\<close>

datatype key_header = No_Key | Key string | Keys "string list"

definition key_char :: "char \<Rightarrow> bool" where
  "key_char c \<longleftrightarrow> is_digit c \<or> 65 \<le> code c \<and> code c \<le> 90 \<or> 97 \<le> code c \<and> code c \<le> 122 \<or> c \<in> set ''._~-''"

definition normalize_key :: "string \<Rightarrow> string option http" where
  "normalize_key s =
     (if js_trim s = [] then Inr None
      else if length (js_trim s) \<le> 128 \<and> list_all key_char (js_trim s) then Inr (Some (js_trim s))
      else Inl (BadRequest ''Idempotency-Key must use 1-128 URL-safe characters''))"

fun normalizeSaleIdempotencyKey :: "key_header \<Rightarrow> string option http" where
  "normalizeSaleIdempotencyKey No_Key = Inr None"
| "normalizeSaleIdempotencyKey (Key s) = normalize_key s"
| "normalizeSaleIdempotencyKey (Keys [s]) = normalize_key s"
| "normalizeSaleIdempotencyKey (Keys _) = Inl (BadRequest ''Idempotency-Key must be a single value'')"

fun stableSerialize :: "'z text_host_scheme \<Rightarrow> json \<Rightarrow> string" where
  "stableSerialize h (JArr xs) = ''['' @ join '','' (map (stableSerialize h) xs) @ '']''"
| "stableSerialize h (JObj kvs) = ''{'' @ join '','' (map (\<lambda>(k, s). quote k @ '':'' @ s)
     (sort_key (\<lambda>(k, s). code_units k) (map (\<lambda>(k, v). (k, stableSerialize h v)) kvs))) @ ''}''"
| "stableSerialize h v = stringify h v"

definition opt_json :: "string option \<Rightarrow> json" where
  "opt_json v = (case v of None \<Rightarrow> JNull | Some s \<Rightarrow> JStr s)"

definition payment_json :: "sale_payment \<Rightarrow> json" where
  "payment_json p = JObj [(''paymentMethodId'', JStr (cp_methodId p)), (''amount'', JNum (cp_amount p)),
     (''cashSessionId'', opt_json (cp_cashSessionId p)), (''financialInstitutionId'', opt_json (cp_institutionId p)),
     (''referenceNumber'', opt_json (cp_referenceNumber p)), (''notes'', opt_json (cp_notes p))]"

definition request_json :: "sale_request \<Rightarrow> json" where
  "request_json r = JObj [(''customerId'', JStr (rq_customerId r)), (''orderId'', opt_json (rq_orderId r)),
     (''type'', JStr (rq_type r)), (''items'', JArr (rq_items r)), (''payments'', JArr (map payment_json (rq_payments r)))]"

definition context_json :: "full_context \<Rightarrow> json" where
  "context_json c = (let p = fx_pos c in JObj [(''tenantId'', JStr (sc_tenantId p)), (''userId'', JStr (sc_userId p)),
     (''branchId'', JStr (sc_branchId p)), (''terminalId'', JStr (sc_terminalId p)), (''posSessionId'', JStr (sc_posSessionId p)),
     (''cashSessionId'', opt_json (fx_cashSessionId c)), (''sessionId'', opt_json (fx_sessionId c)),
     (''roles'', JArr (map JStr (fx_roles c)))])"

definition buildSaleIdempotencyHash :: "text_host \<Rightarrow> sale_request \<Rightarrow> full_context \<Rightarrow> string" where
  "buildSaleIdempotencyHash h r c =
     sha256_hex h (stableSerialize h (JObj [(''request'', request_json r), (''context'', context_json c)]))"

subsection \<open>Payments\<close>

text \<open>The service's own \<open>roundCurrency\<close>.\<close>

definition round_money :: "rat \<Rightarrow> rat" where
  "round_money v = dbl (of_int (js_round (dbl (v * 100))) / 100)"

fun normalizePayments :: "sale_payment list \<Rightarrow> sale_payment list http" where
  "normalizePayments [] = Inr []"
| "normalizePayments (p # ps) =
     (if cp_methodId p = [] then Inl (BadRequest ''paymentMethodId is required'')
      else if round_money (cp_amount p) \<le> 0 then Inl (BadRequest ''payment amount must be a positive number'')
      else and_then (normalizePayments ps) (\<lambda>qs. Inr (p\<lparr>cp_amount := round_money (cp_amount p)\<rparr> # qs)))"

definition mapLegacySalePaymentMethod :: "string \<Rightarrow> string" where
  "mapLegacySalePaymentMethod tipo =
     (if tipo = ''CASH'' then ''CASH'' else if tipo = ''CARD'' then ''CARD'' else if tipo = ''BANK'' then ''TRANSFER'' else ''OTHER'')"

fun buildLegacySalePaymentMethods :: "string \<Rightarrow> sale_payment list \<Rightarrow> sale_db \<Rightarrow> legacy_method list http" where
  "buildLegacySalePaymentMethods tenantId [] db = Inr []"
| "buildLegacySalePaymentMethods tenantId (p # ps) db =
     (case findPaymentMethodTypesByIds tenantId db (cp_methodId p) of
        None \<Rightarrow> Inl (BadRequest ''payment method not found for tenant'')
      | Some m \<Rightarrow>
          let reference = (case cp_referenceNumber p of None \<Rightarrow> cp_notes p | Some r \<Rightarrow> Some r) in
          if me_requiresReference m \<and> trimmed reference = None
            then Inl (BadRequest (''payment reference is required for '' @ coalesce (map_of (so_methodNames db) (me_id m)) []))
          else and_then (buildLegacySalePaymentMethods tenantId ps db) (\<lambda>ms.
            Inr (\<lparr>lm_method = mapLegacySalePaymentMethod (me_tipo m), lm_amount = cp_amount p, lm_reference = reference\<rparr> # ms)))"

end
