(* ===== verification/Sale_Service.thy ===== *)
theory Sale_Service
  imports Sale_Request
begin

section \<open>The sale service\<close>

text \<open>
  The creation of a sale at a point of sale (\<open>createSale\<close> of inventory/services/sale.service.ts):
  its lines are prepared, priced by the pricing service and written by the stored function, its
  weight captures consumed and its payments registered, in one transaction. The delivery of the
  billing event after the commit belongs to the outbox dispatcher; the audit log is left out.
\<close>

subsection \<open>Lines\<close>

record prepared_item =
  pr_saleItemId :: string
  pr_productId :: string
  pr_weight :: bool
  pr_quantity :: rat
  pr_price :: rat
  pr_orderItemId :: "string option"

text \<open>The identifier of the n-th line is drawn when the line is prepared.\<close>

definition fresh_item :: "sale_env \<Rightarrow> nat \<Rightarrow> sale_db \<Rightarrow> string" where
  "fresh_item env n db = sv_id env ''sale_items'' (length (so_items db) + n)"

definition prepareLine ::
  "sale_env \<Rightarrow> sale_context \<Rightarrow> sale_db \<Rightarrow> nat \<Rightarrow> sale_line \<Rightarrow> (prepared_item \<times> prepared_capture list) http" where
  "prepareLine env ctx db n line = (case line of
       UnitLine productId quantity price orderItemId explicit \<Rightarrow>
         (case findProduct (so_scale db) productId (sc_tenantId ctx) of
            None \<Rightarrow> Inl (BadRequest ''product not found or inactive for tenant'')
          | Some product \<Rightarrow>
              if \<not> wp_active product then Inl (BadRequest ''product not found or inactive for tenant'')
              else if \<not> explicit \<and> wp_saleType product \<noteq> ''UNIT''
                then Inl (BadRequest ''saleMode is required for WEIGHT and BOTH products'')
              else if wp_saleType product \<notin> {''UNIT'', ''BOTH''} then Inl (BadRequest ''saleMode is not supported by product'')
              else Inr (\<lparr>pr_saleItemId = fresh_item env n db, pr_productId = productId, pr_weight = False,
                pr_quantity = quantity, pr_price = price, pr_orderItemId = orderItemId\<rparr>, []))
     | WeightLine productId captureId nonce orderItemId \<Rightarrow>
         and_then (prepareWeighedLine (sv_scale env) ctx (so_scale db)
           \<lparr>wl_productId = productId, wl_captureId = captureId, wl_nonce = nonce, wl_saleItemId = fresh_item env n db\<rparr>) (\<lambda>w.
         Inr (\<lparr>pr_saleItemId = pw_saleItemId w, pr_productId = productId, pr_weight = True,
           pr_quantity = dbl (of_int (micros (pw_commercialQuantityKg w)) / 10 ^ 6), pr_price = 0, pr_orderItemId = orderItemId\<rparr>, [w])))"

fun prepareSaleItemsForPricing ::
  "sale_env \<Rightarrow> sale_context \<Rightarrow> sale_db \<Rightarrow> nat \<Rightarrow> sale_line list \<Rightarrow> (prepared_item list \<times> prepared_capture list) http" where
  "prepareSaleItemsForPricing env ctx db n [] = Inr ([], [])"
| "prepareSaleItemsForPricing env ctx db n (l # ls) =
     and_then (prepareLine env ctx db n l) (\<lambda>(it, w).
     and_then (prepareSaleItemsForPricing env ctx db (Suc n) ls) (\<lambda>(its, ws). Inr (it # its, w @ ws)))"

definition price_input :: "sale_env \<Rightarrow> sale_context \<Rightarrow> prepared_item \<Rightarrow> line_input" where
  "price_input env ctx it = \<lparr>li_tenantId = Some (sc_tenantId ctx), li_branchId = Some (sc_branchId ctx),
     li_productId = Some (pr_productId it), li_quantity = Fin (pr_quantity it), li_channel = ''POS'',
     li_date = Some (iso_string (se_host (sv_scale env)) (sv_now env))\<rparr>"

definition price_item :: "sale_env \<Rightarrow> sale_context \<Rightarrow> pricing_db \<Rightarrow> prepared_item \<Rightarrow> priced_item http" where
  "price_item env ctx db it =
     and_then ((if pr_weight it then calculateWeightedLinePrice else calculateLinePrice)
         (se_host (sv_scale env)) (sv_now env) db (price_input env ctx it)) (\<lambda>preview.
     Inr \<lparr>pi_saleItemId = pr_saleItemId it, pi_productId = pr_productId it, pi_weight = pr_weight it,
       pi_quantity = lp_quantity preview, pi_orderItemId = pr_orderItemId it,
       pi_priceWithoutTax = (if 0 < lp_quantity preview then round_money (dbl (lp_taxBase preview / lp_quantity preview)) else 0),
       pi_discountTotal = round_money (dbl (lp_discountAmount preview * lp_quantity preview)), pi_preview = preview\<rparr>)"

fun calculatePricedPosItems :: "sale_env \<Rightarrow> sale_context \<Rightarrow> pricing_db \<Rightarrow> prepared_item list \<Rightarrow> priced_item list http" where
  "calculatePricedPosItems env ctx db [] = Inr []"
| "calculatePricedPosItems env ctx db (it # its) =
     and_then (price_item env ctx db it) (\<lambda>p. and_then (calculatePricedPosItems env ctx db its) (\<lambda>ps. Inr (p # ps)))"

definition calculateBackendSaleTotal :: "priced_item list \<Rightarrow> rat" where
  "calculateBackendSaleTotal items = round_money (foldl (\<lambda>s it. dbl (s + lp_lineTotal (pi_preview it))) 0 items)"

definition ensureCashPaymentsMatchBackendTotal :: "string \<Rightarrow> sale_payment list \<Rightarrow> rat \<Rightarrow> unit http" where
  "ensureCashPaymentsMatchBackendTotal type payments backendTotal =
     guard (type = ''CASH'' \<longrightarrow> round_money (foldl (\<lambda>s p. dbl (s + cp_amount p)) 0 payments) = backendTotal)
       (BadRequest ''Payment total does not match backend calculated sale total'')"

subsection \<open>Payments and the end of the sale\<close>

definition buildFinanceActor :: "full_context \<Rightarrow> fin_actor" where
  "buildFinanceActor c = \<lparr>fa_userId = sc_userId (fx_pos c), fa_tenantId = sc_tenantId (fx_pos c), fa_roles = fx_roles c\<rparr>"

definition sale_payment_payload :: "sale_context \<Rightarrow> string \<Rightarrow> sale_payment \<Rightarrow> payment_input" where
  "sale_payment_payload ctx saleId p =
     \<lparr>cr_tenantId = None, cr_branchId = sc_branchId ctx, cr_methodId = cp_methodId p, cr_cashSessionId = cp_cashSessionId p,
      cr_institutionId = cp_institutionId p, cr_type = R_SALE, cr_id = saleId, cr_in = True, cr_status = Some PAY_COMPLETED,
      cr_amount = cp_amount p, cr_referenceNumber = cp_referenceNumber p, cr_notes = cp_notes p, cr_personId = None,
      cr_allowOverpayment = False, cr_allocations = []\<rparr>"

fun paySale :: "sale_env \<Rightarrow> full_context \<Rightarrow> string \<Rightarrow> sale_payment list \<Rightarrow> fin_db \<Rightarrow> fin_db http" where
  "paySale env c saleId [] db = Inr db"
| "paySale env c saleId (p # ps) db =
     and_then (createInternal (sv_fin env) (buildFinanceActor c) (sale_payment_payload (fx_pos c) saleId p) db) (\<lambda>(db', _).
     paySale env c saleId ps db')"

definition finalizeSale :: "string \<Rightarrow> string \<Rightarrow> sale_db \<Rightarrow> sale_db" where
  "finalizeSale saleId tenantId db =
     updateSaleStatus saleId tenantId ''CONFIRMED'' (db\<lparr>so_fin := syncSaleFinancialState saleId tenantId (so_fin db)\<rparr>)"

definition sale_cash_session :: "full_context \<Rightarrow> sale_payment list \<Rightarrow> string option" where
  "sale_cash_session c payments = (case fx_cashSessionId c of
       Some i \<Rightarrow> Some i
     | None \<Rightarrow> (case find (\<lambda>p. truthy (cp_cashSessionId p)) payments of None \<Rightarrow> None | Some p \<Rightarrow> cp_cashSessionId p))"

subsection \<open>The transaction\<close>

text \<open>Everything a new sale does, from its customer on.\<close>

definition write_sale :: "sale_env \<Rightarrow> full_context \<Rightarrow> sale_request \<Rightarrow> sale_line list \<Rightarrow> sale_db \<Rightarrow> (string \<times> sale_db) http" where
  "write_sale env c r lines db = (let ctx = fx_pos c; tenantId = sc_tenantId ctx in
     and_then (guard (validateCustomer tenantId (rq_customerId r) db) (BadRequest ''customer not found for tenant'')) (\<lambda>_.
     and_then (guard (truthy (rq_orderId r) \<longrightarrow> validateOrder tenantId (the (rq_orderId r)) db)
       (BadRequest ''order not found for tenant'')) (\<lambda>_.
     and_then (normalizePayments (rq_payments r)) (\<lambda>payments.
     and_then (prepareSaleItemsForPricing env ctx db 0 lines) (\<lambda>(prepared, captures).
     and_then (calculatePricedPosItems env ctx (so_pricing db) prepared) (\<lambda>items.
     and_then (ensureCashPaymentsMatchBackendTotal (rq_type r) payments (calculateBackendSaleTotal items)) (\<lambda>_.
     and_then (buildLegacySalePaymentMethods tenantId payments db) (\<lambda>methods.
     and_then (inventory_create_sale_v2 env ctx (rq_customerId r) (rq_orderId r) (rq_type r) items methods db) (\<lambda>(saleId, db1).
     and_then (consumeWeighedLines (sv_scale env) ctx saleId captures (so_scale db1)) (\<lambda>scale.
     let db2 = set_cash_session (sale_cash_session c payments) saleId tenantId (db1\<lparr>so_scale := scale\<rparr>) in
     and_then (paySale env c saleId payments (so_fin db2)) (\<lambda>fin.
     let db3 = linkOrderDeliveryToSale tenantId (rq_orderId r) saleId (sc_userId ctx) (finalizeSale saleId tenantId (db2\<lparr>so_fin := fin\<rparr>)) in
     and_then (sv_bill env saleId db3) (\<lambda>box. Inr (saleId, db3\<lparr>so_outbox := box\<rparr>)))))))))))))"

text \<open>The reservation of the key: the sale it already has, or None and the reserved row.\<close>

definition claim_key :: "string \<Rightarrow> string option \<Rightarrow> string \<Rightarrow> sale_db \<Rightarrow> (string option \<times> sale_db) http" where
  "claim_key tenantId key hash db = (case key of
       None \<Rightarrow> Inr (None, db)
     | Some k \<Rightarrow> (case reserveSaleCreationIdempotency tenantId k hash db of (created, row, db') \<Rightarrow>
         if created then Inr (None, db')
         else if ky_hash row \<noteq> hash then Inl (Conflict ''Idempotency-Key was already used with a different sale request'')
         else if \<not> truthy (ky_saleId row) then Inl (Conflict ''Sale creation requires reconciliation before another attempt'')
         else Inr (ky_saleId row, db')))"

definition sale_transaction ::
  "sale_env \<Rightarrow> full_context \<Rightarrow> sale_request \<Rightarrow> sale_line list \<Rightarrow> string option \<Rightarrow> sale_db \<Rightarrow> (string \<times> sale_db) http" where
  "sale_transaction env c r lines key db = (let tenantId = sc_tenantId (fx_pos c) in
     and_then (guard (validateActivePosSession (so_scale db) (fx_pos c)) (Unauthorized ''POS session is invalid'')) (\<lambda>_.
     and_then (claim_key tenantId key (buildSaleIdempotencyHash (sv_text env) r c) db) (\<lambda>(done, db1).
     case done of
       Some saleId \<Rightarrow> Inr (saleId, db1)
     | None \<Rightarrow> and_then (write_sale env c r lines db1) (\<lambda>(saleId, db2).
         case key of
           None \<Rightarrow> Inr (saleId, db2)
         | Some k \<Rightarrow> and_then (completeSaleCreationIdempotency tenantId k saleId db2) (\<lambda>db3. Inr (saleId, db3))))))"

subsection \<open>Reading a sale\<close>

record sale_actor =
  bs_roles :: "string list"
  bs_userId :: "string option"
  bs_tenantId :: "string option"
  bs_branchId :: "string option"

definition inv_actor_of :: "sale_actor \<Rightarrow> inv_actor" where
  "inv_actor_of a = \<lparr>ia_roles = bs_roles a, ia_userId = bs_userId a, ia_branchId = bs_branchId a\<rparr>"

text \<open>None is no restriction.\<close>

definition resolveAllowedBranchIds :: "sale_actor \<Rightarrow> string \<Rightarrow> sale_db \<Rightarrow> string list option http" where
  "resolveAllowedBranchIds a tenantId db =
     (if canViewAllBranches (inv_actor_of a) then Inr None
      else if \<not> truthy (bs_userId a) then Inl (Forbidden ''Usuario requerido'')
      else let ids = findAccessibleBranchIds (so_inv db) (the (bs_userId a)) tenantId in
        if ids \<noteq> [] then Inr (Some ids)
        else if truthy (bs_branchId a) then Inr (Some [the (bs_branchId a)])
        else Inl (Forbidden ''Usuario sin sucursales asignadas''))"

definition resolveSaleScope :: "sale_actor \<Rightarrow> string option \<Rightarrow> string option \<Rightarrow> sale_db \<Rightarrow> unit http" where
  "resolveSaleScope a tenantId branchId db =
     (if ''SUPER_ADMIN'' \<in> set (bs_roles a) then Inr ()
      else if \<not> truthy (bs_tenantId a) then Inl (Forbidden ''Tenant requerido'')
      else if trimmed tenantId \<noteq> None \<and> trimmed tenantId \<noteq> bs_tenantId a then Inl (Forbidden ''No autorizado para otro tenant'')
      else and_then (resolveAllowedBranchIds a (the (bs_tenantId a)) db) (\<lambda>allowed.
        if (case (trimmed branchId, allowed) of (Some b, Some ids) \<Rightarrow> ids \<noteq> [] \<and> b \<notin> set ids | _ \<Rightarrow> False)
          then Inl (Forbidden ''No autorizado para otra sucursal'')
        else guard (\<not> ((''ADMIN'' \<in> set (bs_roles a) \<or> ''USER'' \<in> set (bs_roles a)) \<and> truthy (bs_branchId a) \<and>
            trimmed branchId \<noteq> None \<and> trimmed branchId \<noteq> bs_branchId a)) (Forbidden ''No autorizado para otra sucursal'')))"

record sale_view =
  vw_sale :: document_row
  vw_items :: "sale_item_row list"
  vw_taxes :: "sale_tax_row list"
  vw_payments :: "allocation_row list"

definition sale_items_of :: "string \<Rightarrow> string \<Rightarrow> sale_db \<Rightarrow> sale_item_row list" where
  "sale_items_of saleId tenantId db = sort_key si_createdAt (sort_key (\<lambda>i. code_units (si_id i))
     (filter (\<lambda>i. si_saleId i = saleId \<and> si_tenantId i = tenantId) (so_items db)))"

definition read_sale :: "string \<Rightarrow> string \<Rightarrow> document_row \<Rightarrow> sale_db \<Rightarrow> sale_view" where
  "read_sale saleId tenantId d db = (let items = sale_items_of saleId tenantId db in
     \<lparr>vw_sale = d, vw_items = items, vw_taxes = filter (\<lambda>t. st_itemId t \<in> si_id ` set items) (so_taxes db),
      vw_payments = sort_key al_createdAt (sort_key (\<lambda>a. code_units (al_id a))
        (filter (counts (so_fin db) tenantId {R_SALE} saleId) (fd_allocations (so_fin db))))\<rparr>)"

definition getSaleById :: "string \<Rightarrow> sale_actor \<Rightarrow> sale_db \<Rightarrow> sale_view http" where
  "getSaleById saleId a db =
     (if \<not> truthy (bs_tenantId a) then Inl (Forbidden ''Tenant requerido'')
      else case findSale saleId (the (bs_tenantId a)) db of
        None \<Rightarrow> Inl (NotFound ''sale not found'')
      | Some d \<Rightarrow> and_then (resolveSaleScope a (bs_tenantId a) (dc_branchId d) db) (\<lambda>_.
          Inr (read_sale saleId (the (bs_tenantId a)) d db)))"

definition context_actor :: "full_context \<Rightarrow> sale_actor" where
  "context_actor c = \<lparr>bs_roles = fx_roles c, bs_userId = Some (sc_userId (fx_pos c)), bs_tenantId = Some (sc_tenantId (fx_pos c)),
     bs_branchId = Some (sc_branchId (fx_pos c))\<rparr>"

subsection \<open>Creating a sale\<close>

text \<open>
  The answer is read after the commit: an error there leaves the sale in place. Before it, an error
  leaves everything as it was.
\<close>

definition createSale :: "sale_env \<Rightarrow> sale_request \<Rightarrow> raw_context \<Rightarrow> key_header \<Rightarrow> sale_db \<Rightarrow> sale_view http \<times> sale_db" where
  "createSale env r context header db =
     (case and_then (normalizeSaleContext context db) (\<lambda>c.
        and_then (ensureSaleInput r) (\<lambda>lines.
        and_then (normalizeSaleIdempotencyKey header) (\<lambda>key.
        and_then (sale_transaction env c r lines key db) (\<lambda>(saleId, db'). Inr (c, saleId, db'))))) of
       Inl e \<Rightarrow> (Inl e, db)
     | Inr (c, saleId, db') \<Rightarrow> (getSaleById saleId (context_actor c) db', db'))"

definition getSaleByIdempotencyKey :: "key_header \<Rightarrow> sale_actor \<Rightarrow> sale_db \<Rightarrow> sale_view http" where
  "getSaleByIdempotencyKey header a db =
     and_then (normalizeSaleIdempotencyKey header) (\<lambda>key. case key of
       None \<Rightarrow> Inl (BadRequest ''Idempotency-Key is required'')
     | Some k \<Rightarrow>
         if \<not> truthy (bs_tenantId a) then Inl (Unauthorized ''Tenant requerido'')
         else (case findSaleByIdempotencyKey (the (bs_tenantId a)) k db of
            None \<Rightarrow> Inl (NotFound ''sale idempotency key not found'')
          | Some row \<Rightarrow> (case ky_saleId row of
              None \<Rightarrow> Inl (Conflict ''Sale creation requires reconciliation before another attempt'')
            | Some saleId \<Rightarrow> if saleId = [] then Inl (Conflict ''Sale creation requires reconciliation before another attempt'')
                else getSaleById saleId a db)))"

end
