(* ===== verification/Sale_Cancel.thy ===== *)
theory Sale_Cancel
  imports Sale_Service
begin

section \<open>Cancelling a sale\<close>

text \<open>
  \<open>cancelSale\<close> of inventory/services/sale.service.ts: each stock movement of the sale is reversed,
  with the lots it took from, the order's progress and the payments are undone, and the sale becomes
  cancelled, or refunded when a completed payment was returned. One transaction.
\<close>

subsection \<open>Stock\<close>

definition sale_movements :: "string \<Rightarrow> string \<Rightarrow> sale_db \<Rightarrow> movement_row list" where
  "sale_movements saleId tenantId db = sort_key mv_createdAt (sort_key (\<lambda>m. code_units (mv_id m))
     (filter (\<lambda>m. mv_tenantId m = tenantId \<and> mv_referenceType m = ''SALE'' \<and> mv_referenceId m = saleId \<and>
        mv_referenceTable m = Some ''sales'' \<and> \<not> mv_in m) (iv_movements (so_inv db))))"

definition assertCanSkipLottedReversal :: "string \<Rightarrow> string \<Rightarrow> inv_db \<Rightarrow> unit http" where
  "assertCanSkipLottedReversal tenantId productId db =
     (case findProductPolicy db tenantId productId of
        None \<Rightarrow> Inl (BadRequest ''product not found for tenant'')
      | Some p \<Rightarrow> guard (\<not> sp_requiresLot p) (BadRequest ''lotted sale movement is missing stock_movement_lots for reversal''))"

definition movement_links :: "string \<Rightarrow> movement_row \<Rightarrow> inv_db \<Rightarrow> link_row list" where
  "movement_links tenantId m db = sort_key lk_createdAt (sort_key (\<lambda>k. code_units (lk_id k))
     (filter (\<lambda>k. lk_tenantId k = tenantId \<and> lk_movementId k = mv_id m) (iv_links db)))"

definition quantity_column :: "sale_env \<Rightarrow> rat \<Rightarrow> int http" where
  "quantity_column env x = (case iv_quantity (sv_inv env) x of None \<Rightarrow> raise ''numeric field overflow'' | Some n \<Rightarrow> Inr n)"

definition at_balance :: "string \<Rightarrow> string \<Rightarrow> string \<Rightarrow> string \<Rightarrow> string option \<Rightarrow> balance_row \<Rightarrow> bool" where
  "at_balance tenantId branchId productId lotId locationId r \<longleftrightarrow> bl_tenantId r = tenantId \<and> bl_branchId r = branchId \<and>
     bl_productId r = productId \<and> bl_lotId r = lotId \<and> bl_locationId r = locationId"

definition check_reversed_lot :: "string \<Rightarrow> string \<Rightarrow> movement_row \<Rightarrow> link_row \<Rightarrow> inv_db \<Rightarrow> unit http" where
  "check_reversed_lot tenantId branchId m k db =
     (case find (\<lambda>l. lt_tenantId l = tenantId \<and> Some (lt_id l) = lk_lotId k) (iv_lots db) of
        None \<Rightarrow> Inl (BadRequest ''stock_movement_lots lot is invalid'')
      | Some l \<Rightarrow>
          if lt_status l = LOT_CANCELLED then Inl (BadRequest ''CANCELLED lot cannot be reversed automatically'')
          else if lt_branchId l \<noteq> branchId then Inl (BadRequest ''stock_movement_lots lot branch mismatch'')
          else guard (lk_productId k = mv_productId m \<and> lt_productId l = mv_productId m) (BadRequest ''stock_movement_lots product mismatch''))"

definition reversed_link :: "sale_env \<Rightarrow> string \<Rightarrow> movement_row \<Rightarrow> string \<Rightarrow> link_row \<Rightarrow> int \<Rightarrow> inv_db \<Rightarrow> link_row" where
  "reversed_link env tenantId m reverseId k q db =
     \<lparr>lk_id = sv_id env ''stock_movement_lots'' (length (iv_links db)), lk_tenantId = tenantId, lk_movementId = reverseId,
      lk_productId = mv_productId m, lk_lotId = lk_lotId k, lk_locationId = lk_locationId k, lk_quantity = q, lk_createdAt = sv_now env\<rparr>"

text \<open>One link: its lot's balance gets the quantity back.\<close>

definition reverse_link :: "sale_env \<Rightarrow> string \<Rightarrow> string \<Rightarrow> movement_row \<Rightarrow> string \<Rightarrow> link_row \<Rightarrow> inv_db \<Rightarrow> inv_db http" where
  "reverse_link env tenantId branchId m reverseId k db =
     (if milli (lk_quantity k) \<le> 0 then Inl (BadRequest ''stock_movement_lots quantity is invalid'')
      else if \<not> truthy (lk_lotId k) then Inl (BadRequest ''stock_movement_lots lot is invalid'')
      else
        and_then (check_reversed_lot tenantId branchId m k db) (\<lambda>_.
        and_then (quantity_column env (milli (lk_quantity k))) (\<lambda>q.
        let hit = at_balance tenantId branchId (mv_productId m) (the (lk_lotId k)) (lk_locationId k);
            link = reversed_link env tenantId m reverseId k q db
        in if \<not> list_ex hit (iv_balances db) then Inl (BadRequest ''inventory lot balance not found for reversal'')
           else if list_ex (\<lambda>r. hit r \<and> 10 ^ 14 \<le> bl_onHand r + q) (iv_balances db) then raise ''numeric field overflow''
           else if lk_id link \<in> lk_id ` set (iv_links db) then raise ''stock_movement_lots_pkey''
           else Inr (db\<lparr>iv_balances := update_where hit (\<lambda>r. r\<lparr>bl_onHand := bl_onHand r + q, bl_lastMovementAt := Some (sv_now env),
               bl_updatedAt := sv_now env\<rparr>) (iv_balances db), iv_links := iv_links db @ [link]\<rparr>))))"

fun reverse_links :: "sale_env \<Rightarrow> string \<Rightarrow> string \<Rightarrow> movement_row \<Rightarrow> string \<Rightarrow> link_row list \<Rightarrow> inv_db \<Rightarrow> inv_db http" where
  "reverse_links env tenantId branchId m reverseId [] db = Inr db"
| "reverse_links env tenantId branchId m reverseId (k # ks) db =
     and_then (reverse_link env tenantId branchId m reverseId k db) (reverse_links env tenantId branchId m reverseId ks)"

definition links_match :: "movement_row \<Rightarrow> link_row list \<Rightarrow> bool" where
  "links_match m ks \<longleftrightarrow> \<not> dbl (1 / 10 ^ 4) < \<bar>dbl (foldl (\<lambda>s k. dbl (s + milli (lk_quantity k))) 0 ks - milli (mv_quantity m))\<bar>"

definition reverseLottedStockMovement :: "sale_env \<Rightarrow> string \<Rightarrow> movement_row \<Rightarrow> string \<Rightarrow> inv_db \<Rightarrow> inv_db http" where
  "reverseLottedStockMovement env tenantId m reverseId db =
     (let ks = movement_links tenantId m db in
      if ks = [] then and_then (assertCanSkipLottedReversal tenantId (mv_productId m) db) (\<lambda>_. Inr db)
      else if \<not> truthy (mv_branchId m) then Inl (BadRequest ''lotted sale movement is missing branch for reversal'')
      else if \<not> links_match m ks then Inl (BadRequest ''lotted sale movement link quantity does not match stock movement'')
      else reverse_links env tenantId (the (mv_branchId m)) m reverseId ks db)"

definition reversal_data :: "sale_env \<Rightarrow> string \<Rightarrow> string \<Rightarrow> string option \<Rightarrow> string \<Rightarrow> movement_row \<Rightarrow> inv_db \<Rightarrow> movement_data" where
  "reversal_data env saleId tenantId userId productId m db =
     \<lparr>md_id = sv_id env ''stock_movements'' (length (iv_movements db)), md_tenantId = tenantId, md_productId = productId, md_in = True,
      md_quantity = milli (mv_quantity m), md_referenceType = ''SALE'', md_referenceId = saleId, md_branchId = mv_branchId m,
      md_terminalId = mv_terminalId m, md_posSessionCode = mv_posSessionCode m, md_userId = userId,
      md_referenceTable = Some ''sales'', md_before = None, md_after = None, md_createdAt = sv_now env\<rparr>"

text \<open>The item's movement is the first of its product that is not yet reversed.\<close>

definition reverse_stock ::
  "sale_env \<Rightarrow> string \<Rightarrow> string \<Rightarrow> string option \<Rightarrow> sale_item_row \<Rightarrow> movement_row option \<Rightarrow> inv_db \<Rightarrow> inv_db http" where
  "reverse_stock env saleId tenantId userId item movement db = (case movement of
       None \<Rightarrow> and_then (assertCanSkipLottedReversal tenantId (si_productId item) db) (\<lambda>_. Inr db)
     | Some m \<Rightarrow>
         and_then (createMovement (sv_inv env) (reversal_data env saleId tenantId userId (si_productId item) m db) db) (\<lambda>(r, db1).
         reverseLottedStockMovement env tenantId m (mv_id r) db1))"

definition undo_order_item :: "string option \<Rightarrow> sale_item_row \<Rightarrow> bool \<Rightarrow> order_item_row list \<Rightarrow> order_item_row list" where
  "undo_order_item orderId item moved rows =
     (if truthy orderId \<and> truthy (si_orderItemId item)
      then update_where (\<lambda>o'. Some (oi_id o') = si_orderItemId item)
        (\<lambda>o'. o'\<lparr>oi_billed := Some (max (coalesce (oi_billed o') 0 - si_quantity item) 0),
           oi_delivered := (if moved then max (oi_delivered o' - si_quantity item) 0 else oi_delivered o')\<rparr>) rows
      else rows)"

definition drop_first :: "string \<Rightarrow> movement_row list \<Rightarrow> movement_row list" where
  "drop_first productId ms = takeWhile (\<lambda>m. mv_productId m \<noteq> productId) ms @ tl (dropWhile (\<lambda>m. mv_productId m \<noteq> productId) ms)"

fun undo_items :: "sale_env \<Rightarrow> document_row \<Rightarrow> string option \<Rightarrow> sale_item_row list \<Rightarrow> movement_row list \<Rightarrow> sale_db \<Rightarrow> sale_db http" where
  "undo_items env sale userId [] ms db = Inr db"
| "undo_items env sale userId (item # items) ms db =
     (let movement = find (\<lambda>m. mv_productId m = si_productId item) ms in
      and_then (reverse_stock env (dc_id sale) (dc_tenantId sale) userId item movement (so_inv db)) (\<lambda>inv.
      undo_items env sale userId items (drop_first (si_productId item) ms)
        (db\<lparr>so_inv := inv, so_orderItems := undo_order_item (dc_orderId sale) item (movement \<noteq> None) (so_orderItems db)\<rparr>)))"

subsection \<open>Payments\<close>

definition is_sale_allocation :: "string \<Rightarrow> allocation_row \<Rightarrow> bool" where
  "is_sale_allocation saleId a \<longleftrightarrow> al_referenceType a = R_SALE \<and> al_referenceId a = saleId"

definition listAllocatedPayments :: "string \<Rightarrow> string \<Rightarrow> fin_db \<Rightarrow> payment_row list" where
  "listAllocatedPayments tenantId saleId db = sort_key (\<lambda>p. code_units (pm_id p))
     (filter (\<lambda>p. pm_tenantId p = tenantId \<and> (\<exists>a \<in> set (fd_allocations db). al_paymentId a = pm_id p \<and> is_sale_allocation saleId a))
       (fd_payments db))"

definition allocations_of :: "string \<Rightarrow> fin_db \<Rightarrow> allocation_row list" where
  "allocations_of paymentId db = sort_key al_createdAt (filter (\<lambda>a. al_paymentId a = paymentId) (fd_allocations db))"

definition refund_payment :: "sale_env \<Rightarrow> document_row \<Rightarrow> string option \<Rightarrow> payment_row \<Rightarrow> int \<Rightarrow> fin_db \<Rightarrow> payment_row" where
  "refund_payment env sale userId p n db =
     \<lparr>pm_id = fe_uuid (sv_fin env) (length (fd_payments db)), pm_tenantId = dc_tenantId sale, pm_branchId = pm_branchId p,
      pm_methodId = pm_methodId p, pm_cashSessionId = pm_cashSessionId p, pm_institutionId = None, pm_referenceType = R_REFUND,
      pm_referenceId = dc_id sale, pm_in = False, pm_status = PAY_COMPLETED, pm_amount = n, pm_referenceNumber = pm_referenceNumber p,
      pm_notes = Some (''Refund for cancelled sale '' @ dc_id sale), pm_paidByPersonId = None,
      pm_createdBy = coalesce userId (pm_createdBy p), pm_createdAt = fe_now (sv_fin env)\<rparr>"

definition refund_movement :: "sale_env \<Rightarrow> document_row \<Rightarrow> payment_row \<Rightarrow> payment_row \<Rightarrow> string \<Rightarrow> fin_db \<Rightarrow> cash_movement_row" where
  "refund_movement env sale p refund session db =
     \<lparr>cv_id = fe_uuid (sv_fin env) (length (fd_movements db)), cv_tenantId = dc_tenantId sale, cv_branchId = pm_branchId p,
      cv_cashSessionId = session, cv_paymentId = Some (pm_id refund), cv_type = ''PAYMENT'', cv_in = False,
      cv_referenceType = Some (reference_name R_REFUND), cv_referenceId = Some (dc_id sale), cv_amount = pm_amount refund,
      cv_description = Some (''Refund sale '' @ dc_id sale @ '' from payment '' @ pm_id p), cv_createdBy = pm_createdBy refund\<rparr>"

text \<open>The refund of a completed payment: a payment out, its allocation and its cash movement.\<close>

definition refund :: "sale_env \<Rightarrow> document_row \<Rightarrow> string option \<Rightarrow> payment_row \<Rightarrow> rat \<Rightarrow> fin_db \<Rightarrow> fin_db http" where
  "refund env sale userId p amount db =
     and_then (money_column (sv_fin env) amount ''payments'') (\<lambda>n.
     let row = refund_payment env sale userId p n db in
     and_then (insert_payment row db) (\<lambda>db1.
     and_then (createAllocations (sv_fin env) (pm_id row) [\<lparr>ai_type = R_SALE, ai_id = dc_id sale, ai_amount = amount\<rparr>] db1) (\<lambda>(db2, _).
     case (if truthy (pm_cashSessionId p) then pm_cashSessionId p else None) of
       None \<Rightarrow> Inr db2
     | Some session \<Rightarrow> insert_cash_movement (refund_movement env sale p row session db2) db2)))"

definition delete_allocations :: "allocation_row list \<Rightarrow> fin_db \<Rightarrow> fin_db" where
  "delete_allocations as db = db\<lparr>fd_allocations := filter (\<lambda>a. al_id a \<notin> al_id ` set as) (fd_allocations db)\<rparr>"

definition updatePaymentStatus :: "string \<Rightarrow> payment_status \<Rightarrow> fin_db \<Rightarrow> fin_db" where
  "updatePaymentStatus paymentId status db =
     db\<lparr>fd_payments := update_where (\<lambda>p. pm_id p = paymentId) (\<lambda>p. p\<lparr>pm_status := status\<rparr>) (fd_payments db)\<rparr>"

definition return_to_order :: "document_row \<Rightarrow> allocation_row list \<Rightarrow> fin_db \<Rightarrow> fin_db" where
  "return_to_order sale as db = syncOrderFinancialState (the (dc_orderId sale)) (dc_tenantId sale)
     (db\<lparr>fd_allocations := update_where (\<lambda>a. al_id a \<in> al_id ` set as)
        (\<lambda>a. a\<lparr>al_referenceType := R_SALES_ORDER, al_referenceId := the (dc_orderId sale)\<rparr>) (fd_allocations db)\<rparr>)"

text \<open>One payment of the sale, with whether it was refunded.\<close>

definition undo_payment :: "sale_env \<Rightarrow> document_row \<Rightarrow> string option \<Rightarrow> payment_row \<Rightarrow> fin_db \<Rightarrow> (bool \<times> fin_db) http" where
  "undo_payment env sale userId p db =
     (let as = allocations_of (pm_id p) db;
          mine = filter (is_sale_allocation (dc_id sale)) as;
          amount = foldl (\<lambda>s a. dbl (s + cents (al_amount a))) 0 mine;
          rest = filter (\<lambda>a. al_id a \<notin> al_id ` set mine) as
      in if truthy (dc_orderId sale) \<and> pm_referenceType p = R_SALES_ORDER then Inr (False, return_to_order sale mine db)
         else let refunded = (0 < amount \<and> pm_status p = PAY_COMPLETED) in
           and_then (if refunded then refund env sale userId p amount db else Inr db) (\<lambda>db1.
           let db2 = delete_allocations mine db1 in
           Inr (refunded,
             if pm_status p = PAY_PENDING \<and> rest = [] then updatePaymentStatus (pm_id p) PAY_CANCELLED db2
             else if pm_status p = PAY_COMPLETED \<and> rest = [] \<and> cents (pm_amount p) \<le> amount
               then updatePaymentStatus (pm_id p) PAY_REFUNDED db2
             else db2)))"

fun undo_payments :: "sale_env \<Rightarrow> document_row \<Rightarrow> string option \<Rightarrow> payment_row list \<Rightarrow> fin_db \<Rightarrow> (bool \<times> fin_db) http" where
  "undo_payments env sale userId [] db = Inr (False, db)"
| "undo_payments env sale userId (p # ps) db =
     and_then (undo_payment env sale userId p db) (\<lambda>(refunded, db1).
     and_then (undo_payments env sale userId ps db1) (\<lambda>(others, db2). Inr (refunded \<or> others, db2)))"

definition finalizeCancelledSale :: "string \<Rightarrow> string \<Rightarrow> string \<Rightarrow> sale_db \<Rightarrow> sale_db" where
  "finalizeCancelledSale saleId tenantId status db = db\<lparr>so_fin := (so_fin db)\<lparr>fd_documents :=
     update_where (is_document D_SALE saleId tenantId) (\<lambda>d. d\<lparr>dc_status := status, dc_totalPaid := 0, dc_balance := Some 0,
       dc_balanceDue := Some 0, dc_paymentStatus := ''PENDING''\<rparr>) (fd_documents (so_fin db))\<rparr>\<rparr>"

subsection \<open>The request\<close>

definition cancelled :: "document_row \<Rightarrow> bool" where
  "cancelled d \<longleftrightarrow> dc_status d = ''CANCELLED'' \<or> dc_status d = ''REFUNDED''"

definition undo_sale :: "sale_env \<Rightarrow> document_row \<Rightarrow> string option \<Rightarrow> sale_db \<Rightarrow> sale_db http" where
  "undo_sale env sale userId db = (let saleId = dc_id sale; tenantId = dc_tenantId sale in
     and_then (undo_items env sale userId (sale_items_of saleId tenantId db) (sale_movements saleId tenantId db) db) (\<lambda>db1.
     and_then (undo_payments env sale userId (listAllocatedPayments tenantId saleId (so_fin db1)) (so_fin db1)) (\<lambda>(refunded, fin).
     let db2 = db1\<lparr>so_fin := fin\<rparr>;
         db3 = (if truthy (dc_orderId sale) then refreshOrderStatus (the (dc_orderId sale)) tenantId db2 else db2)
     in Inr (finalizeCancelledSale saleId tenantId (if refunded then ''REFUNDED'' else ''CANCELLED'') db3))))"

text \<open>Who the reversals are attributed to: the actor, or else the seller.\<close>

definition canceller :: "sale_actor \<Rightarrow> document_row \<Rightarrow> sale_db \<Rightarrow> string option" where
  "canceller a sale db = (case bs_userId a of
       Some u \<Rightarrow> Some u
     | None \<Rightarrow> map_option sx_userId (find (\<lambda>s. sx_id s = dc_id sale \<and> sx_tenantId s = dc_tenantId sale) (so_sales db)))"

text \<open>The answer is the sale, read after the commit without a restriction to branches.\<close>

definition cancelSale :: "sale_env \<Rightarrow> string \<Rightarrow> sale_actor \<Rightarrow> sale_db \<Rightarrow> (document_row \<times> sale_db) http" where
  "cancelSale env saleId a db =
     (case Option.bind (bs_tenantId a) (\<lambda>t. findSale saleId t db) of
        None \<Rightarrow> Inl (NotFound ''sale not found'')
      | Some sale \<Rightarrow>
          and_then (resolveSaleScope a (Some (dc_tenantId sale)) (dc_branchId sale) db) (\<lambda>_.
          if cancelled sale then Inr (sale, db)
          else if dc_status sale \<notin> {''DRAFT'', ''CONFIRMED''}
            then Inl (BadRequest ''sale cannot be cancelled in its current status'')
          else and_then (undo_sale env sale (canceller a sale db) db) (\<lambda>db'.
            case findSale saleId (dc_tenantId sale) db' of
              None \<Rightarrow> Inl (NotFound ''sale not found'')
            | Some s \<Rightarrow> Inr (s, db'))))"

end
