(* ===== verification/Sale_Frames.thy ===== *)
theory Sale_Frames
  imports Sale_Cancel Payment_Facts
begin

section \<open>What the operations of a sale leave in place\<close>

text \<open>
  Creating and cancelling sales never removes a document, never changes its identity, kind, branch
  or total once it is settled, and never touches a completed idempotency key, the sessions of the
  points of sale or the access of users to branches. The relation \<open>grows\<close> says so; it is a preorder,
  every operation is in it, and the properties of repeated requests rest on it.
\<close>

subsection \<open>Documents\<close>

definition identity :: "document_row \<Rightarrow> document_kind \<times> string \<times> string \<times> string option \<times> bool \<times> string option" where
  "identity d = (dc_kind d, dc_id d, dc_tenantId d, dc_branchId d, dc_cash d, dc_orderId d)"

text \<open>What payments and sales leave of the cash sessions: their rows, and the movements that no payment makes.\<close>

definition drawer :: "fin_db \<Rightarrow> session_row list \<times> cash_movement_row list" where
  "drawer db = (fd_sessions db, filter (\<lambda>m. cv_type m \<noteq> ''PAYMENT'') (fd_movements db))"

definition fin_grows :: "fin_db \<Rightarrow> fin_db \<Rightarrow> bool" where
  "fin_grows db db' \<longleftrightarrow> (\<exists>ds. map identity (fd_documents db') = map identity (fd_documents db) @ ds) \<and> drawer db' = drawer db"

lemma fin_grows_refl [simp]: "fin_grows db db"
  by (simp add: fin_grows_def)

lemma fin_grows_trans [trans]: "fin_grows a b \<Longrightarrow> fin_grows b c \<Longrightarrow> fin_grows a c"
  by (auto simp: fin_grows_def)

lemma fin_grows_same: "map identity (fd_documents db') = map identity (fd_documents db) \<Longrightarrow> drawer db' = drawer db \<Longrightarrow> fin_grows db db'"
  by (simp add: fin_grows_def)

lemma identity_settled [simp]:
  "identity (d\<lparr>dc_status := s\<rparr>) = identity d" "identity (d\<lparr>dc_total := n\<rparr>) = identity d" "identity (d\<lparr>dc_totalPaid := n\<rparr>) = identity d"
  "identity (d\<lparr>dc_balance := b\<rparr>) = identity d" "identity (d\<lparr>dc_balanceDue := b\<rparr>) = identity d" "identity (d\<lparr>dc_paymentStatus := s\<rparr>) = identity d"
  by (simp_all add: identity_def)

lemma identity_settle [simp]: "identity (settle db d) = identity d"
  by (simp add: identity_def)

lemma is_document_identity: "identity d = identity e \<Longrightarrow> is_document k i t d = is_document k i t e"
  by (auto simp: identity_def is_document_def)

text \<open>A document that is found stays found, as what it was.\<close>

lemma find_grows:
  "map g xs' = map g xs @ zs \<Longrightarrow> (\<And>x y. g x = g y \<Longrightarrow> P x = P y) \<Longrightarrow> find P xs = Some x \<Longrightarrow>
     \<exists>y. find P xs' = Some y \<and> g y = g x"
proof (induction xs arbitrary: xs')
  case (Cons a xs)
  from Cons.prems(1) obtain b ys where xs': "xs' = b # ys" "g b = g a" "map g ys = map g xs @ zs" by (cases xs') auto
  show ?case
  proof (cases "P a")
    case True
    with Cons.prems(3) have "x = a" by simp
    moreover have "P b" using True Cons.prems(2) [OF xs'(2)] by simp
    ultimately show ?thesis using xs' by simp
  next
    case False
    moreover have "\<not> P b" using False Cons.prems(2) [OF xs'(2)] by simp
    ultimately show ?thesis using Cons.IH [OF xs'(3) Cons.prems(2)] Cons.prems(3) xs' by simp
  qed
qed simp

lemma find_document_grows:
  assumes "fin_grows db db'" "find (is_document k i t) (fd_documents db) = Some d"
  obtains d' where "find (is_document k i t) (fd_documents db') = Some d'" "identity d' = identity d"
proof -
  obtain ds where "map identity (fd_documents db') = map identity (fd_documents db) @ ds" using assms(1) by (auto simp: fin_grows_def drawer_def)
  then have "\<exists>y. find (is_document k i t) (fd_documents db') = Some y \<and> identity y = identity d"
    using is_document_identity assms(2) by (rule find_grows)
  then show thesis using that by blast
qed

lemma sync_sale_grows: "fin_grows db (syncSaleFinancialState i t db)"
  by (rule fin_grows_same) (simp_all add: syncSaleFinancialState_def Let_def map_update_where drawer_def)

lemma sync_order_grows: "fin_grows db (syncOrderFinancialState i t db)"
  by (rule fin_grows_same) (simp_all add: syncOrderFinancialState_def Let_def map_update_where drawer_def)

lemma createInternal_grows:
  assumes "createInternal env actor p db = Inr (db', r)" shows "fin_grows db db'"
  using assms by (rule createInternal_effect)
    (auto simp: reconcile_settles drawer_def payment_movement_def intro!: fin_grows_same split: option.splits)

lemma paySale_grows: "paySale env c i ps db = Inr db' \<Longrightarrow> fin_grows db db'"
proof (induction ps arbitrary: db)
  case (Cons p ps)
  then obtain db1 r where "createInternal (sv_fin env) (buildFinanceActor c) (sale_payment_payload (fx_pos c) i p) db = Inr (db1, r)"
    "paySale env c i ps db1 = Inr db'" by (auto simp: and_then_Inr)
  then show ?case using createInternal_grows Cons.IH fin_grows_trans by blast
qed simp

lemma createAllocations_docs: "createAllocations env i as db = Inr (db', rs) \<Longrightarrow> fd_documents db' = fd_documents db"
  using createAllocations_rows [of env i as db db' rs] by simp

lemma insert_payment_docs: "insert_payment p db = Inr db' \<Longrightarrow> fd_documents db' = fd_documents db"
  by (auto simp: insert_payment_def split: if_splits)

lemma insert_cash_movement_docs: "insert_cash_movement m db = Inr db' \<Longrightarrow> fd_documents db' = fd_documents db"
  by (simp add: insert_cash_movement_def split: if_splits) auto

lemma refund_docs:
  assumes "refund env sale u p a db = Inr db'" shows "fd_documents db' = fd_documents db"
proof -
  from assms obtain n db1 db2 rs where
    "insert_payment (refund_payment env sale u p n db) db = Inr db1"
    "createAllocations (sv_fin env) (pm_id (refund_payment env sale u p n db)) [\<lparr>ai_type = R_SALE, ai_id = dc_id sale, ai_amount = a\<rparr>] db1 =
       Inr (db2, rs)"
    and r: "(case (if truthy (pm_cashSessionId p) then pm_cashSessionId p else None) of None \<Rightarrow> Inr db2
       | Some session \<Rightarrow> insert_cash_movement (refund_movement env sale p (refund_payment env sale u p n db) session db2) db2) = Inr db'"
    unfolding refund_def and_then_Inr Let_def by (metis (no_types, lifting) case_prod_conv surj_pair)
  moreover have "fd_documents db' = fd_documents db2"
    using r by (cases "if truthy (pm_cashSessionId p) then pm_cashSessionId p else None") (auto dest: insert_cash_movement_docs)
  ultimately show ?thesis using insert_payment_docs createAllocations_docs by metis
qed

lemma refund_drawer:
  assumes "refund env sale u p a db = Inr db'" shows "drawer db' = drawer db"
proof -
  have ins: "drawer d' = drawer d" if "insert_cash_movement (refund_movement env sale p q i d0) d = Inr d'" for q i d0 d d'
    using that by (simp add: insert_cash_movement_def split: if_splits) (auto simp: drawer_def refund_movement_def)
  from assms obtain n db1 db2 rs where
    d1: "insert_payment (refund_payment env sale u p n db) db = Inr db1" and
    d2: "createAllocations (sv_fin env) (pm_id (refund_payment env sale u p n db)) [\<lparr>ai_type = R_SALE, ai_id = dc_id sale, ai_amount = a\<rparr>] db1 =
       Inr (db2, rs)"
    and r: "(case (if truthy (pm_cashSessionId p) then pm_cashSessionId p else None) of None \<Rightarrow> Inr db2
       | Some session \<Rightarrow> insert_cash_movement (refund_movement env sale p (refund_payment env sale u p n db) session db2) db2) = Inr db'"
    unfolding refund_def and_then_Inr Let_def by (metis (no_types, lifting) case_prod_conv surj_pair)
  have "drawer db1 = drawer db" using d1 by (auto simp: insert_payment_def drawer_def split: if_splits)
  moreover have "drawer db2 = drawer db1" using createAllocations_rows [OF d2] by (simp add: drawer_def)
  moreover have "drawer db' = drawer db2" using r ins by (cases "if truthy (pm_cashSessionId p) then pm_cashSessionId p else None") auto
  ultimately show ?thesis by simp
qed

lemma undo_payment_grows: "undo_payment env sale u p db = Inr (b, db') \<Longrightarrow> fin_grows db db'"
proof -
  assume a: "undo_payment env sale u p db = Inr (b, db')"
  define mine where "mine = filter (is_sale_allocation (dc_id sale)) (allocations_of (pm_id p) db)"
  show ?thesis
  proof (cases "truthy (dc_orderId sale) \<and> pm_referenceType p = R_SALES_ORDER")
    case True
    then have "db' = return_to_order sale mine db" using a by (simp add: undo_payment_def Let_def mine_def)
    then show ?thesis unfolding return_to_order_def
      using fin_grows_trans [OF fin_grows_same sync_order_grows] by (simp add: drawer_def)
  next
    case False
    from a obtain db1 where r: "(if b then refund env sale u p (foldl (\<lambda>s a. dbl (s + cents (al_amount a))) 0 mine) db else Inr db) = Inr db1"
      and "fd_documents db' = fd_documents db1 \<and> drawer db' = drawer db1"
      by (auto simp: undo_payment_def Let_def False and_then_Inr mine_def delete_allocations_def updatePaymentStatus_def drawer_def split: if_splits)
    moreover have "fd_documents db1 = fd_documents db \<and> drawer db1 = drawer db" using r by (auto dest: refund_docs refund_drawer split: if_splits)
    ultimately show ?thesis by (simp add: fin_grows_def)
  qed
qed

lemma undo_payments_grows: "undo_payments env sale u ps db = Inr (b, db') \<Longrightarrow> fin_grows db db'"
proof (induction ps arbitrary: db b)
  case (Cons p ps)
  then obtain b1 db1 b2 where "undo_payment env sale u p db = Inr (b1, db1)" "undo_payments env sale u ps db1 = Inr (b2, db')"
    by (auto simp: and_then_Inr)
  then show ?case using undo_payment_grows Cons.IH fin_grows_trans by blast
qed simp

subsection \<open>Sales\<close>

definition kept_key :: "sale_db \<Rightarrow> sale_db \<Rightarrow> bool" where
  "kept_key db db' \<longleftrightarrow> (\<forall>t k row. find (is_key t k) (so_keys db) = Some row \<longrightarrow> ky_saleId row \<noteq> None \<longrightarrow>
     find (is_key t k) (so_keys db') = Some row)"

definition grows :: "sale_db \<Rightarrow> sale_db \<Rightarrow> bool" where
  "grows db db' \<longleftrightarrow> fin_grows (so_fin db) (so_fin db') \<and> iv_access (so_inv db') = iv_access (so_inv db) \<and>
     sd_sessions (so_scale db') = sd_sessions (so_scale db) \<and> so_current db' = so_current db \<and> kept_key db db'"

lemma kept_same: "so_keys db' = so_keys db \<Longrightarrow> kept_key db db'"
  by (simp add: kept_key_def)

lemma grows_refl [simp]: "grows db db"
  by (simp add: grows_def kept_key_def)

lemma grows_trans [trans]: "grows a b \<Longrightarrow> grows b c \<Longrightarrow> grows a c"
  unfolding grows_def using fin_grows_trans by (auto simp: kept_key_def)

text \<open>A step that leaves the keys, and of the other tables only what the relation speaks of.\<close>

lemma growsI:
  "fin_grows (so_fin db) (so_fin db') \<Longrightarrow> iv_access (so_inv db') = iv_access (so_inv db) \<Longrightarrow>
     sd_sessions (so_scale db') = sd_sessions (so_scale db) \<Longrightarrow> so_current db' = so_current db \<Longrightarrow> so_keys db' = so_keys db \<Longrightarrow>
     grows db db'"
  by (simp add: grows_def kept_same)

lemma insertSale_sessions: "insertSale ctx i db = Inr db' \<Longrightarrow> sd_sessions db' = sd_sessions db"
  by (auto simp: insertSale_def split: if_splits)

lemma insert_sale_shape:
  assumes "insert_sale env ctx i customer order type db = Inr db'"
  obtains scale where "insertSale ctx i (so_scale db) = Inr scale" "\<forall>d\<in>set (fd_documents (so_fin db)). dc_kind d = D_SALE \<longrightarrow> dc_id d \<noteq> i"
    "db' = db\<lparr>so_scale := scale,
       so_fin := (so_fin db)\<lparr>fd_documents := fd_documents (so_fin db) @ [sale_document ctx i customer order type]\<rparr>,
       so_sales := so_sales db @ [\<lparr>sx_id = i, sx_tenantId = sc_tenantId ctx, sx_terminalId = sc_terminalId ctx,
         sx_userId = sc_userId ctx, sx_posSessionId = sc_posSessionId ctx, sx_cashSessionId = None, sx_createdAt = sv_now env\<rparr>]\<rparr>"
proof -
  define old where "old \<longleftrightarrow> i \<in> sx_id ` set (so_sales db) \<or> (\<exists>d \<in> set (fd_documents (so_fin db)). dc_kind d = D_SALE \<and> dc_id d = i)"
  have "\<not> old" using assms unfolding insert_sale_def old_def [symmetric] by (auto simp: raise_def)
  then have "\<forall>d\<in>set (fd_documents (so_fin db)). dc_kind d = D_SALE \<longrightarrow> dc_id d \<noteq> i" by (simp add: old_def)
  with that assms \<open>\<not> old\<close> show thesis unfolding insert_sale_def old_def [symmetric] by (auto simp: and_then_Inr)
qed

lemma insert_sale_grows:
  assumes "insert_sale env ctx i customer order type db = Inr db'" shows "grows db db'"
proof (rule insert_sale_shape [OF assms])
  fix scale assume "insertSale ctx i (so_scale db) = Inr scale"
  then have "sd_sessions scale = sd_sessions (so_scale db)" by (rule insertSale_sessions)
  moreover assume "db' = db\<lparr>so_scale := scale,
       so_fin := (so_fin db)\<lparr>fd_documents := fd_documents (so_fin db) @ [sale_document ctx i customer order type]\<rparr>,
       so_sales := so_sales db @ [\<lparr>sx_id = i, sx_tenantId = sc_tenantId ctx, sx_terminalId = sc_terminalId ctx,
         sx_userId = sc_userId ctx, sx_posSessionId = sc_posSessionId ctx, sx_cashSessionId = None, sx_createdAt = sv_now env\<rparr>]\<rparr>"
  ultimately show "grows db db'" by (auto simp: fin_grows_def drawer_def intro!: growsI)
qed

lemma insert_item_shape:
  assumes "insert_item env row db = Inr db'"
  obtains ts where "item_taxes env row db = Inr ts" "si_id row \<notin> si_id ` set (so_items db)" "0 < si_quantity row"
    "db' = db\<lparr>so_items := so_items db @ [row], so_taxes := so_taxes db @ ts\<rparr>"
proof -
  have "\<not> (si_id row \<in> si_id ` set (so_items db) \<or> si_quantity row \<le> 0)" using assms by (auto simp: insert_item_def raise_def)
  then show thesis using assms that by (auto simp: insert_item_def and_then_Inr)
qed

lemma insert_movement_shape:
  "insert_movement m db = Inr db' \<Longrightarrow>
     mv_id m \<notin> mv_id ` set (iv_movements db) \<and> 0 < mv_quantity m \<and> db' = db\<lparr>iv_movements := iv_movements db @ [m]\<rparr>"
  by (auto simp: insert_movement_def raise_def split: if_splits)

lemma take_lot_shape:
  assumes "take_lot env m (b, q) db = Inr db'"
  obtains k where "k = sale_link env m b q db" "list_ex (same_balance b q) (iv_balances db)" "lk_id k \<notin> lk_id ` set (iv_links db)"
    "db' = db\<lparr>iv_balances := update_where (same_balance b q)
       (\<lambda>r. r\<lparr>bl_onHand := bl_onHand r - q, bl_lastMovementAt := Some (mv_createdAt m), bl_updatedAt := mv_createdAt m\<rparr>) (iv_balances db),
       iv_links := iv_links db @ [k]\<rparr>"
  using assms that unfolding take_lot_def Let_def raise_def by (auto split: if_splits)

text \<open>Taking lots leaves the movements and the access alone.\<close>

lemma take_each_frame:
  "take_each env m xs db = Inr db' \<Longrightarrow> iv_access db' = iv_access db \<and> iv_movements db' = iv_movements db \<and>
     iv_products db' = iv_products db \<and> iv_lots db' = iv_lots db"
proof (induction xs arbitrary: db)
  case (Cons x xs)
  then obtain db1 where s: "take_lot env m x db = Inr db1" "take_each env m xs db1 = Inr db'" by (auto simp: and_then_Inr)
  from s(1) have "iv_access db1 = iv_access db \<and> iv_movements db1 = iv_movements db \<and> iv_products db1 = iv_products db \<and> iv_lots db1 = iv_lots db"
    by (cases x) (auto elim: take_lot_shape)
  with Cons.IH [OF s(2)] show ?case by simp
qed simp

lemma consume_fefo_shape:
  assumes "consume_fefo env ctx p m db = Inr db'"
  obtains (plain) "\<not> sp_requiresLot p" "db' = db"
  | (lots) taken left where "sp_requiresLot p" "take_lots (mv_quantity m) (lots_to_sell (sv_inv env) ctx p db) = (taken, left)" "left \<le> 0"
      "take_each env m taken db = Inr db'"
proof (cases "sp_requiresLot p")
  case True
  obtain taken left where t: "take_lots (mv_quantity m) (lots_to_sell (sv_inv env) ctx p db) = (taken, left)" by fastforce
  then have "left \<le> 0 \<and> take_each env m taken db = Inr db'"
    using assms True by (auto simp: consume_fefo_def and_then_Inr raise_def split: if_splits)
  then show thesis using lots True t by blast
qed (use assms plain in \<open>simp add: consume_fefo_def\<close>)

lemma consume_fefo_frame:
  assumes "consume_fefo env ctx p m db = Inr db'"
  shows "iv_access db' = iv_access db \<and> iv_movements db' = iv_movements db \<and> iv_products db' = iv_products db \<and> iv_lots db' = iv_lots db"
  using assms by (cases rule: consume_fefo_shape) (auto dest: take_each_frame)

text \<open>One item: the row, its taxes, its movement, and what the lots and the order become.\<close>

lemma sell_item_shape:
  assumes "sell_item env ctx i order it db = Inr (amount, db')"
  obtains q p row ts m inv where "item_quantity env it = Inr q" "active_product (sc_tenantId ctx) (pi_productId it) db = Some p"
    "check_order_item (sc_tenantId ctx) order (not_blank (pi_orderItemId it)) q db = Inr ()"
    "q \<le> stock_sum (pi_productId it) (sc_tenantId ctx) (Some (sc_branchId ctx)) (so_inv db)"
    "check_lots (sc_tenantId ctx) (sc_branchId ctx) p db = Inr ()"
    "sale_item env ctx i (it\<lparr>pi_orderItemId := not_blank (pi_orderItemId it)\<rparr>) q = Inr row" "amount = si_subtotal row"
    "item_taxes env row db = Inr ts" "si_id row \<notin> si_id ` set (so_items db)" "0 < si_quantity row"
    "m = sale_movement env ctx i (pi_productId it) q (so_inv db)" "mv_id m \<notin> mv_id ` set (iv_movements (so_inv db))" "0 < q"
    "consume_fefo env ctx p m ((so_inv db)\<lparr>iv_movements := iv_movements (so_inv db) @ [m]\<rparr>) = Inr inv"
    "db' = advance_order order (not_blank (pi_orderItemId it)) q
       (db\<lparr>so_items := so_items db @ [row], so_taxes := so_taxes db @ ts, so_inv := inv\<rparr>)"
proof -
  from assms obtain q p where q: "item_quantity env it = Inr q" and p: "active_product (sc_tenantId ctx) (pi_productId it) db = Some p"
    by (auto simp: sell_item_def and_then_Inr raise_def split: option.splits)
  have "\<exists>row db1 inv1 inv. check_order_item (sc_tenantId ctx) order (not_blank (pi_orderItemId it)) q db = Inr () \<and>
    q \<le> stock_sum (pi_productId it) (sc_tenantId ctx) (Some (sc_branchId ctx)) (so_inv db) \<and>
    check_lots (sc_tenantId ctx) (sc_branchId ctx) p db = Inr () \<and>
    sale_item env ctx i (it\<lparr>pi_orderItemId := not_blank (pi_orderItemId it)\<rparr>) q = Inr row \<and> amount = si_subtotal row \<and>
    insert_item env row db = Inr db1 \<and> insert_movement (sale_movement env ctx i (pi_productId it) q (so_inv db1)) (so_inv db1) = Inr inv1 \<and>
    consume_fefo env ctx p (sale_movement env ctx i (pi_productId it) q (so_inv db1)) inv1 = Inr inv \<and>
    db' = advance_order order (not_blank (pi_orderItemId it)) q (db1\<lparr>so_inv := inv\<rparr>)"
    using assms by (simp add: sell_item_def q p and_then_Inr raise_def Let_def split: if_splits) (auto simp: not_less)
  then obtain row db1 inv1 inv where s: "check_order_item (sc_tenantId ctx) order (not_blank (pi_orderItemId it)) q db = Inr ()"
    "q \<le> stock_sum (pi_productId it) (sc_tenantId ctx) (Some (sc_branchId ctx)) (so_inv db)"
    "check_lots (sc_tenantId ctx) (sc_branchId ctx) p db = Inr ()"
    "sale_item env ctx i (it\<lparr>pi_orderItemId := not_blank (pi_orderItemId it)\<rparr>) q = Inr row" "amount = si_subtotal row"
    and db1: "insert_item env row db = Inr db1"
    and inv1: "insert_movement (sale_movement env ctx i (pi_productId it) q (so_inv db1)) (so_inv db1) = Inr inv1"
    and inv: "consume_fefo env ctx p (sale_movement env ctx i (pi_productId it) q (so_inv db1)) inv1 = Inr inv"
    and db': "db' = advance_order order (not_blank (pi_orderItemId it)) q (db1\<lparr>so_inv := inv\<rparr>)" by blast
  from db1 obtain ts where ts: "item_taxes env row db = Inr ts" "si_id row \<notin> si_id ` set (so_items db)" "0 < si_quantity row"
    "db1 = db\<lparr>so_items := so_items db @ [row], so_taxes := so_taxes db @ ts\<rparr>" by (rule insert_item_shape)
  define m where "m = sale_movement env ctx i (pi_productId it) q (so_inv db)"
  have m1: "sale_movement env ctx i (pi_productId it) q (so_inv db1) = m" by (simp add: m_def ts(4))
  have "mv_id m \<notin> mv_id ` set (iv_movements (so_inv db)) \<and> 0 < mv_quantity m \<and>
      inv1 = (so_inv db)\<lparr>iv_movements := iv_movements (so_inv db) @ [m]\<rparr>"
    using insert_movement_shape [OF inv1 [unfolded m1]] by (simp only: ts(4)) simp
  moreover have "mv_quantity m = q" by (simp add: m_def sale_movement_def Let_def)
  ultimately have mv: "mv_id m \<notin> mv_id ` set (iv_movements (so_inv db))" "0 < q" "inv1 = (so_inv db)\<lparr>iv_movements := iv_movements (so_inv db) @ [m]\<rparr>"
    by auto
  show thesis
    by (rule that [OF q p s ts(1-3) m_def mv(1,2)]) (use inv [unfolded m1 mv(3)] db' in \<open>simp_all add: ts(4)\<close>)
qed

lemma advance_order_frame [simp]:
  "so_fin (advance_order a b q db) = so_fin db" "so_inv (advance_order a b q db) = so_inv db" "so_scale (advance_order a b q db) = so_scale db"
  "so_current (advance_order a b q db) = so_current db" "so_keys (advance_order a b q db) = so_keys db"
  "so_items (advance_order a b q db) = so_items db" "so_sales (advance_order a b q db) = so_sales db"
  by (simp_all add: advance_order_def split: option.splits)

subsection \<open>The stored function\<close>

lemma sell_item_grows:
  assumes "sell_item env ctx i order it db = Inr (amount, db')" shows "grows db db'"
  using assms by (rule sell_item_shape) (auto dest!: consume_fefo_frame intro!: growsI)

lemma sell_items_step:
  assumes "sell_items env ctx i order (it # its) acc db = Inr (tot, db')"
  obtains amount db1 where "sell_item env ctx i order it db = Inr (amount, db1)" "acc + amount < MONEY_12_2"
    "sell_items env ctx i order its (acc + amount) db1 = Inr (tot, db')"
  using assms that by (auto simp: and_then_Inr raise_def split: if_splits)

lemma sell_items_grows: "sell_items env ctx i order its acc db = Inr (tot, db') \<Longrightarrow> grows db db'"
proof (induction its arbitrary: acc db)
  case (Cons it its)
  from Cons.prems obtain amount db1 where "sell_item env ctx i order it db = Inr (amount, db1)"
    "sell_items env ctx i order its (acc + amount) db1 = Inr (tot, db')" by (rule sell_items_step)
  then show ?case using sell_item_grows Cons.IH grows_trans by blast
qed simp

lemma insert_methods_step:
  assumes "insert_methods env t i (m # ms) acc db = Inr (tot, db')"
  obtains n where "lm_method m \<in> {''CASH'', ''CARD'', ''TRANSFER'', ''OTHER''}" "cast_money env (lm_amount m) = Inr n" "0 < n" "acc + n < MONEY_12_2"
    "insert_methods env t i ms (acc + n) (db\<lparr>so_methods := so_methods db @ [\<lparr>sm_tenantId = t, sm_saleId = i, sm_method = lm_method m,
       sm_amount = n, sm_reference = not_blank (lm_reference m)\<rparr>]\<rparr>) = Inr (tot, db')"
proof -
  have "lm_method m \<in> {''CASH'', ''CARD'', ''TRANSFER'', ''OTHER''}" using assms by (simp only: insert_methods.simps raise_def split: if_splits) simp_all
  with assms that show thesis by (auto simp: and_then_Inr raise_def simp del: insert_iff split: if_splits)
qed

text \<open>The payment methods of a sale: rows whose amounts add up to the total that the function compares.\<close>

lemma insert_methods_shape:
  "insert_methods env t i ms acc db = Inr (tot, db') \<Longrightarrow>
     \<exists>rows. db' = db\<lparr>so_methods := so_methods db @ rows\<rparr> \<and> tot = acc + sum_list (map sm_amount rows) \<and>
       list_all2 (\<lambda>m r. fe_money (sv_fin env) (lm_amount m) = Some (sm_amount r) \<and> 0 < sm_amount r) ms rows"
proof (induction ms arbitrary: acc db)
  case Nil
  then show ?case by (intro exI [of _ "[]"]) simp
next
  case (Cons m ms)
  from Cons.prems obtain n where n: "cast_money env (lm_amount m) = Inr n" "0 < n" and
    rest: "insert_methods env t i ms (acc + n) (db\<lparr>so_methods := so_methods db @ [\<lparr>sm_tenantId = t, sm_saleId = i, sm_method = lm_method m,
       sm_amount = n, sm_reference = not_blank (lm_reference m)\<rparr>]\<rparr>) = Inr (tot, db')" by (rule insert_methods_step)
  from Cons.IH [OF rest] obtain rows where r: "db' = db\<lparr>so_methods := (so_methods db @ [\<lparr>sm_tenantId = t, sm_saleId = i, sm_method = lm_method m,
       sm_amount = n, sm_reference = not_blank (lm_reference m)\<rparr>]) @ rows\<rparr>" "tot = acc + n + sum_list (map sm_amount rows)"
    "list_all2 (\<lambda>m r. fe_money (sv_fin env) (lm_amount m) = Some (sm_amount r) \<and> 0 < sm_amount r) ms rows" by auto
  have "fe_money (sv_fin env) (lm_amount m) = Some n" using n(1) by (auto simp: cast_money_def raise_def split: option.splits)
  with n(2) r show ?case
    by (intro exI [of _ "\<lparr>sm_tenantId = t, sm_saleId = i, sm_method = lm_method m, sm_amount = n, sm_reference = not_blank (lm_reference m)\<rparr> # rows"])
      simp
qed

lemma settle_sale_grows: "grows db (settle_sale i t acc paid bal db)"
  by (rule growsI) (simp_all add: settle_sale_def fin_grows_def drawer_def map_update_where)

lemma refreshOrderStatus_grows: "grows db (refreshOrderStatus i t db)"
  by (rule growsI) (simp_all add: refreshOrderStatus_def fin_grows_def drawer_def map_update_where)

lemma updateSaleStatus_grows: "grows db (updateSaleStatus i t s db)"
  by (rule growsI) (simp_all add: updateSaleStatus_def fin_grows_def drawer_def map_update_where)

text \<open>The phases of the function.\<close>

definition paid_of :: "string \<Rightarrow> int \<Rightarrow> int \<Rightarrow> int" where
  "paid_of type acc payments = (if type = ''CASH'' then acc else min acc payments)"

definition due_of :: "string \<Rightarrow> int \<Rightarrow> int \<Rightarrow> int" where
  "due_of type acc payments = (if type = ''CASH'' then 0 else max (acc - paid_of type acc payments) 0)"

lemma create_function_shape:
  assumes "inventory_create_sale_v2 env ctx customer order type items methods db = Inr (i, db')"
  obtains db1 acc db2 payments db3 where "i = sv_id env ''sales'' (length (so_sales db))" "items \<noteq> []"
    "check_context ctx customer order type db = Inr ()" "insert_sale env ctx i customer order type db = Inr db1"
    "sell_items env ctx i order items 0 db1 = Inr (acc, db2)" "insert_methods env (sc_tenantId ctx) i methods 0 db2 = Inr (payments, db3)"
    "type = ''CASH'' \<longrightarrow> methods \<noteq> [] \<and> payments = acc"
    "db' = (case order of None \<Rightarrow> settle_sale i (sc_tenantId ctx) acc (paid_of type acc payments) (due_of type acc payments) db3
       | Some o' \<Rightarrow> refreshOrderStatus o' (sc_tenantId ctx) (settle_sale i (sc_tenantId ctx) acc (paid_of type acc payments) (due_of type acc payments) db3))"
proof -
  define check where "check \<equiv> \<lambda>(acc :: int) payments. if type = ''CASH'' \<and> methods = [] then raise ''payment methods are required for cash sales''
         else if type = ''CASH'' \<and> payments \<noteq> acc then raise ''payment methods total must equal sale total for cash sales''
         else Inr () :: unit http"
  define fin where "fin \<equiv> \<lambda>acc payments db3. case order of None \<Rightarrow> settle_sale i (sc_tenantId ctx) acc (paid_of type acc payments) (due_of type acc payments) db3
       | Some o' \<Rightarrow> refreshOrderStatus o' (sc_tenantId ctx) (settle_sale i (sc_tenantId ctx) acc (paid_of type acc payments) (due_of type acc payments) db3)"
  have i: "i = sv_id env ''sales'' (length (so_sales db))"
    using assms by (auto simp: inventory_create_sale_v2_def Let_def and_then_Inr split_paired_Ex split del: if_split)
  have items: "items \<noteq> []" using assms by (auto simp: inventory_create_sale_v2_def Let_def raise_def)
  with assms obtain db1 acc db2 payments db3 where
    "check_context ctx customer order type db = Inr ()" "insert_sale env ctx i customer order type db = Inr db1"
    "sell_items env ctx i order items 0 db1 = Inr (acc, db2)" "insert_methods env (sc_tenantId ctx) i methods 0 db2 = Inr (payments, db3)"
    and rest: "check acc payments = Inr ()" "db' = fin acc payments db3"
    unfolding inventory_create_sale_v2_def Let_def i [symmetric] paid_of_def [symmetric] due_of_def [symmetric]
    by (auto simp: and_then_Inr check_def fin_def split del: if_split)
  moreover have "type = ''CASH'' \<longrightarrow> methods \<noteq> [] \<and> payments = acc"
    using rest(1) unfolding check_def by (cases "type = ''CASH''"; cases "methods = []"; cases "payments = acc") (simp_all add: raise_def)
  ultimately show thesis using that i items rest(2) unfolding fin_def by blast
qed

lemma create_function_grows:
  assumes "inventory_create_sale_v2 env ctx customer order type items methods db = Inr (i, db')" shows "grows db db'"
  using assms
proof (rule create_function_shape)
  fix db1 acc db2 payments db3
  let ?s = "settle_sale i (sc_tenantId ctx) acc (paid_of type acc payments) (due_of type acc payments) db3"
  assume "insert_sale env ctx i customer order type db = Inr db1" "sell_items env ctx i order items 0 db1 = Inr (acc, db2)"
    and m: "insert_methods env (sc_tenantId ctx) i methods 0 db2 = Inr (payments, db3)"
    and db': "db' = (case order of None \<Rightarrow> ?s | Some o' \<Rightarrow> refreshOrderStatus o' (sc_tenantId ctx) ?s)"
  then have "grows db db2" using insert_sale_grows sell_items_grows grows_trans by blast
  also have "grows db2 db3" using insert_methods_shape [OF m] by (auto intro: growsI)
  also have "grows db3 ?s" by (rule settle_sale_grows)
  also have "grows ?s db'" by (cases order) (simp_all add: db' refreshOrderStatus_grows)
  finally show "grows db db'" .
qed

subsection \<open>Creating\<close>

lemma capture_consume_sessions: "capture_consume env i n x d s u db = Inr db' \<Longrightarrow> sd_sessions db' = sd_sessions db"
  by (auto simp: capture_consume_def Let_def and_then_Inr split: if_splits)

lemma consumeWeighedLines_sessions: "consumeWeighedLines env ctx i ps db = Inr db' \<Longrightarrow> sd_sessions db' = sd_sessions db"
proof (induction ps arbitrary: db)
  case (Cons p ps)
  from Cons.prems obtain db1 db2 where s: "associateWeightCaptureToSaleItem (sc_tenantId ctx) i p db = Inr db1"
    "as_conflict ''weight capture could not be consumed; sale transaction was rolled back''
       (capture_consume env (pw_captureId p) (pw_nonce p) (pw_scope p) (pw_terminalDeviceId p) i (sc_userId ctx) db1) = Inr db2"
    and rest: "consumeWeighedLines env ctx i ps db2 = Inr db'" by (auto simp: and_then_Inr)
  have "sd_sessions db1 = sd_sessions db" using s(1) by (auto simp: associateWeightCaptureToSaleItem_def split: if_splits)
  moreover have "sd_sessions db2 = sd_sessions db1"
    using s(2) by (auto simp: as_conflict_def split: sum.splits http_error.splits if_splits dest: capture_consume_sessions)
  ultimately show ?case using Cons.IH [OF rest] by simp
qed simp

text \<open>The phases of a new sale.\<close>

lemma write_sale_shape:
  assumes "write_sale env c r lines db = Inr (i, db')"
  obtains payments prepared captures items methods db1 scale fin box where "normalizePayments (rq_payments r) = Inr payments"
    "prepareSaleItemsForPricing env (fx_pos c) db 0 lines = Inr (prepared, captures)"
    "calculatePricedPosItems env (fx_pos c) (so_pricing db) prepared = Inr items"
    "buildLegacySalePaymentMethods (sc_tenantId (fx_pos c)) payments db = Inr methods"
    "inventory_create_sale_v2 env (fx_pos c) (rq_customerId r) (rq_orderId r) (rq_type r) items methods db = Inr (i, db1)"
    "consumeWeighedLines (sv_scale env) (fx_pos c) i captures (so_scale db1) = Inr scale"
    "paySale env c i payments (so_fin db1) = Inr fin"
    "db' = (linkOrderDeliveryToSale (sc_tenantId (fx_pos c)) (rq_orderId r) i (sc_userId (fx_pos c))
       (finalizeSale i (sc_tenantId (fx_pos c)) ((set_cash_session (sale_cash_session c payments) i (sc_tenantId (fx_pos c))
         (db1\<lparr>so_scale := scale\<rparr>))\<lparr>so_fin := fin\<rparr>)))\<lparr>so_outbox := box\<rparr>"
proof -
  have "so_fin (set_cash_session s i t (x\<lparr>so_scale := y\<rparr>)) = so_fin x" for s i t x y by (simp add: set_cash_session_def)
  with assms that show thesis by (auto simp: write_sale_def Let_def and_then_Inr)
qed

lemma set_cash_session_grows: "grows db (set_cash_session s i t db)"
  by (rule growsI) (simp_all add: set_cash_session_def)

lemma linkOrderDelivery_grows: "grows db (linkOrderDeliveryToSale t j i u db)"
  by (rule growsI) (simp_all add: linkOrderDeliveryToSale_def)

lemma finalizeSale_grows: "grows db (finalizeSale i t db)"
proof -
  have "grows db (db\<lparr>so_fin := syncSaleFinancialState i t (so_fin db)\<rparr>)" by (rule growsI) (simp_all add: sync_sale_grows)
  then show ?thesis unfolding finalizeSale_def using updateSaleStatus_grows grows_trans by blast
qed

lemma write_sale_grows:
  assumes "write_sale env c r lines db = Inr (i, db')" shows "grows db db'"
  using assms
proof (rule write_sale_shape)
  fix payments captures items methods scale fin box and db1 :: sale_db
  let ?a = "db1\<lparr>so_scale := scale\<rparr>" and ?t = "sc_tenantId (fx_pos c)"
  let ?b = "set_cash_session (sale_cash_session c payments) i ?t ?a"
  let ?d = "finalizeSale i ?t (?b\<lparr>so_fin := fin\<rparr>)"
  assume f: "inventory_create_sale_v2 env (fx_pos c) (rq_customerId r) (rq_orderId r) (rq_type r) items methods db = Inr (i, db1)"
    "consumeWeighedLines (sv_scale env) (fx_pos c) i captures (so_scale db1) = Inr scale" "paySale env c i payments (so_fin db1) = Inr fin"
    and db': "db' = (linkOrderDeliveryToSale ?t (rq_orderId r) i (sc_userId (fx_pos c)) ?d)\<lparr>so_outbox := box\<rparr>"
  have "grows db db1" using f(1) by (rule create_function_grows)
  also have "grows db1 ?a" by (rule growsI) (simp_all add: consumeWeighedLines_sessions [OF f(2)])
  also have "grows ?a ?b" by (rule set_cash_session_grows)
  also have "grows ?b (?b\<lparr>so_fin := fin\<rparr>)"
    using paySale_grows [OF f(3)] by (intro growsI) (simp_all add: set_cash_session_def)
  also have "grows (?b\<lparr>so_fin := fin\<rparr>) ?d" by (rule finalizeSale_grows)
  also have "grows ?d (linkOrderDeliveryToSale ?t (rq_orderId r) i (sc_userId (fx_pos c)) ?d)" by (rule linkOrderDelivery_grows)
  also have "grows \<dots> db'" by (rule growsI) (simp_all add: db')
  finally show "grows db db'" .
qed

text \<open>A new sale does not look at the idempotency keys.\<close>

lemma write_sale_keys:
  assumes "write_sale env c r lines db = Inr (i, db')" shows "so_keys db' = so_keys db"
  using assms
proof (rule write_sale_shape)
  fix payments captures items methods scale fin box and db1 :: sale_db
  assume f: "inventory_create_sale_v2 env (fx_pos c) (rq_customerId r) (rq_orderId r) (rq_type r) items methods db = Inr (i, db1)"
    and db': "db' = (linkOrderDeliveryToSale (sc_tenantId (fx_pos c)) (rq_orderId r) i (sc_userId (fx_pos c))
       (finalizeSale i (sc_tenantId (fx_pos c)) ((set_cash_session (sale_cash_session c payments) i (sc_tenantId (fx_pos c))
         (db1\<lparr>so_scale := scale\<rparr>))\<lparr>so_fin := fin\<rparr>)))\<lparr>so_outbox := box\<rparr>"
  have item: "so_keys db' = so_keys db" if "sell_item env ctx j order it db = Inr (amount, db')"
    for ctx j order it amount and db db' :: sale_db
    using that by (rule sell_item_shape) simp
  have items: "so_keys db' = so_keys db" if "sell_items env ctx j order its acc db = Inr (tot, db')"
    for ctx j order its acc tot and db db' :: sale_db
    using that by (induction its arbitrary: acc db) (simp, metis sell_items_step item)
  have "so_keys db1 = so_keys db"
    using f
  proof (rule create_function_shape)
    fix acc tot and db4 db2 db3 :: sale_db
    assume a: "insert_sale env (fx_pos c) i (rq_customerId r) (rq_orderId r) (rq_type r) db = Inr db4"
      "sell_items env (fx_pos c) i (rq_orderId r) items 0 db4 = Inr (acc, db2)"
      "insert_methods env (sc_tenantId (fx_pos c)) i methods 0 db2 = Inr (tot, db3)"
      "db1 = (case rq_orderId r of None \<Rightarrow> settle_sale i (sc_tenantId (fx_pos c)) acc (paid_of (rq_type r) acc tot) (due_of (rq_type r) acc tot) db3
       | Some o' \<Rightarrow> refreshOrderStatus o' (sc_tenantId (fx_pos c))
          (settle_sale i (sc_tenantId (fx_pos c)) acc (paid_of (rq_type r) acc tot) (due_of (rq_type r) acc tot) db3))"
    have "so_keys db4 = so_keys db" by (rule insert_sale_shape [OF a(1)]) simp
    moreover have "so_keys db3 = so_keys db2" using insert_methods_shape [OF a(3)] by auto
    ultimately show "so_keys db1 = so_keys db"
      using items [OF a(2)] by (simp add: a(4) settle_sale_def refreshOrderStatus_def split: option.splits)
  qed
  then show "so_keys db' = so_keys db"
    by (simp add: db' linkOrderDeliveryToSale_def finalizeSale_def updateSaleStatus_def set_cash_session_def)
qed

subsection \<open>Idempotency keys\<close>

definition settled_key :: "string \<Rightarrow> string \<Rightarrow> string \<Rightarrow> string \<Rightarrow> sale_db \<Rightarrow> bool" where
  "settled_key t k hash i db \<longleftrightarrow> (\<exists>row. find (is_key t k) (so_keys db) = Some row \<and> ky_hash row = hash \<and> ky_saleId row = Some i)"

lemma settled_key_grows: "grows db db' \<Longrightarrow> settled_key t k hash i db \<Longrightarrow> settled_key t k hash i db'"
  by (auto simp: settled_key_def grows_def kept_key_def)

lemma find_append_other: "find P xs = Some x \<Longrightarrow> find P (xs @ ys) = Some x"
  by (induction xs) (auto split: if_splits)

lemma find_update_where_other:
  "find P xs = Some x \<Longrightarrow> \<not> Q x \<Longrightarrow> (\<And>y. P (f y) = P y) \<Longrightarrow> find P (update_where Q f xs) = Some x"
  by (induction xs) (auto simp: update_where_def split: if_splits)

lemma find_updated:
  "(\<And>y. P (f y) = P y) \<Longrightarrow> find P (update_where Q f xs) = map_option (\<lambda>y. if Q y then f y else y) (find P xs)"
  by (induction xs) (auto simp: update_where_def)

lemma complete_shape:
  assumes "completeSaleCreationIdempotency t k i db = Inr db'"
  shows "db' = db\<lparr>so_keys := update_where (open_key t k) (\<lambda>r. r\<lparr>ky_saleId := Some i\<rparr>) (so_keys db)\<rparr>"
proof -
  have "\<not> (\<exists>r \<in> set (so_keys db). ky_tenantId r = t \<and> ky_saleId r = Some i)"
    using assms unfolding completeSaleCreationIdempotency_def by (metis Inl_Inr_False)
  moreover have "Prelude.count (open_key t k) (so_keys db) = 1"
    using assms unfolding completeSaleCreationIdempotency_def by (metis Inl_Inr_False)
  ultimately show ?thesis using assms unfolding completeSaleCreationIdempotency_def by (auto simp only: if_False simp_thms refl sum.inject)
qed

lemma complete_grows:
  assumes "completeSaleCreationIdempotency t k i db = Inr db'" shows "grows db db'"
proof -
  have "find (is_key t' k') (update_where (open_key t k) (\<lambda>r. r\<lparr>ky_saleId := Some i\<rparr>) (so_keys db)) = Some row"
    if "find (is_key t' k') (so_keys db) = Some row" "ky_saleId row \<noteq> None" for t' k' row
    using that by (intro find_update_where_other) (simp_all add: open_key_def is_key_def)
  then show ?thesis by (auto simp: grows_def kept_key_def complete_shape [OF assms])
qed

text \<open>The three ways a sale is committed: the sale its key already has, a new sale, a new sale with its key.\<close>

lemma sale_transaction_cases:
  assumes "sale_transaction env c r lines key db = Inr (i, db')"
  obtains (replay) k where "key = Some k" "i \<noteq> []" "db' = db"
      "settled_key (sc_tenantId (fx_pos c)) k (buildSaleIdempotencyHash (sv_text env) r c) i db"
  | (plain) "key = None" "write_sale env c r lines db = Inr (i, db')"
  | (keyed) k row db1 db2 where "key = Some k" "find (is_key (sc_tenantId (fx_pos c)) k) (so_keys db) = None"
      "row = \<lparr>ky_tenantId = sc_tenantId (fx_pos c), ky_key = k, ky_hash = buildSaleIdempotencyHash (sv_text env) r c, ky_saleId = None\<rparr>"
      "db1 = db\<lparr>so_keys := so_keys db @ [row]\<rparr>" "write_sale env c r lines db1 = Inr (i, db2)"
      "completeSaleCreationIdempotency (sc_tenantId (fx_pos c)) k i db2 = Inr db'"
proof (cases key)
  case None
  with assms plain show thesis by (auto simp: sale_transaction_def Let_def and_then_Inr claim_key_def)
next
  case key: (Some k)
  let ?t = "sc_tenantId (fx_pos c)" and ?h = "buildSaleIdempotencyHash (sv_text env) r c"
  show thesis
  proof (cases "find (is_key ?t k) (so_keys db)")
    case None
    let ?row = "\<lparr>ky_tenantId = ?t, ky_key = k, ky_hash = ?h, ky_saleId = None\<rparr>"
    from assms None obtain db2 where "write_sale env c r lines (db\<lparr>so_keys := so_keys db @ [?row]\<rparr>) = Inr (i, db2)"
      "completeSaleCreationIdempotency ?t k i db2 = Inr db'"
      by (auto simp: sale_transaction_def Let_def and_then_Inr claim_key_def reserveSaleCreationIdempotency_def key)
    then show thesis using keyed [OF key None refl refl] by blast
  next
    case (Some row)
    from assms have "ky_hash row = ?h" "truthy (ky_saleId row)" "ky_saleId row = Some i" "db' = db"
      by (auto simp: sale_transaction_def Let_def and_then_Inr claim_key_def reserveSaleCreationIdempotency_def key Some split: if_splits option.splits)
    then show thesis using replay key Some by (auto simp: settled_key_def)
  qed
qed

lemma sale_transaction_grows:
  assumes "sale_transaction env c r lines key db = Inr (i, db')" shows "grows db db'"
  using assms
proof (cases rule: sale_transaction_cases)
  case (keyed k row db1 db2)
  have "grows db db1" by (auto simp: keyed(4) grows_def kept_key_def find_append_other)
  then show ?thesis using write_sale_grows [OF keyed(5)] complete_grows [OF keyed(6)] grows_trans by blast
qed (auto intro: write_sale_grows)

lemma keyed_sale_settles:
  assumes "sale_transaction env c r lines (Some k) db = Inr (i, db')"
  shows "settled_key (sc_tenantId (fx_pos c)) k (buildSaleIdempotencyHash (sv_text env) r c) i db'"
  using assms
proof (cases rule: sale_transaction_cases)
  case (keyed k' row db1 db2)
  let ?t = "sc_tenantId (fx_pos c)"
  have k: "k' = k" using keyed(1) by simp
  have "find (is_key ?t k) (so_keys db2) = Some row"
    using keyed(2) by (simp add: write_sale_keys [OF keyed(5)] keyed(3,4) k find_append is_key_def)
  then have "find (is_key ?t k) (so_keys db') = Some (row\<lparr>ky_saleId := Some i\<rparr>)"
    by (subst complete_shape [OF keyed(6)]) (simp add: find_updated is_key_def [abs_def] open_key_def keyed(3) k)
  then show ?thesis by (simp add: settled_key_def keyed(3))
qed auto

subsection \<open>Cancelling\<close>

lemma movement_insert_access: "movement_insert env m b a db = Inr (row, db') \<Longrightarrow> iv_access db' = iv_access db"
  by (auto simp: movement_insert_def Let_def and_then_Inr split: option.splits)

lemma createMovement_access: "createMovement env m db = Inr (row, db') \<Longrightarrow> iv_access db' = iv_access db"
  by (auto simp: createMovement_def Let_def and_then_Inr dest: movement_insert_access)

lemma reverse_link_shape:
  assumes "reverse_link env t b m i k db = Inr db'"
  obtains q j where "0 < milli (lk_quantity k)" "lk_lotId k = Some j" "check_reversed_lot t b m k db = Inr ()"
    "iv_quantity (sv_inv env) (milli (lk_quantity k)) = Some q" "list_ex (at_balance t b (mv_productId m) j (lk_locationId k)) (iv_balances db)"
    "db' = db\<lparr>iv_balances := update_where (at_balance t b (mv_productId m) j (lk_locationId k))
       (\<lambda>r. r\<lparr>bl_onHand := bl_onHand r + q, bl_lastMovementAt := Some (sv_now env), bl_updatedAt := sv_now env\<rparr>) (iv_balances db),
       iv_links := iv_links db @ [reversed_link env t m i k q db]\<rparr>"
proof -
  have pos: "0 < milli (lk_quantity k)" and lot: "truthy (lk_lotId k)" using assms by (auto simp: reverse_link_def not_le split: if_splits)
  then obtain j where j: "lk_lotId k = Some j" by (cases "lk_lotId k") auto
  from assms obtain q where q: "check_reversed_lot t b m k db = Inr ()" "quantity_column env (milli (lk_quantity k)) = Inr q" and
    rest: "(if \<not> list_ex (at_balance t b (mv_productId m) j (lk_locationId k)) (iv_balances db)
        then Inl (BadRequest ''inventory lot balance not found for reversal'')
      else if list_ex (\<lambda>r. at_balance t b (mv_productId m) j (lk_locationId k) r \<and> 10 ^ 14 \<le> bl_onHand r + q) (iv_balances db)
        then raise ''numeric field overflow''
      else if lk_id (reversed_link env t m i k q db) \<in> lk_id ` set (iv_links db) then raise ''stock_movement_lots_pkey''
      else Inr (db\<lparr>iv_balances := update_where (at_balance t b (mv_productId m) j (lk_locationId k))
       (\<lambda>r. r\<lparr>bl_onHand := bl_onHand r + q, bl_lastMovementAt := Some (sv_now env), bl_updatedAt := sv_now env\<rparr>) (iv_balances db),
       iv_links := iv_links db @ [reversed_link env t m i k q db]\<rparr>)) = Inr db'"
    using pos lot by (auto simp: reverse_link_def and_then_Inr Let_def j split del: if_split)
  have "iv_quantity (sv_inv env) (milli (lk_quantity k)) = Some q"
    using q(2) by (auto simp: quantity_column_def raise_def split: option.splits)
  moreover have "list_ex (at_balance t b (mv_productId m) j (lk_locationId k)) (iv_balances db)"
    using rest by (metis Inl_Inr_False)
  moreover from this have "db' = db\<lparr>iv_balances := update_where (at_balance t b (mv_productId m) j (lk_locationId k))
       (\<lambda>r. r\<lparr>bl_onHand := bl_onHand r + q, bl_lastMovementAt := Some (sv_now env), bl_updatedAt := sv_now env\<rparr>) (iv_balances db),
       iv_links := iv_links db @ [reversed_link env t m i k q db]\<rparr>"
    using rest by (simp add: raise_def split: if_splits)
  ultimately show thesis using that pos j q(1) by blast
qed

lemma reverse_links_frame:
  "reverse_links env t b m i ks db = Inr db' \<Longrightarrow> iv_access db' = iv_access db \<and> iv_movements db' = iv_movements db"
proof (induction ks arbitrary: db)
  case (Cons k ks)
  then obtain db1 where s: "reverse_link env t b m i k db = Inr db1" "reverse_links env t b m i ks db1 = Inr db'" by (auto simp: and_then_Inr)
  from s(1) have "iv_access db1 = iv_access db \<and> iv_movements db1 = iv_movements db" by (rule reverse_link_shape) simp
  with Cons.IH [OF s(2)] show ?case by simp
qed simp

lemma reverse_lotted_frame:
  assumes "reverseLottedStockMovement env t m i db = Inr db'" shows "iv_access db' = iv_access db \<and> iv_movements db' = iv_movements db"
  using assms unfolding reverseLottedStockMovement_def Let_def by (auto simp: and_then_Inr dest: reverse_links_frame split: if_splits)

lemma reverse_stock_access: "reverse_stock env i t u item mv db = Inr db' \<Longrightarrow> iv_access db' = iv_access db"
  by (auto simp: reverse_stock_def and_then_Inr dest!: createMovement_access reverse_lotted_frame split: option.splits)

lemma undo_items_step:
  assumes "undo_items env sale u (item # items) ms db = Inr db'"
  obtains inv where "reverse_stock env (dc_id sale) (dc_tenantId sale) u item (find (\<lambda>m. mv_productId m = si_productId item) ms) (so_inv db) = Inr inv"
    "undo_items env sale u items (drop_first (si_productId item) ms) (db\<lparr>so_inv := inv, so_orderItems :=
       undo_order_item (dc_orderId sale) item (find (\<lambda>m. mv_productId m = si_productId item) ms \<noteq> None) (so_orderItems db)\<rparr>) = Inr db'"
  using assms that by (auto simp: and_then_Inr Let_def)

lemma undo_items_grows: "undo_items env sale u items ms db = Inr db' \<Longrightarrow> grows db db' \<and> so_fin db' = so_fin db"
proof (induction items arbitrary: ms db)
  case (Cons item items)
  from Cons.prems obtain inv where
    inv: "reverse_stock env (dc_id sale) (dc_tenantId sale) u item (find (\<lambda>m. mv_productId m = si_productId item) ms) (so_inv db) = Inr inv" and
    rest: "undo_items env sale u items (drop_first (si_productId item) ms) (db\<lparr>so_inv := inv, so_orderItems :=
       undo_order_item (dc_orderId sale) item (find (\<lambda>m. mv_productId m = si_productId item) ms \<noteq> None) (so_orderItems db)\<rparr>) = Inr db'"
    by (rule undo_items_step)
  let ?db = "db\<lparr>so_inv := inv, so_orderItems :=
       undo_order_item (dc_orderId sale) item (find (\<lambda>m. mv_productId m = si_productId item) ms \<noteq> None) (so_orderItems db)\<rparr>"
  have "grows db ?db" by (rule growsI) (simp_all add: reverse_stock_access [OF inv])
  with Cons.IH [OF rest] show ?case by (auto intro: grows_trans)
qed simp

lemma undo_sale_shape:
  assumes "undo_sale env sale u db = Inr db'"
  obtains db1 b fin where
    "undo_items env sale u (sale_items_of (dc_id sale) (dc_tenantId sale) db) (sale_movements (dc_id sale) (dc_tenantId sale) db) db = Inr db1"
    "undo_payments env sale u (listAllocatedPayments (dc_tenantId sale) (dc_id sale) (so_fin db1)) (so_fin db1) = Inr (b, fin)"
    "db' = finalizeCancelledSale (dc_id sale) (dc_tenantId sale) (if b then ''REFUNDED'' else ''CANCELLED'')
       (if truthy (dc_orderId sale) then refreshOrderStatus (the (dc_orderId sale)) (dc_tenantId sale) (db1\<lparr>so_fin := fin\<rparr>) else db1\<lparr>so_fin := fin\<rparr>)"
  using assms that by (auto simp: undo_sale_def Let_def and_then_Inr split del: if_split)

lemma finalizeCancelled_grows: "grows db (finalizeCancelledSale i t s db)"
  by (rule growsI) (simp_all add: finalizeCancelledSale_def fin_grows_def drawer_def map_update_where)

lemma undo_sale_grows:
  assumes "undo_sale env sale u db = Inr db'" shows "grows db db'"
  using assms
proof (rule undo_sale_shape)
  fix b fin and db1 :: sale_db
  let ?a = "db1\<lparr>so_fin := fin\<rparr>"
  let ?b = "if truthy (dc_orderId sale) then refreshOrderStatus (the (dc_orderId sale)) (dc_tenantId sale) ?a else ?a"
  assume s: "undo_items env sale u (sale_items_of (dc_id sale) (dc_tenantId sale) db) (sale_movements (dc_id sale) (dc_tenantId sale) db) db = Inr db1"
    "undo_payments env sale u (listAllocatedPayments (dc_tenantId sale) (dc_id sale) (so_fin db1)) (so_fin db1) = Inr (b, fin)"
    "db' = finalizeCancelledSale (dc_id sale) (dc_tenantId sale) (if b then ''REFUNDED'' else ''CANCELLED'') ?b"
  have "grows db db1" using undo_items_grows [OF s(1)] by simp
  also have "grows db1 ?a" using undo_payments_grows [OF s(2)] by (intro growsI) simp_all
  also have "grows ?a ?b" by (simp add: refreshOrderStatus_grows)
  also have "grows ?b db'" unfolding s(3) by (rule finalizeCancelled_grows)
  finally show "grows db db'" .
qed

text \<open>A cancellation answers a sale that was cancelled before, or undoes an open one.\<close>

lemma cancelSale_cases:
  assumes "cancelSale env i a db = Inr (s, db')"
  obtains (again) t where "bs_tenantId a = Some t" "findSale i t db = Some s" "cancelled s" "db' = db"
  | (undo) t sale where "bs_tenantId a = Some t" "findSale i t db = Some sale" "dc_status sale \<in> {''DRAFT'', ''CONFIRMED''}"
      "undo_sale env sale (canceller a sale db) db = Inr db'" "findSale i (dc_tenantId sale) db' = Some s"
proof -
  from assms obtain t sale where t: "bs_tenantId a = Some t" "findSale i t db = Some sale"
    by (cases "bs_tenantId a"; cases "findSale i (the (bs_tenantId a)) db") (auto simp: cancelSale_def)
  define ok where "ok \<longleftrightarrow> dc_status sale \<in> {''DRAFT'', ''CONFIRMED''}"
  have step: "cancelSale env i a db = and_then (resolveSaleScope a (Some (dc_tenantId sale)) (dc_branchId sale) db) (\<lambda>_.
      if cancelled sale then Inr (sale, db)
      else if \<not> ok then Inl (BadRequest ''sale cannot be cancelled in its current status'')
      else and_then (undo_sale env sale (canceller a sale db) db) (\<lambda>db'. case findSale i (dc_tenantId sale) db' of
          None \<Rightarrow> Inl (NotFound ''sale not found'') | Some s \<Rightarrow> Inr (s, db')))"
    unfolding cancelSale_def ok_def by (simp only: t option.case bind.simps)
  show thesis
  proof (cases "cancelled sale")
    case True
    with assms have "s = sale" "db' = db" by (auto simp: step and_then_Inr)
    with again t True show thesis by blast
  next
    case False
    with assms have "ok" "undo_sale env sale (canceller a sale db) db = Inr db' \<and> findSale i (dc_tenantId sale) db' = Some s"
      by (auto simp: step and_then_Inr split: option.splits if_splits)
    with undo t show thesis unfolding ok_def by blast
  qed
qed

lemma cancelSale_grows: "cancelSale env i a db = Inr (s, db') \<Longrightarrow> grows db db'"
  by (erule cancelSale_cases) (simp_all add: undo_sale_grows)

subsection \<open>Any sequence of requests\<close>

datatype sale_op = New_Sale sale_env sale_request raw_context key_header | Cancel_Sale sale_env string sale_actor

fun sale_step :: "sale_db \<Rightarrow> sale_op \<Rightarrow> sale_db" where
  "sale_step db (New_Sale env r ctx header) = snd (createSale env r ctx header db)"
| "sale_step db (Cancel_Sale env i a) = (case cancelSale env i a db of Inl e \<Rightarrow> db | Inr (s, db') \<Rightarrow> db')"

definition run_sales :: "sale_op list \<Rightarrow> sale_db \<Rightarrow> sale_db" where
  "run_sales ops db = foldl sale_step db ops"

lemma createSale_cases:
  assumes "createSale env r ctx header db = (v, db')"
  obtains (refused) e where "v = Inl e" "db' = db"
  | (committed) c lines key i where "normalizeSaleContext ctx db = Inr c" "ensureSaleInput r = Inr lines"
      "normalizeSaleIdempotencyKey header = Inr key" "sale_transaction env c r lines key db = Inr (i, db')"
      "v = getSaleById i (context_actor c) db'"
  using assms that by (auto simp: createSale_def and_then_Inr and_then_Inl split: sum.splits prod.splits)

lemma sale_step_grows: "grows db (sale_step db x)"
proof (cases x)
  case (New_Sale env r ctx header)
  obtain v db' where c: "createSale env r ctx header db = (v, db')" by fastforce
  then have "grows db db'" by (cases rule: createSale_cases) (auto intro: sale_transaction_grows)
  then show ?thesis by (simp add: New_Sale c)
next
  case (Cancel_Sale env i a)
  then show ?thesis using cancelSale_grows by (fastforce split: sum.splits prod.splits)
qed

lemma run_sales_grows: "grows db (run_sales ops db)"
proof (induction ops arbitrary: db)
  case (Cons x ops)
  then show ?case using sale_step_grows grows_trans by (fastforce simp: run_sales_def)
qed (simp add: run_sales_def)

end
