(* ===== verification/Sale_Ledger.thy ===== *)
theory Sale_Ledger
  imports Sale_Frames
begin

section \<open>The ledger of a new sale\<close>

text \<open>
  What a committed sale leaves in the tables of payments and in its own row: each payment of the
  request becomes one payment with one allocation of the same amount, the items add up to the total,
  and the row's columns follow.
\<close>

subsection \<open>Payments\<close>

lemma find_by_key: "distinct (map k xs) \<Longrightarrow> x \<in> set xs \<Longrightarrow> find (\<lambda>y. k y = k x) xs = Some x"
  by (induction xs) auto

definition figures :: "document_row \<Rightarrow> (document_kind \<times> string \<times> string \<times> string option \<times> bool \<times> string option) \<times> int" where
  "figures d = (identity d, dc_total d)"

lemma figures_settle [simp]: "figures (settle db d) = figures d"
  by (simp add: figures_def)

lemma is_document_figures: "figures d = figures e \<Longrightarrow> is_document k i t d = is_document k i t e"
  using is_document_identity [of d e k i t] by (simp add: figures_def)

lemma find_figures:
  assumes "map figures ds' = map figures ds" "find (is_document k i t) ds = Some d"
  obtains d' where "find (is_document k i t) ds' = Some d'" "figures d' = figures d"
  using find_grows [of figures ds' ds "[]", OF _ is_document_figures assms(2)] assms(1) that by auto

lemma normalizePayments_positive:
  "normalizePayments ps = Inr qs \<Longrightarrow> list_all2 (\<lambda>p q. q = p\<lparr>cp_amount := round_money (cp_amount p)\<rparr> \<and> 0 < cp_amount q) ps qs"
proof (induction ps arbitrary: qs)
  case (Cons p ps)
  then obtain rs where "qs = p\<lparr>cp_amount := round_money (cp_amount p)\<rparr> # rs" "normalizePayments ps = Inr rs" "0 < round_money (cp_amount p)"
    by (auto simp: and_then_Inr not_le split: if_splits)
  with Cons.IH show ?case by simp
qed simp

text \<open>The rows of one payment of a sale.\<close>

definition pays :: "sale_env \<Rightarrow> string \<Rightarrow> string \<Rightarrow> sale_payment \<Rightarrow> payment_row \<times> allocation_row \<Rightarrow> bool" where
  "pays env t i p ra \<longleftrightarrow> (case ra of (r, a) \<Rightarrow> pm_tenantId r = t \<and> pm_in r \<and> pm_status r = PAY_COMPLETED \<and> pm_referenceType r = R_SALE \<and>
     pm_referenceId r = i \<and> pm_methodId r = cp_methodId p \<and>
     al_paymentId a = pm_id r \<and> al_referenceType a = R_SALE \<and> al_referenceId a = i \<and>
     fe_money (sv_fin env) (cp_amount p) = Some (al_amount a) \<and> pm_amount r = al_amount a \<and> 0 < al_amount a)"

lemma sale_payment_effect:
  assumes "createInternal (sv_fin env) (buildFinanceActor c) (sale_payment_payload (fx_pos c) i p) db = Inr (db', r)" "0 < cp_amount p"
  obtains row a ms where "pays env (sc_tenantId (fx_pos c)) i p (row, a)" "pm_id row \<notin> pm_id ` set (fd_payments db)"
    "fd_payments db' = fd_payments db @ [row]" "fd_allocations db' = fd_allocations db @ [a]" "fd_movements db' = fd_movements db @ ms"
    "map figures (fd_documents db') = map figures (fd_documents db)"
    "\<exists>d. find (is_document D_SALE i (sc_tenantId (fx_pos c))) (fd_documents db) = Some d \<and> cp_amount p \<le> computeDueBefore d
       (sumAllocatedForReference (sc_tenantId (fx_pos c)) R_SALE i db)"
  using assms(1)
proof (rule createInternal_effect)
  fix t s m as row rows ms
  assume t: "resolveTenantId (buildFinanceActor c) (cr_tenantId (sale_payment_payload (fx_pos c) i p)) = Inr t"
    and as: "resolveAllocations t (sale_payment_payload (fx_pos c) i p) db = Inr as"
    and row: "row = new_payment (sv_fin env) (buildFinanceActor c) t (sale_payment_payload (fx_pos c) i p) (map_option cs_id s) (pm_amount row) db"
    and money: "fe_money (sv_fin env) (cr_amount (sale_payment_payload (fx_pos c) i p)) = Some (pm_amount row)"
    and new: "pm_id row \<notin> pm_id ` set (fd_payments db)"
    and rows: "list_all2 (row_of (fe_money (sv_fin env)) (pm_id row)) as rows"
    and db': "db' = reconcileDocumentBalances t as (db\<lparr>fd_payments := fd_payments db @ [row], fd_allocations := fd_allocations db @ rows,
       fd_movements := fd_movements db @ ms\<rparr>)"
  have t: "t = sc_tenantId (fx_pos c)"
    using t by (auto simp: resolveTenantId_def sale_payment_payload_def buildFinanceActor_def trimmed_def split: if_splits)
  from as obtain d due where d: "resolveReferenceDocument t R_SALE i db = Inr d"
    "as = buildRequestedAllocations (sale_payment_payload (fx_pos c) i p) due"
    and checked: "\<And>a. a \<in> set (aggregateAllocations as) \<Longrightarrow> \<exists>e. resolveReferenceDocument t (ai_type a) (ai_id a) db = Inr e \<and>
       in_branch e (sc_branchId (fx_pos c)) \<and> ai_amount a \<le> computeDueBefore e (sumAllocatedForReference t (ai_type a) (ai_id a) db)"
    by (rule resolveAllocations_checked) (auto simp: sale_payment_payload_def)
  have as1: "as = [\<lparr>ai_type = R_SALE, ai_id = i, ai_amount = cp_amount p\<rparr>]"
    using assms(2) by (simp add: d(2) buildRequestedAllocations_def sale_payment_payload_def)
  then obtain a where a: "rows = [a]" "row_of (fe_money (sv_fin env)) (pm_id row) \<lparr>ai_type = R_SALE, ai_id = i, ai_amount = cp_amount p\<rparr> a"
    using rows by (auto simp: list_all2_Cons1)
  have p: "cr_amount (sale_payment_payload (fx_pos c) i p) = cp_amount p" by (simp add: sale_payment_payload_def)
  have row': "pm_tenantId row = t" "pm_in row" "pm_status row = PAY_COMPLETED" "pm_referenceType row = R_SALE" "pm_referenceId row = i"
    "pm_methodId row = cp_methodId p"
    by (subst row, simp add: new_payment_def sale_payment_payload_def)+
  have "pays env (sc_tenantId (fx_pos c)) i p (row, a)"
    using a(2) money row' by (simp add: pays_def row_of_def p t)
  moreover have "aggregateAllocations as = as" by (simp add: as1 aggregateAllocations_def aggregate_step_def)
  then have "\<exists>e. resolveReferenceDocument t R_SALE i db = Inr e \<and> cp_amount p \<le> computeDueBefore e (sumAllocatedForReference t R_SALE i db)"
    using checked [of "\<lparr>ai_type = R_SALE, ai_id = i, ai_amount = cp_amount p\<rparr>"] by (auto simp: as1)
  then have "\<exists>d. find (is_document D_SALE i (sc_tenantId (fx_pos c))) (fd_documents db) = Some d \<and> cp_amount p \<le> computeDueBefore d
       (sumAllocatedForReference (sc_tenantId (fx_pos c)) R_SALE i db)"
    by (auto simp: resolveReferenceDocument_def findReferenceDocument_def t split: if_splits option.splits)
  moreover have "map figures (fd_documents db') = map figures (fd_documents db)" by (simp add: db' reconcile_settles)
  ultimately show thesis using that [of row a ms] new by (simp add: db' a(1) reconcile_settles)
qed

lemma paySale_effect:
  assumes "paySale env c i ps db = Inr db'" "\<forall>p\<in>set ps. 0 < cp_amount p"
  shows "\<exists>ras. list_all2 (pays env (sc_tenantId (fx_pos c)) i) ps ras \<and> fd_payments db' = fd_payments db @ map fst ras \<and>
    fd_allocations db' = fd_allocations db @ map snd ras \<and> distinct (map (pm_id \<circ> fst) ras) \<and>
    pm_id ` fst ` set ras \<inter> pm_id ` set (fd_payments db) = {} \<and> map figures (fd_documents db') = map figures (fd_documents db)"
  using assms
proof (induction ps arbitrary: db)
  case Nil
  then show ?case by (intro exI [of _ "[]"]) simp
next
  case (Cons p ps)
  from Cons.prems obtain db1 r where
    one: "createInternal (sv_fin env) (buildFinanceActor c) (sale_payment_payload (fx_pos c) i p) db = Inr (db1, r)" and
    rest: "paySale env c i ps db1 = Inr db'" and p: "0 < cp_amount p" by (auto simp: and_then_Inr)
  show ?case
    using one p
  proof (rule sale_payment_effect)
    fix row a ms
    assume e: "pays env (sc_tenantId (fx_pos c)) i p (row, a)" "pm_id row \<notin> pm_id ` set (fd_payments db)"
      "fd_payments db1 = fd_payments db @ [row]" "fd_allocations db1 = fd_allocations db @ [a]"
      "map figures (fd_documents db1) = map figures (fd_documents db)"
    from Cons.prems(2) have "\<forall>p\<in>set ps. 0 < cp_amount p" by simp
    from Cons.IH [OF rest this] obtain ras where "list_all2 (pays env (sc_tenantId (fx_pos c)) i) ps ras"
      "fd_payments db' = fd_payments db1 @ map fst ras" "fd_allocations db' = fd_allocations db1 @ map snd ras" "distinct (map (pm_id \<circ> fst) ras)"
      "pm_id ` fst ` set ras \<inter> pm_id ` set (fd_payments db1) = {}" "map figures (fd_documents db') = map figures (fd_documents db1)" by blast
    with e show ?thesis by (intro exI [of _ "(row, a) # ras"]) (auto simp: image_image comp_def)
  qed
qed

text \<open>What counts towards a sale that no earlier allocation names.\<close>

lemma new_sale_allocations:
  assumes old: "\<forall>a\<in>set (fd_allocations db). \<not> is_sale_allocation i a" and ras: "list_all2 (pays env t i) ps ras"
    and db': "fd_payments db' = fd_payments db @ map fst ras" "fd_allocations db' = fd_allocations db @ map snd ras"
    and new: "distinct (map (pm_id \<circ> fst) ras)" "pm_id ` fst ` set ras \<inter> pm_id ` set (fd_payments db) = {}"
  shows "filter (counts db' t {R_SALE} i) (fd_allocations db') = map snd ras" "signed_paid t i db' = sum_list (map (al_amount \<circ> snd) ras)"
    "map Some (map (al_amount \<circ> snd) ras) = map (fe_money (sv_fin env) \<circ> cp_amount) ps" "\<forall>ra\<in>set ras. 0 < al_amount (snd ra)"
proof -
  have row: "payment_of (snd ra) db' = Some (fst ra) \<and> live_payment t (fst ra) \<and> pm_in (fst ra) \<and> is_sale_allocation i (snd ra) \<and> 0 < al_amount (snd ra)"
    if ra: "ra \<in> set ras" for ra
  proof -
    obtain p where p: "pays env t i p ra" using ras ra by (metis list_all2_in)
    have id: "al_paymentId (snd ra) = pm_id (fst ra)" using p by (auto simp: pays_def split: prod.splits)
    have "find (\<lambda>q. pm_id q = pm_id (fst ra)) (fd_payments db) = None" using new(2) ra by (auto simp: find_None_iff)
    moreover have "find (\<lambda>q. pm_id q = pm_id (fst ra)) (map fst ras) = Some (fst ra)"
      using find_by_key [of pm_id "map fst ras" "fst ra"] new(1) ra by simp
    ultimately have "payment_of (snd ra) db' = Some (fst ra)" by (simp add: payment_of_def db'(1) id find_append)
    with p show ?thesis by (auto simp: pays_def live_payment_def is_sale_allocation_def split: prod.splits)
  qed
  have "filter (counts db' t {R_SALE} i) (fd_allocations db) = []" using old by (auto simp: filter_empty_conv counts_def is_sale_allocation_def)
  moreover have "filter (counts db' t {R_SALE} i) (map snd ras) = map snd ras"
    using row by (auto simp: counts_def is_sale_allocation_def filter_id_conv)
  ultimately show f: "filter (counts db' t {R_SALE} i) (fd_allocations db') = map snd ras" by (simp add: db'(2))
  have "map (\<lambda>a. case payment_of a db' of None \<Rightarrow> 0 | Some p \<Rightarrow> if pm_in p then al_amount a else - al_amount a) (map snd ras) = map al_amount (map snd ras)"
    using row by simp
  then show "signed_paid t i db' = sum_list (map (al_amount \<circ> snd) ras)" by (simp only: signed_paid_def f) (simp add: comp_def)
  show "map Some (map (al_amount \<circ> snd) ras) = map (fe_money (sv_fin env) \<circ> cp_amount) ps"
    using ras by (induction rule: list_all2_induct) (auto simp: pays_def)
  show "\<forall>ra\<in>set ras. 0 < al_amount (snd ra)" using row by blast
qed

subsection \<open>Items\<close>

text \<open>The items of the sale: rows of the sale whose subtotals the function adds up.\<close>

lemma sale_item_fields:
  assumes "sale_item env ctx i it q = Inr row"
  shows "si_id row = pi_saleItemId it \<and> si_saleId row = i \<and> si_tenantId row = sc_tenantId ctx \<and> si_productId row = pi_productId it \<and>
    si_quantity row = q \<and> 0 \<le> si_subtotal row \<and> si_snapshot row = pi_preview it \<and> si_orderItemId row = pi_orderItemId it \<and>
    fe_money (sv_fin env) (lp_lineTotal (pi_preview it)) = Some (si_subtotal row) \<and>
    fe_money (sv_fin env) (lp_finalUnitPrice (pi_preview it)) = Some (si_price row) \<and>
    fe_money (sv_fin env) (lp_taxAmount (pi_preview it)) = Some (si_taxTotal row)"
proof -
  have cast: "cast_money env x = Inr n \<longleftrightarrow> fe_money (sv_fin env) x = Some n" for x n
    by (auto simp: cast_money_def raise_def split: option.splits)
  have sign: "non_negative n m = Inr () \<longleftrightarrow> 0 \<le> n" for n m by (simp add: non_negative_def raise_def)
  show ?thesis using assms unfolding sale_item_def Let_def and_then_Inr by (elim exE conjE) (auto simp: cast sign)
qed

lemma sell_items_fresh:
  "sell_items env ctx i order its acc db = Inr (tot, db') \<Longrightarrow> x \<in> set (so_items db) \<Longrightarrow>
     (\<exists>rows. so_items db' = so_items db @ rows \<and> si_id x \<notin> si_id ` set rows)"
proof (induction its arbitrary: acc db)
  case (Cons it its)
  from Cons.prems(1) obtain amount db1 where
    one: "sell_item env ctx i order it db = Inr (amount, db1)" and rest: "sell_items env ctx i order its (acc + amount) db1 = Inr (tot, db')"
    by (rule sell_items_step)
  from one obtain row where row: "so_items db1 = so_items db @ [row]" "si_id row \<notin> si_id ` set (so_items db)"
    by (rule sell_item_shape) (rule that, simp_all)
  with Cons.IH [OF rest] Cons.prems(2) obtain rows where "so_items db' = so_items db1 @ rows" "si_id x \<notin> si_id ` set rows" by auto
  moreover have "si_id x \<noteq> si_id row" using row(2) Cons.prems(2) by (metis imageI)
  ultimately show ?case using row(1) by (intro exI [of _ "row # rows"]) simp
qed simp

lemma sell_items_rows:
  "sell_items env ctx i order its acc db = Inr (tot, db') \<Longrightarrow> acc < MONEY_12_2 \<Longrightarrow> so_fin db' = so_fin db \<and> so_sales db' = so_sales db \<and> tot < MONEY_12_2 \<and>
     (\<exists>rows. so_items db' = so_items db @ rows \<and> tot = acc + sum_list (map si_subtotal rows) \<and>
        (\<forall>row\<in>set rows. si_saleId row = i \<and> si_tenantId row = sc_tenantId ctx \<and> 0 \<le> si_subtotal row) \<and> distinct (map si_id rows) \<and>
        list_all2 (\<lambda>it row. si_id row = pi_saleItemId it \<and> si_productId row = pi_productId it \<and> si_snapshot row = pi_preview it \<and>
          fe_money (sv_fin env) (lp_lineTotal (pi_preview it)) = Some (si_subtotal row)) its rows)"
proof (induction its arbitrary: acc db)
  case Nil
  then show ?case by auto
next
  case (Cons it its)
  from Cons.prems(1) obtain amount db1 where
    one: "sell_item env ctx i order it db = Inr (amount, db1)" and lim: "acc + amount < MONEY_12_2" and
    rest: "sell_items env ctx i order its (acc + amount) db1 = Inr (tot, db')"
    by (rule sell_items_step)
  show ?case
    using one
  proof (rule sell_item_shape)
    fix q p row ts m inv
    assume row: "sale_item env ctx i (it\<lparr>pi_orderItemId := not_blank (pi_orderItemId it)\<rparr>) q = Inr row" "amount = si_subtotal row"
      and db1: "db1 = advance_order order (not_blank (pi_orderItemId it)) q (db\<lparr>so_items := so_items db @ [row], so_taxes := so_taxes db @ ts, so_inv := inv\<rparr>)"
    note f = sale_item_fields [OF row(1)]
    from Cons.IH [OF rest lim] obtain rows where
      r: "so_items db' = so_items db1 @ rows" "tot = acc + amount + sum_list (map si_subtotal rows)" "distinct (map si_id rows)"
        "\<forall>row\<in>set rows. si_saleId row = i \<and> si_tenantId row = sc_tenantId ctx \<and> 0 \<le> si_subtotal row"
        "list_all2 (\<lambda>it row. si_id row = pi_saleItemId it \<and> si_productId row = pi_productId it \<and> si_snapshot row = pi_preview it \<and>
          fe_money (sv_fin env) (lp_lineTotal (pi_preview it)) = Some (si_subtotal row)) its rows"
      and o': "so_fin db' = so_fin db1" "so_sales db' = so_sales db1" "tot < MONEY_12_2" by auto
    have "si_id row \<notin> si_id ` set rows" using sell_items_fresh [OF rest, of row] by (auto simp: db1 r(1))
    with r o' f row(2) show ?case by (intro conjI exI [of _ "row # rows"]) (simp_all add: db1)
  qed
qed

subsection \<open>The row of the sale\<close>

lemma legacy_methods:
  "buildLegacySalePaymentMethods t ps db = Inr ms \<Longrightarrow> list_all2 (\<lambda>p m. lm_amount m = cp_amount p) ps ms"
proof (induction ps arbitrary: ms)
  case (Cons p ps)
  then show ?case by (auto simp: and_then_Inr Let_def split: option.splits if_splits)
qed simp

lemma method_total:
  assumes "list_all2 (\<lambda>p m. lm_amount m = cp_amount p) ps ms"
    "list_all2 (\<lambda>m r. col (lm_amount m) = Some (sm_amount r) \<and> 0 < sm_amount r) ms rows" "list_all2 (pays env t i) ps ras"
    "col = fe_money (sv_fin env)"
  shows "map sm_amount rows = map (al_amount \<circ> snd) ras"
  using assms
proof (induction ps ms arbitrary: rows ras rule: list_all2_induct)
  case (Cons p ps m ms)
  then show ?case by (auto simp: list_all2_Cons1 pays_def)
qed simp

lemma find_document_update:
  "(\<And>d. identity (f d) = identity d) \<Longrightarrow> find (is_document k i t) (update_where Q f ds) =
     map_option (\<lambda>d. if Q d then f d else d) (find (is_document k i t) ds)"
  by (rule find_updated) (rule is_document_identity)

lemma sync_sale_documents:
  "fd_documents (syncSaleFinancialState i t db) = update_where (is_document D_SALE i t) (\<lambda>d. d\<lparr>dc_totalPaid := signed_paid t i db,
     dc_balanceDue := Some (if dc_cash d then 0 else max (dc_total d - signed_paid t i db) 0),
     dc_balance := Some (if dc_cash d then 0 else max (dc_total d - signed_paid t i db) 0),
     dc_paymentStatus := payment_state (signed_paid t i db) (dc_total d)\<rparr>) (fd_documents db)"
  by (simp add: syncSaleFinancialState_def Let_def)

lemma status_documents:
  "fd_documents (so_fin (updateSaleStatus i t s (db\<lparr>so_fin := fin\<rparr>))) =
     update_where (is_document D_SALE i t) (\<lambda>d. d\<lparr>dc_status := s\<rparr>) (fd_documents fin)"
  by (simp add: updateSaleStatus_def)

text \<open>What the stored function leaves: the draft of the sale, with its total.\<close>

lemma find_sale_order:
  assumes "find (is_document D_SALE i t) ds = Some d"
  shows "find (is_document D_SALE i t) (update_where (is_document D_ORDER j u) (\<lambda>d. d\<lparr>dc_status := s\<rparr>) ds) = Some d"
  using assms find_in [OF assms] by (subst find_updated) (auto simp: is_document_def)

lemma created_row:
  assumes "inventory_create_sale_v2 env ctx customer order type items methods db = Inr (i, db')"
  obtains rows acc payments d and ms :: "sale_method_row list" where "so_items db' = so_items db @ rows" "acc = sum_list (map si_subtotal rows)" "0 \<le> acc" "acc < MONEY_12_2"
    "\<forall>row\<in>set rows. si_saleId row = i \<and> si_tenantId row = sc_tenantId ctx"
    "list_all2 (\<lambda>it row. si_id row = pi_saleItemId it \<and> si_productId row = pi_productId it \<and> si_snapshot row = pi_preview it \<and>
          fe_money (sv_fin env) (lp_lineTotal (pi_preview it)) = Some (si_subtotal row)) items rows"
    "list_all2 (\<lambda>m r. fe_money (sv_fin env) (lm_amount m) = Some (sm_amount r) \<and> 0 < sm_amount r) methods ms"
    "payments = sum_list (map sm_amount ms)" "type = ''CASH'' \<longrightarrow> methods \<noteq> [] \<and> payments = acc"
    "\<forall>d\<in>set (fd_documents (so_fin db)). dc_kind d = D_SALE \<longrightarrow> dc_id d \<noteq> i" "findSale i (sc_tenantId ctx) db' = Some d"
    "d = (sale_document ctx i customer order type)\<lparr>dc_total := acc, dc_balance := Some (due_of type acc payments),
       dc_totalPaid := paid_of type acc payments, dc_balanceDue := Some (due_of type acc payments),
       dc_paymentStatus := payment_state (paid_of type acc payments) acc\<rparr>"
    "fd_payments (so_fin db') = fd_payments (so_fin db)" "fd_allocations (so_fin db') = fd_allocations (so_fin db)"
  using assms
proof (rule create_function_shape)
  fix acc payments and db1 db2 db3 :: sale_db
  let ?t = "sc_tenantId ctx" and ?paid = "paid_of type acc payments" and ?due = "due_of type acc payments"
  let ?s = "settle_sale i ?t acc ?paid ?due db3"
  assume ins: "insert_sale env ctx i customer order type db = Inr db1" and sell: "sell_items env ctx i order items 0 db1 = Inr (acc, db2)"
    and meth: "insert_methods env ?t i methods 0 db2 = Inr (payments, db3)" and cash: "type = ''CASH'' \<longrightarrow> methods \<noteq> [] \<and> payments = acc"
    and db': "db' = (case order of None \<Rightarrow> ?s | Some o' \<Rightarrow> refreshOrderStatus o' ?t ?s)"
  have none: "\<forall>d\<in>set (fd_documents (so_fin db)). dc_kind d = D_SALE \<longrightarrow> dc_id d \<noteq> i" and ins': "so_items db1 = so_items db"
    "so_fin db1 = (so_fin db)\<lparr>fd_documents := fd_documents (so_fin db) @ [sale_document ctx i customer order type]\<rparr>"
    by (rule insert_sale_shape [OF ins], simp)+
  have "(0 :: int) < MONEY_12_2" by (simp add: MONEY_12_2_def)
  from sell_items_rows [OF sell this] obtain rows where rows: "so_items db2 = so_items db1 @ rows" "acc = sum_list (map si_subtotal rows)"
    "\<forall>row\<in>set rows. si_saleId row = i \<and> si_tenantId row = ?t \<and> 0 \<le> si_subtotal row"
    "list_all2 (\<lambda>it row. si_id row = pi_saleItemId it \<and> si_productId row = pi_productId it \<and> si_snapshot row = pi_preview it \<and>
          fe_money (sv_fin env) (lp_lineTotal (pi_preview it)) = Some (si_subtotal row)) items rows"
    and fin2: "so_fin db2 = so_fin db1" and lim: "acc < MONEY_12_2" by auto
  from insert_methods_shape [OF meth] obtain ms where ms: "db3 = db2\<lparr>so_methods := so_methods db2 @ ms\<rparr>" "payments = sum_list (map sm_amount ms)"
    "list_all2 (\<lambda>m r. fe_money (sv_fin env) (lm_amount m) = Some (sm_amount r) \<and> 0 < sm_amount r) methods ms" by auto
  have fin3: "so_fin db3 = so_fin db1" and items3: "so_items db3 = so_items db @ rows" by (simp_all add: ms(1) fin2 rows(1) ins'(1))
  let ?d = "(sale_document ctx i customer order type)\<lparr>dc_total := acc, dc_balance := Some ?due, dc_totalPaid := ?paid,
       dc_balanceDue := Some ?due, dc_paymentStatus := payment_state ?paid acc\<rparr>"
  have "find (is_document D_SALE i ?t) (fd_documents (so_fin db1)) = Some (sale_document ctx i customer order type)"
  proof -
    have "find (is_document D_SALE i ?t) (fd_documents (so_fin db)) = None" using none by (auto simp: find_None_iff is_document_def)
    then show ?thesis by (simp add: ins'(2) find_append) (simp add: is_document_def sale_document_def)
  qed
  then have s: "findSale i ?t ?s = Some ?d"
    by (simp add: findSale_def settle_sale_def fin3, subst find_updated) (simp_all add: is_document_def [abs_def] sale_document_def)
  have d: "findSale i ?t db' = Some ?d"
  proof (cases order)
    case (Some o')
    then show ?thesis using find_sale_order [OF s [unfolded findSale_def]]
      by (simp add: db' findSale_def refreshOrderStatus_def)
  qed (simp add: db' s)
  have "so_items db' = so_items db @ rows" "fd_payments (so_fin db') = fd_payments (so_fin db)" "fd_allocations (so_fin db') = fd_allocations (so_fin db)"
    by (cases order; simp add: db' settle_sale_def refreshOrderStatus_def items3 fin3 ins'(2))+
  moreover have "0 \<le> acc" unfolding rows(2) by (rule sum_list_nonneg) (use rows(3) in auto)
  moreover have "\<forall>row\<in>set rows. si_saleId row = i \<and> si_tenantId row = ?t" using rows(3) by blast
  ultimately show thesis
    using that [OF _ rows(2) _ lim _ rows(4) ms(3,2) cash none d refl] by blast
qed

text \<open>Every allocation to a sale, and every item, names a sale that exists.\<close>

definition is_sale :: "string \<Rightarrow> sale_db \<Rightarrow> bool" where
  "is_sale i db \<longleftrightarrow> (\<exists>d\<in>set (fd_documents (so_fin db)). dc_kind d = D_SALE \<and> dc_id d = i)"

definition sale_refs :: "sale_db \<Rightarrow> bool" where
  "sale_refs db \<longleftrightarrow> (\<forall>a\<in>set (fd_allocations (so_fin db)). al_referenceType a = R_SALE \<longrightarrow> is_sale (al_referenceId a) db) \<and>
     (\<forall>x\<in>set (so_items db). is_sale (si_saleId x) db)"

lemma is_sale_grows: "grows db db' \<Longrightarrow> is_sale i db \<Longrightarrow> is_sale i db'"
proof -
  assume g: "grows db db'" and s: "is_sale i db"
  obtain ds where "map identity (fd_documents (so_fin db')) = map identity (fd_documents (so_fin db)) @ ds"
    using g by (auto simp: grows_def fin_grows_def drawer_def)
  then have "identity ` set (fd_documents (so_fin db)) \<subseteq> identity ` set (fd_documents (so_fin db'))"
    by (metis Un_upper1 list.set_map set_append)
  with s show "is_sale i db'" unfolding is_sale_def by (fastforce simp: identity_def)
qed

lemma new_sale_ledger:
  assumes "write_sale env c r lines db = Inr (i, db')" "sale_refs db"
  obtains payments ras rows acc d draft and items :: "priced_item list" where "normalizePayments (rq_payments r) = Inr payments"
    "list_all2 (pays env (sc_tenantId (fx_pos c)) i) payments ras" "rq_type r = ''CASH'' \<longrightarrow> payments \<noteq> []"
    "filter (counts (so_fin db') (sc_tenantId (fx_pos c)) {R_SALE} i) (fd_allocations (so_fin db')) = map snd ras"
    "fd_allocations (so_fin db') = fd_allocations (so_fin db) @ map snd ras" "\<forall>ra\<in>set ras. 0 < al_amount (snd ra)"
    "so_items db' = so_items db @ rows" "acc = sum_list (map si_subtotal rows)" "0 \<le> acc" "acc < MONEY_12_2"
    "\<forall>row\<in>set rows. si_saleId row = i \<and> si_tenantId row = sc_tenantId (fx_pos c)"
    "list_all2 (\<lambda>it row. si_id row = pi_saleItemId it \<and> si_productId row = pi_productId it \<and> si_snapshot row = pi_preview it \<and>
          fe_money (sv_fin env) (lp_lineTotal (pi_preview it)) = Some (si_subtotal row)) items rows"
    "rq_type r = ''CASH'' \<longrightarrow> sum_list (map (al_amount \<circ> snd) ras) = acc" "\<not> is_sale i db"
    "findSale i (sc_tenantId (fx_pos c)) db' = Some d" "dc_total d = acc" "dc_cash d = (rq_type r = ''CASH'')"
    "dc_branchId d = Some (sc_branchId (fx_pos c))" "dc_totalPaid d = sum_list (map (al_amount \<circ> snd) ras)" "dc_status d = ''CONFIRMED''"
    "dc_paymentStatus d = payment_state (dc_totalPaid d) acc"
    "dc_balanceDue d = Some (if dc_cash d then 0 else max (acc - dc_totalPaid d) 0)"
    "find (is_document D_SALE i (sc_tenantId (fx_pos c))) (fd_documents draft) = Some ((sale_document (fx_pos c) i (rq_customerId r) (rq_orderId r) (rq_type r))
       \<lparr>dc_total := acc, dc_balance := Some (due_of (rq_type r) acc (dc_totalPaid d)), dc_totalPaid := paid_of (rq_type r) acc (dc_totalPaid d),
         dc_balanceDue := Some (due_of (rq_type r) acc (dc_totalPaid d)),
         dc_paymentStatus := payment_state (paid_of (rq_type r) acc (dc_totalPaid d)) acc\<rparr>)"
    "allocated (sc_tenantId (fx_pos c)) {R_SALE} i draft = 0" "\<exists>fin. paySale env c i payments draft = Inr fin"
  using assms(1)
proof (rule write_sale_shape)
  fix payments prepared captures items methods scale fin box and db1 :: sale_db
  let ?t = "sc_tenantId (fx_pos c)"
  assume pay: "normalizePayments (rq_payments r) = Inr payments" and meth: "buildLegacySalePaymentMethods ?t payments db = Inr methods"
    and made: "inventory_create_sale_v2 env (fx_pos c) (rq_customerId r) (rq_orderId r) (rq_type r) items methods db = Inr (i, db1)"
    and paid: "paySale env c i payments (so_fin db1) = Inr fin"
    and db': "db' = (linkOrderDeliveryToSale ?t (rq_orderId r) i (sc_userId (fx_pos c)) (finalizeSale i ?t
      ((set_cash_session (sale_cash_session c payments) i ?t (db1\<lparr>so_scale := scale\<rparr>))\<lparr>so_fin := fin\<rparr>)))\<lparr>so_outbox := box\<rparr>"
  show thesis
    using made
  proof (rule created_row)
    fix rows acc tot d1 and ms :: "sale_method_row list"
    assume rows: "so_items db1 = so_items db @ rows" "acc = sum_list (map si_subtotal rows)" "0 \<le> acc" "acc < MONEY_12_2"
        "\<forall>row\<in>set rows. si_saleId row = i \<and> si_tenantId row = ?t"
      and items: "list_all2 (\<lambda>it row. si_id row = pi_saleItemId it \<and> si_productId row = pi_productId it \<and> si_snapshot row = pi_preview it \<and>
          fe_money (sv_fin env) (lp_lineTotal (pi_preview it)) = Some (si_subtotal row)) items rows"
      and ms: "list_all2 (\<lambda>m r. fe_money (sv_fin env) (lm_amount m) = Some (sm_amount r) \<and> 0 < sm_amount r) methods ms"
        "tot = sum_list (map sm_amount ms)" "rq_type r = ''CASH'' \<longrightarrow> methods \<noteq> [] \<and> tot = acc"
      and new: "\<forall>d\<in>set (fd_documents (so_fin db)). dc_kind d = D_SALE \<longrightarrow> dc_id d \<noteq> i"
      and d1: "findSale i ?t db1 = Some d1"
        "d1 = (sale_document (fx_pos c) i (rq_customerId r) (rq_orderId r) (rq_type r))\<lparr>dc_total := acc, dc_balance := Some (due_of (rq_type r) acc tot),
          dc_totalPaid := paid_of (rq_type r) acc tot, dc_balanceDue := Some (due_of (rq_type r) acc tot),
          dc_paymentStatus := payment_state (paid_of (rq_type r) acc tot) acc\<rparr>"
      and same: "fd_payments (so_fin db1) = fd_payments (so_fin db)" "fd_allocations (so_fin db1) = fd_allocations (so_fin db)"
    have positive: "\<forall>p\<in>set payments. 0 < cp_amount p" using normalizePayments_positive [OF pay] by (auto dest: list_all2_in)
    from paySale_effect [OF paid positive] obtain ras where ras: "list_all2 (pays env ?t i) payments ras"
      "fd_payments fin = fd_payments (so_fin db1) @ map fst ras" "fd_allocations fin = fd_allocations (so_fin db1) @ map snd ras"
      "distinct (map (pm_id \<circ> fst) ras)" "pm_id ` fst ` set ras \<inter> pm_id ` set (fd_payments (so_fin db1)) = {}"
      "map figures (fd_documents fin) = map figures (fd_documents (so_fin db1))" by blast
    have "\<not> is_sale i db" using new by (auto simp: is_sale_def)
    then have old: "\<forall>a\<in>set (fd_allocations (so_fin db1)). \<not> is_sale_allocation i a"
      using assms(2) by (auto simp: same sale_refs_def is_sale_allocation_def)
    note al = new_sale_allocations [OF old ras(1-5)]
    have zero: "allocated ?t {R_SALE} i (so_fin db1) = 0"
    proof -
      have "filter (counts (so_fin db1) ?t {R_SALE} i) (fd_allocations (so_fin db1)) = []"
        using old by (auto simp: filter_empty_conv counts_def is_sale_allocation_def)
      then show ?thesis by (simp add: allocated_def)
    qed
    have tot: "tot = sum_list (map (al_amount \<circ> snd) ras)"
      unfolding ms(2) method_total [OF legacy_methods [OF meth] ms(1) ras(1) refl] ..
    from find_figures [OF ras(6) d1(1) [unfolded findSale_def]] obtain d2 where
      d2: "find (is_document D_SALE i ?t) (fd_documents fin) = Some d2" "figures d2 = figures d1" by blast
    define d where "d = d2\<lparr>dc_totalPaid := tot, dc_balanceDue := Some (if dc_cash d2 then 0 else max (dc_total d2 - tot) 0),
      dc_balance := Some (if dc_cash d2 then 0 else max (dc_total d2 - tot) 0), dc_paymentStatus := payment_state tot (dc_total d2), dc_status := ''CONFIRMED''\<rparr>"
    have fin': "so_fin db' = so_fin (updateSaleStatus i ?t ''CONFIRMED'' (db1\<lparr>so_fin := syncSaleFinancialState i ?t fin\<rparr>))"
      by (simp add: db' linkOrderDeliveryToSale_def finalizeSale_def updateSaleStatus_def)
    have "is_document D_SALE i ?t d2" using find_in [OF d2(1)] by simp
    moreover from this have "find (is_document D_SALE i ?t) (fd_documents (syncSaleFinancialState i ?t fin)) =
        Some (d2\<lparr>dc_totalPaid := tot, dc_balanceDue := Some (if dc_cash d2 then 0 else max (dc_total d2 - tot) 0),
          dc_balance := Some (if dc_cash d2 then 0 else max (dc_total d2 - tot) 0), dc_paymentStatus := payment_state tot (dc_total d2)\<rparr>)"
      unfolding sync_sale_documents al(2) tot [symmetric] by (subst find_document_update) (simp_all add: d2(1))
    ultimately have d: "findSale i ?t db' = Some d"
      unfolding findSale_def fin' status_documents d_def
      by (subst find_document_update) (simp_all add: is_document_def)
    have "fd_payments (so_fin db') = fd_payments fin" and same': "fd_allocations (so_fin db') = fd_allocations fin"
      by (simp_all add: fin' updateSaleStatus_def syncSaleFinancialState_def Let_def)
    then have "counts (so_fin db') = counts fin" by (intro counts_cong)
    then have counted: "filter (counts (so_fin db') ?t {R_SALE} i) (fd_allocations (so_fin db')) = map snd ras"
      and allocs: "fd_allocations (so_fin db') = fd_allocations (so_fin db) @ map snd ras" using al(1) ras(3) by (simp_all add: same same')
    have items': "so_items db' = so_items db @ rows"
      by (simp add: db' linkOrderDeliveryToSale_def finalizeSale_def updateSaleStatus_def set_cash_session_def rows(1))
    have branch: "dc_branchId d = Some (sc_branchId (fx_pos c))"
      using d2(2) by (simp add: d_def d1(2) figures_def identity_def sale_document_def)
    have fields: "dc_total d = acc" "dc_cash d = (rq_type r = ''CASH'')" "dc_totalPaid d = tot" "dc_status d = ''CONFIRMED''"
      "dc_paymentStatus d = payment_state tot acc" "dc_balanceDue d = Some (if dc_cash d then 0 else max (acc - tot) 0)"
      using d2(2) by (simp_all add: d_def d1(2) figures_def identity_def sale_document_def)
    have cash: "rq_type r = ''CASH'' \<longrightarrow> payments \<noteq> []" "rq_type r = ''CASH'' \<longrightarrow> tot = acc"
      using ms(3) legacy_methods [OF meth] by auto
    have tp: "dc_totalPaid d = sum_list (map (al_amount \<circ> snd) ras)" using fields(3) tot by simp
    have cash': "rq_type r = ''CASH'' \<longrightarrow> sum_list (map (al_amount \<circ> snd) ras) = acc" using cash(2) tot by simp
    have state: "dc_paymentStatus d = payment_state (dc_totalPaid d) acc" using fields(3,5) by simp
    have due: "dc_balanceDue d = Some (if dc_cash d then 0 else max (acc - dc_totalPaid d) 0)" using fields(3,6) by simp
    have draft: "find (is_document D_SALE i ?t) (fd_documents (so_fin db1)) = Some ((sale_document (fx_pos c) i (rq_customerId r) (rq_orderId r) (rq_type r))
       \<lparr>dc_total := acc, dc_balance := Some (due_of (rq_type r) acc (dc_totalPaid d)), dc_totalPaid := paid_of (rq_type r) acc (dc_totalPaid d),
         dc_balanceDue := Some (due_of (rq_type r) acc (dc_totalPaid d)),
         dc_paymentStatus := payment_state (paid_of (rq_type r) acc (dc_totalPaid d)) acc\<rparr>)"
      using d1(1) unfolding findSale_def d1(2) fields(3) .
    show thesis
      by (rule that [OF pay ras(1) cash(1) counted allocs al(4) items' rows(2-5) items cash' \<open>\<not> is_sale i db\<close> d fields(1,2) branch tp fields(4) state due draft zero])
        (use paid in blast)
  qed
qed

end
