(* ===== verification/Sale_Facts.thy ===== *)
theory Sale_Facts
  imports Sale_Ledger
begin

section \<open>What creating sales guarantees\<close>

text \<open>
  The properties of \<open>createSale\<close>: a key names one sale, whatever happens between two requests with
  it; a committed sale is settled by its payments; the prices of a request are not used; stock is
  never sold below zero and the lots of a movement add up to it.
\<close>

subsection \<open>One sale for a key\<close>

lemma normalizeSaleContext_grows: "grows db db' \<Longrightarrow> normalizeSaleContext c db' = normalizeSaleContext c db"
  by (simp add: normalizeSaleContext_def findCurrentPosContext_def grows_def)

lemma session_grows: "grows db db' \<Longrightarrow> validateActivePosSession (so_scale db') c = validateActivePosSession (so_scale db) c"
  by (simp add: validateActivePosSession_def grows_def)

lemma scope_grows: "grows db db' \<Longrightarrow> resolveSaleScope a t b db' = resolveSaleScope a t b db"
  by (simp add: resolveSaleScope_def resolveAllowedBranchIds_def findAccessibleBranchIds_def grows_def)

lemma getSaleById_grows:
  assumes "getSaleById i a db = Inr v" "grows db db'"
  obtains v' where "getSaleById i a db' = Inr v'" "dc_id (vw_sale v') = dc_id (vw_sale v)"
proof -
  from assms(1) obtain d where d: "truthy (bs_tenantId a)" "findSale i (the (bs_tenantId a)) db = Some d"
    "resolveSaleScope a (bs_tenantId a) (dc_branchId d) db = Inr ()" "v = read_sale i (the (bs_tenantId a)) d db"
    by (auto simp: getSaleById_def and_then_Inr split: if_splits option.splits)
  from d(2) obtain d' where d': "findSale i (the (bs_tenantId a)) db' = Some d'" "identity d' = identity d"
    using assms(2) unfolding grows_def findSale_def by (metis find_document_grows)
  then have "dc_branchId d' = dc_branchId d" "dc_id d' = dc_id d" by (simp_all add: identity_def)
  then have "getSaleById i a db' = Inr (read_sale i (the (bs_tenantId a)) d' db')"
    using d d' scope_grows [OF assms(2)] by (simp add: getSaleById_def)
  moreover have "dc_id (vw_sale (read_sale i (the (bs_tenantId a)) d' db')) = dc_id (vw_sale v)"
    using \<open>dc_id d' = dc_id d\<close> by (simp add: d(4) read_sale_def Let_def)
  ultimately show thesis by (rule that)
qed

lemma getSaleById_id: "getSaleById i a db = Inr v \<Longrightarrow> dc_id (vw_sale v) = i"
  by (auto simp: getSaleById_def and_then_Inr read_sale_def Let_def findSale_def is_document_def dest!: find_in split: if_splits option.splits)

text \<open>What a request does when its key has a sale already.\<close>

lemma settled_key_request:
  assumes key: "settled_key (sc_tenantId (fx_pos c)) k hash i db" and c: "normalizeSaleContext ctx db = Inr c"
    and s: "validateActivePosSession (so_scale db) (fx_pos c)" and k: "normalizeSaleIdempotencyKey header = Inr (Some k)"
  shows "buildSaleIdempotencyHash (sv_text env) r c \<noteq> hash \<Longrightarrow> \<exists>e. createSale env r ctx header db = (Inl e, db)"
    "buildSaleIdempotencyHash (sv_text env) r c = hash \<Longrightarrow> i \<noteq> [] \<Longrightarrow> ensureSaleInput r = Inr lines \<Longrightarrow>
       createSale env r ctx header db = (getSaleById i (context_actor c) db, db)"
proof -
  from key obtain row where row: "find (is_key (sc_tenantId (fx_pos c)) k) (so_keys db) = Some row" "ky_hash row = hash" "ky_saleId row = Some i"
    by (auto simp: settled_key_def)
  note claim = claim_key_def reserveSaleCreationIdempotency_def row
  show "\<exists>e. createSale env r ctx header db = (Inl e, db)" if "buildSaleIdempotencyHash (sv_text env) r c \<noteq> hash"
    using that c s k by (cases "ensureSaleInput r") (auto simp: createSale_def sale_transaction_def Let_def claim)
  show "createSale env r ctx header db = (getSaleById i (context_actor c) db, db)"
    if "buildSaleIdempotencyHash (sv_text env) r c = hash" "i \<noteq> []" "ensureSaleInput r = Inr lines"
    using that c s k by (cases i) (simp_all add: createSale_def sale_transaction_def Let_def claim)
qed

lemma sale_transaction_session:
  assumes "sale_transaction env c r lines key db = Inr (i, db')" shows "validateActivePosSession (so_scale db) (fx_pos c)"
  using assms by (auto simp: sale_transaction_def Let_def and_then_Inr)

text \<open>
  Property C1: an idempotency key names one sale. When a request with a key was answered with a
  sale, then after any requests that create and cancel sales, repeating it answers the same sale and
  writes nothing, whatever the time, the prices and the stock are now; a request with the same key
  and another content is refused and writes nothing.
\<close>

theorem sale_created_once:
  assumes "createSale env r ctx header db = (Inr v, db1)" "normalizeSaleIdempotencyKey header = Inr (Some k)"
    "dc_id (vw_sale v) \<noteq> []" "normalizeSaleContext ctx db = Inr c" "sv_text env' = sv_text env"
  shows "(\<exists>v'. createSale env' r ctx header (run_sales ops db1) = (Inr v', run_sales ops db1) \<and> dc_id (vw_sale v') = dc_id (vw_sale v)) \<and>
    (buildSaleIdempotencyHash (sv_text env') r' c \<noteq> buildSaleIdempotencyHash (sv_text env) r c \<longrightarrow>
      (\<exists>e. createSale env' r' ctx header (run_sales ops db1) = (Inl e, run_sales ops db1)))"
  using assms(1)
proof (cases rule: createSale_cases)
  case (committed c' lines key i)
  let ?db = "run_sales ops db1" and ?hash = "buildSaleIdempotencyHash (sv_text env) r c"
  have c: "c' = c" "key = Some k" using committed(1,3) assms(2,4) by simp_all
  note tr = committed(4) [unfolded c]
  have g: "grows db1 ?db" "grows db ?db" using sale_transaction_grows [OF tr] run_sales_grows grows_trans by blast+
  have i: "dc_id (vw_sale v) = i" using committed(5) by (metis getSaleById_id)
  have key: "settled_key (sc_tenantId (fx_pos c)) k ?hash i ?db" using keyed_sale_settles [OF tr] settled_key_grows [OF g(1)] by blast
  have ctx: "normalizeSaleContext ctx ?db = Inr c" using assms(4) normalizeSaleContext_grows [OF g(2)] by simp
  have session: "validateActivePosSession (so_scale ?db) (fx_pos c)" using sale_transaction_session [OF tr] session_grows [OF g(2)] by simp
  note again = settled_key_request [OF key ctx session assms(2)]
  obtain v' where v': "getSaleById i (context_actor c) ?db = Inr v'" "dc_id (vw_sale v') = dc_id (vw_sale v)"
    using getSaleById_grows [OF committed(5) [symmetric, unfolded c] g(1)] by blast
  have "createSale env' r ctx header ?db = (Inr v', ?db)"
    using again(2) [of env' r lines] committed(2) assms(3,5) i v'(1) by simp
  with v'(2) again(1) [of env' r'] assms(5) show ?thesis by auto
qed simp

subsection \<open>A committed sale is settled\<close>

lemma sum_list_sort: "sum_list (map f (sort_key k xs)) = (sum_list (map f xs) :: int)"
proof -
  have "mset (map f (sort_key k xs)) = mset (map f xs)" by simp
  then show ?thesis by (metis sum_mset_sum_list)
qed

lemma sale_refs_keys [simp]: "sale_refs (db\<lparr>so_keys := ks\<rparr>) = sale_refs db" "is_sale i (db\<lparr>so_keys := ks\<rparr>) = is_sale i db"
  by (simp_all add: sale_refs_def is_sale_def)

lemma findSale_is_sale: "findSale i t db = Some d \<Longrightarrow> is_sale i db"
  by (auto simp: findSale_def is_sale_def is_document_def dest!: find_in)

lemma read_sale_sale [simp]: "vw_sale (read_sale i t d db) = d"
  by (simp add: read_sale_def Let_def)

text \<open>A request that made a new sale wrote it, up to the rows of idempotency keys.\<close>

lemma new_sale_written:
  assumes "createSale env r ctx header db = (Inr v, db')" "\<not> is_sale (dc_id (vw_sale v)) db"
  obtains c lines ks ks' db2 where "write_sale env c r lines (db\<lparr>so_keys := ks\<rparr>) = Inr (dc_id (vw_sale v), db2)" "db' = db2\<lparr>so_keys := ks'\<rparr>"
    "getSaleById (dc_id (vw_sale v)) (context_actor c) db' = Inr v" "normalizeSaleContext ctx db = Inr c" "ensureSaleInput r = Inr lines"
  using assms(1)
proof (cases rule: createSale_cases)
  case (committed c lines key i)
  have i: "dc_id (vw_sale v) = i" using committed(5) by (metis getSaleById_id)
  from committed(4) show thesis
  proof (cases rule: sale_transaction_cases)
    case (replay k)
    from committed(5) have "is_sale i db'" by (auto simp: getSaleById_def and_then_Inr dest: findSale_is_sale split: if_splits option.splits)
    then show thesis using assms(2) i replay(3) by simp
  next
    case plain
    then show thesis using that [of c lines "so_keys db" db' "so_keys db'"] committed(1,2,5) i by simp
  next
    case (keyed k row db1 db2)
    then show thesis
      using that [of c lines "so_keys db @ [row]" db2 "so_keys db'"] committed(1,2,5) i complete_shape [OF keyed(6)] by simp
  qed
qed simp

text \<open>
  Property C2: a new sale is settled by its payments. The subtotals of its items add up to its total
  and the allocations of its payments to what is paid of it, one for each payment of the request; a
  cash sale is paid exactly, and every allocation and item still names a sale that exists.
\<close>

theorem new_sale_settled:
  assumes "createSale env r ctx header db = (Inr v, db')" "\<not> is_sale (dc_id (vw_sale v)) db" "sale_refs db"
  shows "dc_status (vw_sale v) = ''CONFIRMED'' \<and> sum_list (map si_subtotal (vw_items v)) = dc_total (vw_sale v) \<and>
    sum_list (map al_amount (vw_payments v)) = dc_totalPaid (vw_sale v) \<and> length (vw_payments v) = length (rq_payments r) \<and>
    dc_paymentStatus (vw_sale v) = payment_state (dc_totalPaid (vw_sale v)) (dc_total (vw_sale v)) \<and>
    (rq_type r = ''CASH'' \<longrightarrow> dc_totalPaid (vw_sale v) = dc_total (vw_sale v) \<and> 0 < dc_total (vw_sale v)) \<and> sale_refs db'"
  using assms(1,2)
proof (rule new_sale_written)
  fix c :: full_context and db2 :: sale_db and lines ks ks'
  let ?i = "dc_id (vw_sale v)" and ?t = "sc_tenantId (fx_pos c)"
  assume w: "write_sale env c r lines (db\<lparr>so_keys := ks\<rparr>) = Inr (?i, db2)" and db': "db' = db2\<lparr>so_keys := ks'\<rparr>"
    and v: "getSaleById ?i (context_actor c) db' = Inr v"
  have refs: "sale_refs (db\<lparr>so_keys := ks\<rparr>)" using assms(3) by simp
  from w refs show ?thesis
  proof (rule new_sale_ledger)
    fix payments ras rows acc d draft and items :: "priced_item list"
    assume p: "normalizePayments (rq_payments r) = Inr payments" "list_all2 (pays env ?t ?i) payments ras" "rq_type r = ''CASH'' \<longrightarrow> payments \<noteq> []"
      and counted: "filter (counts (so_fin db2) ?t {R_SALE} ?i) (fd_allocations (so_fin db2)) = map snd ras"
      and allocs: "fd_allocations (so_fin db2) = fd_allocations (so_fin (db\<lparr>so_keys := ks\<rparr>)) @ map snd ras" and pos: "\<forall>ra\<in>set ras. 0 < al_amount (snd ra)"
      and rows: "so_items db2 = so_items (db\<lparr>so_keys := ks\<rparr>) @ rows" "acc = sum_list (map si_subtotal rows)" "\<forall>row\<in>set rows. si_saleId row = ?i \<and> si_tenantId row = ?t"
      and cash: "rq_type r = ''CASH'' \<longrightarrow> sum_list (map (al_amount \<circ> snd) ras) = acc"
      and d: "findSale ?i ?t db2 = Some d" "dc_total d = acc" "dc_totalPaid d = sum_list (map (al_amount \<circ> snd) ras)" "dc_status d = ''CONFIRMED''"
        "dc_paymentStatus d = payment_state (dc_totalPaid d) acc"
    have t: "the (bs_tenantId (context_actor c)) = ?t" by (simp add: context_actor_def)
    have "findSale ?i ?t db' = Some d" using d(1) by (simp add: db' findSale_def)
    then have view: "v = read_sale ?i ?t d db'" using v by (auto simp: getSaleById_def t and_then_Inr split: if_splits)
    have items: "filter (\<lambda>x. si_saleId x = ?i \<and> si_tenantId x = ?t) (so_items db') = rows"
      using assms(2,3) rows(1,3) by (auto simp: db' sale_refs_def filter_empty_conv filter_id_conv)
    have "sum_list (map si_subtotal (vw_items v)) = acc"
      by (subst view) (simp add: read_sale_def Let_def sale_items_of_def items sum_list_sort rows(2))
    moreover have pay: "vw_payments v = sort_key al_createdAt (sort_key (\<lambda>a. code_units (al_id a)) (map snd ras))"
      by (subst view) (simp add: read_sale_def Let_def db' counted)
    then have "sum_list (map al_amount (vw_payments v)) = dc_totalPaid d" by (simp add: sum_list_sort d(3))
    moreover have "length (vw_payments v) = length (rq_payments r)"
      using list_all2_lengthD [OF p(2)] list_all2_lengthD [OF normalizePayments_positive [OF p(1)]] by (simp add: pay)
    moreover have "rq_type r = ''CASH'' \<longrightarrow> dc_totalPaid d = acc \<and> 0 < acc"
    proof
      assume type: "rq_type r = ''CASH''"
      with p(2,3) have "ras \<noteq> []" by auto
      then have "0 < sum_list (map (al_amount \<circ> snd) ras)" using pos
        by (cases ras) (auto intro!: add_pos_nonneg [OF _ sum_list_nonneg] less_imp_le)
      with cash type d(3) show "dc_totalPaid d = acc \<and> 0 < acc" by simp
    qed
    moreover have "vw_sale v = d" by (subst view) (simp add: read_sale_def Let_def)
    moreover have "sale_refs db'"
    proof -
      have kept: "is_sale j db \<Longrightarrow> is_sale j db'" for j
        using is_sale_grows [OF write_sale_grows [OF w]] by (simp add: db')
      have "is_sale ?i db'" using d(1) findSale_is_sale by (simp add: db')
      moreover have "al_referenceId (snd ra) = ?i" if "ra \<in> set ras" for ra
        using list_all2_in [OF p(2) that] by (cases ra) (auto simp: pays_def)
      then have "\<forall>a\<in>snd ` set ras. al_referenceId a = ?i" by simp
      ultimately show ?thesis using assms(3) rows(1,3) allocs kept by (auto simp: sale_refs_def db')
    qed
    ultimately show ?thesis using d(2,4,5) by simp
  qed
qed

subsection \<open>A credit sale with a first payment\<close>

text \<open>
  The stored function subtracts the payments of the request from the balance before they are
  registered, so that the registration of each finds only the rest.
\<close>

lemma credit_due:
  assumes col: "numeric_14_2 col" and q: "col v = Some n" "0 < v" "0 < n" and acc: "0 \<le> acc" "acc \<le> money_limit"
    and due: "v \<le> max 0 (min (cents (max (acc - min acc n) 0)) rest)"
  shows "2 * n \<le> acc"
proof -
  have v: "v \<le> cents (max (acc - min acc n) 0)" using due q(2) by auto
  then have "n < acc" using q(2) by (cases "n < acc") (auto simp: cents_def min_def)
  then have m: "max (acc - min acc n) 0 = acc - n" by simp
  have "\<bar>v - of_int n / 100\<bar> < 1 / 150" using col q(1) unfolding numeric_14_2_def by blast
  moreover have "\<bar>cents (acc - n) - of_int (acc - n) / 100\<bar> \<le> 1 / 65536" using acc \<open>n < acc\<close> q(3) by (intro cents_close) simp
  ultimately have "of_int n / 100 - 1 / 150 < of_int (acc - n) / 100 + (1 / 65536 :: rat)" using v unfolding m by linarith
  then have "(2 * of_int n :: rat) < of_int acc + 1" unfolding of_int_diff diff_divide_distrib by linarith
  then show ?thesis by linarith
qed


subsection \<open>The prices of a request\<close>

text \<open>A line without the price it carries.\<close>

fun unpriced :: "sale_line \<Rightarrow> sale_line" where
  "unpriced (UnitLine p q price o' explicit) = UnitLine p q 0 o' explicit"
| "unpriced (WeightLine p captureId nonce o') = WeightLine p captureId nonce o'"

definition unpriced_item :: "prepared_item \<Rightarrow> prepared_item" where
  "unpriced_item it = it\<lparr>pr_price := 0\<rparr>"

definition unpriced_items :: "(prepared_item list \<times> prepared_capture list) http \<Rightarrow> (prepared_item list \<times> prepared_capture list) http" where
  "unpriced_items v = and_then v (\<lambda>(its, ws). Inr (map unpriced_item its, ws))"

lemma prepareLine_unpriced:
  "and_then (prepareLine env ctx db n l) (\<lambda>(it, w). Inr (unpriced_item it, w)) = prepareLine env ctx db n (unpriced l)"
proof (cases l)
  case (UnitLine p q price o' explicit)
  then show ?thesis by (cases "findProduct (so_scale db) p (sc_tenantId ctx)") (simp_all add: prepareLine_def unpriced_item_def)
next
  case (WeightLine p captureId nonce o')
  let ?w = "prepareWeighedLine (sv_scale env) ctx (so_scale db)
     \<lparr>wl_productId = p, wl_captureId = captureId, wl_nonce = nonce, wl_saleItemId = fresh_item env n db\<rparr>"
  show ?thesis by (cases ?w) (simp_all add: prepareLine_def WeightLine unpriced_item_def)
qed

lemma prepare_unpriced:
  "unpriced_items (prepareSaleItemsForPricing env ctx db n ls) = prepareSaleItemsForPricing env ctx db n (map unpriced ls)"
proof (induction ls arbitrary: n)
  case (Cons l ls)
  show ?case
    by (cases "prepareLine env ctx db n l"; cases "prepareSaleItemsForPricing env ctx db (Suc n) ls")
      (auto simp: unpriced_items_def prepareLine_unpriced [symmetric] Cons.IH [symmetric])
qed (simp add: unpriced_items_def)

lemma price_item_unpriced: "price_item env ctx db (unpriced_item it) = price_item env ctx db it"
  by (simp add: price_item_def price_input_def unpriced_item_def)

lemma prices_unpriced: "calculatePricedPosItems env ctx db (map unpriced_item its) = calculatePricedPosItems env ctx db its"
  by (induction its) (simp_all add: price_item_unpriced)

lemma write_sale_unpriced: "write_sale env c r (map unpriced ls) db = write_sale env c r ls db"
  by (cases "prepareSaleItemsForPricing env (fx_pos c) db 0 ls")
    (auto simp: write_sale_def Let_def prepare_unpriced [symmetric] unpriced_items_def prices_unpriced)

lemma sale_transaction_unpriced:
  "rq_customerId r' = rq_customerId r \<Longrightarrow> rq_orderId r' = rq_orderId r \<Longrightarrow> rq_type r' = rq_type r \<Longrightarrow> rq_payments r' = rq_payments r \<Longrightarrow>
     map unpriced ls' = map unpriced ls \<Longrightarrow> sale_transaction env c r' ls' None db = sale_transaction env c r ls None db"
proof -
  assume r: "rq_customerId r' = rq_customerId r" "rq_orderId r' = rq_orderId r" "rq_type r' = rq_type r" "rq_payments r' = rq_payments r"
    and ls: "map unpriced ls' = map unpriced ls"
  have "write_sale env c r' ls' db = write_sale env c r ls db"
    using write_sale_unpriced [of env c r' ls' db] write_sale_unpriced [of env c r ls db] by (simp add: ls write_sale_def r)
  then show ?thesis by (simp add: sale_transaction_def claim_key_def)
qed


end
