(* ===== verification/Sale_Stock.thy ===== *)
theory Sale_Stock
  imports Sale_Frames Stock_Facts
begin

section \<open>Sales and the stock\<close>

text \<open>
  The sale of an item withdraws from the movements of a branch no more than they hold and, for a
  product kept in lots, takes from the balances of its lots exactly what it withdraws; so the
  invariant of the stock that adjustments keep (\<open>stock_wf\<close>) is kept by sales.
\<close>

subsection \<open>What the lots give\<close>

lemma take_lots_total:
  "take_lots n bs = (ts, left) \<Longrightarrow> sum_list (map snd ts) = n - left \<and> (0 \<le> n \<longrightarrow> 0 \<le> left) \<and>
     (\<forall>(b, q)\<in>set ts. b \<in> set bs \<and> 0 < q \<and> q \<le> bl_available b)"
proof (induction bs arbitrary: n ts left)
  case (Cons b bs)
  define q where "q = min n (bl_available b)"
  consider "n \<le> 0" | "0 < n" "q \<le> 0" | "0 < n" "0 < q" by linarith
  then show ?case
  proof cases
    case 1
    with Cons.prems show ?thesis by simp
  next
    case 2
    with Cons.prems have "take_lots n bs = (ts, left)" by (simp add: Let_def q_def [symmetric])
    from Cons.IH [OF this] show ?thesis by auto
  next
    case 3
    obtain rest l where r: "take_lots (n - q) bs = (rest, l)" by fastforce
    with 3 Cons.prems have "ts = (b, q) # rest" "left = l" by (simp_all add: Let_def q_def [symmetric])
    moreover have "q \<le> n" "q \<le> bl_available b" by (simp_all add: q_def)
    ultimately show ?thesis using Cons.IH [OF r] 3 by auto
  qed
qed simp

lemma lots_to_sell_rows:
  assumes "b \<in> set (lots_to_sell env ctx p db)"
  shows "b \<in> set (iv_balances db) \<and> bl_tenantId b = sc_tenantId ctx \<and> bl_branchId b = sc_branchId ctx \<and> bl_productId b = sp_id p"
  using assms by (auto simp: lots_to_sell_def lots_of_def)

lemma take_lot_change:
  assumes "take_lot env m (b, q) db = Inr db'" "balances_wf db" "0 < q"
  shows "\<exists>db1 ks. on_hand_change (bl_tenantId b) (bl_branchId b) (bl_productId b) (- q) db db1 \<and> db' = db1\<lparr>iv_links := ks\<rparr>"
  using assms(1)
proof (rule take_lot_shape)
  fix k
  assume ex: "list_ex (same_balance b q) (iv_balances db)" and
    db': "db' = db\<lparr>iv_balances := update_where (same_balance b q)
       (\<lambda>r. r\<lparr>bl_onHand := bl_onHand r - q, bl_lastMovementAt := Some (mv_createdAt m), bl_updatedAt := mv_createdAt m\<rparr>) (iv_balances db),
       iv_links := iv_links db @ [k]\<rparr>"
  from ex obtain r where r: "r \<in> set (iv_balances db)" "same_balance b q r" by (auto simp: list_ex_iff)
  have only: "same_balance b q x \<longleftrightarrow> x = r" "bl_tenantId x = bl_tenantId r \<and> bl_id x = bl_id r \<longleftrightarrow> x = r" if "x \<in> set (iv_balances db)" for x
    using that r assms(2) key_unique [of bl_id "iv_balances db" x r] by (auto simp: balances_wf_def same_balance_def)
  let ?a = "set_account (mv_createdAt m) r (Some (bl_onHand r + - q)) None (Given (mv_createdAt m)) db"
  have "update_where (same_balance b q)
      (\<lambda>r. r\<lparr>bl_onHand := bl_onHand r - q, bl_lastMovementAt := Some (mv_createdAt m), bl_updatedAt := mv_createdAt m\<rparr>) (iv_balances db) = iv_balances ?a"
    using only by (auto simp: set_account_def update_where_def changed_balance_def)
  then have "db' = ?a\<lparr>iv_links := iv_links db @ [k]\<rparr>" by (simp add: db' set_account_def)
  moreover have "balances_wf ?a"
    by (rule set_account_wf [OF assms(2) r(1)]) (use assms(2,3) r in \<open>auto simp: balances_wf_def same_balance_def bl_available_def\<close>)
  then have "on_hand_change (bl_tenantId b) (bl_branchId b) (bl_productId b) (- q) db ?a"
    using r(2) by (intro set_account_change [OF assms(2) r(1)]) (auto simp: balance_key_def same_balance_def)
  ultimately show ?thesis by blast
qed

text \<open>A series of them.\<close>

definition lots_change :: "string \<Rightarrow> string \<Rightarrow> string \<Rightarrow> int \<Rightarrow> inv_db \<Rightarrow> inv_db \<Rightarrow> bool" where
  "lots_change t b p d db db' \<longleftrightarrow> balances_wf db' \<and> (\<exists>bs ks. db' = db\<lparr>iv_balances := bs, iv_links := ks\<rparr>) \<and>
     (\<forall>t' b' p'. branch_balance db' t' b' p' = branch_balance db t' b' p' + (if t' = t \<and> b' = b \<and> p' = p then d else 0)) \<and>
     (\<forall>r'\<in>set (iv_balances db'). has_lot db' r')"

lemma lots_change_refl: "balances_wf db \<Longrightarrow> \<forall>r\<in>set (iv_balances db). has_lot db r \<Longrightarrow> lots_change t b p 0 db db"
proof -
  assume "balances_wf db" "\<forall>r\<in>set (iv_balances db). has_lot db r"
  moreover have "db = db\<lparr>iv_balances := iv_balances db, iv_links := iv_links db\<rparr>" by simp
  ultimately show ?thesis unfolding lots_change_def by (metis add_0_right)
qed

lemma lots_change_step:
  assumes "lots_change t b p d db db1" "on_hand_change t b p e db1 db2" "db' = db2\<lparr>iv_links := ks\<rparr>"
  shows "lots_change t b p (d + e) db db'"
proof -
  obtain bs ls where db1: "db1 = db\<lparr>iv_balances := bs, iv_links := ls\<rparr>" using assms(1) by (auto simp: lots_change_def)
  obtain bs' where db2: "db2 = db1\<lparr>iv_balances := bs'\<rparr>" using assms(2) unfolding on_hand_change_def by blast
  have key: "has_lot db1 r" if "balance_key r = balance_key r'" "has_lot db1 r'" for r r'
    using that by (simp add: has_lot_def balance_key_def)
  have "\<forall>r\<in>set (iv_balances db2). has_lot db1 r"
    using assms(1,2) key by (fastforce simp: on_hand_change_def lots_change_def has_lot_def [of db1])
  moreover have "has_lot db' = has_lot db1" by (simp add: assms(3) db2)
  moreover have "\<exists>bs ks. db' = db\<lparr>iv_balances := bs, iv_links := ks\<rparr>" by (auto simp: assms(3) db2 db1)
  ultimately show ?thesis using assms(1,2) by (auto simp: lots_change_def on_hand_change_def assms(3))
qed

lemma take_each_change:
  "take_each env m ts db1 = Inr db' \<Longrightarrow> lots_change t b p d db db1 \<Longrightarrow>
     \<forall>(r, q)\<in>set ts. bl_tenantId r = t \<and> bl_branchId r = b \<and> bl_productId r = p \<and> 0 < q \<Longrightarrow>
     lots_change t b p (d - sum_list (map snd ts)) db db'"
proof (induction ts arbitrary: db1 d)
  case (Cons x ts)
  obtain r q where x: "x = (r, q)" by fastforce
  from Cons.prems(1) obtain db2 where s: "take_lot env m (r, q) db1 = Inr db2" "take_each env m ts db2 = Inr db'" by (auto simp: and_then_Inr x)
  have rq: "bl_tenantId r = t" "bl_branchId r = b" "bl_productId r = p" "0 < q" using Cons.prems(3) by (simp_all add: x)
  have "balances_wf db1" using Cons.prems(2) by (simp add: lots_change_def)
  from take_lot_change [OF s(1) this rq(4)] have "lots_change t b p (d + - q) db db2"
    using lots_change_step [OF Cons.prems(2)] rq by blast
  from Cons.IH [OF s(2) this] Cons.prems(3) show ?case by (simp add: x algebra_simps)
qed simp

text \<open>The lots give what the movement withdraws, or nothing for a product without lots.\<close>

lemma consume_fefo_change:
  assumes "consume_fefo env ctx p m db = Inr db'" "balances_wf db" "\<forall>r\<in>set (iv_balances db). has_lot db r" "0 \<le> mv_quantity m"
  shows "lots_change (sc_tenantId ctx) (sc_branchId ctx) (sp_id p) (if sp_requiresLot p then - mv_quantity m else 0) db db'"
  using assms(1)
proof (cases rule: consume_fefo_shape)
  case plain
  then show ?thesis using lots_change_refl [OF assms(2,3)] by simp
next
  case (lots ts left)
  note total = take_lots_total [OF lots(2)]
  have "lots_change (sc_tenantId ctx) (sc_branchId ctx) (sp_id p) (0 - sum_list (map snd ts)) db db'"
    by (rule take_each_change [OF lots(4) lots_change_refl [OF assms(2,3)]]) (use total lots_to_sell_rows in fastforce)
  moreover have "sum_list (map snd ts) = mv_quantity m" using total assms(4) lots(3) by simp
  ultimately show ?thesis using lots(1) by simp
qed

subsection \<open>Items and sales\<close>

lemma active_product_policy:
  "active_product t i db = Some p \<Longrightarrow> findProductPolicy (so_inv db) t i = Some p \<and> sp_id p = i"
  by (auto simp: active_product_def findProductPolicy_def dest!: find_in split: option.splits if_splits)

text \<open>The withdrawal of one item: its movement, and the lots.\<close>

lemma withdrawal_keeps_stock:
  assumes wf: "stock_wf db" and p: "findProductPolicy db (sc_tenantId ctx) i = Some p" "sp_id p = i"
    and q: "0 < q" "q \<le> stock_sum i (sc_tenantId ctx) (Some (sc_branchId ctx)) db"
    and m: "m = sale_movement env ctx saleId i q db" "mv_id m \<notin> mv_id ` set (iv_movements db)"
    and c: "consume_fefo env ctx p m (db\<lparr>iv_movements := iv_movements db @ [m]\<rparr>) = Inr db'"
  shows "stock_wf db'"
proof -
  let ?t = "sc_tenantId ctx" and ?b = "sc_branchId ctx"
  let ?db = "db\<lparr>iv_movements := iv_movements db @ [m]\<rparr>"
  have f: "mv_productId m = i" "mv_tenantId m = ?t" "mv_branchId m = Some ?b" "mv_quantity m = q" "\<not> mv_in m"
    by (simp_all add: m(1) sale_movement_def Let_def)
  have tables: "balances_wf ?db" "\<forall>r\<in>set (iv_balances ?db). has_lot ?db r" "lots_wf db"
    using wf by (simp_all add: stock_wf_def tables_wf_def)
  from consume_fefo_change [OF c tables(1,2)] q(1) have ch: "balances_wf db'" "\<forall>r\<in>set (iv_balances db'). has_lot db' r"
    "\<And>t b p'. branch_balance db' t b p' = branch_balance ?db t b p' + (if t = ?t \<and> b = ?b \<and> p' = i then if sp_requiresLot p then - q else 0 else 0)"
    and shape: "\<exists>bs ks. db' = ?db\<lparr>iv_balances := bs, iv_links := ks\<rparr>" by (auto simp: lots_change_def f(4) p(2))
  obtain bs ks where db': "db' = ?db\<lparr>iv_balances := bs, iv_links := ks\<rparr>" using shape by blast
  have stock: "stock_sum p' t (Some b) db' = stock_sum p' t (Some b) db - (if p' = i \<and> t = ?t \<and> b = ?b then q else 0)" for p' t b
    unfolding db' by (simp add: stock_sum_append f signed_quantity_def)
  have lot: "lot_controlled db' = lot_controlled db" by (simp add: db')
  have bounds: "0 \<le> stock_sum p' t (Some b) db \<and> stock_sum p' t (Some b) db \<le> 10 ^ 14" for p' t b
    using wf by (simp add: stock_wf_def stock_bounds_def)
  have "stock_bounds db'" unfolding stock_bounds_def
  proof (intro allI)
    fix t p' b
    show "0 \<le> stock_sum p' t (Some b) db' \<and> stock_sum p' t (Some b) db' \<le> 10 ^ 14"
      using bounds [of p' t b] q unfolding stock by (cases "p' = i \<and> t = ?t \<and> b = ?b") auto
  qed
  moreover have "lots_agree db'" unfolding lots_agree_def lot
  proof (intro allI impI)
    fix t p' b assume "lot_controlled db t p'"
    then have "branch_balance db t b p' = stock_sum p' t (Some b) db" and "p' = i \<and> t = ?t \<longrightarrow> sp_requiresLot p"
      using wf p(1) by (auto simp: stock_wf_def lots_agree_def lot_controlled_def)
    then show "branch_balance db' t b p' = stock_sum p' t (Some b) db'" unfolding ch(3) stock by auto
  qed
  moreover have "tables_wf db'"
    using ch(1,2) wf m(2) q(1) f(4) by (auto simp: tables_wf_def stock_wf_def db')
  ultimately show ?thesis by (simp add: stock_wf_def)
qed

lemma sell_item_stock:
  assumes "sell_item env ctx i order it db = Inr (amount, db')" "stock_wf (so_inv db)" shows "stock_wf (so_inv db')"
  using assms(1)
proof (rule sell_item_shape)
  fix q p row ts m inv
  assume p: "active_product (sc_tenantId ctx) (pi_productId it) db = Some p"
    and q: "q \<le> stock_sum (pi_productId it) (sc_tenantId ctx) (Some (sc_branchId ctx)) (so_inv db)" "0 < q"
    and m: "m = sale_movement env ctx i (pi_productId it) q (so_inv db)" "mv_id m \<notin> mv_id ` set (iv_movements (so_inv db))"
    and c: "consume_fefo env ctx p m ((so_inv db)\<lparr>iv_movements := iv_movements (so_inv db) @ [m]\<rparr>) = Inr inv"
    and db': "db' = advance_order order (not_blank (pi_orderItemId it)) q (db\<lparr>so_items := so_items db @ [row], so_taxes := so_taxes db @ ts, so_inv := inv\<rparr>)"
  note pol = active_product_policy [OF p]
  have "stock_wf inv" by (rule withdrawal_keeps_stock [OF assms(2) _ _ q(2,1) m c]) (use pol in simp_all)
  then show ?thesis by (simp add: db')
qed

lemma sell_items_stock: "sell_items env ctx i order its acc db = Inr (tot, db') \<Longrightarrow> stock_wf (so_inv db) \<Longrightarrow> stock_wf (so_inv db')"
proof (induction its arbitrary: acc db)
  case (Cons it its)
  from Cons.prems(1) obtain amount db1 where "sell_item env ctx i order it db = Inr (amount, db1)"
    "sell_items env ctx i order its (acc + amount) db1 = Inr (tot, db')" by (rule sell_items_step)
  then show ?case using sell_item_stock Cons.IH Cons.prems(2) by blast
qed simp

lemma write_sale_stock:
  assumes "write_sale env c r lines db = Inr (i, db')" "stock_wf (so_inv db)" shows "stock_wf (so_inv db')"
  using assms(1)
proof (rule write_sale_shape)
  fix payments prepared captures items methods scale fin box and db1 :: sale_db
  assume made: "inventory_create_sale_v2 env (fx_pos c) (rq_customerId r) (rq_orderId r) (rq_type r) items methods db = Inr (i, db1)"
    and db': "db' = (linkOrderDeliveryToSale (sc_tenantId (fx_pos c)) (rq_orderId r) i (sc_userId (fx_pos c))
       (finalizeSale i (sc_tenantId (fx_pos c)) ((set_cash_session (sale_cash_session c payments) i (sc_tenantId (fx_pos c))
         (db1\<lparr>so_scale := scale\<rparr>))\<lparr>so_fin := fin\<rparr>)))\<lparr>so_outbox := box\<rparr>"
  have "stock_wf (so_inv db1)"
    using made
  proof (rule create_function_shape)
    fix acc tot and db4 db2 db3 :: sale_db
    assume a: "insert_sale env (fx_pos c) i (rq_customerId r) (rq_orderId r) (rq_type r) db = Inr db4"
      "sell_items env (fx_pos c) i (rq_orderId r) items 0 db4 = Inr (acc, db2)"
      "insert_methods env (sc_tenantId (fx_pos c)) i methods 0 db2 = Inr (tot, db3)"
      "db1 = (case rq_orderId r of None \<Rightarrow> settle_sale i (sc_tenantId (fx_pos c)) acc (paid_of (rq_type r) acc tot) (due_of (rq_type r) acc tot) db3
       | Some o' \<Rightarrow> refreshOrderStatus o' (sc_tenantId (fx_pos c))
          (settle_sale i (sc_tenantId (fx_pos c)) acc (paid_of (rq_type r) acc tot) (due_of (rq_type r) acc tot) db3))"
    have "so_inv db4 = so_inv db" by (rule insert_sale_shape [OF a(1)]) simp
    then have "stock_wf (so_inv db2)" using sell_items_stock [OF a(2)] assms(2) by simp
    moreover have "so_inv db3 = so_inv db2" using insert_methods_shape [OF a(3)] by auto
    ultimately show ?thesis by (simp add: a(4) settle_sale_def refreshOrderStatus_def split: option.splits)
  qed
  then show ?thesis by (simp add: db' linkOrderDeliveryToSale_def finalizeSale_def updateSaleStatus_def set_cash_session_def)
qed

text \<open>
  Property C5: sales keep the invariant of the stock. After any request of a sale, answered or
  refused, no branch has less than nothing of a product, the balances of a product kept in lots still
  add up to its stock in each branch, no balance is below what is reserved of it, and every balance
  belongs to its lot.
\<close>

theorem sales_keep_stock:
  assumes "stock_wf (so_inv db)" shows "stock_wf (so_inv (snd (createSale env r ctx header db)))"
proof -
  obtain v db' where c: "createSale env r ctx header db = (v, db')" by fastforce
  then have "stock_wf (so_inv db')"
  proof (cases rule: createSale_cases)
    case (committed c lines key i)
    from committed(4) show ?thesis
    proof (cases rule: sale_transaction_cases)
      case (keyed k row db1 db2)
      have "stock_wf (so_inv db2)" using write_sale_stock [OF keyed(5)] assms by (simp add: keyed(4))
      then show ?thesis by (simp add: complete_shape [OF keyed(6)])
    qed (use assms write_sale_stock in auto)
  qed (use assms in simp)
  then show ?thesis by (simp add: c)
qed

end
