(* ===== verification/Sale_Undo.thy ===== *)
theory Sale_Undo
  imports Sale_Facts Sale_Stock
begin

section \<open>Undoing a sale\<close>

text \<open>
  What \<open>cancelSale\<close> guarantees: the stock of every branch is what it was before the sale, the sale is
  closed with nothing paid, and cancelling it again changes nothing.
\<close>

subsection \<open>The movements of a sale\<close>

definition is_sale_movement :: "string \<Rightarrow> string \<Rightarrow> movement_row \<Rightarrow> bool" where
  "is_sale_movement i t m \<longleftrightarrow> mv_tenantId m = t \<and> mv_referenceType m = ''SALE'' \<and> mv_referenceId m = i \<and>
     mv_referenceTable m = Some ''sales'' \<and> \<not> mv_in m"

text \<open>The movements that the items of a sale added, and what they weigh.\<close>

definition moved :: "string \<Rightarrow> sale_context \<Rightarrow> sale_item_row \<Rightarrow> movement_row \<Rightarrow> bool" where
  "moved i ctx row m \<longleftrightarrow> is_sale_movement i (sc_tenantId ctx) m \<and> mv_productId m = si_productId row \<and> 0 < mv_quantity m \<and>
     mv_quantity m \<le> 10 ^ 14 \<and> mv_branchId m = Some (sc_branchId ctx)"

lemma sell_items_moves:
  "sell_items env ctx i order its acc db = Inr (tot, db') \<Longrightarrow> stock_wf (so_inv db) \<Longrightarrow>
     \<exists>rows ms. so_items db' = so_items db @ rows \<and> iv_movements (so_inv db') = iv_movements (so_inv db) @ ms \<and>
       list_all2 (moved i ctx) rows ms"
proof (induction its arbitrary: acc db)
  case Nil
  then show ?case by (intro exI [of _ "[]"]) simp
next
  case (Cons it its)
  from Cons.prems(1) obtain amount db1 where
    one: "sell_item env ctx i order it db = Inr (amount, db1)" and rest: "sell_items env ctx i order its (acc + amount) db1 = Inr (tot, db')"
    by (rule sell_items_step)
  from Cons.IH [OF rest sell_item_stock [OF one Cons.prems(2)]] obtain rows ms where
    r: "so_items db' = so_items db1 @ rows" "iv_movements (so_inv db') = iv_movements (so_inv db1) @ ms" "list_all2 (moved i ctx) rows ms"
    by blast
  show ?case
    using one
  proof (rule sell_item_shape)
    fix q p row ts m inv
    assume q: "q \<le> stock_sum (pi_productId it) (sc_tenantId ctx) (Some (sc_branchId ctx)) (so_inv db)" "0 < q"
      and row: "sale_item env ctx i (it\<lparr>pi_orderItemId := not_blank (pi_orderItemId it)\<rparr>) q = Inr row"
      and m: "m = sale_movement env ctx i (pi_productId it) q (so_inv db)"
      and c: "consume_fefo env ctx p m ((so_inv db)\<lparr>iv_movements := iv_movements (so_inv db) @ [m]\<rparr>) = Inr inv"
      and db1: "db1 = advance_order order (not_blank (pi_orderItemId it)) q (db\<lparr>so_items := so_items db @ [row], so_taxes := so_taxes db @ ts, so_inv := inv\<rparr>)"
    have "stock_sum (pi_productId it) (sc_tenantId ctx) (Some (sc_branchId ctx)) (so_inv db) \<le> 10 ^ 14"
      using Cons.prems(2) by (simp add: stock_wf_def stock_bounds_def)
    then have "moved i ctx row m" using q sale_item_fields [OF row] by (simp add: moved_def is_sale_movement_def m sale_movement_def Let_def)
    moreover have "so_items db1 = so_items db @ [row]" "iv_movements (so_inv db1) = iv_movements (so_inv db) @ [m]"
      using consume_fefo_frame [OF c] by (simp_all add: db1)
    ultimately show ?thesis using r by (intro exI [of _ "row # rows"] exI [of _ "m # ms"]) simp
  qed
qed

lemma write_sale_moves:
  assumes "write_sale env c r lines db = Inr (i, db')" "stock_wf (so_inv db)"
  obtains rows ms where "so_items db' = so_items db @ rows" "iv_movements (so_inv db') = iv_movements (so_inv db) @ ms"
    "list_all2 (moved i (fx_pos c)) rows ms"
  using assms(1)
proof (rule write_sale_shape)
  fix payments prepared captures items methods scale fin box and db1 :: sale_db
  assume made: "inventory_create_sale_v2 env (fx_pos c) (rq_customerId r) (rq_orderId r) (rq_type r) items methods db = Inr (i, db1)"
    and db': "db' = (linkOrderDeliveryToSale (sc_tenantId (fx_pos c)) (rq_orderId r) i (sc_userId (fx_pos c))
       (finalizeSale i (sc_tenantId (fx_pos c)) ((set_cash_session (sale_cash_session c payments) i (sc_tenantId (fx_pos c))
         (db1\<lparr>so_scale := scale\<rparr>))\<lparr>so_fin := fin\<rparr>)))\<lparr>so_outbox := box\<rparr>"
  have same: "so_items db' = so_items db1" "so_inv db' = so_inv db1"
    by (simp_all add: db' linkOrderDeliveryToSale_def finalizeSale_def updateSaleStatus_def set_cash_session_def)
  show thesis
    using made
  proof (rule create_function_shape)
    fix acc tot and db4 db2 db3 :: sale_db
    assume a: "insert_sale env (fx_pos c) i (rq_customerId r) (rq_orderId r) (rq_type r) db = Inr db4"
      "sell_items env (fx_pos c) i (rq_orderId r) items 0 db4 = Inr (acc, db2)"
      "insert_methods env (sc_tenantId (fx_pos c)) i methods 0 db2 = Inr (tot, db3)"
      "db1 = (case rq_orderId r of None \<Rightarrow> settle_sale i (sc_tenantId (fx_pos c)) acc (paid_of (rq_type r) acc tot) (due_of (rq_type r) acc tot) db3
       | Some o' \<Rightarrow> refreshOrderStatus o' (sc_tenantId (fx_pos c))
          (settle_sale i (sc_tenantId (fx_pos c)) acc (paid_of (rq_type r) acc tot) (due_of (rq_type r) acc tot) db3))"
    have 4: "so_inv db4 = so_inv db" "so_items db4 = so_items db" by (rule insert_sale_shape [OF a(1)], simp)+
    moreover have "so_inv db3 = so_inv db2" "so_items db3 = so_items db2" using insert_methods_shape [OF a(3)] by auto
    ultimately have "so_items db1 = so_items db2" "so_inv db1 = so_inv db2"
      by (simp_all add: a(4) settle_sale_def refreshOrderStatus_def split: option.splits)
    then show thesis using sell_items_moves [OF a(2)] assms(2) that by (auto simp: 4 same)
  qed
qed

subsection \<open>The reversal of a movement\<close>

definition reversed :: "movement_row \<Rightarrow> movement_row \<Rightarrow> bool" where
  "reversed m n \<longleftrightarrow> mv_tenantId n = mv_tenantId m \<and> mv_productId n = mv_productId m \<and> mv_branchId n = mv_branchId m \<and>
     mv_in n \<and> mv_quantity n = mv_quantity m"

lemma reverse_stock_moves:
  assumes "reverse_stock env i t u item (Some m) db = Inr db'" "moved i' ctx row m" "si_productId item = mv_productId m" "t = sc_tenantId ctx"
    "sc_branchId ctx \<noteq> []" "numeric_14_3 (iv_quantity (sv_inv env))"
  shows "\<exists>n. reversed m n \<and> iv_movements db' = iv_movements db @ [n]"
proof -
  from assms(1) obtain n db1 where n: "createMovement (sv_inv env) (reversal_data env i t u (si_productId item) m db) db = Inr (n, db1)"
    and l: "reverseLottedStockMovement env t m (mv_id n) db1 = Inr db'" by (auto simp: reverse_stock_def and_then_Inr)
  from createMovement_row [OF n] have r: "iv_movements db1 = iv_movements db @ [n]" "mv_tenantId n = t" "mv_productId n = si_productId item" "mv_in n"
      "mv_branchId n = (if truthy (mv_branchId m) then mv_branchId m else None)"
      "iv_quantity (sv_inv env) (milli (mv_quantity m)) = Some (mv_quantity n)" by (auto simp: reversal_data_def)
  have "truthy (mv_branchId m)" using assms(2,5) by (cases "sc_branchId ctx") (auto simp: moved_def)
  moreover have "mv_quantity n = mv_quantity m"
    by (rule stored_milli [OF assms(6) _ r(6)]) (use assms(2) in \<open>auto simp: moved_def\<close>)
  ultimately have "reversed m n" using r assms(2-4) by (simp add: reversed_def moved_def is_sale_movement_def)
  moreover have "iv_movements db' = iv_movements db @ [n]" using reverse_lotted_frame [OF l] r(1) by simp
  ultimately show ?thesis by blast
qed

lemma drop_first_found:
  assumes "m \<in> set ms" "mv_productId m = p"
  obtains x where "find (\<lambda>m. mv_productId m = p) ms = Some x" "mset ms = add_mset x (mset (drop_first p ms))" "mv_productId x = p" "x \<in> set ms"
proof -
  let ?A = "takeWhile (\<lambda>m. mv_productId m \<noteq> p) ms" and ?B = "dropWhile (\<lambda>m. mv_productId m \<noteq> p) ms"
  have "?B \<noteq> []" using assms by (auto simp: dropWhile_eq_Nil_conv)
  then obtain x xs where B: "?B = x # xs" by (cases ?B) auto
  have x: "mv_productId x = p" using hd_dropWhile [OF \<open>?B \<noteq> []\<close>] by (simp add: B)
  have ms: "ms = ?A @ x # xs" using takeWhile_dropWhile_id [of "\<lambda>m. mv_productId m \<noteq> p" ms] B by simp
  have "find (\<lambda>m. mv_productId m = p) ms = Some x"
  proof -
    have "find (\<lambda>m. mv_productId m = p) ?A = None" by (auto simp: find_None_iff dest: set_takeWhileD)
    then show ?thesis using x by (subst ms) (simp add: find_append)
  qed
  moreover have "mset ms = add_mset x (mset (drop_first p ms))" by (subst ms) (simp add: drop_first_def B)
  moreover have "x \<in> set ms" by (subst ms) simp
  ultimately show thesis using that x by blast
qed

lemma undo_items_moves:
  "undo_items env sale u items ms db = Inr db' \<Longrightarrow> image_mset si_productId (mset items) = image_mset mv_productId (mset ms) \<Longrightarrow>
     \<forall>m\<in>set ms. \<exists>row. moved i ctx row m \<Longrightarrow> dc_tenantId sale = sc_tenantId ctx \<Longrightarrow> sc_branchId ctx \<noteq> [] \<Longrightarrow>
     numeric_14_3 (iv_quantity (sv_inv env)) \<Longrightarrow>
     \<exists>xs ns. iv_movements (so_inv db') = iv_movements (so_inv db) @ ns \<and> mset xs = mset ms \<and> list_all2 reversed xs ns"
proof (induction items arbitrary: ms db)
  case Nil
  then show ?case by (intro exI [of _ "[]"]) simp
next
  case (Cons item items)
  have "si_productId item \<in># image_mset mv_productId (mset ms)" unfolding Cons.prems(2) [symmetric] by simp
  then obtain m where "m \<in> set ms" "mv_productId m = si_productId item" by auto
  then obtain x where x: "find (\<lambda>m. mv_productId m = si_productId item) ms = Some x" "mset ms = add_mset x (mset (drop_first (si_productId item) ms))"
    "mv_productId x = si_productId item" "x \<in> set ms" by (rule drop_first_found)
  from Cons.prems(1) obtain inv where inv: "reverse_stock env (dc_id sale) (dc_tenantId sale) u item (Some x) (so_inv db) = Inr inv" and
    rest: "undo_items env sale u items (drop_first (si_productId item) ms) (db\<lparr>so_inv := inv, so_orderItems :=
       undo_order_item (dc_orderId sale) item (find (\<lambda>m. mv_productId m = si_productId item) ms \<noteq> None) (so_orderItems db)\<rparr>) = Inr db'"
    by (rule undo_items_step) (simp add: x(1))
  from x(4) Cons.prems(3) obtain row where row: "moved i ctx row x" by blast
  from reverse_stock_moves [OF inv row x(3) [symmetric] Cons.prems(4-6)] obtain n where
    n: "reversed x n" "iv_movements inv = iv_movements (so_inv db) @ [n]" by blast
  have sub: "set (drop_first (si_productId item) ms) \<subseteq> set ms"
    by (metis insert_subset set_mset_add_mset_insert set_mset_mset subset_insertI x(2))
  have "image_mset si_productId (mset items) = image_mset mv_productId (mset (drop_first (si_productId item) ms))"
    using Cons.prems(2) by (simp add: x(2,3))
  moreover have "\<forall>m\<in>set (drop_first (si_productId item) ms). \<exists>row. moved i ctx row m" using Cons.prems(3) sub by blast
  ultimately have "\<exists>xs ns. iv_movements (so_inv db') = iv_movements inv @ ns \<and> mset xs = mset (drop_first (si_productId item) ms) \<and> list_all2 reversed xs ns"
    using Cons.IH [OF rest _ _ Cons.prems(4-6)] by simp
  then obtain xs ns where
    r: "iv_movements (so_inv db') = iv_movements inv @ ns" "mset xs = mset (drop_first (si_productId item) ms)" "list_all2 reversed xs ns" by blast
  show ?case by (intro exI [of _ "x # xs"] exI [of _ "n # ns"]) (use n r x(2) in simp)
qed

text \<open>Movements and their reversals cancel out.\<close>

definition in_stock :: "string \<Rightarrow> string \<Rightarrow> string \<Rightarrow> movement_row \<Rightarrow> bool" where
  "in_stock p t b m \<longleftrightarrow> mv_productId m = p \<and> mv_tenantId m = t \<and> mv_branchId m = Some b"

lemma stock_sum_in_stock: "stock_sum p t (Some b) db = sum_list (map signed_quantity (filter (in_stock p t b) (iv_movements db)))"
  by (simp add: stock_sum_def in_stock_def [abs_def])

lemma reversed_sum:
  assumes "list_all2 reversed xs ns" "mset xs = mset ms" "\<forall>m\<in>set ms. \<not> mv_in m"
  shows "sum_list (map signed_quantity (filter (in_stock p t b) ns)) = - sum_list (map signed_quantity (filter (in_stock p t b) ms))"
proof -
  have out: "\<forall>m\<in>set xs. \<not> mv_in m" using assms(2,3) by (metis set_mset_mset)
  have "sum_list (map signed_quantity (filter (in_stock p t b) ns)) = - sum_list (map signed_quantity (filter (in_stock p t b) xs))"
    using assms(1) out by (induction rule: list_all2_induct) (auto simp: in_stock_def reversed_def signed_quantity_def)
  also have "mset (map signed_quantity (filter (in_stock p t b) xs)) = mset (map signed_quantity (filter (in_stock p t b) ms))"
    using assms(2) by simp
  then have "sum_list (map signed_quantity (filter (in_stock p t b) xs)) = sum_list (map signed_quantity (filter (in_stock p t b) ms))"
    by (metis sum_mset_sum_list)
  finally show ?thesis .
qed

subsection \<open>The properties\<close>

lemma context_actor_tenant: "getSaleById i (context_actor c) db = Inr v \<Longrightarrow> dc_tenantId (vw_sale v) = sc_tenantId (fx_pos c)"
  by (auto simp: getSaleById_def and_then_Inr findSale_def is_document_def context_actor_def split: if_splits option.splits dest!: find_in)

lemma identity_find:
  "findSale i t db = Some d \<Longrightarrow> dc_id d = i \<and> dc_tenantId d = t"
  by (auto simp: findSale_def is_document_def dest!: find_in)

text \<open>The movements and the items of a sale that was just written.\<close>

lemma fresh_sale_rows:
  assumes "so_items db' = so_items db @ rows" "iv_movements (so_inv db') = iv_movements (so_inv db) @ ms" "list_all2 (moved i ctx) rows ms"
    "\<forall>row\<in>set rows. si_saleId row = i \<and> si_tenantId row = sc_tenantId ctx" "\<not> is_sale i db" "sale_refs db"
    "list_all (\<lambda>m. mv_referenceType m = ''SALE'' \<longrightarrow> is_sale (mv_referenceId m) db) (iv_movements (so_inv db))"
  shows "mset (sale_items_of i (sc_tenantId ctx) db') = mset rows" "mset (sale_movements i (sc_tenantId ctx) db') = mset ms"
proof -
  have "filter (\<lambda>x. si_saleId x = i \<and> si_tenantId x = sc_tenantId ctx) (so_items db') = rows"
    using assms(1,4-6) by (auto simp: sale_refs_def filter_empty_conv filter_id_conv)
  then show "mset (sale_items_of i (sc_tenantId ctx) db') = mset rows" by (simp add: sale_items_of_def)
  have "\<forall>m\<in>set ms. is_sale_movement i (sc_tenantId ctx) m" using assms(3) by (auto simp: moved_def dest: list_all2_in)
  moreover have "\<forall>m\<in>set (iv_movements (so_inv db)). \<not> is_sale_movement i (sc_tenantId ctx) m"
    using assms(5,7) by (auto simp: is_sale_movement_def list_all_iff)
  ultimately have "filter (is_sale_movement i (sc_tenantId ctx)) (iv_movements (so_inv db')) = ms"
    by (simp add: assms(2) filter_empty_conv filter_id_conv)
  then show "mset (sale_movements i (sc_tenantId ctx) db') = mset ms"
    by (simp add: sale_movements_def is_sale_movement_def [abs_def])
qed

lemma undo_sale_movements:
  assumes "undo_sale env sale u db = Inr db'"
  obtains db1 where
    "undo_items env sale u (sale_items_of (dc_id sale) (dc_tenantId sale) db) (sale_movements (dc_id sale) (dc_tenantId sale) db) db = Inr db1"
    "so_inv db' = so_inv db1"
  using assms
proof (rule undo_sale_shape)
  fix b fin and db1 :: sale_db
  assume u: "undo_items env sale u (sale_items_of (dc_id sale) (dc_tenantId sale) db) (sale_movements (dc_id sale) (dc_tenantId sale) db) db = Inr db1"
    "db' = finalizeCancelledSale (dc_id sale) (dc_tenantId sale) (if b then ''REFUNDED'' else ''CANCELLED'')
       (if truthy (dc_orderId sale) then refreshOrderStatus (the (dc_orderId sale)) (dc_tenantId sale) (db1\<lparr>so_fin := fin\<rparr>) else db1\<lparr>so_fin := fin\<rparr>)"
  have "so_inv db' = so_inv db1" by (simp add: u(2) finalizeCancelledSale_def refreshOrderStatus_def)
  with u(1) that show thesis by blast
qed

lemma new_sale_columns:
  assumes "write_sale env c r lines db = Inr (i, db')" "sale_refs db"
  obtains rows d where "so_items db' = so_items db @ rows" "\<forall>row\<in>set rows. si_saleId row = i \<and> si_tenantId row = sc_tenantId (fx_pos c)"
    "findSale i (sc_tenantId (fx_pos c)) db' = Some d" "dc_status d = ''CONFIRMED''" "dc_branchId d = Some (sc_branchId (fx_pos c))"
  using assms
proof (rule new_sale_ledger)
  fix payments ras rows acc d draft and items :: "priced_item list"
  assume "so_items db' = so_items db @ rows" "\<forall>row\<in>set rows. si_saleId row = i \<and> si_tenantId row = sc_tenantId (fx_pos c)"
    "findSale i (sc_tenantId (fx_pos c)) db' = Some d" "dc_status d = ''CONFIRMED''" "dc_branchId d = Some (sc_branchId (fx_pos c))"
  then show thesis by (rule that)
qed

text \<open>
  Property C6: cancelling a new sale gives the stock back. Right after a sale, its cancellation leaves
  each product of each branch with the stock it had before the sale.
\<close>

theorem cancelled_sale_returns_stock:
  assumes "createSale env r ctx header db = (Inr v, db1)" "\<not> is_sale (dc_id (vw_sale v)) db" "sale_refs db" "stock_wf (so_inv db)"
    "list_all (\<lambda>m. mv_referenceType m = ''SALE'' \<longrightarrow> is_sale (mv_referenceId m) db) (iv_movements (so_inv db))"
    "dc_branchId (vw_sale v) \<noteq> Some []"
    "cancelSale env' (dc_id (vw_sale v)) a db1 = Inr (s, db2)" "bs_tenantId a = Some (dc_tenantId (vw_sale v))"
    "numeric_14_3 (iv_quantity (sv_inv env'))"
  shows "stock_sum p t (Some b) (so_inv db2) = stock_sum p t (Some b) (so_inv db)"
  using assms(1,2)
proof (rule new_sale_written)
  fix c :: full_context and w :: sale_db and lines ks ks'
  let ?i = "dc_id (vw_sale v)" and ?t = "sc_tenantId (fx_pos c)"
  assume wr: "write_sale env c r lines (db\<lparr>so_keys := ks\<rparr>) = Inr (?i, w)" and db1: "db1 = w\<lparr>so_keys := ks'\<rparr>"
    and v: "getSaleById ?i (context_actor c) db1 = Inr v"
  have t: "dc_tenantId (vw_sale v) = ?t" by (rule context_actor_tenant [OF v])
  from wr have "stock_wf (so_inv (db\<lparr>so_keys := ks\<rparr>))" using assms(4) by simp
  with wr obtain rows ms where m: "so_items w = so_items db @ rows" "iv_movements (so_inv w) = iv_movements (so_inv db) @ ms"
    "list_all2 (moved ?i (fx_pos c)) rows ms" by (rule write_sale_moves) simp
  have refs: "sale_refs (db\<lparr>so_keys := ks\<rparr>)" using assms(3) by simp
  from new_sale_columns [OF wr refs] obtain rows' d where rows': "so_items w = so_items (db\<lparr>so_keys := ks\<rparr>) @ rows'"
      "\<forall>row\<in>set rows'. si_saleId row = ?i \<and> si_tenantId row = ?t"
    and d: "findSale ?i ?t w = Some d" "dc_status d = ''CONFIRMED''" "dc_branchId d = Some (sc_branchId (fx_pos c))" .
  then have mine: "\<forall>row\<in>set rows. si_saleId row = ?i \<and> si_tenantId row = ?t" using m(1) by simp
  have items1: "so_items db1 = so_items db @ rows" "iv_movements (so_inv db1) = iv_movements (so_inv db) @ ms" using m by (simp_all add: db1)
  note fresh = fresh_sale_rows [OF items1 m(3) mine assms(2,3,5)]
  have d1: "findSale ?i ?t db1 = Some d" using d(1) by (simp add: db1 findSale_def)
  have branch: "sc_branchId (fx_pos c) \<noteq> []"
  proof -
    have "v = read_sale ?i ?t d db1" using v d1 by (auto simp: getSaleById_def context_actor_def and_then_Inr split: if_splits)
    then have "vw_sale v = d" by (metis read_sale_sale)
    then show ?thesis using assms(6) d(3) by simp
  qed
  from assms(7) show ?thesis
  proof (cases rule: cancelSale_cases)
    case (again t')
    then show ?thesis using d d1 t assms(8) by (simp add: cancelled_def)
  next
    case (undo t' sale)
    then have sale: "sale = d" using d1 t assms(8) by simp
    have ids: "dc_id d = ?i" "dc_tenantId d = ?t" using identity_find [OF d1] by simp_all
    from undo(4) obtain db3 where u: "undo_items env' d (canceller a sale db1) (sale_items_of ?i ?t db1) (sale_movements ?i ?t db1) db1 = Inr db3"
      "so_inv db2 = so_inv db3" unfolding sale by (rule undo_sale_movements) (simp add: ids)
    have products: "image_mset si_productId (mset rows) = image_mset mv_productId (mset ms)"
      using m(3) by (induction rule: list_all2_induct) (simp_all add: moved_def)
    have all: "\<forall>m\<in>set (sale_movements ?i ?t db1). \<exists>row. moved ?i (fx_pos c) row m"
      using m(3) fresh(2) by (metis list_all2_in mset_eq_setD)
    from undo_items_moves [OF u(1) _ all ids(2) branch assms(9)] products fresh obtain xs ns where
      n: "iv_movements (so_inv db3) = iv_movements (so_inv db1) @ ns" "mset xs = mset (sale_movements ?i ?t db1)" "list_all2 reversed xs ns" by auto
    have "\<forall>m\<in>set ms. \<not> mv_in m" using m(3) by (auto simp: moved_def is_sale_movement_def dest: list_all2_in)
    from reversed_sum [OF n(3) n(2) [unfolded fresh(2)] this, of p t b]
    show ?thesis unfolding u(2) stock_sum_in_stock n(1) items1(2) by simp
  qed
qed

subsection \<open>A cancelled sale stays cancelled\<close>

text \<open>The status of a sale, kept but for the sales in \<open>X\<close>.\<close>

definition keeps_status :: "(string \<times> string) set \<Rightarrow> fin_db \<Rightarrow> fin_db \<Rightarrow> bool" where
  "keeps_status X db db' \<longleftrightarrow> (\<forall>i t d. (i, t) \<notin> X \<longrightarrow> find (is_document D_SALE i t) (fd_documents db) = Some d \<longrightarrow>
     (\<exists>d'. find (is_document D_SALE i t) (fd_documents db') = Some d' \<and> dc_status d' = dc_status d))"

lemma keeps_status_trans: "keeps_status X a b \<Longrightarrow> keeps_status X b c \<Longrightarrow> keeps_status X a c"
  unfolding keeps_status_def by metis

lemma keeps_status_same: "fd_documents db' = fd_documents db \<Longrightarrow> keeps_status X db db'"
  by (simp add: keeps_status_def)

lemma keeps_status_append: "fd_documents db' = fd_documents db @ ds \<Longrightarrow> keeps_status X db db'"
  by (auto simp: keeps_status_def find_append)

lemma keeps_status_update:
  assumes "fd_documents db' = update_where Q f (fd_documents db)" "\<And>d. identity (f d) = identity d"
    "\<And>d. Q d \<Longrightarrow> dc_kind d = D_SALE \<Longrightarrow> (dc_id d, dc_tenantId d) \<notin> X \<Longrightarrow> dc_status (f d) = dc_status d"
  shows "keeps_status X db db'"
  unfolding keeps_status_def
proof (intro allI impI)
  fix i t d assume a: "(i, t) \<notin> X" "find (is_document D_SALE i t) (fd_documents db) = Some d"
  have "dc_kind d = D_SALE" "dc_id d = i" "dc_tenantId d = t" using find_in [OF a(2)] by (auto simp: is_document_def)
  then have "dc_status (if Q d then f d else d) = dc_status d" using assms(3) a(1) by simp
  moreover have "find (is_document D_SALE i t) (fd_documents db') = Some (if Q d then f d else d)"
    unfolding assms(1) by (subst find_document_update [OF assms(2)]) (simp add: a(2))
  ultimately show "\<exists>d'. find (is_document D_SALE i t) (fd_documents db') = Some d' \<and> dc_status d' = dc_status d" by blast
qed

lemma createInternal_status: "createInternal env actor p db = Inr (db', r) \<Longrightarrow> keeps_status X db db'"
proof (erule createInternal_effect)
  fix t s m as row rows ms
  let ?db = "db\<lparr>fd_payments := fd_payments db @ [row], fd_allocations := fd_allocations db @ rows, fd_movements := fd_movements db @ ms\<rparr>"
  assume "db' = reconcileDocumentBalances t as ?db"
  then have "fd_documents db' = update_where (\<lambda>d. \<exists>a\<in>set as. touched t a d) (settle ?db) (fd_documents db)"
    by (simp add: reconcile_settles update_where_def)
  then show "keeps_status X db db'" by (rule keeps_status_update) simp_all
qed

lemma paySale_status: "paySale env c i ps db = Inr db' \<Longrightarrow> keeps_status X db db'"
proof (induction ps arbitrary: db)
  case (Cons p ps)
  then obtain db1 r where "createInternal (sv_fin env) (buildFinanceActor c) (sale_payment_payload (fx_pos c) i p) db = Inr (db1, r)"
    "paySale env c i ps db1 = Inr db'" by (auto simp: and_then_Inr)
  then show ?case using createInternal_status Cons.IH keeps_status_trans by blast
qed (simp add: keeps_status_same)

lemma refreshOrder_status: "keeps_status X (so_fin db) (so_fin (refreshOrderStatus j u db))"
proof -
  have e: "fd_documents (so_fin (refreshOrderStatus j u db)) = update_where (is_document D_ORDER j u)
      (\<lambda>d. d\<lparr>dc_status := order_status (filter (\<lambda>i. oi_orderId i = j) (so_orderItems db))\<rparr>) (fd_documents (so_fin db))"
    by (simp add: refreshOrderStatus_def)
  show ?thesis by (rule keeps_status_update [OF e]) (auto simp: is_document_def)
qed

lemma finalize_status: "keeps_status {(i, t)} (so_fin db) (so_fin (finalizeSale i t db))"
proof -
  let ?fin = "syncSaleFinancialState i t (so_fin db)"
  have "keeps_status {(i, t)} (so_fin db) ?fin"
    by (rule keeps_status_update [OF sync_sale_documents]) simp_all
  moreover have "keeps_status {(i, t)} ?fin (so_fin (updateSaleStatus i t ''CONFIRMED'' (db\<lparr>so_fin := ?fin\<rparr>)))"
    by (rule keeps_status_update [OF status_documents]) (auto simp: is_document_def)
  ultimately show ?thesis unfolding finalizeSale_def by (rule keeps_status_trans)
qed

lemma finalize_status_of: "so_fin db = fin \<Longrightarrow> keeps_status {(i, t)} fin (so_fin (finalizeSale i t db))"
  using finalize_status by blast

lemma settle_sale_documents:
  "fd_documents (so_fin (settle_sale i t acc paid bal db)) = update_where (is_document D_SALE i t) (\<lambda>d. d\<lparr>dc_total := acc,
     dc_balance := Some bal, dc_totalPaid := paid, dc_balanceDue := Some bal, dc_paymentStatus := payment_state paid acc\<rparr>) (fd_documents (so_fin db))"
  by (simp add: settle_sale_def)

lemma create_function_status:
  assumes "inventory_create_sale_v2 env ctx customer order type items methods db = Inr (i, db')" shows "keeps_status X (so_fin db) (so_fin db')"
  using assms
proof (rule create_function_shape)
  fix acc payments and db1 db2 db3 :: sale_db
  let ?s = "settle_sale i (sc_tenantId ctx) acc (paid_of type acc payments) (due_of type acc payments) db3"
  assume ins: "insert_sale env ctx i customer order type db = Inr db1" and sell: "sell_items env ctx i order items 0 db1 = Inr (acc, db2)"
    and m: "insert_methods env (sc_tenantId ctx) i methods 0 db2 = Inr (payments, db3)"
    and db': "db' = (case order of None \<Rightarrow> ?s | Some o' \<Rightarrow> refreshOrderStatus o' (sc_tenantId ctx) ?s)"
  have "keeps_status X (so_fin db) (so_fin db1)" by (rule insert_sale_shape [OF ins]) (rule keeps_status_append, simp)
  moreover have "so_fin db3 = so_fin db1"
    using sell_items_rows [OF sell] insert_methods_shape [OF m] by (auto simp: MONEY_12_2_def)
  moreover have "keeps_status X (so_fin db3) (so_fin ?s)"
    by (rule keeps_status_update [OF settle_sale_documents]) simp_all
  moreover have "keeps_status X (so_fin ?s) (so_fin db')"
    by (cases order) (simp_all add: db' refreshOrder_status keeps_status_same)
  ultimately show ?thesis by (metis keeps_status_trans)
qed

lemma write_sale_status:
  assumes "write_sale env c r lines db = Inr (i, db')"
  shows "keeps_status {(i, sc_tenantId (fx_pos c))} (so_fin db) (so_fin db') \<and> \<not> is_sale i db"
  using assms
proof (rule write_sale_shape)
  fix payments prepared captures items methods scale fin box and db1 :: sale_db
  let ?t = "sc_tenantId (fx_pos c)"
  assume f: "inventory_create_sale_v2 env (fx_pos c) (rq_customerId r) (rq_orderId r) (rq_type r) items methods db = Inr (i, db1)"
    "paySale env c i payments (so_fin db1) = Inr fin"
    and db': "db' = (linkOrderDeliveryToSale ?t (rq_orderId r) i (sc_userId (fx_pos c))
       (finalizeSale i ?t ((set_cash_session (sale_cash_session c payments) i ?t (db1\<lparr>so_scale := scale\<rparr>))\<lparr>so_fin := fin\<rparr>)))\<lparr>so_outbox := box\<rparr>"
  let ?d = "finalizeSale i ?t ((set_cash_session (sale_cash_session c payments) i ?t (db1\<lparr>so_scale := scale\<rparr>))\<lparr>so_fin := fin\<rparr>)"
  have a: "keeps_status {(i, ?t)} (so_fin db) (so_fin db1)" by (rule create_function_status [OF f(1)])
  have b: "keeps_status {(i, ?t)} (so_fin db1) fin" by (rule paySale_status [OF f(2)])
  have d: "keeps_status {(i, ?t)} fin (so_fin ?d)" by (rule finalize_status_of) simp
  have "so_fin db' = so_fin ?d" by (simp add: db' linkOrderDeliveryToSale_def)
  then have "keeps_status {(i, ?t)} (so_fin db) (so_fin db')"
    by (simp only:) (rule keeps_status_trans [OF keeps_status_trans [OF a b] d])
  moreover have "\<not> is_sale i db" using f(1)
  proof (rule created_row)
    assume "\<forall>d\<in>set (fd_documents (so_fin db)). dc_kind d = D_SALE \<longrightarrow> dc_id d \<noteq> i"
    then show ?thesis by (simp add: is_sale_def)
  qed
  ultimately show ?thesis by blast
qed

lemma refund_status: "refund env sale u p a db = Inr db' \<Longrightarrow> keeps_status X db db'"
  by (rule keeps_status_same) (rule refund_docs)

lemma sync_order_documents:
  "fd_documents (syncOrderFinancialState j u db) = update_where (is_document D_ORDER j u) (\<lambda>d. d\<lparr>
     dc_totalPaid := min (dc_total d) (allocated u {R_SALES_ORDER} j db + invoiced u j db),
     dc_balanceDue := Some (max (dc_total d - min (dc_total d) (allocated u {R_SALES_ORDER} j db + invoiced u j db)) 0),
     dc_paymentStatus := payment_state (min (dc_total d) (allocated u {R_SALES_ORDER} j db + invoiced u j db)) (dc_total d)\<rparr>) (fd_documents db)"
  by (simp add: syncOrderFinancialState_def Let_def)

lemma order_status_kept: "keeps_status X db (syncOrderFinancialState j u db)"
  by (rule keeps_status_update [OF sync_order_documents]) simp_all

lemma undo_payment_status: "undo_payment env sale u p db = Inr (b, db') \<Longrightarrow> keeps_status X db db'"
proof -
  assume a: "undo_payment env sale u p db = Inr (b, db')"
  define mine where "mine = filter (is_sale_allocation (dc_id sale)) (allocations_of (pm_id p) db)"
  show ?thesis
  proof (cases "truthy (dc_orderId sale) \<and> pm_referenceType p = R_SALES_ORDER")
    case True
    then have "db' = return_to_order sale mine db" using a by (simp add: undo_payment_def Let_def mine_def)
    then show ?thesis unfolding return_to_order_def
      using keeps_status_trans [OF keeps_status_same order_status_kept] by simp
  next
    case False
    from a obtain db1 where r: "(if b then refund env sale u p (foldl (\<lambda>s a. dbl (s + cents (al_amount a))) 0 mine) db else Inr db) = Inr db1"
      and "fd_documents db' = fd_documents db1"
      by (auto simp: undo_payment_def Let_def False and_then_Inr mine_def delete_allocations_def updatePaymentStatus_def split: if_splits)
    moreover have "fd_documents db1 = fd_documents db" using r by (auto dest: refund_docs split: if_splits)
    ultimately show ?thesis by (simp add: keeps_status_same)
  qed
qed

lemma undo_payments_status: "undo_payments env sale u ps db = Inr (b, db') \<Longrightarrow> keeps_status X db db'"
proof (induction ps arbitrary: db b)
  case (Cons p ps)
  then obtain b1 db1 b2 where "undo_payment env sale u p db = Inr (b1, db1)" "undo_payments env sale u ps db1 = Inr (b2, db')"
    by (auto simp: and_then_Inr)
  then show ?case using undo_payment_status Cons.IH keeps_status_trans by blast
qed (simp add: keeps_status_same)

lemma finalizeCancelled_documents:
  "fd_documents (so_fin (finalizeCancelledSale i t s db)) = update_where (is_document D_SALE i t) (\<lambda>d. d\<lparr>dc_status := s,
     dc_totalPaid := 0, dc_balance := Some 0, dc_balanceDue := Some 0, dc_paymentStatus := ''PENDING''\<rparr>) (fd_documents (so_fin db))"
  by (simp add: finalizeCancelledSale_def)

lemma undo_sale_status:
  assumes "undo_sale env sale u db = Inr db'" "find (is_document D_SALE (dc_id sale) (dc_tenantId sale)) (fd_documents (so_fin db)) = Some sale"
  shows "keeps_status {(dc_id sale, dc_tenantId sale)} (so_fin db) (so_fin db')"
    "\<exists>d. findSale (dc_id sale) (dc_tenantId sale) db' = Some d \<and> cancelled d \<and> dc_totalPaid d = 0"
  using assms(1)
proof (atomize (full), rule undo_sale_shape)
  fix b fin and db1 :: sale_db
  let ?X = "{(dc_id sale, dc_tenantId sale)}" and ?a = "db1\<lparr>so_fin := fin\<rparr>" and ?s = "if b then ''REFUNDED'' else ''CANCELLED''"
  let ?b = "if truthy (dc_orderId sale) then refreshOrderStatus (the (dc_orderId sale)) (dc_tenantId sale) ?a else ?a"
  assume u: "undo_items env sale u (sale_items_of (dc_id sale) (dc_tenantId sale) db) (sale_movements (dc_id sale) (dc_tenantId sale) db) db = Inr db1"
    "undo_payments env sale u (listAllocatedPayments (dc_tenantId sale) (dc_id sale) (so_fin db1)) (so_fin db1) = Inr (b, fin)"
    "db' = finalizeCancelledSale (dc_id sale) (dc_tenantId sale) ?s ?b"
  have keep: "keeps_status X (so_fin db) (so_fin ?b)" for X
  proof -
    have "keeps_status X (so_fin db) (so_fin ?a)" using undo_payments_status [OF u(2)] undo_items_grows [OF u(1)] by simp
    moreover have "keeps_status X (so_fin ?a) (so_fin ?b)"
      by (cases "truthy (dc_orderId sale)") (simp_all only: if_True if_False refreshOrder_status keeps_status_same)
    ultimately show ?thesis by (rule keeps_status_trans)
  qed
  have "keeps_status ?X (so_fin ?b) (so_fin db')"
    unfolding u(3) by (rule keeps_status_update [OF finalizeCancelled_documents]) (auto simp: is_document_def)
  then have "keeps_status ?X (so_fin db) (so_fin db')" by (rule keeps_status_trans [OF keep])
  moreover obtain d where d: "find (is_document D_SALE (dc_id sale) (dc_tenantId sale)) (fd_documents (so_fin ?b)) = Some d"
    using keep [of "{}"] assms(2) unfolding keeps_status_def by blast
  have "is_document D_SALE (dc_id sale) (dc_tenantId sale) d" using find_in [OF d] by simp
  then have "findSale (dc_id sale) (dc_tenantId sale) db' = Some (d\<lparr>dc_status := ?s, dc_totalPaid := 0, dc_balance := Some 0,
      dc_balanceDue := Some 0, dc_paymentStatus := ''PENDING''\<rparr>)"
    unfolding findSale_def u(3) finalizeCancelled_documents by (subst find_document_update) (simp_all add: d)
  then have "\<exists>d. findSale (dc_id sale) (dc_tenantId sale) db' = Some d \<and> cancelled d \<and> dc_totalPaid d = 0" by (simp add: cancelled_def)
  ultimately show "keeps_status ?X (so_fin db) (so_fin db') \<and>
      (\<exists>d. findSale (dc_id sale) (dc_tenantId sale) db' = Some d \<and> cancelled d \<and> dc_totalPaid d = 0)" by blast
qed

text \<open>A cancelled sale is found cancelled after every request.\<close>

lemma sale_step_cancelled:
  assumes "findSale i t db = Some d" "cancelled d"
  shows "\<exists>d'. findSale i t (sale_step db x) = Some d' \<and> cancelled d'"
proof -
  have kept: "\<exists>d'. findSale i t db' = Some d' \<and> cancelled d'" if "keeps_status X (so_fin db) (so_fin db')" "(i, t) \<notin> X" for X db'
    using that assms unfolding keeps_status_def findSale_def cancelled_def by metis
  have sale: "is_sale i db" using assms(1) by (rule findSale_is_sale)
  show ?thesis
  proof (cases x)
    case (New_Sale env r ctx header)
    obtain v db' where c: "createSale env r ctx header db = (v, db')" by fastforce
    then have "\<exists>d'. findSale i t db' = Some d' \<and> cancelled d'"
    proof (cases rule: createSale_cases)
      case (committed c lines key j)
      from committed(4) show ?thesis
      proof (cases rule: sale_transaction_cases)
        case plain
        then show ?thesis using write_sale_status sale kept by fastforce
      next
        case (keyed k row db1 db2)
        have s: "is_sale i db1" using sale by (simp add: keyed(4))
        with write_sale_status [OF keyed(5)] have "keeps_status {(j, sc_tenantId (fx_pos c))} (so_fin db) (so_fin db')" "j \<noteq> i"
          by (auto simp: keyed(4) complete_shape [OF keyed(6)])
        then show ?thesis using kept by blast
      qed (use assms in auto)
    qed (use assms in simp)
    then show ?thesis by (simp add: New_Sale c)
  next
    case (Cancel_Sale env j a)
    show ?thesis
    proof (cases "cancelSale env j a db")
      case (Inr sd)
      obtain s db' where sd: "sd = (s, db')" by fastforce
      have "\<exists>d'. findSale i t db' = Some d' \<and> cancelled d'"
        using Inr [unfolded sd]
      proof (cases rule: cancelSale_cases)
        case (undo u sale)
        have ids: "dc_id sale = j" "dc_tenantId sale = u" using identity_find [OF undo(2)] by simp_all
        have "\<not> cancelled sale" using undo(3) by (auto simp: cancelled_def)
        then have "(i, t) \<noteq> (j, u)" using undo(2) assms by auto
        moreover have "keeps_status {(j, u)} (so_fin db) (so_fin db')"
          using undo_sale_status(1) [OF undo(4)] undo(2) unfolding ids findSale_def by simp
        ultimately show ?thesis using kept by blast
      qed (use assms in auto)
      then show ?thesis by (simp add: Cancel_Sale Inr sd)
    qed (use assms in \<open>simp add: Cancel_Sale\<close>)
  qed
qed

lemma run_sales_cancelled: "findSale i t db = Some d \<Longrightarrow> cancelled d \<Longrightarrow> \<exists>d'. findSale i t (run_sales xs db) = Some d' \<and> cancelled d'"
proof (induction xs arbitrary: db d)
  case (Cons x xs)
  from sale_step_cancelled [OF Cons.prems] obtain d' where "findSale i t (sale_step db x) = Some d'" "cancelled d'" by blast
  from Cons.IH [OF this] show ?case by (simp add: run_sales_def)
qed (simp add: run_sales_def)

text \<open>
  Property C7: a cancellation is final. A sale that was cancelled stays cancelled whatever sales are
  created and cancelled afterwards, and cancelling it again answers it and writes nothing.
\<close>

theorem cancellation_final:
  assumes "cancelSale env i a db = Inr (s, db')"
  shows "cancelled s \<and> (\<exists>s'. cancelSale env' i a (run_sales xs db') = Inr (s', run_sales xs db') \<and> cancelled s' \<and> dc_id s' = dc_id s)"
proof -
  have "\<exists>t d. bs_tenantId a = Some t \<and> findSale i t db' = Some s \<and> cancelled s \<and> findSale i t db = Some d \<and>
      resolveSaleScope a (Some t) (dc_branchId d) db = Inr () \<and> dc_tenantId d = t"
    using assms
  proof (cases rule: cancelSale_cases)
    case (again t)
    have "dc_tenantId s = t" using identity_find [OF again(2)] by simp
    moreover from this have "resolveSaleScope a (Some t) (dc_branchId s) db = Inr ()"
      using assms by (auto simp: cancelSale_def again(1,2) and_then_Inr)
    ultimately show ?thesis using again by blast
  next
    case (undo t sale)
    have ids: "dc_id sale = i" "dc_tenantId sale = t" using identity_find [OF undo(2)] by simp_all
    have "resolveSaleScope a (Some t) (dc_branchId sale) db = Inr ()" using assms by (auto simp: cancelSale_def undo(1,2) and_then_Inr ids)
    moreover have "cancelled s" using undo_sale_status(2) [OF undo(4)] undo(2,5) unfolding ids findSale_def by auto
    ultimately show ?thesis using undo ids by auto
  qed
  then obtain t d where t: "bs_tenantId a = Some t" "findSale i t db' = Some s" "cancelled s" "findSale i t db = Some d"
    "resolveSaleScope a (Some t) (dc_branchId d) db = Inr ()" by blast
  let ?db = "run_sales xs db'"
  from run_sales_cancelled [OF t(2,3)] obtain s' where s': "findSale i t ?db = Some s'" "cancelled s'" by blast
  have g: "grows db ?db" using cancelSale_grows [OF assms] run_sales_grows grows_trans by blast
  from find_document_grows [OF _ t(4) [unfolded findSale_def], of "so_fin ?db"] g obtain d' where
    d': "findSale i t ?db = Some d'" "identity d' = identity d" unfolding grows_def findSale_def by blast
  then have "dc_branchId s' = dc_branchId d" "dc_tenantId s' = t" using s'(1) identity_find [OF s'(1)] by (auto simp: identity_def)
  then have "cancelSale env' i a ?db = Inr (s', ?db)"
    using t(1,5) s' scope_grows [OF g] by (simp add: cancelSale_def)
  moreover have "dc_id s' = dc_id s" using identity_find [OF s'(1)] identity_find [OF t(2)] by simp
  ultimately show ?thesis using t(3) s'(2) by blast
qed

end
