(* ===== verification/Sale_Examples.thy ===== *)
theory Sale_Examples
  imports Sale_Undo Stock_Requests
begin

section \<open>A sale at a small shop\<close>

text \<open>
  One product without taxes, at 100.00, with five units in stock; one payment method; an open session
  of a point of sale. The sale of one unit in cash, its repetition, its cancellation and a credit
  sale show that the hypotheses of the properties of sales can hold.
\<close>

subsection \<open>The shop\<close>

definition shop_host :: text_host where
  "shop_host = \<lparr>date_parse = (\<lambda>_. Some 5), iso_string = (\<lambda>_. ''d''), locale_compare = (\<lambda>_ _. 0), sha256_hex = id,
     number_text = (\<lambda>_. ''n''), number_of = (\<lambda>_. NaN), json_parse = (\<lambda>_. None), type_error = ''e''\<rparr>"

abbreviation shop :: string where "shop \<equiv> uid (CHR ''1'')"
abbreviation branch :: string where "branch \<equiv> uid (CHR ''2'')"
abbreviation soap :: string where "soap \<equiv> uid (CHR ''3'')"
abbreviation till :: string where "till \<equiv> uid (CHR ''4'')"
abbreviation seller :: string where "seller \<equiv> uid (CHR ''8'')"
abbreviation sale1 :: string where "sale1 \<equiv> uid (CHR ''7'')"

definition shop_pricing :: pricing_db where
  "shop_pricing = \<lparr>promotions = [], promotion_products = [], promotion_branches = [], tenant_products = [], tenant_branches = [],
     product_rows = [\<lparr>rw_id = soap, rw_tenant_id = shop, rw_price = 100, rw_price_with_tax = None,
       rw_price_without_tax = None, rw_tax_id = None, rw_tax_rate = None, rw_tax_is_included = None,
       rw_tax_name = None, rw_tax_type_dian_code = None, rw_tax_type_code = None,
       rw_calculation_method_code = None, rw_tax_base_type_code = None, rw_is_active = True\<rparr>],
     list_product_taxes = (\<lambda>_ _ _. []), get_tax_profile = (\<lambda>_ _. None), proposed_tax_rows = (\<lambda>_ _ _ _. [])\<rparr>"

definition shop_fin :: fin_db where
  "shop_fin = \<lparr>fd_payments = [], fd_allocations = [], fd_movements = [], fd_documents = [], fd_sessions = [], fd_operations = [],
     fd_users = [(seller, shop, ''ACTIVE'')], fd_branches = [(branch, shop, ''ACTIVE'')], fd_userBranches = [], fd_persons = [],
     fd_methods = [\<lparr>me_id = ''m'', me_tenantId = shop, me_tipo = ''BANK'', me_active = True, me_requiresReference = False,
       me_requiresInstitution = False\<rparr>], fd_institutions = [], fd_assignments = []\<rparr>"

definition shop_entry :: movement_row where
  "shop_entry = \<lparr>mv_id = uid (CHR ''5''), mv_tenantId = shop, mv_productId = soap, mv_in = True, mv_quantity = 5000,
     mv_referenceType = ''ADJUSTMENT'', mv_referenceId = uid (CHR ''6''), mv_branchId = Some branch, mv_terminalId = None,
     mv_posSessionCode = None, mv_userId = None, mv_referenceTable = Some ''stock_adjustments'', mv_before = 0, mv_after = 5000,
     mv_createdAt = 1\<rparr>"

definition shop_inv :: inv_db where
  "shop_inv = \<lparr>iv_products = [\<lparr>sp_id = soap, sp_tenantId = shop, sp_cost = None, sp_requiresLot = False, sp_requiresExpiration = False\<rparr>],
     iv_branches = [(branch, shop)], iv_locations = [], iv_access = [(seller, shop, branch)], iv_suppliers = [], iv_purchases = [],
     iv_purchaseItems = [], iv_lots = [], iv_balances = [], iv_movements = [shop_entry], iv_links = []\<rparr>"

definition shop_scale :: scale_db where
  "shop_scale = \<lparr>sd_bindings = [], sd_captures = [], sd_credentials = [], sd_devices = [], sd_posTerminals = [],
     sd_terminals = [\<lparr>tm_id = till, tm_tenantId = shop, tm_branchId = branch, tm_active = True\<rparr>],
     sd_deviceBindings = [], sd_settings = [], sd_sales = [],
     sd_sessions = [\<lparr>pos_session_row.ps_id = ''x'', ps_tenantId = shop, ps_branchId = branch, ps_terminalId = till, ps_userId = seller, ps_active = True\<rparr>],
     sd_products = [\<lparr>wp_id = soap, wp_tenantId = shop, wp_active = True, wp_saleType = ''UNIT'', wp_measurementUnit = ''UNIT''\<rparr>],
     sd_saleWeights = []\<rparr>"

definition shop_db :: sale_db where
  "shop_db = \<lparr>so_fin = shop_fin, so_inv = shop_inv, so_scale = shop_scale, so_pricing = shop_pricing, so_sales = [], so_items = [],
     so_taxes = [], so_methods = [], so_keys = [], so_orderItems = [], so_customers = [(''c'', shop, True)], so_taxNames = [],
     so_methodNames = [], so_deliveries = [], so_current = [], so_outbox = []\<rparr>"

definition shop_id :: "string \<Rightarrow> nat \<Rightarrow> string" where
  "shop_id table n = (if table = ''stock_movements'' then uid (if n = 1 then CHR ''9'' else CHR ''a'')
     else if table = ''sales'' then sale1 else ''i'')"

definition shop_env :: sale_env where
  "shop_env = \<lparr>sv_scale = \<lparr>se_host = host.truncate shop_host, se_now = 5, se_uuid = ''g'', se_nonce = [], se_column = (\<lambda>x. Some \<lfloor>x * 1000000\<rfloor>)\<rparr>,
     sv_fin = \<lparr>fe_host = shop_host, fe_now = 5, fe_uuid = decimal, fe_money = round_14_2\<rparr>,
     sv_inv = \<lparr>iv_host = host.truncate shop_host, iv_now = 5, iv_today = 20260601, iv_currentDate = 20260601, iv_uuid = decimal,
       iv_quantity = round_14_3, iv_cost = (\<lambda>x. Some (js_round (x * 100)))\<rparr>,
     sv_text = shop_host, sv_id = shop_id, sv_round = (\<lambda>_. round_14_3), sv_rate = (\<lambda>x. Some (js_round (x * 10000))),
     sv_bill = (\<lambda>_ db. Inr (so_outbox db))\<rparr>"

definition shop_request :: "string \<Rightarrow> rat \<Rightarrow> rat \<Rightarrow> sale_request" where
  "shop_request type price paid = \<lparr>rq_customerId = ''c'', rq_orderId = None, rq_type = type,
     rq_items = [JObj [(''productId'', JStr soap), (''quantity'', JNum 1), (''price'', JNum price)]],
     rq_payments = [\<lparr>cp_methodId = ''m'', cp_amount = paid, cp_cashSessionId = None, cp_institutionId = None, cp_referenceNumber = None, cp_notes = None\<rparr>]\<rparr>"

definition shop_context :: raw_context where
  "shop_context = \<lparr>rc_tenantId = Some shop, rc_userId = Some seller, rc_branchId = Some branch, rc_terminalId = Some till,
     rc_posSessionId = Some ''x'', rc_cashSessionId = None, rc_sessionId = None, rc_roles = [''SUPER_USER'']\<rparr>"

definition shop_full :: full_context where
  "shop_full = full_of shop_context branch till ''x''"

lemma shop_numbers:
  "dbl 1 = 1" "dbl 100 = 100" "round_money 100 = 100" "round_money 0 = 0" "roundCurrency 100 = 100" "roundCurrency 0 = 0" "roundQuantity 1 2 = 1"
  "round_14_2 100 = Some 10000" "round_14_2 0 = Some 0" "round_14_3 1 = Some 1000" "js_round 0 = 0" "cents 10000 = 100" "cents 0 = 0"
  "to_fixed2 100 = 100" "to_fixed2 0 = 0" "round_money 40 = 40" "round_14_2 40 = Some 4000" "dbl 40 = 40" "cents 6000 = 60" "to_fixed2 40 = 40"
  "milli 1000 = 1" "milli 4000 = 4" "round_14_3 4 = Some 4000" "round_14_3 5 = Some 5000" "dbl 5 = 5" "dbl 0 = 0" "cents 4000 = 40"
  by code_simp+

definition shop_preview :: line_preview where
  "shop_preview = \<lparr>lp_productId = soap, lp_quantity = 1, lp_baseUnitPrice = 100, lp_finalUnitPrice = 100, lp_discountAmount = 0,
     lp_discountPercent = 0, lp_appliedPromotionId = None, lp_appliedPromotionName = None, lp_taxId = None, lp_taxRate = 0,
     lp_taxBase = 100, lp_taxAmount = 0, lp_taxes = [], lp_lineSubtotal = 100, lp_lineTotal = 100,
     lp_explanation = ''products.price is treated as the visible unit price with tax included; no active promotion applies.''\<rparr>"

definition shop_line :: prepared_item where
  "shop_line = \<lparr>pr_saleItemId = ''i'', pr_productId = soap, pr_weight = False, pr_quantity = 1, pr_price = 100, pr_orderItemId = None\<rparr>"

lemma shop_rates: "normalizeRate 0 = 0" "js_round 10000 = 10000" "dbl 10000 = 10000" by code_simp+

lemma shop_ids: "js_trim (uid (CHR ''1'')) = uid (CHR ''1'')" "js_trim (uid (CHR ''2'')) = uid (CHR ''2'')" "js_trim (uid (CHR ''3'')) = uid (CHR ''3'')"
  by code_simp+

lemma shop_input: "assertInput (host.truncate shop_host) (price_input shop_env (fx_pos shop_full) shop_line) = Inr ()"
  by (simp add: assertInput_def price_input_def trimmed_def shop_full_def full_of_def shop_context_def shop_line_def shop_ids
      shop_host_def host.truncate_def)

lemma shop_breakdown: "calculatePercentageOnlyBreakdown p 1 100 =
    \<lparr>bd_taxId = None, bd_taxRate = 0, bd_taxBase = 100, bd_taxAmount = 0, bd_taxes = [], bd_lineSubtotal = 100, bd_lineTotal = 100\<rparr>"
  if "ps_taxes p = []" "ps_taxId p = None"
  using that by (simp add: calculatePercentageOnlyBreakdown_def getBridgePercentageTax_def getAssignedTaxes_def shop_numbers shop_rates
      resolveLineTaxBase_def)

definition shop_snapshot :: product_snapshot where
  "shop_snapshot = \<lparr>ps_id = soap, ps_tenantId = shop, ps_price = 100, ps_priceWithTax = None, ps_priceWithoutTax = None, ps_taxId = None,
     ps_taxRate = 0, ps_taxIsIncluded = False, ps_taxes = [], ps_taxProfile = None, ps_isActive = True\<rparr>"

lemma shop_product: "findProductSnapshot shop_pricing shop soap d = Some shop_snapshot"
  by (simp add: findProductSnapshot_def shop_pricing_def shop_snapshot_def fallbackTaxes_def)

lemma shop_line_price: "calculateLinePreview shop_snapshot 1 (getCustomerUnitPrice shop_snapshot) 0 0 None None (lp_explanation shop_preview) = Inr shop_preview"
proof -
  have p: "getCustomerUnitPrice shop_snapshot = 100" by (simp add: getCustomerUnitPrice_def shop_snapshot_def shop_numbers)
  have "selectBreakdown shop_snapshot 1 100 = Inr (calculatePercentageOnlyBreakdown shop_snapshot 1 100)"
    by (simp add: selectBreakdown_def getAssignedTaxes_def shop_snapshot_def)
  with p shop_breakdown [of shop_snapshot] show ?thesis
    by (simp add: calculateLinePreview_def shop_numbers) (simp add: shop_snapshot_def shop_preview_def)
qed

lemma shop_price: "calculateLinePrice (host.truncate shop_host) 5 shop_pricing (price_input shop_env (fx_pos shop_full) shop_line) = Inr shop_preview"
proof -
  let ?in = "price_input shop_env (fx_pos shop_full) shop_line"
  have i: "li_tenantId ?in = Some shop" "line_input.li_productId ?in = Some soap" "li_quantity ?in = Fin 1" "line_input.li_branchId ?in = Some branch"
    by (simp_all add: price_input_def shop_full_def full_of_def shop_context_def shop_line_def)
  have "ps_isActive shop_snapshot" by (simp add: shop_snapshot_def)
  then have "prepareBaseLine (host.truncate shop_host) 5 shop_pricing ?in 2 =
      Inr (shop_snapshot, 1, resolveDate (host.truncate shop_host) 5 (li_date ?in), shop_preview)"
    using shop_line_price unfolding shop_preview_def line_preview.select_convs
    by (simp add: prepareBaseLine_def shop_input shop_product i shop_numbers Let_def)
  moreover have "findApplicablePromotions (promotion_db.truncate shop_pricing) t b p d = []" for t b p d
    by (simp add: findApplicablePromotions_def shop_pricing_def promotion_db.truncate_def)
  moreover have "selectBestPromotion h [] x = None" for h x by (simp add: selectBestPromotion_def map_filter_def)
  ultimately show ?thesis by (simp add: calculateLinePrice_def calculateLinePriceAtQuantityScale_def)
qed

definition shop_item :: priced_item where
  "shop_item = \<lparr>pi_saleItemId = ''i'', pi_productId = soap, pi_weight = False, pi_quantity = 1, pi_orderItemId = None,
     pi_priceWithoutTax = 100, pi_discountTotal = 0, pi_preview = shop_preview\<rparr>"

lemma shop_priced: "price_item shop_env (fx_pos shop_full) shop_pricing shop_line = Inr shop_item"
proof -
  have e: "se_host (sv_scale shop_env) = host.truncate shop_host" "sv_now shop_env = 5" by (simp_all add: shop_env_def sv_now_def)
  have l: "\<not> pr_weight shop_line" "lp_quantity shop_preview = 1" "lp_taxBase shop_preview = 100" "lp_discountAmount shop_preview = 0"
    by (simp_all add: shop_line_def shop_preview_def)
  show ?thesis
    using shop_price by (simp add: price_item_def e l shop_numbers) (simp add: shop_item_def shop_line_def)
qed

subsection \<open>The sale\<close>

definition shop_lines :: "rat \<Rightarrow> sale_line list" where
  "shop_lines price = [UnitLine soap 1 price None False]"

lemma shop_reads: "type \<in> {''CASH'', ''CREDIT''} \<Longrightarrow> ensureSaleInput (shop_request type price paid) = Inr (shop_lines price)"
  by (auto simp: ensureSaleInput_def shop_request_def readLine_def string_of_def number_of_field_def has_own_def jfield_def shop_lines_def)

lemma shop_places: "normalizeSaleContext shop_context db = Inr shop_full"
  by (simp add: normalizeSaleContext_def shop_context_def shop_full_def)

definition shop_row :: sale_item_row where
  "shop_row = \<lparr>si_id = ''i'', si_tenantId = shop, si_saleId = sale1, si_productId = soap, si_orderItemId = None, si_weight = False,
     si_quantity = 1000, si_price = 10000, si_priceWithoutTax = 10000, si_taxTotal = 0, si_subtotal = 10000, si_baseUnitPrice = 10000,
     si_discountAmount = 0, si_discountPercent = 0, si_discountTotal = 0, si_promotionId = None, si_promotionName = None,
     si_taxBase = 10000, si_snapshot = shop_preview, si_createdAt = 5\<rparr>"

definition shop_exit :: movement_row where
  "shop_exit = \<lparr>mv_id = uid (CHR ''9''), mv_tenantId = shop, mv_productId = soap, mv_in = False, mv_quantity = 1000,
     mv_referenceType = ''SALE'', mv_referenceId = sale1, mv_branchId = Some branch, mv_terminalId = Some till,
     mv_posSessionCode = Some ''x'', mv_userId = Some seller, mv_referenceTable = Some ''sales'', mv_before = 5000, mv_after = 4000,
     mv_createdAt = 5\<rparr>"

definition shop_document :: "string \<Rightarrow> string \<Rightarrow> int \<Rightarrow> int \<Rightarrow> string \<Rightarrow> document_row" where
  "shop_document type status paid balance state = \<lparr>dc_kind = D_SALE, dc_id = sale1, dc_tenantId = shop, dc_branchId = Some branch, dc_status = status,
      dc_cash = (type = ''CASH''), dc_orderId = None, dc_partyId = Some ''c'', dc_total = 10000, dc_totalPaid = paid,
      dc_balance = Some balance, dc_balanceDue = Some balance, dc_paymentStatus = state\<rparr>"

lemma shop_sold_row: "sale_item shop_env (fx_pos shop_full) sale1 (shop_item\<lparr>pi_orderItemId := None\<rparr>) 1000 = Inr shop_row"
  by (simp add: sale_item_def shop_item_def shop_preview_def cast_money_def cast_rate_def shop_env_def shop_numbers non_negative_def
      shop_row_def shop_full_def full_of_def shop_context_def sv_now_def not_blank_def)

text \<open>The database after the sale is inserted, and after its item is sold.\<close>

definition shop_columns :: sale_columns where
  "shop_columns = \<lparr>sx_id = sale1, sx_tenantId = shop, sx_terminalId = till, sx_userId = seller, sx_posSessionId = ''x'',
     sx_cashSessionId = None, sx_createdAt = 5\<rparr>"

definition shop_scale_sale :: sale_row where
  "shop_scale_sale = \<lparr>sl_id = sale1, sl_tenantId = shop, sl_branchId = branch, sl_terminalId = till, sl_posSessionId = ''x''\<rparr>"

abbreviation shop_ctx :: sale_context where
  "shop_ctx \<equiv> fx_pos shop_full"

lemma shop_ctx [simp]: "sc_tenantId shop_ctx = shop" "sc_userId shop_ctx = seller" "sc_branchId shop_ctx = branch" "sc_terminalId shop_ctx = till"
  "sc_posSessionId shop_ctx = ''x''" "fx_cashSessionId shop_full = None" "fx_sessionId shop_full = None" "fx_roles shop_full = [''SUPER_USER'']"
  by (simp_all add: shop_full_def full_of_def shop_context_def)

definition shop_drawn :: "string \<Rightarrow> sale_key_row list \<Rightarrow> sale_db" where
  "shop_drawn type ks = shop_db\<lparr>so_keys := ks, so_scale := shop_scale\<lparr>sd_sales := [shop_scale_sale]\<rparr>,
     so_fin := shop_fin\<lparr>fd_documents := [sale_document shop_ctx sale1 ''c'' None type]\<rparr>, so_sales := [shop_columns]\<rparr>"

definition shop_stock :: inv_db where
  "shop_stock = shop_inv\<lparr>iv_movements := [shop_entry, shop_exit]\<rparr>"

definition shop_sold :: "string \<Rightarrow> sale_key_row list \<Rightarrow> sale_db" where
  "shop_sold type ks = (shop_drawn type ks)\<lparr>so_items := [shop_row], so_inv := shop_stock\<rparr>"

lemma shop_tables [simp]:
  "so_fin shop_db = shop_fin" "so_inv shop_db = shop_inv" "so_scale shop_db = shop_scale" "so_sales shop_db = []" "so_items shop_db = []"
  "so_taxes shop_db = []" "so_keys shop_db = []" "so_pricing shop_db = shop_pricing" "so_methods shop_db = []" "so_deliveries shop_db = []"
  "so_customers shop_db = [(''c'', shop, True)]" "so_orderItems shop_db = []" "so_methodNames shop_db = []" "so_outbox shop_db = []"
  "fd_documents shop_fin = []" "fd_payments shop_fin = []" "fd_allocations shop_fin = []" "fd_movements shop_fin = []" "sd_sales shop_scale = []"
  "fd_sessions shop_fin = []" "fd_assignments shop_fin = []"
  "iv_movements shop_inv = [shop_entry]" "iv_balances shop_inv = []" "iv_links shop_inv = []" "iv_lots shop_inv = []"
  by (simp_all add: shop_db_def shop_fin_def shop_scale_def shop_inv_def)

lemma shop_session: "validateActivePosSession (shop_scale\<lparr>sd_sales := x\<rparr>) shop_ctx" "validateActivePosSession shop_scale shop_ctx"
  by (simp_all add: validateActivePosSession_def shop_scale_def)

lemma shop_insert: "insert_sale shop_env shop_ctx sale1 ''c'' None type (shop_db\<lparr>so_keys := ks\<rparr>) = Inr (shop_drawn type ks)"
  by (simp add: insert_sale_def insertSale_def shop_drawn_def shop_columns_def shop_scale_sale_def shop_env_def sv_now_def)

lemma shop_checked: "check_context shop_ctx ''c'' None type (shop_db\<lparr>so_keys := ks\<rparr>) = Inr ()" if "type \<in> {''CASH'', ''CREDIT''}"
  using that by (auto simp: check_context_def validateActivePosSession_def validateCustomer_def findBranchById_def findUserById_def shop_fin_def shop_scale_def)

lemma shop_stock_sum: "stock_sum soap shop (Some branch) shop_inv = 5000"
  by (simp add: stock_sum_def shop_entry_def signed_quantity_def)

lemma shop_sells: "sell_item shop_env shop_ctx sale1 None shop_item (shop_drawn type ks) = Inr (10000, shop_sold type ks)"
proof -
  have "item_quantity shop_env shop_item = Inr 1000"
    by (simp add: item_quantity_def shop_item_def shop_env_def shop_numbers)
  moreover have "active_product shop soap (shop_drawn type ks) =
      Some \<lparr>sp_id = soap, sp_tenantId = shop, sp_cost = None, sp_requiresLot = False, sp_requiresExpiration = False\<rparr>"
    by (simp add: active_product_def findProduct_def shop_drawn_def shop_scale_def findProductPolicy_def shop_inv_def)
  moreover have "sale_movement shop_env shop_ctx sale1 soap 1000 shop_inv = shop_exit"
    by (simp add: sale_movement_def shop_stock_sum shop_exit_def shop_env_def shop_id_def sv_now_def)
  moreover have "insert_movement shop_exit shop_inv = Inr shop_stock"
    by (simp add: insert_movement_def shop_exit_def shop_entry_def shop_stock_def)
  moreover have "insert_item shop_env shop_row (shop_drawn type ks) = Inr ((shop_drawn type ks)\<lparr>so_items := [shop_row]\<rparr>)"
    by (simp add: insert_item_def shop_drawn_def item_taxes_def shop_row_def shop_preview_def not_blank_def)
  moreover have "pi_productId shop_item = soap" "pi_orderItemId shop_item = None" "so_inv (shop_drawn type ks) = shop_inv"
    by (simp_all add: shop_item_def shop_drawn_def)
  moreover have "si_subtotal shop_row = 10000" by (simp add: shop_row_def)
  ultimately show ?thesis
    using shop_sold_row
    by (simp add: sell_item_def not_blank_def check_order_item_def shop_stock_sum check_lots_def consume_fefo_def advance_order_def shop_sold_def)
qed

text \<open>The two sales: in cash with 100.00, or on credit with a first payment of 40.00.\<close>

definition shop_case :: "string \<Rightarrow> rat \<Rightarrow> int \<Rightarrow> bool" where
  "shop_case type x n \<longleftrightarrow> type = ''CASH'' \<and> x = 100 \<and> n = 10000 \<or> type = ''CREDIT'' \<and> x = 40 \<and> n = 4000"

definition shop_method :: "int \<Rightarrow> sale_method_row" where
  "shop_method n = \<lparr>sm_tenantId = shop, sm_saleId = sale1, sm_method = ''TRANSFER'', sm_amount = n, sm_reference = None\<rparr>"

definition shop_state :: "int \<Rightarrow> string" where
  "shop_state n = (if n = 10000 then ''PAID'' else ''PARTIAL'')"

definition shop_settled :: "string \<Rightarrow> int \<Rightarrow> sale_key_row list \<Rightarrow> sale_db" where
  "shop_settled type n ks = (shop_sold type ks)\<lparr>so_methods := [shop_method n],
     so_fin := shop_fin\<lparr>fd_documents := [shop_document type ''DRAFT'' n (10000 - n) (shop_state n)]\<rparr>\<rparr>"

definition shop_legacy :: "rat \<Rightarrow> legacy_method" where
  "shop_legacy x = \<lparr>lm_method = ''TRANSFER'', lm_amount = x, lm_reference = None\<rparr>"

lemma shop_function: "inventory_create_sale_v2 shop_env shop_ctx ''c'' None type [shop_item] [shop_legacy x] (shop_db\<lparr>so_keys := ks\<rparr>) =
    Inr (sale1, shop_settled type n ks)" if c: "shop_case type x n"
proof -
  have i: "sv_id shop_env ''sales'' 0 = sale1" by (simp add: shop_env_def shop_id_def)
  have t: "type \<in> {''CASH'', ''CREDIT''}" using c by (auto simp: shop_case_def)
  have f: "fe_money (sv_fin shop_env) = round_14_2" by (simp add: shop_env_def)
  have m: "insert_methods shop_env shop sale1 [shop_legacy x] 0 (shop_sold type ks) =
      Inr (n, (shop_sold type ks)\<lparr>so_methods := [shop_method n]\<rparr>)"
    using c by (auto simp: shop_case_def shop_legacy_def cast_money_def f shop_numbers MONEY_12_2_def shop_method_def not_blank_def
        shop_sold_def shop_drawn_def)
  have d: "so_fin (shop_sold type ks) = shop_fin\<lparr>fd_documents := [sale_document shop_ctx sale1 ''c'' None type]\<rparr>"
    by (simp add: shop_sold_def shop_drawn_def)
  show ?thesis
    using c by (auto simp: inventory_create_sale_v2_def i shop_checked [OF t] shop_insert shop_sells MONEY_12_2_def m Let_def shop_case_def
        settle_sale_def d sale_document_def update_where_def is_document_def shop_settled_def shop_document_def shop_state_def payment_state_def
        simp del: insert_methods.simps)
qed

subsection \<open>Its payment\<close>

lemma shop_digit: "decimal 0 = ''0''" by code_simp

definition shop_paid :: "rat \<Rightarrow> sale_payment" where
  "shop_paid x = \<lparr>cp_methodId = ''m'', cp_amount = x, cp_cashSessionId = None, cp_institutionId = None, cp_referenceNumber = None, cp_notes = None\<rparr>"

definition shop_payment :: "int \<Rightarrow> payment_row" where
  "shop_payment n = \<lparr>pm_id = ''0'', pm_tenantId = shop, pm_branchId = branch, pm_methodId = ''m'', pm_cashSessionId = None, pm_institutionId = None,
     pm_referenceType = R_SALE, pm_referenceId = sale1, pm_in = True, pm_status = PAY_COMPLETED, pm_amount = n, pm_referenceNumber = None,
     pm_notes = None, pm_paidByPersonId = None, pm_createdBy = seller, pm_createdAt = 5\<rparr>"

definition shop_allocation :: "int \<Rightarrow> allocation_row" where
  "shop_allocation n = \<lparr>al_id = ''0'', al_paymentId = ''0'', al_referenceType = R_SALE, al_referenceId = sale1, al_amount = n, al_createdAt = 5\<rparr>"

definition shop_balance :: "string \<Rightarrow> int \<Rightarrow> int" where
  "shop_balance type n = (if type = ''CASH'' then 0 else 10000 - n)"

definition shop_fin_paid :: "string \<Rightarrow> string \<Rightarrow> int \<Rightarrow> fin_db" where
  "shop_fin_paid type status n = shop_fin\<lparr>fd_payments := [shop_payment n], fd_allocations := [shop_allocation n],
     fd_documents := [shop_document type status n (shop_balance type n) (shop_state n)]\<rparr>"

lemma shop_actor [simp]: "buildFinanceActor shop_full = \<lparr>fa_userId = seller, fa_tenantId = shop, fa_roles = [''SUPER_USER'']\<rparr>"
  by (simp add: buildFinanceActor_def)

lemma shop_allocations: "resolveAllocations shop (sale_payment_payload shop_ctx sale1 (shop_paid x)) (so_fin (shop_settled type n ks)) =
    Inr [\<lparr>ai_type = R_SALE, ai_id = sale1, ai_amount = x\<rparr>]" if "shop_case type x n"
  using that
  by (auto simp: shop_case_def resolveAllocations_def sale_payment_payload_def shop_paid_def resolveReferenceDocument_def findReferenceDocument_def
      shop_settled_def is_document_def shop_document_def in_branch_def computeDueBefore_def documentBalance_def
      sumAllocatedForReference_def allocated_def shop_numbers buildRequestedAllocations_def checkAmounts_def aggregateAllocations_def aggregate_step_def)

lemma shop_registers: "\<exists>r. createInternal (sv_fin shop_env) (buildFinanceActor shop_full) (sale_payment_payload shop_ctx sale1 (shop_paid x))
    (so_fin (shop_settled type n ks)) = Inr (shop_fin_paid type ''DRAFT'' n, r)" if c: "shop_case type x n"
proof -
  let ?p = "sale_payment_payload shop_ctx sale1 (shop_paid x)" and ?db = "so_fin (shop_settled type n ks)"
  let ?a = "buildFinanceActor shop_full"
  have d: "?db = shop_fin\<lparr>fd_documents := [shop_document type ''DRAFT'' n (10000 - n) (shop_state n)]\<rparr>" by (simp add: shop_settled_def)
  have p: "cr_tenantId ?p = None" "cr_branchId ?p = branch" "cr_methodId ?p = ''m''" "cr_cashSessionId ?p = None" "cr_institutionId ?p = None"
    "cr_type ?p = R_SALE" "cr_id ?p = sale1" "cr_in ?p" "cr_personId ?p = None" "cr_amount ?p = x" "cr_status ?p = Some PAY_COMPLETED"
    "cr_referenceNumber ?p = None" "cr_notes ?p = None"
    by (simp_all add: sale_payment_payload_def shop_paid_def)
  have "canAdminPayments ?a" by (simp add: canAdminPayments_def canManageTenant_def)
  then have "assertActiveUser ?a shop ?db = Inr ()" "assertBranchScope ?a shop branch ?db = Inr ()"
    by (simp_all add: assertActiveUser_def findUserById_def assertBranchScope_def findBranchById_def d shop_fin_def)
  moreover obtain m where "resolveMethod shop ?p ?db = Inr m" "me_tipo m = ''BANK''"
    by (simp add: resolveMethod_def findMethodById_def p d shop_fin_def)
  moreover have "checkSession ?a shop ?p m ?db = Inr None" if "me_tipo m = ''BANK''" for m
    using that by (simp add: checkSession_def requestedSession_def p resolveImplicitCashSession_def findCurrentByUser_def findOpenByBranch_def
        latest_session_def d)
  moreover have "checkDirection ?p = Inr ()" "checkPerson shop ?p ?db = Inr ()" by (simp_all add: checkDirection_def checkPerson_def p)
  moreover have "resolveTenantId ?a None = Inr shop" by (simp add: resolveTenantId_def isSuperAdmin_def)
  moreover have "\<exists>r. writePayment (sv_fin shop_env) ?a shop ?p None [\<lparr>ai_type = R_SALE, ai_id = sale1, ai_amount = x\<rparr>] ?db =
      Inr (shop_fin_paid type ''DRAFT'' n, r)"
    using c
    by (auto simp: writePayment_def money_column_def shop_env_def p d new_payment_def insert_payment_def insert_allocation_def shop_case_def
        shop_numbers recordMovement_def reconcileDocumentBalances_def aggregateAllocations_def aggregate_step_def syncDocument_def
        syncSaleFinancialState_def update_where_def is_document_def shop_document_def shop_fin_paid_def shop_payment_def shop_allocation_def
        shop_balance_def shop_state_def payment_state_def signed_paid_def counts_def payment_of_def live_payment_def Let_def shop_digit trimmed_def)
  ultimately show ?thesis using shop_allocations [OF c, of ks]
    by (auto simp: createInternal_def p)
qed

subsection \<open>The request\<close>

definition shop_final :: "string \<Rightarrow> int \<Rightarrow> sale_key_row list \<Rightarrow> sale_db" where
  "shop_final type n ks = (shop_settled type n ks)\<lparr>so_fin := shop_fin_paid type ''CONFIRMED'' n\<rparr>"

lemma shop_finalized: "finalizeSale sale1 shop ((shop_settled type n ks)\<lparr>so_fin := shop_fin_paid type ''DRAFT'' n\<rparr>) = shop_final type n ks"
  if "shop_case type x n"
  using that
  by (auto simp: shop_case_def finalizeSale_def updateSaleStatus_def syncSaleFinancialState_def signed_paid_def counts_def payment_of_def
      live_payment_def shop_fin_paid_def shop_payment_def shop_allocation_def update_where_def is_document_def shop_document_def
      shop_balance_def shop_state_def payment_state_def shop_final_def)

lemma shop_prepared: "prepareSaleItemsForPricing shop_env shop_ctx (shop_db\<lparr>so_keys := ks\<rparr>) 0 (shop_lines 100) = Inr ([shop_line], [])"
  by (simp add: shop_lines_def prepareLine_def findProduct_def shop_scale_def fresh_item_def shop_env_def shop_id_def shop_line_def)

lemma shop_preview_total: "lp_lineTotal (pi_preview shop_item) = 100"
  by (simp add: shop_item_def shop_preview_def)

lemma shop_methods: "buildLegacySalePaymentMethods shop [shop_paid x] (shop_db\<lparr>so_keys := ks\<rparr>) = Inr [shop_legacy x]"
  by (simp add: findPaymentMethodTypesByIds_def findMethodById_def shop_paid_def shop_fin_def mapLegacySalePaymentMethod_def shop_legacy_def)

lemma shop_payments: "normalizePayments [shop_paid x] = Inr [shop_paid x]" if "shop_case type x n"
  using that by (auto simp: shop_case_def shop_paid_def shop_numbers)

lemma shop_written: "write_sale shop_env shop_full (shop_request type 100 x) (shop_lines 100) (shop_db\<lparr>so_keys := ks\<rparr>) =
    Inr (sale1, shop_final type n ks)" if c: "shop_case type x n"
proof -
  have r: "rq_customerId (shop_request type 100 x) = ''c''" "rq_orderId (shop_request type 100 x) = None" "rq_type (shop_request type 100 x) = type"
    "rq_payments (shop_request type 100 x) = [shop_paid x]"
    by (simp_all add: shop_request_def shop_paid_def)
  have "ensureCashPaymentsMatchBackendTotal type [shop_paid x] (calculateBackendSaleTotal [shop_item]) = Inr ()"
    using c by (auto simp: shop_case_def ensureCashPaymentsMatchBackendTotal_def calculateBackendSaleTotal_def shop_preview_total shop_numbers shop_paid_def)
  moreover obtain r' where "createInternal (sv_fin shop_env) (buildFinanceActor shop_full) (sale_payment_payload shop_ctx sale1 (shop_paid x))
      (so_fin (shop_settled type n ks)) = Inr (shop_fin_paid type ''DRAFT'' n, r')"
    using shop_registers [OF c] by blast
  moreover have "sale_cash_session shop_full [shop_paid x] = None" by (simp add: sale_cash_session_def shop_paid_def)
  moreover have "sv_bill shop_env sale1 (shop_final type n ks) = Inr (so_outbox (shop_final type n ks))"
    by (simp add: shop_env_def)
  moreover have "shop_final type n ks\<lparr>so_outbox := so_outbox (shop_final type n ks)\<rparr> = shop_final type n ks" by simp
  ultimately show ?thesis
    using shop_function [OF c, of ks] shop_finalized [OF c, of ks]
    by (simp add: write_sale_def r Let_def validateCustomer_def shop_payments [OF c] shop_prepared shop_priced shop_methods
        set_cash_session_def linkOrderDeliveryToSale_def del: shop_actor normalizePayments.simps
          buildLegacySalePaymentMethods.simps prepareSaleItemsForPricing.simps)
qed

definition shop_print :: "string \<Rightarrow> rat \<Rightarrow> string" where
  "shop_print type x = buildSaleIdempotencyHash shop_host (shop_request type 100 x) shop_full"

definition shop_key :: "string \<Rightarrow> rat \<Rightarrow> string option \<Rightarrow> sale_key_row" where
  "shop_key type x i = \<lparr>ky_tenantId = shop, ky_key = ''k'', ky_hash = shop_print type x, ky_saleId = i\<rparr>"

abbreviation shop_done :: "string \<Rightarrow> rat \<Rightarrow> int \<Rightarrow> sale_db" where
  "shop_done type x n \<equiv> shop_final type n [shop_key type x (Some sale1)]"

lemma shop_transaction: "sale_transaction shop_env shop_full (shop_request type 100 x) (shop_lines 100) (Some ''k'') shop_db =
    Inr (sale1, shop_done type x n)" if c: "shop_case type x n"
proof -
  have h: "buildSaleIdempotencyHash (sv_text shop_env) (shop_request type 100 x) shop_full = shop_print type x"
    by (simp add: shop_print_def shop_env_def)
  have k: "so_keys (shop_final type n ks) = ks" "(shop_final type n ks)\<lparr>so_keys := ks'\<rparr> = shop_final type n ks'" for ks ks'
    by (simp_all add: shop_final_def shop_settled_def shop_sold_def shop_drawn_def)
  have "claim_key shop (Some ''k'') (shop_print type x) shop_db = Inr (None, shop_db\<lparr>so_keys := [shop_key type x None]\<rparr>)"
    by (simp add: claim_key_def reserveSaleCreationIdempotency_def shop_key_def Let_def)
  moreover have "completeSaleCreationIdempotency shop ''k'' sale1 (shop_final type n [shop_key type x None]) = Inr (shop_done type x n)"
    by (simp add: completeSaleCreationIdempotency_def k Prelude.count_def open_key_def is_key_def shop_key_def update_where_def)
  ultimately show ?thesis
    by (simp add: sale_transaction_def h shop_session shop_written [OF c])
qed

definition shop_view :: "string \<Rightarrow> rat \<Rightarrow> int \<Rightarrow> sale_view" where
  "shop_view type x n = read_sale sale1 shop (shop_document type ''CONFIRMED'' n (shop_balance type n) (shop_state n)) (shop_done type x n)"

lemma shop_created: "createSale shop_env (shop_request type 100 x) shop_context (Key ''k'') shop_db = (Inr (shop_view type x n), shop_done type x n)"
  if c: "shop_case type x n"
proof -
  have t: "type \<in> {''CASH'', ''CREDIT''}" using c by (auto simp: shop_case_def)
  have "normalizeSaleIdempotencyKey (Key ''k'') = Inr (Some ''k'')" by code_simp
  moreover have "getSaleById sale1 (context_actor shop_full) (shop_done type x n) = Inr (shop_view type x n)"
    by (simp add: getSaleById_def findSale_def context_actor_def shop_final_def shop_fin_paid_def is_document_def shop_document_def
        resolveSaleScope_def resolveAllowedBranchIds_def canViewAllBranches_def inv_actor_of_def trimmed_def shop_ids shop_view_def read_sale_def)
  ultimately show ?thesis
    by (simp add: createSale_def shop_places shop_reads [OF t] shop_transaction [OF c])
qed

subsection \<open>Its cancellation\<close>

definition shop_owner :: sale_actor where
  "shop_owner = \<lparr>bs_roles = [''SUPER_USER''], bs_userId = Some seller, bs_tenantId = Some shop, bs_branchId = None\<rparr>"

definition shop_sale :: document_row where
  "shop_sale = shop_document ''CASH'' ''CONFIRMED'' 10000 0 ''PAID''"

lemma shop_sale [simp]: "dc_id shop_sale = sale1" "dc_tenantId shop_sale = shop" "dc_orderId shop_sale = None" "dc_status shop_sale = ''CONFIRMED''"
  "dc_kind shop_sale = D_SALE" "dc_branchId shop_sale = Some branch"
  by (simp_all add: shop_sale_def shop_document_def)

abbreviation shop_cash :: sale_db where
  "shop_cash \<equiv> shop_done ''CASH'' 100 10000"

lemma shop_cash [simp]: "so_items shop_cash = [shop_row]" "so_inv shop_cash = shop_stock" "so_orderItems shop_cash = []"
  "fd_documents (so_fin shop_cash) = [shop_sale]" "fd_payments (so_fin shop_cash) = [shop_payment 10000]"
  "fd_allocations (so_fin shop_cash) = [shop_allocation 10000]" "fd_movements (so_fin shop_cash) = []"
  by (simp_all add: shop_final_def shop_settled_def shop_sold_def shop_drawn_def shop_fin_paid_def shop_sale_def shop_balance_def shop_state_def)

definition shop_back :: movement_data where
  "shop_back = \<lparr>md_id = uid (CHR ''a''), md_tenantId = shop, md_productId = soap, md_in = True,
      md_quantity = 1, md_referenceType = ''SALE'', md_referenceId = sale1, md_branchId = Some branch,
      md_terminalId = Some till, md_posSessionCode = Some ''x'', md_userId = Some seller,
      md_referenceTable = Some ''sales'', md_before = None, md_after = None, md_createdAt = 5\<rparr>"

lemma shop_reversal: "reversal_data shop_env sale1 shop (Some seller) soap shop_exit shop_stock = shop_back"
  by (simp add: reversal_data_def shop_exit_def shop_env_def shop_id_def sv_now_def shop_stock_def shop_back_def shop_numbers)

lemma shop_uids: "isUuid (uid (CHR ''1''))" "isUuid (uid (CHR ''2''))" "isUuid (uid (CHR ''3''))" "isUuid (uid (CHR ''4''))"
  "isUuid (uid (CHR ''7''))" "isUuid (uid (CHR ''8''))" "isUuid (uid (CHR ''a''))"
  by (rule isUuid_uid; code_simp)+

lemma shop_words: "js_trim ''x'' = ''x''" "js_trim ''sales'' = ''sales''" "milli 5000 = 5" by code_simp+

lemma shop_entity: "movement_entity shop_back = Inr shop_back"
  by (simp add: movement_entity_def shop_back_def shop_uids isOptionalUuid_def STOCK_REFERENCE_TYPES_def short_text_def trimmed_def
      isUuid_trim shop_words)

lemma shop_stock_after: "stock_sum soap shop (Some branch) shop_stock = 4000"
  by (simp add: stock_sum_def shop_stock_def shop_entry_def shop_exit_def signed_quantity_def)

lemma shop_returns: "\<exists>m. createMovement (sv_inv shop_env) shop_back shop_stock = Inr (m, shop_stock\<lparr>iv_movements := [shop_entry, shop_exit, m]\<rparr>)"
proof -
  have f: "md_tenantId shop_back = shop" "md_productId shop_back = soap" "md_branchId shop_back = Some branch" "md_in shop_back"
    "md_before shop_back = None" "md_after shop_back = None" "md_referenceTable shop_back = Some ''sales''" "md_quantity shop_back = 1"
    "shop_back\<lparr>md_referenceTable := Some ''sales''\<rparr> = shop_back" "shop_back\<lparr>md_quantity := 1\<rparr> = shop_back" "md_id shop_back = uid (CHR ''a'')"
    by (simp_all add: shop_back_def)
  have "getCurrentStock soap shop (Some branch) shop_stock = 4"
    by (simp add: getCurrentStock_def shop_stock_after shop_numbers)
  moreover have "findProductPolicy shop_stock shop soap \<noteq> None"
    by (simp add: findProductPolicy_def shop_stock_def shop_inv_def)
  ultimately show ?thesis
    by (simp add: createMovement_def f shop_entity movement_insert_def shop_env_def shop_numbers Let_def shop_stock_def shop_entry_def shop_exit_def)
qed

lemma shop_refunded: "\<exists>fin. undo_payments shop_env shop_sale (Some seller) [shop_payment 10000] (so_fin shop_cash) = Inr (True, fin) \<and> fd_documents fin = [shop_sale]"
proof -
  have "sort_key al_createdAt [shop_allocation 10000] = [shop_allocation 10000]" by simp
  then have a: "allocations_of ''0'' (so_fin shop_cash) = [shop_allocation 10000]"
    by (simp add: allocations_of_def shop_allocation_def)
  have digit: "decimal (Suc 0) = ''1''" by code_simp
  let ?n = "shop_payment 10000"
  have p: "pm_id ?n = ''0''" "pm_status ?n = PAY_COMPLETED" "pm_referenceType ?n = R_SALE" "pm_amount ?n = 10000" "pm_cashSessionId ?n = None"
    by (simp_all add: shop_payment_def)
  have b: "is_sale_allocation sale1 (shop_allocation 10000)" "al_amount (shop_allocation 10000) = 10000" "al_id (shop_allocation 10000) = ''0''"
    by (simp_all add: is_sale_allocation_def shop_allocation_def)
  have "\<exists>fin. refund shop_env shop_sale (Some seller) ?n 100 (so_fin shop_cash) = Inr fin \<and> fd_documents fin = [shop_sale]"
    by (simp add: refund_def money_column_def shop_env_def shop_numbers refund_payment_def insert_payment_def p digit insert_allocation_def b Let_def)
  then show ?thesis
    by (auto simp: undo_payment_def p a b shop_numbers Let_def delete_allocations_def updatePaymentStatus_def)
qed

text \<open>Whatever the payments, when they can be undone.\<close>

lemma shop_cancels_with:
  assumes pay: "undo_payments shop_env shop_sale (Some seller) (listAllocatedPayments shop sale1 fin) fin = Inr (b, fin')"
    and d: "fd_documents fin = [shop_sale]" "fd_documents fin' = [shop_sale]"
  shows "\<exists>s db2. cancelSale shop_env sale1 shop_owner (shop_cash\<lparr>so_fin := fin\<rparr>) = Inr (s, db2)"
proof -
  let ?db = "shop_cash\<lparr>so_fin := fin\<rparr>"
  have f: "findSale sale1 shop ?db = Some shop_sale" by (simp add: findSale_def is_document_def d)
  have c: "canceller shop_owner shop_sale ?db = Some seller" by (simp add: canceller_def shop_owner_def)
  have i: "sale_items_of sale1 shop ?db = [shop_row]" by (simp add: sale_items_of_def shop_row_def)
  have m: "sale_movements sale1 shop ?db = [shop_exit]"
    by (simp add: sale_movements_def shop_stock_def shop_entry_def) (simp add: shop_exit_def)
  have r: "si_productId shop_row = soap" "mv_productId shop_exit = soap" by (simp_all add: shop_row_def shop_exit_def)
  obtain bk where "createMovement (sv_inv shop_env) (reversal_data shop_env sale1 shop (Some seller) soap shop_exit shop_stock) shop_stock =
      Inr (bk, shop_stock\<lparr>iv_movements := [shop_entry, shop_exit, bk]\<rparr>)"
    using shop_returns shop_reversal by auto
  then have "\<exists>inv. reverse_stock shop_env sale1 shop (Some seller) shop_row (Some shop_exit) shop_stock = Inr inv"
    by (simp add: reverse_stock_def r reverseLottedStockMovement_def movement_links_def shop_stock_def assertCanSkipLottedReversal_def
        findProductPolicy_def shop_inv_def)
  then obtain inv where "reverse_stock shop_env sale1 shop (Some seller) shop_row (Some shop_exit) shop_stock = Inr inv" by blast
  then have u: "\<exists>db1. undo_items shop_env shop_sale (Some seller) [shop_row] [shop_exit] ?db = Inr db1 \<and> so_fin db1 = fin"
    by (simp add: r)
  then have "\<exists>db'. undo_sale shop_env shop_sale (Some seller) ?db = Inr db' \<and> fd_documents (so_fin db') =
      fd_documents (so_fin (finalizeCancelledSale sale1 shop (if b then ''REFUNDED'' else ''CANCELLED'') ?db))"
    using pay d by (auto simp: undo_sale_def i m finalizeCancelledSale_def simp del: undo_items.simps undo_payments.simps)
  moreover have "resolveSaleScope shop_owner (Some shop) (Some branch) ?db = Inr ()"
    by (simp add: resolveSaleScope_def shop_owner_def trimmed_def shop_ids resolveAllowedBranchIds_def canViewAllBranches_def inv_actor_of_def)
  moreover have "bs_tenantId shop_owner = Some shop" by (simp add: shop_owner_def)
  ultimately show ?thesis
    using f c d by (auto simp: cancelSale_def cancelled_def findSale_def finalizeCancelledSale_def update_where_def is_document_def)
qed

lemma shop_cancels: "\<exists>s db2. cancelSale shop_env sale1 shop_owner shop_cash = Inr (s, db2)"
proof -
  have "listAllocatedPayments shop sale1 (so_fin shop_cash) = [shop_payment 10000]"
    by (simp add: listAllocatedPayments_def shop_payment_def shop_allocation_def is_sale_allocation_def)
  then obtain fin where "undo_payments shop_env shop_sale (Some seller) (listAllocatedPayments shop sale1 (so_fin shop_cash)) (so_fin shop_cash) = Inr (True, fin)"
    "fd_documents fin = [shop_sale]" using shop_refunded by (auto simp del: undo_payments.simps)
  then have "\<exists>s db2. cancelSale shop_env sale1 shop_owner (shop_cash\<lparr>so_fin := so_fin shop_cash\<rparr>) = Inr (s, db2)"
    by (intro shop_cancels_with) simp_all
  then show ?thesis by simp
qed

subsection \<open>The properties at the shop\<close>

lemma shop_cases: "shop_case ''CASH'' 100 10000" "shop_case ''CREDIT'' 40 4000"
  by (simp_all add: shop_case_def)

lemma shop_new: "\<not> is_sale i shop_db" "sale_refs shop_db" and shop_wf: "stock_wf (so_inv shop_db)"
  by (simp_all add: is_sale_def sale_refs_def) (simp add: stock_wf_def tables_wf_def stock_bounds_def lots_agree_def balances_wf_def
    lots_wf_def stock_sum_def branch_balance_def shop_entry_def signed_quantity_def lot_controlled_def
    findProductPolicy_def shop_inv_def)

lemma shop_view [simp]: "dc_id (vw_sale (shop_view type x n)) = sale1" "dc_tenantId (vw_sale (shop_view type x n)) = shop"
  "dc_total (vw_sale (shop_view type x n)) = 10000" "dc_totalPaid (vw_sale (shop_view type x n)) = n"
  "dc_branchId (vw_sale (shop_view type x n)) = Some branch"
  by (simp_all add: shop_view_def read_sale_def Let_def shop_document_def)

lemma sale_created_once_witness: "\<exists>v. createSale shop_env (shop_request ''CASH'' 100 100) shop_context (Key ''k'')
    (run_sales [Cancel_Sale shop_env sale1 shop_owner] shop_cash) =
    (Inr v, run_sales [Cancel_Sale shop_env sale1 shop_owner] shop_cash) \<and> dc_id (vw_sale v) = sale1"
proof -
  have k: "normalizeSaleIdempotencyKey (Key ''k'') = Inr (Some ''k'')" by code_simp
  have "dc_id (vw_sale (shop_view ''CASH'' 100 10000)) \<noteq> []" by simp
  from sale_created_once [OF shop_created [OF shop_cases(1)] k this shop_places refl, of "[Cancel_Sale shop_env sale1 shop_owner]"]
  show ?thesis by simp
qed

lemma new_sale_settled_witness: "\<exists>v. createSale shop_env (shop_request ''CASH'' 100 100) shop_context (Key ''k'') shop_db = (Inr v, shop_cash) \<and>
    sum_list (map al_amount (vw_payments v)) = 10000 \<and> dc_paymentStatus (vw_sale v) = ''PAID''"
proof -
  note c = shop_created [OF shop_cases(1)]
  have "payment_state 10000 10000 = ''PAID''" by (simp add: payment_state_def)
  with new_sale_settled [OF c shop_new(1) shop_new(2)] c show ?thesis by auto
qed



lemma sales_keep_stock_witness: "stock_wf (so_inv (snd (createSale shop_env (shop_request ''CASH'' 100 100) shop_context (Key ''k'') shop_db)))"
  by (rule sales_keep_stock [OF shop_wf])

lemma cancelled_sale_returns_stock_witness: "\<exists>s db2. cancelSale shop_env sale1 shop_owner shop_cash = Inr (s, db2) \<and>
    stock_sum soap shop (Some branch) (so_inv db2) = 5000"
proof -
  obtain s db2 where d: "cancelSale shop_env sale1 shop_owner shop_cash = Inr (s, db2)" using shop_cancels by blast
  let ?v = "shop_view ''CASH'' 100 10000"
  have "list_all (\<lambda>m. mv_referenceType m = ''SALE'' \<longrightarrow> is_sale (mv_referenceId m) shop_db) (iv_movements (so_inv shop_db))"
    by (simp add: shop_entry_def)
  moreover have "cancelSale shop_env (dc_id (vw_sale ?v)) shop_owner shop_cash = Inr (s, db2)" "dc_branchId (vw_sale ?v) \<noteq> Some []"
    "bs_tenantId shop_owner = Some (dc_tenantId (vw_sale ?v))" using d by (simp_all add: shop_owner_def)
  moreover have "numeric_14_3 (iv_quantity (sv_inv shop_env))" by (simp add: shop_env_def numeric_round_14_3)
  ultimately have "stock_sum soap shop (Some branch) (so_inv db2) = stock_sum soap shop (Some branch) (so_inv shop_db)"
    by (intro cancelled_sale_returns_stock [OF shop_created [OF shop_cases(1)] shop_new(1) shop_new(2) shop_wf])
  with d show ?thesis by (simp add: shop_stock_sum)
qed

lemma cancellation_final_witness: "\<exists>s db2 s'. cancelSale shop_env sale1 shop_owner shop_cash = Inr (s, db2) \<and> cancelled s \<and>
    cancelSale shop_env sale1 shop_owner (run_sales [New_Sale shop_env (shop_request ''CASH'' 100 100) shop_context No_Key] db2) =
      Inr (s', run_sales [New_Sale shop_env (shop_request ''CASH'' 100 100) shop_context No_Key] db2)"
proof -
  obtain s db2 where d: "cancelSale shop_env sale1 shop_owner shop_cash = Inr (s, db2)" using shop_cancels by blast
  with cancellation_final [OF d, of shop_env "[New_Sale shop_env (shop_request ''CASH'' 100 100) shop_context No_Key]"] show ?thesis by blast
qed

end
