(* ===== verification/Cash_Tables.thy ===== *)
theory Cash_Tables
  imports Sale_Cancel
begin

section \<open>The tables of cash sessions\<close>

text \<open>
  What finance/cash-sessions and finance/cash-movements read and write
  (cash-sessions.repository.ts, cash-movements.repository.ts, the migrations of scripts/database/finance,
  V068 and V093). A row of cash_sessions is kept as the columns that payments refer to (the row in
  \<open>so_fin\<close>) and the others here. The JSON copy of the breakdown in a count is left out, and so are
  the texts that a response joins. The migrations that the services ask for are taken as applied.
\<close>

record session_columns =
  sn_id :: string
  sn_opening :: int
  sn_closedBy :: "string option"
  sn_closedAt :: "int option"
  sn_closing :: "int option"
  sn_expected :: "int option"
  sn_difference :: "int option"

text \<open>A count is an audit, or the closing count of a cashier.\<close>

record count_row =
  ct_id :: string
  ct_tenantId :: string
  ct_branchId :: string
  ct_sessionId :: string
  ct_countedBy :: string
  ct_countedAt :: int
  ct_counted :: int
  ct_expected :: int
  ct_difference :: int
  ct_notes :: "string option"
  ct_closing :: bool

record register_row =
  rg_id :: string
  rg_tenantId :: string
  rg_branchId :: string
  rg_active :: bool

text \<open>The columns of deliveries that the control of a session reads.\<close>

record fee_row =
  dv_tenantId :: string
  dv_sessionId :: "string option"
  dv_status :: string
  dv_fee :: int
  dv_methodId :: "string option"
  dv_createdBy :: "string option"

record cash_db =
  cb_sale :: sale_db
  cb_columns :: "session_columns list"
  cb_counts :: "count_row list"
  cb_registers :: "register_row list"
  cb_fees :: "fee_row list"

definition cash_fin :: "cash_db \<Rightarrow> fin_db" where
  "cash_fin db = so_fin (cb_sale db)"

definition set_fin :: "fin_db \<Rightarrow> cash_db \<Rightarrow> cash_db" where
  "set_fin fin db = db\<lparr>cb_sale := (cb_sale db)\<lparr>so_fin := fin\<rparr>\<rparr>"

subsection \<open>Reading\<close>

definition findCashSession :: "string \<Rightarrow> cash_db \<Rightarrow> session_row option" where
  "findCashSession i db = find (\<lambda>s. cs_id s = i) (fd_sessions (cash_fin db))"

definition findOpenByRegister :: "string \<Rightarrow> string \<Rightarrow> cash_db \<Rightarrow> session_row option" where
  "findOpenByRegister registerId tenantId db =
     find (\<lambda>s. cs_registerId s = registerId \<and> cs_tenantId s = tenantId \<and> cs_status s = ''OPEN'') (fd_sessions (cash_fin db))"

definition findRegister :: "string \<Rightarrow> string \<Rightarrow> cash_db \<Rightarrow> register_row option" where
  "findRegister registerId tenantId db = find (\<lambda>r. rg_id r = registerId \<and> rg_tenantId r = tenantId) (cb_registers db)"

definition listActiveAssignmentUserIds :: "string \<Rightarrow> cash_db \<Rightarrow> string list" where
  "listActiveAssignmentUserIds registerId db = [u. (r, u) <- fd_assignments (cash_fin db), r = registerId]"

definition findAccessibleBranches :: "string \<Rightarrow> string \<Rightarrow> fin_db \<Rightarrow> string list" where
  "findAccessibleBranches userId tenantId db = (if (userId, tenantId, ''ACTIVE'') \<notin> set (fd_users db) then []
     else js_uniq [b. (u, t, b) <- fd_userBranches db, u = userId \<and> t = tenantId \<and> (b, tenantId, ''ACTIVE'') \<in> set (fd_branches db)])"

text \<open>The counts of a session, the latest first.\<close>

definition latest_counts :: "count_row list \<Rightarrow> count_row list" where
  "latest_counts cs = sort_key (\<lambda>c. - ct_countedAt c) (rev (sort_key (\<lambda>c. code_units (ct_id c)) cs))"

definition listCashCounts :: "string \<Rightarrow> string \<Rightarrow> bool \<Rightarrow> cash_db \<Rightarrow> count_row list" where
  "listCashCounts sessionId tenantId closing db =
     latest_counts (filter (\<lambda>c. ct_sessionId c = sessionId \<and> ct_tenantId c = tenantId \<and> ct_closing c = closing) (cb_counts db))"

subsection \<open>Writing\<close>

text \<open>The columns of a new session, and the row that payments see.\<close>

definition insert_session :: "fin_env \<Rightarrow> string \<Rightarrow> string \<Rightarrow> string \<Rightarrow> string \<Rightarrow> rat \<Rightarrow> cash_db \<Rightarrow> (session_row \<times> cash_db) http" where
  "insert_session env tenantId branchId registerId userId amount db =
     and_then (money_column env amount ''cash_sessions'') (\<lambda>n.
     let fin = cash_fin db; i = fe_uuid env (length (fd_sessions fin));
         s = \<lparr>cs_id = i, cs_tenantId = tenantId, cs_branchId = branchId, cs_registerId = registerId, cs_openedBy = userId,
           cs_openedAt = fe_now env, cs_status = ''OPEN''\<rparr>;
         c = \<lparr>sn_id = i, sn_opening = n, sn_closedBy = None, sn_closedAt = None, sn_closing = None, sn_expected = None,
           sn_difference = None\<rparr>
     in if i \<in> cs_id ` set (fd_sessions fin) \<or> i \<in> sn_id ` set (cb_columns db) \<or> n < 0 then Inl (InternalError ''cash_sessions'')
        else if list_ex (\<lambda>r. cs_registerId r = registerId \<and> cs_status r = ''OPEN'') (fd_sessions fin)
          then Inl (InternalError ''cash_sessions_register_open_unique'')
        else Inr (s, set_fin (fin\<lparr>fd_sessions := fd_sessions fin @ [s]\<rparr>) (db\<lparr>cb_columns := cb_columns db @ [c]\<rparr>)))"

definition close_columns :: "fin_env \<Rightarrow> string \<Rightarrow> int \<Rightarrow> int \<Rightarrow> int \<Rightarrow> session_columns \<Rightarrow> session_columns" where
  "close_columns env userId closing expected difference c =
     c\<lparr>sn_closedBy := Some userId, sn_closedAt := Some (fe_now env), sn_closing := Some closing, sn_expected := Some expected,
       sn_difference := Some difference\<rparr>"

definition close_session :: "fin_env \<Rightarrow> string \<Rightarrow> string \<Rightarrow> rat \<Rightarrow> rat \<Rightarrow> rat \<Rightarrow> cash_db \<Rightarrow> cash_db http" where
  "close_session env sessionId userId closing expected difference db =
     and_then (money_column env closing ''cash_sessions'') (\<lambda>n.
     and_then (money_column env expected ''cash_sessions'') (\<lambda>e.
     and_then (money_column env difference ''cash_sessions'') (\<lambda>d.
     let fin = cash_fin db in
     if \<not> list_ex (\<lambda>s. cs_id s = sessionId) (fd_sessions fin) then Inl (NotFound ''Sesion de caja no encontrada'')
     else if n < 0 \<or> e < 0 \<or> list_ex (\<lambda>s. cs_id s = sessionId \<and> fe_now env < cs_openedAt s) (fd_sessions fin)
       then Inl (InternalError ''cash_sessions'')
     else Inr (set_fin (fin\<lparr>fd_sessions := update_where (\<lambda>s. cs_id s = sessionId) (\<lambda>s. s\<lparr>cs_status := ''CLOSED''\<rparr>) (fd_sessions fin)\<rparr>)
       (db\<lparr>cb_columns := update_where (\<lambda>c. sn_id c = sessionId) (close_columns env userId n e d) (cb_columns db)\<rparr>)))))"

definition createCashCount :: "fin_env \<Rightarrow> session_row \<Rightarrow> string \<Rightarrow> rat \<Rightarrow> rat \<Rightarrow> rat \<Rightarrow> string option \<Rightarrow> bool \<Rightarrow> cash_db \<Rightarrow> (count_row \<times> cash_db) http" where
  "createCashCount env s userId counted expected difference notes closing db =
     and_then (money_column env counted ''cash_counts'') (\<lambda>n.
     and_then (money_column env expected ''cash_counts'') (\<lambda>e.
     and_then (money_column env difference ''cash_counts'') (\<lambda>d.
     let c = \<lparr>ct_id = fe_uuid env (length (cb_counts db)), ct_tenantId = cs_tenantId s, ct_branchId = cs_branchId s, ct_sessionId = cs_id s,
       ct_countedBy = userId, ct_countedAt = fe_now env, ct_counted = n, ct_expected = e, ct_difference = d, ct_notes = notes, ct_closing = closing\<rparr>
     in if ct_id c \<in> ct_id ` set (cb_counts db) \<or> n < 0 \<or> e < 0 then Inl (InternalError ''cash_counts'')
        else Inr (c, db\<lparr>cb_counts := cb_counts db @ [c]\<rparr>))))"

definition session_movement ::
  "fin_env \<Rightarrow> session_row \<Rightarrow> string \<Rightarrow> bool \<Rightarrow> int \<Rightarrow> (string \<times> string) option \<Rightarrow> string option \<Rightarrow> string \<Rightarrow> fin_db \<Rightarrow> cash_movement_row" where
  "session_movement env s type inward n reference description userId db =
     \<lparr>cv_id = fe_uuid env (length (fd_movements db)), cv_tenantId = cs_tenantId s, cv_branchId = cs_branchId s, cv_cashSessionId = cs_id s,
      cv_paymentId = None, cv_type = type, cv_in = inward, cv_referenceType = map_option fst reference,
      cv_referenceId = map_option snd reference, cv_amount = n, cv_description = description, cv_createdBy = userId\<rparr>"

definition createCashMovement ::
  "fin_env \<Rightarrow> session_row \<Rightarrow> string \<Rightarrow> bool \<Rightarrow> rat \<Rightarrow> (string \<times> string) option \<Rightarrow> string option \<Rightarrow> string \<Rightarrow> cash_db \<Rightarrow> cash_db http" where
  "createCashMovement env s type inward amount reference description userId db =
     and_then (money_column env amount ''cash_movements'') (\<lambda>n.
     and_then (insert_cash_movement (session_movement env s type inward n reference description userId (cash_fin db)) (cash_fin db)) (\<lambda>fin.
     Inr (set_fin fin db)))"

end
