(* ===== verification/Cash_Control.thy ===== *)
theory Cash_Control
  imports Cash_Tables
begin

section \<open>The control of a cash session\<close>

text \<open>
  \<open>buildCashBreakdown\<close> of finance/cash-sessions/cash-sessions.service.ts with its queries: the payments,
  the manual movements and the delivered fees of a session, by payment method and source, and from
  them the cash that should be in the drawer. Of a session as a whole, or of one operator. A query
  without an order returns its groups in the order of their first row here; PostgreSQL may choose
  another.
\<close>

subsection \<open>Amounts and categories\<close>

definition roundAmount :: "rat \<Rightarrow> rat" where
  "roundAmount v = to_fixed2 v"

definition normalizeExpectedAmount :: "rat \<Rightarrow> rat" where
  "normalizeExpectedAmount v = (if v < 0 then 0 else to_fixed2 v)"

datatype cash_category = C_CASH | C_CARD | C_TRANSFER | C_DIGITAL | C_OTHER

fun category_name :: "cash_category \<Rightarrow> string" where
  "category_name C_CASH = ''CASH''"
| "category_name C_CARD = ''CARD''"
| "category_name C_TRANSFER = ''TRANSFER''"
| "category_name C_DIGITAL = ''DIGITAL''"
| "category_name C_OTHER = ''OTHER''"

text \<open>The pattern \<open>\b(A|B)\b\<close> finds a longest run of word characters that is A or B.\<close>

definition word_char :: "char \<Rightarrow> bool" where
  "word_char c \<longleftrightarrow> is_digit c \<or> 65 \<le> code c \<and> code c \<le> 90 \<or> 97 \<le> code c \<and> code c \<le> 122 \<or> c = CHR ''_''"

fun word_runs :: "string \<Rightarrow> string \<Rightarrow> string list" where
  "word_runs acc [] = [acc]"
| "word_runs acc (c # cs) = (if word_char c then word_runs (acc @ [c]) cs else acc # word_runs [] cs)"

definition has_word :: "string list \<Rightarrow> string \<Rightarrow> bool" where
  "has_word ws s \<longleftrightarrow> list_ex (\<lambda>w. w \<in> set ws) (word_runs [] s)"

definition normalizePaymentCategory :: "string option \<Rightarrow> string option \<Rightarrow> cash_category" where
  "normalizePaymentCategory tipo nombre = (let raw = js_upper (js_trim (coalesce tipo [] @ '' '' @ coalesce nombre [])) in
     if has_word [''CASH'', ''EFECTIVO''] raw then C_CASH
     else if has_word [''CARD'', ''CREDIT'', ''DEBIT'', ''TARJETA'', ''CREDITO'', ''DEBITO''] raw then C_CARD
     else if has_word [''BANK'', ''TRANSFER'', ''TRANSFERENCIA'', ''BANCO''] raw then C_TRANSFER
     else if has_word [''DIGITAL'', ''WALLET'', ''NEQUI'', ''DAVIPLATA'', ''BILLETERA''] raw then C_DIGITAL
     else C_OTHER)"

subsection \<open>Details\<close>

datatype cash_source = S_sales | S_orders | S_purchases | S_refunds | S_deliveries | S_manualIn | S_manualOut | S_otherIn | S_otherOut

definition isOut :: "cash_source \<Rightarrow> bool" where
  "isOut s \<longleftrightarrow> s \<in> {S_purchases, S_refunds, S_manualOut, S_otherOut}"

text \<open>The nine amounts of a detail, and those of the breakdown by source, as a function of the source.\<close>

record method_detail =
  dt_methodId :: "string option"
  dt_name :: string
  dt_tipo :: "string option"
  dt_category :: cash_category
  dt_count :: nat
  dt_amounts :: "cash_source \<Rightarrow> rat"
  dt_totalIn :: rat
  dt_totalOut :: rat
  dt_net :: rat

definition dt_isCash :: "method_detail \<Rightarrow> bool" where
  "dt_isCash d \<longleftrightarrow> dt_category d = C_CASH"

record source_breakdown =
  sb_opening :: rat
  sb_amounts :: "cash_source \<Rightarrow> rat"
  sb_totalIn :: rat
  sb_totalOut :: rat
  sb_net :: rat

definition createPaymentMethodDetail :: "string option \<Rightarrow> string option \<Rightarrow> string option \<Rightarrow> method_detail" where
  "createPaymentMethodDetail methodId nombre tipo = (let category = normalizePaymentCategory tipo nombre in
     \<lparr>dt_methodId = methodId, dt_name = coalesce (trimmed nombre) (if category = C_CASH then ''Efectivo'' else ''Sin metodo''),
      dt_tipo = tipo, dt_category = category, dt_count = 0, dt_amounts = (\<lambda>_. 0), dt_totalIn = 0, dt_totalOut = 0, dt_net = 0\<rparr>)"

definition emptySourceBreakdown :: source_breakdown where
  "emptySourceBreakdown = \<lparr>sb_opening = 0, sb_amounts = (\<lambda>_. 0), sb_totalIn = 0, sb_totalOut = 0, sb_net = 0\<rparr>"

definition paymentSource :: "reference_type \<Rightarrow> bool \<Rightarrow> cash_source" where
  "paymentSource type inward =
     (if inward \<and> type = R_SALE then S_sales
      else if inward \<and> type = R_SALES_ORDER then S_orders
      else if \<not> inward \<and> type \<in> {R_PURCHASE, R_PURCHASE_ORDER} then S_purchases
      else if \<not> inward \<and> type = R_REFUND then S_refunds
      else if inward then S_otherIn else S_otherOut)"

definition add_amount :: "cash_source \<Rightarrow> rat \<Rightarrow> (cash_source \<Rightarrow> rat) \<Rightarrow> cash_source \<Rightarrow> rat" where
  "add_amount s x f = f(s := roundAmount (dbl (f s + x)))"

definition addToDetail :: "cash_source \<Rightarrow> rat \<Rightarrow> nat \<Rightarrow> method_detail \<Rightarrow> method_detail" where
  "addToDetail s x n d =
     (let totalIn = (if isOut s then dt_totalIn d else roundAmount (dbl (dt_totalIn d + x)));
          totalOut = (if isOut s then roundAmount (dbl (dt_totalOut d + x)) else dt_totalOut d)
      in d\<lparr>dt_count := dt_count d + n, dt_amounts := add_amount s x (dt_amounts d), dt_totalIn := totalIn, dt_totalOut := totalOut,
        dt_net := roundAmount (dbl (totalIn - totalOut))\<rparr>)"

definition addToSource :: "cash_source \<Rightarrow> rat \<Rightarrow> source_breakdown \<Rightarrow> source_breakdown" where
  "addToSource s x b =
     b\<lparr>sb_amounts := add_amount s x (sb_amounts b),
       sb_totalIn := (if isOut s then sb_totalIn b else roundAmount (dbl (sb_totalIn b + x))),
       sb_totalOut := (if isOut s then roundAmount (dbl (sb_totalOut b + x)) else sb_totalOut b)\<rparr>"

subsection \<open>Queries\<close>

text \<open>GROUP BY: the groups in the order of their first row.\<close>

definition group_by :: "('a \<Rightarrow> 'k) \<Rightarrow> 'a list \<Rightarrow> ('k \<times> 'a list) list" where
  "group_by key xs = map (\<lambda>k. (k, filter (\<lambda>x. key x = k) xs)) (js_uniq (map key xs))"

text \<open>A row of one of the three queries, with its source.\<close>

record breakdown_row =
  br_methodId :: "string option"
  br_nombre :: "string option"
  br_tipo :: "string option"
  br_source :: cash_source
  br_count :: nat
  br_amount :: int

definition method_name :: "string \<Rightarrow> cash_db \<Rightarrow> string option" where
  "method_name i db = map_of (so_methodNames (cb_sale db)) i"

text \<open>The payments of a session that count; those of an operator are the sales he made and what else he registered.\<close>

definition made_by :: "string option \<Rightarrow> cash_db \<Rightarrow> payment_row \<Rightarrow> bool" where
  "made_by operator db p = (case operator of
       None \<Rightarrow> True
     | Some u \<Rightarrow>
         if pm_referenceType p = R_SALE
         then \<exists>s \<in> set (so_sales (cb_sale db)). sx_tenantId s = pm_tenantId p \<and> sx_id s = pm_referenceId p \<and> sx_userId s = u
         else pm_createdBy p = u)"

definition session_payment :: "string \<Rightarrow> string \<Rightarrow> string option \<Rightarrow> cash_db \<Rightarrow> payment_row \<Rightarrow> bool" where
  "session_payment tenantId sessionId operator db p \<longleftrightarrow> live_payment tenantId p \<and> pm_cashSessionId p = Some sessionId \<and>
     findMethodById (pm_methodId p) tenantId (cash_fin db) \<noteq> None \<and> made_by operator db p"

definition payment_key :: "payment_row \<Rightarrow> string \<times> reference_type \<times> bool" where
  "payment_key p = (pm_methodId p, pm_referenceType p, pm_in p)"

definition getPaymentRows :: "string \<Rightarrow> string \<Rightarrow> string option \<Rightarrow> cash_db \<Rightarrow> breakdown_row list" where
  "getPaymentRows tenantId sessionId operator db =
     map (\<lambda>((m, type, inward), ps).
         \<lparr>br_methodId = Some m, br_nombre = method_name m db, br_tipo = map_option me_tipo (findMethodById m tenantId (cash_fin db)),
          br_source = paymentSource type inward, br_count = length ps, br_amount = sum_list (map pm_amount ps)\<rparr>)
       (group_by payment_key (filter (session_payment tenantId sessionId operator db) (fd_payments (cash_fin db))))"

definition manual_movement :: "string \<Rightarrow> string \<Rightarrow> string option \<Rightarrow> cash_movement_row \<Rightarrow> bool" where
  "manual_movement tenantId sessionId operator m \<longleftrightarrow> cv_tenantId m = tenantId \<and> cv_cashSessionId m = sessionId \<and>
     cv_type m \<notin> {''OPENING'', ''CLOSING'', ''PAYMENT''} \<and> (operator = None \<or> Some (cv_createdBy m) = operator)"

text \<open>Every manual movement is cash.\<close>

definition getManualMovementRows :: "string \<Rightarrow> string \<Rightarrow> string option \<Rightarrow> cash_db \<Rightarrow> breakdown_row list" where
  "getManualMovementRows tenantId sessionId operator db =
     map (\<lambda>((type, inward), ms).
         \<lparr>br_methodId = None, br_nombre = Some ''Efectivo'', br_tipo = Some ''CASH'',
          br_source = (if inward then S_manualIn else S_manualOut), br_count = length ms, br_amount = sum_list (map cv_amount ms)\<rparr>)
       (group_by (\<lambda>m. (cv_type m, cv_in m)) (filter (manual_movement tenantId sessionId operator) (fd_movements (cash_fin db))))"

definition delivered_fee :: "string \<Rightarrow> string \<Rightarrow> string option \<Rightarrow> fee_row \<Rightarrow> bool" where
  "delivered_fee tenantId sessionId operator f \<longleftrightarrow> dv_tenantId f = tenantId \<and> dv_sessionId f = Some sessionId \<and>
     dv_status f \<in> {''ENTREGADO'', ''DELIVERED''} \<and> 0 < dv_fee f \<and> (operator = None \<or> dv_createdBy f = operator)"

definition fee_method :: "string \<Rightarrow> cash_db \<Rightarrow> fee_row \<Rightarrow> method_row option" where
  "fee_method tenantId db f = Option.bind (dv_methodId f) (\<lambda>m. findMethodById m tenantId (cash_fin db))"

definition getDeliveryMethodRows :: "string \<Rightarrow> string \<Rightarrow> string option \<Rightarrow> cash_db \<Rightarrow> breakdown_row list" where
  "getDeliveryMethodRows tenantId sessionId operator db =
     map (\<lambda>((m, method), fs).
         \<lparr>br_methodId = m, br_nombre = Option.bind method (\<lambda>x. method_name (me_id x) db), br_tipo = map_option me_tipo method,
          br_source = S_deliveries, br_count = length fs, br_amount = sum_list (map dv_fee fs)\<rparr>)
       (group_by (\<lambda>f. (dv_methodId f, fee_method tenantId db f)) (filter (delivered_fee tenantId sessionId operator) (cb_fees db)))"

subsection \<open>The breakdown\<close>

definition detail_key :: "breakdown_row \<Rightarrow> string" where
  "detail_key r = (case br_methodId r of
       Some i \<Rightarrow> i
     | None \<Rightarrow> ''__'' @ category_name (normalizePaymentCategory (br_tipo r) (br_nombre r)) @ ''_'' @ coalesce (br_nombre r) ''cash'')"

definition new_detail :: "breakdown_row \<Rightarrow> method_detail" where
  "new_detail r = createPaymentMethodDetail (br_methodId r) (br_nombre r)
     (Some (coalesce (br_tipo r) (category_name (normalizePaymentCategory (br_tipo r) (br_nombre r)))))"

text \<open>The map of details keeps the order of insertion.\<close>

definition add_row :: "breakdown_row \<Rightarrow> (string \<times> method_detail) list \<Rightarrow> (string \<times> method_detail) list" where
  "add_row r ds = (let k = detail_key r; x = roundAmount (cents (br_amount r)) in
     if k \<in> fst ` set ds then map (\<lambda>(j, d). (j, if j = k then addToDetail (br_source r) x (br_count r) d else d)) ds
     else ds @ [(k, addToDetail (br_source r) x (br_count r) (new_detail r))])"

definition detail_order :: "'z host_scheme \<Rightarrow> method_detail \<Rightarrow> method_detail \<Rightarrow> rat" where
  "detail_order h l r = (if dt_isCash l \<noteq> dt_isCash r then (if dt_isCash l then - 1 else 1)
     else of_int (locale_compare h (dt_name l) (dt_name r)))"

record cash_control =
  ko_openingCash :: rat
  ko_paymentsIn :: rat
  ko_paymentsOut :: rat
  ko_deliveryFees :: rat
  ko_manualIn :: rat
  ko_manualOut :: rat
  ko_expected :: rat
  ko_counted :: "rat option"
  ko_difference :: "rat option"
  ko_nonCashNet :: rat
  ko_totalNet :: rat

record cash_breakdown =
  bk_details :: "method_detail list"
  bk_source :: source_breakdown
  bk_control :: cash_control

definition reduce_details :: "cash_source list \<Rightarrow> method_detail list \<Rightarrow> rat" where
  "reduce_details ss ds = roundAmount (foldl (\<lambda>sum d. foldl (\<lambda>t s. dbl (t + dt_amounts d s)) sum ss) 0 ds)"

definition net_source :: "source_breakdown \<Rightarrow> source_breakdown" where
  "net_source b = (let i = roundAmount (sb_totalIn b); j = roundAmount (sb_totalOut b) in
     b\<lparr>sb_totalIn := i, sb_totalOut := j, sb_net := roundAmount (dbl (dbl (sb_opening b + i) - j))\<rparr>)"

definition control_of :: "source_breakdown \<Rightarrow> method_detail list \<Rightarrow> rat option \<Rightarrow> cash_control" where
  "control_of b details lastCounted = (let cash = filter dt_isCash details;
        paymentsIn = reduce_details [S_sales, S_orders, S_otherIn] cash;
        paymentsOut = reduce_details [S_purchases, S_refunds, S_otherOut] cash;
        fees = reduce_details [S_deliveries] cash;
        manualIn = reduce_details [S_manualIn] cash;
        manualOut = reduce_details [S_manualOut] cash;
        expected = normalizeExpectedAmount (dbl (dbl (dbl (dbl (dbl (sb_opening b + paymentsIn) + fees) + manualIn) - paymentsOut) - manualOut));
        counted = map_option roundAmount lastCounted
     in \<lparr>ko_openingCash = sb_opening b, ko_paymentsIn = paymentsIn, ko_paymentsOut = paymentsOut, ko_deliveryFees = fees,
         ko_manualIn = manualIn, ko_manualOut = manualOut, ko_expected = expected, ko_counted = counted,
         ko_difference = map_option (\<lambda>c. roundAmount (dbl (c - expected))) counted,
         ko_nonCashNet = roundAmount (foldl (\<lambda>sum d. dbl (sum + dt_net d)) 0 (filter (\<lambda>d. \<not> dt_isCash d) details)),
         ko_totalNet = sb_net b\<rparr>)"

definition breakdown_rows :: "string \<Rightarrow> string \<Rightarrow> string option \<Rightarrow> cash_db \<Rightarrow> breakdown_row list" where
  "breakdown_rows tenantId sessionId operator db = getPaymentRows tenantId sessionId operator db @
     getManualMovementRows tenantId sessionId operator db @ getDeliveryMethodRows tenantId sessionId operator db"

definition buildCashBreakdown ::
  "'z host_scheme \<Rightarrow> rat \<Rightarrow> rat option \<Rightarrow> string \<Rightarrow> string \<Rightarrow> string option \<Rightarrow> cash_db \<Rightarrow> cash_breakdown" where
  "buildCashBreakdown h openingAmount lastCounted tenantId sessionId operator db =
     (let rows = breakdown_rows tenantId sessionId operator db;
          source = net_source (fold (\<lambda>r. addToSource (br_source r) (roundAmount (cents (br_amount r)))) rows
            (emptySourceBreakdown\<lparr>sb_opening := roundAmount openingAmount\<rparr>));
          details = js_sort (detail_order h) (map snd (fold add_row rows []))
      in \<lparr>bk_details = details, bk_source = source, bk_control = control_of source details lastCounted\<rparr>)"

end
