(* ===== verification/Cash_Sessions.thy ===== *)
theory Cash_Sessions
  imports Cash_Control
begin

section \<open>Cash sessions\<close>

text \<open>
  finance/cash-sessions/cash-sessions.service.ts with its DTOs, and the manual movements of
  finance/cash-movements/cash-movements.service.ts: a session of a cash register is opened, counted,
  and closed by an administrator or by all of its cashiers. Each write is one transaction; an error
  leaves the tables as they were. Left out: the histories and lists, the totals of the stored summary
  that no decision reads, and the audit log. The advisory lock on a session makes the
  closing counts of its cashiers follow one another, as the steps here do.
\<close>

subsection \<open>Requests\<close>

record open_request =
  oq_tenantId :: "string option"
  oq_branchId :: string
  oq_registerId :: string
  oq_amount :: rat

record close_request =
  xq_amount :: rat
  xq_description :: "string option"

record audit_request =
  aq_amount :: rat
  aq_notes :: "string option"

record movement_request =
  mq_tenantId :: "string option"
  mq_sessionId :: string
  mq_type :: string
  mq_in :: bool
  mq_amount :: rat
  mq_description :: "string option"
  mq_referenceType :: "string option"
  mq_referenceId :: "string option"

definition isAmountOrZero :: "rat \<Rightarrow> bool" where
  "isAmountOrZero v \<longleftrightarrow> 0 \<le> v \<and> of_int \<lfloor>dbl (v * 100)\<rfloor> = dbl (v * 100)"

definition CASH_MOVEMENT_TYPES :: "string list" where
  "CASH_MOVEMENT_TYPES = [''OPENING'', ''CLOSING'', ''ADJUSTMENT'', ''EXPENSE'', ''WITHDRAWAL'', ''PAYMENT'']"

definition validOpen :: "(string \<Rightarrow> bool) \<Rightarrow> open_request \<Rightarrow> bool" where
  "validOpen is_uuid r \<longleftrightarrow> is_uuid (oq_branchId r) \<and> is_uuid (oq_registerId r) \<and> isAmountOrZero (oq_amount r)"

text \<open>The DTOs trim a text before they measure it.\<close>

definition trimmed_at_most :: "nat \<Rightarrow> string option \<Rightarrow> bool" where
  "trimmed_at_most n s \<longleftrightarrow> at_most n (map_option js_trim s)"

definition validClose :: "close_request \<Rightarrow> bool" where
  "validClose r \<longleftrightarrow> isAmountOrZero (xq_amount r) \<and> trimmed_at_most 250 (xq_description r)"

definition validAudit :: "audit_request \<Rightarrow> bool" where
  "validAudit r \<longleftrightarrow> isAmountOrZero (aq_amount r) \<and> trimmed_at_most 500 (aq_notes r)"

definition validMovement :: "(string \<Rightarrow> bool) \<Rightarrow> movement_request \<Rightarrow> bool" where
  "validMovement is_uuid r \<longleftrightarrow> is_uuid (mq_sessionId r) \<and> mq_type r \<in> set CASH_MOVEMENT_TYPES \<and> isMonetaryAmount (mq_amount r) \<and>
     trimmed_at_most 250 (mq_description r) \<and> trimmed_at_most 50 (mq_referenceType r) \<and> trimmed_at_most 120 (mq_referenceId r)"

subsection \<open>Who may\<close>

definition canAdminCash :: "fin_actor \<Rightarrow> bool" where
  "canAdminCash actor \<longleftrightarrow> canManageTenant actor \<or> ''ADMIN'' \<in> set (fa_roles actor)"

definition canOpenCash :: "fin_actor \<Rightarrow> bool" where
  "canOpenCash actor \<longleftrightarrow> canAdminCash actor \<or> ''USER'' \<in> set (fa_roles actor)"

definition canOperateCashSession :: "fin_actor \<Rightarrow> session_row \<Rightarrow> cash_db \<Rightarrow> bool" where
  "canOperateCashSession actor s db \<longleftrightarrow> canAdminCash actor \<or> cs_openedBy s = fa_userId actor \<or>
     hasActiveAssignment (cs_registerId s) (fa_userId actor) (cash_fin db)"

definition mayUseBranch :: "fin_actor \<Rightarrow> string \<Rightarrow> string \<Rightarrow> cash_db \<Rightarrow> unit http" where
  "mayUseBranch actor tenantId branchId db =
     guard (canManageTenant actor \<or> userHasBranchAccess (fa_userId actor) tenantId branchId (cash_fin db))
       (Forbidden ''No autorizado para esta sucursal'')"

definition assertSessionBranch :: "fin_actor \<Rightarrow> string \<Rightarrow> string \<Rightarrow> cash_db \<Rightarrow> unit http" where
  "assertSessionBranch actor tenantId branchId db =
     (case findBranchById branchId tenantId (cash_fin db) of
        None \<Rightarrow> Inl (BadRequest ''Sucursal invalida'')
      | Some estado \<Rightarrow>
          if estado \<noteq> ''ACTIVE'' then Inl (BadRequest ''Sucursal inactiva'') else mayUseBranch actor tenantId branchId db)"

text \<open>The movements accept an inactive branch.\<close>

definition assertMovementBranch :: "fin_actor \<Rightarrow> string \<Rightarrow> string \<Rightarrow> cash_db \<Rightarrow> unit http" where
  "assertMovementBranch actor tenantId branchId db =
     (case findBranchById branchId tenantId (cash_fin db) of
        None \<Rightarrow> Inl (BadRequest ''Sucursal invalida'') | Some _ \<Rightarrow> mayUseBranch actor tenantId branchId db)"

definition resolveAllowedBranches :: "fin_actor \<Rightarrow> string \<Rightarrow> cash_db \<Rightarrow> string list option http" where
  "resolveAllowedBranches actor tenantId db =
     (if canManageTenant actor then Inr None
      else let ids = findAccessibleBranches (fa_userId actor) tenantId (cash_fin db)
        in if ids = [] then Inl (Forbidden ''Usuario sin sucursales asignadas'') else Inr (Some ids))"

text \<open>The session that a request names, when the actor may work with it.\<close>

definition own_session :: "fin_actor \<Rightarrow> string \<Rightarrow> cash_db \<Rightarrow> session_row http" where
  "own_session actor sessionId db =
     (if \<not> canOpenCash actor then Inl (Forbidden ''No autorizado'')
      else case findCashSession sessionId db of
        None \<Rightarrow> Inl (NotFound ''Sesion de caja no encontrada'')
      | Some s \<Rightarrow> and_then (resolveTenantId actor (Some (cs_tenantId s))) (\<lambda>tenantId.
          if tenantId \<noteq> cs_tenantId s then Inl (Forbidden ''No autorizado'') else Inr s))"

definition on_branch :: "fin_actor \<Rightarrow> session_row \<Rightarrow> cash_db \<Rightarrow> unit http" where
  "on_branch actor s db = and_then (assertActiveUser actor (cs_tenantId s) (cash_fin db)) (\<lambda>_.
     assertSessionBranch actor (cs_tenantId s) (cs_branchId s) db)"

subsection \<open>The progress of a closing\<close>

record closure_progress =
  pg_required :: "string list"
  pg_completed :: "string list"
  pg_pending :: "string list"
  pg_counts :: "count_row list"

definition isComplete :: "closure_progress \<Rightarrow> bool" where
  "isComplete p \<longleftrightarrow> pg_pending p = []"

definition resolveRequiredCloserUserIds :: "string \<Rightarrow> string list \<Rightarrow> string list" where
  "resolveRequiredCloserUserIds openedBy assigned = (if assigned \<noteq> [] then js_uniq assigned else [openedBy])"

definition getClosureProgress :: "session_row \<Rightarrow> cash_db \<Rightarrow> closure_progress" where
  "getClosureProgress s db =
     (let required = resolveRequiredCloserUserIds (cs_openedBy s) (listActiveAssignmentUserIds (cs_registerId s) db);
          closings = listCashCounts (cs_id s) (cs_tenantId s) True db;
          completed = js_uniq (filter (\<lambda>u. u \<in> set required) (map ct_countedBy closings))
      in \<lparr>pg_required = required, pg_completed = completed, pg_pending = filter (\<lambda>u. u \<notin> set completed) required,
          pg_counts = closings\<rparr>)"

subsection \<open>The summary of a session\<close>

definition opening_of :: "string \<Rightarrow> cash_db \<Rightarrow> rat" where
  "opening_of sessionId db = (case find (\<lambda>c. sn_id c = sessionId) (cb_columns db) of None \<Rightarrow> 0 | Some c \<Rightarrow> cents (sn_opening c))"

text \<open>The latest count of any type, as the stored summary gives it.\<close>

definition summary_last_count :: "session_row \<Rightarrow> cash_db \<Rightarrow> count_row option" where
  "summary_last_count s db =
     (case latest_counts (filter (\<lambda>c. ct_tenantId c = cs_tenantId s \<and> ct_sessionId c = cs_id s) (cb_counts db)) of
        [] \<Rightarrow> None | c # _ \<Rightarrow> Some c)"

definition of_operator :: "string option \<Rightarrow> count_row list \<Rightarrow> count_row list" where
  "of_operator operator cs = filter (\<lambda>c. operator = None \<or> operator = Some (ct_countedBy c)) cs"

record delivery_summary =
  yd_delivered :: nat
  yd_pending :: nat
  yd_excluded :: nat
  yd_feeTotal :: rat

definition status_count :: "string list \<Rightarrow> fee_row list \<Rightarrow> nat" where
  "status_count statuses fs = length (filter (\<lambda>f. dv_status f \<in> set statuses) fs)"

definition getDeliveryCashSummary :: "session_row \<Rightarrow> string option \<Rightarrow> cash_db \<Rightarrow> delivery_summary" where
  "getDeliveryCashSummary s operator db =
     (let fs = filter (\<lambda>f. dv_tenantId f = cs_tenantId s \<and> dv_sessionId f = Some (cs_id s) \<and> (operator = None \<or> dv_createdBy f = operator)) (cb_fees db)
      in \<lparr>yd_delivered = status_count [''ENTREGADO'', ''DELIVERED''] fs,
          yd_pending = status_count [''CREADO'', ''CREATED'', ''EN_PREPARACION'', ''ASSIGNED'', ''DESPACHADO'', ''DISPATCHED''] fs,
          yd_excluded = status_count [''CANCELADO'', ''CANCELLED'', ''NO_ENTREGADO'', ''NOT_DELIVERED''] fs,
          yd_feeTotal = cents (sum_list (map dv_fee (filter (\<lambda>f. dv_status f \<in> {''ENTREGADO'', ''DELIVERED''}) fs)))\<rparr>)"

record cash_summary =
  ss_opening :: rat
  ss_deliveries :: delivery_summary
  ss_lastCount :: "count_row option"
  ss_breakdown :: cash_breakdown
  ss_audits :: "count_row list"
  ss_closures :: "count_row list"
  ss_completed :: "string list"
  ss_pending :: "string list"

definition summary_expected :: "cash_summary \<Rightarrow> rat" where
  "summary_expected v = normalizeExpectedAmount (ko_expected (bk_control (ss_breakdown v)))"

definition withDeliverySummary :: "'z host_scheme \<Rightarrow> session_row \<Rightarrow> string option \<Rightarrow> cash_db \<Rightarrow> cash_summary" where
  "withDeliverySummary h s operator db =
     (let opening = (if operator = None \<or> operator = Some (cs_openedBy s) then opening_of (cs_id s) db else 0);
          audits = of_operator operator (listCashCounts (cs_id s) (cs_tenantId s) False db);
          closures = of_operator operator (listCashCounts (cs_id s) (cs_tenantId s) True db);
          lastCount = (case operator of None \<Rightarrow> summary_last_count s db
            | Some _ \<Rightarrow> (case audits of [] \<Rightarrow> None | c # _ \<Rightarrow> Some c));
          progress = getClosureProgress s db
      in \<lparr>ss_opening = opening, ss_deliveries = getDeliveryCashSummary s operator db, ss_lastCount = lastCount,
          ss_breakdown = buildCashBreakdown h opening (map_option (\<lambda>c. cents (ct_counted c)) lastCount) (cs_tenantId s) (cs_id s) operator db,
          ss_audits = audits, ss_closures = closures,
          ss_completed = (case operator of None \<Rightarrow> pg_completed progress | Some u \<Rightarrow> if closures \<noteq> [] then [u] else []),
          ss_pending = (case operator of None \<Rightarrow> pg_pending progress | Some u \<Rightarrow> if closures \<noteq> [] then [] else [u])\<rparr>)"

definition operator_of :: "fin_actor \<Rightarrow> string option" where
  "operator_of actor = (if canAdminCash actor then None else Some (fa_userId actor))"

subsection \<open>Closing\<close>

definition required_counts :: "closure_progress \<Rightarrow> count_row list" where
  "required_counts p = filter (\<lambda>c. ct_countedBy c \<in> set (pg_required p)) (pg_counts p)"

definition count_total :: "(count_row \<Rightarrow> int) \<Rightarrow> count_row list \<Rightarrow> rat" where
  "count_total column cs = foldl (\<lambda>total c. dbl (total + cents (column c))) 0 cs"

definition finalizeOpenSessionFromProgress :: "fin_env \<Rightarrow> session_row \<Rightarrow> string \<Rightarrow> closure_progress \<Rightarrow> cash_db \<Rightarrow> cash_db http" where
  "finalizeOpenSessionFromProgress env s userId progress db =
     (let closing = count_total ct_counted (required_counts progress);
          expected = count_total ct_expected (required_counts progress)
      in and_then (close_session env (cs_id s) userId (to_fixed2 closing) (to_fixed2 expected) (to_fixed2 (dbl (closing - expected))) db) (\<lambda>db1.
         if 0 < closing then createCashMovement env s ''CLOSING'' False (to_fixed2 closing) None (Some ''Cierre completo de caja'') userId db1
         else Inr db1))"

definition reconcileCompleteOpenSession :: "fin_env \<Rightarrow> session_row \<Rightarrow> string \<Rightarrow> cash_db \<Rightarrow> cash_db http" where
  "reconcileCompleteOpenSession env s userId db =
     (if cs_status s \<noteq> ''OPEN'' \<or> \<not> isComplete (getClosureProgress s db) then Inr db
      else finalizeOpenSessionFromProgress env s userId (getClosureProgress s db) db)"

text \<open>The cashier's own count; the last of the required ones closes the session.\<close>

definition cashier_close :: "fin_env \<Rightarrow> fin_actor \<Rightarrow> session_row \<Rightarrow> close_request \<Rightarrow> cash_db \<Rightarrow> (closure_progress \<times> cash_db) http" where
  "cashier_close env actor s r db =
     (let expected = summary_expected (withDeliverySummary (fe_host env) s (Some (fa_userId actor)) db);
          difference = to_fixed2 (dbl (xq_amount r - expected))
      in if list_ex (\<lambda>c. ct_countedBy c = fa_userId actor) (pg_counts (getClosureProgress s db))
           then Inl (BadRequest ''Ya entregaste tu cierre para esta caja'')
         else and_then (createCashCount env s (fa_userId actor) (xq_amount r) expected difference (trimmed (xq_description r)) True db) (\<lambda>(_, db1).
           let progress = getClosureProgress s db1 in
           if \<not> isComplete progress then Inr (progress, db1)
           else and_then (finalizeOpenSessionFromProgress env s (fa_userId actor) progress db1) (\<lambda>db2. Inr (progress, db2))))"

text \<open>A closing with no money records no movement.\<close>

definition closing_movement :: "fin_env \<Rightarrow> session_row \<Rightarrow> rat \<Rightarrow> string \<Rightarrow> string \<Rightarrow> cash_db \<Rightarrow> cash_db http" where
  "closing_movement env s amount description userId db =
     (if 0 < amount then createCashMovement env s ''CLOSING'' False amount None (Some description) userId db else Inr db)"

definition admin_close :: "fin_env \<Rightarrow> fin_actor \<Rightarrow> session_row \<Rightarrow> close_request \<Rightarrow> cash_db \<Rightarrow> cash_db http" where
  "admin_close env actor s r db =
     (let expected = summary_expected (withDeliverySummary (fe_host env) s None db);
          difference = to_fixed2 (dbl (xq_amount r - expected))
      in and_then (close_session env (cs_id s) (fa_userId actor) (xq_amount r) expected difference db) (\<lambda>db1.
         and_then (createCashCount env s (fa_userId actor) (xq_amount r) expected difference (trimmed (xq_description r)) True db1) (\<lambda>(_, db2).
         closing_movement env s (xq_amount r) (coalesce (trimmed (xq_description r)) ''Cierre de caja'') (fa_userId actor) db2)))"

text \<open>The answer to a cashier has the progress.\<close>

definition close :: "fin_env \<Rightarrow> fin_actor \<Rightarrow> string \<Rightarrow> close_request \<Rightarrow> cash_db \<Rightarrow> (closure_progress option \<times> cash_db) http" where
  "close env actor sessionId r db =
     (if \<not> validClose r then Inl (BadRequest ''Bad Request Exception'')
      else and_then (own_session actor sessionId db) (\<lambda>s.
        if cs_status s \<noteq> ''OPEN'' then Inl (BadRequest ''La sesion de caja no esta abierta'')
        else and_then (on_branch actor s db) (\<lambda>_.
          if canAdminCash actor then and_then (admin_close env actor s r db) (\<lambda>db'. Inr (None, db'))
          else if \<not> canOperateCashSession actor s db then Inl (Forbidden ''No tienes asignacion activa para esta caja'')
          else and_then (cashier_close env actor s r db) (\<lambda>(p, db'). Inr (Some p, db')))))"

subsection \<open>Opening\<close>

definition usable_register :: "string \<Rightarrow> open_request \<Rightarrow> cash_db \<Rightarrow> unit http" where
  "usable_register tenantId r db =
     (case findRegister (oq_registerId r) tenantId db of
        None \<Rightarrow> Inl (NotFound ''Caja no encontrada'')
      | Some g \<Rightarrow>
          if \<not> rg_active g then Inl (BadRequest ''Caja inactiva'')
          else guard (rg_branchId g = oq_branchId r) (BadRequest ''La caja no pertenece a la sucursal''))"

definition new_session :: "fin_env \<Rightarrow> fin_actor \<Rightarrow> string \<Rightarrow> open_request \<Rightarrow> cash_db \<Rightarrow> (session_row \<times> cash_db) http" where
  "new_session env actor tenantId r db =
     and_then (insert_session env tenantId (oq_branchId r) (oq_registerId r) (fa_userId actor) (oq_amount r) db) (\<lambda>(s, db1).
     if 0 < oq_amount r
     then and_then (createCashMovement env s ''OPENING'' True (oq_amount r) None (Some ''Apertura de caja'') (fa_userId actor) db1) (\<lambda>db2. Inr (s, db2))
     else Inr (s, db1))"

definition open_session :: "fin_env \<Rightarrow> (string \<Rightarrow> bool) \<Rightarrow> fin_actor \<Rightarrow> open_request \<Rightarrow> cash_db \<Rightarrow> (session_row \<times> cash_db) http" where
  "open_session env is_uuid actor r db =
     (if \<not> validOpen is_uuid r then Inl (BadRequest ''Bad Request Exception'')
      else if \<not> canOpenCash actor then Inl (Forbidden ''No autorizado'')
      else and_then (resolveTenantId actor (oq_tenantId r)) (\<lambda>tenantId.
        and_then (assertActiveUser actor tenantId (cash_fin db)) (\<lambda>_.
        and_then (assertSessionBranch actor tenantId (oq_branchId r) db) (\<lambda>_.
        and_then (usable_register tenantId r db) (\<lambda>_.
        case findOpenByRegister (oq_registerId r) tenantId db of
          Some s \<Rightarrow> if canOperateCashSession actor s db then Inr (s, db)
            else Inl (BadRequest ''La caja ya tiene una sesion abierta y no tienes asignacion activa'')
        | None \<Rightarrow>
            if findCurrentByUser (fa_userId actor) tenantId (cash_fin db) \<noteq> None
              then Inl (BadRequest ''El usuario ya tiene una sesion de caja abierta'')
            else new_session env actor tenantId r db)))))"

subsection \<open>The current session\<close>

fun first_open_branch :: "string list \<Rightarrow> string \<Rightarrow> fin_db \<Rightarrow> session_row option" where
  "first_open_branch [] tenantId db = None"
| "first_open_branch (b # bs) tenantId db =
     (case findOpenByBranch b tenantId db of None \<Rightarrow> first_open_branch bs tenantId db | Some s \<Rightarrow> Some s)"

text \<open>A session that all have closed is closed now, and then there is none.\<close>

definition reconciled :: "fin_env \<Rightarrow> fin_actor \<Rightarrow> session_row \<Rightarrow> cash_db \<Rightarrow> (session_row option \<times> cash_db) http" where
  "reconciled env actor s db = and_then (reconcileCompleteOpenSession env s (fa_userId actor) db) (\<lambda>db'.
     Inr (case findCashSession (cs_id s) db' of
       None \<Rightarrow> None | Some s' \<Rightarrow> if cs_status s' = ''OPEN'' then Some s' else None, db'))"

definition current_of :: "fin_actor \<Rightarrow> string \<Rightarrow> cash_db \<Rightarrow> session_row option http" where
  "current_of actor tenantId db =
     (case findCurrentByUser (fa_userId actor) tenantId (cash_fin db) of
        Some s \<Rightarrow> Inr (Some s)
      | None \<Rightarrow>
          if \<not> canAdminCash actor then Inr None
          else and_then (resolveAllowedBranches actor tenantId db) (\<lambda>allowed. Inr (case allowed of
            Some ids \<Rightarrow> first_open_branch ids tenantId (cash_fin db)
          | None \<Rightarrow> latest_session (\<lambda>s. cs_tenantId s = tenantId \<and> cs_status s = ''OPEN'') (cash_fin db))))"

definition getCurrent :: "fin_env \<Rightarrow> fin_actor \<Rightarrow> string option \<Rightarrow> cash_db \<Rightarrow> (session_row option \<times> cash_db) http" where
  "getCurrent env actor registerId db =
     (if \<not> canOpenCash actor then Inl (Forbidden ''No autorizado'')
      else and_then (resolveTenantId actor None) (\<lambda>tenantId.
        if truthy registerId then
          (case findRegister (the registerId) tenantId db of
             None \<Rightarrow> Inl (NotFound ''Caja no encontrada'')
           | Some g \<Rightarrow> and_then (assertSessionBranch actor tenantId (rg_branchId g) db) (\<lambda>_.
               case findOpenByRegister (the registerId) tenantId db of
                 None \<Rightarrow> Inr (None, db)
               | Some s \<Rightarrow> if \<not> canOperateCashSession actor s db then Inl (Forbidden ''No autorizado para esta caja'')
                   else reconciled env actor s db))
        else and_then (current_of actor tenantId db) (\<lambda>found. case found of
          None \<Rightarrow> Inr (None, db) | Some s \<Rightarrow> reconciled env actor s db)))"

subsection \<open>Counts and reads\<close>

definition read_session :: "fin_actor \<Rightarrow> string \<Rightarrow> cash_db \<Rightarrow> session_row http" where
  "read_session actor sessionId db =
     and_then (own_session actor sessionId db) (\<lambda>s.
     and_then (on_branch actor s db) (\<lambda>_.
     if canOperateCashSession actor s db then Inr s else Inl (Forbidden ''Solo puedes consultar tu propia caja'')))"

definition createAudit :: "fin_env \<Rightarrow> fin_actor \<Rightarrow> string \<Rightarrow> audit_request \<Rightarrow> cash_db \<Rightarrow> (count_row \<times> cash_db) http" where
  "createAudit env actor sessionId r db =
     (if \<not> validAudit r then Inl (BadRequest ''Bad Request Exception'')
      else and_then (own_session actor sessionId db) (\<lambda>s.
        if cs_status s \<noteq> ''OPEN'' then Inl (BadRequest ''El arqueo preliminar requiere caja abierta'')
        else and_then (on_branch actor s db) (\<lambda>_.
          if \<not> canOperateCashSession actor s db then Inl (Forbidden ''Solo puedes arquear tu propia caja'')
          else let v = withDeliverySummary (fe_host env) s (operator_of actor) db; expected = summary_expected v;
              counted = normalizeExpectedAmount (aq_amount r)
            in if fa_userId actor \<in> set (ss_completed v)
                 then Inl (BadRequest ''Ya entregaste tu cierre. No puedes registrar otro arqueo'')
               else createCashCount env s (fa_userId actor) counted expected (roundAmount (dbl (counted - expected))) (trimmed (aq_notes r)) False db)))"

definition getSummary :: "fin_env \<Rightarrow> fin_actor \<Rightarrow> string \<Rightarrow> cash_db \<Rightarrow> (session_row \<times> cash_summary \<times> cash_db) http" where
  "getSummary env actor sessionId db =
     and_then (read_session actor sessionId db) (\<lambda>s.
     and_then (reconcileCompleteOpenSession env s (fa_userId actor) db) (\<lambda>db'.
     case findCashSession sessionId db' of
       None \<Rightarrow> Inl (NotFound ''No se pudo resumir la sesion de caja'')
     | Some s' \<Rightarrow> Inr (s', withDeliverySummary (fe_host env) s' (operator_of actor) db', db')))"

text \<open>An error of the preview leaves the reconciliation in place.\<close>

definition getAuditPreview :: "fin_env \<Rightarrow> fin_actor \<Rightarrow> string \<Rightarrow> cash_db \<Rightarrow> cash_summary http \<times> cash_db" where
  "getAuditPreview env actor sessionId db =
     (case getSummary env actor sessionId db of
        Inl e \<Rightarrow> (Inl e, db)
      | Inr (s, v, db') \<Rightarrow>
          (if cs_status s \<noteq> ''OPEN'' then Inl (BadRequest ''El arqueo preliminar requiere caja abierta'')
           else if fa_userId actor \<in> set (ss_completed v)
             then Inl (BadRequest ''Ya entregaste tu cierre. No puedes registrar otro arqueo'')
           else Inr v, db'))"

definition listAudits :: "fin_actor \<Rightarrow> string \<Rightarrow> cash_db \<Rightarrow> count_row list http" where
  "listAudits actor sessionId db = and_then (read_session actor sessionId db) (\<lambda>s.
     Inr (filter (\<lambda>c. canAdminCash actor \<or> ct_countedBy c = fa_userId actor) (listCashCounts sessionId (cs_tenantId s) False db)))"

subsection \<open>Manual movements\<close>

definition movement_reference :: "movement_request \<Rightarrow> (string \<times> string) option http" where
  "movement_reference r = (case (map_option js_trim (mq_referenceType r), map_option js_trim (mq_referenceId r)) of
       (None, None) \<Rightarrow> Inr None
     | (Some t, Some i) \<Rightarrow> Inr (Some (t, i))
     | _ \<Rightarrow> Inl (BadRequest ''referenceType y referenceId deben enviarse juntos''))"

definition create_movement :: "fin_env \<Rightarrow> (string \<Rightarrow> bool) \<Rightarrow> fin_actor \<Rightarrow> movement_request \<Rightarrow> cash_db \<Rightarrow> cash_db http" where
  "create_movement env is_uuid actor r db =
     (if \<not> validMovement is_uuid r then Inl (BadRequest ''Bad Request Exception'')
      else if \<not> canOpenCash actor then Inl (Forbidden ''No autorizado'')
      else if mq_type r \<in> {''OPENING'', ''CLOSING'', ''PAYMENT''}
        then Inl (BadRequest ''Los movimientos internos de apertura, cierre y pago se generan automaticamente'')
      else and_then (resolveTenantId actor (mq_tenantId r)) (\<lambda>tenantId.
        case findSessionById (mq_sessionId r) tenantId (cash_fin db) of
          None \<Rightarrow> Inl (NotFound ''Sesion de caja no encontrada'')
        | Some s \<Rightarrow>
            if cs_status s \<noteq> ''OPEN'' then Inl (BadRequest ''La sesion de caja no esta abierta'')
            else and_then (assertMovementBranch actor tenantId (cs_branchId s) db) (\<lambda>_.
              if \<not> canOperateCashSession actor s db then Inl (Forbidden ''Solo puedes registrar movimientos en tu caja'')
              else and_then (guard (case findRegister (cs_registerId s) tenantId db of None \<Rightarrow> False | Some g \<Rightarrow> rg_active g)
                  (BadRequest ''Caja no disponible'')) (\<lambda>_.
                and_then (movement_reference r) (\<lambda>reference.
                createCashMovement env s (mq_type r) (mq_in r) (mq_amount r) reference (trimmed (mq_description r)) (fa_userId actor) db)))))"

end
