(* ===== verification/Cash_Money.thy ===== *)
theory Cash_Money
  imports Cash_Sessions Payment_Money
begin

section \<open>The amounts of a cash session\<close>

text \<open>
  The arithmetic behind \<open>buildCashBreakdown\<close> and the closing totals: sums of amounts of either sign,
  one rounding per addition, rounded to cents at the end. Up to \<open>2 ^ 43\<close> cents and a sixty additions
  the result is the exact sum (\<open>fixed2_sum\<close>).
\<close>

lemma fixed2_near:
  assumes e: "\<bar>x * 100 - of_int n\<bar> \<le> 1 / 4" and n: "\<bar>n\<bar> \<le> 2 ^ 46" shows "to_fixed2 x = cents n"
proof -
  have "(of_int \<bar>n\<bar> :: rat) \<le> of_int (2 ^ 46)" using n by (simp only: of_int_le_iff)
  then have "\<bar>of_int n :: rat\<bar> \<le> 2 ^ 46" by simp
  then have "\<bar>x * 100\<bar> \<le> 2 ^ 46 + 1 / 4" using e by linarith
  then have b: "\<bar>x\<bar> < 10 ^ 21" by (simp add: abs_mult)
  show ?thesis
  proof (cases "x < 0")
    case True
    have "\<bar>- x * 100 - of_int (- n)\<bar> \<le> 1 / 4" using e by (simp add: abs_minus_commute)
    then have "js_round (- x * 100) = - n" by (intro js_round_near) linarith
    then show ?thesis using True b by (simp add: to_fixed2_def cents_minus)
  next
    case False
    have "js_round (x * 100) = n" using e by (intro js_round_near) linarith
    then show ?thesis using False b by (simp add: to_fixed2_def)
  qed
qed

lemma signed_up_error:
  assumes "\<bar>s\<bar> + sum_list (map abs vs) + of_nat (length vs) / 65536 < 2 powi 38"
  shows "\<bar>add_up s vs - (s + sum_list vs)\<bar> \<le> of_nat (length vs) / 65536"
  using assms
proof (induction vs arbitrary: s)
  case (Cons v vs)
  have nn: "0 \<le> sum_list (map abs vs)" by (intro sum_list_nonneg) auto
  have len: "(of_nat (length (v # vs)) :: rat) / 65536 = of_nat (length vs) / 65536 + 1 / 65536" by (simp add: add_divide_distrib)
  have l0: "(0::rat) \<le> of_nat (length vs) / 65536" by simp
  have p: "\<bar>s\<bar> + (\<bar>v\<bar> + sum_list (map abs vs)) + (of_nat (length vs) / 65536 + 1 / 65536) < 2 powi 38"
    using Cons.prems unfolding len by simp
  have "\<bar>s + v\<bar> < 2 powi 38" using p nn l0 by linarith
  then have "\<bar>dbl (s + v) - (s + v)\<bar> \<le> 2 powi (38 - 54)" by (intro dbl_error) auto
  then have e: "\<bar>dbl (s + v) - (s + v)\<bar> \<le> 1 / 65536" by (simp add: power_int_def field_simps)
  then have "\<bar>dbl (s + v)\<bar> + sum_list (map abs vs) + of_nat (length vs) / 65536 < 2 powi 38" using p by linarith
  then have "\<bar>add_up (dbl (s + v)) vs - (dbl (s + v) + sum_list vs)\<bar> \<le> of_nat (length vs) / 65536" by (rule Cons.IH)
  then have "\<bar>add_up (dbl (s + v)) vs - (s + (v + sum_list vs))\<bar> \<le> of_nat (length (v # vs)) / 65536" using e unfolding len by linarith
  then show ?case by simp
qed simp

lemma cents_near: "\<bar>n\<bar> \<le> money_limit \<Longrightarrow> \<bar>cents n - of_int n / 100\<bar> \<le> 1 / 65536"
  by (rule cents_close)

lemma cents_sums:
  assumes "\<forall>n\<in>set ns. \<bar>n\<bar> \<le> money_limit"
  shows "\<bar>sum_list (map cents ns) - of_int (sum_list ns) / 100\<bar> \<le> of_nat (length ns) / 65536"
  using assms
proof (induction ns)
  case (Cons n ns)
  have "\<bar>cents n - of_int n / 100\<bar> \<le> 1 / 65536" using Cons.prems by (intro cents_close) simp
  moreover have "\<bar>sum_list (map cents ns) - of_int (sum_list ns) / 100\<bar> \<le> of_nat (length ns) / 65536" using Cons by simp
  ultimately have "\<bar>cents n + sum_list (map cents ns) - (of_int n / 100 + of_int (sum_list ns) / 100)\<bar> \<le> of_nat (length ns) / 65536 + 1 / 65536"
    by linarith
  then show ?case by (simp add: add_divide_distrib)
qed simp

lemma cents_abs_sums:
  assumes "\<forall>n\<in>set ns. \<bar>n\<bar> \<le> money_limit"
  shows "sum_list (map (\<lambda>n. \<bar>cents n\<bar>) ns) \<le> of_int (sum_list (map abs ns)) / 100 + of_nat (length ns) / 65536"
  using assms
proof (induction ns)
  case (Cons n ns)
  have "\<bar>cents n - of_int n / 100\<bar> \<le> 1 / 65536" using Cons.prems by (intro cents_close) simp
  then have "\<bar>cents n\<bar> \<le> \<bar>of_int n / 100\<bar> + 1 / 65536" by linarith
  then have "\<bar>cents n\<bar> \<le> of_int \<bar>n\<bar> / 100 + 1 / 65536" by simp
  moreover have "sum_list (map (\<lambda>n. \<bar>cents n\<bar>) ns) \<le> of_int (sum_list (map abs ns)) / 100 + of_nat (length ns) / 65536" using Cons by simp
  ultimately have "\<bar>cents n\<bar> + sum_list (map (\<lambda>n. \<bar>cents n\<bar>) ns) \<le> of_int \<bar>n\<bar> / 100 + of_int (sum_list (map abs ns)) / 100 + of_nat (length ns) / 65536 + 1 / 65536"
    by linarith
  then show ?case by (simp add: add_divide_distrib)
qed simp

lemma abs_member: "n \<in> set ns \<Longrightarrow> \<bar>n\<bar> \<le> sum_list (map abs ns)" for ns :: "int list"
proof (induction ns)
  case (Cons m ns)
  have "0 \<le> sum_list (map abs ns)" by (intro sum_list_nonneg) auto
  then show ?case using Cons by auto
qed simp

text \<open>The sum of at most sixty amounts, started from an amount.\<close>

lemma add_up_close:
  assumes ns: "\<bar>m\<bar> + sum_list (map abs ns) \<le> 2 ^ 43" and len: "length ns \<le> 60"
  shows "\<bar>add_up (cents m) (map cents ns) - (of_int m / 100 + of_int (sum_list ns) / 100)\<bar>
    \<le> of_nat (length ns) / 65536 + of_nat (length ns) / 65536 + 1 / 65536"
proof -
  have nn: "0 \<le> sum_list (map abs ns)" by (intro sum_list_nonneg) auto
  have lim: "\<forall>n\<in>set ns. \<bar>n\<bar> \<le> money_limit" "\<bar>m\<bar> \<le> money_limit"
    using ns nn abs_member [of _ ns] by (fastforce simp: money_limit_def)+
  have "(of_int (\<bar>m\<bar> + sum_list (map abs ns)) :: rat) \<le> of_int (2 ^ 43)" using ns by (simp only: of_int_le_iff)
  then have r: "of_int \<bar>m\<bar> + of_int (sum_list (map abs ns)) \<le> (2 ^ 43 :: rat)" by simp
  have l: "(of_nat (length ns) :: rat) \<le> 60" using len by simp
  have c: "\<bar>cents m - of_int m / 100\<bar> \<le> 1 / 65536" by (rule cents_close [OF lim(2)])
  then have "\<bar>cents m\<bar> \<le> \<bar>of_int m / 100\<bar> + 1 / 65536" by linarith
  then have a: "\<bar>cents m\<bar> \<le> of_int \<bar>m\<bar> / 100 + 1 / 65536" by simp
  have "\<bar>cents m\<bar> + sum_list (map abs (map cents ns)) + of_nat (length (map cents ns)) / 65536 < 2 powi 38"
  proof -
    have "\<bar>cents m\<bar> + sum_list (map abs (map cents ns)) + of_nat (length (map cents ns)) / 65536
        \<le> (of_int \<bar>m\<bar> + of_int (sum_list (map abs ns))) / 100 + 1 / 65536 + of_nat (length ns) / 65536 + of_nat (length ns) / 65536"
      using a cents_abs_sums [OF lim(1)] unfolding add_divide_distrib by (simp add: comp_def)
    also have "\<dots> \<le> 2 ^ 43 / 100 + 1 / 65536 + 60 / 65536 + 60 / 65536"
      using r l by (intro add_mono divide_right_mono) auto
    also have "\<dots> < (2::rat) powi 38" by (simp add: power_int_def)
    finally show ?thesis .
  qed
  from signed_up_error [OF this]
  have "\<bar>add_up (cents m) (map cents ns) - (cents m + sum_list (map cents ns))\<bar> \<le> of_nat (length ns) / 65536" by simp
  moreover note cents_sums [OF lim(1)]
  ultimately show ?thesis using c by linarith
qed

lemma add_up_near:
  assumes "\<bar>m\<bar> + sum_list (map abs ns) \<le> 2 ^ 43" "length ns \<le> 60"
  shows "\<bar>add_up (cents m) (map cents ns) * 100 - of_int (m + sum_list ns)\<bar> \<le> 1 / 5"
proof -
  have "(of_nat (length ns) :: rat) \<le> 60" using assms(2) by simp
  then show ?thesis using add_up_close [OF assms] unfolding of_int_add by linarith
qed

text \<open>Few amounts, as the counts of the cashiers of a register, and the difference of two such sums.\<close>

lemma counts_near:
  assumes "\<forall>n\<in>set ns. 0 \<le> n" "sum_list ns \<le> 2 ^ 42" "length ns \<le> 20"
  shows "\<bar>add_up 0 (map cents ns) * 100 - of_int (sum_list ns)\<bar> \<le> 1 / 15"
proof -
  have "map abs ns = ns" using assms(1) by (intro map_idI) auto
  then have "\<bar>0\<bar> + sum_list (map abs ns) \<le> 2 ^ 43" "length ns \<le> 60" using assms by auto
  from add_up_close [OF this]
  have e: "\<bar>add_up 0 (map cents ns) - of_int (sum_list ns) / 100\<bar> \<le> of_nat (length ns) / 65536 + of_nat (length ns) / 65536 + 1 / 65536" by simp
  have "(of_nat (length ns) :: rat) \<le> 20" using assms(3) by simp
  then show ?thesis using e by linarith
qed

lemma difference_near:
  assumes a: "\<bar>x * 100 - of_int m\<bar> \<le> 1 / 15" "\<bar>m\<bar> \<le> 2 ^ 42" and b: "\<bar>y * 100 - of_int n\<bar> \<le> 1 / 15" "\<bar>n\<bar> \<le> 2 ^ 42"
  shows "to_fixed2 (dbl (x - y)) = cents (m - n)"
proof (rule fixed2_near)
  have lim: "\<bar>of_int m :: rat\<bar> \<le> 2 ^ 42" "\<bar>of_int n :: rat\<bar> \<le> 2 ^ 42"
  proof -
    have "of_int \<bar>m\<bar> \<le> (of_int (2 ^ 42) :: rat)" "of_int \<bar>n\<bar> \<le> (of_int (2 ^ 42) :: rat)" using a(2) b(2) by (simp_all only: of_int_le_iff)
    then show "\<bar>of_int m :: rat\<bar> \<le> 2 ^ 42" "\<bar>of_int n :: rat\<bar> \<le> 2 ^ 42" by simp_all
  qed
  have "\<bar>(x - y) * 100\<bar> \<le> 2 ^ 42 + 2 ^ 42 + 1" using a(1) b(1) lim unfolding left_diff_distrib by linarith
  then have "\<bar>x - y\<bar> < 2 powi 37" by (simp add: power_int_def abs_mult)
  then have "\<bar>dbl (x - y) - (x - y)\<bar> \<le> 2 powi (37 - 54)" by (intro dbl_error) auto
  then have "\<bar>dbl (x - y) - (x - y)\<bar> \<le> 1 / 131072" by (simp add: power_int_def field_simps)
  then show "\<bar>dbl (x - y) * 100 - of_int (m - n)\<bar> \<le> 1 / 4" using a(1) b(1) unfolding of_int_diff by linarith
  show "\<bar>m - n\<bar> \<le> 2 ^ 46" using a(2) b(2) by simp
qed

lemma stored_cents: "numeric_14_2 col \<Longrightarrow> \<bar>n\<bar> \<le> money_limit \<Longrightarrow> col (cents n) = Some m \<Longrightarrow> m = n"
proof -
  assume "numeric_14_2 col" "\<bar>n\<bar> \<le> money_limit" "col (cents n) = Some m"
  then have "\<bar>cents n - of_int m / 100\<bar> < 1 / 150" "\<bar>cents n - of_int n / 100\<bar> \<le> 1 / 65536"
    using cents_close [of n] unfolding numeric_14_2_def by blast+
  then have "\<bar>of_int m - of_int n :: rat\<bar> < 1" by linarith
  then have "\<bar>of_int (m - n) :: rat\<bar> < 1" by simp
  then show "m = n" by linarith
qed

end
