(* ===== verification/Cash_Expected.thy ===== *)
theory Cash_Expected
  imports Cash_Money
begin

section \<open>The cash expected in the drawer\<close>

text \<open>
  The breakdown by method and source is a detour: the expected cash that it ends in is the opening
  amount plus the exact sum of the cash that the rows of the session record (\<open>cash_ledger\<close>), never
  below zero, to the cent.
\<close>

subsection \<open>Groups\<close>

lemma partition_sum:
  fixes f :: "'a \<Rightarrow> int"
  assumes "distinct ks" "key ` set xs \<subseteq> set ks"
  shows "sum_list (map (\<lambda>k. sum_list (map f (filter (\<lambda>x. key x = k) xs))) ks) = sum_list (map f xs)"
  using assms(2)
proof (induction xs)
  case (Cons x xs)
  have "sum_list (map (\<lambda>k. sum_list (map f (filter (\<lambda>x. key x = k) (x # xs)))) ks)
      = sum_list (map (\<lambda>k. (if k = key x then f x else 0) + sum_list (map f (filter (\<lambda>x. key x = k) xs))) ks)"
    by (intro arg_cong [where f = sum_list] map_cong) auto
  also have "\<dots> = sum_list (map (\<lambda>k. if k = key x then f x else 0) ks) + sum_list (map f xs)"
    using Cons by (simp add: sum_list_addf)
  also have "sum_list (map (\<lambda>k. if k = key x then f x else 0) ks) = f x"
    using assms(1) Cons.prems by (simp add: sum_list_distinct_conv_sum_set sum.delta)
  finally show ?case by simp
qed simp

lemma group_by_sum: "sum_list (map (\<lambda>(k, ys). sum_list (map f ys)) (group_by key xs)) = sum_list (map f xs)" for f :: "'a \<Rightarrow> int"
  using partition_sum [of "js_uniq (map key xs)" key xs f] by (simp add: group_by_def comp_def)

lemma group_by_member: "(k, ys) \<in> set (group_by key xs) \<longleftrightarrow> k \<in> key ` set xs \<and> ys = filter (\<lambda>x. key x = k) xs"
  by (auto simp: group_by_def)

text \<open>The rows of a grouped query, weighed by a function that respects the groups.\<close>

lemma group_by_weighed:
  fixes f g :: "'a \<Rightarrow> int" and w :: "'k \<times> 'a list \<Rightarrow> int"
  assumes "\<And>k ys. (k, ys) \<in> set (group_by key xs) \<Longrightarrow> w (k, ys) = sum_list (map f ys)"
  shows "sum_list (map w (group_by key xs)) = sum_list (map f xs)"
proof -
  have "map w (group_by key xs) = map (\<lambda>(k, ys). sum_list (map f ys)) (group_by key xs)"
    using assms by (intro map_cong) auto
  then show ?thesis by (simp only: group_by_sum)
qed

lemma js_sort_sum: "sum_list (map f (js_sort c ys)) = sum_list (map f ys)" for f :: "'a \<Rightarrow> int"
proof -
  have "sum_list (map f (sort_insert c x ys)) = f x + sum_list (map f ys)" for x ys by (induction ys) auto
  then show ?thesis by (induction ys) auto
qed

lemma js_sort_filter_length: "length (filter P (js_sort c ys)) = length (filter P ys)"
proof -
  have "length (filter P (sort_insert c x ys)) = (if P x then 1 else 0) + length (filter P ys)" for x ys by (induction ys) auto
  then show ?thesis by (induction ys) auto
qed

subsection \<open>Details\<close>

text \<open>What the rows give to a detail and source.\<close>

definition of_source :: "cash_source \<Rightarrow> string \<Rightarrow> breakdown_row list \<Rightarrow> int" where
  "of_source s k rows = sum_list (map (\<lambda>r. if br_source r = s then br_amount r else 0) (filter (\<lambda>r. detail_key r = k) rows))"

definition rows_total :: "breakdown_row list \<Rightarrow> int" where
  "rows_total rows = sum_list (map br_amount rows)"

lemma of_source_snoc: "of_source s k (rows @ [r]) = of_source s k rows + (if detail_key r = k \<and> br_source r = s then br_amount r else 0)"
  by (simp add: of_source_def)

lemma of_source_bounds:
  assumes "\<forall>r\<in>set rows. 0 \<le> br_amount r" shows "0 \<le> of_source s k rows" "of_source s k rows \<le> rows_total rows"
  using assms by (induction rows) (auto simp: of_source_def rows_total_def)

definition details_ok :: "(string \<Rightarrow> bool) \<Rightarrow> breakdown_row list \<Rightarrow> (string \<times> method_detail) list \<Rightarrow> bool" where
  "details_ok cash rows ds \<longleftrightarrow> distinct (map fst ds) \<and> fst ` set ds = detail_key ` set rows \<and>
     (\<forall>(k, d) \<in> set ds. (dt_isCash d \<longleftrightarrow> cash k) \<and> (\<forall>s. dt_amounts d s = cents (of_source s k rows)))"

text \<open>Rows with one key agree on whether it is cash.\<close>

definition coherent :: "(string \<Rightarrow> bool) \<Rightarrow> breakdown_row list \<Rightarrow> bool" where
  "coherent cash rows \<longleftrightarrow> (\<forall>r\<in>set rows. 0 \<le> br_amount r \<and> (dt_isCash (new_detail r) \<longleftrightarrow> cash (detail_key r)))"

lemma fixed2_add:
  assumes "0 \<le> a" "0 \<le> b" "a + b \<le> 2 ^ 43" shows "to_fixed2 (dbl (cents a + to_fixed2 (cents b))) = cents (a + b)"
proof -
  have b: "to_fixed2 (cents b) = cents b" using assms by (intro fixed2.r_cents) simp
  have "\<bar>add_up (cents a) (map cents [b]) * 100 - of_int (a + sum_list [b])\<bar> \<le> 1 / 5" using assms by (intro add_up_near) auto
  then have "\<bar>dbl (cents a + cents b) * 100 - of_int (a + b)\<bar> \<le> 1 / 4" by simp
  then show ?thesis unfolding b using assms by (intro fixed2_near) auto
qed

lemma add_row_keeps:
  assumes ok: "details_ok cash rows ds" and r: "coherent cash (rows @ [r])" and lim: "rows_total (rows @ [r]) \<le> 2 ^ 43"
  shows "details_ok cash (rows @ [r]) (add_row r ds)"
proof -
  have nn: "\<forall>q\<in>set rows. 0 \<le> br_amount q" "0 \<le> br_amount r" using r by (auto simp: coherent_def)
  have add: "to_fixed2 (dbl (cents (of_source (br_source r) k rows) + to_fixed2 (cents (br_amount r)))) = cents (of_source (br_source r) k rows + br_amount r)"
    if "True" for k
    using of_source_bounds [OF nn(1), of "br_source r" k] nn(2) lim by (intro fixed2_add) (auto simp: rows_total_def)
  have kept: "dt_isCash (addToDetail s x n d) = dt_isCash d"
    "dt_amounts (addToDetail s x n d) = add_amount s x (dt_amounts d)" for s x n d
    by (simp_all add: addToDetail_def dt_isCash_def Let_def)
  have amounts: "add_amount (br_source r) (to_fixed2 (cents (br_amount r))) (\<lambda>s. cents (of_source s (detail_key r) rows)) s
      = cents (of_source s (detail_key r) (rows @ [r]))" for s
    using add by (simp add: add_amount_def roundAmount_def of_source_snoc)
  show ?thesis
  proof (cases "detail_key r \<in> fst ` set ds")
    case True
    have step: "add_row r ds = map (\<lambda>(j, d). (j, if j = detail_key r then addToDetail (br_source r) (to_fixed2 (cents (br_amount r))) (br_count r) d else d)) ds"
      using True by (simp add: add_row_def Let_def roundAmount_def)
    have keys: "map fst (add_row r ds) = map fst ds" unfolding step by (induction ds) auto
    have "dt_isCash e = cash j" "dt_amounts e s = cents (of_source s j (rows @ [r]))" if je: "(j, e) \<in> set (add_row r ds)" for j e s
    proof -
      obtain d where d: "(j, d) \<in> set ds" "e = (if j = detail_key r then addToDetail (br_source r) (to_fixed2 (cents (br_amount r))) (br_count r) d else d)"
        using je unfolding step by auto
      from ok d(1) have old: "dt_isCash d = cash j" "\<And>s. dt_amounts d s = cents (of_source s j rows)" by (auto simp: details_ok_def)
      show "dt_isCash e = cash j" using old(1) d(2) by (simp add: kept)
      show "dt_amounts e s = cents (of_source s j (rows @ [r]))"
      proof (cases "j = detail_key r")
        case True
        have "dt_amounts d = (\<lambda>s. cents (of_source s (detail_key r) rows))" using old(2) True by (intro ext) simp
        then show ?thesis using d(2) True amounts [of s] by (simp add: kept)
      next
        case False
        then show ?thesis using d(2) old(2) by (simp add: of_source_snoc)
      qed
    qed
    moreover have "fst ` set (add_row r ds) = detail_key ` set (rows @ [r])"
    proof -
      have "fst ` set (add_row r ds) = fst ` set ds" using keys by (metis set_map)
      then show ?thesis using ok True by (auto simp: details_ok_def)
    qed
    ultimately show ?thesis using ok keys unfolding details_ok_def by fastforce
  next
    case False
    have step: "add_row r ds = ds @ [(detail_key r, addToDetail (br_source r) (to_fixed2 (cents (br_amount r))) (br_count r) (new_detail r))]"
      using False by (simp add: add_row_def Let_def roundAmount_def)
    have fresh: "detail_key r \<notin> detail_key ` set rows" using ok False by (simp add: details_ok_def)
    then have none: "of_source s (detail_key r) rows = 0" for s
    proof -
      have "filter (\<lambda>q. detail_key q = detail_key r) rows = []" using fresh by (metis (mono_tags, lifting) filter_False image_eqI)
      then show ?thesis by (simp add: of_source_def)
    qed
    have new: "dt_amounts (new_detail r) = (\<lambda>s. cents (of_source s (detail_key r) rows))"
      by (rule ext) (simp add: new_detail_def createPaymentMethodDetail_def Let_def none)
    have absent: "(detail_key r, d) \<notin> set ds" for d using False by force
    have "dt_isCash (new_detail r) = cash (detail_key r)" using r by (simp add: coherent_def)
    then show ?thesis using ok fresh amounts unfolding step by (auto simp: details_ok_def kept new of_source_snoc image_iff absent)
  qed
qed

lemma fold_details: "coherent cash rows \<Longrightarrow> rows_total rows \<le> 2 ^ 43 \<Longrightarrow> details_ok cash rows (fold add_row rows [])"
proof (induction rows rule: rev_induct)
  case (snoc r rows)
  have nn: "0 \<le> br_amount r" using snoc.prems(1) by (simp add: coherent_def)
  have "details_ok cash rows (fold add_row rows [])" using snoc nn by (auto simp: coherent_def rows_total_def)
  then show ?case using add_row_keeps [OF _ snoc.prems] by simp
qed (simp add: details_ok_def)

subsection \<open>Sums over the cash details\<close>

definition cash_of :: "(string \<Rightarrow> bool) \<Rightarrow> cash_source list \<Rightarrow> breakdown_row list \<Rightarrow> int" where
  "cash_of cash ss rows = sum_list (map (\<lambda>r. if cash (detail_key r) \<and> br_source r \<in> set ss then br_amount r else 0) rows)"

lemma js_round_hundred: "\<bar>n\<bar> \<le> 2 ^ 46 \<Longrightarrow> js_round (cents n * 100) = n"
  using cents_scaled [of n] by (intro js_round_near) linarith

lemma reduce_flat: "foldl (\<lambda>sum d. foldl (\<lambda>t s. dbl (t + f d s)) sum ss) x ds = add_up x (concat (map (\<lambda>d. map (f d) ss) ds))"
  by (induction ds arbitrary: x) (simp_all add: foldl_map)

lemma sum_sources:
  "distinct ss \<Longrightarrow> sum_list (map (\<lambda>s. of_source s k rows) ss)
     = sum_list (map (\<lambda>r. if br_source r \<in> set ss then br_amount r else 0) (filter (\<lambda>r. detail_key r = k) rows))"
proof (induction rows)
  case (Cons r rows)
  have "sum_list (map (\<lambda>s. of_source s k (r # rows)) ss)
      = sum_list (map (\<lambda>s. (if detail_key r = k then (if br_source r = s then br_amount r else 0) else 0) + of_source s k rows) ss)"
    by (intro arg_cong [where f = sum_list] map_cong) (auto simp: of_source_def)
  also have "\<dots> = sum_list (map (\<lambda>s. if detail_key r = k then (if br_source r = s then br_amount r else 0) else 0) ss) + sum_list (map (\<lambda>s. of_source s k rows) ss)"
    by (simp add: sum_list_addf)
  also have "sum_list (map (\<lambda>s. if detail_key r = k then (if br_source r = s then br_amount r else 0) else 0) ss)
      = (if detail_key r = k \<and> br_source r \<in> set ss then br_amount r else 0)"
    using Cons.prems by (cases "detail_key r = k") (simp_all add: sum_list_distinct_conv_sum_set sum.delta)
  finally show ?case using Cons by simp
qed (simp add: of_source_def)

lemma cash_of_details:
  assumes ok: "details_ok cash rows ds" and ss: "distinct ss"
  shows "sum_list (map (\<lambda>(k, d). if cash k then sum_list (map (\<lambda>s. of_source s k rows) ss) else 0) ds) = cash_of cash ss rows"
proof -
  let ?g = "\<lambda>r. if cash (detail_key r) \<and> br_source r \<in> set ss then br_amount r else 0"
  have step: "map (\<lambda>(k, d). if cash k then sum_list (map (\<lambda>s. of_source s k rows) ss) else 0) ds
      = map ((\<lambda>k. sum_list (map ?g (filter (\<lambda>r. detail_key r = k) rows))) \<circ> fst) ds"
  proof (rule map_cong [OF refl])
    fix x assume "x \<in> set ds"
    obtain k d where x: "x = (k, d)" by (cases x)
    have "sum_list (map ?g (filter (\<lambda>r. detail_key r = k) rows)) =
        (if cash k then sum_list (map (\<lambda>r. if br_source r \<in> set ss then br_amount r else 0) (filter (\<lambda>r. detail_key r = k) rows)) else 0)"
      by (induction rows) auto
    then show "(case x of (k, d) \<Rightarrow> if cash k then sum_list (map (\<lambda>s. of_source s k rows) ss) else 0) =
        ((\<lambda>k. sum_list (map ?g (filter (\<lambda>r. detail_key r = k) rows))) \<circ> fst) x"
      using sum_sources [OF ss] x by simp
  qed
  have "sum_list (map (\<lambda>(k, d). if cash k then sum_list (map (\<lambda>s. of_source s k rows) ss) else 0) ds)
      = sum_list (map (\<lambda>k. sum_list (map ?g (filter (\<lambda>r. detail_key r = k) rows))) (map fst ds))"
    by (simp only: step map_map)
  also have "\<dots> = sum_list (map ?g rows)" using ok by (intro partition_sum) (auto simp: details_ok_def)
  finally show ?thesis by (simp add: cash_of_def)
qed

lemma cash_of_bounds:
  assumes "\<forall>r\<in>set rows. 0 \<le> br_amount r" shows "0 \<le> cash_of cash ss rows" "cash_of cash ss rows \<le> rows_total rows"
  using assms by (induction rows) (auto simp: cash_of_def rows_total_def)

lemma sum_concat: "sum_list (concat (map (\<lambda>d. map (A d) ss) cs)) = sum_list (map (\<lambda>d. sum_list (map (A d) ss)) cs)" for A :: "'a \<Rightarrow> 'b \<Rightarrow> int"
  by (induction cs) auto

lemma sum_filter: "sum_list (map f (filter P xs)) = sum_list (map (\<lambda>x. if P x then f x else 0) xs)" for f :: "'a \<Rightarrow> int"
  by (induction xs) auto

lemma reduce_exact:
  assumes ok: "details_ok cash rows ds" and nn: "\<forall>r\<in>set rows. 0 \<le> br_amount r" and lim: "rows_total rows \<le> 2 ^ 43"
    and cs: "cs = filter dt_isCash (js_sort c (map snd ds))" "length cs \<le> 20" and ss: "distinct ss" "length ss \<le> 3"
  shows "reduce_details ss cs = cents (cash_of cash ss rows)"
proof -
  define A :: "method_detail \<Rightarrow> cash_source \<Rightarrow> int" where "A d s = js_round (dt_amounts d s * 100)" for d s
  have A: "A d s = of_source s k rows" if "(k, d) \<in> set ds" for k d s
  proof -
    have "dt_amounts d s = cents (of_source s k rows)" using ok that by (auto simp: details_ok_def)
    then show ?thesis using of_source_bounds [OF nn, of s k] lim by (simp add: A_def js_round_hundred)
  qed
  have member: "\<exists>k. (k, d) \<in> set ds" if "d \<in> set cs" for d using that unfolding cs(1) by auto
  have cA: "dt_amounts d s = cents (A d s)" "0 \<le> A d s" if d: "d \<in> set cs" for d s
  proof -
    obtain k where k: "(k, d) \<in> set ds" using member [OF d] by blast
    show "dt_amounts d s = cents (A d s)" using ok k by (auto simp: details_ok_def A [OF k])
    show "0 \<le> A d s" using of_source_bounds(1) [OF nn] by (simp add: A [OF k])
  qed
  let ?ns = "concat (map (\<lambda>d. map (A d) ss) cs)"
  have "concat (map (\<lambda>d. map (dt_amounts d) ss) cs) = map cents ?ns"
    unfolding map_concat using cA(1) by (intro arg_cong [where f = concat]) simp
  then have reduce: "reduce_details ss cs = to_fixed2 (add_up (cents 0) (map cents ?ns))"
    by (simp add: reduce_details_def roundAmount_def reduce_flat)
  have "sum_list ?ns = sum_list (map (\<lambda>d. if dt_isCash d then sum_list (map (A d) ss) else 0) (map snd ds))"
    unfolding sum_concat cs(1) by (simp only: sum_filter js_sort_sum)
  also have "\<dots> = sum_list (map (\<lambda>(k, d). if cash k then sum_list (map (\<lambda>s. of_source s k rows) ss) else 0) ds)"
  proof -
    have "(if dt_isCash d then sum_list (map (A d) ss) else 0) = (if cash k then sum_list (map (\<lambda>s. of_source s k rows) ss) else 0)"
      if "(k, d) \<in> set ds" for k d
      using ok that A [OF that] by (auto simp: details_ok_def intro!: arg_cong [where f = sum_list])
    then have "map ((\<lambda>d. if dt_isCash d then sum_list (map (A d) ss) else 0) \<circ> snd) ds
        = map (\<lambda>(k, d). if cash k then sum_list (map (\<lambda>s. of_source s k rows) ss) else 0) ds"
      by (intro map_cong refl) (simp add: split_beta)
    then show ?thesis by (simp only: map_map)
  qed
  finally have sum: "sum_list ?ns = cash_of cash ss rows" by (simp add: cash_of_details [OF ok ss(1)])
  have "map abs ?ns = ?ns" using cA(2) by (intro map_idI) auto
  then have abs: "\<bar>0\<bar> + sum_list (map abs ?ns) \<le> 2 ^ 43" using sum cash_of_bounds [OF nn, of cash ss] lim by simp
  have "length ?ns = length cs * length ss" by (simp add: length_concat comp_def sum_list_triv)
  also have "\<dots> \<le> 20 * 3" using cs(2) ss(2) by (rule mult_le_mono)
  finally have "\<bar>add_up (cents 0) (map cents ?ns) * 100 - of_int (0 + sum_list ?ns)\<bar> \<le> 1 / 5" using abs by (intro add_up_near) auto
  then show ?thesis unfolding reduce sum using cash_of_bounds [OF nn, of cash ss] lim by (intro fixed2_near) auto
qed

text \<open>The six amounts of the control come together without loss.\<close>

definition cash_sum :: "(string \<Rightarrow> bool) \<Rightarrow> breakdown_row list \<Rightarrow> int" where
  "cash_sum cash rows = sum_list (map (\<lambda>r. if cash (detail_key r) then (if isOut (br_source r) then - br_amount r else br_amount r) else 0) rows)"

lemma cash_sum_parts:
  "cash_sum cash rows = cash_of cash [S_sales, S_orders, S_otherIn] rows + cash_of cash [S_deliveries] rows + cash_of cash [S_manualIn] rows
     - cash_of cash [S_purchases, S_refunds, S_otherOut] rows - cash_of cash [S_manualOut] rows"
proof (induction rows)
  case (Cons r rows)
  then show ?case by (cases "br_source r") (auto simp: cash_sum_def cash_of_def isOut_def)
qed (simp add: cash_sum_def cash_of_def)

lemma cash_parts_total:
  assumes "\<forall>r\<in>set rows. 0 \<le> br_amount r"
  shows "cash_of cash [S_sales, S_orders, S_otherIn] rows + cash_of cash [S_deliveries] rows + cash_of cash [S_manualIn] rows
     + cash_of cash [S_purchases, S_refunds, S_otherOut] rows + cash_of cash [S_manualOut] rows \<le> rows_total rows"
  using assms
proof (induction rows)
  case (Cons r rows)
  then show ?case by (cases "br_source r") (auto simp: rows_total_def cash_of_def)
qed (simp add: cash_of_def rows_total_def)

lemma normalize_near:
  assumes e: "\<bar>x * 100 - of_int n\<bar> \<le> 1 / 5" and n: "\<bar>n\<bar> \<le> 2 ^ 46" shows "normalizeExpectedAmount x = cents (max 0 n)"
proof (cases "x < 0")
  case True
  then have "of_int n < (1 :: rat)" using e by linarith
  then have "n \<le> 0" by simp
  then show ?thesis using True by (simp add: normalizeExpectedAmount_def max_absorb1)
next
  case False
  then have "(- 1 :: rat) < of_int n" using e by linarith
  then have "0 \<le> n" by simp
  moreover have "to_fixed2 x = cents n" using e n by (intro fixed2_near) auto
  ultimately show ?thesis using False by (simp add: normalizeExpectedAmount_def max_absorb2)
qed

lemma control_expected:
  assumes ok: "details_ok cash rows ds" and nn: "\<forall>r\<in>set rows. 0 \<le> br_amount r" and n: "0 \<le> n" "n + rows_total rows \<le> 2 ^ 43"
    and d: "details = js_sort c (map snd ds)" "length (filter dt_isCash details) \<le> 20" and b: "sb_opening b = cents n"
  shows "ko_expected (control_of b details lastCounted) = cents (max 0 (n + cash_sum cash rows))"
proof -
  have lim: "rows_total rows \<le> 2 ^ 43" using n by simp
  have "filter dt_isCash details = filter dt_isCash (js_sort c (map snd ds))" by (simp add: d(1))
  note r = reduce_exact [OF ok nn lim this d(2)]
  have parts: "reduce_details [S_sales, S_orders, S_otherIn] (filter dt_isCash details) = cents (cash_of cash [S_sales, S_orders, S_otherIn] rows)"
    "reduce_details [S_deliveries] (filter dt_isCash details) = cents (cash_of cash [S_deliveries] rows)"
    "reduce_details [S_manualIn] (filter dt_isCash details) = cents (cash_of cash [S_manualIn] rows)"
    "reduce_details [S_purchases, S_refunds, S_otherOut] (filter dt_isCash details) = cents (cash_of cash [S_purchases, S_refunds, S_otherOut] rows)"
    "reduce_details [S_manualOut] (filter dt_isCash details) = cents (cash_of cash [S_manualOut] rows)"
    by (rule r; simp)+
  let ?ns = "[cash_of cash [S_sales, S_orders, S_otherIn] rows, cash_of cash [S_deliveries] rows, cash_of cash [S_manualIn] rows,
     - cash_of cash [S_purchases, S_refunds, S_otherOut] rows, - cash_of cash [S_manualOut] rows]"
  have "\<bar>n\<bar> + sum_list (map abs ?ns) \<le> 2 ^ 43" using n cash_parts_total [OF nn, of cash] cash_of_bounds(1) [OF nn] by simp
  then have e: "\<bar>add_up (cents n) (map cents ?ns) * 100 - of_int (n + sum_list ?ns)\<bar> \<le> 1 / 5" by (intro add_up_near) auto
  have sum: "n + sum_list ?ns = n + cash_sum cash rows" by (simp add: cash_sum_parts)
  have "\<bar>n + cash_sum cash rows\<bar> \<le> n + rows_total rows" unfolding cash_sum_parts abs_le_iff
    using n(1) cash_parts_total [OF nn, of cash] cash_of_bounds(1) [OF nn, of cash "[S_sales, S_orders, S_otherIn]"]
      cash_of_bounds(1) [OF nn, of cash "[S_deliveries]"] cash_of_bounds(1) [OF nn, of cash "[S_manualIn]"]
      cash_of_bounds(1) [OF nn, of cash "[S_purchases, S_refunds, S_otherOut]"] cash_of_bounds(1) [OF nn, of cash "[S_manualOut]"]
    by linarith
  then have lim46: "\<bar>n + cash_sum cash rows\<bar> \<le> 2 ^ 46" using n(2) by simp
  from normalize_near [OF e [unfolded sum] lim46] show ?thesis
    by (simp add: control_of_def Let_def parts b cents_minus)
qed

end
