(* ===== verification/Cash_Ledger.thy ===== *)
theory Cash_Ledger
  imports Cash_Expected
begin

section \<open>The ledger of a session\<close>

text \<open>
  The reference for the expected cash: the cash payments, manual movements and delivered cash fees of
  a session, one by one. The queries of the breakdown group them (\<open>rows_ledger\<close>), so the service
  expects exactly the opening amount and that ledger.
\<close>

subsection \<open>The reference\<close>

definition cash_method :: "string \<Rightarrow> cash_db \<Rightarrow> string \<Rightarrow> bool" where
  "cash_method tenantId db i = (case findMethodById i tenantId (cash_fin db) of
       None \<Rightarrow> False
     | Some m \<Rightarrow> normalizePaymentCategory (Some (me_tipo m)) (method_name i db) = C_CASH)"

definition session_payments :: "string \<Rightarrow> string \<Rightarrow> string option \<Rightarrow> cash_db \<Rightarrow> payment_row list" where
  "session_payments tenantId sessionId operator db = filter (session_payment tenantId sessionId operator db) (fd_payments (cash_fin db))"

definition manual_movements :: "string \<Rightarrow> string \<Rightarrow> string option \<Rightarrow> cash_db \<Rightarrow> cash_movement_row list" where
  "manual_movements tenantId sessionId operator db = filter (manual_movement tenantId sessionId operator) (fd_movements (cash_fin db))"

definition delivered_fees :: "string \<Rightarrow> string \<Rightarrow> string option \<Rightarrow> cash_db \<Rightarrow> fee_row list" where
  "delivered_fees tenantId sessionId operator db = filter (delivered_fee tenantId sessionId operator) (cb_fees db)"

definition signed :: "bool \<Rightarrow> int \<Rightarrow> int" where
  "signed inward n = (if inward then n else - n)"

definition cash_ledger :: "string \<Rightarrow> string \<Rightarrow> string option \<Rightarrow> cash_db \<Rightarrow> int" where
  "cash_ledger tenantId sessionId operator db =
     sum_list (map (\<lambda>p. if cash_method tenantId db (pm_methodId p) then signed (pm_in p) (pm_amount p) else 0) (session_payments tenantId sessionId operator db))
   + sum_list (map (\<lambda>m. signed (cv_in m) (cv_amount m)) (manual_movements tenantId sessionId operator db))
   + sum_list (map (\<lambda>f. if \<exists>i. dv_methodId f = Some i \<and> cash_method tenantId db i then dv_fee f else 0) (delivered_fees tenantId sessionId operator db))"

definition turnover :: "string \<Rightarrow> string \<Rightarrow> string option \<Rightarrow> cash_db \<Rightarrow> int" where
  "turnover tenantId sessionId operator db =
     sum_list (map pm_amount (session_payments tenantId sessionId operator db))
   + sum_list (map cv_amount (manual_movements tenantId sessionId operator db))
   + sum_list (map dv_fee (delivered_fees tenantId sessionId operator db))"

text \<open>What the tables promise: positive amounts, and identifiers of methods that are UUIDs and do not begin with an underscore.\<close>

definition method_id :: "string \<Rightarrow> bool" where
  "method_id i \<longleftrightarrow> take 1 i \<noteq> ''_''"

definition cash_rows_ok :: "cash_db \<Rightarrow> bool" where
  "cash_rows_ok db \<longleftrightarrow> list_all (\<lambda>p. 0 < pm_amount p) (fd_payments (cash_fin db)) \<and> list_all (\<lambda>m. 0 < cv_amount m) (fd_movements (cash_fin db)) \<and>
     list_all (\<lambda>m. method_id (me_id m)) (fd_methods (cash_fin db)) \<and>
     list_all (\<lambda>f. case dv_methodId f of None \<Rightarrow> True | Some i \<Rightarrow> method_id i) (cb_fees db)"

definition methods_of :: "string \<Rightarrow> cash_db \<Rightarrow> method_row list" where
  "methods_of tenantId db = filter (\<lambda>m. me_tenantId m = tenantId) (fd_methods (cash_fin db))"

subsection \<open>The rows\<close>

definition cash_key :: "string \<Rightarrow> cash_db \<Rightarrow> string \<Rightarrow> bool" where
  "cash_key tenantId db k \<longleftrightarrow> k = ''__CASH_Efectivo'' \<or> cash_method tenantId db k"

lemma categories:
  "normalizePaymentCategory None None = C_OTHER" "normalizePaymentCategory (Some ''OTHER'') None = C_OTHER"
  "normalizePaymentCategory (Some ''CASH'') (Some ''Efectivo'') = C_CASH"
  by code_simp+

lemma findMethodById_id: "findMethodById i t db = Some m \<Longrightarrow> me_id m = i \<and> me_tenantId m = t \<and> m \<in> set (fd_methods db)"
  by (auto simp: findMethodById_def find_Some_iff)

lemma findMethodById_listed: "findMethodById i t (cash_fin db) = Some m \<Longrightarrow> i \<in> me_id ` set (methods_of t db)"
  using findMethodById_id [of i t "cash_fin db" m] by (intro image_eqI [where x = m]) (auto simp: methods_of_def)

lemma cash_method_proper: "cash_rows_ok db \<Longrightarrow> \<not> method_id k \<Longrightarrow> \<not> cash_method t db k"
  by (auto simp: cash_method_def cash_rows_ok_def list_all_iff split: option.splits dest: findMethodById_id)

definition row_ok :: "string \<Rightarrow> cash_db \<Rightarrow> breakdown_row \<Rightarrow> bool" where
  "row_ok t db r \<longleftrightarrow> 0 \<le> br_amount r \<and> (dt_isCash (new_detail r) \<longleftrightarrow> cash_key t db (detail_key r))"

lemma coherent_rows: "coherent (cash_key t db) rows \<longleftrightarrow> (\<forall>r\<in>set rows. row_ok t db r)"
  by (simp add: coherent_def row_ok_def)

lemma new_detail_category: "dt_isCash (new_detail r) \<longleftrightarrow>
    normalizePaymentCategory (Some (coalesce (br_tipo r) (category_name (normalizePaymentCategory (br_tipo r) (br_nombre r))))) (br_nombre r) = C_CASH"
  by (simp add: new_detail_def createPaymentMethodDetail_def Let_def dt_isCash_def)

lemma sum_of_positive: "\<forall>x\<in>set xs. 0 < f x \<Longrightarrow> 0 \<le> sum_list (map f xs)" for f :: "'a \<Rightarrow> int"
  by (induction xs) auto

lemma positive_rows:
  assumes "cash_rows_ok db"
  shows "p \<in> set (session_payments t i operator db) \<Longrightarrow> 0 < pm_amount p" "m \<in> set (manual_movements t i operator db) \<Longrightarrow> 0 < cv_amount m"
    "f \<in> set (delivered_fees t i operator db) \<Longrightarrow> 0 < dv_fee f"
  using assms by (auto simp: session_payments_def manual_movements_def delivered_fees_def delivered_fee_def cash_rows_ok_def list_all_iff)

text \<open>A row with a method that exists.\<close>

lemma method_row_cash:
  assumes "findMethodById i t (cash_fin db) = Some m" "cash_rows_ok db" "br_methodId r = Some i" "br_nombre r = method_name i db" "br_tipo r = Some (me_tipo m)"
  shows "detail_key r = i" "dt_isCash (new_detail r) \<longleftrightarrow> cash_method t db i" "cash_key t db i \<longleftrightarrow> cash_method t db i"
proof -
  have "method_id i" using assms(1,2) by (auto simp: cash_rows_ok_def list_all_iff dest: findMethodById_id)
  then show "detail_key r = i" "dt_isCash (new_detail r) \<longleftrightarrow> cash_method t db i" "cash_key t db i \<longleftrightarrow> cash_method t db i"
    using assms by (auto simp: detail_key_def new_detail_category cash_method_def cash_key_def method_id_def)
qed

lemma payment_rows:
  assumes ok: "cash_rows_ok db" and r: "r \<in> set (getPaymentRows t i operator db)"
  shows "row_ok t db r" "detail_key r \<in> me_id ` set (methods_of t db)"
proof -
  obtain m type inward ps where g: "((m, type, inward), ps) \<in> set (group_by payment_key (session_payments t i operator db))"
    and row: "br_methodId r = Some m" "br_nombre r = method_name m db" "br_tipo r = map_option me_tipo (findMethodById m t (cash_fin db))"
      "br_amount r = sum_list (map pm_amount ps)"
    using r by (auto simp: getPaymentRows_def session_payments_def)
  from g obtain p where p: "p \<in> set (session_payments t i operator db)" "pm_methodId p = m" and ps: "set ps \<subseteq> set (session_payments t i operator db)"
    by (auto simp: group_by_member payment_key_def)
  then obtain x where x: "findMethodById m t (cash_fin db) = Some x" by (auto simp: session_payments_def session_payment_def)
  note c = method_row_cash [OF x ok row(1,2)]
  have "0 \<le> br_amount r" unfolding row(4) using ps positive_rows(1) [OF ok] by (intro sum_of_positive) blast
  then show "row_ok t db r" using c row(3) x by (simp add: row_ok_def)
  show "detail_key r \<in> me_id ` set (methods_of t db)" using c row(3) x findMethodById_listed [OF x] by simp
qed

lemma manual_rows:
  assumes ok: "cash_rows_ok db" and r: "r \<in> set (getManualMovementRows t i operator db)"
  shows "row_ok t db r" "detail_key r = ''__CASH_Efectivo''"
proof -
  from r obtain type inward ms where g: "((type, inward), ms) \<in> set (group_by (\<lambda>m. (cv_type m, cv_in m)) (manual_movements t i operator db))"
    and row: "br_methodId r = None" "br_nombre r = Some ''Efectivo''" "br_tipo r = Some ''CASH''" "br_amount r = sum_list (map cv_amount ms)"
    by (auto simp: getManualMovementRows_def manual_movements_def)
  have key: "detail_key r = ''__CASH_Efectivo''" by (simp add: detail_key_def row categories)
  have "0 \<le> br_amount r" unfolding row(4) using g positive_rows(2) [OF ok]
    by (intro sum_of_positive) (auto simp: group_by_member)
  then show "row_ok t db r" using key by (simp add: row_ok_def new_detail_category row categories cash_key_def)
  show "detail_key r = ''__CASH_Efectivo''" by (rule key)
qed

lemma delivery_rows:
  assumes ok: "cash_rows_ok db" and r: "r \<in> set (getDeliveryMethodRows t i operator db)"
  shows "row_ok t db r" "cash_key t db (detail_key r) \<Longrightarrow> detail_key r \<in> me_id ` set (methods_of t db)"
    "cash_key t db (detail_key r) \<longleftrightarrow> (\<exists>m. br_methodId r = Some m \<and> cash_method t db m)"
proof -
  from r obtain m x fs where g: "((m, x), fs) \<in> set (group_by (\<lambda>f. (dv_methodId f, fee_method t db f)) (delivered_fees t i operator db))"
    and row: "br_methodId r = m" "br_nombre r = Option.bind x (\<lambda>x. method_name (me_id x) db)" "br_tipo r = map_option me_tipo x" "br_amount r = sum_list (map dv_fee fs)"
    by (auto simp: getDeliveryMethodRows_def delivered_fees_def)
  from g obtain f where f: "f \<in> set (delivered_fees t i operator db)" "dv_methodId f = m" "fee_method t db f = x" and fs: "set fs \<subseteq> set (delivered_fees t i operator db)"
    by (auto simp: group_by_member)
  have nn: "0 \<le> br_amount r" unfolding row(4) using fs positive_rows(3) [OF ok] by (intro sum_of_positive) blast
  have "row_ok t db r \<and> (cash_key t db (detail_key r) \<longrightarrow> detail_key r \<in> me_id ` set (methods_of t db)) \<and>
      (cash_key t db (detail_key r) \<longleftrightarrow> (\<exists>m. br_methodId r = Some m \<and> cash_method t db m))"
  proof (cases x)
    case (Some y)
    then obtain k where k: "m = Some k" "findMethodById k t (cash_fin db) = Some y" using f by (auto simp: fee_method_def bind_eq_Some_conv)
    have "br_methodId r = Some k" "br_nombre r = method_name k db" "br_tipo r = Some (me_tipo y)" using row k Some findMethodById_id [OF k(2)] by auto
    from method_row_cash [OF k(2) ok this] show ?thesis using nn findMethodById_listed [OF k(2)] row(1) k(1) by (auto simp: row_ok_def)
  next
    case None
    have n: "\<not> dt_isCash (new_detail r)" by (simp add: new_detail_category row None categories)
    show ?thesis
    proof (cases m)
      case None': None
      have "detail_key r = ''__OTHER_cash''" by (simp add: detail_key_def row None None' categories)
      moreover have "\<not> cash_method t db ''__OTHER_cash''" by (rule cash_method_proper [OF ok]) (simp add: method_id_def)
      ultimately show ?thesis using nn n None' row(1) by (simp add: row_ok_def cash_key_def)
    next
      case (Some k)
      have "findMethodById k t (cash_fin db) = None" using f None Some by (simp add: fee_method_def)
      then have "\<not> cash_method t db k" by (simp add: cash_method_def)
      moreover have "method_id k" using ok f Some by (auto simp: cash_rows_ok_def list_all_iff delivered_fees_def split: option.splits)
      ultimately show ?thesis using nn n Some row(1) by (auto simp: row_ok_def cash_key_def detail_key_def method_id_def)
    qed
  qed
  then show "row_ok t db r" "cash_key t db (detail_key r) \<Longrightarrow> detail_key r \<in> me_id ` set (methods_of t db)"
    "cash_key t db (detail_key r) \<longleftrightarrow> (\<exists>m. br_methodId r = Some m \<and> cash_method t db m)" by blast+
qed

lemma all_rows_ok: "cash_rows_ok db \<Longrightarrow> coherent (cash_key t db) (breakdown_rows t i operator db)"
  unfolding coherent_rows breakdown_rows_def using payment_rows(1) manual_rows(1) delivery_rows(1) by fastforce

lemma sum_list_append3: "sum_list (map f (xs @ ys @ zs)) = sum_list (map f xs) + sum_list (map f ys) + sum_list (map f zs)" for f :: "'a \<Rightarrow> int"
  by simp

lemma rows_turnover:
  "rows_total (breakdown_rows t i operator db) = turnover t i operator db"
proof -
  have "sum_list (map br_amount (getPaymentRows t i operator db)) = sum_list (map pm_amount (session_payments t i operator db))"
    unfolding getPaymentRows_def session_payments_def map_map by (rule group_by_weighed) (auto simp: comp_def)
  moreover have "sum_list (map br_amount (getManualMovementRows t i operator db)) = sum_list (map cv_amount (manual_movements t i operator db))"
    unfolding getManualMovementRows_def manual_movements_def map_map by (rule group_by_weighed) (auto simp: comp_def)
  moreover have "sum_list (map br_amount (getDeliveryMethodRows t i operator db)) = sum_list (map dv_fee (delivered_fees t i operator db))"
    unfolding getDeliveryMethodRows_def delivered_fees_def map_map by (rule group_by_weighed) (auto simp: comp_def)
  ultimately show ?thesis by (simp add: rows_total_def breakdown_rows_def turnover_def)
qed

lemma paymentSource_out [simp]: "isOut (paymentSource type inward) \<longleftrightarrow> \<not> inward"
  by (cases type) (auto simp: paymentSource_def isOut_def)

lemma sum_scaled: "\<forall>x\<in>set xs. f x = (if c then signed b (g x) else 0) \<Longrightarrow> (if c then (if \<not> b then - sum_list (map g xs) else sum_list (map g xs)) else 0) = sum_list (map f xs)"
  for f g :: "'a \<Rightarrow> int"
  by (induction xs) (auto simp: signed_def)

text \<open>The weight of a row in the expected cash.\<close>

definition weight :: "string \<Rightarrow> cash_db \<Rightarrow> breakdown_row \<Rightarrow> int" where
  "weight t db r = (if cash_key t db (detail_key r) then (if isOut (br_source r) then - br_amount r else br_amount r) else 0)"

lemma payment_ledger:
  assumes "cash_rows_ok db"
  shows "sum_list (map (weight t db) (getPaymentRows t i operator db))
    = sum_list (map (\<lambda>p. if cash_method t db (pm_methodId p) then signed (pm_in p) (pm_amount p) else 0) (session_payments t i operator db))"
  unfolding getPaymentRows_def map_map session_payments_def [symmetric]
proof (rule group_by_weighed, goal_cases)
  case (1 k ps)
  obtain m type inward where k: "k = (m, type, inward)" by (cases k)
  have g: "k \<in> payment_key ` set (session_payments t i operator db)" "ps = filter (\<lambda>p. payment_key p = k) (session_payments t i operator db)"
    using 1 by (simp_all only: group_by_member)
  from g(1) obtain p where p: "p \<in> set (session_payments t i operator db)" "pm_methodId p = m" unfolding k payment_key_def by blast
  have ps: "\<forall>p\<in>set ps. pm_methodId p = m \<and> pm_in p = inward" unfolding g(2) k payment_key_def by simp
  obtain x where x: "findMethodById m t (cash_fin db) = Some x" using p by (auto simp: session_payments_def session_payment_def)
  have c: "cash_key t db m \<longleftrightarrow> cash_method t db m"
  proof -
    have "method_id m" using findMethodById_id [OF x] assms by (auto simp: cash_rows_ok_def list_all_iff)
    then have "m \<noteq> ''__CASH_Efectivo''" by (auto simp: method_id_def)
    then show ?thesis by (simp add: cash_key_def)
  qed
  have "(if cash_method t db m then (if \<not> inward then - sum_list (map pm_amount ps) else sum_list (map pm_amount ps)) else 0)
      = sum_list (map (\<lambda>p. if cash_method t db (pm_methodId p) then signed (pm_in p) (pm_amount p) else 0) ps)"
    using ps by (intro sum_scaled) simp
  then show ?case unfolding k weight_def comp_def split by (simp only: detail_key_def breakdown_row.select_convs option.case c paymentSource_out)
qed

lemma manual_ledger:
  "sum_list (map (weight t db) (getManualMovementRows t i operator db)) = sum_list (map (\<lambda>m. signed (cv_in m) (cv_amount m)) (manual_movements t i operator db))"
  unfolding getManualMovementRows_def map_map manual_movements_def [symmetric]
proof (rule group_by_weighed, goal_cases)
  case (1 k ms)
  obtain type inward where k: "k = (type, inward)" by (cases k)
  from 1 have ms: "\<forall>m\<in>set ms. cv_in m = inward" by (auto simp: group_by_member k)
  have "detail_key \<lparr>br_methodId = None, br_nombre = Some ''Efectivo'', br_tipo = Some ''CASH'', br_source = s, br_count = n, br_amount = a\<rparr> = ''__CASH_Efectivo''" for s n a
    by (simp add: detail_key_def categories)
  then show ?case using ms sum_scaled [of ms "\<lambda>m. signed (cv_in m) (cv_amount m)" True inward cv_amount]
    by (cases inward) (simp_all add: k weight_def cash_key_def isOut_def)
qed

lemma delivery_ledger:
  assumes "cash_rows_ok db"
  shows "sum_list (map (weight t db) (getDeliveryMethodRows t i operator db))
    = sum_list (map (\<lambda>f. if \<exists>i. dv_methodId f = Some i \<and> cash_method t db i then dv_fee f else 0) (delivered_fees t i operator db))"
proof -
  have "sum_list (map (weight t db) (getDeliveryMethodRows t i operator db))
      = sum_list (map (\<lambda>r. if \<exists>m. br_methodId r = Some m \<and> cash_method t db m then br_amount r else 0) (getDeliveryMethodRows t i operator db))"
  proof (intro arg_cong [where f = sum_list] map_cong refl)
    fix r assume r: "r \<in> set (getDeliveryMethodRows t i operator db)"
    then have "br_source r = S_deliveries" by (auto simp: getDeliveryMethodRows_def)
    then show "weight t db r = (if \<exists>m. br_methodId r = Some m \<and> cash_method t db m then br_amount r else 0)"
      using delivery_rows(3) [OF assms r] by (auto simp: weight_def isOut_def)
  qed
  also have "\<dots> = sum_list (map (\<lambda>f. if \<exists>i. dv_methodId f = Some i \<and> cash_method t db i then dv_fee f else 0) (delivered_fees t i operator db))"
    unfolding getDeliveryMethodRows_def map_map delivered_fees_def [symmetric]
  proof (rule group_by_weighed, goal_cases)
    case (1 k fs)
    obtain m x where k: "k = (m, x)" by (cases k)
    from 1 have fs: "\<forall>f\<in>set fs. dv_methodId f = m" by (auto simp: group_by_member k)
    have "(if \<exists>i. m = Some i \<and> cash_method t db i then (if \<not> True then - sum_list (map dv_fee fs) else sum_list (map dv_fee fs)) else 0)
        = sum_list (map (\<lambda>f. if \<exists>i. dv_methodId f = Some i \<and> cash_method t db i then dv_fee f else 0) fs)"
      using fs by (intro sum_scaled) (auto simp: signed_def)
    then show ?case unfolding k comp_def split by (simp only: breakdown_row.select_convs not_True_eq_False if_False)
  qed
  finally show ?thesis .
qed

lemma rows_ledger: "cash_rows_ok db \<Longrightarrow> cash_sum (cash_key t db) (breakdown_rows t i operator db) = cash_ledger t i operator db"
  using payment_ledger [of db t i operator] manual_ledger [of t db i operator] delivery_ledger [of db t i operator]
  by (simp add: cash_sum_def weight_def [abs_def] breakdown_rows_def cash_ledger_def)

text \<open>Every cash detail is a method of the tenant, or the cash of the manual movements.\<close>

lemma few_details:
  assumes ok: "cash_rows_ok db" and ds: "details_ok (cash_key t db) (breakdown_rows t i operator db) ds" and few: "length (methods_of t db) \<le> 19"
  shows "length (filter dt_isCash (js_sort c (map snd ds))) \<le> 20"
proof -
  let ?K = "insert ''__CASH_Efectivo'' (me_id ` set (methods_of t db))"
  have "fst ` set (filter (dt_isCash \<circ> snd) ds) \<subseteq> ?K"
  proof (rule image_subsetI)
    fix x assume x: "x \<in> set (filter (dt_isCash \<circ> snd) ds)"
    then obtain r where r: "r \<in> set (breakdown_rows t i operator db)" "fst x = detail_key r" using ds by (force simp: details_ok_def)
    have "cash_key t db (detail_key r)" using x r(2) ds by (auto simp: details_ok_def split_beta)
    then show "fst x \<in> ?K"
      using r payment_rows(2) [OF ok] manual_rows(2) [OF ok] delivery_rows(2) [OF ok] by (fastforce simp: breakdown_rows_def)
  qed
  then have "card (fst ` set (filter (dt_isCash \<circ> snd) ds)) \<le> card ?K" by (intro card_mono) auto
  also have "\<dots> \<le> Suc (card (me_id ` set (methods_of t db)))" by (rule card_insert_le_m1 [of "Suc _", simplified]) simp
  also have "card (me_id ` set (methods_of t db)) \<le> 19" using few card_image_le [of "set (methods_of t db)" me_id] card_length [of "methods_of t db"] by simp
  finally have k: "card (fst ` set (filter (dt_isCash \<circ> snd) ds)) \<le> 20" by simp
  have "distinct (map fst (filter (dt_isCash \<circ> snd) ds))" using ds by (simp add: details_ok_def distinct_map_filter)
  then have "length (filter (dt_isCash \<circ> snd) ds) = card (fst ` set (filter (dt_isCash \<circ> snd) ds))"
    using distinct_card [of "map fst (filter (dt_isCash \<circ> snd) ds)"] by simp
  then show ?thesis using k by (simp add: js_sort_filter_length filter_map)
qed

end
