(* ===== verification/Cash_Facts.thy ===== *)
theory Cash_Facts
  imports Cash_Ledger Sale_Undo
begin

section \<open>The money of cash sessions\<close>

text \<open>
  What a session is expected to hold, what it is closed with by its cashiers, and what the
  cancellation of a sale does to it.
\<close>

subsection \<open>The expected cash\<close>

lemma opening_kept: "sb_opening (fold (\<lambda>r. addToSource (src r) (x r)) rows b) = sb_opening b"
  by (induction rows arbitrary: b) (simp_all add: addToSource_def)

lemma net_source_opening [simp]: "sb_opening (net_source b) = sb_opening b"
  by (simp add: net_source_def Let_def)

lemma cash_sum_bound: "\<forall>r\<in>set rows. 0 \<le> br_amount r \<Longrightarrow> \<bar>cash_sum cash rows\<bar> \<le> rows_total rows"
  by (induction rows) (auto simp: cash_sum_def rows_total_def)

lemma expected_breakdown:
  assumes ok: "cash_rows_ok db" "length (methods_of t db) \<le> 19" and n: "0 \<le> n" "n + turnover t i operator db \<le> 2 ^ 43"
  shows "ko_expected (bk_control (buildCashBreakdown h (cents n) lastCounted t i operator db)) = cents (max 0 (n + cash_ledger t i operator db))"
proof -
  let ?rows = "breakdown_rows t i operator db"
  have rows: "coherent (cash_key t db) ?rows" by (rule all_rows_ok [OF ok(1)])
  then have nn: "\<forall>r\<in>set ?rows. 0 \<le> br_amount r" by (simp add: coherent_def)
  have lim: "n + rows_total ?rows \<le> 2 ^ 43" using n(2) by (simp add: rows_turnover)
  have ds: "details_ok (cash_key t db) ?rows (fold add_row ?rows [])" using rows lim n(1) by (intro fold_details) auto
  have tot: "0 \<le> rows_total ?rows" using nn unfolding rows_total_def by (intro sum_list_nonneg) auto
  have "to_fixed2 (cents n) = cents n" using n(1) lim tot by (intro fixed2.r_cents) simp
  then have o': "sb_opening (net_source (fold (\<lambda>r. addToSource (br_source r) (roundAmount (cents (br_amount r)))) ?rows
      (emptySourceBreakdown\<lparr>sb_opening := roundAmount (cents n)\<rparr>))) = cents n"
    by (simp add: opening_kept roundAmount_def)
  show ?thesis
    unfolding buildCashBreakdown_def Let_def cash_breakdown.select_convs rows_ledger [OF ok(1), symmetric]
    by (rule control_expected [OF ds nn n(1) lim refl few_details [OF ok(1) ds ok(2)] o'])
qed

text \<open>
  Property C8: the cash that a session should hold, of the whole session or of one operator, is
  computed exactly: it is its opening amount (for an operator, when he opened it) plus the cash payments in, the delivered fees
  in cash and the manual movements in, less those out, and never below zero, although the service
  adds it up by payment method and source in floating point.
\<close>

theorem expected_cash_exact:
  assumes "cash_rows_ok db" "length (methods_of (cs_tenantId s) db) \<le> 19"
    and c: "find (\<lambda>c. sn_id c = cs_id s) (cb_columns db) = Some c" "0 \<le> sn_opening c"
      "sn_opening c + turnover (cs_tenantId s) (cs_id s) operator db \<le> 2 ^ 43"
  shows "summary_expected (withDeliverySummary h s operator db) =
    cents (max 0 ((if operator = None \<or> operator = Some (cs_openedBy s) then sn_opening c else 0) + cash_ledger (cs_tenantId s) (cs_id s) operator db))"
proof -
  let ?t = "cs_tenantId s" and ?i = "cs_id s"
  define n where "n = (if operator = None \<or> operator = Some (cs_openedBy s) then sn_opening c else 0)"
  have start: "(if operator = None \<or> operator = Some (cs_openedBy s) then opening_of ?i db else 0) = cents n"
    by (simp add: n_def opening_of_def c(1))
  have n: "0 \<le> n" "n + turnover ?t ?i operator db \<le> 2 ^ 43" using c(2,3) by (auto simp: n_def)
  let ?N = "max 0 (n + cash_ledger ?t ?i operator db)"
  have rows: "\<forall>r\<in>set (breakdown_rows ?t ?i operator db). 0 \<le> br_amount r"
    using all_rows_ok [OF assms(1), of ?t ?i operator] by (simp add: coherent_def)
  have "\<bar>cash_ledger ?t ?i operator db\<bar> \<le> turnover ?t ?i operator db"
    using cash_sum_bound [OF rows, of "cash_key ?t db"] by (simp add: rows_ledger [OF assms(1)] rows_turnover)
  then have "\<bar>?N\<bar> \<le> 2 ^ 46" using n by simp
  then have fixed: "to_fixed2 (cents ?N) = cents ?N" by (rule fixed2.r_cents)
  have "0 \<le> cents ?N" by (intro cents_nonneg) simp
  then show ?thesis
    unfolding n_def [symmetric] summary_expected_def withDeliverySummary_def Let_def cash_summary.select_convs start
      expected_breakdown [OF assms(1,2) n]
    by (simp add: normalizeExpectedAmount_def fixed)
qed

subsection \<open>Closing by the cashiers\<close>

lemma money_column_Inr: "money_column env x t = Inr n \<longleftrightarrow> fe_money env x = Some n"
  by (auto simp: money_column_def split: option.splits)

lemma close_session_shape:
  assumes "close_session env i u x y z db = Inr db'"
  obtains n e d where "fe_money env x = Some n" "fe_money env y = Some e" "fe_money env z = Some d" "0 \<le> n" "0 \<le> e"
    "db' = set_fin ((cash_fin db)\<lparr>fd_sessions := update_where (\<lambda>s. cs_id s = i) (\<lambda>s. s\<lparr>cs_status := ''CLOSED''\<rparr>) (fd_sessions (cash_fin db))\<rparr>)
       (db\<lparr>cb_columns := update_where (\<lambda>c. sn_id c = i) (close_columns env u n e d) (cb_columns db)\<rparr>)"
  using assms that by (auto simp: close_session_def and_then_Inr money_column_Inr Let_def split: if_splits)

lemma createCashMovement_shape:
  assumes "createCashMovement env s type inward x reference description u db = Inr db'"
  obtains n where "fe_money env x = Some n" "0 < n"
    "db' = set_fin ((cash_fin db)\<lparr>fd_movements := fd_movements (cash_fin db) @ [session_movement env s type inward n reference description u (cash_fin db)]\<rparr>) db"
proof -
  from assms obtain n fin where n: "fe_money env x = Some n" and
    ins: "insert_cash_movement (session_movement env s type inward n reference description u (cash_fin db)) (cash_fin db) = Inr fin" "db' = set_fin fin db"
    by (auto simp: createCashMovement_def and_then_Inr money_column_Inr)
  have "0 < cv_amount (session_movement env s type inward n reference description u (cash_fin db))"
    "fin = (cash_fin db)\<lparr>fd_movements := fd_movements (cash_fin db) @ [session_movement env s type inward n reference description u (cash_fin db)]\<rparr>"
    using ins(1) by (auto simp: insert_cash_movement_def simp del: insert_iff split: if_splits)
  then show thesis using that n ins(2) by (simp add: session_movement_def)
qed

lemma createCashCount_shape:
  assumes "createCashCount env s u x y z notes closing db = Inr (c, db')"
  obtains n e d where "fe_money env x = Some n" "fe_money env y = Some e" "0 \<le> n" "0 \<le> e" "ct_id c \<notin> ct_id ` set (cb_counts db)"
    "c = \<lparr>ct_id = ct_id c, ct_tenantId = cs_tenantId s, ct_branchId = cs_branchId s, ct_sessionId = cs_id s,
       ct_countedBy = u, ct_countedAt = fe_now env, ct_counted = n, ct_expected = e, ct_difference = d, ct_notes = notes, ct_closing = closing\<rparr>"
    "db' = db\<lparr>cb_counts := cb_counts db @ [c]\<rparr>"
  using assms that by (auto simp: createCashCount_def and_then_Inr money_column_Inr Let_def split: if_splits)

lemma cash_fin_set [simp]: "cash_fin (set_fin fin db) = fin" "cb_columns (set_fin fin db) = cb_columns db" "cb_counts (set_fin fin db) = cb_counts db"
  "cb_registers (set_fin fin db) = cb_registers db" "cb_fees (set_fin fin db) = cb_fees db"
  by (simp_all add: cash_fin_def set_fin_def)

lemma set_fin_again [simp]: "set_fin f (set_fin g db) = set_fin f db"
  by (simp add: set_fin_def)

lemma cash_fin_counts [simp]: "cash_fin (db\<lparr>cb_counts := cs\<rparr>) = cash_fin db" "cash_fin (db\<lparr>cb_columns := xs\<rparr>) = cash_fin db"
  by (simp_all add: cash_fin_def)

lemma count_total_flat: "count_total column cs = add_up 0 (map cents (map column cs))"
  by (simp add: count_total_def foldl_map)

lemma set_latest [simp]: "set (latest_counts cs) = set cs"
  by (simp add: latest_counts_def)

definition total_counted :: "closure_progress \<Rightarrow> int" where
  "total_counted p = sum_list (map ct_counted (required_counts p))"

definition total_expected :: "closure_progress \<Rightarrow> int" where
  "total_expected p = sum_list (map ct_expected (required_counts p))"

text \<open>The numbers of a complete closing.\<close>

definition moderate :: "closure_progress \<Rightarrow> bool" where
  "moderate p \<longleftrightarrow> length (required_counts p) \<le> 20 \<and> total_counted p \<le> 2 ^ 42 \<and> total_expected p \<le> 2 ^ 42"

lemma totals_near:
  assumes nn: "\<forall>c\<in>set (required_counts p). 0 \<le> ct_counted c \<and> 0 \<le> ct_expected c" and m: "moderate p"
  shows "\<bar>count_total ct_counted (required_counts p) * 100 - of_int (total_counted p)\<bar> \<le> 1 / 15" "0 \<le> total_counted p"
    "\<bar>count_total ct_expected (required_counts p) * 100 - of_int (total_expected p)\<bar> \<le> 1 / 15" "0 \<le> total_expected p"
proof -
  have "length (map f (required_counts p)) \<le> 20" for f :: "count_row \<Rightarrow> int" using m by (simp add: moderate_def)
  then show "\<bar>count_total ct_counted (required_counts p) * 100 - of_int (total_counted p)\<bar> \<le> 1 / 15"
    "\<bar>count_total ct_expected (required_counts p) * 100 - of_int (total_expected p)\<bar> \<le> 1 / 15"
    unfolding count_total_flat total_counted_def total_expected_def using nn m
    by (intro counts_near; auto simp: moderate_def total_counted_def total_expected_def)+
  show "0 \<le> total_counted p" "0 \<le> total_expected p" using nn by (auto simp: total_counted_def total_expected_def intro!: sum_list_nonneg)
qed

lemma finalize_shape:
  assumes fin: "finalizeOpenSessionFromProgress env s u p db = Inr db'"
    and nn: "\<forall>c\<in>set (required_counts p). 0 \<le> ct_counted c \<and> 0 \<le> ct_expected c" and m: "moderate p" and col: "numeric_14_2 (fe_money env)"
  defines "n \<equiv> total_counted p" and "e \<equiv> total_expected p"
  shows "db' = set_fin ((cash_fin db)\<lparr>fd_sessions := update_where (\<lambda>t. cs_id t = cs_id s) (\<lambda>t. t\<lparr>cs_status := ''CLOSED''\<rparr>) (fd_sessions (cash_fin db)),
       fd_movements := fd_movements (cash_fin db) @ (if 0 < n
         then [session_movement env s ''CLOSING'' False n None (Some ''Cierre completo de caja'') u (cash_fin db)] else [])\<rparr>)
       (db\<lparr>cb_columns := update_where (\<lambda>c. sn_id c = cs_id s) (close_columns env u n e (n - e)) (cb_columns db)\<rparr>)"
proof -
  let ?x = "count_total ct_counted (required_counts p)" and ?y = "count_total ct_expected (required_counts p)"
  note t = totals_near [OF nn m, folded n_def e_def]
  have lim: "n \<le> 2 ^ 42" "e \<le> 2 ^ 42" using m by (simp_all add: moderate_def n_def e_def)
  from fin obtain db1 where cl: "close_session env (cs_id s) u (to_fixed2 ?x) (to_fixed2 ?y) (to_fixed2 (dbl (?x - ?y))) db = Inr db1"
    and mv: "(if 0 < ?x then createCashMovement env s ''CLOSING'' False (to_fixed2 ?x) None (Some ''Cierre completo de caja'') u db1 else Inr db1) = Inr db'"
    by (auto simp: finalizeOpenSessionFromProgress_def Let_def and_then_Inr split del: if_split)
  have f: "to_fixed2 ?x = cents n" "to_fixed2 ?y = cents e"
    using t lim by (auto intro!: fixed2_near)
  have d: "to_fixed2 (dbl (?x - ?y)) = cents (n - e)" using t lim by (intro difference_near) auto
  have s: "fe_money env (cents k) = Some j \<Longrightarrow> \<bar>k\<bar> \<le> money_limit \<Longrightarrow> j = k" for j k using stored_cents [OF col] by blast
  have bounds: "\<bar>n\<bar> \<le> money_limit" "\<bar>e\<bar> \<le> money_limit" "\<bar>n - e\<bar> \<le> money_limit" using t lim by (auto simp: money_limit_def)
  from cl [unfolded f d] have db1: "db1 = set_fin ((cash_fin db)\<lparr>fd_sessions := update_where (\<lambda>t. cs_id t = cs_id s) (\<lambda>t. t\<lparr>cs_status := ''CLOSED''\<rparr>) (fd_sessions (cash_fin db))\<rparr>)
       (db\<lparr>cb_columns := update_where (\<lambda>c. sn_id c = cs_id s) (close_columns env u n e (n - e)) (cb_columns db)\<rparr>)"
    by (rule close_session_shape) (use s bounds in blast)
  show ?thesis
  proof (cases "0 < n")
    case True
    have "0 < ?x"
    proof (rule ccontr)
      assume "\<not> 0 < ?x"
      then have "of_int n \<le> (1 / 15 :: rat)" using t(1) by linarith
      then have "of_int n < (1 :: rat)" by linarith
      then show False using True by simp
    qed
    then have "createCashMovement env s ''CLOSING'' False (cents n) None (Some ''Cierre completo de caja'') u db1 = Inr db'"
      using mv by (simp add: f)
    then show ?thesis
    proof (rule createCashMovement_shape)
      fix k assume k: "fe_money env (cents n) = Some k" "0 < k"
        "db' = set_fin ((cash_fin db1)\<lparr>fd_movements := fd_movements (cash_fin db1) @ [session_movement env s ''CLOSING'' False k None (Some ''Cierre completo de caja'') u (cash_fin db1)]\<rparr>) db1"
      have "k = n" using s k(1) bounds(1) by blast
      then show ?thesis using k(3) True by (simp add: db1 session_movement_def)
    qed
  next
    case False
    then have n0: "n = 0" using t(2) by simp
    have "db' = db1"
    proof (cases "0 < ?x")
      case True
      then have "createCashMovement env s ''CLOSING'' False (cents n) None (Some ''Cierre completo de caja'') u db1 = Inr db'" using mv by (simp add: f)
      then show ?thesis by (rule createCashMovement_shape) (use s bounds(1) n0 in blast)
    qed (use mv in simp)
    then show ?thesis using False by (simp add: db1)
  qed
qed

lemma close_by_cashier:
  assumes "close env actor i r db = Inr (Some p, db')"
  obtains s where "findCashSession i db = Some s" "cs_id s = i" "cs_status s = ''OPEN''" "cashier_close env actor s r db = Inr (p, db')"
proof -
  from assms obtain s where s: "own_session actor i db = Inr s" "cs_status s = ''OPEN''"
    and cl: "(if canAdminCash actor then and_then (admin_close env actor s r db) (\<lambda>db'. Inr (None, db'))
          else if \<not> canOperateCashSession actor s db then Inl (Forbidden ''No tienes asignacion activa para esta caja'')
          else and_then (cashier_close env actor s r db) (\<lambda>(p, db'). Inr (Some p, db'))) = Inr (Some p, db')"
    by (auto simp: close_def and_then_Inr simp del: not_Some_eq split: if_splits)
  have "cashier_close env actor s r db = Inr (p, db')" using cl by (auto simp: and_then_Inr split: if_splits)
  moreover have "findCashSession i db = Some s" using s(1) by (auto simp: own_session_def and_then_Inr split: if_splits option.splits)
  moreover from this have "cs_id s = i" by (auto simp: findCashSession_def find_Some_iff)
  ultimately show thesis using that s(2) by blast
qed

lemma cashier_close_shape:
  assumes "cashier_close env actor s r db = Inr (p, db')"
  obtains c db1 where "createCashCount env s (fa_userId actor) (xq_amount r)
      (summary_expected (withDeliverySummary (fe_host env) s (Some (fa_userId actor)) db))
      (to_fixed2 (dbl (xq_amount r - summary_expected (withDeliverySummary (fe_host env) s (Some (fa_userId actor)) db))))
      (trimmed (xq_description r)) True db = Inr (c, db1)"
    "list_all (\<lambda>c. ct_countedBy c \<noteq> fa_userId actor) (pg_counts (getClosureProgress s db))" "p = getClosureProgress s db1"
    "if isComplete p then finalizeOpenSessionFromProgress env s (fa_userId actor) p db1 = Inr db' else db' = db1"
  using assms that by (auto simp: cashier_close_def Let_def and_then_Inr list_all_iff list_ex_iff split: if_splits)

lemma progress_counts:
  "set (required_counts (getClosureProgress s db)) \<subseteq> set (cb_counts db)"
  "isComplete (getClosureProgress s db) \<Longrightarrow> u \<in> set (pg_required (getClosureProgress s db)) \<Longrightarrow> \<exists>c\<in>set (required_counts (getClosureProgress s db)). ct_countedBy c = u"
  by (auto simp: required_counts_def getClosureProgress_def Let_def listCashCounts_def isComplete_def filter_empty_conv)


subsection \<open>The cancellation of a cash sale\<close>

lemma sum_updated:
  fixes f :: "'a \<Rightarrow> int"
  assumes "distinct (map k xs)" "x \<in> set xs"
  shows "sum_list (map f (update_where (\<lambda>y. k y = k x) g xs)) = sum_list (map f xs) - f x + f (g x)"
  using assms
proof (induction xs)
  case (Cons y ys)
  show ?case
  proof (cases "x = y")
    case True
    have "\<forall>z\<in>set ys. k z \<noteq> k x" using Cons.prems(1) True by (auto simp: image_iff)
    then have "update_where (\<lambda>z. k z = k x) g ys = ys" by (rule update_where_none)
    then show ?thesis using True by (simp add: update_where_def)
  next
    case False
    then have "x \<in> set ys" "k y \<noteq> k x" using Cons.prems by auto
    then show ?thesis using Cons by (simp add: update_where_def)
  qed
qed simp

text \<open>The refund of a payment whose one allocation is the sale's.\<close>

lemma undo_one_payment:
  assumes undo: "undo_payment env sale u p fin = Inr (b, fin')" and order: "dc_orderId sale = None" and col: "numeric_14_2 (fe_money (sv_fin env))"
    and p: "pm_status p = PAY_COMPLETED" "0 < pm_amount p" "pm_amount p \<le> money_limit"
    and a: "allocations_of (pm_id p) fin = [a]" "is_sale_allocation (dc_id sale) a" "al_amount a = pm_amount p"
  shows "fd_payments fin' = update_where (\<lambda>q. pm_id q = pm_id p) (\<lambda>q. q\<lparr>pm_status := PAY_REFUNDED\<rparr>)
      (fd_payments fin @ [refund_payment env sale u p (pm_amount p) fin]) \<and> fd_methods fin' = fd_methods fin \<and>
      pm_id (refund_payment env sale u p (pm_amount p) fin) \<notin> pm_id ` set (fd_payments fin) \<and> drawer fin' = drawer fin"
proof -
  have amount: "foldl (\<lambda>s a. dbl (s + cents (al_amount a))) 0 [a] = cents (pm_amount p)" by (simp add: a(3))
  have pos: "0 < cents (pm_amount p)" using p(2,3) cents_strict_mono [of 0 "pm_amount p"] by (simp add: money_limit_def)
  from undo obtain fin1 where r: "refund env sale u p (cents (pm_amount p)) fin = Inr fin1"
    and fin': "fin' = updatePaymentStatus (pm_id p) PAY_REFUNDED (delete_allocations [a] fin1)"
    using pos p(1) unfolding undo_payment_def Let_def a(1) by (auto simp: order a(2,3) and_then_Inr)
  from r obtain n db1 db2 rs where n: "fe_money (sv_fin env) (cents (pm_amount p)) = Some n"
    and d1: "insert_payment (refund_payment env sale u p n fin) fin = Inr db1"
    and d2: "createAllocations (sv_fin env) (pm_id (refund_payment env sale u p n fin)) [\<lparr>ai_type = R_SALE, ai_id = dc_id sale, ai_amount = cents (pm_amount p)\<rparr>] db1 = Inr (db2, rs)"
    and d3: "(case (if truthy (pm_cashSessionId p) then pm_cashSessionId p else None) of None \<Rightarrow> Inr db2
       | Some session \<Rightarrow> insert_cash_movement (refund_movement env sale p (refund_payment env sale u p n fin) session db2) db2) = Inr fin1"
    unfolding refund_def and_then_Inr Let_def money_column_Inr by (metis (no_types, lifting) case_prod_conv surj_pair)
  have "n = pm_amount p" using stored_cents [OF col _ n] p(2,3) by simp
  moreover have "db1 = fin\<lparr>fd_payments := fd_payments fin @ [refund_payment env sale u p n fin]\<rparr>"
    "pm_id (refund_payment env sale u p n fin) \<notin> pm_id ` set (fd_payments fin)" using d1 by (auto simp: insert_payment_def split: if_splits)
  moreover have "fd_payments db2 = fd_payments db1 \<and> fd_methods db2 = fd_methods db1" using createAllocations_rows [OF d2] by simp
  moreover have "fd_payments fin1 = fd_payments db2 \<and> fd_methods fin1 = fd_methods db2"
    using d3 by (cases "if truthy (pm_cashSessionId p) then pm_cashSessionId p else None") (auto simp: insert_cash_movement_def split: if_splits)
  moreover have "drawer fin' = drawer fin" using refund_drawer [OF r] by (simp add: fin' updatePaymentStatus_def delete_allocations_def drawer_def)
  ultimately show ?thesis by (simp add: fin' updatePaymentStatus_def delete_allocations_def)
qed

lemma undo_items_names: "undo_items env sale u items ms db = Inr db' \<Longrightarrow> so_methodNames db' = so_methodNames db"
proof (induction items arbitrary: ms db)
  case (Cons item items)
  from Cons.prems show ?case by (rule undo_items_step) (use Cons.IH in fastforce)
qed simp

lemma undo_sale_money:
  assumes "undo_sale env sale u db = Inr db'" "dc_orderId sale = None" "listAllocatedPayments (dc_tenantId sale) (dc_id sale) (so_fin db) = [p]"
  obtains b fin where "undo_payment env sale u p (so_fin db) = Inr (b, fin)" "fd_payments (so_fin db') = fd_payments fin"
    "fd_methods (so_fin db') = fd_methods fin" "drawer (so_fin db') = drawer fin" "so_methodNames db' = so_methodNames db"
  using assms(1)
proof (rule undo_sale_shape)
  fix db1 b fin
  assume u: "undo_items env sale u (sale_items_of (dc_id sale) (dc_tenantId sale) db) (sale_movements (dc_id sale) (dc_tenantId sale) db) db = Inr db1"
    "undo_payments env sale u (listAllocatedPayments (dc_tenantId sale) (dc_id sale) (so_fin db1)) (so_fin db1) = Inr (b, fin)"
    "db' = finalizeCancelledSale (dc_id sale) (dc_tenantId sale) (if b then ''REFUNDED'' else ''CANCELLED'')
       (if truthy (dc_orderId sale) then refreshOrderStatus (the (dc_orderId sale)) (dc_tenantId sale) (db1\<lparr>so_fin := fin\<rparr>) else db1\<lparr>so_fin := fin\<rparr>)"
  have fin1: "so_fin db1 = so_fin db" using undo_items_grows [OF u(1)] by simp
  obtain b' where "undo_payment env sale u p (so_fin db) = Inr (b', fin)" using u(2) by (auto simp: fin1 assms(3) and_then_Inr)
  moreover have "fd_payments (so_fin db') = fd_payments fin" "fd_methods (so_fin db') = fd_methods fin" "drawer (so_fin db') = drawer fin"
    "so_methodNames db' = so_methodNames db"
    using undo_items_names [OF u(1)] by (simp_all add: u(3) assms(2) finalizeCancelledSale_def drawer_def)
  ultimately show thesis by (rule that)
qed

definition ledger_weight :: "string \<Rightarrow> string \<Rightarrow> cash_db \<Rightarrow> payment_row \<Rightarrow> int" where
  "ledger_weight t i db p = (if live_payment t p \<and> pm_cashSessionId p = Some i \<and> cash_method t db (pm_methodId p) then signed (pm_in p) (pm_amount p) else 0)"

lemma cash_ledger_payments:
  "cash_ledger t i None db = sum_list (map (ledger_weight t i db) (fd_payments (cash_fin db)))
   + sum_list (map (\<lambda>m. signed (cv_in m) (cv_amount m)) (manual_movements t i None db))
   + sum_list (map (\<lambda>f. if \<exists>i. dv_methodId f = Some i \<and> cash_method t db i then dv_fee f else 0) (delivered_fees t i None db))"
proof -
  have "(if session_payment t i None db p then (if cash_method t db (pm_methodId p) then signed (pm_in p) (pm_amount p) else 0) else 0) = ledger_weight t i db p" for p
    by (auto simp: ledger_weight_def session_payment_def made_by_def cash_method_def split: option.splits)
  then show ?thesis by (simp add: cash_ledger_def session_payments_def sum_filter)
qed

lemma manual_from_drawer: "manual_movements t i operator db = filter (manual_movement t i operator) (snd (drawer (cash_fin db)))"
proof -
  have "manual_movement t i operator m \<Longrightarrow> cv_type m \<noteq> ''PAYMENT''" for m by (simp add: manual_movement_def)
  then have "(\<lambda>m. cv_type m \<noteq> ''PAYMENT'' \<and> manual_movement t i operator m) = manual_movement t i operator" by (intro ext) blast
  then show ?thesis by (simp add: manual_movements_def drawer_def)
qed

lemma cash_method_cong: "fd_methods (cash_fin db') = fd_methods (cash_fin db) \<Longrightarrow> so_methodNames (cb_sale db') = so_methodNames (cb_sale db) \<Longrightarrow>
    cash_method t db' = cash_method t db"
  by (intro ext) (simp add: cash_method_def findMethodById_def method_name_def split: option.split)


end
