(* ===== verification/Cash_Safety.thy ===== *)
theory Cash_Safety
  imports Cash_Facts
begin

section \<open>Requests on cash sessions\<close>

text \<open>
  Any sequence of requests on cash sessions, payments and sales. Each is one of five steps on the
  sessions, their counts and the movements that are not payments (\<open>drawer_step\<close>); the books of every
  session stay balanced and a closed session never changes.
\<close>

subsection \<open>The requests\<close>

datatype cash_request =
    Open_Cash fin_env "string \<Rightarrow> bool" fin_actor open_request
  | Close_Cash fin_env fin_actor string close_request
  | Current_Cash fin_env fin_actor "string option"
  | Audit_Cash fin_env fin_actor string audit_request
  | Summary_Cash fin_env fin_actor string
  | Preview_Cash fin_env fin_actor string
  | Move_Cash fin_env "string \<Rightarrow> bool" fin_actor movement_request
  | Pay_Cash fin_request
  | Sale_Cash sale_op

fun cash_step :: "cash_db \<Rightarrow> cash_request \<Rightarrow> cash_db" where
  "cash_step db (Open_Cash env is_uuid actor r) = (case open_session env is_uuid actor r db of Inl e \<Rightarrow> db | Inr (s, db') \<Rightarrow> db')"
| "cash_step db (Close_Cash env actor i r) = (case close env actor i r db of Inl e \<Rightarrow> db | Inr (p, db') \<Rightarrow> db')"
| "cash_step db (Current_Cash env actor i) = (case getCurrent env actor i db of Inl e \<Rightarrow> db | Inr (s, db') \<Rightarrow> db')"
| "cash_step db (Audit_Cash env actor i r) = (case createAudit env actor i r db of Inl e \<Rightarrow> db | Inr (c, db') \<Rightarrow> db')"
| "cash_step db (Summary_Cash env actor i) = (case getSummary env actor i db of Inl e \<Rightarrow> db | Inr (s, v, db') \<Rightarrow> db')"
| "cash_step db (Preview_Cash env actor i) = snd (getAuditPreview env actor i db)"
| "cash_step db (Move_Cash env is_uuid actor r) = (case create_movement env is_uuid actor r db of Inl e \<Rightarrow> db | Inr db' \<Rightarrow> db')"
| "cash_step db (Pay_Cash r) = (case fin_step r (cash_fin db) of Inl e \<Rightarrow> db | Inr fin \<Rightarrow> set_fin fin db)"
| "cash_step db (Sale_Cash x) = db\<lparr>cb_sale := sale_step (cb_sale db) x\<rparr>"

definition run_cash :: "cash_request list \<Rightarrow> cash_db \<Rightarrow> cash_db" where
  "run_cash xs db = foldl cash_step db xs"

text \<open>The money columns of the environment store the nearest cents.\<close>

fun columns_round :: "cash_request \<Rightarrow> bool" where
  "columns_round (Open_Cash env is_uuid actor r) = numeric_14_2 (fe_money env)"
| "columns_round (Close_Cash env actor i r) = numeric_14_2 (fe_money env)"
| "columns_round (Current_Cash env actor i) = numeric_14_2 (fe_money env)"
| "columns_round (Summary_Cash env actor i) = numeric_14_2 (fe_money env)"
| "columns_round (Preview_Cash env actor i) = numeric_14_2 (fe_money env)"
| "columns_round _ = True"

subsection \<open>The steps\<close>

definition entry_of :: "cash_movement_row \<Rightarrow> string \<times> string \<times> bool \<times> int" where
  "entry_of m = (cv_cashSessionId m, cv_type m, cv_in m, cv_amount m)"

definition posted :: "string \<Rightarrow> string \<Rightarrow> bool \<Rightarrow> int \<Rightarrow> (string \<times> string \<times> bool \<times> int) list" where
  "posted i type inward n = (if 0 < n then [(i, type, inward, n)] else [])"

abbreviation sessions_of :: "cash_db \<Rightarrow> session_row list" where
  "sessions_of db \<equiv> fd_sessions (cash_fin db)"

definition open_in :: "cash_db \<Rightarrow> session_row \<Rightarrow> bool" where
  "open_in db s \<longleftrightarrow> s \<in> set (sessions_of db) \<and> cs_status s = ''OPEN''"

inductive drawer_step :: "cash_db \<Rightarrow> cash_db \<Rightarrow> bool" where
  kept: "drawer (cash_fin db') = drawer (cash_fin db) \<Longrightarrow> cb_columns db' = cb_columns db \<Longrightarrow> cb_counts db' = cb_counts db \<Longrightarrow> drawer_step db db'"
| counted: "open_in db s \<Longrightarrow> ct_sessionId c = cs_id s \<Longrightarrow> cash_fin db' = cash_fin db \<Longrightarrow> cb_columns db' = cb_columns db \<Longrightarrow>
    cb_counts db' = cb_counts db @ [c] \<Longrightarrow> drawer_step db db'"
| opened: "cs_status s = ''OPEN'' \<Longrightarrow> cs_id s \<notin> cs_id ` set (sessions_of db) \<Longrightarrow>
    \<forall>t. open_in db t \<longrightarrow> cs_registerId t \<noteq> cs_registerId s \<Longrightarrow> sn_id c = cs_id s \<Longrightarrow> sn_closing c = None \<Longrightarrow>
    sessions_of db' = sessions_of db @ [s] \<Longrightarrow> cb_columns db' = cb_columns db @ [c] \<Longrightarrow> cb_counts db' = cb_counts db \<Longrightarrow>
    fd_movements (cash_fin db') = fd_movements (cash_fin db) @ ms \<Longrightarrow> map entry_of ms = posted (cs_id s) ''OPENING'' True (sn_opening c) \<Longrightarrow> drawer_step db db'"
| moved: "open_in db s \<Longrightarrow> cv_cashSessionId m = cs_id s \<Longrightarrow> cv_type m \<notin> {''OPENING'', ''CLOSING'', ''PAYMENT''} \<Longrightarrow>
    sessions_of db' = sessions_of db \<Longrightarrow> cb_columns db' = cb_columns db \<Longrightarrow> cb_counts db' = cb_counts db \<Longrightarrow>
    fd_movements (cash_fin db') = fd_movements (cash_fin db) @ [m] \<Longrightarrow> drawer_step db db'"
| closed: "open_in db s \<Longrightarrow> sessions_of db' = update_where (\<lambda>t. cs_id t = cs_id s) (\<lambda>t. t\<lparr>cs_status := ''CLOSED''\<rparr>) (sessions_of db) \<Longrightarrow>
    cb_columns db' = update_where (\<lambda>c. sn_id c = cs_id s) (close_columns env u n e d) (cb_columns db) \<Longrightarrow>
    cb_counts db' = cb_counts db @ cs \<Longrightarrow> \<forall>c\<in>set cs. ct_sessionId c = cs_id s \<Longrightarrow>
    fd_movements (cash_fin db') = fd_movements (cash_fin db) @ ms \<Longrightarrow> map entry_of ms = posted (cs_id s) ''CLOSING'' False n \<Longrightarrow> drawer_step db db'"

lemma stored_zero: "numeric_14_2 col \<Longrightarrow> col x = Some n \<Longrightarrow> 0 \<le> n \<Longrightarrow> x \<le> 0 \<Longrightarrow> n = 0"
proof -
  assume "numeric_14_2 col" "col x = Some n" "0 \<le> n" "x \<le> 0"
  then have "\<bar>x - of_int n / 100\<bar> < 1 / 150" "0 \<le> n" "x \<le> 0" unfolding numeric_14_2_def by blast+
  then have "of_int n < (1 :: rat)" by linarith
  then show "n = 0" using \<open>0 \<le> n\<close> by simp
qed

text \<open>The movement of an opening or a closing, when there is money.\<close>

lemma posted_movement:
  assumes mv: "(if 0 < x then createCashMovement env s type inward x reference description u db else Inr db) = Inr db'"
    and n: "fe_money env x = Some n" "0 \<le> n" and col: "numeric_14_2 (fe_money env)"
  obtains ms where "db' = set_fin ((cash_fin db)\<lparr>fd_movements := fd_movements (cash_fin db) @ ms\<rparr>) db" "map entry_of ms = posted (cs_id s) type inward n"
proof (cases "0 < x")
  case True
  then have "createCashMovement env s type inward x reference description u db = Inr db'" using mv by simp
  then show thesis
  proof (rule createCashMovement_shape)
    fix k assume k: "fe_money env x = Some k" "0 < k"
      "db' = set_fin ((cash_fin db)\<lparr>fd_movements := fd_movements (cash_fin db) @ [session_movement env s type inward k reference description u (cash_fin db)]\<rparr>) db"
    show thesis
      using that [OF k(3)] k(1,2) n(1) by (simp add: posted_def entry_of_def session_movement_def)
  qed
next
  case False
  then have "n = 0" using stored_zero [OF col n] by simp
  moreover have "db' = db" using mv False by simp
  moreover have "set_fin (cash_fin db) db = db" by (simp add: set_fin_def cash_fin_def)
  ultimately show thesis using that [of "[]"] by (simp add: posted_def)
qed

lemma finalize_step:
  assumes fin: "finalizeOpenSessionFromProgress env s u p db = Inr db'" and col: "numeric_14_2 (fe_money env)" and s: "open_in db s"
  shows "\<exists>n e d ms. sessions_of db' = update_where (\<lambda>t. cs_id t = cs_id s) (\<lambda>t. t\<lparr>cs_status := ''CLOSED''\<rparr>) (sessions_of db) \<and>
    cb_columns db' = update_where (\<lambda>c. sn_id c = cs_id s) (close_columns env u n e d) (cb_columns db) \<and> cb_counts db' = cb_counts db \<and>
    fd_movements (cash_fin db') = fd_movements (cash_fin db) @ ms \<and> map entry_of ms = posted (cs_id s) ''CLOSING'' False n"
proof -
  let ?x = "count_total ct_counted (required_counts p)" and ?y = "count_total ct_expected (required_counts p)"
  from fin obtain db1 where cl: "close_session env (cs_id s) u (to_fixed2 ?x) (to_fixed2 ?y) (to_fixed2 (dbl (?x - ?y))) db = Inr db1"
    and mv: "(if 0 < ?x then createCashMovement env s ''CLOSING'' False (to_fixed2 ?x) None (Some ''Cierre completo de caja'') u db1 else Inr db1) = Inr db'"
    by (auto simp: finalizeOpenSessionFromProgress_def Let_def and_then_Inr split del: if_split)
  from cl show ?thesis
  proof (rule close_session_shape)
    fix n e d
    assume n: "fe_money env (to_fixed2 ?x) = Some n" "0 \<le> n"
      and db1: "db1 = set_fin ((cash_fin db)\<lparr>fd_sessions := update_where (\<lambda>t. cs_id t = cs_id s) (\<lambda>t. t\<lparr>cs_status := ''CLOSED''\<rparr>) (sessions_of db)\<rparr>)
        (db\<lparr>cb_columns := update_where (\<lambda>c. sn_id c = cs_id s) (close_columns env u n e d) (cb_columns db)\<rparr>)"
    have "\<exists>ms. fd_movements (cash_fin db') = fd_movements (cash_fin db) @ ms \<and> map entry_of ms = posted (cs_id s) ''CLOSING'' False n \<and>
        db' = set_fin ((cash_fin db1)\<lparr>fd_movements := fd_movements (cash_fin db) @ ms\<rparr>) db1"
    proof (cases "0 < ?x")
      case True
      then have c: "createCashMovement env s ''CLOSING'' False (to_fixed2 ?x) None (Some ''Cierre completo de caja'') u db1 = Inr db'" using mv by simp
      then show ?thesis
        by (rule createCashMovement_shape) (auto simp: n db1 posted_def entry_of_def session_movement_def)
    next
      case False
      then have "to_fixed2 ?x \<le> 0" using to_fixed2_mono [of ?x 0] by simp
      then have "n = 0" using stored_zero [OF col n] by simp
      moreover have "db' = db1" using mv False by simp
      ultimately show ?thesis by (intro exI [of _ "[]"]) (simp add: posted_def db1)
    qed
    then obtain ms where "fd_movements (cash_fin db') = fd_movements (cash_fin db) @ ms" "map entry_of ms = posted (cs_id s) ''CLOSING'' False n"
      "db' = set_fin ((cash_fin db1)\<lparr>fd_movements := fd_movements (cash_fin db) @ ms\<rparr>) db1" by blast
    then show ?thesis by (intro exI [of _ n] exI [of _ e] exI [of _ d] exI [of _ ms]) (simp add: db1)
  qed
qed

lemma open_in_found: "findCashSession i db = Some s \<Longrightarrow> cs_status s = ''OPEN'' \<Longrightarrow> open_in db s"
  by (auto simp: findCashSession_def open_in_def dest: find_in)

lemma own_session_found: "own_session actor i db = Inr s \<Longrightarrow> findCashSession i db = Some s"
  by (auto simp: own_session_def and_then_Inr split: if_splits option.splits)

lemma reconcile_step:
  assumes "reconcileCompleteOpenSession env s u db = Inr db'" "s \<in> set (sessions_of db)" "numeric_14_2 (fe_money env)"
  shows "drawer_step db db'"
proof (cases "cs_status s \<noteq> ''OPEN'' \<or> \<not> isComplete (getClosureProgress s db)")
  case True
  then show ?thesis using assms(1) by (auto simp: reconcileCompleteOpenSession_def intro: kept)
next
  case False
  then have s: "open_in db s" using assms(2) by (simp add: open_in_def)
  have "finalizeOpenSessionFromProgress env s u (getClosureProgress s db) db = Inr db'" using assms(1) False by (simp add: reconcileCompleteOpenSession_def)
  from finalize_step [OF this assms(3) s] obtain n e d ms where
    "sessions_of db' = update_where (\<lambda>t. cs_id t = cs_id s) (\<lambda>t. t\<lparr>cs_status := ''CLOSED''\<rparr>) (sessions_of db)"
    "cb_columns db' = update_where (\<lambda>c. sn_id c = cs_id s) (close_columns env u n e d) (cb_columns db)" "cb_counts db' = cb_counts db @ []"
    "fd_movements (cash_fin db') = fd_movements (cash_fin db) @ ms" "map entry_of ms = posted (cs_id s) ''CLOSING'' False n" by auto
  then show ?thesis using s by (intro closed) auto
qed

lemma insert_session_shape:
  assumes "insert_session env t b r u x db = Inr (s, db')"
  obtains n c where "fe_money env x = Some n" "0 \<le> n" "cs_status s = ''OPEN''" "cs_registerId s = r" "cs_id s \<notin> cs_id ` set (sessions_of db)"
    "\<forall>q\<in>set (sessions_of db). cs_registerId q = r \<longrightarrow> cs_status q \<noteq> ''OPEN''" "sn_id c = cs_id s" "sn_closing c = None" "sn_opening c = n"
    "db' = set_fin ((cash_fin db)\<lparr>fd_sessions := sessions_of db @ [s]\<rparr>) (db\<lparr>cb_columns := cb_columns db @ [c]\<rparr>)"
proof -
  from assms obtain n where n: "fe_money env x = Some n" and rest: "(let fin = cash_fin db; i = fe_uuid env (length (fd_sessions fin));
         s = \<lparr>cs_id = i, cs_tenantId = t, cs_branchId = b, cs_registerId = r, cs_openedBy = u, cs_openedAt = fe_now env, cs_status = ''OPEN''\<rparr>;
         c = \<lparr>sn_id = i, sn_opening = n, sn_closedBy = None, sn_closedAt = None, sn_closing = None, sn_expected = None, sn_difference = None\<rparr>
     in if i \<in> cs_id ` set (fd_sessions fin) \<or> i \<in> sn_id ` set (cb_columns db) \<or> n < 0 then Inl (InternalError ''cash_sessions'')
        else if list_ex (\<lambda>q. cs_registerId q = r \<and> cs_status q = ''OPEN'') (fd_sessions fin)
          then Inl (InternalError ''cash_sessions_register_open_unique'')
        else Inr (s, set_fin (fin\<lparr>fd_sessions := fd_sessions fin @ [s]\<rparr>) (db\<lparr>cb_columns := cb_columns db @ [c]\<rparr>))) = Inr (s, db')"
    by (auto simp: insert_session_def and_then_Inr money_column_Inr)
  let ?c = "\<lparr>sn_id = fe_uuid env (length (sessions_of db)), sn_opening = n, sn_closedBy = None, sn_closedAt = None, sn_closing = None,
      sn_expected = None, sn_difference = None\<rparr>"
  from rest show thesis using that [of n ?c] n by (auto simp: Let_def list_ex_iff simp del: insert_iff split: if_splits)
qed

lemma open_step:
  assumes "open_session env is_uuid actor r db = Inr (s, db')" "numeric_14_2 (fe_money env)" shows "drawer_step db db'"
proof -
  from assms(1) obtain t where "s \<in> set (sessions_of db) \<and> db' = db \<or> new_session env actor t r db = Inr (s, db')"
    by (auto simp: open_session_def and_then_Inr findOpenByRegister_def dest: find_in split: if_splits option.splits)
  then show ?thesis
  proof
    assume "s \<in> set (sessions_of db) \<and> db' = db"
    then show ?thesis by (auto intro: kept)
  next
    assume new: "new_session env actor t r db = Inr (s, db')"
    then obtain db1 where ins: "insert_session env t (oq_branchId r) (oq_registerId r) (fa_userId actor) (oq_amount r) db = Inr (s, db1)"
      and mv: "(if 0 < oq_amount r then createCashMovement env s ''OPENING'' True (oq_amount r) None (Some ''Apertura de caja'') (fa_userId actor) db1 else Inr db1) = Inr db'"
      by (auto simp: new_session_def and_then_Inr split: if_splits)
    from ins show ?thesis
    proof (rule insert_session_shape)
      fix n c
      assume i: "fe_money env (oq_amount r) = Some n" "0 \<le> n" "cs_status s = ''OPEN''" "cs_registerId s = oq_registerId r" "cs_id s \<notin> cs_id ` set (sessions_of db)"
        "\<forall>q\<in>set (sessions_of db). cs_registerId q = oq_registerId r \<longrightarrow> cs_status q \<noteq> ''OPEN''" "sn_id c = cs_id s" "sn_closing c = None" "sn_opening c = n"
        "db1 = set_fin ((cash_fin db)\<lparr>fd_sessions := sessions_of db @ [s]\<rparr>) (db\<lparr>cb_columns := cb_columns db @ [c]\<rparr>)"
      from mv i(1,2) assms(2) show ?thesis
      proof (rule posted_movement)
        fix ms assume ms: "db' = set_fin ((cash_fin db1)\<lparr>fd_movements := fd_movements (cash_fin db1) @ ms\<rparr>) db1"
          "map entry_of ms = posted (cs_id s) ''OPENING'' True n"
        show ?thesis by (rule opened [of s db c db' ms]) (use i ms in \<open>auto simp: i(10) open_in_def\<close>)
      qed
    qed
  qed
qed

lemma admin_close_step:
  assumes cl: "admin_close env actor s r db = Inr db'" and col: "numeric_14_2 (fe_money env)" and s: "open_in db s"
  shows "drawer_step db db'"
proof -
  from cl obtain e d db1 c db2 where close: "close_session env (cs_id s) (fa_userId actor) (xq_amount r) e d db = Inr db1"
    and count: "createCashCount env s (fa_userId actor) (xq_amount r) e d (trimmed (xq_description r)) True db1 = Inr (c, db2)"
    and mv: "(if 0 < xq_amount r then createCashMovement env s ''CLOSING'' False (xq_amount r) None
      (Some (coalesce (trimmed (xq_description r)) ''Cierre de caja'')) (fa_userId actor) db2 else Inr db2) = Inr db'"
    by (auto simp: admin_close_def closing_movement_def Let_def and_then_Inr split del: if_split)
  have c: "ct_sessionId c = cs_id s" "db2 = db1\<lparr>cb_counts := cb_counts db1 @ [c]\<rparr>"
    by (rule createCashCount_shape [OF count]; metis count_row.select_convs)+
  from close show ?thesis
  proof (rule close_session_shape)
    fix n e' d'
    assume n: "fe_money env (xq_amount r) = Some n" "0 \<le> n"
      and db1: "db1 = set_fin ((cash_fin db)\<lparr>fd_sessions := update_where (\<lambda>t. cs_id t = cs_id s) (\<lambda>t. t\<lparr>cs_status := ''CLOSED''\<rparr>) (sessions_of db)\<rparr>)
        (db\<lparr>cb_columns := update_where (\<lambda>c. sn_id c = cs_id s) (close_columns env (fa_userId actor) n e' d') (cb_columns db)\<rparr>)"
    from mv n col show ?thesis
    proof (rule posted_movement)
      fix ms assume "db' = set_fin ((cash_fin db2)\<lparr>fd_movements := fd_movements (cash_fin db2) @ ms\<rparr>) db2" "map entry_of ms = posted (cs_id s) ''CLOSING'' False n"
      then show ?thesis
        by (intro closed [OF s, of db' env "fa_userId actor" n e' d' "[c]" ms]) (simp_all add: c db1)
    qed
  qed
qed

lemma cashier_close_step:
  assumes cl: "cashier_close env actor s r db = Inr (p, db')" and col: "numeric_14_2 (fe_money env)" and s: "open_in db s"
  shows "drawer_step db db'"
  using cl
proof (rule cashier_close_shape)
  fix c db1
  assume count: "createCashCount env s (fa_userId actor) (xq_amount r)
        (summary_expected (withDeliverySummary (fe_host env) s (Some (fa_userId actor)) db))
        (to_fixed2 (dbl (xq_amount r - summary_expected (withDeliverySummary (fe_host env) s (Some (fa_userId actor)) db))))
        (trimmed (xq_description r)) True db = Inr (c, db1)"
    and fin: "if isComplete p then finalizeOpenSessionFromProgress env s (fa_userId actor) p db1 = Inr db' else db' = db1"
  have c: "ct_sessionId c = cs_id s" "db1 = db\<lparr>cb_counts := cb_counts db @ [c]\<rparr>"
    by (rule createCashCount_shape [OF count]; metis count_row.select_convs)+
  have s1: "open_in db1 s" using s by (simp add: open_in_def c)
  show ?thesis
  proof (cases "isComplete p")
    case True
    then have "finalizeOpenSessionFromProgress env s (fa_userId actor) p db1 = Inr db'" using fin by simp
    from finalize_step [OF this col s1] obtain n e d ms where
      "sessions_of db' = update_where (\<lambda>t. cs_id t = cs_id s) (\<lambda>t. t\<lparr>cs_status := ''CLOSED''\<rparr>) (sessions_of db1)"
      "cb_columns db' = update_where (\<lambda>c. sn_id c = cs_id s) (close_columns env (fa_userId actor) n e d) (cb_columns db1)" "cb_counts db' = cb_counts db1"
      "fd_movements (cash_fin db') = fd_movements (cash_fin db1) @ ms" "map entry_of ms = posted (cs_id s) ''CLOSING'' False n" by blast
    then show ?thesis by (intro closed [OF s, of db' env "fa_userId actor" n e d "[c]" ms]) (simp_all add: c)
  next
    case False
    then show ?thesis using fin c by (intro counted [OF s, of c]) simp_all
  qed
qed

lemma close_step:
  assumes "close env actor i r db = Inr (p, db')" "numeric_14_2 (fe_money env)" shows "drawer_step db db'"
proof -
  from assms(1) obtain s where s: "own_session actor i db = Inr s" "cs_status s = ''OPEN''"
    and cl: "(if canAdminCash actor then and_then (admin_close env actor s r db) (\<lambda>db'. Inr (None, db'))
          else if \<not> canOperateCashSession actor s db then Inl (Forbidden ''No tienes asignacion activa para esta caja'')
          else and_then (cashier_close env actor s r db) (\<lambda>(p, db'). Inr (Some p, db'))) = Inr (p, db')"
    by (auto simp: close_def and_then_Inr simp del: not_Some_eq not_None_eq split: if_splits)
  have o': "open_in db s" using own_session_found [OF s(1)] s(2) by (rule open_in_found)
  have "admin_close env actor s r db = Inr db' \<or> (\<exists>q. cashier_close env actor s r db = Inr (q, db'))"
    using cl by (auto simp: and_then_Inr split: if_splits)
  then show ?thesis using admin_close_step [OF _ assms(2) o'] cashier_close_step [OF _ assms(2) o'] by blast
qed

lemma audit_step:
  assumes "createAudit env actor i r db = Inr (c, db')" shows "drawer_step db db'"
proof -
  from assms obtain s x y z where s: "own_session actor i db = Inr s" "cs_status s = ''OPEN''"
    and count: "createCashCount env s (fa_userId actor) x y z (trimmed (aq_notes r)) False db = Inr (c, db')"
    by (auto simp: createAudit_def Let_def and_then_Inr split: if_splits)
  have o': "open_in db s" using own_session_found [OF s(1)] s(2) by (rule open_in_found)
  have "ct_sessionId c = cs_id s" "db' = db\<lparr>cb_counts := cb_counts db @ [c]\<rparr>"
    by (rule createCashCount_shape [OF count]; metis count_row.select_convs)+
  then show ?thesis by (intro counted [OF o', of c]) simp_all
qed

lemma found_in: "findCashSession i db = Some s \<Longrightarrow> s \<in> set (sessions_of db)"
  by (auto simp: findCashSession_def dest: find_in)

lemma summary_step:
  assumes "getSummary env actor i db = Inr (s, v, db')" "numeric_14_2 (fe_money env)" shows "drawer_step db db'"
proof -
  from assms(1) obtain s' where s: "read_session actor i db = Inr s'" "reconcileCompleteOpenSession env s' (fa_userId actor) db = Inr db'"
    by (auto simp: getSummary_def and_then_Inr split: option.splits)
  then have "s' \<in> set (sessions_of db)" by (auto simp: read_session_def and_then_Inr split: if_splits dest!: own_session_found found_in)
  then show ?thesis by (rule reconcile_step [OF s(2) _ assms(2)])
qed

lemma latest_session_in: "latest_session P fin = Some s \<Longrightarrow> s \<in> set (fd_sessions fin)"
proof -
  assume "latest_session P fin = Some s"
  then obtain xs where e: "sort_key (\<lambda>s. - cs_openedAt s) (filter P (fd_sessions fin)) = s # xs" by (auto simp: latest_session_def split: list.splits)
  have "s \<in> set (sort_key (\<lambda>s. - cs_openedAt s) (filter P (fd_sessions fin)))" unfolding e by simp
  then show ?thesis by simp
qed

lemma first_open_in: "first_open_branch bs t fin = Some s \<Longrightarrow> s \<in> set (fd_sessions fin)"
  by (induction bs) (auto simp: findOpenByBranch_def split: option.splits dest: latest_session_in)

lemma current_step:
  assumes "getCurrent env actor i db = Inr (s, db')" "numeric_14_2 (fe_money env)" shows "drawer_step db db'"
proof -
  have rec: "drawer_step db db'" if "reconciled env actor q db = Inr (s, db')" "q \<in> set (sessions_of db)" for q
    using that reconcile_step [OF _ that(2) assms(2)] by (auto simp: reconciled_def and_then_Inr)
  have cur: "q \<in> set (sessions_of db)" if "current_of actor t db = Inr (Some q)" for t q
    using that by (auto simp: current_of_def findCurrentByUser_def and_then_Inr split: option.splits if_splits dest: latest_session_in first_open_in)
  have "s = None \<and> db' = db \<or> (\<exists>q. q \<in> set (sessions_of db) \<and> reconciled env actor q db = Inr (s, db'))"
  proof (cases "truthy i")
    case True
    then show ?thesis using assms(1)
      by (auto simp: getCurrent_def and_then_Inr findOpenByRegister_def dest: find_in split: if_splits option.splits)
  next
    case False
    then show ?thesis using assms(1) cur by (auto simp: getCurrent_def and_then_Inr split: if_splits option.splits)
  qed
  then show ?thesis using rec by (auto intro: kept)
qed

lemma movement_step:
  assumes "create_movement env is_uuid actor r db = Inr db'" shows "drawer_step db db'"
proof -
  define internal where "internal \<longleftrightarrow> mq_type r \<in> {''OPENING'', ''CLOSING'', ''PAYMENT''}"
  from assms obtain t where i: "\<not> internal" and rest: "(case findSessionById (mq_sessionId r) t (cash_fin db) of
          None \<Rightarrow> Inl (NotFound ''Sesion de caja no encontrada'')
        | Some s \<Rightarrow>
            if cs_status s \<noteq> ''OPEN'' then Inl (BadRequest ''La sesion de caja no esta abierta'')
            else and_then (assertMovementBranch actor t (cs_branchId s) db) (\<lambda>_.
              if \<not> canOperateCashSession actor s db then Inl (Forbidden ''Solo puedes registrar movimientos en tu caja'')
              else and_then (guard (case findRegister (cs_registerId s) t db of None \<Rightarrow> False | Some g \<Rightarrow> rg_active g)
                  (BadRequest ''Caja no disponible'')) (\<lambda>_.
                and_then (movement_reference r) (\<lambda>reference.
                createCashMovement env s (mq_type r) (mq_in r) (mq_amount r) reference (trimmed (mq_description r)) (fa_userId actor) db)))) = Inr db'"
    unfolding create_movement_def internal_def [symmetric] by (auto simp only: and_then_Inr Inl_Inr_False split: if_splits)
  then obtain s where f: "findSessionById (mq_sessionId r) t (cash_fin db) = Some s" by (cases "findSessionById (mq_sessionId r) t (cash_fin db)") auto
  from rest obtain x where s: "cs_status s = ''OPEN''"
    and mv: "createCashMovement env s (mq_type r) (mq_in r) (mq_amount r) x (trimmed (mq_description r)) (fa_userId actor) db = Inr db'"
    by (auto simp: f and_then_Inr split: if_splits)
  have o': "open_in db s" using f s by (auto simp: findSessionById_def open_in_def dest: find_in)
  from mv show ?thesis
    by (rule createCashMovement_shape) (rule moved [OF o'], use i in \<open>simp_all add: internal_def session_movement_def\<close>)
qed

lemma createInternal_drawer: "createInternal env actor p db = Inr (db', r) \<Longrightarrow> drawer db' = drawer db"
  using createInternal_grows by (simp add: fin_grows_def)

lemma payLines_drawer: "payLines env actor t p ls db = Inr (db', rs) \<Longrightarrow> drawer db' = drawer db"
proof (induction ls arbitrary: db rs)
  case (Cons l ls)
  then obtain db1 r rs' where "createInternal env actor (line_payment t p l) db = Inr (db1, r)"
    "payLines env actor t p ls db1 = Inr (db', rs')" by (auto simp: and_then_Inr)
  then show ?case using createInternal_drawer Cons.IH by fastforce
qed simp

lemma fin_step_drawer:
  assumes "fin_step x db = Inr db'" shows "drawer db' = drawer db"
proof (cases x)
  case (Pay env is_uuid actor p)
  then obtain r where "create env is_uuid actor p db = Inr (db', r)" using assms by (auto simp: and_then_Inr)
  then show ?thesis using createInternal_drawer by (auto simp: create_def split: if_splits)
next
  case (PayDocument env is_uuid fresh actor p)
  then obtain rs where "createDocument env is_uuid fresh actor p db = Inr (db', rs)" using assms by (auto simp: and_then_Inr)
  then show ?thesis
  proof (cases rule: createDocument_cases)
    case (perform t q)
    then obtain db2 where d: "payLines env actor t p (dp_payments p) (db\<lparr>fd_operations := fd_operations db @ [q]\<rparr>) = Inr (db2, rs)"
      "db' = completeDocumentPaymentOperation t (coalesce (dp_operationKey p) fresh) (map rp_id rs) db2"
      by (auto simp: performOperation_def and_then_Inr)
    show ?thesis using payLines_drawer [OF d(1)] by (simp add: d(2) completeDocumentPaymentOperation_def drawer_def)
  qed simp
qed

lemma cash_step_drawer:
  assumes "columns_round x" shows "drawer_step db (cash_step db x)"
proof -
  have same: "drawer_step db db" by (rule kept) simp_all
  show ?thesis
  proof (cases x)
    case (Preview_Cash env actor i)
    then show ?thesis using same summary_step assms by (auto simp: getAuditPreview_def split: sum.splits)
  next
    case (Pay_Cash r)
    then show ?thesis using same fin_step_drawer by (auto split: sum.splits intro!: kept)
  next
    case (Sale_Cash y)
    have "drawer (so_fin (sale_step (cb_sale db) y)) = drawer (so_fin (cb_sale db))"
      using sale_step_grows [of "cb_sale db" y] by (simp add: grows_def fin_grows_def)
    then show ?thesis using Sale_Cash by (intro kept) (simp_all add: cash_fin_def)
  qed (use same assms open_step close_step current_step audit_step summary_step movement_step in \<open>auto split: sum.splits\<close>)
qed

subsection \<open>The books\<close>

definition entries :: "string \<Rightarrow> string \<Rightarrow> cash_db \<Rightarrow> (string \<times> string \<times> bool \<times> int) list" where
  "entries i type db = filter (\<lambda>(j, t, _). j = i \<and> t = type) (map entry_of (fd_movements (cash_fin db)))"

text \<open>The books of a session: the money it was opened with and, once closed, the money that was taken out.\<close>

definition session_books :: "cash_db \<Rightarrow> session_row \<Rightarrow> session_columns \<Rightarrow> bool" where
  "session_books db s c \<longleftrightarrow> cs_id s = sn_id c \<and> entries (cs_id s) ''OPENING'' db = posted (cs_id s) ''OPENING'' True (sn_opening c) \<and>
     (case sn_closing c of
        None \<Rightarrow> cs_status s = ''OPEN'' \<and> entries (cs_id s) ''CLOSING'' db = []
      | Some n \<Rightarrow> cs_status s = ''CLOSED'' \<and> entries (cs_id s) ''CLOSING'' db = posted (cs_id s) ''CLOSING'' False n)"

lemma entries_append:
  "fd_movements (cash_fin db') = fd_movements (cash_fin db) @ ms \<Longrightarrow>
   entries i type db' = entries i type db @ filter (\<lambda>(j, t, _). j = i \<and> t = type) (map entry_of ms)"
  by (simp add: entries_def)

lemma filter_posted: "filter (\<lambda>(j, t, _). j = i \<and> t = type) (posted k u inward n) = (if k = i \<and> u = type then posted k u inward n else [])"
  by (simp add: posted_def)

lemma entries_posted:
  "fd_movements (cash_fin db') = fd_movements (cash_fin db) @ ms \<Longrightarrow> map entry_of ms = posted k u inward n \<Longrightarrow>
   entries i type db' = (if k = i \<and> u = type then entries i type db @ posted k u inward n else entries i type db)"
  by (simp only: entries_append filter_posted if_distrib [of "\<lambda>es. entries i type db @ es"] append_Nil2)

lemma entries_drawer: "type \<noteq> ''PAYMENT'' \<Longrightarrow> entries i type db = filter (\<lambda>(j, t, _). j = i \<and> t = type) (map entry_of (snd (drawer (cash_fin db))))"
proof -
  assume t: "type \<noteq> ''PAYMENT''"
  have "filter (\<lambda>m. cv_cashSessionId m = i \<and> cv_type m = type) ms = filter (\<lambda>m. cv_type m \<noteq> ''PAYMENT'' \<and> cv_cashSessionId m = i \<and> cv_type m = type) ms" for ms
    by (rule filter_cong [OF refl]) (use t in blast)
  then show ?thesis unfolding entries_def drawer_def snd_conv filter_map o_def entry_of_def filter_filter prod.case by (rule arg_cong)
qed

text \<open>The books of a session depend only on its own openings and closings.\<close>

lemma session_books_cong:
  "entries (cs_id s) ''OPENING'' db' = entries (cs_id s) ''OPENING'' db \<Longrightarrow> entries (cs_id s) ''CLOSING'' db' = entries (cs_id s) ''CLOSING'' db \<Longrightarrow>
   session_books db' s c = session_books db s c"
  by (simp add: session_books_def split: option.split)

text \<open>Every movement that is no payment is of a session.\<close>

definition movements_known :: "cash_db \<Rightarrow> bool" where
  "movements_known db \<longleftrightarrow> list_all (\<lambda>m. cv_cashSessionId m \<in> cs_id ` set (sessions_of db)) (snd (drawer (cash_fin db)))"

definition books_ok :: "cash_db \<Rightarrow> bool" where
  "books_ok db \<longleftrightarrow> list_all2 (session_books db) (sessions_of db) (cb_columns db) \<and> distinct (map cs_id (sessions_of db)) \<and>
     distinct (map cs_registerId (filter (\<lambda>s. cs_status s = ''OPEN'') (sessions_of db))) \<and> movements_known db"

lemma snd_drawer: "snd (drawer fin) = filter (\<lambda>m. cv_type m \<noteq> ''PAYMENT'') (fd_movements fin)"
  by (simp add: drawer_def)

lemma fst_drawer: "fst (drawer fin) = fd_sessions fin"
  by (simp add: drawer_def)

lemma unknown_entries: "movements_known db \<Longrightarrow> i \<notin> cs_id ` set (sessions_of db) \<Longrightarrow> type \<noteq> ''PAYMENT'' \<Longrightarrow> entries i type db = []"
  by (auto simp: movements_known_def entries_drawer filter_map entry_of_def filter_empty_conv list_all_iff)

lemma books_opened:
  assumes ok: "books_ok db" and s: "cs_status s = ''OPEN''" "cs_id s \<notin> cs_id ` set (sessions_of db)" "\<forall>t. open_in db t \<longrightarrow> cs_registerId t \<noteq> cs_registerId s"
    and c: "sn_id c = cs_id s" "sn_closing c = None"
    and db': "sessions_of db' = sessions_of db @ [s]" "cb_columns db' = cb_columns db @ [c]"
      "fd_movements (cash_fin db') = fd_movements (cash_fin db) @ ms" "map entry_of ms = posted (cs_id s) ''OPENING'' True (sn_opening c)"
  shows "books_ok db'"
proof -
  have known: "movements_known db" using ok by (simp add: books_ok_def)
  note e = entries_posted [OF db'(3,4)]
  have new: "session_books db' s c"
    using unknown_entries [OF known s(2)] by (simp add: session_books_def c s(1) e)
  have "session_books db' t d = session_books db t d" if "t \<in> set (sessions_of db)" for t d
    using that s(2) by (intro session_books_cong) (auto simp: e)
  then have "list_all2 (session_books db') (sessions_of db) (cb_columns db)"
    using ok by (auto simp: books_ok_def elim!: list.rel_mono_strong)
  then have "list_all2 (session_books db') (sessions_of db') (cb_columns db')" using new by (simp add: db'(1,2) list_all2_appendI)
  moreover have "distinct (map cs_id (sessions_of db'))" using ok s(2) by (auto simp: books_ok_def db'(1))
  moreover have "distinct (map cs_registerId (filter (\<lambda>s. cs_status s = ''OPEN'') (sessions_of db')))"
    using ok s(1,3) by (auto simp: books_ok_def db'(1) open_in_def)
  moreover have "cv_cashSessionId m = cs_id s" if "m \<in> set ms" for m
  proof -
    have "entry_of m \<in> set (posted (cs_id s) ''OPENING'' True (sn_opening c))" using that db'(4) by (metis image_eqI list.set_map)
    then show ?thesis by (auto simp: posted_def entry_of_def split: if_splits)
  qed
  then have "movements_known db'" using known by (auto simp: movements_known_def snd_drawer db'(1,3) list_all_iff)
  ultimately show ?thesis by (simp add: books_ok_def)
qed

lemma distinct_id: "distinct (map cs_id xs) \<Longrightarrow> s \<in> set xs \<Longrightarrow> t \<in> set xs \<Longrightarrow> cs_id s = cs_id t \<Longrightarrow> s = t"
  by (auto simp: distinct_map inj_on_def)

lemma open_registers:
  "map cs_registerId (filter (\<lambda>t. cs_status t = ''OPEN'') (update_where (\<lambda>t. cs_id t = i) (\<lambda>t. t\<lparr>cs_status := ''CLOSED''\<rparr>) ts))
   = map cs_registerId (filter (\<lambda>t. cs_id t \<noteq> i) (filter (\<lambda>t. cs_status t = ''OPEN'') ts))"
  by (induction ts) (auto simp: update_where_def)

lemma books_closed:
  assumes ok: "books_ok db" and s: "open_in db s"
    and db': "sessions_of db' = update_where (\<lambda>t. cs_id t = cs_id s) (\<lambda>t. t\<lparr>cs_status := ''CLOSED''\<rparr>) (sessions_of db)"
      "cb_columns db' = update_where (\<lambda>c. sn_id c = cs_id s) (close_columns env u n e d) (cb_columns db)"
      "fd_movements (cash_fin db') = fd_movements (cash_fin db) @ ms" "map entry_of ms = posted (cs_id s) ''CLOSING'' False n"
  shows "books_ok db'"
proof -
  note en = entries_posted [OF db'(3,4)]
  have keys: "distinct (map cs_id (sessions_of db))" and known: "movements_known db" using ok by (simp_all add: books_ok_def)
  have one: "session_books db' (if cs_id t = cs_id s then t\<lparr>cs_status := ''CLOSED''\<rparr> else t) (if sn_id c = cs_id s then close_columns env u n e d c else c)"
    if t: "t \<in> set (sessions_of db)" and b: "session_books db t c" for t c
  proof (cases "cs_id t = cs_id s")
    case True
    have "t = s" by (rule distinct_id [OF keys t _ True]) (use s in \<open>simp add: open_in_def\<close>)
    then show ?thesis using b s by (auto simp: session_books_def open_in_def close_columns_def en split: option.splits)
  next
    case False
    then show ?thesis using b by (auto simp: session_books_def en split: option.splits)
  qed
  have "list_all2 (session_books db') (sessions_of db') (cb_columns db')"
  proof -
    have "list_all2 (session_books db) (sessions_of db) (cb_columns db)" using ok by (simp add: books_ok_def)
    then show ?thesis unfolding db'(1,2) update_where_def list.rel_map by (rule list.rel_mono_strong) (rule one)
  qed
  moreover have ids: "map cs_id (sessions_of db') = map cs_id (sessions_of db)" by (simp add: db'(1) update_where_def)
  moreover have "distinct (map cs_registerId (filter (\<lambda>t. cs_status t = ''OPEN'') (sessions_of db')))"
  proof -
    have "map cs_registerId (filter (\<lambda>t. cs_status t = ''OPEN'') (sessions_of db'))
      = map cs_registerId (filter (\<lambda>t. cs_id t \<noteq> cs_id s) (filter (\<lambda>t. cs_status t = ''OPEN'') (sessions_of db)))"
      unfolding db'(1) by (rule open_registers)
    moreover have "distinct (map cs_registerId (filter (\<lambda>t. cs_status t = ''OPEN'') (sessions_of db)))" using ok by (simp add: books_ok_def)
    ultimately show ?thesis using distinct_map_filter by metis
  qed
  moreover have "cv_cashSessionId m = cs_id s" if "m \<in> set ms" for m
  proof -
    have "entry_of m \<in> set (posted (cs_id s) ''CLOSING'' False n)" using that db'(4) by (metis image_eqI list.set_map)
    then show ?thesis by (auto simp: posted_def entry_of_def split: if_splits)
  qed
  moreover have "cs_id ` set (sessions_of db') = cs_id ` set (sessions_of db)" using ids by (metis list.set_map)
  moreover have "s \<in> set (sessions_of db)" using s by (simp add: open_in_def)
  ultimately show ?thesis using keys known by (auto simp: books_ok_def movements_known_def snd_drawer db'(3) list_all_iff)
qed

lemma books_moved:
  assumes ok: "books_ok db" and s: "open_in db s" and m: "cv_cashSessionId m = cs_id s" "cv_type m \<noteq> ''OPENING''" "cv_type m \<noteq> ''CLOSING''"
    and db': "sessions_of db' = sessions_of db" "cb_columns db' = cb_columns db" "fd_movements (cash_fin db') = fd_movements (cash_fin db) @ [m]"
  shows "books_ok db'"
proof -
  have "session_books db' t c = session_books db t c" for t c
    using m(2,3) by (intro session_books_cong) (simp_all add: entries_append [OF db'(3)] entry_of_def)
  then have "session_books db' = session_books db" by (intro ext)
  then show ?thesis using ok s m(1) by (auto simp: books_ok_def db' movements_known_def snd_drawer open_in_def)
qed

lemma books_same:
  assumes "books_ok db" "drawer (cash_fin db') = drawer (cash_fin db)" "cb_columns db' = cb_columns db"
  shows "books_ok db'"
proof -
  have "session_books db' = session_books db" by (intro ext session_books_cong) (simp_all add: entries_drawer assms(2))
  moreover have "sessions_of db' = sessions_of db" using arg_cong [OF assms(2), of fst] by (simp add: fst_drawer)
  ultimately show ?thesis using assms by (simp add: books_ok_def movements_known_def)
qed

lemma drawer_step_books: "drawer_step db db' \<Longrightarrow> books_ok db \<Longrightarrow> books_ok db'"
proof (induction rule: drawer_step.induct)
  case (kept db' db)
  then show ?case by (intro books_same [of db db']) simp_all
next
  case (counted db s c db')
  then show ?case by (intro books_same [of db db']) simp_all
next
  case (opened s db c db' ms)
  then show ?case by (intro books_opened [of db s c db' ms]) simp_all
next
  case (moved db s m db')
  then show ?case by (intro books_moved [of db s m db']) simp_all
next
  case (closed db s db' env u n e d cs ms)
  then show ?case by (intro books_closed [of db s db' env u n e d ms]) simp_all
qed

lemma run_cash_simps [simp]: "run_cash [] db = db" "run_cash (x # xs) db = run_cash xs (cash_step db x)"
  by (simp_all add: run_cash_def)

text \<open>
  Property C11: the books of the cash sessions are kept by every sequence of requests (opening,
  closing, reading, auditing, movements, payments and sales, refused ones too). Session ids are unique, a register has
  at most one open session, a session has exactly one opening movement of its opening amount (none
  when it is zero), no closing movement while it is open and, once closed, exactly one of the amount
  it was closed with; a session is closed exactly when its closing amount is stored.
\<close>

theorem cash_books_kept:
  assumes "books_ok db" "list_all columns_round xs"
  shows "books_ok (run_cash xs db)"
  using assms by (induction xs arbitrary: db) (auto intro: drawer_step_books cash_step_drawer)

subsection \<open>A closed session\<close>

definition session_state :: "string \<Rightarrow> cash_db \<Rightarrow> session_row list \<times> session_columns list \<times> count_row list \<times> cash_movement_row list" where
  "session_state i db = (filter (\<lambda>s. cs_id s = i) (sessions_of db), filter (\<lambda>c. sn_id c = i) (cb_columns db),
     filter (\<lambda>c. ct_sessionId c = i) (cb_counts db), filter (\<lambda>m. cv_cashSessionId m = i \<and> cv_type m \<noteq> ''PAYMENT'') (fd_movements (cash_fin db)))"

lemma session_state_drawer:
  "session_state i db = (filter (\<lambda>s. cs_id s = i) (fst (drawer (cash_fin db))), filter (\<lambda>c. sn_id c = i) (cb_columns db),
     filter (\<lambda>c. ct_sessionId c = i) (cb_counts db), filter (\<lambda>m. cv_cashSessionId m = i) (snd (drawer (cash_fin db))))"
  by (simp add: session_state_def drawer_def conj_commute)

lemma filter_update_other:
  "(\<And>x. k (f x) = k x) \<Longrightarrow> j \<noteq> i \<Longrightarrow> filter (\<lambda>x. k x = i) (update_where (\<lambda>x. k x = j) f xs) = filter (\<lambda>x. k x = i) xs"
  by (induction xs) (auto simp: update_where_def)

lemma others_of_posted: "map entry_of ms = posted j type inward n \<Longrightarrow> j \<noteq> i \<Longrightarrow> filter (\<lambda>m. cv_cashSessionId m = i \<and> cv_type m \<noteq> ''PAYMENT'') ms = []"
proof -
  assume m: "map entry_of ms = posted j type inward n" "j \<noteq> i"
  have "cv_cashSessionId x = j" if "x \<in> set ms" for x
  proof -
    have "entry_of x \<in> set (posted j type inward n)" using that m(1) by (metis image_eqI list.set_map)
    then show ?thesis by (auto simp: posted_def entry_of_def split: if_splits)
  qed
  then show ?thesis using m(2) by (auto simp: filter_empty_conv)
qed

lemma drawer_step_closed:
  assumes "drawer_step db db'" and ok: "books_ok db" and s: "s \<in> set (sessions_of db)" "cs_status s \<noteq> ''OPEN''" "cs_id s = i"
  shows "session_state i db' = session_state i db"
proof -
  have keys: "distinct (map cs_id (sessions_of db))" using ok by (simp add: books_ok_def)
  have other: "cs_id t \<noteq> i" if "open_in db t" for t
  proof
    assume "cs_id t = i"
    then have "s = t" using that s(3) by (intro distinct_id [OF keys s(1)]) (simp_all add: open_in_def)
    then show False using that s(2) by (simp add: open_in_def)
  qed
  from assms(1) show ?thesis
  proof cases
    case kept
    then show ?thesis by (simp add: session_state_drawer)
  next
    case (counted t c)
    then show ?thesis using other [of t] by (simp add: session_state_def)
  next
    case (opened t c ms)
    have "cs_id t \<noteq> i" using opened(2) s by auto
    then show ?thesis using opened others_of_posted [OF opened(10)] by (simp add: session_state_def)
  next
    case (moved t m)
    then show ?thesis using other [of t] by (simp add: session_state_def)
  next
    case (closed t env u n e d cs ms)
    have t: "cs_id t \<noteq> i" by (rule other [OF closed(1)])
    have "filter (\<lambda>c. ct_sessionId c = i) cs = []" using closed(5) t by (auto simp: filter_empty_conv)
    moreover have "filter (\<lambda>x. cs_id x = i) (sessions_of db') = filter (\<lambda>x. cs_id x = i) (sessions_of db)"
      unfolding closed(2) by (rule filter_update_other [OF _ t]) simp
    moreover have "filter (\<lambda>x. sn_id x = i) (cb_columns db') = filter (\<lambda>x. sn_id x = i) (cb_columns db)"
      unfolding closed(3) by (rule filter_update_other [OF _ t]) (simp add: close_columns_def)
    ultimately show ?thesis using others_of_posted [OF closed(7) t] by (simp add: session_state_def closed(4,6))
  qed
qed

lemma closed_run:
  "books_ok db \<Longrightarrow> list_all columns_round xs \<Longrightarrow> s \<in> set (sessions_of db) \<Longrightarrow> cs_status s \<noteq> ''OPEN'' \<Longrightarrow> cs_id s = i \<Longrightarrow>
   session_state i (run_cash xs db) = session_state i db"
proof (induction xs arbitrary: db)
  case (Cons x xs)
  have step: "drawer_step db (cash_step db x)" using Cons.prems(2) by (intro cash_step_drawer) simp
  have same: "session_state i (cash_step db x) = session_state i db" by (rule drawer_step_closed [OF step Cons.prems(1,3-5)])
  then have "filter (\<lambda>s. cs_id s = i) (sessions_of (cash_step db x)) = filter (\<lambda>s. cs_id s = i) (sessions_of db)" by (simp add: session_state_def)
  then have "s \<in> set (sessions_of (cash_step db x))" using Cons.prems(3,5) by (metis (mono_tags, lifting) mem_Collect_eq set_filter)
  then show ?case using Cons.IH [OF drawer_step_books [OF step Cons.prems(1)]] Cons.prems same by simp
qed simp

text \<open>
  Property C12: a closed session is final. Whatever requests follow, the session's row, its stored
  amounts, its counts and its movements (the payments apart) stay as they were when it was closed.
\<close>

theorem closed_session_final:
  assumes "books_ok db" "findCashSession i db = Some s" "cs_status s \<noteq> ''OPEN''" "list_all columns_round xs"
  shows "session_state i (run_cash xs db) = session_state i db"
proof -
  have "s \<in> set (sessions_of db)" "cs_id s = i" using assms(2) by (auto simp: findCashSession_def find_Some_iff)
  then show ?thesis using closed_run assms by blast
qed

end
