(* ===== verification/Cash_Examples.thy ===== *)
theory Cash_Examples
  imports Cash_Safety Sale_Examples
begin

section \<open>A cash register at the shop\<close>

text \<open>
  A register with two cashiers: a session opened with 200.00, one sale of 100.00 in cash, an expense
  of 25.00, the closings of the two cashiers and the cancellation of the sale show that the hypotheses
  of the properties of cash sessions can hold.
\<close>

subsection \<open>The register\<close>

abbreviation helper :: string where "helper \<equiv> uid (CHR ''b'')"

definition till_session :: "string \<Rightarrow> session_row" where
  "till_session status = \<lparr>cs_id = ''t'', cs_tenantId = shop, cs_branchId = branch, cs_registerId = ''r'', cs_openedBy = seller,
     cs_openedAt = 1, cs_status = status\<rparr>"

definition till_payment :: payment_row where
  "till_payment = (shop_payment 10000)\<lparr>pm_cashSessionId := Some ''t''\<rparr>"

definition till_method :: method_row where
  "till_method = \<lparr>me_id = ''m'', me_tenantId = shop, me_tipo = ''CASH'', me_active = True, me_requiresReference = False,
     me_requiresInstitution = False\<rparr>"

definition till_movement :: "string \<Rightarrow> string \<Rightarrow> bool \<Rightarrow> int \<Rightarrow> cash_movement_row" where
  "till_movement i type inward n = \<lparr>cv_id = i, cv_tenantId = shop, cv_branchId = branch, cv_cashSessionId = ''t'', cv_paymentId = None,
     cv_type = type, cv_in = inward, cv_referenceType = None, cv_referenceId = None, cv_amount = n, cv_description = None, cv_createdBy = seller\<rparr>"

definition till_fin :: "string \<Rightarrow> cash_movement_row list \<Rightarrow> fin_db" where
  "till_fin status ms = shop_fin\<lparr>fd_sessions := [till_session status], fd_payments := [till_payment], fd_movements := ms,
     fd_users := [(seller, shop, ''ACTIVE''), (helper, shop, ''ACTIVE'')], fd_userBranches := [(helper, shop, branch)],
     fd_methods := [till_method], fd_assignments := [(''r'', seller), (''r'', helper)]\<rparr>"

definition till_column :: "int option \<Rightarrow> session_columns" where
  "till_column closing = \<lparr>sn_id = ''t'', sn_opening = 20000, sn_closedBy = None, sn_closedAt = None, sn_closing = closing,
     sn_expected = None, sn_difference = None\<rparr>"

definition till_db :: "string \<Rightarrow> int option \<Rightarrow> cash_movement_row list \<Rightarrow> count_row list \<Rightarrow> cash_db" where
  "till_db status closing ms cs = \<lparr>cb_sale = shop_db\<lparr>so_fin := till_fin status ms\<rparr>, cb_columns = [till_column closing], cb_counts = cs,
     cb_registers = [\<lparr>rg_id = ''r'', rg_tenantId = shop, rg_branchId = branch, rg_active = True\<rparr>], cb_fees = []\<rparr>"

definition till_moves :: "cash_movement_row list" where
  "till_moves = [till_movement ''u'' ''OPENING'' True 20000, till_movement ''v'' ''EXPENSE'' False 2500]"

lemma till_fields [simp]:
  "cs_id (till_session x) = ''t''" "cs_tenantId (till_session x) = shop" "cs_branchId (till_session x) = branch"
  "cs_registerId (till_session x) = ''r''" "cs_openedBy (till_session x) = seller" "cs_status (till_session x) = x" "cs_openedAt (till_session x) = 1"
  "pm_id till_payment = ''0''" "pm_tenantId till_payment = shop" "pm_methodId till_payment = ''m''" "pm_cashSessionId till_payment = Some ''t''"
  "pm_referenceType till_payment = R_SALE" "pm_referenceId till_payment = sale1" "pm_in till_payment" "pm_status till_payment = PAY_COMPLETED"
  "pm_amount till_payment = 10000" "me_id till_method = ''m''" "me_tenantId till_method = shop" "me_tipo till_method = ''CASH''"
  "sn_id (till_column c) = ''t''" "sn_opening (till_column c) = 20000" "sn_closing (till_column c) = c"
  "cv_id (till_movement i type inward n) = i" "cv_tenantId (till_movement i type inward n) = shop" "cv_cashSessionId (till_movement i type inward n) = ''t''"
  "cv_type (till_movement i type inward n) = type" "cv_in (till_movement i type inward n) = inward" "cv_amount (till_movement i type inward n) = n"
  "cv_createdBy (till_movement i type inward n) = seller"
  by (simp_all add: till_session_def till_payment_def shop_payment_def till_method_def till_column_def till_movement_def)

lemma till_tables [simp]:
  "fd_sessions (till_fin x ms) = [till_session x]" "fd_payments (till_fin x ms) = [till_payment]" "fd_movements (till_fin x ms) = ms"
  "fd_methods (till_fin x ms) = [till_method]" "fd_assignments (till_fin x ms) = [(''r'', seller), (''r'', helper)]"
  "fd_users (till_fin x ms) = [(seller, shop, ''ACTIVE''), (helper, shop, ''ACTIVE'')]" "fd_userBranches (till_fin x ms) = [(helper, shop, branch)]"
  "fd_branches (till_fin x ms) = [(branch, shop, ''ACTIVE'')]"
  "cash_fin (till_db x c ms cs) = till_fin x ms" "cb_columns (till_db x c ms cs) = [till_column c]" "cb_counts (till_db x c ms cs) = cs"
  "cb_fees (till_db x c ms cs) = []" "so_methodNames (cb_sale (till_db x c ms cs)) = []" "so_sales (cb_sale (till_db x c ms cs)) = []"
  by (simp_all add: till_fin_def till_db_def cash_fin_def shop_fin_def)

lemma till_category: "normalizePaymentCategory (Some ''CASH'') None = C_CASH" by code_simp

lemma till_numbers: "cents 27500 = 275" "dbl 315 = 315" "dbl 275 = 275" "to_fixed2 315 = 315" "to_fixed2 275 = 275" "to_fixed2 40 = 40"
  "round_14_2 315 = Some 31500" "round_14_2 275 = Some 27500" "round_14_2 40 = Some 4000" "cents 4000 = 40" "cents 20000 = 200" "\<not> (315 :: rat) < 0"
  "isAmountOrZero 40" "decimal 1 = ''1''" "decimal 2 = ''2''" "decimal 3 = ''3''" "decimal (Suc 0) = ''1''" "decimal (Suc (Suc 0)) = ''2''"
  by code_simp+

lemma till_ledger: "cash_method shop (till_db x c ms cs) ''m''" "cash_ledger shop ''t'' None (till_db x c till_moves cs) = 7500"
  "turnover shop ''t'' None (till_db x c till_moves cs) = 12500"
  by (simp_all add: cash_method_def findMethodById_def method_name_def till_category cash_ledger_def session_payments_def session_payment_def
      live_payment_def made_by_def manual_movements_def manual_movement_def delivered_fees_def till_moves_def signed_def turnover_def)

lemma expected_cash_exact_witness:
  "summary_expected (withDeliverySummary shop_host (till_session ''OPEN'') None (till_db ''OPEN'' None till_moves [])) = 275"
proof -
  let ?db = "till_db ''OPEN'' None till_moves []"
  have "cash_rows_ok ?db" by (simp add: cash_rows_ok_def till_moves_def method_id_def)
  moreover have "length (methods_of (cs_tenantId (till_session ''OPEN'')) ?db) \<le> 19" by (simp add: methods_of_def)
  moreover have "find (\<lambda>c. sn_id c = cs_id (till_session ''OPEN'')) (cb_columns ?db) = Some (till_column None)" by simp
  ultimately show ?thesis
    using expected_cash_exact [of ?db "till_session ''OPEN''" "till_column None" None shop_host] by (simp add: till_ledger till_numbers)
qed

subsection \<open>The second cashier closes\<close>

definition till_actor :: fin_actor where
  "till_actor = \<lparr>fa_userId = helper, fa_tenantId = shop, fa_roles = [''USER'']\<rparr>"

definition till_count :: "string \<Rightarrow> string \<Rightarrow> int \<Rightarrow> int \<Rightarrow> int \<Rightarrow> int \<Rightarrow> count_row" where
  "till_count i u w n e d = \<lparr>ct_id = i, ct_tenantId = shop, ct_branchId = branch, ct_sessionId = ''t'', ct_countedBy = u, ct_countedAt = w,
     ct_counted = n, ct_expected = e, ct_difference = d, ct_notes = None, ct_closing = True\<rparr>"

lemma till_count [simp]: "ct_id (till_count i u w n e d) = i" "ct_tenantId (till_count i u w n e d) = shop"
  "ct_sessionId (till_count i u w n e d) = ''t''" "ct_countedBy (till_count i u w n e d) = u" "ct_countedAt (till_count i u w n e d) = w"
  "ct_counted (till_count i u w n e d) = n" "ct_expected (till_count i u w n e d) = e" "ct_closing (till_count i u w n e d)"
  by (simp_all add: till_count_def)

abbreviation first_count :: count_row where "first_count \<equiv> till_count ''a'' seller 3 27500 27500 0"
abbreviation second_count :: count_row where "second_count \<equiv> till_count ''1'' helper 5 4000 0 4000"

definition till_close :: close_request where
  "till_close = \<lparr>xq_amount = 40, xq_description = None\<rparr>"

abbreviation till_counted :: cash_db where
  "till_counted \<equiv> till_db ''OPEN'' None till_moves [first_count]"

lemma till_expects: "summary_expected (withDeliverySummary shop_host (till_session ''OPEN'') (Some helper) till_counted) = 0"
proof -
  have "breakdown_rows shop ''t'' (Some helper) till_counted = []"
    by (simp add: breakdown_rows_def getPaymentRows_def getManualMovementRows_def getDeliveryMethodRows_def session_payment_def made_by_def
        manual_movement_def till_moves_def group_by_def js_uniq_def)
  then show ?thesis
    by (simp add: withDeliverySummary_def summary_expected_def Let_def buildCashBreakdown_def control_of_def reduce_details_def net_source_def
        emptySourceBreakdown_def roundAmount_def normalizeExpectedAmount_def shop_numbers)
qed

lemma till_sorted: "latest_counts [first_count, second_count] = [second_count, first_count]"
  by (simp add: latest_counts_def code_units_def)

definition till_progress :: closure_progress where
  "till_progress = getClosureProgress (till_session ''OPEN'') (till_counted\<lparr>cb_counts := [first_count, second_count]\<rparr>)"

lemma till_progress: "required_counts till_progress = [second_count, first_count]" "isComplete till_progress"
  by (simp_all add: till_progress_def getClosureProgress_def Let_def required_counts_def isComplete_def listCashCounts_def till_sorted
      listActiveAssignmentUserIds_def resolveRequiredCloserUserIds_def js_uniq_def)

lemma till_closes: "\<exists>db. close (sv_fin shop_env) till_actor ''t'' till_close till_counted = Inr (Some till_progress, db)"
proof -
  let ?s = "till_session ''OPEN''" and ?env = "sv_fin shop_env"
  have e: "fe_host ?env = shop_host" "fe_money ?env = round_14_2" "fe_now ?env = 5" "fe_uuid ?env = decimal" by (simp_all add: shop_env_def)
  have u: "fa_userId till_actor = helper" "fa_tenantId till_actor = shop" "fa_roles till_actor = [''USER'']" by (simp_all add: till_actor_def)
  have r: "xq_amount till_close = 40" "xq_description till_close = None" by (simp_all add: till_close_def)
  have roles: "\<not> canAdminCash till_actor" "canOpenCash till_actor" "\<not> canManageTenant till_actor" "\<not> isSuperAdmin till_actor"
    by (simp_all add: canAdminCash_def canOpenCash_def canManageTenant_def isSuperAdmin_def u)
  have "own_session till_actor ''t'' till_counted = Inr ?s"
    by (simp add: own_session_def roles findCashSession_def resolveTenantId_def u shop_ids)
  moreover have "on_branch till_actor ?s till_counted = Inr ()"
    by (simp add: on_branch_def assertActiveUser_def findUserById_def u assertSessionBranch_def findBranchById_def mayUseBranch_def userHasBranchAccess_def)
  moreover have "canOperateCashSession till_actor ?s till_counted" by (simp add: canOperateCashSession_def hasActiveAssignment_def u)
  moreover have "\<exists>db. cashier_close ?env till_actor ?s till_close till_counted = Inr (till_progress, db)"
  proof -
    have c: "createCashCount ?env ?s helper 40 0 40 None True till_counted = Inr (second_count, till_counted\<lparr>cb_counts := [first_count, second_count]\<rparr>)"
      by (simp add: createCashCount_def money_column_def e shop_numbers till_numbers Let_def till_count_def [symmetric])
    have b: "\<not> list_ex (\<lambda>c. ct_countedBy c = helper) (pg_counts (getClosureProgress ?s till_counted))"
      by (simp add: getClosureProgress_def Let_def listCashCounts_def latest_counts_def)
    have f: "\<exists>db. finalizeOpenSessionFromProgress ?env ?s helper till_progress (till_counted\<lparr>cb_counts := [first_count, second_count]\<rparr>) = Inr db"
      by (simp add: finalizeOpenSessionFromProgress_def till_progress count_total_def shop_numbers till_numbers close_session_def money_column_def e
          createCashMovement_def session_movement_def insert_cash_movement_def till_moves_def)
    from f obtain db where "finalizeOpenSessionFromProgress ?env ?s helper till_progress (till_counted\<lparr>cb_counts := [first_count, second_count]\<rparr>) = Inr db"
      by blast
    then show ?thesis using b
      by (simp add: cashier_close_def u e r till_expects shop_numbers till_numbers trimmed_def c till_progress_def [symmetric] till_progress)
  qed
  moreover have "validClose till_close" by (simp add: validClose_def r till_numbers trimmed_at_most_def at_most_def)
  ultimately show ?thesis by (auto simp: close_def roles)
qed


subsection \<open>The books\<close>

lemma till_books: "books_ok (till_db ''OPEN'' None till_moves cs)"
  by (simp add: books_ok_def session_books_def entries_def till_moves_def entry_of_def posted_def movements_known_def drawer_def)

lemma cash_books_kept_witness: "books_ok (run_cash [Close_Cash (sv_fin shop_env) till_actor ''t'' till_close] till_counted)"
  by (rule cash_books_kept [OF till_books]) (simp add: shop_env_def numeric_round_14_2)

text \<open>A closed session, with 40.00 taken out.\<close>

abbreviation till_closed :: cash_db where
  "till_closed \<equiv> till_db ''CLOSED'' (Some 4000) (till_moves @ [till_movement ''w'' ''CLOSING'' False 4000]) [first_count]"

definition till_expense :: movement_request where
  "till_expense = \<lparr>mq_tenantId = None, mq_sessionId = ''t'', mq_type = ''EXPENSE'', mq_in = False, mq_amount = 40, mq_description = None,
     mq_referenceType = None, mq_referenceId = None\<rparr>"

lemma closed_session_final_witness:
  "session_state ''t'' (run_cash [Close_Cash (sv_fin shop_env) till_actor ''t'' till_close, Move_Cash (sv_fin shop_env) isUuid till_actor till_expense] till_closed)
     = session_state ''t'' till_closed"
proof -
  have ok: "books_ok till_closed"
    by (simp add: books_ok_def session_books_def entries_def till_moves_def entry_of_def posted_def movements_known_def drawer_def)
  have s: "findCashSession ''t'' till_closed = Some (till_session ''CLOSED'')" by (simp add: findCashSession_def)
  have "cs_status (till_session ''CLOSED'') \<noteq> ''OPEN''" by simp
  then show ?thesis by (rule closed_session_final [OF ok s]) (simp add: shop_env_def numeric_round_14_2)
qed

subsection \<open>The cancelled sale\<close>

definition till_paid :: fin_db where
  "till_paid = (so_fin shop_cash)\<lparr>fd_payments := [till_payment], fd_methods := [till_method], fd_sessions := [till_session ''OPEN'']\<rparr>"

lemma till_paid [simp]: "fd_payments till_paid = [till_payment]" "fd_allocations till_paid = [shop_allocation 10000]" "fd_movements till_paid = []"
  "fd_documents till_paid = [shop_sale]" "fd_methods till_paid = [till_method]"
  by (simp_all add: till_paid_def)

definition till_sold :: cash_db where
  "till_sold = \<lparr>cb_sale = shop_cash\<lparr>so_fin := till_paid\<rparr>, cb_columns = [till_column None], cb_counts = [], cb_registers = [], cb_fees = []\<rparr>"

lemma till_sold [simp]: "cb_sale till_sold = shop_cash\<lparr>so_fin := till_paid\<rparr>" "cash_fin till_sold = till_paid" "cb_fees till_sold = []"
  by (simp_all add: till_sold_def cash_fin_def)

lemma till_names: "so_methodNames shop_cash = []"
  by (simp add: shop_final_def shop_settled_def shop_sold_def shop_drawn_def)

lemma till_links: "al_paymentId (shop_allocation n) = ''0''" "is_sale_allocation sale1 (shop_allocation n)" "al_amount (shop_allocation n) = n"
  "al_id (shop_allocation n) = ''0''"
  by (simp_all add: shop_allocation_def is_sale_allocation_def)

lemma till_listed: "listAllocatedPayments shop sale1 till_paid = [till_payment]" "allocations_of ''0'' till_paid = [shop_allocation 10000]"
  by (simp_all add: listAllocatedPayments_def allocations_of_def till_links)

lemma till_refunded: "\<exists>fin. undo_payments shop_env shop_sale (Some seller) [till_payment] till_paid = Inr (True, fin) \<and> fd_documents fin = [shop_sale]"
proof -
  have digit: "decimal (Suc 0) = ''1''" by code_simp
  have "\<exists>fin. refund shop_env shop_sale (Some seller) till_payment 100 till_paid = Inr fin \<and> fd_documents fin = [shop_sale]"
    by (simp add: refund_def money_column_def shop_env_def shop_numbers refund_payment_def insert_payment_def digit insert_allocation_def till_links
        Let_def refund_movement_def insert_cash_movement_def)
  then show ?thesis
    by (auto simp: undo_payment_def till_listed till_links shop_numbers Let_def delete_allocations_def updatePaymentStatus_def)
qed


end
