(* ===== verification/Spec2Isabelle.thy ===== *)
theory Spec2Isabelle
  imports Delivery_Facts Pricing_Facts Pos_Cart_Facts Scale_Facts Fefo_Facts Stock_Requests Lot_Changes Outbox_Facts Payment_Safety Rochi_Facts Sale_Examples Cash_Examples
begin

text \<open>
  A verification development for the Manus point-of-sale and ERP platform.

  The platform is a multi-tenant API (src/api, NestJS over PostgreSQL) with a web client (src/web), an
  agent on the machines of a shop that drives its peripherals (src/backend-perifericos), and a service
  that issues electronic invoices (src/backend-facturacion-electronica). The development models the
  logic that decides over money, stock and weights, as functions of the tables it reads and writes.

  \<^bold>\<open>How the parts interact.\<close> The cart of the web client (Pos\_Cart) collects what a customer buys. A sale
  (Sale\_Service) takes the lines of a cart, locks and rounds the weights that the scale captured
  (Scale\_Service, Weighed\_Quantity; the scale itself is Rochi\_Scale), asks the pricing service for the
  price, the taxes and the promotion of every line (Pricing\_Service, Promotions), writes the sale with a
  stored function that takes the stock from the lots that expire first (Sale\_Function), registers its
  payments (Payment\_Service) and leaves a billing event in the outbox (Outbox\_Events), which the
  dispatcher delivers to the billing service (Outbox\_Dispatcher, Billing\_Client). Cancelling a sale
  (Sale\_Cancel) undoes the stock, the order and the payments. Stock enters by adjustments
  (Stock\_Adjustments), which keep lots (Inventory\_Lots, Lot\_Service) and their balances
  (Lot\_Balances); Fefo is the selection of lots outside a sale. Deliveries (Delivery\_Service) follow
  their own state machine.
  The cash sessions of the registers (Cash\_Sessions) account for the payments, deliveries and manual
  movements between an opening and a closing count.

  \<^bold>\<open>Which theory models what\<close> (files under src/; M stands for api/src/modules):
    \<^item> JsNumber: binary64 numbers as rationals and their rounding \<open>dbl\<close>; \<open>Math.round\<close>, \<open>toFixed(2)\<close>.
    \<^item> Prelude: results of a service (an HTTP exception or a value), strings and sorting of the
      JavaScript library, JSON values, sequences of requests, and the locales \<open>comparator\<close>,
      \<open>preserved_by\<close> and \<open>preserved\<close>. Json\_Text: values whose shape no type guarantees,
      \<open>JSON.stringify\<close> and \<open>JSON.parse\<close>.
    \<^item> Pricing\_Rounding, Pricing\_Service, Promotions; Pricing\_Facts: M/pricing (pricing.service.ts,
      pricing-tax-rounding.ts, pricing.repository.ts, promotions.service.ts, promotions.repository.ts).
    \<^item> Pos\_Cart; Pos\_Cart\_Facts: web/store/posCart.ts.
    \<^item> Delivery\_Status, Delivery\_Service; Delivery\_Facts: M/deliveries.
    \<^item> Scale\_Domain, Scale\_Persistence, Scale\_Service, Weighed\_Quantity; Scale\_Facts:
      M/scale-authorization and inventory/weighted-sale-quantity.ts. Rochi\_Scale; Rochi\_Facts:
      backend-perifericos/src/modules/scale.
    \<^item> Inventory\_Lots, Lot\_Service, Lot\_Balances, Stock\_Adjustments, Fefo; Lot\_Facts, Balance\_Facts,
      Stock\_Facts, Stock\_Requests, Lot\_Changes, Fefo\_Facts: the services, repositories and entities of
      lots, balances, movements and adjustments of M/inventory.
    \<^item> Payment\_Tables, Payment\_Service, Document\_Payments; Payment\_Money, Payment\_Ledger,
      Payment\_Facts, Payment\_Safety: M/finance/payments and the tables of scripts/database/finance.
    \<^item> Sale\_Tables, Sale\_Function, Sale\_Request, Sale\_Service, Sale\_Cancel; Sale\_Frames,
      Sale\_Ledger, Sale\_Facts, Sale\_Stock, Sale\_Undo, Sale\_Examples: M/inventory (sale.service.ts,
      sale.repository.ts, sale-idempotency.ts) and the stored function of migration V104.
    \<^item> Cash\_Tables, Cash\_Control, Cash\_Sessions; Cash\_Money, Cash\_Expected, Cash\_Ledger,
      Cash\_Facts, Cash\_Safety, Cash\_Examples: M/finance/cash-sessions and M/finance/cash-movements.
    \<^item> Outbox\_Events, Billing\_Client, Outbox\_Dispatcher; Outbox\_Facts: M/integration-outbox.

  A table is a list of records, in the order of insertion; a statement is a function on the tables, with
  the unique keys and checks that can refuse it; a request is a function from the tables to an exception
  or an answer with the new tables. A request that fails changes nothing, since every handler runs in a
  transaction that it rolls back. Requests are atomic: rows are locked FOR UPDATE before they are
  changed, and interleavings are modelled where the code does not lock (the workers of the outbox).

  \<^bold>\<open>What the lemmas show.\<close> The theories whose names end in Facts, Ledger, Frames, Money, Safety, Stock,
  Undo, Changes or Requests hold the proofs:
    \<^item> money: the binary64 computations agree with exact cents on the stated range (Pricing\_Rounding,
      Payment\_Money), promotions and taxes are exact (Pricing\_Facts), no document is paid beyond its
      total and its columns follow the ledger of payments (Payment\_Facts, Payment\_Safety), a sale is
      settled by its payments and its repetition answers the same sale (Sale\_Facts),
      the cash a session expects is the exact sum of its ledger, and its books stay balanced
      (Cash\_Facts, Cash\_Safety);
    \<^item> stock: balances of lots agree with movements after any requests of adjustments and sales, no branch
      falls below zero, a cancellation returns what a sale took (Stock\_Requests, Sale\_Stock, Sale\_Undo),
      lots are taken in the order of expiry (Fefo\_Facts);
    \<^item> state machines: final deliveries, lots, events, captures, sales and cash sessions stay final
      (Delivery\_Facts, Lot\_Changes, Outbox\_Facts, Scale\_Facts, Sale\_Undo, Cash\_Safety); the steps on cash
      sessions are an inductive relation that every request is shown to follow;
    \<^item> weights: a sale only takes weights that a bound scale captured for it, once (Scale\_Facts), and the
      driver delivers exactly the frames of the scale (Rochi\_Facts).
  An invariant of a component is proved once per operation and carried over any sequence of requests by
  an interpretation of \<open>preserved\<close>; the witnesses after the properties evaluate the definitions at
  concrete inputs.

  \<^bold>\<open>Numbers and bounds.\<close> A JavaScript number is a rational that is rounded by \<open>dbl\<close> after every
  operation. Prices go up to \<open>2 ^ 43\<close> cents and rates up to 100 percent, sums of payments up to \<open>2 ^ 44\<close>
  cents and fifty summands (of a cash session \<open>2 ^ 43\<close> and sixty), more than a shop ever holds; outside
  them the rounding of a sum can exceed half a cent. Columns are integers: cents, thousandths of a unit,
  millionths of a kilogram. What a numeric column stores of a number is a parameter of the environment
  (\<open>fe_money\<close>, \<open>iv_quantity\<close>, \<open>iv_cost\<close>, \<open>sv_rate\<close>, \<open>sv_round\<close>, \<open>se_column\<close>), of which the proofs use
  \<open>numeric_14_2\<close> and \<open>numeric_14_3\<close>: a nearest multiple of the last digit, or an error. Dates without a
  time are numbers yyyymmdd, instants are integers, and one request has one instant. Strings are Latin-1.
  Identifiers drawn at random (\<open>fe_uuid\<close>, \<open>iv_uuid\<close>, \<open>sv_id\<close>) and hashes are parameters; a table refuses an
  identifier that it holds already. The parser of the scale needs a buffer of eight characters: a frame
  of six digits with its line end. Every loop of the sources that is modelled ends by a structural or
  measured recursion; none uses fuel.

  \<^bold>\<open>What is a parameter.\<close> The host functions (\<open>Date.parse\<close>, \<open>toISOString\<close>, \<open>localeCompare\<close>, SHA-256, number
  to text), the answer of the network to the billing client, the test of a UUID of the validation
  library, the stored functions that list the taxes of a product, the serial port as its events, and
  the construction of the billing event of a sale (\<open>sv_bill\<close>).

  \<^bold>\<open>What is not modelled\<close>: of the deliveries their creation and lists; of the payments the filtered lists;
  of the sales the sale of a delivered order and the lists; of the cash sessions the history and the
  totals of the stored summary that no decision reads; audit logs, and texts that only a response
  shows. Whole parts that are left out: purchases and orders and the imports, whose logic lies in stored
  functions and spreadsheets; the web views; reports; authentication and catalogues of users, roles and
  menus; the pairing of agents; the printers, the drawer and the desktop shell, which are input and
  output.
  The billing service is only modelled as its client sees it.
\<close>

end
